(* ===== verification/Go_Prelude.thy ===== *)
theory Go_Prelude
  imports Main "HOL-Library.AList" "HOL-Library.Char_ord" "HOL-Library.List_Lexorder" "HOL-Library.Multiset"
begin

text \<open>
  Shared vocabulary of the development: how Go values, errors, maps and effects are written
  in HOL, and the lemmas every component uses about them.

  \<^item> An \<^verbatim>\<open>error\<close> return is a value of \<^verbatim>\<open>go_error + 'a\<close>: \<open>Inl\<close> is the non-nil error,
    \<open>Inr\<close> the result. \<open>Errorf\<close> keeps the format string and the arguments of the source;
    \<open>AwsError\<close> is an error of the AWS SDK with its code and message, \<open>ApiStatusError\<close> one of the
    Kubernetes API with its reason, \<open>RequeueNeeded\<close> and \<open>RequeueNeededAfter\<close> the errors that ask the
    controller runtime to process an object again, \<open>Join\<close> the result of \<^verbatim>\<open>errors.Join\<close>.
  \<^item> Code that calls a client (AWS SDK, Kubernetes API) takes the client's functions as
    arguments. They act on a world of an arbitrary type \<open>'w\<close>, so an effectful function is
    \<^verbatim>\<open>'w \<Rightarrow> (go_error + 'a) \<times> 'w\<close>; the effects done before an error are kept in the world.
  \<^item> A Go map is an association list with distinct keys. Go leaves the order of \<open>range\<close> over a
    map unspecified: a map argument may come in any order, and where code ranges over a map it
    built itself, the order is an explicit argument.
\<close>

section \<open>Errors and results\<close>

datatype go_error =
    Errorf string "string list"
  | Wrap go_error string
  | AwsError string string
  | ApiStatusError string
  | RequeueNeeded string
  | RequeueNeededAfter string int
  | Join "go_error list"

type_synonym 'a result = "go_error + 'a"

definition result_bind :: "'a result \<Rightarrow> ('a \<Rightarrow> 'b result) \<Rightarrow> 'b result" where
  "result_bind r f = (case r of Inl e \<Rightarrow> Inl e | Inr x \<Rightarrow> f x)"

fun result_mapM :: "('a \<Rightarrow> 'b result) \<Rightarrow> 'a list \<Rightarrow> 'b list result" where
  "result_mapM f [] = Inr []"
| "result_mapM f (x # xs) =
     result_bind (f x) (\<lambda>y. result_bind (result_mapM f xs) (\<lambda>ys. Inr (y # ys)))"

fun result_foldM :: "('s \<Rightarrow> 'a \<Rightarrow> 's result) \<Rightarrow> 's \<Rightarrow> 'a list \<Rightarrow> 's result" where
  "result_foldM f s [] = Inr s"
| "result_foldM f s (x # xs) = result_bind (f s x) (\<lambda>s'. result_foldM f s' xs)"

text \<open>\<^verbatim>\<open>errors.As\<close> with an \<^verbatim>\<open>awserr.Error\<close> target looks through wrapped errors and, depth first, through
  joined ones; so does \<^verbatim>\<open>errors.Is\<close>.\<close>

fun first_some :: "'a option list \<Rightarrow> 'a option" where
  "first_some [] = None"
| "first_some (Some x # _) = Some x"
| "first_some (None # xs) = first_some xs"

fun as_aws_error :: "go_error \<Rightarrow> (string \<times> string) option" where
  "as_aws_error (Wrap e _) = as_aws_error e"
| "as_aws_error (AwsError code msg) = Some (code, msg)"
| "as_aws_error (Join es) = first_some (map as_aws_error es)"
| "as_aws_error _ = None"

fun errors_Is :: "go_error \<Rightarrow> go_error \<Rightarrow> bool" where
  "errors_Is (Wrap e msg) target \<longleftrightarrow> Wrap e msg = target \<or> errors_Is e target"
| "errors_Is (Join es) target \<longleftrightarrow> Join es = target \<or> list_ex (\<lambda>e. errors_Is e target) es"
| "errors_Is e target \<longleftrightarrow> e = target"

section \<open>Effects\<close>

type_synonym ('w, 'a) io = "'w \<Rightarrow> 'a result \<times> 'w"

definition io_return :: "'a \<Rightarrow> ('w, 'a) io" where
  "io_return x w = (Inr x, w)"

definition io_fail :: "go_error \<Rightarrow> ('w, 'a) io" where
  "io_fail e w = (Inl e, w)"

definition io_lift :: "'a result \<Rightarrow> ('w, 'a) io" where
  "io_lift r w = (r, w)"

definition io_bind :: "('w, 'a) io \<Rightarrow> ('a \<Rightarrow> ('w, 'b) io) \<Rightarrow> ('w, 'b) io" where
  "io_bind m f w = (case m w of (Inl e, w') \<Rightarrow> (Inl e, w') | (Inr x, w') \<Rightarrow> f x w')"

text \<open>A \<open>for\<close> loop whose body returns early on the first error.\<close>

fun io_forM :: "('a \<Rightarrow> ('w, unit) io) \<Rightarrow> 'a list \<Rightarrow> ('w, unit) io" where
  "io_forM f [] = io_return ()"
| "io_forM f (x # xs) = io_bind (f x) (\<lambda>_. io_forM f xs)"

text \<open>The same with an accumulator, and a loop that collects results.\<close>

fun io_foldM :: "('s \<Rightarrow> 'a \<Rightarrow> ('w, 's) io) \<Rightarrow> 's \<Rightarrow> 'a list \<Rightarrow> ('w, 's) io" where
  "io_foldM f s [] = io_return s"
| "io_foldM f s (x # xs) = io_bind (f s x) (\<lambda>s'. io_foldM f s' xs)"

fun io_mapM :: "('a \<Rightarrow> ('w, 'b) io) \<Rightarrow> 'a list \<Rightarrow> ('w, 'b list) io" where
  "io_mapM f [] = io_return []"
| "io_mapM f (x # xs) = io_bind (f x) (\<lambda>y. io_bind (io_mapM f xs) (\<lambda>ys. io_return (y # ys)))"

section \<open>Go maps\<close>

type_synonym ('k, 'v) gomap = "('k \<times> 'v) list"

definition gomap_wf :: "('k, 'v) gomap \<Rightarrow> bool" where
  "gomap_wf m \<longleftrightarrow> distinct (map fst m)"

text \<open>\<open>m[k]\<close> as an expression: the zero value of the element type for a missing key.\<close>

definition gomap_index :: "'v \<Rightarrow> ('k, 'v) gomap \<Rightarrow> 'k \<Rightarrow> 'v" where
  "gomap_index zero m k = (case map_of m k of None \<Rightarrow> zero | Some v \<Rightarrow> v)"

text \<open>A nil map reads like an empty one.\<close>

definition nil_map :: "('k, 'v) gomap option \<Rightarrow> ('k, 'v) gomap" where
  "nil_map m = (case m of None \<Rightarrow> [] | Some m \<Rightarrow> m)"

definition gomap_keys :: "('k, 'v) gomap \<Rightarrow> 'k list" where
  "gomap_keys m = map fst m"

text \<open>The two idioms that build a map from a slice: \<open>m[key(x)] = x\<close> and
  \<open>m[key(x)] = append(m[key(x)], x)\<close>.\<close>

definition index_by :: "('a \<Rightarrow> 'k) \<Rightarrow> 'a list \<Rightarrow> ('k, 'a) gomap" where
  "index_by key xs = fold (\<lambda>x m. AList.update (key x) x m) xs []"

definition group_by :: "('a \<Rightarrow> 'k) \<Rightarrow> 'a list \<Rightarrow> ('k, 'a list) gomap" where
  "group_by key xs = fold (\<lambda>x m. AList.update (key x) (gomap_index [] m (key x) @ [x]) m) xs []"

text \<open>
  Sets of the Kubernetes library are HOL sets. Their method \<^verbatim>\<open>List\<close>, which returns the sorted
  contents, is a parameter of the code that calls it; this is what it documents.
\<close>

definition lists_sorted :: "('a::linorder set \<Rightarrow> 'a list) \<Rightarrow> bool" where
  "lists_sorted f \<longleftrightarrow> (\<forall>S. finite S \<longrightarrow> set (f S) = S \<and> distinct (f S) \<and> sorted (f S))"

text \<open>Pointers of the SDK: the pointee, or the zero value for nil.\<close>

definition StringValue :: "string option \<Rightarrow> string" where
  "StringValue p = (case p of None \<Rightarrow> [] | Some v \<Rightarrow> v)"

definition Int64Value :: "int option \<Rightarrow> int" where
  "Int64Value p = (case p of None \<Rightarrow> 0 | Some v \<Rightarrow> v)"

definition BoolValue :: "bool option \<Rightarrow> bool" where
  "BoolValue p = (case p of None \<Rightarrow> False | Some v \<Rightarrow> v)"

text \<open>The loop that copies the entries of one map into another.\<close>

definition put_all :: "('k, 'v) gomap \<Rightarrow> ('k, 'v) gomap \<Rightarrow> ('k, 'v) gomap" where
  "put_all src dst = fold (\<lambda>(k, v). AList.update k v) src dst"

named_theorems io_simps \<open>unfolding of the effect combinators\<close>

named_theorems wf_intros \<open>preservation of the well-formedness of Go maps\<close>


section \<open>Lemmas on results and effects\<close>

lemmas [io_simps] = io_return_def io_fail_def io_lift_def io_bind_def

lemma result_bind_simps [simp]:
  "result_bind (Inl e) f = Inl e"
  "result_bind (Inr x) f = f x"
  by (simp_all add: result_bind_def)

lemma result_bind_eq_Inr [simp]:
  "result_bind r f = Inr y \<longleftrightarrow> (\<exists>x. r = Inr x \<and> f x = Inr y)"
  by (cases r) auto

lemma result_mapM_Inr:
  "result_mapM f xs = Inr ys \<longleftrightarrow> list_all2 (\<lambda>x y. f x = Inr y) xs ys"
  by (induction xs arbitrary: ys) (auto simp: list_all2_Cons1)

lemma io_bind_assoc: "io_bind (io_bind m f) g = io_bind m (\<lambda>x. io_bind (f x) g)"
  by (rule ext) (auto simp: io_bind_def split: prod.splits sum.splits)

lemma io_bind_return [simp]:
  "io_bind (io_return x) f = f x"
  "io_bind m io_return = m"
  by (rule ext, auto simp: io_simps split: prod.splits sum.splits)+

lemma io_bind_return_unit [simp]: "io_bind m (\<lambda>_. io_return ()) = m"
  by (rule ext) (auto simp: io_simps split: prod.splits sum.splits)

lemma io_bind_fail [simp]: "io_bind (io_fail e) f = io_fail e"
  by (rule ext) (simp add: io_simps)

lemma io_bind_InrD: "io_bind m f w = (Inr y, w'') \<Longrightarrow> \<exists>x w'. m w = (Inr x, w') \<and> f x w' = (Inr y, w'')"
  by (auto simp: io_bind_def split: prod.splits sum.splits)

lemma io_bind_unitD:
  fixes m :: "('w, unit) io"
  shows "io_bind m (\<lambda>_. f) w = (Inr y, w'') \<Longrightarrow> \<exists>w'. m w = (Inr (), w') \<and> f w' = (Inr y, w'')"
  by (auto dest!: io_bind_InrD)

lemma result_foldM_inv:
  assumes "result_foldM f s xs = Inr s'" "P s" "\<And>s x s'. x \<in> set xs \<Longrightarrow> P s \<Longrightarrow> f s x = Inr s' \<Longrightarrow> P s'"
  shows "P s'"
  using assms by (induction xs arbitrary: s) auto

lemma list_all2_member1: "list_all2 P xs ys \<Longrightarrow> x \<in> set xs \<Longrightarrow> \<exists>y\<in>set ys. P x y"
  by (induction rule: list_all2_induct) auto

lemma list_all2_member2: "list_all2 P xs ys \<Longrightarrow> y \<in> set ys \<Longrightarrow> \<exists>x\<in>set xs. P x y"
  by (induction rule: list_all2_induct) auto

lemma io_bind_liftD:
  "io_bind (io_lift x) f w = (r, w') \<Longrightarrow> w' = w \<or> (\<exists>y. x = Inr y \<and> f y w = (r, w'))"
  by (cases x) (auto simp: io_simps)

text \<open>What a loop does to an abstraction of the world, from what its body does.\<close>

lemma io_forM_abs:
  assumes "\<And>x w w'. x \<in> set xs \<Longrightarrow> f x w = (Inr (), w') \<Longrightarrow> g w' = h x (g w)"
    and "io_forM f xs w = (Inr (), w')"
  shows "g w' = fold h xs (g w)"
  using assms
proof (induction xs arbitrary: w)
  case (Cons x xs)
  have "io_bind (f x) (\<lambda>_. io_forM f xs) w = (Inr (), w')" using Cons.prems(2) by simp
  from io_bind_unitD [OF this] obtain w1 where 1: "f x w = (Inr (), w1)" "io_forM f xs w1 = (Inr (), w')"
    by (elim exE conjE)
  have "g w' = fold h xs (g w1)"
    by (rule Cons.IH [OF _ 1(2)]) (simp add: Cons.prems(1))
  moreover have "g w1 = h x (g w)" by (rule Cons.prems(1) [OF _ 1(1)]) simp
  ultimately show ?case by simp
qed (simp add: io_return_def)

text \<open>A read that leaves the world as it is.\<close>

lemma io_bind_read: "m w = (Inr x, w) \<Longrightarrow> io_bind m f w = f x w"
  by (simp add: io_bind_def)

lemma io_bind_ok: "m w = (Inr x, w') \<Longrightarrow> io_bind m f w = f x w'"
  by (simp add: io_bind_def)

lemma io_foldM_read:
  assumes "\<And>s x. x \<in> set xs \<Longrightarrow> f s x w = (Inr (g s x), w)"
  shows "io_foldM f s xs w = (Inr (fold (\<lambda>x s. g s x) xs s), w)"
  using assms by (induction xs arbitrary: s) (auto simp: io_simps)

lemma io_forM_append: "io_forM f (xs @ ys) = io_bind (io_forM f xs) (\<lambda>_. io_forM f ys)"
  by (induction xs) (auto simp: io_bind_assoc)

lemma io_forM_map: "io_forM f (map g xs) = io_forM (\<lambda>x. f (g x)) xs"
  by (induction xs) auto

lemma io_forM_cong: "(\<And>x. x \<in> set xs \<Longrightarrow> f x = g x) \<Longrightarrow> io_forM f xs = io_forM g xs"
  by (induction xs) auto

lemma io_forM_Cons_ok: "f x w = (Inr (), w') \<Longrightarrow> io_forM f (x # xs) w = io_forM f xs w'"
  by (simp add: io_bind_def)

lemma io_forM_Cons_err: "f x w = (Inl e, w') \<Longrightarrow> io_forM f (x # xs) w = (Inl e, w')"
  by (simp add: io_bind_def)

text \<open>A loop that ends without error ran its body on every element, in order.\<close>

lemma io_forM_ok:
  assumes "\<And>x w. x \<in> set xs \<Longrightarrow> f x w = (Inr (), g x w)"
  shows "io_forM f xs w = (Inr (), fold g xs w)"
  using assms by (induction xs arbitrary: w) (auto simp: io_simps)

section \<open>Lemmas on Go maps\<close>

lemma gomap_wf_simps [simp]:
  "gomap_wf []"
  "gomap_wf ((k, v) # m) \<longleftrightarrow> map_of m k = None \<and> gomap_wf m"
  by (auto simp: gomap_wf_def map_of_eq_None_iff)

lemma gomap_wf_update [wf_intros]: "gomap_wf m \<Longrightarrow> gomap_wf (AList.update k v m)"
  by (simp add: gomap_wf_def distinct_update)

lemma gomap_wf_delete [wf_intros]: "gomap_wf m \<Longrightarrow> gomap_wf (AList.delete k m)"
  by (simp add: gomap_wf_def distinct_delete)

lemma gomap_wf_filter [wf_intros]: "gomap_wf m \<Longrightarrow> gomap_wf (filter P m)"
  by (simp add: gomap_wf_def distinct_map_filter)

lemma gomap_wf_mset:
  assumes "mset m = mset m'" shows "gomap_wf m \<longleftrightarrow> gomap_wf m'"
proof -
  have "mset (map fst m) = mset (map fst m')" using assms by simp
  then show ?thesis unfolding gomap_wf_def using mset_eq_imp_distinct_iff by blast
qed

lemma gomap_wf_in_set: "gomap_wf m \<Longrightarrow> (k, v) \<in> set m \<longleftrightarrow> map_of m k = Some v"
  by (simp add: gomap_wf_def)

lemma gomap_order_irrelevant:
  assumes "gomap_wf m" "mset m = mset m'"
  shows "map_of m = map_of m'"
proof -
  have "gomap_wf m'" "set m = set m'"
    using assms gomap_wf_mset mset_eq_setD by blast+
  then show ?thesis using assms(1) map_of_inject_set unfolding gomap_wf_def by blast
qed

lemma gomap_index_update [simp]:
  "gomap_index z (AList.update k v m) k' = (if k' = k then v else gomap_index z m k')"
  by (simp add: gomap_index_def update_conv')

lemma gomap_index_empty [simp]: "gomap_index z [] k = z"
  by (simp add: gomap_index_def)

lemma gomap_keys_map_of: "k \<in> set (gomap_keys m) \<longleftrightarrow> map_of m k \<noteq> None"
  by (simp add: gomap_keys_def map_of_eq_None_iff)

lemma nil_map_simps [simp]: "nil_map None = []" "nil_map (Some m) = m"
  by (simp_all add: nil_map_def)

lemma value_simps [simp]:
  "StringValue None = []" "StringValue (Some v) = v"
  "Int64Value None = 0" "Int64Value (Some i) = i"
  "BoolValue None = False" "BoolValue (Some b) = b"
  by (simp_all add: StringValue_def Int64Value_def BoolValue_def)

lemma lists_sorted_unique: "lists_sorted f \<Longrightarrow> finite S \<Longrightarrow> f S = sorted_list_of_set S"
  by (simp add: lists_sorted_def sorted_distinct_set_unique)

lemma sorted_list_of_set_lists_sorted: "lists_sorted sorted_list_of_set"
  by (simp add: lists_sorted_def)

lemma lists_sortedD:
  assumes "lists_sorted f" "finite S"
  shows "set (f S) = S" "distinct (f S)" "sorted (f S)"
  using assms by (simp_all add: lists_sorted_def)

text \<open>The contract of a map that the idioms rely on, and what they build.\<close>

locale go_map =
  fixes empty :: "'m"
    and get :: "'m \<Rightarrow> 'k \<Rightarrow> 'v option"
    and put :: "'k \<Rightarrow> 'v \<Rightarrow> 'm \<Rightarrow> 'm"
    and wf :: "'m \<Rightarrow> bool"
  assumes get_empty: "get empty k = None"
    and get_put: "get (put k v m) k' = (if k' = k then Some v else get m k')"
    and wf_empty: "wf empty"
    and wf_put: "wf m \<Longrightarrow> wf (put k v m)"
begin

lemma get_fold_put:
  "get (fold (\<lambda>x m. put (key x) (val x) m) xs m) k =
     (case rev (filter (\<lambda>x. key x = k) xs) of [] \<Rightarrow> get m k | x # _ \<Rightarrow> Some (val x))"
  by (induction xs rule: rev_induct) (auto simp: get_put)

lemma wf_fold_put: "wf m \<Longrightarrow> wf (fold (\<lambda>x m. put (key x) (f x m) m) xs m)"
  by (induction xs arbitrary: m) (auto intro: wf_put)

end

interpretation am: go_map "[] :: ('k, 'v) gomap" map_of AList.update gomap_wf
  by unfold_locales (auto simp: update_conv' intro: wf_intros)

lemma put_all_get:
  "gomap_wf src \<Longrightarrow> map_of (put_all src dst) = map_of dst ++ map_of src"
  unfolding put_all_def
proof (induction src arbitrary: dst)
  case (Cons kv src)
  then show ?case by (cases kv) (auto simp: update_conv' map_add_def split: option.splits)
qed simp

lemma put_all_wf [wf_intros]: "gomap_wf dst \<Longrightarrow> gomap_wf (put_all src dst)"
  unfolding put_all_def by (induction src arbitrary: dst) (auto intro: gomap_wf_update)

lemma put_all_keys: "fst ` set (put_all src dst) = fst ` set dst \<union> fst ` set src"
  unfolding put_all_def
proof (induction src arbitrary: dst)
  case (Cons kv src)
  then show ?case
    by (cases kv) (simp add: insert_commute update_conv' flip: dom_map_of_conv_image_fst)
qed simp

lemma index_by_get:
  "map_of (index_by key xs) k =
     (case rev (filter (\<lambda>x. key x = k) xs) of [] \<Rightarrow> None | x # _ \<Rightarrow> Some x)"
  unfolding index_by_def by (subst am.get_fold_put) (simp split: list.split)

lemma index_by_Some: "map_of (index_by key xs) k = Some x \<Longrightarrow> x \<in> set xs \<and> key x = k"
proof -
  assume "map_of (index_by key xs) k = Some x"
  then obtain zs where "rev (filter (\<lambda>x. key x = k) xs) = x # zs"
    by (simp only: index_by_get) (auto split: list.splits simp del: rev_eq_Cons_iff)
  then have "x \<in> set (rev (filter (\<lambda>x. key x = k) xs))" by (simp only: list.set_intros)
  then show ?thesis by simp
qed

lemma index_by_None: "map_of (index_by key xs) k = None \<longleftrightarrow> k \<notin> key ` set xs"
proof -
  have "map_of (index_by key xs) k = None \<longleftrightarrow> rev (filter (\<lambda>x. key x = k) xs) = []"
    by (simp only: index_by_get) (simp split: list.split)
  also have "\<dots> \<longleftrightarrow> k \<notin> key ` set xs" by (auto simp: filter_empty_conv)
  finally show ?thesis .
qed

lemma index_by_distinct:
  assumes "distinct (map key xs)" "x \<in> set xs"
  shows "map_of (index_by key xs) (key x) = Some x"
proof -
  have "\<exists>y. map_of (index_by key xs) (key x) = Some y"
    using assms(2) index_by_None [of key xs "key x"] by auto
  then obtain y where y: "map_of (index_by key xs) (key x) = Some y" by blast
  then have "y \<in> set xs" "key y = key x" by (auto dest: index_by_Some)
  then have "y = x" using assms by (simp add: distinct_map inj_on_def)
  then show ?thesis using y by simp
qed

lemma index_by_wf [wf_intros]: "gomap_wf (index_by key xs)"
  unfolding index_by_def by (rule am.wf_fold_put) simp

lemma index_by_keys: "set (gomap_keys (index_by key xs)) = key ` set xs"
  using index_by_None [of key xs] by (auto simp: gomap_keys_map_of)

lemma set_map_filter: "set (List.map_filter f xs) = {y. \<exists>x\<in>set xs. f x = Some y}"
  by (induction xs) (auto simp: List.map_filter_simps split: option.splits)

lemma index_by_distinct_iff:
  assumes "distinct (map key xs)"
  shows "map_of (index_by key xs) k = Some x \<longleftrightarrow> x \<in> set xs \<and> key x = k"
  using index_by_Some [of key xs k x] index_by_distinct [OF assms] by blast

lemma map_filter_map: "(\<And>x. x \<in> set xs \<Longrightarrow> f x = Some (g x)) \<Longrightarrow> List.map_filter f xs = map g xs"
  by (induction xs) (auto simp: List.map_filter_simps)

lemma mset_concat_map_distinct:
  "distinct ks \<Longrightarrow> mset (concat (map f ks)) = (\<Sum>k\<in>set ks. mset (f k))"
  by (induction ks) auto

text \<open>The groups of a list by a key make up the list.\<close>

lemma sum_mset_groups:
  assumes "finite K" "key ` set xs \<subseteq> K"
  shows "(\<Sum>k\<in>K. mset (filter (\<lambda>x. key x = k) xs)) = mset xs"
  using assms(2)
proof (induction xs)
  case (Cons x xs)
  have "mset (filter (\<lambda>y. key y = k) (x # xs)) =
      (if k = key x then {#x#} else {#}) + mset (filter (\<lambda>y. key y = k) xs)" for k
    by simp
  then have "(\<Sum>k\<in>K. mset (filter (\<lambda>y. key y = k) (x # xs))) =
      (\<Sum>k\<in>K. if k = key x then {#x#} else {#}) + mset xs"
    using Cons by (simp only: sum.distrib) simp
  then show ?case using Cons.prems assms(1) by (simp add: sum.delta)
qed simp

lemma group_by_fold_get:
  "gomap_index [] (fold (\<lambda>x m. AList.update (key x) (gomap_index [] m (key x) @ [x]) m) xs m) k =
     gomap_index [] m k @ filter (\<lambda>x. key x = k) xs"
  by (induction xs arbitrary: m) auto

lemma group_by_index: "gomap_index [] (group_by key xs) k = filter (\<lambda>x. key x = k) xs"
  by (simp add: group_by_def group_by_fold_get)

lemma group_by_keys:
  fixes key :: "'a \<Rightarrow> 'k"
  shows "set (gomap_keys (group_by key xs)) = key ` set xs"
proof -
  have "fst ` set (fold (\<lambda>x m. AList.update (key x) (f x m) m) xs m) = fst ` set m \<union> key ` set xs"
    for f and m :: "('k, 'a list) gomap"
    by (induction xs arbitrary: m) (auto simp: update_conv' simp flip: dom_map_of_conv_image_fst)
  from this [of "\<lambda>x m. gomap_index [] m (key x) @ [x]" "[]"]
  show ?thesis by (simp add: group_by_def gomap_keys_def)
qed

lemma group_by_wf [wf_intros]: "gomap_wf (group_by key xs)"
  unfolding group_by_def by (rule am.wf_fold_put) simp

section \<open>Ranges over maps\<close>

text \<open>A range over a Go map visits its entries in some order. Where several maps with the same type of
  keys are visited, the order is a permutation of the keys.\<close>

definition range_order :: "('a list \<Rightarrow> 'a list) \<Rightarrow> bool" where
  "range_order order \<longleftrightarrow> (\<forall>m. mset (order m) = mset m)"

definition entries :: "('k list \<Rightarrow> 'k list) \<Rightarrow> ('k, 'v) gomap \<Rightarrow> ('k \<times> 'v) list" where
  "entries order m = List.map_filter (\<lambda>k. map_option (Pair k) (map_of m k)) (order (gomap_keys m))"

lemma range_orderD: "range_order order \<Longrightarrow> mset (order m) = mset m"
  by (simp add: range_order_def)

lemma range_order_set: "range_order order \<Longrightarrow> set (order m) = set m"
  using range_orderD mset_eq_setD by blast

lemma range_order_distinct: "range_order order \<Longrightarrow> distinct (order m) \<longleftrightarrow> distinct m"
  using range_orderD mset_eq_imp_distinct_iff by blast

lemma entries_iff: "range_order order \<Longrightarrow> (k, v) \<in> set (entries order m) \<longleftrightarrow> map_of m k = Some v"
  by (auto simp: entries_def set_map_filter range_order_set gomap_keys_map_of)

lemma entries_keys:
  assumes "range_order order"
  shows "map fst (entries order m) = order (gomap_keys m)"
proof -
  have "map fst (List.map_filter (\<lambda>k. map_option (Pair k) (map_of m k)) ks) = ks"
    if "set ks \<subseteq> set (gomap_keys m)" for ks
    using that by (induction ks) (auto simp: List.map_filter_simps gomap_keys_map_of)
  then show ?thesis by (simp add: entries_def range_order_set [OF assms])
qed

lemma entries_distinct: "range_order order \<Longrightarrow> gomap_wf m \<Longrightarrow> distinct (map fst (entries order m))"
  by (simp add: entries_keys range_order_distinct gomap_keys_def gomap_wf_def)

lemma range_order_id: "range_order (\<lambda>m. m)"
  by (simp add: range_order_def)

end
