(* ===== verification/Algorithm.thy ===== *)
theory Algorithm
  imports Go_Prelude
begin

text \<open>
  Package \<^verbatim>\<open>pkg/algorithm\<close>: lookups, merges and differences of string maps
  (\<^verbatim>\<open>maps.go\<close>) and the chunking of slices (\<^verbatim>\<open>strings.go\<close>). The maps are the tags, labels and
  attributes that the rest of the controller reconciles.
\<close>

section \<open>Maps\<close>

type_synonym string_map = "(string, string) gomap"

fun MapFindFirst :: "string \<Rightarrow> string_map list \<Rightarrow> string \<times> bool" where
  "MapFindFirst key [] = ([], False)"
| "MapFindFirst key (m # maps) =
     (case map_of m key of Some v \<Rightarrow> (v, True) | None \<Rightarrow> MapFindFirst key maps)"

definition merge_step :: "string \<times> string \<Rightarrow> string_map \<Rightarrow> string_map" where
  "merge_step kv ret =
     (case map_of ret (fst kv) of
        Some _ \<Rightarrow> ret
      | None \<Rightarrow> AList.update (fst kv) (snd kv) ret)"

definition MergeStringMap :: "string_map list \<Rightarrow> string_map" where
  "MergeStringMap maps = fold (\<lambda>m ret. fold merge_step m ret) maps []"

definition DiffStringMap :: "string_map \<Rightarrow> string_map \<Rightarrow> string_map \<times> string_map" where
  "DiffStringMap desired current =
     (fold (\<lambda>(key, desiredVal) modify.
        (case map_of current key of
           None \<Rightarrow> AList.update key desiredVal modify
         | Some currentVal \<Rightarrow>
             if currentVal \<noteq> desiredVal then AList.update key desiredVal modify else modify))
        desired [],
      fold (\<lambda>(key, currentVal) remove.
        (case map_of desired key of
           None \<Rightarrow> AList.update key currentVal remove
         | Some _ \<Rightarrow> remove))
        current [])"

text \<open>What a caller does with the two results: write \<open>modify\<close>, drop the keys of \<open>remove\<close>.\<close>

definition apply_diff :: "string_map \<Rightarrow> string_map \<times> string_map \<Rightarrow> string_map" where
  "apply_diff current d =
     fold (\<lambda>(k, v). AList.update k v) (fst d)
       (fold (\<lambda>(k, v). AList.delete k) (snd d) current)"

section \<open>Chunks\<close>

text \<open>
  \<^verbatim>\<open>for i := 0; i < len(targets); i += chunkSize\<close>. With \<open>chunkSize = 0\<close> the loop never ends (\<open>None\<close>);
  a negative size makes the slice expression \<^verbatim>\<open>targets[i:end]\<close> panic.
\<close>

partial_function (option) chunk_loop ::
  "'a list \<Rightarrow> int \<Rightarrow> int \<Rightarrow> 'a list list \<Rightarrow> 'a list list result option" where
  "chunk_loop targets chunkSize i chunks =
     (if i < int (length targets) then
        (let end0 = i + chunkSize;
             end1 = (if end0 > int (length targets) then int (length targets) else end0)
         in if end1 < i then Some (Inl (Errorf ''slice bounds out of range'' []))
            else chunk_loop targets chunkSize (i + chunkSize)
                   (chunks @ [take (nat (end1 - i)) (drop (nat i) targets)]))
      else Some (Inr chunks))"

declare chunk_loop.simps [code]

definition ChunkStrings :: "string list \<Rightarrow> int \<Rightarrow> string list list result option" where
  "ChunkStrings targets chunkSize = chunk_loop targets chunkSize 0 []"

section \<open>Merging and looking up\<close>

lemma map_of_merge_step:
  "map_of (merge_step kv ret) k =
     (case map_of ret k of Some v \<Rightarrow> Some v | None \<Rightarrow> if k = fst kv then Some (snd kv) else None)"
  by (auto simp: merge_step_def update_conv' split: option.splits)

lemma map_of_merge_fold:
  "map_of (fold merge_step m ret) k =
     (case map_of ret k of Some v \<Rightarrow> Some v | None \<Rightarrow> map_of m k)"
  by (induction m arbitrary: ret) (auto simp: map_of_merge_step split: option.splits)

lemma map_of_merge_folds:
  "map_of (fold (\<lambda>m ret. fold merge_step m ret) maps ret) k =
     (case map_of ret k of Some v \<Rightarrow> Some v
      | None \<Rightarrow> (case MapFindFirst k maps of (v, ok) \<Rightarrow> if ok then Some v else None))"
  by (induction maps arbitrary: ret) (auto simp: map_of_merge_fold split: option.splits prod.splits)

lemma MergeStringMap_get:
  "map_of (MergeStringMap maps) k =
     (case MapFindFirst k maps of (v, ok) \<Rightarrow> if ok then Some v else None)"
  by (simp add: MergeStringMap_def map_of_merge_folds)

lemma MergeStringMap_get2:
  "map_of (MergeStringMap [m1, m2]) k =
     (case map_of m1 k of Some v \<Rightarrow> Some v | None \<Rightarrow> map_of m2 k)"
  by (simp add: MergeStringMap_get split: option.splits)

lemma MergeStringMap_get3:
  "map_of (MergeStringMap [m1, m2, m3]) k =
     (case map_of m1 k of Some v \<Rightarrow> Some v
      | None \<Rightarrow> (case map_of m2 k of Some v \<Rightarrow> Some v | None \<Rightarrow> map_of m3 k))"
  by (simp add: MergeStringMap_get split: option.splits)

lemma merge_step_wf [wf_intros]: "gomap_wf ret \<Longrightarrow> gomap_wf (merge_step kv ret)"
  by (auto simp: merge_step_def intro: wf_intros split: option.splits)

lemma merge_fold_wf [wf_intros]: "gomap_wf ret \<Longrightarrow> gomap_wf (fold merge_step m ret)"
  by (induction m arbitrary: ret) (auto intro: wf_intros)

lemma MergeStringMap_wf [wf_intros]: "gomap_wf (MergeStringMap maps)"
proof -
  have "gomap_wf (fold (\<lambda>m ret. fold merge_step m ret) maps ret)" if "gomap_wf ret" for ret
    using that by (induction maps arbitrary: ret) (auto intro: wf_intros)
  then show ?thesis by (simp add: MergeStringMap_def)
qed

section \<open>Differences\<close>

lemma diff_modify_fold:
  assumes "gomap_wf desired"
  shows "map_of (fold (\<lambda>(key, dv) modify.
        (case map_of current key of
           None \<Rightarrow> AList.update key dv modify
         | Some cv \<Rightarrow> if cv \<noteq> dv then AList.update key dv modify else modify)) desired acc) k =
     (if map_of desired k \<noteq> None \<and> map_of desired k \<noteq> map_of current k
      then map_of desired k else map_of acc k)"
  using assms
proof (induction desired arbitrary: acc)
  case Nil
  then show ?case by simp
next
  case (Cons kv desired)
  obtain k0 v0 where kv: "kv = (k0, v0)" by (cases kv)
  with Cons.prems have "map_of desired k0 = None" "gomap_wf desired" by auto
  then show ?case using Cons.IH kv by (auto simp: update_conv' split: option.splits)
qed

lemma diff_remove_fold:
  assumes "gomap_wf current"
  shows "map_of (fold (\<lambda>(key, cv) remove.
        (case map_of desired key of None \<Rightarrow> AList.update key cv remove | Some _ \<Rightarrow> remove)) current acc) k =
     (if map_of desired k = None \<and> map_of current k \<noteq> None then map_of current k else map_of acc k)"
  using assms
proof (induction current arbitrary: acc)
  case Nil
  then show ?case by simp
next
  case (Cons kv current)
  obtain k0 v0 where kv: "kv = (k0, v0)" by (cases kv)
  with Cons.prems have "map_of current k0 = None" "gomap_wf current" by auto
  then show ?case using Cons.IH kv by (auto simp: update_conv' split: option.splits)
qed

lemma DiffStringMap_modify:
  assumes "gomap_wf desired"
  shows "map_of (fst (DiffStringMap desired current)) k =
     (if map_of desired k \<noteq> map_of current k then map_of desired k else None)"
  by (simp add: DiffStringMap_def diff_modify_fold [OF assms])

lemma DiffStringMap_remove:
  assumes "gomap_wf current"
  shows "map_of (snd (DiffStringMap desired current)) k =
     (if map_of desired k = None then map_of current k else None)"
  by (simp add: DiffStringMap_def diff_remove_fold [OF assms])

lemma map_of_fold_delete:
  "map_of (fold (\<lambda>(k, v). AList.delete k) rs m) k = (if map_of rs k = None then map_of m k else None)"
  by (induction rs arbitrary: m) (auto simp: delete_conv')

lemma map_of_fold_update:
  assumes "gomap_wf us"
  shows "map_of (fold (\<lambda>(k, v). AList.update k v) us m) k =
     (case map_of us k of Some v \<Rightarrow> Some v | None \<Rightarrow> map_of m k)"
  using assms by (induction us arbitrary: m) (auto simp: update_conv' split: option.splits)

lemma DiffStringMap_wf:
  "gomap_wf (fst (DiffStringMap desired current))"
  "gomap_wf (snd (DiffStringMap desired current))"
proof -
  have *: "gomap_wf (fold f xs m)"
    if "\<And>x m. gomap_wf m \<Longrightarrow> gomap_wf (f x m)" "gomap_wf m" for f :: "'a \<Rightarrow> string_map \<Rightarrow> string_map" and xs m
    using that(2) by (induction xs arbitrary: m) (auto intro: that(1))
  show "gomap_wf (fst (DiffStringMap desired current))"
    unfolding DiffStringMap_def fst_conv
    by (rule *) (auto intro: wf_intros split: option.splits)
  show "gomap_wf (snd (DiffStringMap desired current))"
    unfolding DiffStringMap_def snd_conv
    by (rule *) (auto intro: wf_intros split: option.splits)
qed

lemma apply_DiffStringMap:
  assumes "gomap_wf desired" "gomap_wf current"
  shows "map_of (apply_diff current (DiffStringMap desired current)) = map_of desired"
proof
  fix k
  show "map_of (apply_diff current (DiffStringMap desired current)) k = map_of desired k"
    by (auto simp: apply_diff_def map_of_fold_update [OF DiffStringMap_wf(1)] map_of_fold_delete
        DiffStringMap_modify [OF assms(1)] DiffStringMap_remove [OF assms(2)] split: option.splits)
qed

lemma DiffStringMap_empty_iff:
  assumes "gomap_wf desired" "gomap_wf current"
  shows "DiffStringMap desired current = ([], []) \<longleftrightarrow> map_of desired = map_of current"
proof
  assume "DiffStringMap desired current = ([], [])"
  then show "map_of desired = map_of current"
    using apply_DiffStringMap [OF assms] by (simp add: apply_diff_def)
next
  assume eq: "map_of desired = map_of current"
  have "map_of (fst (DiffStringMap desired current)) = Map.empty"
    "map_of (snd (DiffStringMap desired current)) = Map.empty"
    by (rule ext, simp add: DiffStringMap_modify [OF assms(1)] DiffStringMap_remove [OF assms(2)] eq)+
  then show "DiffStringMap desired current = ([], [])"
    by (simp add: prod_eq_iff)
qed

section \<open>Chunking\<close>

text \<open>One turn of the loop from an index inside the slice, for a positive size.\<close>

lemma chunk_loop_step:
  assumes "0 < chunkSize" "i < length targets"
  shows "chunk_loop targets chunkSize (int i) chunks =
     chunk_loop targets chunkSize (int (i + nat chunkSize))
       (chunks @ [take (nat chunkSize) (drop i targets)])"
proof -
  have "take (nat (int (length targets) - int i)) (drop i targets) = take (nat chunkSize) (drop i targets)"
    if "int i + chunkSize > int (length targets)"
    using that by (simp add: nat_diff_distrib')
  then show ?thesis
    using assms by (subst chunk_loop.simps) (simp add: Let_def)
qed

lemma chunk_loop_stop:
  assumes "length targets \<le> i"
  shows "chunk_loop targets chunkSize (int i) chunks = Some (Inr chunks)"
  using assms by (subst chunk_loop.simps) simp

lemma chunk_loop_correct:
  assumes "0 < chunkSize"
  shows "\<exists>cs. chunk_loop targets chunkSize (int i) chunks = Some (Inr (chunks @ cs)) \<and>
     concat cs = drop i targets \<and>
     (\<forall>c\<in>set cs. c \<noteq> [] \<and> length c \<le> nat chunkSize) \<and>
     (\<forall>c\<in>set (butlast cs). length c = nat chunkSize)"
proof (induction "length targets - i" arbitrary: i chunks rule: less_induct)
  case less
  show ?case
  proof (cases "i < length targets")
    case False
    then show ?thesis by (intro exI [of _ "[]"]) (simp add: chunk_loop_stop)
  next
    case True
    let ?c = "take (nat chunkSize) (drop i targets)"
    obtain cs where cs:
      "chunk_loop targets chunkSize (int (i + nat chunkSize)) (chunks @ [?c]) =
         Some (Inr ((chunks @ [?c]) @ cs))"
      "concat cs = drop (i + nat chunkSize) targets"
      "\<forall>c\<in>set cs. c \<noteq> [] \<and> length c \<le> nat chunkSize"
      "\<forall>c\<in>set (butlast cs). length c = nat chunkSize"
      using less [of "i + nat chunkSize" "chunks @ [?c]"] True assms by (auto simp: diff_less_mono2)
    have full: "length ?c = nat chunkSize" if "cs \<noteq> []"
    proof -
      have "concat cs \<noteq> []" using that cs(3) by (cases cs) auto
      then show ?thesis using cs(2) by simp
    qed
    have "?c @ concat cs = drop i targets"
      unfolding cs(2) using append_take_drop_id [of "nat chunkSize" "drop i targets"]
      by (simp add: add.commute)
    moreover have "?c \<noteq> []" using True assms by simp
    ultimately show ?thesis
      using cs full chunk_loop_step [OF assms True] by (intro exI [of _ "?c # cs"]) auto
  qed
qed

lemma chunk_loop_zero:
  assumes "chunk_loop targets 0 i chunks = Some r" shows "int (length targets) \<le> i"
proof -
  have "n = 0 \<longrightarrow> int (length ts) \<le> i"
    if "chunk_loop ts n i cs = Some r" for ts n i cs r
    by (rule chunk_loop.raw_induct
          [where P = "\<lambda>ts n i cs r. n = 0 \<longrightarrow> int (length ts) \<le> i", OF _ that])
      (force simp: Let_def split: if_splits)
  then show ?thesis using assms by blast
qed

section \<open>Properties\<close>

text \<open>\<^verbatim>\<open>MergeStringMap\<close> keeps, for every key, the value that \<^verbatim>\<open>MapFindFirst\<close> finds in the list
  of maps: the first map with the key wins, and a key of no map is absent. The two functions
  agree on every key and every list of maps.\<close>

theorem merge_agrees_with_find_first:
  "map_of (MergeStringMap maps) k =
     (case MapFindFirst k maps of (v, ok) \<Rightarrow> if ok then Some v else None)"
  by (rule MergeStringMap_get)

text \<open>The difference of two string maps is sound, complete and minimal. Writing the entries
  of the first result and deleting the keys of the second turns the current map into the
  desired one; an entry is written only where the two maps differ, a key is deleted only when it
  is not desired, and both results are empty exactly when the maps agree.\<close>

theorem diff_reconciles_current_with_desired:
  assumes "gomap_wf desired" "gomap_wf current"
  shows "map_of (apply_diff current (DiffStringMap desired current)) = map_of desired \<and>
     (\<forall>k v. map_of (fst (DiffStringMap desired current)) k = Some v \<longleftrightarrow>
        map_of desired k = Some v \<and> map_of current k \<noteq> Some v) \<and>
     (\<forall>k v. map_of (snd (DiffStringMap desired current)) k = Some v \<longleftrightarrow>
        map_of desired k = None \<and> map_of current k = Some v) \<and>
     (DiffStringMap desired current = ([], []) \<longleftrightarrow> map_of desired = map_of current)"
  using apply_DiffStringMap [OF assms] DiffStringMap_empty_iff [OF assms]
  by (auto simp: DiffStringMap_modify [OF assms(1)] DiffStringMap_remove [OF assms(2)])

theorem diff_reconciles_current_with_desired_witness:
  "gomap_wf [(''a'', ''1''), (''b'', ''2'')] \<and> gomap_wf [(''a'', ''0''), (''c'', ''3'')] \<and>
   map_of (apply_diff [(''a'', ''0''), (''c'', ''3'')]
     (DiffStringMap [(''a'', ''1''), (''b'', ''2'')] [(''a'', ''0''), (''c'', ''3'')])) =
   map_of [(''a'', ''1''), (''b'', ''2'')]"
proof -
  have wf: "gomap_wf [(''a'', ''1''), (''b'', ''2'')]" "gomap_wf [(''a'', ''0''), (''c'', ''3'')]"
    by simp_all
  show ?thesis using wf diff_reconciles_current_with_desired [OF wf] by blast
qed

text \<open>For a positive chunk size \<^verbatim>\<open>ChunkStrings\<close> returns, and its result partitions the slice in
  order: the chunks concatenate to the input, no chunk is empty or longer than the size, and
  every chunk but the last has exactly that size.\<close>

theorem chunk_strings_partition:
  assumes "0 < chunkSize"
  shows "\<exists>chunks. ChunkStrings targets chunkSize = Some (Inr chunks) \<and>
     concat chunks = targets \<and>
     (\<forall>c\<in>set chunks. c \<noteq> [] \<and> int (length c) \<le> chunkSize) \<and>
     (\<forall>c\<in>set (butlast chunks). int (length c) = chunkSize)"
proof -
  have "int n \<le> chunkSize \<longleftrightarrow> n \<le> nat chunkSize" "int n = chunkSize \<longleftrightarrow> n = nat chunkSize" for n
    using assms by auto
  then show ?thesis
    using chunk_loop_correct [OF assms, of targets 0 "[]"] by (simp add: ChunkStrings_def)
qed

theorem chunk_strings_partition_witness:
  "(0::int) < 2 \<and> (\<exists>chunks. ChunkStrings [''a'', ''b'', ''c''] 2 = Some (Inr chunks) \<and>
     concat chunks = [''a'', ''b'', ''c''])"
  using chunk_strings_partition [of 2 "[''a'', ''b'', ''c'']"] by auto

text \<open>A zero chunk size makes \<^verbatim>\<open>ChunkStrings\<close> run forever on every non-empty slice, and a
  negative one makes it panic; both return normally only on the empty slice.\<close>

theorem chunk_strings_bad_size:
  assumes "targets \<noteq> []"
  shows "ChunkStrings targets 0 = None \<and>
     (chunkSize < 0 \<longrightarrow>
        ChunkStrings targets chunkSize = Some (Inl (Errorf ''slice bounds out of range'' [])))"
proof
  show "ChunkStrings targets 0 = None"
    using assms chunk_loop_zero [of targets 0 "[]"] by (cases "ChunkStrings targets 0") (auto simp: ChunkStrings_def)
  show "chunkSize < 0 \<longrightarrow>
      ChunkStrings targets chunkSize = Some (Inl (Errorf ''slice bounds out of range'' []))"
    using assms by (simp add: ChunkStrings_def chunk_loop.simps Let_def)
qed

theorem chunk_strings_bad_size_witness:
  "[''a''] \<noteq> [] \<and> ChunkStrings [''a''] 0 = None \<and>
   ChunkStrings [''a''] (-1) = Some (Inl (Errorf ''slice bounds out of range'' []))"
  using chunk_strings_bad_size [of "[''a'']" "-1"] by simp

end
