(* ===== verification/Api_Types.thy ===== *)
theory Api_Types
  imports Algorithm
begin

text \<open>
  The custom resource \<^verbatim>\<open>TargetGroupBinding\<close> of \<^verbatim>\<open>apis/elbv2/v1beta1\<close>, with the parts of the
  Kubernetes API types it embeds: an \<^verbatim>\<open>intstr.IntOrString\<close> is an integer or a string, a label
  selector is its match labels and match expressions. A Go string type with named constants
  stays a string, since the API server does not rule out other values at this level. A pointer
  field is an \<open>option\<close>. Integers are unbounded: no operation of the modelled code does
  arithmetic on them that could reach the bounds of \<^verbatim>\<open>int64\<close>.
\<close>

datatype IntOrString = IntVal int | StrVal string

record LabelSelectorRequirement =
  lsrKey :: string
  lsrOperator :: string
  lsrValues :: "string list"

record LabelSelector =
  matchLabels :: string_map
  matchExpressions :: "LabelSelectorRequirement list"

type_synonym TargetType = string

definition TargetTypeInstance :: TargetType where
  [simp]: "TargetTypeInstance = ''instance''"

definition TargetTypeIP :: TargetType where
  [simp]: "TargetTypeIP = ''ip''"

type_synonym TargetGroupIPAddressType = string

definition TargetGroupIPAddressTypeIPv4 :: TargetGroupIPAddressType where
  [simp]: "TargetGroupIPAddressTypeIPv4 = ''ipv4''"

definition TargetGroupIPAddressTypeIPv6 :: TargetGroupIPAddressType where
  [simp]: "TargetGroupIPAddressTypeIPv6 = ''ipv6''"

record ServiceReference =
  srName :: string
  srPort :: IntOrString

record IPBlock =
  CIDR :: string

record ApiSecurityGroup =
  asgGroupID :: string

record NetworkingPeer =
  npIPBlock :: "IPBlock option"
  npSecurityGroup :: "ApiSecurityGroup option"

type_synonym NetworkingProtocol = string

definition NetworkingProtocolTCP :: NetworkingProtocol where
  [simp]: "NetworkingProtocolTCP = ''TCP''"

definition NetworkingProtocolUDP :: NetworkingProtocol where
  [simp]: "NetworkingProtocolUDP = ''UDP''"

record NetworkingPort =
  nportProtocol :: "NetworkingProtocol option"
  nportPort :: "IntOrString option"

record NetworkingIngressRule =
  nirFrom :: "NetworkingPeer list"
  nirPorts :: "NetworkingPort list"

record TargetGroupBindingNetworking =
  tgbnIngress :: "NetworkingIngressRule list"

record TargetGroupBindingSpec =
  tgbTargetGroupARN :: string
  tgbTargetType :: "TargetType option"
  tgbServiceRef :: ServiceReference
  tgbNetworking :: "TargetGroupBindingNetworking option"
  tgbNodeSelector :: "LabelSelector option"
  tgbIPAddressType :: "TargetGroupIPAddressType option"

record TargetGroupBindingStatus =
  tgbObservedGeneration :: "int option"

text \<open>Of \<^verbatim>\<open>metav1.ObjectMeta\<close> the controller reads the fields below.\<close>

record NamespacedName =
  nnNamespace :: string
  nnName :: string

record ObjectReference =
  orNamespace :: string
  orName :: string
  orUID :: string

record ObjectMeta =
  omNamespace :: string
  omName :: string
  omUID :: string
  omLabels :: string_map
  omAnnotations :: string_map
  omFinalizers :: "string list"
  omGeneration :: int
  omDeletionTimestamp :: "int option"

record TargetGroupBinding =
  tgbMeta :: ObjectMeta
  tgbSpec :: TargetGroupBindingSpec
  tgbStatus :: TargetGroupBindingStatus

end
