(* ===== verification/Elbv2_Model.thy ===== *)
theory Elbv2_Model
  imports Api_Types
begin

text \<open>
  The desired state the controller builds: the resource types of \<^verbatim>\<open>pkg/model/elbv2\<close>,
  \<^verbatim>\<open>pkg/model/ec2\<close>, \<^verbatim>\<open>pkg/model/wafv2\<close>, \<^verbatim>\<open>pkg/model/wafregional\<close> and \<^verbatim>\<open>pkg/model/shield\<close>, and the
  tokens of \<^verbatim>\<open>pkg/model/core/token_types.go\<close> through which one resource refers to a field of
  another. A resource is a heap object, so a token holds the reference of its resource.
\<close>

section \<open>Tokens\<close>

type_synonym ref = nat

text \<open>
  A field token carries the resource and the field path; the resolver function of the source is
  determined by the two (each accessor such as \<^verbatim>\<open>TargetGroupARN()\<close> passes its own).
\<close>

datatype StringToken =
    LiteralStringToken string
  | ResourceFieldStringToken ref string

fun Dependencies :: "StringToken \<Rightarrow> ref list" where
  "Dependencies (LiteralStringToken s) = []"
| "Dependencies (ResourceFieldStringToken res fieldPath) = [res]"

section \<open>EC2 security groups\<close>

record IPRange =
  CIDRIP :: string
  iprDescription :: string

record IPv6Range =
  CIDRIPv6 :: string
  ip6rDescription :: string

record UserIDGroupPair =
  ugpGroupID :: string
  ugpDescription :: string

record IPPermission =
  IPProtocol :: string
  FromPort :: "int option"
  ToPort :: "int option"
  IPRanges :: "IPRange list"
  IPv6Ranges :: "IPv6Range list"
  UserIDGroupPairs :: "UserIDGroupPair list"

record SecurityGroupSpec =
  sgGroupName :: string
  sgDescription :: string
  sgTags :: string_map
  sgIngress :: "IPPermission list"

record SecurityGroupStatus =
  sgGroupID :: string

section \<open>Target groups\<close>

record HealthCheckMatcher =
  HTTPCode :: "string option"
  GRPCCode :: "string option"

type_synonym Protocol = string

definition ProtocolHTTP :: Protocol where [simp]: "ProtocolHTTP = ''HTTP''"

definition ProtocolHTTPS :: Protocol where [simp]: "ProtocolHTTPS = ''HTTPS''"

definition ProtocolTCP :: Protocol where [simp]: "ProtocolTCP = ''TCP''"

definition ProtocolTLS :: Protocol where [simp]: "ProtocolTLS = ''TLS''"

definition ProtocolUDP :: Protocol where [simp]: "ProtocolUDP = ''UDP''"

definition ProtocolTCP_UDP :: Protocol where [simp]: "ProtocolTCP_UDP = ''TCP_UDP''"

type_synonym ProtocolVersion = string

record TargetGroupHealthCheckConfig =
  hcPort :: "IntOrString option"
  hcProtocol :: "Protocol option"
  hcPath :: "string option"
  hcMatcher :: "HealthCheckMatcher option"
  hcIntervalSeconds :: "int option"
  hcTimeoutSeconds :: "int option"
  hcHealthyThresholdCount :: "int option"
  hcUnhealthyThresholdCount :: "int option"

record TargetGroupAttribute =
  tgaKey :: string
  tgaValue :: string

record TargetGroupSpec =
  tgName :: string
  tgTargetType :: TargetType
  tgPort :: int
  tgProtocol :: Protocol
  tgProtocolVersion :: "ProtocolVersion option"
  tgIPAddressType :: "TargetGroupIPAddressType option"
  tgHealthCheckConfig :: "TargetGroupHealthCheckConfig option"
  tgTargetGroupAttributes :: "TargetGroupAttribute list"
  tgTags :: string_map

record TargetGroupStatus =
  tgTargetGroupARN :: string

section \<open>Load balancers\<close>

type_synonym LoadBalancerType = string

definition LoadBalancerTypeApplication :: LoadBalancerType where
  [simp]: "LoadBalancerTypeApplication = ''application''"

definition LoadBalancerTypeNetwork :: LoadBalancerType where
  [simp]: "LoadBalancerTypeNetwork = ''network''"

type_synonym IPAddressType = string

definition IPAddressTypeIPV4 :: IPAddressType where [simp]: "IPAddressTypeIPV4 = ''ipv4''"

definition IPAddressTypeDualStack :: IPAddressType where [simp]: "IPAddressTypeDualStack = ''dualstack''"

type_synonym LoadBalancerScheme = string

definition LoadBalancerSchemeInternal :: LoadBalancerScheme where
  [simp]: "LoadBalancerSchemeInternal = ''internal''"

definition LoadBalancerSchemeInternetFacing :: LoadBalancerScheme where
  [simp]: "LoadBalancerSchemeInternetFacing = ''internet-facing''"

record SubnetMapping =
  AllocationID :: "string option"
  PrivateIPv4Address :: "string option"
  IPv6Address :: "string option"
  SubnetID :: string

record LoadBalancerAttribute =
  lbaKey :: string
  lbaValue :: string

record LoadBalancerSpec =
  lbName :: string
  lbType :: LoadBalancerType
  lbScheme :: "LoadBalancerScheme option"
  lbIPAddressType :: "IPAddressType option"
  lbSubnetMappings :: "SubnetMapping list"
  lbSecurityGroups :: "StringToken list"
  lbCustomerOwnedIPv4Pool :: "string option"
  lbLoadBalancerAttributes :: "LoadBalancerAttribute list"
  lbTags :: string_map

record LoadBalancerStatus =
  lbLoadBalancerARN :: string
  lbDNSName :: string

section \<open>Listeners, actions and rules\<close>

type_synonym ActionType = string

definition ActionTypeAuthenticateCognito :: ActionType where
  [simp]: "ActionTypeAuthenticateCognito = ''authenticate-cognito''"

definition ActionTypeAuthenticateOIDC :: ActionType where
  [simp]: "ActionTypeAuthenticateOIDC = ''authenticate-oidc''"

definition ActionTypeFixedResponse :: ActionType where
  [simp]: "ActionTypeFixedResponse = ''fixed-response''"

definition ActionTypeForward :: ActionType where
  [simp]: "ActionTypeForward = ''forward''"

definition ActionTypeRedirect :: ActionType where
  [simp]: "ActionTypeRedirect = ''redirect''"

record AuthenticateCognitoActionConfig =
  acAuthenticationRequestExtraParams :: string_map
  acOnUnauthenticatedRequest :: "string option"
  acScope :: "string option"
  acSessionCookieName :: "string option"
  acSessionTimeout :: "int option"
  acUserPoolARN :: string
  acUserPoolClientID :: string
  acUserPoolDomain :: string

record AuthenticateOIDCActionConfig =
  aoAuthenticationRequestExtraParams :: string_map
  aoOnUnauthenticatedRequest :: "string option"
  aoScope :: "string option"
  aoSessionCookieName :: "string option"
  aoSessionTimeout :: "int option"
  aoIssuer :: string
  aoAuthorizationEndpoint :: string
  aoTokenEndpoint :: string
  aoUserInfoEndpoint :: string
  aoClientID :: string
  aoClientSecret :: string

record FixedResponseActionConfig =
  frContentType :: "string option"
  frMessageBody :: "string option"
  frStatusCode :: string

record RedirectActionConfig =
  rdHost :: "string option"
  rdPath :: "string option"
  rdPort :: "string option"
  rdProtocol :: "string option"
  rdQuery :: "string option"
  rdStatusCode :: string

record TargetGroupTuple =
  tgtTargetGroupARN :: StringToken
  tgtWeight :: "int option"

record TargetGroupStickinessConfig =
  tgsEnabled :: "bool option"
  tgsDurationSeconds :: "int option"

record ForwardActionConfig =
  fwTargetGroups :: "TargetGroupTuple list"
  fwTargetGroupStickinessConfig :: "TargetGroupStickinessConfig option"

record Action =
  actType :: ActionType
  actAuthenticateCognitoConfig :: "AuthenticateCognitoActionConfig option"
  actAuthenticateOIDCConfig :: "AuthenticateOIDCActionConfig option"
  actFixedResponseConfig :: "FixedResponseActionConfig option"
  actRedirectConfig :: "RedirectActionConfig option"
  actForwardConfig :: "ForwardActionConfig option"

record Certificate =
  CertificateARN :: "string option"

record ListenerSpec =
  lsLoadBalancerARN :: StringToken
  lsPort :: int
  lsProtocol :: Protocol
  lsDefaultActions :: "Action list"
  lsCertificates :: "Certificate list"
  lsSSLPolicy :: "string option"
  lsALPNPolicy :: "string list"
  lsTags :: string_map

record ListenerStatus =
  lsListenerARN :: string

type_synonym RuleConditionField = string

definition RuleConditionFieldHTTPHeader :: RuleConditionField where
  [simp]: "RuleConditionFieldHTTPHeader = ''http-header''"

definition RuleConditionFieldHTTPRequestMethod :: RuleConditionField where
  [simp]: "RuleConditionFieldHTTPRequestMethod = ''http-request-method''"

definition RuleConditionFieldHostHeader :: RuleConditionField where
  [simp]: "RuleConditionFieldHostHeader = ''host-header''"

definition RuleConditionFieldPathPattern :: RuleConditionField where
  [simp]: "RuleConditionFieldPathPattern = ''path-pattern''"

definition RuleConditionFieldQueryString :: RuleConditionField where
  [simp]: "RuleConditionFieldQueryString = ''query-string''"

definition RuleConditionFieldSourceIP :: RuleConditionField where
  [simp]: "RuleConditionFieldSourceIP = ''source-ip''"

record HostHeaderConditionConfig =
  hhValues :: "string list"

record HTTPHeaderConditionConfig =
  HTTPHeaderName :: string
  hdValues :: "string list"

record HTTPRequestMethodConditionConfig =
  rmValues :: "string list"

record PathPatternConditionConfig =
  ppValues :: "string list"

record QueryStringKeyValuePair =
  qsKey :: "string option"
  qsValue :: string

record QueryStringConditionConfig =
  qsValues :: "QueryStringKeyValuePair list"

record SourceIPConditionConfig =
  siValues :: "string list"

record RuleCondition =
  rcField :: RuleConditionField
  rcHostHeaderConfig :: "HostHeaderConditionConfig option"
  rcHTTPHeaderConfig :: "HTTPHeaderConditionConfig option"
  rcHTTPRequestMethodConfig :: "HTTPRequestMethodConditionConfig option"
  rcPathPatternConfig :: "PathPatternConditionConfig option"
  rcQueryStringConfig :: "QueryStringConditionConfig option"
  rcSourceIPConfig :: "SourceIPConditionConfig option"

record ListenerRuleSpec =
  lrListenerARN :: StringToken
  lrPriority :: int
  lrActions :: "Action list"
  lrConditions :: "RuleCondition list"
  lrTags :: string_map

record ListenerRuleStatus =
  lrRuleARN :: string

section \<open>Target group bindings\<close>

record ModelSecurityGroup =
  msgGroupID :: StringToken

record ModelNetworkingPeer =
  mnpIPBlock :: "IPBlock option"
  mnpSecurityGroup :: "ModelSecurityGroup option"

record ModelNetworkingIngressRule =
  mnirFrom :: "ModelNetworkingPeer list"
  mnirPorts :: "NetworkingPort list"

record ModelTargetGroupBindingNetworking =
  mtgbnIngress :: "ModelNetworkingIngressRule list"

record ModelTargetGroupBindingSpec =
  mtgbTargetGroupARN :: StringToken
  mtgbTargetType :: "TargetType option"
  mtgbServiceRef :: ServiceReference
  mtgbNetworking :: "ModelTargetGroupBindingNetworking option"
  mtgbNodeSelector :: "LabelSelector option"
  mtgbIPAddressType :: "TargetGroupIPAddressType option"

record TargetGroupBindingTemplate =
  tgbtMeta :: ObjectMeta
  tgbtSpec :: ModelTargetGroupBindingSpec

record TargetGroupBindingResourceSpec =
  tgbrTemplate :: TargetGroupBindingTemplate

record TargetGroupBindingResourceStatus =
  tgbrTargetGroupBindingRef :: ObjectReference

section \<open>Add-ons\<close>

record WAFv2AssociationSpec =
  wa2WebACLARN :: string
  wa2ResourceARN :: StringToken

record WAFRegionalAssociationSpec =
  warWebACLID :: string
  warResourceARN :: StringToken

record ProtectionSpec =
  prResourceARN :: StringToken

end
