(* ===== verification/Resource_Graph.thy ===== *)
theory Resource_Graph
  imports Go_Prelude
begin

text \<open>
  Package \<^verbatim>\<open>pkg/model/core/graph\<close>: the dependency graph of a stack (\<^verbatim>\<open>resource_graph.go\<close>) and
  its topological traversal (\<^verbatim>\<open>typological_traversal.go\<close>). The traversal ranges over the map of
  in-degrees it has built, so the order of that range is the argument \<open>order\<close>.
\<close>

section \<open>The graph\<close>

record ResourceUID =
  ResType :: string
  ResID :: string

record ResourceGraph =
  nodes :: "ResourceUID list"
  outEdges :: "(ResourceUID, ResourceUID list) gomap"

definition NewDefaultResourceGraph :: ResourceGraph where
  "NewDefaultResourceGraph = \<lparr>nodes = [], outEdges = []\<rparr>"

definition AddNode :: "ResourceGraph \<Rightarrow> ResourceUID \<Rightarrow> ResourceGraph" where
  "AddNode g node = g\<lparr>nodes := nodes g @ [node]\<rparr>"

definition AddEdge :: "ResourceGraph \<Rightarrow> ResourceUID \<Rightarrow> ResourceUID \<Rightarrow> ResourceGraph" where
  "AddEdge g srcNode dstNode =
     g\<lparr>outEdges := AList.update srcNode (gomap_index [] (outEdges g) srcNode @ [dstNode]) (outEdges g)\<rparr>"

definition Nodes :: "ResourceGraph \<Rightarrow> ResourceUID list" where
  "Nodes g = nodes g"

definition OutEdgeNodes :: "ResourceGraph \<Rightarrow> ResourceUID \<Rightarrow> ResourceUID list" where
  "OutEdgeNodes g node = gomap_index [] (outEdges g) node"

section \<open>Topological traversal\<close>

type_synonym indegrees = "(ResourceUID, int) gomap"

definition count_edges :: "ResourceUID list \<Rightarrow> indegrees \<Rightarrow> indegrees" where
  "count_edges outs m = fold (\<lambda>o1 m. AList.update o1 (gomap_index 0 m o1 + 1) m) outs m"

definition indegree_step :: "ResourceGraph \<Rightarrow> ResourceUID \<Rightarrow> indegrees \<Rightarrow> indegrees" where
  "indegree_step g node m =
     count_edges (OutEdgeNodes g node)
       (case map_of m node of None \<Rightarrow> AList.update node 0 m | Some _ \<Rightarrow> m)"

definition indegreeByNode :: "ResourceGraph \<Rightarrow> indegrees" where
  "indegreeByNode g = fold (indegree_step g) (Nodes g) []"

text \<open>The body of the inner loop: decrement, and push the node when it reaches zero.\<close>

definition decrement_one ::
  "ResourceUID \<Rightarrow> indegrees \<times> ResourceUID list \<Rightarrow> indegrees \<times> ResourceUID list" where
  "decrement_one o1 = (\<lambda>(m, queue).
     let d = gomap_index 0 m o1 - 1
     in (AList.update o1 d m, if d = 0 then queue @ [o1] else queue))"

definition decrement_all ::
  "ResourceUID list \<Rightarrow> indegrees \<times> ResourceUID list \<Rightarrow> indegrees \<times> ResourceUID list" where
  "decrement_all outs s = fold decrement_one outs s"

definition positives :: "indegrees \<Rightarrow> nat" where
  "positives m = length (filter (\<lambda>(n, d). 0 < d) m)"

lemma positives_update:
  "positives (AList.update k (gomap_index 0 m k - 1) m) + (if gomap_index 0 m k = 1 then 1 else 0)
     \<le> positives m"
  by (induction m) (auto simp: positives_def gomap_index_def split: option.splits if_splits)

lemma decrement_one_measure:
  "length (snd (decrement_one o1 s)) + positives (fst (decrement_one o1 s))
     \<le> length (snd s) + positives (fst s)"
  using positives_update [of o1 "fst s"] by (auto simp: decrement_one_def Let_def split: prod.splits)

lemma decrement_all_measure:
  "length (snd (decrement_all outs s)) + positives (fst (decrement_all outs s))
     \<le> length (snd s) + positives (fst s)"
  unfolding decrement_all_def
proof (induction outs arbitrary: s)
  case (Cons o1 outs)
  show ?case using Cons [of "decrement_one o1 s"] decrement_one_measure [of o1 s] by simp
qed simp

text \<open>
  The \<open>while\<close> loop. It ends because each turn pops one node, and pushes a node only when its
  in-degree drops from one to zero.
\<close>

function topo_loop ::
  "ResourceGraph \<Rightarrow> (ResourceUID \<Rightarrow> ('w, unit) io) \<Rightarrow> indegrees \<Rightarrow> ResourceUID list \<Rightarrow> ('w, indegrees) io" where
  "topo_loop g visit m queue =
     (if queue = [] then io_return m
      else let node = last queue;
               s = decrement_all (OutEdgeNodes g node) (m, butlast queue)
           in io_bind (visit node) (\<lambda>_. topo_loop g visit (fst s) (snd s)))"
  by pat_completeness auto
termination
proof (relation "measure (\<lambda>(g, visit, m, queue). length queue + positives m)", goal_cases)
  case 1
  then show ?case by simp
next
  case (2 g visit m queue node s u)
  have "length (snd s) + positives (fst s) \<le> (length queue - 1) + positives m"
    using decrement_all_measure [of "OutEdgeNodes g node" "(m, butlast queue)"] 2 by simp
  then show ?case using 2(1) by (cases queue) (auto split: prod.splits)
qed

declare topo_loop.simps [simp del]

definition TopologicalTraversal ::
  "(indegrees \<Rightarrow> indegrees) \<Rightarrow> ResourceGraph \<Rightarrow> (ResourceUID \<Rightarrow> ('w, unit) io) \<Rightarrow> ('w, unit) io" where
  "TopologicalTraversal order g visit =
     (let m = indegreeByNode g;
          queue = map fst (filter (\<lambda>(node, indegree). indegree = 0) (order m))
      in io_bind (topo_loop g visit m queue)
           (\<lambda>m'. if list_ex (\<lambda>(node, indegree). 0 < indegree) m'
                 then io_fail (Errorf ''ResourceGraph is not a DAG'' [])
                 else io_return ()))"

section \<open>Specification\<close>

definition edges :: "ResourceGraph \<Rightarrow> (ResourceUID \<times> ResourceUID) set" where
  "edges g = {(a, b). b \<in> set (OutEdgeNodes g a)}"

definition graph_wf :: "ResourceGraph \<Rightarrow> bool" where
  "graph_wf g \<longleftrightarrow> distinct (Nodes g) \<and> edges g \<subseteq> set (Nodes g) \<times> set (Nodes g)"

text \<open>Every node of the list comes after all the nodes it depends on.\<close>

definition dependencies_first :: "ResourceGraph \<Rightarrow> ResourceUID list \<Rightarrow> bool" where
  "dependencies_first g vs \<longleftrightarrow>
     (\<forall>i < length vs. \<forall>a. (a, vs ! i) \<in> edges g \<longrightarrow> a \<in> set (take i vs))"


section \<open>The order in which nodes are popped\<close>

function pops :: "ResourceGraph \<Rightarrow> indegrees \<Rightarrow> ResourceUID list \<Rightarrow> ResourceUID list \<times> indegrees" where
  "pops g m queue =
     (if queue = [] then ([], m)
      else let node = last queue;
               s = decrement_all (OutEdgeNodes g node) (m, butlast queue);
               r = pops g (fst s) (snd s)
           in (node # fst r, snd r))"
  by pat_completeness auto
termination
proof (relation "measure (\<lambda>(g, m, queue). length queue + positives m)", goal_cases)
  case 1
  then show ?case by simp
next
  case (2 g m queue node s)
  have "length (snd s) + positives (fst s) \<le> (length queue - 1) + positives m"
    using decrement_all_measure [of "OutEdgeNodes g node" "(m, butlast queue)"] 2 by simp
  then show ?case using 2(1) by (cases queue) (auto split: prod.splits)
qed

declare pops.simps [simp del]

text \<open>The loop runs the visitor over the popped nodes, whatever the visitor does.\<close>

lemma topo_loop_pops:
  "topo_loop g visit m queue =
     io_bind (io_forM visit (fst (pops g m queue))) (\<lambda>_. io_return (snd (pops g m queue)))"
proof (induction g m queue rule: pops.induct)
  case (1 g m queue)
  show ?case
  proof (cases "queue = []")
    case True
    then show ?thesis by (simp add: topo_loop.simps pops.simps)
  next
    case False
    with 1 show ?thesis
      by (simp add: topo_loop.simps [of g visit m queue] pops.simps [of g m queue] Let_def io_bind_assoc)
  qed
qed

section \<open>In-degrees\<close>

definition in_edges :: "ResourceGraph \<Rightarrow> ResourceUID set \<Rightarrow> ResourceUID \<Rightarrow> int" where
  "in_edges g S n = (\<Sum>a\<in>S. int (count_list (OutEdgeNodes g a) n))"

lemma in_edges_nonneg [simp]: "0 \<le> in_edges g S n"
  by (simp add: in_edges_def sum_nonneg)

lemma in_edges_zero_iff: "finite S \<Longrightarrow> in_edges g S n = 0 \<longleftrightarrow> (\<forall>a\<in>S. (a, n) \<notin> edges g)"
  by (auto simp: in_edges_def edges_def sum_nonneg_eq_0_iff count_list_0_iff)

lemma in_edges_insert:
  "finite S \<Longrightarrow> a \<notin> S \<Longrightarrow> in_edges g (insert a S) n = int (count_list (OutEdgeNodes g a) n) + in_edges g S n"
  by (simp add: in_edges_def)

lemma count_edges_index:
  "gomap_index 0 (count_edges outs m) n = gomap_index 0 m n + int (count_list outs n)"
  unfolding count_edges_def by (induction outs arbitrary: m) auto

lemma count_edges_wf [wf_intros]: "gomap_wf m \<Longrightarrow> gomap_wf (count_edges outs m)"
  unfolding count_edges_def by (rule am.wf_fold_put)

lemma count_edges_keys:
  "map_of (count_edges outs m) n \<noteq> None \<longleftrightarrow> map_of m n \<noteq> None \<or> n \<in> set outs"
  unfolding count_edges_def by (induction outs arbitrary: m) (auto simp: update_conv')

lemma indegree_step_index:
  "gomap_index 0 (indegree_step g a m) n = gomap_index 0 m n + int (count_list (OutEdgeNodes g a) n)"
proof -
  have "gomap_index 0 (case map_of m a of None \<Rightarrow> AList.update a 0 m | Some _ \<Rightarrow> m) n = gomap_index 0 m n"
    by (auto simp: gomap_index_def update_conv' split: option.splits)
  then show ?thesis by (simp add: indegree_step_def count_edges_index)
qed

lemma indegree_step_wf [wf_intros]: "gomap_wf m \<Longrightarrow> gomap_wf (indegree_step g a m)"
  by (auto simp: indegree_step_def intro!: wf_intros split: option.splits)

lemma indegree_step_keys:
  "map_of (indegree_step g a m) n \<noteq> None \<longleftrightarrow>
     n = a \<or> map_of m n \<noteq> None \<or> n \<in> set (OutEdgeNodes g a)"
  unfolding indegree_step_def count_edges_keys by (auto simp: update_conv' split: option.splits)

lemma indegree_fold_index:
  "distinct ns \<Longrightarrow>
     gomap_index 0 (fold (indegree_step g) ns m) n = gomap_index 0 m n + in_edges g (set ns) n"
proof (induction ns arbitrary: m)
  case Nil
  then show ?case by (simp add: in_edges_def)
next
  case (Cons a ns)
  then show ?case by (simp add: indegree_step_index in_edges_insert)
qed

lemma indegree_fold_keys:
  "map_of (fold (indegree_step g) ns m) n \<noteq> None \<longleftrightarrow>
     map_of m n \<noteq> None \<or> n \<in> set ns \<or> (\<exists>a\<in>set ns. (a, n) \<in> edges g)"
proof (induction ns arbitrary: m)
  case (Cons a ns)
  show ?case unfolding fold_simps comp_apply Cons indegree_step_keys by (auto simp: edges_def)
qed simp

lemma indegreeByNode_props:
  assumes "graph_wf g"
  shows "gomap_wf (indegreeByNode g)"
    and "gomap_index 0 (indegreeByNode g) n = in_edges g (set (Nodes g)) n"
    and "map_of (indegreeByNode g) n \<noteq> None \<longleftrightarrow> n \<in> set (Nodes g)"
proof -
  have "gomap_wf (fold (indegree_step g) ns m)" if "gomap_wf m" for ns m
    using that by (induction ns arbitrary: m) (auto intro: wf_intros)
  then show "gomap_wf (indegreeByNode g)" by (simp add: indegreeByNode_def)
  show "gomap_index 0 (indegreeByNode g) n = in_edges g (set (Nodes g)) n"
    using assms by (simp add: indegreeByNode_def graph_wf_def indegree_fold_index)
  show "map_of (indegreeByNode g) n \<noteq> None \<longleftrightarrow> n \<in> set (Nodes g)"
    unfolding indegreeByNode_def indegree_fold_keys using assms by (auto simp: graph_wf_def)
qed

section \<open>One turn of the loop\<close>

lemma decrement_all_index:
  "gomap_index 0 (fst (decrement_all outs (m, q))) n = gomap_index 0 m n - int (count_list outs n)"
  unfolding decrement_all_def
proof (induction outs arbitrary: m q)
  case (Cons o1 outs)
  then show ?case by (auto simp: decrement_one_def Let_def)
qed simp

lemma decrement_all_wf:
  "gomap_wf m \<Longrightarrow> gomap_wf (fst (decrement_all outs (m, q)))"
  unfolding decrement_all_def
  by (induction outs arbitrary: m q) (auto simp: decrement_one_def Let_def intro: wf_intros)

text \<open>Exactly the nodes whose last incoming edge was removed are pushed, each once.\<close>

lemma decrement_all_queue:
  assumes "\<forall>n. int (count_list outs n) \<le> gomap_index 0 m n"
  shows "\<exists>ns. snd (decrement_all outs (m, q)) = q @ ns \<and> distinct ns \<and>
     set ns = {n \<in> set outs. gomap_index 0 m n = int (count_list outs n)}"
  using assms unfolding decrement_all_def
proof (induction outs arbitrary: m q)
  case (Cons o1 outs)
  let ?d = "gomap_index 0 m o1 - 1"
  let ?m = "AList.update o1 ?d m"
  let ?q = "if ?d = 0 then q @ [o1] else q"
  have step: "decrement_one o1 (m, q) = (?m, ?q)"
    by (simp add: decrement_one_def Let_def)
  have pre: "\<forall>n. int (count_list outs n) \<le> gomap_index 0 ?m n"
    using Cons.prems by (auto split: if_splits)
  obtain ns where ns: "snd (fold decrement_one outs (?m, ?q)) = ?q @ ns" "distinct ns"
    "set ns = {n \<in> set outs. gomap_index 0 ?m n = int (count_list outs n)}"
    using Cons.IH [OF pre] by blast
  show ?case
  proof (cases "?d = 0")
    case True
    then have "int (count_list outs o1) \<le> 0" using pre [rule_format, of o1] by simp
    then have out: "o1 \<notin> set outs" "count_list outs o1 = 0"
      using count_list_0_iff [of outs o1] by simp_all
    have "n \<in> set (o1 # ns) \<longleftrightarrow> n \<in> set (o1 # outs) \<and> gomap_index 0 m n = int (count_list (o1 # outs) n)" for n
      using True out by (cases "n = o1") (simp_all add: ns(3))
    then have "set (o1 # ns) = {n \<in> set (o1 # outs). gomap_index 0 m n = int (count_list (o1 # outs) n)}"
      by blast
    moreover have "distinct (o1 # ns)" using ns(2,3) out by simp
    ultimately show ?thesis using ns(1) True step by (intro exI [of _ "o1 # ns"]) simp
  next
    case False
    have "n \<in> set ns \<longleftrightarrow> n \<in> set (o1 # outs) \<and> gomap_index 0 m n = int (count_list (o1 # outs) n)" for n
      using False count_list_0_iff [of outs o1] by (cases "n = o1") (auto simp: ns(3))
    then have "set ns = {n \<in> set (o1 # outs). gomap_index 0 m n = int (count_list (o1 # outs) n)}"
      by blast
    then show ?thesis using ns(1,2) False step by (intro exI [of _ ns]) simp
  qed
qed simp


text \<open>
  The state between two turns, with \<open>V\<close> the nodes popped so far: the map holds, for every node,
  the number of edges from nodes not popped yet, and the queue holds the nodes with none left.
\<close>

definition topo_inv :: "ResourceGraph \<Rightarrow> ResourceUID set \<Rightarrow> indegrees \<Rightarrow> ResourceUID list \<Rightarrow> bool" where
  "topo_inv g V m queue \<longleftrightarrow>
     gomap_wf m \<and> distinct queue \<and> set queue \<inter> V = {} \<and> V \<union> set queue \<subseteq> set (Nodes g) \<and>
     (\<forall>n. gomap_index 0 m n = in_edges g (set (Nodes g) - V) n) \<and>
     (\<forall>n\<in>set (Nodes g). in_edges g (set (Nodes g) - V) n = 0 \<longleftrightarrow> n \<in> V \<union> set queue)"

lemma topo_inv_predecessors:
  assumes "graph_wf g" "topo_inv g V m queue" "n \<in> V \<union> set queue" "(a, n) \<in> edges g"
  shows "a \<in> V"
proof (rule ccontr)
  assume "a \<notin> V"
  moreover have "a \<in> set (Nodes g)" "n \<in> set (Nodes g)"
    using assms by (auto simp: graph_wf_def)
  moreover from this have "in_edges g (set (Nodes g) - V) n = 0"
    using assms(2,3) by (auto simp: topo_inv_def)
  ultimately show False using assms(4) by (auto simp: in_edges_zero_iff)
qed

lemma topo_inv_init:
  assumes "graph_wf g" "mset (order (indegreeByNode g)) = mset (indegreeByNode g)"
  shows "topo_inv g {} (indegreeByNode g)
           (map fst (filter (\<lambda>(node, d). d = 0) (order (indegreeByNode g))))"
    (is "topo_inv g {} ?m (map fst (filter ?P ?o))")
proof -
  note props = indegreeByNode_props [OF assms(1)]
  have wf: "gomap_wf ?o" and set_o: "set ?o = set ?m"
    using props(1) assms(2) gomap_wf_mset mset_eq_setD by blast+
  have mem: "(n, d) \<in> set ?m \<longleftrightarrow> map_of ?m n = Some d" for n d
    using props(1) by (simp add: gomap_wf_in_set)
  have q: "n \<in> set (map fst (filter ?P ?o)) \<longleftrightarrow> map_of ?m n = Some 0" for n
    using mem by (force simp: set_o image_iff)
  have "map_of ?m n = Some 0 \<longleftrightarrow> in_edges g (set (Nodes g)) n = 0" if "n \<in> set (Nodes g)" for n
    using that props(2,3) [of n] by (auto simp: gomap_index_def split: option.splits)
  moreover have "map_of ?m n = Some 0 \<Longrightarrow> n \<in> set (Nodes g)" for n
    using props(3) [of n] by simp
  moreover have "distinct (map fst (filter ?P ?o))"
    using wf by (simp add: gomap_wf_def distinct_map_filter)
  ultimately show ?thesis
    using props(1,2) q unfolding topo_inv_def by simp blast
qed

lemma in_edges_pop:
  assumes "node \<in> set (Nodes g)" "node \<notin> V"
  shows "in_edges g (set (Nodes g) - V) n =
     int (count_list (OutEdgeNodes g node) n) + in_edges g (set (Nodes g) - insert node V) n"
proof -
  have "set (Nodes g) - V = insert node (set (Nodes g) - insert node V)" using assms by auto
  then show ?thesis by (metis Diff_iff finite_Diff finite_set in_edges_insert insertI1)
qed

text \<open>Popping \<open>node\<close> queues exactly the nodes that lose their last incoming edge.\<close>

lemma topo_step_queue:
  assumes wf: "graph_wf g" and inv: "topo_inv g V m queue" and node: "node \<in> set queue"
  shows "\<exists>ns. snd (decrement_all (OutEdgeNodes g node) (m, q)) = q @ ns \<and> distinct ns \<and>
     set ns \<subseteq> set (Nodes g) - (V \<union> set queue) \<and>
     (\<forall>n\<in>set (Nodes g). in_edges g (set (Nodes g) - insert node V) n = 0 \<longleftrightarrow>
        n \<in> V \<union> set queue \<union> set ns)"
proof -
  let ?N = "set (Nodes g)" and ?out = "OutEdgeNodes g node"
  have idx: "gomap_index 0 m n = in_edges g (?N - V) n"
    and zero: "n \<in> ?N \<Longrightarrow> in_edges g (?N - V) n = 0 \<longleftrightarrow> n \<in> V \<union> set queue"
    and rem: "in_edges g (?N - V) n = int (count_list ?out n) + in_edges g (?N - insert node V) n" for n
    using inv node by (auto simp: topo_inv_def intro: in_edges_pop)
  obtain ns where ns: "snd (decrement_all ?out (m, q)) = q @ ns" "distinct ns"
    "set ns = {n \<in> set ?out. gomap_index 0 m n = int (count_list ?out n)}"
    using decrement_all_queue [of ?out m q] by (auto simp: idx rem)
  have out_pos: "in_edges g (?N - V) n \<noteq> 0" if "n \<in> set ?out" for n
  proof -
    have "count_list ?out n \<noteq> 0" using that by (simp add: count_list_0_iff)
    then show ?thesis using rem [of n] in_edges_nonneg [of g "?N - insert node V" n] by linarith
  qed
  have ns_iff: "n \<in> set ns \<longleftrightarrow> n \<in> set ?out \<and> in_edges g (?N - insert node V) n = 0" for n
    using rem [of n] by (auto simp: ns(3) idx)
  have outN: "set ?out \<subseteq> ?N" using wf by (auto simp: graph_wf_def edges_def)
  have "in_edges g (?N - insert node V) n = 0 \<longleftrightarrow> n \<in> V \<union> set queue \<union> set ns" if n: "n \<in> ?N" for n
  proof (cases "n \<in> set ?out")
    case True
    then show ?thesis using out_pos zero [OF n] ns_iff by simp
  next
    case False
    then have "count_list ?out n = 0" by (simp add: count_list_0_iff)
    then show ?thesis using rem [of n] zero [OF n] ns_iff False by simp
  qed
  moreover have "set ns \<subseteq> ?N - (V \<union> set queue)" using ns_iff outN out_pos zero by blast
  ultimately show ?thesis using ns(1,2) by blast
qed

lemma topo_inv_step:
  assumes wf: "graph_wf g" and inv: "topo_inv g V m queue" and ne: "queue \<noteq> []"
  defines "node \<equiv> last queue"
  defines "s \<equiv> decrement_all (OutEdgeNodes g node) (m, butlast queue)"
  shows "topo_inv g (insert node V) (fst s) (snd s)"
proof -
  have split: "queue = butlast queue @ [node]" using ne by (simp add: node_def)
  have q: "distinct (butlast queue)" "node \<notin> set (butlast queue)"
    "set queue = insert node (set (butlast queue))"
    using inv arg_cong [OF split, of distinct] arg_cong [OF split, of set]
    by (auto simp: topo_inv_def)
  have node: "node \<in> set queue" "node \<in> set (Nodes g)" "node \<notin> V"
    using inv q(3) by (auto simp: topo_inv_def)
  obtain ns where ns: "snd s = butlast queue @ ns" "distinct ns"
    "set ns \<subseteq> set (Nodes g) - (V \<union> set queue)"
    "\<forall>n\<in>set (Nodes g). in_edges g (set (Nodes g) - insert node V) n = 0 \<longleftrightarrow> n \<in> V \<union> set queue \<union> set ns"
    using topo_step_queue [OF wf inv node(1)] unfolding s_def by metis
  have "gomap_index 0 (fst s) n = in_edges g (set (Nodes g) - insert node V) n" for n
    using inv in_edges_pop [OF node(2,3), of n] by (simp add: s_def decrement_all_index topo_inv_def)
  moreover have "gomap_wf (fst s)"
    using inv by (simp add: s_def topo_inv_def decrement_all_wf)
  moreover have "distinct (snd s)" "set (snd s) \<inter> insert node V = {}"
    "insert node V \<union> set (snd s) \<subseteq> set (Nodes g)"
    using ns(1-3) q inv node by (auto simp: topo_inv_def)
  moreover have "\<forall>n\<in>set (Nodes g). in_edges g (set (Nodes g) - insert node V) n = 0 \<longleftrightarrow>
      n \<in> insert node V \<union> set (snd s)"
    using ns(4) q(3) by (auto simp: ns(1))
  ultimately show ?thesis unfolding topo_inv_def by blast
qed


section \<open>The whole loop\<close>

definition pops_ok :: "ResourceGraph \<Rightarrow> ResourceUID set \<Rightarrow> ResourceUID list \<Rightarrow> indegrees \<Rightarrow> bool" where
  "pops_ok g V vs m \<longleftrightarrow> distinct vs \<and> set vs \<inter> V = {} \<and>
     (\<forall>i < length vs. \<forall>a. (a, vs ! i) \<in> edges g \<longrightarrow> a \<in> V \<union> set (take i vs)) \<and>
     topo_inv g (V \<union> set vs) m []"

lemma pops_ok_Cons:
  assumes "pops_ok g (insert node V) vs m" "node \<notin> V" "\<And>a. (a, node) \<in> edges g \<Longrightarrow> a \<in> V"
  shows "pops_ok g V (node # vs) m"
  using assms unfolding pops_ok_def by (fastforce simp: less_Suc_eq_0_disj)

lemma pops_inv:
  "graph_wf g \<Longrightarrow> topo_inv g V m queue \<Longrightarrow>
     pops_ok g V (fst (pops g m queue)) (snd (pops g m queue))"
proof (induction g m queue arbitrary: V rule: pops.induct)
  case (1 g m queue)
  show ?case
  proof (cases "queue = []")
    case True
    then show ?thesis using 1 by (simp add: pops.simps pops_ok_def)
  next
    case False
    let ?node = "last queue"
    let ?s = "decrement_all (OutEdgeNodes g ?node) (m, butlast queue)"
    have "pops_ok g (insert ?node V) (fst (pops g (fst ?s) (snd ?s))) (snd (pops g (fst ?s) (snd ?s)))"
      using "1.IH" [OF False refl refl "1.prems"(1)] topo_inv_step [OF "1.prems" False] by blast
    moreover have "?node \<notin> V" using "1.prems"(2) last_in_set [OF False] by (auto simp: topo_inv_def)
    moreover have "a \<in> V" if "(a, ?node) \<in> edges g" for a
      using topo_inv_predecessors [OF "1.prems" _ that] False by simp
    ultimately show ?thesis
      using False by (simp add: pops.simps [of g m queue] Let_def pops_ok_Cons)
  qed
qed

lemma dependencies_first_trancl:
  assumes "dependencies_first g vs" "(a, b) \<in> (edges g)\<^sup>+" "j < length vs" "b = vs ! j"
    and "edges g \<subseteq> set vs \<times> set vs"
  shows "a \<in> set (take j vs)"
  using assms(2-4)
proof (induction arbitrary: j rule: trancl_induct)
  case (base b)
  then show ?case using assms(1) by (simp add: dependencies_first_def)
next
  case (step b c)
  have "b \<in> set (take j vs)" using step assms(1) by (simp add: dependencies_first_def)
  then obtain k where k: "k < j" "b = vs ! k" using step.prems(1) by (auto simp: in_set_conv_nth)
  then have "a \<in> set (take k vs)" using step by simp
  then show ?case using k(1) set_take_subset_set_take [of k j vs] by auto
qed

lemma dependencies_first_acyclic:
  assumes "distinct vs" "dependencies_first g vs" "edges g \<subseteq> set vs \<times> set vs"
  shows "acyclic (edges g)"
proof (rule acyclicI, rule allI, rule notI)
  fix a
  assume a: "(a, a) \<in> (edges g)\<^sup>+"
  then have "a \<in> set vs" using assms(3) by (auto dest: tranclD)
  then obtain j where j: "j < length vs" "a = vs ! j" by (auto simp: in_set_conv_nth)
  then have "vs ! j \<in> set (take j vs)" using dependencies_first_trancl [OF assms(2) a] assms(3) by simp
  then show False using assms(1) j(1) by (auto simp: in_set_conv_nth nth_eq_iff_index_eq)
qed

lemma topo_inv_stuck_cyclic:
  assumes "graph_wf g" "topo_inv g V m []" "acyclic (edges g)"
  shows "V = set (Nodes g)"
proof (rule ccontr)
  let ?R = "set (Nodes g) - V"
  assume "V \<noteq> set (Nodes g)"
  then have "\<exists>x. x \<in> ?R" using assms(2) by (auto simp: topo_inv_def)
  have "finite (edges g)"
    using assms(1) finite_subset by (auto simp: graph_wf_def)
  then have "wf (edges g)" using assms(3) by (rule finite_acyclic_wf)
  then obtain z where z: "z \<in> ?R" "\<And>y. (y, z) \<in> edges g \<Longrightarrow> y \<notin> ?R"
    using \<open>\<exists>x. x \<in> ?R\<close> by (metis wf_eq_minimal)
  then have "in_edges g ?R z = 0" by (auto simp: in_edges_zero_iff)
  then show False using assms(2) z(1) by (auto simp: topo_inv_def)
qed

lemma topo_inv_positive:
  assumes "graph_wf g" "topo_inv g V m []"
  shows "list_ex (\<lambda>(node, d). 0 < d) m \<longleftrightarrow> V \<noteq> set (Nodes g)"
proof -
  have wf: "gomap_wf m" and idx: "\<And>n. gomap_index 0 m n = in_edges g (set (Nodes g) - V) n"
    using assms(2) by (auto simp: topo_inv_def)
  have "list_ex (\<lambda>(node, d). 0 < d) m \<longleftrightarrow> (\<exists>n d. map_of m n = Some d \<and> 0 < d)"
    using gomap_wf_in_set [OF wf] by (fastforce simp: list_ex_iff)
  also have "\<dots> \<longleftrightarrow> (\<exists>n. 0 < gomap_index 0 m n)"
    by (auto simp: gomap_index_def split: option.splits)
  also have "\<dots> \<longleftrightarrow> (\<exists>n. in_edges g (set (Nodes g) - V) n \<noteq> 0)"
    unfolding idx by (metis in_edges_nonneg order_less_le)
  also have "\<dots> \<longleftrightarrow> (\<exists>n\<in>set (Nodes g). in_edges g (set (Nodes g) - V) n \<noteq> 0)"
    using assms(1) by (auto simp: in_edges_zero_iff graph_wf_def)
  also have "\<dots> \<longleftrightarrow> V \<noteq> set (Nodes g)"
    using assms(2) by (auto simp: topo_inv_def)
  finally show ?thesis .
qed

lemma TopologicalTraversal_runs_visitor:
  assumes wf: "graph_wf g" and ord: "mset (order (indegreeByNode g)) = mset (indegreeByNode g)"
  shows "\<exists>vs. distinct vs \<and> set vs \<subseteq> set (Nodes g) \<and> dependencies_first g vs \<and>
     (set vs = set (Nodes g) \<longleftrightarrow> acyclic (edges g)) \<and>
     (\<forall>visit :: ResourceUID \<Rightarrow> ('w, unit) io.
        TopologicalTraversal order g visit =
          io_bind (io_forM visit vs)
            (\<lambda>_. if acyclic (edges g) then io_return ()
                 else io_fail (Errorf ''ResourceGraph is not a DAG'' [])))"
proof -
  let ?m = "indegreeByNode g"
  let ?q = "map fst (filter (\<lambda>(node, indegree). indegree = 0) (order ?m))"
  let ?vs = "fst (pops g ?m ?q)" and ?m' = "snd (pops g ?m ?q)"
  have "pops_ok g {} ?vs ?m'" by (rule pops_inv [OF wf topo_inv_init [of g order, OF wf ord]])
  then have inv: "distinct ?vs" "dependencies_first g ?vs" "topo_inv g (set ?vs) ?m' []"
    by (auto simp: pops_ok_def dependencies_first_def)
  have sub: "set ?vs \<subseteq> set (Nodes g)" using inv(3) by (simp add: topo_inv_def)
  have all: "set ?vs = set (Nodes g) \<longleftrightarrow> acyclic (edges g)"
  proof
    assume "set ?vs = set (Nodes g)"
    then show "acyclic (edges g)"
      using wf by (intro dependencies_first_acyclic [OF inv(1,2)]) (simp add: graph_wf_def)
  qed (rule topo_inv_stuck_cyclic [OF wf inv(3)])
  have "TopologicalTraversal order g visit = io_bind (io_forM visit ?vs)
      (\<lambda>_. if acyclic (edges g) then io_return ()
           else io_fail (Errorf ''ResourceGraph is not a DAG'' []))" for visit :: "ResourceUID \<Rightarrow> ('w, unit) io"
    by (simp add: TopologicalTraversal_def Let_def topo_loop_pops io_bind_assoc
        topo_inv_positive [OF wf inv(3)] all)
  then show ?thesis using inv(1,2) sub all by blast
qed

section \<open>Properties\<close>

text \<open>C26: \<^verbatim>\<open>TopologicalTraversal\<close> terminates on every graph with distinct nodes and edges between
  nodes, and whatever the order in which Go ranges over the map of in-degrees, it runs the
  visitor over a list of distinct nodes in which every node comes after all its dependencies,
  stopping at the first error of the visitor. The list holds all nodes exactly when the graph
  is acyclic; otherwise the traversal ends with the error that the graph is not a DAG.\<close>

theorem topological_traversal_correct:
  assumes "graph_wf g" "\<forall>m. mset (order m) = mset m"
  shows "\<exists>vs. distinct vs \<and> set vs \<subseteq> set (Nodes g) \<and> dependencies_first g vs \<and>
     (set vs = set (Nodes g) \<longleftrightarrow> acyclic (edges g)) \<and>
     (\<forall>visit :: ResourceUID \<Rightarrow> ('w, unit) io.
        TopologicalTraversal order g visit =
          io_bind (io_forM visit vs)
            (\<lambda>_. if acyclic (edges g) then io_return ()
                 else io_fail (Errorf ''ResourceGraph is not a DAG'' [])))"
  using TopologicalTraversal_runs_visitor [of g order] assms by blast

theorem topological_traversal_correct_witness:
  fixes a b :: ResourceUID and g :: ResourceGraph
  defines "a \<equiv> \<lparr>ResType = ''sg'', ResID = ''x''\<rparr>"
  defines "b \<equiv> \<lparr>ResType = ''lb'', ResID = ''y''\<rparr>"
  defines "g \<equiv> AddEdge (AddNode (AddNode NewDefaultResourceGraph a) b) a b"
  shows "graph_wf g \<and> (\<forall>m :: indegrees. mset (rev m) = mset m) \<and>
    (\<exists>vs. distinct vs \<and> set vs \<subseteq> set (Nodes g) \<and> dependencies_first g vs \<and>
      (\<forall>visit :: ResourceUID \<Rightarrow> (unit, unit) io.
        TopologicalTraversal rev g visit =
          io_bind (io_forM visit vs)
            (\<lambda>_. if acyclic (edges g) then io_return ()
                 else io_fail (Errorf ''ResourceGraph is not a DAG'' []))))"
proof -
  have "Nodes g = [a, b]" "edges g = {(a, b)}"
    by (auto simp: g_def Nodes_def edges_def OutEdgeNodes_def AddEdge_def AddNode_def
        NewDefaultResourceGraph_def gomap_index_def split: if_splits)
  then have wf: "graph_wf g" by (simp add: graph_wf_def a_def b_def)
  have ord: "\<forall>m :: indegrees. mset (rev m) = mset m" by simp
  show ?thesis using wf ord topological_traversal_correct [OF wf ord, where 'w = unit] by blast
qed

end
