(* ===== verification/Core_Stack.thy ===== *)
theory Core_Stack
  imports Elbv2_Model Resource_Graph
begin

text \<open>
  Package \<^verbatim>\<open>pkg/model/core\<close>: a stack of resources with their dependency graph (\<^verbatim>\<open>stack.go\<close>),
  stack identifiers (\<^verbatim>\<open>stack_id.go\<close>), and the constructors of the resource packages, which
  allocate a resource, add it to the stack and register its dependencies. Resources are Go
  pointers, so the state holds a heap of resource objects (a list that only grows) next to the
  stack; a reference is an index of the heap.
\<close>

section \<open>Stack identifiers\<close>

record StackID =
  sidNamespace :: string
  sidName :: string

definition StackID_String :: "StackID \<Rightarrow> string" where
  "StackID_String stackID =
     (if sidNamespace stackID = [] then sidName stackID
      else sidNamespace stackID @ ''/'' @ sidName stackID)"

section \<open>Resources\<close>

record ResourceMeta =
  resType :: string
  resID :: string

datatype Resource =
    SecurityGroup ResourceMeta SecurityGroupSpec "SecurityGroupStatus option"
  | TargetGroup ResourceMeta TargetGroupSpec "TargetGroupStatus option"
  | LoadBalancer ResourceMeta LoadBalancerSpec "LoadBalancerStatus option"
  | Listener ResourceMeta ListenerSpec "ListenerStatus option"
  | ListenerRule ResourceMeta ListenerRuleSpec "ListenerRuleStatus option"
  | TargetGroupBindingResource ResourceMeta TargetGroupBindingResourceSpec
      "TargetGroupBindingResourceStatus option"
  | WAFv2WebACLAssociation ResourceMeta WAFv2AssociationSpec
  | WAFRegionalWebACLAssociation ResourceMeta WAFRegionalAssociationSpec
  | ShieldProtection ResourceMeta ProtectionSpec

fun res_meta :: "Resource \<Rightarrow> ResourceMeta" where
  "res_meta (SecurityGroup m _ _) = m"
| "res_meta (TargetGroup m _ _) = m"
| "res_meta (LoadBalancer m _ _) = m"
| "res_meta (Listener m _ _) = m"
| "res_meta (ListenerRule m _ _) = m"
| "res_meta (TargetGroupBindingResource m _ _) = m"
| "res_meta (WAFv2WebACLAssociation m _) = m"
| "res_meta (WAFRegionalWebACLAssociation m _) = m"
| "res_meta (ShieldProtection m _) = m"

text \<open>\<^verbatim>\<open>reflect.TypeOf(res)\<close>.\<close>

fun reflect_TypeOf :: "Resource \<Rightarrow> string" where
  "reflect_TypeOf (SecurityGroup _ _ _) = ''*ec2.SecurityGroup''"
| "reflect_TypeOf (TargetGroup _ _ _) = ''*elbv2.TargetGroup''"
| "reflect_TypeOf (LoadBalancer _ _ _) = ''*elbv2.LoadBalancer''"
| "reflect_TypeOf (Listener _ _ _) = ''*elbv2.Listener''"
| "reflect_TypeOf (ListenerRule _ _ _) = ''*elbv2.ListenerRule''"
| "reflect_TypeOf (TargetGroupBindingResource _ _ _) = ''*elbv2.TargetGroupBindingResource''"
| "reflect_TypeOf (WAFv2WebACLAssociation _ _) = ''*wafv2.WebACLAssociation''"
| "reflect_TypeOf (WAFRegionalWebACLAssociation _ _) = ''*wafregional.WebACLAssociation''"
| "reflect_TypeOf (ShieldProtection _ _) = ''*shield.Protection''"

section \<open>The stack\<close>

record defaultStack =
  stackID :: StackID
  resources :: "(ResourceUID, ref) gomap"
  resourceGraph :: ResourceGraph

record model_state =
  heap :: "Resource list"
  stack :: defaultStack

definition NewDefaultStack :: "StackID \<Rightarrow> defaultStack" where
  "NewDefaultStack sid =
     \<lparr>stackID = sid, resources = [], resourceGraph = NewDefaultResourceGraph\<rparr>"

definition deref :: "model_state \<Rightarrow> ref \<Rightarrow> Resource result" where
  "deref s r = (if r < length (heap s) then Inr (heap s ! r)
     else Inl (Errorf ''invalid memory address or nil pointer dereference'' []))"

definition computeResourceUID :: "Resource \<Rightarrow> ResourceUID" where
  "computeResourceUID res = \<lparr>ResType = reflect_TypeOf res, ResID = resID (res_meta res)\<rparr>"

definition AddResource :: "ref \<Rightarrow> (model_state, unit) io" where
  "AddResource r s =
     (case deref s r of
        Inl e \<Rightarrow> (Inl e, s)
      | Inr res \<Rightarrow>
          let resUID = computeResourceUID res in
          (case map_of (resources (stack s)) resUID of
             Some _ \<Rightarrow> (Inl (Errorf ''resource already exists, type: %v, id: %v''
                              [resType (res_meta res), resID (res_meta res)]), s)
           | None \<Rightarrow>
               (Inr (), s\<lparr>stack := (stack s)\<lparr>
                  resources := AList.update resUID r (resources (stack s)),
                  resourceGraph := AddNode (resourceGraph (stack s)) resUID\<rparr>\<rparr>)))"

definition AddDependency :: "ref \<Rightarrow> ref \<Rightarrow> (model_state, unit) io" where
  "AddDependency dependee depender s =
     (case (deref s dependee, deref s depender) of
        (Inl e, _) \<Rightarrow> (Inl e, s)
      | (_, Inl e) \<Rightarrow> (Inl e, s)
      | (Inr res1, Inr res2) \<Rightarrow>
          let uid1 = computeResourceUID res1; uid2 = computeResourceUID res2 in
          if map_of (resources (stack s)) uid1 = None then
            (Inl (Errorf ''dependee resource didn't exists, type: %v, id: %v''
               [resType (res_meta res1), resID (res_meta res1)]), s)
          else if map_of (resources (stack s)) uid2 = None then
            (Inl (Errorf ''depender resource didn't exists, type: %v, id: %v''
               [resType (res_meta res2), resID (res_meta res2)]), s)
          else
            (Inr (), s\<lparr>stack := (stack s)\<lparr>resourceGraph := AddEdge (resourceGraph (stack s)) uid1 uid2\<rparr>\<rparr>))"

text \<open>
  \<^verbatim>\<open>ListResources\<close> fills the slice with the resources of the requested type, in the order of a
  range over the map of resources.
\<close>

definition ListResources ::
  "((ResourceUID, ref) gomap \<Rightarrow> (ResourceUID, ref) gomap) \<Rightarrow> string \<Rightarrow> model_state \<Rightarrow> ref list" where
  "ListResources order rtype s =
     map snd (filter (\<lambda>(uid, r). ResType uid = rtype) (order (resources (stack s))))"

definition Stack_TopologicalTraversal ::
  "(indegrees \<Rightarrow> indegrees) \<Rightarrow> defaultStack \<Rightarrow> (ref \<Rightarrow> ('w, unit) io) \<Rightarrow> ('w, unit) io" where
  "Stack_TopologicalTraversal order stk visit =
     TopologicalTraversal order (resourceGraph stk)
       (\<lambda>uid. case map_of (resources stk) uid of
                Some r \<Rightarrow> visit r
              | None \<Rightarrow> io_fail (Errorf ''invalid memory address or nil pointer dereference'' []))"

section \<open>Resolving tokens\<close>

definition not_fulfilled :: "string \<Rightarrow> ResourceMeta \<Rightarrow> string result" where
  "not_fulfilled kind m = Inl (Errorf (kind @ '' is not fulfilled yet: %v'') [resID m])"

fun resolve_field :: "Resource \<Rightarrow> string \<Rightarrow> string result" where
  "resolve_field (SecurityGroup m spec st) path =
     (case st of None \<Rightarrow> not_fulfilled ''SecurityGroup'' m | Some st \<Rightarrow> Inr (sgGroupID st))"
| "resolve_field (TargetGroup m spec st) path =
     (case st of None \<Rightarrow> not_fulfilled ''TargetGroup'' m | Some st \<Rightarrow> Inr (tgTargetGroupARN st))"
| "resolve_field (LoadBalancer m spec st) path =
     (case st of None \<Rightarrow> not_fulfilled ''LoadBalancer'' m
      | Some st \<Rightarrow> Inr (if path = ''status/dnsName'' then lbDNSName st else lbLoadBalancerARN st))"
| "resolve_field (Listener m spec st) path =
     (case st of None \<Rightarrow> not_fulfilled ''Listener'' m | Some st \<Rightarrow> Inr (lsListenerARN st))"
| "resolve_field _ path = Inl (Errorf ''no token accessor for resource'' [])"

fun Resolve :: "model_state \<Rightarrow> StringToken \<Rightarrow> string result" where
  "Resolve s (LiteralStringToken t) = Inr t"
| "Resolve s (ResourceFieldStringToken r fieldPath) =
     result_bind (deref s r) (\<lambda>res. resolve_field res fieldPath)"

section \<open>Constructors\<close>

text \<open>
  The constructors ignore the errors of \<^verbatim>\<open>AddResource\<close> and \<^verbatim>\<open>AddDependency\<close>, and return the new
  object in any case.
\<close>

definition ignore_error :: "('w, unit) io \<Rightarrow> 'w \<Rightarrow> 'w" where
  "ignore_error m w = snd (m w)"

fun dep_tokens :: "Resource \<Rightarrow> StringToken list" where
  "dep_tokens (SecurityGroup _ _ _) = []"
| "dep_tokens (TargetGroup _ _ _) = []"
| "dep_tokens (LoadBalancer _ spec _) = lbSecurityGroups spec"
| "dep_tokens (Listener _ spec _) = [lsLoadBalancerARN spec]"
| "dep_tokens (ListenerRule _ spec _) = [lrListenerARN spec]"
| "dep_tokens (TargetGroupBindingResource _ spec _) =
     [mtgbTargetGroupARN (tgbtSpec (tgbrTemplate spec))]"
| "dep_tokens (WAFv2WebACLAssociation _ spec) = [wa2ResourceARN spec]"
| "dep_tokens (WAFRegionalWebACLAssociation _ spec) = [warResourceARN spec]"
| "dep_tokens (ShieldProtection _ spec) = [prResourceARN spec]"

definition registerDependencies :: "ref \<Rightarrow> Resource \<Rightarrow> model_state \<Rightarrow> model_state" where
  "registerDependencies r res s =
     fold (\<lambda>dep. ignore_error (AddDependency dep r)) (concat (map Dependencies (dep_tokens res))) s"

definition new_resource :: "Resource \<Rightarrow> model_state \<Rightarrow> ref \<times> model_state" where
  "new_resource res s =
     (let r = length (heap s);
          s1 = s\<lparr>heap := heap s @ [res]\<rparr>;
          s2 = ignore_error (AddResource r) s1
      in (r, registerDependencies r res s2))"

definition NewSecurityGroup :: "string \<Rightarrow> SecurityGroupSpec \<Rightarrow> model_state \<Rightarrow> ref \<times> model_state" where
  "NewSecurityGroup rid spec =
     new_resource (SecurityGroup \<lparr>resType = ''AWS::EC2::SecurityGroup'', resID = rid\<rparr> spec None)"

definition NewTargetGroup :: "string \<Rightarrow> TargetGroupSpec \<Rightarrow> model_state \<Rightarrow> ref \<times> model_state" where
  "NewTargetGroup rid spec =
     new_resource (TargetGroup \<lparr>resType = ''AWS::ElasticLoadBalancingV2::TargetGroup'', resID = rid\<rparr> spec None)"

definition NewLoadBalancer :: "string \<Rightarrow> LoadBalancerSpec \<Rightarrow> model_state \<Rightarrow> ref \<times> model_state" where
  "NewLoadBalancer rid spec =
     new_resource (LoadBalancer \<lparr>resType = ''AWS::ElasticLoadBalancingV2::LoadBalancer'', resID = rid\<rparr> spec None)"

definition NewListener :: "string \<Rightarrow> ListenerSpec \<Rightarrow> model_state \<Rightarrow> ref \<times> model_state" where
  "NewListener rid spec =
     new_resource (Listener \<lparr>resType = ''AWS::ElasticLoadBalancingV2::Listener'', resID = rid\<rparr> spec None)"

definition NewListenerRule :: "string \<Rightarrow> ListenerRuleSpec \<Rightarrow> model_state \<Rightarrow> ref \<times> model_state" where
  "NewListenerRule rid spec =
     new_resource (ListenerRule \<lparr>resType = ''AWS::ElasticLoadBalancingV2::ListenerRule'', resID = rid\<rparr> spec None)"

definition NewTargetGroupBindingResource ::
  "string \<Rightarrow> TargetGroupBindingResourceSpec \<Rightarrow> model_state \<Rightarrow> ref \<times> model_state" where
  "NewTargetGroupBindingResource rid spec =
     new_resource (TargetGroupBindingResource
       \<lparr>resType = ''K8S::ElasticLoadBalancingV2::TargetGroupBinding'', resID = rid\<rparr> spec None)"

definition NewWAFv2WebACLAssociation ::
  "string \<Rightarrow> WAFv2AssociationSpec \<Rightarrow> model_state \<Rightarrow> ref \<times> model_state" where
  "NewWAFv2WebACLAssociation rid spec =
     new_resource (WAFv2WebACLAssociation \<lparr>resType = ''AWS::WAFv2::WebACLAssociation'', resID = rid\<rparr> spec)"

definition NewWAFRegionalWebACLAssociation ::
  "string \<Rightarrow> WAFRegionalAssociationSpec \<Rightarrow> model_state \<Rightarrow> ref \<times> model_state" where
  "NewWAFRegionalWebACLAssociation rid spec =
     new_resource (WAFRegionalWebACLAssociation
       \<lparr>resType = ''AWS::WAFRegional::WebACLAssociation'', resID = rid\<rparr> spec)"

definition NewProtection :: "string \<Rightarrow> ProtectionSpec \<Rightarrow> model_state \<Rightarrow> ref \<times> model_state" where
  "NewProtection rid spec =
     new_resource (ShieldProtection \<lparr>resType = ''AWS::Shield::Protection'', resID = rid\<rparr> spec)"

text \<open>The accessors that build a field token.\<close>

definition GroupID_token :: "ref \<Rightarrow> StringToken" where
  "GroupID_token r = ResourceFieldStringToken r ''status/groupID''"

definition TargetGroupARN_token :: "ref \<Rightarrow> StringToken" where
  "TargetGroupARN_token r = ResourceFieldStringToken r ''status/targetGroupARN''"

definition LoadBalancerARN_token :: "ref \<Rightarrow> StringToken" where
  "LoadBalancerARN_token r = ResourceFieldStringToken r ''status/loadBalancerARN''"

definition DNSName_token :: "ref \<Rightarrow> StringToken" where
  "DNSName_token r = ResourceFieldStringToken r ''status/dnsName''"

definition ListenerARN_token :: "ref \<Rightarrow> StringToken" where
  "ListenerARN_token r = ResourceFieldStringToken r ''status/listenerARN''"


section \<open>Statuses\<close>

definition update_object :: "ref \<Rightarrow> (Resource \<Rightarrow> Resource) \<Rightarrow> model_state \<Rightarrow> model_state" where
  "update_object r f s = s\<lparr>heap := (if r < length (heap s) then (heap s)[r := f (heap s ! r)] else heap s)\<rparr>"

definition SetStatus_SecurityGroup :: "ref \<Rightarrow> SecurityGroupStatus \<Rightarrow> model_state \<Rightarrow> model_state" where
  "SetStatus_SecurityGroup r st = update_object r
     (\<lambda>res. case res of SecurityGroup m spec _ \<Rightarrow> SecurityGroup m spec (Some st) | _ \<Rightarrow> res)"

definition SetStatus_TargetGroup :: "ref \<Rightarrow> TargetGroupStatus \<Rightarrow> model_state \<Rightarrow> model_state" where
  "SetStatus_TargetGroup r st = update_object r
     (\<lambda>res. case res of TargetGroup m spec _ \<Rightarrow> TargetGroup m spec (Some st) | _ \<Rightarrow> res)"

definition SetStatus_LoadBalancer :: "ref \<Rightarrow> LoadBalancerStatus \<Rightarrow> model_state \<Rightarrow> model_state" where
  "SetStatus_LoadBalancer r st = update_object r
     (\<lambda>res. case res of LoadBalancer m spec _ \<Rightarrow> LoadBalancer m spec (Some st) | _ \<Rightarrow> res)"

definition SetStatus_Listener :: "ref \<Rightarrow> ListenerStatus \<Rightarrow> model_state \<Rightarrow> model_state" where
  "SetStatus_Listener r st = update_object r
     (\<lambda>res. case res of Listener m spec _ \<Rightarrow> Listener m spec (Some st) | _ \<Rightarrow> res)"

definition SetStatus_ListenerRule :: "ref \<Rightarrow> ListenerRuleStatus \<Rightarrow> model_state \<Rightarrow> model_state" where
  "SetStatus_ListenerRule r st = update_object r
     (\<lambda>res. case res of ListenerRule m spec _ \<Rightarrow> ListenerRule m spec (Some st) | _ \<Rightarrow> res)"

definition SetStatus_TargetGroupBinding ::
  "ref \<Rightarrow> TargetGroupBindingResourceStatus \<Rightarrow> model_state \<Rightarrow> model_state" where
  "SetStatus_TargetGroupBinding r st = update_object r
     (\<lambda>res. case res of
        TargetGroupBindingResource m spec _ \<Rightarrow> TargetGroupBindingResource m spec (Some st) | _ \<Rightarrow> res)"

section \<open>Building a stack\<close>

definition init_state :: "StackID \<Rightarrow> model_state" where
  "init_state sid = \<lparr>heap = [], stack = NewDefaultStack sid\<rparr>"

abbreviation dep_refs :: "Resource \<Rightarrow> ref list" where
  "dep_refs res \<equiv> concat (map Dependencies (dep_tokens res))"

text \<open>
  What a builder does to a stack: construct resources, each under a new identifier and from
  tokens of resources constructed before, and set statuses.
\<close>

inductive stack_built :: "StackID \<Rightarrow> model_state \<Rightarrow> bool" for sid where
  init: "stack_built sid (init_state sid)"
| new: "stack_built sid s \<Longrightarrow> map_of (resources (stack s)) (computeResourceUID res) = None \<Longrightarrow>
     \<forall>d\<in>set (dep_refs res). d < length (heap s) \<Longrightarrow>
     stack_built sid (snd (new_resource res s))"
| status_sg: "stack_built sid s \<Longrightarrow> stack_built sid (SetStatus_SecurityGroup r st1 s)"
| status_tg: "stack_built sid s \<Longrightarrow> stack_built sid (SetStatus_TargetGroup r st2 s)"
| status_lb: "stack_built sid s \<Longrightarrow> stack_built sid (SetStatus_LoadBalancer r st3 s)"
| status_ls: "stack_built sid s \<Longrightarrow> stack_built sid (SetStatus_Listener r st4 s)"
| status_lr: "stack_built sid s \<Longrightarrow> stack_built sid (SetStatus_ListenerRule r st5 s)"
| status_tgb: "stack_built sid s \<Longrightarrow> stack_built sid (SetStatus_TargetGroupBinding r st6 s)"

text \<open>
  The invariant: the map of resources lists the heap in order, the nodes are the identifiers in
  the same order, and the edges are exactly the dependencies of the objects.
\<close>

definition stack_ok :: "model_state \<Rightarrow> bool" where
  "stack_ok s \<longleftrightarrow>
     distinct (map computeResourceUID (heap s)) \<and>
     resources (stack s) = map (\<lambda>r. (computeResourceUID (heap s ! r), r)) [0..<length (heap s)] \<and>
     Nodes (resourceGraph (stack s)) = map computeResourceUID (heap s) \<and>
     (\<forall>r < length (heap s). \<forall>d\<in>set (dep_refs (heap s ! r)). d < r) \<and>
     edges (resourceGraph (stack s)) =
       {(computeResourceUID (heap s ! d), computeResourceUID (heap s ! r)) | d r.
          r < length (heap s) \<and> d \<in> set (dep_refs (heap s ! r))}"

lemma edges_AddEdge: "edges (AddEdge g a b) = insert (a, b) (edges g)"
  by (auto simp: edges_def AddEdge_def OutEdgeNodes_def split: if_splits)

lemma Nodes_simps [simp]:
  "Nodes (AddEdge g a b) = Nodes g"
  "Nodes (AddNode g a) = Nodes g @ [a]"
  "Nodes NewDefaultResourceGraph = []"
  by (simp_all add: Nodes_def AddEdge_def AddNode_def NewDefaultResourceGraph_def)

lemma edges_simps [simp]:
  "edges (AddNode g a) = edges g"
  "edges NewDefaultResourceGraph = {}"
  by (simp_all add: edges_def OutEdgeNodes_def AddNode_def NewDefaultResourceGraph_def)

lemma AList_update_append:
  "map_of xs k = None \<Longrightarrow> AList.update k v xs = xs @ [(k, v)]"
  by (induction xs) auto

lemma AddDependency_present:
  assumes "d < length (heap s)" "r < length (heap s)"
    and "map_of (resources (stack s)) (computeResourceUID (heap s ! d)) \<noteq> None"
    and "map_of (resources (stack s)) (computeResourceUID (heap s ! r)) \<noteq> None"
  shows "AddDependency d r s =
     (Inr (), s\<lparr>stack := (stack s)\<lparr>resourceGraph := AddEdge (resourceGraph (stack s))
        (computeResourceUID (heap s ! d)) (computeResourceUID (heap s ! r))\<rparr>\<rparr>)"
  using assms by (simp add: AddDependency_def deref_def Let_def)

text \<open>Registering dependencies on resources of the stack adds exactly their edges.\<close>

lemma fold_AddDependency:
  assumes "\<forall>d\<in>set ds. d < length (heap s) \<and>
      map_of (resources (stack s)) (computeResourceUID (heap s ! d)) \<noteq> None"
    and "r < length (heap s)"
    and "map_of (resources (stack s)) (computeResourceUID (heap s ! r)) \<noteq> None"
  defines "s' \<equiv> fold (\<lambda>dep. ignore_error (AddDependency dep r)) ds s"
  shows "heap s' = heap s" "resources (stack s') = resources (stack s)"
    "Nodes (resourceGraph (stack s')) = Nodes (resourceGraph (stack s))"
    "edges (resourceGraph (stack s')) = edges (resourceGraph (stack s)) \<union>
       {(computeResourceUID (heap s ! d), computeResourceUID (heap s ! r)) | d. d \<in> set ds}"
proof -
  have "heap s' = heap s \<and> resources (stack s') = resources (stack s) \<and>
    Nodes (resourceGraph (stack s')) = Nodes (resourceGraph (stack s)) \<and>
    edges (resourceGraph (stack s')) = edges (resourceGraph (stack s)) \<union>
       {(computeResourceUID (heap s ! d), computeResourceUID (heap s ! r)) | d. d \<in> set ds}"
    using assms(1-3) unfolding s'_def
  proof (induction ds arbitrary: s)
    case (Cons d ds)
    let ?s = "snd (AddDependency d r s)"
    have s: "?s = s\<lparr>stack := (stack s)\<lparr>resourceGraph := AddEdge (resourceGraph (stack s))
        (computeResourceUID (heap s ! d)) (computeResourceUID (heap s ! r))\<rparr>\<rparr>"
      using Cons.prems by (subst AddDependency_present) auto
    show ?case using Cons.prems Cons.IH [of ?s] unfolding fold_simps comp_apply ignore_error_def
      by (auto simp: s edges_AddEdge)
  qed simp
  then show "heap s' = heap s" "resources (stack s') = resources (stack s)"
    "Nodes (resourceGraph (stack s')) = Nodes (resourceGraph (stack s))"
    "edges (resourceGraph (stack s')) = edges (resourceGraph (stack s)) \<union>
       {(computeResourceUID (heap s ! d), computeResourceUID (heap s ! r)) | d. d \<in> set ds}"
    by blast+
qed

lemma stack_ok_lookup:
  assumes "stack_ok s" "r < length (heap s)"
  shows "map_of (resources (stack s)) (computeResourceUID (heap s ! r)) = Some r"
proof -
  have "map fst (resources (stack s)) = map computeResourceUID (heap s)"
    using assms(1) by (auto simp: stack_ok_def comp_def intro: nth_equalityI)
  then have "distinct (map fst (resources (stack s)))" using assms(1) by (simp add: stack_ok_def)
  moreover have "(computeResourceUID (heap s ! r), r) \<in> set (resources (stack s))"
    using assms by (auto simp: stack_ok_def)
  ultimately show ?thesis by simp
qed

lemma stack_ok_init: "stack_ok (init_state sid)"
  by (simp add: stack_ok_def init_state_def NewDefaultStack_def)

text \<open>Constructing a resource under a new identifier extends the heap, the map, the nodes and
  the edges by exactly that resource.\<close>

lemma new_resource_fresh:
  assumes ok: "stack_ok s" and fresh: "map_of (resources (stack s)) (computeResourceUID res) = None"
    and deps: "\<forall>d\<in>set (dep_refs res). d < length (heap s)"
  defines "s' \<equiv> snd (new_resource res s)"
  shows "heap s' = heap s @ [res]"
    "resources (stack s') = resources (stack s) @ [(computeResourceUID res, length (heap s))]"
    "Nodes (resourceGraph (stack s')) = Nodes (resourceGraph (stack s)) @ [computeResourceUID res]"
    "edges (resourceGraph (stack s')) = edges (resourceGraph (stack s)) \<union>
       {(computeResourceUID (heap s ! d), computeResourceUID res) | d. d \<in> set (dep_refs res)}"
proof -
  let ?n = "length (heap s)" and ?uid = "computeResourceUID res"
  define s2 where "s2 = s\<lparr>heap := heap s @ [res], stack := (stack s)\<lparr>
      resources := resources (stack s) @ [(?uid, ?n)],
      resourceGraph := AddNode (resourceGraph (stack s)) ?uid\<rparr>\<rparr>"
  have "ignore_error (AddResource ?n) (s\<lparr>heap := heap s @ [res]\<rparr>) = s2"
    using fresh by (simp add: ignore_error_def AddResource_def deref_def Let_def s2_def AList_update_append)
  then have s': "s' = fold (\<lambda>dep. ignore_error (AddDependency dep ?n)) (dep_refs res) s2"
    by (simp add: s'_def new_resource_def Let_def registerDependencies_def)
  have look: "map_of (resources (stack s2)) (computeResourceUID (heap s2 ! d)) \<noteq> None"
    if "d < Suc ?n" for d
    using that stack_ok_lookup [OF ok, of d]
    by (cases "d = ?n") (auto simp: s2_def nth_append map_add_def split: option.split)
  have pre: "\<forall>d\<in>set (dep_refs res). d < length (heap s2) \<and>
      map_of (resources (stack s2)) (computeResourceUID (heap s2 ! d)) \<noteq> None"
    using deps look by (auto simp: s2_def less_SucI)
  have "?n < length (heap s2)" by (simp add: s2_def)
  note f = fold_AddDependency [OF pre this look [of ?n, OF lessI]]
  show "heap s' = heap s @ [res]"
    "resources (stack s') = resources (stack s) @ [(computeResourceUID res, length (heap s))]"
    "Nodes (resourceGraph (stack s')) = Nodes (resourceGraph (stack s)) @ [computeResourceUID res]"
    by (simp_all add: s' f) (simp_all add: s2_def)
  show "edges (resourceGraph (stack s')) = edges (resourceGraph (stack s)) \<union>
       {(computeResourceUID (heap s ! d), computeResourceUID res) | d. d \<in> set (dep_refs res)}"
    unfolding s' f(4) using deps by (auto simp: s2_def nth_append)
qed

lemma pairs_less_Suc:
  "{(f d, g r) | d r. r < Suc n \<and> P r d} = {(f d, g r) | d r. r < n \<and> P r d} \<union> {(f d, g n) | d. P n d}"
  by (auto simp: less_Suc_eq)

lemma stack_ok_new:
  assumes ok: "stack_ok s" and fresh: "map_of (resources (stack s)) (computeResourceUID res) = None"
    and deps: "\<forall>d\<in>set (dep_refs res). d < length (heap s)"
  shows "stack_ok (snd (new_resource res s))"
proof -
  note new = new_resource_fresh [OF assms]
  let ?n = "length (heap s)" and ?h = "heap s @ [res]" and ?u = computeResourceUID
  have lt: "\<forall>r < ?n. \<forall>d\<in>set (dep_refs (heap s ! r)). d < r"
    using ok by (simp add: stack_ok_def)
  have notin: "?u res \<notin> ?u ` set (heap s)"
    using stack_ok_lookup [OF ok] fresh by (fastforce simp: in_set_conv_nth)
  have "{(?u (?h ! d), ?u (?h ! r)) | d r. r < Suc ?n \<and> d \<in> set (dep_refs (?h ! r))} =
      {(?u (?h ! d), ?u (?h ! r)) | d r. r < ?n \<and> d \<in> set (dep_refs (?h ! r))} \<union>
      {(?u (?h ! d), ?u (?h ! ?n)) | d. d \<in> set (dep_refs (?h ! ?n))}"
    by (rule pairs_less_Suc)
  also have "{(?u (?h ! d), ?u (?h ! r)) | d r. r < ?n \<and> d \<in> set (dep_refs (?h ! r))} =
      {(?u (heap s ! d), ?u (heap s ! r)) | d r. r < ?n \<and> d \<in> set (dep_refs (heap s ! r))}"
    using lt less_trans by (fastforce simp: nth_append)
  also have "{(?u (?h ! d), ?u (?h ! ?n)) | d. d \<in> set (dep_refs (?h ! ?n))} =
      {(?u (heap s ! d), ?u res) | d. d \<in> set (dep_refs res)}"
    using deps by (fastforce simp: nth_append)
  finally have "edges (resourceGraph (stack (snd (new_resource res s)))) =
      {(?u (?h ! d), ?u (?h ! r)) | d r. r < Suc ?n \<and> d \<in> set (dep_refs (?h ! r))}"
    using ok by (simp add: new stack_ok_def)
  moreover have "\<forall>r < Suc ?n. \<forall>d\<in>set (dep_refs (?h ! r)). d < r"
    using lt deps by (simp add: less_Suc_eq nth_append)
  moreover have "resources (stack (snd (new_resource res s))) = map (\<lambda>r. (?u (?h ! r), r)) [0..<Suc ?n]"
    using ok by (auto simp: new stack_ok_def nth_append)
  ultimately show ?thesis
    using ok notin by (simp add: stack_ok_def new)
qed

lemma stack_ok_update_object:
  assumes "stack_ok s"
    and "\<And>res. computeResourceUID (f res) = computeResourceUID res" "\<And>res. dep_tokens (f res) = dep_tokens res"
  shows "stack_ok (update_object r f s)"
proof (cases "r < length (heap s)")
  case True
  let ?h = "(heap s)[r := f (heap s ! r)]"
  have uid: "computeResourceUID (?h ! i) = computeResourceUID (heap s ! i)" if "i < length (heap s)" for i
    using that assms(2) by (cases "i = r") simp_all
  have tok: "dep_tokens (?h ! i) = dep_tokens (heap s ! i)" if "i < length (heap s)" for i
    using that assms(3) by (cases "i = r") simp_all
  have m: "map computeResourceUID ?h = map computeResourceUID (heap s)"
    using uid by (auto intro: nth_equalityI)
  have lt: "\<forall>r < length (heap s). \<forall>d\<in>set (dep_refs (heap s ! r)). d < r"
    using assms(1) by (simp add: stack_ok_def)
  have "{(computeResourceUID (?h ! d), computeResourceUID (?h ! r)) | d r.
          r < length (heap s) \<and> d \<in> set (dep_refs (?h ! r))} =
      {(computeResourceUID (heap s ! d), computeResourceUID (heap s ! r)) | d r.
          r < length (heap s) \<and> d \<in> set (dep_refs (heap s ! r))}"
  proof -
    have "computeResourceUID (?h ! d) = computeResourceUID (heap s ! d)"
      if "i < length (heap s)" "d \<in> set (dep_refs (heap s ! i))" for i d
      using that lt less_trans by (intro uid) blast
    then show ?thesis using uid tok by auto metis+
  qed
  moreover have "map (\<lambda>i. (computeResourceUID (?h ! i), i)) [0..<length (heap s)] =
      map (\<lambda>i. (computeResourceUID (heap s ! i), i)) [0..<length (heap s)]"
    using uid by auto
  ultimately show ?thesis
    using assms(1) True m lt tok by (simp add: stack_ok_def update_object_def)
qed (use assms(1) in \<open>simp add: stack_ok_def update_object_def\<close>)

lemmas SetStatus_defs = SetStatus_SecurityGroup_def SetStatus_TargetGroup_def
  SetStatus_LoadBalancer_def SetStatus_Listener_def SetStatus_ListenerRule_def
  SetStatus_TargetGroupBinding_def

lemma stack_built_ok: "stack_built sid s \<Longrightarrow> stack_ok s"
proof (induction rule: stack_built.induct)
  case init
  then show ?case by (rule stack_ok_init)
next
  case (new s res)
  then show ?case by (intro stack_ok_new)
qed (auto simp: SetStatus_defs computeResourceUID_def intro!: stack_ok_update_object split: Resource.splits)


section \<open>Traversing a built stack\<close>

lemma stack_ok_edge:
  assumes "stack_ok s" "(a, b) \<in> edges (resourceGraph (stack s))"
  obtains d r where "r < length (heap s)" "d \<in> set (dep_refs (heap s ! r))" "d < r"
    "a = computeResourceUID (heap s ! d)" "b = computeResourceUID (heap s ! r)"
proof -
  have e: "edges (resourceGraph (stack s)) =
       {(computeResourceUID (heap s ! d), computeResourceUID (heap s ! r)) | d r.
          r < length (heap s) \<and> d \<in> set (dep_refs (heap s ! r))}"
    and lt: "\<forall>r < length (heap s). \<forall>d\<in>set (dep_refs (heap s ! r)). d < r"
    using assms(1) by (simp_all add: stack_ok_def)
  show thesis using assms(2) lt that unfolding e by blast
qed

lemma stack_ok_graph:
  assumes "stack_ok s"
  shows "graph_wf (resourceGraph (stack s))" "acyclic (edges (resourceGraph (stack s)))"
proof -
  have "(a, b) \<in> edges (resourceGraph (stack s)) \<Longrightarrow>
      a \<in> computeResourceUID ` set (heap s) \<and> b \<in> computeResourceUID ` set (heap s)" for a b
    by (erule stack_ok_edge [OF assms]) (auto intro!: imageI nth_mem)
  moreover have "distinct (Nodes (resourceGraph (stack s)))"
    "set (Nodes (resourceGraph (stack s))) = computeResourceUID ` set (heap s)"
    using assms by (simp_all add: stack_ok_def)
  ultimately show "graph_wf (resourceGraph (stack s))"
    by (auto simp: graph_wf_def)
  show "acyclic (edges (resourceGraph (stack s)))"
  proof (rule acyclicI_order)
    fix a b
    assume "(a, b) \<in> edges (resourceGraph (stack s))"
    then show "- int (the (map_of (resources (stack s)) b)) < - int (the (map_of (resources (stack s)) a))"
      by (rule stack_ok_edge [OF assms]) (simp add: stack_ok_lookup [OF assms])
  qed
qed

text \<open>Visiting identifiers in dependency order visits references in dependency order.\<close>

lemma dependencies_first_refs:
  assumes ok: "stack_ok s" and dep: "dependencies_first (resourceGraph (stack s)) vs"
    and vs: "set vs = computeResourceUID ` set (heap s)"
  defines "f \<equiv> \<lambda>uid. the (map_of (resources (stack s)) uid)"
  shows "set (map f vs) = {..<length (heap s)}"
    and "i < length vs \<Longrightarrow> set (dep_refs (heap s ! (map f vs ! i))) \<subseteq> set (take i (map f vs))"
proof -
  have fu: "r < length (heap s) \<Longrightarrow> f (computeResourceUID (heap s ! r)) = r" for r
    using stack_ok_lookup [OF ok] by (simp add: f_def)
  show "set (map f vs) = {..<length (heap s)}"
    using fu vs by (auto simp: in_set_conv_nth image_iff) (metis in_set_conv_nth nth_mem)
  assume i: "i < length vs"
  then have "vs ! i \<in> computeResourceUID ` set (heap s)" using vs nth_mem by metis
  then obtain r where r: "r < length (heap s)" "vs ! i = computeResourceUID (heap s ! r)"
    by (auto simp: in_set_conv_nth)
  show "set (dep_refs (heap s ! (map f vs ! i))) \<subseteq> set (take i (map f vs))"
  proof
    fix d
    assume d: "d \<in> set (dep_refs (heap s ! (map f vs ! i)))"
    then have d': "d \<in> set (dep_refs (heap s ! r))" using i r fu by simp
    then have "(computeResourceUID (heap s ! d), vs ! i) \<in> edges (resourceGraph (stack s))"
      using ok r unfolding stack_ok_def by blast
    then have "computeResourceUID (heap s ! d) \<in> set (take i vs)"
      using dep i by (simp add: dependencies_first_def)
    moreover have "d < length (heap s)" using ok d' r unfolding stack_ok_def by (meson less_trans)
    ultimately show "d \<in> set (take i (map f vs))"
      unfolding take_map set_map using fu by (metis image_eqI)
  qed
qed

lemma stack_traversal:
  assumes ok: "stack_ok s" and ord: "mset (order (indegreeByNode (resourceGraph (stack s)))) =
      mset (indegreeByNode (resourceGraph (stack s)))"
  shows "\<exists>rs. distinct rs \<and> set rs = {..<length (heap s)} \<and>
     (\<forall>i < length rs. set (dep_refs (heap s ! (rs ! i))) \<subseteq> set (take i rs)) \<and>
     (\<forall>visit :: ref \<Rightarrow> ('w, unit) io.
        Stack_TopologicalTraversal order (stack s) visit = io_forM visit rs)"
proof -
  let ?g = "resourceGraph (stack s)"
  let ?f = "\<lambda>uid. the (map_of (resources (stack s)) uid)"
  obtain vs where vs: "distinct vs" "dependencies_first ?g vs" "set vs = set (Nodes ?g)"
    and run: "\<And>visit :: ResourceUID \<Rightarrow> ('w, unit) io.
      TopologicalTraversal order ?g visit = io_bind (io_forM visit vs) (\<lambda>_. io_return ())"
    using TopologicalTraversal_runs_visitor [of ?g order, OF stack_ok_graph(1) [OF ok] ord]
      stack_ok_graph(2) [OF ok] by auto
  have set_vs: "set vs = computeResourceUID ` set (heap s)"
    using vs(3) ok by (simp add: stack_ok_def)
  note refs = dependencies_first_refs [OF ok vs(2) set_vs]
  have found: "\<exists>r. map_of (resources (stack s)) u = Some r" if "u \<in> set vs" for u
    using that set_vs stack_ok_lookup [OF ok] by (auto simp: in_set_conv_nth)
  have "distinct (map ?f vs)"
  proof (rule card_distinct)
    have "length vs = card (computeResourceUID ` set (heap s))"
      using distinct_card [OF vs(1)] set_vs by simp
    also have "\<dots> = length (heap s)"
      using ok distinct_card [of "map computeResourceUID (heap s)"] by (simp add: stack_ok_def)
    finally show "card (set (map ?f vs)) = length (map ?f vs)" unfolding refs(1) by simp
  qed
  moreover have "Stack_TopologicalTraversal order (stack s) visit = io_forM visit (map ?f vs)"
    for visit :: "ref \<Rightarrow> ('w, unit) io"
    unfolding Stack_TopologicalTraversal_def run io_forM_map io_bind_return_unit
    by (rule io_forM_cong) (auto dest!: found)
  ultimately show ?thesis using refs by (intro exI [of _ "map ?f vs"] conjI allI impI) (simp_all only: length_map)
qed

section \<open>Properties\<close>

text \<open>A stack that is built from the resource constructors, each under a new identifier and
  from tokens of resources constructed before, is well formed at every moment: the map of
  resources, the nodes of the graph and the heap list the same resources in the same order
  under distinct identifiers, and the edges are exactly the dependencies the constructors
  registered, each leading from an earlier to a later resource. Setting statuses keeps this.\<close>

theorem built_stack_invariant:
  "stack_built sid s \<Longrightarrow> stack_ok s"
  by (rule stack_built_ok)

text \<open>C25: The topological traversal of a built stack, which renders the stack for the logs, respects the
  dependencies that the constructors register: of a load balancer on the security groups of its tokens, of a listener
  on the load balancer, of a rule on the listener, of a binding on the target group of its template, of the
  add-ons on the load balancer. Whatever the order in which Go ranges over the map of in-degrees,
  it runs the visitor on every resource of the stack exactly once, each after all resources it
  depends on in this sense; it never fails by itself, and stops only at an error of the visitor. The
  tokens in the actions of listeners and rules and in the networking of bindings are not
  registered, so it says nothing about them, and the deployer orders the resources by itself.\<close>

theorem built_stack_traversal_order:
  assumes "stack_built sid s" "\<forall>m. mset (order m) = mset m"
  shows "\<exists>rs. distinct rs \<and> set rs = {..<length (heap s)} \<and>
     (\<forall>i < length rs. set (dep_refs (heap s ! (rs ! i))) \<subseteq> set (take i rs)) \<and>
     (\<forall>visit :: ref \<Rightarrow> ('w, unit) io.
        Stack_TopologicalTraversal order (stack s) visit = io_forM visit rs)"
  using stack_traversal [OF stack_built_ok [OF assms(1)], of order] assms(2) by blast

definition example_sg :: Resource where
  "example_sg = SecurityGroup \<lparr>resType = ''AWS::EC2::SecurityGroup'', resID = ''ManagedLBSecurityGroup''\<rparr>
     \<lparr>sgGroupName = ''g'', sgDescription = ''d'', sgTags = [], sgIngress = []\<rparr> None"

definition example_lb :: Resource where
  "example_lb = LoadBalancer \<lparr>resType = ''AWS::ElasticLoadBalancingV2::LoadBalancer'', resID = ''LoadBalancer''\<rparr>
     \<lparr>lbName = ''n'', lbType = ''application'', lbScheme = None, lbIPAddressType = None,
      lbSubnetMappings = [], lbSecurityGroups = [GroupID_token 0], lbCustomerOwnedIPv4Pool = None,
      lbLoadBalancerAttributes = [], lbTags = []\<rparr> None"

definition example_state :: model_state where
  "example_state =
     snd (new_resource example_lb (snd (new_resource example_sg
       (init_state \<lparr>sidNamespace = ''ns'', sidName = ''n''\<rparr>))))"

lemma example_state_built: "stack_built \<lparr>sidNamespace = ''ns'', sidName = ''n''\<rparr> example_state"
proof -
  let ?sid = "\<lparr>sidNamespace = ''ns'', sidName = ''n''\<rparr>"
  let ?s0 = "init_state ?sid"
  have fresh0: "map_of (resources (stack ?s0)) (computeResourceUID example_sg) = None"
    by (simp add: init_state_def NewDefaultStack_def)
  have no_deps: "dep_refs example_sg = []" by (simp add: example_sg_def)
  have s1: "stack_built ?sid (snd (new_resource example_sg ?s0))"
    using fresh0 no_deps by (intro stack_built.new stack_built.init) simp_all
  have "\<forall>d\<in>set (dep_refs example_sg). d < length (heap ?s0)" using no_deps by simp
  note n1 = new_resource_fresh [OF stack_ok_init fresh0 this]
  have h1: "heap (snd (new_resource example_sg ?s0)) = [example_sg]"
    and r1: "resources (stack (snd (new_resource example_sg ?s0))) = [(computeResourceUID example_sg, 0)]"
    by (simp_all only: n1) (simp_all add: init_state_def NewDefaultStack_def)
  have uid: "computeResourceUID example_lb \<noteq> computeResourceUID example_sg"
    by (simp add: computeResourceUID_def example_sg_def example_lb_def)
  show ?thesis
    unfolding example_state_def
    by (rule stack_built.new [OF s1]) (use uid in \<open>simp_all add: h1 r1 example_lb_def GroupID_token_def\<close>)
qed

theorem built_stack_invariant_witness:
  "stack_built \<lparr>sidNamespace = ''ns'', sidName = ''n''\<rparr> example_state \<and> stack_ok example_state"
  using example_state_built built_stack_invariant [OF example_state_built] by blast

theorem built_stack_traversal_order_witness:
  "stack_built \<lparr>sidNamespace = ''ns'', sidName = ''n''\<rparr> example_state \<and>
   (\<forall>m :: indegrees. mset (rev m) = mset m) \<and>
   (\<exists>rs. distinct rs \<and> set rs = {..<length (heap example_state)} \<and>
     (\<forall>i < length rs. set (dep_refs (heap example_state ! (rs ! i))) \<subseteq> set (take i rs)) \<and>
     (\<forall>visit :: ref \<Rightarrow> (unit, unit) io.
        Stack_TopologicalTraversal rev (stack example_state) visit = io_forM visit rs))"
proof -
  have ord: "\<forall>m :: indegrees. mset (rev m) = mset m" by simp
  show ?thesis
    using example_state_built ord built_stack_traversal_order [OF example_state_built ord, where 'w = unit]
    by blast
qed

end
