(* ===== verification/Tracking.thy ===== *)
theory Tracking
  imports Core_Stack
begin

text \<open>
  Package \<^verbatim>\<open>pkg/deploy/tracking\<close>: the tags and labels by which the controller recognises the AWS
  and Kubernetes resources it provisioned for a stack (\<^verbatim>\<open>provider.go\<close>), and tag filters
  (\<^verbatim>\<open>tag_filter.go\<close>).
\<close>

section \<open>The provider\<close>

record defaultProvider =
  tagPrefix :: string
  clusterName :: string

definition clusterNameTagKey :: string where
  "clusterNameTagKey = ''elbv2.k8s.aws/cluster''"

definition clusterNameTagKeyLegacy :: string where
  "clusterNameTagKeyLegacy = ''ingress.k8s.aws/cluster''"

definition prefixedTrackingKey :: "defaultProvider \<Rightarrow> string \<Rightarrow> string" where
  "prefixedTrackingKey p tag = tagPrefix p @ ''/'' @ tag"

definition ResourceIDTagKey :: "defaultProvider \<Rightarrow> string" where
  "ResourceIDTagKey p = prefixedTrackingKey p ''resource''"

text \<open>A map literal: later entries overwrite earlier ones with the same key.\<close>

definition map_literal :: "('k \<times> 'v) list \<Rightarrow> ('k, 'v) gomap" where
  "map_literal kvs = fold (\<lambda>(k, v). AList.update k v) kvs []"

definition StackTags :: "defaultProvider \<Rightarrow> StackID \<Rightarrow> string_map" where
  "StackTags p sid =
     map_literal [(clusterNameTagKey, clusterName p),
                  (prefixedTrackingKey p ''stack'', StackID_String sid)]"

definition ResourceTags :: "defaultProvider \<Rightarrow> StackID \<Rightarrow> string \<Rightarrow> string_map \<Rightarrow> string_map" where
  "ResourceTags p sid rid additionalTags =
     MergeStringMap [StackTags p sid, map_literal [(ResourceIDTagKey p, rid)], additionalTags]"

definition StackLabels :: "defaultProvider \<Rightarrow> StackID \<Rightarrow> string_map" where
  "StackLabels p sid =
     (if sidNamespace sid = [] then
        map_literal [(prefixedTrackingKey p ''stack'', sidName sid)]
      else
        map_literal [(prefixedTrackingKey p ''stack-namespace'', sidNamespace sid),
                     (prefixedTrackingKey p ''stack-name'', sidName sid)])"

definition StackTagsLegacy :: "defaultProvider \<Rightarrow> StackID \<Rightarrow> string_map" where
  "StackTagsLegacy p sid =
     map_literal [(clusterNameTagKeyLegacy, clusterName p),
                  (prefixedTrackingKey p ''stack'', StackID_String sid)]"

definition LegacyTagKeys :: "defaultProvider \<Rightarrow> string list" where
  "LegacyTagKeys p =
     [''kubernetes.io/cluster/'' @ clusterName p,
      ''kubernetes.io/cluster-name'',
      ''kubernetes.io/namespace'',
      ''kubernetes.io/ingress-name'',
      ''kubernetes.io/service-name'',
      ''kubernetes.io/service-port'',
      clusterNameTagKeyLegacy]"

section \<open>Tag filters\<close>

type_synonym TagFilter = "(string, string list) gomap"

fun Matches :: "TagFilter \<Rightarrow> string_map \<Rightarrow> bool" where
  "Matches [] tags = True"
| "Matches ((key, desiredValues) # f) tags =
     (case map_of tags key of
        None \<Rightarrow> False
      | Some actualValue \<Rightarrow>
          if desiredValues = [] then Matches f tags
          else if list_ex (\<lambda>v. v = actualValue) desiredValues then Matches f tags
          else False)"

definition TagsAsTagFilter :: "string_map \<Rightarrow> TagFilter" where
  "TagsAsTagFilter tags = fold (\<lambda>(key, value) f. AList.update key [value] f) tags []"

section \<open>Lemmas\<close>

lemma Matches_iff:
  "Matches f tags \<longleftrightarrow>
     (\<forall>(key, vs)\<in>set f. \<exists>v. map_of tags key = Some v \<and> (vs = [] \<or> v \<in> set vs))"
  by (induction f tags rule: Matches.induct) (auto simp: list_ex_iff split: option.splits)

lemma TagsAsTagFilter_get:
  assumes "gomap_wf tags"
  shows "map_of (TagsAsTagFilter tags) k = map_option (\<lambda>v. [v]) (map_of tags k)"
proof -
  have "map_of (fold (\<lambda>(key, value) f. AList.update key [value] f) tags acc) k =
      (case map_of tags k of Some v \<Rightarrow> Some [v] | None \<Rightarrow> map_of acc k)" for acc :: TagFilter
    using assms by (induction tags arbitrary: acc) (auto simp: update_conv' split: option.splits)
  then show ?thesis by (simp add: TagsAsTagFilter_def split: option.splits)
qed

lemma TagsAsTagFilter_wf [wf_intros]: "gomap_wf (TagsAsTagFilter tags)"
proof -
  have "gomap_wf acc \<Longrightarrow> gomap_wf (fold (\<lambda>(key, value) f. AList.update key [value] f) tags acc)"
    for acc :: TagFilter
    by (induction tags arbitrary: acc) (auto intro: wf_intros)
  then show ?thesis by (simp add: TagsAsTagFilter_def)
qed

lemma map_le_iff: "m \<subseteq>\<^sub>m m' \<longleftrightarrow> (\<forall>k v. m k = Some v \<longrightarrow> m' k = Some v)"
  by (auto simp: map_le_def dom_def)

lemma Matches_TagsAsTagFilter:
  assumes "gomap_wf want"
  shows "Matches (TagsAsTagFilter want) tags \<longleftrightarrow> map_of want \<subseteq>\<^sub>m map_of tags"
proof -
  have "Matches (TagsAsTagFilter want) tags \<longleftrightarrow>
      (\<forall>k vs. map_of (TagsAsTagFilter want) k = Some vs \<longrightarrow>
         (\<exists>v. map_of tags k = Some v \<and> (vs = [] \<or> v \<in> set vs)))"
    unfolding Matches_iff by (simp add: Ball_def split_paired_All gomap_wf_in_set [OF TagsAsTagFilter_wf])
  also have "\<dots> \<longleftrightarrow> (\<forall>k v. map_of want k = Some v \<longrightarrow> map_of tags k = Some v)"
    unfolding TagsAsTagFilter_get [OF assms] by fastforce
  finally show ?thesis by (simp add: map_le_iff)
qed

lemma map_literal_wf [wf_intros]: "gomap_wf (map_literal kvs)"
proof -
  have "gomap_wf acc \<Longrightarrow> gomap_wf (fold (\<lambda>(k, v). AList.update k v) kvs acc)" for acc
    by (induction kvs arbitrary: acc) (auto intro: wf_intros)
  then show ?thesis by (simp add: map_literal_def)
qed

lemma StackTags_wf [wf_intros]: "gomap_wf (StackTags p sid)"
  by (simp add: StackTags_def map_literal_wf)

lemma StackTags_get:
  "map_of (StackTags p sid) k =
     (if k = prefixedTrackingKey p ''stack'' then Some (StackID_String sid)
      else if k = clusterNameTagKey then Some (clusterName p) else None)"
  by (auto simp: StackTags_def map_literal_def update_conv')

lemma tracking_keys_distinct:
  "prefixedTrackingKey p ''stack'' \<noteq> clusterNameTagKey"
  "prefixedTrackingKey p ''resource'' \<noteq> clusterNameTagKey"
  "prefixedTrackingKey p ''stack'' \<noteq> prefixedTrackingKey p ''resource''"
proof -
  have last: "last (prefixedTrackingKey p t) = last t" if "t \<noteq> []" for t
    using that by (simp add: prefixedTrackingKey_def)
  have "last clusterNameTagKey = CHR ''r''" by (simp add: clusterNameTagKey_def)
  moreover have "last (prefixedTrackingKey p ''stack'') = CHR ''k''"
    "last (prefixedTrackingKey p ''resource'') = CHR ''e''"
    using last [of "''stack''"] last [of "''resource''"] by simp_all
  ultimately show "prefixedTrackingKey p ''stack'' \<noteq> clusterNameTagKey"
    "prefixedTrackingKey p ''resource'' \<noteq> clusterNameTagKey"
    "prefixedTrackingKey p ''stack'' \<noteq> prefixedTrackingKey p ''resource''"
    by auto
qed

lemma ResourceTags_get:
  "map_of (ResourceTags p sid rid tags) k =
     (if k = prefixedTrackingKey p ''stack'' then Some (StackID_String sid)
      else if k = clusterNameTagKey then Some (clusterName p)
      else if k = ResourceIDTagKey p then Some rid
      else map_of tags k)"
  by (simp add: ResourceTags_def MergeStringMap_get3 StackTags_get map_literal_def)

lemma two_keys_le:
  assumes "k1 \<noteq> k2"
  shows "(\<forall>k v. (if k = k1 then Some a' else if k = k2 then Some b' else None) = Some v \<longrightarrow>
      (if k = k1 then Some a else if k = k2 then Some b else f k) = Some v) \<longleftrightarrow> b' = b \<and> a' = a"
  using assms by auto

text \<open>Names of Kubernetes objects contain no slash, so the printed identifier is unambiguous.\<close>

definition stackID_ok :: "StackID \<Rightarrow> bool" where
  "stackID_ok sid \<longleftrightarrow> CHR ''/'' \<notin> set (sidNamespace sid) \<and> CHR ''/'' \<notin> set (sidName sid)"

lemma slash_split_inj:
  assumes "x @ CHR ''/'' # y = x' @ CHR ''/'' # y'" "CHR ''/'' \<notin> set x" "CHR ''/'' \<notin> set x'"
  shows "x = x' \<and> y = y'"
proof -
  have "takeWhile (\<lambda>c. c \<noteq> CHR ''/'') (x @ CHR ''/'' # y) = x"
    "takeWhile (\<lambda>c. c \<noteq> CHR ''/'') (x' @ CHR ''/'' # y') = x'"
    using assms(2,3) by (auto simp: takeWhile_append)
  then have "x = x'" using assms(1) by metis
  then show ?thesis using assms(1) by simp
qed

lemma StackID_String_inj:
  assumes "stackID_ok a" "stackID_ok b" "StackID_String a = StackID_String b"
  shows "a = b"
proof -
  have noslash: "x @ CHR ''/'' # y \<noteq> z" if "CHR ''/'' \<notin> set z" for x y z
    using that by auto
  have "sidNamespace a = sidNamespace b \<and> sidName a = sidName b"
    using noslash [of "sidName b" "sidNamespace a" "sidName a"]
      noslash [of "sidName a" "sidNamespace b" "sidName b"] assms slash_split_inj [of "sidNamespace a" "sidName a" "sidNamespace b" "sidName b"]
    by (auto simp: stackID_ok_def StackID_String_def split: if_splits)
  then show ?thesis by simp
qed

text \<open>C27: The tag filter of a stack selects the AWS resources created for that stack and no
  other. A resource that carries the tags of \<^verbatim>\<open>ResourceTags\<close> for stack \<open>sid\<close> in the cluster of
  provider \<open>p\<close> (whatever the user's additional tags) matches the filter that a provider with
  the same tag prefix builds from \<^verbatim>\<open>StackTags\<close> for stack \<open>sid'\<close> exactly when cluster and stack
  are the same.\<close>

theorem stack_filter_selects_own_resources:
  assumes "stackID_ok sid" "stackID_ok sid'" "tagPrefix p' = tagPrefix p"
  shows "Matches (TagsAsTagFilter (StackTags p' sid')) (ResourceTags p sid rid userTags) \<longleftrightarrow>
     clusterName p' = clusterName p \<and> sid' = sid"
proof -
  have key: "prefixedTrackingKey p' t = prefixedTrackingKey p t" for t
    using assms(3) by (simp add: prefixedTrackingKey_def)
  have "Matches (TagsAsTagFilter (StackTags p' sid')) (ResourceTags p sid rid userTags) \<longleftrightarrow>
      clusterName p' = clusterName p \<and> StackID_String sid' = StackID_String sid"
    unfolding Matches_TagsAsTagFilter [OF StackTags_wf] map_le_iff StackTags_get ResourceTags_get key
    by (rule two_keys_le [OF tracking_keys_distinct(1)])
  then show ?thesis using StackID_String_inj [OF assms(2,1)] by auto
qed

theorem stack_filter_selects_own_resources_witness:
  "stackID_ok \<lparr>sidNamespace = ''ns'', sidName = ''ing''\<rparr> \<and>
   stackID_ok \<lparr>sidNamespace = ''ns'', sidName = ''other''\<rparr> \<and>
   \<not> Matches (TagsAsTagFilter (StackTags \<lparr>tagPrefix = ''ingress.k8s.aws'', clusterName = ''c''\<rparr>
          \<lparr>sidNamespace = ''ns'', sidName = ''other''\<rparr>))
       (ResourceTags \<lparr>tagPrefix = ''ingress.k8s.aws'', clusterName = ''c''\<rparr>
          \<lparr>sidNamespace = ''ns'', sidName = ''ing''\<rparr> ''LoadBalancer''
          [(''ingress.k8s.aws/stack'', ''ns/other'')])"
proof -
  have ok: "stackID_ok \<lparr>sidNamespace = ''ns'', sidName = ''ing''\<rparr>"
    "stackID_ok \<lparr>sidNamespace = ''ns'', sidName = ''other''\<rparr>"
    by (simp_all add: stackID_ok_def)
  show ?thesis
    using ok stack_filter_selects_own_resources [OF ok, of
      "\<lparr>tagPrefix = ''ingress.k8s.aws'', clusterName = ''c''\<rparr>"
      "\<lparr>tagPrefix = ''ingress.k8s.aws'', clusterName = ''c''\<rparr>"]
    by simp
qed

end
