(* ===== verification/Go_Strings.thy ===== *)
theory Go_Strings
  imports Go_Prelude
begin

text \<open>
  The functions of Go's packages \<^verbatim>\<open>strings\<close> and \<^verbatim>\<open>strconv\<close> that the controller uses, on strings as
  lists of bytes. White space is the ASCII white space.
\<close>

fun split_char :: "char \<Rightarrow> string \<Rightarrow> string list" where
  "split_char c [] = [[]]"
| "split_char c (x # xs) =
     (if x = c then [] # split_char c xs
      else (case split_char c xs of [] \<Rightarrow> [[x]] | w # ws \<Rightarrow> (x # w) # ws))"

text \<open>\<^verbatim>\<open>strings.SplitN(s, c, 2)\<close>.\<close>

fun splitN2 :: "char \<Rightarrow> string \<Rightarrow> string list" where
  "splitN2 c [] = [[]]"
| "splitN2 c (x # xs) =
     (if x = c then [[], xs]
      else (case splitN2 c xs of [] \<Rightarrow> [[x]] | w # ws \<Rightarrow> (x # w) # ws))"

definition is_space :: "char \<Rightarrow> bool" where
  "is_space c \<longleftrightarrow> c \<in> {CHR 0x09, CHR 0x0A, CHR 0x0B, CHR 0x0C, CHR 0x0D, CHR '' ''}"

definition TrimSpace :: "string \<Rightarrow> string" where
  "TrimSpace s = rev (dropWhile is_space (rev (dropWhile is_space s)))"

definition strconv_ParseBool :: "string \<Rightarrow> bool option" where
  "strconv_ParseBool s =
     (if s \<in> {''1'', ''t'', ''T'', ''TRUE'', ''true'', ''True''} then Some True
      else if s \<in> {''0'', ''f'', ''F'', ''FALSE'', ''false'', ''False''} then Some False
      else None)"

fun strings_Join :: "string list \<Rightarrow> string \<Rightarrow> string" where
  "strings_Join [] sep = []"
| "strings_Join [x] sep = x"
| "strings_Join (x # y # ys) sep = x @ sep @ strings_Join (y # ys) sep"

fun HasPrefix :: "string \<Rightarrow> string \<Rightarrow> bool" where
  "HasPrefix s [] = True"
| "HasPrefix [] (p # ps) = False"
| "HasPrefix (c # s) (p # ps) = (c = p \<and> HasPrefix s ps)"

fun strings_Contains :: "string \<Rightarrow> string \<Rightarrow> bool" where
  "strings_Contains [] p = (p = [])"
| "strings_Contains (c # s) p = (HasPrefix (c # s) p \<or> strings_Contains s p)"

definition ascii_lower :: "char \<Rightarrow> char" where
  "ascii_lower c = (if CHR ''A'' \<le> c \<and> c \<le> CHR ''Z'' then char_of (of_char c + 32 :: nat) else c)"

definition ToLower :: "string \<Rightarrow> string" where
  "ToLower s = map ascii_lower s"

definition is_digit :: "char \<Rightarrow> bool" where
  "is_digit c \<longleftrightarrow> CHR ''0'' \<le> c \<and> c \<le> CHR ''9''"

definition digit_value :: "char \<Rightarrow> int" where
  "digit_value c = of_char c - 48"

fun parse_digits :: "int \<Rightarrow> string \<Rightarrow> int option" where
  "parse_digits acc [] = Some acc"
| "parse_digits acc (c # cs) =
     (if is_digit c then parse_digits (10 * acc + digit_value c) cs else None)"

text \<open>
  \<^verbatim>\<open>strconv.ParseInt(s, 10, 64)\<close>: an optional sign and at least one digit. Out of range, the
  function returns an error together with the nearest bound; on a syntax error, with 0.
\<close>

datatype parse_int = ParseOk int | ParseRange int | ParseSyntax

definition strconv_ParseInt :: "string \<Rightarrow> parse_int" where
  "strconv_ParseInt s =
     (let (neg, ds) = (case s of
            [] \<Rightarrow> (False, [])
          | c # cs \<Rightarrow> if c = CHR ''-'' then (True, cs) else if c = CHR ''+'' then (False, cs) else (False, s))
      in if ds = [] then ParseSyntax
         else case parse_digits 0 ds of
           None \<Rightarrow> ParseSyntax
         | Some n \<Rightarrow>
             let v = (if neg then - n else n) in
             if v > 2 ^ 63 - 1 then ParseRange (2 ^ 63 - 1)
             else if v < - (2 ^ 63) then ParseRange (- (2 ^ 63))
             else ParseOk v)"

fun parse_value :: "parse_int \<Rightarrow> int" where
  "parse_value (ParseOk v) = v"
| "parse_value (ParseRange v) = v"
| "parse_value ParseSyntax = 0"

text \<open>\<^verbatim>\<open>fmt.Sprintf("%d")\<close> and \<^verbatim>\<open>strconv.Itoa\<close>.\<close>

fun nat_digits :: "nat \<Rightarrow> string" where
  "nat_digits n = (if n < 10 then [char_of (48 + n)] else nat_digits (n div 10) @ [char_of (48 + n mod 10)])"

declare nat_digits.simps [simp del]

definition Itoa :: "int \<Rightarrow> string" where
  "Itoa i = (if i < 0 then CHR ''-'' # nat_digits (nat (- i)) else nat_digits (nat i))"

section \<open>Lemmas\<close>

lemma split_char_nonempty [simp]: "split_char c s \<noteq> []"
  by (induction s) (auto split: list.splits)

lemma split_char_append:
  "c \<notin> set w \<Longrightarrow> split_char c (w @ c # s) = w # split_char c s"
  by (induction w) auto

lemma split_char_single: "c \<notin> set w \<Longrightarrow> split_char c w = [w]"
  by (induction w) auto

text \<open>Splitting inverts joining when no part contains the separator.\<close>

lemma split_char_Join:
  "ws \<noteq> [] \<Longrightarrow> \<forall>w\<in>set ws. c \<notin> set w \<Longrightarrow> split_char c (strings_Join ws [c]) = ws"
proof (induction ws "[c]" rule: strings_Join.induct)
  case (3 x y ys)
  then have "split_char c (strings_Join (y # ys) [c]) = y # ys" by simp
  then show ?case using 3(3) split_char_append [of c x] by simp
qed (auto simp: split_char_single)

lemma splitN2_append: "c \<notin> set w \<Longrightarrow> splitN2 c (w @ c # s) = [w, s]"
  by (induction w) auto

lemma splitN2_length: "length (splitN2 c s) = (if c \<in> set s then 2 else 1)"
  by (induction s) (auto split: list.splits)

lemma HasPrefix_iff: "HasPrefix s p \<longleftrightarrow> (\<exists>t. s = p @ t)"
  by (induction s p rule: HasPrefix.induct) auto

lemma of_char_digit: "d < 10 \<Longrightarrow> (of_char (char_of (48 + d) :: char) :: nat) = 48 + d"
  by (simp add: of_char_of)

lemma is_digit_of_char: "d < 10 \<Longrightarrow> is_digit (char_of (48 + d :: nat))"
  using of_char_digit [of d] by (simp add: is_digit_def less_eq_char_def)

lemma digit_value_of_char: "d < 10 \<Longrightarrow> digit_value (char_of (48 + d :: nat)) = int d"
proof -
  assume "d < 10"
  then have "(of_char (char_of (48 + d) :: char) :: int) = int (48 + d)"
    by (metis of_char_digit of_nat_of_char)
  then show ?thesis by (simp add: digit_value_def)
qed

lemma parse_digits_snoc:
  "parse_digits acc ds = Some n \<Longrightarrow> is_digit c \<Longrightarrow>
   parse_digits acc (ds @ [c]) = Some (10 * n + digit_value c)"
  by (induction acc ds rule: parse_digits.induct) (auto split: if_splits)

lemma parse_digits_nat_digits: "parse_digits 0 (nat_digits n) = Some (int n)"
proof (induction n rule: nat_digits.induct)
  case (1 n)
  show ?case
  proof (cases "n < 10")
    case True
    then show ?thesis
      by (simp add: nat_digits.simps [of n] is_digit_of_char digit_value_of_char)
  next
    case False
    have "n mod 10 < 10" by simp
    note d = is_digit_of_char [OF this] digit_value_of_char [OF this]
    show ?thesis
      using parse_digits_snoc [OF 1(1) [OF False] d(1)] False d(2)
      by (simp add: nat_digits.simps [of n] zdiv_int zmod_int)
  qed
qed

lemma nat_digits_nonempty: "nat_digits n \<noteq> []"
  by (simp add: nat_digits.simps [of n])

lemma nat_digits_digits: "\<forall>c\<in>set (nat_digits n). is_digit c"
proof (induction n rule: nat_digits.induct)
  case (1 n)
  have "n mod 10 < 10" by simp
  then show ?case using 1 is_digit_of_char [of n] is_digit_of_char [of "n mod 10"]
    by (simp add: nat_digits.simps [of n])
qed

lemma digit_no_sign: "is_digit c \<Longrightarrow> c \<noteq> CHR ''-'' \<and> c \<noteq> CHR ''+''"
  by (auto simp: is_digit_def less_eq_char_def)

text \<open>Parsing inverts printing for 64-bit integers.\<close>

lemma ParseInt_Itoa:
  assumes "- (2 ^ 63) \<le> i" "i < 2 ^ 63"
  shows "strconv_ParseInt (Itoa i) = ParseOk i"
proof (cases "i < 0")
  case True
  then show ?thesis using assms
    by (simp add: strconv_ParseInt_def Itoa_def nat_digits_nonempty parse_digits_nat_digits)
next
  case False
  obtain c cs where c: "nat_digits (nat i) = c # cs"
    using nat_digits_nonempty by (meson list.exhaust)
  then have "is_digit c" using nat_digits_digits [of "nat i"] by simp
  then have "c \<noteq> CHR ''-''" "c \<noteq> CHR ''+''" by (auto dest: digit_no_sign)
  then show ?thesis using False assms c parse_digits_nat_digits [of "nat i"]
    by (simp add: strconv_ParseInt_def Itoa_def)
qed

lemma nat_digits_inj: "nat_digits m = nat_digits n \<Longrightarrow> m = n"
proof -
  assume eq: "nat_digits m = nat_digits n"
  have "parse_digits 0 (nat_digits n) = Some (int m)" unfolding eq [symmetric] by (rule parse_digits_nat_digits)
  then show ?thesis by (simp add: parse_digits_nat_digits)
qed

lemma Itoa_inj: "Itoa i = Itoa j \<longleftrightarrow> i = j"
proof
  have minus: "CHR ''-'' # cs \<noteq> nat_digits n" for n cs
  proof
    assume "CHR ''-'' # cs = nat_digits n"
    then have "is_digit (CHR ''-'')" using nat_digits_digits [of n] by (metis list.set_intros(1))
    then show False by (simp add: is_digit_def less_eq_char_def)
  qed
  assume eq: "Itoa i = Itoa j"
  show "i = j"
  proof (cases "i < 0"; cases "j < 0")
    assume "i < 0" "j < 0"
    then show ?thesis using eq nat_digits_inj [of "nat (- i)" "nat (- j)"] by (simp add: Itoa_def)
  next
    assume "i < 0" "\<not> j < 0"
    then show ?thesis using eq minus [of "nat_digits (nat (- i))" "nat j"] by (simp add: Itoa_def)
  next
    assume "\<not> i < 0" "j < 0"
    then show ?thesis using eq minus [of "nat_digits (nat (- j))" "nat i"] by (simp add: Itoa_def)
  next
    assume "\<not> i < 0" "\<not> j < 0"
    then show ?thesis using eq nat_digits_inj [of "nat i" "nat j"] by (simp add: Itoa_def)
  qed
qed simp

lemma Itoa_no_comma: "CHR '','' \<notin> set (Itoa n)"
  using nat_digits_digits [THEN bspec, of "CHR '',''"] by (auto simp: Itoa_def is_digit_def less_eq_char_def)

text \<open>Texts joined by a separator that the first parts do not contain.\<close>

lemma append_sep_inj: "c \<notin> set a \<Longrightarrow> c \<notin> set b \<Longrightarrow> a @ c # s = b @ c # t \<longleftrightarrow> a = b \<and> s = t"
proof (induction a arbitrary: b)
  case Nil
  then show ?case by (cases b) auto
next
  case (Cons x a)
  then show ?case by (cases b) auto
qed

end
