(* ===== verification/Feature_Gates.thy ===== *)
theory Feature_Gates
  imports Go_Strings
begin

text \<open>
  The feature gates of \<^verbatim>\<open>pkg/config/feature_gates.go\<close>: a map from features to switches, set from a
  command line flag \<^verbatim>\<open>key=bool,key=bool\<close>. The state of the gates is the world of the effects.
\<close>

type_synonym Feature = string

definition ListenerRulesTagging :: Feature where "ListenerRulesTagging = ''ListenerRulesTagging''"

definition WeightedTargetGroups :: Feature where "WeightedTargetGroups = ''WeightedTargetGroups''"

definition ServiceTypeLoadBalancerOnly :: Feature where
  "ServiceTypeLoadBalancerOnly = ''ServiceTypeLoadBalancerOnly''"

definition EndpointsFailOpen :: Feature where "EndpointsFailOpen = ''EndpointsFailOpen''"

definition EnableServiceController :: Feature where
  "EnableServiceController = ''EnableServiceController''"

definition EnableIPTargetType :: Feature where "EnableIPTargetType = ''EnableIPTargetType''"

definition EnableRGTAPI :: Feature where "EnableRGTAPI = ''EnableRGTAPI''"

definition SubnetsClusterTagCheck :: Feature where
  "SubnetsClusterTagCheck = ''SubnetsClusterTagCheck''"

definition NLBHealthCheckAdvancedConfig :: Feature where
  "NLBHealthCheckAdvancedConfig = ''NLBHealthCheckAdvancedConfig''"

definition NLBSecurityGroup :: Feature where "NLBSecurityGroup = ''NLBSecurityGroup''"

definition ALBSingleSubnet :: Feature where "ALBSingleSubnet = ''ALBSingleSubnet''"

lemmas feature_defs = ListenerRulesTagging_def WeightedTargetGroups_def
  ServiceTypeLoadBalancerOnly_def EndpointsFailOpen_def EnableServiceController_def
  EnableIPTargetType_def EnableRGTAPI_def SubnetsClusterTagCheck_def
  NLBHealthCheckAdvancedConfig_def NLBSecurityGroup_def ALBSingleSubnet_def

type_synonym FeatureGates = "(Feature, bool) gomap"

definition NewFeatureGates :: FeatureGates where
  "NewFeatureGates =
     [(ListenerRulesTagging, True),
      (WeightedTargetGroups, True),
      (ServiceTypeLoadBalancerOnly, False),
      (EndpointsFailOpen, True),
      (EnableServiceController, True),
      (EnableIPTargetType, True),
      (EnableRGTAPI, False),
      (SubnetsClusterTagCheck, True),
      (NLBHealthCheckAdvancedConfig, True),
      (NLBSecurityGroup, True),
      (ALBSingleSubnet, False)]"

definition Enabled :: "FeatureGates \<Rightarrow> Feature \<Rightarrow> bool" where
  "Enabled f feature = gomap_index False f feature"

definition Enable :: "Feature \<Rightarrow> FeatureGates \<Rightarrow> FeatureGates" where
  "Enable feature f = AList.update feature True f"

definition Disable :: "Feature \<Rightarrow> FeatureGates \<Rightarrow> FeatureGates" where
  "Disable feature f = AList.update feature False f"

definition show_bool :: "bool \<Rightarrow> string" where
  "show_bool b = (if b then ''true'' else ''false'')"

definition FeatureGates_String :: "(FeatureGates \<Rightarrow> FeatureGates) \<Rightarrow> FeatureGates \<Rightarrow> string" where
  "FeatureGates_String order f =
     strings_Join (map (\<lambda>(feature, enabled). feature @ ''='' @ show_bool enabled) (order f)) '',''"

definition split_setting :: "FeatureGates \<Rightarrow> string \<Rightarrow> FeatureGates result" where
  "split_setting settings s =
     (if s = [] then Inr settings
      else case splitN2 CHR ''='' s of
        [k, v] \<Rightarrow>
          (case strconv_ParseBool (TrimSpace v) of
             None \<Rightarrow> Inl (Errorf ''invalid mapStringBool: %v'' [s])
           | Some b \<Rightarrow> Inr (AList.update (TrimSpace k) b settings))
      | _ \<Rightarrow> Inl (Errorf ''invalid mapStringBool: %v'' [s]))"

definition SplitMapStringBool :: "string \<Rightarrow> FeatureGates result" where
  "SplitMapStringBool str = result_foldM split_setting [] (split_char CHR '','' str)"

definition set_one :: "Feature \<times> bool \<Rightarrow> (FeatureGates, unit) io" where
  "set_one kv f =
     (case map_of f (fst kv) of
        None \<Rightarrow> (Inl (Errorf ''unknown feature: %v'' [fst kv]), f)
      | Some _ \<Rightarrow> (Inr (), AList.update (fst kv) (snd kv) f))"

definition FeatureGates_Set ::
  "(FeatureGates \<Rightarrow> FeatureGates) \<Rightarrow> string \<Rightarrow> (FeatureGates, unit) io" where
  "FeatureGates_Set order value =
     (case SplitMapStringBool value of
        Inl e \<Rightarrow> io_fail (Wrap e ''failed to parse feature-gates settings due to'')
      | Inr settings \<Rightarrow> io_forM set_one (order settings))"

section \<open>Lemmas\<close>

lemma Enabled_simps [simp]:
  "Enabled (AList.update k b f) k' = (if k' = k then b else Enabled f k')"
  by (simp add: Enabled_def)

lemma SplitMapStringBool_wf:
  assumes "SplitMapStringBool str = Inr settings" shows "gomap_wf settings"
proof -
  have "result_foldM split_setting s xs = Inr t \<Longrightarrow> gomap_wf s \<Longrightarrow> gomap_wf t" for s xs t
    by (induction xs arbitrary: s)
      (auto simp: split_setting_def intro!: gomap_wf_update split: if_splits list.splits option.splits)
  then show ?thesis using assms by (auto simp: SplitMapStringBool_def)
qed

lemma set_loop:
  assumes "gomap_wf kvs"
  shows "\<forall>k\<in>fst ` set kvs. map_of f k \<noteq> None \<Longrightarrow>
      \<exists>f'. io_forM set_one kvs f = (Inr (), f') \<and> dom (map_of f') = dom (map_of f) \<and>
        (\<forall>k. Enabled f' k = (case map_of kvs k of Some v \<Rightarrow> v | None \<Rightarrow> Enabled f k))"
  using assms
proof (induction kvs arbitrary: f)
  case (Cons kv kvs)
  obtain k v where kv: "kv = (k, v)" by (cases kv)
  let ?f = "AList.update k v f"
  have "\<forall>k'\<in>fst ` set kvs. map_of ?f k' \<noteq> None"
    using Cons.prems(1) by (auto simp: update_conv')
  then obtain f' where f': "io_forM set_one kvs ?f = (Inr (), f')" "dom (map_of f') = dom (map_of ?f)"
    "\<And>k'. Enabled f' k' = (case map_of kvs k' of Some v \<Rightarrow> v | None \<Rightarrow> Enabled ?f k')"
    using Cons.IH [of ?f] Cons.prems(2) kv by auto
  obtain w where w: "map_of f k = Some w" using Cons.prems(1) kv by auto
  then have "set_one kv f = (Inr (), ?f)" by (simp add: set_one_def kv)
  from io_forM_Cons_ok [of set_one, OF this]
  have run: "io_forM set_one (kv # kvs) f = (Inr (), f')" by (simp only: f'(1))
  have "dom (map_of f') = dom (map_of f)" using f'(2) w by (auto simp: update_conv')
  moreover have "Enabled f' k' = (case map_of (kv # kvs) k' of Some v \<Rightarrow> v | None \<Rightarrow> Enabled f k')" for k'
    using f'(3) [of k'] kv Cons.prems(2) by (auto split: option.splits)
  ultimately show ?case using run by blast
qed (auto simp: io_simps)

lemma set_loop_unknown:
  assumes "k \<in> fst ` set kvs" "map_of f k = None"
  shows "\<exists>k' f'. io_forM set_one kvs f = (Inl (Errorf ''unknown feature: %v'' [k']), f') \<and>
     k' \<in> fst ` set kvs \<and> map_of f k' = None"
  using assms
proof (induction kvs arbitrary: f)
  case (Cons kv kvs)
  show ?case
  proof (cases "map_of f (fst kv)")
    case None
    then have "set_one kv f = (Inl (Errorf ''unknown feature: %v'' [fst kv]), f)"
      by (simp add: set_one_def)
    then have "io_forM set_one (kv # kvs) f = (Inl (Errorf ''unknown feature: %v'' [fst kv]), f)"
      by (rule io_forM_Cons_err)
    then show ?thesis using None by force
  next
    case (Some w)
    let ?f = "AList.update (fst kv) (snd kv) f"
    have "k \<noteq> fst kv" using Some Cons.prems(2) by auto
    then have k: "k \<in> fst ` set kvs" "map_of ?f k = None"
      using Cons.prems by (auto simp: update_conv')
    have step: "set_one kv f = (Inr (), ?f)" using Some by (simp add: set_one_def)
    obtain k' f' where f': "io_forM set_one kvs ?f = (Inl (Errorf ''unknown feature: %v'' [k']), f')"
      "k' \<in> fst ` set kvs" "map_of ?f k' = None"
      using Cons.IH [OF k] by blast
    then have "map_of f k' = None" by (auto simp: update_conv' split: if_splits)
    then show ?thesis using io_forM_Cons_ok [of set_one, OF step, of kvs] f' by force
  qed
qed simp

text \<open>Setting the feature gates from a well-formed flag. When every key of the parsed settings
  is a known feature, \<^verbatim>\<open>Set\<close> succeeds, whatever the order in which it ranges over the settings;
  afterwards a feature is enabled as the flag says where the flag names it and as before where
  it does not, and the known features are the same. When some key is unknown, \<^verbatim>\<open>Set\<close> reports an
  unknown feature that the flag names.\<close>

theorem feature_gates_set:
  assumes "SplitMapStringBool value = Inr settings" "\<forall>m. mset (order m) = mset m"
  shows "if \<forall>k\<in>set (gomap_keys settings). map_of f k \<noteq> None
     then \<exists>f'. FeatureGates_Set order value f = (Inr (), f') \<and> dom (map_of f') = dom (map_of f) \<and>
       (\<forall>k. Enabled f' k = (case map_of settings k of Some v \<Rightarrow> v | None \<Rightarrow> Enabled f k))
     else \<exists>k f'. FeatureGates_Set order value f = (Inl (Errorf ''unknown feature: %v'' [k]), f') \<and>
       k \<in> set (gomap_keys settings) \<and> map_of f k = None"
proof -
  have wf: "gomap_wf settings" by (rule SplitMapStringBool_wf [OF assms(1)])
  have m: "mset settings = mset (order settings)" using assms(2) by simp
  have wf': "gomap_wf (order settings)" using wf gomap_wf_mset [OF m] by simp
  have get: "map_of settings = map_of (order settings)" by (rule gomap_order_irrelevant [OF wf m])
  have keys: "set (gomap_keys settings) = fst ` set (order settings)"
    using mset_eq_setD [OF m] by (simp add: gomap_keys_def)
  have run: "FeatureGates_Set order value = io_forM set_one (order settings)"
    by (simp add: FeatureGates_Set_def assms(1))
  show ?thesis
  proof (cases "\<forall>k\<in>set (gomap_keys settings). map_of f k \<noteq> None")
    case True
    then show ?thesis using set_loop [OF wf', of f] keys get run by simp
  next
    case False
    then obtain k where "k \<in> fst ` set (order settings)" "map_of f k = None"
      using keys by auto
    then have "\<exists>k f'. io_forM set_one (order settings) f = (Inl (Errorf ''unknown feature: %v'' [k]), f') \<and>
        k \<in> fst ` set (order settings) \<and> map_of f k = None"
      by (rule set_loop_unknown)
    then show ?thesis unfolding run keys using False keys by (metis (no_types, lifting))
  qed
qed

theorem feature_gates_set_witness:
  "SplitMapStringBool ''EnableRGTAPI= true,,ALBSingleSubnet=1'' =
     Inr [(EnableRGTAPI, True), (ALBSingleSubnet, True)] \<and>
   (\<exists>f'. FeatureGates_Set rev ''EnableRGTAPI= true,,ALBSingleSubnet=1'' NewFeatureGates = (Inr (), f') \<and>
      Enabled f' EnableRGTAPI \<and> Enabled f' ALBSingleSubnet \<and> Enabled f' NLBSecurityGroup \<and>
      \<not> Enabled f' ServiceTypeLoadBalancerOnly)"
proof -
  have split: "SplitMapStringBool ''EnableRGTAPI= true,,ALBSingleSubnet=1'' =
      Inr [(EnableRGTAPI, True), (ALBSingleSubnet, True)]"
    by code_simp
  have known: "\<forall>k\<in>set (gomap_keys [(EnableRGTAPI, True), (ALBSingleSubnet, True)]).
      map_of NewFeatureGates k \<noteq> None"
    by code_simp
  have old: "Enabled NewFeatureGates NLBSecurityGroup" "\<not> Enabled NewFeatureGates ServiceTypeLoadBalancerOnly"
    by code_simp+
  obtain f' where f': "FeatureGates_Set rev ''EnableRGTAPI= true,,ALBSingleSubnet=1'' NewFeatureGates = (Inr (), f')"
    "\<And>k. Enabled f' k = (case map_of [(EnableRGTAPI, True), (ALBSingleSubnet, True)] k of
        Some v \<Rightarrow> v | None \<Rightarrow> Enabled NewFeatureGates k)"
    using feature_gates_set [OF split, of rev NewFeatureGates] known by auto
  have "Enabled f' EnableRGTAPI" "Enabled f' ALBSingleSubnet" "Enabled f' NLBSecurityGroup"
    "\<not> Enabled f' ServiceTypeLoadBalancerOnly"
    unfolding f'(2) using old by (simp_all add: feature_defs)
  then show ?thesis using split f'(1) by blast
qed

section \<open>Printing and parsing\<close>

definition feature_name_ok :: "Feature \<Rightarrow> bool" where
  "feature_name_ok k \<longleftrightarrow> CHR '','' \<notin> set k \<and> CHR ''='' \<notin> set k \<and> TrimSpace k = k"

lemma split_setting_show:
  assumes "feature_name_ok k"
  shows "split_setting m (k @ ''='' @ show_bool b) = Inr (AList.update k b m)"
proof -
  have "strconv_ParseBool (TrimSpace (show_bool b)) = Some b"
    by (cases b) (simp_all add: strconv_ParseBool_def TrimSpace_def show_bool_def is_space_def)
  then show ?thesis using assms splitN2_append [of "CHR ''=''" k "show_bool b"]
    by (simp add: split_setting_def feature_name_ok_def)
qed

lemma foldM_split_setting:
  assumes "\<forall>(k, b)\<in>set kvs. feature_name_ok k"
  shows "result_foldM split_setting m (map (\<lambda>(k, b). k @ ''='' @ show_bool b) kvs) =
     Inr (put_all kvs m)"
  unfolding put_all_def
  using assms
proof (induction kvs arbitrary: m)
  case (Cons kv kvs)
  obtain k b where kv: "kv = (k, b)" by (cases kv)
  have "split_setting m (k @ ''='' @ show_bool b) = Inr (AList.update k b m)"
    using Cons.prems kv by (intro split_setting_show) simp
  then show ?case using Cons kv by simp
qed simp

text \<open>The textual form of the feature gates parses back to the same settings. For gates whose
  feature names contain no comma, no equals sign and no surrounding space, and of which there
  is at least one, \<^verbatim>\<open>SplitMapStringBool\<close> applied to \<^verbatim>\<open>String()\<close> gives the same map, in whatever
  order \<^verbatim>\<open>String()\<close> ranges over the map.\<close>

theorem feature_gates_string_roundtrip:
  assumes "gomap_wf f" "f \<noteq> []" "\<forall>k\<in>set (gomap_keys f). feature_name_ok k"
    and "\<forall>m. mset (order m) = mset m"
  shows "\<exists>m. SplitMapStringBool (FeatureGates_String order f) = Inr m \<and> map_of m = map_of f"
proof -
  let ?kvs = "order f"
  let ?parts = "map (\<lambda>(k, b). k @ ''='' @ show_bool b) ?kvs"
  have m: "mset f = mset ?kvs" using assms(4) by simp
  have wf: "gomap_wf ?kvs" "map_of f = map_of ?kvs"
    using assms(1) gomap_wf_mset [OF m] gomap_order_irrelevant [OF _ m] by simp_all
  have ok: "\<forall>(k, b)\<in>set ?kvs. feature_name_ok k"
    using assms(3) mset_eq_setD [OF m] by (auto simp: gomap_keys_def)
  have ne: "?parts \<noteq> []" using assms(2) m by auto
  have "CHR '','' \<notin> set (show_bool b)" for b by (simp add: show_bool_def)
  then have "\<forall>w\<in>set ?parts. CHR '','' \<notin> set w"
    using ok by (auto simp: feature_name_ok_def)
  then have "split_char CHR '','' (FeatureGates_String order f) = ?parts"
    using split_char_Join [OF ne] by (simp add: FeatureGates_String_def)
  then have "SplitMapStringBool (FeatureGates_String order f) =
      Inr (put_all ?kvs [])"
    using foldM_split_setting [OF ok] by (simp add: SplitMapStringBool_def)
  then show ?thesis using put_all_get [OF wf(1), of "[]"] wf(2) by simp
qed

theorem feature_gates_string_roundtrip_witness:
  "gomap_wf NewFeatureGates \<and>
   (\<exists>m. SplitMapStringBool (FeatureGates_String rev NewFeatureGates) = Inr m \<and>
     map_of m = map_of NewFeatureGates)"
proof -
  have wf: "gomap_wf NewFeatureGates" by (simp add: NewFeatureGates_def feature_defs)
  have ok: "\<forall>k\<in>set (gomap_keys NewFeatureGates). feature_name_ok k" by code_simp
  show ?thesis
    using wf feature_gates_string_roundtrip [OF wf _ ok, of rev] by (simp add: NewFeatureGates_def)
qed

end
