(* ===== verification/Aws_Sdk.thy ===== *)
theory Aws_Sdk
  imports Elbv2_Model Feature_Gates
begin

text \<open>
  The data the controller exchanges with the AWS SDK for Elastic Load Balancing: the fields of the
  SDK's structures that the controller reads or writes, pointers as options. The SDK is not part of
  the program: its calls are the fields of the record \<open>ELBV2\<close>, a parameter of the code that uses
  it, and act on a world of any type. The structures with tags are those of
  \<^verbatim>\<open>pkg/deploy/elbv2/tagging_manager.go\<close>.
\<close>

section \<open>Structures\<close>

record SdkTag =
  sdkTagKey :: "string option"
  sdkTagValue :: "string option"

record SdkMatcher =
  sdkGrpcCode :: "string option"
  sdkHttpCode :: "string option"

record SdkTargetGroup =
  stgTargetGroupArn :: "string option"
  stgTargetType :: "string option"
  stgProtocol :: "string option"
  stgProtocolVersion :: "string option"
  stgVpcId :: "string option"
  stgHealthCheckPort :: "string option"
  stgHealthCheckProtocol :: "string option"
  stgHealthCheckPath :: "string option"
  stgMatcher :: "SdkMatcher option"
  stgHealthCheckIntervalSeconds :: "int option"
  stgHealthCheckTimeoutSeconds :: "int option"
  stgHealthyThresholdCount :: "int option"
  stgUnhealthyThresholdCount :: "int option"

record SdkLoadBalancer =
  slbLoadBalancerArn :: "string option"
  slbDNSName :: "string option"
  slbType :: "string option"
  slbScheme :: "string option"
  slbVpcId :: "string option"
  slbIpAddressType :: "string option"
  slbAvailabilityZoneSubnetIds :: "string option list"
  slbSecurityGroups :: "string option list"
  slbCustomerOwnedIpv4Pool :: "string option"

record SdkTargetGroupTuple =
  sttTargetGroupArn :: "string option"
  sttWeight :: "int option"

record SdkForwardActionConfig =
  sfwTargetGroups :: "SdkTargetGroupTuple list"
  sfwStickinessConfig :: "TargetGroupStickinessConfig option"

record SdkRedirectActionConfig =
  srdHost :: "string option"
  srdPath :: "string option"
  srdPort :: "string option"
  srdProtocol :: "string option"
  srdQuery :: "string option"
  srdStatusCode :: "string option"

record SdkFixedResponseActionConfig =
  sfrContentType :: "string option"
  sfrMessageBody :: "string option"
  sfrStatusCode :: "string option"

record SdkAuthenticateCognitoActionConfig =
  sacAuthenticationRequestExtraParams :: "(string, string option) gomap"
  sacOnUnauthenticatedRequest :: "string option"
  sacScope :: "string option"
  sacSessionCookieName :: "string option"
  sacSessionTimeout :: "int option"
  sacUserPoolArn :: "string option"
  sacUserPoolClientId :: "string option"
  sacUserPoolDomain :: "string option"

record SdkAuthenticateOidcActionConfig =
  saoAuthenticationRequestExtraParams :: "(string, string option) gomap"
  saoOnUnauthenticatedRequest :: "string option"
  saoScope :: "string option"
  saoSessionCookieName :: "string option"
  saoSessionTimeout :: "int option"
  saoClientId :: "string option"
  saoClientSecret :: "string option"
  saoIssuer :: "string option"
  saoAuthorizationEndpoint :: "string option"
  saoTokenEndpoint :: "string option"
  saoUserInfoEndpoint :: "string option"

record SdkAction =
  sactType :: "string option"
  sactOrder :: "int option"
  sactTargetGroupArn :: "string option"
  sactAuthenticateCognitoConfig :: "SdkAuthenticateCognitoActionConfig option"
  sactAuthenticateOidcConfig :: "SdkAuthenticateOidcActionConfig option"
  sactFixedResponseConfig :: "SdkFixedResponseActionConfig option"
  sactRedirectConfig :: "SdkRedirectActionConfig option"
  sactForwardConfig :: "SdkForwardActionConfig option"

record SdkCertificate =
  scertCertificateArn :: "string option"
  scertIsDefault :: "bool option"

record SdkListener =
  slsListenerArn :: "string option"
  slsPort :: "int option"
  slsProtocol :: "string option"
  slsDefaultActions :: "SdkAction list"
  slsCertificates :: "SdkCertificate list"
  slsSslPolicy :: "string option"
  slsAlpnPolicy :: "string option list"

record SdkHttpHeaderConditionConfig =
  shdHttpHeaderName :: "string option"
  shdValues :: "string option list"

record SdkQueryStringKeyValuePair =
  sqsKey :: "string option"
  sqsValue :: "string option"

record SdkRuleCondition =
  srcField :: "string option"
  srcHostHeaderValues :: "string option list option"
  srcHttpHeaderConfig :: "SdkHttpHeaderConditionConfig option"
  srcHttpRequestMethodValues :: "string option list option"
  srcPathPatternValues :: "string option list option"
  srcQueryStringValues :: "SdkQueryStringKeyValuePair list option"
  srcSourceIpValues :: "string option list option"

record SdkRule =
  slrRuleArn :: "string option"
  slrPriority :: "string option"
  slrIsDefault :: "bool option"
  slrActions :: "SdkAction list"
  slrConditions :: "SdkRuleCondition list"

record SdkTagDescription =
  stdResourceArn :: "string option"
  stdTags :: "SdkTag list"

section \<open>Objects with their tags\<close>

text \<open>The tags may be a nil map: of an object whose tags were not described.\<close>

record TargetGroupWithTags =
  twTargetGroup :: SdkTargetGroup
  twTags :: "string_map option"

record LoadBalancerWithTags =
  lwLoadBalancer :: SdkLoadBalancer
  lwTags :: "string_map option"

record ListenerWithTags =
  swListener :: SdkListener
  swTags :: "string_map option"

record ListenerRuleWithTags =
  rwListenerRule :: SdkRule
  rwTags :: "string_map option"

section \<open>Requests\<close>

record CreateTargetGroupInput =
  ctgName :: "string option"
  ctgTargetType :: "string option"
  ctgPort :: "int option"
  ctgProtocol :: "string option"
  ctgIpAddressType :: "string option"
  ctgProtocolVersion :: "string option"
  ctgVpcId :: "string option"
  ctgTags :: "SdkTag list"
  ctgHealthCheckEnabled :: "bool option"
  ctgHealthCheckPort :: "string option"
  ctgHealthCheckProtocol :: "string option"
  ctgHealthCheckPath :: "string option"
  ctgMatcher :: "SdkMatcher option"
  ctgHealthCheckIntervalSeconds :: "int option"
  ctgHealthCheckTimeoutSeconds :: "int option"
  ctgHealthyThresholdCount :: "int option"
  ctgUnhealthyThresholdCount :: "int option"

record ModifyTargetGroupInput =
  mtgTargetGroupArn :: "string option"
  mtgHealthCheckEnabled :: "bool option"
  mtgHealthCheckPort :: "string option"
  mtgHealthCheckProtocol :: "string option"
  mtgHealthCheckPath :: "string option"
  mtgMatcher :: "SdkMatcher option"
  mtgHealthCheckIntervalSeconds :: "int option"
  mtgHealthCheckTimeoutSeconds :: "int option"
  mtgHealthyThresholdCount :: "int option"
  mtgUnhealthyThresholdCount :: "int option"

record SdkSubnetMapping =
  ssmAllocationId :: "string option"
  ssmPrivateIPv4Address :: "string option"
  ssmIPv6Address :: "string option"
  ssmSubnetId :: "string option"

record CreateLoadBalancerInput =
  clbName :: "string option"
  clbType :: "string option"
  clbScheme :: "string option"
  clbIpAddressType :: "string option"
  clbSubnetMappings :: "SdkSubnetMapping list"
  clbSecurityGroups :: "string option list"
  clbCustomerOwnedIpv4Pool :: "string option"
  clbTags :: "SdkTag list"

record CreateListenerInput =
  clsLoadBalancerArn :: "string option"
  clsPort :: "int option"
  clsProtocol :: "string option"
  clsDefaultActions :: "SdkAction list"
  clsCertificates :: "SdkCertificate list"
  clsSslPolicy :: "string option"
  clsAlpnPolicy :: "string option list"
  clsTags :: "SdkTag list"

record ModifyListenerInput =
  mlsListenerArn :: "string option"
  mlsPort :: "int option"
  mlsProtocol :: "string option"
  mlsDefaultActions :: "SdkAction list"
  mlsCertificates :: "SdkCertificate list"
  mlsSslPolicy :: "string option"
  mlsAlpnPolicy :: "string option list"

record CreateRuleInput =
  crListenerArn :: "string option"
  crPriority :: "int option"
  crActions :: "SdkAction list"
  crConditions :: "SdkRuleCondition list"
  crTags :: "SdkTag list"

record ModifyRuleInput =
  mrRuleArn :: "string option"
  mrActions :: "SdkAction list"
  mrConditions :: "SdkRuleCondition list"

section \<open>The client\<close>

record 'w ELBV2 =
  AddTagsWithContext :: "string \<Rightarrow> SdkTag list \<Rightarrow> ('w, unit) io"
  RemoveTagsWithContext :: "string \<Rightarrow> string list \<Rightarrow> ('w, unit) io"
  DescribeTagsWithContext :: "string list \<Rightarrow> ('w, SdkTagDescription list) io"
  DescribeListenersAsList :: "string \<Rightarrow> ('w, SdkListener list) io"
  DescribeRulesAsList :: "string \<Rightarrow> ('w, SdkRule list) io"
  DescribeLoadBalancersAsList :: "string list \<Rightarrow> ('w, SdkLoadBalancer list) io"
  DescribeTargetGroupsAsList :: "string list \<Rightarrow> ('w, SdkTargetGroup list) io"
  CreateTargetGroupWithContext :: "CreateTargetGroupInput \<Rightarrow> ('w, SdkTargetGroup list) io"
  ModifyTargetGroupWithContext :: "ModifyTargetGroupInput \<Rightarrow> ('w, unit) io"
  DeleteTargetGroupWithContext :: "string option \<Rightarrow> ('w, unit) io"
  DescribeTargetGroupAttributesWithContext :: "string option \<Rightarrow> ('w, SdkTag list) io"
  ModifyTargetGroupAttributesWithContext :: "string option \<Rightarrow> SdkTag list \<Rightarrow> ('w, unit) io"
  CreateLoadBalancerWithContext :: "CreateLoadBalancerInput \<Rightarrow> ('w, SdkLoadBalancer list) io"
  DeleteLoadBalancerWithContext :: "string option \<Rightarrow> ('w, unit) io"
  SetIpAddressTypeWithContext :: "string option \<Rightarrow> string \<Rightarrow> ('w, unit) io"
  SetSubnetsWithContext :: "string option \<Rightarrow> SdkSubnetMapping list \<Rightarrow> ('w, unit) io"
  SetSecurityGroupsWithContext :: "string option \<Rightarrow> string option list \<Rightarrow> ('w, unit) io"
  DescribeLoadBalancerAttributesWithContext :: "string option \<Rightarrow> ('w, SdkTag list) io"
  ModifyLoadBalancerAttributesWithContext :: "string option \<Rightarrow> SdkTag list \<Rightarrow> ('w, unit) io"
  CreateListenerWithContext :: "CreateListenerInput \<Rightarrow> ('w, SdkListener list) io"
  ModifyListenerWithContext :: "ModifyListenerInput \<Rightarrow> ('w, unit) io"
  DeleteListenerWithContext :: "string option \<Rightarrow> ('w, unit) io"
  DescribeListenerCertificatesAsList :: "string option \<Rightarrow> ('w, SdkCertificate list) io"
  AddListenerCertificatesWithContext :: "string option \<Rightarrow> SdkCertificate list \<Rightarrow> ('w, unit) io"
  RemoveListenerCertificatesWithContext :: "string option \<Rightarrow> SdkCertificate list \<Rightarrow> ('w, unit) io"
  CreateRuleWithContext :: "CreateRuleInput \<Rightarrow> ('w, SdkRule list) io"
  ModifyRuleWithContext :: "ModifyRuleInput \<Rightarrow> ('w, unit) io"
  DeleteRuleWithContext :: "string option \<Rightarrow> ('w, unit) io"

text \<open>Element 0 of a response; the program panics on an empty one.\<close>

definition first_of :: "'a list \<Rightarrow> 'a result" where
  "first_of xs = (case xs of [] \<Rightarrow> Inl (Errorf ''index out of range [0] with length 0'' []) | x # _ \<Rightarrow> Inr x)"

end
