(* ===== verification/Networking_SG.thy ===== *)
theory Networking_SG
  imports Algorithm Feature_Gates
begin

text \<open>
  Security groups of \<^verbatim>\<open>pkg/networking\<close>: the permissions of a group and their labels
  (\<^verbatim>\<open>security_group_info.go\<close>), the access to EC2 through a cache (\<^verbatim>\<open>security_group_manager.go\<close>) and
  the reconciliation of ingress rules (\<^verbatim>\<open>security_group_reconciler.go\<close>). The EC2 client and the
  expiring cache of the Kubernetes library are parameters, as is \<^verbatim>\<open>json.Marshal\<close>.
\<close>

section \<open>Structures of the EC2 SDK\<close>

record Ec2Tag =
  ec2TagKey :: "string option"
  ec2TagValue :: "string option"

record SdkIpRange =
  sirCidrIp :: "string option"
  sirDescription :: "string option"

record SdkIpv6Range =
  si6CidrIpv6 :: "string option"
  si6Description :: "string option"

record SdkPrefixListId =
  splPrefixListId :: "string option"
  splDescription :: "string option"

record SdkUserIdGroupPair =
  sugGroupId :: "string option"
  sugDescription :: "string option"

record SdkIpPermission =
  sipIpProtocol :: "string option"
  sipFromPort :: "int option"
  sipToPort :: "int option"
  sipIpRanges :: "SdkIpRange list"
  sipIpv6Ranges :: "SdkIpv6Range list"
  sipPrefixListIds :: "SdkPrefixListId list"
  sipUserIdGroupPairs :: "SdkUserIdGroupPair list"

record SdkSecurityGroup =
  ssgGroupId :: "string option"
  ssgIpPermissions :: "SdkIpPermission list"
  ssgTags :: "Ec2Tag list"

record Ec2Filter =
  ec2FilterName :: string
  ec2FilterValues :: "string list"

record DescribeSecurityGroupsInput =
  dsgGroupIds :: "string list"
  dsgFilters :: "Ec2Filter list"

record CreateSecurityGroupInput =
  csgVpcId :: "string option"
  csgGroupName :: "string option"
  csgDescription :: "string option"
  csgTags :: "Ec2Tag list"

record 'w EC2 =
  DescribeSecurityGroupsAsList :: "DescribeSecurityGroupsInput \<Rightarrow> ('w, SdkSecurityGroup list) io"
  AuthorizeSecurityGroupIngressWithContext :: "string \<Rightarrow> SdkIpPermission list \<Rightarrow> ('w, unit) io"
  RevokeSecurityGroupIngressWithContext :: "string \<Rightarrow> SdkIpPermission list \<Rightarrow> ('w, unit) io"
  CreateTagsWithContext :: "string \<Rightarrow> Ec2Tag list \<Rightarrow> ('w, unit) io"
  DeleteTagsWithContext :: "string \<Rightarrow> Ec2Tag list \<Rightarrow> ('w, unit) io"
  CreateSecurityGroupWithContext :: "CreateSecurityGroupInput \<Rightarrow> ('w, string option) io"
  DeleteSecurityGroupWithContext :: "string \<Rightarrow> ('w, unit) io"

section \<open>Permissions\<close>

definition labelKeyRawDescription :: string where
  "labelKeyRawDescription = ''raw/description''"

record IPPermissionInfo =
  Permission :: SdkIpPermission
  Labels :: "string_map option"

record SecurityGroupInfo =
  SecurityGroupID :: string
  sgiIngress :: "IPPermissionInfo list"
  sgiTags :: "string_map option"

definition HashCode :: "(SdkIpPermission \<Rightarrow> string) \<Rightarrow> IPPermissionInfo \<Rightarrow> string" where
  "HashCode marshal perm =
     (let p = Permission perm;
          base = ''IpProtocol: '' @ StringValue (sipIpProtocol p) @ '', FromPort: '' @
            Itoa (Int64Value (sipFromPort p)) @ '', ToPort: '' @ Itoa (Int64Value (sipToPort p))
      in if length (sipIpRanges p) = 1 then
           base @ '', IpRange: '' @ StringValue (sirCidrIp (hd (sipIpRanges p)))
         else if length (sipIpv6Ranges p) = 1 then
           base @ '', Ipv6Range: '' @ StringValue (si6CidrIpv6 (hd (sipIpv6Ranges p)))
         else if length (sipPrefixListIds p) = 1 then
           base @ '', PrefixListId: '' @ StringValue (splPrefixListId (hd (sipPrefixListIds p)))
         else if length (sipUserIdGroupPairs p) = 1 then
           base @ '', UserIdGroupPair: '' @ StringValue (sugGroupId (hd (sipUserIdGroupPairs p)))
         else marshal p)"

text \<open>
  The pattern \<^verbatim>\<open>([^\s,=]+)=([^\s,=]+)(?:,|$)\<close>, all matches from left to right. The runs are
  maximal: neither the equals sign nor the end of a value belongs to the character class.
\<close>

definition label_char :: "char \<Rightarrow> bool" where
  "label_char c \<longleftrightarrow> c \<notin> {CHR 0x09, CHR 0x0A, CHR 0x0C, CHR 0x0D, CHR '' '', CHR '','', CHR ''=''}"

function commaSeparatedKVPairs :: "string \<Rightarrow> (string \<times> string) list" where
  "commaSeparatedKVPairs [] = []"
| "commaSeparatedKVPairs (c # s) =
     (let k = takeWhile label_char (c # s); r1 = dropWhile label_char (c # s);
          v = takeWhile label_char (tl r1); r3 = dropWhile label_char (tl r1)
      in if k \<noteq> [] \<and> r1 \<noteq> [] \<and> hd r1 = CHR ''='' \<and> v \<noteq> [] \<and> (r3 = [] \<or> hd r3 = CHR '','')
         then (k, v) # commaSeparatedKVPairs (tl r3)
         else commaSeparatedKVPairs s)"
  by pat_completeness auto

termination
proof (relation "measure length", goal_cases)
  case (2 c s k r1 v r3)
  have "length r1 \<le> length (c # s)" using 2(2) length_dropWhile_le by metis
  moreover have "length (tl r3) \<le> length (tl r1)"
    using 2(4) length_dropWhile_le [of label_char "tl r1"] by simp
  moreover have "r1 \<noteq> []" using 2(5) by blast
  ultimately show ?case by (cases r1) auto
qed auto

definition buildIPPermissionLabelsForDescription :: "string \<Rightarrow> string_map" where
  "buildIPPermissionLabelsForDescription description =
     put_all (commaSeparatedKVPairs description) [(labelKeyRawDescription, description)]"

definition buildIPPermissionDescriptionForLabels :: "(string set \<Rightarrow> string list) \<Rightarrow> string_map \<Rightarrow> string" where
  "buildIPPermissionDescriptionForLabels List labels =
     (case map_of labels labelKeyRawDescription of
        Some rawDescription \<Rightarrow> rawDescription
      | None \<Rightarrow>
          strings_Join (map (\<lambda>key. key @ ''='' @ gomap_index [] labels key)
            (List (set (gomap_keys labels)))) '','')"

definition NewIPPermissionLabelsForRawDescription :: "string \<Rightarrow> string_map" where
  "NewIPPermissionLabelsForRawDescription description = [(labelKeyRawDescription, description)]"

definition base_permission :: "string option \<Rightarrow> int option \<Rightarrow> int option \<Rightarrow> SdkIpPermission" where
  "base_permission ipProtocol fromPort toPort =
     \<lparr>sipIpProtocol = ipProtocol, sipFromPort = fromPort, sipToPort = toPort, sipIpRanges = [],
      sipIpv6Ranges = [], sipPrefixListIds = [], sipUserIdGroupPairs = []\<rparr>"

definition NewCIDRIPPermission ::
  "(string set \<Rightarrow> string list) \<Rightarrow> string \<Rightarrow> int option \<Rightarrow> int option \<Rightarrow> string \<Rightarrow> string_map \<Rightarrow> IPPermissionInfo" where
  "NewCIDRIPPermission List ipProtocol fromPort toPort cidr labels =
     \<lparr>Permission = (base_permission (Some ipProtocol) fromPort toPort)
        \<lparr>sipIpRanges := [\<lparr>sirCidrIp = Some cidr,
           sirDescription = Some (buildIPPermissionDescriptionForLabels List labels)\<rparr>]\<rparr>,
      Labels = Some labels\<rparr>"

definition NewCIDRv6IPPermission ::
  "(string set \<Rightarrow> string list) \<Rightarrow> string \<Rightarrow> int option \<Rightarrow> int option \<Rightarrow> string \<Rightarrow> string_map \<Rightarrow> IPPermissionInfo" where
  "NewCIDRv6IPPermission List ipProtocol fromPort toPort cidrV6 labels =
     \<lparr>Permission = (base_permission (Some ipProtocol) fromPort toPort)
        \<lparr>sipIpv6Ranges := [\<lparr>si6CidrIpv6 = Some cidrV6,
           si6Description = Some (buildIPPermissionDescriptionForLabels List labels)\<rparr>]\<rparr>,
      Labels = Some labels\<rparr>"

definition NewGroupIDIPPermission ::
  "(string set \<Rightarrow> string list) \<Rightarrow> string \<Rightarrow> int option \<Rightarrow> int option \<Rightarrow> string \<Rightarrow> string_map \<Rightarrow> IPPermissionInfo" where
  "NewGroupIDIPPermission List ipProtocol fromPort toPort groupID labels =
     \<lparr>Permission = (base_permission (Some ipProtocol) fromPort toPort)
        \<lparr>sipUserIdGroupPairs := [\<lparr>sugGroupId = Some groupID,
           sugDescription = Some (buildIPPermissionDescriptionForLabels List labels)\<rparr>]\<rparr>,
      Labels = Some labels\<rparr>"

definition NewPrefixListIDPermission ::
  "(string set \<Rightarrow> string list) \<Rightarrow> string \<Rightarrow> int option \<Rightarrow> int option \<Rightarrow> string \<Rightarrow> string_map \<Rightarrow> IPPermissionInfo" where
  "NewPrefixListIDPermission List ipProtocol fromPort toPort prefixListID labels =
     \<lparr>Permission = (base_permission (Some ipProtocol) fromPort toPort)
        \<lparr>sipPrefixListIds := [\<lparr>splPrefixListId = Some prefixListID,
           splDescription = Some (buildIPPermissionDescriptionForLabels List labels)\<rparr>]\<rparr>,
      Labels = Some labels\<rparr>"

definition NewRawIPPermission :: "SdkIpPermission \<Rightarrow> IPPermissionInfo" where
  "NewRawIPPermission p =
     (if length (sipIpRanges p) = 1 then
        \<lparr>Permission = p, Labels = Some (buildIPPermissionLabelsForDescription
           (StringValue (sirDescription (hd (sipIpRanges p)))))\<rparr>
      else if length (sipIpv6Ranges p) = 1 then
        \<lparr>Permission = p, Labels = Some (buildIPPermissionLabelsForDescription
           (StringValue (si6Description (hd (sipIpv6Ranges p)))))\<rparr>
      else if length (sipPrefixListIds p) = 1 then
        \<lparr>Permission = p, Labels = Some (buildIPPermissionLabelsForDescription
           (StringValue (splDescription (hd (sipPrefixListIds p)))))\<rparr>
      else if length (sipUserIdGroupPairs p) = 1 then
        \<lparr>Permission = p, Labels = Some (buildIPPermissionLabelsForDescription
           (StringValue (sugDescription (hd (sipUserIdGroupPairs p)))))\<rparr>
      else \<lparr>Permission = p, Labels = None\<rparr>)"

definition buildSecurityGroupTags :: "SdkSecurityGroup \<Rightarrow> string_map" where
  "buildSecurityGroupTags sdkSG =
     put_all (map (\<lambda>tag. (StringValue (ec2TagKey tag), StringValue (ec2TagValue tag))) (ssgTags sdkSG)) []"

definition expandSDKIPPermission :: "SdkIpPermission \<Rightarrow> SdkIpPermission list" where
  "expandSDKIPPermission p =
     (let base = base_permission (sipIpProtocol p) (sipFromPort p) (sipToPort p);
          expanded =
            map (\<lambda>r. base\<lparr>sipIpRanges := [r]\<rparr>) (sipIpRanges p) @
            map (\<lambda>r. base\<lparr>sipIpv6Ranges := [r]\<rparr>) (sipIpv6Ranges p) @
            map (\<lambda>r. base\<lparr>sipPrefixListIds := [r]\<rparr>) (sipPrefixListIds p) @
            map (\<lambda>r. base\<lparr>sipUserIdGroupPairs := [r]\<rparr>) (sipUserIdGroupPairs p)
      in if expanded = [] then [p] else expanded)"

definition NewRawSecurityGroupInfo :: "SdkSecurityGroup \<Rightarrow> SecurityGroupInfo" where
  "NewRawSecurityGroupInfo sdkSG =
     \<lparr>SecurityGroupID = StringValue (ssgGroupId sdkSG),
      sgiIngress = concat (map (\<lambda>p. map NewRawIPPermission (expandSDKIPPermission p)) (ssgIpPermissions sdkSG)),
      sgiTags = Some (buildSecurityGroupTags sdkSG)\<rparr>"

section \<open>The security group manager\<close>

text \<open>The expiring cache: reading, storing with the time to live, deleting.\<close>

record 'w sg_cache =
  cacheGet :: "string \<Rightarrow> 'w \<Rightarrow> SecurityGroupInfo option"
  cacheSet :: "string \<Rightarrow> SecurityGroupInfo \<Rightarrow> 'w \<Rightarrow> 'w"
  cacheDelete :: "string \<Rightarrow> 'w \<Rightarrow> 'w"

definition fetchSGInfosFromCache :: "'w sg_cache \<Rightarrow> string list \<Rightarrow> 'w \<Rightarrow> (string, SecurityGroupInfo) gomap" where
  "fetchSGInfosFromCache cache sgIDs w =
     fold (\<lambda>sgID m. case cacheGet cache sgID w of None \<Rightarrow> m | Some sgInfo \<Rightarrow> AList.update sgID sgInfo m)
       sgIDs []"

definition saveSGInfosToCache :: "'w sg_cache \<Rightarrow> (string, SecurityGroupInfo) gomap \<Rightarrow> 'w \<Rightarrow> 'w" where
  "saveSGInfosToCache cache sgInfoByID w = fold (\<lambda>(sgID, sgInfo). cacheSet cache sgID sgInfo) sgInfoByID w"

definition clearSGInfosFromCache :: "'w sg_cache \<Rightarrow> string \<Rightarrow> 'w \<Rightarrow> 'w" where
  "clearSGInfosFromCache cache sgID = cacheDelete cache sgID"

definition fetchSGInfosFromAWS ::
  "'w EC2 \<Rightarrow> DescribeSecurityGroupsInput \<Rightarrow> ('w, (string, SecurityGroupInfo) gomap) io" where
  "fetchSGInfosFromAWS ec2 req =
     io_bind (DescribeSecurityGroupsAsList ec2 req) (\<lambda>sgs.
       io_return (put_all (map (\<lambda>sg. (StringValue (ssgGroupId sg), NewRawSecurityGroupInfo sg)) sgs) []))"

definition FetchSGInfosByID ::
  "(string set \<Rightarrow> string list) \<Rightarrow> ((string, SecurityGroupInfo) gomap \<Rightarrow> (string, SecurityGroupInfo) gomap) \<Rightarrow>
   'w EC2 \<Rightarrow> 'w sg_cache \<Rightarrow> string list \<Rightarrow> bool \<Rightarrow> ('w, (string, SecurityGroupInfo) gomap) io" where
  "FetchSGInfosByID List order ec2 cache sgIDs reloadIgnoringCache w =
     (let sgInfoByID = (if \<not> reloadIgnoringCache then put_all (fetchSGInfosFromCache cache sgIDs w) [] else []);
          sgIDsSet = set sgIDs;
          unFetchedSGIDs = List (sgIDsSet - set (gomap_keys sgInfoByID))
      in io_bind
           (if unFetchedSGIDs \<noteq> [] then
              io_bind (fetchSGInfosFromAWS ec2 \<lparr>dsgGroupIds = unFetchedSGIDs, dsgFilters = []\<rparr>) (\<lambda>fromAWS w.
                (Inr (put_all fromAWS sgInfoByID), saveSGInfosToCache cache (order fromAWS) w))
            else io_return sgInfoByID)
           (\<lambda>sgInfoByID.
              if sgIDsSet \<noteq> set (gomap_keys sgInfoByID) then
                io_fail (Errorf ''couldn't fetch SecurityGroupInfos: %v''
                  (List (sgIDsSet - set (gomap_keys sgInfoByID))))
              else io_return sgInfoByID) w)"

definition FetchSGInfosByRequest ::
  "((string, SecurityGroupInfo) gomap \<Rightarrow> (string, SecurityGroupInfo) gomap) \<Rightarrow>
   'w EC2 \<Rightarrow> 'w sg_cache \<Rightarrow> DescribeSecurityGroupsInput \<Rightarrow> ('w, (string, SecurityGroupInfo) gomap) io" where
  "FetchSGInfosByRequest order ec2 cache req =
     io_bind (fetchSGInfosFromAWS ec2 req) (\<lambda>sgInfosByID w.
       (Inr sgInfosByID, saveSGInfosToCache cache (order sgInfosByID) w))"

definition buildSDKIPPermissions :: "IPPermissionInfo list \<Rightarrow> SdkIpPermission list" where
  "buildSDKIPPermissions permissions = map Permission permissions"

definition AuthorizeSGIngress ::
  "'w EC2 \<Rightarrow> 'w sg_cache \<Rightarrow> string \<Rightarrow> IPPermissionInfo list \<Rightarrow> ('w, unit) io" where
  "AuthorizeSGIngress ec2 cache sgID permissions =
     io_bind (AuthorizeSecurityGroupIngressWithContext ec2 sgID (buildSDKIPPermissions permissions))
       (\<lambda>_ w. (Inr (), clearSGInfosFromCache cache sgID w))"

definition RevokeSGIngress ::
  "'w EC2 \<Rightarrow> 'w sg_cache \<Rightarrow> string \<Rightarrow> IPPermissionInfo list \<Rightarrow> ('w, unit) io" where
  "RevokeSGIngress ec2 cache sgID permissions =
     io_bind (RevokeSecurityGroupIngressWithContext ec2 sgID (buildSDKIPPermissions permissions))
       (\<lambda>_ w. (Inr (), clearSGInfosFromCache cache sgID w))"

section \<open>The security group reconciler\<close>

text \<open>The interface of the manager the reconciler uses.\<close>

record 'w SecurityGroupManager =
  sgmFetchSGInfosByID :: "string list \<Rightarrow> bool \<Rightarrow> ('w, (string, SecurityGroupInfo) gomap) io"
  sgmAuthorizeSGIngress :: "string \<Rightarrow> IPPermissionInfo list \<Rightarrow> ('w, unit) io"
  sgmRevokeSGIngress :: "string \<Rightarrow> IPPermissionInfo list \<Rightarrow> ('w, unit) io"

definition defaultSecurityGroupManager ::
  "(string set \<Rightarrow> string list) \<Rightarrow> ((string, SecurityGroupInfo) gomap \<Rightarrow> (string, SecurityGroupInfo) gomap) \<Rightarrow>
   'w EC2 \<Rightarrow> 'w sg_cache \<Rightarrow> 'w SecurityGroupManager" where
  "defaultSecurityGroupManager List order ec2 cache =
     \<lparr>sgmFetchSGInfosByID = FetchSGInfosByID List order ec2 cache,
      sgmAuthorizeSGIngress = AuthorizeSGIngress ec2 cache,
      sgmRevokeSGIngress = RevokeSGIngress ec2 cache\<rparr>"

record SecurityGroupReconcileOptions =
  PermissionSelector :: "string_map \<Rightarrow> bool"
  AuthorizeOnly :: bool

definition diffIPPermissionInfos ::
  "(string set \<Rightarrow> string list) \<Rightarrow> (SdkIpPermission \<Rightarrow> string) \<Rightarrow> IPPermissionInfo list \<Rightarrow> IPPermissionInfo list \<Rightarrow>
   IPPermissionInfo list" where
  "diffIPPermissionInfos List marshal source target =
     (let sourceByHashCode = index_by (HashCode marshal) source;
          targetByHashCode = index_by (HashCode marshal) target
      in List.map_filter (map_of sourceByHashCode)
           (List (set (gomap_keys sourceByHashCode) - set (gomap_keys targetByHashCode))))"

definition reconcileIngressWithSGInfo ::
  "(string set \<Rightarrow> string list) \<Rightarrow> (SdkIpPermission \<Rightarrow> string) \<Rightarrow> 'w SecurityGroupManager \<Rightarrow>
   SecurityGroupInfo \<Rightarrow> IPPermissionInfo list \<Rightarrow> SecurityGroupReconcileOptions \<Rightarrow> ('w, unit) io" where
  "reconcileIngressWithSGInfo List marshal sgManager sgInfo desiredPermissions opts =
     (let extraPermissions = diffIPPermissionInfos List marshal (sgiIngress sgInfo) desiredPermissions;
          permissionsToRevoke = filter (\<lambda>p. PermissionSelector opts (nil_map (Labels p))) extraPermissions;
          permissionsToGrant = diffIPPermissionInfos List marshal desiredPermissions (sgiIngress sgInfo)
      in io_bind
           (if permissionsToRevoke \<noteq> [] \<and> \<not> AuthorizeOnly opts
            then sgmRevokeSGIngress sgManager (SecurityGroupID sgInfo) permissionsToRevoke
            else io_return ())
           (\<lambda>_. if permissionsToGrant \<noteq> []
             then sgmAuthorizeSGIngress sgManager (SecurityGroupID sgInfo) permissionsToGrant
             else io_return ()))"

definition shouldRetryWithoutCache :: "go_error \<Rightarrow> bool" where
  "shouldRetryWithoutCache err =
     (case as_aws_error err of
        None \<Rightarrow> False
      | Some (code, msg) \<Rightarrow> code = ''InvalidPermission.Duplicate'' \<or> code = ''InvalidPermission.NotFound'')"

text \<open>The zero value of \<^verbatim>\<open>SecurityGroupInfo\<close>, read for a missing key.\<close>

definition zero_SecurityGroupInfo :: SecurityGroupInfo where
  "zero_SecurityGroupInfo = \<lparr>SecurityGroupID = [], sgiIngress = [], sgiTags = None\<rparr>"

definition ReconcileIngress ::
  "(string set \<Rightarrow> string list) \<Rightarrow> (SdkIpPermission \<Rightarrow> string) \<Rightarrow> 'w SecurityGroupManager \<Rightarrow>
   string \<Rightarrow> IPPermissionInfo list \<Rightarrow> SecurityGroupReconcileOptions \<Rightarrow> ('w, unit) io" where
  "ReconcileIngress List marshal sgManager sgID desiredPermissions opts =
     io_bind (sgmFetchSGInfosByID sgManager [sgID] False) (\<lambda>sgInfoByID w.
       case reconcileIngressWithSGInfo List marshal sgManager
              (gomap_index zero_SecurityGroupInfo sgInfoByID sgID) desiredPermissions opts w of
         (Inr _, w') \<Rightarrow> (Inr (), w')
       | (Inl err, w') \<Rightarrow>
           if \<not> shouldRetryWithoutCache err then (Inl err, w')
           else
             io_bind (sgmFetchSGInfosByID sgManager [sgID] True) (\<lambda>sgInfoByID.
               reconcileIngressWithSGInfo List marshal sgManager
                 (gomap_index zero_SecurityGroupInfo sgInfoByID sgID) desiredPermissions opts) w')"

section \<open>Labels and descriptions\<close>

definition label_word :: "string \<Rightarrow> bool" where
  "label_word w \<longleftrightarrow> w \<noteq> [] \<and> (\<forall>c\<in>set w. label_char c)"

lemma label_word_span:
  assumes "label_word w" "s = [] \<or> \<not> label_char (hd s)"
  shows "takeWhile label_char (w @ s) = w" "dropWhile label_char (w @ s) = s"
proof -
  have "takeWhile label_char s = [] \<and> dropWhile label_char s = s" using assms(2) by (cases s) auto
  moreover have "takeWhile label_char (w @ s) = w @ takeWhile label_char s"
    "dropWhile label_char (w @ s) = dropWhile label_char s"
    using assms(1) by (simp_all add: label_word_def)
  ultimately show "takeWhile label_char (w @ s) = w" "dropWhile label_char (w @ s) = s" by simp_all
qed

lemma not_label_char [simp]: "\<not> label_char CHR ''=''" "\<not> label_char CHR '',''"
  by (simp_all add: label_char_def)

lemma commaSeparatedKVPairs_pair:
  assumes "label_word k" "label_word v" "s = [] \<or> hd s = CHR '',''"
  shows "commaSeparatedKVPairs (k @ ''='' @ v @ s) = (k, v) # commaSeparatedKVPairs (tl s)"
proof -
  have s: "s = [] \<or> \<not> label_char (hd s)" using assms(3) by auto
  obtain c k' where k: "k = c # k'" using assms(1) by (cases k) (auto simp: label_word_def)
  have "takeWhile label_char (c # k' @ ''='' @ v @ s) = k"
    "dropWhile label_char (c # k' @ ''='' @ v @ s) = ''='' @ v @ s"
    using label_word_span [OF assms(1), of "''='' @ v @ s"] k by simp_all
  moreover have "takeWhile label_char (tl (''='' @ v @ s)) = v"
    "dropWhile label_char (tl (''='' @ v @ s)) = s"
    using label_word_span [OF assms(2) s] by simp_all
  moreover have "k \<noteq> []" "v \<noteq> []" using assms(1,2) by (auto simp: label_word_def)
  ultimately have "commaSeparatedKVPairs (c # k' @ ''='' @ v @ s) = (k, v) # commaSeparatedKVPairs (tl s)"
    using assms(3) by (simp only: commaSeparatedKVPairs.simps Let_def) simp
  then show ?thesis using k by simp
qed

lemma commaSeparatedKVPairs_Join:
  assumes "\<forall>k\<in>set ks. label_word k \<and> label_word (f k)"
  shows "commaSeparatedKVPairs (strings_Join (map (\<lambda>k. k @ ''='' @ f k) ks) '','') = map (\<lambda>k. (k, f k)) ks"
  using assms
proof (induction ks)
  case (Cons k ks)
  then have k: "label_word k" "label_word (f k)" by auto
  show ?case
  proof (cases ks)
    case Nil
    then show ?thesis using commaSeparatedKVPairs_pair [OF k, of "[]"] by simp
  next
    case (Cons k' ks')
    let ?rest = "strings_Join (map (\<lambda>k. k @ ''='' @ f k) ks) '',''"
    have "strings_Join (map (\<lambda>k. k @ ''='' @ f k) (k # ks)) '','' = k @ ''='' @ f k @ '','' @ ?rest"
      using Cons by simp
    then show ?thesis
      using commaSeparatedKVPairs_pair [OF k, of "'','' @ ?rest"] Cons.IH Cons.prems by simp
  qed
qed simp

lemma map_of_map_index:
  "map_of (map (\<lambda>k. (k, gomap_index z m k)) ks) k = (if k \<in> set ks then Some (gomap_index z m k) else None)"
  by (induction ks) auto

lemma gomap_wf_map_keys: "gomap_wf (map (\<lambda>k. (k, f k)) ks) \<longleftrightarrow> distinct ks"
  by (simp add: gomap_wf_def comp_def)

lemma labels_of_description:
  assumes "lists_sorted List" "map_of labels labelKeyRawDescription = None"
    and "\<forall>(k, v)\<in>set labels. label_word k \<and> label_word v"
  shows "map_of (buildIPPermissionLabelsForDescription (buildIPPermissionDescriptionForLabels List labels)) =
     (map_of labels)(labelKeyRawDescription \<mapsto> buildIPPermissionDescriptionForLabels List labels)"
proof -
  let ?ks = "List (set (gomap_keys labels))"
  let ?d = "buildIPPermissionDescriptionForLabels List labels"
  have ks: "set ?ks = set (gomap_keys labels)" "distinct ?ks"
    using lists_sortedD [OF assms(1)] by simp_all
  have "label_word k \<and> label_word (gomap_index [] labels k)" if k: "k \<in> set (gomap_keys labels)" for k
  proof -
    obtain v where "map_of labels k = Some v" using k by (auto simp: gomap_keys_map_of)
    then show ?thesis using assms(3) by (auto simp: gomap_index_def dest!: map_of_SomeD)
  qed
  then have "commaSeparatedKVPairs ?d = map (\<lambda>k. (k, gomap_index [] labels k)) ?ks"
    using commaSeparatedKVPairs_Join [of ?ks "gomap_index [] labels"] ks(1) assms(2)
    by (simp add: buildIPPermissionDescriptionForLabels_def)
  moreover have "map_of (map (\<lambda>k. (k, gomap_index [] labels k)) ?ks) k = map_of labels k" for k
    unfolding map_of_map_index ks(1) gomap_keys_map_of by (auto simp: gomap_index_def)
  moreover have "gomap_wf (map (\<lambda>k. (k, gomap_index [] labels k)) ?ks)"
    using ks(2) by (simp add: gomap_wf_map_keys)
  ultimately show ?thesis using assms(2)
    by (auto simp: buildIPPermissionLabelsForDescription_def put_all_get map_add_def fun_eq_iff
        split: option.splits)
qed

text \<open>C32: The controller recognises the ingress rules it authorised. Take a rule created with a CIDR,
  an IPv6 CIDR, a security group or a prefix list and with labels whose keys and values are
  words (not empty, without white space, comma or equals sign). When EC2 returns that rule, it
  needs no expansion, and the labels the controller reads back from its description are the
  labels the rule was created with, plus the raw description.\<close>

theorem created_permission_labels_roundtrip:
  assumes "lists_sorted List" "map_of labels labelKeyRawDescription = None"
    and "\<forall>(k, v)\<in>set labels. label_word k \<and> label_word v"
    and "perm \<in> {NewCIDRIPPermission List proto from to src labels,
      NewCIDRv6IPPermission List proto from to src labels,
      NewGroupIDIPPermission List proto from to src labels,
      NewPrefixListIDPermission List proto from to src labels}"
  shows "\<exists>labels'. map NewRawIPPermission (expandSDKIPPermission (Permission perm)) =
       [\<lparr>Permission = Permission perm, Labels = Some labels'\<rparr>] \<and>
     map_of labels' = (map_of labels)
       (labelKeyRawDescription \<mapsto> buildIPPermissionDescriptionForLabels List labels)"
proof -
  let ?l = "buildIPPermissionLabelsForDescription (buildIPPermissionDescriptionForLabels List labels)"
  have "map NewRawIPPermission (expandSDKIPPermission (Permission perm)) =
       [\<lparr>Permission = Permission perm, Labels = Some ?l\<rparr>]"
    using assms(4)
    by (auto simp: expandSDKIPPermission_def NewRawIPPermission_def base_permission_def
        NewCIDRIPPermission_def NewCIDRv6IPPermission_def NewGroupIDIPPermission_def
        NewPrefixListIDPermission_def)
  then show ?thesis using labels_of_description [OF assms(1-3)] by (intro exI conjI)
qed

theorem created_permission_labels_roundtrip_witness:
  "\<exists>labels'. map NewRawIPPermission (expandSDKIPPermission (Permission
      (NewGroupIDIPPermission sorted_list_of_set ''tcp'' (Some 80) (Some 80) ''sg-1''
        [(''elbv2.k8s.aws/targetGroupBinding'', ''shared'')]))) =
       [\<lparr>Permission = Permission (NewGroupIDIPPermission sorted_list_of_set ''tcp'' (Some 80) (Some 80) ''sg-1''
          [(''elbv2.k8s.aws/targetGroupBinding'', ''shared'')]), Labels = Some labels'\<rparr>] \<and>
     map_of labels' ''elbv2.k8s.aws/targetGroupBinding'' = Some ''shared''"
proof -
  let ?ls = "[(''elbv2.k8s.aws/targetGroupBinding'', ''shared'')]"
  have raw: "map_of ?ls labelKeyRawDescription = None" by (simp add: labelKeyRawDescription_def)
  have ok: "\<forall>(k, v)\<in>set ?ls. label_word k \<and> label_word v"
    by (simp add: label_word_def label_char_def)
  show ?thesis
    using created_permission_labels_roundtrip [OF sorted_list_of_set_lists_sorted raw ok,
      of "NewGroupIDIPPermission sorted_list_of_set ''tcp'' (Some 80) (Some 80) ''sg-1'' ?ls"
         "''tcp''" "Some 80" "Some 80" "''sg-1''"]
    by (auto simp: labelKeyRawDescription_def)
qed

section \<open>Reconciliation\<close>

lemma diff_subset: "lists_sorted List \<Longrightarrow> set (diffIPPermissionInfos List marshal src tgt) \<subseteq> set src"
  by (auto simp: diffIPPermissionInfos_def Let_def set_map_filter dest: index_by_Some)

lemma diff_hash_codes:
  assumes "lists_sorted List"
  shows "HashCode marshal ` set (diffIPPermissionInfos List marshal src tgt) =
     HashCode marshal ` set src - HashCode marshal ` set tgt" (is "?h ` set ?d = ?S - ?T")
proof -
  have mem: "p \<in> set ?d \<longleftrightarrow> (\<exists>h\<in>?S - ?T. map_of (index_by ?h src) h = Some p)" for p
    using lists_sortedD(1) [OF assms, of "?S - ?T"]
    by (simp add: diffIPPermissionInfos_def Let_def set_map_filter index_by_keys)
  show ?thesis
  proof (intro set_eqI iffI)
    fix h assume h: "h \<in> ?S - ?T"
    then obtain p where p: "map_of (index_by ?h src) h = Some p"
      using index_by_None [of ?h src h] by auto
    then have "p \<in> set ?d" "?h p = h" using mem h index_by_Some [OF p] by auto
    then show "h \<in> ?h ` set ?d" by force
  next
    fix h assume "h \<in> ?h ` set ?d"
    then obtain p where p: "h = ?h p" "p \<in> set ?d" by (rule imageE)
    then obtain h' where "h' \<in> ?S - ?T" "map_of (index_by ?h src) h' = Some p"
      unfolding mem by (elim bexE)
    then show "h \<in> ?S - ?T" using index_by_Some [of ?h src h' p] p(1) by simp
  qed
qed

text \<open>The rules that EC2 keeps, as its documentation describes them: a permission stands for one rule per
  source, and a rule is its protocol, its range of ports, which the rules of some protocols do not have, and its
  source. Authorising adds the rules of permissions to the group, revoking removes them, and no
  other group changes.\<close>

datatype rule_source = IPv4Source string | IPv6Source string | PrefixListSource string | GroupSource string

datatype sg_rule = SgRule string "int option" "int option" rule_source

definition rules_of :: "SdkIpPermission \<Rightarrow> sg_rule set" where
  "rules_of q =
     (let rule = SgRule (StringValue (sipIpProtocol q)) (sipFromPort q) (sipToPort q) in
      (\<lambda>r. rule (IPv4Source (StringValue (sirCidrIp r)))) ` set (sipIpRanges q) \<union>
      (\<lambda>r. rule (IPv6Source (StringValue (si6CidrIpv6 r)))) ` set (sipIpv6Ranges q) \<union>
      (\<lambda>l. rule (PrefixListSource (StringValue (splPrefixListId l)))) ` set (sipPrefixListIds q) \<union>
      (\<lambda>g. rule (GroupSource (StringValue (sugGroupId g)))) ` set (sipUserIdGroupPairs q))"

abbreviation rules_of_all :: "IPPermissionInfo set \<Rightarrow> sg_rule set" where
  "rules_of_all P \<equiv> \<Union>p\<in>P. rules_of (Permission p)"

definition ec2_ingress_laws :: "'w EC2 \<Rightarrow> 'w sg_cache \<Rightarrow> ('w \<Rightarrow> string \<Rightarrow> sg_rule set) \<Rightarrow> bool" where
  "ec2_ingress_laws ec2 cache rules \<longleftrightarrow>
     (\<forall>sgID ps w w'. AuthorizeSecurityGroupIngressWithContext ec2 sgID ps w = (Inr (), w') \<longrightarrow>
        rules w' = (rules w)(sgID := rules w sgID \<union> \<Union> (rules_of ` set ps))) \<and>
     (\<forall>sgID ps w w'. RevokeSecurityGroupIngressWithContext ec2 sgID ps w = (Inr (), w') \<longrightarrow>
        rules w' = (rules w)(sgID := rules w sgID - \<Union> (rules_of ` set ps))) \<and>
     (\<forall>sgID w. rules (cacheDelete cache sgID w) = rules w)"

text \<open>Permissions with one source, the form into which \<^verbatim>\<open>expandSDKIPPermission\<close> brings those of a group. The name
  of a protocol has no comma, and decides whether its rules have ports.\<close>

definition plain_permission :: "(string \<Rightarrow> bool) \<Rightarrow> IPPermissionInfo \<Rightarrow> bool" where
  "plain_permission has_ports p \<longleftrightarrow>
     (let q = Permission p; protocol = StringValue (sipIpProtocol q) in
      length (sipIpRanges q) + length (sipIpv6Ranges q) + length (sipPrefixListIds q) + length (sipUserIdGroupPairs q) = 1 \<and>
      CHR '','' \<notin> set protocol \<and> (sipFromPort q \<noteq> None \<longleftrightarrow> has_ports protocol) \<and> (sipToPort q \<noteq> None \<longleftrightarrow> has_ports protocol))"

fun source_text :: "rule_source \<Rightarrow> string" where
  "source_text (IPv4Source cidr) = ''IpRange: '' @ cidr"
| "source_text (IPv6Source cidr) = ''Ipv6Range: '' @ cidr"
| "source_text (PrefixListSource l) = ''PrefixListId: '' @ l"
| "source_text (GroupSource g) = ''UserIdGroupPair: '' @ g"

lemma source_text_inj: "source_text s = source_text t \<longleftrightarrow> s = t"
  by (cases s; cases t) auto

definition rule_text :: "sg_rule \<Rightarrow> string" where
  "rule_text r = (case r of SgRule protocol from to src \<Rightarrow>
     ''IpProtocol: '' @ protocol @ '', FromPort: '' @ Itoa (Int64Value from) @ '', ToPort: '' @ Itoa (Int64Value to) @ '', '' @ source_text src)"

text \<open>The hash code of a permission with one source is a text of its rule, and the text determines the rule.\<close>

lemma plain_rule:
  assumes "plain_permission has_ports p"
  shows "\<exists>src. rules_of (Permission p) =
      {SgRule (StringValue (sipIpProtocol (Permission p))) (sipFromPort (Permission p)) (sipToPort (Permission p)) src} \<and>
    HashCode marshal p =
      rule_text (SgRule (StringValue (sipIpProtocol (Permission p))) (sipFromPort (Permission p)) (sipToPort (Permission p)) src)"
proof -
  let ?q = "Permission p"
  have n: "length (sipIpRanges ?q) + length (sipIpv6Ranges ?q) + length (sipPrefixListIds ?q) + length (sipUserIdGroupPairs ?q) = 1"
    using assms by (simp add: plain_permission_def Let_def)
  note defs = rules_of_def Let_def HashCode_def rule_text_def
  consider (v4) r where "sipIpRanges ?q = [r]" "sipIpv6Ranges ?q = []" "sipPrefixListIds ?q = []" "sipUserIdGroupPairs ?q = []"
    | (v6) r where "sipIpRanges ?q = []" "sipIpv6Ranges ?q = [r]" "sipPrefixListIds ?q = []" "sipUserIdGroupPairs ?q = []"
    | (list) r where "sipIpRanges ?q = []" "sipIpv6Ranges ?q = []" "sipPrefixListIds ?q = [r]" "sipUserIdGroupPairs ?q = []"
    | (group) r where "sipIpRanges ?q = []" "sipIpv6Ranges ?q = []" "sipPrefixListIds ?q = []" "sipUserIdGroupPairs ?q = [r]"
    using n by (auto simp: add_is_1 length_Suc_conv)
  then show ?thesis
  proof cases
    case v4
    then show ?thesis by (intro exI [of _ "IPv4Source (StringValue (sirCidrIp r))"]) (simp add: defs)
  next
    case v6
    then show ?thesis by (intro exI [of _ "IPv6Source (StringValue (si6CidrIpv6 r))"]) (simp add: defs)
  next
    case list
    then show ?thesis by (intro exI [of _ "PrefixListSource (StringValue (splPrefixListId r))"]) (simp add: defs)
  next
    case group
    then show ?thesis by (intro exI [of _ "GroupSource (StringValue (sugGroupId r))"]) (simp add: defs)
  qed
qed

definition the_rule :: "IPPermissionInfo \<Rightarrow> sg_rule" where
  "the_rule p = the_elem (rules_of (Permission p))"

lemma the_rule:
  assumes "plain_permission has_ports p"
  shows "rules_of (Permission p) = {the_rule p}"
proof -
  obtain r where "rules_of (Permission p) = {r}" using plain_rule [OF assms] by blast
  then show ?thesis by (simp add: the_rule_def)
qed

lemma plain_rules_of_all: "\<forall>p\<in>P. plain_permission has_ports p \<Longrightarrow> rules_of_all P = the_rule ` P"
  using the_rule by fast

lemma HashCode_the_rule:
  assumes "plain_permission has_ports p" "plain_permission has_ports q"
  shows "HashCode marshal p = HashCode marshal q \<longleftrightarrow> the_rule p = the_rule q"
proof -
  note wf = assms [unfolded plain_permission_def Let_def]
  let ?P = "Permission p" and ?Q = "Permission q"
  obtain s where s: "rules_of ?P = {SgRule (StringValue (sipIpProtocol ?P)) (sipFromPort ?P) (sipToPort ?P) s}"
    "HashCode marshal p = rule_text (SgRule (StringValue (sipIpProtocol ?P)) (sipFromPort ?P) (sipToPort ?P) s)"
    using plain_rule [OF assms(1), of marshal] by blast
  obtain t where t: "rules_of ?Q = {SgRule (StringValue (sipIpProtocol ?Q)) (sipFromPort ?Q) (sipToPort ?Q) t}"
    "HashCode marshal q = rule_text (SgRule (StringValue (sipIpProtocol ?Q)) (sipFromPort ?Q) (sipToPort ?Q) t)"
    using plain_rule [OF assms(2), of marshal] by blast
  have ports: "Int64Value (sipFromPort ?P) = Int64Value (sipFromPort ?Q) \<longleftrightarrow> sipFromPort ?P = sipFromPort ?Q"
    "Int64Value (sipToPort ?P) = Int64Value (sipToPort ?Q) \<longleftrightarrow> sipToPort ?P = sipToPort ?Q"
    if "StringValue (sipIpProtocol ?P) = StringValue (sipIpProtocol ?Q)"
    using wf that by (cases "sipFromPort ?P"; cases "sipFromPort ?Q"; cases "sipToPort ?P"; cases "sipToPort ?Q"; simp)+
  show ?thesis unfolding s(2) t(2) the_rule_def s(1) t(1) rule_text_def
    using wf ports by (auto simp: append_sep_inj Itoa_no_comma Itoa_inj source_text_inj)
qed

lemma authorize_rules:
  assumes "ec2_ingress_laws ec2 cache rules" "AuthorizeSGIngress ec2 cache sgID ps w = (Inr (), w')"
  shows "rules w' = (rules w)(sgID := rules w sgID \<union> rules_of_all (set ps))"
proof -
  obtain w1 where "AuthorizeSecurityGroupIngressWithContext ec2 sgID (buildSDKIPPermissions ps) w = (Inr (), w1)"
    "w' = cacheDelete cache sgID w1"
    using assms(2) by (auto simp: AuthorizeSGIngress_def clearSGInfosFromCache_def dest!: io_bind_InrD)
  then show ?thesis using assms(1) by (simp add: ec2_ingress_laws_def buildSDKIPPermissions_def)
qed

lemma revoke_rules:
  assumes "ec2_ingress_laws ec2 cache rules" "RevokeSGIngress ec2 cache sgID ps w = (Inr (), w')"
  shows "rules w' = (rules w)(sgID := rules w sgID - rules_of_all (set ps))"
proof -
  obtain w1 where "RevokeSecurityGroupIngressWithContext ec2 sgID (buildSDKIPPermissions ps) w = (Inr (), w1)"
    "w' = cacheDelete cache sgID w1"
    using assms(2) by (auto simp: RevokeSGIngress_def clearSGInfosFromCache_def dest!: io_bind_InrD)
  then show ?thesis using assms(1) by (simp add: ec2_ingress_laws_def buildSDKIPPermissions_def)
qed

lemma reconcile_steps:
  assumes "ec2_ingress_laws ec2 cache rules"
    and "reconcileIngressWithSGInfo List marshal (defaultSecurityGroupManager List order ec2 cache)
           sgInfo desired opts w = (Inr (), w')"
  defines "revoked \<equiv> (if AuthorizeOnly opts then [] else filter (\<lambda>p. PermissionSelector opts (nil_map (Labels p)))
      (diffIPPermissionInfos List marshal (sgiIngress sgInfo) desired))"
  shows "rules w' = (rules w)(SecurityGroupID sgInfo :=
     (rules w (SecurityGroupID sgInfo) - rules_of_all (set revoked)) \<union>
     rules_of_all (set (diffIPPermissionInfos List marshal desired (sgiIngress sgInfo))))"
proof -
  let ?g = "diffIPPermissionInfos List marshal desired (sgiIngress sgInfo)"
  let ?id = "SecurityGroupID sgInfo"
  let ?r = "if revoked \<noteq> [] then RevokeSGIngress ec2 cache ?id revoked else io_return ()"
  let ?a = "if ?g \<noteq> [] then AuthorizeSGIngress ec2 cache ?id ?g else io_return ()"
  have "reconcileIngressWithSGInfo List marshal (defaultSecurityGroupManager List order ec2 cache)
      sgInfo desired opts = io_bind ?r (\<lambda>_. ?a)"
    by (simp add: reconcileIngressWithSGInfo_def Let_def defaultSecurityGroupManager_def revoked_def)
  then have "io_bind ?r (\<lambda>_. ?a) w = (Inr (), w')" using assms(2) by simp
  from io_bind_unitD [OF this] obtain w1 where 1: "?r w = (Inr (), w1)" and 2: "?a w1 = (Inr (), w')"
    by (elim exE conjE)
  have "rules w1 = (rules w)(?id := rules w ?id - rules_of_all (set revoked))"
    using 1 revoke_rules [OF assms(1)] by (cases "revoked = []") (auto simp: io_return_def)
  moreover have "rules w' = (rules w1)(?id := rules w1 ?id \<union> rules_of_all (set ?g))"
    using 2 authorize_rules [OF assms(1)] by (cases "?g = []") (auto simp: io_return_def)
  ultimately show ?thesis by simp
qed

lemma diff_rules:
  assumes "lists_sorted List" "\<forall>p\<in>set src \<union> set tgt. plain_permission has_ports p"
  shows "the_rule ` set (diffIPPermissionInfos List marshal src tgt) = the_rule ` set src - the_rule ` set tgt"
    and "p \<in> set (diffIPPermissionInfos List marshal src tgt) \<Longrightarrow> the_rule p \<notin> the_rule ` set tgt"
proof -
  let ?d = "diffIPPermissionInfos List marshal src tgt" and ?h = "HashCode marshal"
  have sub: "set ?d \<subseteq> set src" by (rule diff_subset [OF assms(1)])
  have h: "?h p = ?h q \<longleftrightarrow> the_rule p = the_rule q" if "p \<in> set src \<union> set tgt" "q \<in> set src \<union> set tgt" for p q
    using HashCode_the_rule assms(2) that by blast
  have mem: "?h p \<in> ?h ` S \<longleftrightarrow> the_rule p \<in> the_rule ` S" if "p \<in> set src \<union> set tgt" "S \<subseteq> set src \<union> set tgt" for p S
    using h that by (auto simp: image_iff subset_iff)
  note d = diff_hash_codes [OF assms(1), of marshal src tgt]
  have in_d: "the_rule p \<in> the_rule ` set ?d \<longleftrightarrow> the_rule p \<notin> the_rule ` set tgt" if "p \<in> set src" for p
  proof -
    have "?h p \<in> ?h ` set ?d \<longleftrightarrow> ?h p \<notin> ?h ` set tgt" unfolding d using that by blast
    then show ?thesis using mem [of p "set ?d"] mem [of p "set tgt"] that sub by (simp add: le_supI1)
  qed
  show "the_rule ` set ?d = the_rule ` set src - the_rule ` set tgt"
  proof (intro set_eqI iffI)
    fix r assume "r \<in> the_rule ` set ?d"
    then obtain p where p: "r = the_rule p" "p \<in> set ?d" by (rule imageE)
    then have "p \<in> set src" using sub by blast
    then show "r \<in> the_rule ` set src - the_rule ` set tgt" using in_d [of p] imageI [OF p(2), of the_rule] p(1) by simp
  next
    fix r assume "r \<in> the_rule ` set src - the_rule ` set tgt"
    then obtain p where "r = the_rule p" "p \<in> set src" "r \<notin> the_rule ` set tgt" by (elim DiffE imageE)
    then show "r \<in> the_rule ` set ?d" using in_d by simp
  qed
  show "the_rule p \<notin> the_rule ` set tgt" if "p \<in> set ?d" using in_d [of p] imageI [OF that, of the_rule] sub that by blast
qed

lemma reconciled_set:
  assumes "inj_on h I"
  shows "h ` I - h ` {p\<in>I. h p \<notin> D \<and> sel p} \<union> (D - h ` I) = D \<union> h ` {p\<in>I. \<not> sel p}"
proof -
  have "h p \<in> h ` {p\<in>I. h p \<notin> D \<and> sel p} \<longleftrightarrow> h p \<notin> D \<and> sel p" if "p \<in> I" for p
    using inj_on_image_mem_iff [OF assms that, of "{p\<in>I. h p \<notin> D \<and> sel p}"] that by auto
  moreover have "h p \<in> h ` {p\<in>I. \<not> sel p} \<longleftrightarrow> \<not> sel p" if "p \<in> I" for p
    using inj_on_image_mem_iff [OF assms that, of "{p\<in>I. \<not> sel p}"] that by auto
  ultimately show ?thesis by blast
qed

text \<open>C31: Reconciling the ingress rules of a security group reaches the desired rules and touches no
  rule it does not manage. Rules are what EC2 keeps, protocol, range of ports and source, whatever the
  controller compares them by. Assume that EC2 behaves as documented, that the information about
  the group is current and lists no rule twice, and that every permission, desired or existing, has one
  source and a protocol whose name has no comma and decides whether there are ports. When the reconciliation
  succeeds, the rules of the group are the desired ones, together with exactly those existing rules that
  the selector does not select, or all existing ones when only authorising; no other group changes.\<close>

theorem ingress_reconciled:
  assumes "lists_sorted List" "ec2_ingress_laws ec2 cache rules"
    and "\<forall>p\<in>set desired \<union> set (sgiIngress sgInfo). plain_permission has_ports p"
    and "distinct (map (\<lambda>p. rules_of (Permission p)) (sgiIngress sgInfo))"
    and "rules w (SecurityGroupID sgInfo) = rules_of_all (set (sgiIngress sgInfo))"
    and "reconcileIngressWithSGInfo List marshal (defaultSecurityGroupManager List order ec2 cache)
           sgInfo desired opts w = (Inr (), w')"
  shows "rules w' = (rules w)(SecurityGroupID sgInfo := rules_of_all (set desired) \<union>
     rules_of_all {p\<in>set (sgiIngress sgInfo). AuthorizeOnly opts \<or> \<not> PermissionSelector opts (nil_map (Labels p))})"
proof -
  let ?I = "sgiIngress sgInfo" and ?D = "the_rule ` set desired"
  let ?x = "diffIPPermissionInfos List marshal ?I desired" and ?g = "diffIPPermissionInfos List marshal desired ?I"
  let ?sel = "\<lambda>p. PermissionSelector opts (nil_map (Labels p))"
  have all: "rules_of_all P = the_rule ` P" if "P \<subseteq> set desired \<union> set ?I" for P
    by (rule plain_rules_of_all) (use assms(3) that in blast)
  have "inj_on (\<lambda>p. rules_of (Permission p)) (set ?I)" using assms(4) by (simp add: distinct_map)
  moreover have "rules_of (Permission p) = {the_rule p}" if "p \<in> set ?I" for p using the_rule assms(3) that by blast
  ultimately have inj: "inj_on the_rule (set ?I)" by (simp add: inj_on_def)
  have grant: "the_rule ` set ?g = ?D - the_rule ` set ?I" by (rule diff_rules(1) [OF assms(1,3)])
  have px: "\<forall>p\<in>set ?I \<union> set desired. plain_permission has_ports p" using assms(3) by blast
  note X = diff_rules [OF assms(1) px, where marshal = marshal]
  have x: "set ?x = {p\<in>set ?I. the_rule p \<notin> ?D}"
  proof (intro set_eqI iffI)
    fix p assume "p \<in> {p\<in>set ?I. the_rule p \<notin> ?D}"
    then have p: "p \<in> set ?I" "the_rule p \<in> the_rule ` set ?x" using X(1) by auto
    then show "p \<in> set ?x" using inj_on_image_mem_iff [OF inj p(1) diff_subset [OF assms(1)]] by blast
  qed (use X(2) diff_subset [OF assms(1)] in blast)
  have sub: "set ?g \<subseteq> set desired" "set ?x \<subseteq> set ?I" by (rule diff_subset [OF assms(1)])+
  show ?thesis
  proof (cases "AuthorizeOnly opts")
    case True
    then show ?thesis unfolding reconcile_steps [OF assms(2,6)] assms(5) using sub grant
      by (simp add: all Un_commute subset_iff)
  next
    case False
    then have "rules w' = (rules w)(SecurityGroupID sgInfo :=
        the_rule ` set ?I - the_rule ` {p\<in>set ?I. the_rule p \<notin> ?D \<and> ?sel p} \<union> (?D - the_rule ` set ?I))"
      unfolding reconcile_steps [OF assms(2,6)] assms(5) using sub by (simp add: all grant subset_iff x)
    then show ?thesis using False unfolding reconciled_set [OF inj] by (simp add: all subset_iff)
  qed
qed

text \<open>An EC2 in memory: the world maps a group to its rules, and nothing is cached.\<close>

definition memory_ec2 :: "(string \<Rightarrow> sg_rule set) EC2" where
  "memory_ec2 =
     \<lparr>DescribeSecurityGroupsAsList = \<lambda>req. io_return [],
      AuthorizeSecurityGroupIngressWithContext = \<lambda>sgID ps w. (Inr (), w(sgID := w sgID \<union> \<Union> (rules_of ` set ps))),
      RevokeSecurityGroupIngressWithContext = \<lambda>sgID ps w. (Inr (), w(sgID := w sgID - \<Union> (rules_of ` set ps))),
      CreateTagsWithContext = \<lambda>_ _. io_return (),
      DeleteTagsWithContext = \<lambda>_ _. io_return (),
      CreateSecurityGroupWithContext = \<lambda>_. io_return None,
      DeleteSecurityGroupWithContext = \<lambda>_. io_return ()\<rparr>"

definition no_cache :: "(string \<Rightarrow> sg_rule set) sg_cache" where
  "no_cache = \<lparr>cacheGet = \<lambda>_ _. None, cacheSet = \<lambda>_ _ w. w, cacheDelete = \<lambda>_ w. w\<rparr>"

lemma memory_ec2_laws: "ec2_ingress_laws memory_ec2 no_cache (\<lambda>w. w)"
  by (simp add: ec2_ingress_laws_def memory_ec2_def no_cache_def)

lemma memory_reconcile_ok:
  "\<exists>w'. reconcileIngressWithSGInfo List m (defaultSecurityGroupManager List order memory_ec2 no_cache)
     sgInfo desired opts w = (Inr (), w')"
  by (simp add: reconcileIngressWithSGInfo_def defaultSecurityGroupManager_def AuthorizeSGIngress_def
      RevokeSGIngress_def memory_ec2_def Let_def io_simps)

text \<open>A group with a rule of the controller on port 80 and a rule of a user on port 22.\<close>

definition example_rule :: "int \<Rightarrow> string_map \<Rightarrow> IPPermissionInfo" where
  "example_rule port labels = NewCIDRIPPermission sorted_list_of_set ''tcp'' (Some port) (Some port) ''10.0.0.0/8'' labels"

definition example_group :: SecurityGroupInfo where
  "example_group = \<lparr>SecurityGroupID = ''sg-1'',
     sgiIngress = [example_rule 80 [(''owner'', ''albc'')], example_rule 22 [(''raw/description'', ''ssh'')]],
     sgiTags = None\<rparr>"

lemma example_rule_facts:
  "rules_of (Permission (example_rule port labels)) = {SgRule ''tcp'' (Some port) (Some port) (IPv4Source ''10.0.0.0/8'')}"
  "plain_permission (\<lambda>_. True) (example_rule port labels)"
  by (simp_all add: rules_of_def plain_permission_def example_rule_def NewCIDRIPPermission_def base_permission_def)

theorem ingress_reconciled_witness:
  "\<exists>w'. reconcileIngressWithSGInfo sorted_list_of_set (\<lambda>_. [])
      (defaultSecurityGroupManager sorted_list_of_set (\<lambda>m. m) memory_ec2 no_cache) example_group
      [example_rule 443 [(''owner'', ''albc'')]]
      \<lparr>PermissionSelector = \<lambda>ls. map_of ls ''owner'' = Some ''albc'', AuthorizeOnly = False\<rparr>
      (\<lambda>_. rules_of_all (set (sgiIngress example_group))) = (Inr (), w') \<and>
    w' ''sg-1'' = {SgRule ''tcp'' (Some 443) (Some 443) (IPv4Source ''10.0.0.0/8''),
      SgRule ''tcp'' (Some 22) (Some 22) (IPv4Source ''10.0.0.0/8'')}"
proof -
  let ?w = "\<lambda>_. rules_of_all (set (sgiIngress example_group))"
  let ?o = "\<lparr>PermissionSelector = \<lambda>ls. map_of ls ''owner'' = Some ''albc'', AuthorizeOnly = False\<rparr>"
  let ?d = "[example_rule 443 [(''owner'', ''albc'')]]"
  obtain w' where run: "reconcileIngressWithSGInfo sorted_list_of_set (\<lambda>_. [])
      (defaultSecurityGroupManager sorted_list_of_set (\<lambda>m. m) memory_ec2 no_cache) example_group ?d ?o ?w = (Inr (), w')"
    using memory_reconcile_ok by blast
  have plain: "\<forall>p\<in>set ?d \<union> set (sgiIngress example_group). plain_permission (\<lambda>_. True) p"
    by (simp add: example_group_def example_rule_facts)
  have dist: "distinct (map (\<lambda>p. rules_of (Permission p)) (sgiIngress example_group))"
    by (simp add: example_group_def example_rule_facts)
  have "w' = ?w(SecurityGroupID example_group := rules_of_all (set ?d) \<union>
      rules_of_all {p\<in>set (sgiIngress example_group). AuthorizeOnly ?o \<or> \<not> PermissionSelector ?o (nil_map (Labels p))})"
    by (rule ingress_reconciled [OF sorted_list_of_set_lists_sorted memory_ec2_laws plain dist _ run]) simp
  moreover have "{p\<in>set (sgiIngress example_group). AuthorizeOnly ?o \<or> \<not> PermissionSelector ?o (nil_map (Labels p))}
      = {example_rule 22 [(''raw/description'', ''ssh'')]}"
    by (auto simp: example_group_def example_rule_def NewCIDRIPPermission_def)
  ultimately have "w' ''sg-1'' = {SgRule ''tcp'' (Some 443) (Some 443) (IPv4Source ''10.0.0.0/8''),
      SgRule ''tcp'' (Some 22) (Some 22) (IPv4Source ''10.0.0.0/8'')}"
    by (simp add: example_group_def example_rule_facts insert_commute)
  then show ?thesis using run by blast
qed

end
