(* ===== verification/Deploy_Match.thy ===== *)
theory Deploy_Match
  imports Tracking Aws_Sdk Networking_SG
begin

text \<open>
  The matching of desired resources with existing objects, at the heart of every synthesizer of
  \<^verbatim>\<open>pkg/deploy\<close>: the functions \<^verbatim>\<open>matchResAnd...\<close> of the target group, load balancer, listener,
  listener rule, target group binding and security group synthesizers. Each returns the matched
  pairs (to update), the unmatched resources (to create) and the unmatched objects (to delete).

  A resource is the pointer to the object of the stack together with its identifier and
  specification, which do not change during a deployment. The parameter \<open>List\<close> is the method
  \<^verbatim>\<open>List\<close> of the sets of the Kubernetes library.
\<close>

section \<open>Resources and existing objects\<close>

record 'spec res =
  rsRef :: ref
  rsID :: string
  rsSpec :: 'spec

section \<open>Matching by one key\<close>

type_synonym ('r, 's) match_result = "('r \<times> 's) list \<times> 'r list \<times> 's list"

definition match_by_key ::
  "('k set \<Rightarrow> 'k list) \<Rightarrow> ('k, 'r) gomap \<Rightarrow> ('k, 's) gomap \<Rightarrow> ('r, 's) match_result" where
  "match_by_key List resByKey sdkByKey =
     (let resKeys = set (gomap_keys resByKey); sdkKeys = set (gomap_keys sdkByKey) in
      (List.map_filter (\<lambda>k. case (map_of resByKey k, map_of sdkByKey k) of
            (Some r, Some s) \<Rightarrow> Some (r, s) | _ \<Rightarrow> None) (List (resKeys \<inter> sdkKeys)),
       List.map_filter (map_of resByKey) (List (resKeys - sdkKeys)),
       List.map_filter (map_of sdkByKey) (List (sdkKeys - resKeys))))"

section \<open>Matching by resource identifier, several objects for one\<close>

text \<open>The loop over the objects with one identifier: the matched pairs, the objects that have to
  be replaced, and whether a match was found.\<close>

fun match_group ::
  "('s \<Rightarrow> 'r \<Rightarrow> bool) \<Rightarrow> 'r \<Rightarrow> 's list \<Rightarrow> ('r \<times> 's) list \<times> 's list \<times> bool" where
  "match_group requiresReplacement r [] = ([], [], False)"
| "match_group requiresReplacement r (s # ss) =
     (let (matched, unmatched, foundMatch) = match_group requiresReplacement r ss in
      if requiresReplacement s r then (matched, s # unmatched, foundMatch)
      else ((r, s) # matched, unmatched, True))"

definition match_by_id ::
  "(string set \<Rightarrow> string list) \<Rightarrow> ('s \<Rightarrow> 'r \<Rightarrow> bool) \<Rightarrow> (string, 'r) gomap \<Rightarrow>
   (string, 's list) gomap \<Rightarrow> ('r, 's) match_result" where
  "match_by_id List requiresReplacement resByID sdkByID =
     (let resIDs = set (gomap_keys resByID); sdkIDs = set (gomap_keys sdkByID);
          groups = List.map_filter (\<lambda>rid. map_option
              (\<lambda>r. (r, match_group requiresReplacement r (gomap_index [] sdkByID rid))) (map_of resByID rid))
            (List (resIDs \<inter> sdkIDs))
      in (concat (map (\<lambda>(r, matched, unmatched, foundMatch). matched) groups),
          map fst (filter (\<lambda>(r, matched, unmatched, foundMatch). \<not> foundMatch) groups) @
            List.map_filter (map_of resByID) (List (resIDs - sdkIDs)),
          concat (map (\<lambda>(r, matched, unmatched, foundMatch). unmatched) groups) @
            concat (map (gomap_index [] sdkByID) (List (sdkIDs - resIDs)))))"

definition map_by_resource_id ::
  "('s \<Rightarrow> string_map) \<Rightarrow> ('s \<Rightarrow> go_error) \<Rightarrow> string \<Rightarrow> 's list \<Rightarrow> (string, 's list) gomap result" where
  "map_by_resource_id tags err resourceIDTagKey sdks =
     result_foldM (\<lambda>m s. case map_of (tags s) resourceIDTagKey of
         None \<Rightarrow> Inl (err s)
       | Some resourceID \<Rightarrow> Inr (AList.update resourceID (gomap_index [] m resourceID @ [s]) m))
       [] sdks"

section \<open>Target groups\<close>

type_synonym ResTG = "TargetGroupSpec res"

definition isSDKTargetGroupRequiresReplacementDueToNLBHealthCheck ::
  "TargetGroupWithTags \<Rightarrow> ResTG \<Rightarrow> FeatureGates \<Rightarrow> bool" where
  "isSDKTargetGroupRequiresReplacementDueToNLBHealthCheck sdkTG resTG featureGates =
     (case tgHealthCheckConfig (rsSpec resTG) of
        None \<Rightarrow> False
      | Some hcConfig \<Rightarrow>
          if Enabled featureGates NLBHealthCheckAdvancedConfig then False
          else if tgProtocol (rsSpec resTG) \<noteq> ProtocolTCP \<and> tgProtocol (rsSpec resTG) \<noteq> ProtocolUDP \<and>
            tgProtocol (rsSpec resTG) \<noteq> ProtocolTCP_UDP \<and> tgProtocol (rsSpec resTG) \<noteq> ProtocolTLS then False
          else
            let sdkObj = twTargetGroup sdkTG in
            if (case hcProtocol hcConfig of None \<Rightarrow> False
                | Some p \<Rightarrow> p \<noteq> StringValue (stgHealthCheckProtocol sdkObj)) then True
            else if (case hcMatcher hcConfig of None \<Rightarrow> False
                | Some matcher \<Rightarrow> (case stgMatcher sdkObj of None \<Rightarrow> True
                    | Some sdkMatcher \<Rightarrow>
                        StringValue (GRPCCode matcher) \<noteq> StringValue (sdkGrpcCode sdkMatcher) \<or>
                        StringValue (HTTPCode matcher) \<noteq> StringValue (sdkHttpCode sdkMatcher))) then True
            else if hcIntervalSeconds hcConfig \<noteq> None \<and>
              Int64Value (hcIntervalSeconds hcConfig) \<noteq> Int64Value (stgHealthCheckIntervalSeconds sdkObj) then True
            else if hcTimeoutSeconds hcConfig \<noteq> None \<and>
              Int64Value (hcTimeoutSeconds hcConfig) \<noteq> Int64Value (stgHealthCheckTimeoutSeconds sdkObj) then True
            else False)"

definition isSDKTargetGroupRequiresReplacement ::
  "TargetGroupWithTags \<Rightarrow> ResTG \<Rightarrow> FeatureGates \<Rightarrow> bool" where
  "isSDKTargetGroupRequiresReplacement sdkTG resTG featureGates =
     (if tgTargetType (rsSpec resTG) \<noteq> StringValue (stgTargetType (twTargetGroup sdkTG)) then True
      else if tgProtocol (rsSpec resTG) \<noteq> StringValue (stgProtocol (twTargetGroup sdkTG)) then True
      else if (case tgProtocolVersion (rsSpec resTG) of None \<Rightarrow> False
          | Some v \<Rightarrow> v \<noteq> StringValue (stgProtocolVersion (twTargetGroup sdkTG))) then True
      else isSDKTargetGroupRequiresReplacementDueToNLBHealthCheck sdkTG resTG featureGates)"

definition mapResTargetGroupByResourceID :: "ResTG list \<Rightarrow> (string, ResTG) gomap" where
  "mapResTargetGroupByResourceID resTGs = index_by rsID resTGs"

definition mapSDKTargetGroupByResourceID ::
  "TargetGroupWithTags list \<Rightarrow> string \<Rightarrow> (string, TargetGroupWithTags list) gomap result" where
  "mapSDKTargetGroupByResourceID sdkTGs resourceIDTagKey =
     map_by_resource_id (\<lambda>tg. nil_map (twTags tg))
       (\<lambda>tg. Errorf ''unexpected targetGroup with no resourceID: %v''
          [StringValue (stgTargetGroupArn (twTargetGroup tg))]) resourceIDTagKey sdkTGs"

definition matchResAndSDKTargetGroups ::
  "(string set \<Rightarrow> string list) \<Rightarrow> ResTG list \<Rightarrow> TargetGroupWithTags list \<Rightarrow> string \<Rightarrow> FeatureGates \<Rightarrow>
   (ResTG, TargetGroupWithTags) match_result result" where
  "matchResAndSDKTargetGroups List resTGs sdkTGs resourceIDTagKey featureGates =
     (let resTGsByID = mapResTargetGroupByResourceID resTGs in
      result_bind (mapSDKTargetGroupByResourceID sdkTGs resourceIDTagKey) (\<lambda>sdkTGsByID.
        Inr (match_by_id List (\<lambda>sdkTG resTG. isSDKTargetGroupRequiresReplacement sdkTG resTG featureGates)
               resTGsByID sdkTGsByID)))"

section \<open>Load balancers\<close>

type_synonym ResLB = "LoadBalancerSpec res"

definition isSDKLoadBalancerRequiresReplacement :: "LoadBalancerWithTags \<Rightarrow> ResLB \<Rightarrow> bool" where
  "isSDKLoadBalancerRequiresReplacement sdkLB resLB =
     (if lbType (rsSpec resLB) \<noteq> StringValue (slbType (lwLoadBalancer sdkLB)) then True
      else case lbScheme (rsSpec resLB) of
        None \<Rightarrow> False
      | Some scheme \<Rightarrow> scheme \<noteq> StringValue (slbScheme (lwLoadBalancer sdkLB)))"

definition mapResLoadBalancerByResourceID :: "ResLB list \<Rightarrow> (string, ResLB) gomap" where
  "mapResLoadBalancerByResourceID resLBs = index_by rsID resLBs"

definition mapSDKLoadBalancerByResourceID ::
  "LoadBalancerWithTags list \<Rightarrow> string \<Rightarrow> (string, LoadBalancerWithTags list) gomap result" where
  "mapSDKLoadBalancerByResourceID sdkLBs resourceIDTagKey =
     map_by_resource_id (\<lambda>lb. nil_map (lwTags lb))
       (\<lambda>lb. Errorf ''unexpected loadBalancer with no resourceID: %v''
          [StringValue (slbLoadBalancerArn (lwLoadBalancer lb))]) resourceIDTagKey sdkLBs"

definition matchResAndSDKLoadBalancers ::
  "(string set \<Rightarrow> string list) \<Rightarrow> ResLB list \<Rightarrow> LoadBalancerWithTags list \<Rightarrow> string \<Rightarrow>
   (ResLB, LoadBalancerWithTags) match_result result" where
  "matchResAndSDKLoadBalancers List resLBs sdkLBs resourceIDTagKey =
     (let resLBsByID = mapResLoadBalancerByResourceID resLBs in
      result_bind (mapSDKLoadBalancerByResourceID sdkLBs resourceIDTagKey) (\<lambda>sdkLBsByID.
        Inr (match_by_id List isSDKLoadBalancerRequiresReplacement resLBsByID sdkLBsByID)))"

section \<open>Listeners\<close>

type_synonym ResLS = "ListenerSpec res"

definition mapResListenerByPort :: "ResLS list \<Rightarrow> (int, ResLS) gomap" where
  "mapResListenerByPort resLSs = index_by (\<lambda>ls. lsPort (rsSpec ls)) resLSs"

definition mapSDKListenerByPort :: "ListenerWithTags list \<Rightarrow> (int, ListenerWithTags) gomap" where
  "mapSDKListenerByPort sdkLSs = index_by (\<lambda>ls. Int64Value (slsPort (swListener ls))) sdkLSs"

definition matchResAndSDKListeners ::
  "(int set \<Rightarrow> int list) \<Rightarrow> ResLS list \<Rightarrow> ListenerWithTags list \<Rightarrow> (ResLS, ListenerWithTags) match_result" where
  "matchResAndSDKListeners List resLSs sdkLSs =
     match_by_key List (mapResListenerByPort resLSs) (mapSDKListenerByPort sdkLSs)"

section \<open>Listener rules\<close>

type_synonym ResLR = "ListenerRuleSpec res"

definition mapResListenerRuleByPriority :: "ResLR list \<Rightarrow> (int, ResLR) gomap" where
  "mapResListenerRuleByPriority resLRs = index_by (\<lambda>lr. lrPriority (rsSpec lr)) resLRs"

text \<open>The error of \<^verbatim>\<open>strconv.ParseInt\<close> is dropped and its value used.\<close>

definition sdk_rule_priority :: "ListenerRuleWithTags \<Rightarrow> int" where
  "sdk_rule_priority lr = parse_value (strconv_ParseInt (StringValue (slrPriority (rwListenerRule lr))))"

definition mapSDKListenerRuleByPriority ::
  "ListenerRuleWithTags list \<Rightarrow> (int, ListenerRuleWithTags) gomap" where
  "mapSDKListenerRuleByPriority sdkLRs = index_by sdk_rule_priority sdkLRs"

definition matchResAndSDKListenerRules ::
  "(int set \<Rightarrow> int list) \<Rightarrow> ResLR list \<Rightarrow> ListenerRuleWithTags list \<Rightarrow>
   (ResLR, ListenerRuleWithTags) match_result" where
  "matchResAndSDKListenerRules List resLRs sdkLRs =
     match_by_key List (mapResListenerRuleByPriority resLRs) (mapSDKListenerRuleByPriority sdkLRs)"

section \<open>Target group bindings\<close>

type_synonym ResTGB = "TargetGroupBindingResourceSpec res"

definition mapResTargetGroupBindingByARN ::
  "model_state \<Rightarrow> ResTGB list \<Rightarrow> (string, ResTGB) gomap result" where
  "mapResTargetGroupBindingByARN st resTGBs =
     result_foldM (\<lambda>m resTGB.
         result_bind (Resolve st (mtgbTargetGroupARN (tgbtSpec (tgbrTemplate (rsSpec resTGB)))))
           (\<lambda>tgARN. Inr (AList.update tgARN resTGB m))) [] resTGBs"

definition mapK8sTargetGroupBindingByARN ::
  "TargetGroupBinding list \<Rightarrow> (string, TargetGroupBinding) gomap" where
  "mapK8sTargetGroupBindingByARN k8sTGBs = index_by (\<lambda>tgb. tgbTargetGroupARN (tgbSpec tgb)) k8sTGBs"

definition matchResAndK8sTargetGroupBindings ::
  "(string set \<Rightarrow> string list) \<Rightarrow> model_state \<Rightarrow> ResTGB list \<Rightarrow> TargetGroupBinding list \<Rightarrow>
   (ResTGB, TargetGroupBinding) match_result result" where
  "matchResAndK8sTargetGroupBindings List st resTGBs k8sTGBs =
     result_bind (mapResTargetGroupBindingByARN st resTGBs) (\<lambda>resTGBsByARN.
       Inr (match_by_key List resTGBsByARN (mapK8sTargetGroupBindingByARN k8sTGBs)))"

section \<open>Security groups\<close>

type_synonym ResSG = "SecurityGroupSpec res"

definition mapResSecurityGroupByResourceID :: "ResSG list \<Rightarrow> (string, ResSG) gomap" where
  "mapResSecurityGroupByResourceID resSGs = index_by rsID resSGs"

definition mapSDKSecurityGroupByResourceID ::
  "SecurityGroupInfo list \<Rightarrow> string \<Rightarrow> (string, SecurityGroupInfo list) gomap result" where
  "mapSDKSecurityGroupByResourceID sdkSGs resourceIDTagKey =
     map_by_resource_id (\<lambda>sg. nil_map (sgiTags sg))
       (\<lambda>sg. Errorf ''unexpected securityGroup with no resourceID: %v'' [SecurityGroupID sg])
       resourceIDTagKey sdkSGs"

text \<open>The first group of an identifier is matched; further ones are unmatched. A group is a
  non-empty slice.\<close>

definition match_first ::
  "(string set \<Rightarrow> string list) \<Rightarrow> (string, 'r) gomap \<Rightarrow> (string, 's list) gomap \<Rightarrow> ('r, 's) match_result" where
  "match_first List resByID sdkByID =
     (let resIDs = set (gomap_keys resByID); sdkIDs = set (gomap_keys sdkByID);
          both = List (resIDs \<inter> sdkIDs)
      in (List.map_filter (\<lambda>rid. case (map_of resByID rid, gomap_index [] sdkByID rid) of
              (Some r, s # _) \<Rightarrow> Some (r, s) | _ \<Rightarrow> None) both,
          List.map_filter (map_of resByID) (List (resIDs - sdkIDs)),
          concat (map (\<lambda>rid. tl (gomap_index [] sdkByID rid)) both) @
            concat (map (gomap_index [] sdkByID) (List (sdkIDs - resIDs)))))"

definition matchResAndSDKSecurityGroups ::
  "(string set \<Rightarrow> string list) \<Rightarrow> ResSG list \<Rightarrow> SecurityGroupInfo list \<Rightarrow> string \<Rightarrow>
   (ResSG, SecurityGroupInfo) match_result result" where
  "matchResAndSDKSecurityGroups List resSGs sdkSGs resourceIDTagKey =
     (let resSGsByID = mapResSecurityGroupByResourceID resSGs in
      result_bind (mapSDKSecurityGroupByResourceID sdkSGs resourceIDTagKey) (\<lambda>sdkSGsByID.
        Inr (match_first List resSGsByID sdkSGsByID)))"

section \<open>The contract of a matching\<close>

text \<open>
  What a synthesizer relies on: a pair is matched exactly when resource and object have the same
  key and the object fits the resource; a resource is to be created exactly when no object fits
  it, and an object to be deleted exactly when it fits no resource; every object is accounted for
  exactly once and no resource is created twice.
\<close>

locale res_matcher =
  fixes keyR :: "'r \<Rightarrow> 'k" and keyS :: "'s \<Rightarrow> 'k" and fits :: "'r \<Rightarrow> 's \<Rightarrow> bool"
    and valid :: "'r list \<Rightarrow> 's list \<Rightarrow> bool"
    and match :: "'r list \<Rightarrow> 's list \<Rightarrow> ('r, 's) match_result"
  assumes matched_iff: "valid rs ss \<Longrightarrow> match rs ss = (m, ur, us) \<Longrightarrow>
      (r, s) \<in> set m \<longleftrightarrow> r \<in> set rs \<and> s \<in> set ss \<and> keyR r = keyS s \<and> fits r s"
    and unmatched_res_iff: "valid rs ss \<Longrightarrow> match rs ss = (m, ur, us) \<Longrightarrow>
      r \<in> set ur \<longleftrightarrow> r \<in> set rs \<and> (\<forall>s\<in>set ss. keyR r = keyS s \<longrightarrow> \<not> fits r s)"
    and unmatched_sdk_iff: "valid rs ss \<Longrightarrow> match rs ss = (m, ur, us) \<Longrightarrow>
      s \<in> set us \<longleftrightarrow> s \<in> set ss \<and> (\<forall>r\<in>set rs. keyR r = keyS s \<longrightarrow> \<not> fits r s)"
    and sdk_partition: "valid rs ss \<Longrightarrow> match rs ss = (m, ur, us) \<Longrightarrow>
      mset (map snd m) + mset us = mset ss"
    and created_once: "valid rs ss \<Longrightarrow> match rs ss = (m, ur, us) \<Longrightarrow> distinct ur"
begin

text \<open>One reconciliation suffices: once the unmatched objects are gone, the unmatched resources
  created and the matched objects updated, the next matching has nothing to create or delete.\<close>

lemma converges:
  assumes "valid rs ss" "match rs ss = (m, ur, us)"
    and "\<And>r. r \<in> set ur \<Longrightarrow> keyS (create r) = keyR r \<and> fits r (create r)"
    and "\<And>r s. (r, s) \<in> set m \<Longrightarrow> keyS (update r s) = keyR r \<and> fits r (update r s)"
    and "set ss' = (\<lambda>(r, s). update r s) ` set m \<union> create ` set ur" "valid rs ss'"
    and "match rs ss' = (m', ur', us')"
  shows "ur' = [] \<and> us' = []"
proof -
  have served: "\<exists>s'\<in>set ss'. keyR r = keyS s' \<and> fits r s'" if r: "r \<in> set rs" for r
  proof (cases "r \<in> set ur")
    case True
    then have "create r \<in> set ss'" using assms(5) by simp
    then show ?thesis using assms(3) [OF True] by metis
  next
    case False
    then obtain s where s: "s \<in> set ss" "keyR r = keyS s" "fits r s"
      using unmatched_res_iff [OF assms(1,2)] r by blast
    then have rs: "(r, s) \<in> set m" using matched_iff [OF assms(1,2)] r by blast
    then have "update r s \<in> (\<lambda>(r, s). update r s) ` set m" by (rule rev_image_eqI) simp
    then have "update r s \<in> set ss'" using assms(5) by simp
    then show ?thesis using assms(4) [OF rs] by metis
  qed
  have "r \<notin> set ur'" for r
    unfolding unmatched_res_iff [OF assms(6,7)] using served [of r] by blast
  then have "ur' = []" by (meson list.set_sel(1))
  moreover have wanted: "\<exists>r\<in>set rs. keyR r = keyS s' \<and> fits r s'" if s': "s' \<in> set ss'" for s'
  proof -
    consider r s where "(r, s) \<in> set m" "s' = update r s" | r where "r \<in> set ur" "s' = create r"
      using s' assms(5) by auto
    then show ?thesis
    proof cases
      case (1 r s)
      then have "r \<in> set rs" using matched_iff [OF assms(1,2)] by blast
      then show ?thesis using 1(2) assms(4) [OF 1(1)] by metis
    next
      case (2 r)
      then have "r \<in> set rs" using unmatched_res_iff [OF assms(1,2)] by blast
      then show ?thesis using 2(2) assms(3) [OF 2(1)] by metis
    qed
  qed
  have "s' \<notin> set us'" for s'
    unfolding unmatched_sdk_iff [OF assms(6,7)] using wanted [of s'] by blast
  then have "us' = []" by (meson list.set_sel(1))
  ultimately show ?thesis by simp
qed

end

text \<open>Where a key identifies one object, the outcome of a reconciliation is again valid.\<close>

locale keyed_matcher = res_matcher +
  assumes valid_keys: "valid rs ss \<longleftrightarrow> distinct (map keyR rs) \<and> distinct (map keyS ss)"
begin

lemma outcome_valid:
  assumes "valid rs ss" "match rs ss = (m, ur, us)"
    and "\<And>r. r \<in> set ur \<Longrightarrow> keyS (create r) = keyR r"
    and "\<And>r s. (r, s) \<in> set m \<Longrightarrow> keyS (update r s) = keyR r"
  shows "valid rs (map (\<lambda>(r, s). update r s) m @ map create ur)"
proof -
  note m = matched_iff [OF assms(1,2)] and ur = unmatched_res_iff [OF assms(1,2)]
  have rs: "distinct (map keyR rs)" "distinct (map keyS ss)" using assms(1) valid_keys by auto
  have kept: "map keyS (map (\<lambda>(r, s). update r s) m) = map keyS (map snd m)"
    using assms(4) m by auto
  have "mset (map keyS (map snd m @ us)) = mset (map keyS ss)"
    using sdk_partition [OF assms(1,2)] by (metis mset_append mset_map)
  then have "distinct (map keyS (map snd m @ us))" using rs(2) mset_eq_imp_distinct_iff by blast
  then have "distinct (map keyS (map snd m))" by (simp only: map_append distinct_append)
  moreover have made: "map keyS (map create ur) = map keyR ur" using assms(3) by simp
  moreover have "inj_on keyR (set rs)" "set ur \<subseteq> set rs" using rs(1) ur by (auto simp: distinct_map)
  then have "distinct (map keyR ur)"
    using created_once [OF assms(1,2)] by (simp add: distinct_map inj_on_subset)
  moreover have "keyS s \<noteq> keyR r'" if "(r, s) \<in> set m" "r' \<in> set ur" for r s r'
  proof
    assume same: "keyS s = keyR r'"
    have "r \<in> set rs" "keyR r = keyS s" "s \<in> set ss" "fits r s" using that(1) m by auto
    moreover have "r' \<in> set rs" "fits r' s \<Longrightarrow> False" using that(2) same ur \<open>s \<in> set ss\<close> by auto
    moreover have "r = r'" using inj_onD [OF \<open>inj_on keyR (set rs)\<close>, of r r'] calculation same by simp
    ultimately show False by blast
  qed
  ultimately show ?thesis unfolding valid_keys using rs(1) kept by (auto simp del: map_map)
qed

lemma keyed_converges:
  assumes "valid rs ss" "match rs ss = (m, ur, us)"
    and "\<And>r. r \<in> set ur \<Longrightarrow> keyS (create r) = keyR r \<and> fits r (create r)"
    and "\<And>r s. (r, s) \<in> set m \<Longrightarrow> keyS (update r s) = keyR r \<and> fits r (update r s)"
  shows "\<exists>m'. match rs (map (\<lambda>(r, s). update r s) m @ map create ur) = (m', [], [])"
proof -
  let ?ss = "map (\<lambda>(r, s). update r s) m @ map create ur"
  obtain m' ur' us' where run: "match rs ?ss = (m', ur', us')" by (metis prod_cases3)
  have v: "valid rs ?ss" by (rule outcome_valid [OF assms(1,2)]) (auto simp: assms(3,4))
  have "ur' = [] \<and> us' = []"
    by (rule converges [OF assms(1-4) _ v run]) auto
  then show ?thesis using run by simp
qed

end

section \<open>Matching by key meets the contract\<close>

definition pick :: "('a \<Rightarrow> 'k) \<Rightarrow> 'a list \<Rightarrow> 'k \<Rightarrow> 'a" where
  "pick key xs k = the (map_of (index_by key xs) k)"

lemma index_by_pick: "k \<in> key ` set xs \<Longrightarrow> map_of (index_by key xs) k = Some (pick key xs k)"
  using index_by_None [of key xs k] unfolding pick_def by (cases "map_of (index_by key xs) k") auto

lemma pick_key: "distinct (map key xs) \<Longrightarrow> x \<in> set xs \<Longrightarrow> pick key xs (key x) = x"
  by (simp add: index_by_distinct pick_def)

lemma pick_inj: "distinct (map key xs) \<Longrightarrow> inj_on (pick key xs) (key ` set xs)"
  by (auto simp: inj_on_def pick_key)

lemma match_by_key_form:
  assumes "lists_sorted List"
  shows "match_by_key List (index_by kr rs) (index_by ks ss) =
     (map (\<lambda>k. (pick kr rs k, pick ks ss k)) (List (kr ` set rs \<inter> ks ` set ss)),
      map (pick kr rs) (List (kr ` set rs - ks ` set ss)),
      map (pick ks ss) (List (ks ` set ss - kr ` set rs)))"
proof -
  note some = index_by_pick [of _ kr rs] and some' = index_by_pick [of _ ks ss]
  note mem = lists_sortedD(1) [OF assms(1)]
  have "List.map_filter (\<lambda>k. case (map_of (index_by kr rs) k, map_of (index_by ks ss) k) of
        (Some r, Some s) \<Rightarrow> Some (r, s) | _ \<Rightarrow> None) (List (kr ` set rs \<inter> ks ` set ss)) =
      map (\<lambda>k. (pick kr rs k, pick ks ss k)) (List (kr ` set rs \<inter> ks ` set ss))"
    by (rule map_filter_map) (simp add: mem some some')
  moreover have "List.map_filter (map_of (index_by kr rs)) (List (kr ` set rs - ks ` set ss)) =
      map (pick kr rs) (List (kr ` set rs - ks ` set ss))"
    by (rule map_filter_map) (simp add: mem some)
  moreover have "List.map_filter (map_of (index_by ks ss)) (List (ks ` set ss - kr ` set rs)) =
      map (pick ks ss) (List (ks ` set ss - kr ` set rs))"
    by (rule map_filter_map) (simp add: mem some')
  ultimately show ?thesis by (simp add: match_by_key_def index_by_keys Let_def)
qed

lemma match_by_key_matcher:
  fixes List :: "'k::linorder set \<Rightarrow> 'k list"
  assumes "lists_sorted List"
  shows "res_matcher kr ks (\<lambda>_ _. True) (\<lambda>rs ss. distinct (map kr rs) \<and> distinct (map ks ss))
     (\<lambda>rs ss. match_by_key List (index_by kr rs) (index_by ks ss))"
proof (unfold_locales, goal_cases)
  note mem = lists_sortedD [OF assms]
  note form = match_by_key_form [OF assms, of kr _ ks]
  {
    case (1 rs ss m ur us r s)
    then have m: "m = map (\<lambda>k. (pick kr rs k, pick ks ss k)) (List (kr ` set rs \<inter> ks ` set ss))"
      by (simp add: form)
    have "(r, s) \<in> set m \<longleftrightarrow> (\<exists>k\<in>kr ` set rs \<inter> ks ` set ss. r = pick kr rs k \<and> s = pick ks ss k)"
      unfolding m by (auto simp: mem(1))
    also have "\<dots> \<longleftrightarrow> r \<in> set rs \<and> s \<in> set ss \<and> kr r = ks s"
      using 1(1) pick_key [of kr rs] pick_key [of ks ss] by (smt (verit) IntE IntI image_iff)
    finally show ?case by simp
  next
    case (2 rs ss m ur us r)
    then have "ur = map (pick kr rs) (List (kr ` set rs - ks ` set ss))"
      by (simp add: form)
    then show ?case using 2(1) by (force simp: pick_key mem(1))
  next
    case (3 rs ss m ur us s)
    then have "us = map (pick ks ss) (List (ks ` set ss - kr ` set rs))"
      by (simp add: form)
    then show ?case using 3(1) by (force simp: pick_key mem(1))
  next
    case (4 rs ss m ur us)
    let ?ks = "List (kr ` set rs \<inter> ks ` set ss) @ List (ks ` set ss - kr ` set rs)"
    have all: "map snd m @ us = map (pick ks ss) ?ks"
      using 4(2) by (auto simp: form)
    have ks: "distinct ?ks" "set ?ks = ks ` set ss" by (auto simp: mem)
    have "pick ks ss ` ks ` set ss = set ss" using 4(1) by (force simp: pick_key)
    then have "distinct (map snd m @ us)" "set (map snd m @ us) = set ss"
      unfolding all using pick_inj [of ks ss] 4(1) ks
      by (simp_all only: distinct_map set_map)
    moreover have "distinct ss" using 4(1) by (simp add: distinct_map)
    ultimately show ?case by (metis mset_append set_eq_iff_mset_eq_distinct)
  next
    case (5 rs ss m ur us)
    then have "ur = map (pick kr rs) (List (kr ` set rs - ks ` set ss))"
      by (simp add: form)
    moreover have "inj_on (pick kr rs) (kr ` set rs - ks ` set ss)"
      using pick_inj [of kr rs] 5(1) by (intro inj_on_subset [OF _ Diff_subset]) simp
    ultimately show ?case by (simp add: distinct_map mem)
  }
qed

lemma match_by_key_keyed:
  fixes List :: "'k::linorder set \<Rightarrow> 'k list"
  assumes "lists_sorted List"
  shows "keyed_matcher kr ks (\<lambda>_ _. True) (\<lambda>rs ss. distinct (map kr rs) \<and> distinct (map ks ss))
     (\<lambda>rs ss. match_by_key List (index_by kr rs) (index_by ks ss))"
  by (intro keyed_matcher.intro match_by_key_matcher assms keyed_matcher_axioms.intro refl)

section \<open>Matching by identifier meets the contract\<close>

lemma match_group_form:
  "match_group req r ss =
     (map (Pair r) (filter (\<lambda>s. \<not> req s r) ss), filter (\<lambda>s. req s r) ss, \<exists>s\<in>set ss. \<not> req s r)"
  by (induction ss) auto

abbreviation group :: "('s \<Rightarrow> 'k) \<Rightarrow> 's list \<Rightarrow> 'k \<Rightarrow> 's list" where
  "group key ss k \<equiv> filter (\<lambda>s. key s = k) ss"

lemma match_by_id_form:
  assumes "lists_sorted List"
  shows "match_by_id List req (index_by kr rs) (group_by ks ss) =
    (let B = List (kr ` set rs \<inter> ks ` set ss); R = pick kr rs in
     (concat (map (\<lambda>k. map (Pair (R k)) (filter (\<lambda>s. \<not> req s (R k)) (group ks ss k))) B),
      map R (filter (\<lambda>k. \<not> (\<exists>s\<in>set (group ks ss k). \<not> req s (R k))) B) @
        map R (List (kr ` set rs - ks ` set ss)),
      concat (map (\<lambda>k. filter (\<lambda>s. req s (R k)) (group ks ss k)) B) @
        concat (map (group ks ss) (List (ks ` set ss - kr ` set rs)))))"
proof -
  note mem = lists_sortedD(1) [OF assms]
  let ?B = "List (kr ` set rs \<inter> ks ` set ss)"
  have "List.map_filter (\<lambda>rid. map_option (\<lambda>r. (r, match_group req r (group ks ss rid)))
        (map_of (index_by kr rs) rid)) ?B =
      map (\<lambda>k. (pick kr rs k, match_group req (pick kr rs k) (group ks ss k))) ?B"
    by (rule map_filter_map) (simp add: mem index_by_pick)
  moreover have "List.map_filter (map_of (index_by kr rs)) (List (kr ` set rs - ks ` set ss)) =
      map (pick kr rs) (List (kr ` set rs - ks ` set ss))"
    by (rule map_filter_map) (simp add: mem index_by_pick)
  ultimately show ?thesis
    unfolding match_by_id_def Let_def index_by_keys group_by_keys group_by_index
    by (simp add: match_group_form comp_def filter_map)
qed

lemma group_empty: "k \<notin> key ` set ss \<Longrightarrow> group key ss k = []"
  by (auto simp: filter_empty_conv)

lemma match_by_id_partition:
  assumes "lists_sorted List" "match_by_id List req (index_by kr rs) (group_by ks ss) = (m, ur, us)"
  shows "mset (map snd m) + mset us = mset ss"
proof -
  let ?B = "List (kr ` set rs \<inter> ks ` set ss)" and ?D = "List (ks ` set ss - kr ` set rs)"
  let ?q = "\<lambda>k s. req s (pick kr rs k)"
  note mem = lists_sortedD [OF assms(1)]
  have d: "distinct ?B" "distinct ?D" by (auto simp: mem)
  have m: "map snd m = concat (map (\<lambda>k. filter (\<lambda>s. \<not> ?q k s) (group ks ss k)) ?B)"
    and us: "us = concat (map (\<lambda>k. filter (?q k) (group ks ss k)) ?B) @ concat (map (group ks ss) ?D)"
    using assms(2) unfolding match_by_id_form [OF assms(1)] Let_def
    by (auto simp: map_concat comp_def)
  have "mset (filter (\<lambda>s. \<not> ?q k s) (group ks ss k)) + mset (filter (?q k) (group ks ss k)) =
      mset (group ks ss k)" for k
    using multiset_partition [of "mset (group ks ss k)" "?q k"] by (simp add: add.commute del: filter_filter)
  then have "mset (map snd m) + mset us =
      (\<Sum>k\<in>set ?B. mset (group ks ss k)) + (\<Sum>k\<in>set ?D. mset (group ks ss k))"
    unfolding m us mset_append
    by (simp only: mset_concat_map_distinct [OF d(1)] mset_concat_map_distinct [OF d(2)]
        add.assoc [symmetric] sum.distrib [symmetric])
  also have "\<dots> = (\<Sum>k\<in>set ?B \<union> set ?D. mset (group ks ss k))"
    by (rule sum.union_disjoint [symmetric]) (auto simp: mem(1))
  also have "\<dots> = mset ss" by (rule sum_mset_groups) (auto simp: mem(1))
  finally show ?thesis .
qed

lemma match_by_id_matcher:
  fixes List :: "string set \<Rightarrow> string list"
  assumes "lists_sorted List"
  shows "res_matcher kr ks (\<lambda>r s. \<not> req s r) (\<lambda>rs ss. distinct (map kr rs))
     (\<lambda>rs ss. match_by_id List req (index_by kr rs) (group_by ks ss))"
proof (unfold_locales, goal_cases)
  note mem = lists_sortedD [OF assms]
  note form = match_by_id_form [OF assms, of req kr _ ks, unfolded Let_def]
  {
    case (1 rs ss m ur us r s)
    let ?R = "pick kr rs"
    have m: "m = concat (map (\<lambda>k. map (Pair (?R k)) (filter (\<lambda>s. \<not> req s (?R k)) (group ks ss k)))
        (List (kr ` set rs \<inter> ks ` set ss)))"
      using 1(2) by (simp add: form)
    have "(r, s) \<in> set m \<longleftrightarrow> (\<exists>k\<in>kr ` set rs. r = ?R k \<and> s \<in> set ss \<and> ks s = k \<and> \<not> req s r)"
      unfolding m by (auto simp: mem(1) image_iff)
    then show ?case using 1(1) by (auto simp: pick_key)
  next
    case (2 rs ss m ur us r)
    let ?R = "pick kr rs"
    let ?k = "filter (\<lambda>k. \<not> (\<exists>s\<in>set (group ks ss k). \<not> req s (?R k))) (List (kr ` set rs \<inter> ks ` set ss)) @
        List (kr ` set rs - ks ` set ss)"
    have "ur = map ?R ?k" using 2(2) by (simp add: form)
    moreover have "set ?k = {k\<in>kr ` set rs. \<forall>s\<in>set ss. ks s = k \<longrightarrow> req s (?R k)}"
      by (auto simp: mem(1) image_iff) metis
    ultimately have "set ur = ?R ` {k\<in>kr ` set rs. \<forall>s\<in>set ss. ks s = k \<longrightarrow> req s (?R k)}"
      by (simp only: set_map)
    moreover have "{k\<in>kr ` set rs. \<forall>s\<in>set ss. ks s = k \<longrightarrow> req s (?R k)} =
        kr ` {r\<in>set rs. \<forall>s\<in>set ss. ks s = kr r \<longrightarrow> req s r}"
      unfolding Compr_image_eq using pick_key [OF 2(1)]
      by (intro arg_cong [where f = "image kr"] Collect_cong conj_cong) simp_all
    moreover have "?R ` kr ` {r\<in>set rs. \<forall>s\<in>set ss. ks s = kr r \<longrightarrow> req s r} =
        {r\<in>set rs. \<forall>s\<in>set ss. ks s = kr r \<longrightarrow> req s r}"
      using 2(1) by (force simp: pick_key)
    ultimately show ?case by auto
  next
    case (3 rs ss m ur us s)
    let ?R = "pick kr rs"
    have us: "us = concat (map (\<lambda>k. filter (\<lambda>s. req s (?R k)) (group ks ss k)) (List (kr ` set rs \<inter> ks ` set ss))) @
        concat (map (group ks ss) (List (ks ` set ss - kr ` set rs)))"
      using 3(2) by (simp add: form)
    have "s \<in> set us \<longleftrightarrow> s \<in> set ss \<and> (ks s \<in> kr ` set rs \<longrightarrow> req s (?R (ks s)))"
      unfolding us by (auto simp: mem(1))
    moreover have "(ks s \<in> kr ` set rs \<longrightarrow> req s (?R (ks s))) \<longleftrightarrow> (\<forall>r\<in>set rs. kr r = ks s \<longrightarrow> req s r)"
    proof (cases "ks s \<in> kr ` set rs")
      case True
      then obtain r where r: "r \<in> set rs" "ks s = kr r" by (rule imageE)
      have "r' = r" if "r' \<in> set rs" "kr r' = ks s" for r'
        using inj_onD [of kr "set rs" r' r] 3(1) that r by (simp add: distinct_map)
      then have "(\<forall>r\<in>set rs. kr r = ks s \<longrightarrow> req s r) \<longleftrightarrow> req s r" using r by auto
      then show ?thesis using True pick_key [OF 3(1) r(1)] r(2) by simp
    next
      case False
      then show ?thesis by (auto simp: image_iff)
    qed
    ultimately show ?case by simp
  next
    case (4 rs ss m ur us)
    then show ?case by (intro match_by_id_partition [OF assms])
  next
    case (5 rs ss m ur us)
    let ?R = "pick kr rs"
    let ?k = "filter (\<lambda>k. \<not> (\<exists>s\<in>set (group ks ss k). \<not> req s (?R k))) (List (kr ` set rs \<inter> ks ` set ss)) @
        List (kr ` set rs - ks ` set ss)"
    have "ur = map ?R ?k" using 5(2) by (simp add: form)
    moreover have "inj_on ?R (set ?k)"
      by (rule inj_on_subset [OF pick_inj [OF 5(1)]]) (auto simp: mem(1))
    moreover have "distinct ?k" by (auto simp: mem)
    ultimately show ?case by (simp only: distinct_map)
  }
qed

text \<open>The objects grouped by the identifier in their tags.\<close>

lemma map_by_resource_id_ok:
  assumes "\<forall>s\<in>set ss. map_of (tags s) key \<noteq> None"
  shows "map_by_resource_id tags err key ss = Inr (group_by (\<lambda>s. gomap_index [] (tags s) key) ss)"
proof -
  let ?f = "\<lambda>m s. case map_of (tags s) key of None \<Rightarrow> Inl (err s)
      | Some rid \<Rightarrow> Inr (AList.update rid (gomap_index [] m rid @ [s]) m)"
  have "result_foldM ?f m ss = Inr (fold (\<lambda>s m. AList.update (gomap_index [] (tags s) key)
      (gomap_index [] m (gomap_index [] (tags s) key) @ [s]) m) ss m)" for m
    using assms by (induction ss arbitrary: m) (auto simp: gomap_index_def)
  then show ?thesis by (simp add: map_by_resource_id_def group_by_def)
qed

lemma map_by_resource_id_missing:
  assumes "s \<in> set ss" "map_of (tags s) key = None"
  shows "\<exists>s'\<in>set ss. map_of (tags s') key = None \<and> map_by_resource_id tags err key ss = Inl (err s')"
proof -
  let ?f = "\<lambda>m s. case map_of (tags s) key of None \<Rightarrow> Inl (err s)
      | Some rid \<Rightarrow> Inr (AList.update rid (gomap_index [] m rid @ [s]) m)"
  have "\<exists>s'\<in>set ss. map_of (tags s') key = None \<and> result_foldM ?f m ss = Inl (err s')" for m
    using assms by (induction ss arbitrary: m) (auto split: option.splits)
  then show ?thesis by (simp add: map_by_resource_id_def)
qed

section \<open>The matchings of the synthesizers\<close>

abbreviation tg_id :: "string \<Rightarrow> TargetGroupWithTags \<Rightarrow> string" where
  "tg_id key tg \<equiv> gomap_index [] (nil_map (twTags tg)) key"

abbreviation lb_id :: "string \<Rightarrow> LoadBalancerWithTags \<Rightarrow> string" where
  "lb_id key lb \<equiv> gomap_index [] (nil_map (lwTags lb)) key"

interpretation tgm: res_matcher rsID "tg_id key" "\<lambda>r s. \<not> isSDKTargetGroupRequiresReplacement s r gates"
  "\<lambda>rs ss. distinct (map rsID rs)"
  "\<lambda>rs ss. match_by_id sorted_list_of_set (\<lambda>s r. isSDKTargetGroupRequiresReplacement s r gates)
     (index_by rsID rs) (group_by (tg_id key) ss)" for key gates
  by (rule match_by_id_matcher [OF sorted_list_of_set_lists_sorted])

interpretation lbm: res_matcher rsID "lb_id key" "\<lambda>r s. \<not> isSDKLoadBalancerRequiresReplacement s r"
  "\<lambda>rs ss. distinct (map rsID rs)"
  "\<lambda>rs ss. match_by_id sorted_list_of_set isSDKLoadBalancerRequiresReplacement
     (index_by rsID rs) (group_by (lb_id key) ss)" for key
  by (rule match_by_id_matcher [OF sorted_list_of_set_lists_sorted])

interpretation lsm: keyed_matcher "\<lambda>ls :: ResLS. lsPort (rsSpec ls)"
  "\<lambda>ls. Int64Value (slsPort (swListener ls))" "\<lambda>_ _. True"
  "\<lambda>rs ss. distinct (map (\<lambda>ls. lsPort (rsSpec ls)) rs) \<and>
     distinct (map (\<lambda>ls. Int64Value (slsPort (swListener ls))) ss)"
  "matchResAndSDKListeners sorted_list_of_set"
  unfolding matchResAndSDKListeners_def mapResListenerByPort_def mapSDKListenerByPort_def
  by (rule match_by_key_keyed [OF sorted_list_of_set_lists_sorted])

interpretation lrm: keyed_matcher "\<lambda>lr :: ResLR. lrPriority (rsSpec lr)" sdk_rule_priority "\<lambda>_ _. True"
  "\<lambda>rs ss. distinct (map (\<lambda>lr. lrPriority (rsSpec lr)) rs) \<and> distinct (map sdk_rule_priority ss)"
  "matchResAndSDKListenerRules sorted_list_of_set"
  unfolding matchResAndSDKListenerRules_def mapResListenerRuleByPriority_def mapSDKListenerRuleByPriority_def
  by (rule match_by_key_keyed [OF sorted_list_of_set_lists_sorted])

lemma match_by_id_List:
  "lists_sorted List \<Longrightarrow> match_by_id List req (index_by kr rs) (group_by ks ss) =
     match_by_id sorted_list_of_set req (index_by kr rs) (group_by ks ss)"
  by (simp add: match_by_id_def lists_sorted_unique)

lemma match_by_key_List:
  "lists_sorted List \<Longrightarrow> match_by_key List a b = match_by_key sorted_list_of_set a b"
  by (simp add: match_by_key_def lists_sorted_unique)

lemma matchResAndSDKTargetGroups_eq:
  assumes "lists_sorted List" "\<forall>tg\<in>set sdkTGs. map_of (nil_map (twTags tg)) key \<noteq> None"
  shows "matchResAndSDKTargetGroups List resTGs sdkTGs key gates =
     Inr (match_by_id sorted_list_of_set (\<lambda>s r. isSDKTargetGroupRequiresReplacement s r gates)
       (index_by rsID resTGs) (group_by (tg_id key) sdkTGs))"
  using assms by (simp add: matchResAndSDKTargetGroups_def mapResTargetGroupByResourceID_def
      mapSDKTargetGroupByResourceID_def map_by_resource_id_ok match_by_id_List [symmetric])

lemma gomap_index_Some: "map_of m k \<noteq> None \<Longrightarrow> gomap_index z m k = v \<longleftrightarrow> map_of m k = Some v"
  by (auto simp: gomap_index_def)

text \<open>Matching target groups. Provided every existing target group carries the resource
  identifier tag and the desired ones have distinct identifiers, the matching succeeds: a pair
  is matched exactly when the tag is the identifier of the resource and the group does not
  require replacement; a target group is created exactly when no existing one can serve it, and
  deleted exactly when it serves no desired one; every existing group is accounted for exactly
  once, and nothing is created twice.\<close>

theorem target_group_matching:
  assumes "lists_sorted List" "distinct (map rsID resTGs)"
    and "\<forall>tg\<in>set sdkTGs. map_of (nil_map (twTags tg)) key \<noteq> None"
  shows "\<exists>matched create delete.
    matchResAndSDKTargetGroups List resTGs sdkTGs key gates = Inr (matched, create, delete) \<and>
    (\<forall>r s. (r, s) \<in> set matched \<longleftrightarrow> r \<in> set resTGs \<and> s \<in> set sdkTGs \<and>
       map_of (nil_map (twTags s)) key = Some (rsID r) \<and> \<not> isSDKTargetGroupRequiresReplacement s r gates) \<and>
    (\<forall>r. r \<in> set create \<longleftrightarrow> r \<in> set resTGs \<and> (\<forall>s. (r, s) \<notin> set matched)) \<and>
    (\<forall>s. s \<in> set delete \<longleftrightarrow> s \<in> set sdkTGs \<and> (\<forall>r. (r, s) \<notin> set matched)) \<and>
    mset (map snd matched) + mset delete = mset sdkTGs \<and> distinct create"
proof -
  obtain m ur us where run: "match_by_id sorted_list_of_set (\<lambda>s r. isSDKTargetGroupRequiresReplacement s r gates)
       (index_by rsID resTGs) (group_by (tg_id key) sdkTGs) = (m, ur, us)"
    by (metis prod_cases3)
  note laws = tgm.matched_iff [OF assms(2) run] tgm.unmatched_res_iff [OF assms(2) run]
    tgm.unmatched_sdk_iff [OF assms(2) run] tgm.sdk_partition [OF assms(2) run] tgm.created_once [OF assms(2) run]
  have tag: "s \<in> set sdkTGs \<Longrightarrow> rsID r = tg_id key s \<longleftrightarrow> map_of (nil_map (twTags s)) key = Some (rsID r)" for r s
    using assms(3) gomap_index_Some [of "nil_map (twTags s)" key "[]" "rsID r"] by auto
  have m: "(r, s) \<in> set m \<longleftrightarrow> r \<in> set resTGs \<and> s \<in> set sdkTGs \<and>
       map_of (nil_map (twTags s)) key = Some (rsID r) \<and> \<not> isSDKTargetGroupRequiresReplacement s r gates" for r s
    unfolding laws(1) using tag by auto
  have "r \<in> set ur \<longleftrightarrow> r \<in> set resTGs \<and> (\<forall>s. (r, s) \<notin> set m)" for r
    unfolding laws(1,2) by auto
  moreover have "s \<in> set us \<longleftrightarrow> s \<in> set sdkTGs \<and> (\<forall>r. (r, s) \<notin> set m)" for s
    unfolding laws(1,3) by auto
  ultimately show ?thesis
    unfolding matchResAndSDKTargetGroups_eq [OF assms(1,3)] run using m laws(4,5) by blast
qed

text \<open>Examples: target groups by protocol, identifier and ARN.\<close>

definition example_res_tg :: "string \<Rightarrow> string \<Rightarrow> ResTG" where
  "example_res_tg rid protocol = \<lparr>rsRef = 0, rsID = rid, rsSpec = \<lparr>tgName = rid, tgTargetType = ''ip'', tgPort = 80,
     tgProtocol = protocol, tgProtocolVersion = None, tgIPAddressType = None, tgHealthCheckConfig = None,
     tgTargetGroupAttributes = [], tgTags = []\<rparr>\<rparr>"

definition example_sdk_tg :: "string \<Rightarrow> string_map \<Rightarrow> string \<Rightarrow> TargetGroupWithTags" where
  "example_sdk_tg arn tags protocol = \<lparr>twTargetGroup = \<lparr>stgTargetGroupArn = Some arn, stgTargetType = Some ''ip'',
     stgProtocol = Some protocol, stgProtocolVersion = None, stgVpcId = None, stgHealthCheckPort = None,
     stgHealthCheckProtocol = None, stgHealthCheckPath = None, stgMatcher = None,
     stgHealthCheckIntervalSeconds = None, stgHealthCheckTimeoutSeconds = None,
     stgHealthyThresholdCount = None, stgUnhealthyThresholdCount = None\<rparr>, twTags = Some tags\<rparr>"

lemma example_tg_replacement:
  "isSDKTargetGroupRequiresReplacement (example_sdk_tg arn tags p) (example_res_tg rid q) gates \<longleftrightarrow> p \<noteq> q"
  by (simp add: isSDKTargetGroupRequiresReplacement_def example_sdk_tg_def example_res_tg_def
      isSDKTargetGroupRequiresReplacementDueToNLBHealthCheck_def)

theorem target_group_matching_witness:
  "\<exists>matched create delete.
     matchResAndSDKTargetGroups sorted_list_of_set [example_res_tg ''a'' ''HTTP'', example_res_tg ''b'' ''HTTPS'']
       [example_sdk_tg ''1'' [(''id'', ''a'')] ''HTTP'', example_sdk_tg ''2'' [(''id'', ''b'')] ''TCP'']
       ''id'' [] = Inr (matched, create, delete) \<and>
     (example_res_tg ''a'' ''HTTP'', example_sdk_tg ''1'' [(''id'', ''a'')] ''HTTP'') \<in> set matched \<and>
     example_res_tg ''b'' ''HTTPS'' \<in> set create \<and> example_sdk_tg ''2'' [(''id'', ''b'')] ''TCP'' \<in> set delete"
proof -
  let ?rs = "[example_res_tg ''a'' ''HTTP'', example_res_tg ''b'' ''HTTPS'']"
  let ?ss = "[example_sdk_tg ''1'' [(''id'', ''a'')] ''HTTP'', example_sdk_tg ''2'' [(''id'', ''b'')] ''TCP'']"
  have ids: "rsID (example_res_tg rid q) = rid" "twTags (example_sdk_tg arn tags p) = Some tags" for rid q arn tags p
    by (simp_all add: example_res_tg_def example_sdk_tg_def)
  have dist: "distinct (map rsID ?rs)" by (simp add: ids)
  have tags: "\<forall>tg\<in>set ?ss. map_of (nil_map (twTags tg)) ''id'' \<noteq> None" by (simp add: ids)
  obtain m c d where run: "matchResAndSDKTargetGroups sorted_list_of_set ?rs ?ss ''id'' [] = Inr (m, c, d)"
    and m: "\<And>r s. (r, s) \<in> set m \<longleftrightarrow> r \<in> set ?rs \<and> s \<in> set ?ss \<and>
       map_of (nil_map (twTags s)) ''id'' = Some (rsID r) \<and> \<not> isSDKTargetGroupRequiresReplacement s r []"
    and c: "\<And>r. r \<in> set c \<longleftrightarrow> r \<in> set ?rs \<and> (\<forall>s. (r, s) \<notin> set m)"
    and d: "\<And>s. s \<in> set d \<longleftrightarrow> s \<in> set ?ss \<and> (\<forall>r. (r, s) \<notin> set m)"
    using target_group_matching [OF sorted_list_of_set_lists_sorted dist tags, of "[]"] by blast
  have "(example_res_tg ''a'' ''HTTP'', example_sdk_tg ''1'' [(''id'', ''a'')] ''HTTP'') \<in> set m"
    unfolding m by (simp add: ids example_tg_replacement)
  moreover have "example_res_tg ''b'' ''HTTPS'' \<in> set c"
    unfolding c m by (auto simp: ids example_tg_replacement)
  moreover have "(r, example_sdk_tg ''2'' [(''id'', ''b'')] ''TCP'') \<notin> set m" for r
  proof
    assume "(r, example_sdk_tg ''2'' [(''id'', ''b'')] ''TCP'') \<in> set m"
    then have "r = example_res_tg ''a'' ''HTTP'' \<or> r = example_res_tg ''b'' ''HTTPS''"
      "\<not> isSDKTargetGroupRequiresReplacement (example_sdk_tg ''2'' [(''id'', ''b'')] ''TCP'') r []"
      unfolding m by simp_all
    then show False by (elim disjE) (simp_all add: example_tg_replacement)
  qed
  then have "example_sdk_tg ''2'' [(''id'', ''b'')] ''TCP'' \<in> set d"
    unfolding d by simp
  ultimately show ?thesis using run by blast
qed

text \<open>C28: Reconciling target groups converges. Take the result of a matching, and suppose that each
  created target group carries the tags of \<^verbatim>\<open>ResourceTags\<close> for its resource and that each
  updated one keeps its identifier tag, and that neither requires replacement afterwards. Then
  the next matching against the created and updated groups finds nothing to create and nothing
  to delete.\<close>

theorem target_groups_converge:
  assumes "lists_sorted List" "distinct (map rsID resTGs)"
    and "\<forall>tg\<in>set sdkTGs. map_of (nil_map (twTags tg)) (ResourceIDTagKey p) \<noteq> None"
    and "matchResAndSDKTargetGroups List resTGs sdkTGs (ResourceIDTagKey p) gates = Inr (matched, create, delete)"
    and "\<forall>r\<in>set create. twTags (made r) = Some (ResourceTags p sid (rsID r) (tgTags (rsSpec r))) \<and>
      \<not> isSDKTargetGroupRequiresReplacement (made r) r gates"
    and "\<forall>(r, s)\<in>set matched.
      map_of (nil_map (twTags (updated r s))) (ResourceIDTagKey p) = map_of (nil_map (twTags s)) (ResourceIDTagKey p) \<and>
      \<not> isSDKTargetGroupRequiresReplacement (updated r s) r gates"
    and "set sdkTGs' = (\<lambda>(r, s). updated r s) ` set matched \<union> made ` set create"
  shows "\<exists>matched'. matchResAndSDKTargetGroups List resTGs sdkTGs' (ResourceIDTagKey p) gates = Inr (matched', [], [])"
proof -
  let ?key = "ResourceIDTagKey p"
  let ?match = "\<lambda>ss. match_by_id sorted_list_of_set (\<lambda>s r. isSDKTargetGroupRequiresReplacement s r gates)
       (index_by rsID resTGs) (group_by (tg_id ?key) ss)"
  have run: "?match sdkTGs = (matched, create, delete)"
    using assms(4) unfolding matchResAndSDKTargetGroups_eq [OF assms(1,3)] by simp
  have made: "map_of (nil_map (twTags (made r))) ?key = Some (rsID r)" if "r \<in> set create" for r
    using assms(5) that tracking_keys_distinct [of p] by (simp add: ResourceTags_get ResourceIDTagKey_def)
  have upd: "map_of (nil_map (twTags (updated r s))) ?key = Some (rsID r)" if rs: "(r, s) \<in> set matched" for r s
  proof -
    have "s \<in> set sdkTGs" "rsID r = tg_id ?key s" using tgm.matched_iff [OF assms(2) run] rs by auto
    then have "map_of (nil_map (twTags s)) ?key = Some (rsID r)"
      using assms(3) gomap_index_Some [of "nil_map (twTags s)" ?key "[]" "rsID r"] by simp
    then show ?thesis using assms(6) rs by auto
  qed
  have tags': "\<forall>tg\<in>set sdkTGs'. map_of (nil_map (twTags tg)) ?key \<noteq> None"
    using assms(7) made upd by auto
  obtain m' ur' us' where run': "?match sdkTGs' = (m', ur', us')" by (metis prod_cases3)
  have "ur' = [] \<and> us' = []"
  proof (rule tgm.converges [OF assms(2) run _ _ assms(7) assms(2) run'])
    show "tg_id ?key (made r) = rsID r \<and> \<not> isSDKTargetGroupRequiresReplacement (made r) r gates"
      if "r \<in> set create" for r
      using made [OF that] assms(5) that by (simp add: gomap_index_def)
    show "tg_id ?key (updated r s) = rsID r \<and> \<not> isSDKTargetGroupRequiresReplacement (updated r s) r gates"
      if "(r, s) \<in> set matched" for r s
      using upd [OF that] assms(6) that by (auto simp: gomap_index_def)
  qed
  then show ?thesis unfolding matchResAndSDKTargetGroups_eq [OF assms(1) tags'] run' by simp
qed

abbreviation example_provider :: defaultProvider where
  "example_provider \<equiv> \<lparr>tagPrefix = ''ingress.k8s.aws'', clusterName = ''c''\<rparr>"

lemma example_tg_match:
  "matchResAndSDKTargetGroups sorted_list_of_set [example_res_tg ''a'' ''HTTP'', example_res_tg ''b'' ''HTTPS'']
     [example_sdk_tg ''1'' [(''ingress.k8s.aws/resource'', ''a'')] ''HTTP'',
      example_sdk_tg ''2'' [(''ingress.k8s.aws/resource'', ''b'')] ''TCP'']
     (ResourceIDTagKey example_provider) [] =
   Inr ([(example_res_tg ''a'' ''HTTP'', example_sdk_tg ''1'' [(''ingress.k8s.aws/resource'', ''a'')] ''HTTP'')],
        [example_res_tg ''b'' ''HTTPS''], [example_sdk_tg ''2'' [(''ingress.k8s.aws/resource'', ''b'')] ''TCP''])"
  by code_simp

theorem target_groups_converge_witness:
  "\<exists>matched'. matchResAndSDKTargetGroups sorted_list_of_set
     [example_res_tg ''a'' ''HTTP'', example_res_tg ''b'' ''HTTPS'']
     [example_sdk_tg ''1'' [(''ingress.k8s.aws/resource'', ''a'')] ''HTTP'',
      example_sdk_tg ''3'' (ResourceTags example_provider \<lparr>sidNamespace = [], sidName = ''g''\<rparr> ''b'' []) ''HTTPS'']
     (ResourceIDTagKey example_provider) [] = Inr (matched', [], [])"
proof -
  let ?p = example_provider and ?sid = "\<lparr>sidNamespace = [], sidName = ''g''\<rparr> :: StackID"
  have key: "ResourceIDTagKey ?p = ''ingress.k8s.aws/resource''"
    by (simp add: ResourceIDTagKey_def prefixedTrackingKey_def)
  have tags: "\<forall>tg\<in>set [example_sdk_tg ''1'' [(''ingress.k8s.aws/resource'', ''a'')] ''HTTP'',
      example_sdk_tg ''2'' [(''ingress.k8s.aws/resource'', ''b'')] ''TCP''].
      map_of (nil_map (twTags tg)) (ResourceIDTagKey ?p) \<noteq> None"
    by (simp add: key example_sdk_tg_def)
  have dist: "distinct (map rsID [example_res_tg ''a'' ''HTTP'', example_res_tg ''b'' ''HTTPS''])"
    by (simp add: example_res_tg_def)
  have simps: "rsID (example_res_tg rid q) = rid" "tgTags (rsSpec (example_res_tg rid q)) = []"
    "twTags (example_sdk_tg arn tags p) = Some tags" for rid q arn tags p
    by (simp_all add: example_res_tg_def example_sdk_tg_def)
  show ?thesis
    by (rule target_groups_converge [OF sorted_list_of_set_lists_sorted dist tags example_tg_match,
        where made = "\<lambda>_. example_sdk_tg ''3'' (ResourceTags ?p ?sid ''b'' []) ''HTTPS''"
          and updated = "\<lambda>r s. s" and sid = ?sid])
      (auto simp: simps example_tg_replacement)
qed

lemma matchResAndSDKLoadBalancers_eq:
  assumes "lists_sorted List" "\<forall>lb\<in>set sdkLBs. map_of (nil_map (lwTags lb)) key \<noteq> None"
  shows "matchResAndSDKLoadBalancers List resLBs sdkLBs key =
     Inr (match_by_id sorted_list_of_set isSDKLoadBalancerRequiresReplacement
       (index_by rsID resLBs) (group_by (lb_id key) sdkLBs))"
  using assms by (simp add: matchResAndSDKLoadBalancers_def mapResLoadBalancerByResourceID_def
      mapSDKLoadBalancerByResourceID_def map_by_resource_id_ok match_by_id_List [symmetric])

text \<open>C29: Matching load balancers. When every existing load balancer carries the resource identifier
  tag, the ones to delete are exactly those that no desired load balancer with their identifier
  can keep, that is whose type or scheme differs, and the ones to create exactly those that no
  existing load balancer can serve; each existing one is updated or deleted, never both. When one
  has no such tag, the matching reports it and nothing is deleted.\<close>

theorem load_balancer_matching:
  assumes "lists_sorted List" "distinct (map rsID resLBs)"
  shows "if \<forall>lb\<in>set sdkLBs. map_of (nil_map (lwTags lb)) key \<noteq> None then
     \<exists>matched create delete. matchResAndSDKLoadBalancers List resLBs sdkLBs key = Inr (matched, create, delete) \<and>
       (\<forall>s. s \<in> set delete \<longleftrightarrow> s \<in> set sdkLBs \<and>
          (\<forall>r\<in>set resLBs. map_of (nil_map (lwTags s)) key = Some (rsID r) \<longrightarrow>
             isSDKLoadBalancerRequiresReplacement s r)) \<and>
       (\<forall>r. r \<in> set create \<longleftrightarrow> r \<in> set resLBs \<and>
          (\<forall>s\<in>set sdkLBs. map_of (nil_map (lwTags s)) key = Some (rsID r) \<longrightarrow>
             isSDKLoadBalancerRequiresReplacement s r)) \<and>
       mset (map snd matched) + mset delete = mset sdkLBs \<and> distinct create
   else \<exists>lb\<in>set sdkLBs. map_of (nil_map (lwTags lb)) key = None \<and>
     matchResAndSDKLoadBalancers List resLBs sdkLBs key =
       Inl (Errorf ''unexpected loadBalancer with no resourceID: %v'' [StringValue (slbLoadBalancerArn (lwLoadBalancer lb))])"
proof (cases "\<forall>lb\<in>set sdkLBs. map_of (nil_map (lwTags lb)) key \<noteq> None")
  case True
  obtain m ur us where run: "match_by_id sorted_list_of_set isSDKLoadBalancerRequiresReplacement
       (index_by rsID resLBs) (group_by (lb_id key) sdkLBs) = (m, ur, us)"
    by (metis prod_cases3)
  have tag: "s \<in> set sdkLBs \<Longrightarrow> rsID r = lb_id key s \<longleftrightarrow> map_of (nil_map (lwTags s)) key = Some (rsID r)" for r s
    using True gomap_index_Some [of "nil_map (lwTags s)" key "[]" "rsID r"] by auto
  have "s \<in> set us \<longleftrightarrow> s \<in> set sdkLBs \<and> (\<forall>r\<in>set resLBs. map_of (nil_map (lwTags s)) key = Some (rsID r) \<longrightarrow>
      isSDKLoadBalancerRequiresReplacement s r)" for s
    unfolding lbm.unmatched_sdk_iff [OF assms(2) run] using tag by auto
  moreover have "r \<in> set ur \<longleftrightarrow> r \<in> set resLBs \<and> (\<forall>s\<in>set sdkLBs. map_of (nil_map (lwTags s)) key = Some (rsID r) \<longrightarrow>
      isSDKLoadBalancerRequiresReplacement s r)" for r
    unfolding lbm.unmatched_res_iff [OF assms(2) run] using tag by auto
  ultimately show ?thesis
    using True lbm.sdk_partition [OF assms(2) run] lbm.created_once [OF assms(2) run]
    unfolding matchResAndSDKLoadBalancers_eq [OF assms(1) True] run by auto
next
  case False
  then obtain lb where "lb \<in> set sdkLBs" "map_of (nil_map (lwTags lb)) key = None" by blast
  then have "\<exists>lb\<in>set sdkLBs. map_of (nil_map (lwTags lb)) key = None \<and>
      mapSDKLoadBalancerByResourceID sdkLBs key =
       Inl (Errorf ''unexpected loadBalancer with no resourceID: %v'' [StringValue (slbLoadBalancerArn (lwLoadBalancer lb))])"
    unfolding mapSDKLoadBalancerByResourceID_def by (rule map_by_resource_id_missing)
  then show ?thesis using False by (auto simp: matchResAndSDKLoadBalancers_def)
qed

definition example_res_lb :: ResLB where
  "example_res_lb = \<lparr>rsRef = 0, rsID = ''LoadBalancer'', rsSpec = \<lparr>lbName = ''lb'', lbType = ''application'',
     lbScheme = Some ''internal'', lbIPAddressType = None, lbSubnetMappings = [], lbSecurityGroups = [],
     lbCustomerOwnedIPv4Pool = None, lbLoadBalancerAttributes = [], lbTags = []\<rparr>\<rparr>"

definition example_sdk_lb :: "string_map \<Rightarrow> LoadBalancerWithTags" where
  "example_sdk_lb tags = \<lparr>lwLoadBalancer = \<lparr>slbLoadBalancerArn = Some ''arn'', slbDNSName = None,
     slbType = Some ''application'', slbScheme = Some ''internet-facing'', slbVpcId = None, slbIpAddressType = None,
     slbAvailabilityZoneSubnetIds = [], slbSecurityGroups = [], slbCustomerOwnedIpv4Pool = None\<rparr>, lwTags = Some tags\<rparr>"

theorem load_balancer_matching_witness:
  "(\<exists>matched create. matchResAndSDKLoadBalancers sorted_list_of_set [example_res_lb]
      [example_sdk_lb [(''id'', ''LoadBalancer'')]] ''id'' =
      Inr (matched, create, [example_sdk_lb [(''id'', ''LoadBalancer'')]])) \<and>
   matchResAndSDKLoadBalancers sorted_list_of_set [example_res_lb] [example_sdk_lb []] ''id'' =
      Inl (Errorf ''unexpected loadBalancer with no resourceID: %v'' [''arn''])"
proof
  have dist: "distinct (map rsID [example_res_lb])" by simp
  note lbt = load_balancer_matching [OF sorted_list_of_set_lists_sorted dist, where key = "''id''"]
  let ?s = "example_sdk_lb [(''id'', ''LoadBalancer'')]"
  have "\<forall>lb\<in>set [?s]. map_of (nil_map (lwTags lb)) ''id'' \<noteq> None" by (simp add: example_sdk_lb_def)
  then obtain m c d where run: "matchResAndSDKLoadBalancers sorted_list_of_set [example_res_lb] [?s] ''id'' = Inr (m, c, d)"
    and d: "s \<in> set d \<longleftrightarrow> s \<in> set [?s] \<and> (\<forall>r\<in>set [example_res_lb].
       map_of (nil_map (lwTags s)) ''id'' = Some (rsID r) \<longrightarrow> isSDKLoadBalancerRequiresReplacement s r)"
    and part: "mset (map snd m) + mset d = mset [?s]" for s
    using lbt [of "[?s]"] by auto
  have "?s \<in> set d" unfolding d
    by (simp add: example_sdk_lb_def example_res_lb_def isSDKLoadBalancerRequiresReplacement_def)
  then obtain d' where "mset d = add_mset ?s d'" by (metis mset_add set_mset_mset)
  then have "mset d = {#?s#}" using part by simp
  then show "\<exists>matched create. matchResAndSDKLoadBalancers sorted_list_of_set [example_res_lb] [?s] ''id'' =
      Inr (matched, create, [?s])"
    using run by (metis mset_single_iff)
next
  have dist: "distinct (map rsID [example_res_lb])" by simp
  show "matchResAndSDKLoadBalancers sorted_list_of_set [example_res_lb] [example_sdk_lb []] ''id'' =
      Inl (Errorf ''unexpected loadBalancer with no resourceID: %v'' [''arn''])"
    using load_balancer_matching [OF sorted_list_of_set_lists_sorted dist, where key = "''id''" and sdkLBs = "[example_sdk_lb []]"]
    by (simp add: example_sdk_lb_def)
qed

text \<open>C30: Reconciling the rules of a listener converges. The desired rules have distinct 64-bit
  priorities and so have the existing ones. When each created rule reports the priority it was
  asked for, in decimal, and each updated rule keeps its priority, then the next matching has
  nothing to create and nothing to delete.\<close>

theorem listener_rules_converge:
  assumes "lists_sorted List" "distinct (map (\<lambda>lr. lrPriority (rsSpec lr)) resLRs)"
    and "distinct (map sdk_rule_priority sdkLRs)"
    and "\<forall>lr\<in>set resLRs. - (2 ^ 63) \<le> lrPriority (rsSpec lr) \<and> lrPriority (rsSpec lr) < 2 ^ 63"
    and "matchResAndSDKListenerRules List resLRs sdkLRs = (matched, create, delete)"
    and "\<forall>lr\<in>set create. slrPriority (rwListenerRule (made lr)) = Some (Itoa (lrPriority (rsSpec lr)))"
    and "\<forall>(r, s)\<in>set matched. slrPriority (rwListenerRule (updated r s)) = slrPriority (rwListenerRule s)"
  shows "\<exists>matched'. matchResAndSDKListenerRules List resLRs
     (map (\<lambda>(r, s). updated r s) matched @ map made create) = (matched', [], [])"
proof -
  have List: "matchResAndSDKListenerRules List = matchResAndSDKListenerRules sorted_list_of_set"
    by (intro ext) (simp add: matchResAndSDKListenerRules_def match_by_key_List [OF assms(1)])
  note run = assms(5) [unfolded List] and valid = conjI [OF assms(2,3)]
  have "sdk_rule_priority (made r) = lrPriority (rsSpec r)" if r: "r \<in> set create" for r
  proof -
    have "r \<in> set resLRs" using lrm.unmatched_res_iff [OF valid run] r by blast
    then show ?thesis using assms(4,6) r by (simp add: sdk_rule_priority_def ParseInt_Itoa)
  qed
  moreover have "sdk_rule_priority (updated r s) = lrPriority (rsSpec r)" if rs: "(r, s) \<in> set matched" for r s
    using lrm.matched_iff [OF valid run, of r s] assms(7) rs by (auto simp: sdk_rule_priority_def)
  ultimately show ?thesis unfolding List by (intro lrm.keyed_converges [OF valid run]) simp_all
qed

definition example_res_lr :: "int \<Rightarrow> ResLR" where
  "example_res_lr n = \<lparr>rsRef = 0, rsID = Itoa n,
     rsSpec = \<lparr>lrListenerARN = LiteralStringToken ''ls'', lrPriority = n, lrActions = [], lrConditions = [], lrTags = []\<rparr>\<rparr>"

definition example_sdk_lr :: "string \<Rightarrow> ListenerRuleWithTags" where
  "example_sdk_lr prio = \<lparr>rwListenerRule = \<lparr>slrRuleArn = Some prio, slrPriority = Some prio, slrIsDefault = None,
     slrActions = [], slrConditions = []\<rparr>, rwTags = None\<rparr>"

lemma example_lr_match:
  "matchResAndSDKListenerRules sorted_list_of_set [example_res_lr 1, example_res_lr 20]
     [example_sdk_lr ''1'', example_sdk_lr ''7''] =
   ([(example_res_lr 1, example_sdk_lr ''1'')], [example_res_lr 20], [example_sdk_lr ''7''])"
  by code_simp

theorem listener_rules_converge_witness:
  "\<exists>matched'. matchResAndSDKListenerRules sorted_list_of_set [example_res_lr 1, example_res_lr 20]
     [example_sdk_lr ''1'', example_sdk_lr ''20''] = (matched', [], [])"
proof -
  have dist: "distinct (map (\<lambda>lr. lrPriority (rsSpec lr)) [example_res_lr 1, example_res_lr 20])"
    "distinct (map sdk_rule_priority [example_sdk_lr ''1'', example_sdk_lr ''7''])"
    by code_simp+
  have bound: "\<forall>lr\<in>set [example_res_lr 1, example_res_lr 20].
      - (2 ^ 63) \<le> lrPriority (rsSpec lr) \<and> lrPriority (rsSpec lr) < 2 ^ 63"
    by (simp add: example_res_lr_def)
  have made: "\<forall>lr\<in>set [example_res_lr 20]. slrPriority (rwListenerRule (example_sdk_lr ''20'')) =
      Some (Itoa (lrPriority (rsSpec lr)))"
    by code_simp
  show ?thesis
    using listener_rules_converge [OF sorted_list_of_set_lists_sorted dist bound example_lr_match,
      of "\<lambda>_. example_sdk_lr ''20''" "\<lambda>r s. s"] made
    by simp
qed

section \<open>Security groups\<close>

abbreviation sg_id :: "string \<Rightarrow> SecurityGroupInfo \<Rightarrow> string" where
  "sg_id key sg \<equiv> gomap_index [] (nil_map (sgiTags sg)) key"

lemma group_nonempty: "k \<in> key ` set ss \<Longrightarrow> group key ss k \<noteq> []"
  by (auto simp: filter_empty_conv)

lemma match_first_form:
  assumes "lists_sorted List"
  shows "match_first List (index_by kr rs) (group_by ks ss) =
    (let B = List (kr ` set rs \<inter> ks ` set ss) in
     (map (\<lambda>k. (pick kr rs k, hd (group ks ss k))) B,
      map (pick kr rs) (List (kr ` set rs - ks ` set ss)),
      concat (map (\<lambda>k. tl (group ks ss k)) B) @ concat (map (group ks ss) (List (ks ` set ss - kr ` set rs)))))"
proof -
  note mem = lists_sortedD(1) [OF assms]
  have "List.map_filter (\<lambda>rid. case (map_of (index_by kr rs) rid, group ks ss rid) of
        (Some r, s # _) \<Rightarrow> Some (r, s) | _ \<Rightarrow> None) (List (kr ` set rs \<inter> ks ` set ss)) =
      map (\<lambda>k. (pick kr rs k, hd (group ks ss k))) (List (kr ` set rs \<inter> ks ` set ss))"
    by (rule map_filter_map) (auto simp: mem index_by_pick dest!: group_nonempty split: list.split)
  moreover have "List.map_filter (map_of (index_by kr rs)) (List (kr ` set rs - ks ` set ss)) =
      map (pick kr rs) (List (kr ` set rs - ks ` set ss))"
    by (rule map_filter_map) (simp add: mem index_by_pick)
  ultimately show ?thesis
    unfolding match_first_def Let_def index_by_keys group_by_keys group_by_index by simp
qed

lemma match_first_partition:
  assumes "lists_sorted List" "match_first List (index_by kr rs) (group_by ks ss) = (m, ur, us)"
  shows "mset (map snd m) + mset us = mset ss"
proof -
  let ?B = "List (kr ` set rs \<inter> ks ` set ss)" and ?D = "List (ks ` set ss - kr ` set rs)"
  note mem = lists_sortedD [OF assms(1)]
  have d: "distinct ?B" "distinct ?D" by (auto simp: mem)
  have m: "map snd m = concat (map (\<lambda>k. [hd (group ks ss k)]) ?B)"
    and us: "us = concat (map (\<lambda>k. tl (group ks ss k)) ?B) @ concat (map (group ks ss) ?D)"
    using assms(2) unfolding match_first_form [OF assms(1)] Let_def by (auto simp: comp_def)
  have "mset [hd (group ks ss k)] + mset (tl (group ks ss k)) = mset (group ks ss k)" if "k \<in> set ?B" for k
    using that group_nonempty [of k ks ss] by (cases "group ks ss k") (auto simp: mem(1))
  then have "mset (map snd m) + mset us =
      (\<Sum>k\<in>set ?B. mset (group ks ss k)) + (\<Sum>k\<in>set ?D. mset (group ks ss k))"
    unfolding m us mset_append
    by (simp only: mset_concat_map_distinct [OF d(1)] mset_concat_map_distinct [OF d(2)]
        add.assoc [symmetric] sum.distrib [symmetric] cong: sum.cong)
  also have "\<dots> = (\<Sum>k\<in>set ?B \<union> set ?D. mset (group ks ss k))"
    by (rule sum.union_disjoint [symmetric]) (auto simp: mem(1))
  also have "\<dots> = mset ss" by (rule sum_mset_groups) (auto simp: mem(1))
  finally show ?thesis .
qed

text \<open>Matching security groups. Provided every existing group carries the resource identifier
  tag, each desired group is either created, when no existing group has its identifier, or
  matched with exactly one existing group, the first with its identifier; all other existing
  groups are deleted, and each existing group is accounted for exactly once.\<close>

theorem security_group_matching:
  assumes "lists_sorted List" "distinct (map rsID resSGs)"
    and "\<forall>sg\<in>set sdkSGs. map_of (nil_map (sgiTags sg)) key \<noteq> None"
  shows "\<exists>matched create delete.
    matchResAndSDKSecurityGroups List resSGs sdkSGs key = Inr (matched, create, delete) \<and>
    mset (map fst matched @ create) = mset resSGs \<and>
    (\<forall>r s. (r, s) \<in> set matched \<longrightarrow>
       (\<exists>rest. filter (\<lambda>sg. map_of (nil_map (sgiTags sg)) key = Some (rsID r)) sdkSGs = s # rest)) \<and>
    (\<forall>r\<in>set create. filter (\<lambda>sg. map_of (nil_map (sgiTags sg)) key = Some (rsID r)) sdkSGs = []) \<and>
    mset (map snd matched) + mset delete = mset sdkSGs"
proof -
  let ?ks = "sg_id key" and ?R = "pick rsID resSGs"
  let ?B = "List (rsID ` set resSGs \<inter> ?ks ` set sdkSGs)" and ?C = "List (rsID ` set resSGs - ?ks ` set sdkSGs)"
  note mem = lists_sortedD [OF assms(1)]
  obtain m ur us where run: "match_first List (index_by rsID resSGs) (group_by ?ks sdkSGs) = (m, ur, us)"
    by (metis prod_cases3)
  have eq: "matchResAndSDKSecurityGroups List resSGs sdkSGs key = Inr (m, ur, us)"
    using assms(3) run by (simp add: matchResAndSDKSecurityGroups_def mapResSecurityGroupByResourceID_def
        mapSDKSecurityGroupByResourceID_def map_by_resource_id_ok)
  have m: "m = map (\<lambda>k. (?R k, hd (group ?ks sdkSGs k))) ?B" and ur: "ur = map ?R ?C"
    using run unfolding match_first_form [OF assms(1)] Let_def by auto
  have grp: "filter (\<lambda>sg. map_of (nil_map (sgiTags sg)) key = Some rid) sdkSGs = group ?ks sdkSGs rid" for rid
    using assms(3) by (intro filter_cong refl) (auto simp: gomap_index_def)
  have all: "map fst m @ ur = map ?R (?B @ ?C)" by (simp add: m ur)
  have ids: "distinct (?B @ ?C)" "set (?B @ ?C) = rsID ` set resSGs" by (auto simp: mem)
  have "?R ` rsID ` set resSGs = set resSGs" using pick_key [OF assms(2)] by force
  then have "distinct (map fst m @ ur)" "set (map fst m @ ur) = set resSGs"
    unfolding all using pick_inj [OF assms(2)] ids by (simp_all only: distinct_map set_map)
  moreover have "distinct resSGs" using assms(2) by (simp add: distinct_map)
  ultimately have res: "mset (map fst m @ ur) = mset resSGs" by (simp only: set_eq_iff_mset_eq_distinct)
  have pk: "rsID (?R k) = k" if "k \<in> rsID ` set resSGs" for k
    using that pick_key [OF assms(2)] by auto
  have "\<exists>rest. group ?ks sdkSGs (rsID r) = s # rest" if "(r, s) \<in> set m" for r s
  proof -
    obtain k where k: "k \<in> set ?B" "r = ?R k" "s = hd (group ?ks sdkSGs k)" using \<open>(r, s) \<in> set m\<close> m by auto
    then have "rsID r = k" "group ?ks sdkSGs k \<noteq> []" using pk group_nonempty [of k ?ks sdkSGs] by (auto simp: mem(1))
    then show ?thesis using k by (cases "group ?ks sdkSGs k") auto
  qed
  moreover have "group ?ks sdkSGs (rsID r) = []" if r: "r \<in> set ur" for r
  proof -
    obtain k where k: "k \<in> rsID ` set resSGs" "k \<notin> ?ks ` set sdkSGs" "r = ?R k"
      using r ur by (auto simp: mem(1))
    then show ?thesis using pk [OF k(1)] group_empty [OF k(2)] by simp
  qed
  ultimately show ?thesis
    unfolding grp using eq res match_first_partition [OF assms(1) run] by blast
qed

definition example_res_sg :: "string \<Rightarrow> ResSG" where
  "example_res_sg rid = \<lparr>rsRef = 0, rsID = rid,
     rsSpec = \<lparr>sgGroupName = rid, sgDescription = [], sgTags = [], sgIngress = []\<rparr>\<rparr>"

definition example_sdk_sg :: "string \<Rightarrow> string \<Rightarrow> SecurityGroupInfo" where
  "example_sdk_sg gid rid = \<lparr>SecurityGroupID = gid, sgiIngress = [], sgiTags = Some [(''id'', rid)]\<rparr>"

theorem security_group_matching_witness:
  "\<exists>matched create delete. matchResAndSDKSecurityGroups sorted_list_of_set [example_res_sg ''a'']
     [example_sdk_sg ''sg-1'' ''a'', example_sdk_sg ''sg-2'' ''a''] ''id'' = Inr (matched, create, delete) \<and>
     mset (map fst matched @ create) = {#example_res_sg ''a''#} \<and>
     mset (map snd matched) + mset delete = mset [example_sdk_sg ''sg-1'' ''a'', example_sdk_sg ''sg-2'' ''a'']"
proof -
  have tags: "\<forall>sg\<in>set [example_sdk_sg ''sg-1'' ''a'', example_sdk_sg ''sg-2'' ''a''].
      map_of (nil_map (sgiTags sg)) ''id'' \<noteq> None"
    by (simp add: example_sdk_sg_def)
  show ?thesis
    using security_group_matching [OF sorted_list_of_set_lists_sorted _ tags, of "[example_res_sg ''a'']"]
    by auto
qed

end
