(* ===== verification/Tagging.thy ===== *)
theory Tagging
  imports Deploy_Match
begin

text \<open>
  The tagging managers of \<^verbatim>\<open>pkg/deploy/elbv2/tagging_manager.go\<close> and
  \<^verbatim>\<open>pkg/deploy/ec2/tagging_manager.go\<close>: listing the resources of a stack by their tags, and
  reconciling the tags of one resource. Clients of Elastic Load Balancing, of the resource groups
  tagging API and of EC2 are parameters.
\<close>

section \<open>Conversions\<close>

definition convertTagsToSDKTags :: "(string set \<Rightarrow> string list) \<Rightarrow> string_map \<Rightarrow> SdkTag list" where
  "convertTagsToSDKTags List tags =
     (if tags = [] then []
      else map (\<lambda>key. \<lparr>sdkTagKey = Some key, sdkTagValue = Some (gomap_index [] tags key)\<rparr>)
             (List (set (gomap_keys tags))))"

definition convertSDKTagsToTags :: "SdkTag list \<Rightarrow> string_map" where
  "convertSDKTagsToTags sdkTags =
     put_all (map (\<lambda>t. (StringValue (sdkTagKey t), StringValue (sdkTagValue t))) sdkTags) []"

record RGTTagFilter =
  rgtKey :: "string option"
  rgtValues :: "string option list"

definition convertTagFiltersToRGTTagFilters :: "(TagFilter \<Rightarrow> TagFilter) \<Rightarrow> TagFilter \<Rightarrow> RGTTagFilter list" where
  "convertTagFiltersToRGTTagFilters order tagFilter =
     map (\<lambda>(k, v). \<lparr>rgtKey = Some k, rgtValues = map Some v\<rparr>) (order tagFilter)"

definition ParseRGTTags :: "SdkTag list \<Rightarrow> string_map" where
  "ParseRGTTags tags = put_all (map (\<lambda>t. (StringValue (sdkTagKey t), StringValue (sdkTagValue t))) tags) []"

definition ResourceTypeELBTargetGroup :: string where
  "ResourceTypeELBTargetGroup = ''elasticloadbalancing:targetgroup''"

definition ResourceTypeELBLoadBalancer :: string where
  "ResourceTypeELBLoadBalancer = ''elasticloadbalancing:loadbalancer''"

section \<open>The manager for Elastic Load Balancing\<close>

record ResourceTagMapping =
  rtmResourceARN :: "string option"
  rtmTags :: "SdkTag list"

text \<open>The orders of the ranges over maps: tag filters, and resources by ARN.\<close>

record 'w defaultTaggingManager =
  tmElbv2Client :: "'w ELBV2"
  tmVpcID :: string
  tmFeatureGates :: FeatureGates
  tmDescribeTagsChunkSize :: int
  tmGetResourcesAsList :: "RGTTagFilter list \<Rightarrow> string list \<Rightarrow> ('w, ResourceTagMapping list) io"
  tmList :: "string set \<Rightarrow> string list"
  tmFilterOrder :: "TagFilter \<Rightarrow> TagFilter"
  tmARNOrder :: "(string, SdkTag list) gomap \<Rightarrow> (string, SdkTag list) gomap"

definition defaultDescribeTagsChunkSize :: int where
  "defaultDescribeTagsChunkSize = 20"

text \<open>Describing the tags of resources, in chunks. A chunk size of zero, which the constructor never
  sets, would make \<^verbatim>\<open>ChunkStrings\<close> run forever.\<close>

definition describeResourceTagsNative ::
  "'w defaultTaggingManager \<Rightarrow> string list \<Rightarrow> ('w, (string, string_map) gomap) io" where
  "describeResourceTagsNative m arns =
     (case ChunkStrings arns (tmDescribeTagsChunkSize m) of
        None \<Rightarrow> io_fail (Errorf ''ChunkStrings does not return'' [])
      | Some (Inl e) \<Rightarrow> io_fail e
      | Some (Inr arnsChunks) \<Rightarrow>
          io_foldM (\<lambda>tagsByARN arnsChunk.
            io_bind (DescribeTagsWithContext (tmElbv2Client m) arnsChunk) (\<lambda>descriptions.
              io_return (fold (\<lambda>d. AList.update (StringValue (stdResourceArn d)) (convertSDKTagsToTags (stdTags d)))
                descriptions tagsByARN))) [] arnsChunks)"

record ReconcileTagsOptions =
  optCurrentTags :: "string_map option"
  optIgnoredTagKeys :: "string list"

datatype ReconcileTagsOption =
    WithCurrentTags "string_map option"
  | WithIgnoredTagKeys "string list"

fun apply_option :: "ReconcileTagsOption \<Rightarrow> ReconcileTagsOptions \<Rightarrow> ReconcileTagsOptions" where
  "apply_option (WithCurrentTags tags) opts = opts\<lparr>optCurrentTags := tags\<rparr>"
| "apply_option (WithIgnoredTagKeys keys) opts = opts\<lparr>optIgnoredTagKeys := optIgnoredTagKeys opts @ keys\<rparr>"

definition ApplyOptions :: "ReconcileTagsOption list \<Rightarrow> ReconcileTagsOptions \<Rightarrow> ReconcileTagsOptions" where
  "ApplyOptions options opts = fold apply_option options opts"

definition ReconcileTags ::
  "'w defaultTaggingManager \<Rightarrow> string \<Rightarrow> string_map \<Rightarrow> ReconcileTagsOption list \<Rightarrow> ('w, unit) io" where
  "ReconcileTags m arn desiredTags opts =
     (let reconcileOpts = ApplyOptions opts \<lparr>optCurrentTags = None, optIgnoredTagKeys = []\<rparr> in
      io_bind
        (case optCurrentTags reconcileOpts of
           Some currentTags \<Rightarrow> io_return currentTags
         | None \<Rightarrow> io_bind (describeResourceTagsNative m [arn]) (\<lambda>tagsByARN. io_return (gomap_index [] tagsByARN arn)))
        (\<lambda>currentTags.
          let (tagsToUpdate0, tagsToRemove0) = DiffStringMap desiredTags currentTags;
              tagsToUpdate = fold AList.delete (optIgnoredTagKeys reconcileOpts) tagsToUpdate0;
              tagsToRemove = fold AList.delete (optIgnoredTagKeys reconcileOpts) tagsToRemove0
          in io_bind
               (if tagsToUpdate \<noteq> [] then
                  AddTagsWithContext (tmElbv2Client m) arn (convertTagsToSDKTags (tmList m) tagsToUpdate)
                else io_return ())
               (\<lambda>_. if tagsToRemove \<noteq> [] then
                  RemoveTagsWithContext (tmElbv2Client m) arn (tmList m (set (gomap_keys tagsToRemove)))
                else io_return ())))"

definition ListListeners :: "'w defaultTaggingManager \<Rightarrow> string \<Rightarrow> ('w, ListenerWithTags list) io" where
  "ListListeners m lbARN =
     io_bind (DescribeListenersAsList (tmElbv2Client m) lbARN) (\<lambda>listeners.
       let lsARNs = map (\<lambda>l. StringValue (slsListenerArn l)) listeners;
           lsByARN = index_by (\<lambda>l. StringValue (slsListenerArn l)) listeners
       in io_bind
            (if Enabled (tmFeatureGates m) ListenerRulesTagging
             then describeResourceTagsNative m lsARNs else io_return [])
            (\<lambda>tagsByARN. io_return (List.map_filter (\<lambda>arn.
               map_option (\<lambda>l. \<lparr>swListener = l, swTags = map_of tagsByARN arn\<rparr>) (map_of lsByARN arn)) lsARNs)))"

definition ListListenerRules :: "'w defaultTaggingManager \<Rightarrow> string \<Rightarrow> ('w, ListenerRuleWithTags list) io" where
  "ListListenerRules m lsARN =
     io_bind (DescribeRulesAsList (tmElbv2Client m) lsARN) (\<lambda>rules.
       let lrARNs = map (\<lambda>l. StringValue (slrRuleArn l)) rules;
           lrByARN = index_by (\<lambda>l. StringValue (slrRuleArn l)) rules
       in io_bind
            (if Enabled (tmFeatureGates m) ListenerRulesTagging
             then describeResourceTagsNative m lrARNs else io_return [])
            (\<lambda>tagsByARN. io_return (List.map_filter (\<lambda>arn.
               map_option (\<lambda>l. \<lparr>rwListenerRule = l, rwTags = map_of tagsByARN arn\<rparr>) (map_of lrByARN arn)) lrARNs)))"

text \<open>The resources found by the tagging API, the first tags for each ARN.\<close>

definition rgt_resources ::
  "'w defaultTaggingManager \<Rightarrow> string \<Rightarrow> TagFilter list \<Rightarrow> ('w, (string, SdkTag list) gomap) io" where
  "rgt_resources m resourceType tagFilters =
     io_foldM (\<lambda>resourceTagsByARN tagFilter.
       io_bind (tmGetResourcesAsList m (convertTagFiltersToRGTTagFilters (tmFilterOrder m) tagFilter) [resourceType])
         (\<lambda>rs. io_return (fold (\<lambda>r acc.
            if map_of acc (StringValue (rtmResourceARN r)) = None
            then AList.update (StringValue (rtmResourceARN r)) (rtmTags r) acc else acc) rs resourceTagsByARN)))
       [] tagFilters"

definition listLoadBalancersRGT ::
  "'w defaultTaggingManager \<Rightarrow> TagFilter list \<Rightarrow> ('w, LoadBalancerWithTags list) io" where
  "listLoadBalancersRGT m tagFilters =
     io_bind (rgt_resources m ResourceTypeELBLoadBalancer tagFilters) (\<lambda>resourceTagsByARN.
       io_mapM (\<lambda>(resourceARN, resourceTags).
         io_bind (DescribeLoadBalancersAsList (tmElbv2Client m) [resourceARN]) (\<lambda>resp.
           case resp of
             [] \<Rightarrow> io_fail (Errorf ''no load balancer found for the arn: %v'' [resourceARN])
           | lb # _ \<Rightarrow> io_return \<lparr>lwLoadBalancer = lb, lwTags = Some (ParseRGTTags resourceTags)\<rparr>))
         (tmARNOrder m resourceTagsByARN))"

definition listLoadBalancersNative ::
  "'w defaultTaggingManager \<Rightarrow> TagFilter list \<Rightarrow> ('w, LoadBalancerWithTags list) io" where
  "listLoadBalancersNative m tagFilters =
     io_bind (DescribeLoadBalancersAsList (tmElbv2Client m) []) (\<lambda>lbs.
       let withinVPC = filter (\<lambda>lb. StringValue (slbVpcId lb) = tmVpcID m) lbs;
           lbARNsWithinVPC = map (\<lambda>lb. StringValue (slbLoadBalancerArn lb)) withinVPC;
           lbByARNWithinVPC = index_by (\<lambda>lb. StringValue (slbLoadBalancerArn lb)) withinVPC
       in io_bind (describeResourceTagsNative m lbARNsWithinVPC) (\<lambda>tagsByARN.
            io_return (List.map_filter (\<lambda>arn.
              let tags = map_of tagsByARN arn in
              if list_ex (\<lambda>f. Matches f (nil_map tags)) tagFilters
              then map_option (\<lambda>lb. \<lparr>lwLoadBalancer = lb, lwTags = tags\<rparr>) (map_of lbByARNWithinVPC arn)
              else None) lbARNsWithinVPC)))"

definition ListLoadBalancers ::
  "'w defaultTaggingManager \<Rightarrow> TagFilter list \<Rightarrow> ('w, LoadBalancerWithTags list) io" where
  "ListLoadBalancers m tagFilters =
     (if Enabled (tmFeatureGates m) EnableRGTAPI then listLoadBalancersRGT m tagFilters
      else listLoadBalancersNative m tagFilters)"

definition listTargetGroupsRGT ::
  "'w defaultTaggingManager \<Rightarrow> TagFilter list \<Rightarrow> ('w, TargetGroupWithTags list) io" where
  "listTargetGroupsRGT m tagFilters =
     io_bind (rgt_resources m ResourceTypeELBTargetGroup tagFilters) (\<lambda>resourceTagsByARN.
       io_mapM (\<lambda>(resourceARN, resourceTags).
         io_bind (DescribeTargetGroupsAsList (tmElbv2Client m) [resourceARN]) (\<lambda>resp.
           case resp of
             [] \<Rightarrow> io_fail (Errorf ''no target group found for the arn: %v'' [resourceARN])
           | tg # _ \<Rightarrow> io_return \<lparr>twTargetGroup = tg, twTags = Some (ParseRGTTags resourceTags)\<rparr>))
         (tmARNOrder m resourceTagsByARN))"

definition listTargetGroupsNative ::
  "'w defaultTaggingManager \<Rightarrow> TagFilter list \<Rightarrow> ('w, TargetGroupWithTags list) io" where
  "listTargetGroupsNative m tagFilters =
     io_bind (DescribeTargetGroupsAsList (tmElbv2Client m) []) (\<lambda>tgs.
       let withinVPC = filter (\<lambda>tg. StringValue (stgVpcId tg) = tmVpcID m) tgs;
           tgARNsWithinVPC = map (\<lambda>tg. StringValue (stgTargetGroupArn tg)) withinVPC;
           tgByARNWithinVPC = index_by (\<lambda>tg. StringValue (stgTargetGroupArn tg)) withinVPC
       in io_bind (describeResourceTagsNative m tgARNsWithinVPC) (\<lambda>tagsByARN.
            io_return (List.map_filter (\<lambda>arn.
              let tags = map_of tagsByARN arn in
              if list_ex (\<lambda>f. Matches f (nil_map tags)) tagFilters
              then map_option (\<lambda>tg. \<lparr>twTargetGroup = tg, twTags = tags\<rparr>) (map_of tgByARNWithinVPC arn)
              else None) tgARNsWithinVPC)))"

definition ListTargetGroups ::
  "'w defaultTaggingManager \<Rightarrow> TagFilter list \<Rightarrow> ('w, TargetGroupWithTags list) io" where
  "ListTargetGroups m tagFilters =
     (if Enabled (tmFeatureGates m) EnableRGTAPI then listTargetGroupsRGT m tagFilters
      else listTargetGroupsNative m tagFilters)"

section \<open>The manager for EC2\<close>

record 'w ec2TaggingManager =
  etmEc2Client :: "'w EC2"
  etmFetchSGInfosByRequest :: "DescribeSecurityGroupsInput \<Rightarrow> ('w, (string, SecurityGroupInfo) gomap) io"
  etmVpcID :: string
  etmList :: "string set \<Rightarrow> string list"
  etmOrder :: "(string, SecurityGroupInfo) gomap \<Rightarrow> (string, SecurityGroupInfo) gomap"

definition ec2_convertTagsToSDKTags :: "(string set \<Rightarrow> string list) \<Rightarrow> string_map \<Rightarrow> Ec2Tag list" where
  "ec2_convertTagsToSDKTags List tags =
     (if tags = [] then []
      else map (\<lambda>key. \<lparr>ec2TagKey = Some key, ec2TagValue = Some (gomap_index [] tags key)\<rparr>)
             (List (set (gomap_keys tags))))"

definition ec2_ReconcileTags ::
  "'w ec2TaggingManager \<Rightarrow> string \<Rightarrow> string_map \<Rightarrow> ReconcileTagsOption list \<Rightarrow> ('w, unit) io" where
  "ec2_ReconcileTags m rid desiredTags opts =
     (let reconcileOpts = ApplyOptions opts \<lparr>optCurrentTags = None, optIgnoredTagKeys = []\<rparr> in
      case optCurrentTags reconcileOpts of
        None \<Rightarrow> io_fail (Errorf ''currentTags must be specified'' [])
      | Some currentTags \<Rightarrow>
          let (tagsToUpdate0, tagsToRemove0) = DiffStringMap desiredTags currentTags;
              tagsToUpdate = fold AList.delete (optIgnoredTagKeys reconcileOpts) tagsToUpdate0;
              tagsToRemove = fold AList.delete (optIgnoredTagKeys reconcileOpts) tagsToRemove0
          in io_bind
               (if tagsToUpdate \<noteq> [] then
                  CreateTagsWithContext (etmEc2Client m) rid (ec2_convertTagsToSDKTags (etmList m) tagsToUpdate)
                else io_return ())
               (\<lambda>_. if tagsToRemove \<noteq> [] then
                  DeleteTagsWithContext (etmEc2Client m) rid (ec2_convertTagsToSDKTags (etmList m) tagsToRemove)
                else io_return ()))"

definition tag_ec2_filter :: "TagFilter \<Rightarrow> string \<Rightarrow> Ec2Filter" where
  "tag_ec2_filter tagFilter tagKey =
     (let tagValues = gomap_index [] tagFilter tagKey in
      if tagValues = [] then \<lparr>ec2FilterName = ''tag-key'', ec2FilterValues = [tagKey]\<rparr>
      else \<lparr>ec2FilterName = ''tag:'' @ tagKey, ec2FilterValues = tagValues\<rparr>)"

definition listSecurityGroupsWithTagFilter ::
  "'w ec2TaggingManager \<Rightarrow> TagFilter \<Rightarrow> ('w, (string, SecurityGroupInfo) gomap) io" where
  "listSecurityGroupsWithTagFilter m tagFilter =
     etmFetchSGInfosByRequest m
       \<lparr>dsgGroupIds = [],
        dsgFilters = \<lparr>ec2FilterName = ''vpc-id'', ec2FilterValues = [etmVpcID m]\<rparr> #
          map (tag_ec2_filter tagFilter) (etmList m (set (gomap_keys tagFilter)))\<rparr>"

definition ListSecurityGroups :: "'w ec2TaggingManager \<Rightarrow> TagFilter list \<Rightarrow> ('w, SecurityGroupInfo list) io" where
  "ListSecurityGroups m tagFilters =
     io_bind (io_foldM (\<lambda>sgInfoByID tagFilter.
         io_bind (listSecurityGroupsWithTagFilter m tagFilter) (\<lambda>byID. io_return (put_all byID sgInfoByID)))
       [] tagFilters)
     (\<lambda>sgInfoByID. io_return (map snd (etmOrder m sgInfoByID)))"

section \<open>Conversions and tags\<close>

lemma convertSDKTagsToTags_convert:
  assumes "lists_sorted List"
  shows "map_of (convertSDKTagsToTags (convertTagsToSDKTags List tags)) = map_of tags"
proof -
  let ?ks = "List (set (gomap_keys tags))"
  have ks: "set ?ks = set (gomap_keys tags)" "distinct ?ks" using lists_sortedD [OF assms] by simp_all
  have "map_of (map (\<lambda>k. (k, gomap_index [] tags k)) ?ks) k = map_of tags k" for k
    unfolding map_of_map_index ks(1) gomap_keys_map_of by (auto simp: gomap_index_def)
  moreover have "gomap_wf (map (\<lambda>k. (k, gomap_index [] tags k)) ?ks)"
    using ks(2) by (simp add: gomap_wf_map_keys)
  ultimately have "map_of (put_all (map (\<lambda>k. (k, gomap_index [] tags k)) ?ks) []) = map_of tags"
    by (simp add: put_all_get fun_eq_iff)
  then show ?thesis
    by (cases "tags = []") (simp_all add: convertSDKTagsToTags_def convertTagsToSDKTags_def comp_def put_all_def)
qed

lemma map_of_fold_AList_delete:
  "map_of (fold AList.delete ks m) = (map_of m) |` (- set ks)"
  by (induction ks arbitrary: m) (auto simp: delete_conv' restrict_map_def fun_eq_iff)

lemma gomap_wf_fold_delete: "gomap_wf m \<Longrightarrow> gomap_wf (fold AList.delete ks m)"
  by (induction ks arbitrary: m) (auto intro: gomap_wf_delete)

text \<open>What Elastic Load Balancing documents about tags: adding tags overwrites the values of
  existing keys, removing keys removes them, other resources are not affected.\<close>

definition elb_tag_laws :: "'w ELBV2 \<Rightarrow> ('w \<Rightarrow> string \<Rightarrow> string \<Rightarrow> string option) \<Rightarrow> bool" where
  "elb_tag_laws client tags \<longleftrightarrow>
     (\<forall>arn ts w w'. AddTagsWithContext client arn ts w = (Inr (), w') \<longrightarrow>
        tags w' = (tags w)(arn := tags w arn ++ map_of (convertSDKTagsToTags ts))) \<and>
     (\<forall>arn ks w w'. RemoveTagsWithContext client arn ks w = (Inr (), w') \<longrightarrow>
        tags w' = (tags w)(arn := (tags w arn) |` (- set ks)))"

lemma reconcile_diff:
  assumes "gomap_wf desired" "gomap_wf current"
  shows "(map_of current ++ (map_of (fst (DiffStringMap desired current)) |` (- I))) |`
       (- {k. k \<notin> I \<and> map_of (snd (DiffStringMap desired current)) k \<noteq> None}) =
     (\<lambda>k. if k \<in> I then map_of current k else map_of desired k)"
  by (rule ext) (auto simp: DiffStringMap_modify [OF assms(1)] DiffStringMap_remove [OF assms(2)]
      restrict_map_def map_add_def split: option.splits)

text \<open>C33: Reconciling the tags of a resource. Given the current tags, when the reconciliation
  succeeds, every tag has its desired value and no other tag remains, except for the ignored
  keys, which keep the value or absence they had; no other resource is touched.\<close>

theorem tags_reconciled:
  assumes "lists_sorted (tmList m)" "elb_tag_laws (tmElbv2Client m) tags"
    and "ApplyOptions opts \<lparr>optCurrentTags = None, optIgnoredTagKeys = []\<rparr> =
      \<lparr>optCurrentTags = Some current, optIgnoredTagKeys = ignored\<rparr>"
    and "gomap_wf desired" "gomap_wf current" "tags w arn = map_of current"
    and "ReconcileTags m arn desired opts w = (Inr (), w')"
  shows "tags w' = (tags w)(arn := \<lambda>k. if k \<in> set ignored then map_of current k else map_of desired k)"
proof -
  let ?upd = "fold AList.delete ignored (fst (DiffStringMap desired current))"
  let ?rem = "fold AList.delete ignored (snd (DiffStringMap desired current))"
  let ?a = "if ?upd \<noteq> [] then AddTagsWithContext (tmElbv2Client m) arn (convertTagsToSDKTags (tmList m) ?upd)
      else io_return ()"
  let ?r = "if ?rem \<noteq> [] then RemoveTagsWithContext (tmElbv2Client m) arn (tmList m (set (gomap_keys ?rem)))
      else io_return ()"
  have "ReconcileTags m arn desired opts = io_bind ?a (\<lambda>_. ?r)"
    by (simp add: ReconcileTags_def assms(3) case_prod_beta)
  then have "io_bind ?a (\<lambda>_. ?r) w = (Inr (), w')" using assms(7) by simp
  from io_bind_unitD [OF this] obtain w1 where 1: "?a w = (Inr (), w1)" and 2: "?r w1 = (Inr (), w')"
    by (elim exE conjE)
  have "tags w1 = (tags w)(arn := tags w arn ++ map_of ?upd)"
    using 1 assms(2) by (cases "?upd = []")
      (auto simp: io_return_def elb_tag_laws_def convertSDKTagsToTags_convert [OF assms(1)])
  moreover have "tags w' = (tags w1)(arn := tags w1 arn |` (- set (gomap_keys ?rem)))"
  proof (cases "?rem = []")
    case True
    then show ?thesis using 2 by (simp add: io_return_def gomap_keys_def restrict_map_def)
  next
    case False
    then show ?thesis using 2 assms(2) lists_sortedD(1) [OF assms(1), of "set (gomap_keys ?rem)"]
      by (simp add: elb_tag_laws_def)
  qed
  ultimately have w': "tags w' = (tags w)(arn := (map_of current ++ map_of ?upd) |` (- set (gomap_keys ?rem)))"
    using assms(6) by simp
  have "set (gomap_keys ?rem) = {k. k \<notin> set ignored \<and> map_of (snd (DiffStringMap desired current)) k \<noteq> None}"
    by (auto simp: gomap_keys_map_of map_of_fold_AList_delete restrict_map_def split: if_splits)
  then show ?thesis
    unfolding w' map_of_fold_AList_delete using reconcile_diff [OF assms(4,5), of "set ignored"] by simp
qed

text \<open>A client that is offline, and one that keeps tags in memory.\<close>

definition offline :: "('w, 'a) io" where
  "offline = io_fail (AwsError ''RequestError'' ''offline'')"

definition offline_elb :: "'w ELBV2" where
  "offline_elb = \<lparr>AddTagsWithContext = \<lambda>_ _. offline, RemoveTagsWithContext = \<lambda>_ _. offline,
     DescribeTagsWithContext = \<lambda>_. offline, DescribeListenersAsList = \<lambda>_. offline,
     DescribeRulesAsList = \<lambda>_. offline, DescribeLoadBalancersAsList = \<lambda>_. offline,
     DescribeTargetGroupsAsList = \<lambda>_. offline, CreateTargetGroupWithContext = \<lambda>_. offline,
     ModifyTargetGroupWithContext = \<lambda>_. offline, DeleteTargetGroupWithContext = \<lambda>_. offline,
     DescribeTargetGroupAttributesWithContext = \<lambda>_. offline,
     ModifyTargetGroupAttributesWithContext = \<lambda>_ _. offline, CreateLoadBalancerWithContext = \<lambda>_. offline,
     DeleteLoadBalancerWithContext = \<lambda>_. offline, SetIpAddressTypeWithContext = \<lambda>_ _. offline,
     SetSubnetsWithContext = \<lambda>_ _. offline, SetSecurityGroupsWithContext = \<lambda>_ _. offline,
     DescribeLoadBalancerAttributesWithContext = \<lambda>_. offline,
     ModifyLoadBalancerAttributesWithContext = \<lambda>_ _. offline, CreateListenerWithContext = \<lambda>_. offline,
     ModifyListenerWithContext = \<lambda>_. offline, DeleteListenerWithContext = \<lambda>_. offline,
     DescribeListenerCertificatesAsList = \<lambda>_. offline, AddListenerCertificatesWithContext = \<lambda>_ _. offline,
     RemoveListenerCertificatesWithContext = \<lambda>_ _. offline, CreateRuleWithContext = \<lambda>_. offline,
     ModifyRuleWithContext = \<lambda>_. offline, DeleteRuleWithContext = \<lambda>_. offline\<rparr>"

definition tag_memory_elb :: "(string \<Rightarrow> string \<Rightarrow> string option) ELBV2" where
  "tag_memory_elb = offline_elb
     \<lparr>AddTagsWithContext := \<lambda>arn ts w. (Inr (), w(arn := w arn ++ map_of (convertSDKTagsToTags ts))),
      RemoveTagsWithContext := \<lambda>arn ks w. (Inr (), w(arn := (w arn) |` (- set ks)))\<rparr>"

definition example_tagging :: "'w ELBV2 \<Rightarrow> 'w defaultTaggingManager" where
  "example_tagging client = \<lparr>tmElbv2Client = client, tmVpcID = ''vpc-1'', tmFeatureGates = NewFeatureGates,
     tmDescribeTagsChunkSize = defaultDescribeTagsChunkSize, tmGetResourcesAsList = \<lambda>_ _. offline,
     tmList = sorted_list_of_set, tmFilterOrder = (\<lambda>f. f), tmARNOrder = (\<lambda>m. m)\<rparr>"

theorem tags_reconciled_witness:
  "\<exists>w'. ReconcileTags (example_tagging tag_memory_elb) ''arn'' [(''a'', ''new''), (''b'', ''1'')]
      [WithCurrentTags (Some [(''a'', ''old''), (''c'', ''x''), (''keep'', ''y'')]), WithIgnoredTagKeys [''keep'']]
      (\<lambda>_. map_of [(''a'', ''old''), (''c'', ''x''), (''keep'', ''y'')]) = (Inr (), w') \<and>
    w' ''arn'' ''a'' = Some ''new'' \<and> w' ''arn'' ''c'' = None \<and> w' ''arn'' ''keep'' = Some ''y''"
proof -
  let ?cur = "[(''a'', ''old''), (''c'', ''x''), (''keep'', ''y'')]" and ?des = "[(''a'', ''new''), (''b'', ''1'')]"
  let ?opts = "[WithCurrentTags (Some ?cur), WithIgnoredTagKeys [''keep'']]"
  let ?m = "example_tagging tag_memory_elb"
  have opts: "ApplyOptions ?opts \<lparr>optCurrentTags = None, optIgnoredTagKeys = []\<rparr> =
      \<lparr>optCurrentTags = Some ?cur, optIgnoredTagKeys = [''keep'']\<rparr>"
    by (simp add: ApplyOptions_def)
  have List: "lists_sorted (tmList ?m)" by (simp add: example_tagging_def sorted_list_of_set_lists_sorted)
  have laws: "elb_tag_laws (tmElbv2Client ?m) (\<lambda>w. w)"
    by (simp add: elb_tag_laws_def example_tagging_def tag_memory_elb_def)
  have "\<exists>w'. ReconcileTags ?m ''arn'' ?des ?opts (\<lambda>_. map_of ?cur) = (Inr (), w')"
    unfolding ReconcileTags_def opts by (simp add: case_prod_beta example_tagging_def tag_memory_elb_def io_simps Let_def)
  then obtain w' where run: "ReconcileTags ?m ''arn'' ?des ?opts (\<lambda>_. map_of ?cur) = (Inr (), w')" ..
  have "w' = (\<lambda>_. map_of ?cur)(''arn'' := \<lambda>k. if k \<in> set [''keep''] then map_of ?cur k else map_of ?des k)"
    by (rule tags_reconciled [OF List laws opts _ _ _ run]) simp_all
  then show ?thesis using run by simp
qed

section \<open>Describing and listing\<close>

text \<open>A client whose read operations return the tags \<open>tagsOf\<close> of the requested resources.\<close>

definition describes_tags :: "'w ELBV2 \<Rightarrow> (string \<Rightarrow> SdkTag list) \<Rightarrow> 'w \<Rightarrow> bool" where
  "describes_tags client tagsOf w \<longleftrightarrow>
     (\<forall>arns. DescribeTagsWithContext client arns w =
        (Inr (map (\<lambda>arn. \<lparr>stdResourceArn = Some arn, stdTags = tagsOf arn\<rparr>) arns), w))"

lemma fold_concat_chunks: "fold (\<lambda>c s. fold f c s) cs s = fold f (concat cs) s"
  by (induction cs arbitrary: s) auto

lemma describeResourceTagsNative_eq:
  assumes "0 < tmDescribeTagsChunkSize m" "describes_tags (tmElbv2Client m) tagsOf w"
  shows "describeResourceTagsNative m arns w =
     (Inr (put_all (map (\<lambda>arn. (arn, convertSDKTagsToTags (tagsOf arn))) arns) []), w)"
proof -
  obtain chunks where chunks: "ChunkStrings arns (tmDescribeTagsChunkSize m) = Some (Inr chunks)" "concat chunks = arns"
    using chunk_loop_correct [OF assms(1), of arns 0 "[]"] by (auto simp: ChunkStrings_def)
  let ?g = "\<lambda>tagsByARN chunk. fold (\<lambda>arn. AList.update arn (convertSDKTagsToTags (tagsOf arn))) chunk tagsByARN"
  have "describeResourceTagsNative m arns w = (Inr (fold (\<lambda>c s. ?g s c) chunks []), w)"
    unfolding describeResourceTagsNative_def chunks(1) option.case sum.case
    by (rule io_foldM_read) (use assms(2) in \<open>simp add: describes_tags_def io_simps fold_map comp_def\<close>)
  then show ?thesis by (simp add: fold_concat_chunks chunks(2) put_all_def fold_map comp_def)
qed

lemma describe_tags_get:
  "map_of (put_all (map (\<lambda>arn. (arn, f arn)) arns) []) arn = (if arn \<in> set arns then Some (f arn) else None)"
proof -
  have "map_of (put_all (map (\<lambda>arn. (arn, f arn)) arns) d) arn = (if arn \<in> set arns then Some (f arn) else map_of d arn)" for d
    by (induction arns arbitrary: d) (auto simp: put_all_def update_conv')
  then show ?thesis by simp
qed

text \<open>C34: Listing the target groups of a stack without the tagging API. Whatever the number of
  target groups and the chunks in which their tags are described, the result is exactly the
  target groups of the VPC whose tags match one of the filters, each with its tags, in the order
  in which they are described.\<close>

theorem list_target_groups_exact:
  assumes "\<not> Enabled (tmFeatureGates m) EnableRGTAPI" "0 < tmDescribeTagsChunkSize m"
    and "describes_tags (tmElbv2Client m) tagsOf w"
    and "DescribeTargetGroupsAsList (tmElbv2Client m) [] w = (Inr tgs, w)"
    and "distinct (map (\<lambda>tg. StringValue (stgTargetGroupArn tg)) tgs)"
  shows "ListTargetGroups m filters w =
    (Inr (map (\<lambda>tg. \<lparr>twTargetGroup = tg, twTags = Some (convertSDKTagsToTags (tagsOf (StringValue (stgTargetGroupArn tg))))\<rparr>)
       (filter (\<lambda>tg. StringValue (stgVpcId tg) = tmVpcID m \<and>
          (\<exists>f\<in>set filters. Matches f (convertSDKTagsToTags (tagsOf (StringValue (stgTargetGroupArn tg)))))) tgs)), w)"
proof -
  let ?arn = "\<lambda>tg. StringValue (stgTargetGroupArn tg)"
  let ?in = "filter (\<lambda>tg. StringValue (stgVpcId tg) = tmVpcID m) tgs"
  let ?tags = "\<lambda>arn. convertSDKTagsToTags (tagsOf arn)"
  let ?any = "\<lambda>arn. list_ex (\<lambda>f. Matches f (?tags arn)) filters"
  have dist: "distinct (map ?arn ?in)" using assms(5) by (rule distinct_map_filter)
  have step: "List.map_filter (\<lambda>arn. if list_ex (\<lambda>f. Matches f (nil_map (map_of byARN arn))) filters
        then map_option (\<lambda>tg. \<lparr>twTargetGroup = tg, twTags = map_of byARN arn\<rparr>) (map_of (index_by ?arn ?in) arn)
        else None) (map ?arn xs) =
      map (\<lambda>tg. \<lparr>twTargetGroup = tg, twTags = Some (?tags (?arn tg))\<rparr>) (filter (\<lambda>tg. ?any (?arn tg)) xs)"
    if "set xs \<subseteq> set ?in" "byARN = put_all (map (\<lambda>arn. (arn, ?tags arn)) (map ?arn ?in)) []" for xs byARN
    using that
  proof (induction xs)
    case (Cons x xs)
    then have "map_of byARN (?arn x) = Some (?tags (?arn x))" "map_of (index_by ?arn ?in) (?arn x) = Some x"
      using describe_tags_get [of ?tags "map ?arn ?in"] index_by_distinct [OF dist] by auto
    then show ?case using Cons by (simp add: List.map_filter_simps)
  qed (simp add: List.map_filter_simps)
  have "listTargetGroupsNative m filters w =
      (Inr (map (\<lambda>tg. \<lparr>twTargetGroup = tg, twTags = Some (?tags (?arn tg))\<rparr>) (filter (\<lambda>tg. ?any (?arn tg)) ?in)), w)"
    unfolding listTargetGroupsNative_def Let_def
    using step [OF subset_refl refl]
    by (simp add: io_bind_def assms(4) describeResourceTagsNative_eq [OF assms(2,3)] io_return_def
        del: map_map filter_filter)
  moreover have "filter (\<lambda>tg. ?any (?arn tg)) ?in = filter (\<lambda>tg. StringValue (stgVpcId tg) = tmVpcID m \<and>
      (\<exists>f\<in>set filters. Matches f (?tags (?arn tg)))) tgs"
    by (simp add: list_ex_iff)
  ultimately show ?thesis using assms(1) by (simp add: ListTargetGroups_def)
qed

definition example_tags_of :: "string \<Rightarrow> SdkTag list" where
  "example_tags_of arn = (if arn = ''tg1'' then [\<lparr>sdkTagKey = Some ''stack'', sdkTagValue = Some ''a''\<rparr>] else [])"

definition list_memory_elb :: "SdkTargetGroup list \<Rightarrow> unit ELBV2" where
  "list_memory_elb tgs = offline_elb
     \<lparr>DescribeTagsWithContext := \<lambda>arns. io_return (map (\<lambda>arn. \<lparr>stdResourceArn = Some arn, stdTags = example_tags_of arn\<rparr>) arns),
      DescribeTargetGroupsAsList := \<lambda>_. io_return tgs\<rparr>"

definition example_vpc_tg :: "string \<Rightarrow> string \<Rightarrow> SdkTargetGroup" where
  "example_vpc_tg arn vpc = (twTargetGroup (example_sdk_tg arn [] ''HTTP''))\<lparr>stgVpcId := Some vpc\<rparr>"

theorem list_target_groups_exact_witness:
  "ListTargetGroups (example_tagging (list_memory_elb
       [example_vpc_tg ''tg1'' ''vpc-1'', example_vpc_tg ''tg2'' ''vpc-1'', example_vpc_tg ''tg3'' ''vpc-2'']))
     [[(''stack'', [''a''])]] () =
   (Inr [\<lparr>twTargetGroup = example_vpc_tg ''tg1'' ''vpc-1'', twTags = Some [(''stack'', ''a'')]\<rparr>], ())"
proof -
  let ?tgs = "[example_vpc_tg ''tg1'' ''vpc-1'', example_vpc_tg ''tg2'' ''vpc-1'', example_vpc_tg ''tg3'' ''vpc-2'']"
  let ?m = "example_tagging (list_memory_elb ?tgs)"
  have gates: "\<not> Enabled (tmFeatureGates ?m) EnableRGTAPI"
    by (simp add: example_tagging_def Enabled_def gomap_index_def NewFeatureGates_def feature_defs)
  have size: "0 < tmDescribeTagsChunkSize ?m" by (simp add: example_tagging_def defaultDescribeTagsChunkSize_def)
  have tags: "describes_tags (tmElbv2Client ?m) example_tags_of ()"
    by (simp add: describes_tags_def example_tagging_def list_memory_elb_def io_return_def)
  have tgs: "DescribeTargetGroupsAsList (tmElbv2Client ?m) [] () = (Inr ?tgs, ())"
    by (simp add: example_tagging_def list_memory_elb_def io_return_def)
  have arn: "stgTargetGroupArn (example_vpc_tg a v) = Some a" "stgVpcId (example_vpc_tg a v) = Some v" for a v
    by (simp_all add: example_vpc_tg_def example_sdk_tg_def)
  show ?thesis
    using list_target_groups_exact [OF gates size tags tgs, of "[[(''stack'', [''a''])]]"]
    by (simp add: arn example_tagging_def example_tags_of_def convertSDKTagsToTags_def put_all_def)
qed

end
