(* ===== verification/Elbv2_Managers.thy ===== *)
theory Elbv2_Managers
  imports Tagging
begin

text \<open>
  Creating, updating and deleting target groups and load balancers: \<^verbatim>\<open>target_group_manager.go\<close>,
  \<^verbatim>\<open>target_group_attributes_reconciler.go\<close>, \<^verbatim>\<open>load_balancer_manager.go\<close> and
  \<^verbatim>\<open>load_balancer_attributes_reconciler.go\<close> of \<^verbatim>\<open>pkg/deploy/elbv2\<close>, and the retry loop of
  \<^verbatim>\<open>pkg/runtime/retry_utils.go\<close>. Log messages are left out. The polling function of the
  Kubernetes library is a parameter.
\<close>

section \<open>Retrying\<close>

definition RetryImmediateOnError ::
  "(('w, bool) io \<Rightarrow> ('w, unit) io) \<Rightarrow> (go_error \<Rightarrow> bool) \<Rightarrow> ('w, unit) io \<Rightarrow> ('w, unit) io" where
  "RetryImmediateOnError PollImmediate retryable fn =
     PollImmediate (\<lambda>w. case fn w of
         (Inl err, w') \<Rightarrow> if retryable err then (Inr False, w') else (Inl err, w')
       | (Inr _, w') \<Rightarrow> (Inr True, w'))"

section \<open>The managers' dependencies\<close>

record 'w elb_manager =
  mgTagging :: "'w defaultTaggingManager"
  mgProvider :: defaultProvider
  mgExternalManagedTags :: "string list"
  mgPollImmediate :: "('w, bool) io \<Rightarrow> ('w, unit) io"

abbreviation client :: "('w, 'x) elb_manager_scheme \<Rightarrow> 'w ELBV2" where
  "client m \<equiv> tmElbv2Client (mgTagging m)"

abbreviation keysList :: "('w, 'x) elb_manager_scheme \<Rightarrow> string set \<Rightarrow> string list" where
  "keysList m \<equiv> tmList (mgTagging m)"

section \<open>Attributes\<close>

text \<open>Both attribute reconcilers modify the attributes that differ and never remove one.\<close>

definition attributes_of :: "SdkTag list \<Rightarrow> string_map" where
  "attributes_of attrs = put_all (map (\<lambda>a. (StringValue (sdkTagKey a), StringValue (sdkTagValue a))) attrs) []"

definition getDesiredTargetGroupAttributes :: "ResTG \<Rightarrow> string_map" where
  "getDesiredTargetGroupAttributes resTG =
     put_all (map (\<lambda>a. (tgaKey a, tgaValue a)) (tgTargetGroupAttributes (rsSpec resTG))) []"

definition getCurrentTargetGroupAttributes ::
  "('w, 'x) elb_manager_scheme \<Rightarrow> TargetGroupWithTags \<Rightarrow> ('w, string_map) io" where
  "getCurrentTargetGroupAttributes m sdkTG =
     io_bind (DescribeTargetGroupAttributesWithContext (client m) (stgTargetGroupArn (twTargetGroup sdkTG)))
       (\<lambda>attrs. io_return (attributes_of attrs))"

definition sdk_attributes :: "(string set \<Rightarrow> string list) \<Rightarrow> string_map \<Rightarrow> SdkTag list" where
  "sdk_attributes List attrs =
     map (\<lambda>key. \<lparr>sdkTagKey = Some key, sdkTagValue = Some (gomap_index [] attrs key)\<rparr>) (List (set (gomap_keys attrs)))"

definition TargetGroupAttributes_Reconcile ::
  "('w, 'x) elb_manager_scheme \<Rightarrow> ResTG \<Rightarrow> TargetGroupWithTags \<Rightarrow> ('w, unit) io" where
  "TargetGroupAttributes_Reconcile m resTG sdkTG =
     (let desiredAttrs = getDesiredTargetGroupAttributes resTG in
      io_bind (getCurrentTargetGroupAttributes m sdkTG) (\<lambda>currentAttrs.
        let attributesToUpdate = fst (DiffStringMap desiredAttrs currentAttrs) in
        if attributesToUpdate \<noteq> [] then
          ModifyTargetGroupAttributesWithContext (client m) (stgTargetGroupArn (twTargetGroup sdkTG))
            (sdk_attributes (keysList m) attributesToUpdate)
        else io_return ()))"

definition getDesiredLoadBalancerAttributes :: "ResLB \<Rightarrow> string_map" where
  "getDesiredLoadBalancerAttributes resLB =
     put_all (map (\<lambda>a. (lbaKey a, lbaValue a)) (lbLoadBalancerAttributes (rsSpec resLB))) []"

definition getCurrentLoadBalancerAttributes ::
  "('w, 'x) elb_manager_scheme \<Rightarrow> LoadBalancerWithTags \<Rightarrow> ('w, string_map) io" where
  "getCurrentLoadBalancerAttributes m sdkLB =
     io_bind (DescribeLoadBalancerAttributesWithContext (client m) (slbLoadBalancerArn (lwLoadBalancer sdkLB)))
       (\<lambda>attrs. io_return (attributes_of attrs))"

definition LoadBalancerAttributes_Reconcile ::
  "('w, 'x) elb_manager_scheme \<Rightarrow> ResLB \<Rightarrow> LoadBalancerWithTags \<Rightarrow> ('w, unit) io" where
  "LoadBalancerAttributes_Reconcile m resLB sdkLB =
     (let desiredAttrs = getDesiredLoadBalancerAttributes resLB in
      io_bind (getCurrentLoadBalancerAttributes m sdkLB) (\<lambda>currentAttrs.
        let attributesToUpdate = fst (DiffStringMap desiredAttrs currentAttrs) in
        if attributesToUpdate \<noteq> [] then
          ModifyLoadBalancerAttributesWithContext (client m) (slbLoadBalancerArn (lwLoadBalancer sdkLB))
            (sdk_attributes (keysList m) attributesToUpdate)
        else io_return ()))"

section \<open>Target groups\<close>

text \<open>\<^verbatim>\<open>IntOrString.String()\<close>.\<close>

fun IntOrString_String :: "IntOrString \<Rightarrow> string" where
  "IntOrString_String (IntVal i) = Itoa i"
| "IntOrString_String (StrVal s) = s"

definition buildSDKMatcher :: "HealthCheckMatcher \<Rightarrow> SdkMatcher" where
  "buildSDKMatcher modelMatcher = \<lparr>sdkGrpcCode = GRPCCode modelMatcher, sdkHttpCode = HTTPCode modelMatcher\<rparr>"

definition buildSDKCreateTargetGroupInput :: "TargetGroupSpec \<Rightarrow> CreateTargetGroupInput" where
  "buildSDKCreateTargetGroupInput tgSpec =
     (let hc = tgHealthCheckConfig tgSpec in
      \<lparr>ctgName = Some (tgName tgSpec),
       ctgTargetType = Some (tgTargetType tgSpec),
       ctgPort = Some (tgPort tgSpec),
       ctgProtocol = Some (tgProtocol tgSpec),
       ctgIpAddressType = (case tgIPAddressType tgSpec of
          Some t \<Rightarrow> if t \<noteq> TargetGroupIPAddressTypeIPv4 then Some t else None | None \<Rightarrow> None),
       ctgProtocolVersion = tgProtocolVersion tgSpec,
       ctgVpcId = None,
       ctgTags = [],
       ctgHealthCheckEnabled = map_option (\<lambda>_. True) hc,
       ctgHealthCheckPort = Option.bind hc (\<lambda>c. map_option IntOrString_String (hcPort c)),
       ctgHealthCheckProtocol = Option.bind hc hcProtocol,
       ctgHealthCheckPath = Option.bind hc hcPath,
       ctgMatcher = Option.bind hc (\<lambda>c. map_option buildSDKMatcher (hcMatcher c)),
       ctgHealthCheckIntervalSeconds = Option.bind hc hcIntervalSeconds,
       ctgHealthCheckTimeoutSeconds = Option.bind hc hcTimeoutSeconds,
       ctgHealthyThresholdCount = Option.bind hc hcHealthyThresholdCount,
       ctgUnhealthyThresholdCount = Option.bind hc hcUnhealthyThresholdCount\<rparr>)"

definition buildSDKModifyTargetGroupInput :: "TargetGroupSpec \<Rightarrow> ModifyTargetGroupInput" where
  "buildSDKModifyTargetGroupInput tgSpec =
     (let hc = tgHealthCheckConfig tgSpec in
      \<lparr>mtgTargetGroupArn = None,
       mtgHealthCheckEnabled = map_option (\<lambda>_. True) hc,
       mtgHealthCheckPort = Option.bind hc (\<lambda>c. map_option IntOrString_String (hcPort c)),
       mtgHealthCheckProtocol = Option.bind hc hcProtocol,
       mtgHealthCheckPath = Option.bind hc hcPath,
       mtgMatcher = Option.bind hc (\<lambda>c. map_option buildSDKMatcher (hcMatcher c)),
       mtgHealthCheckIntervalSeconds = Option.bind hc hcIntervalSeconds,
       mtgHealthCheckTimeoutSeconds = Option.bind hc hcTimeoutSeconds,
       mtgHealthyThresholdCount = Option.bind hc hcHealthyThresholdCount,
       mtgUnhealthyThresholdCount = Option.bind hc hcUnhealthyThresholdCount\<rparr>)"

definition isSDKTargetGroupHealthCheckDrifted :: "TargetGroupSpec \<Rightarrow> TargetGroupWithTags \<Rightarrow> bool" where
  "isSDKTargetGroupHealthCheckDrifted tgSpec sdkTG =
     (case tgHealthCheckConfig tgSpec of
        None \<Rightarrow> False
      | Some hcConfig \<Rightarrow>
          let sdkObj = twTargetGroup sdkTG in
          if (case hcPort hcConfig of None \<Rightarrow> False
              | Some p \<Rightarrow> IntOrString_String p \<noteq> StringValue (stgHealthCheckPort sdkObj)) then True
          else if (case hcProtocol hcConfig of None \<Rightarrow> False
              | Some p \<Rightarrow> p \<noteq> StringValue (stgHealthCheckProtocol sdkObj)) then True
          else if hcPath hcConfig \<noteq> None \<and>
            StringValue (hcPath hcConfig) \<noteq> StringValue (stgHealthCheckPath sdkObj) then True
          else if (case hcMatcher hcConfig of None \<Rightarrow> False
              | Some matcher \<Rightarrow> (case stgMatcher sdkObj of None \<Rightarrow> True
                  | Some sdkMatcher \<Rightarrow>
                      StringValue (GRPCCode matcher) \<noteq> StringValue (sdkGrpcCode sdkMatcher) \<or>
                      StringValue (HTTPCode matcher) \<noteq> StringValue (sdkHttpCode sdkMatcher))) then True
          else if hcIntervalSeconds hcConfig \<noteq> None \<and>
            Int64Value (hcIntervalSeconds hcConfig) \<noteq> Int64Value (stgHealthCheckIntervalSeconds sdkObj) then True
          else if hcTimeoutSeconds hcConfig \<noteq> None \<and>
            Int64Value (hcTimeoutSeconds hcConfig) \<noteq> Int64Value (stgHealthCheckTimeoutSeconds sdkObj) then True
          else if hcHealthyThresholdCount hcConfig \<noteq> None \<and>
            Int64Value (hcHealthyThresholdCount hcConfig) \<noteq> Int64Value (stgHealthyThresholdCount sdkObj) then True
          else if hcUnhealthyThresholdCount hcConfig \<noteq> None \<and>
            Int64Value (hcUnhealthyThresholdCount hcConfig) \<noteq> Int64Value (stgUnhealthyThresholdCount sdkObj) then True
          else False)"

definition buildResTargetGroupStatus :: "TargetGroupWithTags \<Rightarrow> TargetGroupStatus" where
  "buildResTargetGroupStatus sdkTG =
     \<lparr>tgTargetGroupARN = StringValue (stgTargetGroupArn (twTargetGroup sdkTG))\<rparr>"

definition isTargetGroupResourceInUseError :: "go_error \<Rightarrow> bool" where
  "isTargetGroupResourceInUseError err =
     (case as_aws_error err of Some (code, _) \<Rightarrow> code = ''ResourceInUse'' | None \<Rightarrow> False)"

definition updateSDKTargetGroupWithTags ::
  "('w, 'x) elb_manager_scheme \<Rightarrow> StackID \<Rightarrow> ResTG \<Rightarrow> TargetGroupWithTags \<Rightarrow> ('w, unit) io" where
  "updateSDKTargetGroupWithTags m sid resTG sdkTG =
     ReconcileTags (mgTagging m) (StringValue (stgTargetGroupArn (twTargetGroup sdkTG)))
       (ResourceTags (mgProvider m) sid (rsID resTG) (tgTags (rsSpec resTG)))
       [WithCurrentTags (twTags sdkTG), WithIgnoredTagKeys (LegacyTagKeys (mgProvider m)),
        WithIgnoredTagKeys (mgExternalManagedTags m)]"

definition updateSDKTargetGroupWithHealthCheck ::
  "('w, 'x) elb_manager_scheme \<Rightarrow> ResTG \<Rightarrow> TargetGroupWithTags \<Rightarrow> ('w, unit) io" where
  "updateSDKTargetGroupWithHealthCheck m resTG sdkTG =
     (if \<not> isSDKTargetGroupHealthCheckDrifted (rsSpec resTG) sdkTG then io_return ()
      else ModifyTargetGroupWithContext (client m)
        ((buildSDKModifyTargetGroupInput (rsSpec resTG))
           \<lparr>mtgTargetGroupArn := stgTargetGroupArn (twTargetGroup sdkTG)\<rparr>))"

definition TargetGroupManager_Create ::
  "('w, 'x) elb_manager_scheme \<Rightarrow> StackID \<Rightarrow> ResTG \<Rightarrow> ('w, TargetGroupStatus) io" where
  "TargetGroupManager_Create m sid resTG =
     (let tgTags = ResourceTags (mgProvider m) sid (rsID resTG) (tgTags (rsSpec resTG));
          req = (buildSDKCreateTargetGroupInput (rsSpec resTG))
            \<lparr>ctgVpcId := Some (tmVpcID (mgTagging m)), ctgTags := convertTagsToSDKTags (keysList m) tgTags\<rparr>
      in io_bind (CreateTargetGroupWithContext (client m) req) (\<lambda>resp.
         io_bind (io_lift (first_of resp)) (\<lambda>tg.
           let sdkTG = \<lparr>twTargetGroup = tg, twTags = Some tgTags\<rparr> in
           io_bind (TargetGroupAttributes_Reconcile m resTG sdkTG) (\<lambda>_.
             io_return (buildResTargetGroupStatus sdkTG)))))"

definition TargetGroupManager_Update ::
  "('w, 'x) elb_manager_scheme \<Rightarrow> StackID \<Rightarrow> ResTG \<Rightarrow> TargetGroupWithTags \<Rightarrow> ('w, TargetGroupStatus) io" where
  "TargetGroupManager_Update m sid resTG sdkTG =
     io_bind (updateSDKTargetGroupWithTags m sid resTG sdkTG) (\<lambda>_.
     io_bind (updateSDKTargetGroupWithHealthCheck m resTG sdkTG) (\<lambda>_.
     io_bind (TargetGroupAttributes_Reconcile m resTG sdkTG) (\<lambda>_.
       io_return (buildResTargetGroupStatus sdkTG))))"

text \<open>\<^verbatim>\<open>errors.Wrap(err, msg)\<close> around an effect.\<close>

definition io_wrap :: "string \<Rightarrow> ('w, 'a) io \<Rightarrow> ('w, 'a) io" where
  "io_wrap msg m w = (case m w of (Inl e, w') \<Rightarrow> (Inl (Wrap e msg), w') | (Inr x, w') \<Rightarrow> (Inr x, w'))"

definition TargetGroupManager_Delete ::
  "('w, 'x) elb_manager_scheme \<Rightarrow> TargetGroupWithTags \<Rightarrow> ('w, unit) io" where
  "TargetGroupManager_Delete m sdkTG =
     io_wrap ''failed to delete targetGroup''
       (RetryImmediateOnError (mgPollImmediate m) isTargetGroupResourceInUseError
          (DeleteTargetGroupWithContext (client m) (stgTargetGroupArn (twTargetGroup sdkTG))))"

section \<open>Load balancers\<close>

definition buildSDKSubnetMapping :: "SubnetMapping \<Rightarrow> SdkSubnetMapping" where
  "buildSDKSubnetMapping sm =
     \<lparr>ssmAllocationId = AllocationID sm, ssmPrivateIPv4Address = PrivateIPv4Address sm,
      ssmIPv6Address = IPv6Address sm, ssmSubnetId = Some (SubnetID sm)\<rparr>"

definition buildSDKSubnetMappings :: "SubnetMapping list \<Rightarrow> SdkSubnetMapping list" where
  "buildSDKSubnetMappings sms = map buildSDKSubnetMapping sms"

definition buildSDKSecurityGroups :: "model_state \<Rightarrow> StringToken list \<Rightarrow> string option list result" where
  "buildSDKSecurityGroups st tokens =
     result_mapM (\<lambda>tok. result_bind (Resolve st tok) (\<lambda>gid. Inr (Some gid))) tokens"

definition buildSDKCreateLoadBalancerInput :: "model_state \<Rightarrow> LoadBalancerSpec \<Rightarrow> CreateLoadBalancerInput result" where
  "buildSDKCreateLoadBalancerInput st lbSpec =
     result_bind (buildSDKSecurityGroups st (lbSecurityGroups lbSpec)) (\<lambda>sgs.
       Inr \<lparr>clbName = Some (lbName lbSpec), clbType = Some (lbType lbSpec), clbScheme = lbScheme lbSpec,
         clbIpAddressType = lbIPAddressType lbSpec,
         clbSubnetMappings = buildSDKSubnetMappings (lbSubnetMappings lbSpec), clbSecurityGroups = sgs,
         clbCustomerOwnedIpv4Pool = lbCustomerOwnedIPv4Pool lbSpec, clbTags = []\<rparr>)"

definition buildResLoadBalancerStatus :: "LoadBalancerWithTags \<Rightarrow> LoadBalancerStatus" where
  "buildResLoadBalancerStatus sdkLB =
     \<lparr>lbLoadBalancerARN = StringValue (slbLoadBalancerArn (lwLoadBalancer sdkLB)),
      lbDNSName = StringValue (slbDNSName (lwLoadBalancer sdkLB))\<rparr>"

definition updateSDKLoadBalancerWithIPAddressType ::
  "('w, 'x) elb_manager_scheme \<Rightarrow> ResLB \<Rightarrow> LoadBalancerWithTags \<Rightarrow> ('w, unit) io" where
  "updateSDKLoadBalancerWithIPAddressType m resLB sdkLB =
     (case lbIPAddressType (rsSpec resLB) of
        None \<Rightarrow> io_return ()
      | Some desired \<Rightarrow>
          if desired = StringValue (slbIpAddressType (lwLoadBalancer sdkLB)) then io_return ()
          else SetIpAddressTypeWithContext (client m) (slbLoadBalancerArn (lwLoadBalancer sdkLB)) desired)"

definition updateSDKLoadBalancerWithSubnetMappings ::
  "('w, 'x) elb_manager_scheme \<Rightarrow> ResLB \<Rightarrow> LoadBalancerWithTags \<Rightarrow> ('w, unit) io" where
  "updateSDKLoadBalancerWithSubnetMappings m resLB sdkLB =
     (let desiredSubnets = set (map SubnetID (lbSubnetMappings (rsSpec resLB)));
          currentSubnets = set (map StringValue (slbAvailabilityZoneSubnetIds (lwLoadBalancer sdkLB)))
      in if desiredSubnets = currentSubnets then io_return ()
         else SetSubnetsWithContext (client m) (slbLoadBalancerArn (lwLoadBalancer sdkLB))
                (buildSDKSubnetMappings (lbSubnetMappings (rsSpec resLB))))"

definition updateSDKLoadBalancerWithSecurityGroups ::
  "('w, 'x) elb_manager_scheme \<Rightarrow> model_state \<Rightarrow> ResLB \<Rightarrow> LoadBalancerWithTags \<Rightarrow> ('w, unit) io" where
  "updateSDKLoadBalancerWithSecurityGroups m st resLB sdkLB =
     io_bind (io_lift (buildSDKSecurityGroups st (lbSecurityGroups (rsSpec resLB)))) (\<lambda>securityGroups.
       let desired = set (map StringValue securityGroups);
           current = set (map StringValue (slbSecurityGroups (lwLoadBalancer sdkLB)))
       in if desired = current then io_return ()
          else SetSecurityGroupsWithContext (client m) (slbLoadBalancerArn (lwLoadBalancer sdkLB)) securityGroups)"

text \<open>A drifted customer-owned pool is only logged.\<close>

definition checkSDKLoadBalancerWithCOIPv4Pool :: "ResLB \<Rightarrow> LoadBalancerWithTags \<Rightarrow> ('w, unit) io" where
  "checkSDKLoadBalancerWithCOIPv4Pool resLB sdkLB = io_return ()"

definition updateSDKLoadBalancerWithTags ::
  "('w, 'x) elb_manager_scheme \<Rightarrow> StackID \<Rightarrow> ResLB \<Rightarrow> LoadBalancerWithTags \<Rightarrow> ('w, unit) io" where
  "updateSDKLoadBalancerWithTags m sid resLB sdkLB =
     ReconcileTags (mgTagging m) (StringValue (slbLoadBalancerArn (lwLoadBalancer sdkLB)))
       (ResourceTags (mgProvider m) sid (rsID resLB) (lbTags (rsSpec resLB)))
       [WithCurrentTags (lwTags sdkLB), WithIgnoredTagKeys (LegacyTagKeys (mgProvider m)),
        WithIgnoredTagKeys (mgExternalManagedTags m)]"

definition LoadBalancerManager_Create ::
  "('w, 'x) elb_manager_scheme \<Rightarrow> StackID \<Rightarrow> model_state \<Rightarrow> ResLB \<Rightarrow> ('w, LoadBalancerStatus) io" where
  "LoadBalancerManager_Create m sid st resLB =
     io_bind (io_lift (buildSDKCreateLoadBalancerInput st (rsSpec resLB))) (\<lambda>req.
       let lbTags = ResourceTags (mgProvider m) sid (rsID resLB) (lbTags (rsSpec resLB)) in
       io_bind (CreateLoadBalancerWithContext (client m) (req\<lparr>clbTags := convertTagsToSDKTags (keysList m) lbTags\<rparr>))
         (\<lambda>resp. io_bind (io_lift (first_of resp)) (\<lambda>lb.
           let sdkLB = \<lparr>lwLoadBalancer = lb, lwTags = Some lbTags\<rparr> in
           io_bind (LoadBalancerAttributes_Reconcile m resLB sdkLB) (\<lambda>_.
             io_return (buildResLoadBalancerStatus sdkLB)))))"

definition LoadBalancerManager_Update ::
  "('w, 'x) elb_manager_scheme \<Rightarrow> StackID \<Rightarrow> model_state \<Rightarrow> ResLB \<Rightarrow> LoadBalancerWithTags \<Rightarrow> ('w, LoadBalancerStatus) io" where
  "LoadBalancerManager_Update m sid st resLB sdkLB =
     io_bind (updateSDKLoadBalancerWithTags m sid resLB sdkLB) (\<lambda>_.
     io_bind (updateSDKLoadBalancerWithSecurityGroups m st resLB sdkLB) (\<lambda>_.
     io_bind (updateSDKLoadBalancerWithSubnetMappings m resLB sdkLB) (\<lambda>_.
     io_bind (updateSDKLoadBalancerWithIPAddressType m resLB sdkLB) (\<lambda>_.
     io_bind (LoadBalancerAttributes_Reconcile m resLB sdkLB) (\<lambda>_.
     io_bind (checkSDKLoadBalancerWithCOIPv4Pool resLB sdkLB) (\<lambda>_.
       io_return (buildResLoadBalancerStatus sdkLB)))))))"

definition LoadBalancerManager_Delete ::
  "('w, 'x) elb_manager_scheme \<Rightarrow> LoadBalancerWithTags \<Rightarrow> ('w, unit) io" where
  "LoadBalancerManager_Delete m sdkLB =
     DeleteLoadBalancerWithContext (client m) (slbLoadBalancerArn (lwLoadBalancer sdkLB))"

section \<open>Retrying: lemmas\<close>

text \<open>
  What the polling function documents: it calls the condition at once and then after each
  interval, until it returns true or an error or the timeout is reached. With \<open>n\<close> attempts
  before the timeout it behaves as follows.
\<close>

fun poll_attempts :: "nat \<Rightarrow> ('w, bool) io \<Rightarrow> ('w, unit) io" where
  "poll_attempts 0 cond w = (Inl (Errorf ''timed out waiting for the condition'' []), w)"
| "poll_attempts (Suc n) cond w =
     (case cond w of
        (Inl e, w') \<Rightarrow> (Inl e, w')
      | (Inr True, w') \<Rightarrow> (Inr (), w')
      | (Inr False, w') \<Rightarrow> poll_attempts n cond w')"

inductive retried :: "(go_error \<Rightarrow> bool) \<Rightarrow> ('w, unit) io \<Rightarrow> nat \<Rightarrow> 'w \<Rightarrow> 'w \<Rightarrow> bool"
  for retryable fn where
  none: "retried retryable fn 0 w w"
| step: "fn w = (Inl e, w1) \<Longrightarrow> retryable e \<Longrightarrow> retried retryable fn k w1 w' \<Longrightarrow>
    retried retryable fn (Suc k) w w'"

inductive_simps retried_0 [simp]: "retried retryable fn 0 w w'"

inductive_simps retried_Suc: "retried retryable fn (Suc k) w w'"

lemma ex_less_Suc: "(\<exists>k<Suc n. P k) \<longleftrightarrow> P 0 \<or> (\<exists>k<n. P (Suc k))"
  using less_Suc_eq_0_disj by auto

lemma retry_attempts_ok:
  "RetryImmediateOnError (poll_attempts n) retryable fn w = (Inr (), w') \<longleftrightarrow>
     (\<exists>k<n. \<exists>wk. retried retryable fn k w wk \<and> fn wk = (Inr (), w'))"
proof (induction n arbitrary: w)
  case (Suc n)
  show ?case
  proof (cases "fst (fn w)")
    case (Inl e)
    then show ?thesis using Suc [of "snd (fn w)"]
      by (cases "fn w") (auto simp: RetryImmediateOnError_def ex_less_Suc retried_Suc split: if_splits)
  next
    case (Inr u)
    then show ?thesis
      by (cases "fn w") (auto simp: RetryImmediateOnError_def ex_less_Suc retried_Suc)
  qed
qed (simp add: RetryImmediateOnError_def)

lemma retry_attempts_fatal:
  assumes "\<not> retryable e"
  shows "retried retryable fn k w wk \<Longrightarrow> fn wk = (Inl e, w') \<Longrightarrow> k < n \<Longrightarrow>
     RetryImmediateOnError (poll_attempts n) retryable fn w = (Inl e, w')"
proof (induction k arbitrary: n w)
  case 0
  then show ?case using assms by (cases n) (auto simp: RetryImmediateOnError_def)
next
  case (Suc k)
  then obtain e1 w1 where "fn w = (Inl e1, w1)" "retryable e1" "retried retryable fn k w1 wk"
    by (auto simp: retried_Suc)
  then show ?case using Suc.IH [of w1 "n - 1"] Suc.prems by (cases n) (auto simp: RetryImmediateOnError_def)
qed

abbreviation delete_call :: "('w, 'x) elb_manager_scheme \<Rightarrow> TargetGroupWithTags \<Rightarrow> ('w, unit) io" where
  "delete_call m sdkTG \<equiv> DeleteTargetGroupWithContext (client m) (stgTargetGroupArn (twTargetGroup sdkTG))"

text \<open>C35: Deleting a target group. With \<open>n\<close> attempts before the timeout, the deletion succeeds exactly
  when one of them succeeds and all attempts before it failed because the target group was
  still in use; any other error ends the deletion at once and is returned with the message
  \<^verbatim>\<open>failed to delete targetGroup\<close>.\<close>

theorem target_group_delete_retries:
  fixes m :: "('w, 'x) elb_manager_scheme" and sdkTG :: TargetGroupWithTags
  assumes "mgPollImmediate m = poll_attempts n"
  shows "(TargetGroupManager_Delete m sdkTG w = (Inr (), w') \<longleftrightarrow>
      (\<exists>k<n. \<exists>wk. retried isTargetGroupResourceInUseError (delete_call m sdkTG) k w wk \<and> (delete_call m sdkTG) wk = (Inr (), w'))) \<and>
    (\<forall>k wk e. k < n \<and> retried isTargetGroupResourceInUseError (delete_call m sdkTG) k w wk \<and> (delete_call m sdkTG) wk = (Inl e, w') \<and>
        \<not> isTargetGroupResourceInUseError e \<longrightarrow>
      TargetGroupManager_Delete m sdkTG w = (Inl (Wrap e ''failed to delete targetGroup''), w'))"
proof -
  have del: "TargetGroupManager_Delete m sdkTG = io_wrap ''failed to delete targetGroup''
      (RetryImmediateOnError (poll_attempts n) isTargetGroupResourceInUseError (delete_call m sdkTG))"
    by (simp add: TargetGroupManager_Delete_def assms)
  have "io_wrap msg f w = (Inr (), w') \<longleftrightarrow> f w = (Inr (), w')" for msg and f :: "('w, unit) io"
    by (auto simp: io_wrap_def split: prod.splits sum.splits)
  then show ?thesis unfolding del
    using retry_attempts_ok [of n isTargetGroupResourceInUseError "delete_call m sdkTG" w w']
      retry_attempts_fatal [of isTargetGroupResourceInUseError _ "delete_call m sdkTG" _ w _ w' n]
    by (auto simp: io_wrap_def)
qed

section \<open>Health checks and attributes\<close>

text \<open>What modifying a target group documents: a setting that is given replaces the current one, a
  nil setting leaves it as it is.\<close>

definition keep :: "'a option \<Rightarrow> 'a option \<Rightarrow> 'a option" where
  "keep new old = (if new = None then old else new)"

definition modified_health_check :: "ModifyTargetGroupInput \<Rightarrow> SdkTargetGroup \<Rightarrow> SdkTargetGroup" where
  "modified_health_check req tg =
     tg\<lparr>stgHealthCheckPort := keep (mtgHealthCheckPort req) (stgHealthCheckPort tg),
        stgHealthCheckProtocol := keep (mtgHealthCheckProtocol req) (stgHealthCheckProtocol tg),
        stgHealthCheckPath := keep (mtgHealthCheckPath req) (stgHealthCheckPath tg),
        stgMatcher := keep (mtgMatcher req) (stgMatcher tg),
        stgHealthCheckIntervalSeconds := keep (mtgHealthCheckIntervalSeconds req) (stgHealthCheckIntervalSeconds tg),
        stgHealthCheckTimeoutSeconds := keep (mtgHealthCheckTimeoutSeconds req) (stgHealthCheckTimeoutSeconds tg),
        stgHealthyThresholdCount := keep (mtgHealthyThresholdCount req) (stgHealthyThresholdCount tg),
        stgUnhealthyThresholdCount := keep (mtgUnhealthyThresholdCount req) (stgUnhealthyThresholdCount tg)\<rparr>"

lemma keep_given [simp]: "x \<noteq> None \<Longrightarrow> keep x old = x"
  by (cases x) (auto simp: keep_def)

abbreviation after_modify :: "ResTG \<Rightarrow> TargetGroupWithTags \<Rightarrow> TargetGroupWithTags" where
  "after_modify resTG sdkTG \<equiv> sdkTG\<lparr>twTargetGroup :=
     modified_health_check (buildSDKModifyTargetGroupInput (rsSpec resTG)) (twTargetGroup sdkTG)\<rparr>"

text \<open>Updating the health check settles in one step. Whatever health check a target group has,
  after the modification that the controller requests for a specification the health check is
  no longer drifted from that specification, and the next update sends no modification.\<close>

theorem health_check_update_settles:
  "\<not> isSDKTargetGroupHealthCheckDrifted (rsSpec resTG) (after_modify resTG sdkTG) \<and>
   updateSDKTargetGroupWithHealthCheck m resTG (after_modify resTG sdkTG) = io_return ()"
proof -
  have "\<not> isSDKTargetGroupHealthCheckDrifted spec
      (sdkTG\<lparr>twTargetGroup := modified_health_check (buildSDKModifyTargetGroupInput spec) (twTargetGroup sdkTG)\<rparr>)" for spec
  proof (cases "tgHealthCheckConfig spec")
    case None
    then show ?thesis by (simp add: isSDKTargetGroupHealthCheckDrifted_def)
  next
    case (Some hc)
    then show ?thesis
      by (simp add: isSDKTargetGroupHealthCheckDrifted_def modified_health_check_def
          buildSDKModifyTargetGroupInput_def buildSDKMatcher_def Let_def cong: conj_cong option.case_cong,
        simp split: option.split)
  qed
  then show ?thesis by (simp add: updateSDKTargetGroupWithHealthCheck_def)
qed

lemma sdk_attributes_get:
  assumes "lists_sorted List"
  shows "map_of (attributes_of (sdk_attributes List attrs)) = map_of attrs"
proof (cases "attrs = []")
  case True
  then show ?thesis using lists_sorted_unique [OF assms, of "{}"]
    by (simp add: attributes_of_def sdk_attributes_def gomap_keys_def put_all_def)
next
  case False
  then show ?thesis using convertSDKTagsToTags_convert [OF assms, of attrs]
    by (simp add: convertSDKTagsToTags_def convertTagsToSDKTags_def attributes_of_def sdk_attributes_def)
qed

lemma put_all_rev: "map_of (put_all src dst) = map_of dst ++ map_of (rev src)"
proof (induction src arbitrary: dst)
  case (Cons kv src)
  obtain k v where kv: "kv = (k, v)" by (cases kv)
  have "map_of (put_all (kv # src) dst) = map_of (AList.update k v dst) ++ map_of (rev src)"
    using Cons [of "AList.update k v dst"] by (simp add: put_all_def kv)
  then show ?case by (simp add: kv update_conv' map_add_upd_left)
qed (simp add: put_all_def)

text \<open>Attributes as Elastic Load Balancing keeps them: each key has the value given last.\<close>

definition attribute_values :: "SdkTag list \<Rightarrow> string \<rightharpoonup> string" where
  "attribute_values l = map_of (rev (map (\<lambda>a. (StringValue (sdkTagKey a), StringValue (sdkTagValue a))) l))"

lemma attributes_of_values: "map_of (attributes_of l) = attribute_values l"
  by (simp add: attributes_of_def attribute_values_def put_all_rev)

lemma attribute_values_append: "attribute_values (a @ b) = attribute_values a ++ attribute_values b"
  by (simp add: attribute_values_def)

text \<open>C36: Reconciling the attributes of a load balancer. When it succeeds, every attribute of the specification has
  the value given for it there, the last one if there are several, and every other attribute keeps the value it had. The
  client describes the attributes without changing anything, and modifying overwrites the given
  ones and no others.\<close>

theorem load_balancer_attributes_reconciled:
  assumes "lists_sorted (keysList m)"
    and "\<And>w. \<exists>l. DescribeLoadBalancerAttributesWithContext (client m) arn w = (Inr l, w) \<and> attribute_values l = attrs w"
    and "\<And>l w w'. ModifyLoadBalancerAttributesWithContext (client m) arn l w = (Inr (), w') \<Longrightarrow>
      attrs w' = attrs w ++ attribute_values l"
    and "slbLoadBalancerArn (lwLoadBalancer sdkLB) = arn"
    and "LoadBalancerAttributes_Reconcile m resLB sdkLB w = (Inr (), w')"
  shows "attrs w' = attrs w ++ map_of (rev (map (\<lambda>a. (lbaKey a, lbaValue a)) (lbLoadBalancerAttributes (rsSpec resLB))))"
proof -
  let ?d = "getDesiredLoadBalancerAttributes resLB"
  obtain l where l: "DescribeLoadBalancerAttributesWithContext (client m) arn w = (Inr l, w)"
    "map_of (attributes_of l) = attrs w" using assms(2) unfolding attributes_of_values by blast
  let ?u = "fst (DiffStringMap ?d (attributes_of l))"
  have wf: "gomap_wf ?d" by (simp add: getDesiredLoadBalancerAttributes_def put_all_wf)
  have "(if ?u \<noteq> [] then ModifyLoadBalancerAttributesWithContext (client m) arn (sdk_attributes (keysList m) ?u)
      else io_return ()) w = (Inr (), w')"
    using assms(5) unfolding LoadBalancerAttributes_Reconcile_def getCurrentLoadBalancerAttributes_def assms(4)
    by (simp add: l(1) io_bind_def io_return_def Let_def)
  then have "attrs w' = attrs w ++ map_of ?u"
    using assms(3) sdk_attributes_get [OF assms(1)] by (cases "?u = []") (auto simp: io_return_def simp flip: attributes_of_values)
  also have "attrs w ++ map_of ?u = attrs w ++ map_of ?d"
    using l(2) by (auto simp: fun_eq_iff map_add_def DiffStringMap_modify [OF wf] split: option.splits)
  also have "map_of ?d = map_of (rev (map (\<lambda>a. (lbaKey a, lbaValue a)) (lbLoadBalancerAttributes (rsSpec resLB))))"
    by (simp add: getDesiredLoadBalancerAttributes_def put_all_rev)
  finally show ?thesis .
qed

text \<open>A target group is created with tags by which later deployments find it: the request that
  \<^verbatim>\<open>Create\<close> sends first carries tags that match the tag filter of the stack and name the
  resource identifier, whatever tags the user specified.\<close>

theorem created_target_group_tracked:
  assumes "lists_sorted (keysList m)"
  shows "\<exists>req rest. TargetGroupManager_Create m sid resTG = io_bind (CreateTargetGroupWithContext (client m) req) rest \<and>
     Matches (TagsAsTagFilter (StackTags (mgProvider m) sid)) (convertSDKTagsToTags (ctgTags req)) \<and>
     map_of (convertSDKTagsToTags (ctgTags req)) (ResourceIDTagKey (mgProvider m)) = Some (rsID resTG) \<and>
     ctgVpcId req = Some (tmVpcID (mgTagging m))"
proof -
  let ?tags = "ResourceTags (mgProvider m) sid (rsID resTG) (tgTags (rsSpec resTG))"
  let ?req = "(buildSDKCreateTargetGroupInput (rsSpec resTG))
    \<lparr>ctgVpcId := Some (tmVpcID (mgTagging m)), ctgTags := convertTagsToSDKTags (keysList m) ?tags\<rparr>"
  have tags: "map_of (convertSDKTagsToTags (ctgTags ?req)) = map_of ?tags"
    using convertSDKTagsToTags_convert [OF assms] by simp
  have "map_of (StackTags (mgProvider m) sid) \<subseteq>\<^sub>m map_of ?tags"
    unfolding map_le_iff StackTags_get ResourceTags_get by (simp split: if_splits)
  then have "Matches (TagsAsTagFilter (StackTags (mgProvider m) sid)) (convertSDKTagsToTags (ctgTags ?req))"
    by (simp only: Matches_TagsAsTagFilter [OF StackTags_wf] tags)
  moreover have "map_of ?tags (ResourceIDTagKey (mgProvider m)) = Some (rsID resTG)"
    using tracking_keys_distinct [of "mgProvider m"] by (simp add: ResourceTags_get ResourceIDTagKey_def)
  ultimately show ?thesis unfolding TargetGroupManager_Create_def Let_def
    by (intro exI [of _ ?req] exI conjI) (simp_all add: convertSDKTagsToTags_convert [OF assms])
qed

section \<open>Witnesses\<close>

text \<open>A client that reports the target group in use twice before it deletes it; the world counts the
  calls. And one that keeps the attributes of a load balancer in memory.\<close>

definition busy_elb :: "nat ELBV2" where
  "busy_elb = offline_elb\<lparr>DeleteTargetGroupWithContext := \<lambda>_ w.
     if w < 2 then (Inl (AwsError ''ResourceInUse'' []), w + 1) else (Inr (), w + 1)\<rparr>"

definition example_manager :: "'w ELBV2 \<Rightarrow> nat \<Rightarrow> 'w elb_manager" where
  "example_manager c n = \<lparr>mgTagging = example_tagging c, mgProvider = \<lparr>tagPrefix = ''ingress.k8s.aws'', clusterName = ''c''\<rparr>,
     mgExternalManagedTags = [], mgPollImmediate = poll_attempts n\<rparr>"

theorem created_target_group_tracked_witness:
  "\<exists>req rest. TargetGroupManager_Create (example_manager busy_elb 10) \<lparr>sidNamespace = [], sidName = ''g''\<rparr>
      (example_res_tg ''a'' ''HTTP'') = io_bind (CreateTargetGroupWithContext (client (example_manager busy_elb 10)) req) rest \<and>
    ctgVpcId req = Some ''vpc-1''"
proof -
  have "lists_sorted (keysList (example_manager busy_elb 10))"
    by (simp add: example_manager_def example_tagging_def sorted_list_of_set_lists_sorted)
  from created_target_group_tracked [OF this]
  show ?thesis by (metis (no_types, lifting) defaultTaggingManager.select_convs(2) elb_manager.select_convs(1)
      example_manager_def example_tagging_def)
qed

theorem target_group_delete_retries_witness:
  "TargetGroupManager_Delete (example_manager busy_elb 10) (example_sdk_tg ''tg'' [] ''HTTP'') 0 = (Inr (), 3)"
proof -
  let ?m = "example_manager busy_elb 10" and ?tg = "example_sdk_tg ''tg'' [] ''HTTP''"
  have poll: "mgPollImmediate ?m = poll_attempts 10" by (simp add: example_manager_def)
  have call: "delete_call ?m ?tg w = (if w < 2 then (Inl (AwsError ''ResourceInUse'' []), w + 1) else (Inr (), w + 1))" for w
    by (simp add: example_manager_def example_tagging_def busy_elb_def)
  have "retried isTargetGroupResourceInUseError (delete_call ?m ?tg) (Suc (Suc 0)) 0 2"
    unfolding retried_Suc call by (simp add: isTargetGroupResourceInUseError_def)
  moreover have "delete_call ?m ?tg 2 = (Inr (), 3)" unfolding call by simp
  moreover have "Suc (Suc 0) < (10::nat)" by simp
  ultimately show ?thesis using target_group_delete_retries [OF poll, of ?tg 0 3] by blast
qed

definition attr_elb :: "SdkTag list ELBV2" where
  "attr_elb = offline_elb
     \<lparr>DescribeLoadBalancerAttributesWithContext := \<lambda>_ w. (Inr w, w),
      ModifyLoadBalancerAttributesWithContext := \<lambda>_ l w. (Inr (), w @ l)\<rparr>"

theorem load_balancer_attributes_reconciled_witness:
  "\<exists>w'. LoadBalancerAttributes_Reconcile (example_manager attr_elb 9)
      (example_res_lb\<lparr>rsSpec := (rsSpec example_res_lb)\<lparr>lbLoadBalancerAttributes := [\<lparr>lbaKey = ''idle'', lbaValue = ''60''\<rparr>]\<rparr>\<rparr>)
      (example_sdk_lb []) [\<lparr>sdkTagKey = Some ''idle'', sdkTagValue = Some ''30''\<rparr>, \<lparr>sdkTagKey = Some ''log'', sdkTagValue = Some ''on''\<rparr>] =
      (Inr (), w') \<and>
    attribute_values w' ''idle'' = Some ''60'' \<and> attribute_values w' ''log'' = Some ''on''"
proof -
  let ?m = "example_manager attr_elb 9"
  let ?r = "example_res_lb\<lparr>rsSpec := (rsSpec example_res_lb)\<lparr>lbLoadBalancerAttributes := [\<lparr>lbaKey = ''idle'', lbaValue = ''60''\<rparr>]\<rparr>\<rparr>"
  let ?s = "example_sdk_lb []" and ?arn = "Some ''arn''"
  let ?w = "[\<lparr>sdkTagKey = Some ''idle'', sdkTagValue = Some ''30''\<rparr>, \<lparr>sdkTagKey = Some ''log'', sdkTagValue = Some ''on''\<rparr>]"
  have c: "client ?m = attr_elb" "keysList ?m = sorted_list_of_set"
    by (simp_all add: example_manager_def example_tagging_def)
  have List: "lists_sorted (keysList ?m)" by (simp add: c sorted_list_of_set_lists_sorted)
  have desc: "\<exists>l. DescribeLoadBalancerAttributesWithContext (client ?m) ?arn w = (Inr l, w) \<and>
      attribute_values l = attribute_values w" for w
    unfolding c by (simp add: attr_elb_def)
  have modify: "ModifyLoadBalancerAttributesWithContext (client ?m) ?arn l w = (Inr (), w') \<Longrightarrow>
      attribute_values w' = attribute_values w ++ attribute_values l" for l w w'
    unfolding c by (auto simp: attr_elb_def attribute_values_append)
  have arn: "slbLoadBalancerArn (lwLoadBalancer ?s) = ?arn" by (simp add: example_sdk_lb_def)
  have "\<exists>w'. LoadBalancerAttributes_Reconcile ?m ?r ?s ?w = (Inr (), w')"
    unfolding LoadBalancerAttributes_Reconcile_def getCurrentLoadBalancerAttributes_def c
    by (simp add: attr_elb_def io_simps Let_def)
  then obtain w' where run: "LoadBalancerAttributes_Reconcile ?m ?r ?s ?w = (Inr (), w')" ..
  have "attribute_values w' = attribute_values ?w ++ map_of (rev (map (\<lambda>a. (lbaKey a, lbaValue a)) (lbLoadBalancerAttributes (rsSpec ?r))))"
    by (rule load_balancer_attributes_reconciled [OF List desc modify arn run])
  moreover have "attribute_values ?w ''log'' = Some ''on''" by (simp add: attribute_values_def)
  ultimately show ?thesis using run by simp
qed

end
