(* ===== verification/Elbv2_Listeners.thy ===== *)
theory Elbv2_Listeners
  imports Elbv2_Managers
begin

text \<open>
  Creating, updating and deleting listeners and listener rules: \<^verbatim>\<open>listener_manager.go\<close>,
  \<^verbatim>\<open>listener_rule_manager.go\<close> and the conversions of actions and conditions of
  \<^verbatim>\<open>listener_utils.go\<close> in \<^verbatim>\<open>pkg/deploy/elbv2\<close>. The structural comparisons of the go-cmp library
  are parameters.
\<close>

section \<open>Actions and conditions\<close>

definition buildSDKAuthenticateCognitoActionConfig ::
  "AuthenticateCognitoActionConfig \<Rightarrow> SdkAuthenticateCognitoActionConfig" where
  "buildSDKAuthenticateCognitoActionConfig c =
     \<lparr>sacAuthenticationRequestExtraParams = map (\<lambda>(k, v). (k, Some v)) (acAuthenticationRequestExtraParams c),
      sacOnUnauthenticatedRequest = acOnUnauthenticatedRequest c, sacScope = acScope c,
      sacSessionCookieName = acSessionCookieName c, sacSessionTimeout = acSessionTimeout c,
      sacUserPoolArn = Some (acUserPoolARN c), sacUserPoolClientId = Some (acUserPoolClientID c),
      sacUserPoolDomain = Some (acUserPoolDomain c)\<rparr>"

definition buildSDKAuthenticateOidcActionConfig ::
  "AuthenticateOIDCActionConfig \<Rightarrow> SdkAuthenticateOidcActionConfig" where
  "buildSDKAuthenticateOidcActionConfig c =
     \<lparr>saoAuthenticationRequestExtraParams = map (\<lambda>(k, v). (k, Some v)) (aoAuthenticationRequestExtraParams c),
      saoOnUnauthenticatedRequest = aoOnUnauthenticatedRequest c, saoScope = aoScope c,
      saoSessionCookieName = aoSessionCookieName c, saoSessionTimeout = aoSessionTimeout c,
      saoClientId = Some (aoClientID c), saoClientSecret = Some (aoClientSecret c), saoIssuer = Some (aoIssuer c),
      saoAuthorizationEndpoint = Some (aoAuthorizationEndpoint c), saoTokenEndpoint = Some (aoTokenEndpoint c),
      saoUserInfoEndpoint = Some (aoUserInfoEndpoint c)\<rparr>"

definition buildSDKFixedResponseActionConfig :: "FixedResponseActionConfig \<Rightarrow> SdkFixedResponseActionConfig" where
  "buildSDKFixedResponseActionConfig c =
     \<lparr>sfrContentType = frContentType c, sfrMessageBody = frMessageBody c, sfrStatusCode = Some (frStatusCode c)\<rparr>"

definition buildSDKRedirectActionConfig :: "RedirectActionConfig \<Rightarrow> SdkRedirectActionConfig" where
  "buildSDKRedirectActionConfig c =
     \<lparr>srdHost = rdHost c, srdPath = rdPath c, srdPort = rdPort c, srdProtocol = rdProtocol c, srdQuery = rdQuery c,
      srdStatusCode = Some (rdStatusCode c)\<rparr>"

definition buildSDKForwardActionConfig :: "model_state \<Rightarrow> ForwardActionConfig \<Rightarrow> SdkForwardActionConfig result" where
  "buildSDKForwardActionConfig st c =
     result_bind (result_mapM (\<lambda>tgt. result_bind (Resolve st (tgtTargetGroupARN tgt)) (\<lambda>tgARN.
         Inr \<lparr>sttTargetGroupArn = Some tgARN, sttWeight = tgtWeight tgt\<rparr>)) (fwTargetGroups c))
       (\<lambda>tgTuples. Inr \<lparr>sfwTargetGroups = tgTuples, sfwStickinessConfig = fwTargetGroupStickinessConfig c\<rparr>)"

definition buildSDKAction :: "model_state \<Rightarrow> Action \<Rightarrow> FeatureGates \<Rightarrow> SdkAction result" where
  "buildSDKAction st a featureGates =
     (let sdkObj = \<lparr>sactType = Some (actType a), sactOrder = None, sactTargetGroupArn = None,
            sactAuthenticateCognitoConfig = map_option buildSDKAuthenticateCognitoActionConfig (actAuthenticateCognitoConfig a),
            sactAuthenticateOidcConfig = map_option buildSDKAuthenticateOidcActionConfig (actAuthenticateOIDCConfig a),
            sactFixedResponseConfig = map_option buildSDKFixedResponseActionConfig (actFixedResponseConfig a),
            sactRedirectConfig = map_option buildSDKRedirectActionConfig (actRedirectConfig a),
            sactForwardConfig = None\<rparr>
      in case actForwardConfig a of
           None \<Rightarrow> Inr sdkObj
         | Some cfg \<Rightarrow>
             result_bind (buildSDKForwardActionConfig st cfg) (\<lambda>forwardConfig.
               if \<not> Enabled featureGates WeightedTargetGroups then
                 (case sfwTargetGroups forwardConfig of
                    [tgt] \<Rightarrow> Inr (sdkObj\<lparr>sactTargetGroupArn := sttTargetGroupArn tgt\<rparr>)
                  | _ \<Rightarrow> Inl (Errorf ''weighted target groups feature is disabled'' []))
               else Inr (sdkObj\<lparr>sactForwardConfig := Some forwardConfig\<rparr>)))"

fun buildSDKActions_from :: "int \<Rightarrow> model_state \<Rightarrow> Action list \<Rightarrow> FeatureGates \<Rightarrow> SdkAction list result" where
  "buildSDKActions_from index st [] featureGates = Inr []"
| "buildSDKActions_from index st (a # as) featureGates =
     result_bind (buildSDKAction st a featureGates) (\<lambda>sdkAction.
       result_bind (buildSDKActions_from (index + 1) st as featureGates) (\<lambda>rest.
         Inr (sdkAction\<lparr>sactOrder := Some (index + 1)\<rparr> # rest)))"

definition buildSDKActions :: "model_state \<Rightarrow> Action list \<Rightarrow> FeatureGates \<Rightarrow> SdkAction list result" where
  "buildSDKActions st modelActions featureGates = buildSDKActions_from 0 st modelActions featureGates"

definition buildSDKHostHeaderConditionConfig :: "HostHeaderConditionConfig \<Rightarrow> string option list" where
  "buildSDKHostHeaderConditionConfig c = map Some (hhValues c)"

definition buildSDKHTTPHeaderConditionConfig :: "HTTPHeaderConditionConfig \<Rightarrow> SdkHttpHeaderConditionConfig" where
  "buildSDKHTTPHeaderConditionConfig c =
     \<lparr>shdHttpHeaderName = Some (HTTPHeaderName c), shdValues = map Some (hdValues c)\<rparr>"

definition buildSDKHTTPRequestMethodConditionConfig :: "HTTPRequestMethodConditionConfig \<Rightarrow> string option list" where
  "buildSDKHTTPRequestMethodConditionConfig c = map Some (rmValues c)"

definition buildSDKPathPatternConditionConfig :: "PathPatternConditionConfig \<Rightarrow> string option list" where
  "buildSDKPathPatternConditionConfig c = map Some (ppValues c)"

definition buildSDKQueryStringConditionConfig :: "QueryStringConditionConfig \<Rightarrow> SdkQueryStringKeyValuePair list" where
  "buildSDKQueryStringConditionConfig c = map (\<lambda>v. \<lparr>sqsKey = qsKey v, sqsValue = Some (qsValue v)\<rparr>) (qsValues c)"

definition buildSDKSourceIpConditionConfig :: "SourceIPConditionConfig \<Rightarrow> string option list" where
  "buildSDKSourceIpConditionConfig c = map Some (siValues c)"

definition buildSDKRuleCondition :: "RuleCondition \<Rightarrow> SdkRuleCondition" where
  "buildSDKRuleCondition c =
     \<lparr>srcField = Some (rcField c),
      srcHostHeaderValues = map_option buildSDKHostHeaderConditionConfig (rcHostHeaderConfig c),
      srcHttpHeaderConfig = map_option buildSDKHTTPHeaderConditionConfig (rcHTTPHeaderConfig c),
      srcHttpRequestMethodValues = map_option buildSDKHTTPRequestMethodConditionConfig (rcHTTPRequestMethodConfig c),
      srcPathPatternValues = map_option buildSDKPathPatternConditionConfig (rcPathPatternConfig c),
      srcQueryStringValues = map_option buildSDKQueryStringConditionConfig (rcQueryStringConfig c),
      srcSourceIpValues = map_option buildSDKSourceIpConditionConfig (rcSourceIPConfig c)\<rparr>"

definition buildSDKRuleConditions :: "RuleCondition list \<Rightarrow> SdkRuleCondition list" where
  "buildSDKRuleConditions cs = map buildSDKRuleCondition cs"

definition isListenerNotFoundError :: "go_error \<Rightarrow> bool" where
  "isListenerNotFoundError err =
     (case as_aws_error err of Some (code, _) \<Rightarrow> code = ''ListenerNotFound'' | None \<Rightarrow> False)"

section \<open>Listeners\<close>

record 'w listener_manager = "'w elb_manager" +
  cmpActions :: "SdkAction list \<Rightarrow> SdkAction list \<Rightarrow> bool"
  cmpCertificates :: "SdkCertificate list \<Rightarrow> SdkCertificate list \<Rightarrow> bool"
  cmpRuleConditions :: "SdkRuleCondition list \<Rightarrow> SdkRuleCondition list \<Rightarrow> bool"

abbreviation gates :: "('w, 'x) listener_manager_scheme \<Rightarrow> FeatureGates" where
  "gates m \<equiv> tmFeatureGates (mgTagging m)"

definition buildSDKCertificate :: "Certificate \<Rightarrow> SdkCertificate" where
  "buildSDKCertificate c = \<lparr>scertCertificateArn = CertificateARN c, scertIsDefault = None\<rparr>"

definition buildSDKCertificates :: "Certificate list \<Rightarrow> SdkCertificate list \<times> SdkCertificate list" where
  "buildSDKCertificates modelCerts =
     (case modelCerts of
        [] \<Rightarrow> ([], [])
      | c # cs \<Rightarrow> ([buildSDKCertificate c], map buildSDKCertificate cs))"

definition buildSDKCreateListenerInput ::
  "model_state \<Rightarrow> ListenerSpec \<Rightarrow> FeatureGates \<Rightarrow> CreateListenerInput result" where
  "buildSDKCreateListenerInput st lsSpec featureGates =
     result_bind (Resolve st (lsLoadBalancerARN lsSpec)) (\<lambda>lbARN.
     result_bind (buildSDKActions st (lsDefaultActions lsSpec) featureGates) (\<lambda>defaultActions.
       Inr \<lparr>clsLoadBalancerArn = Some lbARN, clsPort = Some (lsPort lsSpec), clsProtocol = Some (lsProtocol lsSpec),
         clsDefaultActions = defaultActions, clsCertificates = fst (buildSDKCertificates (lsCertificates lsSpec)),
         clsSslPolicy = lsSSLPolicy lsSpec, clsAlpnPolicy = map Some (lsALPNPolicy lsSpec), clsTags = []\<rparr>))"

definition buildSDKModifyListenerInput ::
  "ListenerSpec \<Rightarrow> SdkAction list \<Rightarrow> SdkCertificate list \<Rightarrow> ModifyListenerInput" where
  "buildSDKModifyListenerInput lsSpec desiredDefaultActions desiredDefaultCerts =
     \<lparr>mlsListenerArn = None, mlsPort = Some (lsPort lsSpec), mlsProtocol = Some (lsProtocol lsSpec),
      mlsDefaultActions = desiredDefaultActions, mlsCertificates = desiredDefaultCerts,
      mlsSslPolicy = lsSSLPolicy lsSpec, mlsAlpnPolicy = map Some (lsALPNPolicy lsSpec)\<rparr>"

definition isSDKListenerSettingsDrifted ::
  "('w, 'x) listener_manager_scheme \<Rightarrow> ListenerSpec \<Rightarrow> ListenerWithTags \<Rightarrow> SdkAction list \<Rightarrow> SdkCertificate list \<Rightarrow> bool" where
  "isSDKListenerSettingsDrifted m lsSpec sdkLS desiredDefaultActions desiredDefaultCerts =
     (if lsPort lsSpec \<noteq> Int64Value (slsPort (swListener sdkLS)) then True
      else if lsProtocol lsSpec \<noteq> StringValue (slsProtocol (swListener sdkLS)) then True
      else if \<not> cmpActions m desiredDefaultActions (slsDefaultActions (swListener sdkLS)) then True
      else if \<not> cmpCertificates m desiredDefaultCerts (slsCertificates (swListener sdkLS)) then True
      else if lsSSLPolicy lsSpec \<noteq> None \<and>
        StringValue (lsSSLPolicy lsSpec) \<noteq> StringValue (slsSslPolicy (swListener sdkLS)) then True
      else if lsALPNPolicy lsSpec \<noteq> [] \<and>
        lsALPNPolicy lsSpec \<noteq> map StringValue (slsAlpnPolicy (swListener sdkLS)) then True
      else False)"

definition buildResListenerStatus :: "ListenerWithTags \<Rightarrow> ListenerStatus" where
  "buildResListenerStatus sdkLS = \<lparr>lsListenerARN = StringValue (slsListenerArn (swListener sdkLS))\<rparr>"

definition fetchSDKListenerExtraCertificateARNs ::
  "('w, 'x) elb_manager_scheme \<Rightarrow> ListenerWithTags \<Rightarrow> ('w, string list) io" where
  "fetchSDKListenerExtraCertificateARNs m sdkLS =
     io_bind (DescribeListenerCertificatesAsList (client m) (slsListenerArn (swListener sdkLS))) (\<lambda>sdkCerts.
       io_return (map (\<lambda>c. StringValue (scertCertificateArn c)) (filter (\<lambda>c. \<not> BoolValue (scertIsDefault c)) sdkCerts)))"

definition one_certificate :: "string \<Rightarrow> SdkCertificate list" where
  "one_certificate certARN = [\<lparr>scertCertificateArn = Some certARN, scertIsDefault = None\<rparr>]"

definition updateSDKListenerWithExtraCertificates ::
  "('w, 'x) elb_manager_scheme \<Rightarrow> ResLS \<Rightarrow> ListenerWithTags \<Rightarrow> bool \<Rightarrow> ('w, unit) io" where
  "updateSDKListenerWithExtraCertificates m resLS sdkLS isNewSDKListener =
     (if lsSSLPolicy (rsSpec resLS) = None \<and> slsSslPolicy (swListener sdkLS) = None then io_return ()
      else
        let desired = set (map (\<lambda>c. StringValue (scertCertificateArn c)) (snd (buildSDKCertificates (lsCertificates (rsSpec resLS)))));
            arn = slsListenerArn (swListener sdkLS)
        in io_bind (if \<not> isNewSDKListener then fetchSDKListenerExtraCertificateARNs m sdkLS else io_return []) (\<lambda>certARNs.
          let current = set certARNs in
          io_bind (io_forM (\<lambda>certARN. RemoveListenerCertificatesWithContext (client m) arn (one_certificate certARN))
            (keysList m (current - desired))) (\<lambda>_.
          io_forM (\<lambda>certARN. AddListenerCertificatesWithContext (client m) arn (one_certificate certARN))
            (keysList m (desired - current)))))"

definition updateSDKListenerWithTags ::
  "('w, 'x) elb_manager_scheme \<Rightarrow> StackID \<Rightarrow> ResLS \<Rightarrow> ListenerWithTags \<Rightarrow> ('w, unit) io" where
  "updateSDKListenerWithTags m sid resLS sdkLS =
     ReconcileTags (mgTagging m) (StringValue (slsListenerArn (swListener sdkLS)))
       (ResourceTags (mgProvider m) sid (rsID resLS) (lsTags (rsSpec resLS)))
       [WithCurrentTags (swTags sdkLS), WithIgnoredTagKeys (mgExternalManagedTags m)]"

definition updateSDKListenerWithSettings ::
  "('w, 'x) listener_manager_scheme \<Rightarrow> model_state \<Rightarrow> ResLS \<Rightarrow> ListenerWithTags \<Rightarrow> ('w, unit) io" where
  "updateSDKListenerWithSettings m st resLS sdkLS =
     io_bind (io_lift (buildSDKActions st (lsDefaultActions (rsSpec resLS)) (gates m))) (\<lambda>desiredDefaultActions.
       let desiredDefaultCerts = fst (buildSDKCertificates (lsCertificates (rsSpec resLS))) in
       if \<not> isSDKListenerSettingsDrifted m (rsSpec resLS) sdkLS desiredDefaultActions desiredDefaultCerts then io_return ()
       else ModifyListenerWithContext (client m)
         ((buildSDKModifyListenerInput (rsSpec resLS) desiredDefaultActions desiredDefaultCerts)
            \<lparr>mlsListenerArn := slsListenerArn (swListener sdkLS)\<rparr>))"

definition ListenerManager_Create ::
  "('w, 'x) listener_manager_scheme \<Rightarrow> StackID \<Rightarrow> model_state \<Rightarrow> ResLS \<Rightarrow> ('w, ListenerStatus) io" where
  "ListenerManager_Create m sid st resLS =
     io_bind (io_lift (buildSDKCreateListenerInput st (rsSpec resLS) (gates m))) (\<lambda>req.
       let lsTags = (if Enabled (gates m) ListenerRulesTagging
             then Some (ResourceTags (mgProvider m) sid (rsID resLS) (lsTags (rsSpec resLS))) else None) in
       io_bind (CreateListenerWithContext (client m)
           (req\<lparr>clsTags := convertTagsToSDKTags (keysList m) (nil_map lsTags)\<rparr>)) (\<lambda>resp.
       io_bind (io_lift (first_of resp)) (\<lambda>listener.
         let sdkLS = \<lparr>swListener = listener, swTags = lsTags\<rparr> in
         io_bind (io_wrap ''failed to update extra certificates on listener''
             (RetryImmediateOnError (mgPollImmediate m) isListenerNotFoundError
               (updateSDKListenerWithExtraCertificates m resLS sdkLS True))) (\<lambda>_.
           io_return (buildResListenerStatus sdkLS)))))"

definition ListenerManager_Update ::
  "('w, 'x) listener_manager_scheme \<Rightarrow> StackID \<Rightarrow> model_state \<Rightarrow> ResLS \<Rightarrow> ListenerWithTags \<Rightarrow> ('w, ListenerStatus) io" where
  "ListenerManager_Update m sid st resLS sdkLS =
     io_bind (if Enabled (gates m) ListenerRulesTagging then updateSDKListenerWithTags m sid resLS sdkLS else io_return ()) (\<lambda>_.
     io_bind (updateSDKListenerWithSettings m st resLS sdkLS) (\<lambda>_.
     io_bind (updateSDKListenerWithExtraCertificates m resLS sdkLS False) (\<lambda>_.
       io_return (buildResListenerStatus sdkLS))))"

definition ListenerManager_Delete :: "('w, 'x) elb_manager_scheme \<Rightarrow> ListenerWithTags \<Rightarrow> ('w, unit) io" where
  "ListenerManager_Delete m sdkLS = DeleteListenerWithContext (client m) (slsListenerArn (swListener sdkLS))"

section \<open>Listener rules\<close>

definition isSDKListenerRuleSettingsDrifted ::
  "('w, 'x) listener_manager_scheme \<Rightarrow> ListenerRuleWithTags \<Rightarrow> SdkAction list \<Rightarrow> SdkRuleCondition list \<Rightarrow> bool" where
  "isSDKListenerRuleSettingsDrifted m sdkLR desiredActions desiredConditions =
     (if \<not> cmpActions m desiredActions (slrActions (rwListenerRule sdkLR)) then True
      else if \<not> cmpRuleConditions m desiredConditions (slrConditions (rwListenerRule sdkLR)) then True
      else False)"

definition buildSDKCreateListenerRuleInput ::
  "model_state \<Rightarrow> ListenerRuleSpec \<Rightarrow> FeatureGates \<Rightarrow> CreateRuleInput result" where
  "buildSDKCreateListenerRuleInput st lrSpec featureGates =
     result_bind (Resolve st (lrListenerARN lrSpec)) (\<lambda>lsARN.
     result_bind (buildSDKActions st (lrActions lrSpec) featureGates) (\<lambda>actions.
       Inr \<lparr>crListenerArn = Some lsARN, crPriority = Some (lrPriority lrSpec), crActions = actions,
         crConditions = buildSDKRuleConditions (lrConditions lrSpec), crTags = []\<rparr>))"

definition buildSDKModifyListenerRuleInput :: "SdkAction list \<Rightarrow> SdkRuleCondition list \<Rightarrow> ModifyRuleInput" where
  "buildSDKModifyListenerRuleInput desiredActions desiredConditions =
     \<lparr>mrRuleArn = None, mrActions = desiredActions, mrConditions = desiredConditions\<rparr>"

definition buildResListenerRuleStatus :: "ListenerRuleWithTags \<Rightarrow> ListenerRuleStatus" where
  "buildResListenerRuleStatus sdkLR = \<lparr>lrRuleARN = StringValue (slrRuleArn (rwListenerRule sdkLR))\<rparr>"

definition updateSDKListenerRuleWithSettings ::
  "('w, 'x) listener_manager_scheme \<Rightarrow> model_state \<Rightarrow> ResLR \<Rightarrow> ListenerRuleWithTags \<Rightarrow> ('w, unit) io" where
  "updateSDKListenerRuleWithSettings m st resLR sdkLR =
     io_bind (io_lift (buildSDKActions st (lrActions (rsSpec resLR)) (gates m))) (\<lambda>desiredActions.
       let desiredConditions = buildSDKRuleConditions (lrConditions (rsSpec resLR)) in
       if \<not> isSDKListenerRuleSettingsDrifted m sdkLR desiredActions desiredConditions then io_return ()
       else ModifyRuleWithContext (client m)
         ((buildSDKModifyListenerRuleInput desiredActions desiredConditions)
            \<lparr>mrRuleArn := slrRuleArn (rwListenerRule sdkLR)\<rparr>))"

definition updateSDKListenerRuleWithTags ::
  "('w, 'x) elb_manager_scheme \<Rightarrow> StackID \<Rightarrow> ResLR \<Rightarrow> ListenerRuleWithTags \<Rightarrow> ('w, unit) io" where
  "updateSDKListenerRuleWithTags m sid resLR sdkLR =
     ReconcileTags (mgTagging m) (StringValue (slrRuleArn (rwListenerRule sdkLR)))
       (ResourceTags (mgProvider m) sid (rsID resLR) (lrTags (rsSpec resLR)))
       [WithCurrentTags (rwTags sdkLR), WithIgnoredTagKeys (mgExternalManagedTags m)]"

text \<open>The retried call stores the created rule in a variable of the enclosing function: the world of
  the loop carries it.\<close>

definition create_rule ::
  "('w, 'x) elb_manager_scheme \<Rightarrow> CreateRuleInput \<Rightarrow> string_map option \<Rightarrow> ('w, ListenerRuleWithTags) io" where
  "create_rule m req ruleTags =
     io_bind (CreateRuleWithContext (client m) req) (\<lambda>resp. io_bind (io_lift (first_of resp)) (\<lambda>rule.
       io_return \<lparr>rwListenerRule = rule, rwTags = ruleTags\<rparr>))"

definition with_variable :: "('w, 'a) io \<Rightarrow> ('w \<times> 'a option, unit) io" where
  "with_variable m = (\<lambda>(w, v). case m w of (Inl e, w') \<Rightarrow> (Inl e, (w', v)) | (Inr x, w') \<Rightarrow> (Inr (), (w', Some x)))"

definition ListenerRuleManager_Create ::
  "('w, 'x) listener_manager_scheme \<Rightarrow>
   (('w \<times> ListenerRuleWithTags option, bool) io \<Rightarrow> ('w \<times> ListenerRuleWithTags option, unit) io) \<Rightarrow>
   StackID \<Rightarrow> model_state \<Rightarrow> ResLR \<Rightarrow> ('w, ListenerRuleStatus) io" where
  "ListenerRuleManager_Create m PollImmediate sid st resLR =
     io_bind (io_lift (buildSDKCreateListenerRuleInput st (rsSpec resLR) (gates m))) (\<lambda>req w.
       let ruleTags = (if Enabled (gates m) ListenerRulesTagging
             then Some (ResourceTags (mgProvider m) sid (rsID resLR) (lrTags (rsSpec resLR))) else None);
           req' = req\<lparr>crTags := convertTagsToSDKTags (keysList m) (nil_map ruleTags)\<rparr>
       in case RetryImmediateOnError PollImmediate isListenerNotFoundError
                 (with_variable (create_rule m req' ruleTags)) (w, None) of
            (Inl e, (w', _)) \<Rightarrow> (Inl (Wrap e ''failed to create listener rule''), w')
          | (Inr _, (w', Some sdkLR)) \<Rightarrow> (Inr (buildResListenerRuleStatus sdkLR), w')
          | (Inr _, (w', None)) \<Rightarrow> (Inl (Errorf ''invalid memory address or nil pointer dereference'' []), w'))"

definition ListenerRuleManager_Update ::
  "('w, 'x) listener_manager_scheme \<Rightarrow> StackID \<Rightarrow> model_state \<Rightarrow> ResLR \<Rightarrow> ListenerRuleWithTags \<Rightarrow>
   ('w, ListenerRuleStatus) io" where
  "ListenerRuleManager_Update m sid st resLR sdkLR =
     io_bind (if Enabled (gates m) ListenerRulesTagging then updateSDKListenerRuleWithTags m sid resLR sdkLR else io_return ()) (\<lambda>_.
     io_bind (updateSDKListenerRuleWithSettings m st resLR sdkLR) (\<lambda>_.
       io_return (buildResListenerRuleStatus sdkLR)))"

definition ListenerRuleManager_Delete :: "('w, 'x) elb_manager_scheme \<Rightarrow> ListenerRuleWithTags \<Rightarrow> ('w, unit) io" where
  "ListenerRuleManager_Delete m sdkLR = DeleteRuleWithContext (client m) (slrRuleArn (rwListenerRule sdkLR))"

section \<open>Certificates\<close>

lemma fold_insert_set: "fold insert xs A = A \<union> set xs"
  by (induction xs arbitrary: A) auto

lemma fold_remove_set: "fold (\<lambda>x A. A - {x}) xs A = A - set xs"
  by (induction xs arbitrary: A) auto

text \<open>What the client documents about the extra certificates of the listener with an ARN.\<close>

definition certificate_laws :: "'w ELBV2 \<Rightarrow> string option \<Rightarrow> ('w \<Rightarrow> string set) \<Rightarrow> bool" where
  "certificate_laws c arn certs \<longleftrightarrow>
     (\<forall>w. \<exists>l. DescribeListenerCertificatesAsList c arn w = (Inr l, w) \<and>
        certs w = {StringValue (scertCertificateArn x) | x. x \<in> set l \<and> \<not> BoolValue (scertIsDefault x)}) \<and>
     (\<forall>x w w'. AddListenerCertificatesWithContext c arn (one_certificate x) w = (Inr (), w') \<longrightarrow>
        certs w' = insert x (certs w)) \<and>
     (\<forall>x w w'. RemoveListenerCertificatesWithContext c arn (one_certificate x) w = (Inr (), w') \<longrightarrow>
        certs w' = certs w - {x})"

lemma certificate_lawsD:
  assumes "certificate_laws c arn certs"
  shows "\<exists>l. DescribeListenerCertificatesAsList c arn w = (Inr l, w) \<and>
      certs w = {StringValue (scertCertificateArn x) | x. x \<in> set l \<and> \<not> BoolValue (scertIsDefault x)}"
    and "AddListenerCertificatesWithContext c arn (one_certificate y) w = (Inr (), w') \<Longrightarrow> certs w' = insert y (certs w)"
    and "RemoveListenerCertificatesWithContext c arn (one_certificate y) w = (Inr (), w') \<Longrightarrow> certs w' = certs w - {y}"
  using assms by (simp_all add: certificate_laws_def)

text \<open>C37: Updating the extra certificates of an existing TLS listener. When it succeeds, the extra
  certificates of the listener are exactly those of the specification after the first one,
  which is the default certificate.\<close>

theorem extra_certificates_reconciled:
  assumes "lists_sorted (keysList m)" "certificate_laws (client m) (slsListenerArn (swListener sdkLS)) certs"
    and "lsSSLPolicy (rsSpec resLS) \<noteq> None \<or> slsSslPolicy (swListener sdkLS) \<noteq> None"
    and "updateSDKListenerWithExtraCertificates m resLS sdkLS False w = (Inr (), w')"
  shows "certs w' = {StringValue (CertificateARN c) | c. c \<in> set (tl (lsCertificates (rsSpec resLS)))}"
proof -
  let ?arn = "slsListenerArn (swListener sdkLS)"
  let ?D = "set (map (\<lambda>c. StringValue (scertCertificateArn c)) (snd (buildSDKCertificates (lsCertificates (rsSpec resLS)))))"
  obtain l where l: "DescribeListenerCertificatesAsList (client m) ?arn w = (Inr l, w)"
    "certs w = {StringValue (scertCertificateArn x) | x. x \<in> set l \<and> \<not> BoolValue (scertIsDefault x)}"
    using certificate_lawsD(1) [OF assms(2), of w] by (elim exE conjE)
  let ?C = "set (map (\<lambda>c. StringValue (scertCertificateArn c)) (filter (\<lambda>c. \<not> BoolValue (scertIsDefault c)) l))"
  have C: "certs w = ?C" unfolding l(2) by auto
  let ?rem = "io_forM (\<lambda>x. RemoveListenerCertificatesWithContext (client m) ?arn (one_certificate x)) (keysList m (?C - ?D))"
  let ?add = "io_forM (\<lambda>x. AddListenerCertificatesWithContext (client m) ?arn (one_certificate x)) (keysList m (?D - ?C))"
  have tls: "\<not> (lsSSLPolicy (rsSpec resLS) = None \<and> slsSslPolicy (swListener sdkLS) = None)" using assms(3) by blast
  have "fetchSDKListenerExtraCertificateARNs m sdkLS w =
      (Inr (map (\<lambda>c. StringValue (scertCertificateArn c)) (filter (\<lambda>c. \<not> BoolValue (scertIsDefault c)) l)), w)"
    by (simp add: fetchSDKListenerExtraCertificateARNs_def io_bind_def l(1) io_return_def)
  note fetch = io_bind_ok [where m = "fetchSDKListenerExtraCertificateARNs m sdkLS", OF this]
  have "io_bind ?rem (\<lambda>_. ?add) w = (Inr (), w')"
    using assms(4) unfolding updateSDKListenerWithExtraCertificates_def if_not_P [OF tls] Let_def by (simp add: fetch)
  from io_bind_unitD [OF this] obtain w1 where w1: "?rem w = (Inr (), w1)" "?add w1 = (Inr (), w')"
    by (elim exE conjE)
  have "certs w1 = fold (\<lambda>x A. A - {x}) (keysList m (?C - ?D)) (certs w)"
    by (rule io_forM_abs [OF _ w1(1)]) (rule certificate_lawsD(3) [OF assms(2)])
  moreover have "certs w' = fold insert (keysList m (?D - ?C)) (certs w1)"
    by (rule io_forM_abs [OF _ w1(2)]) (rule certificate_lawsD(2) [OF assms(2)])
  moreover have "set (keysList m (?C - ?D)) = ?C - ?D" "set (keysList m (?D - ?C)) = ?D - ?C"
    using lists_sortedD(1) [OF assms(1)] by simp_all
  ultimately have "certs w' = ?D" by (simp add: fold_remove_set fold_insert_set C) blast
  also have "?D = {StringValue (CertificateARN c) | c. c \<in> set (tl (lsCertificates (rsSpec resLS)))}"
    by (cases "lsCertificates (rsSpec resLS)") (auto simp: buildSDKCertificates_def buildSDKCertificate_def)
  finally show ?thesis .
qed

definition cert_elb :: "string list ELBV2" where
  "cert_elb = offline_elb
     \<lparr>DescribeListenerCertificatesAsList := \<lambda>_ w. (Inr (concat (map one_certificate w)), w),
      AddListenerCertificatesWithContext := \<lambda>_ cs w. (Inr (), map (\<lambda>c. StringValue (scertCertificateArn c)) cs @ w),
      RemoveListenerCertificatesWithContext := \<lambda>_ cs w.
        (Inr (), filter (\<lambda>x. x \<notin> (\<lambda>c. StringValue (scertCertificateArn c)) ` set cs) w)\<rparr>"

definition example_listener_manager :: "'w ELBV2 \<Rightarrow> 'w listener_manager" where
  "example_listener_manager c = elb_manager.extend (example_manager c 9)
     \<lparr>cmpActions = (=), cmpCertificates = (=), cmpRuleConditions = (=)\<rparr>"

definition example_res_ls :: "string list \<Rightarrow> ResLS" where
  "example_res_ls certs = \<lparr>rsRef = 0, rsID = ''443'', rsSpec = \<lparr>lsLoadBalancerARN = LiteralStringToken ''lb'', lsPort = 443,
     lsProtocol = ''HTTPS'', lsDefaultActions = [], lsCertificates = map (\<lambda>c. \<lparr>CertificateARN = Some c\<rparr>) certs,
     lsSSLPolicy = Some ''policy'', lsALPNPolicy = [], lsTags = []\<rparr>\<rparr>"

definition example_sdk_ls :: ListenerWithTags where
  "example_sdk_ls = \<lparr>swListener = \<lparr>slsListenerArn = Some ''ls'', slsPort = Some 443, slsProtocol = Some ''HTTPS'',
     slsDefaultActions = [], slsCertificates = [], slsSslPolicy = None, slsAlpnPolicy = []\<rparr>, swTags = None\<rparr>"

theorem extra_certificates_reconciled_witness:
  "\<exists>w'. updateSDKListenerWithExtraCertificates (example_listener_manager cert_elb) (example_res_ls [''d'', ''x'', ''y''])
     example_sdk_ls False [''y'', ''z''] = (Inr (), w') \<and> set w' = {''x'', ''y''}"
proof -
  let ?m = "example_listener_manager cert_elb" and ?ls = "example_res_ls [''d'', ''x'', ''y'']"
  have m: "client ?m = cert_elb" "keysList ?m = sorted_list_of_set"
    by (simp_all add: example_listener_manager_def example_manager_def example_tagging_def elb_manager.defs)
  have "certificate_laws (client ?m) (slsListenerArn (swListener example_sdk_ls)) set"
    unfolding m certificate_laws_def
    by (auto simp: cert_elb_def one_certificate_def
        intro!: exI [where x = "\<lparr>scertCertificateArn = Some x, scertIsDefault = None\<rparr>" for x])
  moreover have "lists_sorted (keysList ?m)" unfolding m by (rule sorted_list_of_set_lists_sorted)
  moreover have "updateSDKListenerWithExtraCertificates ?m ?ls example_sdk_ls False [''y'', ''z''] = (Inr (), [''x'', ''y''])"
    by code_simp
  moreover have "lsSSLPolicy (rsSpec ?ls) \<noteq> None" by (simp add: example_res_ls_def)
  ultimately have "set [''x'', ''y''] = {StringValue (CertificateARN c) | c. c \<in> set (tl (lsCertificates (rsSpec ?ls)))}"
    using extra_certificates_reconciled [of ?m example_sdk_ls set ?ls "[''y'', ''z'']" "[''x'', ''y'']"] by blast
  then show ?thesis
    using \<open>updateSDKListenerWithExtraCertificates ?m ?ls example_sdk_ls False [''y'', ''z''] = (Inr (), [''x'', ''y''])\<close> by auto
qed

section \<open>Actions\<close>

lemma buildSDKActions_from_orders:
  "buildSDKActions_from i st as g = Inr sdk \<Longrightarrow>
     map sactOrder sdk = map (\<lambda>k. Some (i + int k + 1)) [0..<length as]"
proof (induction as arbitrary: i sdk)
  case (Cons a as)
  then obtain x rest where x: "buildSDKActions_from (i + 1) st as g = Inr rest"
    "sdk = x\<lparr>sactOrder := Some (i + 1)\<rparr> # rest" by auto
  have "map sactOrder rest = map (\<lambda>k. Some (i + 1 + int k + 1)) [0..<length as]" by (rule Cons.IH [OF x(1)])
  moreover have "[0..<length (a # as)] = 0 # map Suc [0..<length as]"
    by (simp add: map_Suc_upt upt_conv_Cons del: upt_Suc)
  ultimately show ?case using x(2) by (simp add: add.assoc add.commute add.left_commute)
qed simp

lemma buildSDKAction_ok:
  assumes "\<forall>cfg. actForwardConfig a = Some cfg \<longrightarrow> (\<forall>t\<in>set (fwTargetGroups cfg). \<exists>arn. Resolve st (tgtTargetGroupARN t) = Inr arn)"
  shows "(\<exists>x. buildSDKAction st a g = Inr x) \<longleftrightarrow>
     Enabled g WeightedTargetGroups \<or> (\<forall>cfg. actForwardConfig a = Some cfg \<longrightarrow> length (fwTargetGroups cfg) = 1)"
proof (cases "actForwardConfig a")
  case (Some cfg)
  let ?r = "\<lambda>t. result_bind (Resolve st (tgtTargetGroupARN t)) (\<lambda>arn. Inr \<lparr>sttTargetGroupArn = Some arn, sttWeight = tgtWeight t\<rparr>)"
  have "\<exists>ys. result_mapM ?r ts = Inr ys \<and> length ys = length ts"
    if "\<forall>t\<in>set ts. \<exists>arn. Resolve st (tgtTargetGroupARN t) = Inr arn" for ts
    using that by (induction ts) auto
  then obtain ys where ys: "result_mapM ?r (fwTargetGroups cfg) = Inr ys" "length ys = length (fwTargetGroups cfg)"
    using assms Some by blast
  have "length ys = 1 \<longleftrightarrow> (\<exists>y. ys = [y])" by (cases ys) auto
  then show ?thesis using Some ys
    by (auto simp: buildSDKAction_def buildSDKForwardActionConfig_def Let_def split: list.splits)
qed (simp add: buildSDKAction_def)

lemma buildSDKActions_from_ok:
  "(\<exists>sdk. buildSDKActions_from i st as g = Inr sdk) \<longleftrightarrow> (\<forall>a\<in>set as. \<exists>x. buildSDKAction st a g = Inr x)"
  by (induction as arbitrary: i) auto

text \<open>C38: Building the actions of a listener or rule. When the target groups that the actions forward
  to have been deployed, the conversion succeeds exactly when weighted target groups are enabled
  or every forward action names exactly one target group, and then the actions are numbered
  1, 2, 3 and so on in order.\<close>

theorem build_actions_ok:
  assumes "\<forall>a\<in>set as. \<forall>cfg. actForwardConfig a = Some cfg \<longrightarrow>
      (\<forall>t\<in>set (fwTargetGroups cfg). \<exists>arn. Resolve st (tgtTargetGroupARN t) = Inr arn)"
  shows "((\<exists>sdk. buildSDKActions st as g = Inr sdk) \<longleftrightarrow> Enabled g WeightedTargetGroups \<or>
      (\<forall>a\<in>set as. \<forall>cfg. actForwardConfig a = Some cfg \<longrightarrow> length (fwTargetGroups cfg) = 1)) \<and>
    (\<forall>sdk. buildSDKActions st as g = Inr sdk \<longrightarrow>
      map sactOrder sdk = map (\<lambda>k. Some (int k + 1)) [0..<length as])"
proof -
  have "(\<exists>x. buildSDKAction st a g = Inr x) \<longleftrightarrow>
     Enabled g WeightedTargetGroups \<or> (\<forall>cfg. actForwardConfig a = Some cfg \<longrightarrow> length (fwTargetGroups cfg) = 1)"
    if "a \<in> set as" for a
    using assms that by (intro buildSDKAction_ok) blast
  then show ?thesis
    unfolding buildSDKActions_def buildSDKActions_from_ok using buildSDKActions_from_orders [of 0 st as g]
    by auto
qed

theorem build_actions_ok_witness:
  "\<exists>sdk. buildSDKActions example_state [\<lparr>actType = ''forward'', actAuthenticateCognitoConfig = None,
       actAuthenticateOIDCConfig = None, actFixedResponseConfig = None, actRedirectConfig = None,
       actForwardConfig = Some \<lparr>fwTargetGroups = [\<lparr>tgtTargetGroupARN = LiteralStringToken ''tg'', tgtWeight = None\<rparr>],
         fwTargetGroupStickinessConfig = None\<rparr>\<rparr>] NewFeatureGates = Inr sdk \<and> map sactOrder sdk = [Some 1]"
proof -
  let ?as = "[\<lparr>actType = ''forward'', actAuthenticateCognitoConfig = None,
       actAuthenticateOIDCConfig = None, actFixedResponseConfig = None, actRedirectConfig = None,
       actForwardConfig = Some \<lparr>fwTargetGroups = [\<lparr>tgtTargetGroupARN = LiteralStringToken ''tg'', tgtWeight = None\<rparr>],
         fwTargetGroupStickinessConfig = None\<rparr>\<rparr>]"
  have "\<forall>a\<in>set ?as. \<forall>cfg. actForwardConfig a = Some cfg \<longrightarrow>
      (\<forall>t\<in>set (fwTargetGroups cfg). \<exists>arn. Resolve example_state (tgtTargetGroupARN t) = Inr arn)" by simp
  from build_actions_ok [OF this, of NewFeatureGates] show ?thesis by auto
qed

end
