(* ===== verification/Sg_Tgb_Managers.thy ===== *)
theory Sg_Tgb_Managers
  imports Elbv2_Managers
begin

text \<open>
  Creating, updating and deleting security groups (\<^verbatim>\<open>pkg/deploy/ec2/security_group_manager.go\<close>) and
  target group bindings (\<^verbatim>\<open>pkg/deploy/elbv2/target_group_binding_manager.go\<close>). The Kubernetes client,
  its classification of errors, its semantic equality and its polling loop are parameters.
\<close>

section \<open>Security groups\<close>

record 'w sg_manager =
  smTagging :: "'w ec2TaggingManager"
  smProvider :: defaultProvider
  smReconcileIngress :: "string \<Rightarrow> IPPermissionInfo list \<Rightarrow> ('w, unit) io"
  smExternalManagedTags :: "string list"
  smPollImmediate :: "('w, bool) io \<Rightarrow> ('w, unit) io"

abbreviation sgKeysList :: "'w sg_manager \<Rightarrow> string set \<Rightarrow> string list" where
  "sgKeysList m \<equiv> etmList (smTagging m)"

definition buildIPPermissionInfo :: "(string set \<Rightarrow> string list) \<Rightarrow> IPPermission \<Rightarrow> IPPermissionInfo result" where
  "buildIPPermissionInfo List permission =
     (let protocol = IPProtocol permission in
      if length (IPRanges permission) = 1 then
        let r = hd (IPRanges permission) in
        Inr (NewCIDRIPPermission List protocol (FromPort permission) (ToPort permission) (CIDRIP r)
          (NewIPPermissionLabelsForRawDescription (iprDescription r)))
      else if length (IPv6Ranges permission) = 1 then
        let r = hd (IPv6Ranges permission) in
        Inr (NewCIDRv6IPPermission List protocol (FromPort permission) (ToPort permission) (CIDRIPv6 r)
          (NewIPPermissionLabelsForRawDescription (ip6rDescription r)))
      else if length (UserIDGroupPairs permission) = 1 then
        let p = hd (UserIDGroupPairs permission) in
        Inr (NewGroupIDIPPermission List protocol (FromPort permission) (ToPort permission) (ugpGroupID p)
          (NewIPPermissionLabelsForRawDescription (ugpDescription p)))
      else Inl (Errorf ''invalid ipPermission'' []))"

definition buildIPPermissionInfos ::
  "(string set \<Rightarrow> string list) \<Rightarrow> IPPermission list \<Rightarrow> IPPermissionInfo list result" where
  "buildIPPermissionInfos List permissions = result_mapM (buildIPPermissionInfo List) permissions"

definition isSecurityGroupDependencyViolationError :: "go_error \<Rightarrow> bool" where
  "isSecurityGroupDependencyViolationError err =
     (case as_aws_error err of Some (code, _) \<Rightarrow> code = ''DependencyViolation'' | None \<Rightarrow> False)"

definition updateSDKSecurityGroupGroupWithTags ::
  "'w sg_manager \<Rightarrow> StackID \<Rightarrow> ResSG \<Rightarrow> SecurityGroupInfo \<Rightarrow> ('w, unit) io" where
  "updateSDKSecurityGroupGroupWithTags m sid resSG sdkSG =
     ec2_ReconcileTags (smTagging m) (SecurityGroupID sdkSG)
       (ResourceTags (smProvider m) sid (rsID resSG) (sgTags (rsSpec resSG)))
       [WithCurrentTags (sgiTags sdkSG), WithIgnoredTagKeys (LegacyTagKeys (smProvider m)),
        WithIgnoredTagKeys (smExternalManagedTags m)]"

definition SecurityGroupManager_Create ::
  "'w sg_manager \<Rightarrow> StackID \<Rightarrow> ResSG \<Rightarrow> ('w, SecurityGroupStatus) io" where
  "SecurityGroupManager_Create m sid resSG =
     (let sgTags = ResourceTags (smProvider m) sid (rsID resSG) (sgTags (rsSpec resSG));
          sdkTags = ec2_convertTagsToSDKTags (sgKeysList m) sgTags
      in io_bind (io_lift (buildIPPermissionInfos (sgKeysList m) (sgIngress (rsSpec resSG)))) (\<lambda>permissionInfos.
         io_bind (CreateSecurityGroupWithContext (etmEc2Client (smTagging m))
             \<lparr>csgVpcId = Some (etmVpcID (smTagging m)), csgGroupName = Some (sgGroupName (rsSpec resSG)),
              csgDescription = Some (sgDescription (rsSpec resSG)), csgTags = sdkTags\<rparr>) (\<lambda>groupId.
           let sgID = StringValue groupId in
           io_bind (smReconcileIngress m sgID permissionInfos) (\<lambda>_. io_return \<lparr>sgGroupID = sgID\<rparr>))))"

definition SecurityGroupManager_Update ::
  "'w sg_manager \<Rightarrow> StackID \<Rightarrow> ResSG \<Rightarrow> SecurityGroupInfo \<Rightarrow> ('w, SecurityGroupStatus) io" where
  "SecurityGroupManager_Update m sid resSG sdkSG =
     io_bind (io_lift (buildIPPermissionInfos (sgKeysList m) (sgIngress (rsSpec resSG)))) (\<lambda>permissionInfos.
     io_bind (updateSDKSecurityGroupGroupWithTags m sid resSG sdkSG) (\<lambda>_.
     io_bind (smReconcileIngress m (SecurityGroupID sdkSG) permissionInfos) (\<lambda>_.
       io_return \<lparr>sgGroupID = SecurityGroupID sdkSG\<rparr>)))"

definition SecurityGroupManager_Delete :: "'w sg_manager \<Rightarrow> SecurityGroupInfo \<Rightarrow> ('w, unit) io" where
  "SecurityGroupManager_Delete m sdkSG =
     io_wrap ''failed to delete securityGroup''
       (RetryImmediateOnError (smPollImmediate m) isSecurityGroupDependencyViolationError
         (DeleteSecurityGroupWithContext (etmEc2Client (smTagging m)) (SecurityGroupID sdkSG)))"

section \<open>Target group bindings\<close>

text \<open>The calls of the Kubernetes client. \<^verbatim>\<open>Create\<close> and \<^verbatim>\<open>Patch\<close> write the object the API server
  returns back into their argument, which the model returns; \<^verbatim>\<open>Patch\<close> takes the object and the copy
  it is compared with.\<close>

record 'w k8s_tgb_client =
  k8sCreate :: "TargetGroupBinding \<Rightarrow> ('w, TargetGroupBinding) io"
  k8sPatch :: "TargetGroupBinding \<Rightarrow> TargetGroupBinding \<Rightarrow> ('w, TargetGroupBinding) io"
  k8sDelete :: "TargetGroupBinding \<Rightarrow> ('w, unit) io"
  k8sGet :: "NamespacedName \<Rightarrow> ('w, TargetGroupBinding) io"
  k8sList :: "string_map \<Rightarrow> ('w, TargetGroupBinding list) io"

record 'w tgb_manager =
  bmClient :: "'w k8s_tgb_client"
  bmProvider :: defaultProvider
  bmIsNotFound :: "go_error \<Rightarrow> bool"
  bmDeepEqual :: "TargetGroupBindingSpec \<Rightarrow> TargetGroupBindingSpec \<Rightarrow> bool"
  bmPollImmediateUntil :: "('w, bool) io \<Rightarrow> ('w, unit) io"

definition buildK8sNetworkingPeer :: "model_state \<Rightarrow> ModelNetworkingPeer \<Rightarrow> NetworkingPeer result" where
  "buildK8sNetworkingPeer st peer =
     (case mnpIPBlock peer of
        Some ipBlock \<Rightarrow> Inr \<lparr>npIPBlock = Some ipBlock, npSecurityGroup = None\<rparr>
      | None \<Rightarrow>
          (case mnpSecurityGroup peer of
             Some sg \<Rightarrow> result_bind (Resolve st (msgGroupID sg)) (\<lambda>groupID.
               Inr \<lparr>npIPBlock = None, npSecurityGroup = Some \<lparr>asgGroupID = groupID\<rparr>\<rparr>)
           | None \<Rightarrow> Inl (Errorf ''either ipBlock or securityGroup should be specified'' [])))"

definition buildK8sTargetGroupBindingNetworking ::
  "model_state \<Rightarrow> ModelTargetGroupBindingNetworking \<Rightarrow> TargetGroupBindingNetworking result" where
  "buildK8sTargetGroupBindingNetworking st networking =
     result_bind (result_mapM (\<lambda>rule. result_bind (result_mapM (buildK8sNetworkingPeer st) (mnirFrom rule)) (\<lambda>k8sPeers.
         Inr \<lparr>nirFrom = k8sPeers, nirPorts = mnirPorts rule\<rparr>)) (mtgbnIngress networking))
       (\<lambda>k8sIngress. Inr \<lparr>tgbnIngress = k8sIngress\<rparr>)"

definition buildK8sTargetGroupBindingSpec :: "model_state \<Rightarrow> ResTGB \<Rightarrow> TargetGroupBindingSpec result" where
  "buildK8sTargetGroupBindingSpec st resTGB =
     (let spec = tgbtSpec (tgbrTemplate (rsSpec resTGB)) in
      result_bind (Resolve st (mtgbTargetGroupARN spec)) (\<lambda>tgARN.
      result_bind (case mtgbNetworking spec of
          None \<Rightarrow> Inr None
        | Some networking \<Rightarrow> result_bind (buildK8sTargetGroupBindingNetworking st networking) (\<lambda>n. Inr (Some n)))
        (\<lambda>k8sNetworking.
          Inr \<lparr>tgbTargetGroupARN = tgARN, tgbTargetType = mtgbTargetType spec, tgbServiceRef = mtgbServiceRef spec,
            tgbNetworking = k8sNetworking, tgbNodeSelector = mtgbNodeSelector spec,
            tgbIPAddressType = mtgbIPAddressType spec\<rparr>)))"

definition buildResTargetGroupBindingStatus :: "TargetGroupBinding \<Rightarrow> TargetGroupBindingResourceStatus" where
  "buildResTargetGroupBindingStatus k8sTGB =
     \<lparr>tgbrTargetGroupBindingRef = \<lparr>orNamespace = omNamespace (tgbMeta k8sTGB), orName = omName (tgbMeta k8sTGB),
        orUID = omUID (tgbMeta k8sTGB)\<rparr>\<rparr>"

definition tgb_NamespacedName :: "TargetGroupBinding \<Rightarrow> NamespacedName" where
  "tgb_NamespacedName tgb = \<lparr>nnNamespace = omNamespace (tgbMeta tgb), nnName = omName (tgbMeta tgb)\<rparr>"

definition waitUntilTargetGroupBindingObserved :: "'w tgb_manager \<Rightarrow> TargetGroupBinding \<Rightarrow> ('w, unit) io" where
  "waitUntilTargetGroupBindingObserved m tgb =
     bmPollImmediateUntil m (io_bind (k8sGet (bmClient m) (tgb_NamespacedName tgb)) (\<lambda>observedTGB.
       io_return (Int64Value (tgbObservedGeneration (tgbStatus observedTGB)) \<ge> omGeneration (tgbMeta tgb))))"

definition waitUntilTargetGroupBindingDeleted :: "'w tgb_manager \<Rightarrow> TargetGroupBinding \<Rightarrow> ('w, unit) io" where
  "waitUntilTargetGroupBindingDeleted m tgb =
     bmPollImmediateUntil m (\<lambda>w. case k8sGet (bmClient m) (tgb_NamespacedName tgb) w of
         (Inl err, w') \<Rightarrow> if bmIsNotFound m err then (Inr True, w') else (Inl err, w')
       | (Inr _, w') \<Rightarrow> (Inr False, w'))"

definition TargetGroupBindingManager_Create ::
  "'w tgb_manager \<Rightarrow> StackID \<Rightarrow> model_state \<Rightarrow> ResTGB \<Rightarrow> ('w, TargetGroupBindingResourceStatus) io" where
  "TargetGroupBindingManager_Create m sid st resTGB =
     io_bind (io_lift (buildK8sTargetGroupBindingSpec st resTGB)) (\<lambda>k8sTGBSpec.
       let template = tgbtMeta (tgbrTemplate (rsSpec resTGB));
           k8sTGB = \<lparr>tgbMeta = \<lparr>omNamespace = omNamespace template, omName = omName template, omUID = [],
               omLabels = StackLabels (bmProvider m) sid, omAnnotations = [], omFinalizers = [], omGeneration = 0,
               omDeletionTimestamp = None\<rparr>,
             tgbSpec = k8sTGBSpec, tgbStatus = \<lparr>tgbObservedGeneration = None\<rparr>\<rparr>
       in io_bind (k8sCreate (bmClient m) k8sTGB) (\<lambda>created. io_return (buildResTargetGroupBindingStatus created)))"

definition TargetGroupBindingManager_Update ::
  "'w tgb_manager \<Rightarrow> model_state \<Rightarrow> ResTGB \<Rightarrow> TargetGroupBinding \<Rightarrow> ('w, TargetGroupBindingResourceStatus) io" where
  "TargetGroupBindingManager_Update m st resTGB k8sTGB =
     io_bind (io_lift (buildK8sTargetGroupBindingSpec st resTGB)) (\<lambda>k8sTGBSpec.
       if bmDeepEqual m (tgbSpec k8sTGB) k8sTGBSpec then io_return (buildResTargetGroupBindingStatus k8sTGB)
       else
         io_bind (k8sPatch (bmClient m) (k8sTGB\<lparr>tgbSpec := k8sTGBSpec\<rparr>) k8sTGB) (\<lambda>patched.
         io_bind (waitUntilTargetGroupBindingObserved m patched) (\<lambda>_.
           io_return (buildResTargetGroupBindingStatus patched))))"

definition TargetGroupBindingManager_Delete :: "'w tgb_manager \<Rightarrow> TargetGroupBinding \<Rightarrow> ('w, unit) io" where
  "TargetGroupBindingManager_Delete m tgb =
     io_bind (k8sDelete (bmClient m) tgb) (\<lambda>_.
       io_wrap ''failed to wait targetGroupBinding deletion'' (waitUntilTargetGroupBindingDeleted m tgb))"

section \<open>Specifications of bindings\<close>

definition peer_resolves :: "model_state \<Rightarrow> ModelNetworkingPeer \<Rightarrow> bool" where
  "peer_resolves st p \<longleftrightarrow> mnpIPBlock p \<noteq> None \<or>
     (\<exists>sg g. mnpSecurityGroup p = Some sg \<and> Resolve st (msgGroupID sg) = Inr g)"

lemma buildK8sNetworkingPeer_ok: "(\<exists>q. buildK8sNetworkingPeer st p = Inr q) \<longleftrightarrow> peer_resolves st p"
  by (cases "mnpIPBlock p"; cases "mnpSecurityGroup p")
    (auto simp: buildK8sNetworkingPeer_def peer_resolves_def result_bind_def split: sum.splits)

lemma buildK8sNetworkingPeer_result:
  "buildK8sNetworkingPeer st p = Inr q \<Longrightarrow> npIPBlock q = mnpIPBlock p \<and> (npIPBlock q = None \<longleftrightarrow> npSecurityGroup q \<noteq> None)"
  by (cases "mnpIPBlock p"; cases "mnpSecurityGroup p")
    (auto simp: buildK8sNetworkingPeer_def result_bind_def split: sum.splits)

lemma result_mapM_ok: "(\<exists>ys. result_mapM f xs = Inr ys) \<longleftrightarrow> (\<forall>x\<in>set xs. \<exists>y. f x = Inr y)"
  by (induction xs) (auto simp: result_bind_def split: sum.splits)

lemma result_bind_ok: "(\<exists>y. result_bind m f = Inr y) \<longleftrightarrow> (\<exists>x y. m = Inr x \<and> f x = Inr y)"
  by (cases m) (auto simp: result_bind_def)

lemma buildK8sTargetGroupBindingNetworking_ok:
  "(\<exists>n'. buildK8sTargetGroupBindingNetworking st n = Inr n') \<longleftrightarrow>
     (\<forall>rule\<in>set (mtgbnIngress n). \<forall>p\<in>set (mnirFrom rule). peer_resolves st p)"
  unfolding buildK8sTargetGroupBindingNetworking_def
  by (simp add: result_bind_ok result_mapM_ok flip: buildK8sNetworkingPeer_ok)

lemma buildK8sTargetGroupBindingNetworking_result:
  assumes "buildK8sTargetGroupBindingNetworking st n = Inr n'"
  shows "list_all2 (\<lambda>rule rule'. nirPorts rule' = mnirPorts rule \<and>
      list_all2 (\<lambda>p q. buildK8sNetworkingPeer st p = Inr q) (mnirFrom rule) (nirFrom rule'))
    (mtgbnIngress n) (tgbnIngress n')"
proof -
  let ?f = "\<lambda>rule. result_bind (result_mapM (buildK8sNetworkingPeer st) (mnirFrom rule)) (\<lambda>k8sPeers.
      Inr \<lparr>nirFrom = k8sPeers, nirPorts = mnirPorts rule\<rparr>)"
  have "result_mapM ?f (mtgbnIngress n) = Inr (tgbnIngress n')"
    using assms unfolding buildK8sTargetGroupBindingNetworking_def by (auto simp: result_bind_def split: sum.splits)
  then show ?thesis
    unfolding result_mapM_Inr by (rule list_all2_mono) (auto simp: result_bind_def result_mapM_Inr split: sum.splits)
qed

abbreviation tgb_spec :: "ResTGB \<Rightarrow> ModelTargetGroupBindingSpec" where
  "tgb_spec r \<equiv> tgbtSpec (tgbrTemplate (rsSpec r))"

text \<open>The specification of a target group binding. It can be built exactly when the ARN token of
  its target group resolves and every peer of its networking rules has an IP block or a
  security group whose token resolves. It then carries the resolved ARN, and its rules have the
  ports of the model and one peer per peer of the model, each with the model's IP block or,
  without one, with a security group.\<close>

theorem binding_spec_built:
  shows "((\<exists>spec. buildK8sTargetGroupBindingSpec st r = Inr spec) \<longleftrightarrow>
      (\<exists>arn. Resolve st (mtgbTargetGroupARN (tgb_spec r)) = Inr arn) \<and>
      (\<forall>n. mtgbNetworking (tgb_spec r) = Some n \<longrightarrow>
        (\<forall>rule\<in>set (mtgbnIngress n). \<forall>p\<in>set (mnirFrom rule). peer_resolves st p))) \<and>
    (\<forall>spec. buildK8sTargetGroupBindingSpec st r = Inr spec \<longrightarrow>
      Resolve st (mtgbTargetGroupARN (tgb_spec r)) = Inr (tgbTargetGroupARN spec) \<and>
      rel_option (\<lambda>n n'. list_all2 (\<lambda>rule rule'. nirPorts rule' = mnirPorts rule \<and>
          list_all2 (\<lambda>p q. npIPBlock q = mnpIPBlock p \<and> (npIPBlock q = None \<longleftrightarrow> npSecurityGroup q \<noteq> None))
            (mnirFrom rule) (nirFrom rule')) (mtgbnIngress n) (tgbnIngress n'))
        (mtgbNetworking (tgb_spec r)) (tgbNetworking spec))"
proof (intro conjI allI impI)
  show "(\<exists>spec. buildK8sTargetGroupBindingSpec st r = Inr spec) \<longleftrightarrow>
      (\<exists>arn. Resolve st (mtgbTargetGroupARN (tgb_spec r)) = Inr arn) \<and>
      (\<forall>n. mtgbNetworking (tgb_spec r) = Some n \<longrightarrow>
        (\<forall>rule\<in>set (mtgbnIngress n). \<forall>p\<in>set (mnirFrom rule). peer_resolves st p))"
    unfolding buildK8sTargetGroupBindingSpec_def Let_def
    by (cases "mtgbNetworking (tgb_spec r)")
      (auto simp: result_bind_ok simp flip: buildK8sTargetGroupBindingNetworking_ok)
next
  fix spec assume *: "buildK8sTargetGroupBindingSpec st r = Inr spec"
  then show "Resolve st (mtgbTargetGroupARN (tgb_spec r)) = Inr (tgbTargetGroupARN spec)"
    unfolding buildK8sTargetGroupBindingSpec_def Let_def by (auto simp: result_bind_def split: sum.splits)
  from * have "rel_option (\<lambda>n n'. buildK8sTargetGroupBindingNetworking st n = Inr n')
      (mtgbNetworking (tgb_spec r)) (tgbNetworking spec)"
    unfolding buildK8sTargetGroupBindingSpec_def Let_def
    by (auto simp: result_bind_def split: sum.splits option.splits)
  then show "rel_option (\<lambda>n n'. list_all2 (\<lambda>rule rule'. nirPorts rule' = mnirPorts rule \<and>
          list_all2 (\<lambda>p q. npIPBlock q = mnpIPBlock p \<and> (npIPBlock q = None \<longleftrightarrow> npSecurityGroup q \<noteq> None))
            (mnirFrom rule) (nirFrom rule')) (mtgbnIngress n) (tgbnIngress n'))
        (mtgbNetworking (tgb_spec r)) (tgbNetworking spec)"
    by (rule option.rel_mono_strong)
      (auto dest!: buildK8sTargetGroupBindingNetworking_result buildK8sNetworkingPeer_result
        elim!: list_all2_mono)
qed

section \<open>Waiting\<close>

lemma poll_attempts_last:
  "poll_attempts n cond w = (Inr (), w') \<Longrightarrow> \<exists>w1. cond w1 = (Inr True, w')"
  by (induction n arbitrary: w) (auto split: prod.splits sum.splits bool.splits)

text \<open>Changing a target group binding waits for its controller. When the update of a binding whose
  specification changed succeeds, the object was patched to the specification built from the
  model, and the last read before the update returned showed a status that had observed at least
  the generation of the patched object. When the specification is unchanged no request is sent.\<close>

theorem binding_update_observed:
  assumes "bmPollImmediateUntil m = poll_attempts n"
    and "TargetGroupBindingManager_Update m st r k8sTGB w = (Inr status, w')"
  shows "\<exists>spec. buildK8sTargetGroupBindingSpec st r = Inr spec \<and>
    (if bmDeepEqual m (tgbSpec k8sTGB) spec then w' = w
     else \<exists>patched w1 w2 observed. k8sPatch (bmClient m) (k8sTGB\<lparr>tgbSpec := spec\<rparr>) k8sTGB w = (Inr patched, w1) \<and>
       k8sGet (bmClient m) (tgb_NamespacedName patched) w2 = (Inr observed, w') \<and>
       Int64Value (tgbObservedGeneration (tgbStatus observed)) \<ge> omGeneration (tgbMeta patched))"
proof -
  from io_bind_InrD [OF assms(2) [unfolded TargetGroupBindingManager_Update_def]]
  obtain spec where spec: "buildK8sTargetGroupBindingSpec st r = Inr spec"
    and rest: "(if bmDeepEqual m (tgbSpec k8sTGB) spec then io_return (buildResTargetGroupBindingStatus k8sTGB)
       else io_bind (k8sPatch (bmClient m) (k8sTGB\<lparr>tgbSpec := spec\<rparr>) k8sTGB) (\<lambda>patched.
         io_bind (waitUntilTargetGroupBindingObserved m patched) (\<lambda>_.
           io_return (buildResTargetGroupBindingStatus patched)))) w = (Inr status, w')"
    by (auto simp: io_simps split: sum.splits)
  show ?thesis
  proof (cases "bmDeepEqual m (tgbSpec k8sTGB) spec")
    case True
    then show ?thesis using spec rest by (auto simp: io_return_def)
  next
    case False
    from io_bind_InrD [OF rest [unfolded if_not_P [OF False]]]
    obtain patched w1 where 1: "k8sPatch (bmClient m) (k8sTGB\<lparr>tgbSpec := spec\<rparr>) k8sTGB w = (Inr patched, w1)"
      "io_bind (waitUntilTargetGroupBindingObserved m patched) (\<lambda>_. io_return (buildResTargetGroupBindingStatus patched)) w1 =
        (Inr status, w')"
      by (elim exE conjE)
    from io_bind_unitD [OF this(2)] have "waitUntilTargetGroupBindingObserved m patched w1 = (Inr (), w')"
      by (auto simp: io_return_def)
    from poll_attempts_last [OF this [unfolded waitUntilTargetGroupBindingObserved_def assms(1)]]
    obtain w2 observed where "k8sGet (bmClient m) (tgb_NamespacedName patched) w2 = (Inr observed, w')"
       "Int64Value (tgbObservedGeneration (tgbStatus observed)) \<ge> omGeneration (tgbMeta patched)"
      by (auto dest!: io_bind_InrD simp: io_return_def)
    then show ?thesis using spec False 1(1) by auto
  qed
qed

text \<open>Deleting a target group binding waits until it is gone. The deletion succeeds only when the
  delete request succeeded and the last read returned an error that the Kubernetes API
  classifies as not found.\<close>

theorem binding_delete_confirmed:
  assumes "bmPollImmediateUntil m = poll_attempts n"
    and "TargetGroupBindingManager_Delete m tgb w = (Inr (), w')"
  shows "\<exists>w1 w2 err. k8sDelete (bmClient m) tgb w = (Inr (), w1) \<and>
    k8sGet (bmClient m) (tgb_NamespacedName tgb) w2 = (Inl err, w') \<and> bmIsNotFound m err"
proof -
  from io_bind_unitD [OF assms(2) [unfolded TargetGroupBindingManager_Delete_def]]
  obtain w1 where 1: "k8sDelete (bmClient m) tgb w = (Inr (), w1)"
    "io_wrap ''failed to wait targetGroupBinding deletion'' (waitUntilTargetGroupBindingDeleted m tgb) w1 = (Inr (), w')"
    by (elim exE conjE)
  then have "waitUntilTargetGroupBindingDeleted m tgb w1 = (Inr (), w')"
    by (auto simp: io_wrap_def split: prod.splits sum.splits)
  from poll_attempts_last [OF this [unfolded waitUntilTargetGroupBindingDeleted_def assms(1)]]
  obtain w2 where 2: "(case k8sGet (bmClient m) (tgb_NamespacedName tgb) w2 of
         (Inl err, w') \<Rightarrow> if bmIsNotFound m err then (Inr True, w') else (Inl err, w')
       | (Inr _, w') \<Rightarrow> (Inr False, w')) = (Inr True, w')" by (elim exE)
  obtain r w3 where r: "k8sGet (bmClient m) (tgb_NamespacedName tgb) w2 = (r, w3)" by (rule prod.exhaust)
  with 2 have "\<exists>err. r = Inl err \<and> bmIsNotFound m err \<and> w3 = w'" by (cases r) (auto split: if_splits)
  with r have "\<exists>w2 err. k8sGet (bmClient m) (tgb_NamespacedName tgb) w2 = (Inl err, w') \<and> bmIsNotFound m err" by blast
  with 1(1) show ?thesis by blast
qed

section \<open>Witnesses\<close>

definition example_binding_meta :: ObjectMeta where
  "example_binding_meta = \<lparr>omNamespace = ''ns'', omName = ''b'', omUID = ''u'', omLabels = [], omAnnotations = [],
     omFinalizers = [], omGeneration = 1, omDeletionTimestamp = None\<rparr>"

definition example_res_tgb :: ResTGB where
  "example_res_tgb = \<lparr>rsRef = 0, rsID = ''b'', rsSpec = \<lparr>tgbrTemplate = \<lparr>tgbtMeta = example_binding_meta,
     tgbtSpec = \<lparr>mtgbTargetGroupARN = LiteralStringToken ''tg'', mtgbTargetType = None,
       mtgbServiceRef = \<lparr>srName = ''svc'', srPort = IntVal 80\<rparr>,
       mtgbNetworking = Some \<lparr>mtgbnIngress = [\<lparr>mnirFrom = [\<lparr>mnpIPBlock = None,
         mnpSecurityGroup = Some \<lparr>msgGroupID = LiteralStringToken ''sg''\<rparr>\<rparr>], mnirPorts = []\<rparr>]\<rparr>,
       mtgbNodeSelector = None, mtgbIPAddressType = None\<rparr>\<rparr>\<rparr>\<rparr>"

definition example_binding :: TargetGroupBinding where
  "example_binding = \<lparr>tgbMeta = example_binding_meta, tgbSpec = \<lparr>tgbTargetGroupARN = ''tg'', tgbTargetType = None,
     tgbServiceRef = \<lparr>srName = ''old'', srPort = IntVal 80\<rparr>, tgbNetworking = None, tgbNodeSelector = None,
     tgbIPAddressType = None\<rparr>, tgbStatus = \<lparr>tgbObservedGeneration = Some 1\<rparr>\<rparr>"

text \<open>A Kubernetes API with one binding, whose controller observes a new generation at once.\<close>

definition one_binding_client :: "TargetGroupBinding option k8s_tgb_client" where
  "one_binding_client = \<lparr>
     k8sCreate = \<lambda>b _. (Inr b, Some b),
     k8sPatch = \<lambda>b old w. let b' = b\<lparr>tgbMeta := (tgbMeta b)\<lparr>omGeneration := omGeneration (tgbMeta b) + 1\<rparr>\<rparr> in
       (Inr b', Some (b'\<lparr>tgbStatus := \<lparr>tgbObservedGeneration = Some (omGeneration (tgbMeta b'))\<rparr>\<rparr>)),
     k8sDelete = \<lambda>_ _. (Inr (), None),
     k8sGet = \<lambda>_ w. (case w of None \<Rightarrow> Inl (ApiStatusError ''NotFound'') | Some b \<Rightarrow> Inr b, w),
     k8sList = \<lambda>_ w. (Inr (case w of None \<Rightarrow> [] | Some b \<Rightarrow> [b]), w)\<rparr>"

definition example_binding_manager :: "TargetGroupBinding option tgb_manager" where
  "example_binding_manager = \<lparr>bmClient = one_binding_client,
     bmProvider = \<lparr>tagPrefix = ''ingress.k8s.aws'', clusterName = ''c''\<rparr>,
     bmIsNotFound = (\<lambda>e. e = ApiStatusError ''NotFound''), bmDeepEqual = (=), bmPollImmediateUntil = poll_attempts 9\<rparr>"

lemma example_binding_poll: "bmPollImmediateUntil example_binding_manager = poll_attempts 9"
  by (simp add: example_binding_manager_def)

theorem binding_spec_built_witness:
  "\<exists>spec. buildK8sTargetGroupBindingSpec example_state example_res_tgb = Inr spec \<and> tgbTargetGroupARN spec = ''tg''"
  using binding_spec_built [of example_state example_res_tgb]
  by (auto simp: example_res_tgb_def peer_resolves_def)

lemma example_binding_update:
  "isl (fst (TargetGroupBindingManager_Update example_binding_manager example_state example_res_tgb example_binding
     (Some example_binding))) = False"
  by code_simp

theorem binding_update_observed_witness:
  "\<exists>status w'. TargetGroupBindingManager_Update example_binding_manager example_state example_res_tgb example_binding
     (Some example_binding) = (Inr status, w') \<and>
   (\<exists>spec. buildK8sTargetGroupBindingSpec example_state example_res_tgb = Inr spec)"
proof -
  obtain status w' where run:
    "TargetGroupBindingManager_Update example_binding_manager example_state example_res_tgb example_binding
     (Some example_binding) = (Inr status, w')"
    using example_binding_update by (metis isl_def prod.collapse sum.exhaust_sel)
  then show ?thesis using binding_update_observed [OF example_binding_poll run] by blast
qed

theorem binding_delete_confirmed_witness:
  "\<exists>w2 err. k8sGet (bmClient example_binding_manager) (tgb_NamespacedName example_binding) w2 = (Inl err, None)"
proof -
  have "TargetGroupBindingManager_Delete example_binding_manager example_binding (Some example_binding) = (Inr (), None)"
    by code_simp
  from binding_delete_confirmed [OF example_binding_poll this] show ?thesis by blast
qed

end
