(* ===== verification/Synthesis.thy ===== *)
theory Synthesis
  imports Elbv2_Listeners Sg_Tgb_Managers
begin

text \<open>
  The synthesizers of \<^verbatim>\<open>pkg/deploy/ec2\<close> and \<^verbatim>\<open>pkg/deploy/elbv2\<close>: each compares the resources of one
  type in the stack with those that exist, and creates, updates or deletes. A synthesizer sees the
  stack, whose objects get their status from the managers, and the outside world; those that delete
  in \<^verbatim>\<open>PostSynthesize\<close> keep the list of unmatched objects in between.
\<close>

section \<open>The state of a deployment\<close>

record 'w deploy_state =
  dsWorld :: 'w
  dsModel :: model_state
  unmatchedSDKSGs :: "SecurityGroupInfo list"
  unmatchedSDKTGs :: "TargetGroupWithTags list"
  unmatchedK8sTGBs :: "TargetGroupBinding list"

definition on_world :: "('w, 'a) io \<Rightarrow> ('w deploy_state, 'a) io" where
  "on_world m s = (case m (dsWorld s) of (r, w') \<Rightarrow> (r, s\<lparr>dsWorld := w'\<rparr>))"

definition get_model :: "('w deploy_state, model_state) io" where
  "get_model s = (Inr (dsModel s), s)"

definition modify :: "('s \<Rightarrow> 's) \<Rightarrow> ('s, unit) io" where
  "modify f s = (Inr (), f s)"

definition set_status :: "(model_state \<Rightarrow> model_state) \<Rightarrow> ('w deploy_state, unit) io" where
  "set_status f = modify (\<lambda>s. s\<lparr>dsModel := f (dsModel s)\<rparr>)"

text \<open>The resources of one type as the synthesizers list them, each with the object it is.\<close>

fun as_sg :: "ref \<Rightarrow> Resource \<Rightarrow> ResSG option" where
  "as_sg r (SecurityGroup m spec _) = Some \<lparr>rsRef = r, rsID = resID m, rsSpec = spec\<rparr>"
| "as_sg r _ = None"

fun as_tg :: "ref \<Rightarrow> Resource \<Rightarrow> ResTG option" where
  "as_tg r (TargetGroup m spec _) = Some \<lparr>rsRef = r, rsID = resID m, rsSpec = spec\<rparr>"
| "as_tg r _ = None"

fun as_lb :: "ref \<Rightarrow> Resource \<Rightarrow> ResLB option" where
  "as_lb r (LoadBalancer m spec _) = Some \<lparr>rsRef = r, rsID = resID m, rsSpec = spec\<rparr>"
| "as_lb r _ = None"

fun as_ls :: "ref \<Rightarrow> Resource \<Rightarrow> ResLS option" where
  "as_ls r (Listener m spec _) = Some \<lparr>rsRef = r, rsID = resID m, rsSpec = spec\<rparr>"
| "as_ls r _ = None"

fun as_lr :: "ref \<Rightarrow> Resource \<Rightarrow> ResLR option" where
  "as_lr r (ListenerRule m spec _) = Some \<lparr>rsRef = r, rsID = resID m, rsSpec = spec\<rparr>"
| "as_lr r _ = None"

fun as_tgb :: "ref \<Rightarrow> Resource \<Rightarrow> ResTGB option" where
  "as_tgb r (TargetGroupBindingResource m spec _) = Some \<lparr>rsRef = r, rsID = resID m, rsSpec = spec\<rparr>"
| "as_tgb r _ = None"

type_synonym resource_order = "(ResourceUID, ref) gomap \<Rightarrow> (ResourceUID, ref) gomap"

definition list_as :: "(ref \<Rightarrow> Resource \<Rightarrow> 'r option) \<Rightarrow> string \<Rightarrow> resource_order \<Rightarrow> model_state \<Rightarrow> 'r list" where
  "list_as view rtype order st = List.map_filter (\<lambda>r. if r < length (heap st) then view r (heap st ! r) else None)
     (ListResources order rtype st)"

text \<open>The loops that create unmatched and update matched resources and record their status.\<close>

definition create_each ::
  "(model_state \<Rightarrow> 'spec res \<Rightarrow> ('w, 'st) io) \<Rightarrow> (ref \<Rightarrow> 'st \<Rightarrow> model_state \<Rightarrow> model_state) \<Rightarrow> 'spec res list \<Rightarrow>
   ('w deploy_state, unit) io" where
  "create_each create SetStatus = io_forM (\<lambda>res. io_bind get_model (\<lambda>st.
     io_bind (on_world (create st res)) (\<lambda>status. set_status (SetStatus (rsRef res) status))))"

definition update_each ::
  "(model_state \<Rightarrow> 'spec res \<Rightarrow> 's \<Rightarrow> ('w, 'st) io) \<Rightarrow> (ref \<Rightarrow> 'st \<Rightarrow> model_state \<Rightarrow> model_state) \<Rightarrow>
   ('spec res \<times> 's) list \<Rightarrow> ('w deploy_state, unit) io" where
  "update_each update SetStatus = io_forM (\<lambda>(res, sdk). io_bind get_model (\<lambda>st.
     io_bind (on_world (update st res sdk)) (\<lambda>status. set_status (SetStatus (rsRef res) status))))"

text \<open>A map from resolved ARNs to the resources that name them.\<close>

definition group_by_resolved ::
  "model_state \<Rightarrow> ('r \<Rightarrow> StringToken) \<Rightarrow> 'r list \<Rightarrow> (string, 'r list) gomap result" where
  "group_by_resolved st token rs =
     result_foldM (\<lambda>m r. result_bind (Resolve st (token r)) (\<lambda>arn. Inr (AList.update arn (gomap_index [] m arn @ [r]) m)))
       [] rs"

section \<open>What the synthesizers use\<close>

record 'w deployer =
  dElb :: "'w listener_manager"
  dSg :: "'w sg_manager"
  dTgb :: "'w tgb_manager"
  dIntList :: "int set \<Rightarrow> int list"
  dResourceOrder :: resource_order
  dListenerOrder :: "(string, ResLS list) gomap \<Rightarrow> (string, ResLS list) gomap"
  dRulePoll :: "('w \<times> ListenerRuleWithTags option, bool) io \<Rightarrow> ('w \<times> ListenerRuleWithTags option, unit) io"
  dError :: "go_error \<Rightarrow> string"

abbreviation dProvider :: "('w, 'x) deployer_scheme \<Rightarrow> defaultProvider" where
  "dProvider d \<equiv> mgProvider (dElb d)"

abbreviation dTagging :: "('w, 'x) deployer_scheme \<Rightarrow> 'w defaultTaggingManager" where
  "dTagging d \<equiv> mgTagging (dElb d)"

abbreviation dList :: "('w, 'x) deployer_scheme \<Rightarrow> string set \<Rightarrow> string list" where
  "dList d \<equiv> tmList (mgTagging (dElb d))"

definition stack_filters :: "defaultProvider \<Rightarrow> StackID \<Rightarrow> TagFilter list" where
  "stack_filters p sid = [TagsAsTagFilter (StackTags p sid), TagsAsTagFilter (StackTagsLegacy p sid)]"

section \<open>Security groups\<close>

definition findSDKSecurityGroups :: "('w, 'x) deployer_scheme \<Rightarrow> StackID \<Rightarrow> ('w, SecurityGroupInfo list) io" where
  "findSDKSecurityGroups d sid = ListSecurityGroups (smTagging (dSg d)) (stack_filters (dProvider d) sid)"

definition SecurityGroup_Synthesize :: "('w, 'x) deployer_scheme \<Rightarrow> ('w deploy_state, unit) io" where
  "SecurityGroup_Synthesize d = io_bind get_model (\<lambda>st.
     let sid = stackID (stack st);
         resSGs = list_as as_sg ''*ec2.SecurityGroup'' (dResourceOrder d) st
     in io_bind (on_world (findSDKSecurityGroups d sid)) (\<lambda>sdkSGs.
        io_bind (io_lift (matchResAndSDKSecurityGroups (dList d) resSGs sdkSGs (ResourceIDTagKey (dProvider d))))
          (\<lambda>(matchedResAndSDKSGs, unmatchedResSGs, unmatched).
        io_bind (modify (\<lambda>s. s\<lparr>unmatchedSDKSGs := unmatched\<rparr>)) (\<lambda>_.
        io_bind (create_each (\<lambda>st. SecurityGroupManager_Create (dSg d) sid) SetStatus_SecurityGroup unmatchedResSGs) (\<lambda>_.
          update_each (\<lambda>st. SecurityGroupManager_Update (dSg d) sid) SetStatus_SecurityGroup matchedResAndSDKSGs)))))"

definition SecurityGroup_PostSynthesize :: "('w, 'x) deployer_scheme \<Rightarrow> ('w deploy_state, unit) io" where
  "SecurityGroup_PostSynthesize d s =
     io_forM (\<lambda>sdkSG. on_world (SecurityGroupManager_Delete (dSg d) sdkSG)) (unmatchedSDKSGs s) s"

section \<open>Target groups\<close>

definition findSDKTargetGroups :: "('w, 'x) deployer_scheme \<Rightarrow> StackID \<Rightarrow> ('w, TargetGroupWithTags list) io" where
  "findSDKTargetGroups d sid = ListTargetGroups (dTagging d) (stack_filters (dProvider d) sid)"

definition TargetGroup_Synthesize :: "('w, 'x) deployer_scheme \<Rightarrow> ('w deploy_state, unit) io" where
  "TargetGroup_Synthesize d = io_bind get_model (\<lambda>st.
     let sid = stackID (stack st);
         resTGs = list_as as_tg ''*elbv2.TargetGroup'' (dResourceOrder d) st
     in io_bind (on_world (findSDKTargetGroups d sid)) (\<lambda>sdkTGs.
        io_bind (io_lift (matchResAndSDKTargetGroups (dList d) resTGs sdkTGs (ResourceIDTagKey (dProvider d)) (gates (dElb d))))
          (\<lambda>(matchedResAndSDKTGs, unmatchedResTGs, unmatched).
        io_bind (modify (\<lambda>s. s\<lparr>unmatchedSDKTGs := unmatched\<rparr>)) (\<lambda>_.
        io_bind (create_each (\<lambda>st. TargetGroupManager_Create (dElb d) sid) SetStatus_TargetGroup unmatchedResTGs) (\<lambda>_.
          update_each (\<lambda>st. TargetGroupManager_Update (dElb d) sid) SetStatus_TargetGroup matchedResAndSDKTGs)))))"

definition TargetGroup_PostSynthesize :: "('w, 'x) deployer_scheme \<Rightarrow> ('w deploy_state, unit) io" where
  "TargetGroup_PostSynthesize d s =
     io_forM (\<lambda>sdkTG. on_world (TargetGroupManager_Delete (dElb d) sdkTG)) (unmatchedSDKTGs s) s"

section \<open>Load balancers\<close>

definition lbAttrsDeletionProtectionEnabled :: string where
  "lbAttrsDeletionProtectionEnabled = ''deletion_protection.enabled''"

definition findSDKLoadBalancers :: "('w, 'x) deployer_scheme \<Rightarrow> StackID \<Rightarrow> ('w, LoadBalancerWithTags list) io" where
  "findSDKLoadBalancers d sid = ListLoadBalancers (dTagging d) (stack_filters (dProvider d) sid)"

definition disableDeletionProtection :: "('w, 'x) deployer_scheme \<Rightarrow> SdkLoadBalancer \<Rightarrow> ('w, unit) io" where
  "disableDeletionProtection d lb =
     ModifyLoadBalancerAttributesWithContext (client (dElb d)) (slbLoadBalancerArn lb)
       [\<lparr>sdkTagKey = Some lbAttrsDeletionProtectionEnabled, sdkTagValue = Some ''false''\<rparr>]"

text \<open>The error of \<^verbatim>\<open>disableDeletionProtection\<close> is dropped.\<close>

definition delete_load_balancer :: "('w, 'x) deployer_scheme \<Rightarrow> LoadBalancerWithTags \<Rightarrow> ('w, unit) io" where
  "delete_load_balancer d sdkLB w =
     (case LoadBalancerManager_Delete (dElb d) sdkLB w of
        (Inr _, w') \<Rightarrow> (Inr (), w')
      | (Inl err, w') \<Rightarrow>
          let errMessage = dError d err in
          if strings_Contains errMessage ''OperationNotPermitted'' \<and> strings_Contains errMessage ''deletion protection'' then
            LoadBalancerManager_Delete (dElb d) sdkLB (ignore_error (disableDeletionProtection d (lwLoadBalancer sdkLB)) w')
          else (Inl err, w'))"

definition LoadBalancer_Synthesize :: "('w, 'x) deployer_scheme \<Rightarrow> ('w deploy_state, unit) io" where
  "LoadBalancer_Synthesize d = io_bind get_model (\<lambda>st.
     let sid = stackID (stack st);
         resLBs = list_as as_lb ''*elbv2.LoadBalancer'' (dResourceOrder d) st
     in io_bind (on_world (findSDKLoadBalancers d sid)) (\<lambda>sdkLBs.
        io_bind (io_lift (matchResAndSDKLoadBalancers (dList d) resLBs sdkLBs (ResourceIDTagKey (dProvider d))))
          (\<lambda>(matchedResAndSDKLBs, unmatchedResLBs, unmatched).
        io_bind (io_forM (\<lambda>sdkLB. on_world (delete_load_balancer d sdkLB)) unmatched) (\<lambda>_.
        io_bind (create_each (LoadBalancerManager_Create (dElb d) sid) SetStatus_LoadBalancer unmatchedResLBs) (\<lambda>_.
          update_each (LoadBalancerManager_Update (dElb d) sid) SetStatus_LoadBalancer matchedResAndSDKLBs)))))"

section \<open>Listeners\<close>

definition mapResListenerByLoadBalancerARN :: "model_state \<Rightarrow> ResLS list \<Rightarrow> (string, ResLS list) gomap result" where
  "mapResListenerByLoadBalancerARN st resLSs = group_by_resolved st (\<lambda>ls. lsLoadBalancerARN (rsSpec ls)) resLSs"

definition findSDKListenersOnLB :: "('w, 'x) deployer_scheme \<Rightarrow> string \<Rightarrow> ('w, ListenerWithTags list) io" where
  "findSDKListenersOnLB d lbARN = ListListeners (dTagging d) lbARN"

definition synthesizeListenersOnLB ::
  "('w, 'x) deployer_scheme \<Rightarrow> StackID \<Rightarrow> string \<Rightarrow> ResLS list \<Rightarrow> ('w deploy_state, unit) io" where
  "synthesizeListenersOnLB d sid lbARN resLSs =
     io_bind (on_world (findSDKListenersOnLB d lbARN)) (\<lambda>sdkLSs.
       let (matchedResAndSDKLSs, unmatchedResLSs, unmatchedSDKLSs) = matchResAndSDKListeners (dIntList d) resLSs sdkLSs in
       io_bind (io_forM (\<lambda>sdkLS. on_world (ListenerManager_Delete (dElb d) sdkLS)) unmatchedSDKLSs) (\<lambda>_.
       io_bind (create_each (ListenerManager_Create (dElb d) sid) SetStatus_Listener unmatchedResLSs) (\<lambda>_.
         update_each (ListenerManager_Update (dElb d) sid) SetStatus_Listener matchedResAndSDKLSs)))"

definition Listener_Synthesize :: "('w, 'x) deployer_scheme \<Rightarrow> ('w deploy_state, unit) io" where
  "Listener_Synthesize d = io_bind get_model (\<lambda>st.
     let resLSs = list_as as_ls ''*elbv2.Listener'' (dResourceOrder d) st in
     io_bind (io_lift (mapResListenerByLoadBalancerARN st resLSs)) (\<lambda>resLSsByLBARN.
       io_forM (\<lambda>(lbARN, resLSs). synthesizeListenersOnLB d (stackID (stack st)) lbARN resLSs)
         (dListenerOrder d resLSsByLBARN)))"

section \<open>Listener rules\<close>

definition mapResListenerRuleByListenerARN :: "model_state \<Rightarrow> ResLR list \<Rightarrow> (string, ResLR list) gomap result" where
  "mapResListenerRuleByListenerARN st resLRs = group_by_resolved st (\<lambda>lr. lrListenerARN (rsSpec lr)) resLRs"

definition findSDKListenersRulesOnLS :: "('w, 'x) deployer_scheme \<Rightarrow> string \<Rightarrow> ('w, ListenerRuleWithTags list) io" where
  "findSDKListenersRulesOnLS d lsARN =
     io_bind (ListListenerRules (dTagging d) lsARN) (\<lambda>sdkLRs.
       io_return (filter (\<lambda>rule. \<not> BoolValue (slrIsDefault (rwListenerRule rule))) sdkLRs))"

definition synthesizeListenerRulesOnListener ::
  "('w, 'x) deployer_scheme \<Rightarrow> StackID \<Rightarrow> string \<Rightarrow> ResLR list \<Rightarrow> ('w deploy_state, unit) io" where
  "synthesizeListenerRulesOnListener d sid lsARN resLRs =
     io_bind (on_world (findSDKListenersRulesOnLS d lsARN)) (\<lambda>sdkLRs.
       let (matchedResAndSDKLRs, unmatchedResLRs, unmatchedSDKLRs) = matchResAndSDKListenerRules (dIntList d) resLRs sdkLRs in
       io_bind (io_forM (\<lambda>sdkLR. on_world (ListenerRuleManager_Delete (dElb d) sdkLR)) unmatchedSDKLRs) (\<lambda>_.
       io_bind (create_each (ListenerRuleManager_Create (dElb d) (dRulePoll d) sid) SetStatus_ListenerRule unmatchedResLRs) (\<lambda>_.
         update_each (ListenerRuleManager_Update (dElb d) sid) SetStatus_ListenerRule matchedResAndSDKLRs)))"

definition ListenerRule_Synthesize :: "('w, 'x) deployer_scheme \<Rightarrow> ('w deploy_state, unit) io" where
  "ListenerRule_Synthesize d = io_bind get_model (\<lambda>st.
     let resLRs = list_as as_lr ''*elbv2.ListenerRule'' (dResourceOrder d) st;
         resLSs = list_as as_ls ''*elbv2.Listener'' (dResourceOrder d) st
     in io_bind (io_lift (mapResListenerRuleByListenerARN st resLRs)) (\<lambda>resLRsByLSARN.
       io_forM (\<lambda>resLS. io_bind get_model (\<lambda>st'.
           io_bind (io_lift (Resolve st' (ListenerARN_token (rsRef resLS)))) (\<lambda>lsARN.
             synthesizeListenerRulesOnListener d (stackID (stack st)) lsARN (gomap_index [] resLRsByLSARN lsARN))))
         resLSs))"

section \<open>Target group bindings\<close>

definition findK8sTargetGroupBindings :: "('w, 'x) deployer_scheme \<Rightarrow> StackID \<Rightarrow> ('w, TargetGroupBinding list) io" where
  "findK8sTargetGroupBindings d sid = k8sList (bmClient (dTgb d)) (StackLabels (dProvider d) sid)"

definition TargetGroupBinding_Synthesize :: "('w, 'x) deployer_scheme \<Rightarrow> ('w deploy_state, unit) io" where
  "TargetGroupBinding_Synthesize d = io_bind get_model (\<lambda>st.
     let sid = stackID (stack st);
         resTGBs = list_as as_tgb ''*elbv2.TargetGroupBindingResource'' (dResourceOrder d) st
     in io_bind (on_world (findK8sTargetGroupBindings d sid)) (\<lambda>k8sTGBs.
        io_bind (io_lift (matchResAndK8sTargetGroupBindings (dList d) st resTGBs k8sTGBs))
          (\<lambda>(matchedResAndK8sTGBs, unmatchedResTGBs, unmatched).
        io_bind (modify (\<lambda>s. s\<lparr>unmatchedK8sTGBs := unmatched\<rparr>)) (\<lambda>_.
        io_bind (create_each (TargetGroupBindingManager_Create (dTgb d) sid) SetStatus_TargetGroupBinding unmatchedResTGBs) (\<lambda>_.
          update_each (TargetGroupBindingManager_Update (dTgb d)) SetStatus_TargetGroupBinding matchedResAndK8sTGBs)))))"

definition TargetGroupBinding_PostSynthesize :: "('w, 'x) deployer_scheme \<Rightarrow> ('w deploy_state, unit) io" where
  "TargetGroupBinding_PostSynthesize d s =
     io_forM (\<lambda>k8sTGB. on_world (TargetGroupBindingManager_Delete (dTgb d) k8sTGB)) (unmatchedK8sTGBs s) s"

end
