(* ===== verification/Effects.thy ===== *)
theory Effects
  imports Go_Prelude
begin

text \<open>
  What a computation may do to the world, as a relation between the world before and after. When
  the relation is reflexive and transitive it is inherited by sequences, loops and branches, so a
  property of whole workflows follows from that of the single calls.
\<close>

definition keeps :: "('w \<Rightarrow> 'w \<Rightarrow> bool) \<Rightarrow> ('w, 'a) io \<Rightarrow> bool" where
  "keeps R m \<longleftrightarrow> (\<forall>w r w'. m w = (r, w') \<longrightarrow> R w w')"

named_theorems keeps "computations that stay within a relation"

lemma keepsI [intro?]: "(\<And>w r w'. m w = (r, w') \<Longrightarrow> R w w') \<Longrightarrow> keeps R m"
  by (simp add: keeps_def)

lemma keepsD: "keeps R m \<Longrightarrow> m w = (r, w') \<Longrightarrow> R w w'"
  by (simp add: keeps_def)

lemma keeps_snd: "keeps R m \<Longrightarrow> R w (snd (m w))"
  by (cases "m w") (simp add: keeps_def)

lemma keeps_if [keeps]: "(b \<Longrightarrow> keeps R x) \<Longrightarrow> (\<not> b \<Longrightarrow> keeps R y) \<Longrightarrow> keeps R (if b then x else y)"
  by simp

lemma keeps_option [keeps]:
  "(x = None \<Longrightarrow> keeps R f) \<Longrightarrow> (\<And>v. x = Some v \<Longrightarrow> keeps R (g v)) \<Longrightarrow>
     keeps R (case x of None \<Rightarrow> f | Some v \<Rightarrow> g v)"
  by (cases x) simp_all

lemma keeps_prod [keeps]: "(\<And>a b. keeps R (f a b)) \<Longrightarrow> keeps R (case p of (a, b) \<Rightarrow> f a b)"
  by (cases p) simp

lemma keeps_Let [keeps]: "keeps R (f v) \<Longrightarrow> keeps R (let x = v in f x)"
  by simp

locale effect_preorder =
  fixes R :: "'w \<Rightarrow> 'w \<Rightarrow> bool"
  assumes R_refl: "R w w" and R_trans: "R w1 w2 \<Longrightarrow> R w2 w3 \<Longrightarrow> R w1 w3"
begin

lemma pure [keeps]: "keeps R (io_return x)" "keeps R (io_fail e)" "keeps R (io_lift y)"
  by (auto simp: keeps_def io_return_def io_fail_def io_lift_def R_refl split: sum.splits)

lemma bind [keeps]: "keeps R m \<Longrightarrow> (\<And>x. keeps R (f x)) \<Longrightarrow> keeps R (io_bind m f)"
  by (rule keepsI) (auto simp: io_bind_def split: prod.splits sum.splits dest: keepsD intro: R_trans)

lemma forM [keeps]: "(\<And>x. x \<in> set xs \<Longrightarrow> keeps R (f x)) \<Longrightarrow> keeps R (io_forM f xs)"
  by (induction xs) (auto intro: pure bind)

lemma foldM [keeps]: "(\<And>s x. x \<in> set xs \<Longrightarrow> keeps R (f s x)) \<Longrightarrow> keeps R (io_foldM f s xs)"
  by (induction xs arbitrary: s) (auto intro: pure bind)

lemma mapM [keeps]: "(\<And>x. x \<in> set xs \<Longrightarrow> keeps R (f x)) \<Longrightarrow> keeps R (io_mapM f xs)"
  by (induction xs) (auto intro: pure bind)

end

text \<open>Staying within an invariant of the world is such a relation.\<close>

abbreviation (input) preserving :: "('w \<Rightarrow> bool) \<Rightarrow> 'w \<Rightarrow> 'w \<Rightarrow> bool" where
  "preserving I \<equiv> \<lambda>w w'. I w \<longrightarrow> I w'"

interpretation inv: effect_preorder "preserving I" for I
  by unfold_locales auto

text \<open>What the polling functions document: they do nothing but call the condition.\<close>

definition poll_only_calls :: "(('w, bool) io \<Rightarrow> ('w, unit) io) \<Rightarrow> bool" where
  "poll_only_calls poll \<longleftrightarrow> (\<forall>I cond. keeps (preserving I) cond \<longrightarrow> keeps (preserving I) (poll cond))"

lemma poll_only_callsD:
  "poll_only_calls poll \<Longrightarrow> keeps (preserving I) cond \<Longrightarrow> keeps (preserving I) (poll cond)"
  by (simp add: poll_only_calls_def)

end
