(* ===== verification/Addons.thy ===== *)
theory Addons
  imports Synthesis Effects
begin

text \<open>
  The add-ons on load balancers: associations with web ACLs of WAFv2 and of WAF Regional and
  Shield protections, in \<^verbatim>\<open>pkg/deploy/wafv2\<close>, \<^verbatim>\<open>pkg/deploy/wafregional\<close> and \<^verbatim>\<open>pkg/deploy/shield\<close>, each with
  its manager and its synthesizer. The AWS clients and the expiring caches are parameters.
\<close>

section \<open>Caches\<close>

text \<open>An expiring cache, with the lifetime of its entries: reading may find nothing at any time.\<close>

record ('w, 'v) expiring_cache =
  xGet :: "string \<Rightarrow> 'w \<Rightarrow> 'v option"
  xSet :: "string \<Rightarrow> 'v \<Rightarrow> 'w \<Rightarrow> 'w"

definition cache_set :: "('w, 'v) expiring_cache \<Rightarrow> string \<Rightarrow> 'v \<Rightarrow> ('w, unit) io" where
  "cache_set c k v w = (Inr (), xSet c k v w)"

section \<open>WAFv2\<close>

text \<open>The response to a lookup has no web ACL, or one whose arn is a pointer.\<close>

record 'w wafv2_manager =
  wafv2AssociateWebACLWithContext :: "string \<Rightarrow> string \<Rightarrow> ('w, unit) io"
  wafv2DisassociateWebACLWithContext :: "string \<Rightarrow> ('w, unit) io"
  wafv2GetWebACLForResourceWithContext :: "string \<Rightarrow> ('w, string option option) io"
  wafv2Cache :: "('w, string) expiring_cache"

definition wafv2_AssociateWebACL :: "'w wafv2_manager \<Rightarrow> string \<Rightarrow> string \<Rightarrow> ('w, unit) io" where
  "wafv2_AssociateWebACL m resourceARN webACLARN =
     io_bind (wafv2AssociateWebACLWithContext m resourceARN webACLARN) (\<lambda>_. cache_set (wafv2Cache m) resourceARN webACLARN)"

definition wafv2_DisassociateWebACL :: "'w wafv2_manager \<Rightarrow> string \<Rightarrow> ('w, unit) io" where
  "wafv2_DisassociateWebACL m resourceARN =
     io_bind (wafv2DisassociateWebACLWithContext m resourceARN) (\<lambda>_. cache_set (wafv2Cache m) resourceARN [])"

definition wafv2_GetAssociatedWebACL :: "'w wafv2_manager \<Rightarrow> string \<Rightarrow> ('w, string) io" where
  "wafv2_GetAssociatedWebACL m resourceARN w =
     (case xGet (wafv2Cache m) resourceARN w of
        Some webACLARN \<Rightarrow> (Inr webACLARN, w)
      | None \<Rightarrow>
          io_bind (wafv2GetWebACLForResourceWithContext m resourceARN) (\<lambda>webACL.
            let webACLARN = (case webACL of None \<Rightarrow> [] | Some p \<Rightarrow> StringValue p) in
            io_bind (cache_set (wafv2Cache m) resourceARN webACLARN) (\<lambda>_. io_return webACLARN)) w)"

fun as_wafv2 :: "ref \<Rightarrow> Resource \<Rightarrow> WAFv2AssociationSpec res option" where
  "as_wafv2 r (WAFv2WebACLAssociation m spec) = Some \<lparr>rsRef = r, rsID = resID m, rsSpec = spec\<rparr>"
| "as_wafv2 r _ = None"

definition wafv2_mapResWebACLAssociationByResourceARN ::
  "model_state \<Rightarrow> WAFv2AssociationSpec res list \<Rightarrow> (string, WAFv2AssociationSpec res list) gomap result" where
  "wafv2_mapResWebACLAssociationByResourceARN st = group_by_resolved st (\<lambda>a. wa2ResourceARN (rsSpec a))"

definition wafv2_synthesizeWebACLAssociationsOnLB ::
  "'w wafv2_manager \<Rightarrow> string \<Rightarrow> WAFv2AssociationSpec res list \<Rightarrow> ('w, unit) io" where
  "wafv2_synthesizeWebACLAssociationsOnLB m lbARN resAssociations =
     (if length resAssociations > 1 then
        io_fail (Errorf ''[should never happen] multiple WAFv2 webACL desired on LoadBalancer: %v'' [lbARN])
      else
        let desired = (case resAssociations of [a] \<Rightarrow> wa2WebACLARN (rsSpec a) | _ \<Rightarrow> []) in
        io_bind (wafv2_GetAssociatedWebACL m lbARN) (\<lambda>current.
          if desired = [] \<and> current \<noteq> [] then
            io_wrap ''failed to delete WAFv2 webACL association on LoadBalancer'' (wafv2_DisassociateWebACL m lbARN)
          else if desired \<noteq> [] \<and> current = [] then
            io_wrap ''failed to create WAFv2 webACL association on LoadBalancer'' (wafv2_AssociateWebACL m lbARN desired)
          else if desired \<noteq> [] \<and> current \<noteq> [] \<and> desired \<noteq> current then
            io_wrap ''failed to update WAFv2 webACL association on LoadBalancer'' (wafv2_AssociateWebACL m lbARN desired)
          else io_return ()))"

definition wafv2_Synthesize ::
  "'w wafv2_manager \<Rightarrow> ('w, 'x) deployer_scheme \<Rightarrow> ('w deploy_state, unit) io" where
  "wafv2_Synthesize m d = io_bind get_model (\<lambda>st.
     let resAssociations = list_as as_wafv2 ''*wafv2.WebACLAssociation'' (dResourceOrder d) st;
         resLBs = list_as as_lb ''*elbv2.LoadBalancer'' (dResourceOrder d) st
     in io_bind (io_lift (wafv2_mapResWebACLAssociationByResourceARN st resAssociations)) (\<lambda>resAssociationsByResARN.
       io_forM (\<lambda>resLB.
         if lbType (rsSpec resLB) \<noteq> LoadBalancerTypeApplication then io_return ()
         else io_bind (io_lift (Resolve st (LoadBalancerARN_token (rsRef resLB)))) (\<lambda>lbARN.
           on_world (wafv2_synthesizeWebACLAssociationsOnLB m lbARN (gomap_index [] resAssociationsByResARN lbARN))))
         resLBs))"

section \<open>WAF Regional\<close>

text \<open>The response to a lookup has no web ACL, or one whose id is a pointer.\<close>

record 'w wafr_manager =
  wafrAssociateWebACLWithContext :: "string \<Rightarrow> string \<Rightarrow> ('w, unit) io"
  wafrDisassociateWebACLWithContext :: "string \<Rightarrow> ('w, unit) io"
  wafrGetWebACLForResourceWithContext :: "string \<Rightarrow> ('w, string option option) io"
  wafrCache :: "('w, string) expiring_cache"

definition wafr_AssociateWebACL :: "'w wafr_manager \<Rightarrow> string \<Rightarrow> string \<Rightarrow> ('w, unit) io" where
  "wafr_AssociateWebACL m resourceARN webACLID =
     io_bind (wafrAssociateWebACLWithContext m resourceARN webACLID) (\<lambda>_. cache_set (wafrCache m) resourceARN webACLID)"

definition wafr_DisassociateWebACL :: "'w wafr_manager \<Rightarrow> string \<Rightarrow> ('w, unit) io" where
  "wafr_DisassociateWebACL m resourceARN =
     io_bind (wafrDisassociateWebACLWithContext m resourceARN) (\<lambda>_. cache_set (wafrCache m) resourceARN [])"

definition wafr_GetAssociatedWebACL :: "'w wafr_manager \<Rightarrow> string \<Rightarrow> ('w, string) io" where
  "wafr_GetAssociatedWebACL m resourceARN w =
     (case xGet (wafrCache m) resourceARN w of
        Some webACLID \<Rightarrow> (Inr webACLID, w)
      | None \<Rightarrow>
          io_bind (wafrGetWebACLForResourceWithContext m resourceARN) (\<lambda>webACL.
            let webACLID = (case webACL of None \<Rightarrow> [] | Some p \<Rightarrow> StringValue p) in
            io_bind (cache_set (wafrCache m) resourceARN webACLID) (\<lambda>_. io_return webACLID)) w)"

fun as_wafr :: "ref \<Rightarrow> Resource \<Rightarrow> WAFRegionalAssociationSpec res option" where
  "as_wafr r (WAFRegionalWebACLAssociation m spec) = Some \<lparr>rsRef = r, rsID = resID m, rsSpec = spec\<rparr>"
| "as_wafr r _ = None"

definition wafr_mapResWebACLAssociationByResourceARN ::
  "model_state \<Rightarrow> WAFRegionalAssociationSpec res list \<Rightarrow> (string, WAFRegionalAssociationSpec res list) gomap result" where
  "wafr_mapResWebACLAssociationByResourceARN st = group_by_resolved st (\<lambda>a. warResourceARN (rsSpec a))"

definition wafr_synthesizeWebACLAssociationsOnLB ::
  "'w wafr_manager \<Rightarrow> string \<Rightarrow> WAFRegionalAssociationSpec res list \<Rightarrow> ('w, unit) io" where
  "wafr_synthesizeWebACLAssociationsOnLB m lbARN resAssociations =
     (if length resAssociations > 1 then
        io_fail (Errorf ''[should never happen] multiple WAFRegional webACL desired on LoadBalancer: %v'' [lbARN])
      else
        let desired = (case resAssociations of [a] \<Rightarrow> warWebACLID (rsSpec a) | _ \<Rightarrow> []) in
        io_bind (wafr_GetAssociatedWebACL m lbARN) (\<lambda>current.
          if desired = [] \<and> current \<noteq> [] then
            io_wrap ''failed to delete WAFv2 WAFRegional association on LoadBalancer'' (wafr_DisassociateWebACL m lbARN)
          else if desired \<noteq> [] \<and> current = [] then
            io_wrap ''failed to create WAFv2 WAFRegional association on LoadBalancer'' (wafr_AssociateWebACL m lbARN desired)
          else if desired \<noteq> [] \<and> current \<noteq> [] \<and> desired \<noteq> current then
            io_wrap ''failed to update WAFv2 WAFRegional association on LoadBalancer'' (wafr_AssociateWebACL m lbARN desired)
          else io_return ()))"

definition wafr_Synthesize ::
  "'w wafr_manager \<Rightarrow> ('w, 'x) deployer_scheme \<Rightarrow> ('w deploy_state, unit) io" where
  "wafr_Synthesize m d = io_bind get_model (\<lambda>st.
     let resAssociations = list_as as_wafr ''*wafregional.WebACLAssociation'' (dResourceOrder d) st;
         resLBs = list_as as_lb ''*elbv2.LoadBalancer'' (dResourceOrder d) st
     in io_bind (io_lift (wafr_mapResWebACLAssociationByResourceARN st resAssociations)) (\<lambda>resAssociationsByResARN.
       io_forM (\<lambda>resLB.
         if lbType (rsSpec resLB) \<noteq> LoadBalancerTypeApplication then io_return ()
         else io_bind (io_lift (Resolve st (LoadBalancerARN_token (rsRef resLB)))) (\<lambda>lbARN.
           on_world (wafr_synthesizeWebACLAssociationsOnLB m lbARN (gomap_index [] resAssociationsByResARN lbARN))))
         resLBs))"

section \<open>Shield\<close>

record ProtectionInfo =
  piName :: string
  piID :: string

record ShieldSdkProtection =
  sspName :: "string option"
  sspId :: "string option"

record 'w shield_manager =
  CreateProtectionWithContext :: "string \<Rightarrow> string \<Rightarrow> ('w, string option) io"
  DeleteProtectionWithContext :: "string \<Rightarrow> ('w, unit) io"
  DescribeProtectionWithContext :: "string \<Rightarrow> ('w, ShieldSdkProtection option) io"
  GetSubscriptionStateWithContext :: "('w, string option) io"
  protectionInfoCache :: "('w, ProtectionInfo option) expiring_cache"
  subscriptionStateCache :: "('w, string) expiring_cache"

definition subscriptionStateCacheKey :: string where
  "subscriptionStateCacheKey = ''subscriptionState''"

definition protectionNameManaged :: string where
  "protectionNameManaged = ''managed by aws-load-balancer-controller''"

definition protectionNameManagedLegacy :: string where
  "protectionNameManagedLegacy = ''managed by aws-alb-ingress-controller''"

definition CreateProtection :: "'w shield_manager \<Rightarrow> string \<Rightarrow> string \<Rightarrow> ('w, string) io" where
  "CreateProtection m resourceARN protectionName =
     io_bind (CreateProtectionWithContext m resourceARN protectionName) (\<lambda>resp.
       let protectionID = StringValue resp in
       io_bind (cache_set (protectionInfoCache m) resourceARN (Some \<lparr>piName = protectionName, piID = protectionID\<rparr>)) (\<lambda>_.
         io_return protectionID))"

definition DeleteProtection :: "'w shield_manager \<Rightarrow> string \<Rightarrow> string \<Rightarrow> ('w, unit) io" where
  "DeleteProtection m resourceARN protectionID =
     io_bind (DeleteProtectionWithContext m protectionID) (\<lambda>_. cache_set (protectionInfoCache m) resourceARN None)"

text \<open>A type assertion, which unlike \<^verbatim>\<open>errors.As\<close> does not look inside wrapped errors.\<close>

definition is_resource_not_found :: "go_error \<Rightarrow> bool" where
  "is_resource_not_found err = (case err of AwsError code _ \<Rightarrow> code = ''ResourceNotFoundException'' | _ \<Rightarrow> False)"

definition GetProtection :: "'w shield_manager \<Rightarrow> string \<Rightarrow> ('w, ProtectionInfo option) io" where
  "GetProtection m resourceARN w =
     (case xGet (protectionInfoCache m) resourceARN w of
        Some info \<Rightarrow> (Inr info, w)
      | None \<Rightarrow>
          (case DescribeProtectionWithContext m resourceARN w of
             (Inl err, w') \<Rightarrow>
               if is_resource_not_found err then
                 io_bind (cache_set (protectionInfoCache m) resourceARN None) (\<lambda>_. io_return None) w'
               else (Inl err, w')
           | (Inr resp, w') \<Rightarrow>
               let info = map_option (\<lambda>p. \<lparr>piName = StringValue (sspName p), piID = StringValue (sspId p)\<rparr>) resp in
               io_bind (cache_set (protectionInfoCache m) resourceARN info) (\<lambda>_. io_return info) w'))"

definition IsSubscribed :: "'w shield_manager \<Rightarrow> ('w, bool) io" where
  "IsSubscribed m w =
     (case xGet (subscriptionStateCache m) subscriptionStateCacheKey w of
        Some subscriptionState \<Rightarrow> (Inr (subscriptionState = ''ACTIVE''), w)
      | None \<Rightarrow>
          io_bind (GetSubscriptionStateWithContext m) (\<lambda>resp.
            let subscriptionState = StringValue resp in
            io_bind (cache_set (subscriptionStateCache m) subscriptionStateCacheKey subscriptionState) (\<lambda>_.
              io_return (subscriptionState = ''ACTIVE''))) w)"

fun as_protection :: "ref \<Rightarrow> Resource \<Rightarrow> ProtectionSpec res option" where
  "as_protection r (ShieldProtection m spec) = Some \<lparr>rsRef = r, rsID = resID m, rsSpec = spec\<rparr>"
| "as_protection r _ = None"

definition mapResProtectionByResourceARN ::
  "model_state \<Rightarrow> ProtectionSpec res list \<Rightarrow> (string, ProtectionSpec res list) gomap result" where
  "mapResProtectionByResourceARN st = group_by_resolved st (\<lambda>p. prResourceARN (rsSpec p))"

definition synthesizeProtectionsOnLB ::
  "'w shield_manager \<Rightarrow> string \<Rightarrow> ProtectionSpec res list \<Rightarrow> ('w, unit) io" where
  "synthesizeProtectionsOnLB m lbARN resProtections =
     (if length resProtections > 1 then
        io_fail (Errorf ''[should never happen] multiple shield protection desired on LoadBalancer: %v'' [lbARN])
      else
        let enableProtection = (length resProtections = 1) in
        io_bind (GetProtection m lbARN) (\<lambda>protectionInfo.
          case protectionInfo of
            Some info \<Rightarrow>
              if \<not> enableProtection then
                if piName info \<in> {protectionNameManaged, protectionNameManagedLegacy} then
                  io_wrap ''failed to delete shield protection on LoadBalancer'' (DeleteProtection m lbARN (piID info))
                else io_return ()
              else io_return ()
          | None \<Rightarrow>
              if enableProtection then
                io_wrap ''failed to create shield protection on LoadBalancer''
                  (io_bind (CreateProtection m lbARN protectionNameManaged) (\<lambda>_. io_return ()))
              else io_return ()))"

definition Shield_Synthesize ::
  "'w shield_manager \<Rightarrow> ('w, 'x) deployer_scheme \<Rightarrow> ('w deploy_state, unit) io" where
  "Shield_Synthesize m d = io_bind get_model (\<lambda>st.
     let resProtections = list_as as_protection ''*shield.Protection'' (dResourceOrder d) st;
         resLBs = list_as as_lb ''*elbv2.LoadBalancer'' (dResourceOrder d) st
     in io_bind (io_lift (mapResProtectionByResourceARN st resProtections)) (\<lambda>resProtectionsByResARN.
       io_forM (\<lambda>resLB.
         if lbType (rsSpec resLB) \<noteq> LoadBalancerTypeApplication then io_return ()
         else io_bind (io_lift (Resolve st (LoadBalancerARN_token (rsRef resLB)))) (\<lambda>lbARN.
           on_world (synthesizeProtectionsOnLB m lbARN (gomap_index [] resProtectionsByResARN lbARN))))
         resLBs))"

section \<open>Associations are reconciled\<close>

text \<open>
  What the WAF client and the cache document: \<open>acl\<close> gives the web ACL that a world associates with
  each resource, the empty string for none; writing the cache does not change associations, and
  reading an entry returns what was last written for it or nothing.
\<close>

definition wafv2_laws :: "'w wafv2_manager \<Rightarrow> ('w \<Rightarrow> string \<Rightarrow> string) \<Rightarrow> bool" where
  "wafv2_laws m acl \<longleftrightarrow>
     (\<forall>arn x w w'. wafv2AssociateWebACLWithContext m arn x w = (Inr (), w') \<longrightarrow> acl w' = (acl w)(arn := x)) \<and>
     (\<forall>arn w w'. wafv2DisassociateWebACLWithContext m arn w = (Inr (), w') \<longrightarrow> acl w' = (acl w)(arn := [])) \<and>
     (\<forall>arn x w w'. wafv2GetWebACLForResourceWithContext m arn w = (Inr x, w') \<longrightarrow>
        acl w' = acl w \<and> (case x of None \<Rightarrow> [] | Some p \<Rightarrow> StringValue p) = acl w arn) \<and>
     (\<forall>arn x w. acl (xSet (wafv2Cache m) arn x w) = acl w \<and>
        (\<forall>z. xGet (wafv2Cache m) arn (xSet (wafv2Cache m) arn x w) = Some z \<longrightarrow> z = x))"

lemma wafv2_lawsD:
  assumes "wafv2_laws m acl"
  shows "wafv2AssociateWebACLWithContext m arn x w = (Inr (), w') \<Longrightarrow> acl w' = (acl w)(arn := x)"
    and "wafv2DisassociateWebACLWithContext m arn w = (Inr (), w') \<Longrightarrow> acl w' = (acl w)(arn := [])"
    and "wafv2GetWebACLForResourceWithContext m arn w = (Inr y, w') \<Longrightarrow>
      acl w' = acl w \<and> (case y of None \<Rightarrow> [] | Some p \<Rightarrow> StringValue p) = acl w arn"
    and "acl (xSet (wafv2Cache m) arn x w) = acl w"
    and "xGet (wafv2Cache m) arn (xSet (wafv2Cache m) arn x w) = Some z \<Longrightarrow> z = x"
  using assms unfolding wafv2_laws_def by auto

text \<open>A cache entry that does not contradict the association.\<close>

definition wafv2_fresh :: "'w wafv2_manager \<Rightarrow> ('w \<Rightarrow> string \<Rightarrow> string) \<Rightarrow> string \<Rightarrow> 'w \<Rightarrow> bool" where
  "wafv2_fresh m acl arn w \<longleftrightarrow> (\<forall>x. xGet (wafv2Cache m) arn w = Some x \<longrightarrow> x = acl w arn)"

lemma wafv2_cached_write:
  assumes "wafv2_laws m acl" "io_bind call (\<lambda>_. cache_set (wafv2Cache m) arn x) w = (Inr (), w')"
    and "\<And>w1. call w = (Inr (), w1) \<Longrightarrow> acl w1 = (acl w)(arn := x)"
  shows "acl w' = (acl w)(arn := x) \<and> wafv2_fresh m acl arn w'"
proof -
  from io_bind_unitD [OF assms(2)] obtain w1 where "call w = (Inr (), w1)" "w' = xSet (wafv2Cache m) arn x w1"
    by (auto simp: cache_set_def)
  then show ?thesis using assms(3) wafv2_lawsD(4,5) [OF assms(1)] by (auto simp: wafv2_fresh_def)
qed

lemma wafv2_read:
  assumes "wafv2_laws m acl" "wafv2_fresh m acl arn w" "wafv2_GetAssociatedWebACL m arn w = (Inr x, w')"
  shows "x = acl w arn \<and> acl w' = acl w \<and> wafv2_fresh m acl arn w'"
proof (cases "xGet (wafv2Cache m) arn w")
  case None
  then have "io_bind (wafv2GetWebACLForResourceWithContext m arn) (\<lambda>webACL.
      let a = (case webACL of None \<Rightarrow> [] | Some p \<Rightarrow> StringValue p) in
      io_bind (cache_set (wafv2Cache m) arn a) (\<lambda>_. io_return a)) w = (Inr x, w')"
    using assms(3) by (simp add: wafv2_GetAssociatedWebACL_def)
  from io_bind_InrD [OF this] obtain y w1 where y: "wafv2GetWebACLForResourceWithContext m arn w = (Inr y, w1)"
    "x = (case y of None \<Rightarrow> [] | Some p \<Rightarrow> StringValue p)" "w' = xSet (wafv2Cache m) arn x w1"
    by (auto simp: io_bind_def cache_set_def io_return_def Let_def)
  then show ?thesis using wafv2_lawsD [OF assms(1)] by (auto simp: wafv2_fresh_def)
qed (use assms(2,3) in \<open>auto simp: wafv2_GetAssociatedWebACL_def wafv2_fresh_def\<close>)

lemma io_wrap_Inr [simp]: "io_wrap msg m w = (Inr x, w') \<longleftrightarrow> m w = (Inr x, w')"
  by (auto simp: io_wrap_def split: prod.splits sum.splits)

text \<open>C39: Reconciling the web ACL of a load balancer. When the cached entry for the load balancer, if
  there is one, agrees with WAFv2, a successful run leaves the load balancer associated with the
  web ACL of the one desired association, or with none when none is desired, changes no other
  association, and leaves the cache in agreement.\<close>

theorem web_acl_reconciled:
  assumes "wafv2_laws m acl" "wafv2_fresh m acl lbARN w"
    and "wafv2_synthesizeWebACLAssociationsOnLB m lbARN resAssociations w = (Inr (), w')"
  shows "length resAssociations \<le> 1 \<and>
    acl w' = (acl w)(lbARN := (case resAssociations of [] \<Rightarrow> [] | a # _ \<Rightarrow> wa2WebACLARN (rsSpec a))) \<and>
    wafv2_fresh m acl lbARN w'"
proof -
  have len: "\<not> length resAssociations > 1"
    using assms(3) by (auto simp: wafv2_synthesizeWebACLAssociationsOnLB_def io_fail_def)
  let ?d = "case resAssociations of [a] \<Rightarrow> wa2WebACLARN (rsSpec a) | _ \<Rightarrow> []"
  have d: "?d = (case resAssociations of [] \<Rightarrow> [] | a # _ \<Rightarrow> wa2WebACLARN (rsSpec a))"
    using len by (cases resAssociations) (auto split: list.splits)
  note run = assms(3) [unfolded wafv2_synthesizeWebACLAssociationsOnLB_def if_not_P [OF len] Let_def]
  from io_bind_InrD [OF run] obtain c w1 where c: "wafv2_GetAssociatedWebACL m lbARN w = (Inr c, w1)"
    and rest: "(if ?d = [] \<and> c \<noteq> [] then io_wrap ''failed to delete WAFv2 webACL association on LoadBalancer'' (wafv2_DisassociateWebACL m lbARN)
      else if ?d \<noteq> [] \<and> c = [] then io_wrap ''failed to create WAFv2 webACL association on LoadBalancer'' (wafv2_AssociateWebACL m lbARN ?d)
      else if ?d \<noteq> [] \<and> c \<noteq> [] \<and> ?d \<noteq> c then io_wrap ''failed to update WAFv2 webACL association on LoadBalancer'' (wafv2_AssociateWebACL m lbARN ?d)
      else io_return ()) w1 = (Inr (), w')" by (elim exE conjE)
  note read = wafv2_read [OF assms(1,2) c]
  have "acl w' = (acl w1)(lbARN := ?d) \<and> wafv2_fresh m acl lbARN w'"
  proof -
    consider "?d = []" "wafv2_DisassociateWebACL m lbARN w1 = (Inr (), w')"
      | "wafv2_AssociateWebACL m lbARN ?d w1 = (Inr (), w')" | "?d = c" "w' = w1"
      using rest by (simp add: io_return_def split: if_splits) blast+
    then show ?thesis
    proof cases
      case 1
      show ?thesis unfolding 1(1)
        by (rule wafv2_cached_write [OF assms(1) 1(2) [unfolded wafv2_DisassociateWebACL_def]])
          (rule wafv2_lawsD(2) [OF assms(1)])
    next
      case 2
      show ?thesis
        by (rule wafv2_cached_write [OF assms(1) 2 [unfolded wafv2_AssociateWebACL_def]])
          (rule wafv2_lawsD(1) [OF assms(1)])
    next
      case 3
      then show ?thesis using read by (metis fun_upd_triv)
    qed
  qed
  then show ?thesis using read len by (simp add: d)
qed

definition memory_wafv2 :: "(string \<Rightarrow> string) wafv2_manager" where
  "memory_wafv2 = \<lparr>wafv2AssociateWebACLWithContext = \<lambda>arn x w. (Inr (), w(arn := x)),
     wafv2DisassociateWebACLWithContext = \<lambda>arn w. (Inr (), w(arn := [])),
     wafv2GetWebACLForResourceWithContext = \<lambda>arn w. (Inr (if w arn = [] then None else Some (Some (w arn))), w),
     wafv2Cache = \<lparr>xGet = \<lambda>_ _. None, xSet = \<lambda>_ _ w. w\<rparr>\<rparr>"

definition example_association :: "WAFv2AssociationSpec res" where
  "example_association = \<lparr>rsRef = 0, rsID = ''a'',
     rsSpec = \<lparr>wa2WebACLARN = ''acl'', wa2ResourceARN = LiteralStringToken ''lb''\<rparr>\<rparr>"

theorem web_acl_reconciled_witness:
  "\<exists>w'. wafv2_synthesizeWebACLAssociationsOnLB memory_wafv2 ''lb'' [example_association] (\<lambda>_. ''old'') = (Inr (), w') \<and>
     w' ''lb'' = ''acl'' \<and> w' ''x'' = ''old''"
proof -
  have laws: "wafv2_laws memory_wafv2 (\<lambda>w. w)"
    by (simp add: wafv2_laws_def memory_wafv2_def)
  have fresh: "wafv2_fresh memory_wafv2 (\<lambda>w. w) ''lb'' (\<lambda>_. ''old'')" by (simp add: wafv2_fresh_def memory_wafv2_def)
  have "wafv2_synthesizeWebACLAssociationsOnLB memory_wafv2 ''lb'' [example_association] (\<lambda>_. ''old'') =
      (Inr (), (\<lambda>_. ''old'')(''lb'' := ''acl''))"
    by (simp add: wafv2_synthesizeWebACLAssociationsOnLB_def example_association_def memory_wafv2_def
        wafv2_GetAssociatedWebACL_def wafv2_AssociateWebACL_def io_wrap_def io_bind_def cache_set_def io_return_def Let_def)
  with web_acl_reconciled [OF laws fresh this] show ?thesis by (simp add: example_association_def)
qed

section \<open>Protections\<close>

text \<open>
  What the Shield client and the cache document: \<open>prot\<close> gives the protection of each resource;
  creating a protection returns its identifier, and deleting one removes the protections with
  that identifier.
\<close>

definition shield_laws :: "'w shield_manager \<Rightarrow> ('w \<Rightarrow> string \<Rightarrow> ProtectionInfo option) \<Rightarrow> bool" where
  "shield_laws m prot \<longleftrightarrow>
     (\<forall>arn name x w w'. CreateProtectionWithContext m arn name w = (Inr x, w') \<longrightarrow>
        prot w' = (prot w)(arn := Some \<lparr>piName = name, piID = StringValue x\<rparr>)) \<and>
     (\<forall>x w w'. DeleteProtectionWithContext m x w = (Inr (), w') \<longrightarrow>
        prot w' = (\<lambda>arn. case prot w arn of None \<Rightarrow> None | Some i \<Rightarrow> if piID i = x then None else Some i)) \<and>
     (\<forall>arn r w w'. DescribeProtectionWithContext m arn w = (r, w') \<longrightarrow>
        prot w' = prot w \<and>
        (case r of
           Inr x \<Rightarrow> map_option (\<lambda>p. \<lparr>piName = StringValue (sspName p), piID = StringValue (sspId p)\<rparr>) x = prot w arn
         | Inl e \<Rightarrow> is_resource_not_found e \<longrightarrow> prot w arn = None)) \<and>
     (\<forall>arn x w. prot (xSet (protectionInfoCache m) arn x w) = prot w)"

lemma shield_lawsD:
  assumes "shield_laws m prot"
  shows "CreateProtectionWithContext m arn name w = (Inr x, w') \<Longrightarrow>
      prot w' = (prot w)(arn := Some \<lparr>piName = name, piID = StringValue x\<rparr>)"
    and "DeleteProtectionWithContext m y w = (Inr (), w') \<Longrightarrow>
      prot w' = (\<lambda>arn. case prot w arn of None \<Rightarrow> None | Some i \<Rightarrow> if piID i = y then None else Some i)"
    and "DescribeProtectionWithContext m arn w = (Inr z, w') \<Longrightarrow> prot w' = prot w \<and>
      map_option (\<lambda>p. \<lparr>piName = StringValue (sspName p), piID = StringValue (sspId p)\<rparr>) z = prot w arn"
    and "DescribeProtectionWithContext m arn w = (Inl e, w') \<Longrightarrow> prot w' = prot w \<and>
      (is_resource_not_found e \<longrightarrow> prot w arn = None)"
    and "prot (xSet (protectionInfoCache m) arn v w) = prot w"
  using assms unfolding shield_laws_def by (auto split: sum.splits)

lemma shield_read:
  assumes "shield_laws m prot" "\<forall>i. xGet (protectionInfoCache m) arn w = Some i \<longrightarrow> i = prot w arn"
    and "GetProtection m arn w = (Inr i, w')"
  shows "i = prot w arn \<and> prot w' = prot w"
proof (cases "xGet (protectionInfoCache m) arn w")
  case None
  obtain r w1 where r: "DescribeProtectionWithContext m arn w = (r, w1)" by (rule prod.exhaust)
  note laws = shield_lawsD(3-5) [OF assms(1)]
  show ?thesis
  proof (cases r)
    case (Inl e)
    then show ?thesis using None r assms(3) laws(2) [of arn w e w1] laws(3)
      by (auto simp: GetProtection_def io_bind_def cache_set_def io_return_def split: if_splits)
  next
    case (Inr z)
    then show ?thesis using None r assms(3) laws(1) [of arn w z w1] laws(3)
      by (auto simp: GetProtection_def io_bind_def cache_set_def io_return_def Let_def)
  qed
qed (use assms(2,3) in \<open>auto simp: GetProtection_def\<close>)

abbreviation managed_protection :: "ProtectionInfo \<Rightarrow> bool" where
  "managed_protection i \<equiv> piName i \<in> {protectionNameManaged, protectionNameManagedLegacy}"

text \<open>C40: Reconciling the Shield protection of a load balancer. When the cached entry, if there is one,
  agrees with Shield, a successful run with a desired protection leaves the existing protection,
  or else a new one under the controller's name; a run without one removes the protection only
  when its name is one the controller gives, and leaves any other protection in place.\<close>

theorem shield_protection_reconciled:
  assumes "shield_laws m prot" "\<forall>i. xGet (protectionInfoCache m) lbARN w = Some i \<longrightarrow> i = prot w lbARN"
    and "synthesizeProtectionsOnLB m lbARN resProtections w = (Inr (), w')"
  shows "case prot w lbARN of
      None \<Rightarrow> if resProtections = [] then prot w' = prot w
        else \<exists>i. prot w' = (prot w)(lbARN := Some i) \<and> piName i = protectionNameManaged
    | Some i \<Rightarrow> if resProtections \<noteq> [] \<or> \<not> managed_protection i then prot w' = prot w
        else prot w' lbARN = None"
proof -
  have len: "\<not> length resProtections > 1"
    using assms(3) by (auto simp: synthesizeProtectionsOnLB_def io_fail_def)
  then have one: "length resProtections = 1 \<longleftrightarrow> resProtections \<noteq> []" by (cases resProtections) auto
  note run = assms(3) [unfolded synthesizeProtectionsOnLB_def if_not_P [OF len] Let_def one]
  from io_bind_InrD [OF run] obtain c w1 where c: "GetProtection m lbARN w = (Inr c, w1)"
    and rest: "(case c of
            Some info \<Rightarrow>
              if \<not> resProtections \<noteq> [] then
                if managed_protection info then
                  io_wrap ''failed to delete shield protection on LoadBalancer'' (DeleteProtection m lbARN (piID info))
                else io_return ()
              else io_return ()
          | None \<Rightarrow>
              if resProtections \<noteq> [] then
                io_wrap ''failed to create shield protection on LoadBalancer''
                  (io_bind (CreateProtection m lbARN protectionNameManaged) (\<lambda>_. io_return ()))
              else io_return ()) w1 = (Inr (), w')" by (elim exE conjE)
  note read = shield_read [OF assms(1,2) c] and laws = shield_lawsD [OF assms(1)]
  show ?thesis
  proof (cases c)
    case None
    then show ?thesis using read rest laws(1) [of lbARN protectionNameManaged w1] laws(5)
      by (auto simp: CreateProtection_def io_bind_def cache_set_def io_return_def Let_def
          split: prod.splits sum.splits if_splits)
  next
    case (Some i)
    then show ?thesis using read rest laws(2) [of "piID i" w1] laws(5)
      by (auto simp: DeleteProtection_def io_bind_def cache_set_def io_return_def
          split: prod.splits sum.splits if_splits)
  qed
qed

definition memory_shield :: "(string \<Rightarrow> ProtectionInfo option) shield_manager" where
  "memory_shield = \<lparr>
     CreateProtectionWithContext = \<lambda>arn name w. (Inr (Some ''id''), w(arn := Some \<lparr>piName = name, piID = ''id''\<rparr>)),
     DeleteProtectionWithContext = \<lambda>x w. (Inr (), \<lambda>arn. case w arn of None \<Rightarrow> None | Some i \<Rightarrow> if piID i = x then None else Some i),
     DescribeProtectionWithContext = \<lambda>arn w.
       (case w arn of None \<Rightarrow> Inl (AwsError ''ResourceNotFoundException'' [])
        | Some i \<Rightarrow> Inr (Some \<lparr>sspName = Some (piName i), sspId = Some (piID i)\<rparr>), w),
     GetSubscriptionStateWithContext = \<lambda>w. (Inr (Some ''ACTIVE''), w),
     protectionInfoCache = \<lparr>xGet = \<lambda>_ _. None, xSet = \<lambda>_ _ w. w\<rparr>,
     subscriptionStateCache = \<lparr>xGet = \<lambda>_ _. None, xSet = \<lambda>_ _ w. w\<rparr>\<rparr>"

theorem shield_protection_reconciled_witness:
  "\<exists>w'. synthesizeProtectionsOnLB memory_shield ''lb'' [] (\<lambda>_. Some \<lparr>piName = ''by hand'', piID = ''1''\<rparr>) = (Inr (), w') \<and>
     w' ''lb'' = Some \<lparr>piName = ''by hand'', piID = ''1''\<rparr>"
proof -
  let ?w = "\<lambda>_ :: string. Some \<lparr>piName = ''by hand'', piID = ''1''\<rparr>"
  have laws: "shield_laws memory_shield (\<lambda>w. w)"
    by (auto simp: shield_laws_def memory_shield_def is_resource_not_found_def split: option.splits)
  have fresh: "\<forall>i. xGet (protectionInfoCache memory_shield) ''lb'' ?w = Some i \<longrightarrow> i = ?w ''lb''"
    by (simp add: memory_shield_def)
  have run: "synthesizeProtectionsOnLB memory_shield ''lb'' [] ?w = (Inr (), ?w)"
    by (simp add: synthesizeProtectionsOnLB_def memory_shield_def GetProtection_def io_bind_def cache_set_def
        io_return_def Let_def protectionNameManaged_def protectionNameManagedLegacy_def)
  from shield_protection_reconciled [OF laws fresh run] run show ?thesis by simp
qed

end
