(* ===== verification/Stack_Deployer.thy ===== *)
theory Stack_Deployer
  imports Addons
begin

text \<open>
  Deploying a stack, \<^verbatim>\<open>pkg/deploy/stack_deployer.go\<close>: the synthesizers run in a fixed order, and their
  clean-up in the reverse order once all of them succeeded.
\<close>

section \<open>The deployer\<close>

record 's ResourceSynthesizer =
  Synthesize :: "('s, unit) io"
  PostSynthesize :: "('s, unit) io"

record 'w stack_deployer = "'w deployer" +
  sdWAFV2Enabled :: bool
  sdWAFEnabled :: bool
  sdShieldEnabled :: bool
  sdWAFRegionalAvailable :: bool
  sdWafv2 :: "'w wafv2_manager"
  sdWafRegional :: "'w wafr_manager"
  sdShield :: "'w shield_manager"

text \<open>The synthesizers with nothing to do in \<^verbatim>\<open>PostSynthesize\<close>.\<close>

definition no_post :: "('s, unit) io \<Rightarrow> 's ResourceSynthesizer" where
  "no_post m = \<lparr>Synthesize = m, PostSynthesize = io_return ()\<rparr>"

definition core_synthesizers :: "'w stack_deployer \<Rightarrow> 'w deploy_state ResourceSynthesizer list" where
  "core_synthesizers d =
     [\<lparr>Synthesize = SecurityGroup_Synthesize d, PostSynthesize = SecurityGroup_PostSynthesize d\<rparr>,
      \<lparr>Synthesize = TargetGroup_Synthesize d, PostSynthesize = TargetGroup_PostSynthesize d\<rparr>,
      no_post (LoadBalancer_Synthesize d),
      no_post (Listener_Synthesize d),
      no_post (ListenerRule_Synthesize d),
      \<lparr>Synthesize = TargetGroupBinding_Synthesize d, PostSynthesize = TargetGroupBinding_PostSynthesize d\<rparr>]"

definition stack_synthesizers ::
  "'w stack_deployer \<Rightarrow> ('w deploy_state, 'w deploy_state ResourceSynthesizer list) io" where
  "stack_synthesizers d s =
     (let base = core_synthesizers d @
            (if sdWAFV2Enabled d then [no_post (wafv2_Synthesize (sdWafv2 d) d)] else []) @
            (if sdWAFEnabled d \<and> sdWAFRegionalAvailable d then [no_post (wafr_Synthesize (sdWafRegional d) d)] else [])
      in if sdShieldEnabled d then
           (case on_world (IsSubscribed (sdShield d)) s of
              (Inl err, s') \<Rightarrow> (Inr base, s')
            | (Inr shieldSubscribed, s') \<Rightarrow>
                (Inr (base @ (if shieldSubscribed then [no_post (Shield_Synthesize (sdShield d) d)] else [])), s'))
         else (Inr base, s))"

definition Deploy :: "'w stack_deployer \<Rightarrow> ('w deploy_state, unit) io" where
  "Deploy d =
     io_bind (modify (\<lambda>s. s\<lparr>unmatchedSDKSGs := [], unmatchedSDKTGs := [], unmatchedK8sTGBs := []\<rparr>)) (\<lambda>_.
     io_bind (stack_synthesizers d) (\<lambda>synthesizers.
     io_bind (io_forM Synthesize synthesizers) (\<lambda>_.
       io_forM PostSynthesize (rev synthesizers))))"

section \<open>What deploying does to the objects of the stack\<close>

text \<open>An object without its status, and the objects whose status is set.\<close>

fun erase :: "Resource \<Rightarrow> Resource" where
  "erase (SecurityGroup m spec _) = SecurityGroup m spec None"
| "erase (TargetGroup m spec _) = TargetGroup m spec None"
| "erase (LoadBalancer m spec _) = LoadBalancer m spec None"
| "erase (Listener m spec _) = Listener m spec None"
| "erase (ListenerRule m spec _) = ListenerRule m spec None"
| "erase (TargetGroupBindingResource m spec _) = TargetGroupBindingResource m spec None"
| "erase res = res"

fun fulfilled :: "Resource \<Rightarrow> bool" where
  "fulfilled (SecurityGroup m spec st) \<longleftrightarrow> st \<noteq> None"
| "fulfilled (TargetGroup m spec st) \<longleftrightarrow> st \<noteq> None"
| "fulfilled (LoadBalancer m spec st) \<longleftrightarrow> st \<noteq> None"
| "fulfilled (Listener m spec st) \<longleftrightarrow> st \<noteq> None"
| "fulfilled (ListenerRule m spec st) \<longleftrightarrow> st \<noteq> None"
| "fulfilled (TargetGroupBindingResource m spec st) \<longleftrightarrow> st \<noteq> None"
| "fulfilled res \<longleftrightarrow> True"

definition grows :: "model_state \<Rightarrow> model_state \<Rightarrow> bool" where
  "grows st st' \<longleftrightarrow> stack st' = stack st \<and> map erase (heap st') = map erase (heap st) \<and>
     (\<forall>r < length (heap st). fulfilled (heap st ! r) \<longrightarrow> fulfilled (heap st' ! r))"

lemma growsD:
  assumes "grows st st'"
  shows "stack st' = stack st" "length (heap st') = length (heap st)"
    and "r < length (heap st) \<Longrightarrow> erase (heap st' ! r) = erase (heap st ! r)"
    and "r < length (heap st) \<Longrightarrow> fulfilled (heap st ! r) \<Longrightarrow> fulfilled (heap st' ! r)"
proof -
  have e: "map erase (heap st') = map erase (heap st)" using assms by (simp add: grows_def)
  show l: "length (heap st') = length (heap st)" using arg_cong [OF e, of length] by simp
  show "r < length (heap st) \<Longrightarrow> erase (heap st' ! r) = erase (heap st ! r)"
    using arg_cong [OF e, of "\<lambda>xs. xs ! r"] l by simp
qed (use assms in \<open>auto simp: grows_def\<close>)

abbreviation dgrows :: "'w deploy_state \<Rightarrow> 'w deploy_state \<Rightarrow> bool" where
  "dgrows s s' \<equiv> grows (dsModel s) (dsModel s')"

lemma grows_trans: "grows a b \<Longrightarrow> grows b c \<Longrightarrow> grows a c"
  using growsD(2) [of a b] by (auto simp: grows_def)

interpretation dg: effect_preorder "dgrows :: 'w deploy_state \<Rightarrow> 'w deploy_state \<Rightarrow> bool"
  by unfold_locales (simp add: grows_def, rule grows_trans)

lemma grows_update_object:
  assumes "\<And>res. erase (f res) = erase res" "\<And>res. fulfilled res \<Longrightarrow> fulfilled (f res)"
  shows "grows st (update_object r f st)"
  using assms by (auto simp: grows_def update_object_def map_update nth_list_update list_update_same_conv)

lemma grows_SetStatus:
  "grows st (SetStatus_SecurityGroup r s1 st)" "grows st (SetStatus_TargetGroup r s2 st)"
  "grows st (SetStatus_LoadBalancer r s3 st)" "grows st (SetStatus_Listener r s4 st)"
  "grows st (SetStatus_ListenerRule r s5 st)" "grows st (SetStatus_TargetGroupBinding r s6 st)"
  unfolding SetStatus_defs by (rule grows_update_object; auto split: Resource.splits)+

lemma keeps_dgrows [keeps]:
  "keeps dgrows (on_world m)" "keeps dgrows get_model"
  "keeps dgrows (modify (\<lambda>s. s\<lparr>unmatchedSDKSGs := x1\<rparr>))" "keeps dgrows (modify (\<lambda>s. s\<lparr>unmatchedSDKTGs := x2\<rparr>))"
  "keeps dgrows (modify (\<lambda>s. s\<lparr>unmatchedK8sTGBs := x3\<rparr>))"
  by (auto simp: keeps_def on_world_def get_model_def modify_def grows_def split: prod.splits)

lemma keeps_set_status [keeps]: "(\<And>st. grows st (f st)) \<Longrightarrow> keeps dgrows (set_status f)"
  by (auto simp: keeps_def set_status_def modify_def)

lemma keeps_each [keeps]:
  assumes "\<And>r v st. grows st (SetStatus r v st)"
  shows "keeps dgrows (create_each create SetStatus rs)" "keeps dgrows (update_each update SetStatus ps)"
  unfolding create_each_def update_each_def by (intro keeps assms)+

lemma keeps_synthesize:
  "keeps dgrows (SecurityGroup_Synthesize d)" "keeps dgrows (TargetGroup_Synthesize d)"
  "keeps dgrows (LoadBalancer_Synthesize d)" "keeps dgrows (Listener_Synthesize d)"
  "keeps dgrows (ListenerRule_Synthesize d)" "keeps dgrows (TargetGroupBinding_Synthesize d)"
  unfolding SecurityGroup_Synthesize_def TargetGroup_Synthesize_def LoadBalancer_Synthesize_def
    Listener_Synthesize_def ListenerRule_Synthesize_def TargetGroupBinding_Synthesize_def
    synthesizeListenersOnLB_def synthesizeListenerRulesOnListener_def
  by (intro keeps grows_SetStatus)+

lemma keeps_addons:
  "keeps dgrows (wafv2_Synthesize m d)" "keeps dgrows (wafr_Synthesize m' d)" "keeps dgrows (Shield_Synthesize m'' d)"
  unfolding wafv2_Synthesize_def wafr_Synthesize_def Shield_Synthesize_def by (intro keeps)+

lemma keeps_world_loop: "keeps dgrows (io_forM (\<lambda>x. on_world (f x)) xs)"
  by (intro keeps)

lemma keeps_post:
  "keeps dgrows (SecurityGroup_PostSynthesize d)" "keeps dgrows (TargetGroup_PostSynthesize d)"
  "keeps dgrows (TargetGroupBinding_PostSynthesize d)"
  by (auto intro!: keepsI simp: SecurityGroup_PostSynthesize_def TargetGroup_PostSynthesize_def
      TargetGroupBinding_PostSynthesize_def dest: keepsD [OF keeps_world_loop])

section \<open>Kinds of resources\<close>

text \<open>A loop whose body sets the status of each of its resources.\<close>

lemma loop_fulfils:
  assumes "io_forM body xs s = (Inr (), s')" "\<And>x. x \<in> set xs \<Longrightarrow> keeps dgrows (body x)"
    and "\<And>x. x \<in> set xs \<Longrightarrow> f x < length (heap (dsModel s))"
    and "\<And>x s1 s2. x \<in> set xs \<Longrightarrow> dgrows s s1 \<Longrightarrow> body x s1 = (Inr (), s2) \<Longrightarrow> fulfilled (heap (dsModel s2) ! f x)"
  shows "\<forall>x\<in>set xs. fulfilled (heap (dsModel s') ! f x)"
  using assms
proof (induction xs arbitrary: s)
  case (Cons x xs)
  have "io_bind (body x) (\<lambda>_. io_forM body xs) s = (Inr (), s')" using Cons.prems(1) by simp
  from io_bind_unitD [OF this] obtain s1 where s1: "body x s = (Inr (), s1)" "io_forM body xs s1 = (Inr (), s')"
    by (elim exE conjE)
  have g1: "dgrows s s1" by (rule keepsD [OF Cons.prems(2) s1(1)]) simp
  have g2: "dgrows s1 s'" by (rule keepsD [where m = "io_forM body xs", OF _ s1(2)]) (use Cons.prems(2) in \<open>intro keeps, simp\<close>)
  have len: "f y < length (heap (dsModel s1))" if "y \<in> set (x # xs)" for y
    using Cons.prems(3) [OF that] growsD(2) [OF g1] by simp
  have "\<forall>y\<in>set xs. fulfilled (heap (dsModel s') ! f y)"
  proof (rule Cons.IH [OF s1(2)])
    fix y s2 s3 assume "y \<in> set xs" "dgrows s1 s2" "body y s2 = (Inr (), s3)"
    then show "fulfilled (heap (dsModel s3) ! f y)"
      using Cons.prems(4) [of y s2 s3] grows_trans [OF g1] by simp
  qed (use Cons.prems(2) len in auto)
  moreover have "fulfilled (heap (dsModel s1) ! f x)" by (rule Cons.prems(4) [OF _ dg.R_refl s1(1)]) simp
  then have "fulfilled (heap (dsModel s') ! f x)" using growsD(4) [OF g2] len by simp
  ultimately show ?case by simp
qed simp

text \<open>What the synthesizers rely on for one kind of resource: how its objects are listed and how
  their status is set.\<close>

locale resource_kind =
  fixes view :: "ref \<Rightarrow> Resource \<Rightarrow> 'spec res option" and rtype :: string
    and SetStatus :: "ref \<Rightarrow> 'st \<Rightarrow> model_state \<Rightarrow> model_state"
  assumes view_type: "view r res \<noteq> None \<longleftrightarrow> reflect_TypeOf res = rtype"
    and view_ref: "view r res = Some x \<Longrightarrow> rsRef x = r \<and> rsID x = resID (res_meta res)"
    and view_erase: "view r (erase res) = view r res"
    and status_grows: "grows st (SetStatus r v st)"
    and status_set: "r < length (heap st) \<Longrightarrow> reflect_TypeOf (heap st ! r) = rtype \<Longrightarrow>
      fulfilled (heap (SetStatus r v st) ! r)"
begin

lemma view_grows:
  "grows st st' \<Longrightarrow> r < length (heap st) \<Longrightarrow> view r (heap st' ! r) = view r (heap st ! r)"
  using growsD(3) [of st st' r] view_erase by metis

lemma list_as_mset:
  assumes "stack_ok st" "range_order order"
  shows "mset (list_as view rtype order st) = mset (List.map_filter (\<lambda>r. view r (heap st ! r)) [0..<length (heap st)])"
proof -
  let ?n = "length (heap st)" and ?u = "\<lambda>r. computeResourceUID (heap st ! r)"
  let ?p = "\<lambda>(uid, r). ResType uid = rtype" and ?v = "\<lambda>r. view r (heap st ! r)"
  have res: "resources (stack st) = map (\<lambda>r. (?u r, r)) [0..<?n]" using assms(1) by (simp add: stack_ok_def)
  have type: "ResType (?u r) = rtype \<longleftrightarrow> ?v r \<noteq> None" for r
    using view_type [of r "heap st ! r"] by (auto simp: computeResourceUID_def)
  have "mset (map snd (filter ?p (order (resources (stack st))))) = mset (map snd (filter ?p (resources (stack st))))"
    using range_orderD [OF assms(2)] by (simp add: mset_map mset_filter)
  also have "map snd (filter ?p (resources (stack st))) = filter (\<lambda>r. ?v r \<noteq> None) [0..<?n]"
    unfolding res by (simp add: filter_map comp_def type)
  finally have list: "mset (ListResources order rtype st) = mset (filter (\<lambda>r. ?v r \<noteq> None) [0..<?n])"
    by (simp add: ListResources_def)
  have mf: "mset (List.map_filter g xs) = image_mset (the \<circ> g) (filter_mset (\<lambda>x. g x \<noteq> None) (mset xs))" for g :: "ref \<Rightarrow> 'spec res option" and xs
    by (simp add: List.map_filter_def mset_map mset_filter)
  have "mset (list_as view rtype order st) =
      mset (List.map_filter (\<lambda>r. if r < ?n then ?v r else None) (filter (\<lambda>r. ?v r \<noteq> None) [0..<?n]))"
    unfolding list_as_def mf list ..
  also have "List.map_filter (\<lambda>r. if r < ?n then ?v r else None) (filter (\<lambda>r. ?v r \<noteq> None) [0..<?n]) = List.map_filter ?v [0..<?n]"
    by (auto simp: List.map_filter_def intro!: map_cong filter_cong)
  finally show ?thesis .
qed

lemma list_as_iff:
  assumes "stack_ok st" "range_order order"
  shows "x \<in> set (list_as view rtype order st) \<longleftrightarrow> (\<exists>r < length (heap st). view r (heap st ! r) = Some x)"
proof -
  have "set (list_as view rtype order st) = set (List.map_filter (\<lambda>r. view r (heap st ! r)) [0..<length (heap st)])"
    using list_as_mset [OF assms] by (rule mset_eq_setD)
  then show ?thesis by (auto simp: set_map_filter)
qed

lemma list_as_distinct:
  assumes "stack_ok st" "range_order order"
  shows "distinct (map rsID (list_as view rtype order st))"
proof -
  let ?n = "length (heap st)" and ?v = "\<lambda>r. view r (heap st ! r)"
  let ?rs = "filter (\<lambda>r. ?v r \<noteq> None) [0..<?n]"
  have "map rsID (List.map_filter ?v [0..<?n]) = map (\<lambda>r. resID (res_meta (heap st ! r))) ?rs"
    using view_ref by (auto simp: List.map_filter_def)
  moreover have "inj_on (\<lambda>r. resID (res_meta (heap st ! r))) (set ?rs)"
  proof (rule inj_onI)
    fix a b assume *: "a \<in> set ?rs" "b \<in> set ?rs" "resID (res_meta (heap st ! a)) = resID (res_meta (heap st ! b))"
    then have "computeResourceUID (heap st ! a) = computeResourceUID (heap st ! b)"
      using view_type by (auto simp: computeResourceUID_def)
    then show "a = b" using * assms(1) by (auto simp: stack_ok_def distinct_conv_nth)
  qed
  ultimately have "distinct (map rsID (List.map_filter ?v [0..<?n]))" by (simp add: distinct_map)
  then show ?thesis
    using list_as_mset [OF assms] mset_eq_imp_distinct_iff by (metis mset_map)
qed

lemma body_fulfils:
  assumes "dgrows s s1" "r < length (heap (dsModel s))" "reflect_TypeOf (heap (dsModel s) ! r) = rtype"
    and "io_bind get_model (\<lambda>st. io_bind (on_world (act st)) (\<lambda>status. set_status (SetStatus r status))) s1 = (Inr (), s2)"
  shows "fulfilled (heap (dsModel s2) ! r)"
proof -
  from assms(4) obtain st v s3 where s3: "on_world (act st) s1 = (Inr v, s3)" "set_status (SetStatus r v) s3 = (Inr (), s2)"
    by (auto dest!: io_bind_InrD simp: get_model_def)
  have "dgrows s1 s3" by (rule keepsD [OF keeps_dgrows(1) s3(1)])
  then have g: "dgrows s s3" using assms(1) grows_trans by blast
  have "reflect_TypeOf (heap (dsModel s3) ! r) = rtype"
    using view_grows [OF g assms(2)] assms(3) view_type by metis
  then show ?thesis
    using s3(2) status_set [of r "dsModel s3" v] growsD(2) [OF g] assms(2) by (auto simp: set_status_def modify_def)
qed

text \<open>Creating the unmatched and updating the matched resources, when between them they are all
  resources of the kind, gives every object of the kind a status.\<close>

lemma all_fulfilled:
  assumes ok: "stack_ok st" and ord: "range_order order"
    and cover: "set (list_as view rtype order st) \<subseteq> fst ` set matched \<union> set unmatched"
      "fst ` set matched \<union> set unmatched \<subseteq> set (list_as view rtype order st)"
    and g: "grows st (dsModel s)"
    and c: "create_each create SetStatus unmatched s = (Inr (), s1)"
    and u: "update_each update SetStatus matched s1 = (Inr (), s2)"
    and r: "r < length (heap st)" "reflect_TypeOf (heap st ! r) = rtype"
  shows "fulfilled (heap (dsModel s2) ! r)"
proof -
  have kind: "rsRef x < length (heap st) \<and> reflect_TypeOf (heap st ! rsRef x) = rtype"
    if "x \<in> fst ` set matched \<union> set unmatched" for x
  proof -
    have "x \<in> set (list_as view rtype order st)" using that cover(2) by blast
    then obtain r' where "r' < length (heap st)" "view r' (heap st ! r') = Some x"
      unfolding list_as_iff [OF ok ord] by (elim exE conjE)
    then show ?thesis using view_ref [of r' "heap st ! r'" x] view_type [of r' "heap st ! r'"] by auto
  qed
  have type: "reflect_TypeOf (heap st' ! r') = rtype" if "grows st st'" "r' < length (heap st)" "reflect_TypeOf (heap st ! r') = rtype" for st' r'
    using view_grows [OF that(1,2)] view_type that(3) by metis
  have g1: "dgrows s s1" by (rule keepsD [OF keeps_each(1) c]) (rule status_grows)
  have g2: "dgrows s1 s2" by (rule keepsD [OF keeps_each(2) u]) (rule status_grows)
  have gs1: "grows st (dsModel s1)" using grows_trans [OF g g1] .
  have kind': "rsRef a < length (heap (dsModel s1)) \<and> reflect_TypeOf (heap (dsModel s1) ! rsRef a) = rtype"
    if "(a, b) \<in> set matched" for a b
    using kind [of a] type [OF gs1, of "rsRef a"] growsD(2) [OF gs1] that by force
  have c': "\<forall>x\<in>set unmatched. fulfilled (heap (dsModel s1) ! rsRef x)"
    by (rule loop_fulfils [OF c [unfolded create_each_def]])
      (use kind growsD(2) [OF g] type [OF g] in \<open>auto intro!: keeps status_grows elim!: body_fulfils [rotated -1]\<close>)
  have u': "\<forall>p\<in>set matched. fulfilled (heap (dsModel s2) ! rsRef (fst p))"
    by (rule loop_fulfils [OF u [unfolded update_each_def]])
      (use kind' in \<open>auto intro!: keeps status_grows elim!: body_fulfils [rotated -1]\<close>)
  obtain x where x: "view r (heap st ! r) = Some x" using r(2) view_type [of r "heap st ! r"] by auto
  then have "x \<in> fst ` set matched \<union> set unmatched" "rsRef x = r"
    using cover(1) list_as_iff [OF ok ord] r(1) view_ref by auto
  then show ?thesis using c' u' growsD(4) [OF g2, of r] growsD(2) [OF gs1] r(1) by auto
qed

end

lemma status_set_update:
  "r < length (heap st) \<Longrightarrow> fulfilled (f (heap st ! r)) \<Longrightarrow> fulfilled (heap (update_object r f st) ! r)"
  by (simp add: update_object_def)

lemma view_erase:
  "as_sg r (erase res) = as_sg r res" "as_tg r (erase res) = as_tg r res" "as_lb r (erase res) = as_lb r res" "as_ls r (erase res) = as_ls r res" "as_lr r (erase res) = as_lr r res" "as_tgb r (erase res) = as_tgb r res"
  by (cases res; simp)+

lemma view_type:
  "as_sg r res \<noteq> None \<longleftrightarrow> reflect_TypeOf res = ''*ec2.SecurityGroup''"
  "as_tg r res \<noteq> None \<longleftrightarrow> reflect_TypeOf res = ''*elbv2.TargetGroup''"
  "as_lb r res \<noteq> None \<longleftrightarrow> reflect_TypeOf res = ''*elbv2.LoadBalancer''"
  "as_ls r res \<noteq> None \<longleftrightarrow> reflect_TypeOf res = ''*elbv2.Listener''"
  "as_lr r res \<noteq> None \<longleftrightarrow> reflect_TypeOf res = ''*elbv2.ListenerRule''"
  "as_tgb r res \<noteq> None \<longleftrightarrow> reflect_TypeOf res = ''*elbv2.TargetGroupBindingResource''"
  by (cases res; simp)+

lemma view_ref:
  "as_sg r res = Some x1 \<Longrightarrow> rsRef x1 = r \<and> rsID x1 = resID (res_meta res)"
  "as_tg r res = Some x2 \<Longrightarrow> rsRef x2 = r \<and> rsID x2 = resID (res_meta res)"
  "as_lb r res = Some x3 \<Longrightarrow> rsRef x3 = r \<and> rsID x3 = resID (res_meta res)"
  "as_ls r res = Some x4 \<Longrightarrow> rsRef x4 = r \<and> rsID x4 = resID (res_meta res)"
  "as_lr r res = Some x5 \<Longrightarrow> rsRef x5 = r \<and> rsID x5 = resID (res_meta res)"
  "as_tgb r res = Some x6 \<Longrightarrow> rsRef x6 = r \<and> rsID x6 = resID (res_meta res)"
  by (cases res; auto)+

lemma status_set:
  assumes "r < length (heap st)"
  shows "reflect_TypeOf (heap st ! r) = ''*ec2.SecurityGroup'' \<Longrightarrow> fulfilled (heap (SetStatus_SecurityGroup r v1 st) ! r)"
    and "reflect_TypeOf (heap st ! r) = ''*elbv2.TargetGroup'' \<Longrightarrow> fulfilled (heap (SetStatus_TargetGroup r v2 st) ! r)"
    and "reflect_TypeOf (heap st ! r) = ''*elbv2.LoadBalancer'' \<Longrightarrow> fulfilled (heap (SetStatus_LoadBalancer r v3 st) ! r)"
    and "reflect_TypeOf (heap st ! r) = ''*elbv2.Listener'' \<Longrightarrow> fulfilled (heap (SetStatus_Listener r v4 st) ! r)"
    and "reflect_TypeOf (heap st ! r) = ''*elbv2.ListenerRule'' \<Longrightarrow> fulfilled (heap (SetStatus_ListenerRule r v5 st) ! r)"
    and "reflect_TypeOf (heap st ! r) = ''*elbv2.TargetGroupBindingResource'' \<Longrightarrow> fulfilled (heap (SetStatus_TargetGroupBinding r v6 st) ! r)"
  unfolding SetStatus_defs using assms by (cases "heap st ! r"; auto intro!: status_set_update)+

interpretation sgk: resource_kind as_sg "''*ec2.SecurityGroup''" SetStatus_SecurityGroup
  by unfold_locales (erule view_type view_ref status_set | rule view_type view_ref view_erase grows_SetStatus status_set, assumption?)+

interpretation tgk: resource_kind as_tg "''*elbv2.TargetGroup''" SetStatus_TargetGroup
  by unfold_locales (erule view_type view_ref status_set | rule view_type view_ref view_erase grows_SetStatus status_set, assumption?)+

interpretation lbk: resource_kind as_lb "''*elbv2.LoadBalancer''" SetStatus_LoadBalancer
  by unfold_locales (erule view_type view_ref status_set | rule view_type view_ref view_erase grows_SetStatus status_set, assumption?)+

interpretation lsk: resource_kind as_ls "''*elbv2.Listener''" SetStatus_Listener
  by unfold_locales (erule view_type view_ref status_set | rule view_type view_ref view_erase grows_SetStatus status_set, assumption?)+

interpretation lrk: resource_kind as_lr "''*elbv2.ListenerRule''" SetStatus_ListenerRule
  by unfold_locales (erule view_type view_ref status_set | rule view_type view_ref view_erase grows_SetStatus status_set, assumption?)+

interpretation tgbk: resource_kind as_tgb "''*elbv2.TargetGroupBindingResource''" SetStatus_TargetGroupBinding
  by unfold_locales (erule view_type view_ref status_set | rule view_type view_ref view_erase grows_SetStatus status_set, assumption?)+

end
