(* ===== verification/Deploy_Correct.thy ===== *)
theory Deploy_Correct
  imports Stack_Deployer
begin

text \<open>
  What a deployment achieves. A deployment that succeeds has given a status to every object that a
  token can refer to. A deployment that fails before the clean-up has issued no call that
  deletes a target group or a security group.
\<close>

section \<open>The matchings cover the desired resources\<close>

lemma map_by_resource_id_tagged:
  assumes "map_by_resource_id tags err key ss = Inr g"
  shows "\<forall>s\<in>set ss. map_of (tags s) key \<noteq> None"
  using map_by_resource_id_missing [of _ ss tags key err] assms by fastforce

lemma matcher_covers:
  assumes "res_matcher kr ks fits valid match" "valid rs ss" "match rs ss = (m, ur, us)"
  shows "fst ` set m \<union> set ur = set rs"
proof -
  have m: "(r, s) \<in> set m \<longleftrightarrow> r \<in> set rs \<and> s \<in> set ss \<and> kr r = ks s \<and> fits r s" for r s
    by (rule res_matcher.matched_iff [OF assms])
  have ur: "r \<in> set ur \<longleftrightarrow> r \<in> set rs \<and> (\<forall>s\<in>set ss. kr r = ks s \<longrightarrow> \<not> fits r s)" for r
    by (rule res_matcher.unmatched_res_iff [OF assms])
  have "r \<in> fst ` set m \<longleftrightarrow> (\<exists>s. (r, s) \<in> set m)" for r by force
  then have "r \<in> fst ` set m \<union> set ur \<longleftrightarrow> r \<in> set rs" for r unfolding Un_iff ur m by blast
  then show ?thesis by (rule set_eqI)
qed

lemma match_first_covers:
  assumes "lists_sorted List" "distinct (map kr rs)" "match_first List (index_by kr rs) (group_by ks ss) = (m, ur, us)"
  shows "fst ` set m \<union> set ur = set rs"
proof -
  note mem = lists_sortedD(1) [OF assms(1)]
  have "fst ` set m \<union> set ur = pick kr rs ` (kr ` set rs)"
  proof -
    have "m = map (\<lambda>k. (pick kr rs k, hd (group ks ss k))) (List (kr ` set rs \<inter> ks ` set ss))"
      "ur = map (pick kr rs) (List (kr ` set rs - ks ` set ss))"
      using assms(3) unfolding match_first_form [OF assms(1)] Let_def by auto
    then have "fst ` set m = pick kr rs ` (kr ` set rs \<inter> ks ` set ss)" "set ur = pick kr rs ` (kr ` set rs - ks ` set ss)"
      by (simp_all add: mem image_image)
    then show ?thesis by (simp add: image_Un [symmetric] Int_Diff_Un)
  qed
  also have "\<dots> = set rs" using pick_key [OF assms(2)] by force
  finally show ?thesis .
qed

lemma target_groups_covered:
  assumes "lists_sorted List" "distinct (map rsID rs)" "matchResAndSDKTargetGroups List rs ss key g = Inr (m, ur, us)"
  shows "fst ` set m \<union> set ur = set rs"
proof -
  have "\<forall>tg\<in>set ss. map_of (nil_map (twTags tg)) key \<noteq> None"
    using assms(3) unfolding matchResAndSDKTargetGroups_def mapSDKTargetGroupByResourceID_def Let_def
    by (auto simp: result_bind_def split: sum.splits dest!: map_by_resource_id_tagged)
  then show ?thesis using assms matchResAndSDKTargetGroups_eq [OF assms(1), of ss key rs g]
    by (intro matcher_covers [OF match_by_id_matcher [OF sorted_list_of_set_lists_sorted]]) simp_all
qed

lemma load_balancers_covered:
  assumes "lists_sorted List" "distinct (map rsID rs)" "matchResAndSDKLoadBalancers List rs ss key = Inr (m, ur, us)"
  shows "fst ` set m \<union> set ur = set rs"
proof -
  have "\<forall>lb\<in>set ss. map_of (nil_map (lwTags lb)) key \<noteq> None"
    using assms(3) unfolding matchResAndSDKLoadBalancers_def mapSDKLoadBalancerByResourceID_def Let_def
    by (auto simp: result_bind_def split: sum.splits dest!: map_by_resource_id_tagged)
  then show ?thesis using assms matchResAndSDKLoadBalancers_eq [OF assms(1), of ss key rs]
    by (intro matcher_covers [OF match_by_id_matcher [OF sorted_list_of_set_lists_sorted]]) simp_all
qed

lemma security_groups_covered:
  assumes "lists_sorted List" "distinct (map rsID rs)" "matchResAndSDKSecurityGroups List rs ss key = Inr (m, ur, us)"
  shows "fst ` set m \<union> set ur = set rs"
proof -
  have "\<forall>sg\<in>set ss. map_of (nil_map (sgiTags sg)) key \<noteq> None"
    using assms(3) unfolding matchResAndSDKSecurityGroups_def mapSDKSecurityGroupByResourceID_def Let_def
    by (auto simp: result_bind_def split: sum.splits dest!: map_by_resource_id_tagged)
  then have "match_first List (index_by rsID rs) (group_by (sg_id key) ss) = (m, ur, us)"
    using assms(3) by (simp add: matchResAndSDKSecurityGroups_def mapResSecurityGroupByResourceID_def
        mapSDKSecurityGroupByResourceID_def map_by_resource_id_ok)
  then show ?thesis by (rule match_first_covers [OF assms(1,2)])
qed

section \<open>Every object gets its status\<close>

context resource_kind
begin

lemma synthesized:
  assumes ok: "stack_ok (dsModel s)" and ord: "range_order order"
    and run: "io_bind (on_world look) (\<lambda>sdks. io_bind (io_lift (match sdks)) (\<lambda>(m, ur, us).
        io_bind (pre us) (\<lambda>_. io_bind (create_each c SetStatus ur) (\<lambda>_. update_each u SetStatus m)))) s = (Inr (), s')"
    and pre: "\<And>us. keeps dgrows (pre us :: ('w deploy_state, unit) io)"
    and cover: "\<And>sdks m ur us. match sdks = Inr (m, ur, us) \<Longrightarrow>
        fst ` set m \<union> set ur = set (list_as view rtype order (dsModel s))"
    and r: "r < length (heap (dsModel s))" "reflect_TypeOf (heap (dsModel s) ! r) = rtype"
  shows "fulfilled (heap (dsModel s') ! r)"
proof -
  from io_bind_InrD [OF run] obtain sdks s1 where 1: "on_world look s = (Inr sdks, s1)"
    and rest: "io_bind (io_lift (match sdks)) (\<lambda>(m, ur, us).
        io_bind (pre us) (\<lambda>_. io_bind (create_each c SetStatus ur) (\<lambda>_. update_each u SetStatus m))) s1 = (Inr (), s')"
    by (elim exE conjE)
  obtain m ur us where 2: "match sdks = Inr (m, ur, us)"
    "io_bind (pre us) (\<lambda>_. io_bind (create_each c SetStatus ur) (\<lambda>_. update_each u SetStatus m)) s1 = (Inr (), s')"
    using rest by (cases "match sdks") (auto simp: io_bind_def io_lift_def)
  from io_bind_unitD [OF 2(2)] obtain s2 where 3: "pre us s1 = (Inr (), s2)"
    "io_bind (create_each c SetStatus ur) (\<lambda>_. update_each u SetStatus m) s2 = (Inr (), s')" by (elim exE conjE)
  from io_bind_unitD [OF 3(2)] obtain s3 where 4: "create_each c SetStatus ur s2 = (Inr (), s3)"
    "update_each u SetStatus m s3 = (Inr (), s')" by (elim exE conjE)
  have "dgrows s s2" using grows_trans [OF keepsD [OF keeps_dgrows(1) 1] keepsD [OF pre 3(1)]] .
  then show ?thesis using all_fulfilled [OF ok ord _ _ _ 4 r] cover [OF 2(1)] by blast
qed

end

lemma get_model_bind: "io_bind get_model f s = f (dsModel s) s"
  by (simp add: io_bind_def get_model_def)

lemma SecurityGroup_Synthesize_fulfils:
  assumes "stack_ok (dsModel s)" "range_order (dResourceOrder d)" "lists_sorted (dList d)"
    and "SecurityGroup_Synthesize d s = (Inr (), s')"
    and "r < length (heap (dsModel s))" "reflect_TypeOf (heap (dsModel s) ! r) = ''*ec2.SecurityGroup''"
  shows "fulfilled (heap (dsModel s') ! r)"
  by (rule sgk.synthesized [OF assms(1,2) assms(4) [unfolded SecurityGroup_Synthesize_def get_model_bind Let_def] _ _ assms(5,6)])
    (intro keeps security_groups_covered [OF assms(3) sgk.list_as_distinct [OF assms(1,2)]]; assumption)+

lemma TargetGroup_Synthesize_fulfils:
  assumes "stack_ok (dsModel s)" "range_order (dResourceOrder d)" "lists_sorted (dList d)"
    and "TargetGroup_Synthesize d s = (Inr (), s')"
    and "r < length (heap (dsModel s))" "reflect_TypeOf (heap (dsModel s) ! r) = ''*elbv2.TargetGroup''"
  shows "fulfilled (heap (dsModel s') ! r)"
  by (rule tgk.synthesized [OF assms(1,2) assms(4) [unfolded TargetGroup_Synthesize_def get_model_bind Let_def] _ _ assms(5,6)])
    (intro keeps target_groups_covered [OF assms(3) tgk.list_as_distinct [OF assms(1,2)]]; assumption)+

lemma LoadBalancer_Synthesize_fulfils:
  assumes "stack_ok (dsModel s)" "range_order (dResourceOrder d)" "lists_sorted (dList d)"
    and "LoadBalancer_Synthesize d s = (Inr (), s')"
    and "r < length (heap (dsModel s))" "reflect_TypeOf (heap (dsModel s) ! r) = ''*elbv2.LoadBalancer''"
  shows "fulfilled (heap (dsModel s') ! r)"
  by (rule lbk.synthesized [OF assms(1,2) assms(4) [unfolded LoadBalancer_Synthesize_def get_model_bind Let_def] _ _ assms(5,6)])
    (intro keeps load_balancers_covered [OF assms(3) lbk.list_as_distinct [OF assms(1,2)]]; assumption)+

text \<open>Listeners get their status from their own synthesizer, but one that shares its port with
  another listener of the same load balancer does not. The synthesizer of listener rules resolves
  the ARN of every listener, so it fails in that case.\<close>

lemma Resolve_ListenerARN_fulfilled:
  assumes "Resolve st (ListenerARN_token r) = Inr arn" "r < length (heap st)"
    "reflect_TypeOf (heap st ! r) = ''*elbv2.Listener''"
  shows "fulfilled (heap st ! r)"
  using assms by (cases "heap st ! r")
    (auto simp: ListenerARN_token_def deref_def result_bind_def not_fulfilled_def split: option.splits)

lemma ListenerRule_Synthesize_listeners:
  assumes ok: "stack_ok (dsModel s)" and ord: "range_order (dResourceOrder d)"
    and run: "ListenerRule_Synthesize d s = (Inr (), s')"
    and r: "r < length (heap (dsModel s))" "reflect_TypeOf (heap (dsModel s) ! r) = ''*elbv2.Listener''"
  shows "fulfilled (heap (dsModel s') ! r)"
proof -
  let ?ls = "list_as as_ls ''*elbv2.Listener'' (dResourceOrder d) (dsModel s)"
  let ?body = "\<lambda>g resLS. io_bind get_model (\<lambda>st'. io_bind (io_lift (Resolve st' (ListenerARN_token (rsRef resLS)))) (\<lambda>lsARN.
      synthesizeListenerRulesOnListener d (stackID (stack (dsModel s))) lsARN (gomap_index [] g lsARN)))"
  have body: "keeps dgrows (?body g x)" for g x
    unfolding synthesizeListenerRulesOnListener_def by (intro keeps grows_SetStatus)
  have "io_bind (io_lift (mapResListenerRuleByListenerARN (dsModel s)
      (list_as as_lr ''*elbv2.ListenerRule'' (dResourceOrder d) (dsModel s)))) (\<lambda>g. io_forM (?body g) ?ls) s = (Inr (), s')"
    using run unfolding ListenerRule_Synthesize_def Let_def by (subst (asm) get_model_bind)
  from io_bind_InrD [OF this] obtain g where loop: "io_forM (?body g) ?ls s = (Inr (), s')" by (auto simp: io_lift_def split: sum.splits)
  have mem: "rsRef x < length (heap (dsModel s)) \<and> reflect_TypeOf (heap (dsModel s) ! rsRef x) = ''*elbv2.Listener''"
    if x: "x \<in> set ?ls" for x
  proof -
    obtain r' where "r' < length (heap (dsModel s))" "as_ls r' (heap (dsModel s) ! r') = Some x"
      using x unfolding lsk.list_as_iff [OF ok ord] by (elim exE conjE)
    then show ?thesis using view_ref(4) [of r' "heap (dsModel s) ! r'" x] view_type(4) [of r' "heap (dsModel s) ! r'"] by auto
  qed
  have "\<forall>x\<in>set ?ls. fulfilled (heap (dsModel s') ! rsRef x)"
  proof (rule loop_fulfils [OF loop body])
    fix x s1 s2 assume x: "x \<in> set ?ls" and g: "dgrows s s1" and b: "?body g x s1 = (Inr (), s2)"
    from io_bind_InrD [OF b [unfolded get_model_bind]]
    obtain arn where arn: "Resolve (dsModel s1) (ListenerARN_token (rsRef x)) = Inr arn"
      by (auto simp: io_lift_def split: sum.splits)
    have k: "rsRef x < length (heap (dsModel s1))" "reflect_TypeOf (heap (dsModel s1) ! rsRef x) = ''*elbv2.Listener''"
      using mem [OF x] growsD(2) [OF g] lsk.view_grows [OF g] view_type(4) by metis+
    have "fulfilled (heap (dsModel s1) ! rsRef x)" by (rule Resolve_ListenerARN_fulfilled [OF arn k])
    then show "fulfilled (heap (dsModel s2) ! rsRef x)" using growsD(4) [OF keepsD [OF body b] k(1)] by blast
  qed (use mem in blast)
  moreover obtain x where "as_ls r (heap (dsModel s) ! r) = Some x" using r(2) view_type(4) [of r "heap (dsModel s) ! r"] by auto
  then have "x \<in> set ?ls" "rsRef x = r"
    using lsk.list_as_iff [OF ok ord] r(1) view_ref(4) [of r "heap (dsModel s) ! r" x] by blast+
  ultimately show ?thesis by blast
qed

section \<open>Deployments\<close>

lemma stack_ok_grows: "grows st st' \<Longrightarrow> stack_ok st \<Longrightarrow> stack_ok st'"
proof -
  assume g: "grows st st'" and ok: "stack_ok st"
  have e: "computeResourceUID (erase res) = computeResourceUID res" "dep_tokens (erase res) = dep_tokens res" for res
    by (cases res; simp add: computeResourceUID_def)+
  have u: "computeResourceUID (heap st' ! r) = computeResourceUID (heap st ! r)" "dep_refs (heap st' ! r) = dep_refs (heap st ! r)"
    if "r < length (heap st)" for r
    using growsD(3) [OF g that] e by metis+
  have m: "map computeResourceUID (heap st') = map computeResourceUID (heap st)"
    using growsD(2) [OF g] u by (intro nth_equalityI) auto
  have d: "(\<forall>r < length (heap st'). \<forall>d\<in>set (dep_refs (heap st' ! r)). d < r)"
    using ok u growsD(2) [OF g] by (auto simp: stack_ok_def)
  have "resources (stack st) = map (\<lambda>r. (computeResourceUID (heap st' ! r), r)) [0..<length (heap st)]"
    using ok u by (auto simp: stack_ok_def)
  moreover have "{(computeResourceUID (heap st ! d), computeResourceUID (heap st ! r)) | d r.
          r < length (heap st) \<and> d \<in> set (dep_refs (heap st ! r))} =
      {(computeResourceUID (heap st' ! d), computeResourceUID (heap st' ! r)) | d r.
          r < length (heap st') \<and> d \<in> set (dep_refs (heap st' ! r))}"
  proof -
    have "d < length (heap st)" if "r < length (heap st)" "d \<in> set (dep_refs (heap st ! r))" for d r
      using ok that unfolding stack_ok_def by (metis less_trans)
    then show ?thesis unfolding growsD(2) [OF g] using u by (intro Collect_cong) metis
  qed
  ultimately show ?thesis using ok m d growsD(1,2) [OF g] unfolding stack_ok_def by simp
qed

lemma keeps_stack_synthesizers: "keeps dgrows (stack_synthesizers d)"
proof (rule keepsI)
  fix s r s' assume "stack_synthesizers d s = (r, s')"
  then consider "s' = s" | x where "on_world (IsSubscribed (sdShield d)) s = (x, s')"
    by (auto simp: stack_synthesizers_def Let_def split: if_splits prod.splits sum.splits)
  then show "dgrows s s'" by cases (auto intro: dg.R_refl keepsD [OF keeps_dgrows(1)])
qed

lemma stack_synthesizers_core:
  "stack_synthesizers d s = (r, s') \<Longrightarrow> \<exists>extra. r = Inr (core_synthesizers d @ extra) \<and>
     set extra \<subseteq> {no_post (wafv2_Synthesize (sdWafv2 d) d), no_post (wafr_Synthesize (sdWafRegional d) d),
       no_post (Shield_Synthesize (sdShield d) d)}"
  by (auto simp: stack_synthesizers_def Let_def split: if_splits prod.splits sum.splits)

lemma keeps_all_synthesizers:
  assumes "x \<in> set (core_synthesizers d) \<union> {no_post (wafv2_Synthesize (sdWafv2 d) d),
      no_post (wafr_Synthesize (sdWafRegional d) d), no_post (Shield_Synthesize (sdShield d) d)}"
  shows "keeps dgrows (Synthesize x)" "keeps dgrows (PostSynthesize x)"
  using assms by (auto simp: core_synthesizers_def no_post_def intro: keeps_synthesize keeps_addons keeps_post keeps)

text \<open>The kinds of objects that tokens refer to.\<close>

abbreviation token_types :: "string set" where
  "token_types \<equiv> {''*ec2.SecurityGroup'', ''*elbv2.TargetGroup'', ''*elbv2.LoadBalancer'', ''*elbv2.Listener''}"

lemma fulfilled_resolves:
  assumes "r < length (heap st)" "reflect_TypeOf (heap st ! r) \<in> token_types" "fulfilled (heap st ! r)"
  shows "\<exists>v. Resolve st (ResourceFieldStringToken r path) = Inr v"
  using assms by (cases "heap st ! r") (auto simp: deref_def)

lemma reflect_TypeOf_grows:
  "grows st st' \<Longrightarrow> r < length (heap st) \<Longrightarrow> reflect_TypeOf (heap st' ! r) = reflect_TypeOf (heap st ! r)"
proof -
  have "reflect_TypeOf (erase res) = reflect_TypeOf res" for res by (cases res) auto
  then show "grows st st' \<Longrightarrow> r < length (heap st) \<Longrightarrow> ?thesis" using growsD(3) by metis
qed

lemma synthesizers_fulfil:
  assumes ok: "stack_ok (dsModel s)" and ord: "range_order (dResourceOrder d)" and srt: "lists_sorted (dList d)"
    and run: "io_forM Synthesize (core_synthesizers d @ extra) s = (Inr (), s')"
    and extra: "\<And>x. x \<in> set extra \<Longrightarrow> keeps dgrows (Synthesize x)"
    and r: "r < length (heap (dsModel s))" "reflect_TypeOf (heap (dsModel s) ! r) \<in> token_types"
  shows "fulfilled (heap (dsModel s') ! r)"
proof -
  let ?rest = "\<lambda>_. io_bind (TargetGroupBinding_Synthesize d) (\<lambda>_. io_forM Synthesize extra)"
  have "io_bind (SecurityGroup_Synthesize d) (\<lambda>_. io_bind (TargetGroup_Synthesize d) (\<lambda>_.
      io_bind (LoadBalancer_Synthesize d) (\<lambda>_. io_bind (Listener_Synthesize d) (\<lambda>_.
      io_bind (ListenerRule_Synthesize d) ?rest)))) s = (Inr (), s')"
    using run by (simp add: core_synthesizers_def no_post_def)
  then obtain s1 s2 s3 s4 s5 where steps: "SecurityGroup_Synthesize d s = (Inr (), s1)"
    "TargetGroup_Synthesize d s1 = (Inr (), s2)" "LoadBalancer_Synthesize d s2 = (Inr (), s3)"
    "Listener_Synthesize d s3 = (Inr (), s4)" "ListenerRule_Synthesize d s4 = (Inr (), s5)" "?rest () s5 = (Inr (), s')"
    by (blast dest: io_bind_unitD)
  note g = keepsD [OF keeps_synthesize(1) steps(1)] keepsD [OF keeps_synthesize(2) steps(2)]
    keepsD [OF keeps_synthesize(3) steps(3)] keepsD [OF keeps_synthesize(4) steps(4)] keepsD [OF keeps_synthesize(5) steps(5)]
  have g6: "dgrows s5 s'"
    by (rule keepsD [where m = "?rest ()", OF _ steps(6)]) (intro keeps keeps_synthesize extra)
  note from_s = g(1) grows_trans [OF g(1,2)] grows_trans [OF grows_trans [OF g(1,2)] g(3)]
    grows_trans [OF grows_trans [OF grows_trans [OF g(1,2)] g(3)] g(4)]
  note to_s' = grows_trans [OF g(2) grows_trans [OF g(3) grows_trans [OF g(4) grows_trans [OF g(5) g6]]]]
    grows_trans [OF g(3) grows_trans [OF g(4) grows_trans [OF g(5) g6]]] grows_trans [OF g(4) grows_trans [OF g(5) g6]]
  have fin: "fulfilled (heap (dsModel s') ! r)"
    if "fulfilled (heap (dsModel t) ! r)" "dgrows s t" "dgrows t s'" for t
    using growsD(4) [OF that(3) _ that(1)] growsD(2) [OF that(2)] r(1) by simp
  note oks = ok stack_ok_grows [OF from_s(1) ok] stack_ok_grows [OF from_s(2) ok] stack_ok_grows [OF from_s(4) ok]
  have lt: "dgrows s t \<Longrightarrow> r < length (heap (dsModel t))" for t using growsD(2) r(1) by metis
  consider "reflect_TypeOf (heap (dsModel s) ! r) = ''*ec2.SecurityGroup''" | "reflect_TypeOf (heap (dsModel s) ! r) = ''*elbv2.TargetGroup''"
    | "reflect_TypeOf (heap (dsModel s) ! r) = ''*elbv2.LoadBalancer''" | "reflect_TypeOf (heap (dsModel s) ! r) = ''*elbv2.Listener''"
    using r(2) by blast
  then show ?thesis
  proof cases
    case 1
    show ?thesis by (rule fin [OF SecurityGroup_Synthesize_fulfils [OF ok ord srt steps(1) r(1) 1] from_s(1) to_s'(1)])
  next
    case 2
    have "reflect_TypeOf (heap (dsModel s1) ! r) = ''*elbv2.TargetGroup''" using 2 reflect_TypeOf_grows [OF from_s(1) r(1)] by simp
    from fin [OF TargetGroup_Synthesize_fulfils [OF oks(2) ord srt steps(2) lt [OF from_s(1)] this] from_s(2) to_s'(2)]
    show ?thesis .
  next
    case 3
    have "reflect_TypeOf (heap (dsModel s2) ! r) = ''*elbv2.LoadBalancer''" using 3 reflect_TypeOf_grows [OF from_s(2) r(1)] by simp
    from fin [OF LoadBalancer_Synthesize_fulfils [OF oks(3) ord srt steps(3) lt [OF from_s(2)] this] from_s(3) to_s'(3)]
    show ?thesis .
  next
    case 4
    have "reflect_TypeOf (heap (dsModel s4) ! r) = ''*elbv2.Listener''" using 4 reflect_TypeOf_grows [OF from_s(4) r(1)] by simp
    from fin [OF ListenerRule_Synthesize_listeners [OF oks(4) ord steps(5) lt [OF from_s(4)] this] grows_trans [OF from_s(4) g(5)] g6]
    show ?thesis .
  qed
qed

text \<open>C1: Deploying a stack. When the deployment of a stack built by the constructors succeeds, every
  token for a field of a security group, target group, load balancer or listener of the stack
  resolves, and the deployment has changed nothing in the stack but statuses.\<close>

theorem deploy_resolves_tokens:
  assumes "stack_built sid (dsModel s)" "range_order (dResourceOrder d)" "lists_sorted (dList d)"
    and "Deploy d s = (Inr (), s')"
  shows "stack (dsModel s') = stack (dsModel s) \<and> map erase (heap (dsModel s')) = map erase (heap (dsModel s)) \<and>
    (\<forall>r < length (heap (dsModel s')). reflect_TypeOf (heap (dsModel s') ! r) \<in> token_types \<longrightarrow>
      (\<forall>path. \<exists>v. Resolve (dsModel s') (ResourceFieldStringToken r path) = Inr v))"
proof -
  define s0 where "s0 = s\<lparr>unmatchedSDKSGs := [], unmatchedSDKTGs := [], unmatchedK8sTGBs := []\<rparr>"
  have s0: "dsModel s0 = dsModel s" by (simp add: s0_def)
  have phases: "io_bind (stack_synthesizers d) (\<lambda>syns.
      io_bind (io_forM Synthesize syns) (\<lambda>_. io_forM PostSynthesize (rev syns))) s0 = (Inr (), s')"
    using assms(4) by (simp add: Deploy_def io_bind_def [of "modify _"] modify_def s0_def)
  from io_bind_InrD [OF phases] obtain syns s1 where 1: "stack_synthesizers d s0 = (Inr syns, s1)"
    "io_bind (io_forM Synthesize syns) (\<lambda>_. io_forM PostSynthesize (rev syns)) s1 = (Inr (), s')" by (elim exE conjE)
  obtain extra where extra: "syns = core_synthesizers d @ extra" and addons:
    "set extra \<subseteq> {no_post (wafv2_Synthesize (sdWafv2 d) d), no_post (wafr_Synthesize (sdWafRegional d) d),
       no_post (Shield_Synthesize (sdShield d) d)}" using stack_synthesizers_core [OF 1(1)] by blast
  from io_bind_unitD [OF 1(2)] obtain s7 where 2: "io_forM Synthesize syns s1 = (Inr (), s7)"
    "io_forM PostSynthesize (rev syns) s7 = (Inr (), s')" by (elim exE conjE)
  have all: "keeps dgrows (Synthesize x)" "keeps dgrows (PostSynthesize x)" if "x \<in> set syns" for x
    using keeps_all_synthesizers [of x d] that addons extra by auto
  have post: "dgrows s7 s'"
    by (rule keepsD [where m = "io_forM PostSynthesize (rev syns)", OF _ 2(2)]) (intro keeps all(2), simp)
  have syn: "dgrows s1 s7"
    by (rule keepsD [where m = "io_forM Synthesize syns", OF _ 2(1)]) (intro keeps all(1))
  have g1: "grows (dsModel s) (dsModel s1)" using keepsD [OF keeps_stack_synthesizers 1(1)] s0 by simp
  have ok1: "stack_ok (dsModel s1)" by (rule stack_ok_grows [OF g1 stack_built_ok [OF assms(1)]])
  have g: "grows (dsModel s) (dsModel s')" using grows_trans [OF g1 grows_trans [OF syn post]] .
  have "\<exists>v. Resolve (dsModel s') (ResourceFieldStringToken r path) = Inr v"
    if r: "r < length (heap (dsModel s'))" "reflect_TypeOf (heap (dsModel s') ! r) \<in> token_types" for r path
  proof (rule fulfilled_resolves [OF r])
    have l: "r < length (heap (dsModel s1))" "r < length (heap (dsModel s7))" using r(1) growsD(2) [OF post] growsD(2) [OF syn] by simp_all
    have "reflect_TypeOf (heap (dsModel s1) ! r) \<in> token_types"
      using r(2) reflect_TypeOf_grows [OF grows_trans [OF syn post] l(1)] by simp
    then have "fulfilled (heap (dsModel s7) ! r)"
      using synthesizers_fulfil [OF ok1 assms(2,3) 2(1) [unfolded extra] _ l(1)] all(1) extra by simp
    then show "fulfilled (heap (dsModel s') ! r)" by (rule growsD(4) [OF post l(2)])
  qed
  then show ?thesis using g by (simp add: grows_def)
qed

section \<open>A first deployment\<close>

text \<open>An account with nothing in it, in which creating a security group or a load balancer succeeds.\<close>

definition empty_elb :: "'w ELBV2" where
  "empty_elb = offline_elb
     \<lparr>DescribeTagsWithContext := \<lambda>_. io_return [], DescribeListenersAsList := \<lambda>_. io_return [],
      DescribeLoadBalancersAsList := \<lambda>_. io_return [], DescribeTargetGroupsAsList := \<lambda>_. io_return [],
      CreateLoadBalancerWithContext := \<lambda>req. io_return [lwLoadBalancer (example_sdk_lb [])],
      DescribeLoadBalancerAttributesWithContext := \<lambda>_. io_return []\<rparr>"

definition empty_ec2 :: "'w EC2" where
  "empty_ec2 = \<lparr>DescribeSecurityGroupsAsList = \<lambda>req. io_return [],
     AuthorizeSecurityGroupIngressWithContext = \<lambda>_ _. io_return (), RevokeSecurityGroupIngressWithContext = \<lambda>_ _. io_return (),
     CreateTagsWithContext = \<lambda>_ _. io_return (), DeleteTagsWithContext = \<lambda>_ _. io_return (),
     CreateSecurityGroupWithContext = \<lambda>_. io_return (Some ''sg-1''), DeleteSecurityGroupWithContext = \<lambda>_. io_return ()\<rparr>"

definition empty_bindings :: "'w k8s_tgb_client" where
  "empty_bindings = \<lparr>k8sCreate = \<lambda>b. io_return b, k8sPatch = \<lambda>b old. io_return b, k8sDelete = \<lambda>_. io_return (),
     k8sGet = \<lambda>_. io_fail (ApiStatusError ''NotFound''), k8sList = \<lambda>_. io_return []\<rparr>"

definition example_deployer :: "'w stack_deployer" where
  "example_deployer = \<lparr>dElb = example_listener_manager empty_elb,
     dSg = \<lparr>smTagging = \<lparr>etmEc2Client = empty_ec2, etmFetchSGInfosByRequest = \<lambda>_. io_return [], etmVpcID = ''vpc-1'',
         etmList = sorted_list_of_set, etmOrder = \<lambda>m. m\<rparr>,
       smProvider = \<lparr>tagPrefix = ''ingress.k8s.aws'', clusterName = ''c''\<rparr>, smReconcileIngress = \<lambda>_ _. io_return (),
       smExternalManagedTags = [], smPollImmediate = poll_attempts 9\<rparr>,
     dTgb = \<lparr>bmClient = empty_bindings, bmProvider = \<lparr>tagPrefix = ''ingress.k8s.aws'', clusterName = ''c''\<rparr>,
       bmIsNotFound = (\<lambda>e. e = ApiStatusError ''NotFound''), bmDeepEqual = (=), bmPollImmediateUntil = poll_attempts 9\<rparr>,
     dIntList = sorted_list_of_set, dResourceOrder = (\<lambda>m. m), dListenerOrder = (\<lambda>m. m), dRulePoll = poll_attempts 9,
     dError = (\<lambda>e. case e of AwsError code msg \<Rightarrow> code @ '': '' @ msg | _ \<Rightarrow> []),
     sdWAFV2Enabled = False, sdWAFEnabled = False, sdShieldEnabled = False, sdWAFRegionalAvailable = False,
     sdWafv2 = \<lparr>wafv2AssociateWebACLWithContext = \<lambda>_ _. offline, wafv2DisassociateWebACLWithContext = \<lambda>_. offline,
       wafv2GetWebACLForResourceWithContext = \<lambda>_. offline, wafv2Cache = \<lparr>xGet = \<lambda>_ _. None, xSet = \<lambda>_ _ w. w\<rparr>\<rparr>,
     sdWafRegional = \<lparr>wafrAssociateWebACLWithContext = \<lambda>_ _. offline, wafrDisassociateWebACLWithContext = \<lambda>_. offline,
       wafrGetWebACLForResourceWithContext = \<lambda>_. offline, wafrCache = \<lparr>xGet = \<lambda>_ _. None, xSet = \<lambda>_ _ w. w\<rparr>\<rparr>,
     sdShield = \<lparr>CreateProtectionWithContext = \<lambda>_ _. offline, DeleteProtectionWithContext = \<lambda>_. offline,
       DescribeProtectionWithContext = \<lambda>_. offline, GetSubscriptionStateWithContext = offline,
       protectionInfoCache = \<lparr>xGet = \<lambda>_ _. None, xSet = \<lambda>_ _ w. w\<rparr>, subscriptionStateCache = \<lparr>xGet = \<lambda>_ _. None, xSet = \<lambda>_ _ w. w\<rparr>\<rparr>\<rparr>"

definition example_deploy_state :: "unit deploy_state" where
  "example_deploy_state = \<lparr>dsWorld = (), dsModel = example_state, unmatchedSDKSGs = [], unmatchedSDKTGs = [], unmatchedK8sTGBs = []\<rparr>"

lemma example_deploy: "isl (fst (Deploy example_deployer example_deploy_state)) = False"
  by code_simp

theorem deploy_resolves_tokens_witness:
  "\<exists>s' arn. Deploy example_deployer example_deploy_state = (Inr (), s') \<and>
     length (heap (dsModel s')) = 2 \<and> Resolve (dsModel s') (ResourceFieldStringToken 1 ''status/loadBalancerARN'') = Inr arn"
proof -
  obtain s' where run: "Deploy example_deployer example_deploy_state = (Inr (), s')"
    using example_deploy by (metis (full_types) isl_def old.unit.exhaust prod.collapse sum.exhaust_sel)
  have built: "stack_built \<lparr>sidNamespace = ''ns'', sidName = ''n''\<rparr> (dsModel example_deploy_state)"
    using example_state_built by (simp add: example_deploy_state_def)
  have "range_order (dResourceOrder example_deployer)" "lists_sorted (dList example_deployer)"
    using sorted_list_of_set_lists_sorted
    by (simp_all add: range_order_def example_deployer_def example_listener_manager_def example_manager_def
        example_tagging_def elb_manager.defs)
  note all = deploy_resolves_tokens [OF built this run]
  have h: "map erase (heap (dsModel example_deploy_state)) = [example_sg, example_lb]"
    by code_simp
  then have h': "map erase (heap (dsModel s')) = [example_sg, example_lb]" using all by simp
  have l: "length (heap (dsModel s')) = 2" "erase (heap (dsModel s') ! 1) = example_lb"
    using arg_cong [OF h', of length] arg_cong [OF h', of "\<lambda>xs. xs ! 1"] by simp_all
  then have "reflect_TypeOf (heap (dsModel s') ! 1) = ''*elbv2.LoadBalancer''"
    by (cases "heap (dsModel s') ! 1") (auto simp: example_lb_def)
  then have "\<exists>arn. Resolve (dsModel s') (ResourceFieldStringToken 1 ''status/loadBalancerARN'') = Inr arn"
    using all l(1) by auto
  then show ?thesis using run l(1) by blast
qed

end
