(* ===== verification/Deploy_Safety.thy ===== *)
theory Deploy_Safety
  imports Deploy_Correct
begin

text \<open>
  A deployment that fails before its clean-up has deleted no target group, security group or target
  group binding. The argument is an invariant of the outside world that every call of the
  clients may be assumed to preserve except the three deletions: the first phase of a deployment
  preserves it, whatever it does.
\<close>

section \<open>The calls that are not deletions\<close>

definition elb_keeps :: "('w \<Rightarrow> bool) \<Rightarrow> 'w ELBV2 \<Rightarrow> bool" where
  "elb_keeps I c \<longleftrightarrow>
     (\<forall>a b. keeps (preserving I) (AddTagsWithContext c a b)) \<and>
     (\<forall>a b. keeps (preserving I) (RemoveTagsWithContext c a b)) \<and>
     (\<forall>a. keeps (preserving I) (DescribeTagsWithContext c a)) \<and>
     (\<forall>a. keeps (preserving I) (DescribeListenersAsList c a)) \<and>
     (\<forall>a. keeps (preserving I) (DescribeRulesAsList c a)) \<and>
     (\<forall>a. keeps (preserving I) (DescribeLoadBalancersAsList c a)) \<and>
     (\<forall>a. keeps (preserving I) (DescribeTargetGroupsAsList c a)) \<and>
     (\<forall>a. keeps (preserving I) (CreateTargetGroupWithContext c a)) \<and>
     (\<forall>a. keeps (preserving I) (ModifyTargetGroupWithContext c a)) \<and>
     (\<forall>a. keeps (preserving I) (DescribeTargetGroupAttributesWithContext c a)) \<and>
     (\<forall>a b. keeps (preserving I) (ModifyTargetGroupAttributesWithContext c a b)) \<and>
     (\<forall>a. keeps (preserving I) (CreateLoadBalancerWithContext c a)) \<and>
     (\<forall>a. keeps (preserving I) (DeleteLoadBalancerWithContext c a)) \<and>
     (\<forall>a b. keeps (preserving I) (SetIpAddressTypeWithContext c a b)) \<and>
     (\<forall>a b. keeps (preserving I) (SetSubnetsWithContext c a b)) \<and>
     (\<forall>a b. keeps (preserving I) (SetSecurityGroupsWithContext c a b)) \<and>
     (\<forall>a. keeps (preserving I) (DescribeLoadBalancerAttributesWithContext c a)) \<and>
     (\<forall>a b. keeps (preserving I) (ModifyLoadBalancerAttributesWithContext c a b)) \<and>
     (\<forall>a. keeps (preserving I) (CreateListenerWithContext c a)) \<and>
     (\<forall>a. keeps (preserving I) (ModifyListenerWithContext c a)) \<and>
     (\<forall>a. keeps (preserving I) (DeleteListenerWithContext c a)) \<and>
     (\<forall>a. keeps (preserving I) (DescribeListenerCertificatesAsList c a)) \<and>
     (\<forall>a b. keeps (preserving I) (AddListenerCertificatesWithContext c a b)) \<and>
     (\<forall>a b. keeps (preserving I) (RemoveListenerCertificatesWithContext c a b)) \<and>
     (\<forall>a. keeps (preserving I) (CreateRuleWithContext c a)) \<and>
     (\<forall>a. keeps (preserving I) (ModifyRuleWithContext c a)) \<and>
     (\<forall>a. keeps (preserving I) (DeleteRuleWithContext c a))"

lemma elb_keepsD:
  assumes "elb_keeps I c"
  shows "keeps (preserving I) (AddTagsWithContext c a0 b0)"
    "keeps (preserving I) (RemoveTagsWithContext c a1 b1)"
    "keeps (preserving I) (DescribeTagsWithContext c a2)"
    "keeps (preserving I) (DescribeListenersAsList c a3)"
    "keeps (preserving I) (DescribeRulesAsList c a4)"
    "keeps (preserving I) (DescribeLoadBalancersAsList c a5)"
    "keeps (preserving I) (DescribeTargetGroupsAsList c a6)"
    "keeps (preserving I) (CreateTargetGroupWithContext c a7)"
    "keeps (preserving I) (ModifyTargetGroupWithContext c a8)"
    "keeps (preserving I) (DescribeTargetGroupAttributesWithContext c a9)"
    "keeps (preserving I) (ModifyTargetGroupAttributesWithContext c a10 b10)"
    "keeps (preserving I) (CreateLoadBalancerWithContext c a11)"
    "keeps (preserving I) (DeleteLoadBalancerWithContext c a12)"
    "keeps (preserving I) (SetIpAddressTypeWithContext c a13 b13)"
    "keeps (preserving I) (SetSubnetsWithContext c a14 b14)"
    "keeps (preserving I) (SetSecurityGroupsWithContext c a15 b15)"
    "keeps (preserving I) (DescribeLoadBalancerAttributesWithContext c a16)"
    "keeps (preserving I) (ModifyLoadBalancerAttributesWithContext c a17 b17)"
    "keeps (preserving I) (CreateListenerWithContext c a18)"
    "keeps (preserving I) (ModifyListenerWithContext c a19)"
    "keeps (preserving I) (DeleteListenerWithContext c a20)"
    "keeps (preserving I) (DescribeListenerCertificatesAsList c a21)"
    "keeps (preserving I) (AddListenerCertificatesWithContext c a22 b22)"
    "keeps (preserving I) (RemoveListenerCertificatesWithContext c a23 b23)"
    "keeps (preserving I) (CreateRuleWithContext c a24)"
    "keeps (preserving I) (ModifyRuleWithContext c a25)"
    "keeps (preserving I) (DeleteRuleWithContext c a26)"
  using assms by (simp_all add: elb_keeps_def)

definition tagging_keeps :: "('w \<Rightarrow> bool) \<Rightarrow> 'w defaultTaggingManager \<Rightarrow> bool" where
  "tagging_keeps I m \<longleftrightarrow> elb_keeps I (tmElbv2Client m) \<and> (\<forall>a b. keeps (preserving I) (tmGetResourcesAsList m a b))"

definition sg_keeps :: "('w \<Rightarrow> bool) \<Rightarrow> 'w sg_manager \<Rightarrow> bool" where
  "sg_keeps I m \<longleftrightarrow> (\<forall>a b. keeps (preserving I) (smReconcileIngress m a b)) \<and>
     (\<forall>a. keeps (preserving I) (etmFetchSGInfosByRequest (smTagging m) a)) \<and>
     (\<forall>a b. keeps (preserving I) (CreateTagsWithContext (etmEc2Client (smTagging m)) a b)) \<and>
     (\<forall>a b. keeps (preserving I) (DeleteTagsWithContext (etmEc2Client (smTagging m)) a b)) \<and>
     (\<forall>a. keeps (preserving I) (CreateSecurityGroupWithContext (etmEc2Client (smTagging m)) a))"

definition binding_keeps :: "('w \<Rightarrow> bool) \<Rightarrow> 'w tgb_manager \<Rightarrow> bool" where
  "binding_keeps I m \<longleftrightarrow> (\<forall>b. keeps (preserving I) (k8sCreate (bmClient m) b)) \<and>
     (\<forall>a b. keeps (preserving I) (k8sPatch (bmClient m) a b)) \<and> (\<forall>a. keeps (preserving I) (k8sGet (bmClient m) a)) \<and>
     (\<forall>a. keeps (preserving I) (k8sList (bmClient m) a)) \<and> poll_only_calls (bmPollImmediateUntil m)"

definition cache_keeps :: "('w \<Rightarrow> bool) \<Rightarrow> ('w, 'v) expiring_cache \<Rightarrow> bool" where
  "cache_keeps I c \<longleftrightarrow> (\<forall>k v w. I w \<longrightarrow> I (xSet c k v w))"

definition addons_keep :: "('w \<Rightarrow> bool) \<Rightarrow> 'w stack_deployer \<Rightarrow> bool" where
  "addons_keep I d \<longleftrightarrow>
     (\<forall>a b. keeps (preserving I) (wafv2AssociateWebACLWithContext (sdWafv2 d) a b)) \<and>
     (\<forall>a. keeps (preserving I) (wafv2DisassociateWebACLWithContext (sdWafv2 d) a)) \<and>
     (\<forall>a. keeps (preserving I) (wafv2GetWebACLForResourceWithContext (sdWafv2 d) a)) \<and> cache_keeps I (wafv2Cache (sdWafv2 d)) \<and>
     (\<forall>a b. keeps (preserving I) (wafrAssociateWebACLWithContext (sdWafRegional d) a b)) \<and>
     (\<forall>a. keeps (preserving I) (wafrDisassociateWebACLWithContext (sdWafRegional d) a)) \<and>
     (\<forall>a. keeps (preserving I) (wafrGetWebACLForResourceWithContext (sdWafRegional d) a)) \<and> cache_keeps I (wafrCache (sdWafRegional d)) \<and>
     (\<forall>a b. keeps (preserving I) (CreateProtectionWithContext (sdShield d) a b)) \<and>
     (\<forall>a. keeps (preserving I) (DeleteProtectionWithContext (sdShield d) a)) \<and>
     (\<forall>a. keeps (preserving I) (DescribeProtectionWithContext (sdShield d) a)) \<and>
     keeps (preserving I) (GetSubscriptionStateWithContext (sdShield d)) \<and>
     cache_keeps I (protectionInfoCache (sdShield d)) \<and> cache_keeps I (subscriptionStateCache (sdShield d))"

definition calls_keep :: "('w \<Rightarrow> bool) \<Rightarrow> 'w stack_deployer \<Rightarrow> bool" where
  "calls_keep I d \<longleftrightarrow> tagging_keeps I (mgTagging (dElb d)) \<and> poll_only_calls (mgPollImmediate (dElb d)) \<and>
     poll_only_calls (dRulePoll d) \<and> sg_keeps I (dSg d) \<and> binding_keeps I (dTgb d) \<and> addons_keep I d"

section \<open>Managers\<close>

lemma keeps_wrap: "keeps (preserving I) m \<Longrightarrow> keeps (preserving I) (io_wrap msg m)"
  by (rule keepsI) (auto simp: io_wrap_def split: prod.splits sum.splits dest: keepsD)

lemma keeps_retry:
  assumes "poll_only_calls poll" "keeps (preserving I) fn"
  shows "keeps (preserving I) (RetryImmediateOnError poll retryable fn)"
  unfolding RetryImmediateOnError_def
proof (rule poll_only_callsD [OF assms(1)], rule keepsI)
  fix w r w' assume "(case fn w of (Inl err, w') \<Rightarrow> if retryable err then (Inr False, w') else (Inl err, w')
       | (Inr _, w') \<Rightarrow> (Inr True, w')) = (r, w')"
  then have "snd (fn w) = w'" by (auto split: prod.splits sum.splits if_splits)
  then show "I w \<longrightarrow> I w'" using keeps_snd [OF assms(2), of w] by simp
qed

lemma keeps_list_case [keeps]:
  "keeps R f \<Longrightarrow> (\<And>y ys. keeps R (g y ys)) \<Longrightarrow> keeps R (case xs of [] \<Rightarrow> f | y # ys \<Rightarrow> g y ys)"
  by (cases xs) simp_all

lemma keeps_tagging:
  assumes "tagging_keeps I m"
  shows "keeps (preserving I) (describeResourceTagsNative m arns)"
    and "keeps (preserving I) (ReconcileTags m arn desired opts)"
    and "keeps (preserving I) (ListListeners m lbARN)" "keeps (preserving I) (ListListenerRules m lsARN)"
    and "keeps (preserving I) (ListLoadBalancers m fs)" "keeps (preserving I) (ListTargetGroups m fs)"
proof -
  have c: "elb_keeps I (tmElbv2Client m)" "\<And>a b. keeps (preserving I) (tmGetResourcesAsList m a b)"
    using assms by (auto simp: tagging_keeps_def)
  note calls = elb_keepsD [OF c(1)]
  show native: "keeps (preserving I) (describeResourceTagsNative m arns)" for arns
    unfolding describeResourceTagsNative_def by (auto split: option.splits sum.splits intro!: keeps calls)
  have rgt: "keeps (preserving I) (rgt_resources m t fs)" for t
    unfolding rgt_resources_def by (intro keeps c(2))
  show "keeps (preserving I) (ReconcileTags m arn desired opts)"
    unfolding ReconcileTags_def by (intro keeps calls native)
  show "keeps (preserving I) (ListListeners m lbARN)" "keeps (preserving I) (ListListenerRules m lsARN)"
    unfolding ListListeners_def ListListenerRules_def by (intro keeps calls native)+
  show "keeps (preserving I) (ListLoadBalancers m fs)" "keeps (preserving I) (ListTargetGroups m fs)"
    unfolding ListLoadBalancers_def ListTargetGroups_def listLoadBalancersRGT_def listTargetGroupsRGT_def
      listLoadBalancersNative_def listTargetGroupsNative_def
    by (intro keeps calls native rgt)+
qed

lemma keeps_tg_manager:
  assumes "tagging_keeps I (mgTagging m)"
  shows "keeps (preserving I) (TargetGroupManager_Create m sid r)" "keeps (preserving I) (TargetGroupManager_Update m sid r x)"
proof -
  have "elb_keeps I (client m)" using assms by (simp add: tagging_keeps_def)
  note calls = elb_keepsD [OF this] keeps_tagging [OF assms]
  show "keeps (preserving I) (TargetGroupManager_Create m sid r)" "keeps (preserving I) (TargetGroupManager_Update m sid r x)"
    unfolding TargetGroupManager_Create_def TargetGroupManager_Update_def TargetGroupAttributes_Reconcile_def
      getCurrentTargetGroupAttributes_def updateSDKTargetGroupWithTags_def updateSDKTargetGroupWithHealthCheck_def
    by (intro keeps calls)+
qed

lemma keeps_lb_manager:
  assumes "tagging_keeps I (mgTagging m)"
  shows "keeps (preserving I) (LoadBalancerManager_Create m sid st r)" "keeps (preserving I) (LoadBalancerManager_Update m sid st r x)"
    "keeps (preserving I) (LoadBalancerManager_Delete m x)"
proof -
  have "elb_keeps I (client m)" using assms by (simp add: tagging_keeps_def)
  note calls = elb_keepsD [OF this] keeps_tagging [OF assms]
  show "keeps (preserving I) (LoadBalancerManager_Create m sid st r)" "keeps (preserving I) (LoadBalancerManager_Update m sid st r x)"
    "keeps (preserving I) (LoadBalancerManager_Delete m x)"
    unfolding LoadBalancerManager_Create_def LoadBalancerManager_Update_def LoadBalancerManager_Delete_def
      LoadBalancerAttributes_Reconcile_def getCurrentLoadBalancerAttributes_def updateSDKLoadBalancerWithTags_def
      updateSDKLoadBalancerWithSecurityGroups_def updateSDKLoadBalancerWithSubnetMappings_def
      updateSDKLoadBalancerWithIPAddressType_def checkSDKLoadBalancerWithCOIPv4Pool_def
    by (intro keeps calls)+
qed

lemma keeps_ls_manager:
  assumes "tagging_keeps I (mgTagging m)" "poll_only_calls (mgPollImmediate m)"
  shows "keeps (preserving I) (ListenerManager_Create m sid st r)" "keeps (preserving I) (ListenerManager_Update m sid st r x)"
    "keeps (preserving I) (ListenerManager_Delete m x)" "keeps (preserving I) (ListenerRuleManager_Update m sid st r' x')"
    "keeps (preserving I) (ListenerRuleManager_Delete m x')"
proof -
  have "elb_keeps I (client m)" using assms by (simp add: tagging_keeps_def)
  note calls = elb_keepsD [OF this] keeps_tagging [OF assms(1)]
  have certs: "keeps (preserving I) (updateSDKListenerWithExtraCertificates m r s b)" for r s b
    unfolding updateSDKListenerWithExtraCertificates_def fetchSDKListenerExtraCertificateARNs_def by (intro keeps calls)
  show "keeps (preserving I) (ListenerManager_Create m sid st r)" "keeps (preserving I) (ListenerManager_Update m sid st r x)"
    "keeps (preserving I) (ListenerManager_Delete m x)" "keeps (preserving I) (ListenerRuleManager_Update m sid st r' x')"
    "keeps (preserving I) (ListenerRuleManager_Delete m x')"
    unfolding ListenerManager_Create_def ListenerManager_Update_def ListenerManager_Delete_def
      updateSDKListenerWithTags_def updateSDKListenerWithSettings_def ListenerRuleManager_Update_def
      ListenerRuleManager_Delete_def updateSDKListenerRuleWithTags_def updateSDKListenerRuleWithSettings_def
    by (intro keeps calls certs keeps_wrap keeps_retry assms)+
qed

lemma keeps_with_variable:
  assumes "keeps (preserving I) m"
  shows "keeps (preserving (\<lambda>p. I (fst p))) (with_variable m)"
proof (rule keepsI)
  fix w r w' assume "with_variable m w = (r, w')"
  then have "fst w' = snd (m (fst w))"
    by (cases w) (auto simp: with_variable_def split: prod.splits sum.splits)
  then show "I (fst w) \<longrightarrow> I (fst w')" using keeps_snd [OF assms, of "fst w"] by simp
qed

lemma keeps_lr_create:
  assumes "tagging_keeps I (mgTagging m)" "poll_only_calls poll"
  shows "keeps (preserving I) (ListenerRuleManager_Create m poll sid st r)"
proof -
  have "elb_keeps I (client m)" using assms by (simp add: tagging_keeps_def)
  note calls = elb_keepsD [OF this]
  have loop: "keeps (preserving (\<lambda>p. I (fst p)))
      (RetryImmediateOnError poll isListenerNotFoundError (with_variable (create_rule m req tags)))" for req tags
    unfolding create_rule_def by (intro keeps_retry [OF assms(2)] keeps_with_variable keeps calls)
  define tags where "tags = (if Enabled (gates m) ListenerRulesTagging
      then Some (ResourceTags (mgProvider m) sid (rsID r) (lrTags (rsSpec r))) else None)"
  show ?thesis
    unfolding ListenerRuleManager_Create_def Let_def tags_def [symmetric]
  proof (rule inv.bind [OF inv.pure(3)], rule keepsI, goal_cases)
    case (1 req w x w')
    obtain y p where run: "RetryImmediateOnError poll isListenerNotFoundError (with_variable
        (create_rule m (req\<lparr>crTags := convertTagsToSDKTags (keysList m) (nil_map tags)\<rparr>) tags)) (w, None) = (y, p)"
      by (rule prod.exhaust)
    then have "fst p = w'" using 1 by (cases p) (auto split: sum.splits option.splits)
    then show ?case using keepsD [OF loop run] by simp
  qed
qed

lemma keeps_sg_manager:
  assumes "sg_keeps I m"
  shows "keeps (preserving I) (SecurityGroupManager_Create m sid r)" "keeps (preserving I) (SecurityGroupManager_Update m sid r x)"
    "keeps (preserving I) (ListSecurityGroups (smTagging m) fs)"
proof -
  have calls: "keeps (preserving I) (smReconcileIngress m a b)" "keeps (preserving I) (etmFetchSGInfosByRequest (smTagging m) q)"
    "keeps (preserving I) (CreateTagsWithContext (etmEc2Client (smTagging m)) a t)"
    "keeps (preserving I) (DeleteTagsWithContext (etmEc2Client (smTagging m)) a t)"
    "keeps (preserving I) (CreateSecurityGroupWithContext (etmEc2Client (smTagging m)) i)" for a b q t i
    using assms by (simp_all add: sg_keeps_def)
  show "keeps (preserving I) (SecurityGroupManager_Create m sid r)" "keeps (preserving I) (SecurityGroupManager_Update m sid r x)"
    "keeps (preserving I) (ListSecurityGroups (smTagging m) fs)"
    unfolding SecurityGroupManager_Create_def SecurityGroupManager_Update_def updateSDKSecurityGroupGroupWithTags_def
      ec2_ReconcileTags_def ListSecurityGroups_def listSecurityGroupsWithTagFilter_def
    by (intro keeps calls)+
qed

lemma keeps_binding_manager:
  assumes "binding_keeps I m"
  shows "keeps (preserving I) (TargetGroupBindingManager_Create m sid st r)"
    "keeps (preserving I) (TargetGroupBindingManager_Update m st r x)" "keeps (preserving I) (k8sList (bmClient m) ls)"
proof -
  have calls: "keeps (preserving I) (k8sCreate (bmClient m) a)" "keeps (preserving I) (k8sPatch (bmClient m) a b)"
    "keeps (preserving I) (k8sGet (bmClient m) n)" "keeps (preserving I) (k8sList (bmClient m) l)"
    "poll_only_calls (bmPollImmediateUntil m)" for a b n l
    using assms by (simp_all add: binding_keeps_def)
  show "keeps (preserving I) (TargetGroupBindingManager_Create m sid st r)"
    "keeps (preserving I) (TargetGroupBindingManager_Update m st r x)" "keeps (preserving I) (k8sList (bmClient m) ls)"
    unfolding TargetGroupBindingManager_Create_def TargetGroupBindingManager_Update_def waitUntilTargetGroupBindingObserved_def
    by (intro keeps calls poll_only_callsD [OF calls(5)])+
qed

section \<open>Synthesizers\<close>

abbreviation (input) world :: "('w \<Rightarrow> bool) \<Rightarrow> 'w deploy_state \<Rightarrow> bool" where
  "world I \<equiv> \<lambda>s. I (dsWorld s)"

lemma keeps_world [keeps]:
  "keeps (preserving I) m \<Longrightarrow> keeps (preserving (world I)) (on_world m)"
  "keeps (preserving (world I)) get_model" "keeps (preserving (world I)) (set_status f)"
  "keeps (preserving (world I)) (modify (\<lambda>s. s\<lparr>unmatchedSDKSGs := x1\<rparr>))"
  "keeps (preserving (world I)) (modify (\<lambda>s. s\<lparr>unmatchedSDKTGs := x2\<rparr>))"
  "keeps (preserving (world I)) (modify (\<lambda>s. s\<lparr>unmatchedK8sTGBs := x3\<rparr>))"
  by (auto simp: keeps_def on_world_def get_model_def set_status_def modify_def split: prod.splits)

lemma keeps_world_each [keeps]:
  "(\<And>st r. keeps (preserving I) (create st r)) \<Longrightarrow> keeps (preserving (world I)) (create_each create S rs)"
  "(\<And>st r x. keeps (preserving I) (update st r x)) \<Longrightarrow> keeps (preserving (world I)) (update_each update S ps)"
  unfolding create_each_def update_each_def by (intro keeps, blast)+

lemma keeps_delete_load_balancer:
  assumes "tagging_keeps I (mgTagging (dElb d))"
  shows "keeps (preserving I) (delete_load_balancer d x)"
proof (rule keepsI, rule impI)
  fix w r w' assume run: "delete_load_balancer d x w = (r, w')" and I: "I w"
  have "elb_keeps I (client (dElb d))" using assms by (simp add: tagging_keeps_def)
  note calls = elb_keepsD [OF this]
  have 1: "I (snd (LoadBalancerManager_Delete (dElb d) x v))" if "I v" for v
    using keeps_snd [OF keeps_lb_manager(3) [OF assms], of v] that by simp
  have 2: "I (ignore_error (disableDeletionProtection d lb) v)" if "I v" for lb v
    using keeps_snd [OF calls(18), of v] that by (simp add: ignore_error_def disableDeletionProtection_def)
  show "I w'" using run 1 2 I
    by (auto simp: delete_load_balancer_def Let_def split: prod.splits sum.splits if_splits) (metis snd_conv)+
qed

lemma keeps_core:
  assumes "calls_keep I d" "x \<in> set (core_synthesizers d)"
  shows "keeps (preserving (world I)) (Synthesize x)"
proof -
  have d: "tagging_keeps I (mgTagging (dElb d))" "poll_only_calls (mgPollImmediate (dElb d))" "poll_only_calls (dRulePoll d)"
    "sg_keeps I (dSg d)" "binding_keeps I (dTgb d)" using assms(1) by (simp_all add: calls_keep_def)
  note ops = keeps_tagging [OF d(1)] keeps_tg_manager [OF d(1)] keeps_lb_manager [OF d(1)] keeps_ls_manager [OF d(1,2)]
    keeps_lr_create [OF d(1,3)] keeps_sg_manager [OF d(4)] keeps_binding_manager [OF d(5)] keeps_delete_load_balancer [OF d(1)]
  have "keeps (preserving (world I)) (SecurityGroup_Synthesize d)" "keeps (preserving (world I)) (TargetGroup_Synthesize d)"
    "keeps (preserving (world I)) (LoadBalancer_Synthesize d)" "keeps (preserving (world I)) (Listener_Synthesize d)"
    "keeps (preserving (world I)) (ListenerRule_Synthesize d)" "keeps (preserving (world I)) (TargetGroupBinding_Synthesize d)"
    unfolding SecurityGroup_Synthesize_def TargetGroup_Synthesize_def LoadBalancer_Synthesize_def
      Listener_Synthesize_def ListenerRule_Synthesize_def TargetGroupBinding_Synthesize_def
      synthesizeListenersOnLB_def synthesizeListenerRulesOnListener_def findSDKSecurityGroups_def findSDKTargetGroups_def
      findSDKLoadBalancers_def findSDKListenersOnLB_def findSDKListenersRulesOnLS_def findK8sTargetGroupBindings_def
    by (intro keeps ops)+
  then show ?thesis using assms(2) by (auto simp: core_synthesizers_def no_post_def)
qed

section \<open>Add-ons\<close>

lemma keeps_cache_set: "cache_keeps I c \<Longrightarrow> keeps (preserving I) (cache_set c k v)"
  by (rule keepsI) (auto simp: cache_set_def cache_keeps_def)

text \<open>A computation that reads the world first stays in the invariant when it does in every world.\<close>

lemma keeps_pointwise: "(\<And>w. \<exists>m'. m w = m' w \<and> keeps R m') \<Longrightarrow> keeps R m"
  unfolding keeps_def by metis

lemma keeps_wafv2:
  assumes "addons_keep I d"
  shows "keeps (preserving (world I)) (wafv2_Synthesize (sdWafv2 d) d)"
proof -
  let ?m = "sdWafv2 d"
  have calls: "keeps (preserving I) (wafv2AssociateWebACLWithContext ?m a b)"
    "keeps (preserving I) (wafv2DisassociateWebACLWithContext ?m a)"
    "keeps (preserving I) (wafv2GetWebACLForResourceWithContext ?m a)" "cache_keeps I (wafv2Cache ?m)" for a b
    using assms by (simp_all add: addons_keep_def)
  have get: "keeps (preserving I) (wafv2_GetAssociatedWebACL ?m arn)" for arn
  proof (rule keeps_pointwise)
    fix w
    show "\<exists>m'. wafv2_GetAssociatedWebACL ?m arn w = m' w \<and> keeps (preserving I) m'"
    proof (cases "xGet (wafv2Cache ?m) arn w")
      case None
      have "keeps (preserving I) (io_bind (wafv2GetWebACLForResourceWithContext ?m arn) (\<lambda>webACL.
            let webACLARN = (case webACL of None \<Rightarrow> [] | Some p \<Rightarrow> StringValue p) in
            io_bind (cache_set (wafv2Cache ?m) arn webACLARN) (\<lambda>_. io_return webACLARN)))"
        by (intro keeps calls keeps_cache_set)
      then show ?thesis using None unfolding wafv2_GetAssociatedWebACL_def by (auto simp del: Let_def)
    qed (auto simp: wafv2_GetAssociatedWebACL_def io_return_def intro: exI [of _ "io_return _"] inv.pure(1))
  qed
  show ?thesis
    unfolding wafv2_Synthesize_def wafv2_synthesizeWebACLAssociationsOnLB_def wafv2_AssociateWebACL_def wafv2_DisassociateWebACL_def
    by (intro keeps calls get keeps_wrap keeps_cache_set)
qed

lemma keeps_wafr:
  assumes "addons_keep I d"
  shows "keeps (preserving (world I)) (wafr_Synthesize (sdWafRegional d) d)"
proof -
  let ?m = "sdWafRegional d"
  have calls: "keeps (preserving I) (wafrAssociateWebACLWithContext ?m a b)"
    "keeps (preserving I) (wafrDisassociateWebACLWithContext ?m a)"
    "keeps (preserving I) (wafrGetWebACLForResourceWithContext ?m a)" "cache_keeps I (wafrCache ?m)" for a b
    using assms by (simp_all add: addons_keep_def)
  have get: "keeps (preserving I) (wafr_GetAssociatedWebACL ?m arn)" for arn
  proof (rule keeps_pointwise)
    fix w
    show "\<exists>m'. wafr_GetAssociatedWebACL ?m arn w = m' w \<and> keeps (preserving I) m'"
    proof (cases "xGet (wafrCache ?m) arn w")
      case None
      have "keeps (preserving I) (io_bind (wafrGetWebACLForResourceWithContext ?m arn) (\<lambda>webACL.
            let webACLID = (case webACL of None \<Rightarrow> [] | Some p \<Rightarrow> StringValue p) in
            io_bind (cache_set (wafrCache ?m) arn webACLID) (\<lambda>_. io_return webACLID)))"
        by (intro keeps calls keeps_cache_set)
      then show ?thesis using None unfolding wafr_GetAssociatedWebACL_def by (auto simp del: Let_def)
    qed (auto simp: wafr_GetAssociatedWebACL_def io_return_def intro: exI [of _ "io_return _"] inv.pure(1))
  qed
  show ?thesis
    unfolding wafr_Synthesize_def wafr_synthesizeWebACLAssociationsOnLB_def wafr_AssociateWebACL_def wafr_DisassociateWebACL_def
    by (intro keeps calls get keeps_wrap keeps_cache_set)
qed

lemma keeps_shield:
  assumes "addons_keep I d"
  shows "keeps (preserving (world I)) (Shield_Synthesize (sdShield d) d)"
    and "keeps (preserving I) (IsSubscribed (sdShield d))"
proof -
  let ?m = "sdShield d"
  have calls: "keeps (preserving I) (CreateProtectionWithContext ?m a b)"
    "keeps (preserving I) (DeleteProtectionWithContext ?m a)"
    "keeps (preserving I) (DescribeProtectionWithContext ?m a)" "keeps (preserving I) (GetSubscriptionStateWithContext ?m)"
    "cache_keeps I (protectionInfoCache ?m)" "cache_keeps I (subscriptionStateCache ?m)" for a b
    using assms by (simp_all add: addons_keep_def)
  have set: "I w \<Longrightarrow> I (xSet (protectionInfoCache ?m) k v w)" for k v w using calls(5) by (simp add: cache_keeps_def)
  have get: "keeps (preserving I) (GetProtection ?m arn)" for arn
  proof (rule keepsI, rule impI)
    fix w r w' assume run: "GetProtection ?m arn w = (r, w')" and I: "I w"
    then have "I (snd (DescribeProtectionWithContext ?m arn w))" using keeps_snd [OF calls(3), of w] by simp
    then show "I w'" using run I set
      by (cases "xGet (protectionInfoCache ?m) arn w"; cases "DescribeProtectionWithContext ?m arn w"; cases "fst (DescribeProtectionWithContext ?m arn w)")
        (auto simp: GetProtection_def io_bind_def cache_set_def io_return_def Let_def split: if_splits)
  qed
  show "keeps (preserving (world I)) (Shield_Synthesize ?m d)"
    unfolding Shield_Synthesize_def synthesizeProtectionsOnLB_def CreateProtection_def DeleteProtection_def
    by (intro keeps calls get keeps_wrap keeps_cache_set)
  show "keeps (preserving I) (IsSubscribed ?m)"
  proof (rule keeps_pointwise)
    fix w
    show "\<exists>m'. IsSubscribed ?m w = m' w \<and> keeps (preserving I) m'"
    proof (cases "xGet (subscriptionStateCache ?m) subscriptionStateCacheKey w")
      case None
      have "keeps (preserving I) (io_bind (GetSubscriptionStateWithContext ?m) (\<lambda>resp.
            let subscriptionState = StringValue resp in
            io_bind (cache_set (subscriptionStateCache ?m) subscriptionStateCacheKey subscriptionState) (\<lambda>_.
              io_return (subscriptionState = ''ACTIVE''))))"
        by (intro keeps calls keeps_cache_set)
      then show ?thesis using None unfolding IsSubscribed_def by (auto simp del: Let_def)
    qed (auto simp: IsSubscribed_def io_return_def intro: exI [of _ "io_return _"] inv.pure(1))
  qed
qed

section \<open>Deployments that fail\<close>

text \<open>A deployment up to its clean-up, with the synthesizers whose clean-up is due.\<close>

definition before_cleanup ::
  "'w stack_deployer \<Rightarrow> ('w deploy_state, 'w deploy_state ResourceSynthesizer list) io" where
  "before_cleanup d =
     io_bind (modify (\<lambda>s. s\<lparr>unmatchedSDKSGs := [], unmatchedSDKTGs := [], unmatchedK8sTGBs := []\<rparr>)) (\<lambda>_.
     io_bind (stack_synthesizers d) (\<lambda>synthesizers.
     io_bind (io_forM Synthesize synthesizers) (\<lambda>_. io_return synthesizers)))"

lemma Deploy_split: "Deploy d = io_bind (before_cleanup d) (\<lambda>syns. io_forM PostSynthesize (rev syns))"
  by (rule ext) (simp add: Deploy_def before_cleanup_def io_bind_def io_return_def split: prod.splits sum.splits)

lemma keeps_stack_synthesizers_world:
  assumes "calls_keep I d"
  shows "keeps (preserving (world I)) (stack_synthesizers d)"
proof (rule keepsI, rule impI)
  fix s r s' assume run: "stack_synthesizers d s = (r, s')" and I: "I (dsWorld s)"
  have "keeps (preserving (world I)) (on_world (IsSubscribed (sdShield d)))"
    using assms by (intro keeps keeps_shield(2)) (simp add: calls_keep_def)
  from keeps_snd [OF this, of s] have "I (dsWorld (snd (on_world (IsSubscribed (sdShield d)) s)))" using I by simp
  moreover have "s' = (if sdShieldEnabled d then snd (on_world (IsSubscribed (sdShield d)) s) else s)"
    using run unfolding stack_synthesizers_def Let_def
    by (cases "on_world (IsSubscribed (sdShield d)) s"; cases "fst (on_world (IsSubscribed (sdShield d)) s)";
        cases "sdShieldEnabled d"; simp)
  ultimately show "I (dsWorld s')" using I by simp
qed

lemma before_cleanup_keeps:
  assumes "calls_keep I d"
  shows "keeps (preserving (world I)) (before_cleanup d)"
proof (rule keepsI, rule impI)
  fix s r s' assume run: "before_cleanup d s = (r, s')" and I: "I (dsWorld s)"
  define s0 where "s0 = s\<lparr>unmatchedSDKSGs := [], unmatchedSDKTGs := [], unmatchedK8sTGBs := []\<rparr>"
  obtain q s1 where 1: "stack_synthesizers d s0 = (q, s1)" by (rule prod.exhaust)
  have I1: "I (dsWorld s1)" using keepsD [OF keeps_stack_synthesizers_world [OF assms] 1] I by (simp add: s0_def)
  show "I (dsWorld s')"
  proof (cases q)
    case (Inl e)
    then show ?thesis using run 1 I1 by (simp add: before_cleanup_def io_bind_def modify_def s0_def [symmetric])
  next
    case (Inr syns)
    obtain extra where extra: "syns = core_synthesizers d @ extra" "set extra \<subseteq> {no_post (wafv2_Synthesize (sdWafv2 d) d),
        no_post (wafr_Synthesize (sdWafRegional d) d), no_post (Shield_Synthesize (sdShield d) d)}"
      using stack_synthesizers_core 1 Inr by blast
    have addons: "addons_keep I d" using assms by (simp add: calls_keep_def)
    have all: "keeps (preserving (world I)) (Synthesize x)" if "x \<in> set syns" for x
      using that extra keeps_core [OF assms] keeps_wafv2 [OF addons] keeps_wafr [OF addons] keeps_shield(1) [OF addons]
      by (auto simp: no_post_def)
    have k: "keeps (preserving (world I)) (io_bind (io_forM Synthesize syns) (\<lambda>_. io_return syns))" by (intro keeps all)
    have "io_bind (io_forM Synthesize syns) (\<lambda>_. io_return syns) s1 = (r, s')"
      using run 1 Inr by (simp add: before_cleanup_def io_bind_def [of "modify _"] io_bind_def [of "stack_synthesizers d"] modify_def s0_def [symmetric])
    from keepsD [OF k this] I1 show ?thesis by simp
  qed
qed

text \<open>C2: Deletions come last. For any property of the outside world that every client call but the
  deletions of target groups, security groups and target group bindings preserves, the property
  still holds when the synthesizers have run; a deployment in which one of them fails ends
  there with its error, and otherwise only the clean-up in reverse order remains. So a
  deployment that fails before its clean-up has deleted none of these objects.\<close>

theorem deletions_come_last:
  assumes "calls_keep I d" "I (dsWorld s)"
  shows "\<exists>q s1. before_cleanup d s = (q, s1) \<and> I (dsWorld s1) \<and>
    Deploy d s = (case q of Inl err \<Rightarrow> (Inl err, s1) | Inr synthesizers \<Rightarrow> io_forM PostSynthesize (rev synthesizers) s1)"
proof -
  obtain q s1 where 1: "before_cleanup d s = (q, s1)" by (rule prod.exhaust)
  have "I (dsWorld s1)" using keepsD [OF before_cleanup_keeps [OF assms(1)] 1] assms(2) by simp
  moreover have "Deploy d s = (case q of Inl err \<Rightarrow> (Inl err, s1) | Inr syns \<Rightarrow> io_forM PostSynthesize (rev syns) s1)"
    by (simp add: Deploy_split io_bind_def 1)
  ultimately show ?thesis using 1 by blast
qed

text \<open>An account that counts deletions, and in which no load balancer can be created.\<close>

definition fragile_elb :: "nat ELBV2" where
  "fragile_elb = empty_elb\<lparr>CreateLoadBalancerWithContext := \<lambda>_. offline,
     DeleteTargetGroupWithContext := \<lambda>_ w. (Inr (), Suc w)\<rparr>"

definition fragile_deployer :: "nat stack_deployer" where
  "fragile_deployer = example_deployer\<lparr>dElb := example_listener_manager fragile_elb\<rparr>"

definition fragile_state :: "nat deploy_state" where
  "fragile_state = \<lparr>dsWorld = 0, dsModel = example_state, unmatchedSDKSGs = [], unmatchedSDKTGs = [], unmatchedK8sTGBs = []\<rparr>"

lemma poll_attempts_only_calls: "poll_only_calls (poll_attempts n)"
  unfolding poll_only_calls_def
proof (intro allI impI keepsI)
  fix I and cond :: "('a, bool) io" and w r w'
  assume "keeps (preserving I) cond" "poll_attempts n cond w = (r, w')" "I w"
  then show "I w'"
  proof (induction n arbitrary: w)
    case (Suc n)
    then show ?case using keepsD [OF Suc.prems(1)]
      by (cases "cond w") (auto split: sum.splits bool.splits)
  qed simp
qed

lemma fragile_calls_keep: "calls_keep (\<lambda>w. w = 0) fragile_deployer"
  unfolding calls_keep_def fragile_deployer_def example_deployer_def
  by (simp add: tagging_keeps_def elb_keeps_def sg_keeps_def binding_keeps_def addons_keep_def cache_keeps_def
      poll_attempts_only_calls fragile_elb_def empty_elb_def offline_elb_def offline_def empty_ec2_def empty_bindings_def
      example_listener_manager_def example_manager_def example_tagging_def elb_manager.defs inv.pure)

lemma fragile_deploy: "isl (fst (before_cleanup fragile_deployer fragile_state))"
  by code_simp

theorem deletions_come_last_witness:
  "\<exists>err s1. Deploy fragile_deployer fragile_state = (Inl err, s1) \<and> dsWorld s1 = 0"
proof -
  obtain q s1 where 1: "before_cleanup fragile_deployer fragile_state = (q, s1)" by (rule prod.exhaust)
  have "dsWorld fragile_state = 0" by (simp add: fragile_state_def)
  from deletions_come_last [OF fragile_calls_keep this] fragile_deploy 1
  show ?thesis by (cases q) auto
qed

end
