(* ===== verification/K8s_Objects.thy ===== *)
theory K8s_Objects
  imports Api_Types Go_Strings
begin

text \<open>
  The Kubernetes objects the controller reads, with the fields it uses, and the helpers of
  \<^verbatim>\<open>pkg/k8s\<close> on pods, nodes, services and finalizers. Times are numbers. The JSON decoder for the
  pod ENI annotation is a parameter.
\<close>

section \<open>Objects\<close>

record ContainerPort =
  cpName :: string
  cpContainerPort :: int

record PodCondition =
  pcType :: string
  pcStatus :: string
  pcReason :: string
  pcMessage :: string
  pcLastTransitionTime :: int

text \<open>A container is its ports, a readiness gate its condition type.\<close>

record Pod =
  podMeta :: ObjectMeta
  podContainers :: "ContainerPort list list"
  podReadinessGates :: "string list"
  podNodeName :: string
  podConditions :: "PodCondition list"
  podPodIP :: string

record PodENIInfo =
  ENIID :: string
  peiPrivateIP :: string

record PodInfo =
  podKey :: NamespacedName
  podUID :: string
  infoContainerPorts :: "ContainerPort list"
  infoReadinessGates :: "string list"
  infoConditions :: "PodCondition list"
  infoNodeName :: string
  infoPodIP :: string
  infoENIInfos :: "PodENIInfo list"

text \<open>The zero value, read from a map for a missing key.\<close>

definition zero_PodInfo :: PodInfo where
  "zero_PodInfo = \<lparr>podKey = \<lparr>nnNamespace = [], nnName = []\<rparr>, podUID = [], infoContainerPorts = [], infoReadinessGates = [],
     infoConditions = [], infoNodeName = [], infoPodIP = [], infoENIInfos = []\<rparr>"

record NodeCondition =
  ncType :: string
  ncStatus :: string

record Node =
  nodeMeta :: ObjectMeta
  nodeProviderID :: string
  nodeTaints :: "string list"
  nodeConditions :: "NodeCondition list"

record ServicePort =
  spName :: string
  spProtocol :: string
  spPort :: int
  spTargetPort :: IntOrString
  spNodePort :: int

text \<open>The load balancer status of a service is the list of host names of its ingress points.\<close>

record Service =
  svcMeta :: ObjectMeta
  svcType :: string
  svcPorts :: "ServicePort list"
  svcSelector :: string_map
  svcLoadBalancerClass :: "string option"
  svcLoadBalancerSourceRanges :: "string list"
  svcExternalTrafficPolicy :: string
  svcHealthCheckNodePort :: int
  svcIPFamilies :: "string list"
  svcAllocateLoadBalancerNodePorts :: "bool option"
  svcLoadBalancerIngress :: "string list"

definition NamespacedName_String :: "NamespacedName \<Rightarrow> string" where
  "NamespacedName_String k = nnNamespace k @ ''/'' @ nnName k"

definition NamespacedName_of :: "ObjectMeta \<Rightarrow> NamespacedName" where
  "NamespacedName_of m = \<lparr>nnNamespace = omNamespace m, nnName = omName m\<rparr>"

definition ToSliceOfNamespacedNames :: "ObjectMeta list \<Rightarrow> NamespacedName list" where
  "ToSliceOfNamespacedNames s = map NamespacedName_of s"

fun IntOrString_String :: "IntOrString \<Rightarrow> string" where
  "IntOrString_String (IntVal i) = Itoa i"
| "IntOrString_String (StrVal s) = s"

section \<open>Pods\<close>

definition ConditionTrue :: string where
  [simp]: "ConditionTrue = ''True''"

definition ConditionFalse :: string where
  [simp]: "ConditionFalse = ''False''"

definition ConditionUnknown :: string where
  [simp]: "ConditionUnknown = ''Unknown''"

definition annotationKeyPodENIInfo :: string where
  "annotationKeyPodENIInfo = ''vpc.amazonaws.com/pod-eni''"

definition HasAnyOfReadinessGates :: "PodInfo \<Rightarrow> string list \<Rightarrow> bool" where
  "HasAnyOfReadinessGates i conditionTypes \<longleftrightarrow>
     list_ex (\<lambda>rg. list_ex (\<lambda>conditionType. rg = conditionType) conditionTypes) (infoReadinessGates i)"

definition GetPodCondition :: "PodInfo \<Rightarrow> string \<Rightarrow> PodCondition option" where
  "GetPodCondition i conditionType = List.find (\<lambda>cond. pcType cond = conditionType) (infoConditions i)"

definition IsContainersReady :: "PodInfo \<Rightarrow> bool" where
  "IsContainersReady i \<longleftrightarrow>
     (case GetPodCondition i ''ContainersReady'' of None \<Rightarrow> False | Some cond \<Rightarrow> pcStatus cond = ConditionTrue)"

definition port_not_found :: "IntOrString \<Rightarrow> NamespacedName \<Rightarrow> go_error" where
  "port_not_found port key =
     Errorf ''unable to find port %s on pod %s'' [IntOrString_String port, NamespacedName_String key]"

definition LookupContainerPort :: "PodInfo \<Rightarrow> IntOrString \<Rightarrow> int result" where
  "LookupContainerPort i port =
     (case port of
        StrVal name \<Rightarrow>
          (case List.find (\<lambda>podPort. cpName podPort = name) (infoContainerPorts i) of
             Some podPort \<Rightarrow> Inr (cpContainerPort podPort)
           | None \<Rightarrow> Inl (port_not_found port (podKey i)))
      | IntVal v \<Rightarrow> Inr v)"

definition buildPodENIInfos :: "(string \<Rightarrow> PodENIInfo list result) \<Rightarrow> Pod \<Rightarrow> PodENIInfo list result" where
  "buildPodENIInfos unmarshal pod =
     (case map_of (omAnnotations (podMeta pod)) annotationKeyPodENIInfo of
        None \<Rightarrow> Inr []
      | Some rawAnnotation \<Rightarrow> unmarshal rawAnnotation)"

definition buildPodInfo :: "(string \<Rightarrow> PodENIInfo list result) \<Rightarrow> Pod \<Rightarrow> PodInfo" where
  "buildPodInfo unmarshal pod =
     \<lparr>podKey = NamespacedName_of (podMeta pod), podUID = omUID (podMeta pod),
      infoContainerPorts = concat (podContainers pod),
      infoReadinessGates = podReadinessGates pod, infoConditions = podConditions pod,
      infoNodeName = podNodeName pod, infoPodIP = podPodIP pod,
      infoENIInfos = (case buildPodENIInfos unmarshal pod of Inr eniInfo \<Rightarrow> eniInfo | Inl _ \<Rightarrow> [])\<rparr>"

text \<open>The same questions asked of a pod itself, in \<^verbatim>\<open>pod_utils.go\<close>.\<close>

definition IsPodHasReadinessGate :: "Pod \<Rightarrow> string \<Rightarrow> bool" where
  "IsPodHasReadinessGate pod conditionType \<longleftrightarrow> list_ex (\<lambda>rg. rg = conditionType) (podReadinessGates pod)"

fun find_condition_index :: "PodCondition list \<Rightarrow> string \<Rightarrow> nat option" where
  "find_condition_index [] t = None"
| "find_condition_index (c # cs) t = (if pcType c = t then Some 0 else map_option Suc (find_condition_index cs t))"

text \<open>The pointer into the pod that the source returns is the index of the condition.\<close>

definition Pod_GetPodCondition :: "Pod \<Rightarrow> string \<Rightarrow> nat option" where
  "Pod_GetPodCondition pod conditionType = find_condition_index (podConditions pod) conditionType"

definition IsPodContainersReady :: "Pod \<Rightarrow> bool" where
  "IsPodContainersReady pod \<longleftrightarrow>
     (case Pod_GetPodCondition pod ''ContainersReady'' of
        None \<Rightarrow> False
      | Some i \<Rightarrow> pcStatus (podConditions pod ! i) = ConditionTrue)"

definition UpdatePodCondition :: "Pod \<Rightarrow> PodCondition \<Rightarrow> Pod" where
  "UpdatePodCondition pod condition =
     (case Pod_GetPodCondition pod (pcType condition) of
        Some i \<Rightarrow> pod\<lparr>podConditions := (podConditions pod)[i := condition]\<rparr>
      | None \<Rightarrow> pod\<lparr>podConditions := podConditions pod @ [condition]\<rparr>)"

fun find_in_containers :: "string \<Rightarrow> ContainerPort list list \<Rightarrow> ContainerPort option" where
  "find_in_containers name [] = None"
| "find_in_containers name (ports # rest) =
     (case List.find (\<lambda>podPort. cpName podPort = name) ports of
        Some podPort \<Rightarrow> Some podPort
      | None \<Rightarrow> find_in_containers name rest)"

definition Pod_LookupContainerPort :: "Pod \<Rightarrow> IntOrString \<Rightarrow> int result" where
  "Pod_LookupContainerPort pod port =
     (case port of
        StrVal name \<Rightarrow>
          (case find_in_containers name (podContainers pod) of
             Some podPort \<Rightarrow> Inr (cpContainerPort podPort)
           | None \<Rightarrow> Inl (port_not_found port (NamespacedName_of (podMeta pod))))
      | IntVal v \<Rightarrow> Inr v)"

section \<open>Nodes and services\<close>

definition GetNodeCondition :: "Node \<Rightarrow> string \<Rightarrow> NodeCondition option" where
  "GetNodeCondition node conditionType = List.find (\<lambda>cond. ncType cond = conditionType) (nodeConditions node)"

text \<open>The pattern \<^verbatim>\<open>^i-[^/]*$\<close>.\<close>

definition awsInstanceIDRegex :: "string \<Rightarrow> bool" where
  "awsInstanceIDRegex s \<longleftrightarrow> HasPrefix s ''i-'' \<and> CHR ''/'' \<notin> set (drop 2 s)"

definition ExtractNodeInstanceID :: "Node \<Rightarrow> string result" where
  "ExtractNodeInstanceID node =
     (let providerID = nodeProviderID node; name = omName (nodeMeta node) in
      if providerID = [] then Inl (Errorf ''providerID is not specified for node: %s'' [name])
      else let instanceID = last (split_char CHR ''/'' providerID) in
        if \<not> awsInstanceIDRegex instanceID then
          Inl (Errorf ''providerID %s is invalid for EC2 instances, node: %s'' [providerID, name])
        else Inr instanceID)"

definition LookupServicePort :: "Service \<Rightarrow> IntOrString \<Rightarrow> ServicePort result" where
  "LookupServicePort svc port =
     (case (case port of
              StrVal name \<Rightarrow> List.find (\<lambda>p. spName p = name) (svcPorts svc)
            | IntVal v \<Rightarrow> List.find (\<lambda>p. spPort p = v) (svcPorts svc)) of
        Some p \<Rightarrow> Inr p
      | None \<Rightarrow> Inl (Errorf ''unable to find port %s on service %s''
          [IntOrString_String port, NamespacedName_String (NamespacedName_of (svcMeta svc))]))"

section \<open>Finalizers\<close>

definition HasFinalizer :: "ObjectMeta \<Rightarrow> string \<Rightarrow> bool" where
  "HasFinalizer obj finalizer \<longleftrightarrow> list_ex (\<lambda>e. e = finalizer) (omFinalizers obj)"

text \<open>
  The Kubernetes client, restricted to the metadata of the objects with finalizers: \<open>fcPatch\<close> sends
  the difference to the old object with a check that nobody changed it in between. The retry
  loop on conflicts and the two helpers of the controller runtime are parameters.
\<close>

record 'w finalizer_client =
  fcGet :: "NamespacedName \<Rightarrow> ('w, ObjectMeta) io"
  fcPatch :: "ObjectMeta \<Rightarrow> ObjectMeta \<Rightarrow> ('w, unit) io"
  fcRetryOnConflict :: "('w, unit) io \<Rightarrow> ('w, unit) io"
  fcAddFinalizer :: "ObjectMeta \<Rightarrow> string \<Rightarrow> ObjectMeta"
  fcRemoveFinalizer :: "ObjectMeta \<Rightarrow> string \<Rightarrow> ObjectMeta"

definition AddFinalizers :: "'w finalizer_client \<Rightarrow> NamespacedName \<Rightarrow> string list \<Rightarrow> ('w, unit) io" where
  "AddFinalizers c key finalizers = fcRetryOnConflict c
     (io_bind (fcGet c key) (\<lambda>oldObj.
       let (obj, needsUpdate) = fold (\<lambda>finalizer (obj, needsUpdate).
             if \<not> HasFinalizer obj finalizer then (fcAddFinalizer c obj finalizer, True) else (obj, needsUpdate))
             finalizers (oldObj, False)
       in if \<not> needsUpdate then io_return () else fcPatch c obj oldObj))"

definition RemoveFinalizers :: "'w finalizer_client \<Rightarrow> NamespacedName \<Rightarrow> string list \<Rightarrow> ('w, unit) io" where
  "RemoveFinalizers c key finalizers = fcRetryOnConflict c
     (io_bind (fcGet c key) (\<lambda>oldObj.
       let (obj, needsUpdate) = fold (\<lambda>finalizer (obj, needsUpdate).
             if HasFinalizer obj finalizer then (fcRemoveFinalizer c obj finalizer, True) else (obj, needsUpdate))
             finalizers (oldObj, False)
       in if \<not> needsUpdate then io_return () else fcPatch c obj oldObj))"

section \<open>The summary of a pod answers like the pod\<close>

lemma find_append: "List.find P (xs @ ys) = (case List.find P xs of None \<Rightarrow> List.find P ys | Some x \<Rightarrow> Some x)"
  by (induction xs) auto

lemma find_in_containers_concat:
  "find_in_containers name cs = List.find (\<lambda>podPort. cpName podPort = name) (concat cs)"
  by (induction cs) (auto simp: find_append split: option.splits)

lemma find_condition_index_find:
  "map_option ((!) cs) (find_condition_index cs t) = List.find (\<lambda>cond. pcType cond = t) cs"
  by (induction cs) (auto simp: option.map_comp comp_def)

lemma find_condition_index_bound: "find_condition_index cs t = Some i \<Longrightarrow> i < length cs \<and> pcType (cs ! i) = t"
  by (induction cs arbitrary: i) (auto split: if_splits)

lemma find_condition_index_None: "find_condition_index cs t = None \<longleftrightarrow> t \<notin> pcType ` set cs"
  by (induction cs) auto

text \<open>C24: The cached summary of a pod, which is all the controller keeps of it, answers every question
  as the pod itself: which numeric port a port name stands for or that there is none,
  whether the pod has a readiness gate, which condition it has of a type and whether its
  containers are ready.\<close>

theorem pod_info_agrees_with_pod:
  "LookupContainerPort (buildPodInfo unmarshal pod) port = Pod_LookupContainerPort pod port \<and>
   HasAnyOfReadinessGates (buildPodInfo unmarshal pod) ts = list_ex (IsPodHasReadinessGate pod) ts \<and>
   GetPodCondition (buildPodInfo unmarshal pod) t = map_option ((!) (podConditions pod)) (Pod_GetPodCondition pod t) \<and>
   IsContainersReady (buildPodInfo unmarshal pod) = IsPodContainersReady pod"
proof -
  have cond: "GetPodCondition (buildPodInfo unmarshal pod) t = map_option ((!) (podConditions pod)) (Pod_GetPodCondition pod t)" for t
    by (simp add: GetPodCondition_def Pod_GetPodCondition_def buildPodInfo_def find_condition_index_find)
  have "LookupContainerPort (buildPodInfo unmarshal pod) port = Pod_LookupContainerPort pod port"
    by (cases port) (simp_all add: LookupContainerPort_def Pod_LookupContainerPort_def buildPodInfo_def find_in_containers_concat split: option.splits)
  moreover have "HasAnyOfReadinessGates (buildPodInfo unmarshal pod) ts = list_ex (IsPodHasReadinessGate pod) ts"
    by (auto simp: HasAnyOfReadinessGates_def IsPodHasReadinessGate_def buildPodInfo_def list_ex_iff)
  moreover have "IsContainersReady (buildPodInfo unmarshal pod) = IsPodContainersReady pod"
    by (simp add: IsContainersReady_def IsPodContainersReady_def cond split: option.splits)
  ultimately show ?thesis using cond by blast
qed

text \<open>Writing a condition, which replaces the first of its type and adds one otherwise.\<close>

lemma UpdatePodCondition_conditions:
  "\<exists>i. Pod_GetPodCondition (UpdatePodCondition pod c) (pcType c) = Some i \<and> podConditions (UpdatePodCondition pod c) ! i = c"
proof -
  have "find_condition_index (cs @ [c]) (pcType c) = Some (length cs)" if "find_condition_index cs (pcType c) = None" for cs
    using that by (induction cs) (auto split: if_splits)
  moreover have "find_condition_index (cs[i := c]) (pcType c) = Some i \<and> i < length cs"
    if "find_condition_index cs (pcType c) = Some i" for cs i
    using that by (induction cs arbitrary: i) (auto split: if_splits nat.splits)
  ultimately show ?thesis
    by (cases "Pod_GetPodCondition pod (pcType c)") (auto simp: UpdatePodCondition_def Pod_GetPodCondition_def)
qed

end
