(* ===== verification/Go_Net.thy ===== *)
theory Go_Net
  imports Go_Strings "HOL-Library.Word"
begin

text \<open>
  IP addresses and prefixes as Go's packages \<^verbatim>\<open>net/netip\<close> and \<^verbatim>\<open>net\<close> have them: parsing of IPv4
  addresses, of IPv6 addresses with an ellipsis, an embedded IPv4 address and a zone, and of
  prefixes, and membership of an address in a prefix. The errors carry the input; the reasons the
  library gives in their text are not told apart.
\<close>

unbundle bit_operations_syntax

section \<open>Package netip\<close>

datatype Addr = Addr4 "32 word" | Addr6 "128 word" string

record Prefix =
  prefixAddr :: Addr
  prefixBits :: nat

text \<open>A field of an IPv4 address: one to three digits without a leading zero, at most 255.\<close>

definition parse_octet :: "string \<Rightarrow> nat option" where
  "parse_octet f =
     (if f = [] \<or> (length f > 1 \<and> hd f = CHR ''0'') then None
      else case parse_digits 0 f of
        None \<Rightarrow> None
      | Some n \<Rightarrow> if n > 255 then None else Some (nat n))"

definition parseIPv4Fields :: "string \<Rightarrow> (nat \<times> nat \<times> nat \<times> nat) option" where
  "parseIPv4Fields s =
     (case map parse_octet (split_char CHR ''.'' s) of
        [Some a, Some b, Some c, Some d] \<Rightarrow> Some (a, b, c, d)
      | _ \<Rightarrow> None)"

definition is_hex :: "char \<Rightarrow> bool" where
  "is_hex c \<longleftrightarrow> is_digit c \<or> (CHR ''a'' \<le> c \<and> c \<le> CHR ''f'') \<or> (CHR ''A'' \<le> c \<and> c \<le> CHR ''F'')"

definition hex_value :: "char \<Rightarrow> nat" where
  "hex_value c =
     (if is_digit c then of_char c - 48
      else if CHR ''a'' \<le> c then of_char c - 87 else of_char c - 55)"

definition hex_number :: "string \<Rightarrow> nat" where
  "hex_number ds = foldl (\<lambda>acc c. 16 * acc + hex_value c) 0 ds"

text \<open>The loop over the colon-separated groups: the groups read so far and the position of the
  ellipsis among them.\<close>

function parse_groups :: "nat list \<Rightarrow> nat option \<Rightarrow> string \<Rightarrow> (nat list \<times> nat option) option" where
  "parse_groups groups ellipsis s =
     (if length groups \<ge> 8 then (if s = [] then Some (groups, ellipsis) else None)
      else
        let ds = takeWhile is_hex s; rest = dropWhile is_hex s in
        if ds = [] \<or> length ds > 4 then None
        else if rest \<noteq> [] \<and> hd rest = CHR ''.'' then
          (if (ellipsis = None \<and> length groups \<noteq> 6) \<or> length groups > 6 then None
           else case parseIPv4Fields s of
             None \<Rightarrow> None
           | Some (a, b, c, d) \<Rightarrow> Some (groups @ [256 * a + b, 256 * c + d], ellipsis))
        else
          let groups' = groups @ [hex_number ds] in
          if rest = [] then Some (groups', ellipsis)
          else if hd rest \<noteq> CHR '':'' \<or> tl rest = [] then None
          else if hd (tl rest) = CHR '':'' then
            (if ellipsis \<noteq> None then None
             else if tl (tl rest) = [] then Some (groups', Some (length groups'))
             else parse_groups groups' (Some (length groups')) (tl (tl rest)))
          else parse_groups groups' ellipsis (tl rest))"
  by pat_completeness auto
termination
proof (relation "measure (\<lambda>(groups, ellipsis, s). length s)", goal_cases)
  case (2 groups ellipsis s ds rest groups')
  then have "length (tl (tl rest)) < length rest" by (cases rest) auto
  also have "length rest \<le> length s" using 2 by (simp add: length_dropWhile_le)
  finally show ?case by simp
next
  case (3 groups ellipsis s ds rest groups')
  then have "length (tl rest) < length rest" by (cases rest) auto
  also have "length rest \<le> length s" using 3 by (simp add: length_dropWhile_le)
  finally show ?case by simp
qed simp

declare parse_groups.simps [simp del]

definition expand_ellipsis :: "nat list \<times> nat option \<Rightarrow> nat list option" where
  "expand_ellipsis p =
     (case p of
        (groups, None) \<Rightarrow> if length groups < 8 then None else Some groups
      | (groups, Some e) \<Rightarrow>
          if length groups < 8 then Some (take e groups @ replicate (8 - length groups) 0 @ drop e groups) else None)"

definition groups_address :: "nat list \<Rightarrow> 128 word" where
  "groups_address groups = foldl (\<lambda>acc g. 65536 * acc + of_nat g) 0 groups"

definition parseIPv6 :: "string \<Rightarrow> Addr option" where
  "parseIPv6 s =
     (let ip = takeWhile (\<lambda>c. c \<noteq> CHR ''%'') s; zone = tl (dropWhile (\<lambda>c. c \<noteq> CHR ''%'') s) in
      if CHR ''%'' \<in> set s \<and> zone = [] then None
      else if ip = ''::'' then Some (Addr6 0 zone)
      else
        case (if HasPrefix ip ''::'' then parse_groups [] (Some 0) (drop 2 ip) else parse_groups [] None ip) of
          None \<Rightarrow> None
        | Some p \<Rightarrow> map_option (\<lambda>groups. Addr6 (groups_address groups) zone) (expand_ellipsis p))"

definition address4 :: "nat \<times> nat \<times> nat \<times> nat \<Rightarrow> 32 word" where
  "address4 o4 = (case o4 of (a, b, c, d) \<Rightarrow> ((256 * of_nat a + of_nat b) * 256 + of_nat c) * 256 + of_nat d)"

definition ParseAddr :: "string \<Rightarrow> Addr result" where
  "ParseAddr s =
     (case (case List.find (\<lambda>c. c \<in> {CHR ''.'', CHR '':'', CHR ''%''}) s of
              None \<Rightarrow> None
            | Some c \<Rightarrow>
                if c = CHR ''.'' then map_option (\<lambda>o4. Addr4 (address4 o4)) (parseIPv4Fields s)
                else if c = CHR '':'' then parseIPv6 s
                else None) of
        None \<Rightarrow> Inl (Errorf ''ParseAddr(%q)'' [s])
      | Some a \<Rightarrow> Inr a)"

fun BitLen :: "Addr \<Rightarrow> nat" where
  "BitLen (Addr4 _) = 32"
| "BitLen (Addr6 _ _) = 128"

fun Addr_Zone :: "Addr \<Rightarrow> string" where
  "Addr_Zone (Addr4 _) = []"
| "Addr_Zone (Addr6 _ zone) = zone"

text \<open>The text before the last slash and the text after it.\<close>

definition last_slash :: "string \<Rightarrow> (string \<times> string) option" where
  "last_slash s =
     (if CHR ''/'' \<in> set s
      then Some (rev (tl (dropWhile (\<lambda>c. c \<noteq> CHR ''/'') (rev s))), rev (takeWhile (\<lambda>c. c \<noteq> CHR ''/'') (rev s)))
      else None)"

definition ParsePrefix :: "string \<Rightarrow> Prefix result" where
  "ParsePrefix s =
     (let bad = Inl (Errorf ''netip.ParsePrefix(%q)'' [s]) in
      case last_slash s of
        None \<Rightarrow> bad
      | Some (addr, bits) \<Rightarrow>
          (case ParseAddr addr of
             Inl _ \<Rightarrow> bad
           | Inr ip \<Rightarrow>
               if Addr_Zone ip \<noteq> [] then bad
               else if length bits > 1 \<and> (hd bits < CHR ''1'' \<or> hd bits > CHR ''9'') then bad
               else case strconv_ParseInt bits of
                 ParseOk n \<Rightarrow> if n < 0 \<or> n > int (BitLen ip) then bad else Inr \<lparr>prefixAddr = ip, prefixBits = nat n\<rparr>
               | _ \<Rightarrow> bad))"

fun Prefix_Contains :: "Prefix \<Rightarrow> Addr \<Rightarrow> bool" where
  "Prefix_Contains p (Addr4 a) =
     (case prefixAddr p of Addr4 n \<Rightarrow> drop_bit (32 - prefixBits p) (a XOR n) = 0 | Addr6 _ _ \<Rightarrow> False)"
| "Prefix_Contains p (Addr6 a zone) =
     (zone = [] \<and> (case prefixAddr p of Addr4 _ \<Rightarrow> False | Addr6 n _ \<Rightarrow> drop_bit (128 - prefixBits p) (a XOR n) = 0))"

section \<open>Package net\<close>

text \<open>An address of package \<^verbatim>\<open>net\<close> is its 16 byte form, in which an IPv4 address is a mapped one.\<close>

definition to4 :: "128 word \<Rightarrow> 32 word option" where
  "to4 ip = (if drop_bit 32 ip = 0xFFFF then Some (ucast ip) else None)"

definition As16 :: "Addr \<Rightarrow> 128 word" where
  "As16 a = (case a of Addr4 w \<Rightarrow> push_bit 32 0xFFFF OR ucast w | Addr6 w _ \<Rightarrow> w)"

definition ParseIP :: "string \<Rightarrow> 128 word option" where
  "ParseIP s = (case ParseAddr s of Inl _ \<Rightarrow> None | Inr a \<Rightarrow> if Addr_Zone a \<noteq> [] then None else Some (As16 a))"

datatype IPNet = IPNet4 "32 word" nat | IPNet6 "128 word" nat

text \<open>The decimal number of the mask: digits only, below 16777215.\<close>

definition dtoi :: "string \<Rightarrow> nat option" where
  "dtoi s = (if s = [] then None else
     case parse_digits 0 s of None \<Rightarrow> None | Some n \<Rightarrow> if n \<ge> 0xFFFFFF then None else Some (nat n))"

definition ParseCIDR :: "string \<Rightarrow> (128 word \<times> IPNet) result" where
  "ParseCIDR s =
     (let bad = Inl (Errorf ''invalid CIDR address: %s'' [s]) in
      case splitN2 CHR ''/'' s of
        [addr, maskText] \<Rightarrow>
          (case (ParseAddr addr, dtoi maskText) of
             (Inr a, Some n) \<Rightarrow>
               if Addr_Zone a \<noteq> [] \<or> n > BitLen a then bad
               else Inr (As16 a, case a of
                   Addr4 w \<Rightarrow> IPNet4 (push_bit (32 - n) (drop_bit (32 - n) w)) n
                 | Addr6 w _ \<Rightarrow> IPNet6 (push_bit (128 - n) (drop_bit (128 - n) w)) n)
           | _ \<Rightarrow> bad)
      | _ \<Rightarrow> bad)"

fun IPNet_Contains :: "IPNet \<Rightarrow> 128 word \<Rightarrow> bool" where
  "IPNet_Contains (IPNet4 nn n) ip =
     (case to4 ip of None \<Rightarrow> False | Some x \<Rightarrow> drop_bit (32 - n) (x XOR nn) = 0)"
| "IPNet_Contains (IPNet6 nn n) ip =
     (case (to4 nn, to4 ip) of
        (Some nn4, Some x) \<Rightarrow> drop_bit (32 - (n - 96)) (x XOR nn4) = 0
      | (None, None) \<Rightarrow> drop_bit (128 - n) (ip XOR nn) = 0
      | _ \<Rightarrow> False)"

section \<open>Membership is equality of the network numbers\<close>

lemma drop_bit_xor_eq_0_iff: "drop_bit k (a XOR b) = 0 \<longleftrightarrow> drop_bit k a = drop_bit k b" for a b :: "'a::len word"
proof -
  have "x XOR y = 0 \<longleftrightarrow> x = y" for x y :: "'a word"
    by (auto simp: bit_eq_iff bit_simps)
  then show ?thesis by (simp add: drop_bit_xor)
qed

lemma same_network: "drop_bit k a = drop_bit k b \<longleftrightarrow> unat a div 2 ^ k = unat b div 2 ^ k" for a b :: "'a::len word"
  by (simp add: word_unat_eq_iff unat_drop_bit_eq drop_bit_eq_div [where ?'a = nat])

lemma Prefix_Contains4:
  "Prefix_Contains \<lparr>prefixAddr = Addr4 n, prefixBits = b\<rparr> (Addr4 a) \<longleftrightarrow>
     unat a div 2 ^ (32 - b) = unat n div 2 ^ (32 - b)"
  by (simp only: Prefix_Contains.simps Prefix.simps Addr.simps drop_bit_xor_eq_0_iff same_network)

lemma Prefix_Contains6:
  "Prefix_Contains \<lparr>prefixAddr = Addr6 n z, prefixBits = b\<rparr> (Addr6 a []) \<longleftrightarrow>
     unat a div 2 ^ (128 - b) = unat n div 2 ^ (128 - b)"
  by (simp only: Prefix_Contains.simps Prefix.simps Addr.simps drop_bit_xor_eq_0_iff same_network simp_thms)

end
