(* ===== verification/Networking_Info.thy ===== *)
theory Networking_Info
  imports Networking_SG K8s_Objects Go_Net Algorithm Effects
begin

text \<open>
  What the controller knows about the network of its VPC, \<^verbatim>\<open>pkg/networking\<close>: CIDR utilities
  (\<^verbatim>\<open>utils.go\<close>), VPC and availability zone information with their caches
  (\<^verbatim>\<open>vpc_info_provider.go\<close>, \<^verbatim>\<open>az_info_provider.go\<close>), the instances of nodes
  (\<^verbatim>\<open>node_info_provider.go\<close>) and the network interfaces of pods and nodes
  (\<^verbatim>\<open>eni_info.go\<close>, \<^verbatim>\<open>pod_eni_info_resolver.go\<close>, \<^verbatim>\<open>node_eni_info_resolver.go\<close>). A cache is a pair of
  functions on the world: a lookup, which may also miss because an entry expired, and a store.
  Making a slice with a negative capacity panics; the panic is an error value here.
\<close>

section \<open>CIDRs\<close>

record SdkCidrBlockAssociation =
  cbaCidrBlock :: "string option"
  cbaState :: "string option"

record Subnet =
  subnetSubnetId :: "string option"
  subnetVpcId :: "string option"
  subnetAvailabilityZone :: "string option"
  subnetAvailabilityZoneId :: "string option"
  subnetAvailableIpAddressCount :: "int option"
  subnetCidrBlock :: "string option"
  subnetIpv6CidrBlockAssociationSet :: "SdkCidrBlockAssociation list"
  subnetOutpostArn :: "string option"
  subnetTags :: "Ec2Tag list"

definition ParseCIDRs :: "string list \<Rightarrow> Prefix list result" where
  "ParseCIDRs cidrs = result_mapM ParsePrefix cidrs"

definition IsIPWithinCIDRs :: "Addr \<Rightarrow> Prefix list \<Rightarrow> bool" where
  "IsIPWithinCIDRs ip cidrs = list_ex (\<lambda>cidr. Prefix_Contains cidr ip) cidrs"

definition FilterIPsWithinCIDRs :: "Addr list \<Rightarrow> Prefix list \<Rightarrow> Addr list" where
  "FilterIPsWithinCIDRs ips cidrs = filter (\<lambda>ip. list_ex (\<lambda>cidr. Prefix_Contains cidr ip) cidrs) ips"

definition GetSubnetAssociatedIPv4CIDRs :: "Subnet \<Rightarrow> Prefix list result" where
  "GetSubnetAssociatedIPv4CIDRs subnet =
     (case subnetCidrBlock subnet of
        None \<Rightarrow> Inr []
      | Some cidrBlock \<Rightarrow> result_bind (ParsePrefix cidrBlock) (\<lambda>ipv4CIDR. Inr [ipv4CIDR]))"

definition associated :: "SdkCidrBlockAssociation list \<Rightarrow> string list" where
  "associated as = map (\<lambda>a. StringValue (cbaCidrBlock a)) (filter (\<lambda>a. StringValue (cbaState a) = ''associated'') as)"

definition GetSubnetAssociatedIPv6CIDRs :: "Subnet \<Rightarrow> Prefix list result" where
  "GetSubnetAssociatedIPv6CIDRs subnet = result_mapM ParsePrefix (associated (subnetIpv6CidrBlockAssociationSet subnet))"

section \<open>VPC information\<close>

record VPCInfo =
  vpcCidrBlockAssociationSet :: "SdkCidrBlockAssociation list"
  vpcIpv6CidrBlockAssociationSet :: "SdkCidrBlockAssociation list"

definition AssociatedIPv4CIDRs :: "VPCInfo \<Rightarrow> string list" where
  "AssociatedIPv4CIDRs vpc = associated (vpcCidrBlockAssociationSet vpc)"

definition AssociatedIPv6CIDRs :: "VPCInfo \<Rightarrow> string list" where
  "AssociatedIPv6CIDRs vpc = associated (vpcIpv6CidrBlockAssociationSet vpc)"

record FetchVPCInfoOptions =
  ReloadIgnoringCache :: bool

datatype FetchVPCInfoOption = FetchVPCInfoWithoutCache

fun apply_fetch_option :: "FetchVPCInfoOption \<Rightarrow> FetchVPCInfoOptions \<Rightarrow> FetchVPCInfoOptions" where
  "apply_fetch_option FetchVPCInfoWithoutCache opts = opts\<lparr>ReloadIgnoringCache := True\<rparr>"

record 'w defaultVPCInfoProvider =
  DescribeVpcsWithContext :: "string list \<Rightarrow> ('w, VPCInfo list) io"
  vpcInfoCacheGet :: "string \<Rightarrow> 'w \<Rightarrow> VPCInfo option"
  vpcInfoCacheSet :: "string \<Rightarrow> VPCInfo \<Rightarrow> 'w \<Rightarrow> 'w"

definition fetchVPCInfoFromAWS :: "'w defaultVPCInfoProvider \<Rightarrow> string \<Rightarrow> ('w, VPCInfo) io" where
  "fetchVPCInfoFromAWS p vpcID =
     io_bind (DescribeVpcsWithContext p [vpcID]) (\<lambda>vpcs.
       case vpcs of [] \<Rightarrow> io_fail (Errorf ''index out of range'' []) | vpc # _ \<Rightarrow> io_return vpc)"

definition FetchVPCInfo :: "'w defaultVPCInfoProvider \<Rightarrow> string \<Rightarrow> FetchVPCInfoOption list \<Rightarrow> ('w, VPCInfo) io" where
  "FetchVPCInfo p vpcID opts w =
     (let fetchOpts = fold apply_fetch_option opts \<lparr>ReloadIgnoringCache = False\<rparr>;
          fetch = (case fetchVPCInfoFromAWS p vpcID w of
                     (Inl err, w') \<Rightarrow> (Inl err, w')
                   | (Inr vpcInfo, w') \<Rightarrow> (Inr vpcInfo, vpcInfoCacheSet p vpcID vpcInfo w'))
      in if \<not> ReloadIgnoringCache fetchOpts
         then (case vpcInfoCacheGet p vpcID w of Some vpcInfo \<Rightarrow> (Inr vpcInfo, w) | None \<Rightarrow> fetch)
         else fetch)"

section \<open>Lookups through a cache\<close>

text \<open>Three components answer for a list of items from a cache, look up the rest, store what they
  found and check that nothing is missing. These are the parts they have in common.\<close>

definition infos_from_cache :: "('a \<Rightarrow> 'k) \<Rightarrow> ('a \<Rightarrow> 'w \<Rightarrow> 'v option) \<Rightarrow> 'a list \<Rightarrow> 'w \<Rightarrow> ('k, 'v) gomap" where
  "infos_from_cache key getInfo xs w =
     fold (\<lambda>x m. case getInfo x w of Some info \<Rightarrow> AList.update (key x) info m | None \<Rightarrow> m) xs []"

definition save_infos :: "('a \<Rightarrow> 'k) \<Rightarrow> ('a \<Rightarrow> 'v \<Rightarrow> 'w \<Rightarrow> 'w) \<Rightarrow> 'a list \<Rightarrow> ('k, 'v) gomap \<Rightarrow> 'w \<Rightarrow> 'w" where
  "save_infos key setInfo xs infos w =
     fold (\<lambda>x w. case map_of infos (key x) of Some info \<Rightarrow> setInfo x info w | None \<Rightarrow> w) xs w"

definition without_info :: "('a \<Rightarrow> 'k) \<Rightarrow> 'a list \<Rightarrow> ('k, 'v) gomap \<Rightarrow> 'a list result" where
  "without_info key xs infos =
     (if length xs < length infos then Inl (Errorf ''makeslice: cap out of range'' [])
      else Inr (filter (\<lambda>x. map_of infos (key x) = None) xs))"

text \<open>The method \<^verbatim>\<open>Resolve\<close> of both resolvers of network interfaces.\<close>

definition resolve_cached ::
  "('a \<Rightarrow> 'k) \<Rightarrow> ('a \<Rightarrow> 'w \<Rightarrow> 'v option) \<Rightarrow> ('a \<Rightarrow> 'v \<Rightarrow> 'w \<Rightarrow> 'w) \<Rightarrow> ('a list \<Rightarrow> ('w, ('k, 'v) gomap) io) \<Rightarrow>
     ('a list \<Rightarrow> go_error) \<Rightarrow> 'a list \<Rightarrow> ('w, ('k, 'v) gomap) io" where
  "resolve_cached key getInfo setInfo lookup unresolved xs w =
     (let infos = infos_from_cache key getInfo xs w in
      case without_info key xs infos of
        Inl e \<Rightarrow> (Inl e, w)
      | Inr missing \<Rightarrow>
          if missing \<noteq> [] then
            (case lookup missing w of
               (Inl err, w') \<Rightarrow> (Inl err, w')
             | (Inr found, w') \<Rightarrow>
                 let w'' = save_infos key setInfo missing found w' in
                 case without_info key missing found of
                   Inl e \<Rightarrow> (Inl e, w'')
                 | Inr missing' \<Rightarrow>
                     if missing' \<noteq> [] then (Inl (unresolved missing'), w'')
                     else (Inr (put_all found infos), w''))
          else (Inr infos, w))"

section \<open>Availability zones\<close>

record AvailabilityZone =
  azZoneId :: "string option"
  azZoneName :: "string option"
  azZoneType :: "string option"

record 'w defaultAZInfoProvider =
  DescribeAvailabilityZonesWithContext :: "string list \<Rightarrow> ('w, AvailabilityZone list) io"
  azInfoCacheGet :: "string \<Rightarrow> 'w \<Rightarrow> AvailabilityZone option"
  azInfoCacheSet :: "string \<Rightarrow> AvailabilityZone \<Rightarrow> 'w \<Rightarrow> 'w"

definition computeAZIDsWithoutAZInfo :: "string list \<Rightarrow> (string, AvailabilityZone) gomap \<Rightarrow> string list result" where
  "computeAZIDsWithoutAZInfo availabilityZoneIDs azInfoByAZID = without_info (\<lambda>azID. azID) availabilityZoneIDs azInfoByAZID"

definition fetchAZInfosFromAWS :: "'w defaultAZInfoProvider \<Rightarrow> string list \<Rightarrow> ('w, (string, AvailabilityZone) gomap) io" where
  "fetchAZInfosFromAWS p availabilityZoneIDs =
     io_bind (DescribeAvailabilityZonesWithContext p availabilityZoneIDs) (\<lambda>azs.
       io_return (index_by (\<lambda>az. StringValue (azZoneId az)) azs))"

definition fetchAZInfosFromCache :: "'w defaultAZInfoProvider \<Rightarrow> string list \<Rightarrow> 'w \<Rightarrow> (string, AvailabilityZone) gomap" where
  "fetchAZInfosFromCache p availabilityZoneIDs w = infos_from_cache (\<lambda>azID. azID) (azInfoCacheGet p) availabilityZoneIDs w"

definition saveAZInfosToCache :: "'w defaultAZInfoProvider \<Rightarrow> (string, AvailabilityZone) gomap \<Rightarrow> 'w \<Rightarrow> 'w" where
  "saveAZInfosToCache p azInfoByAZID w = fold (\<lambda>(azID, azInfo). azInfoCacheSet p azID azInfo) azInfoByAZID w"

definition FetchAZInfos :: "'w defaultAZInfoProvider \<Rightarrow> string list \<Rightarrow> ('w, (string, AvailabilityZone) gomap) io" where
  "FetchAZInfos p availabilityZoneIDs w =
     (let azInfoByAZID = fetchAZInfosFromCache p availabilityZoneIDs w in
      case computeAZIDsWithoutAZInfo availabilityZoneIDs azInfoByAZID of
        Inl e \<Rightarrow> (Inl e, w)
      | Inr azIDsWithoutAZInfo \<Rightarrow>
          if azIDsWithoutAZInfo = [] then (Inr azInfoByAZID, w)
          else
            (case fetchAZInfosFromAWS p azIDsWithoutAZInfo w of
               (Inl err, w') \<Rightarrow> (Inl err, w')
             | (Inr azInfoByAZIDViaAWS, w') \<Rightarrow>
                 let w'' = saveAZInfosToCache p azInfoByAZIDViaAWS w';
                     azInfoByAZID = put_all azInfoByAZIDViaAWS azInfoByAZID
                 in case computeAZIDsWithoutAZInfo availabilityZoneIDs azInfoByAZID of
                      Inl e \<Rightarrow> (Inl e, w'')
                    | Inr missing \<Rightarrow>
                        if missing \<noteq> [] then (Inl (Errorf ''cannot resolve AZ info for AZs: %v'' missing), w'')
                        else (Inr azInfoByAZID, w'')))"

section \<open>Network interfaces\<close>

record ENIInfo =
  eniNetworkInterfaceID :: string
  eniSecurityGroups :: "string list"

record NetworkInterface =
  niNetworkInterfaceId :: "string option"
  niGroups :: "string option list"
  niPrivateIpAddresses :: "string option list"
  niIpv6Addresses :: "string option list"

record InstanceNetworkInterface =
  iniNetworkInterfaceId :: "string option"
  iniGroups :: "string option list"
  iniPrivateIpAddresses :: "string option list"
  iniIpv4Prefixes :: "string option list"
  iniIpv6Prefixes :: "string option list"
  iniDeviceIndex :: "int option"

record Instance =
  instanceInstanceId :: "string option"
  instanceNetworkInterfaces :: "InstanceNetworkInterface list"

record DescribeNetworkInterfacesInput =
  dniNetworkInterfaceIds :: "string list"
  dniFilters :: "Ec2Filter list"

definition buildENIInfoViaENI :: "NetworkInterface \<Rightarrow> ENIInfo" where
  "buildENIInfoViaENI eni =
     \<lparr>eniNetworkInterfaceID = StringValue (niNetworkInterfaceId eni), eniSecurityGroups = map StringValue (niGroups eni)\<rparr>"

definition buildENIInfoViaInstanceENI :: "InstanceNetworkInterface \<Rightarrow> ENIInfo" where
  "buildENIInfoViaInstanceENI eni =
     \<lparr>eniNetworkInterfaceID = StringValue (iniNetworkInterfaceId eni), eniSecurityGroups = map StringValue (iniGroups eni)\<rparr>"

text \<open>The idiom \<^verbatim>\<open>m[k] = append(m[k], v)\<close>, and assigning one value to several keys.\<close>

definition append_at :: "'k \<Rightarrow> 'v \<Rightarrow> ('k, 'v list) gomap \<Rightarrow> ('k, 'v list) gomap" where
  "append_at k v m = AList.update k (gomap_index [] m k @ [v]) m"

definition assign_keys :: "'k list \<Rightarrow> 'v \<Rightarrow> ('k, 'v) gomap \<Rightarrow> ('k, 'v) gomap" where
  "assign_keys ks v m = fold (\<lambda>k. AList.update k v) ks m"

record 'w defaultNodeInfoProvider =
  DescribeInstancesAsList :: "string list \<Rightarrow> ('w, Instance list) io"
  nipList :: "string set \<Rightarrow> string list"

definition FetchNodeInstances :: "'w defaultNodeInfoProvider \<Rightarrow> Node list \<Rightarrow> ('w, (NamespacedName, Instance) gomap) io" where
  "FetchNodeInstances p nodes =
     (if nodes = [] then io_return []
      else io_bind (io_lift (result_foldM (\<lambda>nodeKeysByInstanceID node.
             result_bind (ExtractNodeInstanceID node) (\<lambda>instanceID.
               Inr (append_at instanceID (NamespacedName_of (nodeMeta node)) nodeKeysByInstanceID))) [] nodes))
           (\<lambda>nodeKeysByInstanceID.
             io_bind (DescribeInstancesAsList p (nipList p (set (gomap_keys nodeKeysByInstanceID)))) (\<lambda>instances.
               io_return (fold (\<lambda>inst. assign_keys (gomap_index [] nodeKeysByInstanceID (StringValue (instanceInstanceId inst))) inst)
                 instances []))))"

section \<open>The interfaces of nodes\<close>

record 'w defaultNodeENIInfoResolver =
  nrNodeInfoProvider :: "'w defaultNodeInfoProvider"
  nodeENIInfoCacheGet :: "NamespacedName \<times> string \<Rightarrow> 'w \<Rightarrow> ENIInfo option"
  nodeENIInfoCacheSet :: "NamespacedName \<times> string \<Rightarrow> ENIInfo \<Rightarrow> 'w \<Rightarrow> 'w"
  nrNameOrder :: "NamespacedName list \<Rightarrow> NamespacedName list"

definition node_key :: "Node \<Rightarrow> NamespacedName" where
  "node_key node = NamespacedName_of (nodeMeta node)"

definition computeNodeENIInfoCacheKey :: "Node \<Rightarrow> NamespacedName \<times> string" where
  "computeNodeENIInfoCacheKey node = (node_key node, omUID (nodeMeta node))"

definition findInstancePrimaryENI :: "InstanceNetworkInterface list \<Rightarrow> InstanceNetworkInterface result" where
  "findInstancePrimaryENI enis =
     (case List.find (\<lambda>eni. Int64Value (iniDeviceIndex eni) = 0) enis of
        Some eni \<Rightarrow> Inr eni
      | None \<Rightarrow> Inl (Errorf ''[this should never happen] no primary ENI found'' []))"

definition resolveViaInstanceID :: "'w defaultNodeENIInfoResolver \<Rightarrow> Node list \<Rightarrow> ('w, (NamespacedName, ENIInfo) gomap) io" where
  "resolveViaInstanceID r nodes =
     io_bind (FetchNodeInstances (nrNodeInfoProvider r) nodes) (\<lambda>nodeInstanceByNodeKey.
       io_lift (result_foldM (\<lambda>eniInfoByNodeKey (nodeKey, nodeInstance).
         result_bind (findInstancePrimaryENI (instanceNetworkInterfaces nodeInstance)) (\<lambda>primaryENI.
           Inr (AList.update nodeKey (buildENIInfoViaInstanceENI primaryENI) eniInfoByNodeKey)))
         [] (entries (nrNameOrder r) nodeInstanceByNodeKey)))"

definition NodeENI_Resolve :: "'w defaultNodeENIInfoResolver \<Rightarrow> Node list \<Rightarrow> ('w, (NamespacedName, ENIInfo) gomap) io" where
  "NodeENI_Resolve r nodes =
     resolve_cached node_key (\<lambda>node. nodeENIInfoCacheGet r (computeNodeENIInfoCacheKey node))
       (\<lambda>node. nodeENIInfoCacheSet r (computeNodeENIInfoCacheKey node)) (resolveViaInstanceID r)
       (\<lambda>missing. Errorf ''cannot resolve node ENI for nodes: %v'' (map (\<lambda>node. NamespacedName_String (node_key node)) missing)) nodes"

section \<open>The interfaces of pods\<close>

record 'w defaultPodENIInfoResolver =
  prGetNode :: "NamespacedName \<Rightarrow> ('w, Node) io"
  DescribeNetworkInterfacesAsList :: "DescribeNetworkInterfacesInput \<Rightarrow> ('w, NetworkInterface list) io"
  prNodeInfoProvider :: "'w defaultNodeInfoProvider"
  prVpcID :: string
  podENIInfoCacheGet :: "NamespacedName \<times> string \<Rightarrow> 'w \<Rightarrow> ENIInfo option"
  podENIInfoCacheSet :: "NamespacedName \<times> string \<Rightarrow> ENIInfo \<Rightarrow> 'w \<Rightarrow> 'w"
  describeNetworkInterfacesIPChunkSize :: int
  prList :: "string set \<Rightarrow> string list"
  prNameOrder :: "NamespacedName list \<Rightarrow> NamespacedName list"
  prStringOrder :: "string list \<Rightarrow> string list"

definition describeNetworkInterfacesFiltersLimit :: int where
  "describeNetworkInterfacesFiltersLimit = 200"

definition computePodENIInfoCacheKey :: "PodInfo \<Rightarrow> NamespacedName \<times> string" where
  "computePodENIInfoCacheKey podInfo = (podKey podInfo, podUID podInfo)"

definition computePodsWithoutENIInfo :: "PodInfo list \<Rightarrow> (NamespacedName, ENIInfo) gomap \<Rightarrow> PodInfo list result" where
  "computePodsWithoutENIInfo pods eniInfoByPodKey = without_info podKey pods eniInfoByPodKey"

definition annotated_eni :: "PodInfo \<Rightarrow> string" where
  "annotated_eni pod = fold (\<lambda>podENIInfo eniID. if peiPrivateIP podENIInfo = infoPodIP pod then ENIID podENIInfo else eniID)
     (infoENIInfos pod) []"

definition resolveViaPodENIAnnotation ::
  "'w defaultPodENIInfoResolver \<Rightarrow> PodInfo list \<Rightarrow> ('w, (NamespacedName, ENIInfo) gomap) io" where
  "resolveViaPodENIAnnotation r pods =
     (let podKeysByENIID = fold (\<lambda>pod m. if annotated_eni pod = [] then m else append_at (annotated_eni pod) (podKey pod) m) pods [] in
      if podKeysByENIID = [] then io_return []
      else io_bind (DescribeNetworkInterfacesAsList r
             \<lparr>dniNetworkInterfaceIds = prList r (set (gomap_keys podKeysByENIID)), dniFilters = []\<rparr>) (\<lambda>enis.
        io_return (fold (\<lambda>eni. assign_keys (gomap_index [] podKeysByENIID (StringValue (niNetworkInterfaceId eni))) (buildENIInfoViaENI eni))
          enis [])))"

definition isPodSupportedByNodeENI :: "PodInfo \<Rightarrow> InstanceNetworkInterface \<Rightarrow> bool" where
  "isPodSupportedByNodeENI pod nodeENI \<longleftrightarrow>
     list_ex (\<lambda>ipv4Address. infoPodIP pod = StringValue ipv4Address) (iniPrivateIpAddresses nodeENI) \<or>
     (case ParseIP (infoPodIP pod) of
        None \<Rightarrow> False
      | Some podIP \<Rightarrow>
          list_ex (\<lambda>prefix. case ParseCIDR (StringValue prefix) of Inl _ \<Rightarrow> False | Inr (_, cidr) \<Rightarrow> IPNet_Contains cidr podIP)
            (iniIpv4Prefixes nodeENI @ iniIpv6Prefixes nodeENI))"

definition pod_node_key :: "PodInfo \<Rightarrow> NamespacedName" where
  "pod_node_key pod = \<lparr>nnNamespace = [], nnName = infoNodeName pod\<rparr>"

text \<open>The two loop bodies: reading the nodes that are EC2 instances, and looking for the interface of a pod.\<close>

definition add_ec2_node :: "'w defaultPodENIInfoResolver \<Rightarrow> Node list \<Rightarrow> NamespacedName \<Rightarrow> ('w, Node list) io" where
  "add_ec2_node r nodes nodeKey =
     io_bind (prGetNode r nodeKey) (\<lambda>node.
       io_return (if gomap_index [] (omLabels (nodeMeta node)) ''eks.amazonaws.com/compute-type'' = ''fargate''
                  then nodes else nodes @ [node]))"

definition find_pod_eni :: "(NamespacedName, Instance) gomap \<Rightarrow> PodInfo \<Rightarrow> ENIInfo option" where
  "find_pod_eni nodeInstanceByNodeKey pod =
     (case map_of nodeInstanceByNodeKey (pod_node_key pod) of
        None \<Rightarrow> None
      | Some nodeInstance \<Rightarrow>
          map_option buildENIInfoViaInstanceENI (List.find (isPodSupportedByNodeENI pod) (instanceNetworkInterfaces nodeInstance)))"

definition resolveViaNodeENIs ::
  "'w defaultPodENIInfoResolver \<Rightarrow> PodInfo list \<Rightarrow> ('w, (NamespacedName, ENIInfo) gomap) io" where
  "resolveViaNodeENIs r pods =
     (let nodeKeysSet = remdups (map pod_node_key pods) in
      io_bind (io_foldM (add_ec2_node r) [] (prNameOrder r nodeKeysSet)) (\<lambda>nodes.
        if nodes = [] then io_return []
        else io_bind (FetchNodeInstances (prNodeInfoProvider r) nodes) (\<lambda>nodeInstanceByNodeKey.
          io_return (fold (\<lambda>pod m.
            case find_pod_eni nodeInstanceByNodeKey pod of
              None \<Rightarrow> m
            | Some eniInfo \<Rightarrow> AList.update (podKey pod) eniInfo m) pods []))))"

definition describe_chunk ::
  "'w defaultPodENIInfoResolver \<Rightarrow> string \<Rightarrow> (string, NetworkInterface) gomap \<Rightarrow> string list \<Rightarrow> ('w, (string, NetworkInterface) gomap) io" where
  "describe_chunk r ipAddressFilterKey eniByID podIPChunk =
     io_bind (DescribeNetworkInterfacesAsList r
         \<lparr>dniNetworkInterfaceIds = [],
          dniFilters = [\<lparr>ec2FilterName = ''vpc-id'', ec2FilterValues = [prVpcID r]\<rparr>,
            \<lparr>ec2FilterName = ipAddressFilterKey, ec2FilterValues = podIPChunk\<rparr>]\<rparr>) (\<lambda>enis.
       io_return (fold (\<lambda>eni. AList.update (StringValue (niNetworkInterfaceId eni)) eni) enis eniByID))"

definition getENIMappingViaDescribe ::
  "'w defaultPodENIInfoResolver \<Rightarrow> string list \<Rightarrow> string \<Rightarrow> ('w, (string, NetworkInterface) gomap) io" where
  "getENIMappingViaDescribe r podIPs ipAddressFilterKey =
     (case ChunkStrings podIPs (describeNetworkInterfacesIPChunkSize r) of
        None \<Rightarrow> io_fail (Errorf ''ChunkStrings does not return'' [])
      | Some (Inl e) \<Rightarrow> io_fail e
      | Some (Inr podIPChunks) \<Rightarrow> io_foldM (describe_chunk r ipAddressFilterKey) [] podIPChunks)"

definition assign_addresses ::
  "(string, NamespacedName list) gomap \<Rightarrow> (NetworkInterface \<Rightarrow> string option list) \<Rightarrow> NetworkInterface \<Rightarrow>
     (NamespacedName, ENIInfo) gomap \<Rightarrow> (NamespacedName, ENIInfo) gomap" where
  "assign_addresses podKeysByIP addresses eni m =
     fold (\<lambda>addr. assign_keys (gomap_index [] podKeysByIP (StringValue addr)) (buildENIInfoViaENI eni)) (addresses eni) m"

definition resolveViaVPCENIs ::
  "'w defaultPodENIInfoResolver \<Rightarrow> PodInfo list \<Rightarrow> ('w, (NamespacedName, ENIInfo) gomap) io" where
  "resolveViaVPCENIs r pods =
     (let podKeysByIP = fold (\<lambda>pod. append_at (infoPodIP pod) (podKey pod)) pods [] in
      if podKeysByIP = [] then io_return []
      else
        let podIPs = prList r (set (gomap_keys podKeysByIP));
            ipv4PodIPs = filter (\<lambda>ip. \<not> strings_Contains ip '':'') podIPs;
            ipv6PodIPs = filter (\<lambda>ip. strings_Contains ip '':'') podIPs
        in io_bind (if ipv4PodIPs \<noteq> [] then
             io_bind (getENIMappingViaDescribe r ipv4PodIPs ''addresses.private-ip-address'') (\<lambda>eniByID.
               io_return (fold (\<lambda>(_, eni). assign_addresses podKeysByIP niPrivateIpAddresses eni) (entries (prStringOrder r) eniByID) []))
             else io_return [])
          (\<lambda>eniInfoByPodKey.
             if ipv6PodIPs \<noteq> [] then
               io_bind (getENIMappingViaDescribe r ipv6PodIPs ''ipv6-addresses.ipv6-address'') (\<lambda>eniByID.
                 io_return (fold (\<lambda>(_, eni). assign_addresses podKeysByIP niIpv6Addresses eni) (entries (prStringOrder r) eniByID) eniInfoByPodKey))
             else io_return eniInfoByPodKey))"

fun cascade ::
  "(PodInfo list \<Rightarrow> ('w, (NamespacedName, ENIInfo) gomap) io) list \<Rightarrow> PodInfo list \<Rightarrow>
     (NamespacedName, ENIInfo) gomap \<Rightarrow> ('w, (NamespacedName, ENIInfo) gomap) io" where
  "cascade [] pods eniInfoByPodKey = io_return eniInfoByPodKey"
| "cascade (resolveFunc # rest) pods eniInfoByPodKey =
     (if pods = [] then io_return eniInfoByPodKey
      else io_bind (resolveFunc pods) (\<lambda>resolved.
        io_bind (io_lift (computePodsWithoutENIInfo pods resolved)) (\<lambda>pods'.
          cascade rest pods' (put_all resolved eniInfoByPodKey))))"

definition resolveViaCascadedLookup ::
  "'w defaultPodENIInfoResolver \<Rightarrow> PodInfo list \<Rightarrow> ('w, (NamespacedName, ENIInfo) gomap) io" where
  "resolveViaCascadedLookup r pods = cascade [resolveViaPodENIAnnotation r, resolveViaNodeENIs r, resolveViaVPCENIs r] pods []"

definition PodENI_Resolve :: "'w defaultPodENIInfoResolver \<Rightarrow> PodInfo list \<Rightarrow> ('w, (NamespacedName, ENIInfo) gomap) io" where
  "PodENI_Resolve r pods =
     resolve_cached podKey (\<lambda>pod. podENIInfoCacheGet r (computePodENIInfoCacheKey pod))
       (\<lambda>pod. podENIInfoCacheSet r (computePodENIInfoCacheKey pod)) (resolveViaCascadedLookup r)
       (\<lambda>missing. Errorf ''cannot resolve pod ENI for pods: %v'' (map (\<lambda>pod. NamespacedName_String (podKey pod)) missing)) pods"

section \<open>Maps built by the lookups\<close>

lemma append_at_index: "gomap_index [] (append_at k v m) k' = gomap_index [] m k' @ (if k' = k then [v] else [])"
  by (auto simp: append_at_def gomap_index_def update_conv')

lemma fold_append_at_index:
  "gomap_index [] (fold (\<lambda>x. append_at (f x) (g x)) xs m) k = gomap_index [] m k @ map g (filter (\<lambda>x. f x = k) xs)"
  by (induction xs arbitrary: m) (auto simp: append_at_index)

lemma fold_append_at_filter:
  "fold (\<lambda>x m. if P x then m else append_at (f x) (g x) m) xs m = fold (\<lambda>x. append_at (f x) (g x)) (filter (\<lambda>x. \<not> P x) xs) m"
  by (induction xs arbitrary: m) auto

lemma assign_keys_get: "map_of (assign_keys ks v m) k = (if k \<in> set ks then Some v else map_of m k)"
  unfolding assign_keys_def by (induction ks arbitrary: m) (auto simp: update_conv')

lemma assign_keys_wf [wf_intros]: "gomap_wf m \<Longrightarrow> gomap_wf (assign_keys ks v m)"
  unfolding assign_keys_def by (induction ks arbitrary: m) (auto intro: wf_intros)

lemma fold_assign_keys:
  fixes V :: "'e \<Rightarrow> 'v" and K :: "'e \<Rightarrow> 'k list" and es :: "'e list" and m :: "('k, 'v) gomap"
  assumes "gomap_wf m" "\<And>e. e \<in> set es \<Longrightarrow> set (K e) \<subseteq> Ks" "dom (map_of m) \<subseteq> Ks"
  defines "m' \<equiv> fold (\<lambda>e. assign_keys (K e) (V e)) es m"
  shows "gomap_wf m'" "dom (map_of m') \<subseteq> Ks"
    "map_of m' k = Some v \<Longrightarrow> map_of m k = Some v \<or> (\<exists>e\<in>set es. k \<in> set (K e) \<and> v = V e)"
proof -
  show "gomap_wf m'" unfolding m'_def using assms(1) by (induction es arbitrary: m) (auto intro: wf_intros)
  show *: "map_of m k = Some v \<or> (\<exists>e\<in>set es. k \<in> set (K e) \<and> v = V e)" if "map_of m' k = Some v" for k v
    using that unfolding m'_def by (induction es arbitrary: m) (fastforce simp: assign_keys_get split: if_splits)+
  show "dom (map_of m') \<subseteq> Ks"
  proof
    fix k assume "k \<in> dom (map_of m')"
    then obtain v where "map_of m' k = Some v" by auto
    from * [OF this] show "k \<in> Ks" using assms(2,3) by blast
  qed
qed

lemma fold_result_collect:
  assumes "result_foldM (\<lambda>m x. result_bind (f x) (\<lambda>y. Inr (append_at y (g x) m))) m xs = Inr m'"
  shows "gomap_index [] m' k = gomap_index [] m k @ map g (filter (\<lambda>x. f x = Inr k) xs)"
  using assms
proof (induction xs arbitrary: m)
  case (Cons x xs)
  then show ?case by (cases "f x") (auto simp: append_at_index)
qed simp

text \<open>A map over the keys of a list is not longer than the list, so the capacity of the slice for
  the items without an entry is never negative.\<close>

lemma capacity_ok:
  assumes "gomap_wf m" "dom (map_of m) \<subseteq> key ` set xs"
  shows "length m \<le> length xs"
proof -
  have "length m = card (fst ` set m)" using assms(1) by (metis gomap_wf_def distinct_card length_map list.set_map)
  also have "\<dots> \<le> card (key ` set xs)" using assms(2) by (intro card_mono) (simp_all add: dom_map_of_conv_image_fst)
  also have "\<dots> \<le> length xs" by (metis card_length length_map list.set_map)
  finally show ?thesis .
qed

lemma without_info_ok:
  "gomap_wf m \<Longrightarrow> dom (map_of m) \<subseteq> key ` set xs \<Longrightarrow> without_info key xs m = Inr (filter (\<lambda>x. map_of m (key x) = None) xs)"
  using capacity_ok [of m key xs] by (simp add: without_info_def)

lemma infos_from_cache:
  shows "gomap_wf (infos_from_cache key getInfo xs w)"
    and "dom (map_of (infos_from_cache key getInfo xs w)) \<subseteq> key ` set xs"
    and "distinct (map key xs) \<Longrightarrow> x \<in> set xs \<Longrightarrow> map_of (infos_from_cache key getInfo xs w) (key x) = getInfo x w"
proof -
  let ?step = "\<lambda>x m. case getInfo x w of Some info \<Rightarrow> AList.update (key x) info m | None \<Rightarrow> m"
  have "gomap_wf (fold ?step xs m)" if "gomap_wf m" for m
    using that by (induction xs arbitrary: m) (auto intro: wf_intros split: option.splits)
  then show "gomap_wf (infos_from_cache key getInfo xs w)" by (simp add: infos_from_cache_def)
  have other: "k \<notin> key ` set xs \<Longrightarrow> map_of (fold ?step xs m) k = map_of m k" for k m xs
    by (induction xs arbitrary: m) (auto simp: update_conv' split: option.splits)
  show "dom (map_of (infos_from_cache key getInfo xs w)) \<subseteq> key ` set xs"
  proof (rule subsetI, rule ccontr)
    fix k assume "k \<in> dom (map_of (infos_from_cache key getInfo xs w))" "k \<notin> key ` set xs"
    then show False using other [of k xs "[]"] by (simp add: infos_from_cache_def dom_def)
  qed
  have "map_of (fold ?step xs m) (key x) = getInfo x w"
    if "distinct (map key xs)" "x \<in> set xs" "map_of m (key x) = None" for m
    using that
  proof (induction xs arbitrary: m)
    case (Cons y ys)
    show ?case
    proof (cases "x = y")
      case True
      then have "key x \<notin> key ` set ys" using Cons.prems(1) by auto
      then show ?thesis using True Cons.prems(3) other by (auto simp: update_conv' split: option.splits)
    next
      case False
      then have "x \<in> set ys" using Cons.prems(2) by simp
      moreover from this have "key x \<in> key ` set ys" by simp
      then have "key x \<noteq> key y" using Cons.prems(1) by auto
      ultimately have "x \<in> set ys" "key x \<noteq> key y" by simp_all
      then show ?thesis using Cons.IH Cons.prems by (auto simp: update_conv' split: option.splits)
    qed
  qed simp
  then show "distinct (map key xs) \<Longrightarrow> x \<in> set xs \<Longrightarrow> map_of (infos_from_cache key getInfo xs w) (key x) = getInfo x w"
    by (simp add: infos_from_cache_def)
qed

section \<open>The contract of a resolver\<close>

text \<open>Calls leave a cache alone or let entries expire.\<close>

definition fades :: "('c \<Rightarrow> 'w \<Rightarrow> 'v option) \<Rightarrow> 'w \<Rightarrow> 'w \<Rightarrow> bool" where
  "fades get w w' \<longleftrightarrow> (\<forall>c. get c w' \<in> {None, get c w})"

interpretation fade: effect_preorder "fades get" for get
proof
  show "fades get w1 w3" if "fades get w1 w2" "fades get w2 w3" for w1 w2 w3 :: 'b
    unfolding fades_def
  proof
    fix c
    have "get c w2 \<in> {None, get c w1}" "get c w3 \<in> {None, get c w2}" using that by (simp_all add: fades_def)
    then show "get c w3 \<in> {None, get c w1}" by auto
  qed
qed (simp add: fades_def)

text \<open>
  What the shared part of the resolvers needs of a lookup: it answers only for the items it was
  asked about, what it answers is right, and it does not put anything into the cache. What they give
  in turn: an answer for every item, each of them right, and a cache that stays right.
\<close>

locale info_lookup =
  fixes key :: "'a \<Rightarrow> 'k" and getInfo :: "'a \<Rightarrow> 'w \<Rightarrow> 'v option" and setInfo :: "'a \<Rightarrow> 'v \<Rightarrow> 'w \<Rightarrow> 'w"
    and lookup :: "'a list \<Rightarrow> ('w, ('k, 'v) gomap) io" and right :: "'a \<Rightarrow> 'v \<Rightarrow> bool"
    and laws :: bool
  assumes lookup_sound: "laws \<Longrightarrow> distinct (map key xs) \<Longrightarrow> lookup xs w = (Inr m, w') \<Longrightarrow>
      gomap_wf m \<and> dom (map_of m) \<subseteq> key ` set xs \<and> (\<forall>x\<in>set xs. \<forall>i. map_of m (key x) = Some i \<longrightarrow> right x i)"
    and lookup_fades: "laws \<Longrightarrow> keeps (fades getInfo) (lookup xs)"
    and set_law: "laws \<Longrightarrow> getInfo y (setInfo x i w) \<in> {None, getInfo y w} \<or>
      (getInfo y (setInfo x i w) = Some i \<and> key y = key x)"
begin

definition coherent :: "'a list \<Rightarrow> 'w \<Rightarrow> bool" where
  "coherent xs w \<longleftrightarrow> (\<forall>x\<in>set xs. \<forall>i. getInfo x w = Some i \<longrightarrow> right x i)"

lemma coherent_fades: "coherent xs w \<Longrightarrow> fades getInfo w w' \<Longrightarrow> coherent xs w'"
  unfolding coherent_def fades_def by (metis insertE option.distinct(1) singletonD)

lemma coherent_save:
  assumes laws "distinct (map key xs)" "coherent xs w" "set ys \<subseteq> set xs"
    and "\<And>y i. y \<in> set ys \<Longrightarrow> map_of m (key y) = Some i \<Longrightarrow> right y i"
  shows "coherent xs (save_infos key setInfo ys m w)"
  using assms(3-5) unfolding save_infos_def
proof (induction ys arbitrary: w)
  case (Cons y ys)
  have "coherent xs (setInfo y i w)" if i: "map_of m (key y) = Some i" for i
    unfolding coherent_def
  proof (intro ballI allI impI)
    fix x j assume x: "x \<in> set xs" "getInfo x (setInfo y i w) = Some j"
    show "right x j"
    proof (cases "getInfo x w = Some j")
      case True then show ?thesis using Cons.prems(1) x(1) by (simp add: coherent_def)
    next
      case False
      then have "j = i" "key x = key y" using set_law [OF assms(1), of x y i w] x(2) by auto
      moreover from this have "x = y" using assms(2) x(1) Cons.prems(2) by (auto simp: distinct_map inj_on_def)
      ultimately show ?thesis using Cons.prems(3) [of y i] i by simp
    qed
  qed
  then show ?case using Cons by (auto split: option.splits)
qed simp

lemma resolved:
  assumes laws "distinct (map key xs)" "coherent xs w"
    and "resolve_cached key getInfo setInfo lookup unresolved xs w = (r, w')"
  shows "coherent xs w' \<and> (\<forall>m. r = Inr m \<longrightarrow> (\<forall>x\<in>set xs. \<exists>i. map_of m (key x) = Some i \<and> right x i))"
proof -
  define infos where "infos = infos_from_cache key getInfo xs w"
  define missing where "missing = filter (\<lambda>x. map_of infos (key x) = None) xs"
  have cached: "map_of infos (key x) = getInfo x w" if "x \<in> set xs" for x
    using infos_from_cache(3) [OF assms(2) that] by (simp add: infos_def)
  have "without_info key xs infos = Inr missing"
    unfolding missing_def infos_def by (intro without_info_ok infos_from_cache)
  note run = assms(4) [unfolded resolve_cached_def Let_def, folded infos_def, unfolded this]
  have hit: "\<exists>i. map_of infos (key x) = Some i \<and> right x i" if "x \<in> set xs" "x \<notin> set missing" for x
    using that cached [OF that(1)] assms(3) by (auto simp: missing_def coherent_def)
  show ?thesis
  proof (cases "missing = []")
    case True
    then show ?thesis using run assms(3) hit by auto
  next
    case False
    obtain q w1 where q: "lookup missing w = (q, w1)" by fastforce
    note co1 = coherent_fades [OF assms(3) keepsD [OF lookup_fades [OF assms(1)] q]]
    show ?thesis
    proof (cases q)
      case (Inl e)
      then show ?thesis using run False q co1 by auto
    next
      case (Inr found)
      have dm: "distinct (map key missing)" using assms(2) by (simp add: missing_def distinct_map_filter)
      note s = lookup_sound [OF assms(1) dm q [unfolded Inr]]
      have w': "w' = save_infos key setInfo missing found w1"
        using run False q Inr s without_info_ok [of found key missing] by (auto split: if_splits)
      have "coherent xs w'" unfolding w' using s
        by (intro coherent_save [OF assms(1,2) co1]) (auto simp: missing_def)
      moreover have "\<exists>i. map_of m (key x) = Some i \<and> right x i" if "r = Inr m" "x \<in> set xs" for m x
      proof -
        have *: "m = put_all found infos" "filter (\<lambda>x. map_of found (key x) = None) missing = []"
          using run False q Inr s without_info_ok [of found key missing] that(1) by (auto split: if_splits)
        have m: "map_of m (key x) = (case map_of found (key x) of Some i \<Rightarrow> Some i | None \<Rightarrow> map_of infos (key x))"
          using s by (simp add: *(1) put_all_get map_add_def)
        show ?thesis
        proof (cases "x \<in> set missing")
          case True
          then have "map_of found (key x) \<noteq> None" using *(2) by (auto simp: filter_empty_conv)
          then show ?thesis using m s True by auto
        next
          case False
          have "key x \<notin> key ` set missing"
            using False assms(2) that(2) by (auto simp: missing_def distinct_map inj_on_def)
          then have "map_of found (key x) = None" using s by (auto simp: dom_def)
          then show ?thesis using m hit [OF that(2) False] by simp
        qed
      qed
      ultimately show ?thesis by blast
    qed
  qed
qed

end

section \<open>The interfaces that support pods and nodes\<close>

text \<open>
  What the clients document, for a fixed state of the account: EC2 describes only interfaces
  and instances that exist, with the filter on the VPC only those of the VPC, and the API server
  returns the node with the name asked for. The sorted list of a set has its elements.
\<close>

record network =
  netENIs :: "NetworkInterface set"
  netVpcENIs :: "NetworkInterface set"
  netInstances :: "Instance set"
  netNodes :: "Node set"

definition describes_instances :: "network \<Rightarrow> 'w defaultNodeInfoProvider \<Rightarrow> bool" where
  "describes_instances net p \<longleftrightarrow>
     (\<forall>ids w insts w'. DescribeInstancesAsList p ids w = (Inr insts, w') \<longrightarrow> set insts \<subseteq> netInstances net)"

definition node_eni_laws :: "network \<Rightarrow> 'w defaultNodeENIInfoResolver \<Rightarrow> bool" where
  "node_eni_laws net r \<longleftrightarrow>
     describes_instances net (nrNodeInfoProvider r) \<and> range_order (nrNameOrder r) \<and>
     (\<forall>ids. keeps (fades (nodeENIInfoCacheGet r)) (DescribeInstancesAsList (nrNodeInfoProvider r) ids)) \<and>
     (\<forall>c c' i w. nodeENIInfoCacheGet r c' (nodeENIInfoCacheSet r c i w) \<in> {None, if c' = c then Some i else nodeENIInfoCacheGet r c' w})"

definition pod_eni_laws :: "network \<Rightarrow> 'w defaultPodENIInfoResolver \<Rightarrow> bool" where
  "pod_eni_laws net r \<longleftrightarrow>
     describes_instances net (prNodeInfoProvider r) \<and>
     (\<forall>k w node w'. prGetNode r k w = (Inr node, w') \<longrightarrow> node \<in> netNodes net \<and> node_key node = k) \<and>
     (\<forall>req w enis w'. DescribeNetworkInterfacesAsList r req w = (Inr enis, w') \<longrightarrow> set enis \<subseteq> netENIs net \<and>
        (\<lparr>ec2FilterName = ''vpc-id'', ec2FilterValues = [prVpcID r]\<rparr> \<in> set (dniFilters req) \<longrightarrow> set enis \<subseteq> netVpcENIs net)) \<and>
     range_order (prNameOrder r) \<and> range_order (prStringOrder r) \<and>
     (\<forall>ids. keeps (fades (podENIInfoCacheGet r)) (DescribeInstancesAsList (prNodeInfoProvider r) ids)) \<and>
     (\<forall>k. keeps (fades (podENIInfoCacheGet r)) (prGetNode r k)) \<and>
     (\<forall>req. keeps (fades (podENIInfoCacheGet r)) (DescribeNetworkInterfacesAsList r req)) \<and>
     (\<forall>c c' i w. podENIInfoCacheGet r c' (podENIInfoCacheSet r c i w) \<in> {None, if c' = c then Some i else podENIInfoCacheGet r c' w})"

text \<open>An instance runs a node if the provider ID of the node names it. The interface of a node is one
  with device index 0 of its instance. A pod is supported by the interface that its annotation
  names for its address, by an interface of the instance of its node that has the address or a
  prefix around it, or by one of the VPC that has the address.\<close>

definition runs_node :: "network \<Rightarrow> Node \<Rightarrow> Instance \<Rightarrow> bool" where
  "runs_node net node inst \<longleftrightarrow>
     inst \<in> netInstances net \<and> ExtractNodeInstanceID node = Inr (StringValue (instanceInstanceId inst))"

definition node_supported :: "network \<Rightarrow> Node \<Rightarrow> ENIInfo \<Rightarrow> bool" where
  "node_supported net node info \<longleftrightarrow>
     (\<exists>inst eni. runs_node net node inst \<and> eni \<in> set (instanceNetworkInterfaces inst) \<and>
        Int64Value (iniDeviceIndex eni) = 0 \<and> info = buildENIInfoViaInstanceENI eni)"

definition pod_annotated :: "network \<Rightarrow> PodInfo \<Rightarrow> ENIInfo \<Rightarrow> bool" where
  "pod_annotated net pod info \<longleftrightarrow> (\<exists>eni\<in>netENIs net. \<exists>a\<in>set (infoENIInfos pod).
     peiPrivateIP a = infoPodIP pod \<and> ENIID a = StringValue (niNetworkInterfaceId eni) \<and> info = buildENIInfoViaENI eni)"

definition pod_on_node :: "network \<Rightarrow> PodInfo \<Rightarrow> ENIInfo \<Rightarrow> bool" where
  "pod_on_node net pod info \<longleftrightarrow> (\<exists>node\<in>netNodes net. \<exists>inst eni. node_key node = pod_node_key pod \<and>
     runs_node net node inst \<and> eni \<in> set (instanceNetworkInterfaces inst) \<and> isPodSupportedByNodeENI pod eni \<and>
     info = buildENIInfoViaInstanceENI eni)"

definition pod_in_vpc :: "network \<Rightarrow> PodInfo \<Rightarrow> ENIInfo \<Rightarrow> bool" where
  "pod_in_vpc net pod info \<longleftrightarrow> (\<exists>eni\<in>netVpcENIs net. info = buildENIInfoViaENI eni \<and>
     infoPodIP pod \<in> StringValue ` set (niPrivateIpAddresses eni @ niIpv6Addresses eni))"

definition pod_supported :: "network \<Rightarrow> PodInfo \<Rightarrow> ENIInfo \<Rightarrow> bool" where
  "pod_supported net pod info \<longleftrightarrow> pod_annotated net pod info \<or> pod_on_node net pod info \<or> pod_in_vpc net pod info"

text \<open>What one lookup function answers for a list of pods.\<close>

definition answers :: "('a \<Rightarrow> 'k) \<Rightarrow> 'a list \<Rightarrow> ('a \<Rightarrow> 'v \<Rightarrow> bool) \<Rightarrow> ('k, 'v) gomap \<Rightarrow> bool" where
  "answers key xs right m \<longleftrightarrow> gomap_wf m \<and> dom (map_of m) \<subseteq> key ` set xs \<and>
     (\<forall>x\<in>set xs. \<forall>i. map_of m (key x) = Some i \<longrightarrow> right x i)"

lemma answers_Nil: "answers key xs right []"
  by (simp add: answers_def)

lemma answers_fold_assign:
  assumes "distinct (map key xs)" "answers key xs right m" "\<And>e k. e \<in> set es \<Longrightarrow> k \<in> set (K e) \<Longrightarrow> \<exists>x\<in>set xs. key x = k \<and> right x (V e)"
  shows "answers key xs right (fold (\<lambda>e. assign_keys (K e) (V e)) es m)"
proof -
  have K: "set (K e) \<subseteq> key ` set xs" if "e \<in> set es" for e using assms(3) [OF that] by blast
  note f = fold_assign_keys [of m es K "key ` set xs" V, OF _ K]
  have "right x i" if "x \<in> set xs" "map_of (fold (\<lambda>e. assign_keys (K e) (V e)) es m) (key x) = Some i" for x i
  proof -
    from f(3) [OF _ _ _ that(2)] assms(2) consider "map_of m (key x) = Some i" | e where "e \<in> set es" "key x \<in> set (K e)" "i = V e"
      by (auto simp: answers_def)
    then show ?thesis
    proof cases
      case 1 then show ?thesis using assms(2) that(1) by (simp add: answers_def)
    next
      case 2
      then obtain y where "y \<in> set xs" "key y = key x" "right y (V e)" using assms(3) by blast
      moreover from this have "y = x" using assms(1) that(1) by (simp add: distinct_map inj_on_def)
      ultimately show ?thesis using 2(3) by simp
    qed
  qed
  then show ?thesis using f(1,2) assms(2) by (simp add: answers_def)
qed

lemma FetchNodeInstances_sound:
  assumes "describes_instances net p" "FetchNodeInstances p nodes w = (Inr m, w')" "map_of m k = Some inst"
  shows "\<exists>node\<in>set nodes. node_key node = k \<and> runs_node net node inst"
proof (cases "nodes = []")
  case False
  let ?collect = "\<lambda>m node. result_bind (ExtractNodeInstanceID node) (\<lambda>instanceID. Inr (append_at instanceID (NamespacedName_of (nodeMeta node)) m))"
  obtain ks w1 insts where ks: "result_foldM ?collect [] nodes = Inr ks"
    and insts: "DescribeInstancesAsList p (nipList p (set (gomap_keys ks))) w1 = (Inr insts, w')"
    and m: "m = fold (\<lambda>inst. assign_keys (gomap_index [] ks (StringValue (instanceInstanceId inst))) inst) insts []"
    using assms(2) False unfolding FetchNodeInstances_def
    by (auto simp: io_bind_def io_lift_def io_return_def split: prod.splits sum.splits)
  have "gomap_index [] ks i = map node_key (filter (\<lambda>n. ExtractNodeInstanceID n = Inr i) nodes)" for i
    using fold_result_collect [OF ks, of i] by (simp add: node_key_def [abs_def] gomap_index_def)
  moreover obtain e where "e \<in> set insts" "k \<in> set (gomap_index [] ks (StringValue (instanceInstanceId e)))" "inst = e"
    using fold_assign_keys(3) [of "[]" insts "\<lambda>inst. gomap_index [] ks (StringValue (instanceInstanceId inst))" UNIV "\<lambda>inst. inst" k inst]
      assms(3) m by auto
  moreover from this have "inst \<in> netInstances net"
    using assms(1) insts unfolding describes_instances_def by blast
  ultimately show ?thesis by (auto simp: runs_node_def)
qed (use assms(2,3) in \<open>simp add: FetchNodeInstances_def io_return_def\<close>)

lemma FetchNodeInstances_wf:
  assumes "FetchNodeInstances p nodes w = (Inr m, w')"
  shows "gomap_wf m"
proof -
  have "gomap_wf (fold (\<lambda>inst. assign_keys (K inst) inst) insts [])" for K and insts :: "Instance list"
    by (rule fold_assign_keys(1) [where V = "\<lambda>x. x" and Ks = UNIV]) auto
  then show ?thesis using assms unfolding FetchNodeInstances_def
    by (auto simp: io_bind_def io_lift_def io_return_def split: prod.splits sum.splits if_splits)
qed

lemma fold_update_sound:
  assumes "distinct (map key xs)" "\<And>x i. x \<in> set xs \<Longrightarrow> f x = Some i \<Longrightarrow> right x i"
  shows "answers key xs right (fold (\<lambda>x m. case f x of None \<Rightarrow> m | Some i \<Rightarrow> AList.update (key x) i m) xs [])"
proof -
  have eq: "fold (\<lambda>x m. case f x of None \<Rightarrow> m | Some i \<Rightarrow> AList.update (key x) i m) xs [] =
      infos_from_cache key (\<lambda>x (_ :: unit). f x) xs ()"
    unfolding infos_from_cache_def by (rule fold_cong) (auto split: option.splits)
  note c = infos_from_cache(1,2) [of key "\<lambda>x (_ :: unit). f x" xs "()"] infos_from_cache(3) [OF assms(1), of _ "\<lambda>x (_ :: unit). f x" "()"]
  show ?thesis unfolding eq answers_def
    by (intro conjI ballI allI impI) (rule c(1), rule c(2), simp add: c(3) assms(2))
qed

lemma resolveViaInstanceID_sound:
  assumes "node_eni_laws net r" "distinct (map node_key nodes)" "resolveViaInstanceID r nodes w = (Inr m, w')"
  shows "answers node_key nodes (node_supported net) m"
proof -
  let ?step = "\<lambda>m (nodeKey, nodeInstance). result_bind (findInstancePrimaryENI (instanceNetworkInterfaces nodeInstance)) (\<lambda>eni.
    Inr (AList.update nodeKey (buildENIInfoViaInstanceENI eni) m))"
  have laws: "describes_instances net (nrNodeInfoProvider r)" "range_order (nrNameOrder r)"
    using assms(1) by (simp_all add: node_eni_laws_def)
  obtain insts w1 where f: "FetchNodeInstances (nrNodeInfoProvider r) nodes w = (Inr insts, w1)"
    and m: "result_foldM ?step [] (entries (nrNameOrder r) insts) = Inr m"
    using assms(3) unfolding resolveViaInstanceID_def
    by (auto simp: io_bind_def io_lift_def split: prod.splits sum.splits)
  have "gomap_wf m' \<and> (\<forall>k i. map_of m' k = Some i \<longrightarrow> map_of m0 k = Some i \<or>
      (\<exists>inst eni. (k, inst) \<in> set es \<and> findInstancePrimaryENI (instanceNetworkInterfaces inst) = Inr eni \<and> i = buildENIInfoViaInstanceENI eni))"
    if "result_foldM ?step m0 es = Inr m'" "gomap_wf m0" for m0 es m'
    using that
  proof (induction es arbitrary: m0)
    case (Cons e es)
    obtain k inst where e: "e = (k, inst)" by fastforce
    show ?case
    proof (cases "findInstancePrimaryENI (instanceNetworkInterfaces inst)")
      case (Inr eni)
      let ?m1 = "AList.update k (buildENIInfoViaInstanceENI eni) m0"
      have "result_foldM ?step ?m1 es = Inr m'" using Cons.prems(1) e Inr by simp
      note IH = Cons.IH [OF this gomap_wf_update [OF Cons.prems(2)]]
      then show ?thesis using e Inr by (fastforce simp: update_conv' split: if_splits)
    qed (use Cons.prems e in simp)
  qed simp
  from this [OF m] have wf: "gomap_wf m"
    and src: "\<And>k i. map_of m k = Some i \<Longrightarrow> \<exists>inst eni. map_of insts k = Some inst \<and>
      findInstancePrimaryENI (instanceNetworkInterfaces inst) = Inr eni \<and> i = buildENIInfoViaInstanceENI eni"
    by (auto simp: gomap_wf_def entries_iff [OF laws(2)])
  have "\<exists>node\<in>set nodes. node_key node = k \<and> node_supported net node i" if k: "map_of m k = Some i" for k i
  proof -
    obtain inst eni where i: "map_of insts k = Some inst" "findInstancePrimaryENI (instanceNetworkInterfaces inst) = Inr eni"
      "i = buildENIInfoViaInstanceENI eni" using src [OF k] by blast
    have "eni \<in> set (instanceNetworkInterfaces inst)" "Int64Value (iniDeviceIndex eni) = 0"
      using i(2) by (auto simp: findInstancePrimaryENI_def find_Some_iff split: option.splits)
    then show ?thesis using FetchNodeInstances_sound [OF laws(1) f i(1)] i(3) by (auto simp: node_supported_def)
  qed
  then show ?thesis using wf assms(2) unfolding answers_def dom_def
    by (auto simp: distinct_map inj_on_def)
qed

lemma pod_eni_lawsD:
  assumes "pod_eni_laws net r"
  shows "describes_instances net (prNodeInfoProvider r)"
    and "prGetNode r k w = (Inr node, w') \<Longrightarrow> node \<in> netNodes net \<and> node_key node = k"
    and "DescribeNetworkInterfacesAsList r req w = (Inr enis, w') \<Longrightarrow> set enis \<subseteq> netENIs net"
    and "DescribeNetworkInterfacesAsList r req w = (Inr enis, w') \<Longrightarrow>
      \<lparr>ec2FilterName = ''vpc-id'', ec2FilterValues = [prVpcID r]\<rparr> \<in> set (dniFilters req) \<Longrightarrow> set enis \<subseteq> netVpcENIs net"
    and "range_order (prNameOrder r)" "range_order (prStringOrder r)"
    and "keeps (fades (podENIInfoCacheGet r)) (DescribeInstancesAsList (prNodeInfoProvider r) ids)"
    and "keeps (fades (podENIInfoCacheGet r)) (prGetNode r k)"
    and "keeps (fades (podENIInfoCacheGet r)) (DescribeNetworkInterfacesAsList r req)"
    and "podENIInfoCacheGet r c' (podENIInfoCacheSet r c i v) \<in> {None, if c' = c then Some i else podENIInfoCacheGet r c' v}"
  using assms unfolding pod_eni_laws_def by blast+

lemma annotated_eni_source:
  assumes "annotated_eni pod \<noteq> []"
  shows "\<exists>a\<in>set (infoENIInfos pod). peiPrivateIP a = infoPodIP pod \<and> ENIID a = annotated_eni pod"
proof -
  let ?step = "\<lambda>a e. if peiPrivateIP a = infoPodIP pod then ENIID a else e"
  have "fold ?step as e = e \<or> (\<exists>a\<in>set as. peiPrivateIP a = infoPodIP pod \<and> ENIID a = fold ?step as e)" for as e
  proof (induction as arbitrary: e)
    case (Cons a as)
    from Cons.IH [of "?step a e"] show ?case by (auto split: if_splits)
  qed simp
  from this [of "infoENIInfos pod" "[]"] show ?thesis using assms unfolding annotated_eni_def by auto
qed

lemma resolveViaPodENIAnnotation_sound:
  assumes "pod_eni_laws net r" "distinct (map podKey pods)" "resolveViaPodENIAnnotation r pods w = (Inr m, w')"
  shows "answers podKey pods (pod_annotated net) m"
proof -
  define ks where "ks = fold (\<lambda>pod m. if annotated_eni pod = [] then m else append_at (annotated_eni pod) (podKey pod) m) pods []"
  have ks: "gomap_index [] ks e = map podKey (filter (\<lambda>p. annotated_eni p = e) (filter (\<lambda>p. annotated_eni p \<noteq> []) pods))" for e
    unfolding ks_def fold_append_at_filter fold_append_at_index by (simp add: gomap_index_def)
  show ?thesis
  proof (cases "ks = []")
    case True
    then show ?thesis using assms(3) by (simp add: resolveViaPodENIAnnotation_def flip: ks_def) (simp add: io_return_def answers_Nil)
  next
    case False
    obtain enis w1 req where enis: "DescribeNetworkInterfacesAsList r req w1 = (Inr enis, w')"
      and m: "m = fold (\<lambda>eni. assign_keys (gomap_index [] ks (StringValue (niNetworkInterfaceId eni))) (buildENIInfoViaENI eni)) enis []"
      using assms(3) False unfolding resolveViaPodENIAnnotation_def ks_def [symmetric] Let_def
      by (auto simp: io_bind_def io_return_def split: prod.splits sum.splits)
    note sub = pod_eni_lawsD(3) [OF assms(1) enis]
    show ?thesis unfolding m
    proof (rule answers_fold_assign [OF assms(2) answers_Nil])
      fix e k assume e: "e \<in> set enis" "k \<in> set (gomap_index [] ks (StringValue (niNetworkInterfaceId e)))"
      then obtain p where "p \<in> set pods" "podKey p = k" "annotated_eni p = StringValue (niNetworkInterfaceId e)" "annotated_eni p \<noteq> []"
        by (auto simp: ks)
      then show "\<exists>x\<in>set pods. podKey x = k \<and> pod_annotated net x (buildENIInfoViaENI e)"
        using e(1) sub annotated_eni_source [of p] by (intro bexI [of _ p]) (auto simp: pod_annotated_def)
    qed
  qed
qed

lemma add_ec2_nodes:
  assumes "pod_eni_laws net r" "io_foldM (add_ec2_node r) ns0 ks w = (Inr ns, w')"
  shows "set ns \<subseteq> set ns0 \<union> netNodes net"
  using assms(2)
proof (induction ks arbitrary: ns0 w)
  case (Cons k ks)
  obtain ns1 w1 where 1: "add_ec2_node r ns0 k w = (Inr ns1, w1)" and 2: "io_foldM (add_ec2_node r) ns1 ks w1 = (Inr ns, w')"
    using Cons.prems by (auto simp: io_bind_def split: prod.splits sum.splits)
  obtain node where "prGetNode r k w = (Inr node, w1)" "set ns1 \<subseteq> insert node (set ns0)"
    using 1 by (auto simp: add_ec2_node_def io_bind_def io_return_def split: prod.splits sum.splits if_splits)
  then show ?case using pod_eni_lawsD(2) [OF assms(1)] Cons.IH [OF 2] by blast
qed (simp add: io_return_def)

lemma resolveViaNodeENIs_sound:
  assumes "pod_eni_laws net r" "distinct (map podKey pods)" "resolveViaNodeENIs r pods w = (Inr m, w')"
  shows "answers podKey pods (pod_on_node net) m"
proof -
  obtain ns w1 where ns: "io_foldM (add_ec2_node r) [] (prNameOrder r (remdups (map pod_node_key pods))) w = (Inr ns, w1)"
    and rest: "(if ns = [] then io_return [] else io_bind (FetchNodeInstances (prNodeInfoProvider r) ns) (\<lambda>insts.
      io_return (fold (\<lambda>pod m. case find_pod_eni insts pod of None \<Rightarrow> m | Some i \<Rightarrow> AList.update (podKey pod) i m) pods []))) w1 = (Inr m, w')"
    using assms(3) unfolding resolveViaNodeENIs_def Let_def io_bind_def [of "io_foldM _ _ _"]
    by (auto split: prod.splits sum.splits)
  show ?thesis
  proof (cases "ns = []")
    case True
    then show ?thesis using rest by (simp add: io_return_def answers_Nil)
  next
    case False
    obtain insts where f: "FetchNodeInstances (prNodeInfoProvider r) ns w1 = (Inr insts, w')"
      and m: "m = fold (\<lambda>pod m. case find_pod_eni insts pod of None \<Rightarrow> m | Some i \<Rightarrow> AList.update (podKey pod) i m) pods []"
      using rest False by (auto simp: io_bind_def io_return_def split: prod.splits sum.splits)
    show ?thesis unfolding m
    proof (rule fold_update_sound [OF assms(2)])
      fix pod i assume "pod \<in> set pods" "find_pod_eni insts pod = Some i"
      then obtain inst eni where e: "map_of insts (pod_node_key pod) = Some inst"
        "List.find (isPodSupportedByNodeENI pod) (instanceNetworkInterfaces inst) = Some eni"
        "i = buildENIInfoViaInstanceENI eni" by (auto simp: find_pod_eni_def split: option.splits)
      have "eni \<in> set (instanceNetworkInterfaces inst)" "isPodSupportedByNodeENI pod eni"
        using e(2) by (auto simp: find_Some_iff)
      moreover obtain node where "node \<in> set ns" "node_key node = pod_node_key pod" "runs_node net node inst"
        using FetchNodeInstances_sound [OF pod_eni_lawsD(1) [OF assms(1)] f e(1)] by blast
      moreover have "set ns \<subseteq> netNodes net" using add_ec2_nodes [OF assms(1) ns] by simp
      ultimately show "pod_on_node net pod i" using e(3) unfolding pod_on_node_def by blast
    qed
  qed
qed

lemma assign_addresses_keys:
  "assign_addresses ks addresses eni m =
     assign_keys (concat (map (\<lambda>addr. gomap_index [] ks (StringValue addr)) (addresses eni))) (buildENIInfoViaENI eni) m"
proof -
  have "fold (\<lambda>addr. assign_keys (g addr) v) as m = assign_keys (concat (map g as)) v m" for g v as
    by (induction as arbitrary: m) (simp_all add: assign_keys_def)
  then show ?thesis by (simp add: assign_addresses_def)
qed

lemma fold_index_by_values:
  "map_of (fold (\<lambda>x. AList.update (key x) x) xs m) k = Some e \<Longrightarrow> map_of m k = Some e \<or> e \<in> set xs"
proof (induction xs arbitrary: m)
  case (Cons x xs)
  from Cons.IH [of "AList.update (key x) x m"] Cons.prems show ?case by (auto simp: update_conv' split: if_splits)
qed simp

lemma describe_chunks_sound:
  assumes "pod_eni_laws net r" "io_foldM (describe_chunk r f) m0 chunks w = (Inr m, w')" "map_of m k = Some e"
    "\<And>k e. map_of m0 k = Some e \<Longrightarrow> e \<in> netVpcENIs net"
  shows "e \<in> netVpcENIs net"
  using assms(2-4)
proof (induction chunks arbitrary: m0 w)
  case (Cons c cs)
  from Cons.prems(1) have "io_bind (describe_chunk r f m0 c) (\<lambda>m. io_foldM (describe_chunk r f) m cs) w = (Inr m, w')" by simp
  from io_bind_InrD [OF this] obtain m1 w1 where 1: "describe_chunk r f m0 c w = (Inr m1, w1)"
    and 2: "io_foldM (describe_chunk r f) m1 cs w1 = (Inr m, w')" by (elim exE conjE)
  from io_bind_InrD [OF 1 [unfolded describe_chunk_def]] obtain enis where
    d: "set enis \<subseteq> netVpcENIs net" and m1: "m1 = fold (\<lambda>eni. AList.update (StringValue (niNetworkInterfaceId eni)) eni) enis m0"
    using pod_eni_lawsD(4) [OF assms(1)] by (fastforce simp: io_return_def)
  have "e \<in> netVpcENIs net" if "map_of m1 k = Some e" for k e
    using fold_index_by_values [OF that [unfolded m1]] Cons.prems(3) d by blast
  then show ?case by (rule Cons.IH [OF 2 Cons.prems(2)])
qed (simp add: io_return_def)

lemma getENIMappingViaDescribe_sound:
  assumes "pod_eni_laws net r" "getENIMappingViaDescribe r ips f w = (Inr m, w')" "map_of m k = Some eni"
  shows "eni \<in> netVpcENIs net"
  using assms(2) describe_chunks_sound [OF assms(1) _ assms(3), of f "[]"] unfolding getENIMappingViaDescribe_def
  by (auto simp: io_fail_def split: option.splits sum.splits)

lemma resolveViaVPCENIs_sound:
  assumes "pod_eni_laws net r" "distinct (map podKey pods)" "resolveViaVPCENIs r pods w = (Inr m, w')"
  shows "answers podKey pods (pod_in_vpc net) m"
proof -
  define ks where "ks = fold (\<lambda>pod. append_at (infoPodIP pod) (podKey pod)) pods []"
  have ks: "gomap_index [] ks ip = map podKey (filter (\<lambda>p. infoPodIP p = ip) pods)" for ip
    unfolding ks_def fold_append_at_index by (simp add: gomap_index_def)
  let ?part = "\<lambda>ips f addresses m0. if ips \<noteq> [] then io_bind (getENIMappingViaDescribe r ips f) (\<lambda>enis.
      io_return (fold (\<lambda>(_, eni). assign_addresses ks addresses eni) (entries (prStringOrder r) enis) m0)) else io_return m0"
  have part: "answers podKey pods (pod_in_vpc net) m1"
    if run: "?part ips f addresses m0 w = (Inr m1, w')" and m0: "answers podKey pods (pod_in_vpc net) m0"
      and sub: "\<And>eni. set (addresses eni) \<subseteq> set (niPrivateIpAddresses eni @ niIpv6Addresses eni)"
    for ips f addresses m0 m1 w w'
  proof (cases "ips = []")
    case False
    then obtain enis w1 where d: "getENIMappingViaDescribe r ips f w = (Inr enis, w1)"
      and m1: "m1 = fold (\<lambda>(_, eni). assign_addresses ks addresses eni) (entries (prStringOrder r) enis) m0"
      using run by (auto simp: io_bind_def io_return_def split: prod.splits sum.splits)
    have "m1 = fold (\<lambda>e. assign_keys (concat (map (\<lambda>addr. gomap_index [] ks (StringValue addr)) (addresses (snd e)))) (buildENIInfoViaENI (snd e)))
        (entries (prStringOrder r) enis) m0"
      unfolding m1 by (rule fold_cong) (auto simp: assign_addresses_keys fun_eq_iff)
    also have "answers podKey pods (pod_in_vpc net) \<dots>"
    proof (rule answers_fold_assign [OF assms(2) m0])
      fix e k assume e: "e \<in> set (entries (prStringOrder r) enis)"
        "k \<in> set (concat (map (\<lambda>addr. gomap_index [] ks (StringValue addr)) (addresses (snd e))))"
      then obtain a p where p: "a \<in> set (addresses (snd e))" "p \<in> set pods" "podKey p = k" "infoPodIP p = StringValue a"
        by (auto simp: ks)
      have "map_of enis (fst e) = Some (snd e)"
        using e(1) entries_iff [OF pod_eni_lawsD(6) [OF assms(1)], of "fst e" "snd e" enis] by simp
      note this = getENIMappingViaDescribe_sound [OF assms(1) d this]
      then show "\<exists>x\<in>set pods. podKey x = k \<and> pod_in_vpc net x (buildENIInfoViaENI (snd e))"
        using p sub [of "snd e"] unfolding pod_in_vpc_def by (intro bexI [of _ p] conjI) (auto intro!: bexI [of _ "snd e"])
    qed
    finally show ?thesis .
  qed (use run m0 in \<open>simp add: io_return_def\<close>)
  show ?thesis
  proof (cases "ks = []")
    case True
    then show ?thesis using assms(3) by (simp add: resolveViaVPCENIs_def flip: ks_def) (simp add: io_return_def answers_Nil)
  next
    case False
    let ?ips = "prList r (set (gomap_keys ks))"
    have run: "io_bind (?part (filter (\<lambda>ip. \<not> strings_Contains ip '':'') ?ips) ''addresses.private-ip-address'' niPrivateIpAddresses [])
        (?part (filter (\<lambda>ip. strings_Contains ip '':'') ?ips) ''ipv6-addresses.ipv6-address'' niIpv6Addresses) w = (Inr m, w')"
      using assms(3) False unfolding resolveViaVPCENIs_def Let_def ks_def [symmetric] by simp
    from io_bind_InrD [OF this] obtain m1 w1 where
      1: "?part (filter (\<lambda>ip. \<not> strings_Contains ip '':'') ?ips) ''addresses.private-ip-address'' niPrivateIpAddresses [] w = (Inr m1, w1)"
      and 2: "?part (filter (\<lambda>ip. strings_Contains ip '':'') ?ips) ''ipv6-addresses.ipv6-address'' niIpv6Addresses m1 w1 = (Inr m, w')"
      by (elim exE conjE)
    have "answers podKey pods (pod_in_vpc net) m1" by (rule part [OF 1 answers_Nil]) simp
    then show ?thesis by (rule part [OF 2]) simp
  qed
qed

lemma cascade_sound:
  assumes "\<And>f pods w m w'. f \<in> set fs \<Longrightarrow> distinct (map podKey pods) \<Longrightarrow> f pods w = (Inr m, w') \<Longrightarrow> answers podKey pods right m"
    and "distinct (map podKey ps)" "set pods \<subseteq> set ps" "distinct (map podKey pods)" "answers podKey ps right acc"
    and "cascade fs pods acc w = (Inr m, w')"
  shows "answers podKey ps right m"
  using assms
proof (induction fs arbitrary: pods acc w)
  case (Cons f fs)
  show ?case
  proof (cases "pods = []")
    case False
    from Cons.prems(6) False have "io_bind (f pods) (\<lambda>resolved. io_bind (io_lift (computePodsWithoutENIInfo pods resolved))
        (\<lambda>pods'. cascade fs pods' (put_all resolved acc))) w = (Inr m, w')" by simp
    from io_bind_InrD [OF this] obtain m1 w1 where f: "f pods w = (Inr m1, w1)"
      and rest: "io_bind (io_lift (computePodsWithoutENIInfo pods m1)) (\<lambda>pods'. cascade fs pods' (put_all m1 acc)) w1 = (Inr m, w')"
      by (elim exE conjE)
    have a: "answers podKey pods right m1" by (rule Cons.prems(1) [of f pods w m1 w1]) (simp_all add: Cons.prems(4) f)
    let ?pods' = "filter (\<lambda>p. map_of m1 (podKey p) = None) pods"
    have "computePodsWithoutENIInfo pods m1 = Inr ?pods'"
      using a unfolding computePodsWithoutENIInfo_def answers_def by (intro without_info_ok) auto
    then have c: "cascade fs ?pods' (put_all m1 acc) w1 = (Inr m, w')" using rest by (simp add: io_bind_def io_lift_def)
    have "answers podKey ps right (put_all m1 acc)"
    proof -
      have "right x i" if x: "x \<in> set ps" "map_of (put_all m1 acc) (podKey x) = Some i" for x i
      proof (cases "map_of m1 (podKey x)")
        case None
        then show ?thesis using x a Cons.prems(5) by (simp add: answers_def put_all_get map_add_def)
      next
        case (Some j)
        then have "podKey x \<in> podKey ` set pods" "j = i" using a x(2) by (auto simp: answers_def put_all_get map_add_def)
        then have "x \<in> set pods" using x(1) Cons.prems(2,3) by (auto simp: distinct_map inj_on_def subset_iff)
        then show ?thesis using a Some \<open>j = i\<close> by (simp add: answers_def)
      qed
      moreover have "dom (map_of (put_all m1 acc)) = dom (map_of acc) \<union> dom (map_of m1)"
        using a by (simp add: answers_def put_all_get Un_commute)
      then have "dom (map_of (put_all m1 acc)) \<subseteq> podKey ` set ps"
        using a [unfolded answers_def, THEN conjunct2, THEN conjunct1] image_mono [OF Cons.prems(3), of podKey]
          Cons.prems(5) [unfolded answers_def, THEN conjunct2, THEN conjunct1] by (simp only: Un_least order_trans)
      ultimately show ?thesis using Cons.prems(5) by (simp add: answers_def put_all_wf)
    qed
    note acc' = this
    have p': "distinct (map podKey ?pods')" "set ?pods' \<subseteq> set ps"
      using Cons.prems(3,4) by (auto simp: distinct_map_filter)
    show ?thesis
    proof (rule Cons.IH [OF _ Cons.prems(2) p'(2,1) acc' c])
      fix g qs v n v' assume "g \<in> set fs" "distinct (map podKey qs)" "g qs v = (Inr n, v')"
      then show "answers podKey qs right n" by (intro Cons.prems(1) [of g qs v n v']) simp_all
    qed
  qed (use Cons.prems in \<open>simp add: io_return_def\<close>)
qed (simp add: io_return_def)

lemma resolveViaCascadedLookup_sound:
  assumes "pod_eni_laws net r" "distinct (map podKey pods)" "resolveViaCascadedLookup r pods w = (Inr m, w')"
  shows "answers podKey pods (pod_supported net) m"
proof (rule cascade_sound [OF _ assms(2) order_refl assms(2) answers_Nil assms(3) [unfolded resolveViaCascadedLookup_def]])
  fix f pods w m w'
  assume f: "f \<in> set [resolveViaPodENIAnnotation r, resolveViaNodeENIs r, resolveViaVPCENIs r]"
    and d: "distinct (map podKey pods)" and run: "f pods w = (Inr m, w')"
  have mono: "answers podKey pods (pod_supported net) m" if "answers podKey pods P m" "\<And>p i. P p i \<Longrightarrow> pod_supported net p i" for P
    using that by (auto simp: answers_def)
  from f consider "f = resolveViaPodENIAnnotation r" | "f = resolveViaNodeENIs r" | "f = resolveViaVPCENIs r" by auto
  then show "answers podKey pods (pod_supported net) m"
  proof cases
    case 1 then show ?thesis using run by (intro mono [OF resolveViaPodENIAnnotation_sound [OF assms(1) d]]) (auto simp: pod_supported_def)
  next
    case 2 then show ?thesis using run by (intro mono [OF resolveViaNodeENIs_sound [OF assms(1) d]]) (auto simp: pod_supported_def)
  next
    case 3 then show ?thesis using run by (intro mono [OF resolveViaVPCENIs_sound [OF assms(1) d]]) (auto simp: pod_supported_def)
  qed
qed

lemma FetchNodeInstances_fades:
  "(\<And>ids. keeps (fades get) (DescribeInstancesAsList p ids)) \<Longrightarrow> keeps (fades get) (FetchNodeInstances p nodes)"
  unfolding FetchNodeInstances_def by (intro keeps fade.pure fade.bind) auto

lemma resolveViaInstanceID_fades:
  "node_eni_laws net r \<Longrightarrow> keeps (fades (nodeENIInfoCacheGet r)) (resolveViaInstanceID r nodes)"
  unfolding resolveViaInstanceID_def node_eni_laws_def by (intro fade.bind fade.pure FetchNodeInstances_fades) auto

lemma resolveViaCascadedLookup_fades:
  assumes "pod_eni_laws net r"
  shows "keeps (fades (podENIInfoCacheGet r)) (resolveViaCascadedLookup r pods)"
proof -
  note calls = pod_eni_lawsD(7-9) [OF assms]
  have describe: "keeps (fades (podENIInfoCacheGet r)) (getENIMappingViaDescribe r ips f)" for ips f
    unfolding getENIMappingViaDescribe_def describe_chunk_def
    by (auto split: option.splits sum.splits intro!: fade.pure fade.foldM fade.bind calls)
  have "keeps (fades (podENIInfoCacheGet r)) (resolveViaPodENIAnnotation r ps)" for ps
    unfolding resolveViaPodENIAnnotation_def by (intro keeps calls fade.bind fade.pure)
  moreover have "keeps (fades (podENIInfoCacheGet r)) (resolveViaNodeENIs r ps)" for ps
    unfolding resolveViaNodeENIs_def add_ec2_node_def
    by (intro keeps calls fade.bind fade.pure fade.foldM FetchNodeInstances_fades)
  moreover have "keeps (fades (podENIInfoCacheGet r)) (resolveViaVPCENIs r ps)" for ps
    unfolding resolveViaVPCENIs_def by (intro keeps describe fade.bind fade.pure)
  ultimately have "\<forall>f\<in>set [resolveViaPodENIAnnotation r, resolveViaNodeENIs r, resolveViaVPCENIs r]. \<forall>ps. keeps (fades (podENIInfoCacheGet r)) (f ps)"
    by simp
  moreover have "keeps (fades (podENIInfoCacheGet r)) (cascade fs ps acc)"
    if "\<forall>f\<in>set fs. \<forall>ps. keeps (fades (podENIInfoCacheGet r)) (f ps)" for fs ps acc
    using that by (induction fs arbitrary: ps acc) (auto intro!: fade.pure fade.bind)
  ultimately show ?thesis unfolding resolveViaCascadedLookup_def by blast
qed

interpretation pod_eni: info_lookup podKey "\<lambda>pod. podENIInfoCacheGet r (computePodENIInfoCacheKey pod)"
    "\<lambda>pod. podENIInfoCacheSet r (computePodENIInfoCacheKey pod)" "resolveViaCascadedLookup r" "pod_supported net" "pod_eni_laws net r"
  for net r
proof
  fix xs w m w' assume "pod_eni_laws net r" "distinct (map podKey xs)" "resolveViaCascadedLookup r xs w = (Inr m, w')"
  from resolveViaCascadedLookup_sound [OF this]
  show "gomap_wf m \<and> dom (map_of m) \<subseteq> podKey ` set xs \<and> (\<forall>x\<in>set xs. \<forall>i. map_of m (podKey x) = Some i \<longrightarrow> pod_supported net x i)"
    by (simp add: answers_def)
next
  fix xs assume "pod_eni_laws net r"
  then show "keeps (fades (\<lambda>pod. podENIInfoCacheGet r (computePodENIInfoCacheKey pod))) (resolveViaCascadedLookup r xs)"
    using resolveViaCascadedLookup_fades [of net r xs] unfolding keeps_def fades_def by blast
next
  fix y x :: PodInfo and i w assume laws: "pod_eni_laws net r"
  show "podENIInfoCacheGet r (computePodENIInfoCacheKey y) (podENIInfoCacheSet r (computePodENIInfoCacheKey x) i w)
      \<in> {None, podENIInfoCacheGet r (computePodENIInfoCacheKey y) w} \<or>
    podENIInfoCacheGet r (computePodENIInfoCacheKey y) (podENIInfoCacheSet r (computePodENIInfoCacheKey x) i w) = Some i \<and> podKey y = podKey x"
    using pod_eni_lawsD(10) [OF laws, of "computePodENIInfoCacheKey y" "computePodENIInfoCacheKey x" i w]
    by (auto simp: computePodENIInfoCacheKey_def split: if_splits)
qed

interpretation node_eni: info_lookup node_key "\<lambda>node. nodeENIInfoCacheGet r (computeNodeENIInfoCacheKey node)"
    "\<lambda>node. nodeENIInfoCacheSet r (computeNodeENIInfoCacheKey node)" "resolveViaInstanceID r" "node_supported net" "node_eni_laws net r"
  for net r
proof
  fix xs w m w' assume "node_eni_laws net r" "distinct (map node_key xs)" "resolveViaInstanceID r xs w = (Inr m, w')"
  from resolveViaInstanceID_sound [OF this]
  show "gomap_wf m \<and> dom (map_of m) \<subseteq> node_key ` set xs \<and> (\<forall>x\<in>set xs. \<forall>i. map_of m (node_key x) = Some i \<longrightarrow> node_supported net x i)"
    by (simp add: answers_def)
next
  fix xs assume "node_eni_laws net r"
  then show "keeps (fades (\<lambda>node. nodeENIInfoCacheGet r (computeNodeENIInfoCacheKey node))) (resolveViaInstanceID r xs)"
    using resolveViaInstanceID_fades [of net r xs] unfolding keeps_def fades_def by blast
next
  fix y x :: Node and i w assume laws: "node_eni_laws net r"
  have "nodeENIInfoCacheGet r c' (nodeENIInfoCacheSet r c i w) \<in> {None, if c' = c then Some i else nodeENIInfoCacheGet r c' w}" for c c'
    using laws unfolding node_eni_laws_def by blast
  from this [of "computeNodeENIInfoCacheKey y" "computeNodeENIInfoCacheKey x"]
  show "nodeENIInfoCacheGet r (computeNodeENIInfoCacheKey y) (nodeENIInfoCacheSet r (computeNodeENIInfoCacheKey x) i w)
      \<in> {None, nodeENIInfoCacheGet r (computeNodeENIInfoCacheKey y) w} \<or>
    nodeENIInfoCacheGet r (computeNodeENIInfoCacheKey y) (nodeENIInfoCacheSet r (computeNodeENIInfoCacheKey x) i w) = Some i \<and> node_key y = node_key x"
    by (auto simp: computeNodeENIInfoCacheKey_def split: if_splits)
qed

text \<open>C8: The resolver of pod network interfaces answers for every pod or reports an error. Each
  answer, cached or not, is an interface that supports the pod: the one its annotation names for
  its address, one of the EC2 instance of its node that holds the address or a prefix around
  it, or one of the VPC that holds the address; and the cache holds only such answers
  afterwards.\<close>

theorem pod_eni_resolved:
  assumes "pod_eni_laws net r" "distinct (map podKey pods)"
    and "\<forall>pod\<in>set pods. \<forall>info. podENIInfoCacheGet r (computePodENIInfoCacheKey pod) w = Some info \<longrightarrow> pod_supported net pod info"
    and "PodENI_Resolve r pods w = (res, w')"
  shows "(\<forall>m. res = Inr m \<longrightarrow> (\<forall>pod\<in>set pods. \<exists>info. map_of m (podKey pod) = Some info \<and> pod_supported net pod info)) \<and>
     (\<forall>pod\<in>set pods. \<forall>info. podENIInfoCacheGet r (computePodENIInfoCacheKey pod) w' = Some info \<longrightarrow> pod_supported net pod info)"
  using pod_eni.resolved [OF assms(1,2) _ assms(4) [unfolded PodENI_Resolve_def]] assms(3)
  by (simp add: pod_eni.coherent_def)

text \<open>A cluster with one pod, whose address is on the interface of its node's instance.\<close>

definition example_eni :: InstanceNetworkInterface where
  "example_eni = \<lparr>iniNetworkInterfaceId = Some ''eni-1'', iniGroups = [Some ''sg-1''], iniPrivateIpAddresses = [Some ''10.0.0.9''],
     iniIpv4Prefixes = [Some ''10.0.1.0/28''], iniIpv6Prefixes = [], iniDeviceIndex = Some 0\<rparr>"

definition example_instance :: Instance where
  "example_instance = \<lparr>instanceInstanceId = Some ''i-1'', instanceNetworkInterfaces = [example_eni]\<rparr>"

definition example_ec2_node :: Node where
  "example_ec2_node = \<lparr>nodeMeta = \<lparr>omNamespace = [], omName = ''n'', omUID = ''u'', omLabels = [], omAnnotations = [], omFinalizers = [],
     omGeneration = 1, omDeletionTimestamp = None\<rparr>, nodeProviderID = ''aws:///az/i-1'', nodeTaints = [], nodeConditions = []\<rparr>"

definition example_network :: network where
  "example_network = \<lparr>netENIs = {}, netVpcENIs = {}, netInstances = {example_instance}, netNodes = {example_ec2_node}\<rparr>"

definition example_eni_pod :: PodInfo where
  "example_eni_pod = \<lparr>podKey = \<lparr>nnNamespace = ''ns'', nnName = ''p''\<rparr>, podUID = ''u1'', infoContainerPorts = [], infoReadinessGates = [],
     infoConditions = [], infoNodeName = ''n'', infoPodIP = ''10.0.1.7'', infoENIInfos = []\<rparr>"

type_synonym eni_cache = "(NamespacedName \<times> string, ENIInfo) gomap"

definition example_pod_resolver :: "eni_cache defaultPodENIInfoResolver" where
  "example_pod_resolver = \<lparr>prGetNode = \<lambda>k. if k = node_key example_ec2_node then io_return example_ec2_node else io_fail (ApiStatusError ''NotFound''),
     DescribeNetworkInterfacesAsList = \<lambda>_. io_return [],
     prNodeInfoProvider = \<lparr>DescribeInstancesAsList = \<lambda>ids. io_return [example_instance], nipList = \<lambda>_. [''i-1'']\<rparr>,
     prVpcID = ''vpc-1'', podENIInfoCacheGet = \<lambda>c w. map_of w c, podENIInfoCacheSet = AList.update,
     describeNetworkInterfacesIPChunkSize = 199, prList = \<lambda>_. [], prNameOrder = \<lambda>ks. ks, prStringOrder = \<lambda>ks. ks\<rparr>"

lemma example_pod_eni_laws: "pod_eni_laws example_network example_pod_resolver"
  unfolding pod_eni_laws_def
  by (auto simp: example_pod_resolver_def example_network_def describes_instances_def io_return_def io_fail_def keeps_def fades_def
      range_order_def update_conv' split: if_splits)

theorem pod_eni_resolved_witness:
  "\<exists>m w' info. PodENI_Resolve example_pod_resolver [example_eni_pod] [] = (Inr m, w') \<and>
     map_of m (podKey example_eni_pod) = Some info \<and> pod_supported example_network example_eni_pod info"
proof -
  have "isl (fst (PodENI_Resolve example_pod_resolver [example_eni_pod] [])) = False" by code_simp
  moreover obtain q w' where q: "PodENI_Resolve example_pod_resolver [example_eni_pod] [] = (q, w')" by (rule prod.exhaust)
  ultimately obtain m where m: "q = Inr m" by (cases q) auto
  have "\<forall>pod\<in>set [example_eni_pod]. \<forall>info. podENIInfoCacheGet example_pod_resolver (computePodENIInfoCacheKey pod) [] = Some info \<longrightarrow>
      pod_supported example_network pod info"
    by (simp add: example_pod_resolver_def)
  from pod_eni_resolved [OF example_pod_eni_laws _ this q] m
  show ?thesis using q by auto
qed

end
