(* ===== verification/Backend.thy ===== *)
theory Backend
  imports K8s_Objects
begin

text \<open>
  The endpoints behind a service, \<^verbatim>\<open>pkg/backend\<close>: the nodes that may proxy traffic
  (\<^verbatim>\<open>endpoint_utils.go\<close>) and the resolver of pod and node port endpoints
  (\<^verbatim>\<open>endpoint_resolver.go\<close>). The Kubernetes client, the repository of pods, the conversion of label
  selectors and the text of an error are parameters.
\<close>

section \<open>Endpoints\<close>

record EndpointPort =
  eppName :: "string option"
  eppProtocol :: "string option"
  eppPort :: "int option"
  eppAppProtocol :: "string option"

record TargetObjectReference =
  refKind :: string
  refName :: string

record Endpoint =
  epAddresses :: "string list"
  epReady :: "bool option"
  epServing :: "bool option"
  epTerminating :: "bool option"
  epHostname :: "string option"
  epTargetRef :: "TargetObjectReference option"
  epNodeName :: "string option"

record EndpointsData =
  edPorts :: "EndpointPort list"
  edEndpoints :: "Endpoint list"

text \<open>An endpoint slice, and the older \<^verbatim>\<open>Endpoints\<close> object with its subsets.\<close>

record EndpointSlice =
  slicePorts :: "EndpointPort list"
  sliceEndpoints :: "Endpoint list"

record CoreEndpointPort =
  cepName :: string
  cepPort :: int
  cepProtocol :: string
  cepAppProtocol :: "string option"

record EndpointAddress =
  eaIP :: string
  eaHostname :: string
  eaNodeName :: "string option"
  eaTargetRef :: "TargetObjectReference option"

record EndpointSubset =
  esAddresses :: "EndpointAddress list"
  esNotReadyAddresses :: "EndpointAddress list"
  esPorts :: "CoreEndpointPort list"

record PodEndpoint =
  peIP :: string
  pePort :: int
  pePod :: PodInfo

record NodePortEndpoint =
  npeInstanceID :: string
  npePort :: int
  npeNode :: Node

text \<open>A label selector of the Kubernetes library: one that selects nothing, or a conjunction of
  requirements. Adding requirements to the former leaves it as it is.\<close>

datatype 'q Selector = SelectNothing | Selector "'q list"

fun Requirements :: "'q Selector \<Rightarrow> 'q list" where
  "Requirements SelectNothing = []"
| "Requirements (Selector rs) = rs"

fun Selector_Add :: "'q Selector \<Rightarrow> 'q list \<Rightarrow> 'q Selector" where
  "Selector_Add SelectNothing rs = SelectNothing"
| "Selector_Add (Selector rs) rs' = Selector (rs @ rs')"

section \<open>Options\<close>

record 'q EndpointResolveOptions =
  roNodeSelector :: "'q Selector"
  roPodReadinessGates :: "string list"

datatype 'q EndpointResolveOption = WithNodeSelector "'q Selector" | WithPodReadinessGate string

fun apply_resolve_option :: "'q EndpointResolveOption \<Rightarrow> 'q EndpointResolveOptions \<Rightarrow> 'q EndpointResolveOptions" where
  "apply_resolve_option (WithNodeSelector nodeSelector) opts = opts\<lparr>roNodeSelector := nodeSelector\<rparr>"
| "apply_resolve_option (WithPodReadinessGate cond) opts =
     opts\<lparr>roPodReadinessGates := roPodReadinessGates opts @ [cond]\<rparr>"

definition defaultEndpointResolveOptions :: "'q EndpointResolveOptions" where
  "defaultEndpointResolveOptions = \<lparr>roNodeSelector = SelectNothing, roPodReadinessGates = []\<rparr>"

definition EndpointResolve_ApplyOptions ::
  "'q EndpointResolveOption list \<Rightarrow> 'q EndpointResolveOptions \<Rightarrow> 'q EndpointResolveOptions" where
  "EndpointResolve_ApplyOptions options opts = fold apply_resolve_option options opts"

section \<open>Nodes\<close>

definition labelNodeRoleMaster :: string where
  "labelNodeRoleMaster = ''node-role.kubernetes.io/master''"

definition labelNodeRoleExcludeBalancer :: string where
  "labelNodeRoleExcludeBalancer = ''node.kubernetes.io/exclude-from-external-load-balancers''"

definition labelAlphaNodeRoleExcludeBalancer :: string where
  "labelAlphaNodeRoleExcludeBalancer = ''alpha.service-controller.kubernetes.io/exclude-balancer''"

definition labelEKSComputeType :: string where
  "labelEKSComputeType = ''eks.amazonaws.com/compute-type''"

definition toBeDeletedByCATaint :: string where
  "toBeDeletedByCATaint = ''ToBeDeletedByClusterAutoscaler''"

definition defaultTrafficProxyNodeLabelSelector :: LabelSelector where
  "defaultTrafficProxyNodeLabelSelector =
     \<lparr>matchLabels = [],
      matchExpressions =
        [\<lparr>lsrKey = labelNodeRoleMaster, lsrOperator = ''DoesNotExist'', lsrValues = []\<rparr>,
         \<lparr>lsrKey = labelNodeRoleExcludeBalancer, lsrOperator = ''DoesNotExist'', lsrValues = []\<rparr>,
         \<lparr>lsrKey = labelAlphaNodeRoleExcludeBalancer, lsrOperator = ''DoesNotExist'', lsrValues = []\<rparr>,
         \<lparr>lsrKey = labelEKSComputeType, lsrOperator = ''NotIn'', lsrValues = [''fargate'']\<rparr>]\<rparr>"

definition GetTrafficProxyNodeSelector ::
  "(LabelSelector \<Rightarrow> 'q Selector result) \<Rightarrow> TargetGroupBinding \<Rightarrow> 'q Selector result" where
  "GetTrafficProxyNodeSelector LabelSelectorAsSelector tgb =
     result_bind (LabelSelectorAsSelector defaultTrafficProxyNodeLabelSelector) (\<lambda>selector.
       case tgbNodeSelector (tgbSpec tgb) of
         None \<Rightarrow> Inr selector
       | Some nodeSelector \<Rightarrow>
           result_bind (LabelSelectorAsSelector nodeSelector) (\<lambda>customSelector.
             Inr (Selector_Add selector (Requirements customSelector))))"

definition IsNodeSuitableAsTrafficProxy :: "Node \<Rightarrow> bool" where
  "IsNodeSuitableAsTrafficProxy node \<longleftrightarrow> \<not> list_ex (\<lambda>taint. taint = toBeDeletedByCATaint) (nodeTaints node)"

definition filterNodesByReadyConditionStatus :: "Node list \<Rightarrow> string \<Rightarrow> Node list" where
  "filterNodesByReadyConditionStatus nodes readyCondStatus =
     filter (\<lambda>node. case GetNodeCondition node ''Ready'' of
       None \<Rightarrow> False | Some readyCond \<Rightarrow> ncStatus readyCond = readyCondStatus) nodes"

section \<open>The resolver\<close>

record ('w, 'q) defaultEndpointResolver =
  erGetService :: "NamespacedName \<Rightarrow> ('w, Service) io"
  erGetEndpoints :: "NamespacedName \<Rightarrow> ('w, EndpointSubset list) io"
  erListEndpointSlices :: "string \<Rightarrow> string_map \<Rightarrow> ('w, EndpointSlice list) io"
  erListNodes :: "'q Selector \<Rightarrow> ('w, Node list) io"
  erGetNode :: "NamespacedName \<Rightarrow> ('w, Node) io"
  erPodInfoRepoGet :: "NamespacedName \<Rightarrow> ('w, PodInfo option) io"
  erFailOpenEnabled :: bool
  erEndpointSliceEnabled :: bool
  erIsNotFound :: "go_error \<Rightarrow> bool"
  erError :: "go_error \<Rightarrow> string"

definition ErrNotFound :: go_error where
  "ErrNotFound = Errorf ''backend not found'' []"

definition buildPodEndpoint :: "PodInfo \<Rightarrow> string \<Rightarrow> int \<Rightarrow> PodEndpoint" where
  "buildPodEndpoint pod epAddr port = \<lparr>peIP = epAddr, pePort = port, pePod = pod\<rparr>"

definition buildNodePortEndpoint :: "Node \<Rightarrow> string \<Rightarrow> int \<Rightarrow> NodePortEndpoint" where
  "buildNodePortEndpoint node instanceID nodePort = \<lparr>npeInstanceID = instanceID, npePort = nodePort, npeNode = node\<rparr>"

definition convertCoreEndpointPortToDiscoveryEndpointPort :: "CoreEndpointPort \<Rightarrow> EndpointPort" where
  "convertCoreEndpointPortToDiscoveryEndpointPort port =
     \<lparr>eppName = (if cepName port \<noteq> [] then Some (cepName port) else None),
      eppProtocol = (if cepProtocol port \<noteq> [] then Some (cepProtocol port) else None),
      eppPort = Some (cepPort port), eppAppProtocol = cepAppProtocol port\<rparr>"

definition convertCoreEndpointAddressToDiscoveryEndpoint :: "EndpointAddress \<Rightarrow> bool \<Rightarrow> Endpoint" where
  "convertCoreEndpointAddressToDiscoveryEndpoint endpoint ready =
     \<lparr>epAddresses = [eaIP endpoint], epReady = Some ready, epServing = Some ready, epTerminating = Some False,
      epHostname = (if eaHostname endpoint \<noteq> [] then Some (eaHostname endpoint) else None),
      epTargetRef = eaTargetRef endpoint, epNodeName = eaNodeName endpoint\<rparr>"

definition buildEndpointsDataFromEndpoints :: "EndpointSubset list \<Rightarrow> EndpointsData list" where
  "buildEndpointsDataFromEndpoints subsets =
     map (\<lambda>epSubset.
       \<lparr>edPorts = map convertCoreEndpointPortToDiscoveryEndpointPort (esPorts epSubset),
        edEndpoints = concat (map (\<lambda>(ready, addresses).
            map (\<lambda>addr. convertCoreEndpointAddressToDiscoveryEndpoint addr ready) addresses)
          [(True, esAddresses epSubset), (False, esNotReadyAddresses epSubset)])\<rparr>) subsets"

definition buildEndpointsDataFromEndpointSliceList :: "EndpointSlice list \<Rightarrow> EndpointsData list" where
  "buildEndpointsDataFromEndpointSliceList epsList =
     map (\<lambda>epSlice. \<lparr>edPorts = slicePorts epSlice, edEndpoints = sliceEndpoints epSlice\<rparr>) epsList"

definition findServiceAndServicePort ::
  "('w, 'q) defaultEndpointResolver \<Rightarrow> NamespacedName \<Rightarrow> IntOrString \<Rightarrow> ('w, Service \<times> ServicePort) io" where
  "findServiceAndServicePort r svcKey port w =
     (case erGetService r svcKey w of
        (Inl err, w') \<Rightarrow> (Inl (if erIsNotFound r err then Wrap ErrNotFound (erError r err) else err), w')
      | (Inr svc, w') \<Rightarrow>
          (case LookupServicePort svc port of
             Inl err \<Rightarrow> (Inl (Wrap ErrNotFound (erError r err)), w')
           | Inr svcPort \<Rightarrow> (Inr (svc, svcPort), w')))"

definition computeServiceEndpointsData ::
  "('w, 'q) defaultEndpointResolver \<Rightarrow> NamespacedName \<Rightarrow> ('w, EndpointsData list) io" where
  "computeServiceEndpointsData r svcKey w =
     (if erEndpointSliceEnabled r then
        io_bind (erListEndpointSlices r (nnNamespace svcKey) [(''kubernetes.io/service-name'', nnName svcKey)])
          (\<lambda>epSliceList. io_return (buildEndpointsDataFromEndpointSliceList epSliceList)) w
      else
        (case erGetEndpoints r svcKey w of
           (Inl err, w') \<Rightarrow> (Inl (if erIsNotFound r err then Wrap ErrNotFound (erError r err) else err), w')
         | (Inr eps, w') \<Rightarrow> (Inr (buildEndpointsDataFromEndpoints eps), w')))"

text \<open>The variables of the loop: the ready endpoints, those on nodes of unknown status, and whether
  there are endpoints that may turn ready.\<close>

type_synonym pod_endpoints = "PodEndpoint list \<times> PodEndpoint list \<times> bool"

definition node_ready_status :: "Node \<Rightarrow> string" where
  "node_ready_status node =
     (case GetNodeCondition node ''Ready'' of None \<Rightarrow> ConditionFalse | Some readyCond \<Rightarrow> ncStatus readyCond)"

definition resolve_pod_endpoint ::
  "('w, 'q) defaultEndpointResolver \<Rightarrow> NamespacedName \<Rightarrow> string list \<Rightarrow> int \<Rightarrow> pod_endpoints \<Rightarrow> Endpoint \<Rightarrow>
   ('w, pod_endpoints) io" where
  "resolve_pod_endpoint r svcKey readinessGates epPort acc ep =
     (case acc of (ready, unknown, potential) \<Rightarrow>
       (case epTargetRef ep of
          None \<Rightarrow> io_return acc
        | Some ref \<Rightarrow>
            if refKind ref \<noteq> ''Pod'' then io_return acc
            else (case epAddresses ep of
              [] \<Rightarrow> io_return acc
            | epAddr # _ \<Rightarrow>
                io_bind (erPodInfoRepoGet r \<lparr>nnNamespace = nnNamespace svcKey, nnName = refName ref\<rparr>) (\<lambda>found.
                  case found of
                    None \<Rightarrow> io_return (ready, unknown, True)
                  | Some pod \<Rightarrow>
                      let podEndpoint = buildPodEndpoint pod epAddr epPort in
                      if epReady ep = Some True then io_return (ready @ [podEndpoint], unknown, potential)
                      else if \<not> IsContainersReady pod then
                        io_return (ready, unknown, potential \<or> HasAnyOfReadinessGates pod readinessGates)
                      else (\<lambda>w. case erGetNode r \<lparr>nnNamespace = [], nnName = infoNodeName pod\<rparr> w of
                        (Inl err, w') \<Rightarrow> (Inr acc, w')
                      | (Inr node, w') \<Rightarrow>
                          (Inr (let status = node_ready_status node in
                             if status = ConditionTrue then
                               (if epTerminating ep = Some True then acc else (ready @ [podEndpoint], unknown, potential))
                             else if status = ConditionUnknown then (ready, unknown @ [podEndpoint], potential)
                             else acc), w'))))))"

definition resolvePodEndpointsWithEndpointsData ::
  "('w, 'q) defaultEndpointResolver \<Rightarrow> NamespacedName \<Rightarrow> ServicePort \<Rightarrow> EndpointsData list \<Rightarrow> string list \<Rightarrow>
   ('w, PodEndpoint list \<times> bool) io" where
  "resolvePodEndpointsWithEndpointsData r svcKey svcPort endpointsDataList readinessGates =
     io_bind
       (io_foldM (\<lambda>acc epsData.
          io_foldM (\<lambda>acc port.
            if spName svcPort \<noteq> [] \<and> spName svcPort \<noteq> StringValue (eppName port) then io_return acc
            else io_foldM (resolve_pod_endpoint r svcKey readinessGates (Int64Value (eppPort port))) acc (edEndpoints epsData))
            acc (edPorts epsData))
          ([], [], False) endpointsDataList)
       (\<lambda>(readyPodEndpoints, unknownPodEndpoints, containsPotentialReadyEndpoints).
          io_return (if erFailOpenEnabled r \<and> readyPodEndpoints = [] then unknownPodEndpoints else readyPodEndpoints,
            containsPotentialReadyEndpoints))"

definition ResolvePodEndpoints ::
  "('w, 'q) defaultEndpointResolver \<Rightarrow> NamespacedName \<Rightarrow> IntOrString \<Rightarrow> 'q EndpointResolveOption list \<Rightarrow>
   ('w, PodEndpoint list \<times> bool) io" where
  "ResolvePodEndpoints r svcKey port opts =
     (let resolveOpts = EndpointResolve_ApplyOptions opts defaultEndpointResolveOptions in
      io_bind (findServiceAndServicePort r svcKey port) (\<lambda>(_, svcPort).
      io_bind (computeServiceEndpointsData r svcKey) (\<lambda>endpointsDataList.
        resolvePodEndpointsWithEndpointsData r svcKey svcPort endpointsDataList (roPodReadinessGates resolveOpts))))"

definition ResolveNodePortEndpoints ::
  "('w, 'q) defaultEndpointResolver \<Rightarrow> NamespacedName \<Rightarrow> IntOrString \<Rightarrow> 'q EndpointResolveOption list \<Rightarrow>
   ('w, NodePortEndpoint list) io" where
  "ResolveNodePortEndpoints r svcKey port opts =
     (let resolveOpts = EndpointResolve_ApplyOptions opts defaultEndpointResolveOptions in
      io_bind (findServiceAndServicePort r svcKey port) (\<lambda>(svc, svcPort).
        if svcType svc \<noteq> ''NodePort'' \<and> svcType svc \<noteq> ''LoadBalancer'' then
          io_fail (Errorf ''service type must be either 'NodePort' or 'LoadBalancer': %v'' [NamespacedName_String svcKey])
        else io_bind (erListNodes r (roNodeSelector resolveOpts)) (\<lambda>nodeList.
          let candidateNodes = filter IsNodeSuitableAsTrafficProxy nodeList;
              readyNodes = filterNodesByReadyConditionStatus candidateNodes ConditionTrue;
              targetNodes = (if erFailOpenEnabled r \<and> readyNodes = []
                then filterNodesByReadyConditionStatus candidateNodes ConditionUnknown else readyNodes)
          in io_lift (result_mapM (\<lambda>node. result_bind (ExtractNodeInstanceID node) (\<lambda>instanceID.
               Inr (buildNodePortEndpoint node instanceID (spNodePort svcPort)))) targetNodes))))"

section \<open>Which pods serve\<close>

text \<open>The endpoints of a service port: those of a pod with an address, on a port with the name of the
  service port, or on any port when the service port has no name.\<close>

definition service_endpoint :: "ServicePort \<Rightarrow> EndpointsData list \<Rightarrow> int \<Rightarrow> Endpoint \<Rightarrow> string \<Rightarrow> string \<Rightarrow> bool" where
  "service_endpoint svcPort datas epPort ep name addr \<longleftrightarrow>
     (\<exists>d\<in>set datas. ep \<in> set (edEndpoints d) \<and>
        (\<exists>port\<in>set (edPorts d). (spName svcPort = [] \<or> StringValue (eppName port) = spName svcPort) \<and> Int64Value (eppPort port) = epPort)) \<and>
     (\<exists>ref. epTargetRef ep = Some ref \<and> refKind ref = ''Pod'' \<and> refName ref = name) \<and>
     (\<exists>rest. epAddresses ep = addr # rest)"

text \<open>What becomes of an endpoint, given the pods of the cache and the nodes of the cluster.\<close>

datatype endpoint_state = Serving PodEndpoint | NodeUnknown PodEndpoint | MayTurnReady | Ignored

definition endpoint_state ::
  "(NamespacedName \<Rightarrow> PodInfo option) \<Rightarrow> (NamespacedName \<Rightarrow> Node result) \<Rightarrow> string \<Rightarrow> string list \<Rightarrow> int \<Rightarrow> Endpoint \<Rightarrow>
   endpoint_state" where
  "endpoint_state pods nodes ns ts epPort ep =
     (case (epTargetRef ep, epAddresses ep) of
        (Some ref, addr # _) \<Rightarrow>
          if refKind ref \<noteq> ''Pod'' then Ignored
          else (case pods \<lparr>nnNamespace = ns, nnName = refName ref\<rparr> of
            None \<Rightarrow> MayTurnReady
          | Some pod \<Rightarrow>
              let e = \<lparr>peIP = addr, pePort = epPort, pePod = pod\<rparr> in
              if epReady ep = Some True then Serving e
              else if \<not> IsContainersReady pod then (if HasAnyOfReadinessGates pod ts then MayTurnReady else Ignored)
              else (case nodes \<lparr>nnNamespace = [], nnName = infoNodeName pod\<rparr> of
                Inl _ \<Rightarrow> Ignored
              | Inr node \<Rightarrow>
                  if node_ready_status node = ConditionTrue then (if epTerminating ep = Some True then Ignored else Serving e)
                  else if node_ready_status node = ConditionUnknown then NodeUnknown e
                  else Ignored))
      | _ \<Rightarrow> Ignored)"

fun add_state :: "endpoint_state \<Rightarrow> pod_endpoints \<Rightarrow> pod_endpoints" where
  "add_state (Serving e) (ready, unknown, potential) = (ready @ [e], unknown, potential)"
| "add_state (NodeUnknown e) (ready, unknown, potential) = (ready, unknown @ [e], potential)"
| "add_state MayTurnReady (ready, unknown, potential) = (ready, unknown, True)"
| "add_state Ignored acc = acc"

text \<open>Clients that answer from the cache of the controller: they do not change the world.\<close>

definition cached_reads ::
  "('w, 'q) defaultEndpointResolver \<Rightarrow> (NamespacedName \<Rightarrow> PodInfo option) \<Rightarrow> (NamespacedName \<Rightarrow> Node result) \<Rightarrow> bool" where
  "cached_reads r pods nodes \<longleftrightarrow>
     (\<forall>k w. erPodInfoRepoGet r k w = (Inr (pods k), w)) \<and> (\<forall>k w. erGetNode r k w = (nodes k, w))"

lemma resolve_pod_endpoint_state:
  assumes "cached_reads r pods nodes"
  shows "resolve_pod_endpoint r svcKey ts epPort acc ep w =
    (Inr (add_state (endpoint_state pods nodes (nnNamespace svcKey) ts epPort ep) acc), w)"
  using assms
  by (cases acc)
    (auto simp: resolve_pod_endpoint_def endpoint_state_def cached_reads_def io_simps buildPodEndpoint_def Let_def
      split: option.splits list.splits sum.splits)

text \<open>The candidates in the order of the loops.\<close>

definition port_candidates :: "ServicePort \<Rightarrow> Endpoint list \<Rightarrow> EndpointPort \<Rightarrow> (int \<times> Endpoint) list" where
  "port_candidates svcPort eps port =
     (if spName svcPort \<noteq> [] \<and> spName svcPort \<noteq> StringValue (eppName port) then []
      else map (Pair (Int64Value (eppPort port))) eps)"

definition candidates :: "ServicePort \<Rightarrow> EndpointsData list \<Rightarrow> (int \<times> Endpoint) list" where
  "candidates svcPort datas = concat (map (\<lambda>d. concat (map (port_candidates svcPort (edEndpoints d)) (edPorts d))) datas)"

lemma fold_concat_map: "fold f (concat (map g xs)) s = fold (\<lambda>x s. fold f (g x) s) xs s"
  by (induction xs arbitrary: s) auto

lemma resolve_pod_endpoints_fold:
  assumes "cached_reads r pods nodes"
  shows "resolvePodEndpointsWithEndpointsData r svcKey svcPort datas ts w =
    (let st = \<lambda>(epPort, ep). endpoint_state pods nodes (nnNamespace svcKey) ts epPort ep;
         (ready, unknown, potential) = fold (\<lambda>c. add_state (st c)) (candidates svcPort datas) ([], [], False)
     in (Inr (if erFailOpenEnabled r \<and> ready = [] then unknown else ready, potential), w))"
proof -
  let ?st = "\<lambda>epPort ep. endpoint_state pods nodes (nnNamespace svcKey) ts epPort ep"
  let ?skip = "\<lambda>port. spName svcPort \<noteq> [] \<and> spName svcPort \<noteq> StringValue (eppName port)"
  have inner: "io_foldM (resolve_pod_endpoint r svcKey ts epPort) acc eps w = (Inr (fold (\<lambda>ep. add_state (?st epPort ep)) eps acc), w)"
    for epPort acc eps by (rule io_foldM_read) (rule resolve_pod_endpoint_state [OF assms])
  let ?f = "\<lambda>acc d port. if ?skip port then acc
      else fold (\<lambda>ep. add_state (?st (Int64Value (eppPort port)) ep)) (edEndpoints d) acc"
  have mid: "io_foldM (\<lambda>acc port. if ?skip port then io_return acc
      else io_foldM (resolve_pod_endpoint r svcKey ts (Int64Value (eppPort port))) acc (edEndpoints d)) acc ports w =
      (Inr (fold (\<lambda>port acc. ?f acc d port) ports acc), w)" for d acc ports
    by (rule io_foldM_read) (simp add: inner io_return_def)
  have "io_foldM (\<lambda>acc d. io_foldM (\<lambda>acc port. if ?skip port then io_return acc
      else io_foldM (resolve_pod_endpoint r svcKey ts (Int64Value (eppPort port))) acc (edEndpoints d)) acc (edPorts d))
      s datas w = (Inr (fold (\<lambda>d acc. fold (\<lambda>port acc. ?f acc d port) (edPorts d) acc) datas s), w)" for s
    by (rule io_foldM_read) (rule mid)
  moreover have "fold (\<lambda>d acc. fold (\<lambda>port acc. ?f acc d port) (edPorts d) acc) datas s =
      fold (\<lambda>c. add_state ((\<lambda>(epPort, ep). ?st epPort ep) c)) (candidates svcPort datas) s" for s
    unfolding candidates_def fold_concat_map
    by (rule fold_cong [OF refl refl], rule ext, rule fold_cong [OF refl refl]) (auto simp: port_candidates_def fold_map comp_def)
  ultimately show ?thesis
    by (simp add: resolvePodEndpointsWithEndpointsData_def io_bind_def io_return_def Let_def split: prod.split)
qed

lemma fold_add_state:
  "fold (\<lambda>c. add_state (st c)) cs (ready, unknown, potential) =
     (ready @ List.map_filter (\<lambda>c. case st c of Serving e \<Rightarrow> Some e | _ \<Rightarrow> None) cs,
      unknown @ List.map_filter (\<lambda>c. case st c of NodeUnknown e \<Rightarrow> Some e | _ \<Rightarrow> None) cs,
      potential \<or> (\<exists>c\<in>set cs. st c = MayTurnReady))"
  by (induction cs arbitrary: ready unknown potential)
    (auto simp: List.map_filter_simps split: endpoint_state.splits)

lemma candidates_iff:
  "(epPort, ep) \<in> set (candidates svcPort datas) \<longleftrightarrow>
     (\<exists>d\<in>set datas. ep \<in> set (edEndpoints d) \<and>
        (\<exists>port\<in>set (edPorts d). (spName svcPort = [] \<or> StringValue (eppName port) = spName svcPort) \<and> Int64Value (eppPort port) = epPort))"
proof -
  have port: "(epPort, ep) \<in> set (port_candidates svcPort eps port) \<longleftrightarrow>
      ep \<in> set eps \<and> (spName svcPort = [] \<or> StringValue (eppName port) = spName svcPort) \<and> Int64Value (eppPort port) = epPort"
    for port eps by (auto simp: port_candidates_def)
  show ?thesis by (simp add: candidates_def port)
qed

text \<open>A pod serves when its endpoint is ready, or when its containers are ready on a ready node and the
  endpoint is not terminating: it then waits for the controller to open its readiness gate.\<close>

definition backed_by ::
  "(NamespacedName \<Rightarrow> PodInfo option) \<Rightarrow> string \<Rightarrow> ServicePort \<Rightarrow> EndpointsData list \<Rightarrow> Endpoint \<Rightarrow> PodEndpoint \<Rightarrow> bool" where
  "backed_by pods ns svcPort datas ep e \<longleftrightarrow>
     (\<exists>name. service_endpoint svcPort datas (pePort e) ep name (peIP e) \<and> pods \<lparr>nnNamespace = ns, nnName = name\<rparr> = Some (pePod e))"

definition pod_serves :: "(NamespacedName \<Rightarrow> Node result) \<Rightarrow> Endpoint \<Rightarrow> PodInfo \<Rightarrow> bool" where
  "pod_serves nodes ep pod \<longleftrightarrow> epReady ep = Some True \<or> IsContainersReady pod \<and> epTerminating ep \<noteq> Some True \<and>
     (\<exists>node. nodes \<lparr>nnNamespace = [], nnName = infoNodeName pod\<rparr> = Inr node \<and> node_ready_status node = ConditionTrue)"

definition pod_unknown :: "(NamespacedName \<Rightarrow> Node result) \<Rightarrow> Endpoint \<Rightarrow> PodInfo \<Rightarrow> bool" where
  "pod_unknown nodes ep pod \<longleftrightarrow> epReady ep \<noteq> Some True \<and> IsContainersReady pod \<and>
     (\<exists>node. nodes \<lparr>nnNamespace = [], nnName = infoNodeName pod\<rparr> = Inr node \<and> node_ready_status node = ConditionUnknown)"

definition may_turn_ready ::
  "(NamespacedName \<Rightarrow> PodInfo option) \<Rightarrow> string \<Rightarrow> string list \<Rightarrow> string \<Rightarrow> Endpoint \<Rightarrow> bool" where
  "may_turn_ready pods ns ts name ep \<longleftrightarrow>
     (case pods \<lparr>nnNamespace = ns, nnName = name\<rparr> of
        None \<Rightarrow> True
      | Some pod \<Rightarrow> epReady ep \<noteq> Some True \<and> \<not> IsContainersReady pod \<and> HasAnyOfReadinessGates pod ts)"

lemma service_endpoint_iff:
  "service_endpoint svcPort datas epPort ep name addr \<longleftrightarrow> (epPort, ep) \<in> set (candidates svcPort datas) \<and>
     (\<exists>ref. epTargetRef ep = Some ref \<and> refKind ref = ''Pod'' \<and> refName ref = name) \<and> (\<exists>rest. epAddresses ep = addr # rest)"
  by (simp add: service_endpoint_def candidates_iff)

text \<open>The states of an endpoint that refers to a pod and has an address; any other is ignored.\<close>

lemma endpoint_state_ref:
  assumes "epTargetRef ep = Some ref" "epAddresses ep = addr # rest" "refKind ref = ''Pod''"
  shows "endpoint_state pods nodes ns ts epPort ep = Serving e \<longleftrightarrow>
      (\<exists>pod. pods \<lparr>nnNamespace = ns, nnName = refName ref\<rparr> = Some pod \<and> e = \<lparr>peIP = addr, pePort = epPort, pePod = pod\<rparr> \<and> pod_serves nodes ep pod)"
    and "endpoint_state pods nodes ns ts epPort ep = NodeUnknown e \<longleftrightarrow>
      (\<exists>pod. pods \<lparr>nnNamespace = ns, nnName = refName ref\<rparr> = Some pod \<and> e = \<lparr>peIP = addr, pePort = epPort, pePod = pod\<rparr> \<and> pod_unknown nodes ep pod)"
    and "endpoint_state pods nodes ns ts epPort ep = MayTurnReady \<longleftrightarrow> may_turn_ready pods ns ts (refName ref) ep"
  using assms
  by (cases "pods \<lparr>nnNamespace = ns, nnName = refName ref\<rparr>";
      auto simp: endpoint_state_def pod_serves_def pod_unknown_def may_turn_ready_def Let_def split: sum.splits)+

lemma endpoint_state_no_ref:
  assumes "\<nexists>ref addr rest. epTargetRef ep = Some ref \<and> epAddresses ep = addr # rest \<and> refKind ref = ''Pod''"
  shows "endpoint_state pods nodes ns ts epPort ep = Ignored"
  using assms by (auto simp: endpoint_state_def split: option.splits list.splits)

lemma state_of_candidate:
  assumes "endpoint_state pods nodes ns ts epPort ep = st" "st \<noteq> Ignored"
  obtains ref addr rest where "epTargetRef ep = Some ref" "epAddresses ep = addr # rest" "refKind ref = ''Pod''"
  using endpoint_state_no_ref [of ep] assms by metis

lemma endpoint_state_Serving:
  "(\<exists>epPort ep. (epPort, ep) \<in> set (candidates svcPort datas) \<and> endpoint_state pods nodes ns ts epPort ep = Serving e) \<longleftrightarrow>
     (\<exists>ep. backed_by pods ns svcPort datas ep e \<and> pod_serves nodes ep (pePod e))" (is "?l \<longleftrightarrow> ?r")
proof
  assume ?l
  then obtain epPort ep where c: "(epPort, ep) \<in> set (candidates svcPort datas)" "endpoint_state pods nodes ns ts epPort ep = Serving e"
    by blast
  from state_of_candidate [OF c(2)] obtain ref addr rest
    where ref: "epTargetRef ep = Some ref" "epAddresses ep = addr # rest" "refKind ref = ''Pod''" by blast
  with c show ?r by (auto simp: endpoint_state_ref(1) [OF ref] backed_by_def service_endpoint_iff intro!: exI [of _ ep])
next
  assume ?r
  then obtain ep where c: "backed_by pods ns svcPort datas ep e" "pod_serves nodes ep (pePod e)" by blast
  then show ?l by (cases e) (auto simp: backed_by_def service_endpoint_iff endpoint_state_ref(1) intro!: exI [of _ "pePort e"] exI [of _ ep])
qed

lemma endpoint_state_NodeUnknown:
  "(\<exists>epPort ep. (epPort, ep) \<in> set (candidates svcPort datas) \<and> endpoint_state pods nodes ns ts epPort ep = NodeUnknown e) \<longleftrightarrow>
     (\<exists>ep. backed_by pods ns svcPort datas ep e \<and> pod_unknown nodes ep (pePod e))" (is "?l \<longleftrightarrow> ?r")
proof
  assume ?l
  then obtain epPort ep where c: "(epPort, ep) \<in> set (candidates svcPort datas)" "endpoint_state pods nodes ns ts epPort ep = NodeUnknown e"
    by blast
  from state_of_candidate [OF c(2)] obtain ref addr rest
    where ref: "epTargetRef ep = Some ref" "epAddresses ep = addr # rest" "refKind ref = ''Pod''" by blast
  with c show ?r by (auto simp: endpoint_state_ref(2) [OF ref] backed_by_def service_endpoint_iff intro!: exI [of _ ep])
next
  assume ?r
  then obtain ep where c: "backed_by pods ns svcPort datas ep e" "pod_unknown nodes ep (pePod e)" by blast
  then show ?l by (cases e) (auto simp: backed_by_def service_endpoint_iff endpoint_state_ref(2) intro!: exI [of _ "pePort e"] exI [of _ ep])
qed

lemma endpoint_state_MayTurnReady:
  "(\<exists>epPort ep. (epPort, ep) \<in> set (candidates svcPort datas) \<and> endpoint_state pods nodes ns ts epPort ep = MayTurnReady) \<longleftrightarrow>
     (\<exists>epPort ep name addr. service_endpoint svcPort datas epPort ep name addr \<and> may_turn_ready pods ns ts name ep)" (is "?l \<longleftrightarrow> ?r")
proof
  assume ?l
  then obtain epPort ep where c: "(epPort, ep) \<in> set (candidates svcPort datas)" "endpoint_state pods nodes ns ts epPort ep = MayTurnReady"
    by blast
  from state_of_candidate [OF c(2)] obtain ref addr rest
    where ref: "epTargetRef ep = Some ref" "epAddresses ep = addr # rest" "refKind ref = ''Pod''" by blast
  with c show ?r by (auto simp: endpoint_state_ref(3) [OF ref] service_endpoint_iff intro!: exI [of _ epPort] exI [of _ ep])
next
  assume ?r
  then obtain epPort ep name addr where c: "service_endpoint svcPort datas epPort ep name addr" "may_turn_ready pods ns ts name ep"
    by blast
  then show ?l by (auto simp: service_endpoint_iff endpoint_state_ref(3) intro!: exI [of _ epPort] exI [of _ ep])
qed

text \<open>C7: The endpoints of a service. The resolver returns exactly the pods that serve the service port:
  those in the pod cache whose endpoint is ready, or whose containers are ready on a ready node
  and whose endpoint is not terminating. Only when there are none and failing open is enabled,
  it returns the pods with ready containers on nodes of unknown status instead. It reports that
  endpoints may turn ready exactly when one refers to a pod that is not in the cache yet, or to
  a pod with one of the readiness gates whose containers are not ready. The comment on
  \<^verbatim>\<open>PodReadinessGates\<close> promises less, namely that a pod that is not ready is included only if
  it has one of the readiness gates, none by default; the code does not ask for a gate there, and the
  theorem states what the code does.\<close>

theorem pod_endpoints_exact:
  assumes "cached_reads r pods nodes"
    and "resolvePodEndpointsWithEndpointsData r svcKey svcPort datas ts w = (Inr (eps, potential), w')"
  defines "backed \<equiv> backed_by pods (nnNamespace svcKey) svcPort datas"
  shows "w' = w \<and>
    set eps = (if erFailOpenEnabled r \<and> (\<nexists>ep e. backed ep e \<and> pod_serves nodes ep (pePod e))
      then {e. \<exists>ep. backed ep e \<and> pod_unknown nodes ep (pePod e)}
      else {e. \<exists>ep. backed ep e \<and> pod_serves nodes ep (pePod e)}) \<and>
    (potential \<longleftrightarrow> (\<exists>epPort ep name addr. service_endpoint svcPort datas epPort ep name addr \<and>
      may_turn_ready pods (nnNamespace svcKey) ts name ep))"
proof -
  let ?st = "\<lambda>(epPort, ep). endpoint_state pods nodes (nnNamespace svcKey) ts epPort ep"
  let ?ready = "List.map_filter (\<lambda>c. case ?st c of Serving e \<Rightarrow> Some e | _ \<Rightarrow> None) (candidates svcPort datas)"
  let ?unknown = "List.map_filter (\<lambda>c. case ?st c of NodeUnknown e \<Rightarrow> Some e | _ \<Rightarrow> None) (candidates svcPort datas)"
  have run: "w' = w" "eps = (if erFailOpenEnabled r \<and> ?ready = [] then ?unknown else ?ready)"
    "potential \<longleftrightarrow> (\<exists>c\<in>set (candidates svcPort datas). ?st c = MayTurnReady)"
    using assms(2) by (simp_all add: resolve_pod_endpoints_fold [OF assms(1)] fold_add_state Let_def)
  have pick: "(case st of Serving e \<Rightarrow> Some e | _ \<Rightarrow> None) = Some x \<longleftrightarrow> st = Serving x"
    "(case st of NodeUnknown e \<Rightarrow> Some e | _ \<Rightarrow> None) = Some x \<longleftrightarrow> st = NodeUnknown x" for st x
    by (cases st, auto)+
  have ready: "set ?ready = {e. \<exists>ep. backed ep e \<and> pod_serves nodes ep (pePod e)}"
    unfolding set_map_filter pick backed_def endpoint_state_Serving [symmetric, where ts = ts] by (simp add: Bex_def)
  have unknown: "set ?unknown = {e. \<exists>ep. backed ep e \<and> pod_unknown nodes ep (pePod e)}"
    unfolding set_map_filter pick backed_def endpoint_state_NodeUnknown [symmetric, where ts = ts] by (simp add: Bex_def)
  have "?ready = [] \<longleftrightarrow> (\<nexists>ep e. backed ep e \<and> pod_serves nodes ep (pePod e))"
    unfolding set_empty [symmetric] ready by blast
  moreover have "potential \<longleftrightarrow> (\<exists>epPort ep name addr. service_endpoint svcPort datas epPort ep name addr \<and>
      may_turn_ready pods (nnNamespace svcKey) ts name ep)"
    unfolding run(3) endpoint_state_MayTurnReady [symmetric, where nodes = nodes] by (simp add: Bex_def)
  ultimately show ?thesis using run(1,2) ready unknown by (simp, blast)
qed

text \<open>A service with one pod behind a readiness gate, on a ready node.\<close>

definition example_pod_meta :: "string \<Rightarrow> ObjectMeta" where
  "example_pod_meta name = \<lparr>omNamespace = ''ns'', omName = name, omUID = [], omLabels = [], omAnnotations = [], omFinalizers = [],
     omGeneration = 1, omDeletionTimestamp = None\<rparr>"

definition example_pod :: PodInfo where
  "example_pod = \<lparr>podKey = \<lparr>nnNamespace = ''ns'', nnName = ''p''\<rparr>, podUID = [], infoContainerPorts = [], infoReadinessGates = [''gate''],
     infoConditions = [\<lparr>pcType = ''ContainersReady'', pcStatus = ''True'', pcReason = [], pcMessage = [], pcLastTransitionTime = 0\<rparr>],
     infoNodeName = ''n'', infoPodIP = ''10.0.0.1'', infoENIInfos = []\<rparr>"

definition example_node :: Node where
  "example_node = \<lparr>nodeMeta = example_pod_meta ''n'', nodeProviderID = ''aws:///us-west-2a/i-1'', nodeTaints = [],
     nodeConditions = [\<lparr>ncType = ''Ready'', ncStatus = ''True''\<rparr>]\<rparr>"

definition example_resolver :: "(unit, unit) defaultEndpointResolver" where
  "example_resolver = \<lparr>erGetService = \<lambda>_. io_fail (ApiStatusError ''NotFound''), erGetEndpoints = \<lambda>_. io_return [],
     erListEndpointSlices = \<lambda>_ _. io_return [], erListNodes = \<lambda>_. io_return [example_node],
     erGetNode = \<lambda>k. io_return example_node,
     erPodInfoRepoGet = \<lambda>k. io_return (if nnName k = ''p'' then Some example_pod else None),
     erFailOpenEnabled = True, erEndpointSliceEnabled = True, erIsNotFound = (\<lambda>e. e = ApiStatusError ''NotFound''), erError = \<lambda>_. []\<rparr>"

definition example_endpoints :: "EndpointsData list" where
  "example_endpoints = [\<lparr>edPorts = [\<lparr>eppName = Some ''http'', eppProtocol = None, eppPort = Some 8080, eppAppProtocol = None\<rparr>],
     edEndpoints = map (\<lambda>name. \<lparr>epAddresses = [''10.0.0.1''], epReady = Some False, epServing = None, epTerminating = None, epHostname = None,
       epTargetRef = Some \<lparr>refKind = ''Pod'', refName = name\<rparr>, epNodeName = None\<rparr>) [''p'', ''q'']\<rparr>]"

definition example_svc_port :: ServicePort where
  "example_svc_port = \<lparr>spName = ''http'', spProtocol = ''TCP'', spPort = 80, spTargetPort = IntVal 8080, spNodePort = 0\<rparr>"

theorem pod_endpoints_exact_witness:
  "resolvePodEndpointsWithEndpointsData example_resolver \<lparr>nnNamespace = ''ns'', nnName = ''s''\<rparr> example_svc_port
     example_endpoints [''gate''] () = (Inr ([\<lparr>peIP = ''10.0.0.1'', pePort = 8080, pePod = example_pod\<rparr>], True), ()) \<and>
   (\<exists>ep. backed_by (\<lambda>k. if nnName k = ''p'' then Some example_pod else None) ''ns'' example_svc_port example_endpoints ep
      \<lparr>peIP = ''10.0.0.1'', pePort = 8080, pePod = example_pod\<rparr>)"
proof -
  let ?pods = "\<lambda>k. if nnName k = ''p'' then Some example_pod else None" and ?nodes = "\<lambda>k. Inr example_node"
  have reads: "cached_reads example_resolver ?pods ?nodes"
    by (simp add: cached_reads_def example_resolver_def io_return_def)
  have run: "resolvePodEndpointsWithEndpointsData example_resolver \<lparr>nnNamespace = ''ns'', nnName = ''s''\<rparr> example_svc_port
     example_endpoints [''gate''] () = (Inr ([\<lparr>peIP = ''10.0.0.1'', pePort = 8080, pePod = example_pod\<rparr>], True), ())"
    by code_simp
  show ?thesis using pod_endpoints_exact [OF reads run] run by (auto split: if_splits)
qed

end
