(* ===== verification/Tgb_Networking.thy ===== *)
theory Tgb_Networking
  imports Networking_Info Backend Effects
begin

text \<open>
  The ingress rules that target group bindings need on the security groups of their endpoints,
  \<^verbatim>\<open>pkg/targetgroupbinding/networking_manager.go\<close>. The manager keeps, under a mutex, the permissions
  it computed for each binding and the security groups it ever managed; an operation is one
  transaction on that state and on the outside world. The resolvers of network interfaces, the
  label selector and the clients are parameters.
\<close>

section \<open>State and dependencies\<close>

definition tgbNetworkingIPPermissionLabelKey :: string where
  "tgbNetworkingIPPermissionLabelKey = ''elbv2.k8s.aws/targetGroupBinding''"

definition tgbNetworkingIPPermissionLabelValue :: string where
  "tgbNetworkingIPPermissionLabelValue = ''shared''"

definition defaultTgbMinPort :: int where
  [simp]: "defaultTgbMinPort = 0"

definition defaultTgbMaxPort :: int where
  [simp]: "defaultTgbMaxPort = 65535"

type_synonym perms_per_sg = "(string, IPPermissionInfo list) gomap"

record 'w nm_state =
  nmWorld :: 'w
  ingressPermissionsPerSGByTGB :: "(NamespacedName, perms_per_sg) gomap"
  trackedEndpointSGs :: "string set"
  trackedEndpointSGsInitialized :: bool

record 'w defaultNetworkingManager =
  nmListTGBs :: "('w, TargetGroupBinding list) io"
  nmPodENIResolve :: "PodInfo list \<Rightarrow> ('w, (NamespacedName, ENIInfo) gomap) io"
  nmNodeENIResolve :: "Node list \<Rightarrow> ('w, (NamespacedName, ENIInfo) gomap) io"
  nmFetchSGInfosByID :: "string list \<Rightarrow> ('w, (string, SecurityGroupInfo) gomap) io"
  nmFetchSGInfosByRequest :: "DescribeSecurityGroupsInput \<Rightarrow> ('w, (string, SecurityGroupInfo) gomap) io"
  nmReconcileIngress :: "string \<Rightarrow> IPPermissionInfo list \<Rightarrow> SecurityGroupReconcileOptions \<Rightarrow> ('w, unit) io"
  nmVpcID :: string
  nmClusterName :: string
  nmServiceTargetENISGTags :: string_map
  nmDisableRestrictedSGRules :: bool
  nmSelectorFromSet :: "string_map \<Rightarrow> string_map \<Rightarrow> bool"
  nmMarshal :: "SdkIpPermission \<Rightarrow> string"
  nmList :: "string set \<Rightarrow> string list"
  nmInt64List :: "int set \<Rightarrow> int list"
  nmStringOrder :: "string list \<Rightarrow> string list"
  nmNameOrder :: "NamespacedName list \<Rightarrow> NamespacedName list"

definition on_nm_world :: "('w, 'a) io \<Rightarrow> ('w nm_state, 'a) io" where
  "on_nm_world m s = (case m (nmWorld s) of (r, w) \<Rightarrow> (r, s\<lparr>nmWorld := w\<rparr>))"

definition nm_modify :: "('w nm_state \<Rightarrow> 'w nm_state) \<Rightarrow> ('w nm_state, unit) io" where
  "nm_modify f s = (Inr (), f s)"

definition nm_get :: "('w nm_state \<Rightarrow> 'a) \<Rightarrow> ('w nm_state, 'a) io" where
  "nm_get f s = (Inr (f s), s)"

definition NewDefaultNetworkingManager_state :: "'w \<Rightarrow> 'w nm_state" where
  "NewDefaultNetworkingManager_state w = \<lparr>nmWorld = w, ingressPermissionsPerSGByTGB = [], trackedEndpointSGs = {},
     trackedEndpointSGsInitialized = False\<rparr>"

section \<open>The permissions of one binding\<close>

definition computeNumericalPorts ::
  "'w defaultNetworkingManager \<Rightarrow> IntOrString \<Rightarrow> PodInfo list \<Rightarrow> int list result" where
  "computeNumericalPorts m port pods =
     (case port of
        IntVal v \<Rightarrow> Inr [v]
      | StrVal _ \<Rightarrow>
          if pods = [] then Inl (Errorf ''named ports can only be used with pod endpoints'' [])
          else result_bind (result_mapM (\<lambda>pod. LookupContainerPort pod port) pods) (\<lambda>containerPorts.
            Inr (nmInt64List m (set containerPorts))))"

definition sdk_protocol :: "NetworkingPort \<Rightarrow> string" where
  "sdk_protocol port =
     (case nportProtocol port of
        None \<Rightarrow> ''tcp''
      | Some p \<Rightarrow> if p = NetworkingProtocolTCP then ''tcp'' else if p = NetworkingProtocolUDP then ''udp'' else ''tcp'')"

definition permissionLabels :: string_map where
  "permissionLabels = [(tgbNetworkingIPPermissionLabelKey, tgbNetworkingIPPermissionLabelValue)]"

definition computePermissionsForPeerPort ::
  "'w defaultNetworkingManager \<Rightarrow> NetworkingPeer \<Rightarrow> NetworkingPort \<Rightarrow> PodInfo list \<Rightarrow> IPPermissionInfo list result" where
  "computePermissionsForPeerPort m peer port pods =
     (let sdkProtocol = sdk_protocol port in
      result_bind
        (case nportPort port of
           Some p \<Rightarrow> result_bind (computeNumericalPorts m p pods) (\<lambda>numericalPorts.
             Inr (map (\<lambda>numericalPort. (numericalPort, numericalPort)) numericalPorts))
         | None \<Rightarrow> Inr [(0, 65535)])
        (\<lambda>sdkFromToPortPairs.
           case npSecurityGroup peer of
             Some sg \<Rightarrow> Inr (map (\<lambda>(fromPort, toPort).
               NewGroupIDIPPermission (nmList m) sdkProtocol (Some fromPort) (Some toPort) (asgGroupID sg) permissionLabels)
               sdkFromToPortPairs)
           | None \<Rightarrow>
               (case npIPBlock peer of
                  Some ipBlock \<Rightarrow>
                    let cidr = CIDR ipBlock in
                    result_bind (ParseCIDR cidr) (\<lambda>_.
                      Inr (map (\<lambda>(fromPort, toPort).
                        if strings_Contains cidr '':''
                        then NewCIDRv6IPPermission (nmList m) sdkProtocol (Some fromPort) (Some toPort) cidr permissionLabels
                        else NewCIDRIPPermission (nmList m) sdkProtocol (Some fromPort) (Some toPort) cidr permissionLabels)
                        sdkFromToPortPairs))
                | None \<Rightarrow> Inl (Errorf ''either ipBlock or securityGroup should be specified'' []))))"

text \<open>For a rule without ports the source assigns the permissions to a new variable that hides the
  result of the function: they are computed, which may fail, and then lost.\<close>

definition computeIngressPermissionsForTGBNetworking ::
  "'w defaultNetworkingManager \<Rightarrow> TargetGroupBindingNetworking \<Rightarrow> PodInfo list \<Rightarrow> IPPermissionInfo list result" where
  "computeIngressPermissionsForTGBNetworking m tgbNet pods =
     result_foldM (\<lambda>permissions rule.
       result_foldM (\<lambda>permissions rulePeer.
         result_bind
           (result_foldM (\<lambda>permissions rulePort.
              result_bind (computePermissionsForPeerPort m rulePeer rulePort pods) (\<lambda>permissionsForPeerPort.
                Inr (permissions @ permissionsForPeerPort)))
              permissions (nirPorts rule))
           (\<lambda>permissions.
              if nirPorts rule = [] then
                result_bind (computePermissionsForPeerPort m rulePeer
                  \<lparr>nportProtocol = Some NetworkingProtocolTCP, nportPort = None\<rparr> pods) (\<lambda>_. Inr permissions)
              else Inr permissions))
         permissions (nirFrom rule))
       [] (tgbnIngress tgbNet)"

section \<open>The security group of an endpoint\<close>

definition clusterResourceTagKey :: "'w defaultNetworkingManager \<Rightarrow> string" where
  "clusterResourceTagKey m = ''kubernetes.io/cluster/'' @ nmClusterName m"

definition resolveEndpointSGForENI :: "'w defaultNetworkingManager \<Rightarrow> ENIInfo \<Rightarrow> ('w, string) io" where
  "resolveEndpointSGForENI m eniInfo =
     (case eniSecurityGroups eniInfo of
        [sgID] \<Rightarrow> io_return sgID
      | sgIDs \<Rightarrow>
          io_bind (nmFetchSGInfosByID m sgIDs) (\<lambda>sgInfoByID.
            let matching = map fst (filter (\<lambda>(sgID, sgInfo).
                  map_of (nil_map (sgiTags sgInfo)) (clusterResourceTagKey m) \<noteq> None \<and>
                  list_all (\<lambda>(k, v). map_of (nil_map (sgiTags sgInfo)) k = Some v) (nmServiceTargetENISGTags m)) sgInfoByID)
            in case remdups matching of
                 [sgID] \<Rightarrow> io_return sgID
               | _ \<Rightarrow>
                   if nmServiceTargetENISGTags m = [] then
                     io_fail (Errorf ''expected exactly one securityGroup tagged with %v for eni %v, got: %v (clusterName: %v)''
                       ([clusterResourceTagKey m, eniNetworkInterfaceID eniInfo] @ nmList m (set matching) @ [nmClusterName m]))
                   else
                     io_fail (Errorf ''expected exactly one securityGroup tagged with %v and %v for eni %v, got: %v (clusterName: %v)''
                       ([clusterResourceTagKey m] @ map (\<lambda>(k, v). k @ '':'' @ v) (nmServiceTargetENISGTags m) @
                        [eniNetworkInterfaceID eniInfo] @ nmList m (set matching) @ [nmClusterName m]))))"

definition computeIngressPermissionsPerSGWithPodEndpoints ::
  "'w defaultNetworkingManager \<Rightarrow> TargetGroupBindingNetworking \<Rightarrow> PodEndpoint list \<Rightarrow> ('w, perms_per_sg) io" where
  "computeIngressPermissionsPerSGWithPodEndpoints m tgbNet endpoints =
     (let pods = map pePod endpoints;
          podByPodKey = index_by podKey pods
      in io_bind (nmPodENIResolve m pods) (\<lambda>eniInfoByPodKey.
         io_bind (io_foldM (\<lambda>podsBySG (key, eniInfo).
             io_bind (resolveEndpointSGForENI m eniInfo) (\<lambda>sgID.
               io_return (AList.update sgID (gomap_index [] podsBySG sgID @ [gomap_index zero_PodInfo podByPodKey key]) podsBySG)))
           [] eniInfoByPodKey) (\<lambda>podsBySG.
         io_foldM (\<lambda>permissionsPerSG (sgID, pods).
           io_bind (io_lift (computeIngressPermissionsForTGBNetworking m tgbNet pods)) (\<lambda>permissions.
             io_return (AList.update sgID permissions permissionsPerSG)))
           [] (entries (nmStringOrder m) podsBySG))))"

definition computeIngressPermissionsPerSGWithNodePortEndpoints ::
  "'w defaultNetworkingManager \<Rightarrow> TargetGroupBindingNetworking \<Rightarrow> NodePortEndpoint list \<Rightarrow> ('w, perms_per_sg) io" where
  "computeIngressPermissionsPerSGWithNodePortEndpoints m tgbNet endpoints =
     io_bind (nmNodeENIResolve m (map npeNode endpoints)) (\<lambda>eniInfoByNodeKey.
     io_bind (io_mapM (\<lambda>(_, eniInfo). resolveEndpointSGForENI m eniInfo) eniInfoByNodeKey) (\<lambda>sgIDs.
     io_bind (io_lift (computeIngressPermissionsForTGBNetworking m tgbNet [])) (\<lambda>permissions.
       io_return (map (\<lambda>sgID. (sgID, permissions)) (nmStringOrder m (remdups sgIDs))))))"

section \<open>Aggregating the permissions of all bindings\<close>

text \<open>The two groupings of the permissions, per security group: those of address ranges, and the others
  by protocol and source group.\<close>

type_synonym perms_by_source = "(string, IPPermissionInfo list) gomap"
type_synonym perms_by_protocol_and_source = "(string, perms_by_source) gomap"

definition from_ip_range :: "IPPermissionInfo \<Rightarrow> bool" where
  "from_ip_range p \<longleftrightarrow> sipUserIdGroupPairs (Permission p) = [] \<and>
     (length (sipIpRanges (Permission p)) = 1 \<or> length (sipIpv6Ranges (Permission p)) = 1)"

definition perm_protocol :: "IPPermissionInfo \<Rightarrow> string" where
  "perm_protocol p = StringValue (sipIpProtocol (Permission p))"

definition source_group :: "IPPermissionInfo \<Rightarrow> string" where
  "source_group p = (case sipUserIdGroupPairs (Permission p) of [pair] \<Rightarrow> StringValue (sugGroupId pair) | _ \<Rightarrow> [])"

definition group_permission ::
  "string \<Rightarrow> perms_per_sg \<times> (string, perms_by_protocol_and_source) gomap \<Rightarrow> IPPermissionInfo \<Rightarrow>
   perms_per_sg \<times> (string, perms_by_protocol_and_source) gomap" where
  "group_permission sgID acc permission =
     (case acc of (ranges, groups) \<Rightarrow>
        if from_ip_range permission then (AList.update sgID (gomap_index [] ranges sgID @ [permission]) ranges, groups)
        else
          let byProtocol = gomap_index [] groups sgID;
              bySource = gomap_index [] byProtocol (perm_protocol permission);
              perms = gomap_index [] bySource (source_group permission) @ [permission]
          in (ranges, AList.update sgID
               (AList.update (perm_protocol permission) (AList.update (source_group permission) perms bySource) byProtocol) groups))"

definition groupIngressPermsBySourceAndProtocolPerSG ::
  "'w defaultNetworkingManager \<Rightarrow> (NamespacedName, perms_per_sg) gomap \<Rightarrow>
   perms_per_sg \<times> (string, perms_by_protocol_and_source) gomap" where
  "groupIngressPermsBySourceAndProtocolPerSG m permsByTGB =
     fold (\<lambda>(_, permsPerSG). fold (\<lambda>(sgID, permissions) (ranges, groups).
         fold (\<lambda>permission acc. group_permission sgID acc permission) permissions
           (ranges, if map_of groups sgID = None then AList.update sgID [] groups else groups))
       (entries (nmStringOrder m) permsPerSG))
       (entries (nmNameOrder m) permsByTGB) ([], [])"

definition port_range_step :: "IPPermissionInfo \<Rightarrow> int \<times> int \<Rightarrow> int \<times> int" where
  "port_range_step perm acc =
     (case acc of (minPort, maxPort) \<Rightarrow>
        let from = Int64Value (sipFromPort (Permission perm)); to = Int64Value (sipToPort (Permission perm)) in
        if from = 0 \<and> to = 0 then (defaultTgbMinPort, defaultTgbMaxPort)
        else (if from < minPort then from else minPort, if to > maxPort then to else maxPort))"

definition merge_permissions :: "IPPermissionInfo list \<Rightarrow> IPPermissionInfo list" where
  "merge_permissions perms =
     (case perms of
        [] \<Rightarrow> []
      | permForCurrGroup # _ \<Rightarrow>
          let (minPort, maxPort) = fold port_range_step perms (defaultTgbMaxPort, defaultTgbMinPort) in
          [permForCurrGroup\<lparr>Permission := (Permission permForCurrGroup)\<lparr>sipFromPort := Some minPort, sipToPort := Some maxPort\<rparr>\<rparr>])"

definition computeRestrictedIngressPermissionsPerSG ::
  "'w defaultNetworkingManager \<Rightarrow> (NamespacedName, perms_per_sg) gomap \<Rightarrow> perms_per_sg" where
  "computeRestrictedIngressPermissionsPerSG m permsByTGB =
     (let (ranges, groups) = groupIngressPermsBySourceAndProtocolPerSG m permsByTGB;
          merged = fold (\<lambda>(sgID, byProtocol). AList.update sgID
            (concat (map (\<lambda>(_, bySource). concat (map (\<lambda>(_, perms). merge_permissions perms) (entries (nmStringOrder m) bySource)))
              (entries (nmStringOrder m) byProtocol))))
            (entries (nmStringOrder m) groups) []
      in fold (\<lambda>(sgID, perms) r. fold (\<lambda>perm r. AList.update sgID (gomap_index [] r sgID @ [perm]) r) perms r)
           (entries (nmStringOrder m) ranges) merged)"

definition computeUnrestrictedIngressPermissionsPerSG ::
  "'w defaultNetworkingManager \<Rightarrow> (NamespacedName, perms_per_sg) gomap \<Rightarrow> perms_per_sg" where
  "computeUnrestrictedIngressPermissionsPerSG m permsByTGB =
     (let permByHashCodePerSG = fold (\<lambda>(_, permsPerSG). fold (\<lambda>(sgID, permissions) r.
            AList.update sgID (fold (\<lambda>p. AList.update (HashCode (nmMarshal m) p) p) permissions (gomap_index [] r sgID)) r)
            (entries (nmStringOrder m) permsPerSG)) (entries (nmNameOrder m) permsByTGB) []
      in fold (\<lambda>(sgID, permByHashCode). AList.update sgID
            (List.map_filter (map_of permByHashCode) (nmList m (set (gomap_keys permByHashCode)))))
           (entries (nmStringOrder m) permByHashCodePerSG) [])"

definition computeAggregatedIngressPermissionsPerSG ::
  "'w defaultNetworkingManager \<Rightarrow> (NamespacedName, perms_per_sg) gomap \<Rightarrow> perms_per_sg" where
  "computeAggregatedIngressPermissionsPerSG m permsByTGB =
     (if nmDisableRestrictedSGRules m then computeUnrestrictedIngressPermissionsPerSG m permsByTGB
      else computeRestrictedIngressPermissionsPerSG m permsByTGB)"

section \<open>Reconciling\<close>

definition fetchTGBsWithNetworking ::
  "'w defaultNetworkingManager \<Rightarrow> ('w, (NamespacedName, TargetGroupBinding) gomap) io" where
  "fetchTGBsWithNetworking m =
     io_bind (nmListTGBs m) (\<lambda>tgbList.
       io_return (index_by (\<lambda>tgb. NamespacedName_of (tgbMeta tgb)) (filter (\<lambda>tgb. tgbNetworking (tgbSpec tgb) \<noteq> None) tgbList)))"

definition consolidateIngressPermissionsPerSGByTGB ::
  "(NamespacedName, TargetGroupBinding) gomap \<Rightarrow> (NamespacedName, perms_per_sg) gomap \<Rightarrow>
   (NamespacedName, perms_per_sg) gomap \<times> bool" where
  "consolidateIngressPermissionsPerSGByTGB tgbsWithNetworking permsByTGB =
     (let kept = filter (\<lambda>(tgbKey, _). map_of tgbsWithNetworking tgbKey \<noteq> None) permsByTGB
      in (kept, length kept = length tgbsWithNetworking))"

definition isEC2SecurityGroupNotFoundError :: "go_error \<Rightarrow> bool" where
  "isEC2SecurityGroupNotFoundError err =
     (case as_aws_error err of Some (code, _) \<Rightarrow> code = ''InvalidGroup.NotFound'' | None \<Rightarrow> False)"

definition trackEndpointSGs :: "string list \<Rightarrow> ('w nm_state, unit) io" where
  "trackEndpointSGs sgIDs = nm_modify (\<lambda>s. s\<lparr>trackedEndpointSGs := trackedEndpointSGs s \<union> set sgIDs\<rparr>)"

definition unTrackEndpointSGs :: "string list \<Rightarrow> ('w nm_state, unit) io" where
  "unTrackEndpointSGs sgIDs = nm_modify (\<lambda>s. s\<lparr>trackedEndpointSGs := trackedEndpointSGs s - set sgIDs\<rparr>)"

definition fetchEndpointSGsFromAWS :: "'w defaultNetworkingManager \<Rightarrow> ('w, string list) io" where
  "fetchEndpointSGsFromAWS m =
     io_bind (nmFetchSGInfosByRequest m \<lparr>dsgGroupIds = [], dsgFilters =
         [\<lparr>ec2FilterName = ''tag:'' @ clusterResourceTagKey m, ec2FilterValues = [''owned'', ''shared'']\<rparr>,
          \<lparr>ec2FilterName = ''vpc-id'', ec2FilterValues = [nmVpcID m]\<rparr>]\<rparr>) (\<lambda>sgInfoByID.
       io_return (nmList m (set (gomap_keys sgInfoByID))))"

definition fetchEndpointSGs :: "'w defaultNetworkingManager \<Rightarrow> ('w nm_state, string set) io" where
  "fetchEndpointSGs m =
     io_bind (nm_get trackedEndpointSGsInitialized) (\<lambda>initialized.
     io_bind (if initialized then io_return ()
       else io_bind (on_nm_world (fetchEndpointSGsFromAWS m)) (\<lambda>endpointSGs.
            io_bind (trackEndpointSGs endpointSGs) (\<lambda>_.
              nm_modify (\<lambda>s. s\<lparr>trackedEndpointSGsInitialized := True\<rparr>)))) (\<lambda>_.
       nm_get trackedEndpointSGs))"

definition permission_selector :: "'w defaultNetworkingManager \<Rightarrow> string_map \<Rightarrow> bool" where
  "permission_selector m =
     nmSelectorFromSet m [(tgbNetworkingIPPermissionLabelKey, tgbNetworkingIPPermissionLabelValue)]"

definition gc_endpoint_sg :: "'w defaultNetworkingManager \<Rightarrow> string \<Rightarrow> ('w nm_state, unit) io" where
  "gc_endpoint_sg m sgID s =
     (case on_nm_world (nmReconcileIngress m sgID [] \<lparr>PermissionSelector = permission_selector m, AuthorizeOnly = False\<rparr>) s of
        (Inl err, s') \<Rightarrow> if isEC2SecurityGroupNotFoundError err then unTrackEndpointSGs [sgID] s' else (Inl err, s')
      | (Inr _, s') \<Rightarrow> (Inr (), s'))"

definition gcIngressPermissionsFromUnusedEndpointSGs ::
  "'w defaultNetworkingManager \<Rightarrow> perms_per_sg \<Rightarrow> ('w nm_state, unit) io" where
  "gcIngressPermissionsFromUnusedEndpointSGs m permsPerSG =
     io_bind (fetchEndpointSGs m) (\<lambda>endpointSGs.
       io_forM (gc_endpoint_sg m) (nmStringOrder m (nmList m (endpointSGs - set (gomap_keys permsPerSG)))))"

definition reconcile_sg ::
  "'w defaultNetworkingManager \<Rightarrow> bool \<Rightarrow> go_error list \<Rightarrow> string \<times> IPPermissionInfo list \<Rightarrow> ('w nm_state, go_error list) io" where
  "reconcile_sg m computedForAllTGBs errs entry s =
     (case on_nm_world (nmReconcileIngress m (fst entry) (snd entry)
             \<lparr>PermissionSelector = permission_selector m, AuthorizeOnly = \<not> computedForAllTGBs\<rparr>) s of
        (Inl err, s') \<Rightarrow> (Inr (errs @ [err]), s')
      | (Inr _, s') \<Rightarrow> (Inr errs, s'))"

definition reconcileWithIngressPermissionsPerSG ::
  "'w defaultNetworkingManager \<Rightarrow> TargetGroupBinding \<Rightarrow> perms_per_sg \<Rightarrow> ('w nm_state, unit) io" where
  "reconcileWithIngressPermissionsPerSG m tgb permsPerSG =
     io_bind (nm_modify (\<lambda>s. s\<lparr>ingressPermissionsPerSGByTGB :=
       AList.update (NamespacedName_of (tgbMeta tgb)) permsPerSG (ingressPermissionsPerSGByTGB s)\<rparr>)) (\<lambda>_.
     io_bind (trackEndpointSGs (nmList m (set (gomap_keys permsPerSG)))) (\<lambda>_.
     io_bind (on_nm_world (fetchTGBsWithNetworking m)) (\<lambda>tgbsWithNetworking.
     io_bind (nm_get (\<lambda>s. consolidateIngressPermissionsPerSGByTGB tgbsWithNetworking (ingressPermissionsPerSGByTGB s))) (\<lambda>(kept, computedForAllTGBs).
     io_bind (nm_modify (\<lambda>s. s\<lparr>ingressPermissionsPerSGByTGB := kept\<rparr>)) (\<lambda>_.
       let aggregated = computeAggregatedIngressPermissionsPerSG m kept in
       io_bind (io_foldM (reconcile_sg m computedForAllTGBs) [] (entries (nmStringOrder m) aggregated)) (\<lambda>sgReconciliationErrors.
       io_bind (if computedForAllTGBs then gcIngressPermissionsFromUnusedEndpointSGs m aggregated else io_return ()) (\<lambda>_.
         if sgReconciliationErrors \<noteq> [] then io_fail (Join sgReconciliationErrors) else io_return ())))))))"

definition ReconcileForPodEndpoints ::
  "'w defaultNetworkingManager \<Rightarrow> TargetGroupBinding \<Rightarrow> PodEndpoint list \<Rightarrow> ('w nm_state, unit) io" where
  "ReconcileForPodEndpoints m tgb endpoints =
     io_bind (case tgbNetworking (tgbSpec tgb) of
         None \<Rightarrow> io_return []
       | Some networking \<Rightarrow> on_nm_world (computeIngressPermissionsPerSGWithPodEndpoints m networking endpoints))
       (reconcileWithIngressPermissionsPerSG m tgb)"

definition ReconcileForNodePortEndpoints ::
  "'w defaultNetworkingManager \<Rightarrow> TargetGroupBinding \<Rightarrow> NodePortEndpoint list \<Rightarrow> ('w nm_state, unit) io" where
  "ReconcileForNodePortEndpoints m tgb endpoints =
     io_bind (case tgbNetworking (tgbSpec tgb) of
         None \<Rightarrow> io_return []
       | Some networking \<Rightarrow> on_nm_world (computeIngressPermissionsPerSGWithNodePortEndpoints m networking endpoints))
       (reconcileWithIngressPermissionsPerSG m tgb)"

definition Networking_Cleanup :: "'w defaultNetworkingManager \<Rightarrow> TargetGroupBinding \<Rightarrow> ('w nm_state, unit) io" where
  "Networking_Cleanup m tgb = reconcileWithIngressPermissionsPerSG m tgb []"

section \<open>What the permissions of a binding look like\<close>

text \<open>Every permission the manager computes has exactly one source, one IPv4 range, one IPv6 range or one security group, which is
  given, and carries the label of the controller.\<close>

definition single_source :: "SdkIpPermission \<Rightarrow> bool" where
  "single_source q \<longleftrightarrow> sipPrefixListIds q = [] \<and>
     ((\<exists>range. sipIpRanges q = [range] \<and> sirCidrIp range \<noteq> None \<and> sipIpv6Ranges q = [] \<and> sipUserIdGroupPairs q = []) \<or>
      (\<exists>range. sipIpv6Ranges q = [range] \<and> si6CidrIpv6 range \<noteq> None \<and> sipIpRanges q = [] \<and> sipUserIdGroupPairs q = []) \<or>
      (\<exists>pair. sipUserIdGroupPairs q = [pair] \<and> sugGroupId pair \<noteq> None \<and> sipIpRanges q = [] \<and> sipIpv6Ranges q = []))"

definition owned_permission :: "IPPermissionInfo \<Rightarrow> bool" where
  "owned_permission p \<longleftrightarrow> Labels p = Some [(tgbNetworkingIPPermissionLabelKey, tgbNetworkingIPPermissionLabelValue)] \<and>
     single_source (Permission p)"

text \<open>What merging rules relies on of them.\<close>

definition tgb_permission :: "IPPermissionInfo \<Rightarrow> bool" where
  "tgb_permission p \<longleftrightarrow> Labels p = Some [(tgbNetworkingIPPermissionLabelKey, tgbNetworkingIPPermissionLabelValue)] \<and>
     (from_ip_range p \<or> (\<exists>pair. sipUserIdGroupPairs (Permission p) = [pair]))"

lemma owned_tgb_permission: "owned_permission p \<Longrightarrow> tgb_permission p"
  by (auto simp: owned_permission_def single_source_def tgb_permission_def from_ip_range_def)

definition stored :: "(NamespacedName, perms_per_sg) gomap \<Rightarrow> string \<Rightarrow> IPPermissionInfo \<Rightarrow> bool" where
  "stored permsByTGB sgID p \<longleftrightarrow> (\<exists>k permsPerSG ps. map_of permsByTGB k = Some permsPerSG \<and> map_of permsPerSG sgID = Some ps \<and> p \<in> set ps)"

definition nm_inv :: "'w nm_state \<Rightarrow> bool" where
  "nm_inv s \<longleftrightarrow> gomap_wf (ingressPermissionsPerSGByTGB s) \<and>
     (\<forall>sgID p. stored (ingressPermissionsPerSGByTGB s) sgID p \<longrightarrow> owned_permission p)"

lemma computePermissionsForPeerPort_shape:
  "computePermissionsForPeerPort m peer port pods = Inr ps \<Longrightarrow> p \<in> set ps \<Longrightarrow> owned_permission p"
  by (auto simp: computePermissionsForPeerPort_def owned_permission_def single_source_def permissionLabels_def Let_def NewGroupIDIPPermission_def
      NewCIDRv6IPPermission_def NewCIDRIPPermission_def base_permission_def split: option.splits if_splits)

lemma computeIngressPermissions_shape:
  assumes "computeIngressPermissionsForTGBNetworking m tgbNet pods = Inr ps" "p \<in> set ps"
  shows "owned_permission p"
proof -
  let ?P = "\<lambda>ps. \<forall>p\<in>set ps. owned_permission p"
  have ports: "?P qs" if "result_foldM (\<lambda>permissions rulePort. result_bind (computePermissionsForPeerPort m peer rulePort pods)
      (\<lambda>new. Inr (permissions @ new))) acc ports = Inr qs" "?P acc" for peer acc ports qs
    by (rule result_foldM_inv [where P = ?P, OF that]) (auto dest: computePermissionsForPeerPort_shape)
  let ?peer = "\<lambda>rule permissions peer. result_bind (result_foldM (\<lambda>permissions rulePort.
      result_bind (computePermissionsForPeerPort m peer rulePort pods) (\<lambda>new. Inr (permissions @ new))) permissions (nirPorts rule))
      (\<lambda>permissions. if nirPorts rule = [] then result_bind (computePermissionsForPeerPort m peer
        \<lparr>nportProtocol = Some NetworkingProtocolTCP, nportPort = None\<rparr> pods) (\<lambda>_. Inr permissions) else Inr permissions)"
  have rule: "?P qs" if "result_foldM (?peer rule) acc peers = Inr qs" "?P acc" for rule acc peers qs
    by (rule result_foldM_inv [where P = ?P, OF that]) (use ports in \<open>simp split: if_splits\<close>, blast+)
  have "?P ps"
    by (rule result_foldM_inv [where P = ?P, OF assms(1) [unfolded computeIngressPermissionsForTGBNetworking_def]]) (simp, rule rule)
  then show ?thesis using assms(2) by blast
qed

text \<open>Maps from security groups to well-shaped permissions.\<close>

definition shaped :: "perms_per_sg \<Rightarrow> bool" where
  "shaped permsPerSG \<longleftrightarrow> (\<forall>sgID ps. map_of permsPerSG sgID = Some ps \<longrightarrow> (\<forall>p\<in>set ps. owned_permission p))"

lemma io_foldM_inv:
  assumes "io_foldM f s xs w = (Inr s', w')" "P s"
    "\<And>s x s' w w'. x \<in> set xs \<Longrightarrow> P s \<Longrightarrow> f s x w = (Inr s', w') \<Longrightarrow> P s'"
  shows "P s'"
  using assms
proof (induction xs arbitrary: s w)
  case (Cons x xs)
  have "io_bind (f s x) (\<lambda>s'. io_foldM f s' xs) w = (Inr s', w')" using Cons.prems(1) by simp
  from io_bind_InrD [OF this] obtain s1 w1 where 1: "f s x w = (Inr s1, w1)" "io_foldM f s1 xs w1 = (Inr s', w')"
    by (elim exE conjE)
  have "P s1" by (rule Cons.prems(3) [OF _ Cons.prems(2) 1(1)]) simp
  then show ?case by (rule Cons.IH [OF 1(2)]) (rule Cons.prems(3), simp_all)
qed (simp add: io_return_def)

lemma io_lift_InrD: "io_lift r w = (Inr x, w') \<Longrightarrow> r = Inr x \<and> w' = w"
  by (simp add: io_lift_def)

lemma shaped_update: "shaped ps \<Longrightarrow> (\<And>p. p \<in> set new \<Longrightarrow> owned_permission p) \<Longrightarrow> shaped (AList.update sgID new ps)"
  by (auto simp: shaped_def update_conv' split: if_splits)

lemma pod_permissions_shaped:
  assumes "computeIngressPermissionsPerSGWithPodEndpoints m tgbNet endpoints w = (Inr ps, w')"
  shows "shaped ps"
proof -
  let ?f = "\<lambda>permissionsPerSG (sgID, pods). io_bind (io_lift (computeIngressPermissionsForTGBNetworking m tgbNet pods))
      (\<lambda>permissions. io_return (AList.update sgID permissions permissionsPerSG))"
  from assms obtain podsBySG w1 where "io_foldM ?f [] (entries (nmStringOrder m) podsBySG) w1 = (Inr ps, w')"
    unfolding computeIngressPermissionsPerSGWithPodEndpoints_def Let_def by (blast dest: io_bind_InrD)
  then show ?thesis
  proof (rule io_foldM_inv [where P = shaped])
    fix s x s' w2 w2' assume "shaped s" "?f s x w2 = (Inr s', w2')"
    then show "shaped s'"
      by (cases x) (auto simp: io_return_def dest!: io_bind_InrD io_lift_InrD intro!: shaped_update dest: computeIngressPermissions_shape)
  qed (simp add: shaped_def)
qed

lemma node_permissions_shaped:
  assumes "computeIngressPermissionsPerSGWithNodePortEndpoints m tgbNet endpoints w = (Inr ps, w')"
  shows "shaped ps"
proof -
  from assms obtain sgIDs permissions where "computeIngressPermissionsForTGBNetworking m tgbNet [] = Inr permissions"
    "ps = map (\<lambda>sgID. (sgID, permissions)) (nmStringOrder m (remdups sgIDs))"
    by (auto simp: computeIngressPermissionsPerSGWithNodePortEndpoints_def io_return_def dest!: io_bind_InrD io_lift_InrD)
  then show ?thesis using computeIngressPermissions_shape by (fastforce simp: shaped_def dest: map_of_SomeD)
qed

section \<open>The invariant is preserved\<close>

lemma nm_inv_irrelevant [simp]:
  "nm_inv (s\<lparr>nmWorld := w\<rparr>) = nm_inv s" "nm_inv (s\<lparr>trackedEndpointSGs := t\<rparr>) = nm_inv s"
  "nm_inv (s\<lparr>trackedEndpointSGsInitialized := b\<rparr>) = nm_inv s"
  by (simp_all add: nm_inv_def)

lemma nm_inv_update:
  assumes "nm_inv s" "shaped ps"
  shows "nm_inv (s\<lparr>ingressPermissionsPerSGByTGB := AList.update k ps (ingressPermissionsPerSGByTGB s)\<rparr>)"
  using assms unfolding nm_inv_def stored_def shaped_def
  by (auto simp: update_conv' intro: wf_intros split: if_splits) blast+

lemma map_of_filter_key: "gomap_wf m \<Longrightarrow> map_of (filter (\<lambda>(k, _). P k) m) k = (if P k then map_of m k else None)"
  by (induction m) (auto split: if_splits)

lemma nm_inv_consolidate:
  assumes "nm_inv s"
  shows "nm_inv (s\<lparr>ingressPermissionsPerSGByTGB := fst (consolidateIngressPermissionsPerSGByTGB tgbs (ingressPermissionsPerSGByTGB s))\<rparr>)"
  using assms unfolding nm_inv_def stored_def consolidateIngressPermissionsPerSGByTGB_def Let_def fst_conv
  by (auto simp: map_of_filter_key intro!: wf_intros split: if_splits) blast

lemma keeps_nm [keeps]:
  "keeps (preserving nm_inv) (on_nm_world m)" "keeps (preserving nm_inv) (nm_get g)"
  "keeps (preserving nm_inv) (trackEndpointSGs sgIDs)" "keeps (preserving nm_inv) (unTrackEndpointSGs sgIDs)"
  "keeps (preserving nm_inv) (nm_modify (\<lambda>s. s\<lparr>trackedEndpointSGsInitialized := b\<rparr>))"
  by (auto simp: keeps_def on_nm_world_def nm_get_def trackEndpointSGs_def unTrackEndpointSGs_def nm_modify_def split: prod.splits)

lemma keeps_gc_sg: "keeps (preserving nm_inv) (gc_endpoint_sg m sgID)"
proof (rule keepsI, rule impI)
  fix s r s' assume run: "gc_endpoint_sg m sgID s = (r, s')" and inv: "nm_inv s"
  let ?m = "on_nm_world (nmReconcileIngress m sgID [] \<lparr>PermissionSelector = permission_selector m, AuthorizeOnly = False\<rparr>)"
  obtain q s1 where 1: "?m s = (q, s1)" by (rule prod.exhaust)
  have "nm_inv s1" using keepsD [OF keeps_nm(1) 1] inv by simp
  moreover have "s' = s1 \<or> (\<exists>u. unTrackEndpointSGs [sgID] s1 = (u, s'))"
    using run 1 by (auto simp: gc_endpoint_sg_def split: sum.splits if_splits)
  ultimately show "nm_inv s'" using keepsD [OF keeps_nm(4)] by blast
qed

lemma keeps_reconcile_sg: "keeps (preserving nm_inv) (reconcile_sg m b errs entry)"
proof (rule keepsI)
  fix s r s' assume "reconcile_sg m b errs entry s = (r, s')"
  then have "snd (on_nm_world (nmReconcileIngress m (fst entry) (snd entry)
             \<lparr>PermissionSelector = permission_selector m, AuthorizeOnly = \<not> b\<rparr>) s) = s'"
    by (auto simp: reconcile_sg_def split: prod.splits sum.splits)
  then show "nm_inv s \<longrightarrow> nm_inv s'" using keeps_snd [OF keeps_nm(1)] by metis
qed

text \<open>The part of an operation after the permissions of the binding are recorded.\<close>

lemma keeps_nm_consolidate:
  assumes "\<And>kept b. keeps (preserving nm_inv) (k kept b)"
  shows "keeps (preserving nm_inv)
    (io_bind (nm_get (\<lambda>s. consolidateIngressPermissionsPerSGByTGB tgbs (ingressPermissionsPerSGByTGB s))) (\<lambda>(kept, b).
     io_bind (nm_modify (\<lambda>s. s\<lparr>ingressPermissionsPerSGByTGB := kept\<rparr>)) (\<lambda>_. k kept b)))"
proof (rule keepsI, rule impI)
  fix s :: "'a nm_state" and r s'
  let ?c = "consolidateIngressPermissionsPerSGByTGB tgbs (ingressPermissionsPerSGByTGB s)"
  assume run: "io_bind (nm_get (\<lambda>s. consolidateIngressPermissionsPerSGByTGB tgbs (ingressPermissionsPerSGByTGB s))) (\<lambda>(kept, b).
     io_bind (nm_modify (\<lambda>s. s\<lparr>ingressPermissionsPerSGByTGB := kept\<rparr>)) (\<lambda>_. k kept b)) s = (r, s')" and inv: "nm_inv s"
  have "k (fst ?c) (snd ?c) (s\<lparr>ingressPermissionsPerSGByTGB := fst ?c\<rparr>) = (r, s')"
    using run by (cases ?c) (simp add: io_bind_def nm_get_def nm_modify_def)
  from keepsD [OF assms this] show "nm_inv s'" using nm_inv_consolidate [OF inv] by simp
qed

lemma keeps_reconcile:
  assumes "shaped ps"
  shows "keeps (preserving nm_inv) (reconcileWithIngressPermissionsPerSG m tgb ps)"
proof -
  have "keeps (preserving nm_inv) (nm_modify (\<lambda>s. s\<lparr>ingressPermissionsPerSGByTGB :=
      AList.update key ps (ingressPermissionsPerSGByTGB s)\<rparr>))" for key :: NamespacedName
    using nm_inv_update assms by (auto simp: keeps_def nm_modify_def)
  then show ?thesis
    unfolding reconcileWithIngressPermissionsPerSG_def gcIngressPermissionsFromUnusedEndpointSGs_def fetchEndpointSGs_def
    by (intro keeps keeps_nm_consolidate keeps_reconcile_sg keeps_gc_sg)
qed

lemma keeps_bind_result:
  assumes "keeps (preserving I) m" "\<And>x w w'. m w = (Inr x, w') \<Longrightarrow> keeps (preserving I) (f x)"
  shows "keeps (preserving I) (io_bind m f)"
proof (rule keepsI, rule impI)
  fix w r w' assume run: "io_bind m f w = (r, w')" and I: "I w"
  obtain q w1 where 1: "m w = (q, w1)" by (rule prod.exhaust)
  have I1: "I w1" using keepsD [OF assms(1) 1] I by simp
  show "I w'"
  proof (cases q)
    case (Inl e)
    then show ?thesis using run 1 I1 by (simp add: io_bind_def)
  next
    case (Inr x)
    have "f x w1 = (r, w')" using run 1 Inr by (simp add: io_bind_def)
    from keepsD [OF assms(2) this] 1 Inr I1 show ?thesis by blast
  qed
qed

lemma on_nm_world_InrD: "on_nm_world m s = (Inr x, s') \<Longrightarrow> m (nmWorld s) = (Inr x, nmWorld s')"
  by (auto simp: on_nm_world_def split: prod.splits)

text \<open>C9: An invariant of the networking manager. Initially, and after every operation whether it
  succeeds or fails, each permission the manager remembers has exactly one source, either one IPv4
  range or one IPv6 range or one security group and nothing else, and carries the label by which the
  controller recognises its own rules; the memory has at most one entry per binding.\<close>

theorem networking_manager_invariant:
  "nm_inv (NewDefaultNetworkingManager_state w) \<and>
   (nm_inv s \<longrightarrow> nm_inv (snd (ReconcileForPodEndpoints m tgb pod_endpoints s)) \<and>
     nm_inv (snd (ReconcileForNodePortEndpoints m tgb node_endpoints s)) \<and> nm_inv (snd (Networking_Cleanup m tgb s)))"
proof -
  have empty: "shaped []" by (simp add: shaped_def)
  have pod: "keeps (preserving nm_inv) (ReconcileForPodEndpoints m tgb pod_endpoints)"
    unfolding ReconcileForPodEndpoints_def
  proof (rule keeps_bind_result)
    show "keeps (preserving nm_inv) (reconcileWithIngressPermissionsPerSG m tgb ps)"
      if "(case tgbNetworking (tgbSpec tgb) of None \<Rightarrow> io_return []
        | Some networking \<Rightarrow> on_nm_world (computeIngressPermissionsPerSGWithPodEndpoints m networking pod_endpoints)) s1 = (Inr ps, s2)" for ps s1 s2
      using that empty by (intro keeps_reconcile)
        (auto simp: io_return_def split: option.splits dest!: on_nm_world_InrD intro: pod_permissions_shaped)
  qed (intro keeps)
  have node: "keeps (preserving nm_inv) (ReconcileForNodePortEndpoints m tgb node_endpoints)"
    unfolding ReconcileForNodePortEndpoints_def
  proof (rule keeps_bind_result)
    show "keeps (preserving nm_inv) (reconcileWithIngressPermissionsPerSG m tgb ps)"
      if "(case tgbNetworking (tgbSpec tgb) of None \<Rightarrow> io_return []
        | Some networking \<Rightarrow> on_nm_world (computeIngressPermissionsPerSGWithNodePortEndpoints m networking node_endpoints)) s1 = (Inr ps, s2)" for ps s1 s2
      using that empty by (intro keeps_reconcile)
        (auto simp: io_return_def split: option.splits dest!: on_nm_world_InrD intro: node_permissions_shaped)
  qed (intro keeps)
  have cleanup: "keeps (preserving nm_inv) (Networking_Cleanup m tgb)"
    unfolding Networking_Cleanup_def by (rule keeps_reconcile [OF empty])
  have "nm_inv (NewDefaultNetworkingManager_state w)"
    by (simp add: nm_inv_def NewDefaultNetworkingManager_state_def stored_def)
  then show ?thesis using keeps_snd [OF pod, of s] keeps_snd [OF node, of s] keeps_snd [OF cleanup, of s] by simp
qed

text \<open>A binding to nodes whose interfaces have one security group, with a rule for port 80 from a group.\<close>

definition example_tgb :: TargetGroupBinding where
  "example_tgb = \<lparr>tgbMeta = example_pod_meta ''b'',
     tgbSpec = \<lparr>tgbTargetGroupARN = ''arn'', tgbTargetType = Some ''instance'', tgbServiceRef = \<lparr>srName = ''s'', srPort = IntVal 80\<rparr>,
       tgbNetworking = Some \<lparr>tgbnIngress = [\<lparr>nirFrom = [\<lparr>npIPBlock = None, npSecurityGroup = Some \<lparr>asgGroupID = ''sg-lb''\<rparr>\<rparr>],
         nirPorts = [\<lparr>nportProtocol = None, nportPort = Some (IntVal 80)\<rparr>, \<lparr>nportProtocol = None, nportPort = Some (IntVal 8080)\<rparr>]\<rparr>]\<rparr>,
       tgbNodeSelector = None, tgbIPAddressType = None\<rparr>,
     tgbStatus = \<lparr>tgbObservedGeneration = None\<rparr>\<rparr>"

text \<open>Its manager, in a world that counts the calls that may revoke rules.\<close>

definition example_nm :: "TargetGroupBinding list \<Rightarrow> nat defaultNetworkingManager" where
  "example_nm tgbs = \<lparr>nmListTGBs = io_return tgbs,
     nmPodENIResolve = \<lambda>pods. io_return (map (\<lambda>p. (podKey p, \<lparr>eniNetworkInterfaceID = ''eni-1'', eniSecurityGroups = [''sg-1'']\<rparr>)) pods),
     nmNodeENIResolve = \<lambda>nodes. io_return (map (\<lambda>n. (NamespacedName_of (nodeMeta n), \<lparr>eniNetworkInterfaceID = ''eni-1'', eniSecurityGroups = [''sg-1'']\<rparr>)) nodes),
     nmFetchSGInfosByID = \<lambda>_. io_return [], nmFetchSGInfosByRequest = \<lambda>_. io_return [],
     nmReconcileIngress = \<lambda>sgID perms opts w. (Inr (), if AuthorizeOnly opts then w else Suc w),
     nmVpcID = ''vpc-1'', nmClusterName = ''c'', nmServiceTargetENISGTags = [], nmDisableRestrictedSGRules = False,
     nmSelectorFromSet = \<lambda>want have. list_all (\<lambda>(k, v). map_of have k = Some v) want,
     nmMarshal = \<lambda>_. [], nmList = sorted_list_of_set, nmInt64List = sorted_list_of_set,
     nmStringOrder = \<lambda>ks. ks, nmNameOrder = \<lambda>ks. ks\<rparr>"

definition example_node_endpoint :: NodePortEndpoint where
  "example_node_endpoint = \<lparr>npeInstanceID = ''i-1'', npePort = 30000, npeNode = example_node\<rparr>"

theorem networking_manager_invariant_witness:
  "nm_inv (snd (ReconcileForNodePortEndpoints (example_nm [example_tgb]) example_tgb [example_node_endpoint]
     (NewDefaultNetworkingManager_state 0)))"
  using networking_manager_invariant [of 0 "NewDefaultNetworkingManager_state 0" "example_nm [example_tgb]" example_tgb "[]" "[example_node_endpoint]"]
  by blast

section \<open>Aggregated rules admit what every binding needs\<close>

text \<open>The ports of a permission; the source takes the range from 0 to 0 as all ports.\<close>

definition port_low :: "IPPermissionInfo \<Rightarrow> int" where
  "port_low p = Int64Value (sipFromPort (Permission p))"

definition port_high :: "IPPermissionInfo \<Rightarrow> int" where
  "port_high p = (if Int64Value (sipFromPort (Permission p)) = 0 \<and> Int64Value (sipToPort (Permission p)) = 0 then 65535
     else Int64Value (sipToPort (Permission p)))"

definition valid_ports :: "IPPermissionInfo \<Rightarrow> bool" where
  "valid_ports p \<longleftrightarrow> 0 \<le> Int64Value (sipFromPort (Permission p)) \<and>
     Int64Value (sipFromPort (Permission p)) \<le> Int64Value (sipToPort (Permission p)) \<and> Int64Value (sipToPort (Permission p)) \<le> 65535"

lemma valid_portsD: "valid_ports p \<Longrightarrow> 0 \<le> port_low p \<and> port_low p \<le> port_high p \<and> port_high p \<le> 65535"
  by (auto simp: valid_ports_def port_low_def port_high_def)

lemma port_range_step:
  "valid_ports p \<Longrightarrow> 0 \<le> lo \<Longrightarrow> hi \<le> 65535 \<Longrightarrow> port_range_step p (lo, hi) = (min lo (port_low p), max hi (port_high p))"
  by (auto simp: port_range_step_def port_low_def port_high_def valid_ports_def Let_def min_def max_def)

lemma port_range_fold:
  assumes "\<forall>p\<in>set ps. valid_ports p" "0 \<le> lo" "hi \<le> 65535"
  shows "fold port_range_step ps (lo, hi) = (fold (\<lambda>p. min (port_low p)) ps lo, fold (\<lambda>p. max (port_high p)) ps hi)"
  using assms
proof (induction ps arbitrary: lo hi)
  case (Cons p ps)
  then show ?case using valid_portsD [of p]
    by (simp add: port_range_step min.commute [of lo] max.commute [of hi])
qed simp

lemma fold_min_max:
  fixes f g :: "'a \<Rightarrow> int"
  shows "L \<le> fold (\<lambda>p. min (f p)) ps lo \<longleftrightarrow> L \<le> lo \<and> (\<forall>p\<in>set ps. L \<le> f p)"
    and "fold (\<lambda>p. max (g p)) ps hi \<le> H \<longleftrightarrow> hi \<le> H \<and> (\<forall>p\<in>set ps. g p \<le> H)"
  by (induction ps arbitrary: lo hi) auto

lemma merged_permission:
  assumes "ps \<noteq> []" "\<forall>p\<in>set ps. valid_ports p"
  obtains q lo hi where "merge_permissions ps = [q]"
    and "q = hd ps\<lparr>Permission := (Permission (hd ps))\<lparr>sipFromPort := Some lo, sipToPort := Some hi\<rparr>\<rparr>"
    and "\<And>L. L \<le> lo \<longleftrightarrow> (\<forall>p\<in>set ps. L \<le> port_low p)" "\<And>H. hi \<le> H \<longleftrightarrow> (\<forall>p\<in>set ps. port_high p \<le> H)"
proof -
  let ?lo = "fold (\<lambda>p. min (port_low p)) ps 65535" and ?hi = "fold (\<lambda>p. max (port_high p)) ps 0"
  let ?q = "hd ps\<lparr>Permission := (Permission (hd ps))\<lparr>sipFromPort := Some ?lo, sipToPort := Some ?hi\<rparr>\<rparr>"
  have q: "merge_permissions ps = [?q]"
    using port_range_fold [OF assms(2), of 65535 0] assms(1) by (cases ps) (simp_all add: merge_permissions_def)
  have "hd ps \<in> set ps" using assms(1) by simp
  then have lo: "L \<le> ?lo \<longleftrightarrow> (\<forall>p\<in>set ps. L \<le> port_low p)" and hi: "?hi \<le> H \<longleftrightarrow> (\<forall>p\<in>set ps. port_high p \<le> H)" for L H
    unfolding fold_min_max using valid_portsD assms(2) by force+
  show thesis by (rule that [OF q refl lo hi])
qed

text \<open>What the grouping loops have collected of a set of permissions with their security groups.\<close>

abbreviation in_group :: "(string, perms_by_protocol_and_source) gomap \<Rightarrow> string \<Rightarrow> string \<Rightarrow> string \<Rightarrow> IPPermissionInfo list" where
  "in_group groups sgID protocol source \<equiv> gomap_index [] (gomap_index [] (gomap_index [] groups sgID) protocol) source"

definition grouped ::
  "(string \<times> IPPermissionInfo) set \<Rightarrow> perms_per_sg \<times> (string, perms_by_protocol_and_source) gomap \<Rightarrow> bool" where
  "grouped S acc \<longleftrightarrow> (case acc of (ranges, groups) \<Rightarrow> \<forall>sgID protocol source.
     set (gomap_index [] ranges sgID) = {p. (sgID, p) \<in> S \<and> from_ip_range p} \<and>
     set (in_group groups sgID protocol source) =
       {p. (sgID, p) \<in> S \<and> \<not> from_ip_range p \<and> perm_protocol p = protocol \<and> source_group p = source})"

lemma grouped_permission: "grouped S acc \<Longrightarrow> grouped (insert (sgID, p) S) (group_permission sgID acc p)"
  unfolding grouped_def group_permission_def by (cases acc) (auto simp: Let_def)

lemma grouped_permissions:
  "grouped S acc \<Longrightarrow> grouped (S \<union> Pair sgID ` set ps) (fold (\<lambda>p acc. group_permission sgID acc p) ps acc)"
proof (induction ps arbitrary: S acc)
  case (Cons p ps)
  have "S \<union> Pair sgID ` set (p # ps) = insert (sgID, p) S \<union> Pair sgID ` set ps" by auto
  then show ?case using Cons.IH [OF grouped_permission [OF Cons.prems]] by (metis fold_simps(2))
qed simp

lemma grouped_new_sg: "grouped S (ranges, groups) \<Longrightarrow> grouped S (ranges, if map_of groups sgID = None then AList.update sgID [] groups else groups)"
proof -
  have "gomap_index [] (if map_of groups sgID = None then AList.update sgID [] groups else groups) = gomap_index [] groups"
    by (rule ext) (simp add: gomap_index_def update_conv')
  moreover assume "grouped S (ranges, groups)"
  ultimately show ?thesis by (simp add: grouped_def)
qed

lemma grouped_sgs:
  "grouped S acc \<Longrightarrow> grouped (S \<union> {(sgID, p). \<exists>ps. (sgID, ps) \<in> set xs \<and> p \<in> set ps})
     (fold (\<lambda>(sgID, permissions) (ranges, groups). fold (\<lambda>permission acc. group_permission sgID acc permission) permissions
       (ranges, if map_of groups sgID = None then AList.update sgID [] groups else groups)) xs acc)"
proof (induction xs arbitrary: S acc)
  case (Cons x xs)
  obtain sgID ps ranges groups where x: "x = (sgID, ps)" "acc = (ranges, groups)" by (cases x, cases acc) auto
  have "S \<union> {(sgID, p). \<exists>ps. (sgID, ps) \<in> set (x # xs) \<and> p \<in> set ps} =
      S \<union> Pair sgID ` set ps \<union> {(sgID, p). \<exists>ps. (sgID, ps) \<in> set xs \<and> p \<in> set ps}" by (auto simp: x)
  then show ?case using Cons.IH [OF grouped_permissions [OF grouped_new_sg]] Cons.prems by (simp add: x)
qed simp

lemma grouped_tgbs:
  "grouped S acc \<Longrightarrow> range_order (nmStringOrder m) \<Longrightarrow>
   grouped (S \<union> {(sgID, p). \<exists>k permsPerSG ps. (k, permsPerSG) \<in> set ts \<and> map_of permsPerSG sgID = Some ps \<and> p \<in> set ps})
     (fold (\<lambda>(_, permsPerSG). fold (\<lambda>(sgID, permissions) (ranges, groups).
         fold (\<lambda>permission acc. group_permission sgID acc permission) permissions
           (ranges, if map_of groups sgID = None then AList.update sgID [] groups else groups))
       (entries (nmStringOrder m) permsPerSG)) ts acc)"
proof (induction ts arbitrary: S acc)
  case (Cons t ts)
  obtain k permsPerSG where t: "t = (k, permsPerSG)" by (cases t)
  have "S \<union> {(sgID, p). \<exists>k permsPerSG ps. (k, permsPerSG) \<in> set (t # ts) \<and> map_of permsPerSG sgID = Some ps \<and> p \<in> set ps} =
      S \<union> {(sgID, p). \<exists>ps. (sgID, ps) \<in> set (entries (nmStringOrder m) permsPerSG) \<and> p \<in> set ps} \<union>
        {(sgID, p). \<exists>k permsPerSG ps. (k, permsPerSG) \<in> set ts \<and> map_of permsPerSG sgID = Some ps \<and> p \<in> set ps}"
    unfolding t entries_iff [OF Cons.prems(2)] by auto
  then show ?case using Cons.IH [OF grouped_sgs [OF Cons.prems(1)] Cons.prems(2)] by (simp add: t)
qed simp

lemma grouped_stored:
  assumes "range_order (nmStringOrder m)" "range_order (nmNameOrder m)"
  shows "grouped {(sgID, p). stored permsByTGB sgID p} (groupIngressPermsBySourceAndProtocolPerSG m permsByTGB)"
proof -
  have "grouped {} ([], [])" by (simp add: grouped_def)
  from grouped_tgbs [OF this assms(1), of "entries (nmNameOrder m) permsByTGB"]
  show ?thesis unfolding groupIngressPermsBySourceAndProtocolPerSG_def stored_def entries_iff [OF assms(2)] by simp
qed

lemma fold_update_get:
  assumes "\<forall>(k, v)\<in>set xs. g k = Some v"
  shows "map_of (fold (\<lambda>(k, v). AList.update k (f v)) xs m) k = (if k \<in> fst ` set xs then map_option f (g k) else map_of m k)"
  using assms by (induction xs arbitrary: m) (auto simp: update_conv')

lemma fold_update_entries:
  assumes "range_order order"
  shows "map_of (fold (\<lambda>(k, v). AList.update k (f v)) (entries order m) []) k = map_option f (map_of m k)"
proof -
  have "k \<in> fst ` set (entries order m) \<longleftrightarrow> map_of m k \<noteq> None" using entries_iff [OF assms, of k _ m] by force
  moreover have "\<forall>(k, v)\<in>set (entries order m). map_of m k = Some v" by (auto simp: entries_iff [OF assms])
  ultimately show ?thesis using fold_update_get [of "entries order m" "map_of m" f "[]" k] by auto
qed

lemma fold_append_get:
  "gomap_index [] (fold (\<lambda>p r. AList.update sgID (gomap_index [] r sgID @ [p]) r) ps r) k =
     gomap_index [] r k @ (if k = sgID then ps else [])"
  by (induction ps arbitrary: r) auto

lemma fold_append_set:
  "set (gomap_index [] (fold (\<lambda>(sgID, ps) r. fold (\<lambda>p r. AList.update sgID (gomap_index [] r sgID @ [p]) r) ps r) xs r) k) =
     set (gomap_index [] r k) \<union> {p. \<exists>ps. (k, ps) \<in> set xs \<and> p \<in> set ps}"
proof (induction xs arbitrary: r)
  case (Cons x xs)
  show ?case using Cons by (cases x) (auto simp: fold_append_get)
qed simp

lemma entries_Nil [simp]: "range_order order \<Longrightarrow> entries order [] = []"
  using range_order_set [of order "[]"] by (simp add: entries_def gomap_keys_def List.map_filter_simps)

text \<open>Collecting from the values of a map, where a missing key reads as the empty list.\<close>

lemma entries_lookup:
  assumes "range_order order" "f [] = []"
  shows "q \<in> set (concat (map (\<lambda>(_, v). f v) (entries order m))) \<longleftrightarrow> (\<exists>k. q \<in> set (f (gomap_index [] m k)))"
proof -
  have "q \<in> set (concat (map (\<lambda>(_, v). f v) (entries order m))) \<longleftrightarrow> (\<exists>(k, v)\<in>set (entries order m). q \<in> set (f v))"
    by (auto split: prod.splits)
  also have "\<dots> \<longleftrightarrow> (\<exists>k v. map_of m k = Some v \<and> q \<in> set (f v))"
    by (simp add: Bex_def entries_iff [OF assms(1)])
  also have "\<dots> \<longleftrightarrow> (\<exists>k. q \<in> set (f (gomap_index [] m k)))"
  proof (intro iffI)
    assume "\<exists>k v. map_of m k = Some v \<and> q \<in> set (f v)"
    then obtain k v where "map_of m k = Some v" "q \<in> set (f v)" by (elim exE conjE)
    then show "\<exists>k. q \<in> set (f (gomap_index [] m k))" by (intro exI [of _ k]) (simp add: gomap_index_def)
  next
    assume "\<exists>k. q \<in> set (f (gomap_index [] m k))"
    then obtain k where "q \<in> set (f (gomap_index [] m k))" by (elim exE)
    then show "\<exists>k v. map_of m k = Some v \<and> q \<in> set (f v)"
      using assms(2) by (cases "map_of m k") (auto simp: gomap_index_def)
  qed
  finally show ?thesis .
qed

lemma restricted_set:
  assumes "range_order (nmStringOrder m)"
    and "groupIngressPermsBySourceAndProtocolPerSG m permsByTGB = (ranges, groups)"
  shows "set (gomap_index [] (computeRestrictedIngressPermissionsPerSG m permsByTGB) sgID) =
    {q. \<exists>protocol source. q \<in> set (merge_permissions (in_group groups sgID protocol source))} \<union> set (gomap_index [] ranges sgID)"
proof -
  let ?merge = "\<lambda>byProtocol. concat (map (\<lambda>(_, bySource). concat (map (\<lambda>(_, perms). merge_permissions perms)
      (entries (nmStringOrder m) bySource))) (entries (nmStringOrder m) byProtocol))"
  have nil: "merge_permissions [] = []" by (simp add: merge_permissions_def)
  have inner: "q \<in> set (concat (map (\<lambda>(_, perms). merge_permissions perms) (entries (nmStringOrder m) bySource))) \<longleftrightarrow>
      (\<exists>source. q \<in> set (merge_permissions (gomap_index [] bySource source)))" for q bySource
    by (rule entries_lookup [where f = merge_permissions, OF assms(1) nil])
  have "q \<in> set (?merge byProtocol) \<longleftrightarrow> (\<exists>protocol. q \<in> set (concat (map (\<lambda>(_, perms). merge_permissions perms)
      (entries (nmStringOrder m) (gomap_index [] byProtocol protocol)))))" for q byProtocol
    by (rule entries_lookup [where f = "\<lambda>v. concat (map (\<lambda>(_, perms). merge_permissions perms) (entries (nmStringOrder m) v))", OF assms(1)])
      (simp add: assms(1))
  then have merge: "q \<in> set (?merge byProtocol) \<longleftrightarrow>
      (\<exists>protocol source. q \<in> set (merge_permissions (gomap_index [] (gomap_index [] byProtocol protocol) source)))" for q byProtocol
    by (simp only: inner)
  have lk: "gomap_index [] (fold (\<lambda>(sgID, byProtocol). AList.update sgID (?merge byProtocol)) (entries (nmStringOrder m) groups) []) sgID =
      ?merge (gomap_index [] groups sgID)"
    unfolding gomap_index_def [of _ "fold _ _ _"] gomap_index_def [of _ groups] fold_update_entries [OF assms(1)]
    by (cases "map_of groups sgID") (simp_all add: assms(1))
  have rg: "{p. \<exists>ps. (sgID, ps) \<in> set (entries (nmStringOrder m) ranges) \<and> p \<in> set ps} = set (gomap_index [] ranges sgID)"
    by (cases "map_of ranges sgID") (simp_all add: entries_iff [OF assms(1)] gomap_index_def)
  have "set (?merge (gomap_index [] groups sgID)) = {q. \<exists>protocol source. q \<in> set (merge_permissions (in_group groups sgID protocol source))}"
    by (rule set_eqI) (simp only: merge mem_Collect_eq)
  then show ?thesis
    unfolding computeRestrictedIngressPermissionsPerSG_def assms(2) Let_def prod.case fold_append_set lk rg by (simp only:)
qed

text \<open>A rule with the same protocol and source as a permission.\<close>

definition same_peer :: "IPPermissionInfo \<Rightarrow> IPPermissionInfo \<Rightarrow> bool" where
  "same_peer q p \<longleftrightarrow> from_ip_range q = from_ip_range p \<and> perm_protocol q = perm_protocol p \<and> source_group q = source_group p"

lemma merged_group:
  assumes group: "set G = {p. stored permsByTGB sgID p \<and> \<not> from_ip_range p \<and> perm_protocol p = pr \<and> source_group p = src}"
    and valid: "\<forall>p. stored permsByTGB sgID p \<longrightarrow> valid_ports p" and "G \<noteq> []"
  shows "\<exists>q. set (merge_permissions G) = {q} \<and> \<not> from_ip_range q \<and> (\<forall>p\<in>set G. same_peer q p) \<and>
      (\<forall>L. L \<le> port_low q \<longleftrightarrow> (\<forall>p\<in>set G. L \<le> port_low p)) \<and> (\<forall>H. port_high q \<le> H \<longleftrightarrow> (\<forall>p\<in>set G. port_high p \<le> H))"
proof -
  have validG: "\<forall>p\<in>set G. valid_ports p" using group valid by simp
  from merged_permission [OF assms(3) validG] obtain q lo hi where q: "merge_permissions G = [q]"
    "q = hd G\<lparr>Permission := (Permission (hd G))\<lparr>sipFromPort := Some lo, sipToPort := Some hi\<rparr>\<rparr>"
    "\<And>L. L \<le> lo \<longleftrightarrow> (\<forall>p\<in>set G. L \<le> port_low p)" "\<And>H. hi \<le> H \<longleftrightarrow> (\<forall>p\<in>set G. port_high p \<le> H)" by metis
  have hd: "hd G \<in> set G" using assms(3) by simp
  then have "\<not> from_ip_range (hd G) \<and> perm_protocol (hd G) = pr \<and> source_group (hd G) = src" using group by simp
  then have peer: "\<not> from_ip_range q" "perm_protocol q = pr" "source_group q = src"
    by (simp_all add: q(2) from_ip_range_def perm_protocol_def source_group_def)
  have hi: "port_high (hd G) \<le> hi" using q(4) [of hi] hd by simp
  have "0 < port_high (hd G)" using validG hd by (auto simp: valid_ports_def port_high_def)
  then have ports: "port_low q = lo" "port_high q = hi" using hi by (simp_all add: q(2) port_low_def port_high_def)
  have "\<forall>p\<in>set G. same_peer q p" using peer group by (simp add: same_peer_def)
  then show ?thesis using q(1,3,4) peer(1) ports by (intro exI [of _ q]) simp
qed

text \<open>The ports of a rule that merges the permissions of a group.\<close>

lemma merged_span:
  assumes "\<forall>p\<in>set G. stored permsByTGB sgID p \<and> valid_ports p \<and> same_peer q p" "G \<noteq> []"
    and "\<forall>L. L \<le> port_low q \<longleftrightarrow> (\<forall>p\<in>set G. L \<le> port_low p)" "\<forall>H. port_high q \<le> H \<longleftrightarrow> (\<forall>p\<in>set G. port_high p \<le> H)"
  shows "0 \<le> port_low q \<and> port_low q \<le> port_high q \<and> port_high q \<le> 65535 \<and> (\<exists>p. stored permsByTGB sgID p \<and> same_peer q p) \<and>
    (\<forall>L H. (\<forall>p. stored permsByTGB sgID p \<and> same_peer q p \<longrightarrow> L \<le> port_low p \<and> port_high p \<le> H) \<longrightarrow> L \<le> port_low q \<and> port_high q \<le> H)"
proof (intro conjI allI impI)
  have hd: "hd G \<in> set G" using assms(2) by simp
  show "0 \<le> port_low q" "port_high q \<le> 65535" using assms(1,3,4) valid_portsD by blast+
  have "port_low q \<le> port_low (hd G)" "port_high (hd G) \<le> port_high q" using assms(3,4) hd by blast+
  moreover have "port_low (hd G) \<le> port_high (hd G)" using assms(1) hd valid_portsD by blast
  ultimately show "port_low q \<le> port_high q" by linarith
  show "\<exists>p. stored permsByTGB sgID p \<and> same_peer q p" using assms(1) hd by blast
  fix L H assume "\<forall>p. stored permsByTGB sgID p \<and> same_peer q p \<longrightarrow> L \<le> port_low p \<and> port_high p \<le> H"
  then have "\<forall>p\<in>set G. L \<le> port_low p \<and> port_high p \<le> H" using assms(1) by blast
  then show "L \<le> port_low q" "port_high q \<le> H" using assms(3,4) by blast+
qed

text \<open>C5: Restricted rules admit everything the bindings need, and no more ports than that takes. Take the
  permissions the manager remembers for a security group, with ports between 0 and 65535. The
  rules computed for the group contain each permission for an address range as it is. For each
  permission from a security group they contain a rule with its protocol and source whose ports
  include those of the permission. The ports of every rule stay between 0 and 65535, and those
  of a rule from a security group span exactly from the lowest to the highest port that some
  remembered permission with that protocol and source asks for.\<close>

theorem restricted_rules_exact:
  assumes "range_order (nmStringOrder m)" "range_order (nmNameOrder m)" "\<not> nmDisableRestrictedSGRules m"
    and "\<forall>p. stored permsByTGB sgID p \<longrightarrow> tgb_permission p \<and> valid_ports p"
  defines "rules \<equiv> set (gomap_index [] (computeAggregatedIngressPermissionsPerSG m permsByTGB) sgID)"
  shows "(\<forall>p. stored permsByTGB sgID p \<longrightarrow> (if from_ip_range p then p \<in> rules
       else \<exists>q\<in>rules. same_peer q p \<and> port_low q \<le> port_low p \<and> port_high p \<le> port_high q)) \<and>
     (\<forall>q\<in>rules. 0 \<le> port_low q \<and> port_low q \<le> port_high q \<and> port_high q \<le> 65535 \<and>
       (if from_ip_range q then stored permsByTGB sgID q
        else (\<exists>p. stored permsByTGB sgID p \<and> same_peer q p) \<and>
          (\<forall>L H. (\<forall>p. stored permsByTGB sgID p \<and> same_peer q p \<longrightarrow> L \<le> port_low p \<and> port_high p \<le> H) \<longrightarrow>
            L \<le> port_low q \<and> port_high q \<le> H)))"
proof -
  obtain ranges groups where g: "groupIngressPermsBySourceAndProtocolPerSG m permsByTGB = (ranges, groups)" by (rule prod.exhaust)
  have "grouped {(sgID, p). stored permsByTGB sgID p} (ranges, groups)" using grouped_stored [OF assms(1,2)] g by metis
  then have ranges: "set (gomap_index [] ranges sgID) = {p. stored permsByTGB sgID p \<and> from_ip_range p}"
    and group: "\<And>pr src. set (in_group groups sgID pr src) =
      {p. stored permsByTGB sgID p \<and> \<not> from_ip_range p \<and> perm_protocol p = pr \<and> source_group p = src}"
    by (simp_all add: grouped_def)
  have rules: "rules = {q. \<exists>pr src. q \<in> set (merge_permissions (in_group groups sgID pr src))} \<union> {p. stored permsByTGB sgID p \<and> from_ip_range p}"
    unfolding rules_def computeAggregatedIngressPermissionsPerSG_def using restricted_set [OF assms(1) g] ranges assms(3) by simp
  have valid: "\<forall>p. stored permsByTGB sgID p \<longrightarrow> valid_ports p" using assms(4) by blast
  note merged = merged_group [OF group valid]
  have need: "\<exists>q\<in>rules. same_peer q p \<and> port_low q \<le> port_low p \<and> port_high p \<le> port_high q"
    if p: "stored permsByTGB sgID p" "\<not> from_ip_range p" for p
  proof -
    let ?G = "in_group groups sgID (perm_protocol p) (source_group p)"
    have in_G: "p \<in> set ?G" using group p by simp
    have ne: "?G \<noteq> []" using in_G by auto
    from merged [OF ne] obtain q where q: "set (merge_permissions ?G) = {q}" "\<forall>p\<in>set ?G. same_peer q p"
      "\<forall>L. L \<le> port_low q \<longleftrightarrow> (\<forall>p\<in>set ?G. L \<le> port_low p)" "\<forall>H. port_high q \<le> H \<longleftrightarrow> (\<forall>p\<in>set ?G. port_high p \<le> H)"
      by (elim exE conjE)
    have "q \<in> rules" unfolding rules using q(1) by blast
    then show ?thesis using q(2-4) in_G by blast
  qed
  have span: "0 \<le> port_low q \<and> port_low q \<le> port_high q \<and> port_high q \<le> 65535 \<and> (\<exists>p. stored permsByTGB sgID p \<and> same_peer q p) \<and>
      (\<forall>L H. (\<forall>p. stored permsByTGB sgID p \<and> same_peer q p \<longrightarrow> L \<le> port_low p \<and> port_high p \<le> H) \<longrightarrow> L \<le> port_low q \<and> port_high q \<le> H)"
    if q: "q \<in> rules" "\<not> from_ip_range q" for q
  proof -
    obtain pr src where in_q: "q \<in> set (merge_permissions (in_group groups sgID pr src))" using q rules by blast
    let ?G = "in_group groups sgID pr src"
    have ne: "?G \<noteq> []" using in_q by (auto simp: merge_permissions_def)
    from merged [OF ne] in_q have m: "\<forall>p\<in>set ?G. same_peer q p" "\<forall>L. L \<le> port_low q \<longleftrightarrow> (\<forall>p\<in>set ?G. L \<le> port_low p)"
      "\<forall>H. port_high q \<le> H \<longleftrightarrow> (\<forall>p\<in>set ?G. port_high p \<le> H)" by auto
    have "\<forall>p\<in>set ?G. stored permsByTGB sgID p \<and> valid_ports p \<and> same_peer q p" using group valid m(1) by simp
    then show ?thesis by (rule merged_span [OF _ ne m(2,3)])
  qed
  have in_rules: "from_ip_range q \<Longrightarrow> q \<in> rules \<longleftrightarrow> stored permsByTGB sgID q" for q
  proof -
    assume ip: "from_ip_range q"
    have "q \<notin> set (merge_permissions (in_group groups sgID pr src))" for pr src
    proof (cases "in_group groups sgID pr src = []")
      case False
      from merged [OF False] ip show ?thesis by auto
    qed (simp add: merge_permissions_def)
    then show ?thesis using ip unfolding rules by blast
  qed
  show ?thesis
  proof (intro conjI allI ballI impI)
    fix p assume "stored permsByTGB sgID p"
    then show "if from_ip_range p then p \<in> rules else \<exists>q\<in>rules. same_peer q p \<and> port_low q \<le> port_low p \<and> port_high p \<le> port_high q"
      using need in_rules by simp
  next
    fix q assume q: "q \<in> rules"
    have "from_ip_range q \<Longrightarrow> valid_ports q" using q in_rules assms(4) by blast
    then show "0 \<le> port_low q" "port_low q \<le> port_high q" "port_high q \<le> 65535"
      using span [OF q] valid_portsD [of q] by blast+
    show "if from_ip_range q then stored permsByTGB sgID q else (\<exists>p. stored permsByTGB sgID p \<and> same_peer q p) \<and>
        (\<forall>L H. (\<forall>p. stored permsByTGB sgID p \<and> same_peer q p \<longrightarrow> L \<le> port_low p \<and> port_high p \<le> H) \<longrightarrow> L \<le> port_low q \<and> port_high q \<le> H)"
    proof (cases "from_ip_range q")
      case True
      then show ?thesis using in_rules q by simp
    next
      case False
      from span [OF q False] show ?thesis unfolding if_not_P [OF False] by (elim conjE) (intro conjI)
    qed
  qed
qed

definition example_perm :: "int \<Rightarrow> IPPermissionInfo" where
  "example_perm port = NewGroupIDIPPermission sorted_list_of_set ''tcp'' (Some port) (Some port) ''sg-lb'' permissionLabels"

theorem restricted_rules_exact_witness:
  "\<exists>q\<in>set (gomap_index [] (computeAggregatedIngressPermissionsPerSG (example_nm [])
      [(\<lparr>nnNamespace = ''ns'', nnName = ''b''\<rparr>, [(''sg-1'', [example_perm 8080])]),
       (\<lparr>nnNamespace = ''ns'', nnName = ''c''\<rparr>, [(''sg-1'', [example_perm 80])])]) ''sg-1'').
     same_peer q (example_perm 80) \<and> port_low q \<le> 80 \<and> 80 \<le> port_high q"
proof -
  let ?ps = "[(\<lparr>nnNamespace = ''ns'', nnName = ''b''\<rparr>, [(''sg-1'', [example_perm 8080])]),
       (\<lparr>nnNamespace = ''ns'', nnName = ''c''\<rparr>, [(''sg-1'', [example_perm 80])])]"
  have orders: "range_order (nmStringOrder (example_nm []))" "range_order (nmNameOrder (example_nm []))" "\<not> nmDisableRestrictedSGRules (example_nm [])"
    by (simp_all add: example_nm_def range_order_id)
  have perm: "tgb_permission (example_perm port)" "\<not> from_ip_range (example_perm port)"
    "port_low (example_perm port) = port" "0 < port \<Longrightarrow> port_high (example_perm port) = port"
    "0 \<le> port \<Longrightarrow> port \<le> 65535 \<Longrightarrow> valid_ports (example_perm port)" for port
    by (simp_all add: example_perm_def NewGroupIDIPPermission_def base_permission_def tgb_permission_def permissionLabels_def from_ip_range_def
        port_low_def port_high_def valid_ports_def)
  have "stored ?ps ''sg-1'' p \<Longrightarrow> p = example_perm 8080 \<or> p = example_perm 80" for p
    by (auto simp: stored_def split: if_splits)
  then have all: "\<forall>p. stored ?ps ''sg-1'' p \<longrightarrow> tgb_permission p \<and> valid_ports p" using perm by fastforce
  have "stored ?ps ''sg-1'' (example_perm 80)" unfolding stored_def
    by (rule exI [of _ "\<lparr>nnNamespace = ''ns'', nnName = ''c''\<rparr>"]) simp
  with restricted_rules_exact [OF orders all] have
    "\<exists>q\<in>set (gomap_index [] (computeAggregatedIngressPermissionsPerSG (example_nm []) ?ps) ''sg-1'').
       same_peer q (example_perm 80) \<and> port_low q \<le> port_low (example_perm 80) \<and> port_high (example_perm 80) \<le> port_high q"
    using perm(2) [of 80] by simp
  then show ?thesis by (simp add: perm)
qed

section \<open>When rules may be revoked\<close>

definition nm_calls_keep :: "('w \<Rightarrow> bool) \<Rightarrow> 'w defaultNetworkingManager \<Rightarrow> bool" where
  "nm_calls_keep I m \<longleftrightarrow>
     (\<forall>sgID ps opts. AuthorizeOnly opts \<longrightarrow> keeps (preserving I) (nmReconcileIngress m sgID ps opts)) \<and>
     keeps (preserving I) (nmListTGBs m) \<and> (\<forall>x. keeps (preserving I) (nmPodENIResolve m x)) \<and>
     (\<forall>x. keeps (preserving I) (nmNodeENIResolve m x)) \<and> (\<forall>x. keeps (preserving I) (nmFetchSGInfosByID m x)) \<and>
     (\<forall>x. keeps (preserving I) (nmFetchSGInfosByRequest m x))"

text \<open>The cache of the controller lists the bindings without changing anything.\<close>

definition lists_tgbs :: "'w defaultNetworkingManager \<Rightarrow> TargetGroupBinding list \<Rightarrow> bool" where
  "lists_tgbs m tgbs \<longleftrightarrow> (\<forall>w. nmListTGBs m w = (Inr tgbs, w))"

lemma not_computed_for_all:
  assumes "gomap_wf perms" "b \<in> set tgbs" "tgbNetworking (tgbSpec b) \<noteq> None" "map_of perms (NamespacedName_of (tgbMeta b)) = None"
  shows "\<not> snd (consolidateIngressPermissionsPerSGByTGB
    (index_by (\<lambda>tgb. NamespacedName_of (tgbMeta tgb)) (filter (\<lambda>tgb. tgbNetworking (tgbSpec tgb) \<noteq> None) tgbs)) perms)"
proof -
  define W where "W = index_by (\<lambda>tgb. NamespacedName_of (tgbMeta tgb)) (filter (\<lambda>tgb. tgbNetworking (tgbSpec tgb) \<noteq> None) tgbs)"
  let ?kept = "filter (\<lambda>(tgbKey, _). map_of W tgbKey \<noteq> None) perms"
  have "gomap_wf ?kept" "gomap_wf W" using assms(1) by (auto simp: W_def intro: wf_intros)
  then have card: "length ?kept = card (fst ` set ?kept)" "length W = card (fst ` set W)"
    unfolding gomap_wf_def using distinct_card [of "map fst ?kept"] distinct_card [of "map fst W"] by simp_all
  have "fst ` set W = (\<lambda>tgb. NamespacedName_of (tgbMeta tgb)) ` set (filter (\<lambda>tgb. tgbNetworking (tgbSpec tgb) \<noteq> None) tgbs)"
    unfolding W_def using index_by_keys [of "\<lambda>tgb. NamespacedName_of (tgbMeta tgb)"] by (simp only: gomap_keys_def set_map)
  then have "NamespacedName_of (tgbMeta b) \<in> fst ` set W" using assms(2,3) by auto
  moreover have "NamespacedName_of (tgbMeta b) \<notin> fst ` set ?kept" using assms(4) by (auto simp: map_of_eq_None_iff)
  moreover have "fst ` set ?kept \<subseteq> fst ` set W" by (auto dest!: map_of_SomeD intro: rev_image_eqI)
  ultimately have "fst ` set ?kept \<subset> fst ` set W" by (metis psubsetI)
  then have "card (fst ` set ?kept) < card (fst ` set W)" by (intro psubset_card_mono) simp_all
  then show ?thesis using card by (simp add: consolidateIngressPermissionsPerSGByTGB_def W_def)
qed

lemma keeps_nm_world [keeps]:
  "keeps (preserving I) m \<Longrightarrow> keeps (preserving (\<lambda>s. I (nmWorld s))) (on_nm_world m)"
  by (auto simp: keeps_def on_nm_world_def split: prod.splits)

lemma keeps_authorize_only:
  assumes "nm_calls_keep I m"
  shows "keeps (preserving (\<lambda>s. I (nmWorld s))) (reconcile_sg m False errs entry)"
proof (rule keepsI)
  fix s r s' assume run: "reconcile_sg m False errs entry s = (r, s')"
  let ?c = "nmReconcileIngress m (fst entry) (snd entry) \<lparr>PermissionSelector = permission_selector m, AuthorizeOnly = \<not> False\<rparr>"
  have "snd (on_nm_world ?c s) = s'" using run by (auto simp: reconcile_sg_def split: prod.splits sum.splits)
  moreover have "keeps (preserving I) ?c" using assms by (simp add: nm_calls_keep_def)
  ultimately show "I (nmWorld s) \<longrightarrow> I (nmWorld s')" using keeps_snd [OF keeps_nm_world, of I ?c s] by simp
qed

lemma reconcile_keeps_rules:
  assumes "nm_calls_keep I m" "lists_tgbs m tgbs" "gomap_wf (ingressPermissionsPerSGByTGB s)"
    and "b \<in> set tgbs" "tgbNetworking (tgbSpec b) \<noteq> None"
    and "NamespacedName_of (tgbMeta b) \<noteq> NamespacedName_of (tgbMeta tgb)"
    and "map_of (ingressPermissionsPerSGByTGB s) (NamespacedName_of (tgbMeta b)) = None"
    and "I (nmWorld s)"
  shows "I (nmWorld (snd (reconcileWithIngressPermissionsPerSG m tgb ps s)))"
proof -
  let ?W = "index_by (\<lambda>tgb. NamespacedName_of (tgbMeta tgb)) (filter (\<lambda>tgb. tgbNetworking (tgbSpec tgb) \<noteq> None) tgbs)"
  define perms where "perms = AList.update (NamespacedName_of (tgbMeta tgb)) ps (ingressPermissionsPerSGByTGB s)"
  define kept where "kept = fst (consolidateIngressPermissionsPerSGByTGB ?W perms)"
  have "gomap_wf perms" "map_of perms (NamespacedName_of (tgbMeta b)) = None"
    using assms(3,6,7) by (auto simp: perms_def update_conv' intro: wf_intros)
  then have "\<not> snd (consolidateIngressPermissionsPerSGByTGB ?W perms)"
    using not_computed_for_all assms(4,5) by blast
  then have c: "consolidateIngressPermissionsPerSGByTGB ?W perms = (kept, False)" by (simp add: kept_def prod_eq_iff)
  define s1 where "s1 = s\<lparr>trackedEndpointSGs := trackedEndpointSGs s \<union> set (nmList m (set (gomap_keys ps))),
     ingressPermissionsPerSGByTGB := kept\<rparr>"
  let ?aggregated = "computeAggregatedIngressPermissionsPerSG m kept"
  let ?rest = "io_bind (io_foldM (reconcile_sg m False) [] (entries (nmStringOrder m) ?aggregated)) (\<lambda>errs.
       if errs \<noteq> [] then io_fail (Join errs) else io_return ())"
  have "reconcileWithIngressPermissionsPerSG m tgb ps s = ?rest s1"
    using assms(2) c by (simp add: reconcileWithIngressPermissionsPerSG_def fetchTGBsWithNetworking_def on_nm_world_def lists_tgbs_def
        trackEndpointSGs_def nm_modify_def nm_get_def io_bind_def [of "nm_get _"] io_bind_def [of "\<lambda>s. _ s"] io_return_def
        perms_def s1_def Let_def)
  moreover have k: "keeps (preserving (\<lambda>s. I (nmWorld s))) ?rest" by (intro keeps keeps_authorize_only assms(1))
  moreover have "I (nmWorld s1)" using assms(8) by (simp add: s1_def)
  ultimately show ?thesis using keeps_snd [OF k, of s1] by simp
qed

text \<open>C6: No rule is revoked on incomplete knowledge. Suppose some other target group binding of the
  cluster has networking rules and the manager has not computed its permissions yet, as after a
  restart. Then reconciling or cleaning up a binding preserves every property of the outside
  world that reading and authorising preserve: no operation revokes a rule, even if it fails.\<close>

theorem no_revocation_before_all_known:
  assumes "nm_calls_keep I m" "lists_tgbs m tgbs" "gomap_wf (ingressPermissionsPerSGByTGB s)"
    and "b \<in> set tgbs" "tgbNetworking (tgbSpec b) \<noteq> None"
    and "NamespacedName_of (tgbMeta b) \<noteq> NamespacedName_of (tgbMeta tgb)"
    and "map_of (ingressPermissionsPerSGByTGB s) (NamespacedName_of (tgbMeta b)) = None"
    and "I (nmWorld s)"
  shows "I (nmWorld (snd (ReconcileForPodEndpoints m tgb pod_endpoints s))) \<and>
    I (nmWorld (snd (ReconcileForNodePortEndpoints m tgb node_endpoints s))) \<and>
    I (nmWorld (snd (Networking_Cleanup m tgb s)))"
proof -
  have calls: "keeps (preserving I) (nmPodENIResolve m x)" "keeps (preserving I) (nmNodeENIResolve m y)"
    "keeps (preserving I) (nmFetchSGInfosByID m z)" for x y z using assms(1) by (simp_all add: nm_calls_keep_def)
  have resolve: "keeps (preserving I) (resolveEndpointSGForENI m eni)" for eni
    unfolding resolveEndpointSGForENI_def by (auto split: list.split simp: Let_def intro!: keeps calls)
  have compute: "keeps (preserving I) (computeIngressPermissionsPerSGWithPodEndpoints m net pod_endpoints)"
    "keeps (preserving I) (computeIngressPermissionsPerSGWithNodePortEndpoints m net node_endpoints)" for net
    unfolding computeIngressPermissionsPerSGWithPodEndpoints_def computeIngressPermissionsPerSGWithNodePortEndpoints_def
    by (intro keeps calls resolve)+
  have after: "I (nmWorld (snd (reconcileWithIngressPermissionsPerSG m tgb ps (s\<lparr>nmWorld := w\<rparr>))))" if "I w" for ps w
    by (rule reconcile_keeps_rules [OF assms(1,2) _ assms(4,5,6)]) (use assms(3,7) that in simp_all)
  have bind: "I (nmWorld (snd (io_bind (case x of None \<Rightarrow> io_return [] | Some net \<Rightarrow> on_nm_world (compute net))
      (reconcileWithIngressPermissionsPerSG m tgb) s)))" if "\<And>net. keeps (preserving I) (compute net)" for x :: "'x option" and compute
  proof (cases x)
    case None
    then show ?thesis using after [of "nmWorld s"] assms(8) by simp
  next
    case (Some net)
    have "I (snd (compute net (nmWorld s)))" using keeps_snd [OF that, of "nmWorld s"] assms(8) by simp
    then show ?thesis using after [of "snd (compute net (nmWorld s))"]
      by (cases "compute net (nmWorld s)"; cases "fst (compute net (nmWorld s))") (simp_all add: Some io_bind_def on_nm_world_def)
  qed
  show ?thesis
    unfolding ReconcileForPodEndpoints_def ReconcileForNodePortEndpoints_def Networking_Cleanup_def
    using bind [of "\<lambda>net. computeIngressPermissionsPerSGWithPodEndpoints m net pod_endpoints" "tgbNetworking (tgbSpec tgb)", OF compute(1)]
      bind [of "\<lambda>net. computeIngressPermissionsPerSGWithNodePortEndpoints m net node_endpoints" "tgbNetworking (tgbSpec tgb)", OF compute(2)]
      after [of "nmWorld s"] assms(8) by simp
qed

text \<open>A second binding of the cluster that the manager has not seen yet.\<close>

theorem no_revocation_before_all_known_witness:
  "nmWorld (snd (ReconcileForNodePortEndpoints (example_nm [example_tgb, example_tgb\<lparr>tgbMeta := example_pod_meta ''c''\<rparr>])
     example_tgb [example_node_endpoint] (NewDefaultNetworkingManager_state 0))) = 0"
proof -
  let ?b = "example_tgb\<lparr>tgbMeta := example_pod_meta ''c''\<rparr>" and ?s = "NewDefaultNetworkingManager_state 0"
  let ?m = "example_nm [example_tgb, ?b]"
  have calls: "nm_calls_keep (\<lambda>w. w = 0) ?m"
    by (auto simp: nm_calls_keep_def example_nm_def keeps_def io_return_def)
  have lists: "lists_tgbs ?m [example_tgb, ?b]" by (simp add: lists_tgbs_def example_nm_def io_return_def)
  have wf: "gomap_wf (ingressPermissionsPerSGByTGB ?s)" by (simp add: NewDefaultNetworkingManager_state_def)
  have net: "tgbNetworking (tgbSpec ?b) \<noteq> None" by (simp add: example_tgb_def)
  have other: "NamespacedName_of (tgbMeta ?b) \<noteq> NamespacedName_of (tgbMeta example_tgb)"
    by (simp add: example_tgb_def example_pod_meta_def NamespacedName_of_def)
  have unknown: "map_of (ingressPermissionsPerSGByTGB ?s) (NamespacedName_of (tgbMeta ?b)) = None"
    by (simp add: NewDefaultNetworkingManager_state_def)
  show ?thesis
    using no_revocation_before_all_known [OF calls lists wf _ net other unknown, of "[]" "[example_node_endpoint]"]
    by (simp add: NewDefaultNetworkingManager_state_def)
qed

section \<open>Rules without ports\<close>

text \<open>C23: Ingress rules that name no ports are dropped. The API documents that a rule without ports
  applies to all TCP ports, but whenever the permissions of such rules are computed without
  error, there are none.\<close>

theorem rules_without_ports_grant_nothing:
  assumes "\<forall>rule\<in>set (tgbnIngress tgbNet). nirPorts rule = []"
    and "computeIngressPermissionsForTGBNetworking m tgbNet pods = Inr ps"
  shows "ps = []"
proof -
  have peers: "qs = acc" if "result_foldM (\<lambda>permissions rulePeer. result_bind (computePermissionsForPeerPort m rulePeer
      \<lparr>nportProtocol = Some NetworkingProtocolTCP, nportPort = None\<rparr> pods) (\<lambda>_. Inr permissions)) acc peers = Inr qs" for acc peers qs
    by (rule result_foldM_inv [where P = "\<lambda>qs. qs = acc", OF that]) auto
  show ?thesis
    by (rule result_foldM_inv [where P = "\<lambda>ps. ps = []", OF assms(2) [unfolded computeIngressPermissionsForTGBNetworking_def]])
      (use assms(1) peers in auto)
qed

theorem rules_without_ports_grant_nothing_witness:
  "computeIngressPermissionsForTGBNetworking (example_nm [])
     \<lparr>tgbnIngress = [\<lparr>nirFrom = [\<lparr>npIPBlock = None, npSecurityGroup = Some \<lparr>asgGroupID = ''sg-lb''\<rparr>\<rparr>], nirPorts = []\<rparr>]\<rparr> [] = Inr []"
proof -
  let ?net = "\<lparr>tgbnIngress = [\<lparr>nirFrom = [\<lparr>npIPBlock = None, npSecurityGroup = Some \<lparr>asgGroupID = ''sg-lb''\<rparr>\<rparr>], nirPorts = []\<rparr>]\<rparr>"
  obtain ps where run: "computeIngressPermissionsForTGBNetworking (example_nm []) ?net [] = Inr ps"
    by (simp add: computeIngressPermissionsForTGBNetworking_def computePermissionsForPeerPort_def)
  have "\<forall>rule\<in>set (tgbnIngress ?net). nirPorts rule = []" by simp
  from rules_without_ports_grant_nothing [OF this run] run show ?thesis by simp
qed

end
