(* ===== verification/Tgb_Targets.thy ===== *)
theory Tgb_Targets
  imports Algorithm Go_Strings
begin

text \<open>
  The targets of target groups, \<^verbatim>\<open>pkg/targetgroupbinding/targets_manager.go\<close> and
  \<^verbatim>\<open>targets_manager_types.go\<close>: registration in chunks, and a cache of the targets of each group that
  is refreshed only for targets that are not healthy. The client and the expiring cache are
  parameters; the locks are not modelled, each operation is a sequence of calls.
\<close>

section \<open>Targets\<close>

record TargetDescription =
  tdId :: "string option"
  tdPort :: "int option"
  tdAvailabilityZone :: "string option"

record TargetHealth =
  thState :: "string option"
  thReason :: "string option"
  thDescription :: "string option"

record TargetInfo =
  tiTarget :: TargetDescription
  tiTargetHealth :: "TargetHealth option"

definition IsHealthy :: "TargetInfo \<Rightarrow> bool" where
  "IsHealthy t = (case tiTargetHealth t of None \<Rightarrow> False | Some h \<Rightarrow> StringValue (thState h) = ''healthy'')"

definition IsNotRegistered :: "TargetInfo \<Rightarrow> bool" where
  "IsNotRegistered t = (case tiTargetHealth t of None \<Rightarrow> False
     | Some h \<Rightarrow> StringValue (thState h) = ''unused'' \<and> StringValue (thReason h) = ''Target.NotRegistered'')"

definition IsDraining :: "TargetInfo \<Rightarrow> bool" where
  "IsDraining t = (case tiTargetHealth t of None \<Rightarrow> False | Some h \<Rightarrow> StringValue (thState h) = ''draining'')"

definition IsInitial :: "TargetInfo \<Rightarrow> bool" where
  "IsInitial t = (case tiTargetHealth t of None \<Rightarrow> False | Some h \<Rightarrow> StringValue (thState h) = ''initial'')"

definition UniqueIDForTargetDescription :: "TargetDescription \<Rightarrow> string" where
  "UniqueIDForTargetDescription target = StringValue (tdId target) @ '':'' @ Itoa (Int64Value (tdPort target))"

section \<open>The cached targets manager\<close>

text \<open>
  The cache entry of a group is a pointer: storing an entry starts its lifetime, and writing
  through the pointer changes the entry without extending it. A described target has a target
  and perhaps its health.
\<close>

record 'w cachedTargetsManager =
  RegisterTargetsWithContext :: "string \<Rightarrow> TargetDescription list \<Rightarrow> ('w, unit) io"
  DeregisterTargetsWithContext :: "string \<Rightarrow> TargetDescription list \<Rightarrow> ('w, unit) io"
  DescribeTargetHealthWithContext :: "string \<Rightarrow> TargetDescription list \<Rightarrow> ('w, (TargetDescription \<times> TargetHealth option) list) io"
  targetsCacheGet :: "string \<Rightarrow> 'w \<Rightarrow> TargetInfo list option"
  targetsCacheSet :: "string \<Rightarrow> TargetInfo list \<Rightarrow> 'w \<Rightarrow> 'w"
  targetsCacheWrite :: "string \<Rightarrow> TargetInfo list \<Rightarrow> 'w \<Rightarrow> 'w"
  registerTargetsChunkSize :: int
  deregisterTargetsChunkSize :: int
  targetsOrder :: "string list \<Rightarrow> string list"

definition defaultRegisterTargetsChunkSize :: int where
  [simp]: "defaultRegisterTargetsChunkSize = 200"

definition defaultDeregisterTargetsChunkSize :: int where
  [simp]: "defaultDeregisterTargetsChunkSize = 200"

definition chunkTargetDescriptions ::
  "TargetDescription list \<Rightarrow> int \<Rightarrow> TargetDescription list list result option" where
  "chunkTargetDescriptions targets chunkSize = chunk_loop targets chunkSize 0 []"

text \<open>The loop over the cached targets that forgets the health of those in the map, each key once.\<close>

fun forget_health :: "(string, TargetDescription) gomap \<Rightarrow> TargetInfo list \<Rightarrow> TargetInfo list \<times> (string, TargetDescription) gomap" where
  "forget_health targetsByUniqueID [] = ([], targetsByUniqueID)"
| "forget_health targetsByUniqueID (t # ts) =
     (let cachedTargetUniqueID = UniqueIDForTargetDescription (tiTarget t) in
      if map_of targetsByUniqueID cachedTargetUniqueID \<noteq> None then
        map_prod (Cons (t\<lparr>tiTargetHealth := None\<rparr>)) id (forget_health (AList.delete cachedTargetUniqueID targetsByUniqueID) ts)
      else map_prod (Cons t) id (forget_health targetsByUniqueID ts))"

definition recordSuccessfulRegisterTargetsOperation ::
  "'w cachedTargetsManager \<Rightarrow> string \<Rightarrow> TargetDescription list \<Rightarrow> ('w, unit) io" where
  "recordSuccessfulRegisterTargetsOperation m tgARN targets w =
     (case targetsCacheGet m tgARN w of
        None \<Rightarrow> (Inr (), w)
      | Some cached \<Rightarrow>
          (case forget_health (index_by UniqueIDForTargetDescription targets) cached of (cached', rest) \<Rightarrow>
             (Inr (), targetsCacheWrite m tgARN
               (cached' @ map (\<lambda>(_, target). \<lparr>tiTarget = target, tiTargetHealth = None\<rparr>) (entries (targetsOrder m) rest)) w)))"

definition recordSuccessfulDeregisterTargetsOperation ::
  "'w cachedTargetsManager \<Rightarrow> string \<Rightarrow> TargetDescription list \<Rightarrow> ('w, unit) io" where
  "recordSuccessfulDeregisterTargetsOperation m tgARN targets w =
     (case targetsCacheGet m tgARN w of
        None \<Rightarrow> (Inr (), w)
      | Some cached \<Rightarrow>
          (Inr (), targetsCacheWrite m tgARN (fst (forget_health (index_by UniqueIDForTargetDescription targets) cached)) w))"

definition in_chunks :: "('a list \<Rightarrow> ('w, unit) io) \<Rightarrow> 'a list list result option \<Rightarrow> ('w, unit) io" where
  "in_chunks f chunks =
     (case chunks of
        None \<Rightarrow> io_fail (Errorf ''chunkTargetDescriptions does not return'' [])
      | Some (Inl e) \<Rightarrow> io_fail e
      | Some (Inr targetsChunks) \<Rightarrow> io_forM f targetsChunks)"

definition RegisterTargets :: "'w cachedTargetsManager \<Rightarrow> string \<Rightarrow> TargetDescription list \<Rightarrow> ('w, unit) io" where
  "RegisterTargets m tgARN targets =
     in_chunks (\<lambda>targetsChunk. io_bind (RegisterTargetsWithContext m tgARN targetsChunk) (\<lambda>_.
         recordSuccessfulRegisterTargetsOperation m tgARN targetsChunk))
       (chunkTargetDescriptions targets (registerTargetsChunkSize m))"

definition DeregisterTargets :: "'w cachedTargetsManager \<Rightarrow> string \<Rightarrow> TargetDescription list \<Rightarrow> ('w, unit) io" where
  "DeregisterTargets m tgARN targets =
     in_chunks (\<lambda>targetsChunk. io_bind (DeregisterTargetsWithContext m tgARN targetsChunk) (\<lambda>_.
         recordSuccessfulDeregisterTargetsOperation m tgARN targetsChunk))
       (chunkTargetDescriptions targets (deregisterTargetsChunkSize m))"

definition listTargetsFromAWS ::
  "'w cachedTargetsManager \<Rightarrow> string \<Rightarrow> TargetDescription list \<Rightarrow> ('w, TargetInfo list) io" where
  "listTargetsFromAWS m tgARN targets =
     io_bind (DescribeTargetHealthWithContext m tgARN targets) (\<lambda>descriptions.
       io_return (map (\<lambda>(target, health). \<lparr>tiTarget = target, tiTargetHealth = health\<rparr>) descriptions))"

definition refreshAllTargets :: "'w cachedTargetsManager \<Rightarrow> string \<Rightarrow> ('w, TargetInfo list) io" where
  "refreshAllTargets m tgARN = listTargetsFromAWS m tgARN []"

definition refreshUnhealthyTargets ::
  "'w cachedTargetsManager \<Rightarrow> string \<Rightarrow> TargetInfo list \<Rightarrow> ('w, TargetInfo list) io" where
  "refreshUnhealthyTargets m tgARN cachedTargets =
     (let refreshedTargets = filter IsHealthy cachedTargets;
          unhealthyTargets = map tiTarget (filter (\<lambda>t. \<not> IsHealthy t) cachedTargets)
      in if unhealthyTargets = [] then io_return refreshedTargets
         else io_bind (listTargetsFromAWS m tgARN unhealthyTargets) (\<lambda>refreshedUnhealthyTargets.
           io_return (refreshedTargets @ filter (\<lambda>t. \<not> IsNotRegistered t) refreshedUnhealthyTargets)))"

definition ListTargets :: "'w cachedTargetsManager \<Rightarrow> string \<Rightarrow> ('w, TargetInfo list) io" where
  "ListTargets m tgARN w =
     (case targetsCacheGet m tgARN w of
        Some cached \<Rightarrow>
          (case refreshUnhealthyTargets m tgARN cached w of
             (Inl err, w') \<Rightarrow> (Inl err, w')
           | (Inr refreshedTargets, w') \<Rightarrow> (Inr refreshedTargets, targetsCacheWrite m tgARN refreshedTargets w'))
      | None \<Rightarrow>
          (case refreshAllTargets m tgARN w of
             (Inl err, w') \<Rightarrow> (Inl err, w')
           | (Inr refreshedTargets, w') \<Rightarrow> (Inr refreshedTargets, targetsCacheSet m tgARN refreshedTargets w')))"

section \<open>What clients rely on\<close>

abbreviation uid :: "TargetInfo \<Rightarrow> string" where
  "uid t \<equiv> UniqueIDForTargetDescription (tiTarget t)"

text \<open>
  The contract of a targets manager, over the identifiers of the targets that are registered in
  each group: a list misses no registered target, and of the targets it has, those that are not
  draining are registered; registering and deregistering do what they say.
\<close>

locale target_registry =
  fixes ListOp :: "string \<Rightarrow> ('w, TargetInfo list) io"
    and RegisterOp DeregisterOp :: "string \<Rightarrow> TargetDescription list \<Rightarrow> ('w, unit) io"
    and registered :: "'w \<Rightarrow> string \<Rightarrow> string set"
    and inv :: "string \<Rightarrow> 'w \<Rightarrow> bool"
  assumes list_law: "inv arn w \<Longrightarrow> ListOp arn w = (Inr ts, w') \<Longrightarrow>
      inv arn w' \<and> registered w' arn = registered w arn \<and> registered w arn \<subseteq> uid ` set ts \<and>
      (\<forall>t\<in>set ts. IsDraining t \<or> uid t \<in> registered w arn)"
    and register_law: "inv arn w \<Longrightarrow> RegisterOp arn ds w = (Inr (), w') \<Longrightarrow>
      inv arn w' \<and> registered w' arn = registered w arn \<union> UniqueIDForTargetDescription ` set ds"
    and deregister_law: "inv arn w \<Longrightarrow> DeregisterOp arn ds w = (Inr (), w') \<Longrightarrow>
      inv arn w' \<and> registered w' arn = registered w arn - UniqueIDForTargetDescription ` set ds"
begin

text \<open>Deregistering the stale targets of a list and registering the missing ones.\<close>

lemma replace_targets:
  assumes "inv arn w" "ListOp arn w = (Inr ts, w1)" "inv arn w2" "registered w2 arn = registered w1 arn"
    and "(if stale \<noteq> [] then DeregisterOp arn stale else io_return ()) w2 = (Inr (), w3)"
    and "(if missing \<noteq> [] then RegisterOp arn missing else io_return ()) w3' = (Inr (), w4)"
    and "UniqueIDForTargetDescription ` set stale = uid ` {t\<in>set ts. \<not> IsDraining t} - E"
    and "UniqueIDForTargetDescription ` set missing = E - uid ` {t\<in>set ts. \<not> IsDraining t}"
    and "inv arn w3 \<Longrightarrow> inv arn w3' \<and> registered w3' arn = registered w3 arn"
  shows "inv arn w4 \<and> E \<subseteq> registered w4 arn \<and> registered w4 arn \<subseteq> E \<union> uid ` {t\<in>set ts. IsDraining t}"
proof -
  note l = list_law [OF assms(1,2)]
  have d: "inv arn w3 \<and> registered w3 arn = registered w2 arn - UniqueIDForTargetDescription ` set stale"
    using assms(3,5) deregister_law [OF assms(3), of stale w3] by (cases "stale = []") (auto simp: io_return_def)
  have r: "inv arn w4 \<and> registered w4 arn = registered w3 arn \<union> UniqueIDForTargetDescription ` set missing"
    using assms(6) d assms(9) register_law [of arn w3' missing w4] by (cases "missing = []") (auto simp: io_return_def)
  let ?N = "uid ` {t\<in>set ts. \<not> IsDraining t}" and ?D = "uid ` {t\<in>set ts. IsDraining t}"
  have eq: "registered w4 arn = registered w arn - (?N - E) \<union> (E - ?N)"
    using r d l assms(4,7,8) by simp
  have "E \<subseteq> R - (N - E) \<union> (E - N) \<and> R - (N - E) \<union> (E - N) \<subseteq> E \<union> D" if "N \<subseteq> R" "R \<subseteq> N \<union> D" for R N D :: "string set"
    using that by auto
  note sets = this [of ?N "registered w arn" ?D]
  have "?N \<subseteq> registered w arn" using l by auto
  moreover have "uid ` set ts = ?N \<union> ?D" by auto
  then have "registered w arn \<subseteq> ?N \<union> ?D" using l by simp
  ultimately show ?thesis using sets eq r by simp
qed

end

section \<open>The cached targets manager keeps the contract\<close>

text \<open>
  What the client and the cache document. A call that succeeds changes the registered targets as
  it says; describing a group without naming targets returns every registered one, describing
  named targets returns those; a described target is registered, draining, or named and not
  registered. The cache holds what was stored last, or nothing once it expired.
\<close>

definition targets_laws :: "'w cachedTargetsManager \<Rightarrow> ('w \<Rightarrow> string \<Rightarrow> string set) \<Rightarrow> bool" where
  "targets_laws m registered \<longleftrightarrow>
     (\<forall>arn ds w w'. RegisterTargetsWithContext m arn ds w = (Inr (), w') \<longrightarrow>
        registered w' arn = registered w arn \<union> UniqueIDForTargetDescription ` set ds \<and>
        targetsCacheGet m arn w' \<in> {None, targetsCacheGet m arn w}) \<and>
     (\<forall>arn ds w w'. DeregisterTargetsWithContext m arn ds w = (Inr (), w') \<longrightarrow>
        registered w' arn = registered w arn - UniqueIDForTargetDescription ` set ds \<and>
        targetsCacheGet m arn w' \<in> {None, targetsCacheGet m arn w}) \<and>
     (\<forall>arn ds w ts w'. listTargetsFromAWS m arn ds w = (Inr ts, w') \<longrightarrow>
        registered w' arn = registered w arn \<and> targetsCacheGet m arn w' \<in> {None, targetsCacheGet m arn w} \<and>
        distinct (map uid ts) \<and> (ds \<noteq> [] \<longrightarrow> uid ` set ts \<subseteq> UniqueIDForTargetDescription ` set ds) \<and>
        (\<forall>t\<in>set ts. uid t \<in> registered w arn \<or> IsDraining t \<or> ds \<noteq> [] \<and> IsNotRegistered t) \<and>
        (\<forall>u\<in>registered w arn. ds = [] \<or> u \<in> UniqueIDForTargetDescription ` set ds \<longrightarrow> (\<exists>t\<in>set ts. uid t = u \<and> \<not> IsNotRegistered t))) \<and>
     (\<forall>arn ts w. registered (targetsCacheSet m arn ts w) = registered w \<and>
        targetsCacheGet m arn (targetsCacheSet m arn ts w) \<in> {None, Some ts}) \<and>
     (\<forall>arn ts w. registered (targetsCacheWrite m arn ts w) = registered w \<and>
        targetsCacheGet m arn (targetsCacheWrite m arn ts w) \<in> {None, Some ts}) \<and>
     0 < registerTargetsChunkSize m \<and> 0 < deregisterTargetsChunkSize m \<and> range_order (targetsOrder m)"

text \<open>The cached targets of a group agree with the registered ones.\<close>

definition targets_agree :: "string set \<Rightarrow> TargetInfo list \<Rightarrow> bool" where
  "targets_agree R ts \<longleftrightarrow> R \<subseteq> uid ` set ts \<and> (\<forall>t\<in>set ts. IsHealthy t \<longrightarrow> uid t \<in> R) \<and> distinct (map uid ts)"

definition targets_inv :: "'w cachedTargetsManager \<Rightarrow> ('w \<Rightarrow> string \<Rightarrow> string set) \<Rightarrow> string \<Rightarrow> 'w \<Rightarrow> bool" where
  "targets_inv m registered arn w \<longleftrightarrow> targets_laws m registered \<and>
     (case targetsCacheGet m arn w of None \<Rightarrow> True | Some ts \<Rightarrow> targets_agree (registered w arn) ts)"

lemma healthy_not_draining: "IsHealthy t \<Longrightarrow> \<not> IsDraining t \<and> \<not> IsNotRegistered t"
  by (auto simp: IsHealthy_def IsDraining_def IsNotRegistered_def split: option.splits)

lemma forget_health_distinct:
  assumes "distinct (map uid ts)"
  shows "fst (forget_health m ts) = map (\<lambda>t. if map_of m (uid t) \<noteq> None then t\<lparr>tiTargetHealth := None\<rparr> else t) ts"
    and "map_of (snd (forget_health m ts)) u = (if u \<in> uid ` set ts then None else map_of m u)"
  using assms
proof (induction ts arbitrary: m)
  case (Cons t ts)
  case 1
  have "fst (forget_health (AList.delete (uid t) m) ts) = fst (forget_health m ts)"
    using 1 by (auto simp: Cons.IH(1) delete_conv' image_iff)
  then show ?case using Cons.IH(1) 1 by (simp add: Let_def)
next
  case (Cons t ts)
  case 2
  then show ?case using Cons.IH(2) by (auto simp: Let_def delete_conv')
qed simp_all

lemma forget_health_uid: "distinct (map uid ts) \<Longrightarrow> map uid (fst (forget_health m ts)) = map uid ts"
  by (simp add: forget_health_distinct)

lemma forget_health_wf: "gomap_wf m \<Longrightarrow> gomap_wf (snd (forget_health m ts))"
  by (induction m ts rule: forget_health.induct) (auto simp: Let_def intro: wf_intros)

lemma targets_agree_register:
  fixes ds :: "TargetDescription list"
  assumes "targets_agree R ts" "range_order order"
  defines "new \<equiv> index_by UniqueIDForTargetDescription ds"
  shows "targets_agree (R \<union> UniqueIDForTargetDescription ` set ds)
    (fst (forget_health new ts) @ map (\<lambda>(_, d). \<lparr>tiTarget = d, tiTargetHealth = None\<rparr>) (entries order (snd (forget_health new ts))))"
proof -
  have d: "distinct (map uid ts)" using assms(1) by (simp add: targets_agree_def)
  let ?rest = "snd (forget_health new ts)"
  have rest: "map_of ?rest u = Some x \<longleftrightarrow> u \<notin> uid ` set ts \<and> map_of new u = Some x" for u x
    by (auto simp: forget_health_distinct(2) [OF d])
  have key: "uid \<lparr>tiTarget = x, tiTargetHealth = None\<rparr> = u" if "(u, x) \<in> set (entries order ?rest)" for u x
    using that rest index_by_Some [of UniqueIDForTargetDescription ds u x] unfolding new_def entries_iff [OF assms(2)] by simp
  have keys: "map uid (map (\<lambda>(_, x). \<lparr>tiTarget = x, tiTargetHealth = None\<rparr>) (entries order ?rest)) = map fst (entries order ?rest)"
    using key by (auto simp: case_prod_beta)
  have wf: "gomap_wf ?rest"
    unfolding new_def by (rule forget_health_wf) (rule index_by_wf)
  have set_keys: "set (map fst (entries order ?rest)) = UniqueIDForTargetDescription ` set ds - uid ` set ts"
  proof -
    have "u \<in> set (map fst (entries order ?rest)) \<longleftrightarrow> u \<notin> uid ` set ts \<and> map_of new u \<noteq> None" for u
      using rest by (force simp: entries_iff [OF assms(2)] image_iff Bex_def)
    then show ?thesis unfolding new_def index_by_None by auto
  qed
  show ?thesis
    unfolding targets_agree_def
  proof (intro conjI ballI impI)
    show "distinct (map uid (fst (forget_health new ts) @ map (\<lambda>(_, d). \<lparr>tiTarget = d, tiTargetHealth = None\<rparr>) (entries order ?rest)))"
      unfolding map_append keys forget_health_uid [OF d] distinct_append
      using d entries_distinct [OF assms(2) wf] set_keys by auto
    have "set (map uid (fst (forget_health new ts) @ map (\<lambda>(_, d). \<lparr>tiTarget = d, tiTargetHealth = None\<rparr>) (entries order ?rest))) =
        uid ` set ts \<union> (UniqueIDForTargetDescription ` set ds - uid ` set ts)"
      unfolding map_append keys forget_health_uid [OF d] set_append set_keys by (simp only: set_map)
    then show "R \<union> UniqueIDForTargetDescription ` set ds \<subseteq> uid ` set (fst (forget_health new ts) @ map (\<lambda>(_, d). \<lparr>tiTarget = d, tiTargetHealth = None\<rparr>) (entries order ?rest))"
      unfolding set_map using assms(1) by (auto simp: targets_agree_def)
  next
    fix t assume "t \<in> set (fst (forget_health new ts) @ map (\<lambda>(_, d). \<lparr>tiTarget = d, tiTargetHealth = None\<rparr>) (entries order ?rest))" "IsHealthy t"
    then have "t \<in> set ts" by (auto simp: forget_health_distinct(1) [OF d] IsHealthy_def split: if_splits)
    then show "uid t \<in> R \<union> UniqueIDForTargetDescription ` set ds" using assms(1) \<open>IsHealthy t\<close> by (simp add: targets_agree_def)
  qed
qed

lemma targets_agree_deregister:
  assumes "targets_agree R ts"
  shows "targets_agree (R - UniqueIDForTargetDescription ` set ds) (fst (forget_health (index_by UniqueIDForTargetDescription ds) ts))"
proof -
  have d: "distinct (map uid ts)" using assms by (simp add: targets_agree_def)
  have "map_of (index_by UniqueIDForTargetDescription ds) u \<noteq> None \<longleftrightarrow> u \<in> UniqueIDForTargetDescription ` set ds" for u
    using index_by_None by metis
  then show ?thesis using assms
    unfolding targets_agree_def forget_health_uid [OF d] set_map [symmetric]
    by (auto simp: forget_health_distinct(1) [OF d] IsHealthy_def split: if_splits)
qed

lemma targets_lawsD:
  assumes "targets_laws m registered"
  shows "RegisterTargetsWithContext m arn ds w = (Inr (), w') \<Longrightarrow>
      registered w' arn = registered w arn \<union> UniqueIDForTargetDescription ` set ds \<and> targetsCacheGet m arn w' \<in> {None, targetsCacheGet m arn w}"
    and "DeregisterTargetsWithContext m arn ds w = (Inr (), w') \<Longrightarrow>
      registered w' arn = registered w arn - UniqueIDForTargetDescription ` set ds \<and> targetsCacheGet m arn w' \<in> {None, targetsCacheGet m arn w}"
    and "listTargetsFromAWS m arn ds w = (Inr ts, w') \<Longrightarrow>
      registered w' arn = registered w arn \<and> targetsCacheGet m arn w' \<in> {None, targetsCacheGet m arn w} \<and>
      distinct (map uid ts) \<and> (ds \<noteq> [] \<longrightarrow> uid ` set ts \<subseteq> UniqueIDForTargetDescription ` set ds) \<and>
      (\<forall>t\<in>set ts. uid t \<in> registered w arn \<or> IsDraining t \<or> ds \<noteq> [] \<and> IsNotRegistered t) \<and>
      (\<forall>u\<in>registered w arn. ds = [] \<or> u \<in> UniqueIDForTargetDescription ` set ds \<longrightarrow> (\<exists>t\<in>set ts. uid t = u \<and> \<not> IsNotRegistered t))"
    and "registered (targetsCacheSet m arn ts w) = registered w \<and> targetsCacheGet m arn (targetsCacheSet m arn ts w) \<in> {None, Some ts}"
    and "registered (targetsCacheWrite m arn ts w) = registered w \<and> targetsCacheGet m arn (targetsCacheWrite m arn ts w) \<in> {None, Some ts}"
    and "0 < registerTargetsChunkSize m" "0 < deregisterTargetsChunkSize m" "range_order (targetsOrder m)"
  using assms unfolding targets_laws_def by (simp_all only:) blast+

lemma targets_inv_write:
  assumes "targets_laws m registered" "targets_agree (registered w arn) ts"
  shows "targets_inv m registered arn (targetsCacheWrite m arn ts w)" "targets_inv m registered arn (targetsCacheSet m arn ts w)"
  using assms targets_lawsD(4,5) [OF assms(1), of arn ts w] by (auto simp: targets_inv_def split: option.splits)

lemma register_chunk:
  assumes "targets_inv m registered arn w"
    and "io_bind (RegisterTargetsWithContext m arn ds) (\<lambda>_. recordSuccessfulRegisterTargetsOperation m arn ds) w = (Inr (), w')"
  shows "targets_inv m registered arn w' \<and> registered w' arn = registered w arn \<union> UniqueIDForTargetDescription ` set ds"
proof -
  have laws: "targets_laws m registered" using assms(1) by (simp add: targets_inv_def)
  from io_bind_unitD [OF assms(2)] obtain w1 where 1: "RegisterTargetsWithContext m arn ds w = (Inr (), w1)"
    "recordSuccessfulRegisterTargetsOperation m arn ds w1 = (Inr (), w')" by (elim exE conjE)
  note reg = targets_lawsD(1) [OF laws 1(1)]
  show ?thesis
  proof (cases "targetsCacheGet m arn w1")
    case None
    then show ?thesis using 1(2) reg laws by (simp add: recordSuccessfulRegisterTargetsOperation_def targets_inv_def)
  next
    case (Some cached)
    then have "targets_agree (registered w arn) cached" using reg assms(1) by (auto simp: targets_inv_def split: option.splits)
    note agree = targets_agree_register [OF this targets_lawsD(8) [OF laws], of ds]
    have "w' = targetsCacheWrite m arn (fst (forget_health (index_by UniqueIDForTargetDescription ds) cached) @
        map (\<lambda>(_, d). \<lparr>tiTarget = d, tiTargetHealth = None\<rparr>)
          (entries (targetsOrder m) (snd (forget_health (index_by UniqueIDForTargetDescription ds) cached)))) w1"
      using 1(2) Some by (auto simp: recordSuccessfulRegisterTargetsOperation_def split: prod.splits)
    then show ?thesis using targets_inv_write(1) [OF laws, of w1 arn] agree reg targets_lawsD(5) [OF laws] by auto
  qed
qed

lemma deregister_chunk:
  assumes "targets_inv m registered arn w"
    and "io_bind (DeregisterTargetsWithContext m arn ds) (\<lambda>_. recordSuccessfulDeregisterTargetsOperation m arn ds) w = (Inr (), w')"
  shows "targets_inv m registered arn w' \<and> registered w' arn = registered w arn - UniqueIDForTargetDescription ` set ds"
proof -
  have laws: "targets_laws m registered" using assms(1) by (simp add: targets_inv_def)
  from io_bind_unitD [OF assms(2)] obtain w1 where 1: "DeregisterTargetsWithContext m arn ds w = (Inr (), w1)"
    "recordSuccessfulDeregisterTargetsOperation m arn ds w1 = (Inr (), w')" by (elim exE conjE)
  note dereg = targets_lawsD(2) [OF laws 1(1)]
  show ?thesis
  proof (cases "targetsCacheGet m arn w1")
    case None
    then show ?thesis using 1(2) dereg laws by (simp add: recordSuccessfulDeregisterTargetsOperation_def targets_inv_def)
  next
    case (Some cached)
    then have "targets_agree (registered w arn) cached" using dereg assms(1) by (auto simp: targets_inv_def split: option.splits)
    note agree = targets_agree_deregister [OF this, of ds]
    have "w' = targetsCacheWrite m arn (fst (forget_health (index_by UniqueIDForTargetDescription ds) cached)) w1"
      using 1(2) Some by (simp add: recordSuccessfulDeregisterTargetsOperation_def)
    then show ?thesis using targets_inv_write(1) [OF laws, of w1 arn] agree dereg targets_lawsD(5) [OF laws] by auto
  qed
qed

text \<open>A loop over the chunks of a slice does to the registered targets what one call would do.\<close>

lemma chunks_effect:
  assumes "\<And>c w w'. P w \<Longrightarrow> f c w = (Inr (), w') \<Longrightarrow> P w' \<and> R w' = h (R w) (g ` set c)"
    and "\<And>A B S. h (h S A) B = h S (A \<union> B)" "\<And>S. h S {} = S"
    and "P w" "in_chunks f (chunkTargetDescriptions ds n) w = (Inr (), w')" "0 < n"
  shows "P w' \<and> R w' = h (R w) (g ` set ds)"
proof -
  obtain cs where cs: "chunkTargetDescriptions ds n = Some (Inr cs)" "concat cs = ds"
    using chunk_loop_correct [OF assms(6), of ds 0 "[]"] by (auto simp: chunkTargetDescriptions_def)
  have loop: "P w' \<and> R w' = h (R w) (g ` set (concat cs))" if "io_forM f cs w = (Inr (), w')" "P w" for cs w
    using that
  proof (induction cs arbitrary: w)
    case (Cons c cs)
    have "io_bind (f c) (\<lambda>_. io_forM f cs) w = (Inr (), w')" using Cons.prems(1) by simp
    from io_bind_unitD [OF this] obtain w1 where 1: "f c w = (Inr (), w1)" "io_forM f cs w1 = (Inr (), w')" by (elim exE conjE)
    note first = assms(1) [OF Cons.prems(2) 1(1)]
    then show ?case using Cons.IH [OF 1(2)] assms(2) by (simp add: image_Un)
  qed (simp add: io_return_def assms(3))
  have "io_forM f cs w = (Inr (), w')" using assms(5) cs(1) by (simp add: in_chunks_def)
  from loop [OF this assms(4)] show ?thesis unfolding cs(2) .
qed

lemma register_effect:
  assumes "targets_inv m registered arn w" "RegisterTargets m arn ds w = (Inr (), w')"
  shows "targets_inv m registered arn w' \<and> registered w' arn = registered w arn \<union> UniqueIDForTargetDescription ` set ds"
proof (rule chunks_effect [where P = "targets_inv m registered arn" and R = "\<lambda>w. registered w arn" and h = "(\<union>)"])
  show "0 < registerTargetsChunkSize m" using assms(1) targets_lawsD(6) by (auto simp: targets_inv_def)
  show "in_chunks (\<lambda>c. io_bind (RegisterTargetsWithContext m arn c) (\<lambda>_. recordSuccessfulRegisterTargetsOperation m arn c))
      (chunkTargetDescriptions ds (registerTargetsChunkSize m)) w = (Inr (), w')" using assms(2) by (simp add: RegisterTargets_def)
  show "targets_inv m registered arn w2 \<and> registered w2 arn = registered w1 arn \<union> UniqueIDForTargetDescription ` set c"
    if "targets_inv m registered arn w1"
      "io_bind (RegisterTargetsWithContext m arn c) (\<lambda>_. recordSuccessfulRegisterTargetsOperation m arn c) w1 = (Inr (), w2)" for c w1 w2
    using that by (rule register_chunk)
qed (use assms(1) in auto)

lemma deregister_effect:
  assumes "targets_inv m registered arn w" "DeregisterTargets m arn ds w = (Inr (), w')"
  shows "targets_inv m registered arn w' \<and> registered w' arn = registered w arn - UniqueIDForTargetDescription ` set ds"
proof (rule chunks_effect [where P = "targets_inv m registered arn" and R = "\<lambda>w. registered w arn" and h = "(-)"])
  show "0 < deregisterTargetsChunkSize m" using assms(1) targets_lawsD(7) by (auto simp: targets_inv_def)
  show "in_chunks (\<lambda>c. io_bind (DeregisterTargetsWithContext m arn c) (\<lambda>_. recordSuccessfulDeregisterTargetsOperation m arn c))
      (chunkTargetDescriptions ds (deregisterTargetsChunkSize m)) w = (Inr (), w')" using assms(2) by (simp add: DeregisterTargets_def)
  show "targets_inv m registered arn w2 \<and> registered w2 arn = registered w1 arn - UniqueIDForTargetDescription ` set c"
    if "targets_inv m registered arn w1"
      "io_bind (DeregisterTargetsWithContext m arn c) (\<lambda>_. recordSuccessfulDeregisterTargetsOperation m arn c) w1 = (Inr (), w2)" for c w1 w2
    using that by (rule deregister_chunk)
qed (use assms(1) in auto)

lemma refresh_agree:
  assumes "targets_laws m registered" "targets_agree (registered w arn) cached"
    and "refreshUnhealthyTargets m arn cached w = (Inr ts, w')"
  shows "registered w' arn = registered w arn \<and> targets_agree (registered w arn) ts \<and>
    (\<forall>t\<in>set ts. IsDraining t \<or> uid t \<in> registered w arn)"
proof -
  let ?H = "filter IsHealthy cached" and ?U = "filter (\<lambda>t. \<not> IsHealthy t) cached"
  have c: "registered w arn \<subseteq> uid ` set cached" "\<forall>t\<in>set ?H. uid t \<in> registered w arn" "distinct (map uid cached)"
    using assms(2) by (auto simp: targets_agree_def)
  have split: "uid ` set cached = uid ` set ?H \<union> uid ` set ?U" by auto
  show ?thesis
  proof (cases "?U = []")
    case True
    then have run: "ts = ?H" "w' = w" using assms(3) by (simp_all add: refreshUnhealthyTargets_def io_return_def)
    then have "registered w arn \<subseteq> uid ` set ts" using c(1) split True by simp
    then show ?thesis using run c by (auto simp: targets_agree_def distinct_map_filter)
  next
    case False
    then have "io_bind (listTargetsFromAWS m arn (map tiTarget ?U)) (\<lambda>xs. io_return (?H @ filter (\<lambda>t. \<not> IsNotRegistered t) xs)) w = (Inr ts, w')"
      using assms(3) by (simp add: refreshUnhealthyTargets_def Let_def)
    from io_bind_InrD [OF this] obtain xs where xs: "listTargetsFromAWS m arn (map tiTarget ?U) w = (Inr xs, w')"
      "ts = ?H @ filter (\<lambda>t. \<not> IsNotRegistered t) xs" by (auto simp: io_return_def)
    note law = targets_lawsD(3) [OF assms(1) xs(1)]
    have ds: "UniqueIDForTargetDescription ` set (map tiTarget ?U) = uid ` set ?U" "map tiTarget ?U \<noteq> []" using False by auto
    have sub: "uid ` set xs \<subseteq> uid ` set ?U" using law ds by simp
    have "uid ` set ?H \<inter> uid ` set ?U = {}" using c(3) by (auto simp: distinct_map inj_on_def)
    moreover have "distinct (map uid ?H)" "distinct (map uid (filter (\<lambda>t. \<not> IsNotRegistered t) xs))"
      using c(3) law by (simp_all add: distinct_map_filter)
    moreover have "uid ` set (filter (\<lambda>t. \<not> IsNotRegistered t) xs) \<subseteq> uid ` set ?U" using sub by auto
    ultimately have dist: "distinct (map uid ts)" unfolding xs(2) map_append distinct_append set_map by blast
    have "registered w arn \<subseteq> uid ` set ?H \<union> uid ` {t\<in>set xs. \<not> IsNotRegistered t}"
    proof
      fix u assume u: "u \<in> registered w arn"
      then consider "u \<in> uid ` set ?H" | "u \<in> uid ` set ?U" using c(1) split by blast
      then show "u \<in> uid ` set ?H \<union> uid ` {t\<in>set xs. \<not> IsNotRegistered t}"
      proof cases
        case 2
        then obtain t where "t \<in> set xs" "uid t = u" "\<not> IsNotRegistered t" using law u unfolding ds(1) by blast
        then show ?thesis by blast
      qed simp
    qed
    then have cover: "registered w arn \<subseteq> uid ` set ts" by (simp add: xs(2) image_Un)
    have exact: "\<forall>t\<in>set ts. IsDraining t \<or> uid t \<in> registered w arn" using c(2) law by (auto simp: xs(2))
    then show ?thesis using law dist cover exact healthy_not_draining by (auto simp: targets_agree_def)
  qed
qed

lemma list_effect:
  assumes "targets_inv m registered arn w" "ListTargets m arn w = (Inr ts, w')"
  shows "targets_inv m registered arn w' \<and> registered w' arn = registered w arn \<and> registered w arn \<subseteq> uid ` set ts \<and>
    (\<forall>t\<in>set ts. IsDraining t \<or> uid t \<in> registered w arn)"
proof -
  have laws: "targets_laws m registered" using assms(1) by (simp add: targets_inv_def)
  show ?thesis
  proof (cases "targetsCacheGet m arn w")
    case None
    then obtain w1 where 1: "listTargetsFromAWS m arn [] w = (Inr ts, w1)" "w' = targetsCacheSet m arn ts w1"
      using assms(2) by (auto simp: ListTargets_def refreshAllTargets_def split: prod.splits sum.splits)
    note law = targets_lawsD(3) [OF laws 1(1)]
    have exact: "\<forall>t\<in>set ts. IsDraining t \<or> uid t \<in> registered w arn" using law by blast
    moreover have cover: "registered w arn \<subseteq> uid ` set ts" using law by auto
    ultimately have "targets_agree (registered w1 arn) ts" using law healthy_not_draining by (auto simp: targets_agree_def)
    then show ?thesis using targets_inv_write(2) [OF laws] targets_lawsD(4) [OF laws] law exact cover by (simp add: 1(2))
  next
    case (Some cached)
    then obtain w1 where 1: "refreshUnhealthyTargets m arn cached w = (Inr ts, w1)" "w' = targetsCacheWrite m arn ts w1"
      using assms(2) by (auto simp: ListTargets_def split: prod.splits sum.splits)
    have "targets_agree (registered w arn) cached" using assms(1) Some by (simp add: targets_inv_def)
    note r = refresh_agree [OF laws this 1(1)]
    then show ?thesis using targets_inv_write(1) [OF laws, of w1 arn ts] targets_lawsD(5) [OF laws]
      by (auto simp: 1(2) targets_agree_def)
  qed
qed

interpretation ct: target_registry "ListTargets m" "RegisterTargets m" "DeregisterTargets m" registered "targets_inv m registered"
  for m registered
  by unfold_locales (rule list_effect register_effect deregister_effect; assumption)+

text \<open>C4: The cached targets manager refines the plain registry of targets. While its cache agrees with
  the registered targets of a group, which every operation that succeeds preserves, a list
  misses no registered target and each target it returns is registered or draining;
  registering and deregistering any number of targets in chunks adds and removes exactly them.\<close>

theorem targets_manager_refines_registry:
  assumes "targets_inv m registered arn w"
  shows "(\<forall>ts w'. ListTargets m arn w = (Inr ts, w') \<longrightarrow> targets_inv m registered arn w' \<and> registered w' arn = registered w arn \<and>
       registered w arn \<subseteq> uid ` set ts \<and> (\<forall>t\<in>set ts. IsDraining t \<or> uid t \<in> registered w arn)) \<and>
     (\<forall>ds w'. RegisterTargets m arn ds w = (Inr (), w') \<longrightarrow>
       targets_inv m registered arn w' \<and> registered w' arn = registered w arn \<union> UniqueIDForTargetDescription ` set ds) \<and>
     (\<forall>ds w'. DeregisterTargets m arn ds w = (Inr (), w') \<longrightarrow>
       targets_inv m registered arn w' \<and> registered w' arn = registered w arn - UniqueIDForTargetDescription ` set ds)"
proof (intro conjI allI impI)
  fix ts w' assume "ListTargets m arn w = (Inr ts, w')"
  note l = ct.list_law [OF assms this]
  then show "targets_inv m registered arn w'" "registered w' arn = registered w arn" "registered w arn \<subseteq> uid ` set ts"
    "\<forall>t\<in>set ts. IsDraining t \<or> uid t \<in> registered w arn" by blast+
next
  fix ds w' assume "RegisterTargets m arn ds w = (Inr (), w')"
  note r = ct.register_law [OF assms this]
  then show "targets_inv m registered arn w'" "registered w' arn = registered w arn \<union> UniqueIDForTargetDescription ` set ds" by blast+
next
  fix ds w' assume "DeregisterTargets m arn ds w = (Inr (), w')"
  note r = ct.deregister_law [OF assms this]
  then show "targets_inv m registered arn w'" "registered w' arn = registered w arn - UniqueIDForTargetDescription ` set ds" by blast+
qed

section \<open>A registry in memory\<close>

record targets_world =
  twTargets :: "string \<Rightarrow> TargetDescription list"
  twCache :: "string \<Rightarrow> TargetInfo list option"

definition tw_registered :: "targets_world \<Rightarrow> string \<Rightarrow> string set" where
  "tw_registered w arn = UniqueIDForTargetDescription ` set (twTargets w arn)"

definition tw_health :: "string set \<Rightarrow> TargetDescription \<Rightarrow> TargetHealth" where
  "tw_health R d = (if UniqueIDForTargetDescription d \<in> R then \<lparr>thState = Some ''healthy'', thReason = None, thDescription = None\<rparr>
     else \<lparr>thState = Some ''unused'', thReason = Some ''Target.NotRegistered'', thDescription = None\<rparr>)"

definition memory_targets :: "targets_world cachedTargetsManager" where
  "memory_targets =
     \<lparr>RegisterTargetsWithContext = \<lambda>arn ds w. (Inr (), w\<lparr>twTargets := (twTargets w)(arn := twTargets w arn @ ds)\<rparr>),
      DeregisterTargetsWithContext = \<lambda>arn ds w. (Inr (), w\<lparr>twTargets := (twTargets w)(arn :=
        filter (\<lambda>t. UniqueIDForTargetDescription t \<notin> UniqueIDForTargetDescription ` set ds) (twTargets w arn))\<rparr>),
      DescribeTargetHealthWithContext = \<lambda>arn ds w.
        (Inr (map (\<lambda>(_, d). (d, Some (tw_health (tw_registered w arn) d)))
          (index_by UniqueIDForTargetDescription (if ds = [] then twTargets w arn else ds))), w),
      targetsCacheGet = \<lambda>arn w. twCache w arn, targetsCacheSet = \<lambda>arn ts w. w\<lparr>twCache := (twCache w)(arn := Some ts)\<rparr>,
      targetsCacheWrite = \<lambda>arn ts w. w\<lparr>twCache := (twCache w)(arn := Some ts)\<rparr>,
      registerTargetsChunkSize = defaultRegisterTargetsChunkSize, deregisterTargetsChunkSize = defaultDeregisterTargetsChunkSize,
      targetsOrder = \<lambda>ks. ks\<rparr>"

lemma memory_list:
  assumes "listTargetsFromAWS memory_targets arn ds w = (Inr ts, w')"
  defines "D \<equiv> if ds = [] then twTargets w arn else ds"
  shows "w' = w \<and> distinct (map uid ts) \<and> uid ` set ts = UniqueIDForTargetDescription ` set D \<and>
    (\<forall>t\<in>set ts. if uid t \<in> tw_registered w arn then \<not> IsNotRegistered t else IsNotRegistered t)"
proof -
  let ?I = "index_by UniqueIDForTargetDescription D"
  have ts: "ts = map (\<lambda>(_, d). \<lparr>tiTarget = d, tiTargetHealth = Some (tw_health (tw_registered w arn) d)\<rparr>) ?I" "w' = w"
    using assms by (auto simp: listTargetsFromAWS_def memory_targets_def io_bind_def io_return_def case_prod_beta)
  have key: "UniqueIDForTargetDescription d = k" if "(k, d) \<in> set ?I" for k d
    using that index_by_Some gomap_wf_in_set [OF index_by_wf] by metis
  have uids: "map uid ts = map fst ?I" using key by (auto simp: ts(1) case_prod_beta)
  then have "distinct (map uid ts)" using index_by_wf [of UniqueIDForTargetDescription D] by (simp add: gomap_wf_def)
  moreover have "uid ` set ts = UniqueIDForTargetDescription ` set D"
    using arg_cong [OF uids, of set] index_by_keys [of UniqueIDForTargetDescription D] by (simp add: gomap_keys_def)
  moreover have "\<forall>t\<in>set ts. if uid t \<in> tw_registered w arn then \<not> IsNotRegistered t else IsNotRegistered t"
    by (auto simp: ts(1) tw_health_def IsNotRegistered_def)
  ultimately show ?thesis using ts(2) by simp
qed

lemma memory_targets_laws: "targets_laws memory_targets tw_registered"
proof -
  have list: "tw_registered w' arn = tw_registered w arn \<and> targetsCacheGet memory_targets arn w' \<in> {None, targetsCacheGet memory_targets arn w} \<and>
        distinct (map uid ts) \<and> (ds \<noteq> [] \<longrightarrow> uid ` set ts \<subseteq> UniqueIDForTargetDescription ` set ds) \<and>
        (\<forall>t\<in>set ts. uid t \<in> tw_registered w arn \<or> IsDraining t \<or> ds \<noteq> [] \<and> IsNotRegistered t) \<and>
        (\<forall>u\<in>tw_registered w arn. ds = [] \<or> u \<in> UniqueIDForTargetDescription ` set ds \<longrightarrow> (\<exists>t\<in>set ts. uid t = u \<and> \<not> IsNotRegistered t))"
    if run: "listTargetsFromAWS memory_targets arn ds w = (Inr ts, w')" for arn ds w ts w'
  proof -
    note m = memory_list [OF run]
    have "\<exists>t\<in>set ts. uid t = u \<and> \<not> IsNotRegistered t"
      if "u \<in> tw_registered w arn" "ds = [] \<or> u \<in> UniqueIDForTargetDescription ` set ds" for u
    proof -
      have "u \<in> uid ` set ts" using m that by (auto simp: tw_registered_def)
      then obtain t where "t \<in> set ts" "uid t = u" by auto
      then show ?thesis using m that(1) by (intro bexI [of _ t]) auto
    qed
    moreover have "uid t \<in> tw_registered w arn \<or> ds \<noteq> [] \<and> IsNotRegistered t" if "t \<in> set ts" for t
      using m that by (cases "ds = []") (auto simp: tw_registered_def split: if_splits)
    ultimately show ?thesis using m by auto
  qed
  have writes: "tw_registered (w\<lparr>twCache := c\<rparr>) = tw_registered w" for w c by (simp add: tw_registered_def fun_eq_iff)
  have "\<forall>arn ds w w'. RegisterTargetsWithContext memory_targets arn ds w = (Inr (), w') \<longrightarrow>
      tw_registered w' arn = tw_registered w arn \<union> UniqueIDForTargetDescription ` set ds \<and>
      targetsCacheGet memory_targets arn w' \<in> {None, targetsCacheGet memory_targets arn w}"
    "\<forall>arn ds w w'. DeregisterTargetsWithContext memory_targets arn ds w = (Inr (), w') \<longrightarrow>
      tw_registered w' arn = tw_registered w arn - UniqueIDForTargetDescription ` set ds \<and>
      targetsCacheGet memory_targets arn w' \<in> {None, targetsCacheGet memory_targets arn w}"
    by (auto simp: memory_targets_def tw_registered_def image_iff)
  moreover have "\<forall>arn ts w. tw_registered (targetsCacheSet memory_targets arn ts w) = tw_registered w \<and>
      targetsCacheGet memory_targets arn (targetsCacheSet memory_targets arn ts w) \<in> {None, Some ts}"
    "\<forall>arn ts w. tw_registered (targetsCacheWrite memory_targets arn ts w) = tw_registered w \<and>
      targetsCacheGet memory_targets arn (targetsCacheWrite memory_targets arn ts w) \<in> {None, Some ts}"
    "0 < registerTargetsChunkSize memory_targets" "0 < deregisterTargetsChunkSize memory_targets" "range_order (targetsOrder memory_targets)"
    by (simp_all add: memory_targets_def writes range_order_id)
  ultimately show ?thesis unfolding targets_laws_def using list by (intro conjI) (assumption | (intro allI impI, rule list, assumption))+
qed

definition example_target :: "string \<Rightarrow> TargetDescription" where
  "example_target ip = \<lparr>tdId = Some ip, tdPort = Some 80, tdAvailabilityZone = None\<rparr>"

definition example_targets_world :: targets_world where
  "example_targets_world = \<lparr>twTargets = (\<lambda>_. [example_target ''10.0.0.1'']), twCache = (\<lambda>_. None)\<rparr>"

lemma example_targets_inv: "targets_inv memory_targets tw_registered arn example_targets_world"
  using memory_targets_laws by (simp add: targets_inv_def example_targets_world_def memory_targets_def)

theorem targets_manager_refines_registry_witness:
  "\<exists>w'. RegisterTargets memory_targets ''tg'' [example_target ''10.0.0.2''] example_targets_world = (Inr (), w') \<and>
     tw_registered w' ''tg'' = {''10.0.0.1:80'', ''10.0.0.2:80''}"
proof -
  have "isl (fst (RegisterTargets memory_targets ''tg'' [example_target ''10.0.0.2''] example_targets_world)) = False" by code_simp
  moreover obtain q w' where q: "RegisterTargets memory_targets ''tg'' [example_target ''10.0.0.2''] example_targets_world = (q, w')"
    by (rule prod.exhaust)
  ultimately have run: "RegisterTargets memory_targets ''tg'' [example_target ''10.0.0.2''] example_targets_world = (Inr (), w')"
    by (cases q) simp_all
  have u: "UniqueIDForTargetDescription (example_target ''10.0.0.1'') = ''10.0.0.1:80''"
    "UniqueIDForTargetDescription (example_target ''10.0.0.2'') = ''10.0.0.2:80''" by code_simp+
  note refines = targets_manager_refines_registry [OF example_targets_inv, THEN conjunct2, THEN conjunct1, rule_format, OF run]
  then have "tw_registered w' ''tg'' = tw_registered example_targets_world ''tg'' \<union> UniqueIDForTargetDescription ` set [example_target ''10.0.0.2'']"
    by (elim conjE)
  then show ?thesis using run by (auto simp: tw_registered_def example_targets_world_def u)
qed

end
