(* ===== verification/Tgb_Resource.thy ===== *)
theory Tgb_Resource
  imports Tgb_Networking Tgb_Targets
begin

text \<open>
  Reconciling a target group binding, \<^verbatim>\<open>pkg/targetgroupbinding/resource_manager.go\<close> and
  \<^verbatim>\<open>utils.go\<close>: resolve the endpoints, compare them with the targets, open the network, register and
  deregister targets, and report the health of targets as pod conditions. The targets manager,
  the endpoint resolver and the networking manager are those of the other theories; the state is
  that of the networking manager, around the world of the clients. The patch of a pod status, the
  event recorder and the clock are parameters.
\<close>

section \<open>Keys and names\<close>

definition TargetHealthPodConditionTypePrefix :: string where
  "TargetHealthPodConditionTypePrefix = ''target-health.elbv2.k8s.aws''"

definition BuildTargetHealthPodConditionType :: "TargetGroupBinding \<Rightarrow> string" where
  "BuildTargetHealthPodConditionType tgb = TargetHealthPodConditionTypePrefix @ ''/'' @ omName (tgbMeta tgb)"

definition IndexFuncServiceRefName :: "TargetGroupBinding \<Rightarrow> string list" where
  "IndexFuncServiceRefName tgb = [srName (tgbServiceRef (tgbSpec tgb))]"

definition buildServiceReferenceKey :: "TargetGroupBinding \<Rightarrow> ServiceReference \<Rightarrow> NamespacedName" where
  "buildServiceReferenceKey tgb svcRef = \<lparr>nnNamespace = omNamespace (tgbMeta tgb), nnName = srName svcRef\<rparr>"

definition isELBV2TargetGroupNotFoundError :: "go_error \<Rightarrow> bool" where
  "isELBV2TargetGroupNotFoundError err =
     (case as_aws_error err of Some (code, _) \<Rightarrow> code = ''TargetGroupNotFound'' | None \<Rightarrow> False)"

definition isELBV2TargetGroupARNInvalidError :: "go_error \<Rightarrow> bool" where
  "isELBV2TargetGroupARNInvalidError err =
     (case as_aws_error err of Some (code, _) \<Rightarrow> code = ''ValidationError'' | None \<Rightarrow> False)"

section \<open>The manager\<close>

record ('w, 'q) defaultResourceManager =
  rmTargetsManager :: "'w cachedTargetsManager"
  rmEndpointResolver :: "('w, 'q) defaultEndpointResolver"
  rmNetworkingManager :: "'w defaultNetworkingManager"
  rmVPCInfoProvider :: "'w defaultVPCInfoProvider"
  rmVpcID :: string
  rmPodListKeys :: "'w \<Rightarrow> NamespacedName list"
  rmPodInfoRepoGet :: "NamespacedName \<Rightarrow> ('w, PodInfo option) io"
  rmPatchPodStatus :: "Pod \<Rightarrow> Pod \<Rightarrow> ('w, unit) io"
  rmEvent :: "TargetGroupBinding \<Rightarrow> string \<Rightarrow> string \<Rightarrow> 'w \<Rightarrow> 'w"
  rmNow :: "'w \<Rightarrow> int"
  rmIsNotFound :: "go_error \<Rightarrow> bool"
  rmErrorText :: "go_error \<Rightarrow> string"
  rmLabelSelectorAsSelector :: "LabelSelector \<Rightarrow> 'q Selector result"
  rmList :: "string set \<Rightarrow> string list"
  targetHealthRequeueDuration :: int

text \<open>Fifteen seconds, in nanoseconds.\<close>

definition defaultTargetHealthRequeueDuration :: int where
  "defaultTargetHealthRequeueDuration = 15 * 10 ^ 9"

section \<open>Matching endpoints with targets\<close>

definition partitionTargetsByDrainingStatus :: "TargetInfo list \<Rightarrow> TargetInfo list \<times> TargetInfo list" where
  "partitionTargetsByDrainingStatus targets = (filter (\<lambda>t. \<not> IsDraining t) targets, filter IsDraining targets)"

definition containsTargetsInInitialState :: "(PodEndpoint \<times> TargetInfo) list \<Rightarrow> bool" where
  "containsTargetsInInitialState matched = list_ex (\<lambda>(_, target). IsInitial target) matched"

text \<open>The two matching functions differ only in the type of endpoints. A target and an endpoint match
  if their identifiers \<^verbatim>\<open>address:port\<close> are equal; among several with one identifier, the last counts.\<close>

definition match_endpoints ::
  "(string set \<Rightarrow> string list) \<Rightarrow> ('e \<Rightarrow> string) \<Rightarrow> 'e list \<Rightarrow> TargetInfo list \<Rightarrow>
     ('e \<times> TargetInfo) list \<times> 'e list \<times> TargetInfo list" where
  "match_endpoints List endpointUID endpoints targets =
     (let endpointsByUID = index_by endpointUID endpoints;
          targetsByUID = index_by uid targets;
          endpointUIDs = set (gomap_keys endpointsByUID);
          targetUIDs = set (gomap_keys targetsByUID)
      in (List.map_filter (\<lambda>u. case (map_of endpointsByUID u, map_of targetsByUID u) of
              (Some e, Some t) \<Rightarrow> Some (e, t) | _ \<Rightarrow> None) (List (endpointUIDs \<inter> targetUIDs)),
          List.map_filter (map_of endpointsByUID) (List (endpointUIDs - targetUIDs)),
          List.map_filter (map_of targetsByUID) (List (targetUIDs - endpointUIDs))))"

definition pod_endpoint_uid :: "PodEndpoint \<Rightarrow> string" where
  "pod_endpoint_uid e = peIP e @ '':'' @ Itoa (pePort e)"

definition node_endpoint_uid :: "NodePortEndpoint \<Rightarrow> string" where
  "node_endpoint_uid e = npeInstanceID e @ '':'' @ Itoa (npePort e)"

definition matchPodEndpointWithTargets ::
  "(string set \<Rightarrow> string list) \<Rightarrow> PodEndpoint list \<Rightarrow> TargetInfo list \<Rightarrow>
     (PodEndpoint \<times> TargetInfo) list \<times> PodEndpoint list \<times> TargetInfo list" where
  "matchPodEndpointWithTargets List endpoints targets = match_endpoints List pod_endpoint_uid endpoints targets"

definition matchNodePortEndpointWithTargets ::
  "(string set \<Rightarrow> string list) \<Rightarrow> NodePortEndpoint list \<Rightarrow> TargetInfo list \<Rightarrow>
     (NodePortEndpoint \<times> TargetInfo) list \<times> NodePortEndpoint list \<times> TargetInfo list" where
  "matchNodePortEndpointWithTargets List endpoints targets = match_endpoints List node_endpoint_uid endpoints targets"

section \<open>Registering and deregistering\<close>

definition deregisterTargets :: "('w, 'q) defaultResourceManager \<Rightarrow> string \<Rightarrow> TargetInfo list \<Rightarrow> ('w, unit) io" where
  "deregisterTargets m tgARN targets = DeregisterTargets (rmTargetsManager m) tgARN (map tiTarget targets)"

definition pod_target :: "Prefix list \<Rightarrow> PodEndpoint \<Rightarrow> TargetDescription result" where
  "pod_target vpcCIDRs endpoint =
     result_bind (ParseAddr (peIP endpoint)) (\<lambda>podIP.
       Inr \<lparr>tdId = Some (peIP endpoint), tdPort = Some (pePort endpoint),
            tdAvailabilityZone = (if \<not> IsIPWithinCIDRs podIP vpcCIDRs then Some ''all'' else None)\<rparr>)"

definition registerPodEndpoints :: "('w, 'q) defaultResourceManager \<Rightarrow> string \<Rightarrow> PodEndpoint list \<Rightarrow> ('w, unit) io" where
  "registerPodEndpoints m tgARN endpoints =
     io_bind (FetchVPCInfo (rmVPCInfoProvider m) (rmVpcID m) []) (\<lambda>vpcInfo.
     io_bind (io_lift (ParseCIDRs (AssociatedIPv4CIDRs vpcInfo @ AssociatedIPv6CIDRs vpcInfo))) (\<lambda>vpcCIDRs.
     io_bind (io_lift (result_mapM (pod_target vpcCIDRs) endpoints)) (\<lambda>sdkTargets.
       RegisterTargets (rmTargetsManager m) tgARN sdkTargets)))"

definition registerNodePortEndpoints :: "('w, 'q) defaultResourceManager \<Rightarrow> string \<Rightarrow> NodePortEndpoint list \<Rightarrow> ('w, unit) io" where
  "registerNodePortEndpoints m tgARN endpoints =
     RegisterTargets (rmTargetsManager m) tgARN
       (map (\<lambda>endpoint. \<lparr>tdId = Some (npeInstanceID endpoint), tdPort = Some (npePort endpoint), tdAvailabilityZone = None\<rparr>) endpoints)"

section \<open>Pod conditions\<close>

definition condition_status :: "TargetHealth option \<Rightarrow> string" where
  "condition_status targetHealth =
     (case targetHealth of
        None \<Rightarrow> ConditionUnknown
      | Some h \<Rightarrow> if StringValue (thState h) = ''healthy'' then ConditionTrue else ConditionFalse)"

definition condition_pod :: "PodInfo \<Rightarrow> string \<Rightarrow> PodCondition list \<Rightarrow> Pod" where
  "condition_pod pod objUID conditions =
     \<lparr>podMeta = \<lparr>omNamespace = nnNamespace (podKey pod), omName = nnName (podKey pod), omUID = objUID, omLabels = [],
        omAnnotations = [], omFinalizers = [], omGeneration = 0, omDeletionTimestamp = None\<rparr>,
      podContainers = [], podReadinessGates = [], podNodeName = [], podConditions = conditions, podPodIP = []\<rparr>"

definition updateTargetHealthPodConditionForPod ::
  "('w, 'q) defaultResourceManager \<Rightarrow> PodInfo \<Rightarrow> TargetHealth option \<Rightarrow> string \<Rightarrow> ('w, bool) io" where
  "updateTargetHealthPodConditionForPod m pod targetHealth targetHealthCondType w =
     (if \<not> HasAnyOfReadinessGates pod [targetHealthCondType] then (Inr False, w)
      else
        let targetHealthCondStatus = condition_status targetHealth;
            reason = (case targetHealth of None \<Rightarrow> [] | Some h \<Rightarrow> StringValue (thReason h));
            message = (case targetHealth of None \<Rightarrow> [] | Some h \<Rightarrow> StringValue (thDescription h));
            needFurtherProbe = (targetHealthCondStatus \<noteq> ConditionTrue);
            existing = GetPodCondition pod targetHealthCondType;
            unchanged = (case existing of None \<Rightarrow> False
              | Some c \<Rightarrow> pcStatus c = targetHealthCondStatus \<and> pcReason c = reason \<and> pcMessage c = message)
        in if unchanged then (Inr needFurtherProbe, w)
           else
             let newTargetHealthCond = \<lparr>pcType = targetHealthCondType, pcStatus = targetHealthCondStatus, pcReason = reason,
                   pcMessage = message, pcLastTransitionTime = (case existing of
                       None \<Rightarrow> rmNow m w
                     | Some c \<Rightarrow> if pcStatus c \<noteq> targetHealthCondStatus then rmNow m w else pcLastTransitionTime c)\<rparr>;
                 podPatchSource = condition_pod pod [] (case existing of None \<Rightarrow> [] | Some c \<Rightarrow> [c]);
                 podPatchTarget = condition_pod pod (podUID pod) [newTargetHealthCond]
             in case rmPatchPodStatus m podPatchTarget podPatchSource w of
                  (Inl err, w') \<Rightarrow> (if rmIsNotFound m err then Inr False else Inl err, w')
                | (Inr _, w') \<Rightarrow> (Inr needFurtherProbe, w'))"

definition registration_in_progress :: TargetHealth where
  "registration_in_progress = \<lparr>thState = Some ''initial'', thReason = Some ''Elb.RegistrationInProgress'',
     thDescription = Some ''Target registration is in progress''\<rparr>"

definition updateTargetHealthPodCondition ::
  "('w, 'q) defaultResourceManager \<Rightarrow> string \<Rightarrow> (PodEndpoint \<times> TargetInfo) list \<Rightarrow> PodEndpoint list \<Rightarrow> ('w, bool) io" where
  "updateTargetHealthPodCondition m targetHealthCondType matched unmatchedEndpoints =
     io_bind (io_foldM (\<lambda>anyPod (endpoint, target).
         io_bind (updateTargetHealthPodConditionForPod m (pePod endpoint) (tiTargetHealth target) targetHealthCondType) (\<lambda>needFurtherProbe.
           io_return (anyPod \<or> needFurtherProbe))) False matched) (\<lambda>anyPod.
     io_foldM (\<lambda>anyPod endpoint.
         io_bind (updateTargetHealthPodConditionForPod m (pePod endpoint) (Some registration_in_progress) targetHealthCondType) (\<lambda>needFurtherProbe.
           io_return (anyPod \<or> needFurtherProbe))) anyPod unmatchedEndpoints)"

definition binding_deleted :: TargetHealth where
  "binding_deleted = \<lparr>thState = Some ''healthy'', thReason = None, thDescription = Some ''Target Group Binding is deleted''\<rparr>"

definition updatePodAsHealthyForDeletedTGB :: "('w, 'q) defaultResourceManager \<Rightarrow> TargetGroupBinding \<Rightarrow> ('w, unit) io" where
  "updatePodAsHealthyForDeletedTGB m tgb w =
     (let targetHealthCondType = BuildTargetHealthPodConditionType tgb in
      io_forM (\<lambda>key.
        if nnNamespace key \<noteq> omNamespace (tgbMeta tgb) then io_return ()
        else io_bind (rmPodInfoRepoGet m key) (\<lambda>found.
          case found of
            None \<Rightarrow> io_return ()
          | Some pod \<Rightarrow>
              if HasAnyOfReadinessGates pod [targetHealthCondType]
              then io_bind (updateTargetHealthPodConditionForPod m pod (Some binding_deleted) targetHealthCondType) (\<lambda>_. io_return ())
              else io_return ())) (rmPodListKeys m w) w)"

section \<open>Cleaning up and reconciling\<close>

definition ignore_missing_group :: "('w, unit) io \<Rightarrow> ('w, unit) io" where
  "ignore_missing_group call w =
     (case call w of
        (Inl err, w') \<Rightarrow> (if isELBV2TargetGroupNotFoundError err \<or> isELBV2TargetGroupARNInvalidError err then Inr () else Inl err, w')
      | (Inr _, w') \<Rightarrow> (Inr (), w'))"

definition cleanupTargets :: "('w, 'q) defaultResourceManager \<Rightarrow> TargetGroupBinding \<Rightarrow> ('w, unit) io" where
  "cleanupTargets m tgb =
     (let tgARN = tgbTargetGroupARN (tgbSpec tgb) in
      ignore_missing_group (io_bind (ListTargets (rmTargetsManager m) tgARN) (deregisterTargets m tgARN)))"

definition Cleanup :: "('w, 'q) defaultResourceManager \<Rightarrow> TargetGroupBinding \<Rightarrow> ('w nm_state, unit) io" where
  "Cleanup m tgb =
     io_bind (on_nm_world (cleanupTargets m tgb)) (\<lambda>_.
     io_bind (Networking_Cleanup (rmNetworkingManager m) tgb) (\<lambda>_.
       on_nm_world (updatePodAsHealthyForDeletedTGB m tgb)))"

definition record_event :: "('w, 'q) defaultResourceManager \<Rightarrow> TargetGroupBinding \<Rightarrow> string \<Rightarrow> go_error \<Rightarrow> ('w nm_state, unit) io" where
  "record_event m tgb reason err s = (Inr (), s\<lparr>nmWorld := rmEvent m tgb reason (rmErrorText m err) (nmWorld s)\<rparr>)"

text \<open>An error in resolving the endpoints: a missing backend cleans the binding up.\<close>

definition or_cleanup ::
  "('w, 'q) defaultResourceManager \<Rightarrow> TargetGroupBinding \<Rightarrow> ('w, 'a) io \<Rightarrow> ('a \<Rightarrow> ('w nm_state, unit) io) \<Rightarrow> ('w nm_state, unit) io" where
  "or_cleanup m tgb resolve rest s =
     (case on_nm_world resolve s of
        (Inl err, s') \<Rightarrow>
          (if errors_Is err ErrNotFound
           then io_bind (record_event m tgb ''BackendNotFound'' err) (\<lambda>_. Cleanup m tgb) s'
           else (Inl err, s'))
      | (Inr x, s') \<Rightarrow> rest x s')"

definition reconcile_network_for_pods ::
  "('w, 'q) defaultResourceManager \<Rightarrow> TargetGroupBinding \<Rightarrow> PodEndpoint list \<Rightarrow> ('w nm_state, bool) io" where
  "reconcile_network_for_pods m tgb endpoints s =
     (case ReconcileForPodEndpoints (rmNetworkingManager m) tgb endpoints s of
        (Inl err, s') \<Rightarrow> io_bind (record_event m tgb ''FailedNetworkReconcile'' err) (\<lambda>_. io_return True) s'
      | (Inr _, s') \<Rightarrow> (Inr False, s'))"

definition reconcileWithIPTargetType :: "('w, 'q) defaultResourceManager \<Rightarrow> TargetGroupBinding \<Rightarrow> ('w nm_state, unit) io" where
  "reconcileWithIPTargetType m tgb =
     (let svcKey = buildServiceReferenceKey tgb (tgbServiceRef (tgbSpec tgb));
          targetHealthCondType = BuildTargetHealthPodConditionType tgb;
          tgARN = tgbTargetGroupARN (tgbSpec tgb)
      in or_cleanup m tgb
        (ResolvePodEndpoints (rmEndpointResolver m) svcKey (srPort (tgbServiceRef (tgbSpec tgb))) [WithPodReadinessGate targetHealthCondType])
        (\<lambda>(endpoints, containsPotentialReadyEndpoints).
          io_bind (on_nm_world (ListTargets (rmTargetsManager m) tgARN)) (\<lambda>targets.
            let (notDrainingTargets, drainingTargets) = partitionTargetsByDrainingStatus targets;
                (matched, unmatchedEndpoints, unmatchedTargets) = matchPodEndpointWithTargets (rmList m) endpoints notDrainingTargets
            in io_bind (reconcile_network_for_pods m tgb endpoints) (\<lambda>needNetworkingRequeue.
               io_bind (if unmatchedTargets \<noteq> [] then on_nm_world (deregisterTargets m tgARN unmatchedTargets) else io_return ()) (\<lambda>_.
               io_bind (if unmatchedEndpoints \<noteq> [] then on_nm_world (registerPodEndpoints m tgARN unmatchedEndpoints) else io_return ()) (\<lambda>_.
               io_bind (on_nm_world (updateTargetHealthPodCondition m targetHealthCondType matched unmatchedEndpoints)) (\<lambda>anyPodNeedFurtherProbe.
                 if anyPodNeedFurtherProbe then
                   (if containsTargetsInInitialState matched \<or> unmatchedEndpoints \<noteq> []
                    then io_fail (RequeueNeededAfter ''monitor targetHealth'' (targetHealthRequeueDuration m))
                    else io_fail (RequeueNeeded ''monitor targetHealth''))
                 else if containsPotentialReadyEndpoints then io_fail (RequeueNeeded ''monitor potential ready endpoints'')
                 else if needNetworkingRequeue then io_fail (RequeueNeeded ''networking reconciliation'')
                 else io_return ())))))))"

definition reconcileWithInstanceTargetType :: "('w, 'q) defaultResourceManager \<Rightarrow> TargetGroupBinding \<Rightarrow> ('w nm_state, unit) io" where
  "reconcileWithInstanceTargetType m tgb =
     (let svcKey = buildServiceReferenceKey tgb (tgbServiceRef (tgbSpec tgb)); tgARN = tgbTargetGroupARN (tgbSpec tgb) in
      io_bind (io_lift (GetTrafficProxyNodeSelector (rmLabelSelectorAsSelector m) tgb)) (\<lambda>nodeSelector.
      or_cleanup m tgb
        (ResolveNodePortEndpoints (rmEndpointResolver m) svcKey (srPort (tgbServiceRef (tgbSpec tgb))) [WithNodeSelector nodeSelector])
        (\<lambda>endpoints.
          io_bind (on_nm_world (ListTargets (rmTargetsManager m) tgARN)) (\<lambda>targets.
            let (notDrainingTargets, drainingTargets) = partitionTargetsByDrainingStatus targets;
                (_, unmatchedEndpoints, unmatchedTargets) = matchNodePortEndpointWithTargets (rmList m) endpoints notDrainingTargets
            in io_bind (ReconcileForNodePortEndpoints (rmNetworkingManager m) tgb endpoints) (\<lambda>_.
               io_bind (if unmatchedTargets \<noteq> [] then on_nm_world (deregisterTargets m tgARN unmatchedTargets) else io_return ()) (\<lambda>_.
               if unmatchedEndpoints \<noteq> [] then on_nm_world (registerNodePortEndpoints m tgARN unmatchedEndpoints) else io_return ()))))))"

definition Reconcile :: "('w, 'q) defaultResourceManager \<Rightarrow> TargetGroupBinding \<Rightarrow> ('w nm_state, unit) io" where
  "Reconcile m tgb =
     (case tgbTargetType (tgbSpec tgb) of
        None \<Rightarrow> io_fail (Errorf ''targetType is not specified: %v'' [NamespacedName_String (NamespacedName_of (tgbMeta tgb))])
      | Some targetType \<Rightarrow>
          if targetType = TargetTypeIP then reconcileWithIPTargetType m tgb
          else reconcileWithInstanceTargetType m tgb)"

section \<open>Errors that ask for another run\<close>

fun is_requeue :: "go_error \<Rightarrow> bool" where
  "is_requeue (RequeueNeeded _) = True"
| "is_requeue (RequeueNeededAfter _ _) = True"
| "is_requeue _ = False"

text \<open>Computations that never ask for another run.\<close>

definition plain :: "('w, 'a) io \<Rightarrow> bool" where
  "plain f \<longleftrightarrow> (\<forall>w e w'. f w = (Inl e, w') \<longrightarrow> \<not> is_requeue e)"

named_theorems plain "computations that never ask for another run"

lemma plainD: "plain f \<Longrightarrow> f w = (Inl e, w') \<Longrightarrow> \<not> is_requeue e"
  unfolding plain_def by blast

lemma plain_return [plain]: "plain (io_return x)"
  by (simp add: plain_def io_return_def)

lemma plain_fail [plain]: "\<not> is_requeue e \<Longrightarrow> plain (io_fail e)"
  by (simp add: plain_def io_fail_def)

lemma plain_lift [plain]: "(\<And>e. r = Inl e \<Longrightarrow> \<not> is_requeue e) \<Longrightarrow> plain (io_lift r)"
  by (simp add: plain_def io_lift_def)

lemma plain_bind [plain]: "plain f \<Longrightarrow> (\<And>x. plain (g x)) \<Longrightarrow> plain (io_bind f g)"
  unfolding plain_def io_bind_def by (fastforce split: prod.splits sum.splits)

lemma plain_if [plain]: "(b \<Longrightarrow> plain f) \<Longrightarrow> (\<not> b \<Longrightarrow> plain g) \<Longrightarrow> plain (if b then f else g)"
  by simp

lemma plain_forM [plain]: "(\<And>x. plain (f x)) \<Longrightarrow> plain (io_forM f xs)"
  by (induction xs) (auto intro: plain)

lemma plain_on_nm_world [plain]: "plain f \<Longrightarrow> plain (on_nm_world f)"
  unfolding plain_def on_nm_world_def by (fastforce split: prod.splits)

lemma plain_result: "(\<And>x e. f x = Inl e \<Longrightarrow> \<not> is_requeue e) \<Longrightarrow> result_mapM f xs = Inl e \<Longrightarrow> \<not> is_requeue e"
proof (induction xs)
  case (Cons x xs)
  then show ?case by (cases "f x"; cases "result_mapM f xs") auto
qed simp

definition aws_calls_plain :: "('w, 'q) defaultResourceManager \<Rightarrow> bool" where
  "aws_calls_plain m \<longleftrightarrow>
     (\<forall>arn ds. plain (RegisterTargetsWithContext (rmTargetsManager m) arn ds) \<and>
        plain (DeregisterTargetsWithContext (rmTargetsManager m) arn ds)) \<and>
     0 < registerTargetsChunkSize (rmTargetsManager m) \<and> 0 < deregisterTargetsChunkSize (rmTargetsManager m) \<and>
     (\<forall>ids. plain (DescribeVpcsWithContext (rmVPCInfoProvider m) ids))"

lemma plain_in_chunks:
  assumes "0 < n" "\<And>c. plain (f c)"
  shows "plain (in_chunks f (chunkTargetDescriptions ds n))"
proof -
  obtain chunks where "chunkTargetDescriptions ds n = Some (Inr chunks)"
    using chunk_loop_correct [OF assms(1), of ds 0 "[]"] by (auto simp: chunkTargetDescriptions_def)
  then show ?thesis by (simp add: in_chunks_def plain_forM assms(2))
qed

lemma plain_records:
  "plain (recordSuccessfulRegisterTargetsOperation tm arn ds)" "plain (recordSuccessfulDeregisterTargetsOperation tm arn ds)"
  by (auto simp: plain_def recordSuccessfulRegisterTargetsOperation_def recordSuccessfulDeregisterTargetsOperation_def
      split: option.splits prod.splits)

lemma plain_RegisterTargets: "aws_calls_plain m \<Longrightarrow> plain (RegisterTargets (rmTargetsManager m) arn ds)"
  unfolding RegisterTargets_def aws_calls_plain_def by (intro plain_in_chunks plain_bind plain_records) simp_all

lemma plain_DeregisterTargets: "aws_calls_plain m \<Longrightarrow> plain (DeregisterTargets (rmTargetsManager m) arn ds)"
  unfolding DeregisterTargets_def aws_calls_plain_def by (intro plain_in_chunks plain_bind plain_records) simp_all

lemma plain_FetchVPCInfo:
  assumes "aws_calls_plain m"
  shows "plain (FetchVPCInfo (rmVPCInfoProvider m) vpc opts)"
proof -
  have "plain (fetchVPCInfoFromAWS (rmVPCInfoProvider m) vpc)"
    using assms unfolding fetchVPCInfoFromAWS_def aws_calls_plain_def
    by (intro plain_bind) (auto split: list.split intro: plain)
  then show ?thesis by (auto simp: plain_def FetchVPCInfo_def Let_def split: option.splits prod.splits sum.splits)
qed

lemma ParseAddr_plain: "ParseAddr s = Inl e \<Longrightarrow> \<not> is_requeue e"
  by (auto simp: ParseAddr_def split: option.splits)

lemma ParsePrefix_plain: "ParsePrefix s = Inl e \<Longrightarrow> \<not> is_requeue e"
  by (auto simp: ParsePrefix_def Let_def split: option.splits prod.splits sum.splits if_splits parse_int.splits)

lemma plain_registerPodEndpoints:
  assumes "aws_calls_plain m"
  shows "plain (registerPodEndpoints m arn eps)"
  unfolding registerPodEndpoints_def
proof (intro plain_bind plain_FetchVPCInfo assms plain_lift plain_RegisterTargets)
  fix vpc e assume "ParseCIDRs (AssociatedIPv4CIDRs vpc @ AssociatedIPv6CIDRs vpc) = Inl e"
  then show "\<not> is_requeue e" unfolding ParseCIDRs_def by (rule plain_result [rotated]) (rule ParsePrefix_plain)
next
  fix cidrs e assume "result_mapM (pod_target cidrs) eps = Inl e"
  moreover have "\<not> is_requeue e" if "pod_target cidrs x = Inl e" for x e
    using that ParseAddr_plain unfolding pod_target_def by (cases "ParseAddr (peIP x)") auto
  ultimately show "\<not> is_requeue e" by (rule plain_result [rotated])
qed

section \<open>Matching\<close>

lemma match_endpoints_sets:
  assumes "lists_sorted List" "match_endpoints List euid es ts = (ms, ue, ut)"
  shows "euid ` set ue = euid ` set es - uid ` set ts" "uid ` set ut = uid ` set ts - euid ` set es"
proof -
  have keys: "set (gomap_keys (index_by euid es)) = euid ` set es" "set (gomap_keys (index_by uid ts)) = uid ` set ts"
    by (simp_all add: index_by_keys)
  have ue: "ue = List.map_filter (map_of (index_by euid es)) (List (euid ` set es - uid ` set ts))"
    and ut: "ut = List.map_filter (map_of (index_by uid ts)) (List (uid ` set ts - euid ` set es))"
    using assms(2) by (simp_all add: match_endpoints_def Let_def keys)
  have img: "key ` set (List.map_filter (map_of (index_by key xs)) (List (key ` set xs - A))) = key ` set xs - A"
    for key :: "'x \<Rightarrow> string" and xs A
  proof -
    have L: "set (List (key ` set xs - A)) = key ` set xs - A" by (simp add: lists_sortedD(1) [OF assms(1)])
    have "\<exists>x. map_of (index_by key xs) k = Some x \<and> key x = k" if "k \<in> key ` set xs" for k
    proof -
      have "map_of (index_by key xs) k \<noteq> None" using that by (simp only: index_by_None not_not)
      then show ?thesis using index_by_Some by fastforce
    qed
    then show ?thesis unfolding set_map_filter L by (auto simp: image_iff dest: index_by_Some) (metis DiffI imageI option.inject)
  qed
  show "euid ` set ue = euid ` set es - uid ` set ts" "uid ` set ut = uid ` set ts - euid ` set es"
    unfolding ue ut by (rule img)+
qed

section \<open>The other calls leave the targets alone\<close>

text \<open>What is outside the targets manager: calls to EC2 and to the API server, the cache of VPC
  information and the recording of events do not change the targets of a group.\<close>

definition targets_are :: "('w, 'q) defaultResourceManager \<Rightarrow> ('w \<Rightarrow> string \<Rightarrow> string set) \<Rightarrow> string \<Rightarrow> string set \<Rightarrow> 'w \<Rightarrow> bool" where
  "targets_are m registered arn X w \<longleftrightarrow> targets_inv (rmTargetsManager m) registered arn w \<and> registered w arn = X"

definition leaves_targets :: "('w, 'q) defaultResourceManager \<Rightarrow> ('w \<Rightarrow> string \<Rightarrow> string set) \<Rightarrow> string \<Rightarrow> bool" where
  "leaves_targets m registered arn \<longleftrightarrow> (\<forall>X.
     let I = targets_are m registered arn X; nm = rmNetworkingManager m; p = rmVPCInfoProvider m in
     nm_calls_keep I nm \<and> (\<forall>sgID ps opts. keeps (preserving I) (nmReconcileIngress nm sgID ps opts)) \<and>
     (\<forall>ids. keeps (preserving I) (DescribeVpcsWithContext p ids)) \<and>
     (\<forall>vpcID vpc w. I w \<longrightarrow> I (vpcInfoCacheSet p vpcID vpc w)) \<and>
     (\<forall>a b. keeps (preserving I) (rmPatchPodStatus m a b)) \<and>
     (\<forall>tgb reason msg w. I w \<longrightarrow> I (rmEvent m tgb reason msg w)))"

lemma leaves_targetsD:
  fixes X :: "string set"
  assumes "leaves_targets m registered arn"
  defines "I \<equiv> targets_are m registered arn X"
  shows "nm_calls_keep I (rmNetworkingManager m)"
    "keeps (preserving I) (nmReconcileIngress (rmNetworkingManager m) sgID ps opts)"
    "keeps (preserving I) (DescribeVpcsWithContext (rmVPCInfoProvider m) ids)"
    "I w \<Longrightarrow> I (vpcInfoCacheSet (rmVPCInfoProvider m) vpcID vpc w)"
    "keeps (preserving I) (rmPatchPodStatus m a b)"
    "I w \<Longrightarrow> I (rmEvent m tgb reason msg w)"
  using assms(1) unfolding leaves_targets_def Let_def I_def by blast+

lemma keeps_nm_get [keeps]: "keeps (preserving (\<lambda>s. I (nmWorld s))) (nm_get f)"
  by (simp add: keeps_def nm_get_def)

lemma keeps_nm_modify [keeps]: "(\<And>s. nmWorld (f s) = nmWorld s) \<Longrightarrow> keeps (preserving (\<lambda>s. I (nmWorld s))) (nm_modify f)"
  by (simp add: keeps_def nm_modify_def)

lemma ReconcileForEndpoints_keeps:
  assumes "nm_calls_keep I m" "\<And>sgID ps opts. keeps (preserving I) (nmReconcileIngress m sgID ps opts)"
  shows "keeps (preserving (\<lambda>s. I (nmWorld s))) (ReconcileForPodEndpoints m tgb eps)"
    "keeps (preserving (\<lambda>s. I (nmWorld s))) (ReconcileForNodePortEndpoints m tgb neps)"
proof -
  have calls: "keeps (preserving I) (nmListTGBs m)" "keeps (preserving I) (nmPodENIResolve m x)" "keeps (preserving I) (nmNodeENIResolve m y)"
    "keeps (preserving I) (nmFetchSGInfosByID m z)" "keeps (preserving I) (nmFetchSGInfosByRequest m q)" for x y z q
    using assms(1) by (simp_all add: nm_calls_keep_def)
  have resolve: "keeps (preserving I) (resolveEndpointSGForENI m eni)" for eni
    unfolding resolveEndpointSGForENI_def by (auto split: list.split simp: Let_def intro!: keeps calls)
  have sg: "keeps (preserving (\<lambda>s. I (nmWorld s))) (reconcile_sg m b errs entry)" for b errs entry
  proof (rule keepsI)
    fix s r s' assume "reconcile_sg m b errs entry s = (r, s')"
    then have "snd (on_nm_world (nmReconcileIngress m (fst entry) (snd entry) \<lparr>PermissionSelector = permission_selector m, AuthorizeOnly = \<not> b\<rparr>) s) = s'"
      by (auto simp: reconcile_sg_def split: prod.splits sum.splits)
    then show "I (nmWorld s) \<longrightarrow> I (nmWorld s')" using keeps_snd [OF keeps_nm_world [OF assms(2)]] by metis
  qed
  have gc: "keeps (preserving (\<lambda>s. I (nmWorld s))) (gc_endpoint_sg m sgID)" for sgID
  proof (rule keepsI)
    fix s r s' assume "gc_endpoint_sg m sgID s = (r, s')"
    then have "nmWorld (snd (on_nm_world (nmReconcileIngress m sgID [] \<lparr>PermissionSelector = permission_selector m, AuthorizeOnly = False\<rparr>) s)) = nmWorld s'"
      by (auto simp: gc_endpoint_sg_def unTrackEndpointSGs_def nm_modify_def split: prod.splits sum.splits if_splits)
    then show "I (nmWorld s) \<longrightarrow> I (nmWorld s')" using keeps_snd [OF keeps_nm_world [OF assms(2)]] by metis
  qed
  have rec: "keeps (preserving (\<lambda>s. I (nmWorld s))) (reconcileWithIngressPermissionsPerSG m tgb ps)" for ps
    unfolding reconcileWithIngressPermissionsPerSG_def gcIngressPermissionsFromUnusedEndpointSGs_def fetchEndpointSGs_def
      fetchEndpointSGsFromAWS_def trackEndpointSGs_def fetchTGBsWithNetworking_def Let_def
    by (intro keeps calls sg gc) simp_all
  have comp: "keeps (preserving I) (computeIngressPermissionsPerSGWithPodEndpoints m net eps)"
    "keeps (preserving I) (computeIngressPermissionsPerSGWithNodePortEndpoints m net neps)" for net
    unfolding computeIngressPermissionsPerSGWithPodEndpoints_def computeIngressPermissionsPerSGWithNodePortEndpoints_def
    by (intro keeps calls resolve)+
  show "keeps (preserving (\<lambda>s. I (nmWorld s))) (ReconcileForPodEndpoints m tgb eps)"
    "keeps (preserving (\<lambda>s. I (nmWorld s))) (ReconcileForNodePortEndpoints m tgb neps)"
    unfolding ReconcileForPodEndpoints_def ReconcileForNodePortEndpoints_def by (intro keeps rec comp)+
qed

section \<open>What a reconciliation does to the targets\<close>

lemma FetchVPCInfo_keeps:
  assumes "leaves_targets m registered arn"
  shows "keeps (preserving (targets_are m registered arn X)) (FetchVPCInfo (rmVPCInfoProvider m) vpc opts)"
proof (rule keepsI)
  fix w r w' assume run: "FetchVPCInfo (rmVPCInfoProvider m) vpc opts w = (r, w')"
  note l = leaves_targetsD(3,4) [OF assms, of X]
  have f: "keeps (preserving (targets_are m registered arn X)) (fetchVPCInfoFromAWS (rmVPCInfoProvider m) vpc)"
    unfolding fetchVPCInfoFromAWS_def by (intro keeps l) (auto split: list.split intro: keeps)
  obtain q w1 where q: "fetchVPCInfoFromAWS (rmVPCInfoProvider m) vpc w = (q, w1)" by fastforce
  have "w' = w \<or> w' = w1 \<or> (\<exists>i. w' = vpcInfoCacheSet (rmVPCInfoProvider m) vpc i w1)"
    using run q by (auto simp: FetchVPCInfo_def Let_def split: option.splits sum.splits if_splits)
  then show "targets_are m registered arn X w \<longrightarrow> targets_are m registered arn X w'"
    using keepsD [OF f q] l(2) by auto
qed

lemma pod_target_uid: "pod_target cidrs e = Inr d \<Longrightarrow> UniqueIDForTargetDescription d = pod_endpoint_uid e"
  by (cases "ParseAddr (peIP e)") (auto simp: pod_target_def UniqueIDForTargetDescription_def pod_endpoint_uid_def)

lemma pod_targets_uid: "result_mapM (pod_target cidrs) es = Inr ds \<Longrightarrow> UniqueIDForTargetDescription ` set ds = pod_endpoint_uid ` set es"
proof (induction es arbitrary: ds)
  case (Cons e es)
  then obtain d ds' where "pod_target cidrs e = Inr d" "result_mapM (pod_target cidrs) es = Inr ds'" "ds = d # ds'"
    by (cases "pod_target cidrs e"; cases "result_mapM (pod_target cidrs) es") auto
  then show ?case using Cons.IH [of ds'] by (simp add: pod_target_uid)
qed simp

text \<open>Listing, matching and replacing, for any kind of endpoints. Registering may first look something
  up that leaves the targets alone.\<close>

lemma replaced:
  assumes sorted: "lists_sorted (rmList m)" and inv: "targets_inv (rmTargetsManager m) registered arn w1"
    and list: "ListTargets (rmTargetsManager m) arn w1 = (Inr ts, w2)"
    and matched: "match_endpoints (rmList m) euid eps (fst (partitionTargetsByDrainingStatus ts)) = (ms, ue, ut)"
    and keep: "targets_are m registered arn (registered w2 arn) w2 \<longrightarrow> targets_are m registered arn (registered w2 arn) w3"
    and dereg: "(if ut \<noteq> [] then deregisterTargets m arn ut else io_return ()) w3 = (Inr (), w4)"
    and look: "\<And>X. targets_are m registered arn X w4 \<longrightarrow> targets_are m registered arn X w5"
    and reg: "(if ds \<noteq> [] then RegisterTargets (rmTargetsManager m) arn ds else io_return ()) w5 = (Inr (), w6)"
    and ds: "UniqueIDForTargetDescription ` set ds = euid ` set ue"
  shows "targets_inv (rmTargetsManager m) registered arn w6 \<and> euid ` set eps \<subseteq> registered w6 arn \<and>
     registered w6 arn \<subseteq> euid ` set eps \<union> uid ` {t\<in>set ts. IsDraining t}"
proof -
  note l = ct.list_law [OF inv list]
  have w3: "targets_inv (rmTargetsManager m) registered arn w3" "registered w3 arn = registered w2 arn"
    using keep l by (simp_all add: targets_are_def)
  have nd: "set (fst (partitionTargetsByDrainingStatus ts)) = {t\<in>set ts. \<not> IsDraining t}"
    by (auto simp: partitionTargetsByDrainingStatus_def)
  note ms = match_endpoints_sets [OF sorted matched, unfolded nd]
  have "UniqueIDForTargetDescription ` set (map tiTarget ut) = uid ` set ut" by (simp add: image_image)
  then have stale: "UniqueIDForTargetDescription ` set (map tiTarget ut) = uid ` {t\<in>set ts. \<not> IsDraining t} - euid ` set eps" using ms by simp
  have dereg': "(if map tiTarget ut \<noteq> [] then DeregisterTargets (rmTargetsManager m) arn (map tiTarget ut) else io_return ()) w3 = (Inr (), w4)"
    using dereg by (cases "ut = []") (simp_all add: deregisterTargets_def)
  show ?thesis
  proof (rule ct.replace_targets [OF inv list w3 dereg' reg stale])
    show "UniqueIDForTargetDescription ` set ds = euid ` set eps - uid ` {t\<in>set ts. \<not> IsDraining t}" using ds ms by simp
    assume "targets_inv (rmTargetsManager m) registered arn w4"
    then show "targets_inv (rmTargetsManager m) registered arn w5 \<and> registered w5 arn = registered w4 arn"
      using look [of "registered w4 arn"] by (simp add: targets_are_def)
  qed
qed

lemma updateTargetHealthPodCondition_keeps:
  assumes "\<And>a b. keeps (preserving I) (rmPatchPodStatus m a b)"
  shows "keeps (preserving I) (updateTargetHealthPodCondition m ty ms ue)"
proof -
  have one: "keeps (preserving I) (updateTargetHealthPodConditionForPod m pod h ty)" for pod h
  proof (rule keepsI)
    fix w r w' assume "updateTargetHealthPodConditionForPod m pod h ty w = (r, w')"
    then have "w' = w \<or> (\<exists>a b q. rmPatchPodStatus m a b w = (q, w'))"
      unfolding updateTargetHealthPodConditionForPod_def Let_def by (auto split: if_splits prod.splits sum.splits)
    then show "I w \<longrightarrow> I w'" using keepsD [OF assms] by blast
  qed
  then show ?thesis unfolding updateTargetHealthPodCondition_def by (intro keeps one)
qed

lemma reconcile_network_for_pods_result: "\<exists>b s'. reconcile_network_for_pods m tgb eps s = (Inr b, s')"
  by (auto simp: reconcile_network_for_pods_def record_event_def io_bind_def io_return_def split: prod.splits sum.splits)

lemma reconcile_network_for_pods_keeps:
  assumes "leaves_targets m registered arn"
  shows "keeps (preserving (\<lambda>s. targets_are m registered arn X (nmWorld s))) (reconcile_network_for_pods m tgb eps)"
proof (rule keepsI)
  note l = leaves_targetsD [OF assms, of X]
  fix s r s' assume run: "reconcile_network_for_pods m tgb eps s = (r, s')"
  obtain q s1 where q: "ReconcileForPodEndpoints (rmNetworkingManager m) tgb eps s = (q, s1)" by fastforce
  have "s' = s1 \<or> (\<exists>reason msg. nmWorld s' = rmEvent m tgb reason msg (nmWorld s1))"
    using run q unfolding reconcile_network_for_pods_def record_event_def io_bind_def io_return_def
    by (cases q) (auto intro!: exI)
  then show "targets_are m registered arn X (nmWorld s) \<longrightarrow> targets_are m registered arn X (nmWorld s')"
    using keepsD [OF ReconcileForEndpoints_keeps(1) [OF l(1,2)] q] l(6) by auto
qed

text \<open>The identifiers of the endpoints that a binding resolves to.\<close>

definition resolved_endpoints ::
  "('w, 'q) defaultResourceManager \<Rightarrow> TargetGroupBinding \<Rightarrow> 'w \<Rightarrow> string set \<Rightarrow> 'w \<Rightarrow> bool" where
  "resolved_endpoints m tgb w E w' \<longleftrightarrow>
     (let key = buildServiceReferenceKey tgb (tgbServiceRef (tgbSpec tgb)); port = srPort (tgbServiceRef (tgbSpec tgb)) in
      if tgbTargetType (tgbSpec tgb) = Some TargetTypeIP then
        (\<exists>eps pot. ResolvePodEndpoints (rmEndpointResolver m) key port [WithPodReadinessGate (BuildTargetHealthPodConditionType tgb)] w =
           (Inr (eps, pot), w') \<and> E = pod_endpoint_uid ` set eps)
      else
        (\<exists>sel eps. GetTrafficProxyNodeSelector (rmLabelSelectorAsSelector m) tgb = Inr sel \<and>
           ResolveNodePortEndpoints (rmEndpointResolver m) key port [WithNodeSelector sel] w = (Inr eps, w') \<and>
           E = node_endpoint_uid ` set eps))"

lemma io_bind_result:
  "io_bind f g w = (r, w'') \<Longrightarrow> (\<exists>e. f w = (Inl e, w'') \<and> r = Inl e) \<or> (\<exists>x w'. f w = (Inr x, w') \<and> g x w' = (r, w''))"
  by (auto simp: io_bind_def split: prod.splits sum.splits)

lemma io_bind_plainD:
  assumes "io_bind f g w = (r, w'')" "plain f" "\<And>e. r = Inl e \<Longrightarrow> is_requeue e"
  shows "\<exists>x w'. f w = (Inr x, w') \<and> g x w' = (r, w'')"
  using io_bind_result [OF assms(1)] plainD [OF assms(2)] assms(3) by blast

lemma on_nm_world_optional:
  "(if b then on_nm_world f else io_return ()) s = (Inr (), s') \<longleftrightarrow>
     (\<exists>w. (if b then f else io_return ()) (nmWorld s) = (Inr (), w) \<and> s' = s\<lparr>nmWorld := w\<rparr>)"
  by (auto simp: on_nm_world_def io_return_def split: prod.splits)

lemma registered_through:
  assumes "leaves_targets m registered arn"
    and "(if ue \<noteq> [] then on_nm_world (registerPodEndpoints m arn ue) else io_return ()) s = (Inr (), s')"
  shows "\<exists>ds w. (\<forall>X. targets_are m registered arn X (nmWorld s) \<longrightarrow> targets_are m registered arn X w) \<and>
      (if ds \<noteq> [] then RegisterTargets (rmTargetsManager m) arn ds else io_return ()) w = (Inr (), nmWorld s') \<and>
      UniqueIDForTargetDescription ` set ds = pod_endpoint_uid ` set ue"
proof (cases "ue = []")
  case True
  then show ?thesis using assms(2) by (intro exI [of _ "[]"] exI [of _ "nmWorld s"]) (simp add: io_return_def)
next
  case False
  then have "registerPodEndpoints m arn ue (nmWorld s) = (Inr (), nmWorld s')"
    using assms(2) by (auto simp: on_nm_world_def split: prod.splits)
  then obtain vpc w cidrs ds where v: "FetchVPCInfo (rmVPCInfoProvider m) (rmVpcID m) [] (nmWorld s) = (Inr vpc, w)"
    and d: "result_mapM (pod_target cidrs) ue = Inr ds" and reg: "RegisterTargets (rmTargetsManager m) arn ds w = (Inr (), nmWorld s')"
    unfolding registerPodEndpoints_def by (auto dest!: io_bind_InrD simp: io_lift_def)
  have "ds \<noteq> []" using d False by (cases ue; cases ds) (auto simp: result_bind_def split: sum.splits)
  then show ?thesis using keepsD [OF FetchVPCInfo_keeps [OF assms(1)] v] reg pod_targets_uid [OF d]
    by (intro exI [of _ ds] exI [of _ w]) auto
qed

lemma ip_reconciled:
  assumes sorted: "lists_sorted (rmList m)" and leaves: "leaves_targets m registered arn" and plain: "aws_calls_plain m"
    and arn: "arn = tgbTargetGroupARN (tgbSpec tgb)"
    and resolve: "ResolvePodEndpoints (rmEndpointResolver m) (buildServiceReferenceKey tgb (tgbServiceRef (tgbSpec tgb)))
      (srPort (tgbServiceRef (tgbSpec tgb))) [WithPodReadinessGate (BuildTargetHealthPodConditionType tgb)] (nmWorld s) = (Inr (eps, pot), w1)"
    and inv: "targets_inv (rmTargetsManager m) registered arn w1"
    and list: "ListTargets (rmTargetsManager m) arn w1 = (Inr ts, w2)"
    and run: "reconcileWithIPTargetType m tgb s = (r, s')" and ok: "\<And>e. r = Inl e \<Longrightarrow> is_requeue e"
  shows "targets_inv (rmTargetsManager m) registered arn (nmWorld s') \<and> pod_endpoint_uid ` set eps \<subseteq> registered (nmWorld s') arn \<and>
     registered (nmWorld s') arn \<subseteq> pod_endpoint_uid ` set eps \<union> uid ` {t\<in>set ts. IsDraining t}"
proof -
  obtain ms ue ut where matched: "match_endpoints (rmList m) pod_endpoint_uid eps (fst (partitionTargetsByDrainingStatus ts)) = (ms, ue, ut)"
    by (rule prod_cases3)
  have resolved: "on_nm_world (ResolvePodEndpoints (rmEndpointResolver m) (buildServiceReferenceKey tgb (tgbServiceRef (tgbSpec tgb)))
      (srPort (tgbServiceRef (tgbSpec tgb))) [WithPodReadinessGate (BuildTargetHealthPodConditionType tgb)]) s = (Inr (eps, pot), s\<lparr>nmWorld := w1\<rparr>)"
    by (simp add: on_nm_world_def resolve)
  define finish where "finish b anyPod = (if anyPod then
       (if containsTargetsInInitialState ms \<or> ue \<noteq> []
        then io_fail (RequeueNeededAfter ''monitor targetHealth'' (targetHealthRequeueDuration m))
        else io_fail (RequeueNeeded ''monitor targetHealth''))
     else if pot then io_fail (RequeueNeeded ''monitor potential ready endpoints'')
     else if b then io_fail (RequeueNeeded ''networking reconciliation'') else (io_return () :: ('a nm_state, unit) io))" for b anyPod
  let ?update = "on_nm_world (updateTargetHealthPodCondition m (BuildTargetHealthPodConditionType tgb) ms ue)"
  have "io_bind (reconcile_network_for_pods m tgb eps) (\<lambda>b.
      io_bind (if ut \<noteq> [] then on_nm_world (deregisterTargets m arn ut) else io_return ()) (\<lambda>_.
      io_bind (if ue \<noteq> [] then on_nm_world (registerPodEndpoints m arn ue) else io_return ()) (\<lambda>_.
      io_bind ?update (finish b)))) (s\<lparr>nmWorld := w2\<rparr>) = (r, s')"
    using run matched list unfolding reconcileWithIPTargetType_def or_cleanup_def resolved arn [symmetric] Let_def
      matchPodEndpointWithTargets_def finish_def [abs_def]
    by (simp add: io_bind_def [of "on_nm_world (ListTargets _ _)"] on_nm_world_def [of "ListTargets _ _"] partitionTargetsByDrainingStatus_def
        cong: if_cong)
  moreover obtain b s3 where 3: "reconcile_network_for_pods m tgb eps (s\<lparr>nmWorld := w2\<rparr>) = (Inr b, s3)"
    using reconcile_network_for_pods_result by blast
  ultimately have run3: "io_bind (if ut \<noteq> [] then on_nm_world (deregisterTargets m arn ut) else io_return ()) (\<lambda>_.
      io_bind (if ue \<noteq> [] then on_nm_world (registerPodEndpoints m arn ue) else io_return ()) (\<lambda>_. io_bind ?update (finish b))) s3 = (r, s')"
    by (simp add: io_bind_def [of "reconcile_network_for_pods _ _ _"])
  have "plain (if ut \<noteq> [] then on_nm_world (deregisterTargets m arn ut) else io_return ())"
    unfolding deregisterTargets_def by (intro plain_if plain_on_nm_world plain_DeregisterTargets [OF plain] plain_return)
  from io_bind_plainD [OF run3 this ok] obtain s4 where
    4: "(if ut \<noteq> [] then on_nm_world (deregisterTargets m arn ut) else io_return ()) s3 = (Inr (), s4)"
    and run4: "io_bind (if ue \<noteq> [] then on_nm_world (registerPodEndpoints m arn ue) else io_return ()) (\<lambda>_. io_bind ?update (finish b)) s4 = (r, s')"
    by auto
  have "plain (if ue \<noteq> [] then on_nm_world (registerPodEndpoints m arn ue) else io_return ())"
    by (intro plain_if plain_on_nm_world plain_registerPodEndpoints [OF plain] plain_return)
  from io_bind_plainD [OF run4 this ok] obtain s5 where
    5: "(if ue \<noteq> [] then on_nm_world (registerPodEndpoints m arn ue) else io_return ()) s4 = (Inr (), s5)"
    and run5: "io_bind ?update (finish b) s5 = (r, s')" by auto
  have keep3: "targets_are m registered arn X w2 \<longrightarrow> targets_are m registered arn X (nmWorld s3)" for X
    using keepsD [OF reconcile_network_for_pods_keeps [OF leaves] 3] by simp
  have "\<exists>ds w5. (\<forall>X. targets_are m registered arn X (nmWorld s4) \<longrightarrow> targets_are m registered arn X w5) \<and>
      (if ds \<noteq> [] then RegisterTargets (rmTargetsManager m) arn ds else io_return ()) w5 = (Inr (), nmWorld s5) \<and>
      UniqueIDForTargetDescription ` set ds = pod_endpoint_uid ` set ue"
    by (rule registered_through [OF leaves 5])
  then obtain ds w5 where look: "\<And>X. targets_are m registered arn X (nmWorld s4) \<longrightarrow> targets_are m registered arn X w5"
    and reg: "(if ds \<noteq> [] then RegisterTargets (rmTargetsManager m) arn ds else io_return ()) w5 = (Inr (), nmWorld s5)"
    and ds: "UniqueIDForTargetDescription ` set ds = pod_endpoint_uid ` set ue" by blast
  have dereg: "(if ut \<noteq> [] then deregisterTargets m arn ut else io_return ()) (nmWorld s3) = (Inr (), nmWorld s4)"
    using 4 by (auto simp: on_nm_world_optional)
  note result = replaced [OF sorted inv list matched keep3 dereg look reg ds]
  have "keeps (preserving (\<lambda>s. targets_are m registered arn X (nmWorld s))) (io_bind ?update (finish b))" for X
    unfolding finish_def by (intro keeps updateTargetHealthPodCondition_keeps leaves_targetsD(5) [OF leaves])
  from keepsD [OF this run5, of "registered (nmWorld s5) arn"] show ?thesis using result by (simp add: targets_are_def)
qed

lemma instance_reconciled:
  assumes sorted: "lists_sorted (rmList m)" and leaves: "leaves_targets m registered arn"
    and arn: "arn = tgbTargetGroupARN (tgbSpec tgb)" and sel: "GetTrafficProxyNodeSelector (rmLabelSelectorAsSelector m) tgb = Inr sel"
    and resolve: "ResolveNodePortEndpoints (rmEndpointResolver m) (buildServiceReferenceKey tgb (tgbServiceRef (tgbSpec tgb)))
      (srPort (tgbServiceRef (tgbSpec tgb))) [WithNodeSelector sel] (nmWorld s) = (Inr eps, w1)"
    and inv: "targets_inv (rmTargetsManager m) registered arn w1"
    and list: "ListTargets (rmTargetsManager m) arn w1 = (Inr ts, w2)"
    and run: "reconcileWithInstanceTargetType m tgb s = (Inr (), s')"
  shows "targets_inv (rmTargetsManager m) registered arn (nmWorld s') \<and> node_endpoint_uid ` set eps \<subseteq> registered (nmWorld s') arn \<and>
     registered (nmWorld s') arn \<subseteq> node_endpoint_uid ` set eps \<union> uid ` {t\<in>set ts. IsDraining t}"
proof -
  obtain ms ue ut where matched: "match_endpoints (rmList m) node_endpoint_uid eps (fst (partitionTargetsByDrainingStatus ts)) = (ms, ue, ut)"
    by (rule prod_cases3)
  have resolved: "on_nm_world (ResolveNodePortEndpoints (rmEndpointResolver m) (buildServiceReferenceKey tgb (tgbServiceRef (tgbSpec tgb)))
      (srPort (tgbServiceRef (tgbSpec tgb))) [WithNodeSelector sel]) s = (Inr eps, s\<lparr>nmWorld := w1\<rparr>)"
    by (simp add: on_nm_world_def resolve)
  let ?ds = "map (\<lambda>e. \<lparr>tdId = Some (npeInstanceID e), tdPort = Some (npePort e), tdAvailabilityZone = None\<rparr>) ue"
  have "io_bind (ReconcileForNodePortEndpoints (rmNetworkingManager m) tgb eps) (\<lambda>_.
      io_bind (if ut \<noteq> [] then on_nm_world (deregisterTargets m arn ut) else io_return ()) (\<lambda>_.
      if ue \<noteq> [] then on_nm_world (registerNodePortEndpoints m arn ue) else io_return ())) (s\<lparr>nmWorld := w2\<rparr>) = (Inr (), s')"
    using run matched list unfolding reconcileWithInstanceTargetType_def or_cleanup_def arn [symmetric] Let_def matchNodePortEndpointWithTargets_def sel
    by (simp add: io_bind_def [of "io_lift _"] io_lift_def resolved io_bind_def [of "on_nm_world (ListTargets _ _)"]
        on_nm_world_def [of "ListTargets _ _"] partitionTargetsByDrainingStatus_def cong: if_cong)
  from io_bind_unitD [OF this] obtain s3 where 3: "ReconcileForNodePortEndpoints (rmNetworkingManager m) tgb eps (s\<lparr>nmWorld := w2\<rparr>) = (Inr (), s3)"
    and run3: "io_bind (if ut \<noteq> [] then on_nm_world (deregisterTargets m arn ut) else io_return ()) (\<lambda>_.
      if ue \<noteq> [] then on_nm_world (registerNodePortEndpoints m arn ue) else io_return ()) s3 = (Inr (), s')" by (elim exE conjE)
  from io_bind_unitD [OF run3] obtain s4 where
    4: "(if ut \<noteq> [] then on_nm_world (deregisterTargets m arn ut) else io_return ()) s3 = (Inr (), s4)"
    and 5: "(if ue \<noteq> [] then on_nm_world (registerNodePortEndpoints m arn ue) else io_return ()) s4 = (Inr (), s')" by (elim exE conjE)
  have keep3: "targets_are m registered arn X w2 \<longrightarrow> targets_are m registered arn X (nmWorld s3)" for X
    using keepsD [OF ReconcileForEndpoints_keeps(2) [OF leaves_targetsD(1,2) [OF leaves]] 3] by simp
  have dereg: "(if ut \<noteq> [] then deregisterTargets m arn ut else io_return ()) (nmWorld s3) = (Inr (), nmWorld s4)"
    using 4 by (auto simp: on_nm_world_optional)
  have reg: "(if ?ds \<noteq> [] then RegisterTargets (rmTargetsManager m) arn ?ds else io_return ()) (nmWorld s4) = (Inr (), nmWorld s')"
    using 5 by (cases "ue = []") (auto simp: on_nm_world_def registerNodePortEndpoints_def io_return_def split: prod.splits)
  have "UniqueIDForTargetDescription ` set ?ds = node_endpoint_uid ` set ue"
    by (auto simp: image_image UniqueIDForTargetDescription_def node_endpoint_uid_def)
  from replaced [OF sorted inv list matched keep3 dereg _ reg this] show ?thesis by simp
qed

text \<open>C3: Reconciling a binding makes the registered targets those it resolves to. Whether it succeeds or
  only asks for another run, afterwards every endpoint of the binding is registered in its
  target group, and every other registered target is one that was draining; the calls to EC2, to
  the API server and the failures of the networking manager do not interfere.\<close>

theorem reconciled_targets_are_endpoints:
  assumes "lists_sorted (rmList m)" "leaves_targets m registered (tgbTargetGroupARN (tgbSpec tgb))" "aws_calls_plain m"
    and "tgbTargetType (tgbSpec tgb) = Some targetType" "resolved_endpoints m tgb (nmWorld s) E w1"
    and "targets_inv (rmTargetsManager m) registered (tgbTargetGroupARN (tgbSpec tgb)) w1"
    and "ListTargets (rmTargetsManager m) (tgbTargetGroupARN (tgbSpec tgb)) w1 = (Inr ts, w2)"
    and "Reconcile m tgb s = (r, s')" "r = Inr () \<or> targetType = TargetTypeIP \<and> (\<exists>e. r = Inl e \<and> is_requeue e)"
  shows "targets_inv (rmTargetsManager m) registered (tgbTargetGroupARN (tgbSpec tgb)) (nmWorld s') \<and>
     E \<subseteq> registered (nmWorld s') (tgbTargetGroupARN (tgbSpec tgb)) \<and>
     registered (nmWorld s') (tgbTargetGroupARN (tgbSpec tgb)) \<subseteq> E \<union> uid ` {t\<in>set ts. IsDraining t}"
proof (cases "targetType = TargetTypeIP")
  case True
  then obtain eps pot where res: "ResolvePodEndpoints (rmEndpointResolver m) (buildServiceReferenceKey tgb (tgbServiceRef (tgbSpec tgb)))
      (srPort (tgbServiceRef (tgbSpec tgb))) [WithPodReadinessGate (BuildTargetHealthPodConditionType tgb)] (nmWorld s) = (Inr (eps, pot), w1)"
    and E: "E = pod_endpoint_uid ` set eps"
    using assms(4,5) by (auto simp: resolved_endpoints_def Let_def)
  have run: "reconcileWithIPTargetType m tgb s = (r, s')" using assms(4,8) True by (simp add: Reconcile_def)
  have "is_requeue e" if "r = Inl e" for e using assms(9) that by auto
  from ip_reconciled [OF assms(1,2,3) refl res assms(6,7) run this] show ?thesis by (simp add: E)
next
  case False
  then obtain sel eps where sel: "GetTrafficProxyNodeSelector (rmLabelSelectorAsSelector m) tgb = Inr sel"
    and res: "ResolveNodePortEndpoints (rmEndpointResolver m) (buildServiceReferenceKey tgb (tgbServiceRef (tgbSpec tgb)))
      (srPort (tgbServiceRef (tgbSpec tgb))) [WithNodeSelector sel] (nmWorld s) = (Inr eps, w1)" and E: "E = node_endpoint_uid ` set eps"
    using assms(4,5) by (auto simp: resolved_endpoints_def Let_def)
  have run: "reconcileWithInstanceTargetType m tgb s = (Inr (), s')" using assms(4,8,9) False by (simp add: Reconcile_def)
  from instance_reconciled [OF assms(1,2) refl sel res assms(6,7) run] show ?thesis by (simp add: E)
qed

section \<open>An example\<close>

text \<open>A service with one ready pod, in a world that keeps the targets in memory.\<close>

definition example_ip_tgb :: TargetGroupBinding where
  "example_ip_tgb = example_tgb\<lparr>tgbSpec := (tgbSpec example_tgb)\<lparr>tgbTargetType := Some TargetTypeIP, tgbNetworking := None\<rparr>\<rparr>"

definition memory_resolver :: "(targets_world, unit) defaultEndpointResolver" where
  "memory_resolver =
     \<lparr>erGetService = \<lambda>_. io_return \<lparr>svcMeta = example_pod_meta ''s'', svcType = ''ClusterIP'', svcPorts = [example_svc_port], svcSelector = [],
        svcLoadBalancerClass = None, svcLoadBalancerSourceRanges = [], svcExternalTrafficPolicy = [], svcHealthCheckNodePort = 0,
        svcIPFamilies = [], svcAllocateLoadBalancerNodePorts = None, svcLoadBalancerIngress = []\<rparr>,
      erGetEndpoints = \<lambda>_. io_return [],
      erListEndpointSlices = \<lambda>_ _. io_return [\<lparr>slicePorts = [\<lparr>eppName = Some ''http'', eppProtocol = None, eppPort = Some 80, eppAppProtocol = None\<rparr>],
        sliceEndpoints = [\<lparr>epAddresses = [''10.0.0.2''], epReady = Some True, epServing = None, epTerminating = None, epHostname = None,
          epTargetRef = Some \<lparr>refKind = ''Pod'', refName = ''p''\<rparr>, epNodeName = None\<rparr>]\<rparr>],
      erListNodes = \<lambda>_. io_return [], erGetNode = \<lambda>_. io_return example_node, erPodInfoRepoGet = \<lambda>_. io_return (Some example_pod),
      erFailOpenEnabled = True, erEndpointSliceEnabled = True, erIsNotFound = (\<lambda>_. False), erError = \<lambda>_. []\<rparr>"

definition memory_nm :: "targets_world defaultNetworkingManager" where
  "memory_nm = \<lparr>nmListTGBs = io_return [], nmPodENIResolve = \<lambda>_. io_return [], nmNodeENIResolve = \<lambda>_. io_return [],
     nmFetchSGInfosByID = \<lambda>_. io_return [], nmFetchSGInfosByRequest = \<lambda>_. io_return [], nmReconcileIngress = \<lambda>_ _ _. io_return (),
     nmVpcID = ''vpc-1'', nmClusterName = ''c'', nmServiceTargetENISGTags = [], nmDisableRestrictedSGRules = False,
     nmSelectorFromSet = \<lambda>_ _. True, nmMarshal = \<lambda>_. [], nmList = sorted_list_of_set, nmInt64List = sorted_list_of_set,
     nmStringOrder = \<lambda>ks. ks, nmNameOrder = \<lambda>ks. ks\<rparr>"

definition memory_manager :: "(targets_world, unit) defaultResourceManager" where
  "memory_manager = \<lparr>rmTargetsManager = memory_targets, rmEndpointResolver = memory_resolver, rmNetworkingManager = memory_nm,
     rmVPCInfoProvider = \<lparr>DescribeVpcsWithContext = \<lambda>_. io_return [\<lparr>vpcCidrBlockAssociationSet =
         [\<lparr>cbaCidrBlock = Some ''10.0.0.0/16'', cbaState = Some ''associated''\<rparr>], vpcIpv6CidrBlockAssociationSet = []\<rparr>],
       vpcInfoCacheGet = \<lambda>_ _. None, vpcInfoCacheSet = \<lambda>_ _ w. w\<rparr>,
     rmVpcID = ''vpc-1'', rmPodListKeys = \<lambda>_. [], rmPodInfoRepoGet = \<lambda>_. io_return None, rmPatchPodStatus = \<lambda>_ _. io_return (),
     rmEvent = \<lambda>_ _ _ w. w, rmNow = \<lambda>_. 0, rmIsNotFound = \<lambda>_. False, rmErrorText = \<lambda>_. [],
     rmLabelSelectorAsSelector = \<lambda>_. Inr (Selector []), rmList = sorted_list_of_set,
     targetHealthRequeueDuration = defaultTargetHealthRequeueDuration\<rparr>"

lemma memory_manager_laws:
  "lists_sorted (rmList memory_manager)" "leaves_targets memory_manager tw_registered arn" "aws_calls_plain memory_manager"
  unfolding leaves_targets_def aws_calls_plain_def Let_def
  by (auto simp: memory_manager_def sorted_list_of_set_lists_sorted nm_calls_keep_def memory_nm_def keeps_def io_return_def plain_def
      memory_targets_def defaultRegisterTargetsChunkSize_def defaultDeregisterTargetsChunkSize_def)

theorem reconciled_targets_are_endpoints_witness:
  "\<exists>s'. Reconcile memory_manager example_ip_tgb (NewDefaultNetworkingManager_state example_targets_world) = (Inr (), s') \<and>
     tw_registered (nmWorld s') ''arn'' = {''10.0.0.2:80''}"
proof -
  let ?s = "NewDefaultNetworkingManager_state example_targets_world"
  have tgb: "tgbTargetGroupARN (tgbSpec example_ip_tgb) = ''arn''" "tgbTargetType (tgbSpec example_ip_tgb) = Some TargetTypeIP"
    by (simp_all add: example_ip_tgb_def example_tgb_def)
  have eps: "ResolvePodEndpoints memory_resolver (buildServiceReferenceKey example_ip_tgb (tgbServiceRef (tgbSpec example_ip_tgb)))
      (srPort (tgbServiceRef (tgbSpec example_ip_tgb))) [WithPodReadinessGate (BuildTargetHealthPodConditionType example_ip_tgb)] w =
      (Inr ([\<lparr>peIP = ''10.0.0.2'', pePort = 80, pePod = example_pod\<rparr>], False), w)" for w
    by (simp add: ResolvePodEndpoints_def memory_resolver_def example_ip_tgb_def example_tgb_def findServiceAndServicePort_def io_return_def
        LookupServicePort_def example_svc_port_def computeServiceEndpointsData_def buildEndpointsDataFromEndpointSliceList_def io_bind_def
        resolvePodEndpointsWithEndpointsData_def resolve_pod_endpoint_def buildPodEndpoint_def Let_def)
  have "pod_endpoint_uid \<lparr>peIP = ''10.0.0.2'', pePort = 80, pePod = example_pod\<rparr> = ''10.0.0.2:80''" by code_simp
  then have resolved: "resolved_endpoints memory_manager example_ip_tgb (nmWorld ?s) {''10.0.0.2:80''} (nmWorld ?s)"
    unfolding resolved_endpoints_def Let_def using eps [of "nmWorld ?s"] tgb(2) by (auto simp: memory_manager_def)
  have w: "nmWorld ?s = example_targets_world" by (simp add: NewDefaultNetworkingManager_state_def)
  have list: "ListTargets memory_targets ''arn'' example_targets_world =
      (Inr [\<lparr>tiTarget = example_target ''10.0.0.1'', tiTargetHealth = Some \<lparr>thState = Some ''healthy'', thReason = None, thDescription = None\<rparr>\<rparr>],
       example_targets_world\<lparr>twCache := (\<lambda>_. None)(''arn'' := Some
         [\<lparr>tiTarget = example_target ''10.0.0.1'', tiTargetHealth = Some \<lparr>thState = Some ''healthy'', thReason = None, thDescription = None\<rparr>\<rparr>])\<rparr>)"
    by (simp add: ListTargets_def memory_targets_def example_targets_world_def refreshAllTargets_def listTargetsFromAWS_def io_bind_def io_return_def
        index_by_def tw_health_def tw_registered_def)
  have "isl (fst (Reconcile memory_manager example_ip_tgb ?s)) = False" by code_simp
  moreover obtain r s' where run: "Reconcile memory_manager example_ip_tgb ?s = (r, s')" by (rule prod.exhaust)
  ultimately have r: "r = Inr ()" by (cases r) auto
  have mm: "rmTargetsManager memory_manager = memory_targets" by (simp add: memory_manager_def)
  have inv: "targets_inv (rmTargetsManager memory_manager) tw_registered (tgbTargetGroupARN (tgbSpec example_ip_tgb)) (nmWorld ?s)"
    unfolding mm w by (rule example_targets_inv)
  note result = reconciled_targets_are_endpoints [OF memory_manager_laws tgb(2) resolved inv _ run]
  have "\<exists>t w2. \<not> IsDraining t \<and> ListTargets (rmTargetsManager memory_manager) (tgbTargetGroupARN (tgbSpec example_ip_tgb)) (nmWorld ?s) = (Inr [t], w2)"
    unfolding mm w tgb(1) list by (simp add: IsDraining_def)
  then obtain t w2 where t: "\<not> IsDraining t" "ListTargets (rmTargetsManager memory_manager) (tgbTargetGroupARN (tgbSpec example_ip_tgb)) (nmWorld ?s) = (Inr [t], w2)"
    by (elim exE conjE)
  from result [OF t(2)] have "{''10.0.0.2:80''} \<subseteq> tw_registered (nmWorld s') ''arn''" "tw_registered (nmWorld s') ''arn'' \<subseteq> {''10.0.0.2:80''}"
    using r t(1) by (auto simp: tgb(1))
  then show ?thesis using run r by blast
qed

end
