(* ===== verification/Build_Task.thy ===== *)
theory Build_Task
  imports Core_Stack Effects Go_Strings
begin

text \<open>
  What the model builders for services and for ingress groups share: the fields of a build task that both
  change while they run (\<^verbatim>\<open>defaultModelBuildTask\<close> of \<^verbatim>\<open>pkg/service\<close> and of \<^verbatim>\<open>pkg/ingress\<close>), the calls into the
  world, the task and the stack, and how a stack grows.
\<close>

section \<open>Tasks\<close>

record build_task =
  tModel :: model_state
  tLoadBalancer :: "ref option"
  tTgByResID :: "(string, ref) gomap"
  tBackendSGIDToken :: "StringToken option"
  tBackendSGAllocated :: bool

text \<open>Calls into the other components, and the effects on the task.\<close>

definition in_world :: "('w, 'a) io \<Rightarrow> ('w \<times> 't, 'a) io" where
  "in_world m wt = (case m (fst wt) of (r, w') \<Rightarrow> (r, (w', snd wt)))"

definition get_task :: "('w \<times> 't, 't) io" where
  "get_task wt = (Inr (snd wt), wt)"

definition modify_task :: "('t \<Rightarrow> 't) \<Rightarrow> ('w \<times> 't, unit) io" where
  "modify_task f wt = (Inr (), (fst wt, f (snd wt)))"

definition on_model :: "(model_state \<Rightarrow> 'a \<times> model_state) \<Rightarrow> ('w \<times> 'e build_task_scheme, 'a) io" where
  "on_model f wt = (case f (tModel (snd wt)) of (x, s) \<Rightarrow> (Inr x, (fst wt, (snd wt)\<lparr>tModel := s\<rparr>)))"

text \<open>The load balancer built before; without one, a nil pointer is dereferenced.\<close>

definition task_lb_spec :: "'e build_task_scheme \<Rightarrow> LoadBalancerSpec result" where
  "task_lb_spec t =
     (case tLoadBalancer t of
        None \<Rightarrow> Inl (Errorf ''invalid memory address or nil pointer dereference'' [])
      | Some r \<Rightarrow> result_bind (deref (tModel t) r) (\<lambda>res.
          case res of LoadBalancer _ spec _ \<Rightarrow> Inr spec | _ \<Rightarrow> Inl (Errorf ''unexpected resource'' [])))"

section \<open>Parts that do not touch the stack\<close>

definition same_model :: "'w \<times> 'e build_task_scheme \<Rightarrow> 'w \<times> 'e build_task_scheme \<Rightarrow> bool" where
  "same_model wt wt' \<longleftrightarrow> tModel (snd wt') = tModel (snd wt) \<and> tLoadBalancer (snd wt') = tLoadBalancer (snd wt) \<and>
     tTgByResID (snd wt') = tTgByResID (snd wt)"

interpretation sm: effect_preorder same_model
  by unfold_locales (auto simp: same_model_def)

lemma in_world_same [keeps]: "keeps same_model (in_world m)"
  by (auto simp: keeps_def in_world_def same_model_def split: prod.splits)

lemma get_task_same [keeps]: "keeps same_model get_task"
  by (auto simp: keeps_def get_task_def same_model_def)

lemma modify_task_same [keeps]:
  "(\<And>t. tModel (f t) = tModel t \<and> tLoadBalancer (f t) = tLoadBalancer t \<and> tTgByResID (f t) = tTgByResID t) \<Longrightarrow>
     keeps same_model (modify_task f)"
  by (auto simp: keeps_def modify_task_def same_model_def)

section \<open>Growing stacks\<close>

abbreviation uids :: "model_state \<Rightarrow> ResourceUID set" where
  "uids s \<equiv> computeResourceUID ` set (heap s)"

lemma built_new:
  assumes b: "stack_built sid s" and fresh: "computeResourceUID res \<notin> uids s"
    and deps: "\<forall>d\<in>set (dep_refs res). d < length (heap s)"
  shows "stack_built sid (snd (new_resource res s))" "heap (snd (new_resource res s)) = heap s @ [res]"
    "fst (new_resource res s) = length (heap s)"
proof -
  have ok: "stack_ok s" by (rule stack_built_ok [OF b])
  have "map_of (resources (stack s)) (computeResourceUID res) = None"
    using ok fresh by (force simp: stack_ok_def map_of_eq_None_iff)
  then show "stack_built sid (snd (new_resource res s))" "heap (snd (new_resource res s)) = heap s @ [res]"
    using stack_built.new [OF b _ deps] new_resource_fresh(1) [OF ok _ deps] by blast+
  show "fst (new_resource res s) = length (heap s)" by (simp add: new_resource_def Let_def)
qed

lemma on_model_run:
  "on_model f wt = (r, wt') \<longleftrightarrow>
     r = Inr (fst (f (tModel (snd wt)))) \<and> wt' = (fst wt, (snd wt)\<lparr>tModel := snd (f (tModel (snd wt)))\<rparr>)"
  by (auto simp: on_model_def split: prod.splits)

text \<open>A new resource, and the reference to it.\<close>

lemma on_model_new:
  assumes run: "on_model (new_resource res) wt = (Inr r, wt')" and b: "stack_built sid (tModel (snd wt))"
    and fresh: "computeResourceUID res \<notin> uids (tModel (snd wt))"
    and deps: "\<forall>d\<in>set (dep_refs res). d < length (heap (tModel (snd wt)))"
  shows "stack_built sid (tModel (snd wt')) \<and> heap (tModel (snd wt')) = heap (tModel (snd wt)) @ [res] \<and>
    r = length (heap (tModel (snd wt))) \<and> snd wt' = (snd wt)\<lparr>tModel := tModel (snd wt')\<rparr>"
  using run built_new [OF b fresh deps] by (auto simp: on_model_run)

lemma heap_new_resource: "heap (snd (new_resource res s)) = heap s @ [res]"
proof -
  have "heap (ignore_error (AddResource r) s') = heap s'" for r s'
    by (simp add: ignore_error_def AddResource_def Let_def split: sum.splits option.splits)
  moreover have "heap (fold (\<lambda>dep. ignore_error (AddDependency dep r)) ds s') = heap s'" for r ds s'
    by (induction ds arbitrary: s') (simp_all add: ignore_error_def AddDependency_def Let_def split: sum.splits)
  ultimately show ?thesis by (simp add: new_resource_def Let_def registerDependencies_def)
qed

lemma on_model_new_run:
  "on_model (new_resource res) wt =
     (Inr (length (heap (tModel (snd wt)))), (fst wt, (snd wt)\<lparr>tModel := snd (new_resource res (tModel (snd wt)))\<rparr>))"
  by (simp add: on_model_def new_resource_def Let_def)

lemma on_model_new_resource:
  "on_model (new_resource res) wt = (Inr (length (heap (tModel (snd wt)))),
     (fst wt, (snd wt)\<lparr>tModel := \<lparr>heap = heap (tModel (snd wt)) @ [res], stack = stack (snd (new_resource res (tModel (snd wt))))\<rparr>\<rparr>))"
proof -
  have "fst (new_resource res s) = length (heap s)" for s by (simp add: new_resource_def Let_def)
  moreover have "snd (new_resource res s) = \<lparr>heap = heap s @ [res], stack = stack (snd (new_resource res s))\<rparr>" for s
    by (metis heap_new_resource model_state.surjective old.unit.exhaust)
  ultimately show ?thesis by (simp add: on_model_def case_prod_beta)
qed

definition managed_sg :: "Resource \<Rightarrow> bool" where
  "managed_sg res \<longleftrightarrow> (\<exists>spec. res = SecurityGroup \<lparr>resType = ''AWS::EC2::SecurityGroup'', resID = ''ManagedLBSecurityGroup''\<rparr> spec None)"

lemma io_bind_same:
  assumes "keeps same_model m" "io_bind m f wt = (Inr y, wt'')"
  shows "\<exists>x wt'. m wt = (Inr x, wt') \<and> f x wt' = (Inr y, wt'') \<and> same_model wt wt'"
  using io_bind_InrD [OF assms(2)] keepsD [OF assms(1)] by blast

definition tokens_bound :: "StringToken list \<Rightarrow> model_state \<Rightarrow> bool" where
  "tokens_bound toks s \<longleftrightarrow> (\<forall>d\<in>set (concat (map Dependencies toks)). d < length (heap s))"

lemma tokens_bound_literals: "tokens_bound (map LiteralStringToken ids) s"
  by (auto simp: tokens_bound_def)

section \<open>Security groups and the load balancer\<close>

text \<open>A stack that has at most the managed security group, and tokens of security groups it may be built with.\<close>

definition sgs_done :: "StackID \<Rightarrow> 'w \<times> 'e build_task_scheme \<Rightarrow> 'w \<times> 'e build_task_scheme \<Rightarrow> StringToken list \<Rightarrow> bool" where
  "sgs_done sid wt wt' toks \<longleftrightarrow> stack_built sid (tModel (snd wt')) \<and> tokens_bound toks (tModel (snd wt')) \<and>
    length (heap (tModel (snd wt'))) \<le> 1 \<and> (\<forall>res\<in>set (heap (tModel (snd wt'))). managed_sg res) \<and>
    tTgByResID (snd wt') = tTgByResID (snd wt)"

lemma sgs_done_same:
  assumes "stack_built sid (tModel (snd wt))" "heap (tModel (snd wt)) = []"
    and "same_model wt wt1" "tokens_bound toks (tModel (snd wt1))"
  shows "sgs_done sid wt wt1 toks"
  using assms by (auto simp: sgs_done_def same_model_def)

lemma sgs_done_more:
  assumes "sgs_done sid wt wt1 toks" "same_model wt1 wt2" "set toks' \<subseteq> set toks \<union> range LiteralStringToken"
  shows "sgs_done sid wt wt2 toks'"
proof -
  have "tokens_bound toks' (tModel (snd wt1))"
    using assms(1,3) by (fastforce simp: sgs_done_def tokens_bound_def)
  then show ?thesis using assms(1,2) by (simp add: sgs_done_def same_model_def)
qed

lemma managed_sg_added:
  assumes new: "on_model (NewSecurityGroup ''ManagedLBSecurityGroup'' spec) wt = (Inr sg, wt1)"
    and b: "stack_built sid (tModel (snd wt))" and empty: "heap (tModel (snd wt)) = []"
  shows "sgs_done sid wt wt1 [GroupID_token sg]"
proof -
  have n: "stack_built sid (tModel (snd wt1)) \<and> heap (tModel (snd wt1)) =
      [SecurityGroup \<lparr>resType = ''AWS::EC2::SecurityGroup'', resID = ''ManagedLBSecurityGroup''\<rparr> spec None] \<and>
      sg = 0 \<and> snd wt1 = (snd wt)\<lparr>tModel := tModel (snd wt1)\<rparr>"
    using on_model_new [OF new [unfolded NewSecurityGroup_def] b] by (simp add: empty)
  have "tTgByResID (snd wt1) = tTgByResID (snd wt)"
    using arg_cong [OF n [THEN conjunct2, THEN conjunct2, THEN conjunct2], of tTgByResID] by simp
  then show ?thesis using n by (auto simp: sgs_done_def tokens_bound_def GroupID_token_def managed_sg_def)
qed

abbreviation lb_meta :: ResourceMeta where
  "lb_meta \<equiv> \<lparr>resType = ''AWS::ElasticLoadBalancingV2::LoadBalancer'', resID = ''LoadBalancer''\<rparr>"

lemma lb_added:
  assumes S: "sgs_done sid wt wt2 (lbSecurityGroups spec)"
    and new: "on_model (NewLoadBalancer ''LoadBalancer'' spec) wt2 = (Inr lb, wt3)"
  shows "stack_built sid (tModel (snd wt3)) \<and> heap (tModel (snd wt3)) = heap (tModel (snd wt2)) @ [LoadBalancer lb_meta spec None] \<and>
    lb = length (heap (tModel (snd wt2))) \<and> tTgByResID (snd wt3) = tTgByResID (snd wt)"
proof -
  let ?s2 = "tModel (snd wt2)" and ?res = "LoadBalancer lb_meta spec None"
  have fresh: "computeResourceUID ?res \<notin> uids ?s2"
    using S by (auto simp: sgs_done_def managed_sg_def computeResourceUID_def)
  have deps: "\<forall>d\<in>set (dep_refs ?res). d < length (heap ?s2)"
    using S by (auto simp: sgs_done_def tokens_bound_def)
  have sb: "stack_built sid ?s2" using S by (simp add: sgs_done_def)
  have n: "stack_built sid (tModel (snd wt3)) \<and> heap (tModel (snd wt3)) = heap ?s2 @ [?res] \<and>
      lb = length (heap ?s2) \<and> snd wt3 = (snd wt2)\<lparr>tModel := tModel (snd wt3)\<rparr>"
    by (rule on_model_new [OF new [unfolded NewLoadBalancer_def] sb fresh deps])
  have "tTgByResID (snd wt3) = tTgByResID (snd wt2)"
    using arg_cong [OF n [THEN conjunct2, THEN conjunct2, THEN conjunct2], of tTgByResID] by simp
  then show ?thesis using n S by (simp add: sgs_done_def)
qed

abbreviation tg_meta :: "string \<Rightarrow> ResourceMeta" where
  "tg_meta rid \<equiv> \<lparr>resType = ''AWS::ElasticLoadBalancingV2::TargetGroup'', resID = rid\<rparr>"

abbreviation tgb_meta :: "string \<Rightarrow> ResourceMeta" where
  "tgb_meta rid \<equiv> \<lparr>resType = ''K8S::ElasticLoadBalancingV2::TargetGroupBinding'', resID = rid\<rparr>"

abbreviation ls_meta :: "string \<Rightarrow> ResourceMeta" where
  "ls_meta rid \<equiv> \<lparr>resType = ''AWS::ElasticLoadBalancingV2::Listener'', resID = rid\<rparr>"

end
