(* ===== verification/Annotations.thy ===== *)
theory Annotations
  imports Go_Strings Algorithm
begin

text \<open>
  Package \<^verbatim>\<open>pkg/annotations\<close>: the keys of the annotations the controller reads (\<^verbatim>\<open>constants.go\<close>) and the parser
  that finds an annotation by its suffix and turns its text into a value (\<^verbatim>\<open>parser.go\<close>). A method of the
  source writes through a pointer and returns whether the annotation exists; here it returns \<open>None\<close> when
  the annotation does not exist and the value otherwise, so that the caller's variable keeps its
  previous value exactly when the result is \<open>None\<close>. The JSON decoder is a parameter.
\<close>

section \<open>Keys\<close>

definition IngressClassKey :: string where "IngressClassKey = ''kubernetes.io/ingress.class''"

definition AnnotationPrefixIngress :: string where "AnnotationPrefixIngress = ''alb.ingress.kubernetes.io''"

definition IngressSuffixLoadBalancerName :: string where "IngressSuffixLoadBalancerName = ''load-balancer-name''"

definition IngressSuffixGroupName :: string where "IngressSuffixGroupName = ''group.name''"

definition IngressSuffixGroupOrder :: string where "IngressSuffixGroupOrder = ''group.order''"

definition IngressSuffixTags :: string where "IngressSuffixTags = ''tags''"

definition IngressSuffixIPAddressType :: string where "IngressSuffixIPAddressType = ''ip-address-type''"

definition IngressSuffixScheme :: string where "IngressSuffixScheme = ''scheme''"

definition IngressSuffixSubnets :: string where "IngressSuffixSubnets = ''subnets''"

definition IngressSuffixCustomerOwnedIPv4Pool :: string where "IngressSuffixCustomerOwnedIPv4Pool = ''customer-owned-ipv4-pool''"

definition IngressSuffixLoadBalancerAttributes :: string where "IngressSuffixLoadBalancerAttributes = ''load-balancer-attributes''"

definition IngressSuffixWAFv2ACLARN :: string where "IngressSuffixWAFv2ACLARN = ''wafv2-acl-arn''"

definition IngressSuffixWAFACLID :: string where "IngressSuffixWAFACLID = ''waf-acl-id''"

definition IngressSuffixWebACLID :: string where "IngressSuffixWebACLID = ''web-acl-id''"

definition IngressSuffixShieldAdvancedProtection :: string where "IngressSuffixShieldAdvancedProtection = ''shield-advanced-protection''"

definition IngressSuffixSecurityGroups :: string where "IngressSuffixSecurityGroups = ''security-groups''"

definition IngressSuffixListenPorts :: string where "IngressSuffixListenPorts = ''listen-ports''"

definition IngressSuffixSSLRedirect :: string where "IngressSuffixSSLRedirect = ''ssl-redirect''"

definition IngressSuffixInboundCIDRs :: string where "IngressSuffixInboundCIDRs = ''inbound-cidrs''"

definition IngressSuffixCertificateARN :: string where "IngressSuffixCertificateARN = ''certificate-arn''"

definition IngressSuffixSSLPolicy :: string where "IngressSuffixSSLPolicy = ''ssl-policy''"

definition IngressSuffixTargetType :: string where "IngressSuffixTargetType = ''target-type''"

definition IngressSuffixBackendProtocol :: string where "IngressSuffixBackendProtocol = ''backend-protocol''"

definition IngressSuffixBackendProtocolVersion :: string where "IngressSuffixBackendProtocolVersion = ''backend-protocol-version''"

definition IngressSuffixTargetGroupAttributes :: string where "IngressSuffixTargetGroupAttributes = ''target-group-attributes''"

definition IngressSuffixHealthCheckPort :: string where "IngressSuffixHealthCheckPort = ''healthcheck-port''"

definition IngressSuffixHealthCheckProtocol :: string where "IngressSuffixHealthCheckProtocol = ''healthcheck-protocol''"

definition IngressSuffixHealthCheckPath :: string where "IngressSuffixHealthCheckPath = ''healthcheck-path''"

definition IngressSuffixHealthCheckIntervalSeconds :: string where "IngressSuffixHealthCheckIntervalSeconds = ''healthcheck-interval-seconds''"

definition IngressSuffixHealthCheckTimeoutSeconds :: string where "IngressSuffixHealthCheckTimeoutSeconds = ''healthcheck-timeout-seconds''"

definition IngressSuffixHealthyThresholdCount :: string where "IngressSuffixHealthyThresholdCount = ''healthy-threshold-count''"

definition IngressSuffixUnhealthyThresholdCount :: string where "IngressSuffixUnhealthyThresholdCount = ''unhealthy-threshold-count''"

definition IngressSuffixSuccessCodes :: string where "IngressSuffixSuccessCodes = ''success-codes''"

definition IngressSuffixAuthType :: string where "IngressSuffixAuthType = ''auth-type''"

definition IngressSuffixAuthIDPCognito :: string where "IngressSuffixAuthIDPCognito = ''auth-idp-cognito''"

definition IngressSuffixAuthIDPOIDC :: string where "IngressSuffixAuthIDPOIDC = ''auth-idp-oidc''"

definition IngressSuffixAuthOnUnauthenticatedRequest :: string where "IngressSuffixAuthOnUnauthenticatedRequest = ''auth-on-unauthenticated-request''"

definition IngressSuffixAuthScope :: string where "IngressSuffixAuthScope = ''auth-scope''"

definition IngressSuffixAuthSessionCookie :: string where "IngressSuffixAuthSessionCookie = ''auth-session-cookie''"

definition IngressSuffixAuthSessionTimeout :: string where "IngressSuffixAuthSessionTimeout = ''auth-session-timeout''"

definition IngressSuffixTargetNodeLabels :: string where "IngressSuffixTargetNodeLabels = ''target-node-labels''"

definition IngressSuffixManageSecurityGroupRules :: string where "IngressSuffixManageSecurityGroupRules = ''manage-backend-security-group-rules''"

definition SvcLBSuffixSourceRanges :: string where "SvcLBSuffixSourceRanges = ''load-balancer-source-ranges''"

definition SvcLBSuffixLoadBalancerType :: string where "SvcLBSuffixLoadBalancerType = ''aws-load-balancer-type''"

definition SvcLBSuffixTargetType :: string where "SvcLBSuffixTargetType = ''aws-load-balancer-nlb-target-type''"

definition SvcLBSuffixLoadBalancerName :: string where "SvcLBSuffixLoadBalancerName = ''aws-load-balancer-name''"

definition SvcLBSuffixScheme :: string where "SvcLBSuffixScheme = ''aws-load-balancer-scheme''"

definition SvcLBSuffixInternal :: string where "SvcLBSuffixInternal = ''aws-load-balancer-internal''"

definition SvcLBSuffixProxyProtocol :: string where "SvcLBSuffixProxyProtocol = ''aws-load-balancer-proxy-protocol''"

definition SvcLBSuffixIPAddressType :: string where "SvcLBSuffixIPAddressType = ''aws-load-balancer-ip-address-type''"

definition SvcLBSuffixAccessLogEnabled :: string where "SvcLBSuffixAccessLogEnabled = ''aws-load-balancer-access-log-enabled''"

definition SvcLBSuffixAccessLogS3BucketName :: string where "SvcLBSuffixAccessLogS3BucketName = ''aws-load-balancer-access-log-s3-bucket-name''"

definition SvcLBSuffixAccessLogS3BucketPrefix :: string where "SvcLBSuffixAccessLogS3BucketPrefix = ''aws-load-balancer-access-log-s3-bucket-prefix''"

definition SvcLBSuffixCrossZoneLoadBalancingEnabled :: string where "SvcLBSuffixCrossZoneLoadBalancingEnabled = ''aws-load-balancer-cross-zone-load-balancing-enabled''"

definition SvcLBSuffixSSLCertificate :: string where "SvcLBSuffixSSLCertificate = ''aws-load-balancer-ssl-cert''"

definition SvcLBSuffixSSLPorts :: string where "SvcLBSuffixSSLPorts = ''aws-load-balancer-ssl-ports''"

definition SvcLBSuffixSSLNegotiationPolicy :: string where "SvcLBSuffixSSLNegotiationPolicy = ''aws-load-balancer-ssl-negotiation-policy''"

definition SvcLBSuffixBEProtocol :: string where "SvcLBSuffixBEProtocol = ''aws-load-balancer-backend-protocol''"

definition SvcLBSuffixAdditionalTags :: string where "SvcLBSuffixAdditionalTags = ''aws-load-balancer-additional-resource-tags''"

definition SvcLBSuffixHCHealthyThreshold :: string where "SvcLBSuffixHCHealthyThreshold = ''aws-load-balancer-healthcheck-healthy-threshold''"

definition SvcLBSuffixHCUnhealthyThreshold :: string where "SvcLBSuffixHCUnhealthyThreshold = ''aws-load-balancer-healthcheck-unhealthy-threshold''"

definition SvcLBSuffixHCTimeout :: string where "SvcLBSuffixHCTimeout = ''aws-load-balancer-healthcheck-timeout''"

definition SvcLBSuffixHCInterval :: string where "SvcLBSuffixHCInterval = ''aws-load-balancer-healthcheck-interval''"

definition SvcLBSuffixHCProtocol :: string where "SvcLBSuffixHCProtocol = ''aws-load-balancer-healthcheck-protocol''"

definition SvcLBSuffixHCPort :: string where "SvcLBSuffixHCPort = ''aws-load-balancer-healthcheck-port''"

definition SvcLBSuffixHCPath :: string where "SvcLBSuffixHCPath = ''aws-load-balancer-healthcheck-path''"

definition SvcLBSuffixHCSuccessCodes :: string where "SvcLBSuffixHCSuccessCodes = ''aws-load-balancer-healthcheck-success-codes''"

definition SvcLBSuffixTargetGroupAttributes :: string where "SvcLBSuffixTargetGroupAttributes = ''aws-load-balancer-target-group-attributes''"

definition SvcLBSuffixSubnets :: string where "SvcLBSuffixSubnets = ''aws-load-balancer-subnets''"

definition SvcLBSuffixEIPAllocations :: string where "SvcLBSuffixEIPAllocations = ''aws-load-balancer-eip-allocations''"

definition SvcLBSuffixPrivateIpv4Addresses :: string where "SvcLBSuffixPrivateIpv4Addresses = ''aws-load-balancer-private-ipv4-addresses''"

definition SvcLBSuffixIpv6Addresses :: string where "SvcLBSuffixIpv6Addresses = ''aws-load-balancer-ipv6-addresses''"

definition SvcLBSuffixALPNPolicy :: string where "SvcLBSuffixALPNPolicy = ''aws-load-balancer-alpn-policy''"

definition SvcLBSuffixTargetNodeLabels :: string where "SvcLBSuffixTargetNodeLabels = ''aws-load-balancer-target-node-labels''"

definition SvcLBSuffixLoadBalancerAttributes :: string where "SvcLBSuffixLoadBalancerAttributes = ''aws-load-balancer-attributes''"

definition SvcLBSuffixLoadBalancerSecurityGroups :: string where "SvcLBSuffixLoadBalancerSecurityGroups = ''aws-load-balancer-security-groups''"

definition SvcLBSuffixManageSGRules :: string where "SvcLBSuffixManageSGRules = ''aws-load-balancer-manage-backend-security-group-rules''"

lemmas ingress_suffix_defs =
  IngressClassKey_def IngressSuffixLoadBalancerName_def IngressSuffixGroupName_def
  IngressSuffixGroupOrder_def IngressSuffixTags_def IngressSuffixIPAddressType_def
  IngressSuffixScheme_def IngressSuffixSubnets_def IngressSuffixCustomerOwnedIPv4Pool_def
  IngressSuffixLoadBalancerAttributes_def IngressSuffixWAFv2ACLARN_def IngressSuffixWAFACLID_def
  IngressSuffixWebACLID_def IngressSuffixShieldAdvancedProtection_def
  IngressSuffixSecurityGroups_def IngressSuffixListenPorts_def IngressSuffixSSLRedirect_def
  IngressSuffixInboundCIDRs_def IngressSuffixCertificateARN_def IngressSuffixSSLPolicy_def
  IngressSuffixTargetType_def IngressSuffixBackendProtocol_def
  IngressSuffixBackendProtocolVersion_def IngressSuffixTargetGroupAttributes_def
  IngressSuffixHealthCheckPort_def IngressSuffixHealthCheckProtocol_def
  IngressSuffixHealthCheckPath_def IngressSuffixHealthCheckIntervalSeconds_def
  IngressSuffixHealthCheckTimeoutSeconds_def IngressSuffixHealthyThresholdCount_def
  IngressSuffixUnhealthyThresholdCount_def IngressSuffixSuccessCodes_def IngressSuffixAuthType_def
  IngressSuffixAuthIDPCognito_def IngressSuffixAuthIDPOIDC_def
  IngressSuffixAuthOnUnauthenticatedRequest_def IngressSuffixAuthScope_def
  IngressSuffixAuthSessionCookie_def IngressSuffixAuthSessionTimeout_def
  IngressSuffixTargetNodeLabels_def IngressSuffixManageSecurityGroupRules_def

lemmas service_suffix_defs =
  SvcLBSuffixSourceRanges_def SvcLBSuffixLoadBalancerType_def SvcLBSuffixTargetType_def
  SvcLBSuffixLoadBalancerName_def SvcLBSuffixScheme_def SvcLBSuffixInternal_def
  SvcLBSuffixProxyProtocol_def SvcLBSuffixIPAddressType_def SvcLBSuffixAccessLogEnabled_def
  SvcLBSuffixAccessLogS3BucketName_def SvcLBSuffixAccessLogS3BucketPrefix_def
  SvcLBSuffixCrossZoneLoadBalancingEnabled_def SvcLBSuffixSSLCertificate_def SvcLBSuffixSSLPorts_def
  SvcLBSuffixSSLNegotiationPolicy_def SvcLBSuffixBEProtocol_def SvcLBSuffixAdditionalTags_def
  SvcLBSuffixHCHealthyThreshold_def SvcLBSuffixHCUnhealthyThreshold_def SvcLBSuffixHCTimeout_def
  SvcLBSuffixHCInterval_def SvcLBSuffixHCProtocol_def SvcLBSuffixHCPort_def SvcLBSuffixHCPath_def
  SvcLBSuffixHCSuccessCodes_def SvcLBSuffixTargetGroupAttributes_def SvcLBSuffixSubnets_def
  SvcLBSuffixEIPAllocations_def SvcLBSuffixPrivateIpv4Addresses_def SvcLBSuffixIpv6Addresses_def
  SvcLBSuffixALPNPolicy_def SvcLBSuffixTargetNodeLabels_def SvcLBSuffixLoadBalancerAttributes_def
  SvcLBSuffixLoadBalancerSecurityGroups_def SvcLBSuffixManageSGRules_def

section \<open>The parser\<close>

record ParseOptions =
  exact :: bool
  alternativePrefixes :: "string list"

datatype ParseOption = WithExact | WithAlternativePrefixes "string list"

fun apply_parse_option :: "ParseOption \<Rightarrow> ParseOptions \<Rightarrow> ParseOptions" where
  "apply_parse_option WithExact opts = opts\<lparr>exact := True\<rparr>"
| "apply_parse_option (WithAlternativePrefixes prefixes) opts =
     opts\<lparr>alternativePrefixes := alternativePrefixes opts @ prefixes\<rparr>"

record suffixAnnotationParser =
  annotationPrefix :: string

definition buildAnnotationKeys :: "suffixAnnotationParser \<Rightarrow> string \<Rightarrow> ParseOption list \<Rightarrow> string list" where
  "buildAnnotationKeys p suffix opts =
     (let parseOpts = fold apply_parse_option opts \<lparr>exact = False, alternativePrefixes = []\<rparr> in
      if exact parseOpts then [suffix]
      else (annotationPrefix p @ ''/'' @ suffix) # map (\<lambda>pfx. pfx @ ''/'' @ suffix) (alternativePrefixes parseOpts))"

fun first_annotation :: "string_map \<Rightarrow> string list \<Rightarrow> (string \<times> string) option" where
  "first_annotation annotations [] = None"
| "first_annotation annotations (key # keys) =
     (case map_of annotations key of
        Some raw \<Rightarrow> Some (raw, key)
      | None \<Rightarrow> first_annotation annotations keys)"

text \<open>The value and the key it was found under.\<close>

definition parseStringAnnotation ::
  "suffixAnnotationParser \<Rightarrow> string \<Rightarrow> string_map \<Rightarrow> ParseOption list \<Rightarrow> (string \<times> string) option" where
  "parseStringAnnotation p annotation annotations opts =
     first_annotation annotations (buildAnnotationKeys p annotation opts)"

definition ParseStringAnnotation ::
  "suffixAnnotationParser \<Rightarrow> string \<Rightarrow> string_map \<Rightarrow> ParseOption list \<Rightarrow> string option" where
  "ParseStringAnnotation p annotation annotations opts =
     map_option fst (parseStringAnnotation p annotation annotations opts)"

definition ParseBoolAnnotation ::
  "suffixAnnotationParser \<Rightarrow> string \<Rightarrow> string_map \<Rightarrow> ParseOption list \<Rightarrow> bool option result" where
  "ParseBoolAnnotation p annotation annotations opts =
     (case parseStringAnnotation p annotation annotations opts of
        None \<Rightarrow> Inr None
      | Some (raw, matchedKey) \<Rightarrow>
          (case strconv_ParseBool raw of
             None \<Rightarrow> Inl (Wrap (Errorf ''strconv.ParseBool: parsing %q: invalid syntax'' [raw])
                         (''failed to parse bool annotation, '' @ matchedKey @ '': '' @ raw))
           | Some val \<Rightarrow> Inr (Some val)))"

definition ParseInt64Annotation ::
  "suffixAnnotationParser \<Rightarrow> string \<Rightarrow> string_map \<Rightarrow> ParseOption list \<Rightarrow> int option result" where
  "ParseInt64Annotation p annotation annotations opts =
     (case parseStringAnnotation p annotation annotations opts of
        None \<Rightarrow> Inr None
      | Some (raw, matchedKey) \<Rightarrow>
          let msg = ''failed to parse int64 annotation, '' @ matchedKey @ '': '' @ raw in
          (case strconv_ParseInt raw of
             ParseOk i \<Rightarrow> Inr (Some i)
           | ParseRange _ \<Rightarrow> Inl (Wrap (Errorf ''strconv.ParseInt: parsing %q: value out of range'' [raw]) msg)
           | ParseSyntax \<Rightarrow> Inl (Wrap (Errorf ''strconv.ParseInt: parsing %q: invalid syntax'' [raw]) msg)))"

definition splitCommaSeparatedString :: "string \<Rightarrow> string list" where
  "splitCommaSeparatedString commaSeparatedString =
     filter (\<lambda>part. part \<noteq> []) (map TrimSpace (split_char CHR '','' commaSeparatedString))"

definition ParseStringSliceAnnotation ::
  "suffixAnnotationParser \<Rightarrow> string \<Rightarrow> string_map \<Rightarrow> ParseOption list \<Rightarrow> string list option" where
  "ParseStringSliceAnnotation p annotation annotations opts =
     map_option (\<lambda>(raw, _). splitCommaSeparatedString raw) (parseStringAnnotation p annotation annotations opts)"

definition ParseJSONAnnotation ::
  "(string \<Rightarrow> 'a result) \<Rightarrow> suffixAnnotationParser \<Rightarrow> string \<Rightarrow> string_map \<Rightarrow> ParseOption list \<Rightarrow> 'a option result" where
  "ParseJSONAnnotation unmarshal p annotation annotations opts =
     (case parseStringAnnotation p annotation annotations opts of
        None \<Rightarrow> Inr None
      | Some (raw, matchedKey) \<Rightarrow>
          (case unmarshal raw of
             Inl err \<Rightarrow> Inl (Wrap err (''failed to parse json annotation, '' @ matchedKey @ '': '' @ raw))
           | Inr v \<Rightarrow> Inr (Some v)))"

definition parse_pair :: "go_error \<Rightarrow> string_map \<Rightarrow> string \<Rightarrow> string_map result" where
  "parse_pair err keyValues kvPair =
     (case splitN2 CHR ''='' kvPair of
        [key, v] \<Rightarrow> if key = [] then Inl err else Inr (AList.update key v keyValues)
      | _ \<Rightarrow> Inl err)"

definition ParseStringMapAnnotation ::
  "suffixAnnotationParser \<Rightarrow> string \<Rightarrow> string_map \<Rightarrow> ParseOption list \<Rightarrow> string_map option result" where
  "ParseStringMapAnnotation p annotation annotations opts =
     (case parseStringAnnotation p annotation annotations opts of
        None \<Rightarrow> Inr None
      | Some (raw, matchedKey) \<Rightarrow>
          result_bind
            (result_foldM (parse_pair (Errorf ''failed to parse stringMap annotation, %v: %v'' [matchedKey, raw]))
               [] (splitCommaSeparatedString raw))
            (\<lambda>keyValues. Inr (Some keyValues)))"

text \<open>The callers' variable with the value it is initialised with.\<close>

definition with_default :: "'a \<Rightarrow> 'a option \<Rightarrow> 'a" where
  "with_default d v = (case v of None \<Rightarrow> d | Some x \<Rightarrow> x)"

section \<open>Lemmas\<close>

lemma with_default_simps [simp]: "with_default d None = d" "with_default d (Some x) = x"
  by (simp_all add: with_default_def)

lemma buildAnnotationKeys_plain [simp]: "buildAnnotationKeys p suffix [] = [annotationPrefix p @ ''/'' @ suffix]"
  by (simp add: buildAnnotationKeys_def)

text \<open>The parts of a comma separated list have no comma, are trimmed and are not empty.\<close>

definition trimmed :: "string \<Rightarrow> bool" where
  "trimmed s \<longleftrightarrow> s \<noteq> [] \<and> \<not> is_space (hd s) \<and> \<not> is_space (last s)"

lemma dropWhile_hd: "dropWhile P xs \<noteq> [] \<Longrightarrow> \<not> P (hd (dropWhile P xs))"
  by (rule hd_dropWhile)

lemma TrimSpace_trimmed: "trimmed s \<Longrightarrow> TrimSpace s = s"
proof -
  assume t: "trimmed s"
  then obtain c cs where s: "s = c # cs" "\<not> is_space c" by (cases s) (auto simp: trimmed_def)
  have r: "rev s = last s # rev (butlast s)" using t by (simp add: trimmed_def rev_eq_Cons_iff)
  have "dropWhile is_space s = s" using s by simp
  moreover have "dropWhile is_space (rev s) = rev s" using t by (subst r) (simp add: trimmed_def r)
  ultimately show ?thesis by (simp add: TrimSpace_def)
qed

lemma TrimSpace_result: "TrimSpace s \<noteq> [] \<Longrightarrow> trimmed (TrimSpace s)"
proof -
  assume ne: "TrimSpace s \<noteq> []"
  define t where "t = dropWhile is_space s"
  define u where "u = dropWhile is_space (rev t)"
  have eq: "TrimSpace s = rev u" by (simp add: TrimSpace_def t_def u_def)
  with ne have u: "u \<noteq> []" by simp
  then have "\<not> is_space (hd u)" unfolding u_def by (rule dropWhile_hd)
  moreover have "\<not> is_space (last u)"
  proof -
    have "u \<noteq> [] \<Longrightarrow> last u = last (rev t)"
      unfolding u_def by (metis dropWhile_append3 last_appendR takeWhile_dropWhile_id)
    then have "last u = hd t" using u by (cases t) (auto simp: u_def)
    moreover have "t \<noteq> []" using u by (auto simp: u_def)
    then have "\<not> is_space (hd t)" unfolding t_def by (rule dropWhile_hd)
    ultimately show ?thesis by simp
  qed
  ultimately show ?thesis using u by (simp add: eq trimmed_def hd_rev last_rev)
qed

lemma TrimSpace_subset: "set (TrimSpace s) \<subseteq> set s"
  unfolding TrimSpace_def by (auto dest!: set_dropWhileD)

lemma split_char_no_sep: "w \<in> set (split_char c s) \<Longrightarrow> c \<notin> set w"
  by (induction s arbitrary: w) (auto split: if_splits list.splits)

definition list_item :: "string \<Rightarrow> bool" where
  "list_item s \<longleftrightarrow> trimmed s \<and> CHR '','' \<notin> set s"

lemma splitCommaSeparatedString_items: "s \<in> set (splitCommaSeparatedString raw) \<Longrightarrow> list_item s"
  unfolding splitCommaSeparatedString_def list_item_def
  using TrimSpace_result TrimSpace_subset split_char_no_sep by fastforce

lemma splitCommaSeparatedString_Join:
  assumes "\<forall>s\<in>set xs. list_item s"
  shows "splitCommaSeparatedString (strings_Join xs '','') = xs"
proof (cases "xs = []")
  case False
  then have "split_char CHR '','' (strings_Join xs '','') = xs"
    using assms by (intro split_char_Join) (auto simp: list_item_def)
  then show ?thesis using assms
    by (simp add: splitCommaSeparatedString_def list_item_def TrimSpace_trimmed map_idI trimmed_def filter_id_conv)
qed (simp add: splitCommaSeparatedString_def TrimSpace_def)

text \<open>Pairs of a string map: the key has no equals sign and is not empty, the pair is a list item.\<close>

definition show_pair :: "string \<times> string \<Rightarrow> string" where
  "show_pair kv = fst kv @ ''='' @ snd kv"

definition printable_map :: "string_map \<Rightarrow> bool" where
  "printable_map m \<longleftrightarrow> gomap_wf m \<and> (\<forall>kv\<in>set m. fst kv \<noteq> [] \<and> CHR ''='' \<notin> set (fst kv) \<and> list_item (show_pair kv))"

lemma AList_update_fresh: "map_of m k = None \<Longrightarrow> AList.update k v m = m @ [(k, v)]"
  by (induction m) auto

lemma parse_pairs:
  assumes "\<forall>kv\<in>set m. fst kv \<noteq> [] \<and> CHR ''='' \<notin> set (fst kv)" "gomap_wf (acc @ m)"
  shows "result_foldM (parse_pair err) acc (map show_pair m) = Inr (acc @ m)"
  using assms
proof (induction m arbitrary: acc)
  case (Cons kv m)
  obtain k v where kv: "kv = (k, v)" by fastforce
  have "splitN2 CHR ''='' (show_pair kv) = [k, v]"
    using Cons.prems(1) splitN2_append [of "CHR ''=''" k v] by (simp add: show_pair_def kv)
  moreover have "map_of acc k = None"
    using Cons.prems(2) by (simp add: kv gomap_wf_def map_of_eq_None_iff)
  ultimately have "parse_pair err acc (show_pair kv) = Inr (acc @ [kv])"
    using Cons.prems(1) by (simp add: parse_pair_def AList_update_fresh kv)
  then show ?case using Cons.IH [of "acc @ [kv]"] Cons.prems by simp
qed simp

text \<open>C22: A map written as comma separated \<^verbatim>\<open>key=value\<close> pairs into the annotation of a suffix is read back unchanged,
  for every map whose keys are not empty and have no equals sign and whose pairs have no comma and
  no white space at their ends.\<close>

theorem string_map_annotation_roundtrip:
  assumes "printable_map m"
    and "map_of annotations (annotationPrefix p @ ''/'' @ suffix) = Some (strings_Join (map show_pair m) '','')"
  shows "ParseStringMapAnnotation p suffix annotations [] = Inr (Some m)"
proof -
  have "splitCommaSeparatedString (strings_Join (map show_pair m) '','') = map show_pair m"
    using assms(1) by (intro splitCommaSeparatedString_Join) (auto simp: printable_map_def)
  moreover have "result_foldM (parse_pair err) [] (map show_pair m) = Inr m" for err
    using parse_pairs [of m "[]" err] assms(1) by (auto simp: printable_map_def)
  ultimately show ?thesis using assms(2)
    by (simp add: ParseStringMapAnnotation_def parseStringAnnotation_def)
qed

definition example_annotations :: string_map where
  "example_annotations = [(''alb.ingress.kubernetes.io/tags'', ''team=net,env=a=b'')]"

theorem string_map_annotation_roundtrip_witness:
  "ParseStringMapAnnotation \<lparr>annotationPrefix = AnnotationPrefixIngress\<rparr> IngressSuffixTags example_annotations []
     = Inr (Some [(''team'', ''net''), (''env'', ''a=b'')])"
proof -
  have "printable_map [(''team'', ''net''), (''env'', ''a=b'')]" by code_simp
  moreover have "map_of example_annotations (annotationPrefix \<lparr>annotationPrefix = AnnotationPrefixIngress\<rparr> @ ''/'' @ IngressSuffixTags)
    = Some (strings_Join (map show_pair [(''team'', ''net''), (''env'', ''a=b'')]) '','')" by code_simp
  ultimately show ?thesis by (rule string_map_annotation_roundtrip)
qed

end
