(* ===== verification/Go_Sort.thy ===== *)
theory Go_Sort
  imports Go_Prelude
begin

text \<open>
  Package \<^verbatim>\<open>sort\<close>: \<^verbatim>\<open>sort.Slice\<close> orders a slice by a less function and leaves the order of equivalent
  elements open, so the function that does it is a parameter of the code that sorts;
  \<^verbatim>\<open>sort.SliceStable\<close> keeps equivalent elements in place and is determined by that.
\<close>

type_synonym 'a slice_sort = "('a \<Rightarrow> 'a \<Rightarrow> bool) \<Rightarrow> 'a list \<Rightarrow> 'a list"

definition strict_weak :: "('a \<Rightarrow> 'a \<Rightarrow> bool) \<Rightarrow> bool" where
  "strict_weak lt \<longleftrightarrow>
     (\<forall>x y. lt x y \<longrightarrow> \<not> lt y x) \<and> (\<forall>x y z. lt x z \<longrightarrow> lt x y \<or> lt y z)"

definition sorts_slices :: "'a slice_sort \<Rightarrow> bool" where
  "sorts_slices Slice \<longleftrightarrow> (\<forall>lt xs. strict_weak lt \<longrightarrow>
     mset (Slice lt xs) = mset xs \<and> sorted_wrt (\<lambda>x y. \<not> lt y x) (Slice lt xs))"

lemma strict_weak_key [simp]: "strict_weak (\<lambda>x y. key x < (key y :: 'k::linorder))"
  by (auto simp: strict_weak_def)

lemma sorts_slicesD:
  assumes "sorts_slices Slice" "strict_weak lt"
  shows "mset (Slice lt xs) = mset xs" "set (Slice lt xs) = set xs" "length (Slice lt xs) = length xs"
    "sorted_wrt (\<lambda>x y. \<not> lt y x) (Slice lt xs)"
proof -
  show *: "mset (Slice lt xs) = mset xs" "sorted_wrt (\<lambda>x y. \<not> lt y x) (Slice lt xs)"
    using assms by (auto simp: sorts_slices_def)
  show "set (Slice lt xs) = set xs" "length (Slice lt xs) = length xs"
    using * mset_eq_setD mset_eq_length by blast+
qed

text \<open>Sorting by a key, as a special case.\<close>

lemma sorts_slices_key:
  fixes key :: "'a \<Rightarrow> 'k::linorder"
  assumes "sorts_slices Slice"
  shows "sorted (map key (Slice (\<lambda>x y. key x < key y) xs))"
  using sorts_slicesD(4) [OF assms strict_weak_key [of key], of xs]
  by (simp add: sorted_map not_less)

text \<open>The head of a sorted slice is one that nothing precedes.\<close>

lemma sorts_slices_hd:
  assumes "sorts_slices Slice" "strict_weak lt" "xs \<noteq> []"
  shows "hd (Slice lt xs) \<in> set xs" "\<forall>y\<in>set xs. \<not> lt y (hd (Slice lt xs))"
proof -
  note S = sorts_slicesD [OF assms(1,2), of xs]
  have ne: "Slice lt xs \<noteq> []" using S(3) assms(3) by auto
  then show "hd (Slice lt xs) \<in> set xs" using S(2) hd_in_set by blast
  obtain z zs where z: "Slice lt xs = z # zs" using ne by (cases "Slice lt xs") auto
  then have "\<forall>y\<in>set zs. \<not> lt y z" using S(4) by simp
  moreover have "\<not> lt z z" using assms(2) by (auto simp: strict_weak_def)
  ultimately show "\<forall>y\<in>set xs. \<not> lt y (hd (Slice lt xs))" using S(2) z by auto
qed

section \<open>A stable sort\<close>

fun insert_before :: "('a \<Rightarrow> 'a \<Rightarrow> bool) \<Rightarrow> 'a \<Rightarrow> 'a list \<Rightarrow> 'a list" where
  "insert_before lt x [] = [x]"
| "insert_before lt x (y # ys) = (if lt y x then y # insert_before lt x ys else x # y # ys)"

definition SliceStable :: "'a slice_sort" where
  "SliceStable lt xs = foldr (insert_before lt) xs []"

lemma mset_insert_before [simp]: "mset (insert_before lt x ys) = add_mset x (mset ys)"
  by (induction ys) auto

lemma set_insert_before [simp]: "set (insert_before lt x ys) = insert x (set ys)"
  by (induction ys) auto

lemma insert_before_sorted:
  assumes "strict_weak lt" "sorted_wrt (\<lambda>x y. \<not> lt y x) ys"
  shows "sorted_wrt (\<lambda>x y. \<not> lt y x) (insert_before lt x ys)"
  using assms(2)
proof (induction ys)
  case (Cons y ys)
  have asym: "lt a b \<Longrightarrow> \<not> lt b a" and nt: "lt a c \<Longrightarrow> lt a b \<or> lt b c" for a b c
    using assms(1) by (auto simp: strict_weak_def)
  show ?case
  proof (cases "lt y x")
    case True
    then show ?thesis using Cons asym by auto
  next
    case False
    then have "\<not> lt z x" if "z \<in> set ys" for z
      using that Cons.prems nt [of z x y] by auto
    then show ?thesis using Cons.prems False by auto
  qed
qed simp

lemma SliceStable_sorts: "sorts_slices SliceStable"
proof -
  have "mset (foldr (insert_before lt) xs []) = mset xs \<and>
      sorted_wrt (\<lambda>x y. \<not> lt y x) (foldr (insert_before lt) xs [])" if "strict_weak lt" for lt and xs :: "'a list"
    by (induction xs) (auto intro: insert_before_sorted that)
  then show ?thesis by (simp add: sorts_slices_def SliceStable_def)
qed

text \<open>Equivalent elements stay in the order of the input.\<close>

lemma insert_before_filter:
  assumes "\<forall>y\<in>set ys. P y \<longrightarrow> P x \<longrightarrow> \<not> lt y x"
  shows "filter P (insert_before lt x ys) = (if P x then x # filter P ys else filter P ys)"
  using assms
proof (induction ys)
  case (Cons y ys)
  then show ?case by (cases "lt y x") auto
qed simp

lemma SliceStable_stable:
  assumes "\<forall>x\<in>set xs. \<forall>y\<in>set xs. P x \<longrightarrow> P y \<longrightarrow> \<not> lt x y"
  shows "filter P (SliceStable lt xs) = filter P xs"
proof -
  have set_fold: "set (foldr (insert_before lt) ys []) = set ys" for ys by (induction ys) auto
  have "set ys \<subseteq> set xs \<Longrightarrow> filter P (foldr (insert_before lt) ys []) = filter P ys" for ys
  proof (induction ys)
    case (Cons y ys)
    have "filter P (insert_before lt y (foldr (insert_before lt) ys [])) =
        (if P y then y # filter P (foldr (insert_before lt) ys []) else filter P (foldr (insert_before lt) ys []))"
      using assms Cons.prems by (intro insert_before_filter) (auto simp: set_fold)
    then show ?case using Cons by simp
  qed simp
  then show ?thesis by (simp add: SliceStable_def)
qed

end
