(* ===== verification/Subnet_Resolver.thy ===== *)
theory Subnet_Resolver
  imports Networking_Info Go_Sort Elbv2_Model
begin

text \<open>
  How the controller finds the subnets and the security groups a load balancer is placed in:
  \<^verbatim>\<open>pkg/networking/subnet_resolver.go\<close> and \<^verbatim>\<open>pkg/networking/security_group_resolver.go\<close>. The range over the
  subnets by availability zone and over the tags of a selector visits them in an order that is a
  parameter, like the function that sorts slices of subnets.
\<close>

section \<open>Options\<close>

definition TagKeySubnetInternalELB :: string where
  "TagKeySubnetInternalELB = ''kubernetes.io/role/internal-elb''"

definition TagKeySubnetPublicELB :: string where
  "TagKeySubnetPublicELB = ''kubernetes.io/role/elb''"

type_synonym subnetLocaleType = string

definition subnetLocaleTypeAvailabilityZone :: subnetLocaleType where
  "subnetLocaleTypeAvailabilityZone = ''availability-zone''"

definition subnetLocaleTypeLocalZone :: subnetLocaleType where
  "subnetLocaleTypeLocalZone = ''local-zone''"

definition subnetLocaleTypeWavelengthZone :: subnetLocaleType where
  "subnetLocaleTypeWavelengthZone = ''wavelength-zone''"

definition subnetLocaleTypeOutpost :: subnetLocaleType where
  "subnetLocaleTypeOutpost = ''outpost''"

definition zoneTypeAvailabilityZone :: string where "zoneTypeAvailabilityZone = ''availability-zone''"

definition zoneTypeLocalZone :: string where "zoneTypeLocalZone = ''local-zone''"

definition zoneTypeWavelengthZone :: string where "zoneTypeWavelengthZone = ''wavelength-zone''"

record SubnetsResolveOptions =
  sroLBType :: LoadBalancerType
  sroLBScheme :: LoadBalancerScheme
  sroAvailableIPAddressCount :: int
  sroSubnetsClusterTagCheck :: bool
  sroALBSingleSubnet :: bool

datatype SubnetsResolveOption =
    WithSubnetsResolveLBType LoadBalancerType
  | WithSubnetsResolveLBScheme LoadBalancerScheme
  | WithSubnetsResolveAvailableIPAddressCount int
  | WithSubnetsClusterTagCheck bool
  | WithALBSingleSubnet bool

fun apply_subnets_option :: "SubnetsResolveOption \<Rightarrow> SubnetsResolveOptions \<Rightarrow> SubnetsResolveOptions" where
  "apply_subnets_option (WithSubnetsResolveLBType lbt) opts = opts\<lparr>sroLBType := lbt\<rparr>"
| "apply_subnets_option (WithSubnetsResolveLBScheme scheme) opts = opts\<lparr>sroLBScheme := scheme\<rparr>"
| "apply_subnets_option (WithSubnetsResolveAvailableIPAddressCount n) opts = opts\<lparr>sroAvailableIPAddressCount := n\<rparr>"
| "apply_subnets_option (WithSubnetsClusterTagCheck b) opts = opts\<lparr>sroSubnetsClusterTagCheck := b\<rparr>"
| "apply_subnets_option (WithALBSingleSubnet b) opts = opts\<lparr>sroALBSingleSubnet := b\<rparr>"

definition defaultSubnetsResolveOptions :: SubnetsResolveOptions where
  "defaultSubnetsResolveOptions =
     \<lparr>sroLBType = LoadBalancerTypeApplication, sroLBScheme = LoadBalancerSchemeInternetFacing,
      sroAvailableIPAddressCount = 0, sroSubnetsClusterTagCheck = False, sroALBSingleSubnet = False\<rparr>"

definition resolve_options :: "SubnetsResolveOption list \<Rightarrow> SubnetsResolveOptions" where
  "resolve_options opts = fold apply_subnets_option opts defaultSubnetsResolveOptions"

text \<open>A nil slice of identifiers differs from an empty one.\<close>

record SubnetSelector =
  selIDs :: "string list option"
  selTags :: "(string, string list) gomap"

record DescribeSubnetsInput =
  dsuSubnetIds :: "string list"
  dsuFilters :: "Ec2Filter list"

record 'w defaultSubnetsResolver =
  srAZInfoProvider :: "'w defaultAZInfoProvider"
  srDescribeSubnetsAsList :: "DescribeSubnetsInput \<Rightarrow> ('w, Subnet list) io"
  srVpcID :: string
  srClusterName :: string
  srRange :: "string list \<Rightarrow> string list"
  srSlice :: "Subnet slice_sort"
  srList :: "string set \<Rightarrow> string list"

section \<open>Checks\<close>

abbreviation subnet_id :: "Subnet \<Rightarrow> string" where
  "subnet_id s \<equiv> StringValue (subnetSubnetId s)"

abbreviation subnet_az :: "Subnet \<Rightarrow> string" where
  "subnet_az s \<equiv> StringValue (subnetAvailabilityZone s)"

definition checkSubnetHasClusterTag :: "'w defaultSubnetsResolver \<Rightarrow> Subnet \<Rightarrow> bool" where
  "checkSubnetHasClusterTag r subnet =
     list_ex (\<lambda>tag. ''kubernetes.io/cluster/'' @ srClusterName r = StringValue (ec2TagKey tag)) (subnetTags subnet)"

fun cluster_tag_loop :: "string \<Rightarrow> bool \<Rightarrow> Ec2Tag list \<Rightarrow> bool" where
  "cluster_tag_loop key hasPrefix [] = (\<not> hasPrefix)"
| "cluster_tag_loop key hasPrefix (tag # tags) =
     (let tagKey = StringValue (ec2TagKey tag) in
      if tagKey = key then True
      else cluster_tag_loop key (HasPrefix tagKey ''kubernetes.io/cluster'' \<or> hasPrefix) tags)"

definition checkSubnetIsNotTaggedForOtherClusters :: "'w defaultSubnetsResolver \<Rightarrow> Subnet \<Rightarrow> bool \<Rightarrow> bool" where
  "checkSubnetIsNotTaggedForOtherClusters r subnet subnetsClusterTagCheck =
     (if \<not> subnetsClusterTagCheck then True
      else cluster_tag_loop (''kubernetes.io/cluster/'' @ srClusterName r) False (subnetTags subnet))"

definition mapSDKSubnetsByAZ :: "Subnet list \<Rightarrow> (string, Subnet list) gomap" where
  "mapSDKSubnetsByAZ subnets = group_by subnet_az subnets"

definition sortSubnetsByID :: "'w defaultSubnetsResolver \<Rightarrow> Subnet list \<Rightarrow> Subnet list" where
  "sortSubnetsByID r subnets = srSlice r (\<lambda>i j. subnet_id i < subnet_id j) subnets"

definition filterSubnetsByAvailableIPAddress :: "Subnet list \<Rightarrow> int \<Rightarrow> Subnet list \<times> nat" where
  "filterSubnetsByAvailableIPAddress subnets availableIPAddressCount =
     (let enough = (\<lambda>s. Int64Value (subnetAvailableIpAddressCount s) \<ge> availableIPAddressCount)
      in (filter enough subnets, length (filter (\<lambda>s. \<not> enough s) subnets)))"

definition validateSubnetsAZExclusivity :: "'w defaultSubnetsResolver \<Rightarrow> Subnet list \<Rightarrow> unit result" where
  "validateSubnetsAZExclusivity r subnets =
     (case List.find (\<lambda>(az, ss). length ss > 1) (entries (srRange r) (mapSDKSubnetsByAZ subnets)) of
        Some (az, ss) \<Rightarrow> Inl (Errorf ''multiple subnets in same Availability Zone %v: %v'' (az # map subnet_id ss))
      | None \<Rightarrow> Inr ())"

definition buildSDKSubnetLocaleType :: "'w defaultSubnetsResolver \<Rightarrow> Subnet \<Rightarrow> ('w, subnetLocaleType) io" where
  "buildSDKSubnetLocaleType r subnet =
     (if StringValue (subnetOutpostArn subnet) \<noteq> [] then io_return subnetLocaleTypeOutpost
      else
        let subnetAZID = StringValue (subnetAvailabilityZoneId subnet) in
        io_bind (FetchAZInfos (srAZInfoProvider r) [subnetAZID]) (\<lambda>azInfoByAZID.
          let subnetAZInfo = gomap_index \<lparr>azZoneId = None, azZoneName = None, azZoneType = None\<rparr> azInfoByAZID subnetAZID;
              subnetZoneType = StringValue (azZoneType subnetAZInfo)
          in if subnetZoneType = zoneTypeAvailabilityZone then io_return subnetLocaleTypeAvailabilityZone
             else if subnetZoneType = zoneTypeLocalZone then io_return subnetLocaleTypeLocalZone
             else if subnetZoneType = zoneTypeWavelengthZone then io_return subnetLocaleTypeWavelengthZone
             else io_fail (Errorf ''unknown zone type for subnet %v: %v'' [subnet_id subnet, subnetZoneType])))"

text \<open>The set of locales has at most one element where \<^verbatim>\<open>PopAny\<close> takes one.\<close>

definition validateSubnetsLocaleUniformity :: "'w defaultSubnetsResolver \<Rightarrow> Subnet list \<Rightarrow> ('w, subnetLocaleType) io" where
  "validateSubnetsLocaleUniformity r subnets =
     io_bind (io_mapM (buildSDKSubnetLocaleType r) subnets) (\<lambda>locales.
       if card (set locales) > 1 then io_fail (Errorf ''subnets in multiple locales: %v'' (srList r (set locales)))
       else io_return (case locales of [] \<Rightarrow> [] | l # _ \<Rightarrow> l))"

definition computeSubnetsMinimalCount :: "subnetLocaleType \<Rightarrow> SubnetsResolveOptions \<Rightarrow> nat" where
  "computeSubnetsMinimalCount subnetLocale resolveOpts =
     (if sroLBType resolveOpts = LoadBalancerTypeApplication \<and> subnetLocale = subnetLocaleTypeAvailabilityZone \<and>
         \<not> sroALBSingleSubnet resolveOpts then 2 else 1)"

definition validateSubnetsMinimalCount :: "Subnet list \<Rightarrow> subnetLocaleType \<Rightarrow> SubnetsResolveOptions \<Rightarrow> unit result" where
  "validateSubnetsMinimalCount subnets subnetLocale resolveOpts =
     (let minimalCount = computeSubnetsMinimalCount subnetLocale resolveOpts in
      if length subnets < minimalCount
      then Inl (Errorf ''subnets count less than minimal required count: %v < %v''
             [Itoa (int (length subnets)), Itoa (int minimalCount)])
      else Inr ())"

section \<open>Resolution of subnets\<close>

text \<open>The order in which the subnets of one zone are preferred.\<close>

definition preferred_subnet :: "'w defaultSubnetsResolver \<Rightarrow> Subnet \<Rightarrow> Subnet \<Rightarrow> bool" where
  "preferred_subnet r i j =
     (let clusterTagI = checkSubnetHasClusterTag r i; clusterTagJ = checkSubnetHasClusterTag r j in
      if clusterTagI \<noteq> clusterTagJ then clusterTagI else subnet_id i < subnet_id j)"

definition choose_in_zone :: "'w defaultSubnetsResolver \<Rightarrow> Subnet list \<Rightarrow> Subnet list" where
  "choose_in_zone r subnets =
     (if length subnets = 1 then [hd subnets]
      else if length subnets > 1 then [hd (srSlice r (preferred_subnet r) subnets)]
      else [])"

definition select_by_ids :: "'w defaultSubnetsResolver \<Rightarrow> string list \<Rightarrow> ('w, Subnet list) io" where
  "select_by_ids r ids =
     io_bind (srDescribeSubnetsAsList r \<lparr>dsuSubnetIds = ids, dsuFilters = []\<rparr>) (\<lambda>chosenSubnets.
       if length chosenSubnets \<noteq> length ids
       then io_fail (Errorf ''couldn't find all subnets, IDs: %v, found: %v'' (ids @ [Itoa (int (length chosenSubnets))]))
       else io_bind (io_lift (validateSubnetsAZExclusivity r chosenSubnets)) (\<lambda>_. io_return chosenSubnets))"

definition selector_request :: "'w defaultSubnetsResolver \<Rightarrow> (string, string list) gomap \<Rightarrow> DescribeSubnetsInput" where
  "selector_request r tags =
     \<lparr>dsuSubnetIds = [], dsuFilters =
        \<lparr>ec2FilterName = ''vpc-id'', ec2FilterValues = [srVpcID r]\<rparr> #
        map (\<lambda>(key, values). \<lparr>ec2FilterName = ''tag:'' @ key, ec2FilterValues = values\<rparr>) (entries (srRange r) tags)\<rparr>"

text \<open>The chosen subnets and the explanation for the error message.\<close>

definition choose_subnets :: "'w defaultSubnetsResolver \<Rightarrow> SubnetsResolveOptions \<Rightarrow> Subnet list \<Rightarrow> Subnet list \<times> string" where
  "choose_subnets r resolveOpts allSubnets =
     (let untagged = (\<lambda>s. checkSubnetIsNotTaggedForOtherClusters r s (sroSubnetsClusterTagCheck resolveOpts));
          subnets = filter untagged allSubnets;
          taggedOtherCluster = length (filter (\<lambda>s. \<not> untagged s) allSubnets);
          (filteredSubnets, insufficientIPs) =
            filterSubnetsByAvailableIPAddress subnets (sroAvailableIPAddressCount resolveOpts);
          explanation = Itoa (int (length allSubnets)) @ '' match VPC and tags'' @
            (if taggedOtherCluster > 0 then '', '' @ Itoa (int taggedOtherCluster) @ '' tagged for other cluster'' else []) @
            (if insufficientIPs > 0 then '', '' @ Itoa (int insufficientIPs) @ '' have fewer than '' @
               Itoa (sroAvailableIPAddressCount resolveOpts) @ '' free IPs'' else [])
      in (concat (map (\<lambda>(az, ss). choose_in_zone r ss) (entries (srRange r) (mapSDKSubnetsByAZ filteredSubnets))), explanation))"

definition finish_subnets :: "'w defaultSubnetsResolver \<Rightarrow> SubnetsResolveOptions \<Rightarrow> Subnet list \<Rightarrow> ('w, Subnet list) io" where
  "finish_subnets r resolveOpts subnets =
     io_bind (validateSubnetsLocaleUniformity r subnets) (\<lambda>subnetLocale.
     io_bind (io_lift (validateSubnetsMinimalCount subnets subnetLocale resolveOpts)) (\<lambda>_.
     io_return (sortSubnetsByID r subnets)))"

definition ResolveViaSelector ::
  "'w defaultSubnetsResolver \<Rightarrow> SubnetSelector \<Rightarrow> SubnetsResolveOption list \<Rightarrow> ('w, Subnet list) io" where
  "ResolveViaSelector r selector opts =
     (let resolveOpts = resolve_options opts in
      io_bind (case selIDs selector of
          Some ids \<Rightarrow> io_bind (select_by_ids r ids) (\<lambda>chosen. io_return (chosen, []))
        | None \<Rightarrow> io_bind (srDescribeSubnetsAsList r (selector_request r (selTags selector))) (\<lambda>allSubnets.
                     io_return (choose_subnets r resolveOpts allSubnets)))
        (\<lambda>(chosenSubnets, explanation).
          if chosenSubnets = [] then io_fail (Errorf ''unable to resolve at least one subnet (%s)'' [explanation])
          else finish_subnets r resolveOpts chosenSubnets))"

definition ResolveViaDiscovery :: "'w defaultSubnetsResolver \<Rightarrow> SubnetsResolveOption list \<Rightarrow> ('w, Subnet list) io" where
  "ResolveViaDiscovery r opts =
     (let scheme = sroLBScheme (resolve_options opts);
          subnetRoleTagKey = (if scheme = LoadBalancerSchemeInternal then TagKeySubnetInternalELB
            else if scheme = LoadBalancerSchemeInternetFacing then TagKeySubnetPublicELB else [])
      in ResolveViaSelector r \<lparr>selIDs = None, selTags = [(subnetRoleTagKey, [[], ''1''])]\<rparr> opts)"

definition ResolveViaNameOrIDSlice ::
  "'w defaultSubnetsResolver \<Rightarrow> string list \<Rightarrow> SubnetsResolveOption list \<Rightarrow> ('w, Subnet list) io" where
  "ResolveViaNameOrIDSlice r subnetNameOrIDs opts =
     (let resolveOpts = resolve_options opts;
          subnetIDs = filter (\<lambda>s. HasPrefix s ''subnet-'') subnetNameOrIDs;
          subnetNames = filter (\<lambda>s. \<not> HasPrefix s ''subnet-'') subnetNameOrIDs
      in
      io_bind (if subnetIDs \<noteq> [] then srDescribeSubnetsAsList r \<lparr>dsuSubnetIds = subnetIDs, dsuFilters = []\<rparr>
               else io_return []) (\<lambda>byID.
      io_bind (if subnetNames \<noteq> [] then srDescribeSubnetsAsList r \<lparr>dsuSubnetIds = [], dsuFilters =
                   [\<lparr>ec2FilterName = ''tag:Name'', ec2FilterValues = subnetNames\<rparr>,
                    \<lparr>ec2FilterName = ''vpc-id'', ec2FilterValues = [srVpcID r]\<rparr>]\<rparr>
               else io_return []) (\<lambda>byName.
      let resolvedSubnets = byID @ byName in
      if length resolvedSubnets \<noteq> length subnetNameOrIDs
      then io_fail (Errorf ''couldn't find all subnets, nameOrIDs: %v, found: %v''
             (subnetNameOrIDs @ [Itoa (int (length resolvedSubnets))]))
      else if resolvedSubnets = [] then io_fail (Errorf ''unable to resolve at least one subnet'' [])
      else io_bind (io_lift (validateSubnetsAZExclusivity r resolvedSubnets)) (\<lambda>_.
        finish_subnets r resolveOpts resolvedSubnets))))"

section \<open>Resolution of security groups\<close>

record 'w defaultSecurityGroupResolver =
  sgrEc2Client :: "'w EC2"
  sgrVpcID :: string

definition resolveViaGroupID :: "'w defaultSecurityGroupResolver \<Rightarrow> string list \<Rightarrow> ('w, SdkSecurityGroup list) io" where
  "resolveViaGroupID r sgIDs =
     DescribeSecurityGroupsAsList (sgrEc2Client r) \<lparr>dsgGroupIds = sgIDs, dsgFilters = []\<rparr>"

definition resolveViaGroupName :: "'w defaultSecurityGroupResolver \<Rightarrow> string list \<Rightarrow> ('w, SdkSecurityGroup list) io" where
  "resolveViaGroupName r sgNames =
     DescribeSecurityGroupsAsList (sgrEc2Client r) \<lparr>dsgGroupIds = [], dsgFilters =
       [\<lparr>ec2FilterName = ''tag:Name'', ec2FilterValues = sgNames\<rparr>,
        \<lparr>ec2FilterName = ''vpc-id'', ec2FilterValues = [sgrVpcID r]\<rparr>]\<rparr>"

definition splitIntoSgNameAndIDs :: "string list \<Rightarrow> string list \<times> string list" where
  "splitIntoSgNameAndIDs sgNameOrIDs =
     (filter (\<lambda>s. HasPrefix s ''sg-'') sgNameOrIDs, filter (\<lambda>s. \<not> HasPrefix s ''sg-'') sgNameOrIDs)"

definition ResolveViaNameOrID :: "'w defaultSecurityGroupResolver \<Rightarrow> string list \<Rightarrow> ('w, string list) io" where
  "ResolveViaNameOrID r sgNameOrIDs =
     (let (sgIDs, sgNames) = splitIntoSgNameAndIDs sgNameOrIDs in
      io_bind (if sgIDs \<noteq> [] then resolveViaGroupID r sgIDs else io_return []) (\<lambda>byID.
      io_bind (if sgNames \<noteq> [] then resolveViaGroupName r sgNames else io_return []) (\<lambda>byName.
      let resolvedSGIDs = map (\<lambda>sg. StringValue (ssgGroupId sg)) (byID @ byName) in
      if length resolvedSGIDs \<noteq> length sgNameOrIDs
      then io_fail (Errorf ''couldn't find all securityGroups, nameOrIDs: %v, found: %v'' (sgNameOrIDs @ resolvedSGIDs))
      else io_return resolvedSGIDs)))"

section \<open>Correctness\<close>

text \<open>What makes a subnet a candidate: it is not tagged for other clusters only and has free addresses.\<close>

definition tag_keys :: "Subnet \<Rightarrow> string set" where
  "tag_keys s = (\<lambda>t. StringValue (ec2TagKey t)) ` set (subnetTags s)"

definition candidate_subnet :: "string \<Rightarrow> SubnetsResolveOptions \<Rightarrow> Subnet \<Rightarrow> bool" where
  "candidate_subnet cluster opts s \<longleftrightarrow>
     (sroSubnetsClusterTagCheck opts \<longrightarrow>
        ''kubernetes.io/cluster/'' @ cluster \<in> tag_keys s \<or>
        (\<forall>k\<in>tag_keys s. \<not> HasPrefix k ''kubernetes.io/cluster'')) \<and>
     sroAvailableIPAddressCount opts \<le> Int64Value (subnetAvailableIpAddressCount s)"

text \<open>A subnet tagged for the cluster goes before one that is not, then the smaller identifier.\<close>

definition at_least_as_good :: "string \<Rightarrow> Subnet \<Rightarrow> Subnet \<Rightarrow> bool" where
  "at_least_as_good cluster c s \<longleftrightarrow>
     (let tag = ''kubernetes.io/cluster/'' @ cluster in
      (tag \<in> tag_keys c \<and> tag \<notin> tag_keys s) \<or>
      ((tag \<in> tag_keys c \<longleftrightarrow> tag \<in> tag_keys s) \<and> subnet_id c \<le> subnet_id s))"

lemma cluster_tag_loop_iff:
  "cluster_tag_loop key b tags \<longleftrightarrow>
     key \<in> (\<lambda>t. StringValue (ec2TagKey t)) ` set tags \<or>
     (\<not> b \<and> (\<forall>t\<in>set tags. \<not> HasPrefix (StringValue (ec2TagKey t)) ''kubernetes.io/cluster''))"
  by (induction tags arbitrary: b) (auto simp: Let_def)

lemma HasClusterTag_iff:
  "checkSubnetHasClusterTag r s \<longleftrightarrow> ''kubernetes.io/cluster/'' @ srClusterName r \<in> tag_keys s"
  by (auto simp: checkSubnetHasClusterTag_def tag_keys_def list_ex_iff)

lemma NotTaggedForOtherClusters_iff:
  "checkSubnetIsNotTaggedForOtherClusters r s b \<longleftrightarrow>
     (b \<longrightarrow> ''kubernetes.io/cluster/'' @ srClusterName r \<in> tag_keys s \<or> (\<forall>k\<in>tag_keys s. \<not> HasPrefix k ''kubernetes.io/cluster''))"
  unfolding checkSubnetIsNotTaggedForOtherClusters_def cluster_tag_loop_iff tag_keys_def by auto

lemma preferred_subnet_iff:
  "preferred_subnet r i j \<longleftrightarrow> \<not> at_least_as_good (srClusterName r) j i"
  by (auto simp: preferred_subnet_def at_least_as_good_def HasClusterTag_iff Let_def not_le)

lemma preferred_strict_weak [simp]: "strict_weak (preferred_subnet r)"
  by (auto simp: strict_weak_def preferred_subnet_def Let_def split: if_splits)

lemma at_least_as_good_refl [simp]: "at_least_as_good cluster s s"
  by (simp add: at_least_as_good_def)

lemma choose_in_zone_best:
  assumes "sorts_slices (srSlice r)" "ss \<noteq> []"
  shows "\<exists>c. choose_in_zone r ss = [c] \<and> c \<in> set ss \<and> (\<forall>s\<in>set ss. at_least_as_good (srClusterName r) c s)"
proof (cases "length ss = 1")
  case True
  then obtain s where "ss = [s]" by (cases ss) auto
  then show ?thesis by (simp add: choose_in_zone_def)
next
  case False
  then show ?thesis
    using sorts_slices_hd [OF assms(1) preferred_strict_weak [of r] assms(2)] assms(2)
    by (cases ss) (auto simp: choose_in_zone_def preferred_subnet_iff)
qed

lemma entries_singleton:
  assumes "range_order order" shows "entries order [(k, v)] = [(k, v)]"
proof -
  have "order [k] = [k]" using range_orderD [OF assms, of "[k]"] by simp
  then show ?thesis by (simp add: entries_def gomap_keys_def List.map_filter_simps)
qed

text \<open>The zones of the candidates, each with its candidates.\<close>

lemma zone_entries:
  assumes "range_order order"
  shows "(az, ss) \<in> set (entries order (mapSDKSubnetsByAZ xs)) \<longleftrightarrow>
     az \<in> subnet_az ` set xs \<and> ss = filter (\<lambda>s. subnet_az s = az) xs"
proof -
  have "map_of (group_by subnet_az xs) az = Some ss \<longleftrightarrow>
      az \<in> subnet_az ` set xs \<and> gomap_index [] (group_by subnet_az xs) az = ss"
    using group_by_keys [of subnet_az xs] gomap_keys_map_of [of az "group_by subnet_az xs"]
    by (auto simp: gomap_index_def split: option.splits)
  then show ?thesis by (auto simp: entries_iff [OF assms] mapSDKSubnetsByAZ_def group_by_index)
qed

lemma zone_entries_az:
  "range_order order \<Longrightarrow> fst ` set (entries order (mapSDKSubnetsByAZ xs)) = subnet_az ` set xs"
  using arg_cong [OF entries_keys [of order "mapSDKSubnetsByAZ xs"], of set]
  by (simp add: range_order_set mapSDKSubnetsByAZ_def group_by_keys)

lemma zone_entries_distinct:
  "range_order order \<Longrightarrow> distinct (map fst (entries order (mapSDKSubnetsByAZ xs)))"
  by (simp add: entries_distinct mapSDKSubnetsByAZ_def group_by_wf)

definition candidates :: "'w defaultSubnetsResolver \<Rightarrow> SubnetsResolveOptions \<Rightarrow> Subnet list \<Rightarrow> Subnet list" where
  "candidates r opts xs = filter (candidate_subnet (srClusterName r) opts) xs"

lemma choose_subnets_fst:
  "fst (choose_subnets r opts xs) =
     concat (map (\<lambda>(az, ss). choose_in_zone r ss) (entries (srRange r) (mapSDKSubnetsByAZ (candidates r opts xs))))"
proof -
  have "filter (\<lambda>s. sroAvailableIPAddressCount opts \<le> Int64Value (subnetAvailableIpAddressCount s))
      (filter (\<lambda>s. checkSubnetIsNotTaggedForOtherClusters r s (sroSubnetsClusterTagCheck opts)) xs) = candidates r opts xs"
    unfolding candidates_def filter_filter NotTaggedForOtherClusters_iff candidate_subnet_def ..
  then show ?thesis by (simp add: choose_subnets_def filterSubnetsByAvailableIPAddress_def Let_def del: filter_filter)
qed

text \<open>One subnet for each zone of the candidates, and none of its zone is better.\<close>

lemma choose_subnets_best:
  fixes opts xs
  assumes "sorts_slices (srSlice r)" "range_order (srRange r)"
  defines "chosen \<equiv> fst (choose_subnets r opts xs)" and "cand \<equiv> candidates r opts xs"
  shows "distinct (map subnet_az chosen) \<and> subnet_az ` set chosen = subnet_az ` set cand \<and>
    (\<forall>c\<in>set chosen. c \<in> set cand \<and> (\<forall>s\<in>set cand. subnet_az s = subnet_az c \<longrightarrow> at_least_as_good (srClusterName r) c s))"
proof -
  define zones where "zones = entries (srRange r) (mapSDKSubnetsByAZ cand)"
  have eq: "chosen = concat (map (\<lambda>(az, ss). choose_in_zone r ss) zones)"
    by (simp add: chosen_def choose_subnets_fst zones_def cand_def)
  have best: "\<exists>c. choose_in_zone r ss = [c] \<and> c \<in> set cand \<and> subnet_az c = az \<and>
      (\<forall>s\<in>set cand. subnet_az s = az \<longrightarrow> at_least_as_good (srClusterName r) c s)" if "(az, ss) \<in> set zones" for az ss
  proof -
    have ss: "az \<in> subnet_az ` set cand" "ss = filter (\<lambda>s. subnet_az s = az) cand"
      using that unfolding zones_def by (simp_all add: zone_entries [OF assms(2)])
    then have "ss \<noteq> []" by (auto simp: filter_empty_conv)
    from choose_in_zone_best [OF assms(1) this] show ?thesis using ss by auto
  qed
  have azs: "map subnet_az (concat (map (\<lambda>(az, ss). choose_in_zone r ss) zs)) = map fst zs" if "set zs \<subseteq> set zones" for zs
    using that
  proof (induction zs)
    case (Cons z zs)
    then show ?case using best [of "fst z" "snd z"] by (cases z) auto
  qed simp
  have "distinct (map subnet_az chosen)"
    using azs [of zones] zone_entries_distinct [OF assms(2)] by (simp add: eq zones_def)
  moreover have "subnet_az ` set chosen = subnet_az ` set cand"
    using arg_cong [OF azs [of zones], of set] zone_entries_az [OF assms(2), of cand] by (simp add: eq zones_def)
  moreover have "c \<in> set cand \<and> (\<forall>s\<in>set cand. subnet_az s = subnet_az c \<longrightarrow> at_least_as_good (srClusterName r) c s)"
    if c: "c \<in> set chosen" for c
  proof -
    obtain az ss where z: "(az, ss) \<in> set zones" "c \<in> set (choose_in_zone r ss)" using c by (auto simp: eq)
    from best [OF z(1)] obtain c' where "choose_in_zone r ss = [c']" "c' \<in> set cand" "subnet_az c' = az"
      "\<forall>s\<in>set cand. subnet_az s = az \<longrightarrow> at_least_as_good (srClusterName r) c' s" by (elim exE conjE)
    then show ?thesis using z(2) by simp
  qed
  ultimately show ?thesis by blast
qed

text \<open>The locale of a subnet, when the zone types that the availability zone information gives are fixed.\<close>

definition zone_types :: "'w defaultAZInfoProvider \<Rightarrow> (string \<Rightarrow> string) \<Rightarrow> bool" where
  "zone_types p zoneType \<longleftrightarrow> (\<forall>azID w m w'. FetchAZInfos p [azID] w = (Inr m, w') \<longrightarrow>
     StringValue (azZoneType (gomap_index \<lparr>azZoneId = None, azZoneName = None, azZoneType = None\<rparr> m azID)) = zoneType azID)"

definition subnet_locale :: "(string \<Rightarrow> string) \<Rightarrow> Subnet \<Rightarrow> string" where
  "subnet_locale zoneType s =
     (if StringValue (subnetOutpostArn s) \<noteq> [] then ''outpost'' else zoneType (StringValue (subnetAvailabilityZoneId s)))"

lemma buildSDKSubnetLocaleType_locale:
  assumes "zone_types (srAZInfoProvider r) zoneType" "buildSDKSubnetLocaleType r s w = (Inr l, w')"
  shows "l = subnet_locale zoneType s"
proof (cases "StringValue (subnetOutpostArn s) = []")
  case True
  let ?id = "StringValue (subnetAvailabilityZoneId s)"
  let ?zero = "\<lparr>azZoneId = None, azZoneName = None, azZoneType = None\<rparr>"
  from assms(2) True obtain m w1 where f: "FetchAZInfos (srAZInfoProvider r) [?id] w = (Inr m, w1)"
    and k: "(let subnetZoneType = StringValue (azZoneType (gomap_index ?zero m ?id)) in
      if subnetZoneType = zoneTypeAvailabilityZone then io_return subnetLocaleTypeAvailabilityZone
      else if subnetZoneType = zoneTypeLocalZone then io_return subnetLocaleTypeLocalZone
      else if subnetZoneType = zoneTypeWavelengthZone then io_return subnetLocaleTypeWavelengthZone
      else io_fail (Errorf ''unknown zone type for subnet %v: %v'' [subnet_id s, subnetZoneType])) w1 = (Inr l, w')"
    unfolding buildSDKSubnetLocaleType_def Let_def by (auto dest!: io_bind_InrD)
  have "StringValue (azZoneType (gomap_index ?zero m ?id)) = zoneType ?id"
    using assms(1) f unfolding zone_types_def by blast
  then show ?thesis using k True
    by (auto simp: subnet_locale_def io_return_def io_fail_def zoneTypeAvailabilityZone_def zoneTypeLocalZone_def
        zoneTypeWavelengthZone_def subnetLocaleTypeAvailabilityZone_def subnetLocaleTypeLocalZone_def
        subnetLocaleTypeWavelengthZone_def Let_def split: if_splits)
next
  case False
  then show ?thesis using assms(2)
    by (simp add: buildSDKSubnetLocaleType_def subnet_locale_def io_return_def subnetLocaleTypeOutpost_def)
qed

lemma io_mapM_Inr:
  assumes "\<And>x w y w'. x \<in> set xs \<Longrightarrow> f x w = (Inr y, w') \<Longrightarrow> y = g x" "io_mapM f xs w = (Inr ys, w')"
  shows "ys = map g xs"
  using assms
proof (induction xs arbitrary: w ys)
  case (Cons x xs)
  from Cons.prems(2) obtain y w1 zs where "f x w = (Inr y, w1)" "io_mapM f xs w1 = (Inr zs, w')" "ys = y # zs"
    by (auto simp: io_return_def dest!: io_bind_InrD)
  then show ?case using Cons.IH [of w1 zs] Cons.prems(1) by force
qed (simp add: io_return_def)

text \<open>The subnets of a load balancer: in one locale and enough of them.\<close>

definition placement_ok :: "(string \<Rightarrow> string) \<Rightarrow> SubnetsResolveOptions \<Rightarrow> Subnet list \<Rightarrow> bool" where
  "placement_ok zoneType opts subnets \<longleftrightarrow>
     subnets \<noteq> [] \<and> distinct (map subnet_az subnets) \<and> sorted (map subnet_id subnets) \<and>
     (\<exists>l. \<forall>s\<in>set subnets. subnet_locale zoneType s = l) \<and>
     (sroLBType opts = ''application'' \<and> \<not> sroALBSingleSubnet opts \<and>
        (\<forall>s\<in>set subnets. subnet_locale zoneType s = ''availability-zone'') \<longrightarrow> 2 \<le> length subnets)"

lemma finish_subnets_ok:
  assumes srt: "sorts_slices (srSlice r)" and zt: "zone_types (srAZInfoProvider r) zoneType"
    and run: "finish_subnets r opts chosen w = (Inr subnets, w')"
    and ne: "chosen \<noteq> []" and d: "distinct (map subnet_az chosen)"
  shows "mset subnets = mset chosen \<and> placement_ok zoneType opts subnets"
proof -
  from io_bind_InrD [OF run [unfolded finish_subnets_def]] obtain l w1 where
    l: "validateSubnetsLocaleUniformity r chosen w = (Inr l, w1)"
    and rest: "io_bind (io_lift (validateSubnetsMinimalCount chosen l opts)) (\<lambda>_. io_return (sortSubnetsByID r chosen)) w1 = (Inr subnets, w')"
    by (elim exE conjE)
  from rest have sub: "subnets = sortSubnetsByID r chosen" and cnt: "validateSubnetsMinimalCount chosen l opts = Inr ()"
    by (auto simp: io_simps split: sum.splits)
  have m: "mset subnets = mset chosen"
    using sorts_slicesD(1) [OF srt strict_weak_key [of subnet_id]] by (simp add: sub sortSubnetsByID_def)
  then have set: "set subnets = set chosen" and len: "length subnets = length chosen"
    using mset_eq_setD mset_eq_length by blast+
  from io_bind_InrD [OF l [unfolded validateSubnetsLocaleUniformity_def]] obtain ls w2 where
    ls: "io_mapM (buildSDKSubnetLocaleType r) chosen w = (Inr ls, w2)"
    and k: "(if card (set ls) > 1 then io_fail (Errorf ''subnets in multiple locales: %v'' (srList r (set ls)))
       else io_return (case ls of [] \<Rightarrow> [] | l # _ \<Rightarrow> l)) w2 = (Inr l, w1)" by (elim exE conjE)
  have ls_eq: "ls = map (subnet_locale zoneType) chosen"
    by (rule io_mapM_Inr [OF _ ls]) (rule buildSDKSubnetLocaleType_locale [OF zt])
  have "card (set ls) \<le> 1" using k by (cases "card (set ls) > 1") (simp_all add: io_fail_def)
  moreover have "ls \<noteq> []" using ls_eq ne by simp
  ultimately have "l = hd ls" using k by (cases ls) (simp_all add: io_return_def)
  then have "l \<in> set ls" using \<open>ls \<noteq> []\<close> by simp
  moreover have "\<forall>x\<in>set ls. \<forall>y\<in>set ls. x = y"
    using \<open>card (set ls) \<le> 1\<close> unfolding One_nat_def card_le_Suc0_iff_eq [OF finite_set] .
  moreover have "subnet_locale zoneType s \<in> set ls" if "s \<in> set chosen" for s using that by (simp add: ls_eq)
  ultimately have one: "\<forall>s\<in>set chosen. subnet_locale zoneType s = l" by blast
  have "distinct (map subnet_az subnets)"
    using d m by (metis mset_eq_imp_distinct_iff mset_map)
  moreover have "sorted (map subnet_id subnets)"
    unfolding sub sortSubnetsByID_def by (rule sorts_slices_key [OF srt])
  moreover have "2 \<le> length subnets" if "sroLBType opts = ''application''" "\<not> sroALBSingleSubnet opts"
      "\<forall>s\<in>set subnets. subnet_locale zoneType s = ''availability-zone''"
  proof -
    have "l = ''availability-zone''" using one that(3) set ne by (cases chosen) auto
    then show ?thesis using cnt that(1,2) len
      by (auto simp: validateSubnetsMinimalCount_def computeSubnetsMinimalCount_def subnetLocaleTypeAvailabilityZone_def split: if_splits)
  qed
  moreover have "subnets \<noteq> []" using len ne by auto
  ultimately show ?thesis using m one set by (auto simp: placement_ok_def)
qed

text \<open>C21: The subnets found by discovery are, of each availability zone that has a candidate, exactly one: a candidate
  of the list EC2 returns for the VPC and the role tag of the scheme, such that no other candidate of the
  zone is better, where the tag of the cluster decides first and the subnet identifier second. They come sorted by
  identifier, lie in one locale, and there are two or more for an application load balancer in
  availability zones unless a single subnet is allowed. The documentation and the comment on
  \<^verbatim>\<open>ResolveViaDiscovery\<close> name the identifier alone; the code looks at the tag of the cluster first, and
  the theorem states what the code does.\<close>

theorem discovered_subnets:
  assumes srt: "sorts_slices (srSlice r)" and ord: "range_order (srRange r)"
    and zt: "zone_types (srAZInfoProvider r) zoneType"
    and scheme: "sroLBScheme (resolve_options opts) = ''internal'' \<and> role = ''kubernetes.io/role/internal-elb'' \<or>
      sroLBScheme (resolve_options opts) = ''internet-facing'' \<and> role = ''kubernetes.io/role/elb''"
    and run: "ResolveViaDiscovery r opts w = (Inr subnets, w')"
  shows "\<exists>found w1.
      srDescribeSubnetsAsList r \<lparr>dsuSubnetIds = [], dsuFilters =
        [\<lparr>ec2FilterName = ''vpc-id'', ec2FilterValues = [srVpcID r]\<rparr>,
         \<lparr>ec2FilterName = ''tag:'' @ role, ec2FilterValues = [[], ''1'']\<rparr>]\<rparr> w = (Inr found, w1) \<and>
      placement_ok zoneType (resolve_options opts) subnets \<and>
      (\<forall>s\<in>set found. candidate_subnet (srClusterName r) (resolve_options opts) s \<longrightarrow>
         (\<exists>c\<in>set subnets. subnet_az c = subnet_az s \<and> at_least_as_good (srClusterName r) c s)) \<and>
      (\<forall>c\<in>set subnets. c \<in> set found \<and> candidate_subnet (srClusterName r) (resolve_options opts) c)"
proof -
  let ?opts = "resolve_options opts" and ?tags = "[(role, [[], ''1''])]"
  have req: "selector_request r ?tags = \<lparr>dsuSubnetIds = [], dsuFilters =
      [\<lparr>ec2FilterName = ''vpc-id'', ec2FilterValues = [srVpcID r]\<rparr>,
       \<lparr>ec2FilterName = ''tag:'' @ role, ec2FilterValues = [[], ''1'']\<rparr>]\<rparr>"
    by (simp add: selector_request_def entries_singleton [OF ord])
  have disc: "ResolveViaDiscovery r opts = ResolveViaSelector r \<lparr>selIDs = None, selTags = ?tags\<rparr> opts"
    using scheme by (auto simp: ResolveViaDiscovery_def TagKeySubnetInternalELB_def TagKeySubnetPublicELB_def)
  from run obtain found w1 where f: "srDescribeSubnetsAsList r (selector_request r ?tags) w = (Inr found, w1)"
    and k: "(case choose_subnets r ?opts found of (chosen, explanation) \<Rightarrow>
       if chosen = [] then io_fail (Errorf ''unable to resolve at least one subnet (%s)'' [explanation])
       else finish_subnets r ?opts chosen) w1 = (Inr subnets, w')"
    unfolding disc ResolveViaSelector_def Let_def
    by (auto simp: io_bind_assoc dest!: io_bind_InrD)
  obtain chosen explanation where ch: "choose_subnets r ?opts found = (chosen, explanation)" by fastforce
  have "chosen \<noteq> []" and fin: "finish_subnets r ?opts chosen w1 = (Inr subnets, w')"
    using k by (auto simp: ch io_fail_def split: if_splits)
  note best = choose_subnets_best [OF srt ord, of ?opts found, unfolded ch fst_conv]
  have ok: "mset subnets = mset chosen \<and> placement_ok zoneType ?opts subnets"
    by (rule finish_subnets_ok [OF srt zt fin \<open>chosen \<noteq> []\<close>]) (use best in blast)
  then have set: "set subnets = set chosen" using mset_eq_setD by blast
  have "\<exists>c\<in>set subnets. subnet_az c = subnet_az s \<and> at_least_as_good (srClusterName r) c s"
    if "s \<in> set found" "candidate_subnet (srClusterName r) ?opts s" for s
  proof -
    have s: "s \<in> set (candidates r ?opts found)" using that by (simp add: candidates_def)
    then have "subnet_az s \<in> subnet_az ` set chosen" using best by blast
    then obtain c where "c \<in> set chosen" "subnet_az c = subnet_az s" by (metis imageE)
    then show ?thesis using best s set by metis
  qed
  moreover have "c \<in> set found \<and> candidate_subnet (srClusterName r) ?opts c" if "c \<in> set subnets" for c
  proof -
    have "c \<in> set (candidates r ?opts found)" using best that set by blast
    then show ?thesis by (simp add: candidates_def)
  qed
  ultimately show ?thesis using f ok unfolding req by blast
qed

definition example_subnet :: "string \<Rightarrow> string \<Rightarrow> int \<Rightarrow> string list \<Rightarrow> Subnet" where
  "example_subnet sid az free keys =
     \<lparr>subnetSubnetId = Some sid, subnetVpcId = Some ''vpc-1'', subnetAvailabilityZone = Some az,
      subnetAvailabilityZoneId = Some az, subnetAvailableIpAddressCount = Some free, subnetCidrBlock = None,
      subnetIpv6CidrBlockAssociationSet = [], subnetOutpostArn = None,
      subnetTags = map (\<lambda>k. \<lparr>ec2TagKey = Some k, ec2TagValue = None\<rparr>) keys\<rparr>"

definition example_zones :: "unit defaultAZInfoProvider" where
  "example_zones =
     \<lparr>DescribeAvailabilityZonesWithContext =
        (\<lambda>ids. io_return (map (\<lambda>azID. \<lparr>azZoneId = Some azID, azZoneName = None, azZoneType = Some ''availability-zone''\<rparr>) ids)),
      azInfoCacheGet = (\<lambda>_ _. None), azInfoCacheSet = (\<lambda>_ _ w. w)\<rparr>"

definition example_subnets_resolver :: "unit defaultSubnetsResolver" where
  "example_subnets_resolver =
     \<lparr>srAZInfoProvider = example_zones,
      srDescribeSubnetsAsList = (\<lambda>_. io_return
        [example_subnet ''subnet-3'' ''a'' 99 [''kubernetes.io/cluster/c1''], example_subnet ''subnet-1'' ''a'' 99 [],
         example_subnet ''subnet-2'' ''b'' 99 [], example_subnet ''subnet-0'' ''b'' 3 []]),
      srVpcID = ''vpc-1'', srClusterName = ''c1'', srRange = (\<lambda>m. m), srSlice = SliceStable, srList = sorted_list_of_set\<rparr>"

lemma example_zone_types: "zone_types example_zones (\<lambda>_. ''availability-zone'')"
  by (auto simp: zone_types_def example_zones_def FetchAZInfos_def fetchAZInfosFromCache_def infos_from_cache_def
      computeAZIDsWithoutAZInfo_def without_info_def fetchAZInfosFromAWS_def io_simps index_by_def put_all_def
      gomap_index_def saveAZInfosToCache_def)

theorem discovered_subnets_witness:
  "\<exists>found w1. srDescribeSubnetsAsList example_subnets_resolver \<lparr>dsuSubnetIds = [], dsuFilters =
      [\<lparr>ec2FilterName = ''vpc-id'', ec2FilterValues = [''vpc-1'']\<rparr>,
       \<lparr>ec2FilterName = ''tag:kubernetes.io/role/elb'', ec2FilterValues = [[], ''1'']\<rparr>]\<rparr> () = (Inr found, w1) \<and>
     placement_ok (\<lambda>_. ''availability-zone'') (resolve_options [WithSubnetsResolveAvailableIPAddressCount 8])
       [example_subnet ''subnet-2'' ''b'' 99 [], example_subnet ''subnet-3'' ''a'' 99 [''kubernetes.io/cluster/c1'']]"
proof -
  let ?opts = "[WithSubnetsResolveAvailableIPAddressCount 8]"
  have run: "ResolveViaDiscovery example_subnets_resolver ?opts () =
      (Inr [example_subnet ''subnet-2'' ''b'' 99 [], example_subnet ''subnet-3'' ''a'' 99 [''kubernetes.io/cluster/c1'']], ())"
    by code_simp
  have "sroLBScheme (resolve_options ?opts) = ''internal'' \<and> ''kubernetes.io/role/elb'' = ''kubernetes.io/role/internal-elb'' \<or>
      sroLBScheme (resolve_options ?opts) = ''internet-facing'' \<and> ''kubernetes.io/role/elb'' = ''kubernetes.io/role/elb''"
    by code_simp
  from discovered_subnets [OF _ _ _ this run, of "\<lambda>_. ''availability-zone''"]
  show ?thesis
    using SliceStable_sorts range_order_id example_zone_types by (fastforce simp: example_subnets_resolver_def)
qed

end
