(* ===== verification/Go_Text.thy ===== *)
theory Go_Text
  imports Go_Net K8s_Objects
begin

text \<open>
  More of Go's standard library, on text: \<^verbatim>\<open>strings.ToUpper\<close>, the pattern \<^verbatim>\<open>[[:^alnum:]]\<close> and the textual form of
  IP addresses of package \<^verbatim>\<open>net/netip\<close>; and the integer value of an \<^verbatim>\<open>intstr.IntOrString\<close>.
\<close>

definition ascii_upper :: "char \<Rightarrow> char" where
  "ascii_upper c = (if CHR ''a'' \<le> c \<and> c \<le> CHR ''z'' then char_of (of_char c - 32 :: nat) else c)"

definition ToUpper :: "string \<Rightarrow> string" where
  "ToUpper s = map ascii_upper s"

definition alnum :: "char \<Rightarrow> bool" where
  "alnum c \<longleftrightarrow> is_digit c \<or> (CHR ''a'' \<le> c \<and> c \<le> CHR ''z'') \<or> (CHR ''A'' \<le> c \<and> c \<le> CHR ''Z'')"

text \<open>Removal of what matches \<^verbatim>\<open>[[:^alnum:]]\<close>.\<close>

definition sanitize :: "string \<Rightarrow> string" where
  "sanitize s = filter alnum s"

fun is_int :: "IntOrString \<Rightarrow> bool" where
  "is_int (IntVal _) = True"
| "is_int (StrVal _) = False"

text \<open>The value of a string that is not a number is 0, and the nearest bound out of range.\<close>

fun IntValue :: "IntOrString \<Rightarrow> int" where
  "IntValue (IntVal i) = i"
| "IntValue (StrVal s) = parse_value (strconv_ParseInt s)"

section \<open>Textual form of addresses\<close>

definition hex_digit :: "nat \<Rightarrow> char" where
  "hex_digit d = (if d < 10 then char_of (48 + d) else char_of (87 + d))"

fun hex_digits :: "nat \<Rightarrow> string" where
  "hex_digits n = (if n < 16 then [hex_digit n] else hex_digits (n div 16) @ [hex_digit (n mod 16)])"

declare hex_digits.simps [simp del]

definition octet :: "32 word \<Rightarrow> nat \<Rightarrow> nat" where
  "octet a i = unat (drop_bit (8 * (3 - i)) a) mod 256"

definition v6u16 :: "128 word \<Rightarrow> nat \<Rightarrow> nat" where
  "v6u16 a i = unat (drop_bit (16 * (7 - i)) a) mod 65536"

definition string4 :: "32 word \<Rightarrow> string" where
  "string4 a = strings_Join (map (\<lambda>i. nat_digits (octet a i)) [0..<4]) ''.''"

text \<open>The first of the longest runs of two or more zero groups: its start and its length.\<close>

definition zero_run :: "nat list \<Rightarrow> nat \<times> nat" where
  "zero_run groups =
     foldl (\<lambda>(start, len) i. let l = length (takeWhile (\<lambda>g. g = 0) (drop i groups)) in
        if 2 \<le> l \<and> len < l then (i, l) else (start, len)) (0, 0) [0..<length groups]"

definition string6 :: "128 word \<Rightarrow> string" where
  "string6 a =
     (let groups = map (v6u16 a) [0..<8]; (start, len) = zero_run groups;
          show_groups = (\<lambda>gs. strings_Join (map hex_digits gs) '':'')
      in if len = 0 then show_groups groups
         else show_groups (take start groups) @ ''::'' @ show_groups (drop (start + len) groups))"

definition with_zone :: "string \<Rightarrow> string \<Rightarrow> string" where
  "with_zone zone s = (if zone = [] then s else s @ ''%'' @ zone)"

fun Addr_String :: "Addr \<Rightarrow> string" where
  "Addr_String (Addr4 a) = string4 a"
| "Addr_String (Addr6 a zone) =
     (case to4 a of
        Some a4 \<Rightarrow> with_zone zone (''::ffff:'' @ string4 a4)
      | None \<Rightarrow> with_zone zone (string6 a))"

section \<open>Lemmas\<close>

lemma sanitize_alnum: "\<forall>c\<in>set (sanitize s). alnum c"
  by (simp add: sanitize_def)

lemma parse_octet_nat_digits:
  assumes "n < 256" shows "parse_octet (nat_digits n) = Some n"
proof -
  have lead: "\<not> (length (nat_digits n) > 1 \<and> hd (nat_digits n) = CHR ''0'')"
  proof -
    have "hd (nat_digits n) \<noteq> CHR ''0''" if "n > 0" for n
      using that
    proof (induction n rule: nat_digits.induct)
      case (1 n)
      show ?case
      proof (cases "n < 10")
        case True
        have "digit_value (CHR ''0'') = 0" by (simp add: digit_value_def)
        then have "char_of (48 + n) \<noteq> CHR ''0''" using digit_value_of_char [OF True] 1(2) by auto
        then show ?thesis using True by (simp add: nat_digits.simps [of n])
      next
        case False
        then show ?thesis using 1 nat_digits_nonempty [of "n div 10"] by (simp add: nat_digits.simps [of n] hd_append)
      qed
    qed
    moreover have "length (nat_digits 0) = 1" by (simp add: nat_digits.simps)
    ultimately show ?thesis by (cases "n = 0") auto
  qed
  then show ?thesis using assms nat_digits_nonempty [of n]
    by (auto simp: parse_octet_def parse_digits_nat_digits)
qed

lemma nat_digits_no_sep: "c \<in> {CHR ''.'', CHR '':'', CHR ''%''} \<Longrightarrow> c \<notin> set (nat_digits n)"
  using nat_digits_digits [of n] by (auto simp: is_digit_def less_eq_char_def)

lemma octet_less: "octet a i < 256"
  by (simp add: octet_def)

lemma octets_address:
  "((256 * of_nat (octet a 0) + of_nat (octet a 1)) * 256 + of_nat (octet a 2)) * 256 + of_nat (octet a 3) = (a :: 32 word)"
proof -
  have div: "unat (drop_bit k a) = unat a div 2 ^ k" for k unfolding unat_drop_bit_eq by (rule drop_bit_eq_div)
  have lt: "unat a < 2 ^ 32" using unsigned_less [of a] by simp
  define n where "n = unat a"
  have n: "((256 * (n div 2 ^ 24 mod 256) + n div 2 ^ 16 mod 256) * 256 + n div 2 ^ 8 mod 256) * 256 + n mod 256 = n"
  proof -
    have "n div 2 ^ 24 mod 256 = n div 2 ^ 24" using lt by (simp add: n_def)
    moreover have "256 * (n div 2 ^ 24) + n div 2 ^ 16 mod 256 = n div 2 ^ 16"
      using mult_div_mod_eq [of 256 "n div 2 ^ 16"] by (simp add: div_mult2_eq [symmetric])
    moreover have "n div 2 ^ 16 * 256 + n div 2 ^ 8 mod 256 = n div 2 ^ 8"
      using div_mult_mod_eq [of "n div 2 ^ 8" 256] by (simp add: div_mult2_eq [symmetric])
    moreover have "n div 2 ^ 8 * 256 + n mod 256 = n" using div_mult_mod_eq [of n 256] by simp
    ultimately show ?thesis by simp
  qed
  have "of_nat (((256 * (n div 2 ^ 24 mod 256) + n div 2 ^ 16 mod 256) * 256 + n div 2 ^ 8 mod 256) * 256 + n mod 256) = a"
    unfolding n by (simp add: n_def)
  then show ?thesis by (simp add: octet_def div n_def)
qed

text \<open>Parsing inverts printing for IPv4 addresses.\<close>

lemma ParseAddr_string4: "ParseAddr (string4 a) = Inr (Addr4 a)"
proof -
  let ?d = "\<lambda>i. nat_digits (octet a i)"
  have shape: "string4 a = strings_Join [?d 0, ?d 1, ?d 2, ?d 3] ''.''"
    by (simp add: string4_def upt_rec eval_nat_numeral)
  have "split_char CHR ''.'' (string4 a) = [?d 0, ?d 1, ?d 2, ?d 3]"
    unfolding shape by (rule split_char_Join) (simp_all add: nat_digits_no_sep)
  then have f: "parseIPv4Fields (string4 a) = Some (octet a 0, octet a 1, octet a 2, octet a 3)"
    by (simp add: parseIPv4Fields_def parse_octet_nat_digits octet_less)
  have first: "List.find (\<lambda>c. c \<in> {CHR ''.'', CHR '':'', CHR ''%''}) (u @ CHR ''.'' # v) = Some (CHR ''.'')"
    if "\<forall>c\<in>set u. c \<notin> {CHR ''.'', CHR '':'', CHR ''%''}" for u v
    using that by (induction u) auto
  have eq: "string4 a = ?d 0 @ CHR ''.'' # (?d 1 @ ''.'' @ ?d 2 @ ''.'' @ ?d 3)" by (simp add: shape)
  have "\<forall>c\<in>set (?d 0). c \<notin> {CHR ''.'', CHR '':'', CHR ''%''}" using nat_digits_no_sep by blast
  from first [OF this] have "List.find (\<lambda>c. c \<in> {CHR ''.'', CHR '':'', CHR ''%''}) (string4 a) = Some (CHR ''.'')"
    unfolding eq .
  moreover have "address4 (octet a 0, octet a 1, octet a 2, octet a 3) = a"
    unfolding address4_def prod.case by (rule octets_address)
  ultimately show ?thesis by (simp add: ParseAddr_def f)
qed

end
