(* ===== verification/Threads.thy ===== *)
theory Threads
  imports Go_Prelude
begin

text \<open>
  Methods that run in several goroutines over one world and share one \<^verbatim>\<open>sync.Mutex\<close>. The text of a method
  is a program whose atomic actions are kept apart: a step on the world that yields the rest of the
  program, taking the mutex, giving it back. \<open>run_alone\<close> runs a program without interruption;
  \<open>thread_step\<close> is one move of a schedule: some goroutine calls a method, does its next
  action or returns, or other code acts on the world. \<open>assured\<close> is what a program establishes under the
  interference of the others, the condition of a rely/guarantee proof, and the locale \<open>mutex_threads\<close>
  holds the facts on schedules.
\<close>

section \<open>Programs\<close>

datatype ('w, 'a) prog =
    Ret 'a
  | Step "'w \<Rightarrow> ('w, 'a) prog \<times> 'w"
  | Lock "('w, 'a) prog"
  | Unlock "('w, 'a) prog"

primrec prog_then :: "('w, 'a) prog \<Rightarrow> ('a \<Rightarrow> ('w, 'b) prog) \<Rightarrow> ('w, 'b) prog" where
  "prog_then (Ret x) k = k x"
| "prog_then (Step f) k = Step (\<lambda>w. case map_prod (\<lambda>m. prog_then m k) id (f w) of (m, w') \<Rightarrow> (m, w'))"
| "prog_then (Lock m) k = Lock (prog_then m k)"
| "prog_then (Unlock m) k = Unlock (prog_then m k)"

primrec run_alone :: "('w, 'a) prog \<Rightarrow> 'w \<Rightarrow> 'a \<times> 'w" where
  "run_alone (Ret x) = (\<lambda>w. (x, w))"
| "run_alone (Step f) = (\<lambda>w. case map_prod run_alone id (f w) of (run, w') \<Rightarrow> run w')"
| "run_alone (Lock m) = run_alone m"
| "run_alone (Unlock m) = run_alone m"

text \<open>An error ends a method early; \<^verbatim>\<open>defer mutex.Unlock()\<close> gives the mutex back on every return.\<close>

definition prog_bind :: "('w, 'a result) prog \<Rightarrow> ('a \<Rightarrow> ('w, 'b result) prog) \<Rightarrow> ('w, 'b result) prog" where
  "prog_bind m k = prog_then m (\<lambda>r. case r of Inl e \<Rightarrow> Ret (Inl e) | Inr x \<Rightarrow> k x)"

definition prog_io :: "('w, 'a) io \<Rightarrow> ('w, 'a result) prog" where
  "prog_io m = Step (\<lambda>w. case m w of (r, w') \<Rightarrow> (Ret r, w'))"

definition prog_read :: "('w \<Rightarrow> 'a) \<Rightarrow> ('w, 'a result) prog" where
  "prog_read f = Step (\<lambda>w. (Ret (Inr (f w)), w))"

definition prog_write :: "('w \<Rightarrow> 'w) \<Rightarrow> ('w, unit result) prog" where
  "prog_write f = Step (\<lambda>w. (Ret (Inr ()), f w))"

primrec prog_for :: "('x \<Rightarrow> ('w, unit result) prog) \<Rightarrow> 'x list \<Rightarrow> ('w, unit result) prog" where
  "prog_for f [] = Ret (Inr ())"
| "prog_for f (x # xs) = prog_bind (f x) (\<lambda>_. prog_for f xs)"

definition with_mutex :: "('w, 'a) prog \<Rightarrow> ('w, 'a) prog" where
  "with_mutex m = Lock (prog_then m (\<lambda>r. Unlock (Ret r)))"

lemma run_alone_then [simp]: "run_alone (prog_then m k) w = (case run_alone m w of (x, w') \<Rightarrow> run_alone (k x) w')"
proof (induction m arbitrary: w)
  case (Step f)
  obtain m w' where f: "f w = (m, w')" by fastforce
  then have "m \<in> Basic_BNFs.fsts (f w)" by simp
  from Step [OF rangeI this] show ?case by (simp add: f)
qed simp_all

lemma run_alone_bind [simp]: "run_alone (prog_bind m k) = io_bind (run_alone m) (\<lambda>x. run_alone (k x))"
  by (rule ext) (auto simp: prog_bind_def io_bind_def split: prod.splits sum.splits)

lemma run_alone_prims [simp]:
  "run_alone (prog_io m) = m" "run_alone (prog_read f) w = (Inr (f w), w)" "run_alone (prog_write g) w = (Inr (), g w)"
  "run_alone (with_mutex p) = run_alone p"
  by (auto simp: prog_io_def prog_read_def prog_write_def with_mutex_def split: prod.splits)

section \<open>Schedules\<close>

record ('w, 'c, 'a) threads =
  shared :: 'w
  holder :: "nat option"
  running :: "nat \<Rightarrow> ('c \<times> ('w, 'a) prog) option"

definition idle_threads :: "'w \<Rightarrow> ('w, 'c, 'a) threads" where
  "idle_threads w = \<lparr>shared = w, holder = None, running = (\<lambda>_. None)\<rparr>"

inductive thread_step ::
  "('c \<Rightarrow> ('w, 'a) prog) \<Rightarrow> ('w \<Rightarrow> 'w \<Rightarrow> bool) \<Rightarrow> ('w, 'c, 'a) threads \<Rightarrow> ('w, 'c, 'a) threads \<Rightarrow> bool"
  for body env where
  call: "running s i = None \<Longrightarrow> thread_step body env s (s\<lparr>running := (running s)(i \<mapsto> (c, body c))\<rparr>)"
| act: "running s i = Some (c, Step f) \<Longrightarrow> f (shared s) = (m, w') \<Longrightarrow>
     thread_step body env s (s\<lparr>shared := w', running := (running s)(i \<mapsto> (c, m))\<rparr>)"
| lock: "running s i = Some (c, Lock m) \<Longrightarrow> holder s = None \<Longrightarrow>
     thread_step body env s (s\<lparr>holder := Some i, running := (running s)(i \<mapsto> (c, m))\<rparr>)"
| unlock: "running s i = Some (c, Unlock m) \<Longrightarrow> holder s = Some i \<Longrightarrow>
     thread_step body env s (s\<lparr>holder := None, running := (running s)(i \<mapsto> (c, m))\<rparr>)"
| return: "running s i = Some (c, Ret x) \<Longrightarrow> thread_step body env s (s\<lparr>running := (running s)(i := None)\<rparr>)"
| environment: "env (shared s) w' \<Longrightarrow> thread_step body env s (s\<lparr>shared := w'\<rparr>)"

text \<open>All calls that are being made satisfy a condition, at every moment of a schedule.\<close>

definition calls_in :: "('c \<Rightarrow> bool) \<Rightarrow> ('w, 'c, 'a) threads \<Rightarrow> bool" where
  "calls_in C s \<longleftrightarrow> (\<forall>i c m. running s i = Some (c, m) \<longrightarrow> C c)"

definition steps_in ::
  "('c \<Rightarrow> bool) \<Rightarrow> ('c \<Rightarrow> ('w, 'a) prog) \<Rightarrow> ('w \<Rightarrow> 'w \<Rightarrow> bool) \<Rightarrow> ('w, 'c, 'a) threads \<Rightarrow> ('w, 'c, 'a) threads \<Rightarrow> bool" where
  "steps_in C body env = (\<lambda>s s'. thread_step body env s s' \<and> calls_in C s')\<^sup>*\<^sup>*"

text \<open>A schedule as a list of orders, carried out by a function.\<close>

datatype 'c order = Call nat 'c | Run nat | Return nat

fun carry_out :: "('c \<Rightarrow> ('w, 'a) prog) \<Rightarrow> ('w, 'c, 'a) threads \<Rightarrow> 'c order \<Rightarrow> ('w, 'c, 'a) threads option" where
  "carry_out body s (Call i c) =
     (if running s i = None then Some (s\<lparr>running := (running s)(i \<mapsto> (c, body c))\<rparr>) else None)"
| "carry_out body s (Return i) =
     (case running s i of Some (c, Ret x) \<Rightarrow> Some (s\<lparr>running := (running s)(i := None)\<rparr>) | _ \<Rightarrow> None)"
| "carry_out body s (Run i) =
     (case running s i of
        Some (c, Step f) \<Rightarrow> (case f (shared s) of (m, w') \<Rightarrow> Some (s\<lparr>shared := w', running := (running s)(i \<mapsto> (c, m))\<rparr>))
      | Some (c, Lock m) \<Rightarrow> if holder s = None then Some (s\<lparr>holder := Some i, running := (running s)(i \<mapsto> (c, m))\<rparr>) else None
      | Some (c, Unlock m) \<Rightarrow> if holder s = Some i then Some (s\<lparr>holder := None, running := (running s)(i \<mapsto> (c, m))\<rparr>) else None
      | _ \<Rightarrow> None)"

fun carry_out_all :: "('c \<Rightarrow> ('w, 'a) prog) \<Rightarrow> ('w, 'c, 'a) threads \<Rightarrow> 'c order list \<Rightarrow> ('w, 'c, 'a) threads option" where
  "carry_out_all body s [] = Some s"
| "carry_out_all body s (order # orders) =
     (case carry_out body s order of None \<Rightarrow> None | Some s' \<Rightarrow> carry_out_all body s' orders)"

fun order_in :: "('c \<Rightarrow> bool) \<Rightarrow> 'c order \<Rightarrow> bool" where
  "order_in C (Call i c) = C c"
| "order_in C _ = True"

lemma calls_in_upd [simp]:
  "C c \<Longrightarrow> calls_in C s \<Longrightarrow> calls_in C (s\<lparr>running := (running s)(i \<mapsto> (c, m))\<rparr>)"
  "calls_in C s \<Longrightarrow> calls_in C (s\<lparr>running := (running s)(i := None)\<rparr>)"
  by (auto simp: calls_in_def split: if_splits)

lemma calls_in_frame [simp]:
  "calls_in C (s\<lparr>shared := w', running := r\<rparr>) = calls_in C (s\<lparr>running := r\<rparr>)"
  "calls_in C (s\<lparr>holder := h, running := r\<rparr>) = calls_in C (s\<lparr>running := r\<rparr>)"
  by (simp_all add: calls_in_def)

lemma calls_inD: "calls_in C s \<Longrightarrow> running s i = Some (c, m) \<Longrightarrow> C c"
  by (auto simp: calls_in_def)

lemma carry_out_step: "carry_out body s order = Some s' \<Longrightarrow> thread_step body env s s'"
  by (cases "(body, s, order)" rule: carry_out.cases)
    (auto split: if_splits option.splits prod.splits prog.splits intro: thread_step.intros)

lemma carry_out_calls: "carry_out body s order = Some s' \<Longrightarrow> order_in C order \<Longrightarrow> calls_in C s \<Longrightarrow> calls_in C s'"
  by (cases "(body, s, order)" rule: carry_out.cases)
    (auto split: if_splits option.splits prod.splits prog.splits intro!: calls_in_upd dest: calls_inD)

lemma carry_out_all_steps:
  "carry_out_all body s orders = Some s' \<Longrightarrow> list_all (order_in C) orders \<Longrightarrow> calls_in C s \<Longrightarrow>
     steps_in C body env s s' \<and> calls_in C s'"
proof (induction orders arbitrary: s)
  case (Cons order orders)
  then obtain s1 where s1: "carry_out body s order = Some s1" "carry_out_all body s1 orders = Some s'"
    by (auto split: option.splits)
  have "calls_in C s1" using carry_out_calls [OF s1(1)] Cons.prems by simp
  moreover have "thread_step body env s s1" by (rule carry_out_step [OF s1(1)])
  ultimately show ?case using Cons.IH [OF s1(2)] Cons.prems
    by (auto simp: steps_in_def intro: converse_rtranclp_into_rtranclp)
qed (simp add: steps_in_def)

section \<open>What a program assures\<close>

text \<open>The others may change the world as \<open>rely h\<close> says, with \<open>h\<close> whether this goroutine holds the mutex; each
  of its own steps has to stay within \<open>guar h\<close>; \<open>linv\<close> holds of the world while nobody holds the
  mutex; \<open>Q h x\<close> is to hold on return with \<open>x\<close>.\<close>

primrec assured ::
  "(bool \<Rightarrow> 'w \<Rightarrow> 'w \<Rightarrow> bool) \<Rightarrow> (bool \<Rightarrow> 'w \<Rightarrow> 'w \<Rightarrow> bool) \<Rightarrow> ('w \<Rightarrow> bool) \<Rightarrow> (bool \<Rightarrow> 'a \<Rightarrow> 'w \<Rightarrow> bool) \<Rightarrow>
   ('w, 'a) prog \<Rightarrow> bool \<Rightarrow> 'w \<Rightarrow> bool" where
  "assured rely guar linv Q (Ret x) = (\<lambda>h w. \<forall>w'. (rely h)\<^sup>*\<^sup>* w w' \<longrightarrow> Q h x w')"
| "assured rely guar linv Q (Step f) = (\<lambda>h w. \<forall>w'. (rely h)\<^sup>*\<^sup>* w w' \<longrightarrow>
     (case map_prod (assured rely guar linv Q) id (f w') of (rest, w'') \<Rightarrow> guar h w' w'' \<and> rest h w''))"
| "assured rely guar linv Q (Lock m) = (\<lambda>h w. \<not> h \<and>
     (\<forall>w'. (rely h)\<^sup>*\<^sup>* w w' \<longrightarrow> linv w' \<longrightarrow> assured rely guar linv Q m True w'))"
| "assured rely guar linv Q (Unlock m) = (\<lambda>h w. h \<and>
     (\<forall>w'. (rely h)\<^sup>*\<^sup>* w w' \<longrightarrow> linv w' \<and> assured rely guar linv Q m False w'))"

lemma assured_StepD:
  "assured rely guar linv Q (Step f) h w \<Longrightarrow> f w = (m, w') \<Longrightarrow> guar h w w' \<and> assured rely guar linv Q m h w'"
  by (auto simp: map_prod_def split: prod.splits dest!: spec [of _ w])

text \<open>Interference that is relied on does no harm.\<close>

lemma assured_rely: "assured rely guar linv Q m h w \<Longrightarrow> rely h w w' \<Longrightarrow> assured rely guar linv Q m h w'"
  by (cases m) (simp_all add: converse_rtranclp_into_rtranclp)

lemma rtranclp_weaken: "r\<^sup>*\<^sup>* x y \<Longrightarrow> (\<And>a b. r a b \<Longrightarrow> s a b) \<Longrightarrow> s\<^sup>*\<^sup>* x y"
  by (induction rule: rtranclp_induct) (auto intro: rtranclp.rtrancl_into_rtrancl)

lemma assured_weaken:
  assumes "assured rely guar linv Q m h w"
    and "\<And>h w w'. rely' h w w' \<Longrightarrow> rely h w w'" "\<And>h x w. Q h x w \<Longrightarrow> Q' h x w"
  shows "assured rely' guar linv Q' m h w"
proof -
  have weaker: "(rely h)\<^sup>*\<^sup>* w w'" if "(rely' h)\<^sup>*\<^sup>* w w'" for h w w'
    using rtranclp_weaken [OF that] assms(2) by blast
  show ?thesis
    using assms(1)
  proof (induction m arbitrary: h w)
    case (Step f)
    show ?case
    proof (simp add: map_prod_def split: prod.split, intro allI impI)
      fix w1 m w2
      assume r: "(rely' h)\<^sup>*\<^sup>* w w1" and f: "f w1 = (m, w2)"
      have "guar h w1 w2 \<and> assured rely guar linv Q m h w2"
        using Step.prems weaker [OF r] f by (auto simp: map_prod_def split: prod.splits)
      moreover have "m \<in> Basic_BNFs.fsts (f w1)" by (simp add: f)
      ultimately show "guar h w1 w2 \<and> assured rely' guar linv Q' m h w2" using Step.IH by blast
    qed
  next
    case (Ret x)
    then show ?case using weaker assms(3) by auto
  next
    case (Lock m)
    then show ?case using weaker by auto
  next
    case (Unlock m)
    then show ?case using weaker by auto
  qed
qed

text \<open>The rules of a rely/guarantee proof: assertions that the others keep.\<close>

definition kept_by :: "(bool \<Rightarrow> 'w \<Rightarrow> 'w \<Rightarrow> bool) \<Rightarrow> bool \<Rightarrow> ('w \<Rightarrow> bool) \<Rightarrow> bool" where
  "kept_by rely h A \<longleftrightarrow> (\<forall>w w'. A w \<longrightarrow> rely h w w' \<longrightarrow> A w')"

lemma kept_by_rtranclp: "kept_by rely h A \<Longrightarrow> (rely h)\<^sup>*\<^sup>* w w' \<Longrightarrow> A w \<Longrightarrow> A w'"
  by (rotate_tac 1, induction rule: rtranclp_induct) (auto simp: kept_by_def)

lemma assured_Ret: "kept_by rely h A \<Longrightarrow> A w \<Longrightarrow> (\<And>w. A w \<Longrightarrow> Q h x w) \<Longrightarrow> assured rely guar linv Q (Ret x) h w"
  by (auto dest: kept_by_rtranclp)

lemma assured_Step:
  assumes "kept_by rely h A" "A w" "\<And>w m w'. A w \<Longrightarrow> f w = (m, w') \<Longrightarrow> guar h w w' \<and> assured rely guar linv Q m h w'"
  shows "assured rely guar linv Q (Step f) h w"
  using assms(3) kept_by_rtranclp [OF assms(1) _ assms(2)] by (auto simp: map_prod_def split: prod.splits)

lemma assured_then:
  "assured rely guar linv (\<lambda>h x. assured rely guar linv Q (k x) h) m h w \<Longrightarrow> assured rely guar linv Q (prog_then m k) h w"
proof (induction m arbitrary: h w)
  case (Ret x)
  then show ?case by simp
next
  case (Step f)
  show ?case
  proof (simp add: map_prod_def split: prod.split, intro allI impI)
    fix w1 m w2
    assume r: "(rely h)\<^sup>*\<^sup>* w w1" and f: "f w1 = (m, w2)"
    have "guar h w1 w2 \<and> assured rely guar linv (\<lambda>h x. assured rely guar linv Q (k x) h) m h w2"
      using Step.prems r f by (auto simp: map_prod_def split: prod.splits)
    moreover have "m \<in> Basic_BNFs.fsts (f w1)" by (simp add: f)
    ultimately show "guar h w1 w2 \<and> assured rely guar linv Q (prog_then m k) h w2" using Step.IH by blast
  qed
qed auto

lemma assured_bind:
  assumes "assured rely guar linv (\<lambda>h r w. case r of Inl e \<Rightarrow> assured rely guar linv Q (Ret (Inl e)) h w
     | Inr x \<Rightarrow> assured rely guar linv Q (k x) h w) m h w"
  shows "assured rely guar linv Q (prog_bind m k) h w"
  unfolding prog_bind_def by (rule assured_then, rule assured_weaken [OF assms]) (auto split: sum.splits)

lemma assured_with_mutex:
  assumes "kept_by rely False A" "A w"
    and "\<And>w. A w \<Longrightarrow> linv w \<Longrightarrow> assured rely guar linv (\<lambda>h x w. h \<and> assured rely guar linv Q (Unlock (Ret x)) True w) m True w"
  shows "assured rely guar linv Q (with_mutex m) False w"
proof -
  have "assured rely guar linv Q (prog_then m (\<lambda>r. Unlock (Ret r))) True w'" if "(rely False)\<^sup>*\<^sup>* w w'" "linv w'" for w'
    by (rule assured_then, rule assured_weaken [OF assms(3)])
      (use kept_by_rtranclp [OF assms(1) that(1) assms(2)] that(2) in auto)
  then show ?thesis by (simp add: with_mutex_def)
qed

text \<open>One action followed by the rest of a method.\<close>

lemma assured_io_bind:
  assumes "kept_by rely h A" "A w"
    and "\<And>w r w'. A w \<Longrightarrow> m w = (r, w') \<Longrightarrow> guar h w w' \<and>
      (case r of Inl e \<Rightarrow> assured rely guar linv Q (Ret (Inl e)) h w' | Inr x \<Rightarrow> assured rely guar linv Q (k x) h w')"
  shows "assured rely guar linv Q (prog_bind (prog_io m) k) h w"
proof -
  have "prog_bind (prog_io m) k = Step (\<lambda>w. case m w of (r, w') \<Rightarrow> (case r of Inl e \<Rightarrow> Ret (Inl e) | Inr x \<Rightarrow> k x, w'))"
    by (auto simp: prog_bind_def prog_io_def fun_eq_iff split: prod.splits)
  moreover have "guar h w w' \<and> assured rely guar linv Q n h w'"
    if "A w" "(case m w of (r, w') \<Rightarrow> (case r of Inl e \<Rightarrow> Ret (Inl e) | Inr x \<Rightarrow> k x, w')) = (n, w')" for w n w'
    using assms(3) [OF that(1), of "fst (m w)" "snd (m w)"] that(2) by (auto simp del: assured.simps split: prod.splits sum.splits)
  ultimately show ?thesis using assured_Step [OF assms(1,2)] by metis
qed

lemma assured_read_bind:
  assumes "kept_by rely h A" "A w" "\<And>w. A w \<Longrightarrow> guar h w w \<and> assured rely guar linv Q (k (f w)) h w"
  shows "assured rely guar linv Q (prog_bind (prog_read f) k) h w"
  using assms(3) by (auto simp: prog_bind_def prog_read_def intro!: assured_Step [OF assms(1,2)] simp del: assured.simps)

lemma assured_write_bind:
  assumes "kept_by rely h A" "A w" "\<And>w. A w \<Longrightarrow> guar h w (f w) \<and> assured rely guar linv Q (k ()) h (f w)"
  shows "assured rely guar linv Q (prog_bind (prog_write f) k) h w"
  using assms(3) by (auto simp: prog_bind_def prog_write_def intro!: assured_Step [OF assms(1,2)] simp del: assured.simps)

lemma assured_write:
  assumes "kept_by rely h A" "A w" "kept_by rely h B" "\<And>w. A w \<Longrightarrow> guar h w (f w) \<and> B (f w)" "\<And>w. B w \<Longrightarrow> Q h (Inr ()) w"
  shows "assured rely guar linv Q (prog_write f) h w"
  using assms(4,5) by (auto simp: prog_write_def intro!: assured_Step [OF assms(1,2)] assured_Ret [OF assms(3)] simp del: assured.simps)

lemma assured_Unlock_Ret:
  assumes "kept_by rely True A" "A w" "kept_by rely False B" "\<And>w. A w \<Longrightarrow> linv w \<and> B w" "\<And>w. B w \<Longrightarrow> Q False x w"
  shows "assured rely guar linv Q (Unlock (Ret x)) True w"
  using kept_by_rtranclp [OF assms(1) _ assms(2)] kept_by_rtranclp [OF assms(3)] assms(4,5) by auto

lemma kept_by_True [simp]: "kept_by rely h (\<lambda>_. True)"
  by (simp add: kept_by_def)

lemma kept_by_conj: "kept_by rely h A \<Longrightarrow> kept_by rely h B \<Longrightarrow> kept_by rely h (\<lambda>w. A w \<and> B w)"
  by (auto simp: kept_by_def)

section \<open>Schedules of assured programs\<close>

text \<open>What the goroutines guarantee depends on the calls they carry out; a goroutine relies on the
  guarantees of the calls that are admitted, with the mutex only when it does not hold it itself.\<close>

definition relies :: "('c \<Rightarrow> bool) \<Rightarrow> ('c \<Rightarrow> bool \<Rightarrow> 'w \<Rightarrow> 'w \<Rightarrow> bool) \<Rightarrow> ('w \<Rightarrow> 'w \<Rightarrow> bool) \<Rightarrow> bool \<Rightarrow> 'w \<Rightarrow> 'w \<Rightarrow> bool" where
  "relies C guar env h w w' \<longleftrightarrow> env w w' \<or> (\<exists>c. C c \<and> (guar c False w w' \<or> \<not> h \<and> guar c True w w'))"

locale mutex_threads =
  fixes body :: "'c \<Rightarrow> ('w, 'a) prog" and env :: "'w \<Rightarrow> 'w \<Rightarrow> bool"
    and guar :: "'c \<Rightarrow> bool \<Rightarrow> 'w \<Rightarrow> 'w \<Rightarrow> bool" and linv :: "'w \<Rightarrow> bool"
  assumes linv_env: "linv w \<Longrightarrow> env w w' \<Longrightarrow> linv w'"
    and linv_guar: "linv w \<Longrightarrow> guar c False w w' \<Longrightarrow> linv w'"
begin

definition assured_threads :: "('c \<Rightarrow> bool) \<Rightarrow> (nat \<Rightarrow> 'c \<Rightarrow> bool \<Rightarrow> 'a \<Rightarrow> 'w \<Rightarrow> bool) \<Rightarrow> ('w, 'c, 'a) threads \<Rightarrow> bool" where
  "assured_threads C Q s \<longleftrightarrow> (holder s = None \<longrightarrow> linv (shared s)) \<and> (\<forall>i. holder s = Some i \<longrightarrow> running s i \<noteq> None) \<and>
     (\<forall>i c m. running s i = Some (c, m) \<longrightarrow>
        C c \<and> assured (relies C guar env) (guar c) linv (Q i c) m (holder s = Some i) (shared s))"

lemma assured_threadsD:
  assumes "assured_threads C Q s" "running s i = Some (c, m)"
  shows "C c" "assured (relies C guar env) (guar c) linv (Q i c) m (holder s = Some i) (shared s)"
  using assms by (auto simp: assured_threads_def)

text \<open>A step of one goroutine is interference the others rely on.\<close>

lemma step_relied:
  assumes "assured_threads C Q s" "running s i = Some (c, m)" "guar c (holder s = Some i) (shared s) w'" "j \<noteq> i"
  shows "relies C guar env (holder s = Some j) (shared s) w'"
  using assms by (cases "holder s = Some i") (auto simp: relies_def dest: assured_threadsD(1))

lemma step_assured:
  assumes step: "thread_step body env s s'" and inv: "assured_threads C Q s" and C: "calls_in C s'"
    and bodies: "\<And>i c w. C c \<Longrightarrow> assured (relies C guar env) (guar c) linv (Q i c) (body c) False w"
    and returns: "\<And>i c x w. \<not> Q i c True x w"
  shows "assured_threads C Q s'"
  using step inv C
proof (induction rule: thread_step.induct)
  case (call s i c)
  have "C c" using calls_inD [OF call(3), of i c "body c"] by simp
  moreover have "holder s \<noteq> Some i" using call by (auto simp: assured_threads_def)
  ultimately show ?case using call(2) bodies [of c i "shared s"] by (auto simp: assured_threads_def)
next
  case (act s i c f m w')
  note A = assured_threadsD [OF act(3) act(1)]
  have g: "guar c (holder s = Some i) (shared s) w'"
      "assured (relies C guar env) (guar c) linv (Q i c) m (holder s = Some i) w'"
    using assured_StepD [OF A(2) act(2)] by auto
  have "assured (relies C guar env) (guar d) linv (Q j d) n (holder s = Some j) w'" if "running s j = Some (d, n)" "j \<noteq> i" for j d n
    using assured_rely [OF assured_threadsD(2) [OF act(3) that(1)] step_relied [OF act(3,1) g(1) that(2)]] .
  moreover have "linv w'" if "holder s = None" using act(3) g(1) that linv_guar by (auto simp: assured_threads_def)
  ultimately show ?case using act(3) A(1) g(2) by (auto simp: assured_threads_def)
next
  case (lock s i c m)
  note A = assured_threadsD [OF lock(3) lock(1)]
  have "assured (relies C guar env) (guar c) linv (Q i c) m True (shared s)"
    using A(2) lock(2,3) by (auto simp: assured_threads_def)
  then show ?case using lock(2,3) A(1) by (fastforce simp: assured_threads_def)
next
  case (unlock s i c m)
  note A = assured_threadsD [OF unlock(3) unlock(1)]
  have "linv (shared s)" "assured (relies C guar env) (guar c) linv (Q i c) m False (shared s)"
    using A(2) unlock(2) by auto
  then show ?case using unlock(2,3) A(1) by (fastforce simp: assured_threads_def)
next
  case (return s i c x)
  have "holder s \<noteq> Some i" using assured_threadsD(2) [OF return(2,1)] returns by auto
  then show ?case using return(2) by (auto simp: assured_threads_def)
next
  case (environment s w')
  have "assured (relies C guar env) (guar c) linv (Q i c) m (holder s = Some i) w'" if "running s i = Some (c, m)" for i c m
    by (rule assured_rely [OF assured_threadsD(2) [OF environment(2) that]]) (simp add: relies_def environment(1))
  then show ?case using environment by (auto simp: assured_threads_def intro: linv_env)
qed

lemma steps_assured:
  assumes "steps_in C body env s s'" "assured_threads C Q s"
    and bodies: "\<And>i c w. C c \<Longrightarrow> assured (relies C guar env) (guar c) linv (Q i c) (body c) False w"
    and returns: "\<And>i c x w. \<not> Q i c True x w"
  shows "assured_threads C Q s'"
  using assms(1,2) unfolding steps_in_def
  by (induction rule: rtranclp_induct) (auto intro: step_assured [OF _ _ _ bodies returns])

text \<open>An assertion that the admitted calls keep holds from some moment on.\<close>

lemma step_keeps:
  assumes step: "thread_step body env s s'" and inv: "assured_threads C Q s"
    and A: "kept_by (relies C guar env) False A" "A (shared s)"
  shows "A (shared s')"
  using step inv A(2)
proof (induction rule: thread_step.induct)
  case (act s i c f m w')
  have "guar c (holder s = Some i) (shared s) w'"
    using assured_StepD [OF assured_threadsD(2) [OF act(3,1)] act(2)] by (rule conjunct1)
  then have "relies C guar env False (shared s) w'"
    using assured_threadsD(1) [OF act(3,1)] by (cases "holder s = Some i") (auto simp: relies_def)
  then show ?case using A(1) act(4) by (auto simp: kept_by_def)
next
  case (environment s w')
  have "relies C guar env False (shared s) w'" by (simp add: relies_def environment(1))
  then show ?case using A(1) environment(3) by (auto simp: kept_by_def)
qed simp_all

lemma steps_keep:
  assumes "steps_in C body env s s'" "assured_threads C Q s"
    and bodies: "\<And>i c w. C c \<Longrightarrow> assured (relies C guar env) (guar c) linv (Q i c) (body c) False w"
    and returns: "\<And>i c x w. \<not> Q i c True x w"
    and A: "kept_by (relies C guar env) False A" "A (shared s)"
  shows "A (shared s')"
proof -
  have "assured_threads C Q s' \<and> A (shared s')"
    using assms(1,2) A(2) unfolding steps_in_def
    by (induction rule: rtranclp_induct) (auto intro: step_assured [OF _ _ _ bodies returns] step_keeps [OF _ _ A(1)])
  then show ?thesis by blast
qed

text \<open>Fewer calls admitted, more relied on.\<close>

lemma assured_threads_narrow:
  assumes "assured_threads C Q s" "calls_in D s" "\<And>c. D c \<Longrightarrow> C c" "\<And>i c m h x w. running s i = Some (c, m) \<Longrightarrow> Q i c h x w \<Longrightarrow> Q' i c h x w"
  shows "assured_threads D Q' s"
proof -
  have r: "relies D guar env h w w' \<Longrightarrow> relies C guar env h w w'" for h w w' using assms(3) by (auto simp: relies_def)
  have "assured (relies D guar env) (guar c) linv (Q' i c) m (holder s = Some i) (shared s)" if "running s i = Some (c, m)" for i c m
    by (rule assured_weaken [OF assured_threadsD(2) [OF assms(1) that] r]) (auto intro: assms(4) [OF that])
  then show ?thesis using assms(1,2) by (auto simp: assured_threads_def calls_in_def)
qed

lemma idle_assured: "linv w \<Longrightarrow> assured_threads C Q (idle_threads w)"
  by (simp add: assured_threads_def idle_threads_def)

end

end
