(* ===== verification/Backend_SG.thy ===== *)
theory Backend_SG
  imports Networking_SG K8s_Objects Go_Text Go_Sort Elbv2_Managers Effects Threads
begin

text \<open>
  The shared backend security group, \<^verbatim>\<open>pkg/networking/backend_sg_provider.go\<close>: one group for the whole
  cluster, created when the first resource needs it and deleted when no resource does. The mutable
  fields of the provider, the identifier of the group and the map of objects, are part of the world;
  \<open>bspState\<close> reads them and \<open>bspSetState\<close> writes them. The hexadecimal form of the SHA-256 sum is the
  parameter \<open>bspSha256\<close>. Reconciliations run concurrently, so the methods are programs of theory
  \<^verbatim>\<open>Threads\<close>: every operation of the \<^verbatim>\<open>sync.Map\<close>, every read and write of the identifier, every call of a client and
  every use of the mutex is an action of its own, between which other goroutines may act. The last part
  of the theory shows what all their schedules preserve.
\<close>

section \<open>State\<close>

record backend_state =
  autoGeneratedSG :: string
  objectsMap :: "(string, bool) gomap"

record 'w defaultBackendSGProvider =
  bspVpcID :: string
  bspClusterName :: string
  bspBackendSG :: string
  bspDefaultTags :: string_map
  bspEc2Client :: "'w EC2"
  bspListIngresses :: "('w, ObjectMeta list) io"
  bspListServices :: "('w, ObjectMeta list) io"
  bspState :: "'w \<Rightarrow> backend_state"
  bspSetState :: "backend_state \<Rightarrow> 'w \<Rightarrow> 'w"
  bspRange :: "string list \<Rightarrow> string list"
  bspSlice :: "Ec2Tag slice_sort"
  bspSha256 :: "string \<Rightarrow> string"
  bspPollImmediate :: "('w, bool) io \<Rightarrow> ('w, unit) io"

definition ResourceTypeIngress :: string where "ResourceTypeIngress = ''ingress''"

definition ResourceTypeService :: string where "ResourceTypeService = ''service''"

definition tagKeyK8sCluster :: string where "tagKeyK8sCluster = ''elbv2.k8s.aws/cluster''"

definition tagKeyResource :: string where "tagKeyResource = ''elbv2.k8s.aws/resource''"

definition tagValueBackend :: string where "tagValueBackend = ''backend-sg''"

definition explicitGroupFinalizerPrefix :: string where "explicitGroupFinalizerPrefix = ''group.ingress.k8s.aws/''"

definition implicitGroupFinalizer :: string where "implicitGroupFinalizer = ''ingress.k8s.aws/resources''"

definition serviceFinalizer :: string where "serviceFinalizer = ''service.k8s.aws/resources''"

definition bsg_sgDescription :: string where
  "bsg_sgDescription = ''[k8s] Shared Backend SecurityGroup for LoadBalancer''"

definition checkIngressFinalizersFunc :: "string list \<Rightarrow> bool" where
  "checkIngressFinalizersFunc finalizers =
     list_ex (\<lambda>fin. fin = implicitGroupFinalizer \<or> HasPrefix fin explicitGroupFinalizerPrefix) finalizers"

definition checkServiceFinalizersFunc :: "string list \<Rightarrow> bool" where
  "checkServiceFinalizersFunc finalizers = list_ex (\<lambda>fin. fin = serviceFinalizer) finalizers"

definition getObjectKey :: "string \<Rightarrow> NamespacedName \<Rightarrow> string" where
  "getObjectKey resourceType resource = resourceType @ ''/'' @ NamespacedName_String resource"

definition net_isSecurityGroupDependencyViolationError :: "go_error \<Rightarrow> bool" where
  "net_isSecurityGroupDependencyViolationError err =
     (case as_aws_error err of Some (code, _) \<Rightarrow> code = ''DependencyViolation'' | None \<Rightarrow> False)"

definition net_isEC2SecurityGroupNotFoundError :: "go_error \<Rightarrow> bool" where
  "net_isEC2SecurityGroupNotFoundError err =
     (case as_aws_error err of Some (code, _) \<Rightarrow> code = ''InvalidGroup.NotFound'' | None \<Rightarrow> False)"

section \<open>Is the group needed?\<close>

definition store_object :: "'w defaultBackendSGProvider \<Rightarrow> string \<Rightarrow> bool \<Rightarrow> NamespacedName \<Rightarrow> 'w \<Rightarrow> 'w" where
  "store_object p resourceType backendSGRequired res w =
     (let st = bspState p w in
      bspSetState p (st\<lparr>objectsMap := AList.update (getObjectKey resourceType res) backendSGRequired (objectsMap st)\<rparr>) w)"

definition updateObjectsMap ::
  "'w defaultBackendSGProvider \<Rightarrow> string \<Rightarrow> NamespacedName list \<Rightarrow> bool \<Rightarrow> ('w, unit result) prog" where
  "updateObjectsMap p resourceType res_list backendSGRequired =
     prog_for (\<lambda>res. prog_write (store_object p resourceType backendSGRequired res)) res_list"

text \<open>\<^verbatim>\<open>CompareAndDelete\<close> of a key with the value false.\<close>

definition compare_and_delete :: "'w defaultBackendSGProvider \<Rightarrow> string \<Rightarrow> NamespacedName \<Rightarrow> 'w \<Rightarrow> 'w" where
  "compare_and_delete p resourceType res w =
     (let st = bspState p w; key = getObjectKey resourceType res in
      if map_of (objectsMap st) key = Some False
      then bspSetState p (st\<lparr>objectsMap := AList.delete key (objectsMap st)\<rparr>) w else w)"

definition existsInObjectMap :: "'w defaultBackendSGProvider \<Rightarrow> string \<Rightarrow> NamespacedName \<Rightarrow> 'w \<Rightarrow> bool" where
  "existsInObjectMap p resourceType resource w = (map_of (objectsMap (bspState p w)) (getObjectKey resourceType resource) \<noteq> None)"

primrec check_unmapped ::
  "'w defaultBackendSGProvider \<Rightarrow> string \<Rightarrow> (string list \<Rightarrow> bool) \<Rightarrow> ObjectMeta list \<Rightarrow> ('w, bool result) prog" where
  "check_unmapped p resourceType checkFinalizers [] = Ret (Inr False)"
| "check_unmapped p resourceType checkFinalizers (obj # items) =
     (if checkFinalizers (omFinalizers obj) then
        prog_bind (prog_read (existsInObjectMap p resourceType (NamespacedName_of obj))) (\<lambda>exists.
          if exists then check_unmapped p resourceType checkFinalizers items else Ret (Inr True))
      else check_unmapped p resourceType checkFinalizers items)"

definition list_wrapped :: "('w, 'a) io \<Rightarrow> string \<Rightarrow> ('w, 'a) io" where
  "list_wrapped list_call msg w =
     (case list_call w of (Inl err, w') \<Rightarrow> (Inl (Wrap err msg), w') | (Inr items, w') \<Rightarrow> (Inr items, w'))"

definition checkIngressListForUnmapped :: "'w defaultBackendSGProvider \<Rightarrow> ('w, bool result) prog" where
  "checkIngressListForUnmapped p =
     prog_bind (prog_io (list_wrapped (bspListIngresses p) ''unable to list ingresses''))
       (check_unmapped p ResourceTypeIngress checkIngressFinalizersFunc)"

definition checkServiceListForUnmapped :: "'w defaultBackendSGProvider \<Rightarrow> ('w, bool result) prog" where
  "checkServiceListForUnmapped p =
     prog_bind (prog_io (list_wrapped (bspListServices p) ''unable to list services''))
       (check_unmapped p ResourceTypeService checkServiceFinalizersFunc)"

definition isBackendSGRequired :: "'w defaultBackendSGProvider \<Rightarrow> ('w, bool result) prog" where
  "isBackendSGRequired p =
     prog_bind (prog_read (\<lambda>w. list_ex (\<lambda>(_, v). v) (objectsMap (bspState p w)))) (\<lambda>requiredForAny.
       if requiredForAny then Ret (Inr True)
       else prog_bind (checkIngressListForUnmapped p) (\<lambda>required.
         if required then Ret (Inr True)
         else prog_bind (checkServiceListForUnmapped p) (\<lambda>required.
           if required then Ret (Inr True) else Ret (Inr False))))"

section \<open>Allocation\<close>

definition getBackendSGName :: "'w defaultBackendSGProvider \<Rightarrow> string" where
  "getBackendSGName p =
     ''k8s-traffic-'' @ take 232 (sanitize (bspClusterName p)) @ ''-'' @ take 10 (bspSha256 p (bspClusterName p))"

definition buildBackendSGTags :: "'w defaultBackendSGProvider \<Rightarrow> string_map \<Rightarrow> Ec2Tag list" where
  "buildBackendSGTags p additionalTags =
     (let tag_of = (\<lambda>(key, val). \<lparr>ec2TagKey = Some key, ec2TagValue = Some val\<rparr>);
          tags = map tag_of (entries (bspRange p) (bspDefaultTags p)) @ map tag_of (entries (bspRange p) additionalTags)
      in bspSlice p (\<lambda>i j. StringValue (ec2TagKey i) < StringValue (ec2TagKey j)) tags @
         [\<lparr>ec2TagKey = Some tagKeyK8sCluster, ec2TagValue = Some (bspClusterName p)\<rparr>,
          \<lparr>ec2TagKey = Some tagKeyResource, ec2TagValue = Some tagValueBackend\<rparr>])"

definition getBackendSGFromEC2 :: "'w defaultBackendSGProvider \<Rightarrow> string \<Rightarrow> ('w, string) io" where
  "getBackendSGFromEC2 p vpcID w =
     (case DescribeSecurityGroupsAsList (bspEc2Client p) \<lparr>dsgGroupIds = [], dsgFilters =
         [\<lparr>ec2FilterName = ''vpc-id'', ec2FilterValues = [vpcID]\<rparr>,
          \<lparr>ec2FilterName = ''tag:'' @ tagKeyK8sCluster, ec2FilterValues = [bspClusterName p]\<rparr>,
          \<lparr>ec2FilterName = ''tag:'' @ tagKeyResource, ec2FilterValues = [tagValueBackend]\<rparr>]\<rparr> w of
        (Inl err, w') \<Rightarrow> if net_isEC2SecurityGroupNotFoundError err then (Inr [], w') else (Inl err, w')
      | (Inr [], w') \<Rightarrow> (Inr [], w')
      | (Inr (sg # _), w') \<Rightarrow> (Inr (StringValue (ssgGroupId sg)), w'))"

definition set_autoGeneratedSG :: "'w defaultBackendSGProvider \<Rightarrow> string \<Rightarrow> 'w \<Rightarrow> 'w" where
  "set_autoGeneratedSG p sgID w = bspSetState p ((bspState p w)\<lparr>autoGeneratedSG := sgID\<rparr>) w"

definition find_or_create_sg :: "'w defaultBackendSGProvider \<Rightarrow> string_map \<Rightarrow> ('w, unit result) prog" where
  "find_or_create_sg p additionalTags =
     (let sgName = getBackendSGName p in
      prog_bind (prog_io (getBackendSGFromEC2 p (bspVpcID p))) (\<lambda>sgID.
        if length sgID > 1 then prog_write (set_autoGeneratedSG p sgID)
        else prog_bind (prog_io (CreateSecurityGroupWithContext (bspEc2Client p)
               \<lparr>csgVpcId = Some (bspVpcID p), csgGroupName = Some sgName, csgDescription = Some bsg_sgDescription,
                csgTags = buildBackendSGTags p additionalTags\<rparr>)) (\<lambda>groupId.
               prog_write (set_autoGeneratedSG p (StringValue groupId)))))"

definition allocateBackendSG ::
  "'w defaultBackendSGProvider \<Rightarrow> string \<Rightarrow> NamespacedName list \<Rightarrow> string_map \<Rightarrow> ('w, unit result) prog" where
  "allocateBackendSG p resourceType activeResources additionalTags =
     with_mutex (prog_bind (updateObjectsMap p resourceType activeResources True) (\<lambda>_.
       prog_bind (prog_read (\<lambda>w. autoGeneratedSG (bspState p w))) (\<lambda>sgID.
         if sgID \<noteq> [] then Ret (Inr ()) else find_or_create_sg p additionalTags)))"

definition BackendSG_Get ::
  "'w defaultBackendSGProvider \<Rightarrow> string \<Rightarrow> NamespacedName list \<Rightarrow> string_map \<Rightarrow> ('w, string result) prog" where
  "BackendSG_Get p resourceType activeResources additionalTags =
     (if bspBackendSG p \<noteq> [] then Ret (Inr (bspBackendSG p))
      else prog_bind (allocateBackendSG p resourceType activeResources additionalTags) (\<lambda>_.
        prog_bind (prog_read (\<lambda>w. autoGeneratedSG (bspState p w))) (\<lambda>sgID. Ret (Inr sgID))))"

section \<open>Release\<close>

text \<open>The attempts to delete the group are one action: the polling function is a parameter.\<close>

definition delete_backend_sg :: "'w defaultBackendSGProvider \<Rightarrow> ('w, unit) io" where
  "delete_backend_sg p w =
     (case RetryImmediateOnError (bspPollImmediate p) net_isSecurityGroupDependencyViolationError
         (DeleteSecurityGroupWithContext (bspEc2Client p) (autoGeneratedSG (bspState p w))) w of
        (Inl err, w') \<Rightarrow> (Inl (Wrap err ''failed to delete securityGroup''), w')
      | (Inr _, w') \<Rightarrow> (Inr (), w'))"

definition releaseSG :: "'w defaultBackendSGProvider \<Rightarrow> ('w, unit result) prog" where
  "releaseSG p =
     with_mutex (prog_bind (prog_read (\<lambda>w. autoGeneratedSG (bspState p w))) (\<lambda>sgID.
       if sgID = [] then Ret (Inr ())
       else prog_bind (isBackendSGRequired p) (\<lambda>required.
         if required then Ret (Inr ())
         else prog_bind (prog_io (delete_backend_sg p)) (\<lambda>_.
           prog_write (set_autoGeneratedSG p [])))))"

definition BackendSG_Release :: "'w defaultBackendSGProvider \<Rightarrow> string \<Rightarrow> NamespacedName list \<Rightarrow> ('w, unit result) prog" where
  "BackendSG_Release p resourceType inactiveResources =
     (if bspBackendSG p \<noteq> [] then Ret (Inr ())
      else prog_then
        (prog_bind (updateObjectsMap p resourceType inactiveResources False) (\<lambda>_.
           prog_bind (isBackendSGRequired p) (\<lambda>required.
             if required then Ret (Inr ()) else releaseSG p)))
        (\<lambda>result. prog_then (prog_for (\<lambda>res. prog_write (compare_and_delete p resourceType res)) inactiveResources)
           (\<lambda>_. Ret result)))"

section \<open>Concurrent reconciliations\<close>

text \<open>The calls that goroutines make, and the keys of the objects a call releases. Other code of the
  controller may act on the world as long as it leaves the provider and the existing groups alone.\<close>

datatype sg_call = GetCall string "NamespacedName list" string_map | ReleaseCall string "NamespacedName list"

datatype sg_result = Got "string result" | Released "unit result"

definition sg_body :: "'w defaultBackendSGProvider \<Rightarrow> sg_call \<Rightarrow> ('w, sg_result) prog" where
  "sg_body p call =
     (case call of
        GetCall rt objs tags \<Rightarrow> prog_then (BackendSG_Get p rt objs tags) (\<lambda>r. Ret (Got r))
      | ReleaseCall rt objs \<Rightarrow> prog_then (BackendSG_Release p rt objs) (\<lambda>r. Ret (Released r)))"

fun releases :: "sg_call \<Rightarrow> string set" where
  "releases (GetCall rt objs tags) = {}"
| "releases (ReleaseCall rt objs) = getObjectKey rt ` set objs"

definition undisturbed :: "'w defaultBackendSGProvider \<Rightarrow> ('w \<Rightarrow> string \<Rightarrow> bool) \<Rightarrow> 'w \<Rightarrow> 'w \<Rightarrow> bool" where
  "undisturbed p sgExists w w' \<longleftrightarrow> bspState p w' = bspState p w \<and> (\<forall>sgID. sgExists w sgID \<longrightarrow> sgExists w' sgID)"

text \<open>What the provider relies on: its own fields behave like variables, listing objects and describing groups change
  nothing it keeps, the groups described exist, a created group exists, a deletion removes no other
  group and leaves the group in place when it fails.\<close>

definition backend_laws :: "'w defaultBackendSGProvider \<Rightarrow> ('w \<Rightarrow> string \<Rightarrow> bool) \<Rightarrow> bool" where
  "backend_laws p sgExists \<longleftrightarrow>
     (\<forall>st w. bspState p (bspSetState p st w) = st) \<and>
     (\<forall>st w sgID. sgExists (bspSetState p st w) sgID = sgExists w sgID) \<and>
     keeps (undisturbed p sgExists) (bspListIngresses p) \<and> keeps (undisturbed p sgExists) (bspListServices p) \<and>
     (\<forall>req. keeps (undisturbed p sgExists) (DescribeSecurityGroupsAsList (bspEc2Client p) req)) \<and>
     (\<forall>req w sgs w' sg. DescribeSecurityGroupsAsList (bspEc2Client p) req w = (Inr sgs, w') \<longrightarrow>
        sg \<in> set sgs \<longrightarrow> sgExists w' (StringValue (ssgGroupId sg))) \<and>
     (\<forall>req. keeps (undisturbed p sgExists) (CreateSecurityGroupWithContext (bspEc2Client p) req)) \<and>
     (\<forall>req w g w'. CreateSecurityGroupWithContext (bspEc2Client p) req w = (Inr g, w') \<longrightarrow>
        StringValue g \<noteq> [] \<and> sgExists w' (StringValue g)) \<and>
     (\<forall>sgID w r w' other. DeleteSecurityGroupWithContext (bspEc2Client p) sgID w = (r, w') \<longrightarrow>
        bspState p w' = bspState p w \<and> (other \<noteq> sgID \<longrightarrow> sgExists w other \<longrightarrow> sgExists w' other)) \<and>
     (\<forall>sgID w e w'. DeleteSecurityGroupWithContext (bspEc2Client p) sgID w = (Inl e, w') \<longrightarrow> undisturbed p sgExists w w') \<and>
     (\<exists>n. bspPollImmediate p = poll_attempts n)"

lemma undisturbed_preorder: "effect_preorder (undisturbed p sgExists)"
  by unfold_locales (auto simp: undisturbed_def)

interpretation und: effect_preorder "undisturbed p sgExists" for p sgExists
  by (rule undisturbed_preorder)

text \<open>The laws, taken apart.\<close>

lemma backend_lawsD:
  assumes "backend_laws p sgExists"
  shows state_set: "\<And>st w. bspState p (bspSetState p st w) = st"
    and exists_set: "\<And>st w sgID. sgExists (bspSetState p st w) sgID = sgExists w sgID"
    and list_ingresses: "keeps (undisturbed p sgExists) (bspListIngresses p)"
    and list_services: "keeps (undisturbed p sgExists) (bspListServices p)"
    and describe: "\<And>req. keeps (undisturbed p sgExists) (DescribeSecurityGroupsAsList (bspEc2Client p) req)"
    and described: "\<And>req w sgs w' sg. DescribeSecurityGroupsAsList (bspEc2Client p) req w = (Inr sgs, w') \<Longrightarrow> sg \<in> set sgs \<Longrightarrow>
       sgExists w' (StringValue (ssgGroupId sg))"
    and create: "\<And>req. keeps (undisturbed p sgExists) (CreateSecurityGroupWithContext (bspEc2Client p) req)"
    and created: "\<And>req w g w'. CreateSecurityGroupWithContext (bspEc2Client p) req w = (Inr g, w') \<Longrightarrow>
       StringValue g \<noteq> [] \<and> sgExists w' (StringValue g)"
    and deletes: "\<And>sgID w r w' other. DeleteSecurityGroupWithContext (bspEc2Client p) sgID w = (r, w') \<Longrightarrow>
       bspState p w' = bspState p w \<and> (other \<noteq> sgID \<longrightarrow> sgExists w other \<longrightarrow> sgExists w' other)"
    and delete_fails: "\<And>sgID w e w'. DeleteSecurityGroupWithContext (bspEc2Client p) sgID w = (Inl e, w') \<Longrightarrow> undisturbed p sgExists w w'"
    and polls: "\<exists>n. bspPollImmediate p = poll_attempts n"
proof (atomize (full), goal_cases)
  case 1
  show ?case using assms unfolding backend_laws_def by (elim conjE) (intro conjI; assumption)
qed

lemma store_object_state:
  assumes "backend_laws p sgExists"
  shows "autoGeneratedSG (bspState p (store_object p rt b obj w)) = autoGeneratedSG (bspState p w)"
    and "map_of (objectsMap (bspState p (store_object p rt b obj w))) =
       (map_of (objectsMap (bspState p w)))(getObjectKey rt obj \<mapsto> b)"
    and "sgExists (store_object p rt b obj w) sgID = sgExists w sgID"
  by (simp_all add: store_object_def Let_def state_set [OF assms] exists_set [OF assms] update_conv')

lemma set_autoGeneratedSG_state:
  assumes "backend_laws p sgExists"
  shows "bspState p (set_autoGeneratedSG p sgID w) = (bspState p w)\<lparr>autoGeneratedSG := sgID\<rparr>"
    and "sgExists (set_autoGeneratedSG p sgID w) other = sgExists w other"
  by (simp_all add: set_autoGeneratedSG_def state_set [OF assms] exists_set [OF assms])

text \<open>Deleting with retries.\<close>

lemma retry_delete_effect:
  assumes L: "backend_laws p sgExists"
    and run: "RetryImmediateOnError (poll_attempts n) retryable (DeleteSecurityGroupWithContext (bspEc2Client p) sgID) w = (r, w')"
  shows "bspState p w' = bspState p w \<and> (r = Inr () \<or> undisturbed p sgExists w w')"
  using run unfolding RetryImmediateOnError_def
proof (induction n arbitrary: w)
  case 0
  then show ?case by (simp add: undisturbed_def)
next
  case (Suc n)
  obtain r1 w1 where d: "DeleteSecurityGroupWithContext (bspEc2Client p) sgID w = (r1, w1)" by fastforce
  note D = deletes [OF L d]
  show ?case
  proof (cases r1)
    case (Inl e)
    then have u: "undisturbed p sgExists w w1" using delete_fails [OF L] d by blast
    show ?thesis
    proof (cases "retryable e")
      case True
      then show ?thesis using Suc.IH [of w1] Suc.prems d Inl u by (auto simp: undisturbed_def)
    next
      case False
      then show ?thesis using Suc.prems d Inl u by (auto simp: undisturbed_def)
    qed
  next
    case (Inr x)
    then show ?thesis using Suc.prems d D by auto
  qed
qed

lemma compare_and_delete_state:
  assumes "backend_laws p sgExists"
  shows "autoGeneratedSG (bspState p (compare_and_delete p rt obj w)) = autoGeneratedSG (bspState p w)"
    and "map_of (objectsMap (bspState p (compare_and_delete p rt obj w))) k = Some True \<longleftrightarrow> map_of (objectsMap (bspState p w)) k = Some True"
    and "sgExists (compare_and_delete p rt obj w) sgID = sgExists w sgID"
  by (auto simp: compare_and_delete_def Let_def state_set [OF assms] exists_set [OF assms] delete_conv')

subsection \<open>Guarantees\<close>

text \<open>Without the mutex a goroutine leaves the identifier and the groups alone and enters no object; with the mutex it
  keeps the identifier and its group as long as some object requires it. Only a call that releases
  an object takes back its entry. While nobody holds the mutex, the group of the identifier exists.\<close>

abbreviation requires :: "'w defaultBackendSGProvider \<Rightarrow> 'w \<Rightarrow> string \<Rightarrow> bool" where
  "requires p w k \<equiv> map_of (objectsMap (bspState p w)) k = Some True"

definition sg_guar :: "'w defaultBackendSGProvider \<Rightarrow> ('w \<Rightarrow> string \<Rightarrow> bool) \<Rightarrow> sg_call \<Rightarrow> bool \<Rightarrow> 'w \<Rightarrow> 'w \<Rightarrow> bool" where
  "sg_guar p sgExists c h w w' \<longleftrightarrow>
     (let sgID = autoGeneratedSG (bspState p w); sgID' = autoGeneratedSG (bspState p w') in
      (\<forall>k. k \<notin> releases c \<longrightarrow> requires p w k \<longrightarrow> requires p w' k) \<and>
      (if h then sgID \<noteq> [] \<longrightarrow> (\<exists>k. requires p w k) \<longrightarrow> sgID' = sgID \<and> (sgExists w sgID \<longrightarrow> sgExists w' sgID)
       else sgID' = sgID \<and> (\<forall>g. sgExists w g \<longrightarrow> sgExists w' g) \<and> (\<forall>k. requires p w' k \<longrightarrow> requires p w k)))"

definition sg_linv :: "'w defaultBackendSGProvider \<Rightarrow> ('w \<Rightarrow> string \<Rightarrow> bool) \<Rightarrow> 'w \<Rightarrow> bool" where
  "sg_linv p sgExists w \<longleftrightarrow> autoGeneratedSG (bspState p w) \<noteq> [] \<longrightarrow> sgExists w (autoGeneratedSG (bspState p w))"

abbreviation sg_rely :: "'w defaultBackendSGProvider \<Rightarrow> ('w \<Rightarrow> string \<Rightarrow> bool) \<Rightarrow> (sg_call \<Rightarrow> bool) \<Rightarrow> bool \<Rightarrow> 'w \<Rightarrow> 'w \<Rightarrow> bool" where
  "sg_rely p sgExists C \<equiv> relies C (sg_guar p sgExists) (undisturbed p sgExists)"

abbreviation sg_assured where
  "sg_assured p sgExists C c \<equiv> assured (sg_rely p sgExists C) (sg_guar p sgExists c) (sg_linv p sgExists)"

lemma undisturbed_guar: "undisturbed p sgExists w w' \<Longrightarrow> sg_guar p sgExists c h w w'"
  by (simp add: undisturbed_def sg_guar_def Let_def)

lemma guar_refl [simp]: "sg_guar p sgExists c h w w"
  by (simp add: sg_guar_def Let_def)

interpretation sgt: mutex_threads "sg_body p" "undisturbed p sgExists" "sg_guar p sgExists" "sg_linv p sgExists" for p sgExists
proof
  show "sg_linv p sgExists w \<Longrightarrow> sg_guar p sgExists c False w w' \<Longrightarrow> sg_linv p sgExists w'" for w w' c
    by (simp add: sg_linv_def sg_guar_def Let_def)
  show "sg_linv p sgExists w \<Longrightarrow> undisturbed p sgExists w w' \<Longrightarrow> sg_linv p sgExists w'" for w w'
    by (simp add: sg_linv_def undisturbed_def)
qed

text \<open>Assertions that the others keep.\<close>

definition marked :: "'w defaultBackendSGProvider \<Rightarrow> string set \<Rightarrow> 'w \<Rightarrow> bool" where
  "marked p K w \<longleftrightarrow> (\<forall>k\<in>K. requires p w k)"

definition unmarked :: "'w defaultBackendSGProvider \<Rightarrow> 'w \<Rightarrow> bool" where
  "unmarked p w \<longleftrightarrow> (\<forall>k. \<not> requires p w k)"

definition held :: "'w defaultBackendSGProvider \<Rightarrow> ('w \<Rightarrow> string \<Rightarrow> bool) \<Rightarrow> string set \<Rightarrow> string \<Rightarrow> 'w \<Rightarrow> bool" where
  "held p sgExists K sgID w \<longleftrightarrow>
     (K \<noteq> {} \<longrightarrow> marked p K w \<and> autoGeneratedSG (bspState p w) = sgID \<and> sgID \<noteq> [] \<and> sgExists w sgID)"

definition unreleased :: "(sg_call \<Rightarrow> bool) \<Rightarrow> string set \<Rightarrow> bool" where
  "unreleased C K \<longleftrightarrow> (\<forall>c. C c \<longrightarrow> K \<inter> releases c = {})"

lemma kept_marked: "unreleased C K \<Longrightarrow> kept_by (sg_rely p sgExists C) h (marked p K)"
  by (auto simp: kept_by_def relies_def marked_def sg_guar_def undisturbed_def unreleased_def Let_def)

lemma kept_locked:
  "kept_by (sg_rely p sgExists C) True (unmarked p)"
  "kept_by (sg_rely p sgExists C) True (sg_linv p sgExists)"
  "kept_by (sg_rely p sgExists C) True (\<lambda>w. autoGeneratedSG (bspState p w) = g)"
  "kept_by (sg_rely p sgExists C) True (\<lambda>w. sgExists w g)"
  by (auto simp: kept_by_def relies_def unmarked_def sg_linv_def sg_guar_def undisturbed_def Let_def)

lemma kept_held:
  assumes "unreleased C K"
  shows "kept_by (sg_rely p sgExists C) False (held p sgExists K sgID)"
  unfolding kept_by_def
proof (intro allI impI)
  fix w w'
  assume h: "held p sgExists K sgID w" and r: "sg_rely p sgExists C False w w'"
  have "held p sgExists K sgID w'" if "K \<noteq> {}"
  proof -
    have w: "marked p K w" "autoGeneratedSG (bspState p w) = sgID" "sgID \<noteq> []" "sgExists w sgID" using h that by (auto simp: held_def)
    then have "\<exists>k. requires p w k" using that by (auto simp: marked_def)
    moreover have "marked p K w'" using kept_marked [OF assms, of p sgExists False] w(1) r by (auto simp: kept_by_def)
    ultimately have "autoGeneratedSG (bspState p w') = sgID \<and> sgExists w' sgID"
      using r w by (auto simp: relies_def sg_guar_def undisturbed_def Let_def)
    then show ?thesis using \<open>marked p K w'\<close> w(3) by (simp add: held_def)
  qed
  then show "held p sgExists K sgID w'" by (cases "K = {}") (simp_all add: held_def)
qed

lemma kept_undisturbed:
  assumes "kept_by (sg_rely p sgExists C) h A" "A w" "undisturbed p sgExists w w'"
  shows "A w'"
proof -
  have "sg_rely p sgExists C h w w'" by (simp add: relies_def assms(3))
  then show ?thesis using assms(1,2) unfolding kept_by_def by blast
qed

subsection \<open>The methods keep their guarantees\<close>

lemma check_unmapped_assured:
  assumes A: "kept_by (sg_rely p sgExists C) h A" and "A w" and Q: "\<And>w r. A w \<Longrightarrow> Q h r w"
  shows "sg_assured p sgExists C c Q (check_unmapped p rt chk items) h w"
  using assms(2)
proof (induction items arbitrary: w)
  case Nil
  have "sg_assured p sgExists C c Q (Ret (Inr False)) h w" by (rule assured_Ret [OF A Nil]) (rule Q)
  then show ?case by (simp only: check_unmapped.simps)
next
  case (Cons obj items)
  have "sg_assured p sgExists C c Q (Ret (Inr True)) h w" if "A w" for w by (rule assured_Ret [OF A that]) (rule Q)
  then have "sg_assured p sgExists C c Q (if b then check_unmapped p rt chk items else Ret (Inr True)) h w" if "A w" for b w
    using Cons.IH that by (simp del: assured.simps)
  then show ?case using Cons by (auto intro!: assured_read_bind [OF A] simp del: assured.simps)
qed

lemma list_wrapped_undisturbed:
  "keeps (undisturbed p sgExists) m \<Longrightarrow> keeps (undisturbed p sgExists) (list_wrapped m msg)"
  by (auto simp: keeps_def list_wrapped_def split: prod.splits sum.splits)

lemma check_list_assured:
  assumes L: "keeps (undisturbed p sgExists) m" and A: "kept_by (sg_rely p sgExists C) h A" and "A w"
    and Q: "\<And>w r. A w \<Longrightarrow> Q h r w"
  shows "sg_assured p sgExists C c Q (prog_bind (prog_io (list_wrapped m msg)) (check_unmapped p rt chk)) h w"
proof (rule assured_io_bind [OF A assms(3)])
  fix w r w'
  assume w: "A w" and run: "list_wrapped m msg w = (r, w')"
  have u: "undisturbed p sgExists w w'" using keepsD [OF list_wrapped_undisturbed [OF L] run] .
  have w': "A w'" by (rule kept_undisturbed [OF A w u])
  show "sg_guar p sgExists c h w w' \<and> (case r of Inl e \<Rightarrow> sg_assured p sgExists C c Q (Ret (Inl e)) h w'
      | Inr x \<Rightarrow> sg_assured p sgExists C c Q (check_unmapped p rt chk x) h w')"
  proof (intro conjI undisturbed_guar [OF u])
    have "sg_assured p sgExists C c Q (Ret x) h w'" for x by (rule assured_Ret [OF A w']) (rule Q)
    moreover have "sg_assured p sgExists C c Q (check_unmapped p rt chk items) h w'" for items
      by (rule check_unmapped_assured [OF A w']) (rule Q)
    ultimately show "case r of Inl e \<Rightarrow> sg_assured p sgExists C c Q (Ret (Inl e)) h w'
        | Inr x \<Rightarrow> sg_assured p sgExists C c Q (check_unmapped p rt chk x) h w'" by (simp split: sum.split del: assured.simps)
  qed
qed

lemma required_assured:
  assumes L: "backend_laws p sgExists" and A: "kept_by (sg_rely p sgExists C) h A" and "A w"
    and Q: "\<And>w r. A w \<Longrightarrow> (r = Inr False \<Longrightarrow> h \<Longrightarrow> unmarked p w) \<Longrightarrow> Q h r w"
  shows "sg_assured p sgExists C c Q (isBackendSGRequired p) h w"
proof -
  define B where "B = (\<lambda>w. A w \<and> (h \<longrightarrow> unmarked p w))"
  have B: "kept_by (sg_rely p sgExists C) h B"
    unfolding B_def using A kept_locked(1) [where p = p and sgExists = sgExists and C = C] by (cases h) (auto simp: kept_by_def)
  have T: "sg_assured p sgExists C c Q (Ret (Inr True)) h w" if "A w" for w by (rule assured_Ret [OF A that]) (rule Q, auto)
  have R: "sg_assured p sgExists C c Q (Ret r) h w" if "B w" for w r by (rule assured_Ret [OF B that]) (rule Q, auto simp: B_def)
  have S: "sg_assured p sgExists C c Q (prog_bind (checkServiceListForUnmapped p) (\<lambda>required.
      if required then Ret (Inr True) else Ret (Inr False))) h w" if "B w" for w
    unfolding checkServiceListForUnmapped_def
    by (rule assured_bind, rule check_list_assured [OF list_services [OF L] B that])
      (use R in \<open>auto split: sum.splits simp del: assured.simps\<close>)
  have I: "sg_assured p sgExists C c Q (prog_bind (checkIngressListForUnmapped p) (\<lambda>required.
      if required then Ret (Inr True) else prog_bind (checkServiceListForUnmapped p) (\<lambda>required.
      if required then Ret (Inr True) else Ret (Inr False)))) h w" if "B w" for w
    unfolding checkIngressListForUnmapped_def
    by (rule assured_bind, rule check_list_assured [OF list_ingresses [OF L] B that])
      (use R S in \<open>auto split: sum.splits simp del: assured.simps\<close>)
  have "B w" if "A w" "\<not> list_ex (\<lambda>(_, v). v) (objectsMap (bspState p w))" for w
    using that by (auto simp: B_def unmarked_def list_ex_iff dest!: map_of_SomeD)
  then show ?thesis unfolding isBackendSGRequired_def
    using T I by (auto intro!: assured_read_bind [OF A assms(3)] simp del: assured.simps)
qed

lemma for_writes_assured:
  assumes "\<And>x w. x \<in> set xs \<Longrightarrow> guar h w (f x w)" "\<And>w. Q h (Inr ()) w"
  shows "assured rely guar linv Q (prog_for (\<lambda>x. prog_write (f x)) xs) h w"
  using assms(1)
proof (induction xs arbitrary: w)
  case Nil
  show ?case using assms(2) by simp
next
  case (Cons x xs)
  then show ?case by (auto intro!: assured_write_bind [where A = "\<lambda>_. True"] simp del: assured.simps)
qed

lemma unreleased_mono: "unreleased C K \<Longrightarrow> K' \<subseteq> K \<Longrightarrow> unreleased C K'"
  by (auto simp: unreleased_def)

lemma enter_objects_assured:
  assumes L: "backend_laws p sgExists" and P: "unreleased C P" and "K0 \<subseteq> P" "marked p K0 w" "sg_linv p sgExists w"
    and Q: "\<And>w. marked p (K0 \<union> (getObjectKey rt ` set objs \<inter> P)) w \<Longrightarrow> sg_linv p sgExists w \<Longrightarrow> Q True (Inr ()) w"
  shows "sg_assured p sgExists C c Q (updateObjectsMap p rt objs True) True w"
  using assms(3-6) unfolding updateObjectsMap_def
proof (induction objs arbitrary: K0 w)
  case Nil
  have A: "kept_by (sg_rely p sgExists C) True (\<lambda>w. marked p K0 w \<and> sg_linv p sgExists w)"
    by (intro kept_by_conj kept_marked kept_locked unreleased_mono [OF P] Nil)
  have "sg_assured p sgExists C c Q (Ret (Inr ())) True w" by (rule assured_Ret [OF A]) (use Nil in auto)
  then show ?case by (simp only: prog_for.simps)
next
  case (Cons obj objs)
  let ?K = "K0 \<union> ({getObjectKey rt obj} \<inter> P)"
  have A: "kept_by (sg_rely p sgExists C) True (\<lambda>w. marked p K0 w \<and> sg_linv p sgExists w)"
    by (intro kept_by_conj kept_marked kept_locked unreleased_mono [OF P] Cons)
  have "sg_guar p sgExists c True w (store_object p rt True obj w) \<and>
      sg_assured p sgExists C c Q (prog_for (\<lambda>res. prog_write (store_object p rt True res)) objs) True (store_object p rt True obj w)"
    if "marked p K0 w \<and> sg_linv p sgExists w" for w
  proof (intro conjI Cons.IH [of ?K])
    show "sg_guar p sgExists c True w (store_object p rt True obj w)"
      by (auto simp: sg_guar_def Let_def store_object_state [OF L])
    show "marked p ?K (store_object p rt True obj w)" using that by (auto simp: marked_def store_object_state [OF L])
    show "sg_linv p sgExists (store_object p rt True obj w)" using that by (simp add: sg_linv_def store_object_state [OF L])
    show "?K \<subseteq> P" using Cons.prems(1) by blast
  next
    fix w'
    assume "marked p (?K \<union> (getObjectKey rt ` set objs \<inter> P)) w'" "sg_linv p sgExists w'"
    then show "Q True (Inr ()) w'" by (intro Cons.prems(4)) (auto simp: marked_def)
  qed
  then show ?case using Cons.prems(2,3) by (auto intro!: assured_write_bind [OF A] simp del: assured.simps)
qed

lemma find_or_create_assured:
  assumes L: "backend_laws p sgExists" and K: "unreleased C K"
    and pre: "marked p K w" "sg_linv p sgExists w" "autoGeneratedSG (bspState p w) = []"
    and Q: "\<And>w r. sg_linv p sgExists w \<Longrightarrow> (r = Inr () \<Longrightarrow> marked p K w \<and> autoGeneratedSG (bspState p w) \<noteq> []) \<Longrightarrow> Q True r w"
  shows "sg_assured p sgExists C c Q (find_or_create_sg p tags) True w"
proof -
  let ?A = "\<lambda>w. marked p K w \<and> sg_linv p sgExists w \<and> autoGeneratedSG (bspState p w) = []"
  have A: "kept_by (sg_rely p sgExists C) True ?A" by (intro kept_by_conj kept_marked [OF K] kept_locked)
  have E: "sg_assured p sgExists C c Q (Ret (Inl e)) True w" if "?A w" for w e
    by (rule assured_Ret [OF A that]) (rule Q, auto)
  have W: "sg_assured p sgExists C c Q (prog_write (set_autoGeneratedSG p g)) True w" if "?A w" "sgExists w g" "g \<noteq> []" for w g
  proof (rule assured_write)
    show "kept_by (sg_rely p sgExists C) True (\<lambda>w. ?A w \<and> sgExists w g)" by (rule kept_by_conj [OF A kept_locked(4)])
    show "kept_by (sg_rely p sgExists C) True (\<lambda>w. sg_linv p sgExists w \<and> marked p K w \<and> autoGeneratedSG (bspState p w) = g)"
      by (intro kept_by_conj kept_marked [OF K] kept_locked)
    show "Q True (Inr ()) w" if "sg_linv p sgExists w \<and> marked p K w \<and> autoGeneratedSG (bspState p w) = g" for w
      using that \<open>g \<noteq> []\<close> by (intro Q) auto
  qed (use that in \<open>auto simp: sg_guar_def Let_def sg_linv_def marked_def set_autoGeneratedSG_state [OF L]\<close>)
  have Cr: "sg_assured p sgExists C c Q (prog_bind (prog_io (CreateSecurityGroupWithContext (bspEc2Client p) req))
      (\<lambda>groupId. prog_write (set_autoGeneratedSG p (StringValue groupId)))) True w" if "?A w" for w req
  proof (rule assured_io_bind [OF A that])
    fix w r w'
    assume w: "?A w" and run: "CreateSecurityGroupWithContext (bspEc2Client p) req w = (r, w')"
    have u: "undisturbed p sgExists w w'" by (rule keepsD [OF create [OF L] run])
    have "?A w'" by (rule kept_undisturbed [OF A w u])
    then show "sg_guar p sgExists c True w w' \<and> (case r of Inl e \<Rightarrow> sg_assured p sgExists C c Q (Ret (Inl e)) True w'
        | Inr x \<Rightarrow> sg_assured p sgExists C c Q (prog_write (set_autoGeneratedSG p (StringValue x))) True w')"
      using undisturbed_guar [OF u] E W created [OF L] run by (auto split: sum.split simp del: assured.simps)
  qed
  show ?thesis unfolding find_or_create_sg_def Let_def
  proof (rule assured_io_bind [OF A])
    show "?A w" using pre by simp
  next
    fix w r w'
    assume w: "?A w" and run: "getBackendSGFromEC2 p (bspVpcID p) w = (r, w')"
    have u: "undisturbed p sgExists w w'"
      using run describe [OF L] by (auto simp: getBackendSGFromEC2_def keeps_def split: prod.splits sum.splits list.splits if_splits)
    have w': "?A w'" by (rule kept_undisturbed [OF A w u])
    have ex: "sgExists w' g" if "r = Inr g" "g \<noteq> []" for g
      using run that described [OF L] by (auto simp: getBackendSGFromEC2_def split: prod.splits sum.splits list.splits if_splits)
    have W': "sg_assured p sgExists C c Q (prog_write (set_autoGeneratedSG p g)) True w'" if "r = Inr g" "length g > 1" for g
      using W [OF w'] ex that by (cases "g = []") (auto simp del: assured.simps)
    show "sg_guar p sgExists c True w w' \<and> (case r of Inl e \<Rightarrow> sg_assured p sgExists C c Q (Ret (Inl e)) True w'
        | Inr sgID \<Rightarrow> sg_assured p sgExists C c Q (if length sgID > 1 then prog_write (set_autoGeneratedSG p sgID)
            else prog_bind (prog_io (CreateSecurityGroupWithContext (bspEc2Client p) \<lparr>csgVpcId = Some (bspVpcID p),
              csgGroupName = Some (getBackendSGName p), csgDescription = Some bsg_sgDescription,
              csgTags = buildBackendSGTags p tags\<rparr>)) (\<lambda>groupId. prog_write (set_autoGeneratedSG p (StringValue groupId)))) True w')"
      using undisturbed_guar [OF u] E [OF w'] W' Cr [OF w'] by (auto split: sum.split simp del: assured.simps)
  qed
qed

lemma Get_assured:
  assumes L: "backend_laws p sgExists" and auto: "bspBackendSG p = []" and P: "unreleased C P"
    and K: "K = getObjectKey rt ` set objs \<inter> P"
    and Q: "\<And>w r. (\<And>sgID. r = Inr sgID \<Longrightarrow> held p sgExists K sgID w) \<Longrightarrow> Q False r w"
  shows "sg_assured p sgExists C c Q (BackendSG_Get p rt objs tags) False w"
proof -
  have UK: "unreleased C K" by (rule unreleased_mono [OF P]) (simp add: K)
  let ?k = "\<lambda>_ :: unit. prog_bind (prog_read (\<lambda>w. autoGeneratedSG (bspState p w))) (\<lambda>sgID. Ret (Inr sgID))"
  let ?Q = "\<lambda>h r w. case r of Inl e \<Rightarrow> sg_assured p sgExists C c Q (Ret (Inl e)) h w | Inr x \<Rightarrow> sg_assured p sgExists C c Q (?k x) h w"
  let ?U = "\<lambda>h x w. h \<and> sg_assured p sgExists C c ?Q (Unlock (Ret x)) True w"
  have F: "sg_assured p sgExists C c Q (Ret (Inl e)) False w" for e w
    by (rule assured_Ret [where A = "\<lambda>_. True"]) (auto intro: Q)
  have G: "sg_assured p sgExists C c Q (?k x) False w" if g: "held p sgExists K g w" for x g w
  proof (rule assured_read_bind [OF kept_held [OF UK] g], intro conjI)
    fix w
    assume w: "held p sgExists K g w"
    have "sg_assured p sgExists C c Q (Ret (Inr g')) False w" if "held p sgExists K g' w" for g'
      by (rule assured_Ret [OF kept_held [OF UK] that]) (rule Q, auto)
    moreover have "held p sgExists K (autoGeneratedSG (bspState p w)) w" using w by (auto simp: held_def)
    ultimately show "sg_assured p sgExists C c Q (Ret (Inr (autoGeneratedSG (bspState p w)))) False w" by blast
  qed simp
  have U: "?U True r w" if w: "sg_linv p sgExists w" "r = Inr () \<Longrightarrow> marked p K w \<and> autoGeneratedSG (bspState p w) \<noteq> []" for r w
  proof (intro conjI TrueI, rule assured_Unlock_Ret)
    let ?g = "autoGeneratedSG (bspState p w)"
    let ?A = "\<lambda>w'. sg_linv p sgExists w' \<and> (autoGeneratedSG (bspState p w') = ?g \<and> (r = Inr () \<longrightarrow> marked p K w'))"
    have "kept_by (sg_rely p sgExists C) True (\<lambda>w'. r = Inr () \<longrightarrow> marked p K w')"
      using kept_marked [OF UK] by (cases "r = Inr ()") simp_all
    then show "kept_by (sg_rely p sgExists C) True ?A" by (intro kept_by_conj kept_locked)
    show "?A w" using w by auto
    show "kept_by (sg_rely p sgExists C) False (\<lambda>w'. r = Inr () \<longrightarrow> held p sgExists K ?g w')"
      using kept_held [OF UK] by (cases "r = Inr ()") simp_all
    show "sg_linv p sgExists w' \<and> (r = Inr () \<longrightarrow> held p sgExists K ?g w')" if "?A w'" for w'
      using that w by (auto simp: held_def sg_linv_def)
    show "?Q False r w'" if "r = Inr () \<longrightarrow> held p sgExists K ?g w'" for w'
      using that F G by (cases r) (auto simp del: assured.simps)
  qed
  have "sg_assured p sgExists C c ?Q (allocateBackendSG p rt objs tags) False w"
    unfolding allocateBackendSG_def
  proof (rule assured_with_mutex [where A = "\<lambda>_. True"], simp, simp, rule assured_bind, rule enter_objects_assured [OF L P, of "{}"])
    fix w
    assume w: "marked p ({} \<union> getObjectKey rt ` set objs \<inter> P) w" "sg_linv p sgExists w"
    let ?A = "\<lambda>w. marked p K w \<and> sg_linv p sgExists w"
    have A: "kept_by (sg_rely p sgExists C) True ?A" by (intro kept_by_conj kept_marked [OF UK] kept_locked)
    have "sg_assured p sgExists C c ?U (if autoGeneratedSG (bspState p w) \<noteq> [] then Ret (Inr ()) else find_or_create_sg p tags) True w"
      if "?A w" for w
    proof (cases "autoGeneratedSG (bspState p w) = []")
      case True
      have "sg_assured p sgExists C c ?U (find_or_create_sg p tags) True w"
        by (rule find_or_create_assured [OF L UK]) (use that True U in auto)
      then show ?thesis using True by (simp del: assured.simps)
    next
      case False
      let ?B = "\<lambda>w'. (marked p K w' \<and> sg_linv p sgExists w') \<and> autoGeneratedSG (bspState p w') = autoGeneratedSG (bspState p w)"
      have "kept_by (sg_rely p sgExists C) True ?B" by (rule kept_by_conj [OF A kept_locked(3)])
      then have "sg_assured p sgExists C c ?U (Ret (Inr ())) True w"
        by (rule assured_Ret) (use that in simp, rule U, use False in auto)
      then show ?thesis using False by (simp del: assured.simps)
    qed
    moreover have "?A w" using w by (simp add: K)
    ultimately show "case Inr () of Inl e \<Rightarrow> sg_assured p sgExists C c ?U (Ret (Inl e)) True w
        | Inr x \<Rightarrow> sg_assured p sgExists C c ?U (prog_bind (prog_read (\<lambda>w. autoGeneratedSG (bspState p w)))
            (\<lambda>sgID. if sgID \<noteq> [] then Ret (Inr ()) else find_or_create_sg p tags)) True w"
      by (auto intro!: assured_read_bind [OF A] simp del: assured.simps)
  qed (auto simp: marked_def)
  then show ?thesis using auto by (auto simp: BackendSG_Get_def intro!: assured_bind simp del: assured.simps)
qed

lemma releaseSG_assured:
  assumes L: "backend_laws p sgExists" and Q: "\<And>w r. Q False r w"
  shows "sg_assured p sgExists C c Q (releaseSG p) False w"
proof -
  let ?U = "\<lambda>h x w. h \<and> sg_assured p sgExists C c Q (Unlock (Ret x)) True w"
  have U: "?U True r w" if "sg_linv p sgExists w" for r w
    by (intro conjI TrueI, rule assured_Unlock_Ret [OF kept_locked(2) that, where B = "\<lambda>_. True"]) (auto simp: Q)
  have R: "sg_assured p sgExists C c ?U (Ret r) True w" if "sg_linv p sgExists w" for r w
    by (rule assured_Ret [OF kept_locked(2) that]) (use U in auto)
  let ?B = "\<lambda>w. sg_linv p sgExists w \<and> unmarked p w"
  have B: "kept_by (sg_rely p sgExists C) True ?B" by (intro kept_by_conj kept_locked)
  obtain n where n: "bspPollImmediate p = poll_attempts n" using polls [OF L] by blast
  have W: "sg_assured p sgExists C c ?U (prog_write (set_autoGeneratedSG p [])) True w" if "unmarked p w" for w
    by (rule assured_write [OF kept_locked(1) that kept_locked(2)])
      (use U in \<open>auto simp: sg_guar_def Let_def unmarked_def sg_linv_def set_autoGeneratedSG_state [OF L]\<close>)
  have D: "sg_assured p sgExists C c ?U (prog_bind (prog_io (delete_backend_sg p)) (\<lambda>_. prog_write (set_autoGeneratedSG p []))) True w"
    if "?B w" for w
  proof (rule assured_io_bind [OF B that])
    fix w r w'
    assume w: "?B w" and run: "delete_backend_sg p w = (r, w')"
    obtain r1 where "RetryImmediateOnError (poll_attempts n) net_isSecurityGroupDependencyViolationError
        (DeleteSecurityGroupWithContext (bspEc2Client p) (autoGeneratedSG (bspState p w))) w = (r1, w')"
      and r: "r = (case r1 of Inl err \<Rightarrow> Inl (Wrap err ''failed to delete securityGroup'') | Inr _ \<Rightarrow> Inr ())"
      using run n by (auto simp: delete_backend_sg_def split: prod.splits sum.splits)
    note E = retry_delete_effect [OF L this(1)]
    have "sg_guar p sgExists c True w w'" using w E by (auto simp: sg_guar_def Let_def unmarked_def)
    moreover have "unmarked p w'" using w E by (auto simp: unmarked_def)
    moreover have "sg_linv p sgExists w'" if "r = Inl e" for e
      using w E that r by (auto simp: sg_linv_def undisturbed_def split: sum.splits)
    ultimately show "sg_guar p sgExists c True w w' \<and> (case r of Inl e \<Rightarrow> sg_assured p sgExists C c ?U (Ret (Inl e)) True w'
        | Inr x \<Rightarrow> sg_assured p sgExists C c ?U (prog_write (set_autoGeneratedSG p [])) True w')"
      using R W by (auto split: sum.split simp del: assured.simps)
  qed
  have C: "sg_assured p sgExists C c ?U (prog_bind (isBackendSGRequired p) (\<lambda>required.
      if required then Ret (Inr ()) else prog_bind (prog_io (delete_backend_sg p)) (\<lambda>_. prog_write (set_autoGeneratedSG p [])))) True w"
    if "sg_linv p sgExists w" for w
    by (rule assured_bind, rule required_assured [OF L kept_locked(2) that])
      (use R D in \<open>auto split: sum.split simp del: assured.simps\<close>)
  show ?thesis unfolding releaseSG_def
    by (rule assured_with_mutex [where A = "\<lambda>_. True"])
      (use R C in \<open>auto intro!: assured_read_bind [OF kept_locked(2)] simp del: assured.simps\<close>)
qed

lemma Release_assured:
  assumes L: "backend_laws p sgExists" and Q: "\<And>w r. Q False r w"
  shows "sg_assured p sgExists C (ReleaseCall rt objs) Q (BackendSG_Release p rt objs) False w"
proof -
  let ?c = "ReleaseCall rt objs"
  have R: "sg_assured p sgExists C ?c Q' (Ret r) False w" if "\<And>w r. Q' False r w" for r w Q' using that by simp
  have "sg_guar p sgExists ?c False w (compare_and_delete p rt obj w)" for w obj
    by (simp add: sg_guar_def Let_def compare_and_delete_state [OF L])
  then have U: "sg_assured p sgExists C ?c Q (prog_then (prog_for (\<lambda>res. prog_write (compare_and_delete p rt res)) objs) (\<lambda>_. Ret r)) False w" for r w
    by (intro assured_then for_writes_assured) (simp_all add: Q)
  let ?Q = "\<lambda>h r. sg_assured p sgExists C ?c Q (prog_then (prog_for (\<lambda>res. prog_write (compare_and_delete p rt res)) objs) (\<lambda>_. Ret r)) h"
  have "sg_assured p sgExists C ?c ?Q (prog_bind (isBackendSGRequired p) (\<lambda>required. if required then Ret (Inr ()) else releaseSG p)) False w" for w
    by (rule assured_bind, rule required_assured [OF L kept_by_True])
      (use U R [of ?Q] releaseSG_assured [OF L, of ?Q] in \<open>auto split: sum.split simp del: assured.simps\<close>)
  moreover have "sg_guar p sgExists ?c False w (store_object p rt False obj w)" if "obj \<in> set objs" for w obj
    using that by (auto simp: sg_guar_def Let_def store_object_state [OF L])
  ultimately have "sg_assured p sgExists C ?c ?Q (prog_bind (updateObjectsMap p rt objs False) (\<lambda>_.
      prog_bind (isBackendSGRequired p) (\<lambda>required. if required then Ret (Inr ()) else releaseSG p))) False w"
    unfolding updateObjectsMap_def by (intro assured_bind for_writes_assured) (simp_all del: assured.simps)
  then show ?thesis using R [of Q] Q by (auto simp: BackendSG_Release_def intro!: assured_then simp del: assured.simps)
qed

subsection \<open>Schedules\<close>

definition get_gives :: "'w defaultBackendSGProvider \<Rightarrow> ('w \<Rightarrow> string \<Rightarrow> bool) \<Rightarrow> string set \<Rightarrow> nat \<Rightarrow>
    nat \<Rightarrow> sg_call \<Rightarrow> bool \<Rightarrow> sg_result \<Rightarrow> 'w \<Rightarrow> bool" where
  "get_gives p sgExists P t i c h x w \<longleftrightarrow> \<not> h \<and>
     (\<forall>rt objs tags sgID. i = t \<longrightarrow> c = GetCall rt objs tags \<longrightarrow> x = Got (Inr sgID) \<longrightarrow>
        held p sgExists (getObjectKey rt ` set objs \<inter> P) sgID w)"

lemma sg_body_assured:
  assumes L: "backend_laws p sgExists" and auto: "bspBackendSG p = []" and P: "unreleased C P"
  shows "sg_assured p sgExists C c (get_gives p sgExists P t i c) (sg_body p c) False w"
proof (cases c)
  case (GetCall rt objs tags)
  let ?K = "getObjectKey rt ` set objs \<inter> P"
  have K: "unreleased C ?K" by (rule unreleased_mono [OF P]) simp
  have "sg_assured p sgExists C c (get_gives p sgExists P t i c) (Ret (Got r)) False w"
    if "\<And>sgID. r = Inr sgID \<Longrightarrow> held p sgExists ?K sgID w" for r w
  proof (cases r)
    case (Inl e)
    then show ?thesis by (intro assured_Ret [where A = "\<lambda>_. True"]) (auto simp: get_gives_def)
  next
    case (Inr sgID)
    show ?thesis by (rule assured_Ret [OF kept_held [OF K] that [OF Inr]]) (auto simp: get_gives_def GetCall Inr)
  qed
  then show ?thesis unfolding sg_body_def GetCall sg_call.case
    by (intro assured_then Get_assured [OF L auto P refl]) (simp only: GetCall)
next
  case (ReleaseCall rt objs)
  then show ?thesis unfolding sg_body_def ReleaseCall sg_call.case
    by (intro assured_then Release_assured [OF L]) (simp add: get_gives_def)
qed

text \<open>C20: However the reconciliations interleave, the security group that \<open>Get\<close> returned for an object exists, and is the
  one the provider hands out, for as long as no call of \<open>Release\<close> for the object is made: in every
  schedule of goroutines that call \<open>Get\<close> and \<open>Release\<close>, whose map operations, reads and writes, client
  calls and uses of the mutex interleave arbitrarily, with calls of \<open>Release\<close> for other objects running
  before, during and after the call of \<open>Get\<close>. It rests on the second look at the objects that
  \<open>releaseSG\<close> takes under the mutex under which \<open>Get\<close> enters them.\<close>

theorem backend_sg_exists_while_in_use:
  assumes laws: "backend_laws p sgExists" and auto: "bspBackendSG p = []"
    and fresh: "autoGeneratedSG (bspState p w0) = []"
    and before: "(thread_step (sg_body p) (undisturbed p sgExists))\<^sup>*\<^sup>* (idle_threads w0) s1"
    and idle: "running s1 t = None" and calls: "calls_in (\<lambda>c. key \<notin> releases c) s1"
    and during: "steps_in (\<lambda>c. key \<notin> releases c) (sg_body p) (undisturbed p sgExists) s1 s2"
    and returned: "running s2 t = Some (GetCall rt objs tags, Ret (Got (Inr sgID)))" and key: "key \<in> getObjectKey rt ` set objs"
    and after: "steps_in (\<lambda>c. key \<notin> releases c) (sg_body p) (undisturbed p sgExists) s2 s3"
  shows "sgExists (shared s3) sgID \<and> sgID \<noteq> [] \<and> autoGeneratedSG (bspState p (shared s3)) = sgID"
proof -
  let ?C = "\<lambda>c. key \<notin> releases c" and ?Q = "get_gives p sgExists"
  have U: "unreleased (\<lambda>_. True) {}" "unreleased ?C {key}" by (auto simp: unreleased_def)
  have ret: "\<not> ?Q P u i c True x w" for P u i c x w by (simp add: get_gives_def)
  have "steps_in (\<lambda>_. True) (sg_body p) (undisturbed p sgExists) (idle_threads w0) s1"
    using before by (simp add: steps_in_def calls_in_def)
  then have "sgt.assured_threads p sgExists (\<lambda>_. True) (?Q {} t) s1"
    by (rule sgt.steps_assured [OF _ sgt.idle_assured])
      (use fresh sg_body_assured [OF laws auto U(1)] ret in \<open>auto simp: sg_linv_def simp del: assured.simps\<close>)
  then have s1: "sgt.assured_threads p sgExists ?C (?Q {key} t) s1"
    by (rule sgt.assured_threads_narrow [OF _ calls]) (use idle in \<open>auto simp: get_gives_def\<close>)
  have B: "sg_assured p sgExists ?C c (?Q {key} t i c) (sg_body p c) False w" for i c w
    by (rule sg_body_assured [OF laws auto U(2)])
  have s2: "sgt.assured_threads p sgExists ?C (?Q {key} t) s2" by (rule sgt.steps_assured [OF during s1 B ret])
  from sgt.assured_threadsD(2) [OF this returned] have "held p sgExists {key} sgID (shared s2)"
    using key by (auto simp: get_gives_def Int_absorb1 dest!: spec [of _ "shared s2"])
  from sgt.steps_keep [OF after s2 B ret kept_held [OF U(2)] this] show ?thesis by (simp add: held_def)
qed

text \<open>A provider whose world holds its own fields and the groups that exist.\<close>

type_synonym example_sg_world = "backend_state \<times> string list"

definition example_sg_ec2 :: "example_sg_world EC2" where
  "example_sg_ec2 = \<lparr>DescribeSecurityGroupsAsList = (\<lambda>_. io_return []),
     AuthorizeSecurityGroupIngressWithContext = (\<lambda>_ _. io_return ()), RevokeSecurityGroupIngressWithContext = (\<lambda>_ _. io_return ()),
     CreateTagsWithContext = (\<lambda>_ _. io_return ()), DeleteTagsWithContext = (\<lambda>_ _. io_return ()),
     CreateSecurityGroupWithContext = (\<lambda>_ (st, sgs). (Inr (Some ''sg-1''), (st, ''sg-1'' # sgs))),
     DeleteSecurityGroupWithContext = (\<lambda>sgID (st, sgs). (Inr (), (st, filter (\<lambda>x. x \<noteq> sgID) sgs)))\<rparr>"

definition example_backend :: "ObjectMeta list \<Rightarrow> example_sg_world defaultBackendSGProvider" where
  "example_backend ings = \<lparr>bspVpcID = ''vpc-1'', bspClusterName = ''c1'', bspBackendSG = [], bspDefaultTags = [],
     bspEc2Client = example_sg_ec2, bspListIngresses = io_return ings, bspListServices = io_return [],
     bspState = fst, bspSetState = (\<lambda>st (_, sgs). (st, sgs)), bspRange = (\<lambda>m. m), bspSlice = SliceStable,
     bspSha256 = (\<lambda>s. s), bspPollImmediate = poll_attempts 3\<rparr>"

lemma example_backend_laws: "backend_laws (example_backend ings) (\<lambda>w sgID. sgID \<in> set (snd w))"
  unfolding backend_laws_def
  by (auto simp: example_backend_def example_sg_ec2_def keeps_def undisturbed_def io_return_def)

abbreviation example_key :: "string \<Rightarrow> NamespacedName" where
  "example_key n \<equiv> \<lparr>nnNamespace = ''ns'', nnName = n\<rparr>"

text \<open>A race: object b was given the group and is being released, the first look found that no object requires the
  group, and before the mutex is taken object a gets the group. The second look keeps it.\<close>

definition example_start :: example_sg_world where
  "example_start = (\<lparr>autoGeneratedSG = [], objectsMap = []\<rparr>, [])"

definition race_before :: "sg_call order list" where
  "race_before = Call 2 (GetCall ResourceTypeService [example_key ''b''] []) # replicate 8 (Run 2) @
     [Return 2, Call 1 (ReleaseCall ResourceTypeService [example_key ''b''])] @ replicate 4 (Run 1)"

definition race_during :: "sg_call order list" where
  "race_during = Call 0 (GetCall ResourceTypeService [example_key ''a''] []) # replicate 5 (Run 0)"

definition race_after :: "sg_call order list" where
  "race_after = [Return 0] @ replicate 5 (Run 1) @ [Return 1]"

lemma example_race:
  "case carry_out_all (sg_body (example_backend [])) (idle_threads example_start) race_before of None \<Rightarrow> False | Some s1 \<Rightarrow>
   (case running s1 0 of Some _ \<Rightarrow> False | None \<Rightarrow>
   (case carry_out_all (sg_body (example_backend [])) s1 race_during of None \<Rightarrow> False | Some s2 \<Rightarrow>
     (case running s2 0 of Some (c, Ret r) \<Rightarrow>
       c = GetCall ResourceTypeService [example_key ''a''] [] \<and> r = Got (Inr ''sg-1'') | _ \<Rightarrow> False) \<and>
     (case carry_out_all (sg_body (example_backend [])) s2 race_after of None \<Rightarrow> False | Some s3 \<Rightarrow>
       shared s3 = (\<lparr>autoGeneratedSG = ''sg-1'', objectsMap = [(''service/ns/a'', True)]\<rparr>, [''sg-1'']))))"
  by code_simp

theorem backend_sg_exists_while_in_use_witness:
  "\<exists>p sgExists s1 s2 s3. p = example_backend [] \<and> sgExists = (\<lambda>(w :: example_sg_world) sgID. sgID \<in> set (snd w)) \<and>
     backend_laws p sgExists \<and> (thread_step (sg_body p) (undisturbed p sgExists))\<^sup>*\<^sup>* (idle_threads example_start) s1 \<and>
     running s1 0 = None \<and> calls_in (\<lambda>c. ''service/ns/a'' \<notin> releases c) s1 \<and>
     steps_in (\<lambda>c. ''service/ns/a'' \<notin> releases c) (sg_body p) (undisturbed p sgExists) s1 s2 \<and>
     running s2 0 = Some (GetCall ResourceTypeService [example_key ''a''] [], Ret (Got (Inr ''sg-1''))) \<and>
     steps_in (\<lambda>c. ''service/ns/a'' \<notin> releases c) (sg_body p) (undisturbed p sgExists) s2 s3 \<and>
     ''sg-1'' \<in> set (snd (shared s3)) \<and> autoGeneratedSG (fst (shared s3)) = ''sg-1''"
proof -
  let ?p = "example_backend []" and ?E = "\<lambda>(w :: example_sg_world) sgID. sgID \<in> set (snd w)"
  let ?C = "\<lambda>c. ''service/ns/a'' \<notin> releases c"
  obtain s1 s2 s3 where run: "carry_out_all (sg_body ?p) (idle_threads example_start) race_before = Some s1"
      "carry_out_all (sg_body ?p) s1 race_during = Some s2" "carry_out_all (sg_body ?p) s2 race_after = Some s3"
    and idle: "running s1 0 = None"
    and ret: "running s2 0 = Some (GetCall ResourceTypeService [example_key ''a''] [], Ret (Got (Inr ''sg-1'')))"
    using example_race by (auto split: option.splits prod.splits prog.splits)
  have key: "getObjectKey ResourceTypeService (example_key n) = ''service/ns/'' @ n" for n
    by (simp add: getObjectKey_def ResourceTypeService_def NamespacedName_String_def)
  have o: "list_all (order_in ?C) race_before" "list_all (order_in ?C) race_during" "list_all (order_in ?C) race_after"
    by (simp_all add: race_before_def race_during_def race_after_def key eval_nat_numeral)
  note S = carry_out_all_steps [where env = "undisturbed ?p ?E"]
  have c1: "steps_in ?C (sg_body ?p) (undisturbed ?p ?E) (idle_threads example_start) s1 \<and> calls_in ?C s1"
    by (rule S [OF run(1) o(1)]) (simp add: calls_in_def idle_threads_def)
  then have "(thread_step (sg_body ?p) (undisturbed ?p ?E))\<^sup>*\<^sup>* (idle_threads example_start) s1"
    by (auto simp: steps_in_def elim: rtranclp_weaken)
  moreover have c2: "steps_in ?C (sg_body ?p) (undisturbed ?p ?E) s1 s2 \<and> calls_in ?C s2" using S [OF run(2) o(2)] c1 by blast
  moreover have c3: "steps_in ?C (sg_body ?p) (undisturbed ?p ?E) s2 s3 \<and> calls_in ?C s3" using S [OF run(3) o(3)] c2 by blast
  moreover have "''sg-1'' \<in> set (snd (shared s3)) \<and> ''sg-1'' \<noteq> [] \<and> autoGeneratedSG (bspState ?p (shared s3)) = ''sg-1''"
    using backend_sg_exists_while_in_use [OF example_backend_laws _ _ calculation(1) idle _ _ ret] c1 c2 c3
    by (simp add: example_backend_def example_start_def key)
  ultimately show ?thesis using idle ret c1 example_backend_laws [of "[]"]
    by (intro exI [of _ ?p] exI [of _ ?E]) (rule exI [of _ s1], rule exI [of _ s2], rule exI [of _ s3], simp add: example_backend_def)
qed

end
