(* ===== verification/Service_LB.thy ===== *)
theory Service_LB
  imports Build_Task Annotations Feature_Gates Tracking Tagging Subnet_Resolver Backend_SG
begin

text \<open>
  The model builder for services, \<^verbatim>\<open>pkg/service\<close>, first part: the builder and its task
  (\<^verbatim>\<open>model_builder.go\<close>), which services the controller handles (\<^verbatim>\<open>service_utils.go\<close>), the load
  balancer (\<^verbatim>\<open>model_build_load_balancer.go\<close>) and its managed security group
  (\<^verbatim>\<open>model_build_managed_sg.go\<close>). The fields of the task that change while it runs are the record
  \<open>svc_task\<close>, an extension of the one of \<open>Build_Task\<close>, next to the world. The components the task calls are
  those of the other theories. Parameters of the builder are \<^verbatim>\<open>intstr.Parse\<close> of the Kubernetes
  library, the hexadecimal SHA-256 sum, the order of ranges over maps and the sorting function.
\<close>

section \<open>Builder and task\<close>

definition LoadBalancerTypeNLBIP :: string where "LoadBalancerTypeNLBIP = ''nlb-ip''"

definition LoadBalancerTypeExternal :: string where "LoadBalancerTypeExternal = ''external''"

definition LoadBalancerTargetTypeIP :: string where "LoadBalancerTargetTypeIP = ''ip''"

definition LoadBalancerTargetTypeInstance :: string where "LoadBalancerTargetTypeInstance = ''instance''"

definition lbAttrsDeletionProtection :: string where "lbAttrsDeletionProtection = ''deletion_protection.enabled''"

record 'w svc_builder =
  sbAnnotationParser :: suffixAnnotationParser
  sbSubnetsResolver :: "'w defaultSubnetsResolver"
  sbVpcInfoProvider :: "'w defaultVPCInfoProvider"
  sbBackendSGProvider :: "'w defaultBackendSGProvider"
  sbSgResolver :: "'w defaultSecurityGroupResolver"
  sbTrackingProvider :: defaultProvider
  sbTaggingManager :: "'w defaultTaggingManager"
  sbFeatureGates :: FeatureGates
  sbServiceFinalizer :: string
  sbLoadBalancerClass :: string
  sbEnableBackendSG :: bool
  sbDisableRestrictedSGRules :: bool
  sbClusterName :: string
  sbVpcID :: string
  sbDefaultTags :: string_map
  sbExternalManagedTags :: "string list"
  sbDefaultSSLPolicy :: string
  sbDefaultTargetType :: TargetType
  sbEnableIPTargetType :: bool
  sbIntstrParse :: "string \<Rightarrow> IntOrString"
  sbSha256 :: "string \<Rightarrow> string"
  sbRange :: "string list \<Rightarrow> string list"
  sbSliceLB :: "LoadBalancerAttribute slice_sort"
  sbSliceTG :: "TargetGroupAttribute slice_sort"

record svc_task = build_task +
  tEc2Subnets :: "Subnet list"
  tPreserveClientIP :: bool
  tFetchedOnce :: bool
  tExistingLoadBalancer :: "LoadBalancerWithTags option"

type_synonym ('w, 'a) build = "('w \<times> svc_task, 'a) io"

definition svc_annotations :: "Service \<Rightarrow> string_map" where
  "svc_annotations svc = omAnnotations (svcMeta svc)"

definition svc_string :: "'w svc_builder \<Rightarrow> Service \<Rightarrow> string \<Rightarrow> string option" where
  "svc_string b svc suffix = ParseStringAnnotation (sbAnnotationParser b) suffix (svc_annotations svc) []"

definition svc_bool :: "'w svc_builder \<Rightarrow> Service \<Rightarrow> string \<Rightarrow> bool option result" where
  "svc_bool b svc suffix = ParseBoolAnnotation (sbAnnotationParser b) suffix (svc_annotations svc) []"

definition svc_int64 :: "'w svc_builder \<Rightarrow> Service \<Rightarrow> string \<Rightarrow> int option result" where
  "svc_int64 b svc suffix = ParseInt64Annotation (sbAnnotationParser b) suffix (svc_annotations svc) []"

definition svc_slice :: "'w svc_builder \<Rightarrow> Service \<Rightarrow> string \<Rightarrow> string list option" where
  "svc_slice b svc suffix = ParseStringSliceAnnotation (sbAnnotationParser b) suffix (svc_annotations svc) []"

definition svc_map :: "'w svc_builder \<Rightarrow> Service \<Rightarrow> string \<Rightarrow> string_map option result" where
  "svc_map b svc suffix = ParseStringMapAnnotation (sbAnnotationParser b) suffix (svc_annotations svc) []"

section \<open>Services of the controller\<close>

definition IsServicePendingFinalization :: "'w svc_builder \<Rightarrow> Service \<Rightarrow> bool" where
  "IsServicePendingFinalization u svc = HasFinalizer (svcMeta svc) (sbServiceFinalizer u)"

definition checkAWSLoadBalancerTypeAnnotation :: "'w svc_builder \<Rightarrow> Service \<Rightarrow> bool" where
  "checkAWSLoadBalancerTypeAnnotation u svc =
     (let lbt = with_default [] (svc_string u svc SvcLBSuffixLoadBalancerType) in
      if lbt = LoadBalancerTypeNLBIP then True
      else let lbTargetType = with_default [] (svc_string u svc SvcLBSuffixTargetType) in
        lbt = LoadBalancerTypeExternal \<and>
          (lbTargetType = LoadBalancerTargetTypeIP \<or> lbTargetType = LoadBalancerTargetTypeInstance))"

definition IsServiceSupported :: "'w svc_builder \<Rightarrow> Service \<Rightarrow> bool" where
  "IsServiceSupported u svc =
     (if omDeletionTimestamp (svcMeta svc) \<noteq> None then False
      else if Enabled (sbFeatureGates u) ServiceTypeLoadBalancerOnly \<and> svcType svc \<noteq> ''LoadBalancer'' then False
      else case svcLoadBalancerClass svc of
        Some cls \<Rightarrow> cls = sbLoadBalancerClass u
      | None \<Rightarrow> checkAWSLoadBalancerTypeAnnotation u svc)"

section \<open>Tags, scheme and subnets\<close>

definition resourceIDLoadBalancer :: string where "resourceIDLoadBalancer = ''LoadBalancer''"

definition minimalAvailableIPAddressCount :: int where "minimalAvailableIPAddressCount = 8"

definition buildAdditionalResourceTags :: "'w svc_builder \<Rightarrow> Service \<Rightarrow> string_map result" where
  "buildAdditionalResourceTags b svc =
     result_bind (svc_map b svc SvcLBSuffixAdditionalTags) (\<lambda>annotationTags.
       let annotationTags = nil_map annotationTags in
       case List.find (\<lambda>tagKey. tagKey \<in> set (sbExternalManagedTags b)) (sbRange b (gomap_keys annotationTags)) of
         Some tagKey \<Rightarrow> Inl (Errorf ''external managed tag key %v cannot be specified on Service'' [tagKey])
       | None \<Rightarrow> Inr (MergeStringMap [sbDefaultTags b, annotationTags]))"

definition fetchExistingLoadBalancer :: "'w svc_builder \<Rightarrow> ('w, LoadBalancerWithTags option) build" where
  "fetchExistingLoadBalancer b wt =
     (let t = snd wt in
      if tFetchedOnce t then (Inr (tExistingLoadBalancer t), wt)
      else
        case ListLoadBalancers (sbTaggingManager b)
            [TagsAsTagFilter (StackTags (sbTrackingProvider b) (stackID (stack (tModel t))))] (fst wt) of
          (Inl err, w') \<Rightarrow> (Inl err, (w', t\<lparr>tFetchedOnce := True, tExistingLoadBalancer := None\<rparr>))
        | (Inr sdkLBs, w') \<Rightarrow>
            let existing = (case sdkLBs of [] \<Rightarrow> None | lb # _ \<Rightarrow> Some lb)
            in (Inr existing, (w', t\<lparr>tFetchedOnce := True, tExistingLoadBalancer := existing\<rparr>)))"

definition buildLoadBalancerSchemeLegacyAnnotation :: "'w svc_builder \<Rightarrow> Service \<Rightarrow> (LoadBalancerScheme \<times> bool) result" where
  "buildLoadBalancerSchemeLegacyAnnotation b svc =
     result_bind (svc_bool b svc SvcLBSuffixInternal) (\<lambda>internal.
       case internal of
         Some False \<Rightarrow> Inr (LoadBalancerSchemeInternetFacing, True)
       | Some True \<Rightarrow> Inr (LoadBalancerSchemeInternal, True)
       | None \<Rightarrow> Inr (LoadBalancerSchemeInternal, False))"

definition buildLoadBalancerSchemeViaAnnotation :: "'w svc_builder \<Rightarrow> Service \<Rightarrow> (LoadBalancerScheme \<times> bool) result" where
  "buildLoadBalancerSchemeViaAnnotation b svc =
     (case svc_string b svc SvcLBSuffixScheme of
        Some rawScheme \<Rightarrow>
          if rawScheme = LoadBalancerSchemeInternetFacing then Inr (LoadBalancerSchemeInternetFacing, True)
          else if rawScheme = LoadBalancerSchemeInternal then Inr (LoadBalancerSchemeInternal, True)
          else Inl (Errorf ''unknown scheme: %v'' [rawScheme])
      | None \<Rightarrow> buildLoadBalancerSchemeLegacyAnnotation b svc)"

definition buildLoadBalancerScheme :: "'w svc_builder \<Rightarrow> Service \<Rightarrow> ('w, LoadBalancerScheme) build" where
  "buildLoadBalancerScheme b svc =
     io_bind (io_lift (buildLoadBalancerSchemeViaAnnotation b svc)) (\<lambda>(scheme, explicitSchemeSpecified).
       if explicitSchemeSpecified then io_return scheme
       else io_bind (fetchExistingLoadBalancer b) (\<lambda>existingLB.
         case existingLB of
           Some lb \<Rightarrow>
             let s = StringValue (slbScheme (lwLoadBalancer lb)) in
             if s = LoadBalancerSchemeInternal then io_return LoadBalancerSchemeInternal
             else if s = LoadBalancerSchemeInternetFacing then io_return LoadBalancerSchemeInternetFacing
             else io_fail (Errorf ''invalid load balancer scheme'' [])
         | None \<Rightarrow> io_return LoadBalancerSchemeInternal))"

definition buildLoadBalancerSubnets :: "'w svc_builder \<Rightarrow> Service \<Rightarrow> LoadBalancerScheme \<Rightarrow> ('w, Subnet list) build" where
  "buildLoadBalancerSubnets b svc scheme =
     (let opts = [WithSubnetsResolveLBType LoadBalancerTypeNetwork, WithSubnetsResolveLBScheme scheme];
          tagCheck = WithSubnetsClusterTagCheck (Enabled (sbFeatureGates b) SubnetsClusterTagCheck)
      in case svc_slice b svc SvcLBSuffixSubnets of
        Some rawSubnetNameOrIDs \<Rightarrow> in_world (ResolveViaNameOrIDSlice (sbSubnetsResolver b) rawSubnetNameOrIDs opts)
      | None \<Rightarrow>
          io_bind (fetchExistingLoadBalancer b) (\<lambda>existingLB.
            let discover =
              (let ipv4Configured = svc_slice b svc SvcLBSuffixPrivateIpv4Addresses \<noteq> None in
               if scheme = LoadBalancerSchemeInternetFacing \<or> (scheme = LoadBalancerSchemeInternal \<and> \<not> ipv4Configured)
               then ResolveViaDiscovery (sbSubnetsResolver b)
                 (opts @ [WithSubnetsResolveAvailableIPAddressCount minimalAvailableIPAddressCount, tagCheck])
               else ResolveViaDiscovery (sbSubnetsResolver b) (opts @ [tagCheck]))
            in case existingLB of
              Some lb \<Rightarrow>
                if scheme = StringValue (slbScheme (lwLoadBalancer lb))
                then in_world (ResolveViaNameOrIDSlice (sbSubnetsResolver b)
                       (map StringValue (slbAvailabilityZoneSubnetIds (lwLoadBalancer lb))) opts)
                else in_world discover
            | None \<Rightarrow> in_world discover))"

section \<open>Addresses of the load balancer\<close>

definition buildLoadBalancerIPAddressType :: "'w svc_builder \<Rightarrow> Service \<Rightarrow> IPAddressType result" where
  "buildLoadBalancerIPAddressType b svc =
     (case svc_string b svc SvcLBSuffixIPAddressType of
        None \<Rightarrow> Inr IPAddressTypeIPV4
      | Some raw \<Rightarrow>
          if raw = IPAddressTypeIPV4 then Inr IPAddressTypeIPV4
          else if raw = IPAddressTypeDualStack then Inr IPAddressTypeDualStack
          else Inl (Errorf ''unknown IPAddressType: %v'' [raw]))"

fun Is4 :: "Addr \<Rightarrow> bool" where
  "Is4 (Addr4 _) = True"
| "Is4 (Addr6 _ _) = False"

fun Is6 :: "Addr \<Rightarrow> bool" where
  "Is6 (Addr4 _) = False"
| "Is6 (Addr6 _ _) = True"

definition check_count :: "string \<Rightarrow> nat \<Rightarrow> nat \<Rightarrow> unit result" where
  "check_count fmt n m = (if n \<noteq> m then Inl (Errorf fmt [Itoa (int n), Itoa (int m)]) else Inr ())"

definition parse_address :: "(Addr \<Rightarrow> bool) \<Rightarrow> string \<Rightarrow> string \<Rightarrow> string \<Rightarrow> Addr result" where
  "parse_address family invalid wrong raw =
     (case ParseAddr raw of
        Inl _ \<Rightarrow> Inl (Errorf invalid [raw])
      | Inr a \<Rightarrow> if \<not> family a then Inl (Errorf wrong [raw]) else Inr a)"

definition check_eips :: "LoadBalancerScheme \<Rightarrow> Subnet list \<Rightarrow> string list option \<Rightarrow> unit result" where
  "check_eips scheme ec2Subnets eips =
     (case eips of
        None \<Rightarrow> Inr ()
      | Some eipAllocation \<Rightarrow>
          if scheme \<noteq> LoadBalancerSchemeInternetFacing
          then Inl (Errorf ''EIP allocations can only be set for internet facing load balancers'' [])
          else check_count ''count of EIP allocations (%d) and subnets (%d) must match'' (length eipAllocation) (length ec2Subnets))"

definition parse_ipv4s :: "LoadBalancerScheme \<Rightarrow> Subnet list \<Rightarrow> string list option \<Rightarrow> Addr list option result" where
  "parse_ipv4s scheme ec2Subnets raws =
     (case raws of
        None \<Rightarrow> Inr None
      | Some rawIPv4Addresses \<Rightarrow>
          if scheme \<noteq> LoadBalancerSchemeInternal
          then Inl (Errorf ''private IPv4 addresses can only be set for internal load balancers'' [])
          else result_bind (check_count ''count of private IPv4 addresses (%d) and subnets (%d) must match''
              (length rawIPv4Addresses) (length ec2Subnets)) (\<lambda>_.
            result_bind (result_mapM (parse_address Is4 ''private IPv4 addresses must be valid IP address: %v''
              ''private IPv4 addresses must be valid IPv4 address: %v'') rawIPv4Addresses) (\<lambda>as. Inr (Some as))))"

definition parse_ipv6s :: "IPAddressType \<Rightarrow> Subnet list \<Rightarrow> string list option \<Rightarrow> Addr list option result" where
  "parse_ipv6s ipAddressType ec2Subnets raws =
     (case raws of
        None \<Rightarrow> Inr None
      | Some rawIPv6Addresses \<Rightarrow>
          if ipAddressType \<noteq> IPAddressTypeDualStack
          then Inl (Errorf ''IPv6 addresses can only be set for dualstack load balancers'' [])
          else result_bind (check_count ''count of IPv6 addresses (%d) and subnets (%d) must match''
              (length rawIPv6Addresses) (length ec2Subnets)) (\<lambda>_.
            result_bind (result_mapM (parse_address Is6 ''IPv6 addresses must be valid IP address: %v''
              ''IPv6 addresses must be valid IPv6 address: %v'') rawIPv6Addresses) (\<lambda>as. Inr (Some as))))"

definition address_in_subnet :: "(Subnet \<Rightarrow> Prefix list result) \<Rightarrow> string \<Rightarrow> Addr list option \<Rightarrow> Subnet \<Rightarrow> string option result" where
  "address_in_subnet cidrs err addresses subnet =
     (case addresses of
        None \<Rightarrow> Inr None
      | Some as \<Rightarrow>
          result_bind (cidrs subnet) (\<lambda>subnetCIDRs.
            case FilterIPsWithinCIDRs as subnetCIDRs of
              [a] \<Rightarrow> Inr (Some (Addr_String a))
            | _ \<Rightarrow> Inl (Errorf err [StringValue (subnetSubnetId subnet)])))"

definition subnet_mapping ::
  "string list option \<Rightarrow> Addr list option \<Rightarrow> Addr list option \<Rightarrow> nat \<times> Subnet \<Rightarrow> SubnetMapping result" where
  "subnet_mapping eips ipv4s ipv6s = (\<lambda>(idx, subnet).
     result_bind (address_in_subnet GetSubnetAssociatedIPv4CIDRs
       ''expect one private IPv4 address configured for subnet: %v'' ipv4s subnet) (\<lambda>ipv4.
     result_bind (address_in_subnet GetSubnetAssociatedIPv6CIDRs
       ''expect one IPv6 address configured for subnet: %v'' ipv6s subnet) (\<lambda>ipv6.
     Inr \<lparr>AllocationID = map_option (\<lambda>as. as ! idx) eips, PrivateIPv4Address = ipv4, IPv6Address = ipv6,
          SubnetID = StringValue (subnetSubnetId subnet)\<rparr>)))"

definition buildLoadBalancerSubnetMappings ::
  "'w svc_builder \<Rightarrow> Service \<Rightarrow> IPAddressType \<Rightarrow> LoadBalancerScheme \<Rightarrow> Subnet list \<Rightarrow> SubnetMapping list result" where
  "buildLoadBalancerSubnetMappings b svc ipAddressType scheme ec2Subnets =
     (let eips = svc_slice b svc SvcLBSuffixEIPAllocations in
      result_bind (check_eips scheme ec2Subnets eips) (\<lambda>_.
      result_bind (parse_ipv4s scheme ec2Subnets (svc_slice b svc SvcLBSuffixPrivateIpv4Addresses)) (\<lambda>ipv4s.
      result_bind (parse_ipv6s ipAddressType ec2Subnets (svc_slice b svc SvcLBSuffixIpv6Addresses)) (\<lambda>ipv6s.
      result_mapM (subnet_mapping eips ipv4s ipv6s) (List.enumerate 0 ec2Subnets)))))"

section \<open>The managed security group\<close>

definition resourceIDManagedSecurityGroup :: string where
  "resourceIDManagedSecurityGroup = ''ManagedLBSecurityGroup''"

text \<open>Names of resources: \<^verbatim>\<open>k8s-%.8s-%.8s-%.10s\<close>.\<close>

definition k8s_name :: "Service \<Rightarrow> string \<Rightarrow> string" where
  "k8s_name svc uuid =
     ''k8s-'' @ take 8 (sanitize (omNamespace (svcMeta svc))) @ ''-'' @ take 8 (sanitize (omName (svcMeta svc))) @ ''-'' @ take 10 uuid"

definition buildManagedSecurityGroupName :: "'w svc_builder \<Rightarrow> Service \<Rightarrow> string" where
  "buildManagedSecurityGroupName b svc =
     (let m = svcMeta svc in k8s_name svc (sbSha256 b (sbClusterName b @ omName m @ omNamespace m @ omUID m)))"

definition buildManagedSecurityGroupTags :: "'w svc_builder \<Rightarrow> Service \<Rightarrow> string_map result" where
  "buildManagedSecurityGroupTags b svc =
     result_bind (buildAdditionalResourceTags b svc) (\<lambda>sgTags. Inr (MergeStringMap [sbDefaultTags b, sgTags]))"

definition buildCIDRsFromSourceRanges :: "'w svc_builder \<Rightarrow> Service \<Rightarrow> IPAddressType \<Rightarrow> string list result" where
  "buildCIDRsFromSourceRanges b svc ipAddressType =
     (let cidrs = svcLoadBalancerSourceRanges svc;
          cidrs = (if cidrs = [] then with_default cidrs (svc_slice b svc SvcLBSuffixSourceRanges) else cidrs)
      in case List.find (\<lambda>cidr. strings_Contains cidr '':'' \<and> ipAddressType \<noteq> IPAddressTypeDualStack) cidrs of
           Some cidr \<Rightarrow> Inl (Errorf ''unsupported v6 cidr %v when lb is not dualstack'' [cidr])
         | None \<Rightarrow>
             if cidrs = [] then Inr (''0.0.0.0/0'' # (if ipAddressType = IPAddressTypeDualStack then [''::/0''] else []))
             else Inr cidrs)"

definition cidr_permission :: "ServicePort \<Rightarrow> string \<Rightarrow> IPPermission" where
  "cidr_permission port cidr =
     \<lparr>IPProtocol = ToLower (spProtocol port), FromPort = Some (spPort port), ToPort = Some (spPort port),
      IPRanges = (if \<not> strings_Contains cidr '':'' then [\<lparr>CIDRIP = cidr, iprDescription = []\<rparr>] else []),
      IPv6Ranges = (if \<not> strings_Contains cidr '':'' then [] else [\<lparr>CIDRIPv6 = cidr, ip6rDescription = []\<rparr>]),
      UserIDGroupPairs = []\<rparr>"

definition buildManagedSecurityGroupIngressPermissions ::
  "'w svc_builder \<Rightarrow> Service \<Rightarrow> IPAddressType \<Rightarrow> IPPermission list result" where
  "buildManagedSecurityGroupIngressPermissions b svc ipAddressType =
     result_bind (buildCIDRsFromSourceRanges b svc ipAddressType) (\<lambda>cidrs.
       Inr (concat (map (\<lambda>port. map (cidr_permission port) cidrs) (svcPorts svc))))"

definition buildManagedSecurityGroupSpec :: "'w svc_builder \<Rightarrow> Service \<Rightarrow> IPAddressType \<Rightarrow> SecurityGroupSpec result" where
  "buildManagedSecurityGroupSpec b svc ipAddressType =
     (let name = buildManagedSecurityGroupName b svc in
      result_bind (buildManagedSecurityGroupTags b svc) (\<lambda>tags.
      result_bind (buildManagedSecurityGroupIngressPermissions b svc ipAddressType) (\<lambda>ingressPermissions.
      Inr \<lparr>sgGroupName = name, sgDescription = ''[k8s] Managed SecurityGroup for LoadBalancer'', sgTags = tags,
           sgIngress = ingressPermissions\<rparr>)))"

definition buildManagedSecurityGroup :: "'w svc_builder \<Rightarrow> Service \<Rightarrow> IPAddressType \<Rightarrow> ('w, ref) build" where
  "buildManagedSecurityGroup b svc ipAddressType =
     io_bind (io_lift (buildManagedSecurityGroupSpec b svc ipAddressType)) (\<lambda>sgSpec.
       on_model (NewSecurityGroup resourceIDManagedSecurityGroup sgSpec))"

section \<open>The load balancer\<close>

definition svc_buildManageSecurityGroupRulesFlag :: "'w svc_builder \<Rightarrow> Service \<Rightarrow> bool result" where
  "svc_buildManageSecurityGroupRulesFlag b svc =
     result_bind (svc_bool b svc SvcLBSuffixManageSGRules) (\<lambda>rawEnabled. Inr (with_default False rawEnabled))"

definition allocate_backend_sg :: "'w svc_builder \<Rightarrow> Service \<Rightarrow> string_map \<Rightarrow> StringToken list \<Rightarrow> ('w, StringToken list) build" where
  "allocate_backend_sg b svc tags lbSGTokens =
     io_bind (in_world (run_alone (BackendSG_Get (sbBackendSGProvider b) ResourceTypeService [NamespacedName_of (svcMeta svc)] tags))) (\<lambda>backendSGID.
       let token = LiteralStringToken backendSGID in
       io_bind (modify_task (\<lambda>t. t\<lparr>tBackendSGIDToken := Some token, tBackendSGAllocated := True\<rparr>)) (\<lambda>_.
         io_return (lbSGTokens @ [token])))"

definition svc_buildLoadBalancerSecurityGroups ::
  "'w svc_builder \<Rightarrow> Service \<Rightarrow> LoadBalancerWithTags option \<Rightarrow> IPAddressType \<Rightarrow> string_map \<Rightarrow> ('w, StringToken list) build" where
  "svc_buildLoadBalancerSecurityGroups b svc existingLB ipAddressType tags =
     (let existingSGs = map_option (\<lambda>lb. slbSecurityGroups (lwLoadBalancer lb)) existingLB in
      if existingSGs = Some [] then io_return []
      else if \<not> Enabled (sbFeatureGates b) NLBSecurityGroup then
        (if existingSGs \<noteq> None then io_fail (Errorf ''conflicting security groups configuration'' []) else io_return [])
      else
        let sgNameOrIDs = with_default [] (svc_slice b svc SvcLBSuffixLoadBalancerSecurityGroups) in
        if sgNameOrIDs = [] then
          io_bind (buildManagedSecurityGroup b svc ipAddressType) (\<lambda>managedSG.
            if \<not> sbEnableBackendSG b then
              io_bind (modify_task (\<lambda>t. t\<lparr>tBackendSGIDToken := Some (GroupID_token managedSG)\<rparr>)) (\<lambda>_.
                io_return [GroupID_token managedSG])
            else allocate_backend_sg b svc tags [GroupID_token managedSG])
        else
          io_bind (io_lift (svc_buildManageSecurityGroupRulesFlag b svc)) (\<lambda>manageBackendSGRules.
          io_bind (in_world (ResolveViaNameOrID (sbSgResolver b) sgNameOrIDs)) (\<lambda>frontendSGIDs.
            let lbSGTokens = map LiteralStringToken frontendSGIDs in
            if manageBackendSGRules then
              (if \<not> sbEnableBackendSG b
               then io_fail (Errorf ''backendSG feature is required to manage worker node SG rules when frontendSG is manually specified'' [])
               else allocate_backend_sg b svc tags lbSGTokens)
            else io_return lbSGTokens)))"

definition getLoadBalancerAttributes :: "'w svc_builder \<Rightarrow> Service \<Rightarrow> string_map result" where
  "getLoadBalancerAttributes b svc =
     result_bind (svc_map b svc SvcLBSuffixLoadBalancerAttributes) (\<lambda>attributes. Inr (nil_map attributes))"

definition lbAttrsAccessLogsS3Enabled :: string where "lbAttrsAccessLogsS3Enabled = ''access_logs.s3.enabled''"

definition lbAttrsAccessLogsS3Bucket :: string where "lbAttrsAccessLogsS3Bucket = ''access_logs.s3.bucket''"

definition lbAttrsAccessLogsS3Prefix :: string where "lbAttrsAccessLogsS3Prefix = ''access_logs.s3.prefix''"

definition lbAttrsLoadBalancingCrossZoneEnabled :: string where
  "lbAttrsLoadBalancingCrossZoneEnabled = ''load_balancing.cross_zone.enabled''"

definition put_some :: "string \<Rightarrow> string option \<Rightarrow> string_map \<Rightarrow> string_map" where
  "put_some k v m = (case v of None \<Rightarrow> m | Some x \<Rightarrow> AList.update k x m)"

definition getAnnotationSpecificLbAttributes :: "'w svc_builder \<Rightarrow> Service \<Rightarrow> string_map result" where
  "getAnnotationSpecificLbAttributes b svc =
     result_bind (svc_bool b svc SvcLBSuffixAccessLogEnabled) (\<lambda>accessLogEnabled.
       let attrs = (if accessLogEnabled = Some True
             then put_some lbAttrsAccessLogsS3Prefix (svc_string b svc SvcLBSuffixAccessLogS3BucketPrefix)
               (put_some lbAttrsAccessLogsS3Bucket (svc_string b svc SvcLBSuffixAccessLogS3BucketName)
                 (AList.update lbAttrsAccessLogsS3Enabled (show_bool True) []))
             else [])
       in result_bind (svc_bool b svc SvcLBSuffixCrossZoneLoadBalancingEnabled) (\<lambda>crossZoneEnabled.
         Inr (put_some lbAttrsLoadBalancingCrossZoneEnabled (map_option show_bool crossZoneEnabled) attrs)))"

definition makeAttributesSliceFromMap :: "'w svc_builder \<Rightarrow> string_map \<Rightarrow> LoadBalancerAttribute list" where
  "makeAttributesSliceFromMap b loadBalancerAttributesMap =
     sbSliceLB b (\<lambda>i j. lbaKey i < lbaKey j)
       (map (\<lambda>(attrKey, attrValue). \<lparr>lbaKey = attrKey, lbaValue = attrValue\<rparr>) (entries (sbRange b) loadBalancerAttributesMap))"

definition svc_buildLoadBalancerAttributes :: "'w svc_builder \<Rightarrow> Service \<Rightarrow> LoadBalancerAttribute list result" where
  "svc_buildLoadBalancerAttributes b svc =
     result_bind (getLoadBalancerAttributes b svc) (\<lambda>loadBalancerAttributes.
     result_bind (getAnnotationSpecificLbAttributes b svc) (\<lambda>specificAttributes.
     Inr (makeAttributesSliceFromMap b (MergeStringMap [specificAttributes, loadBalancerAttributes]))))"

definition svc_buildLoadBalancerName :: "'w svc_builder \<Rightarrow> Service \<Rightarrow> LoadBalancerScheme \<Rightarrow> string result" where
  "svc_buildLoadBalancerName b svc scheme =
     (case svc_string b svc SvcLBSuffixLoadBalancerName of
        Some name \<Rightarrow>
          if length name > 32 then Inl (Errorf ''load balancer name cannot be longer than 32 characters'' []) else Inr name
      | None \<Rightarrow> Inr (k8s_name svc (sbSha256 b (sbClusterName b @ omUID (svcMeta svc) @ scheme))))"

definition svc_buildLoadBalancerSpec ::
  "'w svc_builder \<Rightarrow> Service \<Rightarrow> LoadBalancerScheme \<Rightarrow> LoadBalancerWithTags option \<Rightarrow> ('w, LoadBalancerSpec) build" where
  "svc_buildLoadBalancerSpec b svc scheme existingLB =
     io_bind (io_lift (buildLoadBalancerIPAddressType b svc)) (\<lambda>ipAddressType.
     io_bind (io_lift (svc_buildLoadBalancerAttributes b svc)) (\<lambda>lbAttributes.
     io_bind (io_lift (buildAdditionalResourceTags b svc)) (\<lambda>tags.
     io_bind (svc_buildLoadBalancerSecurityGroups b svc existingLB ipAddressType tags) (\<lambda>securityGroups.
     io_bind get_task (\<lambda>t.
     io_bind (io_lift (buildLoadBalancerSubnetMappings b svc ipAddressType scheme (tEc2Subnets t))) (\<lambda>subnetMappings.
     io_bind (io_lift (svc_buildLoadBalancerName b svc scheme)) (\<lambda>name.
     io_return \<lparr>lbName = name, lbType = LoadBalancerTypeNetwork, lbScheme = Some scheme, lbIPAddressType = Some ipAddressType,
       lbSubnetMappings = subnetMappings, lbSecurityGroups = securityGroups, lbCustomerOwnedIPv4Pool = None,
       lbLoadBalancerAttributes = lbAttributes, lbTags = tags\<rparr>)))))))"

definition svc_buildLoadBalancer :: "'w svc_builder \<Rightarrow> Service \<Rightarrow> LoadBalancerScheme \<Rightarrow> ('w, unit) build" where
  "svc_buildLoadBalancer b svc scheme =
     io_bind (fetchExistingLoadBalancer b) (\<lambda>existingLB.
     io_bind (svc_buildLoadBalancerSpec b svc scheme existingLB) (\<lambda>spec.
     io_bind (on_model (NewLoadBalancer resourceIDLoadBalancer spec)) (\<lambda>lb.
     modify_task (\<lambda>t. t\<lparr>tLoadBalancer := Some lb\<rparr>))))"

end
