(* ===== verification/Service_Builder.thy ===== *)
theory Service_Builder
  imports Service_LB
begin

text \<open>
  The model builder for services, second part: target groups and target group bindings
  (\<^verbatim>\<open>model_build_target_group.go\<close>), listeners (\<^verbatim>\<open>model_build_listener.go\<close>) and the run of the task
  (\<^verbatim>\<open>model_builder.go\<close>).
\<close>

section \<open>Defaults of the task\<close>

definition healthCheckPortTrafficPort :: string where "healthCheckPortTrafficPort = ''traffic-port''"

definition tgAttrsProxyProtocolV2Enabled :: string where "tgAttrsProxyProtocolV2Enabled = ''proxy_protocol_v2.enabled''"

definition tgAttrsPreserveClientIPEnabled :: string where "tgAttrsPreserveClientIPEnabled = ''preserve_client_ip.enabled''"

text \<open>The two groups of health check defaults: the usual ones, and those of a service whose traffic policy keeps
  traffic on the node, for targets that are instances.\<close>

record hc_defaults =
  hdProtocol :: Protocol
  hdPort :: string
  hdPath :: string
  hdInterval :: int
  hdTimeout :: int
  hdHealthyThreshold :: int
  hdUnhealthyThreshold :: int

definition defaultHealthCheck :: hc_defaults where
  "defaultHealthCheck = \<lparr>hdProtocol = ProtocolTCP, hdPort = healthCheckPortTrafficPort, hdPath = ''/'', hdInterval = 10,
     hdTimeout = 10, hdHealthyThreshold = 3, hdUnhealthyThreshold = 3\<rparr>"

definition defaultHealthCheckForInstanceModeLocal :: "Service \<Rightarrow> hc_defaults" where
  "defaultHealthCheckForInstanceModeLocal svc = \<lparr>hdProtocol = ProtocolHTTP, hdPort = Itoa (svcHealthCheckNodePort svc),
     hdPath = ''/healthz'', hdInterval = 10, hdTimeout = 6, hdHealthyThreshold = 2, hdUnhealthyThreshold = 2\<rparr>"

definition defaultHealthCheckMatcherHTTPCode :: string where "defaultHealthCheckMatcherHTTPCode = ''200-399''"

definition defaultIPv4SourceRanges :: "string list" where "defaultIPv4SourceRanges = [''0.0.0.0/0'']"

definition defaultIPv6SourceRanges :: "string list" where "defaultIPv6SourceRanges = [''::/0'']"

definition defaultProxyProtocolV2Enabled :: bool where "defaultProxyProtocolV2Enabled = False"

section \<open>Health checks\<close>

definition buildTargetGroupHealthCheckPort ::
  "'w svc_builder \<Rightarrow> Service \<Rightarrow> string \<Rightarrow> TargetType \<Rightarrow> IntOrString result" where
  "buildTargetGroupHealthCheckPort b svc defaultHealthCheckPort targetType =
     (let raw = with_default defaultHealthCheckPort (svc_string b svc SvcLBSuffixHCPort) in
      if raw = healthCheckPortTrafficPort then Inr (StrVal raw)
      else case sbIntstrParse b raw of
        IntVal i \<Rightarrow> Inr (IntVal i)
      | StrVal s \<Rightarrow>
          (case LookupServicePort svc (StrVal s) of
             Inl err \<Rightarrow> Inl (Wrap err ''failed to resolve healthCheckPort'')
           | Inr svcPort \<Rightarrow>
               if targetType = TargetTypeInstance then Inr (IntVal (spNodePort svcPort))
               else case spTargetPort svcPort of
                 IntVal i \<Rightarrow> Inr (IntVal i)
               | StrVal _ \<Rightarrow> Inl (Errorf ''cannot use named healthCheckPort for IP TargetType when service's targetPort is a named port'' [])))"

definition buildTargetGroupHealthCheckProtocol :: "'w svc_builder \<Rightarrow> Service \<Rightarrow> Protocol \<Rightarrow> Protocol result" where
  "buildTargetGroupHealthCheckProtocol b svc defaultHealthCheckProtocol =
     (let raw = with_default defaultHealthCheckProtocol (svc_string b svc SvcLBSuffixHCProtocol); p = ToUpper raw in
      if p = ProtocolTCP then Inr ProtocolTCP
      else if p = ProtocolHTTP then Inr ProtocolHTTP
      else if p = ProtocolHTTPS then Inr ProtocolHTTPS
      else Inl (Errorf ''unsupported health check protocol %v'' [raw]))"

definition buildTargetGroupHealthCheckPath :: "'w svc_builder \<Rightarrow> Service \<Rightarrow> string \<Rightarrow> Protocol \<Rightarrow> string option" where
  "buildTargetGroupHealthCheckPath b svc defaultHealthCheckPath hcProt =
     (if hcProt = ProtocolTCP then None
      else Some (with_default defaultHealthCheckPath (svc_string b svc SvcLBSuffixHCPath)))"

definition buildTargetGroupHealthCheckMatcher :: "'w svc_builder \<Rightarrow> Service \<Rightarrow> Protocol \<Rightarrow> HealthCheckMatcher option" where
  "buildTargetGroupHealthCheckMatcher b svc hcProt =
     (if hcProt = ProtocolTCP \<or> \<not> Enabled (sbFeatureGates b) NLBHealthCheckAdvancedConfig then None
      else Some \<lparr>HTTPCode = Some (with_default defaultHealthCheckMatcherHTTPCode (svc_string b svc SvcLBSuffixHCSuccessCodes)),
                 GRPCCode = None\<rparr>)"

definition int64_or :: "'w svc_builder \<Rightarrow> Service \<Rightarrow> string \<Rightarrow> int \<Rightarrow> int result" where
  "int64_or b svc suffix d = result_bind (svc_int64 b svc suffix) (\<lambda>v. Inr (with_default d v))"

definition buildTargetGroupHealthCheckIntervalSeconds :: "'w svc_builder \<Rightarrow> Service \<Rightarrow> int \<Rightarrow> int result" where
  "buildTargetGroupHealthCheckIntervalSeconds b svc d = int64_or b svc SvcLBSuffixHCInterval d"

definition buildTargetGroupHealthCheckTimeoutSeconds :: "'w svc_builder \<Rightarrow> Service \<Rightarrow> int \<Rightarrow> int result" where
  "buildTargetGroupHealthCheckTimeoutSeconds b svc d =
     (if \<not> Enabled (sbFeatureGates b) NLBHealthCheckAdvancedConfig then Inr d else int64_or b svc SvcLBSuffixHCTimeout d)"

definition buildTargetGroupHealthCheckHealthyThresholdCount :: "'w svc_builder \<Rightarrow> Service \<Rightarrow> int \<Rightarrow> int result" where
  "buildTargetGroupHealthCheckHealthyThresholdCount b svc d = int64_or b svc SvcLBSuffixHCHealthyThreshold d"

definition buildTargetGroupHealthCheckUnhealthyThresholdCount :: "'w svc_builder \<Rightarrow> Service \<Rightarrow> int \<Rightarrow> int result" where
  "buildTargetGroupHealthCheckUnhealthyThresholdCount b svc d = int64_or b svc SvcLBSuffixHCUnhealthyThreshold d"

text \<open>The two methods of the source differ in the defaults they read only.\<close>

definition health_check_config ::
  "'w svc_builder \<Rightarrow> Service \<Rightarrow> hc_defaults \<Rightarrow> TargetType \<Rightarrow> TargetGroupHealthCheckConfig result" where
  "health_check_config b svc d targetType =
     result_bind (buildTargetGroupHealthCheckProtocol b svc (hdProtocol d)) (\<lambda>prot.
     result_bind (buildTargetGroupHealthCheckPort b svc (hdPort d) targetType) (\<lambda>port.
     result_bind (buildTargetGroupHealthCheckIntervalSeconds b svc (hdInterval d)) (\<lambda>interval.
     result_bind (buildTargetGroupHealthCheckTimeoutSeconds b svc (hdTimeout d)) (\<lambda>timeout.
     result_bind (buildTargetGroupHealthCheckHealthyThresholdCount b svc (hdHealthyThreshold d)) (\<lambda>healthy.
     result_bind (buildTargetGroupHealthCheckUnhealthyThresholdCount b svc (hdUnhealthyThreshold d)) (\<lambda>unhealthy.
     Inr \<lparr>hcPort = Some port, hcProtocol = Some prot, hcPath = buildTargetGroupHealthCheckPath b svc (hdPath d) prot,
          hcMatcher = buildTargetGroupHealthCheckMatcher b svc prot, hcIntervalSeconds = Some interval,
          hcTimeoutSeconds = Some timeout, hcHealthyThresholdCount = Some healthy,
          hcUnhealthyThresholdCount = Some unhealthy\<rparr>))))))"

definition buildTargetGroupHealthCheckConfigDefault ::
  "'w svc_builder \<Rightarrow> Service \<Rightarrow> TargetType \<Rightarrow> TargetGroupHealthCheckConfig result" where
  "buildTargetGroupHealthCheckConfigDefault b svc = health_check_config b svc defaultHealthCheck"

definition buildTargetGroupHealthCheckConfigForInstanceModeLocal ::
  "'w svc_builder \<Rightarrow> Service \<Rightarrow> TargetType \<Rightarrow> TargetGroupHealthCheckConfig result" where
  "buildTargetGroupHealthCheckConfigForInstanceModeLocal b svc =
     health_check_config b svc (defaultHealthCheckForInstanceModeLocal svc)"

definition buildTargetGroupHealthCheckConfig ::
  "'w svc_builder \<Rightarrow> Service \<Rightarrow> TargetType \<Rightarrow> TargetGroupHealthCheckConfig result" where
  "buildTargetGroupHealthCheckConfig b svc targetType =
     (if targetType = TargetTypeInstance \<and> svcExternalTrafficPolicy svc = ''Local'' \<and> svcType svc = ''LoadBalancer''
      then buildTargetGroupHealthCheckConfigForInstanceModeLocal b svc targetType
      else buildTargetGroupHealthCheckConfigDefault b svc targetType)"

section \<open>Target groups\<close>

definition svc_buildTargetType :: "'w svc_builder \<Rightarrow> Service \<Rightarrow> ServicePort \<Rightarrow> TargetType result" where
  "svc_buildTargetType b svc port =
     (let lbt = with_default [] (svc_string b svc SvcLBSuffixLoadBalancerType);
          lbTargetType = with_default (sbDefaultTargetType b) (svc_string b svc SvcLBSuffixTargetType)
      in if lbTargetType = LoadBalancerTargetTypeIP \<and> \<not> sbEnableIPTargetType b
         then Inl (Errorf ''unsupported targetType: %v when EnableIPTargetType is %v'' [lbTargetType, show_bool (sbEnableIPTargetType b)])
         else if lbt = LoadBalancerTypeNLBIP \<or> lbTargetType = LoadBalancerTargetTypeIP then Inr TargetTypeIP
         else if svcType svc = ''ClusterIP''
         then Inl (Errorf ''unsupported service type \"%v\" for load balancer target type \"%v\"'' [svcType svc, lbTargetType])
         else if spNodePort port = 0 \<and> svcAllocateLoadBalancerNodePorts svc = Some False
         then Inl (Errorf ''unable to support instance target type with an unallocated NodePort'' [])
         else Inr TargetTypeInstance)"

definition parse_preserve :: "string \<Rightarrow> bool result" where
  "parse_preserve v =
     (case strconv_ParseBool v of
        None \<Rightarrow> Inl (Wrap (Errorf ''strconv.ParseBool: parsing %q: invalid syntax'' [v])
                   (''failed to parse attribute '' @ tgAttrsPreserveClientIPEnabled @ ''='' @ v))
      | Some x \<Rightarrow> Inr x)"

definition svc_buildTargetGroupAttributes :: "'w svc_builder \<Rightarrow> Service \<Rightarrow> TargetGroupAttribute list result" where
  "svc_buildTargetGroupAttributes b svc =
     result_bind (svc_map b svc SvcLBSuffixTargetGroupAttributes) (\<lambda>raw.
       let raw = nil_map raw;
           raw = (if map_of raw tgAttrsProxyProtocolV2Enabled = None
                  then AList.update tgAttrsProxyProtocolV2Enabled (show_bool defaultProxyProtocolV2Enabled) raw else raw)
       in result_bind
         (case svc_string b svc SvcLBSuffixProxyProtocol of
            Some proxyV2Annotation \<Rightarrow>
              if proxyV2Annotation \<noteq> ''*''
              then Inl (Errorf ''invalid value %v for Load Balancer proxy protocol v2 annotation, only value currently supported is *'' [proxyV2Annotation])
              else Inr (AList.update tgAttrsProxyProtocolV2Enabled ''true'' raw)
          | None \<Rightarrow> Inr raw) (\<lambda>raw.
         result_bind
           (case map_of raw tgAttrsPreserveClientIPEnabled of
              Some v \<Rightarrow> result_bind (parse_preserve v) (\<lambda>_. Inr ())
            | None \<Rightarrow> Inr ()) (\<lambda>_.
         Inr (sbSliceTG b (\<lambda>i j. tgaKey i < tgaKey j)
           (map (\<lambda>(k, v). \<lparr>tgaKey = k, tgaValue = v\<rparr>) (entries (sbRange b) raw))))))"

definition buildPreserveClientIPFlag :: "TargetType \<Rightarrow> TargetGroupAttribute list \<Rightarrow> bool result" where
  "buildPreserveClientIPFlag targetType tgAttrs =
     (case List.find (\<lambda>attr. tgaKey attr = tgAttrsPreserveClientIPEnabled) tgAttrs of
        Some attr \<Rightarrow> parse_preserve (tgaValue attr)
      | None \<Rightarrow> Inr (targetType = TargetTypeInstance))"

definition svc_buildTargetGroupPort :: "TargetType \<Rightarrow> ServicePort \<Rightarrow> int" where
  "svc_buildTargetGroupPort targetType svcPort =
     (if targetType = TargetTypeInstance then spNodePort svcPort
      else case spTargetPort svcPort of IntVal i \<Rightarrow> i | StrVal _ \<Rightarrow> 1)"

definition svc_buildTargetGroupName ::
  "'w svc_builder \<Rightarrow> Service \<Rightarrow> IntOrString \<Rightarrow> int \<Rightarrow> TargetType \<Rightarrow> Protocol \<Rightarrow> TargetGroupHealthCheckConfig \<Rightarrow> string" where
  "svc_buildTargetGroupName b svc svcPort tgport targetType tgProt hc =
     (let healthCheckProtocol = (case hcProtocol hc of None \<Rightarrow> ProtocolTCP | Some p \<Rightarrow> p);
          healthCheckInterval = (case hcIntervalSeconds hc of None \<Rightarrow> Itoa (hdInterval defaultHealthCheck) | Some i \<Rightarrow> Itoa i)
      in k8s_name svc (sbSha256 b (sbClusterName b @ omUID (svcMeta svc) @ Itoa tgport @ IntOrString_String svcPort @
           targetType @ tgProt @ healthCheckProtocol @ healthCheckInterval)))"

definition svc_buildTargetGroupIPAddressType :: "Service \<Rightarrow> svc_task \<Rightarrow> TargetGroupIPAddressType result" where
  "svc_buildTargetGroupIPAddressType svc t =
     (if list_ex (\<lambda>ipFamily. ipFamily = ''IPv6'') (svcIPFamilies svc) then
        result_bind (task_lb_spec t) (\<lambda>lb.
          if lbIPAddressType lb \<noteq> Some IPAddressTypeDualStack
          then Inl (Errorf ''unsupported IPv6 configuration, lb not dual-stack'' [])
          else Inr TargetGroupIPAddressTypeIPv6)
      else Inr TargetGroupIPAddressTypeIPv4)"

definition svc_buildTargetGroupSpec ::
  "'w svc_builder \<Rightarrow> Service \<Rightarrow> Protocol \<Rightarrow> TargetType \<Rightarrow> ServicePort \<Rightarrow> TargetGroupHealthCheckConfig \<Rightarrow>
     TargetGroupAttribute list \<Rightarrow> svc_task \<Rightarrow> TargetGroupSpec result" where
  "svc_buildTargetGroupSpec b svc tgProt targetType port healthCheckConfig tgAttrs t =
     result_bind (buildAdditionalResourceTags b svc) (\<lambda>tags.
       let targetPort = svc_buildTargetGroupPort targetType port;
           name = svc_buildTargetGroupName b svc (IntVal (spPort port)) targetPort targetType tgProt healthCheckConfig
       in result_bind (svc_buildTargetGroupIPAddressType svc t) (\<lambda>ipAddressType.
         Inr \<lparr>tgName = name, tgTargetType = targetType, tgPort = targetPort, tgProtocol = tgProt, tgProtocolVersion = None,
              tgIPAddressType = Some ipAddressType, tgHealthCheckConfig = Some healthCheckConfig,
              tgTargetGroupAttributes = tgAttrs, tgTags = tags\<rparr>))"

definition svc_buildTargetGroupResourceID :: "NamespacedName \<Rightarrow> IntOrString \<Rightarrow> string" where
  "svc_buildTargetGroupResourceID svcKey port = nnNamespace svcKey @ ''/'' @ nnName svcKey @ '':'' @ IntOrString_String port"

section \<open>Networking of the target group bindings\<close>

definition buildTargetGroupBindingNetworking ::
  "'w svc_builder \<Rightarrow> StringToken option \<Rightarrow> IntOrString \<Rightarrow> IntOrString \<Rightarrow> ServicePort \<Rightarrow> ModelTargetGroupBindingNetworking option" where
  "buildTargetGroupBindingNetworking b backendSGIDToken tgport hcport port =
     (case backendSGIDToken of
        None \<Rightarrow> None
      | Some token \<Rightarrow>
          let net_port = (\<lambda>prot p. \<lparr>nportProtocol = Some prot, nportPort = p\<rparr>);
              ports =
                (if sbDisableRestrictedSGRules b then
                   [net_port NetworkingProtocolTCP None] @
                   (if spProtocol port = ''UDP'' then [net_port NetworkingProtocolUDP None] else [])
                 else
                   (if spProtocol port = ''TCP'' then [net_port NetworkingProtocolTCP (Some tgport)]
                    else if spProtocol port = ''UDP'' then
                      [net_port NetworkingProtocolUDP (Some tgport)] @
                      (if IntOrString_String hcport = healthCheckPortTrafficPort \<or>
                          (is_int hcport \<and> IntValue hcport = IntValue tgport)
                       then [net_port NetworkingProtocolTCP (Some tgport)] else [])
                    else []) @
                   (if IntOrString_String hcport \<noteq> healthCheckPortTrafficPort \<and>
                       (is_int hcport \<and> IntValue hcport \<noteq> IntValue tgport)
                    then [net_port NetworkingProtocolTCP (Some hcport)] else []))
          in Some \<lparr>mtgbnIngress =
               [\<lparr>mnirFrom = [\<lparr>mnpIPBlock = None, mnpSecurityGroup = Some \<lparr>msgGroupID = token\<rparr>\<rparr>], mnirPorts = ports\<rparr>]\<rparr>)"

definition getLoadBalancerSourceRanges :: "'w svc_builder \<Rightarrow> Service \<Rightarrow> string list" where
  "getLoadBalancerSourceRanges b svc =
     (let sourceRanges = svcLoadBalancerSourceRanges svc in
      if sourceRanges = [] then with_default [] (svc_slice b svc SvcLBSuffixSourceRanges) else sourceRanges)"

definition buildPeersFromSourceRangeCIDRs :: "string list \<Rightarrow> ModelNetworkingPeer list" where
  "buildPeersFromSourceRangeCIDRs sourceRanges =
     map (\<lambda>cidr. \<lparr>mnpIPBlock = Some \<lparr>CIDR = cidr\<rparr>, mnpSecurityGroup = None\<rparr>) sourceRanges"

definition getLoadBalancerSubnetsSourceRanges :: "Subnet list \<Rightarrow> TargetGroupIPAddressType \<Rightarrow> string list" where
  "getLoadBalancerSubnetsSourceRanges ec2Subnets targetGroupIPAddressType =
     concat (map (\<lambda>subnet.
       if targetGroupIPAddressType = TargetGroupIPAddressTypeIPv4 then [StringValue (subnetCidrBlock subnet)]
       else map (\<lambda>assoc. StringValue (cbaCidrBlock assoc)) (subnetIpv6CidrBlockAssociationSet subnet)) ec2Subnets)"

definition getDefaultIPSourceRanges ::
  "'w svc_builder \<Rightarrow> bool \<Rightarrow> TargetGroupIPAddressType \<Rightarrow> string \<Rightarrow> LoadBalancerScheme \<Rightarrow> ('w, string list) io" where
  "getDefaultIPSourceRanges b preserveClientIP targetGroupIPAddressType protocol scheme =
     (let defaultSourceRanges = (if targetGroupIPAddressType = TargetGroupIPAddressTypeIPv6
            then defaultIPv6SourceRanges else defaultIPv4SourceRanges)
      in if (protocol = ''UDP'' \<or> preserveClientIP) \<and> scheme = LoadBalancerSchemeInternal then
           io_bind (FetchVPCInfo (sbVpcInfoProvider b) (sbVpcID b) [FetchVPCInfoWithoutCache]) (\<lambda>vpcInfo.
             io_return (if targetGroupIPAddressType = TargetGroupIPAddressTypeIPv4
               then AssociatedIPv4CIDRs vpcInfo else AssociatedIPv6CIDRs vpcInfo))
         else io_return defaultSourceRanges)"

definition buildHealthCheckSourceCIDRs ::
  "bool \<Rightarrow> string list \<Rightarrow> string list \<Rightarrow> IntOrString \<Rightarrow> IntOrString \<Rightarrow> string \<Rightarrow> bool \<Rightarrow> string list" where
  "buildHealthCheckSourceCIDRs preserveClientIP trafficSource subnetCIDRs tgport hcport tgProt defaultRangeUsed =
     (if tgProt \<noteq> ''UDP'' \<and> (IntOrString_String hcport = healthCheckPortTrafficPort \<or> IntValue hcport = IntValue tgport) \<and>
         (\<not> preserveClientIP \<or> defaultRangeUsed \<or> list_ex (\<lambda>src. src = ''0.0.0.0/0'' \<or> src = ''::/0'') trafficSource)
      then [] else subnetCIDRs)"

definition buildManageSecurityGroupRulesFlagLegacy :: "'w svc_builder \<Rightarrow> Service \<Rightarrow> bool result" where
  "buildManageSecurityGroupRulesFlagLegacy b svc =
     result_bind (svc_bool b svc SvcLBSuffixManageSGRules) (\<lambda>rawEnabled. Inr (with_default True rawEnabled))"

definition ingress_rule :: "string list \<Rightarrow> IntOrString \<Rightarrow> NetworkingProtocol \<Rightarrow> ModelNetworkingIngressRule" where
  "ingress_rule cidrs port prot =
     \<lparr>mnirFrom = buildPeersFromSourceRangeCIDRs cidrs, mnirPorts = [\<lparr>nportProtocol = Some prot, nportPort = Some port\<rparr>]\<rparr>"

text \<open>The sources of traffic and whether they are the default ones.\<close>

definition traffic_sources ::
  "'w svc_builder \<Rightarrow> Service \<Rightarrow> svc_task \<Rightarrow> ServicePort \<Rightarrow> LoadBalancerScheme \<Rightarrow> TargetGroupIPAddressType \<Rightarrow> ('w, string list \<times> bool) io" where
  "traffic_sources b svc t port scheme ipType =
     (if spProtocol port = ''UDP'' \<or> tPreserveClientIP t then
        let ranges = getLoadBalancerSourceRanges b svc in
        if ranges = [] then
          io_bind (getDefaultIPSourceRanges b (tPreserveClientIP t) ipType (spProtocol port) scheme) (\<lambda>ranges. io_return (ranges, True))
        else io_return (ranges, False)
      else io_return (getLoadBalancerSubnetsSourceRanges (tEc2Subnets t) ipType, False))"

definition buildTargetGroupBindingNetworkingLegacy ::
  "'w svc_builder \<Rightarrow> Service \<Rightarrow> svc_task \<Rightarrow> IntOrString \<Rightarrow> IntOrString \<Rightarrow> ServicePort \<Rightarrow> LoadBalancerScheme \<Rightarrow>
     TargetGroupIPAddressType \<Rightarrow> ('w, ModelTargetGroupBindingNetworking option) io" where
  "buildTargetGroupBindingNetworkingLegacy b svc t tgport hcport port scheme ipType =
     io_bind (io_lift (buildManageSecurityGroupRulesFlagLegacy b svc)) (\<lambda>manageBackendSGRules.
       if \<not> manageBackendSGRules then io_return None
       else
         let networkingProtocol = (if spProtocol port = ''UDP'' then NetworkingProtocolUDP else NetworkingProtocolTCP);
             subnetCIDRs = getLoadBalancerSubnetsSourceRanges (tEc2Subnets t) ipType
         in io_bind (traffic_sources b svc t port scheme ipType) (\<lambda>(trafficSource, defaultRangeUsed).
           let hcCIDRs = buildHealthCheckSourceCIDRs (tPreserveClientIP t) trafficSource subnetCIDRs tgport hcport
                 (spProtocol port) defaultRangeUsed;
               networkingHealthCheckPort = (if IntOrString_String hcport = healthCheckPortTrafficPort then tgport else hcport)
           in io_return (Some \<lparr>mtgbnIngress = ingress_rule trafficSource tgport networkingProtocol #
                (if hcCIDRs \<noteq> [] then [ingress_rule hcCIDRs networkingHealthCheckPort NetworkingProtocolTCP] else [])\<rparr>)))"

section \<open>Target group bindings\<close>

definition buildTargetGroupBindingNodeSelector :: "'w svc_builder \<Rightarrow> Service \<Rightarrow> TargetType \<Rightarrow> LabelSelector option result" where
  "buildTargetGroupBindingNodeSelector b svc targetType =
     (if targetType \<noteq> TargetTypeInstance then Inr None
      else result_bind (svc_map b svc SvcLBSuffixTargetNodeLabels) (\<lambda>targetNodeLabels.
        if nil_map targetNodeLabels = [] then Inr None
        else Inr (Some \<lparr>matchLabels = nil_map targetNodeLabels, matchExpressions = []\<rparr>)))"

definition svc_buildTargetGroupBindingSpec ::
  "'w svc_builder \<Rightarrow> Service \<Rightarrow> ref \<Rightarrow> TargetGroupSpec \<Rightarrow> ServicePort \<Rightarrow> TargetGroupHealthCheckConfig \<Rightarrow> LoadBalancerScheme \<Rightarrow>
     ('w, TargetGroupBindingResourceSpec) build" where
  "svc_buildTargetGroupBindingSpec b svc targetGroup tgSpec port hc scheme =
     io_bind (io_lift (buildTargetGroupBindingNodeSelector b svc (tgTargetType tgSpec))) (\<lambda>nodeSelector.
     io_bind get_task (\<lambda>t.
       let targetType = tgTargetType tgSpec;
           targetPort = (if targetType = TargetTypeInstance then IntVal (spNodePort port) else spTargetPort port);
           hcport = (case hcPort hc of Some p \<Rightarrow> p | None \<Rightarrow> IntVal 0);
           ipType = (case tgIPAddressType tgSpec of Some i \<Rightarrow> i | None \<Rightarrow> [])
       in io_bind (io_lift (task_lb_spec t)) (\<lambda>lb.
          io_bind (if lbSecurityGroups lb = []
                   then in_world (buildTargetGroupBindingNetworkingLegacy b svc t targetPort hcport port scheme ipType)
                   else io_return (buildTargetGroupBindingNetworking b (tBackendSGIDToken t) targetPort hcport port)) (\<lambda>networking.
          io_return \<lparr>tgbrTemplate = \<lparr>
            tgbtMeta = \<lparr>omNamespace = omNamespace (svcMeta svc), omName = tgName tgSpec, omUID = [], omLabels = [],
              omAnnotations = [], omFinalizers = [], omGeneration = 0, omDeletionTimestamp = None\<rparr>,
            tgbtSpec = \<lparr>mtgbTargetGroupARN = TargetGroupARN_token targetGroup, mtgbTargetType = Some targetType,
              mtgbServiceRef = \<lparr>srName = omName (svcMeta svc), srPort = IntVal (spPort port)\<rparr>,
              mtgbNetworking = networking, mtgbNodeSelector = nodeSelector, mtgbIPAddressType = tgIPAddressType tgSpec\<rparr>\<rparr>\<rparr>))))"

definition svc_buildTargetGroupBinding ::
  "'w svc_builder \<Rightarrow> Service \<Rightarrow> ref \<Rightarrow> string \<Rightarrow> TargetGroupSpec \<Rightarrow> ServicePort \<Rightarrow> TargetGroupHealthCheckConfig \<Rightarrow> LoadBalancerScheme \<Rightarrow>
     ('w, ref) build" where
  "svc_buildTargetGroupBinding b svc targetGroup tgID tgSpec port hc scheme =
     io_bind (svc_buildTargetGroupBindingSpec b svc targetGroup tgSpec port hc scheme) (\<lambda>tgbSpec.
       on_model (NewTargetGroupBindingResource tgID tgbSpec))"

text \<open>The steps for a target group that does not exist yet.\<close>

definition new_target_group ::
  "'w svc_builder \<Rightarrow> Service \<Rightarrow> ServicePort \<Rightarrow> Protocol \<Rightarrow> LoadBalancerScheme \<Rightarrow> string \<Rightarrow> ('w, ref) build" where
  "new_target_group b svc port tgProt scheme tgResourceID =
     io_bind (io_lift (svc_buildTargetType b svc port)) (\<lambda>targetType.
     io_bind (io_lift (buildTargetGroupHealthCheckConfig b svc targetType)) (\<lambda>healthCheckConfig.
     io_bind (io_lift (svc_buildTargetGroupAttributes b svc)) (\<lambda>tgAttrs.
     io_bind (io_lift (buildPreserveClientIPFlag targetType tgAttrs)) (\<lambda>preserveClientIP.
     io_bind (modify_task (\<lambda>t. t\<lparr>tPreserveClientIP := preserveClientIP\<rparr>)) (\<lambda>_.
     io_bind get_task (\<lambda>t.
     io_bind (io_lift (svc_buildTargetGroupSpec b svc tgProt targetType port healthCheckConfig tgAttrs t)) (\<lambda>tgSpec.
     io_bind (on_model (NewTargetGroup tgResourceID tgSpec)) (\<lambda>targetGroup.
     io_bind (svc_buildTargetGroupBinding b svc targetGroup tgResourceID tgSpec port healthCheckConfig scheme) (\<lambda>_.
     io_bind (modify_task (\<lambda>t. t\<lparr>tTgByResID := AList.update tgResourceID targetGroup (tTgByResID t)\<rparr>)) (\<lambda>_.
     io_return targetGroup))))))))))"

definition svc_buildTargetGroup ::
  "'w svc_builder \<Rightarrow> Service \<Rightarrow> ServicePort \<Rightarrow> Protocol \<Rightarrow> LoadBalancerScheme \<Rightarrow> ('w, ref) build" where
  "svc_buildTargetGroup b svc port tgProt scheme =
     (let tgResourceID = svc_buildTargetGroupResourceID (NamespacedName_of (svcMeta svc)) (IntVal (spPort port)) in
      io_bind get_task (\<lambda>t.
        case map_of (tTgByResID t) tgResourceID of
          Some targetGroup \<Rightarrow> io_return targetGroup
        | None \<Rightarrow> new_target_group b svc port tgProt scheme tgResourceID))"

section \<open>Listeners\<close>

record listenerConfig =
  lcCertificates :: "Certificate list"
  lcTlsPortsSet :: "string list"
  lcSslPolicy :: "string option"
  lcBackendProtocol :: string

definition buildListenerCertificates :: "'w svc_builder \<Rightarrow> Service \<Rightarrow> Certificate list" where
  "buildListenerCertificates b svc =
     map (\<lambda>cert. \<lparr>CertificateARN = Some cert\<rparr>) (with_default [] (svc_slice b svc SvcLBSuffixSSLCertificate))"

definition validateTLSPortsSet :: "string list \<Rightarrow> ServicePort list \<Rightarrow> unit result" where
  "validateTLSPortsSet rawTLSPorts ports =
     (let unusedPorts = filter (\<lambda>tlsPort. \<not> list_ex (\<lambda>p. spName p = tlsPort \<or> Itoa (spPort p) = tlsPort) ports) rawTLSPorts in
      if unusedPorts \<noteq> [] then Inl (Errorf ''Unused port in ssl-ports annotation %v'' unusedPorts) else Inr ())"

definition buildTLSPortsSet :: "'w svc_builder \<Rightarrow> Service \<Rightarrow> string list result" where
  "buildTLSPortsSet b svc =
     (let rawTLSPorts = with_default [] (svc_slice b svc SvcLBSuffixSSLPorts) in
      result_bind (validateTLSPortsSet rawTLSPorts (svcPorts svc)) (\<lambda>_. Inr rawTLSPorts))"

definition buildBackendProtocol :: "'w svc_builder \<Rightarrow> Service \<Rightarrow> string" where
  "buildBackendProtocol b svc = with_default [] (svc_string b svc SvcLBSuffixBEProtocol)"

definition buildSSLNegotiationPolicy :: "'w svc_builder \<Rightarrow> Service \<Rightarrow> string option" where
  "buildSSLNegotiationPolicy b svc = Some (with_default (sbDefaultSSLPolicy b) (svc_string b svc SvcLBSuffixSSLNegotiationPolicy))"

definition ALPNPolicies :: "string list" where
  "ALPNPolicies = [''None'', ''HTTP1Only'', ''HTTP2Only'', ''HTTP2Optional'', ''HTTP2Preferred'']"

definition buildListenerALPNPolicy :: "'w svc_builder \<Rightarrow> Service \<Rightarrow> Protocol \<Rightarrow> string list result" where
  "buildListenerALPNPolicy b svc listenerProtocol =
     (if listenerProtocol \<noteq> ProtocolTLS then Inr []
      else case svc_string b svc SvcLBSuffixALPNPolicy of
        None \<Rightarrow> Inr []
      | Some raw \<Rightarrow>
          if raw \<in> set ALPNPolicies then Inr [raw]
          else Inl (Errorf ''invalid ALPN policy %v, policy must be one of [%v, %v, %v, %v, %v]'' (raw # ALPNPolicies)))"

definition buildListenerConfig :: "'w svc_builder \<Rightarrow> Service \<Rightarrow> listenerConfig result" where
  "buildListenerConfig b svc =
     result_bind (buildTLSPortsSet b svc) (\<lambda>tlsPortsSet.
       Inr \<lparr>lcCertificates = buildListenerCertificates b svc, lcTlsPortsSet = tlsPortsSet,
            lcSslPolicy = buildSSLNegotiationPolicy b svc, lcBackendProtocol = buildBackendProtocol b svc\<rparr>)"

text \<open>The protocols of the listener and of its target group.\<close>

definition listener_protocols :: "ServicePort \<Rightarrow> listenerConfig \<Rightarrow> Protocol \<times> Protocol" where
  "listener_protocols port cfg =
     (if spProtocol port \<noteq> ProtocolUDP \<and> lcCertificates cfg \<noteq> [] \<and>
         (lcTlsPortsSet cfg = [] \<or> spName port \<in> set (lcTlsPortsSet cfg) \<or> Itoa (spPort port) \<in> set (lcTlsPortsSet cfg))
      then (ProtocolTLS, if lcBackendProtocol cfg = ''ssl'' then ProtocolTLS else spProtocol port)
      else (spProtocol port, spProtocol port))"

definition buildListenerDefaultActions :: "ref \<Rightarrow> Action list" where
  "buildListenerDefaultActions targetGroup =
     [\<lparr>actType = ActionTypeForward, actAuthenticateCognitoConfig = None, actAuthenticateOIDCConfig = None,
       actFixedResponseConfig = None, actRedirectConfig = None,
       actForwardConfig = Some \<lparr>fwTargetGroups = [\<lparr>tgtTargetGroupARN = TargetGroupARN_token targetGroup, tgtWeight = None\<rparr>],
         fwTargetGroupStickinessConfig = None\<rparr>\<rparr>]"

definition svc_buildListenerSpec ::
  "'w svc_builder \<Rightarrow> Service \<Rightarrow> ServicePort \<Rightarrow> listenerConfig \<Rightarrow> LoadBalancerScheme \<Rightarrow> ('w, ListenerSpec) build" where
  "svc_buildListenerSpec b svc port cfg scheme =
     (let (listenerProtocol, tgProt) = listener_protocols port cfg in
      io_bind (io_lift (buildAdditionalResourceTags b svc)) (\<lambda>tags.
      io_bind (svc_buildTargetGroup b svc port tgProt scheme) (\<lambda>targetGroup.
      io_bind (io_lift (buildListenerALPNPolicy b svc listenerProtocol)) (\<lambda>alpnPolicy.
      io_bind get_task (\<lambda>t.
        case tLoadBalancer t of
          None \<Rightarrow> io_fail (Errorf ''invalid memory address or nil pointer dereference'' [])
        | Some lb \<Rightarrow>
            io_return \<lparr>lsLoadBalancerARN = LoadBalancerARN_token lb, lsPort = spPort port, lsProtocol = listenerProtocol,
              lsDefaultActions = buildListenerDefaultActions targetGroup,
              lsCertificates = (if listenerProtocol = ProtocolTLS then lcCertificates cfg else []),
              lsSSLPolicy = (if listenerProtocol = ProtocolTLS then lcSslPolicy cfg else None),
              lsALPNPolicy = alpnPolicy, lsTags = tags\<rparr>)))))"

definition svc_buildListener ::
  "'w svc_builder \<Rightarrow> Service \<Rightarrow> listenerConfig \<Rightarrow> LoadBalancerScheme \<Rightarrow> ServicePort \<Rightarrow> ('w, unit) build" where
  "svc_buildListener b svc cfg scheme port =
     io_bind (svc_buildListenerSpec b svc port cfg scheme) (\<lambda>lsSpec.
     io_bind (on_model (NewListener (Itoa (spPort port)) lsSpec)) (\<lambda>_. io_return ()))"

definition svc_buildListeners :: "'w svc_builder \<Rightarrow> Service \<Rightarrow> LoadBalancerScheme \<Rightarrow> ('w, unit) build" where
  "svc_buildListeners b svc scheme =
     io_bind (io_lift (buildListenerConfig b svc)) (\<lambda>cfg. io_forM (svc_buildListener b svc cfg scheme) (svcPorts svc))"

section \<open>The run of the task\<close>

definition getDeletionProtectionViaAnnotation :: "'w svc_builder \<Rightarrow> Service \<Rightarrow> bool result" where
  "getDeletionProtectionViaAnnotation b svc =
     result_bind (svc_map b svc SvcLBSuffixLoadBalancerAttributes) (\<lambda>lbAttributes.
       case map_of (nil_map lbAttributes) lbAttrsDeletionProtection of
         Some v \<Rightarrow> (case strconv_ParseBool v of
            None \<Rightarrow> Inl (Errorf ''strconv.ParseBool: parsing %q: invalid syntax'' [v])
          | Some deletionProtectionEnabled \<Rightarrow> Inr deletionProtectionEnabled)
       | None \<Rightarrow> Inr False)"

definition svc_buildModel :: "'w svc_builder \<Rightarrow> Service \<Rightarrow> ('w, unit) build" where
  "svc_buildModel b svc =
     io_bind (buildLoadBalancerScheme b svc) (\<lambda>scheme.
     io_bind (buildLoadBalancerSubnets b svc scheme) (\<lambda>subnets.
     io_bind (modify_task (\<lambda>t. t\<lparr>tEc2Subnets := subnets\<rparr>)) (\<lambda>_.
     io_bind (svc_buildLoadBalancer b svc scheme) (\<lambda>_.
     svc_buildListeners b svc scheme))))"

definition svc_run :: "'w svc_builder \<Rightarrow> Service \<Rightarrow> ('w, unit) build" where
  "svc_run b svc =
     (if \<not> IsServiceSupported b svc then
        (if IsServicePendingFinalization b svc then
           io_bind (io_lift (getDeletionProtectionViaAnnotation b svc)) (\<lambda>deletionProtectionEnabled.
             if deletionProtectionEnabled
             then io_fail (Errorf ''deletion_protection is enabled, cannot delete the service: %v'' [omName (svcMeta svc)])
             else io_return ())
         else io_return ())
      else svc_buildModel b svc)"

definition svc_stack_id :: "Service \<Rightarrow> StackID" where
  "svc_stack_id svc = \<lparr>sidNamespace = omNamespace (svcMeta svc), sidName = omName (svcMeta svc)\<rparr>"

definition svc_new_task :: "Service \<Rightarrow> svc_task" where
  "svc_new_task svc = \<lparr>tModel = init_state (svc_stack_id svc), tLoadBalancer = None, tTgByResID = [],
     tBackendSGIDToken = None, tBackendSGAllocated = False, tEc2Subnets = [], tPreserveClientIP = False, tFetchedOnce = False,
     tExistingLoadBalancer = None\<rparr>"

definition svc_Build :: "'w svc_builder \<Rightarrow> Service \<Rightarrow> ('w, model_state \<times> ref option \<times> bool) io" where
  "svc_Build b svc w =
     (case svc_run b svc (w, svc_new_task svc) of
        (Inl err, (w', _)) \<Rightarrow> (Inl err, w')
      | (Inr _, (w', t)) \<Rightarrow> (Inr (tModel t, tLoadBalancer t, tBackendSGAllocated t), w'))"

end
