(* ===== verification/Service_Correct.thy ===== *)
theory Service_Correct
  imports Service_Builder Effects
begin

text \<open>
  What the model builder for services builds: which resources a stack has and how they refer to
  each other, that the stack is one the deployer handles, and what the networking rules of the target
  group bindings let through.
\<close>

section \<open>Parts that do not touch the stack\<close>

lemma fetchExisting_same [keeps]: "keeps same_model (fetchExistingLoadBalancer b)"
  by (auto simp: keeps_def fetchExistingLoadBalancer_def same_model_def Let_def split: prod.splits sum.splits if_splits)

lemma scheme_same: "keeps same_model (buildLoadBalancerScheme b svc)"
  unfolding buildLoadBalancerScheme_def Let_def by (intro keeps sm.bind sm.pure)

lemma subnets_same: "keeps same_model (buildLoadBalancerSubnets b svc scheme)"
  unfolding buildLoadBalancerSubnets_def Let_def by (intro keeps sm.bind sm.pure)

lemma binding_spec_same: "keeps same_model (svc_buildTargetGroupBindingSpec b svc tg tgSpec port hc scheme)"
  unfolding svc_buildTargetGroupBindingSpec_def Let_def by (intro keeps sm.bind sm.pure)

section \<open>The load balancer\<close>

text \<open>The heap before the listeners: at most the managed security group, then the load balancer.\<close>

lemma allocate_tokens:
  assumes "allocate_backend_sg b svc tags toks wt = (Inr toks', wt')"
  shows "same_model wt wt' \<and> set toks' \<subseteq> set toks \<union> range LiteralStringToken"
proof -
  have "keeps same_model (allocate_backend_sg b svc tags toks)"
    unfolding allocate_backend_sg_def Let_def by (intro keeps sm.bind sm.pure) simp
  from keepsD [OF this assms] show ?thesis
    using assms by (auto simp: allocate_backend_sg_def Let_def io_return_def dest!: io_bind_InrD)
qed

definition managed_groups :: "'w svc_builder \<Rightarrow> Service \<Rightarrow> IPAddressType \<Rightarrow> string_map \<Rightarrow> ('w, StringToken list) build" where
  "managed_groups b svc ipt tags = io_bind (buildManagedSecurityGroup b svc ipt) (\<lambda>managedSG.
      if \<not> sbEnableBackendSG b then
        io_bind (modify_task (\<lambda>t. t\<lparr>tBackendSGIDToken := Some (GroupID_token managedSG)\<rparr>)) (\<lambda>_. io_return [GroupID_token managedSG])
      else allocate_backend_sg b svc tags [GroupID_token managedSG])"

definition named_groups :: "'w svc_builder \<Rightarrow> Service \<Rightarrow> string list \<Rightarrow> string_map \<Rightarrow> ('w, StringToken list) build" where
  "named_groups b svc names tags = io_bind (io_lift (svc_buildManageSecurityGroupRulesFlag b svc)) (\<lambda>manage.
      io_bind (in_world (ResolveViaNameOrID (sbSgResolver b) names)) (\<lambda>ids.
        if manage then (if \<not> sbEnableBackendSG b
          then io_fail (Errorf ''backendSG feature is required to manage worker node SG rules when frontendSG is manually specified'' [])
          else allocate_backend_sg b svc tags (map LiteralStringToken ids)) else io_return (map LiteralStringToken ids)))"

lemma security_groups_cases:
  "svc_buildLoadBalancerSecurityGroups b svc existingLB ipt tags wt = (Inr toks, wt') \<Longrightarrow>
     (toks = [] \<and> wt' = wt) \<or> managed_groups b svc ipt tags wt = (Inr toks, wt') \<or>
     (\<exists>names. named_groups b svc names tags wt = (Inr toks, wt'))"
  unfolding svc_buildLoadBalancerSecurityGroups_def Let_def managed_groups_def [symmetric] named_groups_def [symmetric]
  by (auto simp: io_return_def io_fail_def split: if_splits)

lemma managed_groups_done:
  assumes run: "managed_groups b svc ipt tags wt = (Inr toks, wt')"
    and b: "stack_built sid (tModel (snd wt))" and empty: "heap (tModel (snd wt)) = []"
  shows "sgs_done sid wt wt' toks"
proof -
  from io_bind_InrD [OF run [unfolded managed_groups_def]]
  obtain sg wt1 where sg: "buildManagedSecurityGroup b svc ipt wt = (Inr sg, wt1)"
    and rest: "(if \<not> sbEnableBackendSG b then
      io_bind (modify_task (\<lambda>t. t\<lparr>tBackendSGIDToken := Some (GroupID_token sg)\<rparr>)) (\<lambda>_. io_return [GroupID_token sg])
    else allocate_backend_sg b svc tags [GroupID_token sg]) wt1 = (Inr toks, wt')" by (elim exE conjE)
  from sg obtain spec where new: "on_model (NewSecurityGroup ''ManagedLBSecurityGroup'' spec) wt = (Inr sg, wt1)"
    unfolding buildManagedSecurityGroup_def resourceIDManagedSecurityGroup_def
    by (auto simp: io_lift_def dest!: io_bind_InrD)
  have n: "sgs_done sid wt wt1 [GroupID_token sg]" by (rule managed_sg_added [OF new b empty])
  show ?thesis
  proof (cases "sbEnableBackendSG b")
    case True
    then have "allocate_backend_sg b svc tags [GroupID_token sg] wt1 = (Inr toks, wt')" using rest by simp
    from allocate_tokens [OF this] show ?thesis by (intro sgs_done_more [OF n]) simp_all
  next
    case False
    then show ?thesis using rest by (intro sgs_done_more [OF n]) (auto simp: io_simps modify_task_def same_model_def)
  qed
qed

lemma named_groups_done:
  assumes run: "named_groups b svc names tags wt = (Inr toks, wt')"
  shows "same_model wt wt' \<and> tokens_bound toks (tModel (snd wt'))"
proof -
  define k where "k = (\<lambda>manage ids. if manage then (if \<not> sbEnableBackendSG b
      then io_fail (Errorf ''backendSG feature is required to manage worker node SG rules when frontendSG is manually specified'' [])
      else allocate_backend_sg b svc tags (map LiteralStringToken ids)) else io_return (map LiteralStringToken ids))"
  from io_bind_same [OF sm.pure(3) run [unfolded named_groups_def]] obtain manage wt1 where 1: "same_model wt wt1"
    and m1: "io_bind (in_world (ResolveViaNameOrID (sbSgResolver b) names)) (k manage) wt1 = (Inr toks, wt')"
    unfolding k_def by (elim exE conjE)
  from io_bind_same [OF in_world_same m1] obtain ids wt2 where 2: "same_model wt1 wt2" and m2: "k manage ids wt2 = (Inr toks, wt')"
    by (elim exE conjE)
  have "same_model wt2 wt' \<and> tokens_bound toks (tModel (snd wt'))"
    using m2 allocate_tokens [of b svc tags "map LiteralStringToken ids" wt2 toks wt']
    by (cases manage; cases "sbEnableBackendSG b")
      (fastforce simp: k_def io_fail_def io_return_def sm.R_refl tokens_bound_literals tokens_bound_def)+
  then show ?thesis using 1 2 sm.R_trans by blast
qed

lemma security_groups_built:
  assumes run: "svc_buildLoadBalancerSecurityGroups b svc existingLB ipt tags wt = (Inr toks, wt')"
    and b: "stack_built sid (tModel (snd wt))" "heap (tModel (snd wt)) = []"
  shows "sgs_done sid wt wt' toks"
  using security_groups_cases [OF run]
proof (elim disjE exE)
  assume "toks = [] \<and> wt' = wt"
  then show ?thesis using b by (simp add: sgs_done_def tokens_bound_def)
qed (use managed_groups_done [OF _ b] sgs_done_same [OF b] named_groups_done in blast)+

text \<open>The stack after the load balancer is built: at most the managed security group, then the load balancer.\<close>

definition lb_built :: "Service \<Rightarrow> LoadBalancerScheme \<Rightarrow> Resource list \<Rightarrow> svc_task \<Rightarrow> bool" where
  "lb_built svc scheme pre t \<longleftrightarrow>
     (\<exists>sgs spec. pre = sgs @ [LoadBalancer \<lparr>resType = ''AWS::ElasticLoadBalancingV2::LoadBalancer'', resID = ''LoadBalancer''\<rparr> spec None] \<and>
        length sgs \<le> 1 \<and> (\<forall>sg\<in>set sgs. managed_sg sg) \<and> lbScheme spec = Some scheme \<and> lbType spec = ''network'' \<and>
        tLoadBalancer t = Some (length sgs)) \<and>
     stack_built (svc_stack_id svc) (tModel t)"

lemma lb_spec_built:
  assumes run: "svc_buildLoadBalancerSpec b svc scheme existingLB wt = (Inr spec, wt')"
    and b: "stack_built sid (tModel (snd wt))" "heap (tModel (snd wt)) = []"
  shows "sgs_done sid wt wt' (lbSecurityGroups spec) \<and> lbScheme spec = Some scheme \<and> lbType spec = ''network''"
proof -
  from run obtain ipt tags toks wt1 where
    sg: "svc_buildLoadBalancerSecurityGroups b svc existingLB ipt tags wt = (Inr toks, wt1)"
    and eq: "wt' = wt1 \<and> lbSecurityGroups spec = toks \<and> lbScheme spec = Some scheme \<and> lbType spec = ''network''"
    unfolding svc_buildLoadBalancerSpec_def by (auto simp: io_lift_def get_task_def io_return_def dest!: io_bind_InrD)
  then show ?thesis using security_groups_built [OF sg b] by simp
qed

lemma lb_built_run:
  assumes run: "svc_buildLoadBalancer b svc scheme wt = (Inr (), wt')"
    and b: "stack_built (svc_stack_id svc) (tModel (snd wt))" "heap (tModel (snd wt)) = []"
  shows "\<exists>pre. lb_built svc scheme pre (snd wt') \<and> heap (tModel (snd wt')) = pre \<and> tTgByResID (snd wt') = tTgByResID (snd wt)"
proof -
  from io_bind_same [OF fetchExisting_same run [unfolded svc_buildLoadBalancer_def]] obtain existingLB wt1 where
    s1: "same_model wt wt1" and k1: "io_bind (svc_buildLoadBalancerSpec b svc scheme existingLB) (\<lambda>spec.
      io_bind (on_model (NewLoadBalancer resourceIDLoadBalancer spec)) (\<lambda>lb.
      modify_task (\<lambda>t. t\<lparr>tLoadBalancer := Some lb\<rparr>))) wt1 = (Inr (), wt')" by (elim exE conjE)
  from io_bind_InrD [OF k1] obtain spec wt2 where spec: "svc_buildLoadBalancerSpec b svc scheme existingLB wt1 = (Inr spec, wt2)"
    and k2: "io_bind (on_model (NewLoadBalancer resourceIDLoadBalancer spec)) (\<lambda>lb.
      modify_task (\<lambda>t. t\<lparr>tLoadBalancer := Some lb\<rparr>)) wt2 = (Inr (), wt')" by (elim exE conjE)
  have b1: "stack_built (svc_stack_id svc) (tModel (snd wt1))" "heap (tModel (snd wt1)) = []"
    using b s1 by (simp_all add: same_model_def)
  note S = lb_spec_built [OF spec b1]
  let ?h2 = "heap (tModel (snd wt2))" and ?res = "LoadBalancer lb_meta spec None"
  from io_bind_InrD [OF k2] obtain lb wt3 where new: "on_model (NewLoadBalancer ''LoadBalancer'' spec) wt2 = (Inr lb, wt3)"
    and k3: "modify_task (\<lambda>t. t\<lparr>tLoadBalancer := Some lb\<rparr>) wt3 = (Inr (), wt')"
    unfolding resourceIDLoadBalancer_def by (elim exE conjE)
  note n = lb_added [OF S [THEN conjunct1] new]
  have t': "snd wt' = (snd wt3)\<lparr>tLoadBalancer := Some lb\<rparr>" using k3 by (auto simp: modify_task_def)
  have "lb_built svc scheme (?h2 @ [?res]) (snd wt')"
    unfolding lb_built_def using n S t' by (auto simp: sgs_done_def)
  then show ?thesis using n t' s1 by (intro exI [of _ "?h2 @ [?res]"]) (simp add: same_model_def)
qed

section \<open>The resources of a port\<close>

definition tg_res_id :: "Service \<Rightarrow> ServicePort \<Rightarrow> string" where
  "tg_res_id svc p = omNamespace (svcMeta svc) @ ''/'' @ omName (svcMeta svc) @ '':'' @ Itoa (spPort p)"

text \<open>The binding of a target group: to the target group by reference, to the port of the service by number.\<close>

definition binds :: "Service \<Rightarrow> nat \<Rightarrow> ServicePort \<Rightarrow> TargetGroupSpec \<Rightarrow> TargetGroupBindingResourceSpec \<Rightarrow> bool" where
  "binds svc i p tg tgb \<longleftrightarrow>
     (let spec = tgbtSpec (tgbrTemplate tgb) in
      mtgbTargetGroupARN spec = ResourceFieldStringToken i ''status/targetGroupARN'' \<and>
      mtgbServiceRef spec = \<lparr>srName = omName (svcMeta svc), srPort = IntVal (spPort p)\<rparr> \<and>
      mtgbTargetType spec = Some (tgTargetType tg) \<and> tgTargetType tg \<in> {''instance'', ''ip''})"

definition forwards_to :: "nat \<Rightarrow> ListenerSpec \<Rightarrow> bool" where
  "forwards_to i ls \<longleftrightarrow> (\<exists>a f. lsDefaultActions ls = [a] \<and> actType a = ''forward'' \<and> actForwardConfig a = Some f \<and>
     map tgtTargetGroupARN (fwTargetGroups f) = [ResourceFieldStringToken i ''status/targetGroupARN''])"

definition port_chunk :: "Service \<Rightarrow> ref \<Rightarrow> nat \<Rightarrow> ServicePort \<Rightarrow> Resource list \<Rightarrow> bool" where
  "port_chunk svc lb i p ch \<longleftrightarrow>
     (\<exists>tg tgb ls. ch = [TargetGroup (tg_meta (tg_res_id svc p)) tg None, TargetGroupBindingResource (tgb_meta (tg_res_id svc p)) tgb None,
          Listener (ls_meta (Itoa (spPort p))) ls None] \<and>
        binds svc i p tg tgb \<and> forwards_to i ls \<and> lsPort ls = spPort p \<and>
        lsLoadBalancerARN ls = ResourceFieldStringToken lb ''status/loadBalancerARN'')"

lemma binding_spec_binds:
  assumes "svc_buildTargetGroupBindingSpec b svc i tg p hc scheme wt = (Inr tgb, wt')" "tgTargetType tg \<in> {''instance'', ''ip''}"
  shows "binds svc i p tg tgb"
  using assms
  by (auto simp: svc_buildTargetGroupBindingSpec_def Let_def binds_def io_return_def TargetGroupARN_token_def dest!: io_bind_InrD)

lemma targetType_cases: "svc_buildTargetType b svc p = Inr tt \<Longrightarrow> tt \<in> {''instance'', ''ip''}"
  by (auto simp: svc_buildTargetType_def Let_def split: if_splits)

lemma tgSpec_targetType: "svc_buildTargetGroupSpec b svc prot tt p hc attrs t = Inr spec \<Longrightarrow> tgTargetType spec = tt"
  by (auto simp: svc_buildTargetGroupSpec_def Let_def)

lemma new_target_group_run:
  assumes run: "new_target_group b svc p prot scheme rid wt = (Inr r, wt')"
    and b: "stack_built sid (tModel (snd wt))"
    and fresh: "\<lparr>ResType = ''*elbv2.TargetGroup'', ResID = rid\<rparr> \<notin> uids (tModel (snd wt))"
      "\<lparr>ResType = ''*elbv2.TargetGroupBindingResource'', ResID = rid\<rparr> \<notin> uids (tModel (snd wt))"
  shows "\<exists>tg tgb. heap (tModel (snd wt')) = heap (tModel (snd wt)) @
      [TargetGroup (tg_meta rid) tg None, TargetGroupBindingResource (tgb_meta rid) tgb None] \<and>
    binds svc (length (heap (tModel (snd wt)))) p tg tgb \<and> r = length (heap (tModel (snd wt))) \<and>
    stack_built sid (tModel (snd wt')) \<and> tLoadBalancer (snd wt') = tLoadBalancer (snd wt) \<and>
    tTgByResID (snd wt') = AList.update rid r (tTgByResID (snd wt))"
proof -
  from run obtain tt hc attrs preserve tg wt1 wt2 q wt3 where tt: "svc_buildTargetType b svc p = Inr tt"
    and wt1: "wt1 = (fst wt, (snd wt)\<lparr>tPreserveClientIP := preserve\<rparr>)"
    and spec: "svc_buildTargetGroupSpec b svc prot tt p hc attrs (snd wt1) = Inr tg"
    and new: "on_model (NewTargetGroup rid tg) wt1 = (Inr r, wt2)"
    and bind: "svc_buildTargetGroupBinding b svc r rid tg p hc scheme wt2 = (Inr q, wt3)"
    and wt': "wt' = (fst wt3, (snd wt3)\<lparr>tTgByResID := AList.update rid r (tTgByResID (snd wt3))\<rparr>)"
    unfolding new_target_group_def by (auto simp: io_lift_def io_return_def get_task_def modify_task_def dest!: io_bind_InrD)
  let ?tg = "TargetGroup (tg_meta rid) tg None"
  have n1: "stack_built sid (tModel (snd wt2)) \<and> heap (tModel (snd wt2)) = heap (tModel (snd wt)) @ [?tg] \<and>
      r = length (heap (tModel (snd wt))) \<and> snd wt2 = (snd wt1)\<lparr>tModel := tModel (snd wt2)\<rparr>"
    using on_model_new [OF new [unfolded NewTargetGroup_def], of sid] b fresh(1) by (simp add: wt1 computeResourceUID_def)
  from io_bind_same [OF binding_spec_same bind [unfolded svc_buildTargetGroupBinding_def]] obtain tgb wt4 where
    tgb: "svc_buildTargetGroupBindingSpec b svc r tg p hc scheme wt2 = (Inr tgb, wt4)" and s4: "same_model wt2 wt4"
    and new2: "on_model (NewTargetGroupBindingResource rid tgb) wt4 = (Inr q, wt3)" by (elim exE conjE)
  have bnd: "binds svc r p tg tgb"
    by (rule binding_spec_binds [OF tgb]) (use targetType_cases [OF tt] tgSpec_targetType [OF spec] in simp)
  let ?tgb = "TargetGroupBindingResource (tgb_meta rid) tgb None"
  have m4: "tModel (snd wt4) = tModel (snd wt2)" using s4 by (simp add: same_model_def)
  have "set (dep_refs ?tgb) = {r}" using bnd by (simp add: binds_def Let_def)
  then have n2: "stack_built sid (tModel (snd wt3)) \<and> heap (tModel (snd wt3)) = heap (tModel (snd wt2)) @ [?tgb] \<and>
      q = length (heap (tModel (snd wt2))) \<and> snd wt3 = (snd wt4)\<lparr>tModel := tModel (snd wt3)\<rparr>"
    using on_model_new [OF new2 [unfolded NewTargetGroupBindingResource_def], of sid] n1 fresh(2) by (simp add: m4 computeResourceUID_def)
  have "tLoadBalancer (snd wt3) = tLoadBalancer (snd wt)" "tTgByResID (snd wt3) = tTgByResID (snd wt)"
    using arg_cong [OF n2 [THEN conjunct2, THEN conjunct2, THEN conjunct2], of tLoadBalancer]
      arg_cong [OF n2 [THEN conjunct2, THEN conjunct2, THEN conjunct2], of tTgByResID]
      arg_cong [OF n1 [THEN conjunct2, THEN conjunct2, THEN conjunct2], of tLoadBalancer]
      arg_cong [OF n1 [THEN conjunct2, THEN conjunct2, THEN conjunct2], of tTgByResID] s4
    by (simp_all add: same_model_def wt1)
  then show ?thesis using n1 n2 bnd wt' by auto
qed

lemma tg_res_id_inj: "tg_res_id svc p = tg_res_id svc q \<longleftrightarrow> spPort p = spPort q"
  by (simp add: tg_res_id_def Itoa_inj)

text \<open>The chunks of the ports, one after the other.\<close>

fun chunks_ok :: "Service \<Rightarrow> ref \<Rightarrow> nat \<Rightarrow> ServicePort list \<Rightarrow> Resource list list \<Rightarrow> bool" where
  "chunks_ok svc lb i [] [] = True"
| "chunks_ok svc lb i (p # ps) (ch # chs) = (port_chunk svc lb i p ch \<and> chunks_ok svc lb (i + 3) ps chs)"
| "chunks_ok svc lb i _ _ = False"

lemma chunks_ok_length: "chunks_ok svc lb i ps chs \<Longrightarrow> length (concat chs) = 3 * length ps"
  by (induction svc lb i ps chs rule: chunks_ok.induct) (auto simp: port_chunk_def)

lemma chunks_ok_snoc:
  "chunks_ok svc lb i ps chs \<Longrightarrow> port_chunk svc lb (i + 3 * length ps) p ch \<Longrightarrow> chunks_ok svc lb i (ps @ [p]) (chs @ [ch])"
  by (induction svc lb i ps chs rule: chunks_ok.induct) (auto simp: add.assoc)

lemma chunks_ok_uids:
  "chunks_ok svc lb i ps chs \<Longrightarrow> uid \<in> computeResourceUID ` set (concat chs) \<Longrightarrow>
     \<exists>p\<in>set ps. uid \<in> {\<lparr>ResType = ''*elbv2.TargetGroup'', ResID = tg_res_id svc p\<rparr>,
       \<lparr>ResType = ''*elbv2.TargetGroupBindingResource'', ResID = tg_res_id svc p\<rparr>,
       \<lparr>ResType = ''*elbv2.Listener'', ResID = Itoa (spPort p)\<rparr>}"
  by (induction svc lb i ps chs rule: chunks_ok.induct) (auto simp: port_chunk_def computeResourceUID_def)

definition ports_built :: "Service \<Rightarrow> ref \<Rightarrow> Resource list \<Rightarrow> ServicePort list \<Rightarrow> svc_task \<Rightarrow> bool" where
  "ports_built svc lb pre ps t \<longleftrightarrow>
     stack_built (svc_stack_id svc) (tModel t) \<and> tLoadBalancer t = Some lb \<and>
     (\<exists>chs. heap (tModel t) = pre @ concat chs \<and> chunks_ok svc lb (length pre) ps chs) \<and>
     (\<forall>p. map_of (tTgByResID t) (tg_res_id svc p) \<noteq> None \<longrightarrow> spPort p \<in> spPort ` set ps)"

definition only_lb_parts :: "Resource list \<Rightarrow> bool" where
  "only_lb_parts pre \<longleftrightarrow> (\<forall>uid \<in> computeResourceUID ` set pre. ResType uid \<in> {''*ec2.SecurityGroup'', ''*elbv2.LoadBalancer''})"

lemma ports_built_fresh:
  assumes "ports_built svc lb pre ps t" "only_lb_parts pre" "spPort p \<notin> spPort ` set ps"
  shows "\<lparr>ResType = ''*elbv2.TargetGroup'', ResID = tg_res_id svc p\<rparr> \<notin> uids (tModel t)"
    and "\<lparr>ResType = ''*elbv2.TargetGroupBindingResource'', ResID = tg_res_id svc p\<rparr> \<notin> uids (tModel t)"
    and "\<lparr>ResType = ''*elbv2.Listener'', ResID = Itoa (spPort p)\<rparr> \<notin> uids (tModel t)"
proof -
  obtain chs where h: "heap (tModel t) = pre @ concat chs" "chunks_ok svc lb (length pre) ps chs"
    using assms(1) unfolding ports_built_def by (elim conjE exE)
  have no: "uid \<notin> uids (tModel t)" if "ResType uid \<notin> {''*ec2.SecurityGroup'', ''*elbv2.LoadBalancer''}"
    "\<And>q. spPort q \<noteq> spPort p \<Longrightarrow> uid \<notin> {\<lparr>ResType = ''*elbv2.TargetGroup'', ResID = tg_res_id svc q\<rparr>,
       \<lparr>ResType = ''*elbv2.TargetGroupBindingResource'', ResID = tg_res_id svc q\<rparr>,
       \<lparr>ResType = ''*elbv2.Listener'', ResID = Itoa (spPort q)\<rparr>}" for uid
  proof
    assume "uid \<in> uids (tModel t)"
    then have "uid \<in> computeResourceUID ` set pre \<or> uid \<in> computeResourceUID ` set (concat chs)"
      unfolding h(1) set_append image_Un by blast
    then show False
    proof
      assume "uid \<in> computeResourceUID ` set pre"
      then show False using assms(2) that(1) unfolding only_lb_parts_def by blast
    next
      assume "uid \<in> computeResourceUID ` set (concat chs)"
      from chunks_ok_uids [OF h(2) this] obtain q where q: "q \<in> set ps"
        "uid \<in> {\<lparr>ResType = ''*elbv2.TargetGroup'', ResID = tg_res_id svc q\<rparr>,
          \<lparr>ResType = ''*elbv2.TargetGroupBindingResource'', ResID = tg_res_id svc q\<rparr>,
          \<lparr>ResType = ''*elbv2.Listener'', ResID = Itoa (spPort q)\<rparr>}" by (elim bexE)
      then have "spPort q \<noteq> spPort p" using assms(3) by (metis imageI)
      then show False using that(2) q(2) by blast
    qed
  qed
  show "\<lparr>ResType = ''*elbv2.TargetGroup'', ResID = tg_res_id svc p\<rparr> \<notin> uids (tModel t)"
    "\<lparr>ResType = ''*elbv2.TargetGroupBindingResource'', ResID = tg_res_id svc p\<rparr> \<notin> uids (tModel t)"
    "\<lparr>ResType = ''*elbv2.Listener'', ResID = Itoa (spPort p)\<rparr> \<notin> uids (tModel t)"
    by (rule no; simp add: tg_res_id_inj Itoa_inj)+
qed

lemma target_group_run:
  assumes "svc_buildTargetGroup b svc p prot scheme wt = (Inr r, wt')"
    "ports_built svc lb pre ps (snd wt)" "spPort p \<notin> spPort ` set ps"
  shows "new_target_group b svc p prot scheme (tg_res_id svc p) wt = (Inr r, wt')"
proof -
  have eq: "svc_buildTargetGroupResourceID (NamespacedName_of (svcMeta svc)) (IntVal (spPort p)) = tg_res_id svc p"
    by (simp add: svc_buildTargetGroupResourceID_def NamespacedName_of_def tg_res_id_def)
  have "map_of (tTgByResID (snd wt)) (tg_res_id svc p) = None" using assms(2,3) unfolding ports_built_def by blast
  then show ?thesis using assms(1) unfolding svc_buildTargetGroup_def eq Let_def by (simp add: io_bind_def get_task_def)
qed

lemma listener_spec_run:
  "svc_buildListenerSpec b svc p cfg scheme wt = (Inr ls, wt') \<Longrightarrow>
     \<exists>r l. svc_buildTargetGroup b svc p (snd (listener_protocols p cfg)) scheme wt = (Inr r, wt') \<and> lsPort ls = spPort p \<and>
       lsDefaultActions ls = buildListenerDefaultActions r \<and> tLoadBalancer (snd wt') = Some l \<and> lsLoadBalancerARN ls = LoadBalancerARN_token l"
  unfolding svc_buildListenerSpec_def Let_def
  by (auto simp: io_lift_def io_return_def io_fail_def get_task_def split: prod.splits option.splits dest!: io_bind_InrD)

lemma listener_run:
  assumes run: "svc_buildListener b svc cfg scheme p wt = (Inr (), wt')"
    and inv: "ports_built svc lb pre ps (snd wt)" and pre: "only_lb_parts pre" "lb < length pre"
    and new: "spPort p \<notin> spPort ` set ps"
  shows "ports_built svc lb pre (ps @ [p]) (snd wt')"
proof -
  let ?n = "length (heap (tModel (snd wt)))"
  obtain chs where h: "heap (tModel (snd wt)) = pre @ concat chs" "chunks_ok svc lb (length pre) ps chs"
    and b: "stack_built (svc_stack_id svc) (tModel (snd wt))" and lb: "tLoadBalancer (snd wt) = Some lb"
    using inv unfolding ports_built_def by (elim conjE exE)
  from io_bind_InrD [OF run [unfolded svc_buildListener_def]] obtain ls wt1 where
    spec: "svc_buildListenerSpec b svc p cfg scheme wt = (Inr ls, wt1)"
    and rest: "io_bind (on_model (NewListener (Itoa (spPort p)) ls)) (\<lambda>_. io_return ()) wt1 = (Inr (), wt')" by (elim exE conjE)
  from io_bind_InrD [OF rest] obtain q where new_ls: "on_model (NewListener (Itoa (spPort p)) ls) wt1 = (Inr q, wt')"
    by (auto simp: io_return_def)
  from listener_spec_run [OF spec] obtain r l where
    tgr: "svc_buildTargetGroup b svc p (snd (listener_protocols p cfg)) scheme wt = (Inr r, wt1)"
    and ls: "lsPort ls = spPort p" "lsDefaultActions ls = buildListenerDefaultActions r"
      "tLoadBalancer (snd wt1) = Some l" "lsLoadBalancerARN ls = LoadBalancerARN_token l"
    by (elim exE conjE)
  from new_target_group_run [OF target_group_run [OF tgr inv new] b ports_built_fresh(1,2) [OF inv pre(1) new]]
  obtain tg tgb where tg: "heap (tModel (snd wt1)) = heap (tModel (snd wt)) @
      [TargetGroup (tg_meta (tg_res_id svc p)) tg None, TargetGroupBindingResource (tgb_meta (tg_res_id svc p)) tgb None]"
    "binds svc ?n p tg tgb" "r = ?n" "stack_built (svc_stack_id svc) (tModel (snd wt1))"
    "tLoadBalancer (snd wt1) = tLoadBalancer (snd wt)" "tTgByResID (snd wt1) = AList.update (tg_res_id svc p) r (tTgByResID (snd wt))"
    by (elim exE conjE)
  let ?ls = "Listener (ls_meta (Itoa (spPort p))) ls None"
  have arn: "lsLoadBalancerARN ls = ResourceFieldStringToken lb ''status/loadBalancerARN''"
    using ls(3,4) tg(5) lb by (simp add: LoadBalancerARN_token_def)
  have fresh: "computeResourceUID ?ls \<notin> uids (tModel (snd wt1))"
    using ports_built_fresh(3) [OF inv pre(1) new] by (simp add: tg(1) computeResourceUID_def)
  have deps: "\<forall>d\<in>set (dep_refs ?ls). d < length (heap (tModel (snd wt1)))" using pre(2) h(1) by (simp add: arn tg(1))
  note n = on_model_new [OF new_ls [unfolded NewListener_def] tg(4) fresh deps]
  have "length (pre @ concat chs) = length pre + 3 * length ps" using chunks_ok_length [OF h(2)] by simp
  then have i: "?n = length pre + 3 * length ps" by (simp only: h(1))
  have ch: "port_chunk svc lb ?n p [TargetGroup (tg_meta (tg_res_id svc p)) tg None,
      TargetGroupBindingResource (tgb_meta (tg_res_id svc p)) tgb None, ?ls]"
    using tg(2,3) ls(1,2) arn
    by (auto simp: port_chunk_def forwards_to_def buildListenerDefaultActions_def TargetGroupARN_token_def)
  have "chunks_ok svc lb (length pre) (ps @ [p]) (chs @ [[TargetGroup (tg_meta (tg_res_id svc p)) tg None,
      TargetGroupBindingResource (tgb_meta (tg_res_id svc p)) tgb None, ?ls]])"
    by (rule chunks_ok_snoc [OF h(2) ch [unfolded i]])
  moreover have "tLoadBalancer (snd wt') = Some lb" "tTgByResID (snd wt') = AList.update (tg_res_id svc p) r (tTgByResID (snd wt))"
    using arg_cong [OF n [THEN conjunct2, THEN conjunct2, THEN conjunct2], of tLoadBalancer]
      arg_cong [OF n [THEN conjunct2, THEN conjunct2, THEN conjunct2], of tTgByResID] tg(5,6) lb by simp_all
  moreover have "heap (tModel (snd wt')) = pre @ concat (chs @ [[TargetGroup (tg_meta (tg_res_id svc p)) tg None,
      TargetGroupBindingResource (tgb_meta (tg_res_id svc p)) tgb None, ?ls]])"
    using n tg(1) h(1) by simp
  ultimately show ?thesis
    using n inv unfolding ports_built_def
    by (intro conjI exI [of _ "chs @ [[TargetGroup (tg_meta (tg_res_id svc p)) tg None,
      TargetGroupBindingResource (tgb_meta (tg_res_id svc p)) tgb None, ?ls]]"])
      (auto simp: update_conv' tg_res_id_inj split: if_splits)
qed

section \<open>The stack of a service\<close>

lemma listeners_run:
  assumes "io_forM (svc_buildListener b svc cfg scheme) qs wt = (Inr (), wt')"
    "ports_built svc lb pre ps (snd wt)" "only_lb_parts pre" "lb < length pre" "distinct (map spPort (ps @ qs))"
  shows "ports_built svc lb pre (ps @ qs) (snd wt')"
  using assms
proof (induction qs arbitrary: wt ps)
  case Nil
  then show ?case by (simp add: io_return_def)
next
  case (Cons q qs)
  have "io_bind (svc_buildListener b svc cfg scheme q) (\<lambda>_. io_forM (svc_buildListener b svc cfg scheme) qs) wt = (Inr (), wt')"
    using Cons.prems(1) by simp
  from io_bind_unitD [OF this] obtain wt1 where q: "svc_buildListener b svc cfg scheme q wt = (Inr (), wt1)"
    and qs: "io_forM (svc_buildListener b svc cfg scheme) qs wt1 = (Inr (), wt')" by (elim exE conjE)
  have "spPort q \<notin> spPort ` set ps" using Cons.prems(5) by auto
  from listener_run [OF q Cons.prems(2,3,4) this] have "ports_built svc lb pre (ps @ [q]) (snd wt1)" .
  from Cons.IH [OF qs this Cons.prems(3,4)] Cons.prems(5) show ?case by simp
qed

lemma buildModel_run:
  assumes run: "svc_buildModel b svc wt = (Inr (), wt')" and d: "distinct (map spPort (svcPorts svc))"
    and init: "tModel (snd wt) = init_state (svc_stack_id svc)" "tTgByResID (snd wt) = []"
  shows "\<exists>scheme pre lb. lb_built svc scheme pre (snd wt') \<and> tLoadBalancer (snd wt') = Some lb \<and>
    ports_built svc lb pre (svcPorts svc) (snd wt')"
proof -
  from io_bind_same [OF scheme_same run [unfolded svc_buildModel_def]] obtain scheme wt1 where s1: "same_model wt wt1"
    and k1: "io_bind (buildLoadBalancerSubnets b svc scheme) (\<lambda>subnets.
     io_bind (modify_task (\<lambda>t. t\<lparr>tEc2Subnets := subnets\<rparr>)) (\<lambda>_.
     io_bind (svc_buildLoadBalancer b svc scheme) (\<lambda>_. svc_buildListeners b svc scheme))) wt1 = (Inr (), wt')" by (elim exE conjE)
  from io_bind_same [OF subnets_same k1] obtain subnets wt2 where s2: "same_model wt1 wt2"
    and k2: "io_bind (modify_task (\<lambda>t. t\<lparr>tEc2Subnets := subnets\<rparr>)) (\<lambda>_.
     io_bind (svc_buildLoadBalancer b svc scheme) (\<lambda>_. svc_buildListeners b svc scheme)) wt2 = (Inr (), wt')" by (elim exE conjE)
  have "keeps same_model (modify_task (\<lambda>t. t\<lparr>tEc2Subnets := subnets\<rparr>))" by (rule modify_task_same) simp
  from io_bind_same [OF this k2] obtain wt3 where s3: "same_model wt2 wt3"
    and k3: "io_bind (svc_buildLoadBalancer b svc scheme) (\<lambda>_. svc_buildListeners b svc scheme) wt3 = (Inr (), wt')" by (elim exE conjE)
  from io_bind_unitD [OF k3] obtain wt4 where lb: "svc_buildLoadBalancer b svc scheme wt3 = (Inr (), wt4)"
    and k4: "svc_buildListeners b svc scheme wt4 = (Inr (), wt')" by (elim exE conjE)
  have "same_model wt wt3" using s1 s2 s3 sm.R_trans by blast
  then have 3: "stack_built (svc_stack_id svc) (tModel (snd wt3))" "heap (tModel (snd wt3)) = []" "tTgByResID (snd wt3) = []"
    using init stack_built.init by (simp_all add: same_model_def) (simp add: init_state_def)
  from lb_built_run [OF lb 3(1,2)] obtain pre where pre: "lb_built svc scheme pre (snd wt4)" "heap (tModel (snd wt4)) = pre"
    "tTgByResID (snd wt4) = tTgByResID (snd wt3)" by (elim exE conjE)
  from pre(1) obtain l where l: "tLoadBalancer (snd wt4) = Some l" "l < length pre" "only_lb_parts pre"
    by (fastforce simp: lb_built_def only_lb_parts_def managed_sg_def computeResourceUID_def)
  from k4 obtain cfg where "io_forM (svc_buildListener b svc cfg scheme) (svcPorts svc) wt4 = (Inr (), wt')"
    unfolding svc_buildListeners_def by (auto simp: io_lift_def dest!: io_bind_InrD)
  moreover have "ports_built svc l pre [] (snd wt4)"
    using pre l 3(3) by (auto simp: ports_built_def lb_built_def intro: exI [of _ "[]"])
  ultimately have P: "ports_built svc l pre (svcPorts svc) (snd wt')"
    using listeners_run [of b svc cfg scheme "svcPorts svc" wt4 wt' l pre "[]"] l d by simp
  then have "tLoadBalancer (snd wt') = Some l" "stack_built (svc_stack_id svc) (tModel (snd wt'))"
    by (simp_all add: ports_built_def)
  then have "lb_built svc scheme pre (snd wt')" using pre(1) l(1) by (auto simp: lb_built_def)
  then show ?thesis using P \<open>tLoadBalancer (snd wt') = Some l\<close> by (intro exI [of _ scheme] exI [of _ pre] exI [of _ l]) simp
qed

text \<open>C10: When the ports of a supported service have different numbers, the builder makes a stack that the deployer handles,
  with exactly these resources: at most one managed security group, one network load balancer, and
  for every port of the service, in their order, a target group, its binding and a listener. The listener is
  on the port and on the load balancer and forwards to the target group; the binding joins the target
  group with that port of the service.\<close>

theorem service_stack_resources:
  assumes run: "svc_Build b svc w = (Inr (s, lb, allocated), w')"
    and sup: "IsServiceSupported b svc" and d: "distinct (map spPort (svcPorts svc))"
  shows "stack_built \<lparr>sidNamespace = omNamespace (svcMeta svc), sidName = omName (svcMeta svc)\<rparr> s \<and>
    (\<exists>sgs spec chs. heap s = sgs @ LoadBalancer \<lparr>resType = ''AWS::ElasticLoadBalancingV2::LoadBalancer'', resID = ''LoadBalancer''\<rparr> spec None # concat chs \<and>
       length sgs \<le> 1 \<and> (\<forall>sg\<in>set sgs. managed_sg sg) \<and> lbType spec = ''network'' \<and> lb = Some (length sgs) \<and>
       chunks_ok svc (length sgs) (Suc (length sgs)) (svcPorts svc) chs)"
proof -
  from run sup obtain t where t: "svc_buildModel b svc (w, svc_new_task svc) = (Inr (), (w', t))" "s = tModel t" "lb = tLoadBalancer t"
    by (auto simp: svc_Build_def svc_run_def split: prod.splits sum.splits)
  from buildModel_run [OF t(1) d] obtain scheme pre l where L: "lb_built svc scheme pre t" "tLoadBalancer t = Some l"
    "ports_built svc l pre (svcPorts svc) t" by (auto simp: svc_new_task_def)
  from L(1) obtain sgs spec where sgs: "pre = sgs @ [LoadBalancer \<lparr>resType = ''AWS::ElasticLoadBalancingV2::LoadBalancer'', resID = ''LoadBalancer''\<rparr> spec None]"
    "length sgs \<le> 1" "\<forall>sg\<in>set sgs. managed_sg sg" "lbType spec = ''network''" "tLoadBalancer t = Some (length sgs)"
    "stack_built (svc_stack_id svc) (tModel t)" unfolding lb_built_def by (elim exE conjE)
  from L(3) obtain chs where "heap (tModel t) = pre @ concat chs" "chunks_ok svc l (length pre) (svcPorts svc) chs"
    unfolding ports_built_def by (elim exE conjE)
  then show ?thesis using sgs L(2) t(2,3)
    by (intro conjI exI [of _ sgs] exI [of _ spec] exI [of _ chs]) (auto simp: svc_stack_id_def)
qed

section \<open>An example\<close>

definition example_builder :: "unit svc_builder" where
  "example_builder =
     (let ec2 = \<lparr>DescribeSecurityGroupsAsList = (\<lambda>_. io_return []),
       AuthorizeSecurityGroupIngressWithContext = (\<lambda>_ _. io_return ()), RevokeSecurityGroupIngressWithContext = (\<lambda>_ _. io_return ()),
       CreateTagsWithContext = (\<lambda>_ _. io_return ()), DeleteTagsWithContext = (\<lambda>_ _. io_return ()),
       CreateSecurityGroupWithContext = (\<lambda>_. io_return (Some ''sg-1'')), DeleteSecurityGroupWithContext = (\<lambda>_. io_return ())\<rparr>
      in \<lparr>sbAnnotationParser = \<lparr>annotationPrefix = ''service.beta.kubernetes.io''\<rparr>, sbSubnetsResolver = example_subnets_resolver,
       sbVpcInfoProvider = \<lparr>DescribeVpcsWithContext = (\<lambda>_. io_return []), vpcInfoCacheGet = (\<lambda>_ _. None), vpcInfoCacheSet = (\<lambda>_ _ w. w)\<rparr>,
       sbBackendSGProvider = \<lparr>bspVpcID = ''vpc-1'', bspClusterName = ''c1'', bspBackendSG = ''sg-0'', bspDefaultTags = [],
         bspEc2Client = ec2, bspListIngresses = io_return [], bspListServices = io_return [],
         bspState = (\<lambda>_. \<lparr>autoGeneratedSG = [], objectsMap = []\<rparr>), bspSetState = (\<lambda>_ w. w), bspRange = (\<lambda>m. m),
         bspSlice = SliceStable, bspSha256 = (\<lambda>s. s), bspPollImmediate = poll_attempts 3\<rparr>,
       sbSgResolver = \<lparr>sgrEc2Client = ec2, sgrVpcID = ''vpc-1''\<rparr>,
       sbTrackingProvider = \<lparr>tagPrefix = ''service.k8s.aws'', clusterName = ''c1''\<rparr>,
       sbTaggingManager = example_tagging (offline_elb\<lparr>DescribeLoadBalancersAsList := (\<lambda>_. io_return [])\<rparr>),
       sbFeatureGates = NewFeatureGates, sbServiceFinalizer = ''service.k8s.aws/resources'', sbLoadBalancerClass = ''service.k8s.aws/nlb'',
       sbEnableBackendSG = True, sbDisableRestrictedSGRules = False, sbClusterName = ''c1'', sbVpcID = ''vpc-1'', sbDefaultTags = [],
       sbExternalManagedTags = [], sbDefaultSSLPolicy = ''policy'', sbDefaultTargetType = ''instance'', sbEnableIPTargetType = True,
       sbIntstrParse = (\<lambda>s. case strconv_ParseInt s of ParseOk i \<Rightarrow> IntVal i | _ \<Rightarrow> StrVal s), sbSha256 = (\<lambda>s. s), sbRange = (\<lambda>m. m),
       sbSliceLB = SliceStable, sbSliceTG = SliceStable\<rparr>)"

definition example_service :: Service where
  "example_service = \<lparr>svcMeta = \<lparr>omNamespace = ''ns'', omName = ''svc'', omUID = ''u'', omLabels = [], omAnnotations = [],
       omFinalizers = [], omGeneration = 1, omDeletionTimestamp = None\<rparr>,
     svcType = ''LoadBalancer'', svcPorts =
       [\<lparr>spName = ''http'', spProtocol = ''TCP'', spPort = 80, spTargetPort = IntVal 8080, spNodePort = 30080\<rparr>],
     svcSelector = [], svcLoadBalancerClass = Some ''service.k8s.aws/nlb'', svcLoadBalancerSourceRanges = [],
     svcExternalTrafficPolicy = ''Cluster'', svcHealthCheckNodePort = 0, svcIPFamilies = [], svcAllocateLoadBalancerNodePorts = None,
     svcLoadBalancerIngress = []\<rparr>"

lemma no_annotations:
  assumes "omAnnotations (svcMeta svc) = []"
  shows "svc_string b svc k = None" "svc_bool b svc k = Inr None" "svc_int64 b svc k = Inr None"
    "svc_slice b svc k = None" "svc_map b svc k = Inr None"
  using assms
  by (simp_all add: svc_string_def svc_bool_def svc_int64_def svc_slice_def svc_map_def svc_annotations_def
    ParseStringAnnotation_def ParseBoolAnnotation_def ParseInt64Annotation_def ParseStringSliceAnnotation_def
    ParseStringMapAnnotation_def parseStringAnnotation_def Let_def)

lemma example_fields:
  "sbExternalManagedTags example_builder = []" "sbRange example_builder m = m" "sbDefaultTargetType example_builder = ''instance''"
  "sbSliceTG example_builder = SliceStable" "omAnnotations (svcMeta example_service) = []" "svcType example_service = ''LoadBalancer''"
  "svcExternalTrafficPolicy example_service = ''Cluster''" "svcAllocateLoadBalancerNodePorts example_service = None" "svcIPFamilies example_service = []"
  by (simp_all add: example_builder_def example_service_def Let_def)

lemma example_health_check: "\<exists>hc. buildTargetGroupHealthCheckConfig example_builder example_service ''instance'' = Inr hc"
proof -
  have "ToUpper ''TCP'' = ''TCP''" by code_simp
  then show ?thesis
    by (simp add: buildTargetGroupHealthCheckConfig_def buildTargetGroupHealthCheckConfigDefault_def health_check_config_def
      defaultHealthCheck_def buildTargetGroupHealthCheckProtocol_def buildTargetGroupHealthCheckPort_def int64_or_def Let_def
      buildTargetGroupHealthCheckIntervalSeconds_def buildTargetGroupHealthCheckTimeoutSeconds_def
      buildTargetGroupHealthCheckHealthyThresholdCount_def buildTargetGroupHealthCheckUnhealthyThresholdCount_def
      no_annotations example_fields)
qed

lemma example_listener:
  assumes t: "tLoadBalancer t = Some l" "l < length (heap (tModel t))" "heap (tModel t) ! l = LoadBalancer m spec st"
    "lbSecurityGroups spec \<noteq> []" "tTgByResID t = []" and cfg: "lcCertificates cfg = []" and p: "spProtocol p \<noteq> ''TLS''"
  shows "\<exists>t'. svc_buildListener example_builder example_service cfg scheme p (w, t) = (Inr (), (w, t'))"
proof -
  obtain hc where hc: "buildTargetGroupHealthCheckConfig example_builder example_service ''instance'' = Inr hc"
    using example_health_check by (elim exE)
  have attrs: "svc_buildTargetGroupAttributes example_builder example_service = Inr [\<lparr>tgaKey = ''proxy_protocol_v2.enabled'', tgaValue = ''false''\<rparr>]"
    by code_simp
  show ?thesis
    by (simp add: svc_buildListener_def svc_buildListenerSpec_def svc_buildTargetGroup_def new_target_group_def io_bind_def io_lift_def get_task_def
      t svc_buildTargetType_def no_annotations example_fields hc attrs Let_def listener_protocols_def cfg p buildAdditionalResourceTags_def
      gomap_keys_def buildPreserveClientIPFlag_def tgAttrsPreserveClientIPEnabled_def modify_task_def svc_buildTargetGroupSpec_def
      svc_buildTargetGroupIPAddressType_def on_model_new_resource NewListener_def LoadBalancerTypeNLBIP_def LoadBalancerTargetTypeIP_def svc_buildTargetGroupBinding_def
      svc_buildTargetGroupBindingSpec_def buildTargetGroupBindingNodeSelector_def task_lb_spec_def deref_def nth_append less_Suc_eq io_return_def
      NewTargetGroup_def NewTargetGroupBindingResource_def buildListenerALPNPolicy_def)
qed

lemma ran:
  "(case r of (Inr x, (_ :: unit, t)) \<Rightarrow> P x t | _ \<Rightarrow> False) \<Longrightarrow> \<exists>x t. r = (Inr x, ((), t)) \<and> P x t"
  by (cases "fst r"; cases "snd r"; cases r) simp_all

text \<open>The run up to the load balancer, evaluated, and the listener of the port after it.\<close>

lemma example_load_balancer:
  "\<exists>t m spec st. svc_buildModel example_builder example_service ((), svc_new_task example_service) =
     svc_buildListeners example_builder example_service ''internal'' ((), t) \<and> tLoadBalancer t = Some 1 \<and>
     1 < length (heap (tModel t)) \<and> heap (tModel t) ! 1 = LoadBalancer m spec st \<and> lbSecurityGroups spec \<noteq> [] \<and> tTgByResID t = []"
proof -
  let ?head = "io_bind (buildLoadBalancerScheme example_builder example_service) (\<lambda>scheme.
     io_bind (buildLoadBalancerSubnets example_builder example_service scheme) (\<lambda>subnets.
     io_bind (modify_task (\<lambda>t. t\<lparr>tEc2Subnets := subnets\<rparr>)) (\<lambda>_.
     io_bind (svc_buildLoadBalancer example_builder example_service scheme) (\<lambda>_. io_return scheme))))
     ((), svc_new_task example_service)"
  have "case ?head of (Inr scheme, (_, t)) \<Rightarrow> scheme = ''internal'' \<and> tLoadBalancer t = Some 1 \<and>
     tTgByResID t = [] \<and> length (heap (tModel t)) = 2 \<and>
     (case heap (tModel t) ! 1 of LoadBalancer m spec st \<Rightarrow> lbSecurityGroups spec \<noteq> [] | _ \<Rightarrow> False) | _ \<Rightarrow> False"
    by code_simp
  from ran [OF this] obtain t where t: "?head = (Inr ''internal'', ((), t))" "tLoadBalancer t = Some 1" "tTgByResID t = []"
    "length (heap (tModel t)) = 2"
    and lb: "case heap (tModel t) ! 1 of LoadBalancer m spec st \<Rightarrow> lbSecurityGroups spec \<noteq> [] | _ \<Rightarrow> False"
    by (elim exE conjE) (simp only:)
  from lb obtain m spec st where "heap (tModel t) ! 1 = LoadBalancer m spec st" "lbSecurityGroups spec \<noteq> []"
    by (cases "heap (tModel t) ! 1") auto
  moreover have "svc_buildModel example_builder example_service = io_bind
     (io_bind (buildLoadBalancerScheme example_builder example_service) (\<lambda>scheme.
      io_bind (buildLoadBalancerSubnets example_builder example_service scheme) (\<lambda>subnets.
      io_bind (modify_task (\<lambda>t. t\<lparr>tEc2Subnets := subnets\<rparr>)) (\<lambda>_.
      io_bind (svc_buildLoadBalancer example_builder example_service scheme) (\<lambda>_. io_return scheme)))))
     (svc_buildListeners example_builder example_service)"
    by (simp add: svc_buildModel_def io_bind_assoc)
  then have "svc_buildModel example_builder example_service ((), svc_new_task example_service) =
      svc_buildListeners example_builder example_service ''internal'' ((), t)"
    using t(1) by (simp only: io_bind_def prod.case sum.case)
  ultimately show ?thesis using t(2-) by auto
qed

theorem service_stack_resources_witness:
  "\<exists>s lb allocated. svc_Build example_builder example_service () = (Inr (s, lb, allocated), ()) \<and>
     stack_built \<lparr>sidNamespace = ''ns'', sidName = ''svc''\<rparr> s \<and> 4 \<le> length (heap s)"
proof -
  have ports: "svcPorts example_service = [\<lparr>spName = ''http'', spProtocol = ''TCP'', spPort = 80, spTargetPort = IntVal 8080, spNodePort = 30080\<rparr>]"
    by (simp add: example_service_def)
  have sup: "IsServiceSupported example_builder example_service" by code_simp
  obtain cfg where cfg: "buildListenerConfig example_builder example_service = Inr cfg" "lcCertificates cfg = []"
    by (simp add: buildListenerConfig_def buildTLSPortsSet_def validateTLSPortsSet_def buildListenerCertificates_def no_annotations example_fields Let_def)
  obtain t m spec st where t: "svc_buildModel example_builder example_service ((), svc_new_task example_service) =
     svc_buildListeners example_builder example_service ''internal'' ((), t)" "tLoadBalancer t = Some 1"
     "1 < length (heap (tModel t))" "heap (tModel t) ! 1 = LoadBalancer m spec st" "lbSecurityGroups spec \<noteq> []" "tTgByResID t = []"
    using example_load_balancer by (elim exE conjE)
  obtain t' where "svc_buildListener example_builder example_service cfg ''internal'' (hd (svcPorts example_service)) ((), t) = (Inr (), ((), t'))"
    using example_listener [OF t(2-) cfg(2), of "hd (svcPorts example_service)"] ports by auto
  then have "svc_buildListeners example_builder example_service ''internal'' ((), t) = (Inr (), ((), t'))"
    by (simp add: svc_buildListeners_def cfg ports io_bind_def io_lift_def io_return_def)
  then have run: "svc_Build example_builder example_service () = (Inr (tModel t', tLoadBalancer t', tBackendSGAllocated t'), ())"
    using t(1) sup by (simp add: svc_Build_def svc_run_def)
  have id: "omNamespace (svcMeta example_service) = ''ns''" "omName (svcMeta example_service) = ''svc''"
    by (simp_all add: example_service_def)
  from service_stack_resources [OF run sup] ports id have "stack_built \<lparr>sidNamespace = ''ns'', sidName = ''svc''\<rparr> (tModel t') \<and>
    4 \<le> length (heap (tModel t'))" by (auto dest: chunks_ok_length)
  then show ?thesis using run by auto
qed

end
