(* ===== verification/Ingress_Group.thy ===== *)
theory Ingress_Group
  imports Annotations Subnet_Resolver K8s_Objects Go_Sort Go_Text Core_Stack
begin

text \<open>
  Ingresses, their classes and their groups (\<^verbatim>\<open>pkg/ingress\<close>: \<^verbatim>\<open>class.go\<close>, \<^verbatim>\<open>class_annotation_matcher.go\<close>,
  \<^verbatim>\<open>class_loader.go\<close>, \<^verbatim>\<open>group.go\<close>, \<^verbatim>\<open>finalizer.go\<close>, \<^verbatim>\<open>group_loader.go\<close>; \<^verbatim>\<open>IngressClassParams\<close> of
  \<^verbatim>\<open>apis/elbv2/v1beta1\<close>). The class loader fills in the default class of an ingress in place, so loading
  returns the ingress next to its result. The theorem says which ingresses are the members of a group.
\<close>

section \<open>Objects\<close>

record IngressServiceBackend =
  isbName :: string
  isbPortName :: string
  isbPortNumber :: int

record IngressBackend =
  ibService :: "IngressServiceBackend option"

record HTTPIngressPath =
  hpPath :: string
  hpPathType :: "string option"
  hpBackend :: IngressBackend

record IngressRule =
  irHost :: string
  irHTTP :: "HTTPIngressPath list option"

text \<open>An entry of the TLS section is its list of hosts; an ingress point of the status its IP and host name.\<close>

record Ingress =
  ingMeta :: ObjectMeta
  ingIngressClassName :: "string option"
  ingDefaultBackend :: "IngressBackend option"
  ingTLS :: "string list list"
  ingRules :: "IngressRule list"
  ingLoadBalancerIngress :: "(string \<times> string) list"

record IngressClassParametersReference =
  icpAPIGroup :: "string option"
  icpKind :: string
  icpName :: string

record IngressClass =
  icMeta :: ObjectMeta
  icController :: string
  icParameters :: "IngressClassParametersReference option"

record IngressGroup =
  groupName :: string

record IngressClassParamsSpec =
  icpsNamespaceSelector :: "LabelSelector option"
  icpsGroup :: "IngressGroup option"
  icpsScheme :: "LoadBalancerScheme option"
  icpsInboundCIDRs :: "string list"
  icpsSSLPolicy :: string
  icpsSubnets :: "SubnetSelector option"
  icpsIPAddressType :: "IPAddressType option"
  icpsTags :: "(string \<times> string) list"
  icpsLoadBalancerAttributes :: "(string \<times> string) list"

record IngressClassParams =
  icpMeta :: ObjectMeta
  icpSpec :: IngressClassParamsSpec

section \<open>Classes\<close>

record ClassConfiguration =
  ccIngClass :: "IngressClass option"
  ccIngClassParams :: "IngressClassParams option"

definition no_class :: ClassConfiguration where
  "no_class = \<lparr>ccIngClass = None, ccIngClassParams = None\<rparr>"

record ClassifiedIngress =
  ciIng :: Ingress
  ciIngClassConfig :: ClassConfiguration

definition ing_key :: "Ingress \<Rightarrow> NamespacedName" where
  "ing_key ing = NamespacedName_of (ingMeta ing)"

definition ing_annotations :: "Ingress \<Rightarrow> string_map" where
  "ing_annotations ing = omAnnotations (ingMeta ing)"

text \<open>The parameters of the class of an ingress, if it has any.\<close>

definition class_params :: "ClassifiedIngress \<Rightarrow> IngressClassParamsSpec option" where
  "class_params ci = map_option icpSpec (ccIngClassParams (ciIngClassConfig ci))"

definition ingressClassALB :: string where "ingressClassALB = ''alb''"

definition ClassAnnotation_Matches :: "string \<Rightarrow> string \<Rightarrow> bool" where
  "ClassAnnotation_Matches ingressClass ingClassAnnotation =
     (if ingressClass = [] \<and> ingClassAnnotation = ingressClassALB then True else ingClassAnnotation = ingressClass)"

definition IngressClassControllerALB :: string where "IngressClassControllerALB = ''ingress.k8s.aws/alb''"

definition ingressClassParamsKind :: string where "ingressClassParamsKind = ''IngressClassParams''"

definition defaultClassAnnotation :: string where "defaultClassAnnotation = ''ingressclass.kubernetes.io/is-default-class''"

definition GroupVersion_Group :: string where "GroupVersion_Group = ''elbv2.k8s.aws''"

definition ErrInvalidIngressClass :: go_error where "ErrInvalidIngressClass = Errorf ''invalid ingress class'' []"

text \<open>
  The Kubernetes client of the loader. \<open>clMatches\<close> is the selection of labels by a selector, with the
  error of its conversion; \<open>clError\<close> is the text of an error.
\<close>

record 'w defaultClassLoader =
  clListIngressClasses :: "('w, IngressClass list) io"
  clGetIngressClass :: "NamespacedName \<Rightarrow> ('w, IngressClass) io"
  clGetIngressClassParams :: "NamespacedName \<Rightarrow> ('w, IngressClassParams) io"
  clGetNamespace :: "NamespacedName \<Rightarrow> ('w, ObjectMeta) io"
  clMatches :: "LabelSelector \<Rightarrow> string_map \<Rightarrow> bool result"
  clIsNotFound :: "go_error \<Rightarrow> bool"
  clError :: "go_error \<Rightarrow> string"
  clLoadParams :: bool

definition default_class_step :: "string option \<Rightarrow> IngressClass \<Rightarrow> string option result" where
  "default_class_step found cls =
     (if gomap_index [] (omAnnotations (icMeta cls)) defaultClassAnnotation = ''true''
      then if found \<noteq> None then Inl (Errorf ''multiple default IngressClasses found'' []) else Inr (Some (omName (icMeta cls)))
      else Inr found)"

definition GetDefaultIngressClass :: "'w defaultClassLoader \<Rightarrow> ('w, string) io" where
  "GetDefaultIngressClass l w =
     (case clListIngressClasses l w of
        (Inl err, w') \<Rightarrow> (Inl (Wrap ErrInvalidIngressClass (''fetching ingressClasses: '' @ clError l err)), w')
      | (Inr classes, w') \<Rightarrow>
          (result_bind (result_foldM default_class_step None classes) (\<lambda>found. Inr (with_default [] found)), w'))"

text \<open>\<open>admission\<close> is the namespace of the admission request when the loader runs in a webhook.\<close>

definition validateIngressClassParamsNamespaceRestriction ::
  "'w defaultClassLoader \<Rightarrow> string option \<Rightarrow> Ingress \<Rightarrow> IngressClassParams \<Rightarrow> ('w, unit) io" where
  "validateIngressClassParamsNamespaceRestriction l admission ing params =
     (case icpsNamespaceSelector (icpSpec params) of
        None \<Rightarrow> io_return ()
      | Some selector \<Rightarrow>
          let ingNamespace = with_default (omNamespace (ingMeta ing)) admission in
          io_bind (clGetNamespace l \<lparr>nnNamespace = [], nnName = ingNamespace\<rparr>) (\<lambda>ingNS.
          io_bind (io_lift (clMatches l selector (omLabels ingNS))) (\<lambda>matches.
            if \<not> matches
            then io_fail (Errorf ''namespaceSelector of IngressClassParams %v mismatch'' [omName (icpMeta params)])
            else io_return ())))"

text \<open>A missing object is an invalid class; other errors of the client are passed on.\<close>

definition get_or_invalid :: "'w defaultClassLoader \<Rightarrow> ('w, 'a) io \<Rightarrow> ('w, 'a) io" where
  "get_or_invalid l m w =
     (case m w of
        (Inl err, w') \<Rightarrow> (Inl (if clIsNotFound l err then Wrap ErrInvalidIngressClass (clError l err) else err), w')
      | (Inr x, w') \<Rightarrow> (Inr x, w'))"

definition load_class :: "'w defaultClassLoader \<Rightarrow> string option \<Rightarrow> Ingress \<Rightarrow> string \<Rightarrow> ('w, ClassConfiguration) io" where
  "load_class l admission ing name =
     io_bind (get_or_invalid l (clGetIngressClass l \<lparr>nnNamespace = [], nnName = name\<rparr>)) (\<lambda>ingClass.
       case icParameters ingClass of
         None \<Rightarrow> io_return \<lparr>ccIngClass = Some ingClass, ccIngClassParams = None\<rparr>
       | Some ps \<Rightarrow>
           if icController ingClass \<noteq> IngressClassControllerALB \<or> \<not> clLoadParams l
           then io_return \<lparr>ccIngClass = Some ingClass, ccIngClassParams = None\<rparr>
           else if icpAPIGroup ps \<noteq> Some GroupVersion_Group \<or> icpKind ps \<noteq> ingressClassParamsKind
           then io_fail (Wrap ErrInvalidIngressClass (''IngressClass '' @ omName (icMeta ingClass) @ '' references unknown parameters''))
           else
             io_bind (get_or_invalid l (clGetIngressClassParams l \<lparr>nnNamespace = [], nnName = icpName ps\<rparr>)) (\<lambda>params w.
               case validateIngressClassParamsNamespaceRestriction l admission ing params w of
                 (Inl err, w') \<Rightarrow> (Inl (Wrap ErrInvalidIngressClass (clError l err)), w')
               | (Inr _, w') \<Rightarrow> (Inr \<lparr>ccIngClass = Some ingClass, ccIngClassParams = Some params\<rparr>, w')))"

text \<open>The ingress comes back with the default class filled in, also when loading fails after that.\<close>

definition ClassLoader_Load ::
  "'w defaultClassLoader \<Rightarrow> string option \<Rightarrow> Ingress \<Rightarrow> 'w \<Rightarrow> (Ingress \<times> ClassConfiguration result) \<times> 'w" where
  "ClassLoader_Load l admission ing w =
     (case ingIngressClassName ing of
        Some name \<Rightarrow> (case load_class l admission ing name w of (r, w') \<Rightarrow> ((ing, r), w'))
      | None \<Rightarrow>
          (case GetDefaultIngressClass l w of
             (Inl err, w') \<Rightarrow> ((ing, Inl err), w')
           | (Inr defaultClass, w') \<Rightarrow>
               if defaultClass = [] then ((ing, Inr no_class), w')
               else let ing = ing\<lparr>ingIngressClassName := Some defaultClass\<rparr> in
                 case load_class l admission ing defaultClass w' of (r, w'') \<Rightarrow> ((ing, r), w'')))"

section \<open>Groups\<close>

type_synonym GroupID = NamespacedName

definition IsExplicit :: "GroupID \<Rightarrow> bool" where
  "IsExplicit groupID = (nnNamespace groupID = [])"

definition GroupID_String :: "GroupID \<Rightarrow> string" where
  "GroupID_String groupID = (if IsExplicit groupID then nnName groupID else nnNamespace groupID @ ''/'' @ nnName groupID)"

definition NewGroupIDForExplicitGroup :: "string \<Rightarrow> GroupID" where
  "NewGroupIDForExplicitGroup name = \<lparr>nnNamespace = [], nnName = name\<rparr>"

definition NewGroupIDForImplicitGroup :: "NamespacedName \<Rightarrow> GroupID" where
  "NewGroupIDForImplicitGroup ingKey = ingKey"

text \<open>A reconcile request holds a namespaced name.\<close>

definition EncodeGroupIDToReconcileRequest :: "GroupID \<Rightarrow> NamespacedName" where
  "EncodeGroupIDToReconcileRequest gID = gID"

definition DecodeGroupIDFromReconcileRequest :: "NamespacedName \<Rightarrow> GroupID" where
  "DecodeGroupIDFromReconcileRequest request = request"

record Group =
  grpID :: GroupID
  grpMembers :: "ClassifiedIngress list"
  grpInactiveMembers :: "Ingress list"

section \<open>Finalizers\<close>

definition ing_explicitGroupFinalizerPrefix :: string where "ing_explicitGroupFinalizerPrefix = ''group.ingress.k8s.aws/''"

definition ing_implicitGroupFinalizer :: string where "ing_implicitGroupFinalizer = ''ingress.k8s.aws/resources''"

definition buildGroupFinalizer :: "GroupID \<Rightarrow> string" where
  "buildGroupFinalizer groupID =
     (if IsExplicit groupID then ing_explicitGroupFinalizerPrefix @ nnName groupID else ing_implicitGroupFinalizer)"

definition AddGroupFinalizer :: "'w finalizer_client \<Rightarrow> GroupID \<Rightarrow> ClassifiedIngress list \<Rightarrow> ('w, unit) io" where
  "AddGroupFinalizer c groupID members =
     (let finalizer = buildGroupFinalizer groupID in
      io_forM (\<lambda>member. AddFinalizers c (ing_key (ciIng member)) [finalizer]) members)"

definition RemoveGroupFinalizer :: "'w finalizer_client \<Rightarrow> GroupID \<Rightarrow> Ingress list \<Rightarrow> ('w, unit) io" where
  "RemoveGroupFinalizer c groupID inactiveMembers =
     (let finalizer = buildGroupFinalizer groupID in
      io_forM (\<lambda>ing. RemoveFinalizers c (ing_key ing) [finalizer]) inactiveMembers)"

section \<open>Loading groups\<close>

definition defaultGroupOrder :: int where "defaultGroupOrder = 0"

definition minGroupOrder :: int where "minGroupOrder = -1000"

definition maxGroupOder :: int where "maxGroupOder = 1000"

definition maxGroupNameLength :: nat where "maxGroupNameLength = 63"

definition lower_alnum :: "char \<Rightarrow> bool" where
  "lower_alnum c \<longleftrightarrow> (CHR ''a'' \<le> c \<and> c \<le> CHR ''z'') \<or> is_digit c"

text \<open>Matches \<^verbatim>\<open>^([a-z0-9][-a-z0-9.]*)?[a-z0-9]$\<close>.\<close>

definition groupNameRegex :: "string \<Rightarrow> bool" where
  "groupNameRegex s \<longleftrightarrow> s \<noteq> [] \<and> lower_alnum (hd s) \<and> lower_alnum (last s) \<and>
     list_all (\<lambda>c. lower_alnum c \<or> c = CHR ''-'' \<or> c = CHR ''.'') s"

definition errInvalidIngressGroup :: go_error where "errInvalidIngressGroup = Errorf ''invalid ingress group'' []"

definition validateGroupName :: "string \<Rightarrow> unit result" where
  "validateGroupName name =
     (if \<not> groupNameRegex name
      then Inl (Errorf ''groupName must consist of lower case alphanumeric characters, '-' or '.', and must start and end with an alphanumeric character'' [])
      else if length name > maxGroupNameLength
      then Inl (Errorf ''groupName must be no more than %v characters'' [Itoa (int maxGroupNameLength)])
      else Inr ())"

record 'w defaultGroupLoader =
  glListIngresses :: "('w, Ingress list) io"
  glAnnotationParser :: suffixAnnotationParser
  glClassLoader :: "'w defaultClassLoader"
  glIngressClass :: string
  glManageIngressesWithoutIngressClass :: bool
  glSlice :: "(ClassifiedIngress \<times> int) slice_sort"

text \<open>The classified ingress and whether the controller manages it; an error keeps the ingress, as above.\<close>

definition classifyIngress ::
  "'w defaultGroupLoader \<Rightarrow> string option \<Rightarrow> Ingress \<Rightarrow> 'w \<Rightarrow> (ClassifiedIngress \<times> bool result) \<times> 'w" where
  "classifyIngress m admission ing w =
     (case map_of (ing_annotations ing) IngressClassKey of
        Some ingClassAnnotation \<Rightarrow>
          ((\<lparr>ciIng = ing, ciIngClassConfig = no_class\<rparr>, Inr (ClassAnnotation_Matches (glIngressClass m) ingClassAnnotation)), w)
      | None \<Rightarrow>
          (case ClassLoader_Load (glClassLoader m) admission ing w of
             ((ing', Inl err), w') \<Rightarrow> ((\<lparr>ciIng = ing', ciIngClassConfig = no_class\<rparr>, Inl err), w')
           | ((ing', Inr cfg), w') \<Rightarrow>
               ((\<lparr>ciIng = ing', ciIngClassConfig = cfg\<rparr>,
                 Inr (case ccIngClass cfg of
                        Some ingClass \<Rightarrow> icController ingClass = IngressClassControllerALB
                      | None \<Rightarrow> glManageIngressesWithoutIngressClass m)), w')))"

definition explicit_group :: "'w defaultGroupLoader \<Rightarrow> string \<Rightarrow> GroupID result" where
  "explicit_group m name =
     (case validateGroupName name of
        Inl err \<Rightarrow> Inl (Wrap errInvalidIngressGroup (clError (glClassLoader m) err))
      | Inr _ \<Rightarrow> Inr (NewGroupIDForExplicitGroup name))"

definition loadGroupID :: "'w defaultGroupLoader \<Rightarrow> ClassifiedIngress \<Rightarrow> GroupID result" where
  "loadGroupID m ci =
     (case Option.bind (class_params ci) icpsGroup of
        Some g \<Rightarrow> explicit_group m (groupName g)
      | None \<Rightarrow>
          (case ParseStringAnnotation (glAnnotationParser m) IngressSuffixGroupName (ing_annotations (ciIng ci)) [] of
             Some name \<Rightarrow> explicit_group m name
           | None \<Rightarrow> Inr (NewGroupIDForImplicitGroup (ing_key (ciIng ci)))))"

definition loadGroupIDIfAnyHelper ::
  "'w defaultGroupLoader \<Rightarrow> string option \<Rightarrow> Ingress \<Rightarrow> 'w \<Rightarrow> (ClassifiedIngress \<times> GroupID option result) \<times> 'w" where
  "loadGroupIDIfAnyHelper m admission ing w =
     (if omDeletionTimestamp (ingMeta ing) \<noteq> None then ((\<lparr>ciIng = ing, ciIngClassConfig = no_class\<rparr>, Inr None), w)
      else case classifyIngress m admission ing w of
        ((ci, Inl err), w') \<Rightarrow> ((ci, Inl err), w')
      | ((ci, Inr matchesIngressClass), w') \<Rightarrow>
          if \<not> matchesIngressClass then ((ci, Inr None), w')
          else ((ci, result_bind (loadGroupID m ci) (\<lambda>g. Inr (Some g))), w'))"

definition LoadGroupIDIfAny :: "'w defaultGroupLoader \<Rightarrow> string option \<Rightarrow> Ingress \<Rightarrow> ('w, GroupID option) io" where
  "LoadGroupIDIfAny m admission ing w = (case loadGroupIDIfAnyHelper m admission ing w of ((_, r), w') \<Rightarrow> (r, w'))"

definition LoadGroupIDsPendingFinalization :: "Ingress \<Rightarrow> GroupID list" where
  "LoadGroupIDsPendingFinalization ing =
     concat (map (\<lambda>finalizer.
       if finalizer = ing_implicitGroupFinalizer then [NewGroupIDForImplicitGroup (ing_key ing)]
       else if HasPrefix finalizer ing_explicitGroupFinalizerPrefix
       then [NewGroupIDForExplicitGroup (drop (length ing_explicitGroupFinalizerPrefix) finalizer)]
       else []) (omFinalizers (ingMeta ing)))"

datatype groupMembershipType = groupMembershipTypeNone | groupMembershipTypeActiveMember | groupMembershipTypeInactiveMember

definition containsGroupFinalizer :: "GroupID \<Rightarrow> string \<Rightarrow> Ingress \<Rightarrow> bool" where
  "containsGroupFinalizer groupID finalizer ing =
     (if IsExplicit groupID then HasFinalizer (ingMeta ing) finalizer
      else NewGroupIDForImplicitGroup (ing_key ing) = groupID \<and> HasFinalizer (ingMeta ing) finalizer)"

text \<open>Next to the type, the ingress as loaded; the classification is used for active members only.\<close>

definition checkGroupMembershipType ::
  "'w defaultGroupLoader \<Rightarrow> GroupID \<Rightarrow> Ingress \<Rightarrow> ('w, groupMembershipType \<times> ClassifiedIngress) io" where
  "checkGroupMembershipType m groupID ing w =
     (let hasGroupFinalizer = containsGroupFinalizer groupID (buildGroupFinalizer groupID) ing in
      case loadGroupIDIfAnyHelper m None ing w of
        ((ci, Inl err), w') \<Rightarrow>
          (if errors_Is err ErrInvalidIngressClass then
             (if hasGroupFinalizer then Inl (Wrap err ''Ingress has invalid IngressClass configuration'')
              else Inr (groupMembershipTypeNone, ci))
           else if errors_Is err errInvalidIngressGroup then
             Inr (if hasGroupFinalizer then groupMembershipTypeInactiveMember else groupMembershipTypeNone, ci)
           else Inl err, w')
      | ((ci, Inr ingGroupID), w') \<Rightarrow>
          (Inr (if ingGroupID = Some groupID then groupMembershipTypeActiveMember
                else if hasGroupFinalizer then groupMembershipTypeInactiveMember
                else groupMembershipTypeNone, ci), w'))"

definition member_order :: "'w defaultGroupLoader \<Rightarrow> ClassifiedIngress \<Rightarrow> (ClassifiedIngress \<times> int) result" where
  "member_order m member =
     (case ParseInt64Annotation (glAnnotationParser m) IngressSuffixGroupOrder (ing_annotations (ciIng member)) [] of
        Inl err \<Rightarrow> Inl (Wrap err (''failed to load Ingress group order for ingress: '' @ NamespacedName_String (ing_key (ciIng member))))
      | Inr None \<Rightarrow> Inr (member, defaultGroupOrder)
      | Inr (Some order) \<Rightarrow>
          if order < minGroupOrder \<or> order > maxGroupOder
          then Inl (Errorf ''explicit Ingress group order must be within [%v:%v], Ingress: %v, order: %v''
                 [Itoa minGroupOrder, Itoa maxGroupOder, NamespacedName_String (ing_key (ciIng member)), Itoa order])
          else Inr (member, order))"

definition before_member :: "ClassifiedIngress \<times> int \<Rightarrow> ClassifiedIngress \<times> int \<Rightarrow> bool" where
  "before_member a b =
     (if snd a \<noteq> snd b then snd a < snd b
      else NamespacedName_String (ing_key (ciIng (fst a))) < NamespacedName_String (ing_key (ciIng (fst b))))"

definition sortGroupMembers :: "'w defaultGroupLoader \<Rightarrow> ClassifiedIngress list \<Rightarrow> ClassifiedIngress list result" where
  "sortGroupMembers m members =
     result_bind (result_mapM (member_order m) members) (\<lambda>withOrder. Inr (map fst (glSlice m before_member withOrder)))"

definition load_step ::
  "'w defaultGroupLoader \<Rightarrow> GroupID \<Rightarrow> ClassifiedIngress list \<times> Ingress list \<Rightarrow> Ingress \<Rightarrow> ('w, ClassifiedIngress list \<times> Ingress list) io" where
  "load_step m groupID acc ing w =
     (case checkGroupMembershipType m groupID ing w of
        (Inl err, w') \<Rightarrow> (Inl (Wrap err (''Ingress: '' @ NamespacedName_String (ing_key ing))), w')
      | (Inr (t, ci), w') \<Rightarrow>
          (Inr (case t of
             groupMembershipTypeActiveMember \<Rightarrow> (fst acc @ [ci], snd acc)
           | groupMembershipTypeInactiveMember \<Rightarrow> (fst acc, snd acc @ [ciIng ci])
           | groupMembershipTypeNone \<Rightarrow> acc), w'))"

definition Group_Load :: "'w defaultGroupLoader \<Rightarrow> GroupID \<Rightarrow> ('w, Group) io" where
  "Group_Load m groupID =
     io_bind (glListIngresses m) (\<lambda>items.
     io_bind (io_foldM (load_step m groupID) ([], []) items) (\<lambda>(members, inactiveMembers).
     io_bind (io_lift (sortGroupMembers m members)) (\<lambda>sortedMembers.
     io_return \<lparr>grpID = groupID, grpMembers = sortedMembers, grpInactiveMembers = inactiveMembers\<rparr>)))"

section \<open>The members of a group\<close>

text \<open>What the loader finds for an ingress in a world.\<close>

definition classified :: "'w defaultGroupLoader \<Rightarrow> 'w \<Rightarrow> Ingress \<Rightarrow> ClassifiedIngress" where
  "classified m w ing = fst (fst (loadGroupIDIfAnyHelper m None ing w))"

definition group_of :: "'w defaultGroupLoader \<Rightarrow> 'w \<Rightarrow> Ingress \<Rightarrow> GroupID option" where
  "group_of m w ing = (case snd (fst (loadGroupIDIfAnyHelper m None ing w)) of Inr g \<Rightarrow> g | Inl _ \<Rightarrow> None)"

definition order_of :: "'w defaultGroupLoader \<Rightarrow> ClassifiedIngress \<Rightarrow> int" where
  "order_of m ci =
     (case ParseInt64Annotation (glAnnotationParser m) IngressSuffixGroupOrder (ing_annotations (ciIng ci)) [] of
        Inr (Some i) \<Rightarrow> i | _ \<Rightarrow> 0)"

definition member_le :: "'w defaultGroupLoader \<Rightarrow> ClassifiedIngress \<Rightarrow> ClassifiedIngress \<Rightarrow> bool" where
  "member_le m a b \<longleftrightarrow> order_of m a < order_of m b \<or> order_of m a = order_of m b \<and>
     NamespacedName_String (ing_key (ciIng a)) \<le> NamespacedName_String (ing_key (ciIng b))"

lemma ClassLoader_Load_meta: "ingMeta (fst (fst (ClassLoader_Load l a ing w))) = ingMeta ing"
  by (auto simp: ClassLoader_Load_def Let_def split: option.splits prod.splits sum.splits)

lemma classified_meta: "ingMeta (ciIng (classified m w ing)) = ingMeta ing"
proof -
  have "ingMeta (ciIng (fst (fst (classifyIngress m None ing w)))) = ingMeta ing"
    using ClassLoader_Load_meta [of "glClassLoader m" None ing w]
    by (auto simp: classifyIngress_def split: option.splits prod.splits sum.splits)
  then show ?thesis
    by (auto simp: classified_def loadGroupIDIfAnyHelper_def split: prod.splits sum.splits)
qed

lemma check_member:
  assumes "checkGroupMembershipType m gid ing w = (Inr (t, ci), w')"
  shows "ci = classified m w ing \<and> t = (if group_of m w ing = Some gid then groupMembershipTypeActiveMember
     else if containsGroupFinalizer gid (buildGroupFinalizer gid) ing then groupMembershipTypeInactiveMember
     else groupMembershipTypeNone)"
  using assms
  by (auto simp: checkGroupMembershipType_def classified_def group_of_def Let_def split: prod.splits sum.splits if_splits)

lemma check_world: "snd (checkGroupMembershipType m gid ing w) = snd (loadGroupIDIfAnyHelper m None ing w)"
  by (auto simp: checkGroupMembershipType_def Let_def split: prod.splits sum.splits)

lemma load_fold:
  assumes "io_foldM (load_step m gid) acc items w = (Inr (members, inactive), w')"
    and "\<forall>ing. snd (loadGroupIDIfAnyHelper m None ing w) = w"
  shows "members = fst acc @ map (classified m w) (filter (\<lambda>ing. group_of m w ing = Some gid) items) \<and>
    inactive = snd acc @ map (\<lambda>ing. ciIng (classified m w ing)) (filter (\<lambda>ing. group_of m w ing \<noteq> Some gid \<and>
      containsGroupFinalizer gid (buildGroupFinalizer gid) ing) items)"
  using assms
proof (induction items arbitrary: acc)
  case Nil
  then show ?case by (auto simp: io_return_def)
next
  case (Cons ing items)
  from Cons.prems(1) obtain acc1 w1 where s: "load_step m gid acc ing w = (Inr acc1, w1)"
    and k: "io_foldM (load_step m gid) acc1 items w1 = (Inr (members, inactive), w')"
    by (auto dest!: io_bind_InrD)
  from s obtain t ci where c: "checkGroupMembershipType m gid ing w = (Inr (t, ci), w1)"
    and acc1: "acc1 = (case t of groupMembershipTypeActiveMember \<Rightarrow> (fst acc @ [ci], snd acc)
           | groupMembershipTypeInactiveMember \<Rightarrow> (fst acc, snd acc @ [ciIng ci]) | groupMembershipTypeNone \<Rightarrow> acc)"
    by (auto simp: load_step_def split: prod.splits sum.splits)
  have "w1 = w" using check_world [of m gid ing w] c Cons.prems(2) by simp
  with Cons.IH [of acc1] k Cons.prems(2) check_member [OF c] acc1 show ?case by auto
qed

lemma before_member_weak: "strict_weak before_member"
  unfolding strict_weak_def before_member_def by (auto split: if_splits)

lemma sortGroupMembers_sorted:
  assumes "sortGroupMembers m members = Inr xs" and S: "sorts_slices (glSlice m)"
  shows "mset xs = mset members \<and> sorted_wrt (member_le m) xs"
proof -
  from assms(1) obtain ws where ws: "list_all2 (\<lambda>x y. member_order m x = Inr y) members ws"
    and xs: "xs = map fst (glSlice m before_member ws)"
    by (auto simp: sortGroupMembers_def result_mapM_Inr result_bind_def split: sum.splits)
  have one: "y = (x, order_of m x)" if "member_order m x = Inr y" for x y
    using that by (auto simp: member_order_def order_of_def defaultGroupOrder_def split: sum.splits option.splits if_splits)
  have w: "ws = map (\<lambda>x. (x, order_of m x)) members"
    using ws one by (auto simp: list_eq_iff_nth_eq list_all2_conv_all_nth)
  note srt = sorts_slicesD [OF S before_member_weak, of ws]
  have ord: "snd y = order_of m (fst y)" if "y \<in> set (glSlice m before_member ws)" for y using that srt(2) w by auto
  have "sorted_wrt (member_le m) (map fst (glSlice m before_member ws))"
    unfolding sorted_wrt_map
  proof (rule sorted_wrt_mono_rel [OF _ srt(4)])
    fix x y assume "x \<in> set (glSlice m before_member ws)" "y \<in> set (glSlice m before_member ws)" "\<not> before_member y x"
    then show "member_le m (fst x) (fst y)"
      using ord [of x] ord [of y] by (auto simp: before_member_def member_le_def split: if_splits)
  qed
  moreover have "mset (map fst (glSlice m before_member ws)) = mset members"
    by (simp add: srt(1)) (simp add: w multiset.map_comp comp_def)
  ultimately show ?thesis by (simp add: xs)
qed

lemma Group_Load_run:
  assumes "Group_Load m gid w = (Inr g, w')" "glListIngresses m w = (Inr items, w)"
    "\<forall>ing. snd (loadGroupIDIfAnyHelper m None ing w) = w" "sorts_slices (glSlice m)"
  shows "mset (grpMembers g) = mset (map (classified m w) (filter (\<lambda>ing. group_of m w ing = Some gid) items)) \<and>
    sorted_wrt (member_le m) (grpMembers g) \<and>
    grpInactiveMembers g = map (\<lambda>ing. ciIng (classified m w ing)) (filter (\<lambda>ing. group_of m w ing \<noteq> Some gid \<and>
      containsGroupFinalizer gid (buildGroupFinalizer gid) ing) items)"
proof -
  from assms(1,2) obtain members inactive xs w1 where
    f: "io_foldM (load_step m gid) ([], []) items w = (Inr (members, inactive), w1)"
    and s: "sortGroupMembers m members = Inr xs" "grpMembers g = xs" "grpInactiveMembers g = inactive"
    by (auto simp: Group_Load_def io_lift_def io_return_def dest!: io_bind_InrD)
  from load_fold [OF f assms(3)] sortGroupMembers_sorted [OF s(1) assms(4)] s(2,3) show ?thesis by simp
qed

lemma HasPrefix_append: "HasPrefix s p \<Longrightarrow> s = p @ drop (length p) s"
  by (induction s p rule: HasPrefix.induct) auto

lemma pending_finalizer:
  assumes "gid \<in> set (LoadGroupIDsPendingFinalization ing)" "omNamespace (ingMeta ing) \<noteq> []"
  shows "containsGroupFinalizer gid (buildGroupFinalizer gid) ing"
proof -
  from assms(1) obtain f where f: "f \<in> set (omFinalizers (ingMeta ing))"
    "f = ing_implicitGroupFinalizer \<and> gid = ing_key ing \<or>
     HasPrefix f ing_explicitGroupFinalizerPrefix \<and> gid = NewGroupIDForExplicitGroup (drop (length ing_explicitGroupFinalizerPrefix) f)"
    by (auto simp: LoadGroupIDsPendingFinalization_def NewGroupIDForImplicitGroup_def split: if_splits)
  have has: "HasFinalizer (ingMeta ing) f" using f(1) by (auto simp: HasFinalizer_def list_ex_iff)
  from f(2) show ?thesis
  proof
    assume i: "f = ing_implicitGroupFinalizer \<and> gid = ing_key ing"
    then have "\<not> IsExplicit gid" using assms(2) by (simp add: IsExplicit_def ing_key_def NamespacedName_of_def)
    then show ?thesis using i has by (simp add: containsGroupFinalizer_def buildGroupFinalizer_def NewGroupIDForImplicitGroup_def)
  next
    assume e: "HasPrefix f ing_explicitGroupFinalizerPrefix \<and> gid = NewGroupIDForExplicitGroup (drop (length ing_explicitGroupFinalizerPrefix) f)"
    then have "IsExplicit gid" "buildGroupFinalizer gid = f"
      using HasPrefix_append [of f ing_explicitGroupFinalizerPrefix]
      by (auto simp: IsExplicit_def NewGroupIDForExplicitGroup_def buildGroupFinalizer_def)
    then show ?thesis using has by (simp add: containsGroupFinalizer_def)
  qed
qed

text \<open>C12: Loading a group, with a client whose reads change nothing. The members are the ingresses whose class is
  managed and whose group is this one, none of them is being deleted, and they are sorted by their order and then by
  their names. Every other ingress that holds the finalizer of the group is an inactive member; so an ingress whose finalizers
  name the group is always found, as one or the other and never as both, and its finalizer can be removed.\<close>

theorem group_members:
  assumes "Group_Load m gid w = (Inr g, w')" "glListIngresses m w = (Inr items, w)"
    and "\<forall>ing. snd (loadGroupIDIfAnyHelper m None ing w) = w" "sorts_slices (glSlice m)"
    and ns: "\<forall>ing\<in>set items. omNamespace (ingMeta ing) \<noteq> []" and d: "distinct (map ing_key items)"
  shows "mset (grpMembers g) = mset (map (classified m w) (filter (\<lambda>ing. group_of m w ing = Some gid) items)) \<and>
    sorted_wrt (member_le m) (grpMembers g) \<and>
    (\<forall>ci\<in>set (grpMembers g). omDeletionTimestamp (ingMeta (ciIng ci)) = None) \<and>
    (\<forall>ing\<in>set items. gid \<in> set (LoadGroupIDsPendingFinalization ing) \<longrightarrow>
       ing_key ing \<in> (\<lambda>ci. ing_key (ciIng ci)) ` set (grpMembers g) \<union> ing_key ` set (grpInactiveMembers g)) \<and>
    (\<lambda>ci. ing_key (ciIng ci)) ` set (grpMembers g) \<inter> ing_key ` set (grpInactiveMembers g) = {}"
proof -
  note run = Group_Load_run [OF assms(1-4)]
  have key: "ing_key (ciIng (classified m w ing)) = ing_key ing" for ing by (simp add: ing_key_def classified_meta)
  have live: "omDeletionTimestamp (ingMeta ing) = None" if "group_of m w ing = Some gid" for ing
    using that by (auto simp: group_of_def loadGroupIDIfAnyHelper_def split: if_splits)
  from run have mem: "set (grpMembers g) = classified m w ` {ing \<in> set items. group_of m w ing = Some gid}"
    using mset_eq_setD by fastforce
  from run have ina: "set (grpInactiveMembers g) = (\<lambda>ing. ciIng (classified m w ing)) `
      {ing \<in> set items. group_of m w ing \<noteq> Some gid \<and> containsGroupFinalizer gid (buildGroupFinalizer gid) ing}" by simp
  have inj: "inj_on ing_key (set items)" using d by (simp add: distinct_map)
  have "\<forall>ing\<in>set items. gid \<in> set (LoadGroupIDsPendingFinalization ing) \<longrightarrow>
       ing_key ing \<in> (\<lambda>ci. ing_key (ciIng ci)) ` set (grpMembers g) \<union> ing_key ` set (grpInactiveMembers g)"
    unfolding mem ina image_image key using pending_finalizer ns by blast
  moreover have "(\<lambda>ci. ing_key (ciIng ci)) ` set (grpMembers g) \<inter> ing_key ` set (grpInactiveMembers g) = {}"
    unfolding mem ina image_image key using inj by (auto dest: inj_onD)
  moreover have "\<forall>ci\<in>set (grpMembers g). omDeletionTimestamp (ingMeta (ciIng ci)) = None"
    unfolding mem using live by (auto simp: classified_meta)
  ultimately show ?thesis using run by simp
qed

definition example_ingress :: "string \<Rightarrow> string_map \<Rightarrow> string list \<Rightarrow> Ingress" where
  "example_ingress name annotations finalizers =
     \<lparr>ingMeta = \<lparr>omNamespace = ''ns'', omName = name, omUID = name, omLabels = [], omAnnotations = annotations,
        omFinalizers = finalizers, omGeneration = 1, omDeletionTimestamp = None\<rparr>,
      ingIngressClassName = None, ingDefaultBackend = None, ingTLS = [], ingRules = [], ingLoadBalancerIngress = []\<rparr>"

definition example_class_loader :: "unit defaultClassLoader" where
  "example_class_loader = \<lparr>clListIngressClasses = io_return [], clGetIngressClass = (\<lambda>_. io_fail (ApiStatusError ''NotFound'')),
     clGetIngressClassParams = (\<lambda>_. io_fail (ApiStatusError ''NotFound'')), clGetNamespace = (\<lambda>_. io_fail (ApiStatusError ''NotFound'')),
     clMatches = (\<lambda>_ _. Inr True), clIsNotFound = (\<lambda>e. e = ApiStatusError ''NotFound''), clError = (\<lambda>_. []), clLoadParams = True\<rparr>"

definition example_group_loader :: "Ingress list \<Rightarrow> unit defaultGroupLoader" where
  "example_group_loader items = \<lparr>glListIngresses = io_return items, glAnnotationParser = \<lparr>annotationPrefix = ''alb''\<rparr>,
     glClassLoader = example_class_loader, glIngressClass = [], glManageIngressesWithoutIngressClass = True, glSlice = SliceStable\<rparr>"

theorem group_members_witness:
  "\<exists>g. Group_Load (example_group_loader
       [example_ingress ''b'' [(''alb/group.name'', ''g''), (''alb/group.order'', ''2'')] [], example_ingress ''a'' [(''alb/group.name'', ''g'')] [],
        example_ingress ''c'' [] [''group.ingress.k8s.aws/g'']]) \<lparr>nnNamespace = [], nnName = ''g''\<rparr> () = (Inr g, ()) \<and>
     map (\<lambda>ci. omName (ingMeta (ciIng ci))) (grpMembers g) = [''a'', ''b''] \<and>
     list_all (\<lambda>ci. omDeletionTimestamp (ingMeta (ciIng ci)) = None) (grpMembers g)"
proof -
  let ?items = "[example_ingress ''b'' [(''alb/group.name'', ''g''), (''alb/group.order'', ''2'')] [],
     example_ingress ''a'' [(''alb/group.name'', ''g'')] [], example_ingress ''c'' [] [''group.ingress.k8s.aws/g'']]"
  let ?r = "Group_Load (example_group_loader ?items) \<lparr>nnNamespace = [], nnName = ''g''\<rparr> ()"
  have "case ?r of (Inr g, _) \<Rightarrow> map (\<lambda>ci. omName (ingMeta (ciIng ci))) (grpMembers g) = [''a'', ''b''] | _ \<Rightarrow> False" by code_simp
  then obtain g where g: "?r = (Inr g, ())" "map (\<lambda>ci. omName (ingMeta (ciIng ci))) (grpMembers g) = [''a'', ''b'']"
    by (cases "fst ?r"; cases ?r) auto
  have "glListIngresses (example_group_loader ?items) () = (Inr ?items, ())" by (simp add: example_group_loader_def io_return_def)
  moreover have "sorts_slices (glSlice (example_group_loader ?items))" by (simp add: example_group_loader_def SliceStable_sorts)
  moreover have "\<forall>ing\<in>set ?items. omNamespace (ingMeta ing) \<noteq> []" "distinct (map ing_key ?items)"
    by (simp_all add: example_ingress_def ing_key_def NamespacedName_of_def)
  ultimately show ?thesis using group_members [OF g(1)] g by (auto simp: list_all_iff)
qed

end
