(* ===== verification/Ingress_Rules.thy ===== *)
theory Ingress_Rules
  imports Ingress_Group Elbv2_Model Go_Sort "HOL-Library.Sublist" "HOL-Library.Product_Lexorder"
begin

text \<open>
  Actions and conditions as users write them (\<^verbatim>\<open>config_types.go\<close>), the conditions and the order of the
  rules of a listener (\<^verbatim>\<open>model_build_listener_rules.go\<close>) and the rule optimizer (\<^verbatim>\<open>rule_optimizer.go\<close>) of
  \<^verbatim>\<open>pkg/ingress\<close>. Types of \<^verbatim>\<open>config_types.go\<close> with the same fields as a type of \<^verbatim>\<open>pkg/model/elbv2\<close> share its
  record here. The theorems give the meaning of the path patterns and show that the optimizer keeps the
  routing of every request except those that would be redirected to themselves.
\<close>

section \<open>Actions and conditions of users\<close>

record IngTargetGroupTuple =
  itgTargetGroupARN :: "string option"
  itgServiceName :: "string option"
  itgServicePort :: "IntOrString option"
  itgWeight :: "int option"

record IngForwardActionConfig =
  ifwTargetGroups :: "IngTargetGroupTuple list"
  ifwTargetGroupStickinessConfig :: "TargetGroupStickinessConfig option"

record IngAction =
  iaType :: ActionType
  iaTargetGroupARN :: "string option"
  iaFixedResponseConfig :: "FixedResponseActionConfig option"
  iaRedirectConfig :: "RedirectActionConfig option"
  iaForwardConfig :: "IngForwardActionConfig option"

text \<open>An error of an inner check is wrapped.\<close>

definition wrapping :: "string \<Rightarrow> unit result \<Rightarrow> unit result" where
  "wrapping msg r = (case r of Inl err \<Rightarrow> Inl (Wrap err msg) | Inr _ \<Rightarrow> Inr ())"

fun result_forM :: "('a \<Rightarrow> unit result) \<Rightarrow> 'a list \<Rightarrow> unit result" where
  "result_forM f [] = Inr ()"
| "result_forM f (x # xs) = result_bind (f x) (\<lambda>_. result_forM f xs)"

definition FixedResponseActionConfig_validate :: "FixedResponseActionConfig \<Rightarrow> unit result" where
  "FixedResponseActionConfig_validate c = (if frStatusCode c = [] then Inl (Errorf ''statusCode is required'' []) else Inr ())"

definition RedirectActionConfig_validate :: "RedirectActionConfig \<Rightarrow> unit result" where
  "RedirectActionConfig_validate c = (if rdStatusCode c = [] then Inl (Errorf ''statusCode is required'' []) else Inr ())"

definition TargetGroupTuple_validate :: "IngTargetGroupTuple \<Rightarrow> unit result" where
  "TargetGroupTuple_validate t =
     (if (itgTargetGroupARN t \<noteq> None) = (itgServiceName t \<noteq> None)
      then Inl (Errorf ''precisely one of targetGroupARN and serviceName can be specified'' [])
      else if itgServiceName t \<noteq> None \<and> itgServicePort t = None then Inl (Errorf ''missing servicePort'' [])
      else Inr ())"

definition ForwardActionConfig_validate :: "IngForwardActionConfig \<Rightarrow> unit result" where
  "ForwardActionConfig_validate c =
     result_bind (result_forM (\<lambda>t. wrapping ''invalid TargetGroupTuple'' (TargetGroupTuple_validate t)) (ifwTargetGroups c)) (\<lambda>_.
       if length (ifwTargetGroups c) > 1 \<and> list_ex (\<lambda>t. itgWeight t = None) (ifwTargetGroups c)
       then Inl (Errorf ''weight must be set when route to multiple target groups'' []) else Inr ())"

definition Action_validate :: "IngAction \<Rightarrow> unit result" where
  "Action_validate a =
     (if iaType a = ActionTypeFixedResponse then
        (case iaFixedResponseConfig a of
           None \<Rightarrow> Inl (Errorf ''missing FixedResponseConfig'' [])
         | Some c \<Rightarrow> wrapping ''invalid FixedResponseConfig'' (FixedResponseActionConfig_validate c))
      else if iaType a = ActionTypeRedirect then
        (case iaRedirectConfig a of
           None \<Rightarrow> Inl (Errorf ''missing RedirectConfig'' [])
         | Some c \<Rightarrow> wrapping ''invalid RedirectConfig'' (RedirectActionConfig_validate c))
      else if iaType a = ActionTypeForward then
        (if (iaTargetGroupARN a \<noteq> None) = (iaForwardConfig a \<noteq> None)
         then Inl (Errorf ''precisely one of TargetGroupArn and ForwardConfig can be specified'' [])
         else case iaForwardConfig a of
           None \<Rightarrow> Inr ()
         | Some c \<Rightarrow> wrapping ''invalid ForwardConfig'' (ForwardActionConfig_validate c))
      else Inl (Errorf ''unknown action type: %v'' [iaType a]))"

definition values_validate :: "'a list \<Rightarrow> unit result" where
  "values_validate values = (if values = [] then Inl (Errorf ''values cannot be empty'' []) else Inr ())"

definition HostHeaderConditionConfig_validate :: "HostHeaderConditionConfig \<Rightarrow> unit result" where
  "HostHeaderConditionConfig_validate c = values_validate (hhValues c)"

definition HTTPHeaderConditionConfig_validate :: "HTTPHeaderConditionConfig \<Rightarrow> unit result" where
  "HTTPHeaderConditionConfig_validate c = values_validate (hdValues c)"

definition HTTPRequestMethodConditionConfig_validate :: "HTTPRequestMethodConditionConfig \<Rightarrow> unit result" where
  "HTTPRequestMethodConditionConfig_validate c = values_validate (rmValues c)"

definition PathPatternConditionConfig_validate :: "PathPatternConditionConfig \<Rightarrow> unit result" where
  "PathPatternConditionConfig_validate c = values_validate (ppValues c)"

definition SourceIPConditionConfig_validate :: "SourceIPConditionConfig \<Rightarrow> unit result" where
  "SourceIPConditionConfig_validate c = values_validate (siValues c)"

definition QueryStringKeyValuePair_validate :: "QueryStringKeyValuePair \<Rightarrow> unit result" where
  "QueryStringKeyValuePair_validate c = (if qsValue c = [] then Inl (Errorf ''value cannot be empty'' []) else Inr ())"

definition QueryStringConditionConfig_validate :: "QueryStringConditionConfig \<Rightarrow> unit result" where
  "QueryStringConditionConfig_validate c =
     (if qsValues c = [] then Inl (Errorf ''Values cannot be empty'' []) else result_forM QueryStringKeyValuePair_validate (qsValues c))"

definition validate_config :: "string \<Rightarrow> ('a \<Rightarrow> unit result) \<Rightarrow> 'a option \<Rightarrow> unit result" where
  "validate_config name validate cfg =
     (case cfg of None \<Rightarrow> Inl (Errorf (''missing '' @ name) []) | Some c \<Rightarrow> wrapping (''invalid '' @ name) (validate c))"

definition RuleCondition_Validate :: "RuleCondition \<Rightarrow> unit result" where
  "RuleCondition_Validate c =
     (if rcField c = RuleConditionFieldHostHeader
      then validate_config ''hostHeaderConfig'' HostHeaderConditionConfig_validate (rcHostHeaderConfig c)
      else if rcField c = RuleConditionFieldPathPattern
      then validate_config ''pathPatternConfig'' PathPatternConditionConfig_validate (rcPathPatternConfig c)
      else if rcField c = RuleConditionFieldHTTPHeader
      then validate_config ''httpHeaderConfig'' HTTPHeaderConditionConfig_validate (rcHTTPHeaderConfig c)
      else if rcField c = RuleConditionFieldHTTPRequestMethod
      then validate_config ''httpRequestMethodConfig'' HTTPRequestMethodConditionConfig_validate (rcHTTPRequestMethodConfig c)
      else if rcField c = RuleConditionFieldQueryString
      then validate_config ''queryStringConfig'' QueryStringConditionConfig_validate (rcQueryStringConfig c)
      else if rcField c = RuleConditionFieldSourceIP
      then validate_config ''sourceIPConfig'' SourceIPConditionConfig_validate (rcSourceIPConfig c)
      else Inr ())"

section \<open>Paths\<close>

definition PathTypeExact :: string where "PathTypeExact = ''Exact''"

definition PathTypePrefix :: string where "PathTypePrefix = ''Prefix''"

definition PathTypeImplementationSpecific :: string where "PathTypeImplementationSpecific = ''ImplementationSpecific''"

text \<open>The paths by type: exact, prefix and the others.\<close>

definition classify_path :: "HTTPIngressPath list \<times> HTTPIngressPath list \<times> HTTPIngressPath list \<Rightarrow> HTTPIngressPath \<Rightarrow>
    (HTTPIngressPath list \<times> HTTPIngressPath list \<times> HTTPIngressPath list) result" where
  "classify_path acc path = (case acc of (exacts, prefs, specifics) \<Rightarrow>
     (case hpPathType path of
        None \<Rightarrow> Inr (exacts, prefs, specifics @ [path])
      | Some t \<Rightarrow>
          if t = PathTypeExact then Inr (exacts @ [path], prefs, specifics)
          else if t = PathTypePrefix then Inr (exacts, prefs @ [path], specifics)
          else if t = PathTypeImplementationSpecific then Inr (exacts, prefs, specifics @ [path])
          else Inl (Errorf ''unknown pathType for path %s'' [hpPath path])))"

definition classifyIngressPathsByType ::
  "HTTPIngressPath list \<Rightarrow> (HTTPIngressPath list \<times> HTTPIngressPath list \<times> HTTPIngressPath list) result" where
  "classifyIngressPathsByType paths = result_foldM classify_path ([], [], []) paths"

definition sortIngressPaths :: "HTTPIngressPath list \<Rightarrow> HTTPIngressPath list result" where
  "sortIngressPaths paths =
     result_bind (classifyIngressPathsByType paths) (\<lambda>(exactPaths, prefixPaths, implementationSpecificPaths).
       Inr (exactPaths @ SliceStable (\<lambda>i j. length (hpPath i) > length (hpPath j)) prefixPaths @ implementationSpecificPaths))"

definition ContainsAny :: "string \<Rightarrow> string \<Rightarrow> bool" where
  "ContainsAny s chars = list_ex (\<lambda>c. c \<in> set chars) s"

definition TrimSuffix :: "string \<Rightarrow> char \<Rightarrow> string" where
  "TrimSuffix s c = (if s \<noteq> [] \<and> last s = c then butlast s else s)"

definition buildPathPatternsForImplementationSpecificPathType :: "string \<Rightarrow> string list result" where
  "buildPathPatternsForImplementationSpecificPathType path = Inr [path]"

definition buildPathPatternsForExactPathType :: "string \<Rightarrow> string list result" where
  "buildPathPatternsForExactPathType path =
     (if ContainsAny path ''*?'' then Inl (Errorf ''exact path shouldn't contain wildcards: %v'' [path]) else Inr [path])"

definition buildPathPatternsForPrefixPathType :: "string \<Rightarrow> string list result" where
  "buildPathPatternsForPrefixPathType path =
     (if path = ''/'' then Inr [''/*'']
      else if ContainsAny path ''*?'' then Inl (Errorf ''prefix path shouldn't contain wildcards: %v'' [path])
      else let normalizedPath = TrimSuffix path CHR ''/'' in Inr [normalizedPath, normalizedPath @ ''/*''])"

definition buildPathPatterns :: "string \<Rightarrow> string option \<Rightarrow> string list result" where
  "buildPathPatterns path pathType =
     (let t = with_default PathTypeImplementationSpecific pathType in
      if t = PathTypeImplementationSpecific then buildPathPatternsForImplementationSpecificPathType path
      else if t = PathTypeExact then buildPathPatternsForExactPathType path
      else if t = PathTypePrefix then buildPathPatternsForPrefixPathType path
      else Inl (Errorf ''unsupported pathType: %v'' [t]))"

section \<open>Conditions of a rule\<close>

definition no_condition :: "RuleConditionField \<Rightarrow> RuleCondition" where
  "no_condition field = \<lparr>rcField = field, rcHostHeaderConfig = None, rcHTTPHeaderConfig = None, rcHTTPRequestMethodConfig = None,
     rcPathPatternConfig = None, rcQueryStringConfig = None, rcSourceIPConfig = None\<rparr>"

definition buildHTTPHeaderCondition :: "RuleCondition \<Rightarrow> RuleCondition result" where
  "buildHTTPHeaderCondition condition =
     (case rcHTTPHeaderConfig condition of
        None \<Rightarrow> Inl (Errorf ''missing HTTPHeaderConfig'' [])
      | Some c \<Rightarrow> Inr ((no_condition RuleConditionFieldHTTPHeader)\<lparr>rcHTTPHeaderConfig :=
            Some \<lparr>HTTPHeaderName = HTTPHeaderName c, hdValues = hdValues c\<rparr>\<rparr>))"

definition buildHTTPRequestMethodCondition :: "RuleCondition \<Rightarrow> RuleCondition result" where
  "buildHTTPRequestMethodCondition condition =
     (case rcHTTPRequestMethodConfig condition of
        None \<Rightarrow> Inl (Errorf ''missing HTTPRequestMethodConfig'' [])
      | Some c \<Rightarrow> Inr ((no_condition RuleConditionFieldHTTPRequestMethod)\<lparr>rcHTTPRequestMethodConfig := Some \<lparr>rmValues = rmValues c\<rparr>\<rparr>))"

definition buildQueryStringCondition :: "RuleCondition \<Rightarrow> RuleCondition result" where
  "buildQueryStringCondition condition =
     (case rcQueryStringConfig condition of
        None \<Rightarrow> Inl (Errorf ''missing QueryStringConfig'' [])
      | Some c \<Rightarrow> Inr ((no_condition RuleConditionFieldQueryString)\<lparr>rcQueryStringConfig :=
            Some \<lparr>qsValues = map (\<lambda>v. \<lparr>qsKey = qsKey v, qsValue = qsValue v\<rparr>) (qsValues c)\<rparr>\<rparr>))"

definition buildSourceIPCondition :: "RuleCondition \<Rightarrow> RuleCondition result" where
  "buildSourceIPCondition condition =
     (case rcSourceIPConfig condition of
        None \<Rightarrow> Inl (Errorf ''missing SourceIPConfig'' [])
      | Some c \<Rightarrow> Inr ((no_condition RuleConditionFieldSourceIP)\<lparr>rcSourceIPConfig := Some \<lparr>siValues = siValues c\<rparr>\<rparr>))"

definition buildHostHeaderCondition :: "string list \<Rightarrow> RuleCondition" where
  "buildHostHeaderCondition hosts = (no_condition RuleConditionFieldHostHeader)\<lparr>rcHostHeaderConfig := Some \<lparr>hhValues = hosts\<rparr>\<rparr>"

definition buildPathPatternCondition :: "string list \<Rightarrow> RuleCondition" where
  "buildPathPatternCondition paths = (no_condition RuleConditionFieldPathPattern)\<lparr>rcPathPatternConfig := Some \<lparr>ppValues = paths\<rparr>\<rparr>"

text \<open>One condition of the annotation adds hosts, paths or a condition.\<close>

definition condition_step :: "string list \<times> string list \<times> RuleCondition list \<Rightarrow> RuleCondition \<Rightarrow>
    (string list \<times> string list \<times> RuleCondition list) result" where
  "condition_step acc condition = (case acc of (hosts, paths, conditions) \<Rightarrow>
     let add = (\<lambda>r. result_bind r (\<lambda>c. Inr (hosts, paths, conditions @ [c]))) in
     if rcField condition = RuleConditionFieldHostHeader then
       (case rcHostHeaderConfig condition of
          None \<Rightarrow> Inl (Errorf ''missing HostHeaderConfig'' [])
        | Some c \<Rightarrow> Inr (hosts @ hhValues c, paths, conditions))
     else if rcField condition = RuleConditionFieldPathPattern then
       (case rcPathPatternConfig condition of
          None \<Rightarrow> Inl (Errorf ''missing PathPatternConfig'' [])
        | Some c \<Rightarrow> Inr (hosts, paths @ ppValues c, conditions))
     else if rcField condition = RuleConditionFieldHTTPHeader then add (buildHTTPHeaderCondition condition)
     else if rcField condition = RuleConditionFieldHTTPRequestMethod then add (buildHTTPRequestMethodCondition condition)
     else if rcField condition = RuleConditionFieldQueryString then add (buildQueryStringCondition condition)
     else if rcField condition = RuleConditionFieldSourceIP then add (buildSourceIPCondition condition)
     else Inr acc)"

definition buildRuleConditions :: "IngressRule \<Rightarrow> HTTPIngressPath \<Rightarrow> RuleCondition list \<Rightarrow> RuleCondition list result" where
  "buildRuleConditions rule path backendConditions =
     (let hosts = (if irHost rule \<noteq> [] then [irHost rule] else []) in
      result_bind (if hpPath path \<noteq> [] then buildPathPatterns (hpPath path) (hpPathType path) else Inr []) (\<lambda>paths.
      result_bind (result_foldM condition_step (hosts, paths, []) backendConditions) (\<lambda>(hosts, paths, conditions).
        let conditions = conditions @ (if hosts \<noteq> [] then [buildHostHeaderCondition hosts] else []);
            conditions = conditions @ (if paths \<noteq> [] then [buildPathPatternCondition paths] else [])
        in Inr (if conditions = [] then [buildPathPatternCondition [''/*'']] else conditions))))"

section \<open>The rule optimizer\<close>

record Rule =
  rlConditions :: "RuleCondition list"
  rlActions :: "Action list"
  rlTags :: string_map

definition findRedirectActionConfig :: "Action list \<Rightarrow> RedirectActionConfig option" where
  "findRedirectActionConfig actions =
     (case List.find (\<lambda>action. actType action = ActionTypeRedirect) actions of None \<Rightarrow> None | Some a \<Rightarrow> actRedirectConfig a)"

text \<open>The hosts and the paths a list of conditions names.\<close>

definition host_values :: "RuleCondition \<Rightarrow> string list" where
  "host_values c = (case rcHostHeaderConfig c of
      Some cfg \<Rightarrow> if rcField c = RuleConditionFieldHostHeader then hhValues cfg else []
    | None \<Rightarrow> [])"

definition path_values :: "RuleCondition \<Rightarrow> string list" where
  "path_values c = (case rcPathPatternConfig c of
      Some cfg \<Rightarrow> if rcField c = RuleConditionFieldPathPattern then ppValues cfg else []
    | None \<Rightarrow> [])"

definition rule_hosts :: "RuleCondition list \<Rightarrow> string set" where
  "rule_hosts conditions = set (concat (map host_values conditions))"

definition rule_paths :: "RuleCondition list \<Rightarrow> string set" where
  "rule_paths conditions = set (concat (map path_values conditions))"

definition isInfiniteRedirectRule :: "int \<Rightarrow> Protocol \<Rightarrow> Rule \<Rightarrow> bool" where
  "isInfiniteRedirectRule port protocol rule =
     (case findRedirectActionConfig (rlActions rule) of
        None \<Rightarrow> False
      | Some cfg \<Rightarrow>
          (case rdHost cfg of None \<Rightarrow> True | Some h \<Rightarrow> h = ''#{host}'' \<or> h \<in> rule_hosts (rlConditions rule)) \<and>
          (case rdPath cfg of None \<Rightarrow> True | Some p \<Rightarrow> p = ''/#{path}'' \<or> p \<in> rule_paths (rlConditions rule)) \<and>
          (case rdPort cfg of None \<Rightarrow> True | Some p \<Rightarrow> p = ''#{port}'' \<or> p = Itoa port) \<and>
          (case rdProtocol cfg of None \<Rightarrow> True | Some p \<Rightarrow> p = ''#{protocol}'' \<or> p = protocol) \<and>
          (case rdQuery cfg of None \<Rightarrow> True | Some q \<Rightarrow> q = ''#{query}''))"

definition host_or_path :: "RuleCondition \<Rightarrow> bool" where
  "host_or_path c \<longleftrightarrow> rcField c = RuleConditionFieldHostHeader \<and> rcHostHeaderConfig c \<noteq> None \<or>
     rcField c = RuleConditionFieldPathPattern \<and> rcPathPatternConfig c \<noteq> None"

definition isSupersetConditions :: "RuleCondition list \<Rightarrow> RuleCondition list \<Rightarrow> bool" where
  "isSupersetConditions lhs rhs \<longleftrightarrow>
     list_all host_or_path lhs \<and>
     (rule_hosts lhs = {} \<or> rule_hosts rhs \<noteq> {} \<and> rule_hosts rhs \<subseteq> rule_hosts lhs) \<and>
     (rule_paths lhs = {} \<or> ''/*'' \<in> rule_paths lhs \<or> rule_paths rhs \<noteq> {} \<and> rule_paths rhs \<subseteq> rule_paths lhs)"

definition omitInfiniteRedirectRules :: "int \<Rightarrow> Protocol \<Rightarrow> Rule list \<Rightarrow> Rule list" where
  "omitInfiniteRedirectRules port protocol rules = filter (\<lambda>rule. \<not> isInfiniteRedirectRule port protocol rule) rules"

definition overshadow_step :: "Rule \<Rightarrow> Rule list \<Rightarrow> Rule list" where
  "overshadow_step rule optimized =
     (if list_ex (\<lambda>existing. findRedirectActionConfig (rlActions existing) \<noteq> None \<and>
          isSupersetConditions (rlConditions existing) (rlConditions rule)) optimized
      then optimized else optimized @ [rule])"

definition omitOvershadowedRulesAfterRedirectRules :: "Rule list \<Rightarrow> Rule list" where
  "omitOvershadowedRulesAfterRedirectRules rules = fold overshadow_step rules []"

definition Optimize :: "int \<Rightarrow> Protocol \<Rightarrow> Rule list \<Rightarrow> Rule list" where
  "Optimize port protocol rules = omitOvershadowedRulesAfterRedirectRules (omitInfiniteRedirectRules port protocol rules)"

section \<open>What a rule matches\<close>

text \<open>
  Elastic Load Balancing matches a value of a host or path condition against the request with the
  wildcards \<^verbatim>\<open>*\<close> (any characters) and \<^verbatim>\<open>?\<close> (one character); hosts are compared without regard to case. The
  other kinds of conditions are a predicate on what is left of the request.
\<close>

fun wild :: "string \<Rightarrow> string \<Rightarrow> bool" where
  "wild [] s \<longleftrightarrow> s = []"
| "wild (c # p) [] \<longleftrightarrow> c = CHR ''*'' \<and> wild p []"
| "wild (c # p) (d # s) \<longleftrightarrow> (if c = CHR ''*'' then wild p (d # s) \<or> wild (c # p) s else (c = CHR ''?'' \<or> c = d) \<and> wild p s)"

record 'r request =
  rqProtocol :: string
  rqHost :: string
  rqPort :: string
  rqPath :: string
  rqQuery :: string
  rqOther :: 'r

type_synonym 'r other_conditions = "RuleCondition \<Rightarrow> string \<Rightarrow> 'r \<Rightarrow> bool"

definition cond_holds :: "'r other_conditions \<Rightarrow> 'r request \<Rightarrow> RuleCondition \<Rightarrow> bool" where
  "cond_holds other q c \<longleftrightarrow>
     (if rcField c = RuleConditionFieldHostHeader then list_ex (\<lambda>v. wild (ToLower v) (ToLower (rqHost q))) (host_values c)
      else if rcField c = RuleConditionFieldPathPattern then list_ex (\<lambda>v. wild v (rqPath q)) (path_values c)
      else other c (rqQuery q) (rqOther q))"

definition rule_matches :: "'r other_conditions \<Rightarrow> 'r request \<Rightarrow> Rule \<Rightarrow> bool" where
  "rule_matches other q r \<longleftrightarrow> list_all (cond_holds other q) (rlConditions r)"

text \<open>The first rule that matches decides.\<close>

definition routed_by :: "'r other_conditions \<Rightarrow> Rule list \<Rightarrow> 'r request \<Rightarrow> Rule option" where
  "routed_by other rules q = List.find (rule_matches other q) rules"

text \<open>
  The request a redirect sends the client to: a component that is not given is kept, and the reserved
  words stand for the components of the original request, the path without its leading slash.
\<close>

definition reserved :: "'r request \<Rightarrow> (string \<times> string) list" where
  "reserved q = [(''#{protocol}'', rqProtocol q), (''#{host}'', rqHost q), (''#{port}'', rqPort q),
     (''#{path}'', tl (rqPath q)), (''#{query}'', rqQuery q)]"

function expand :: "(string \<times> string) list \<Rightarrow> string \<Rightarrow> string" where
  "expand ws [] = []"
| "expand ws (c # s) =
     (case List.find (\<lambda>(w, _). w \<noteq> [] \<and> HasPrefix (c # s) w) ws of
        None \<Rightarrow> c # expand ws s
      | Some (w, v) \<Rightarrow> v @ expand ws (drop (length w) (c # s)))"
  by pat_completeness auto
termination by (relation "measure (length \<circ> snd)") (auto simp: find_Some_iff)

definition redirected :: "RedirectActionConfig \<Rightarrow> 'r request \<Rightarrow> 'r request" where
  "redirected cfg q =
     (let comp = (\<lambda>v default. expand (reserved q) (with_default default v)) in
      q\<lparr>rqProtocol := comp (rdProtocol cfg) ''#{protocol}'', rqHost := comp (rdHost cfg) ''#{host}'',
        rqPort := comp (rdPort cfg) ''#{port}'', rqPath := comp (rdPath cfg) ''/#{path}'',
        rqQuery := comp (rdQuery cfg) ''#{query}''\<rparr>)"

section \<open>Wildcards\<close>

lemma wild_refl: "wild s s"
  by (induction s) (auto elim: wild.elims)

lemma wild_star: "wild ''*'' s"
  by (induction s) auto

lemma wild_literal: "\<not> ContainsAny p ''*?'' \<Longrightarrow> wild p s \<longleftrightarrow> s = p"
  by (induction p s rule: wild.induct) (auto simp: ContainsAny_def)

lemma wild_literal_append:
  "\<not> ContainsAny p ''*?'' \<Longrightarrow> wild (p @ q) s \<longleftrightarrow> (\<exists>t. s = p @ t \<and> wild q t)"
proof (induction p arbitrary: s)
  case (Cons c p)
  then show ?case by (cases s) (auto simp: ContainsAny_def)
qed simp

lemma ContainsAny_TrimSuffix: "\<not> ContainsAny p chars \<Longrightarrow> \<not> ContainsAny (TrimSuffix p c) chars"
  by (auto simp: ContainsAny_def TrimSuffix_def list_ex_iff dest: in_set_butlastD)

text \<open>The parts of a path start with the parts of another iff the other ends at a slash or at the end.\<close>

lemma split_char_hd: "c \<notin> set w \<Longrightarrow> (\<exists>ws. split_char c s = w # ws) \<longleftrightarrow> s = w \<or> (\<exists>t. s = w @ c # t)"
proof
  assume c: "c \<notin> set w" and "\<exists>ws. split_char c s = w # ws"
  then obtain ws where "split_char c s = w # ws" by blast
  then show "s = w \<or> (\<exists>t. s = w @ c # t)"
    by (induction s arbitrary: w ws) (auto split: if_splits list.splits)
qed (auto simp: split_char_append split_char_single)

lemma split_char_cases:
  obtains "c \<notin> set s" "split_char c s = [s]"
  | w t where "c \<notin> set w" "s = w @ c # t" "split_char c s = w # split_char c t"
  by (metis split_list_first split_char_append split_char_single)

lemma append_sep_eq:
  "c \<notin> set w \<Longrightarrow> c \<notin> set w' \<Longrightarrow> w' @ c # t' = w @ c # u \<longleftrightarrow> w' = w \<and> t' = u"
proof (induction w' arbitrary: w)
  case Nil
  then show ?case by (cases w) auto
next
  case (Cons a w')
  then show ?case by (cases w) auto
qed

lemma split_char_prefix:
  "prefix (split_char c p) (split_char c s) \<longleftrightarrow> s = p \<or> (\<exists>t. s = p @ c # t)"
proof (induction "length p" arbitrary: p s rule: less_induct)
  case less
  show ?case
  proof (cases c p rule: split_char_cases)
    case 1
    have "prefix [p] (split_char c s) \<longleftrightarrow> (\<exists>ws. split_char c s = p # ws)"
      by (auto simp: prefix_def)
    then show ?thesis using 1 split_char_hd [of c p s] by simp
  next
    case (2 w t)
    show ?thesis
    proof (cases c s rule: split_char_cases)
      case 1
      then show ?thesis using 2 by (auto simp: prefix_def)
    next
      case s: (2 w' t')
      have eq: "w' @ c # t' = w @ c # u \<longleftrightarrow> w' = w \<and> t' = u" for u
        using 2(1) s(1) by (rule append_sep_eq)
      have "prefix (split_char c p) (split_char c s) \<longleftrightarrow> w = w' \<and> (t' = t \<or> (\<exists>u. t' = t @ c # u))"
        using less [of t t'] 2 s by simp
      then show ?thesis using 2 s eq by auto
    qed
  qed
qed

section \<open>Path patterns\<close>

text \<open>
  When a request path is matched by a path of an ingress: an exact path is the request path, the elements
  of a prefix path are the first elements of the request path, and another path is a pattern.
\<close>

definition ingress_path_matches :: "string \<Rightarrow> string option \<Rightarrow> string \<Rightarrow> bool" where
  "ingress_path_matches path pathType r \<longleftrightarrow>
     (if pathType = Some PathTypeExact then r = path
      else if pathType = Some PathTypePrefix
      then prefix (split_char CHR ''/'' (TrimSuffix path CHR ''/'')) (split_char CHR ''/'' r)
      else wild path r)"

lemmas path_type_defs = PathTypeExact_def PathTypePrefix_def PathTypeImplementationSpecific_def

lemmas path_pattern_defs = buildPathPatterns_def buildPathPatternsForExactPathType_def
  buildPathPatternsForPrefixPathType_def buildPathPatternsForImplementationSpecificPathType_def

lemma prefix_patterns_match:
  assumes "buildPathPatternsForPrefixPathType path = Inr patterns" "r = CHR ''/'' # r'"
  shows "list_ex (\<lambda>p. wild p r) patterns \<longleftrightarrow>
    prefix (split_char CHR ''/'' (TrimSuffix path CHR ''/'')) (split_char CHR ''/'' r)"
proof (cases "path = ''/''")
  case True
  then have "patterns = [''/*'']" and "TrimSuffix path CHR ''/'' = []"
    using assms(1) by (auto simp: buildPathPatternsForPrefixPathType_def TrimSuffix_def)
  then show ?thesis using assms(2) wild_star [of r'] by (auto simp: prefix_def)
next
  case False
  let ?n = "TrimSuffix path CHR ''/''"
  have p: "patterns = [?n, ?n @ ''/*'']" and "\<not> ContainsAny path ''*?''"
    using assms(1) False by (auto simp: buildPathPatternsForPrefixPathType_def Let_def split: if_splits)
  then have n: "\<not> ContainsAny ?n ''*?''" by (simp add: ContainsAny_TrimSuffix)
  have "wild ''/*'' t \<longleftrightarrow> (\<exists>u. t = CHR ''/'' # u)" for t
    by (cases t) (auto simp: wild_star)
  then have "wild (?n @ ''/*'') r \<longleftrightarrow> (\<exists>u. r = ?n @ CHR ''/'' # u)"
    using wild_literal_append [OF n, of "''/*''" r] by auto
  then show ?thesis using p wild_literal [OF n, of r] split_char_prefix [of "CHR ''/''" ?n r] by simp
qed

text \<open>C14: The path patterns built for a path of an ingress match a request path exactly when the type of the
  path says so: an exact path matches itself, and a prefix path matches element by element, so that
  \<^verbatim>\<open>/foo\<close> and \<^verbatim>\<open>/foo/\<close> match \<^verbatim>\<open>/foo\<close>, \<^verbatim>\<open>/foo/\<close> and \<^verbatim>\<open>/foo/bar\<close> but never \<^verbatim>\<open>/foobar\<close>; a path of
  type implementation specific, or without a type, is the pattern itself. Patterns are built exactly for these
  types and, of types exact and prefix, for paths without a wildcard character: a path of these types with one is
  refused, and so is every path of an unknown type, with an error that names the type.
\<close>

theorem path_patterns_match:
  fixes pathType :: "string option"
  assumes "r \<noteq> []" "hd r = CHR ''/''"
  defines "untyped \<equiv> pathType \<in> {None, Some PathTypeImplementationSpecific}"
    and "literal \<equiv> pathType \<in> {Some PathTypeExact, Some PathTypePrefix}"
  shows "case buildPathPatterns path pathType of
      Inr patterns \<Rightarrow> (untyped \<or> literal \<and> \<not> ContainsAny path ''*?'') \<and>
        (list_ex (\<lambda>p. wild p r) patterns \<longleftrightarrow> ingress_path_matches path pathType r)
    | Inl err \<Rightarrow> \<not> untyped \<and> (literal \<longrightarrow> ContainsAny path ''*?'') \<and>
        (\<not> literal \<longrightarrow> err = Errorf ''unsupported pathType: %v'' [the pathType])"
proof -
  obtain r' where r: "r = CHR ''/'' # r'" using assms(1,2) by (cases r) auto
  note match = prefix_patterns_match [of path _ r, OF _ r] wild_literal [of path r]
  consider "pathType = None \<or> pathType = Some PathTypeImplementationSpecific" | "pathType = Some PathTypeExact"
    | "pathType = Some PathTypePrefix" | "pathType \<notin> {None, Some PathTypeImplementationSpecific, Some PathTypeExact, Some PathTypePrefix}"
    by blast
  then show ?thesis
  proof cases
    case 3
    then have "buildPathPatterns path pathType = buildPathPatternsForPrefixPathType path"
      by (simp add: buildPathPatterns_def path_type_defs with_default_def)
    moreover have "\<not> ContainsAny ''/'' ''*?''" by code_simp
    ultimately show ?thesis
      using 3 match(1) by (cases "buildPathPatternsForPrefixPathType path")
        (auto simp: untyped_def literal_def ingress_path_matches_def path_type_defs buildPathPatternsForPrefixPathType_def Let_def split: if_splits)
  next
    case 4
    then obtain y where "pathType = Some y" "y \<noteq> PathTypeExact" "y \<noteq> PathTypePrefix" "y \<noteq> PathTypeImplementationSpecific"
      by (cases pathType) auto
    then show ?thesis by (simp add: untyped_def literal_def buildPathPatterns_def with_default_def)
  qed (use match(2) in \<open>auto simp: untyped_def literal_def path_pattern_defs ingress_path_matches_def path_type_defs with_default_def\<close>)
qed

theorem path_patterns_match_witness:
  "buildPathPatterns ''/foo/'' (Some PathTypePrefix) = Inr [''/foo'', ''/foo/*''] \<and>
   \<not> ingress_path_matches ''/foo/'' (Some PathTypePrefix) ''/foobar'' \<and>
   buildPathPatterns ''/foo'' (Some ''Regex'') = Inl (Errorf ''unsupported pathType: %v'' [''Regex''])"
proof -
  have build: "buildPathPatterns ''/foo/'' (Some PathTypePrefix) = Inr [''/foo'', ''/foo/*'']" by code_simp
  have "\<not> list_ex (\<lambda>p. wild p ''/foobar'') [''/foo'', ''/foo/*'']" by simp
  then have "\<not> ingress_path_matches ''/foo/'' (Some PathTypePrefix) ''/foobar''"
    using path_patterns_match [where r = "''/foobar''" and path = "''/foo/''" and pathType = "Some PathTypePrefix"] build by simp
  moreover have "buildPathPatterns ''/foo'' (Some ''Regex'') = Inl (Errorf ''unsupported pathType: %v'' [''Regex''])"
    using path_patterns_match [where r = "''/foo''" and path = "''/foo''" and pathType = "Some ''Regex''"]
    by (cases "buildPathPatterns ''/foo'' (Some ''Regex'')") (simp_all add: path_type_defs)
  ultimately show ?thesis using build by simp
qed

section \<open>The order of paths\<close>

text \<open>Exact paths, prefix paths by decreasing length, and the others.\<close>

definition path_rank :: "HTTPIngressPath \<Rightarrow> nat \<times> int" where
  "path_rank p =
     (if hpPathType p = Some PathTypeExact then (0, 0)
      else if hpPathType p = Some PathTypePrefix then (1, - int (length (hpPath p)))
      else (2, 0))"

definition known_path_type :: "HTTPIngressPath \<Rightarrow> bool" where
  "known_path_type p \<longleftrightarrow> hpPathType p \<in> {None, Some PathTypeExact, Some PathTypePrefix, Some PathTypeImplementationSpecific}"

abbreviation "exact_path p \<equiv> hpPathType p = Some PathTypeExact"

abbreviation "prefix_path p \<equiv> hpPathType p = Some PathTypePrefix"

abbreviation "other_path p \<equiv> \<not> exact_path p \<and> \<not> prefix_path p"

lemma classify_paths:
  "list_all known_path_type paths \<Longrightarrow> result_foldM classify_path (e, p, s) paths =
     Inr (e @ filter exact_path paths, p @ filter prefix_path paths, s @ filter other_path paths)"
  by (induction paths arbitrary: e p s) (auto simp: classify_path_def known_path_type_def path_type_defs)

lemma classify_unknown:
  "List.find (\<lambda>p. \<not> known_path_type p) paths = Some path \<Longrightarrow>
     result_foldM classify_path acc paths = Inl (Errorf ''unknown pathType for path %s'' [hpPath path])"
proof (induction paths arbitrary: acc)
  case (Cons p paths)
  show ?case
  proof (cases "known_path_type p")
    case True
    then obtain acc' where "classify_path acc p = Inr acc'"
      by (cases acc) (auto simp: classify_path_def known_path_type_def path_type_defs)
    then show ?thesis using Cons True by simp
  next
    case False
    then have "classify_path acc p = Inl (Errorf ''unknown pathType for path %s'' [hpPath p])"
      by (cases acc) (auto simp: classify_path_def known_path_type_def split: option.splits)
    then show ?thesis using False Cons.prems by simp
  qed
qed simp

abbreviation "longer_path i j \<equiv> length (hpPath i) > length (hpPath j)"

lemma longer_path_weak: "strict_weak longer_path"
  by (auto simp: strict_weak_def)

lemma sorted_prefix_paths:
  assumes "\<forall>p\<in>set paths. prefix_path p"
  shows "SliceStable longer_path paths = sort_key path_rank paths"
proof (rule sym, rule properties_for_sort_key)
  have S: "mset (SliceStable longer_path paths) = mset paths"
      "sorted_wrt (\<lambda>x y. \<not> longer_path y x) (SliceStable longer_path paths)"
    using SliceStable_sorts longer_path_weak by (auto simp: sorts_slices_def)
  then have P: "\<forall>p\<in>set (SliceStable longer_path paths). prefix_path p"
    using assms mset_eq_setD by blast
  have rank: "prefix_path p \<Longrightarrow> path_rank p = (1, - int (length (hpPath p)))" for p
    by (simp add: path_rank_def path_type_defs)
  show "mset (SliceStable longer_path paths) = mset paths" by (rule S)
  show "filter (\<lambda>x. path_rank k = path_rank x) (SliceStable longer_path paths) =
      filter (\<lambda>x. path_rank k = path_rank x) paths" if "k \<in> set (SliceStable longer_path paths)" for k
    using assms rank P that by (intro SliceStable_stable) auto
  show "sorted (map path_rank (SliceStable longer_path paths))"
    unfolding sorted_map
    by (rule sorted_wrt_mono_rel [OF _ S(2)]) (use P rank in auto)
qed

lemma sorted_map_same_rank: "\<forall>x\<in>set xs. f x = c \<Longrightarrow> sorted (map f xs)"
  for f :: "'a \<Rightarrow> 'b::linorder"
  by (simp add: sorted_iff_nth_mono)

lemma sort_by_rank:
  "sort_key path_rank paths =
     filter exact_path paths @ sort_key path_rank (filter prefix_path paths) @ filter other_path paths"
proof (rule properties_for_sort_key)
  let ?ys = "filter exact_path paths @ sort_key path_rank (filter prefix_path paths) @ filter other_path paths"
  have ne: "PathTypeExact \<noteq> PathTypePrefix" by (simp add: path_type_defs)
  show "mset ?ys = mset paths"
    using ne by (induction paths) auto
  have rank: "path_rank x = (0, 0) \<longleftrightarrow> exact_path x" "fst (path_rank x) = 1 \<longleftrightarrow> prefix_path x"
      "path_rank x = (2, 0) \<longleftrightarrow> other_path x" for x
    using ne by (auto simp: path_rank_def)
  show "filter (\<lambda>x. path_rank k = path_rank x) ?ys = filter (\<lambda>x. path_rank k = path_rank x) paths" for k
  proof -
    consider "exact_path k" | "prefix_path k" | "other_path k" by blast
    then show ?thesis
    proof cases
      case 1
      then have "path_rank k = path_rank x \<longleftrightarrow> exact_path x" for x using rank(1) by metis
      then show ?thesis using ne by (auto simp: filter_empty_conv)
    next
      case 2
      have p: "path_rank k = path_rank x \<longleftrightarrow> prefix_path x \<and> path_rank x = path_rank k" for x using 2 rank(2) by metis
      have "filter (\<lambda>x. path_rank k = path_rank x) (filter exact_path paths) = []"
          "filter (\<lambda>x. path_rank k = path_rank x) (filter other_path paths) = []"
        using p ne by (auto simp: filter_empty_conv)
      moreover have "filter (\<lambda>x. path_rank k = path_rank x) (sort_key path_rank (filter prefix_path paths)) =
          filter (\<lambda>x. path_rank k = path_rank x) (filter prefix_path paths)"
        using sort_key_stable [of path_rank "path_rank k" "filter prefix_path paths"] by (simp add: eq_commute)
      moreover have "filter (\<lambda>x. path_rank k = path_rank x) (filter prefix_path paths) =
          filter (\<lambda>x. path_rank k = path_rank x) paths"
        using p by (auto intro: filter_cong)
      ultimately show ?thesis by simp
    next
      case 3
      then have "path_rank k = path_rank x \<longleftrightarrow> other_path x" for x using rank(3) by metis
      then show ?thesis using ne by (auto simp: filter_empty_conv)
    qed
  qed
  show "sorted (map path_rank ?ys)"
  proof -
    have "sorted (map path_rank (filter exact_path paths))" "sorted (map path_rank (filter other_path paths))"
      using rank(1,3) by (auto intro: sorted_map_same_rank [where c = "(0, 0)"] sorted_map_same_rank [where c = "(2, 0)"])
    moreover have "path_rank x \<le> path_rank y"
      if "exact_path x \<and> \<not> exact_path y \<or> prefix_path x \<and> other_path y" for x y
      using that ne by (auto simp: path_rank_def less_eq_prod_def)
    ultimately show ?thesis using ne by (auto simp: sorted_append)
  qed
qed

text \<open>C15: Paths with a known type are put in the order of a stable sort by rank: exact paths first, then prefix
  paths from the longest to the shortest, then the others, each class otherwise in the order of the
  ingress; the first unknown type is an error.
\<close>

theorem sorted_ingress_paths:
  "sortIngressPaths paths = (case List.find (\<lambda>p. \<not> known_path_type p) paths of
      None \<Rightarrow> Inr (sort_key path_rank paths)
    | Some p \<Rightarrow> Inl (Errorf ''unknown pathType for path %s'' [hpPath p]))"
proof (cases "List.find (\<lambda>p. \<not> known_path_type p) paths")
  case None
  then have known: "list_all known_path_type paths" by (simp add: find_None_iff list_all_iff)
  show ?thesis
    using None classify_paths [OF known, of "[]" "[]" "[]"]
      sorted_prefix_paths [of "filter prefix_path paths"] sort_by_rank [of paths]
    by (simp add: sortIngressPaths_def classifyIngressPathsByType_def)
next
  case (Some p)
  then show ?thesis
    by (simp add: sortIngressPaths_def classifyIngressPathsByType_def classify_unknown)
qed

section \<open>The optimizer keeps the routing\<close>

text \<open>Conditions as they are built: at most one of each of host and path, each with values.\<close>

definition wf_conditions :: "RuleCondition list \<Rightarrow> bool" where
  "wf_conditions cs \<longleftrightarrow>
     length (filter (\<lambda>c. rcField c = RuleConditionFieldHostHeader) cs) \<le> 1 \<and>
     length (filter (\<lambda>c. rcField c = RuleConditionFieldPathPattern) cs) \<le> 1 \<and>
     (\<forall>c\<in>set cs. (rcField c = RuleConditionFieldHostHeader \<longrightarrow> host_values c \<noteq> []) \<and>
        (rcField c = RuleConditionFieldPathPattern \<longrightarrow> path_values c \<noteq> []))"

abbreviation "is_host_cond c \<equiv> rcField c = RuleConditionFieldHostHeader"

abbreviation "is_path_cond c \<equiv> rcField c = RuleConditionFieldPathPattern"

lemma no_condition_field [simp]: "rcField (no_condition field) = field"
  by (simp add: no_condition_def)

lemma condition_step_others:
  assumes "condition_step (hosts, paths, cs) c = Inr (hosts', paths', cs')"
    "\<forall>c\<in>set cs. \<not> is_host_cond c \<and> \<not> is_path_cond c"
  shows "\<forall>c\<in>set cs'. \<not> is_host_cond c \<and> \<not> is_path_cond c"
  using assms
  by (auto simp: condition_step_def Let_def buildHTTPHeaderCondition_def buildHTTPRequestMethodCondition_def
      buildQueryStringCondition_def buildSourceIPCondition_def split: if_splits option.splits)

lemma condition_steps_others:
  "result_foldM condition_step (hosts, paths, cs) conds = Inr (hosts', paths', cs') \<Longrightarrow>
   \<forall>c\<in>set cs. \<not> is_host_cond c \<and> \<not> is_path_cond c \<Longrightarrow>
   \<forall>c\<in>set cs'. \<not> is_host_cond c \<and> \<not> is_path_cond c"
proof (induction conds arbitrary: hosts paths cs)
  case (Cons c conds)
  from Cons.prems(1) obtain h p k where step: "condition_step (hosts, paths, cs) c = Inr (h, p, k)"
      and rest: "result_foldM condition_step (h, p, k) conds = Inr (hosts', paths', cs')" by auto
  show ?case using Cons.IH [OF rest condition_step_others [OF step Cons.prems(2)]] .
qed simp

lemma built_conditions_fields:
  "is_host_cond (buildHostHeaderCondition hosts)" "\<not> is_path_cond (buildHostHeaderCondition hosts)"
  "host_values (buildHostHeaderCondition hosts) = hosts"
  "is_path_cond (buildPathPatternCondition paths)" "\<not> is_host_cond (buildPathPatternCondition paths)"
  "path_values (buildPathPatternCondition paths) = paths"
  by (simp_all add: buildHostHeaderCondition_def buildPathPatternCondition_def host_values_def path_values_def)

lemma built_conditions_wf:
  assumes "buildRuleConditions rule path conds = Inr cs"
  shows "wf_conditions cs"
proof -
  from assms obtain h0 p0 hosts paths k
    where fold: "result_foldM condition_step (h0, p0, []) conds = Inr (hosts, paths, k)"
      and cs: "cs = (let conditions = k @ (if hosts \<noteq> [] then [buildHostHeaderCondition hosts] else []);
            conditions = conditions @ (if paths \<noteq> [] then [buildPathPatternCondition paths] else [])
        in if conditions = [] then [buildPathPatternCondition [''/*'']] else conditions)"
    by (auto simp: buildRuleConditions_def Let_def)
  have k: "\<forall>c\<in>set k. \<not> is_host_cond c \<and> \<not> is_path_cond c"
    using condition_steps_others [OF fold] by simp
  then have "filter is_host_cond k = []" "filter is_path_cond k = []" by (auto simp: filter_empty_conv)
  then show ?thesis using k
    by (auto simp: wf_conditions_def cs Let_def built_conditions_fields)
qed

lemma single_condition:
  assumes "length (filter P cs) \<le> 1" "c \<in> set cs" "P c" "c' \<in> set cs" "P c'"
  shows "c = c'"
proof -
  obtain x where "filter P cs = [] \<or> filter P cs = [x]"
    using assms(1) by (cases "filter P cs") auto
  moreover have "c \<in> set (filter P cs)" "c' \<in> set (filter P cs)" using assms by auto
  ultimately show ?thesis by (elim disjE) (simp_all del: set_filter)
qed

lemma single_host_condition:
  assumes "wf_conditions cs" "c \<in> set cs" "is_host_cond c"
  shows "rule_hosts cs = set (host_values c)" "host_values c \<noteq> []"
proof -
  have "x \<in> set (host_values d) \<Longrightarrow> d \<in> set cs \<Longrightarrow> d = c" for d x
    using single_condition [of is_host_cond cs d c] assms
    by (auto simp: wf_conditions_def host_values_def split: option.splits if_splits)
  then show "rule_hosts cs = set (host_values c)" using assms(2) unfolding rule_hosts_def by force
  show "host_values c \<noteq> []" using assms by (auto simp: wf_conditions_def)
qed

lemma single_path_condition:
  assumes "wf_conditions cs" "c \<in> set cs" "is_path_cond c"
  shows "rule_paths cs = set (path_values c)" "path_values c \<noteq> []"
proof -
  have "x \<in> set (path_values d) \<Longrightarrow> d \<in> set cs \<Longrightarrow> d = c" for d x
    using single_condition [of is_path_cond cs d c] assms
    by (auto simp: wf_conditions_def path_values_def split: option.splits if_splits)
  then show "rule_paths cs = set (path_values c)" using assms(2) unfolding rule_paths_def by force
  show "path_values c \<noteq> []" using assms by (auto simp: wf_conditions_def)
qed

lemma wild_slash_star: "wild ''/*'' (CHR ''/'' # p)"
  using wild_star [of p] by simp

lemma superset_conditions_hold:
  assumes sup: "isSupersetConditions lhs rhs" and wf: "wf_conditions lhs"
    and path: "rqPath q = CHR ''/'' # p" and hold: "list_all (cond_holds other q) rhs"
  shows "list_all (cond_holds other q) lhs"
  unfolding list_all_iff
proof
  fix c assume c: "c \<in> set lhs"
  have hp: "host_or_path c" using sup c by (auto simp: isSupersetConditions_def list_all_iff)
  have ne: "RuleConditionFieldHostHeader \<noteq> RuleConditionFieldPathPattern" by simp
  have rhs_host: "\<exists>v\<in>rule_hosts rhs. wild (ToLower v) (ToLower (rqHost q))" if "rule_hosts rhs \<noteq> {}"
  proof -
    from that obtain d where d: "d \<in> set rhs" "host_values d \<noteq> []" by (auto simp: rule_hosts_def)
    then have "is_host_cond d" by (auto simp: host_values_def split: option.splits if_splits)
    moreover have "cond_holds other q d" using hold d(1) by (simp add: list_all_iff)
    ultimately show ?thesis using d(1) by (auto simp: list_ex_iff cond_holds_def rule_hosts_def)
  qed
  have rhs_path: "\<exists>v\<in>rule_paths rhs. wild v (rqPath q)" if "rule_paths rhs \<noteq> {}"
  proof -
    from that obtain d where d: "d \<in> set rhs" "path_values d \<noteq> []" by (auto simp: rule_paths_def)
    then have "is_path_cond d" by (auto simp: path_values_def split: option.splits if_splits)
    moreover have "cond_holds other q d" using hold d(1) by (simp add: list_all_iff)
    ultimately show ?thesis using d(1) ne by (auto simp: list_ex_iff cond_holds_def rule_paths_def)
  qed
  show "cond_holds other q c"
  proof (cases "is_host_cond c")
    case True
    have "rule_hosts rhs \<noteq> {} \<and> rule_hosts rhs \<subseteq> set (host_values c)"
      using sup single_host_condition [OF wf c True] by (auto simp: isSupersetConditions_def)
    then show ?thesis using rhs_host True by (auto simp: cond_holds_def list_ex_iff)
  next
    case False
    then have pc: "is_path_cond c" using hp by (auto simp: host_or_path_def)
    consider "''/*'' \<in> set (path_values c)" | "rule_paths rhs \<noteq> {} \<and> rule_paths rhs \<subseteq> set (path_values c)"
      using sup single_path_condition [OF wf c pc] by (auto simp: isSupersetConditions_def)
    then have "\<exists>v\<in>set (path_values c). wild v (rqPath q)"
      using rhs_path wild_slash_star [of p] path by (cases; simp only: path) blast+
    then show ?thesis using False pc by (auto simp: cond_holds_def list_ex_iff)
  qed
qed

lemma overshadowed_not_found:
  assumes "\<forall>r\<in>set optimized. wf_conditions (rlConditions r)" "rqPath q = CHR ''/'' # p"
  shows "List.find (rule_matches other q) (overshadow_step rule optimized) =
    List.find (rule_matches other q) (optimized @ [rule])"
proof (cases "overshadow_step rule optimized = optimized @ [rule]")
  case False
  then obtain e where e: "e \<in> set optimized" "isSupersetConditions (rlConditions e) (rlConditions rule)"
      and keep: "overshadow_step rule optimized = optimized"
    by (auto simp: overshadow_step_def list_ex_iff split: if_splits)
  have "rule_matches other q rule \<Longrightarrow> rule_matches other q e"
    using superset_conditions_hold [OF e(2) _ assms(2)] assms(1) e(1) by (auto simp: rule_matches_def)
  then have "rule_matches other q rule \<Longrightarrow> List.find (rule_matches other q) optimized \<noteq> None"
    using e(1) by (auto simp: find_None_iff)
  then show ?thesis using keep by (auto simp: find_append split: option.splits)
qed simp

lemma overshadow_steps_find:
  assumes "rqPath q = CHR ''/'' # p"
  shows "\<forall>r\<in>set (optimized @ rules). wf_conditions (rlConditions r) \<Longrightarrow>
    List.find (rule_matches other q) (fold overshadow_step rules optimized) =
    List.find (rule_matches other q) (optimized @ rules)"
proof (induction rules arbitrary: optimized)
  case (Cons rule rules)
  have sub: "set (overshadow_step rule optimized) \<subseteq> set (optimized @ [rule])"
    by (auto simp: overshadow_step_def)
  have "List.find (rule_matches other q) (fold overshadow_step rules (overshadow_step rule optimized)) =
      List.find (rule_matches other q) (overshadow_step rule optimized @ rules)"
    using Cons.IH Cons.prems sub by (auto simp: subset_iff)
  also have "\<dots> = List.find (rule_matches other q) ((optimized @ [rule]) @ rules)"
    using overshadowed_not_found [OF _ assms, of optimized other rule] Cons.prems
    by (simp only: find_append [of _ _ rules]) auto
  finally show ?case by simp
qed simp

section \<open>An example\<close>

text \<open>A redirect of every path to HTTPS before a rule for one path.\<close>

definition example_redirect :: Rule where
  "example_redirect = \<lparr>rlConditions = [buildPathPatternCondition [''/*'']],
     rlActions = [\<lparr>actType = ActionTypeRedirect, actAuthenticateCognitoConfig = None, actAuthenticateOIDCConfig = None,
       actFixedResponseConfig = None,
       actRedirectConfig = Some \<lparr>rdHost = None, rdPath = None, rdPort = Some ''443'', rdProtocol = Some ''HTTPS'',
         rdQuery = None, rdStatusCode = ''HTTP_301''\<rparr>,
       actForwardConfig = None\<rparr>],
     rlTags = []\<rparr>"

definition example_path_rule :: Rule where
  "example_path_rule = \<lparr>rlConditions = [buildPathPatternCondition [''/a'']], rlActions = [], rlTags = []\<rparr>"

definition example_request :: "unit request" where
  "example_request = \<lparr>rqProtocol = ''HTTP'', rqHost = ''example.com'', rqPort = ''80'', rqPath = ''/a'', rqQuery = [], rqOther = ()\<rparr>"

abbreviation "example_ingress_path p \<equiv>
  \<lparr>hpPath = p, hpPathType = None, hpBackend = \<lparr>ibService = None\<rparr>\<rparr>"

definition example_rules :: "Rule list" where
  "example_rules = [example_redirect, example_path_rule]"

lemma example_rules_built:
  "\<forall>r\<in>set example_rules. \<exists>rule path conds. buildRuleConditions rule path conds = Inr (rlConditions r)"
proof -
  have "buildRuleConditions \<lparr>irHost = [], irHTTP = None\<rparr> (example_ingress_path ''/*'') [] = Inr (rlConditions example_redirect)"
    "buildRuleConditions \<lparr>irHost = [], irHTTP = None\<rparr> (example_ingress_path ''/a'') [] = Inr (rlConditions example_path_rule)"
    by code_simp+
  then show ?thesis unfolding example_rules_def by fastforce
qed

text \<open>C13: On rules whose conditions are built from ingress paths, the optimizer changes no routing decision
  except that of the redirects it omits as infinite: for every request, the first rule that matches among
  the optimized rules is the first that matches among the rules that are not infinite redirects.
\<close>

theorem optimizer_keeps_routing:
  assumes "\<forall>r\<in>set rules. \<exists>rule path conds. buildRuleConditions rule path conds = Inr (rlConditions r)"
    and "rqPath q = CHR ''/'' # p"
  shows "routed_by other (Optimize port protocol rules) q =
    routed_by other (filter (\<lambda>r. \<not> isInfiniteRedirectRule port protocol r) rules) q"
proof -
  have "\<forall>r\<in>set (omitInfiniteRedirectRules port protocol rules). wf_conditions (rlConditions r)"
    using assms(1) built_conditions_wf by (fastforce simp: omitInfiniteRedirectRules_def)
  then show ?thesis
    using overshadow_steps_find [OF assms(2), of "[]"]
    by (simp add: routed_by_def Optimize_def omitOvershadowedRulesAfterRedirectRules_def omitInfiniteRedirectRules_def)
qed

theorem optimizer_keeps_routing_witness:
  "Optimize 80 ''HTTP'' example_rules = [example_redirect] \<and>
   routed_by (\<lambda>_ _ _. True) (Optimize 80 ''HTTP'' example_rules) example_request = Some example_redirect \<and>
   Optimize 443 ''HTTPS'' example_rules = [example_path_rule]"
proof -
  have "Optimize 80 ''HTTP'' example_rules = [example_redirect] \<and> Optimize 443 ''HTTPS'' example_rules = [example_path_rule]"
    by code_simp
  moreover have "routed_by (\<lambda>_ _ _. True) (filter (\<lambda>r. \<not> isInfiniteRedirectRule 80 ''HTTP'' r) example_rules) example_request = Some example_redirect"
    by code_simp
  moreover have "rqPath example_request = CHR ''/'' # ''a''" by (simp add: example_request_def)
  ultimately show ?thesis using optimizer_keeps_routing [OF example_rules_built] by metis
qed

section \<open>Infinite redirects\<close>

lemma expand_literal: "CHR ''#'' \<notin> set s \<Longrightarrow> expand (reserved q) s = s"
  by (induction s) (auto simp: reserved_def)

lemma expand_reserved:
  "expand (reserved q) ''#{protocol}'' = rqProtocol q" "expand (reserved q) ''#{host}'' = rqHost q"
  "expand (reserved q) ''#{port}'' = rqPort q" "expand (reserved q) ''#{query}'' = rqQuery q"
  "rqPath q = CHR ''/'' # p \<Longrightarrow> expand (reserved q) ''/#{path}'' = rqPath q"
  by (simp_all add: reserved_def)

declare expand.simps [simp del]

lemma redirect_component:
  assumes "expand (reserved q) d = old" "case v of None \<Rightarrow> True | Some x \<Rightarrow> x = d \<or> x \<in> S" "\<forall>x\<in>S. CHR ''#'' \<notin> set x"
  shows "expand (reserved q) (with_default d v) = old \<or> expand (reserved q) (with_default d v) \<in> S"
  using assms by (cases v) (auto simp: expand_literal with_default_def)

lemma Itoa_no_hash: "CHR ''#'' \<notin> set (Itoa n)"
  using nat_digits_digits [THEN bspec, of "CHR ''#''"] by (auto simp: Itoa_def is_digit_def less_eq_char_def)

text \<open>C16: A redirect rule that the optimizer omits as infinite does not lead anywhere: a request on the port
  and protocol of the listener that matches the rule is redirected to a request on the same port and
  protocol that matches the rule again.
\<close>

theorem infinite_redirect_matches_again:
  assumes inf: "isInfiniteRedirectRule port protocol rule"
    and cfg: "findRedirectActionConfig (rlActions rule) = Some cfg"
    and built: "buildRuleConditions ingRule path conds = Inr (rlConditions rule)"
    and literal: "\<forall>v\<in>insert protocol (rule_hosts (rlConditions rule) \<union> rule_paths (rlConditions rule)). CHR ''#'' \<notin> set v"
    and q: "rqPort q = Itoa port" "rqProtocol q = protocol" "rqPath q = CHR ''/'' # p"
    and matches: "rule_matches other q rule"
  shows "rule_matches other (redirected cfg q) rule \<and>
    rqPort (redirected cfg q) = Itoa port \<and> rqProtocol (redirected cfg q) = protocol"
proof -
  let ?q = "redirected cfg q" and ?cs = "rlConditions rule"
  note defs = redirected_def Let_def
  have inf': "case rdPort cfg of None \<Rightarrow> True | Some x \<Rightarrow> x = ''#{port}'' \<or> x \<in> {Itoa port}"
      "case rdProtocol cfg of None \<Rightarrow> True | Some x \<Rightarrow> x = ''#{protocol}'' \<or> x \<in> {protocol}"
      "case rdQuery cfg of None \<Rightarrow> True | Some x \<Rightarrow> x = ''#{query}'' \<or> x \<in> {}"
      "case rdHost cfg of None \<Rightarrow> True | Some x \<Rightarrow> x = ''#{host}'' \<or> x \<in> rule_hosts ?cs"
      "case rdPath cfg of None \<Rightarrow> True | Some x \<Rightarrow> x = ''/#{path}'' \<or> x \<in> rule_paths ?cs"
    using inf cfg by (simp_all add: isInfiniteRedirectRule_def split: option.splits)
  have same: "rqPort ?q = Itoa port \<and> rqProtocol ?q = protocol \<and> rqQuery ?q = rqQuery q \<and> rqOther ?q = rqOther q"
    using redirect_component [OF expand_reserved(3) inf'(1), of q] Itoa_no_hash [of port]
      redirect_component [OF expand_reserved(1) inf'(2), of q]
      redirect_component [OF expand_reserved(4) inf'(3), of q] q(1,2) literal
    by (simp add: defs)
  have host: "rqHost ?q = rqHost q \<or> rqHost ?q \<in> rule_hosts ?cs"
    using redirect_component [OF expand_reserved(2) inf'(4), of q] literal by (simp add: defs)
  have path: "rqPath ?q = rqPath q \<or> rqPath ?q \<in> rule_paths ?cs"
    using redirect_component [OF expand_reserved(5) [OF q(3)] inf'(5)] literal by (simp add: defs)
  have "cond_holds other ?q c" if "c \<in> set ?cs" for c
  proof -
    have old: "cond_holds other q c" using matches that by (auto simp: rule_matches_def list_all_iff)
    note wf = built_conditions_wf [OF built]
    consider "is_host_cond c" | "is_path_cond c" "\<not> is_host_cond c" | "\<not> is_host_cond c" "\<not> is_path_cond c" by blast
    then show ?thesis
    proof cases
      case 1
      then show ?thesis using old host single_host_condition(1) [OF wf that 1] wild_refl
        by (auto simp: cond_holds_def list_ex_iff)
    next
      case 2
      then show ?thesis using old path single_path_condition(1) [OF wf that 2(1)] wild_refl
        by (auto simp: cond_holds_def list_ex_iff)
    next
      case 3
      then show ?thesis using old same by (simp add: cond_holds_def)
    qed
  qed
  then show ?thesis using same by (simp add: rule_matches_def list_all_iff)
qed


theorem infinite_redirect_matches_again_witness:
  "isInfiniteRedirectRule 443 ''HTTPS'' example_redirect \<and>
   (\<exists>cfg. findRedirectActionConfig (rlActions example_redirect) = Some cfg \<and>
      rule_matches (\<lambda>_ _ _. True) (redirected cfg (example_request\<lparr>rqProtocol := ''HTTPS'', rqPort := ''443''\<rparr>)) example_redirect)"
proof -
  let ?q = "example_request\<lparr>rqProtocol := ''HTTPS'', rqPort := ''443''\<rparr>"
  have inf: "isInfiniteRedirectRule 443 ''HTTPS'' example_redirect"
    and built: "buildRuleConditions \<lparr>irHost = [], irHTTP = None\<rparr> (example_ingress_path ''/*'') [] = Inr (rlConditions example_redirect)"
    and m: "rule_matches (\<lambda>_ _ _. True) ?q example_redirect"
    by code_simp+
  have lit: "\<forall>v\<in>insert ''HTTPS'' (rule_hosts (rlConditions example_redirect) \<union> rule_paths (rlConditions example_redirect)). CHR ''#'' \<notin> set v"
    by code_simp
  have q: "rqPort ?q = Itoa 443" "rqProtocol ?q = ''HTTPS''" "rqPath ?q = CHR ''/'' # ''a''"
    by code_simp+
  have "findRedirectActionConfig (rlActions example_redirect) \<noteq> None" by code_simp
  then obtain cfg where "findRedirectActionConfig (rlActions example_redirect) = Some cfg" by blast
  then show ?thesis using infinite_redirect_matches_again [OF inf _ built lit q m] inf by blast
qed

end
