(* ===== verification/Ingress_Backend.thy ===== *)
theory Ingress_Backend
  imports Ingress_Rules Algorithm
begin

text \<open>
  Backends of ingress rules with what annotations add to them (\<^verbatim>\<open>enhanced_backend_builder.go\<close>), their
  authentication (\<^verbatim>\<open>auth_config_builder.go\<close>), the discovery of certificates for hosts (\<^verbatim>\<open>cert_discovery.go\<close>)
  and the indexes of references (\<^verbatim>\<open>reference_indexer.go\<close>) of \<^verbatim>\<open>pkg/ingress\<close>. The decoding of JSON values,
  \<^verbatim>\<open>intstr.Parse\<close>, the clients and the caches are parameters. The map of loaded services is shared by all
  builds of a task, so building a backend takes it and returns it.
\<close>

section \<open>Authentication\<close>

type_synonym AuthType = string

definition AuthTypeNone :: AuthType where "AuthTypeNone = ''none''"

definition AuthTypeCognito :: AuthType where "AuthTypeCognito = ''cognito''"

definition AuthTypeOIDC :: AuthType where "AuthTypeOIDC = ''oidc''"

record AuthIDPConfigCognito =
  idcUserPoolARN :: string
  idcUserPoolClientID :: string
  idcUserPoolDomain :: string
  idcAuthenticationRequestExtraParams :: string_map

record AuthIDPConfigOIDC =
  idoIssuer :: string
  idoAuthorizationEndpoint :: string
  idoTokenEndpoint :: string
  idoUserInfoEndpoint :: string
  idoSecretName :: string
  idoAuthenticationRequestExtraParams :: string_map

definition defaultAuthType :: AuthType where "defaultAuthType = AuthTypeNone"

definition defaultAuthScope :: string where "defaultAuthScope = ''openid''"

definition defaultAuthSessionCookieName :: string where "defaultAuthSessionCookieName = ''AWSELBAuthSessionCookie''"

definition defaultAuthSessionTimeout :: int where "defaultAuthSessionTimeout = 604800"

definition defaultAuthOnUnauthenticatedRequest :: string where "defaultAuthOnUnauthenticatedRequest = ''authenticate''"

record AuthConfig =
  acfType :: AuthType
  acfIDPConfigCognito :: "AuthIDPConfigCognito option"
  acfIDPConfigOIDC :: "AuthIDPConfigOIDC option"
  acfOnUnauthenticatedRequest :: string
  acfScope :: string
  acfSessionCookieName :: string
  acfSessionTimeout :: int

definition no_auth_config :: AuthConfig where
  "no_auth_config = \<lparr>acfType = [], acfIDPConfigCognito = None, acfIDPConfigOIDC = None, acfOnUnauthenticatedRequest = [],
     acfScope = [], acfSessionCookieName = [], acfSessionTimeout = 0\<rparr>"

record defaultAuthConfigBuilder =
  acbAnnotationParser :: suffixAnnotationParser
  acbUnmarshalCognito :: "string \<Rightarrow> AuthIDPConfigCognito result"
  acbUnmarshalOIDC :: "string \<Rightarrow> AuthIDPConfigOIDC result"

definition auth_string :: "defaultAuthConfigBuilder \<Rightarrow> string \<Rightarrow> string \<Rightarrow> string_map \<Rightarrow> string" where
  "auth_string b key d annos = with_default d (ParseStringAnnotation (acbAnnotationParser b) key annos [])"

definition buildAuthType :: "defaultAuthConfigBuilder \<Rightarrow> string_map \<Rightarrow> AuthType result" where
  "buildAuthType b annos =
     (let rawAuthType = auth_string b IngressSuffixAuthType defaultAuthType annos in
      if rawAuthType = AuthTypeCognito then Inr AuthTypeCognito
      else if rawAuthType = AuthTypeOIDC then Inr AuthTypeOIDC
      else if rawAuthType = AuthTypeNone then Inr AuthTypeNone
      else Inl (Errorf ''unknown authType: %v'' [rawAuthType]))"

definition buildAuthIDPConfigCognito :: "defaultAuthConfigBuilder \<Rightarrow> string_map \<Rightarrow> AuthIDPConfigCognito option result" where
  "buildAuthIDPConfigCognito b annos =
     ParseJSONAnnotation (acbUnmarshalCognito b) (acbAnnotationParser b) IngressSuffixAuthIDPCognito annos []"

definition buildAuthIDPConfigOIDC :: "defaultAuthConfigBuilder \<Rightarrow> string_map \<Rightarrow> AuthIDPConfigOIDC option result" where
  "buildAuthIDPConfigOIDC b annos =
     ParseJSONAnnotation (acbUnmarshalOIDC b) (acbAnnotationParser b) IngressSuffixAuthIDPOIDC annos []"

definition buildAuthOnUnauthenticatedRequest :: "defaultAuthConfigBuilder \<Rightarrow> string_map \<Rightarrow> string" where
  "buildAuthOnUnauthenticatedRequest b annos =
     auth_string b IngressSuffixAuthOnUnauthenticatedRequest defaultAuthOnUnauthenticatedRequest annos"

definition buildAuthScope :: "defaultAuthConfigBuilder \<Rightarrow> string_map \<Rightarrow> string" where
  "buildAuthScope b annos = auth_string b IngressSuffixAuthScope defaultAuthScope annos"

definition buildAuthSessionCookieName :: "defaultAuthConfigBuilder \<Rightarrow> string_map \<Rightarrow> string" where
  "buildAuthSessionCookieName b annos = auth_string b IngressSuffixAuthSessionCookie defaultAuthSessionCookieName annos"

definition buildAuthSessionTimeout :: "defaultAuthConfigBuilder \<Rightarrow> string_map \<Rightarrow> int result" where
  "buildAuthSessionTimeout b annos =
     result_bind (ParseInt64Annotation (acbAnnotationParser b) IngressSuffixAuthSessionTimeout annos []) (\<lambda>raw.
       Inr (with_default defaultAuthSessionTimeout raw))"

definition AuthConfig_Build :: "defaultAuthConfigBuilder \<Rightarrow> string_map \<Rightarrow> AuthConfig result" where
  "AuthConfig_Build b annos =
     result_bind (buildAuthType b annos) (\<lambda>authType.
     result_bind (buildAuthSessionTimeout b annos) (\<lambda>authSessionTimeout.
     result_bind (buildAuthIDPConfigCognito b annos) (\<lambda>authIDPCognito.
     result_bind (buildAuthIDPConfigOIDC b annos) (\<lambda>authIDPOIDC.
     Inr \<lparr>acfType = authType, acfIDPConfigCognito = authIDPCognito, acfIDPConfigOIDC = authIDPOIDC,
          acfOnUnauthenticatedRequest = buildAuthOnUnauthenticatedRequest b annos, acfScope = buildAuthScope b annos,
          acfSessionCookieName = buildAuthSessionCookieName b annos, acfSessionTimeout = authSessionTimeout\<rparr>))))"

section \<open>Enhanced backends\<close>

definition magicServicePortUseAnnotation :: string where "magicServicePortUseAnnotation = ''use-annotation''"

definition nonExistentBackendServiceMessageBody :: string where
  "nonExistentBackendServiceMessageBody = ''Backend service does not exist''"

definition nonExistentBackendActionMessageBody :: string where
  "nonExistentBackendActionMessageBody = ''Backend action does not exist''"

record EnhancedBackend =
  ebConditions :: "RuleCondition list"
  ebAction :: IngAction
  ebAuthConfig :: AuthConfig

type_synonym services = "(NamespacedName, Service) gomap"

record EnhancedBackendBuildOptions =
  ebLoadBackendServices :: bool
  ebBackendServices :: services
  ebLoadAuthConfig :: bool

datatype EnhancedBackendBuildOption = WithLoadBackendServices bool services | WithLoadAuthConfig bool

fun apply_backend_option :: "EnhancedBackendBuildOption \<Rightarrow> EnhancedBackendBuildOptions \<Rightarrow> EnhancedBackendBuildOptions" where
  "apply_backend_option (WithLoadBackendServices load svcs) opts = opts\<lparr>ebLoadBackendServices := load, ebBackendServices := svcs\<rparr>"
| "apply_backend_option (WithLoadAuthConfig load) opts = opts\<lparr>ebLoadAuthConfig := load\<rparr>"

definition backend_ApplyOptions :: "EnhancedBackendBuildOption list \<Rightarrow> EnhancedBackendBuildOptions \<Rightarrow> EnhancedBackendBuildOptions" where
  "backend_ApplyOptions options opts = fold apply_backend_option options opts"

record 'w defaultEnhancedBackendBuilder =
  ebbGetService :: "NamespacedName \<Rightarrow> ('w, Service) io"
  ebbIsNotFound :: "go_error \<Rightarrow> bool"
  ebbAnnotationParser :: suffixAnnotationParser
  ebbAuthConfigBuilder :: defaultAuthConfigBuilder
  ebbUnmarshalConditions :: "string \<Rightarrow> RuleCondition list result"
  ebbUnmarshalAction :: "string \<Rightarrow> IngAction result"
  ebbIntstrParse :: "string \<Rightarrow> IntOrString"
  ebbRange :: "string list \<Rightarrow> string list"
  ebbTolerateNonExistentBackendService :: bool
  ebbTolerateNonExistentBackendAction :: bool

definition buildConditions :: "'w defaultEnhancedBackendBuilder \<Rightarrow> string_map \<Rightarrow> string \<Rightarrow> RuleCondition list result" where
  "buildConditions b ingAnnotation svcName =
     result_bind (ParseJSONAnnotation (ebbUnmarshalConditions b) (ebbAnnotationParser b) (''conditions.'' @ svcName) ingAnnotation []) (\<lambda>parsed.
       let conditions = with_default [] parsed in
       result_bind (result_forM RuleCondition_Validate conditions) (\<lambda>_. Inr conditions))"

definition build503ResponseAction :: "string \<Rightarrow> IngAction" where
  "build503ResponseAction messageBody =
     \<lparr>iaType = ActionTypeFixedResponse, iaTargetGroupARN = None,
      iaFixedResponseConfig = Some \<lparr>frContentType = Some ''text/plain'', frMessageBody = Some messageBody, frStatusCode = ''503''\<rparr>,
      iaRedirectConfig = None, iaForwardConfig = None\<rparr>"

text \<open>A forward action to one target group.\<close>

definition forward_to :: "IngTargetGroupTuple \<Rightarrow> IngAction" where
  "forward_to tgt =
     \<lparr>iaType = ActionTypeForward, iaTargetGroupARN = None, iaFixedResponseConfig = None, iaRedirectConfig = None,
      iaForwardConfig = Some \<lparr>ifwTargetGroups = [tgt], ifwTargetGroupStickinessConfig = None\<rparr>\<rparr>"

definition buildActionViaServiceAndServicePort :: "string \<Rightarrow> IntOrString \<Rightarrow> IngAction" where
  "buildActionViaServiceAndServicePort svcName svcPort =
     forward_to \<lparr>itgTargetGroupARN = None, itgServiceName = Some svcName, itgServicePort = Some svcPort, itgWeight = None\<rparr>"

definition normalizeSimplifiedSchemaForwardAction :: "IngAction \<Rightarrow> IngAction" where
  "normalizeSimplifiedSchemaForwardAction action =
     (if iaType action = ActionTypeForward \<and> iaTargetGroupARN action \<noteq> None
      then forward_to \<lparr>itgTargetGroupARN = iaTargetGroupARN action, itgServiceName = None, itgServicePort = None, itgWeight = None\<rparr>
      else action)"

definition normalizeServicePortForBackwardsCompatibility :: "'w defaultEnhancedBackendBuilder \<Rightarrow> IngAction \<Rightarrow> IngAction" where
  "normalizeServicePortForBackwardsCompatibility b action =
     (if iaType action = ActionTypeForward
      then action\<lparr>iaForwardConfig := map_option (\<lambda>cfg. cfg\<lparr>ifwTargetGroups :=
          map (\<lambda>tgt. tgt\<lparr>itgServicePort := map_option (\<lambda>p. ebbIntstrParse b (IntOrString_String p)) (itgServicePort tgt)\<rparr>)
            (ifwTargetGroups cfg)\<rparr>) (iaForwardConfig action)\<rparr>
      else action)"

definition buildActionViaAnnotation :: "'w defaultEnhancedBackendBuilder \<Rightarrow> string_map \<Rightarrow> string \<Rightarrow> IngAction result" where
  "buildActionViaAnnotation b ingAnnotation svcName =
     (let annotationKey = ''actions.'' @ svcName in
      result_bind (ParseJSONAnnotation (ebbUnmarshalAction b) (ebbAnnotationParser b) annotationKey ingAnnotation []) (\<lambda>parsed.
        case parsed of
          None \<Rightarrow>
            if ebbTolerateNonExistentBackendAction b then Inr (build503ResponseAction nonExistentBackendActionMessageBody)
            else Inl (Errorf ''missing %v configuration'' [annotationKey])
        | Some action \<Rightarrow>
            result_bind (Action_validate action) (\<lambda>_.
              Inr (normalizeServicePortForBackwardsCompatibility b (normalizeSimplifiedSchemaForwardAction action)))))"

text \<open>The loop over the names; the flag says that a missing service is answered by the fixed response.\<close>

fun load_services ::
  "'w defaultEnhancedBackendBuilder \<Rightarrow> bool \<Rightarrow> string \<Rightarrow> string list \<Rightarrow> services \<Rightarrow> ('w, services \<times> bool) io" where
  "load_services b tolerate namespace [] svcs w = (Inr (svcs, False), w)"
| "load_services b tolerate namespace (svcName # names) svcs w =
     (let svcKey = \<lparr>nnNamespace = namespace, nnName = svcName\<rparr> in
      if map_of svcs svcKey \<noteq> None then load_services b tolerate namespace names svcs w
      else case ebbGetService b svcKey w of
        (Inl err, w') \<Rightarrow> if ebbIsNotFound b err \<and> tolerate then (Inr (svcs, True), w') else (Inl err, w')
      | (Inr svc, w') \<Rightarrow> load_services b tolerate namespace names (AList.update svcKey svc svcs) w')"

definition service_names :: "IngForwardActionConfig \<Rightarrow> string list" where
  "service_names cfg = remdups (concat (map (\<lambda>tgt. case itgServiceName tgt of None \<Rightarrow> [] | Some n \<Rightarrow> [n]) (ifwTargetGroups cfg)))"

definition loadBackendServices ::
  "'w defaultEnhancedBackendBuilder \<Rightarrow> IngAction \<Rightarrow> string \<Rightarrow> services \<Rightarrow> ('w, IngAction \<times> services) io" where
  "loadBackendServices b action namespace svcs =
     (case iaForwardConfig action of
        Some cfg \<Rightarrow>
          if iaType action = ActionTypeForward then
            let svcNames = service_names cfg;
                forwardToSingleSvc = (length (ifwTargetGroups cfg) = 1 \<and> length svcNames = 1);
                tolerate = (ebbTolerateNonExistentBackendService b \<and> forwardToSingleSvc)
            in io_bind (load_services b tolerate namespace (ebbRange b svcNames) svcs) (\<lambda>(svcs', missing).
              io_return (if missing then build503ResponseAction nonExistentBackendServiceMessageBody else action, svcs'))
          else io_return (action, svcs)
      | None \<Rightarrow> io_return (action, svcs))"

definition backend_buildAuthConfig ::
  "'w defaultEnhancedBackendBuilder \<Rightarrow> IngAction \<Rightarrow> string \<Rightarrow> string_map \<Rightarrow> services \<Rightarrow> AuthConfig result" where
  "backend_buildAuthConfig b action namespace ingAnnotation svcs =
     (let build = AuthConfig_Build (ebbAuthConfigBuilder b) in
      case map_option ifwTargetGroups (iaForwardConfig action) of
        Some [tgt] \<Rightarrow>
          (case itgServiceName tgt of
             Some svcName \<Rightarrow>
               if iaType action = ActionTypeForward then
                 (case map_of svcs \<lparr>nnNamespace = namespace, nnName = svcName\<rparr> of
                    None \<Rightarrow> Inl (Errorf ''invalid memory address or nil pointer dereference'' [])
                  | Some svc \<Rightarrow> build (MergeStringMap [omAnnotations (svcMeta svc), ingAnnotation]))
               else build ingAnnotation
           | None \<Rightarrow> build ingAnnotation)
      | _ \<Rightarrow> build ingAnnotation)"

definition backend_action :: "'w defaultEnhancedBackendBuilder \<Rightarrow> string_map \<Rightarrow> IngressServiceBackend \<Rightarrow> IngAction result" where
  "backend_action b ingAnnotation svc =
     (if isbPortName svc = magicServicePortUseAnnotation then buildActionViaAnnotation b ingAnnotation (isbName svc)
      else if isbPortName svc \<noteq> [] then Inr (buildActionViaServiceAndServicePort (isbName svc) (StrVal (isbPortName svc)))
      else Inr (buildActionViaServiceAndServicePort (isbName svc) (IntVal (isbPortNumber svc))))"

definition EnhancedBackend_Build ::
  "'w defaultEnhancedBackendBuilder \<Rightarrow> Ingress \<Rightarrow> IngressBackend \<Rightarrow> EnhancedBackendBuildOption list \<Rightarrow> ('w, EnhancedBackend \<times> services) io" where
  "EnhancedBackend_Build b ing backend options =
     (let opts = backend_ApplyOptions options \<lparr>ebLoadBackendServices = True, ebBackendServices = [], ebLoadAuthConfig = True\<rparr>;
          annos = ing_annotations ing; namespace = omNamespace (ingMeta ing)
      in case ibService backend of
        None \<Rightarrow> io_fail (Errorf ''missing required \"service\" field'' [])
      | Some svc \<Rightarrow>
          io_bind (io_lift (buildConditions b annos (isbName svc))) (\<lambda>conditions.
          io_bind (io_lift (backend_action b annos svc)) (\<lambda>action.
            if ebLoadBackendServices opts then
              io_bind (loadBackendServices b action namespace (ebBackendServices opts)) (\<lambda>(action', svcs).
              io_bind (if ebLoadAuthConfig opts then io_lift (backend_buildAuthConfig b action' namespace annos svcs)
                       else io_return no_auth_config) (\<lambda>authCfg.
              io_return (\<lparr>ebConditions = conditions, ebAction = action', ebAuthConfig = authCfg\<rparr>, svcs)))
            else io_return (\<lparr>ebConditions = conditions, ebAction = action, ebAuthConfig = no_auth_config\<rparr>, ebBackendServices opts))))"

section \<open>Indexes of references\<close>

definition IndexKeyServiceRefName :: string where "IndexKeyServiceRefName = ''ingress.serviceRef.name''"

definition IndexKeySecretRefName :: string where "IndexKeySecretRefName = ''ingress.secretRef.name''"

definition IndexKeyIngressClassRefName :: string where "IndexKeyIngressClassRefName = ''ingress.ingressClassRef.name''"

definition IndexKeyIngressClassParamsRefName :: string where
  "IndexKeyIngressClassParamsRefName = ''ingressClass.ingressClassParamsRef.name''"

definition extractServiceNamesFromTargetGroupTuple :: "IngTargetGroupTuple \<Rightarrow> string list" where
  "extractServiceNamesFromTargetGroupTuple tgt = (case itgServiceName tgt of None \<Rightarrow> [] | Some n \<Rightarrow> [n])"

definition extractServiceNamesFromAction :: "(string set \<Rightarrow> string list) \<Rightarrow> IngAction \<Rightarrow> string list" where
  "extractServiceNamesFromAction List action =
     (case iaForwardConfig action of
        Some cfg \<Rightarrow>
          if iaType action \<noteq> ActionTypeForward then []
          else List (set (concat (map extractServiceNamesFromTargetGroupTuple (ifwTargetGroups cfg))))
      | None \<Rightarrow> [])"

definition extractSecretNamesFromAuthConfig :: "AuthConfig \<Rightarrow> string list" where
  "extractSecretNamesFromAuthConfig authCfg =
     (case acfIDPConfigOIDC authCfg of None \<Rightarrow> [] | Some cfg \<Rightarrow> [idoSecretName cfg])"

text \<open>The backends of an ingress.\<close>

definition ing_backends :: "Ingress \<Rightarrow> IngressBackend list" where
  "ing_backends ing =
     (case ingDefaultBackend ing of None \<Rightarrow> [] | Some backend \<Rightarrow> [backend]) @
     concat (map (\<lambda>rule. case irHTTP rule of None \<Rightarrow> [] | Some paths \<Rightarrow> map hpBackend paths) (ingRules ing))"

definition BuildServiceRefIndexes ::
  "'w defaultEnhancedBackendBuilder \<Rightarrow> (string set \<Rightarrow> string list) \<Rightarrow> Ingress \<Rightarrow> 'w \<Rightarrow> string list \<times> 'w" where
  "BuildServiceRefIndexes b List ing w =
     (case io_mapM (\<lambda>backend. io_bind (EnhancedBackend_Build b ing backend [WithLoadBackendServices False [], WithLoadAuthConfig False])
             (\<lambda>(eb, _). io_return (extractServiceNamesFromAction List (ebAction eb)))) (ing_backends ing) w of
        (Inl err, w') \<Rightarrow> ([], w')
      | (Inr names, w') \<Rightarrow> (List (set (concat names)), w'))"

definition BuildSecretRefIndexes :: "defaultAuthConfigBuilder \<Rightarrow> ObjectMeta \<Rightarrow> string list" where
  "BuildSecretRefIndexes b ingOrSvc =
     (case AuthConfig_Build b (omAnnotations ingOrSvc) of
        Inl err \<Rightarrow> []
      | Inr authCfg \<Rightarrow> extractSecretNamesFromAuthConfig authCfg)"

definition BuildIngressClassRefIndexes :: "Ingress \<Rightarrow> string list" where
  "BuildIngressClassRefIndexes ing = (case ingIngressClassName ing of None \<Rightarrow> [] | Some name \<Rightarrow> [name])"

definition BuildIngressClassParamsRefIndexes :: "IngressClass \<Rightarrow> string list" where
  "BuildIngressClassParamsRefIndexes ingClass =
     (case icParameters ingClass of
        None \<Rightarrow> []
      | Some ps \<Rightarrow>
          if icController ingClass \<noteq> IngressClassControllerALB \<or> icpAPIGroup ps \<noteq> Some GroupVersion_Group \<or>
             icpKind ps \<noteq> ingressClassParamsKind
          then [] else [icpName ps])"

section \<open>Discovery of certificates\<close>

record CertificateDetail =
  cdType :: "string option"
  cdSubjectAlternativeNames :: "string option list"

text \<open>The client, the two caches, whose entries expire after the given minutes, and the order of ranges.\<close>

record 'w acmCertDiscovery =
  acmListCertificatesAsList :: "string list \<Rightarrow> string list \<Rightarrow> ('w, string option list) io"
  acmDescribeCertificate :: "string \<Rightarrow> ('w, CertificateDetail) io"
  acmKeyAlgorithmValues :: "string list"
  certARNsCacheGet :: "string \<Rightarrow> 'w \<Rightarrow> string list option"
  certARNsCacheSet :: "string \<Rightarrow> string list \<Rightarrow> int \<Rightarrow> 'w \<Rightarrow> 'w"
  certDomainsCacheGet :: "string \<Rightarrow> 'w \<Rightarrow> string set option"
  certDomainsCacheSet :: "string \<Rightarrow> string set \<Rightarrow> int \<Rightarrow> 'w \<Rightarrow> 'w"
  acmRange :: "string list \<Rightarrow> string list"
  acmList :: "string set \<Rightarrow> string list"

definition certARNsCacheKey :: string where "certARNsCacheKey = ''certARNs''"

definition defaultCertARNsCacheTTL :: int where "defaultCertARNsCacheTTL = 1"

definition defaultImportedCertDomainsCacheTTL :: int where "defaultImportedCertDomainsCacheTTL = 5"

definition defaultPrivateCertDomainsCacheTTL :: int where "defaultPrivateCertDomainsCacheTTL = 10 * 60"

definition loadAllCertificateARNs :: "'w acmCertDiscovery \<Rightarrow> ('w, string list) io" where
  "loadAllCertificateARNs d w =
     (case certARNsCacheGet d certARNsCacheKey w of
        Some certARNs \<Rightarrow> (Inr certARNs, w)
      | None \<Rightarrow>
          (case acmListCertificatesAsList d [''ISSUED''] (acmKeyAlgorithmValues d) w of
             (Inl err, w') \<Rightarrow> (Inl err, w')
           | (Inr certSummaries, w') \<Rightarrow>
               let certARNs = map StringValue certSummaries
               in (Inr certARNs, certARNsCacheSet d certARNsCacheKey certARNs defaultCertARNsCacheTTL w')))"

definition loadDomainsForCertificate :: "'w acmCertDiscovery \<Rightarrow> string \<Rightarrow> ('w, string set) io" where
  "loadDomainsForCertificate d certARN w =
     (case certDomainsCacheGet d certARN w of
        Some domains \<Rightarrow> (Inr domains, w)
      | None \<Rightarrow>
          (case acmDescribeCertificate d certARN w of
             (Inl err, w') \<Rightarrow> (Inl err, w')
           | (Inr certDetail, w') \<Rightarrow>
               let domains = set (map StringValue (cdSubjectAlternativeNames certDetail));
                   t = StringValue (cdType certDetail)
               in (Inr domains,
                   if t = ''IMPORTED'' then certDomainsCacheSet d certARN domains defaultImportedCertDomainsCacheTTL w'
                   else if t = ''AMAZON_ISSUED'' \<or> t = ''PRIVATE''
                   then certDomainsCacheSet d certARN domains defaultPrivateCertDomainsCacheTTL w'
                   else w')))"

definition loadDomainsForAllCertificates :: "'w acmCertDiscovery \<Rightarrow> ('w, (string, string set) gomap) io" where
  "loadDomainsForAllCertificates d =
     io_bind (loadAllCertificateARNs d) (\<lambda>certARNs.
       io_foldM (\<lambda>m certARN. io_bind (loadDomainsForCertificate d certARN) (\<lambda>certDomains.
         io_return (AList.update certARN certDomains m))) [] certARNs)"

definition domainMatchesHost :: "string \<Rightarrow> string \<Rightarrow> bool" where
  "domainMatchesHost domainName tlsHost =
     (if HasPrefix domainName ''*.'' then
        let ds = split_char CHR ''.'' domainName; hs = split_char CHR ''.'' tlsHost
        in length ds = length hs \<and> tl ds = tl hs
      else domainName = tlsHost)"

text \<open>The certificates for one host; which of its domains matches does not matter.\<close>

definition certs_for_host :: "'w acmCertDiscovery \<Rightarrow> (string, string set) gomap \<Rightarrow> string \<Rightarrow> string list" where
  "certs_for_host d domainsByCertARN host =
     map fst (filter (\<lambda>(_, domains). \<exists>domain\<in>domains. domainMatchesHost domain host) (entries (acmRange d) domainsByCertARN))"

definition discover_step ::
  "'w acmCertDiscovery \<Rightarrow> (string, string set) gomap \<Rightarrow> string set \<Rightarrow> string \<Rightarrow> string set result" where
  "discover_step d domainsByCertARN certARNs host =
     (let certARNsForHost = certs_for_host d domainsByCertARN host in
      if certARNsForHost = [] then Inl (Errorf ''no certificate found for host: %s'' [host])
      else Inr (certARNs \<union> set certARNsForHost))"

definition Discover :: "'w acmCertDiscovery \<Rightarrow> string list \<Rightarrow> ('w, string list) io" where
  "Discover d tlsHosts =
     io_bind (loadDomainsForAllCertificates d) (\<lambda>domainsByCertARN.
     io_bind (io_lift (result_foldM (discover_step d domainsByCertARN) {} tlsHosts)) (\<lambda>certARNs.
     io_return (acmList d certARNs)))"

section \<open>Backends are ready\<close>

text \<open>
  A backend that the actions of a listener can be built from: the action has the configuration of its
  type, and every target group it forwards to is given by its ARN or by a loaded service and a port.
\<close>

definition target_ready :: "string \<Rightarrow> services \<Rightarrow> IngTargetGroupTuple \<Rightarrow> bool" where
  "target_ready namespace svcs tgt \<longleftrightarrow> itgTargetGroupARN tgt \<noteq> None \<or>
     (\<exists>n. itgServiceName tgt = Some n \<and> map_of svcs \<lparr>nnNamespace = namespace, nnName = n\<rparr> \<noteq> None \<and> itgServicePort tgt \<noteq> None)"

definition action_ready :: "string \<Rightarrow> services \<Rightarrow> IngAction \<Rightarrow> bool" where
  "action_ready namespace svcs action \<longleftrightarrow>
     iaType action = ActionTypeFixedResponse \<and> iaFixedResponseConfig action \<noteq> None \<or>
     iaType action = ActionTypeRedirect \<and> iaRedirectConfig action \<noteq> None \<or>
     iaType action = ActionTypeForward \<and>
       (\<exists>cfg. iaForwardConfig action = Some cfg \<and> (\<forall>tgt\<in>set (ifwTargetGroups cfg). target_ready namespace svcs tgt))"

text \<open>Before the services are loaded, a target is named by an ARN or by a service and its port.\<close>

definition target_named :: "IngTargetGroupTuple \<Rightarrow> bool" where
  "target_named tgt \<longleftrightarrow> itgTargetGroupARN tgt \<noteq> None \<or> itgServiceName tgt \<noteq> None \<and> itgServicePort tgt \<noteq> None"

definition action_named :: "IngAction \<Rightarrow> bool" where
  "action_named action \<longleftrightarrow>
     iaType action = ActionTypeFixedResponse \<and> iaFixedResponseConfig action \<noteq> None \<or>
     iaType action = ActionTypeRedirect \<and> iaRedirectConfig action \<noteq> None \<or>
     iaType action = ActionTypeForward \<and>
       (\<exists>cfg. iaForwardConfig action = Some cfg \<and> (\<forall>tgt\<in>set (ifwTargetGroups cfg). target_named tgt))"

lemma result_forM_ok: "result_forM f xs = Inr u \<longleftrightarrow> (\<forall>x\<in>set xs. \<exists>v. f x = Inr v)"
  by (induction xs) auto

lemma wrapping_ok [simp]: "wrapping msg r = Inr u \<longleftrightarrow> r = Inr ()"
  by (cases r) (auto simp: wrapping_def)

lemma validated_targets:
  "ForwardActionConfig_validate cfg = Inr u \<Longrightarrow> \<forall>tgt\<in>set (ifwTargetGroups cfg). target_named tgt"
  by (auto simp: ForwardActionConfig_validate_def result_forM_ok TargetGroupTuple_validate_def target_named_def split: if_splits)

lemma validated_action_named:
  assumes "Action_validate action = Inr u"
  shows "action_named (normalizeServicePortForBackwardsCompatibility b (normalizeSimplifiedSchemaForwardAction action))"
proof -
  have port: "target_named tgt \<Longrightarrow> target_named (tgt\<lparr>itgServicePort := map_option f (itgServicePort tgt)\<rparr>)" for tgt f
    by (auto simp: target_named_def)
  consider "iaType action = ActionTypeFixedResponse" | "iaType action = ActionTypeRedirect" | "iaType action = ActionTypeForward"
    using assms by (auto simp: Action_validate_def split: if_splits)
  then show ?thesis
  proof cases
    case 3
    show ?thesis
    proof (cases "iaTargetGroupARN action")
      case None
      then obtain cfg where cfg: "iaForwardConfig action = Some cfg" "ForwardActionConfig_validate cfg = Inr ()"
        using assms 3 by (auto simp: Action_validate_def split: if_splits option.splits)
      then show ?thesis using 3 None validated_targets [OF cfg(2)] port
        by (auto simp: normalizeSimplifiedSchemaForwardAction_def normalizeServicePortForBackwardsCompatibility_def action_named_def)
    next
      case (Some arn)
      then show ?thesis using 3
        by (auto simp: normalizeSimplifiedSchemaForwardAction_def normalizeServicePortForBackwardsCompatibility_def
            action_named_def forward_to_def target_named_def)
    qed
  qed (use assms in \<open>auto simp: Action_validate_def normalizeSimplifiedSchemaForwardAction_def
      normalizeServicePortForBackwardsCompatibility_def action_named_def split: option.splits\<close>)
qed

lemma named_503: "action_named (build503ResponseAction msg)"
  by (simp add: action_named_def build503ResponseAction_def)

lemma named_service: "action_named (buildActionViaServiceAndServicePort n p)"
  by (simp add: action_named_def buildActionViaServiceAndServicePort_def forward_to_def target_named_def)

lemma backend_action_named: "backend_action b annos svc = Inr action \<Longrightarrow> action_named action"
  using named_503 named_service validated_action_named
  by (auto simp: backend_action_def buildActionViaAnnotation_def Let_def split: if_splits option.splits)

lemma load_services_ok:
  "load_services b tolerate namespace names svcs w = (Inr (svcs', missing), w') \<Longrightarrow>
     map_of svcs \<subseteq>\<^sub>m map_of svcs' \<and>
     (\<not> missing \<longrightarrow> (\<forall>n\<in>set names. map_of svcs' \<lparr>nnNamespace = namespace, nnName = n\<rparr> \<noteq> None))"
proof (induction b tolerate namespace names svcs w rule: load_services.induct)
  case (2 b tolerate namespace svcName names svcs w)
  let ?key = "\<lparr>nnNamespace = namespace, nnName = svcName\<rparr>"
  show ?case
  proof (cases "map_of svcs ?key")
    case (Some svc)
    then show ?thesis using 2 by (fastforce simp: map_le_def dom_def Let_def)
  next
    case None
    obtain r w1 where get: "ebbGetService b ?key w = (r, w1)" by fastforce
    show ?thesis
    proof (cases r)
      case (Inl err)
      then show ?thesis using 2(3) None get by (auto split: if_splits)
    next
      case (Inr svc)
      then have "load_services b tolerate namespace names (AList.update ?key svc svcs) w1 = (Inr (svcs', missing), w')"
        using 2(3) None get by simp
      with 2(2) [OF refl _ get [symmetric], of svc] None Inr get
      have IH: "map_of (AList.update ?key svc svcs) \<subseteq>\<^sub>m map_of svcs' \<and>
          (\<not> missing \<longrightarrow> (\<forall>n\<in>set names. map_of svcs' \<lparr>nnNamespace = namespace, nnName = n\<rparr> \<noteq> None))"
        by simp
      have "map_of svcs' ?key = Some svc" "map_of svcs \<subseteq>\<^sub>m map_of svcs'"
        using IH None by (auto simp: map_le_def update_conv' dom_def split: if_splits)
      then show ?thesis using IH by auto
    qed
  qed
qed simp

lemma loaded_action_ready:
  assumes load: "loadBackendServices b action namespace svcs w = (Inr (action', svcs'), w')"
    and named: "action_named action" and range: "range_order (ebbRange b)"
  shows "action_ready namespace svcs' action' \<and> map_of svcs \<subseteq>\<^sub>m map_of svcs'"
proof (cases "iaType action = ActionTypeForward")
  case True
  then obtain cfg where cfg: "iaForwardConfig action = Some cfg" "\<forall>tgt\<in>set (ifwTargetGroups cfg). target_named tgt"
    using named by (auto simp: action_named_def)
  define tol where "tol = (ebbTolerateNonExistentBackendService b \<and> length (ifwTargetGroups cfg) = 1 \<and> length (service_names cfg) = 1)"
  from load True cfg(1) obtain missing where
    run: "load_services b tol namespace (ebbRange b (service_names cfg)) svcs w = (Inr (svcs', missing), w')"
    and a: "action' = (if missing then build503ResponseAction nonExistentBackendServiceMessageBody else action)"
    by (auto simp: loadBackendServices_def Let_def tol_def io_return_def dest!: io_bind_InrD)
  note L = load_services_ok [OF run]
  have "itgServiceName tgt = Some n \<Longrightarrow> tgt \<in> set (ifwTargetGroups cfg) \<Longrightarrow> n \<in> set (service_names cfg)" for tgt n
    by (force simp: service_names_def)
  then have "\<not> missing \<Longrightarrow> \<forall>tgt\<in>set (ifwTargetGroups cfg). target_ready namespace svcs' tgt"
    using L cfg(2) range_order_set [OF range] by (fastforce simp: target_ready_def target_named_def)
  then show ?thesis
    using L a True cfg(1) by (auto simp: action_ready_def build503ResponseAction_def)
next
  case False
  then have "action' = action" "svcs' = svcs"
    using load by (auto simp: loadBackendServices_def io_return_def split: option.splits)
  then show ?thesis using named False by (auto simp: action_ready_def action_named_def)
qed

text \<open>C17: A backend built for a rule is ready to be turned into actions: its action has the configuration of
  its type, and every target group it forwards to has an ARN or a service that is loaded and a port, so
  that no missing service is dereferenced later; loaded services are never dropped or replaced.
\<close>

theorem enhanced_backend_ready:
  assumes run: "EnhancedBackend_Build b ing backend [WithLoadBackendServices True svcs, WithLoadAuthConfig load] w = (Inr (eb, svcs'), w')"
    and range: "range_order (ebbRange b)"
  shows "action_ready (omNamespace (ingMeta ing)) svcs' (ebAction eb) \<and> map_of svcs \<subseteq>\<^sub>m map_of svcs'"
proof -
  from run obtain svc action w1 where act: "backend_action b (ing_annotations ing) svc = Inr action"
    and ld: "loadBackendServices b action (omNamespace (ingMeta ing)) svcs w = (Inr (ebAction eb, svcs'), w1)"
    unfolding EnhancedBackend_Build_def Let_def
    by (auto simp: backend_ApplyOptions_def io_fail_def io_lift_def io_return_def split: option.splits if_splits dest!: io_bind_InrD)
  show ?thesis by (rule loaded_action_ready [OF ld backend_action_named [OF act] range])
qed

section \<open>An example backend\<close>

definition example_backend_service :: Service where
  "example_backend_service = \<lparr>svcMeta = \<lparr>omNamespace = ''ns'', omName = ''web'', omUID = ''u'', omLabels = [], omAnnotations = [],
       omFinalizers = [], omGeneration = 1, omDeletionTimestamp = None\<rparr>,
     svcType = ''NodePort'', svcPorts =
       [\<lparr>spName = ''http'', spProtocol = ''TCP'', spPort = 80, spTargetPort = IntVal 8080, spNodePort = 30080\<rparr>],
     svcSelector = [], svcLoadBalancerClass = None, svcLoadBalancerSourceRanges = [],
     svcExternalTrafficPolicy = ''Cluster'', svcHealthCheckNodePort = 0, svcIPFamilies = [], svcAllocateLoadBalancerNodePorts = None,
     svcLoadBalancerIngress = []\<rparr>"

definition example_backend_builder :: "unit defaultEnhancedBackendBuilder" where
  "example_backend_builder = \<lparr>ebbGetService = (\<lambda>key. if nnName key = ''web'' then io_return example_backend_service
       else io_fail (Errorf ''not found'' [])),
     ebbIsNotFound = (\<lambda>err. err = Errorf ''not found'' []), ebbAnnotationParser = \<lparr>annotationPrefix = ''alb.ingress.kubernetes.io''\<rparr>,
     ebbAuthConfigBuilder = \<lparr>acbAnnotationParser = \<lparr>annotationPrefix = ''alb.ingress.kubernetes.io''\<rparr>,
       acbUnmarshalCognito = (\<lambda>s. Inl (Errorf s [])), acbUnmarshalOIDC = (\<lambda>s. Inl (Errorf s []))\<rparr>,
     ebbUnmarshalConditions = (\<lambda>s. Inl (Errorf s [])), ebbUnmarshalAction = (\<lambda>s. Inl (Errorf s [])),
     ebbIntstrParse = (\<lambda>s. StrVal s), ebbRange = (\<lambda>names. names),
     ebbTolerateNonExistentBackendService = True, ebbTolerateNonExistentBackendAction = True\<rparr>"

definition example_web_ingress :: Ingress where
  "example_web_ingress = \<lparr>ingMeta = \<lparr>omNamespace = ''ns'', omName = ''ing'', omUID = ''i'', omLabels = [], omAnnotations = [],
       omFinalizers = [], omGeneration = 1, omDeletionTimestamp = None\<rparr>,
     ingIngressClassName = Some ''alb'', ingDefaultBackend = None, ingTLS = [],
     ingRules = [\<lparr>irHost = ''www.example.com'', irHTTP = Some
       [\<lparr>hpPath = ''/'', hpPathType = Some ''Prefix'',
         hpBackend = \<lparr>ibService = Some \<lparr>isbName = ''web'', isbPortName = [], isbPortNumber = 80\<rparr>\<rparr>\<rparr>]\<rparr>],
     ingLoadBalancerIngress = []\<rparr>"

theorem enhanced_backend_ready_witness:
  "\<exists>eb svcs. EnhancedBackend_Build example_backend_builder example_web_ingress
       \<lparr>ibService = Some \<lparr>isbName = ''web'', isbPortName = [], isbPortNumber = 80\<rparr>\<rparr>
       [WithLoadBackendServices True [], WithLoadAuthConfig True] () = (Inr (eb, svcs), ()) \<and>
     action_ready ''ns'' svcs (ebAction eb) \<and> iaType (ebAction eb) = ''forward''"
proof -
  let ?run = "EnhancedBackend_Build example_backend_builder example_web_ingress
       \<lparr>ibService = Some \<lparr>isbName = ''web'', isbPortName = [], isbPortNumber = 80\<rparr>\<rparr>
       [WithLoadBackendServices True [], WithLoadAuthConfig True] ()"
  have "case ?run of (Inr (eb, svcs), _) \<Rightarrow> iaType (ebAction eb) = ''forward'' | _ \<Rightarrow> False" by code_simp
  then obtain eb svcs where run: "?run = (Inr (eb, svcs), ())" "iaType (ebAction eb) = ''forward''"
    by (cases ?run) (auto split: sum.splits)
  have range: "range_order (ebbRange example_backend_builder)"
    by (simp add: example_backend_builder_def range_order_id)
  have "omNamespace (ingMeta example_web_ingress) = ''ns''" by (simp add: example_web_ingress_def)
  then show ?thesis using enhanced_backend_ready [OF run(1) range] run by simp
qed

section \<open>Certificates cover the hosts\<close>

text \<open>A name covers itself, and a wildcard covers the names with one label in its place.\<close>

definition covers :: "string \<Rightarrow> string \<Rightarrow> bool" where
  "covers domain host \<longleftrightarrow> domain = host \<or>
     (\<exists>rest label. domain = ''*.'' @ rest \<and> host = label @ ''.'' @ rest \<and> CHR ''.'' \<notin> set label)"

lemma split_char_inj: "split_char c s = split_char c t \<longleftrightarrow> s = t"
proof
  assume eq: "split_char c s = split_char c t"
  then have "t = s \<or> (\<exists>u. t = s @ c # u)" "s = t \<or> (\<exists>u. s = t @ c # u)"
    using split_char_prefix [of c s t] split_char_prefix [of c t s] by simp_all
  then show "s = t" by auto
qed simp

lemma domainMatchesHost_iff: "domainMatchesHost domain host \<longleftrightarrow> covers domain host"
proof (cases "HasPrefix domain ''*.''")
  case True
  then obtain rest where d: "domain = ''*.'' @ rest" by (auto simp: HasPrefix_iff)
  have ds: "split_char CHR ''.'' domain = ''*'' # split_char CHR ''.'' rest"
    using split_char_append [of "CHR ''.''" "''*''" rest] by (simp add: d)
  show ?thesis
  proof (cases "CHR ''.''" host rule: split_char_cases)
    case 1
    then show ?thesis using True ds d by (auto simp: domainMatchesHost_def covers_def)
  next
    case (2 w t)
    have "covers domain host \<longleftrightarrow> t = rest"
    proof
      assume "covers domain host"
      then obtain label where "CHR ''.'' \<notin> set label" "w @ CHR ''.'' # t = label @ CHR ''.'' # rest"
        using 2 d by (auto simp: covers_def intro: that [of "''*''"])
      then show "t = rest" using append_sep_eq [of "CHR ''.''" label w t rest] 2(1) by simp
    qed (use 2 d in \<open>auto simp: covers_def\<close>)
    then show ?thesis using True ds 2 by (auto simp: domainMatchesHost_def split_char_inj)
  qed
next
  case False
  then show ?thesis by (auto simp: domainMatchesHost_def covers_def HasPrefix_iff)
qed

text \<open>The certificates with a domain that covers a host.\<close>

definition covering :: "(string, string set) gomap \<Rightarrow> string \<Rightarrow> string set" where
  "covering m host = {arn. \<exists>domains. map_of m arn = Some domains \<and> (\<exists>domain\<in>domains. covers domain host)}"

lemma finite_covering: "finite (covering m host)"
proof (rule finite_subset)
  show "covering m host \<subseteq> dom (map_of m)" by (auto simp: covering_def)
qed (rule finite_dom_map_of)

lemma certs_for_host_set:
  "range_order (acmRange d) \<Longrightarrow> set (certs_for_host d m host) = covering m host"
  by (force simp: certs_for_host_def covering_def entries_iff domainMatchesHost_iff)

lemma discover_hosts:
  assumes "range_order (acmRange d)"
  shows "result_foldM (discover_step d m) acc hosts =
    (case List.find (\<lambda>host. covering m host = {}) hosts of
       Some host \<Rightarrow> Inl (Errorf ''no certificate found for host: %s'' [host])
     | None \<Rightarrow> Inr (acc \<union> (\<Union>host\<in>set hosts. covering m host)))"
proof (induction hosts arbitrary: acc)
  case (Cons host hosts)
  have "certs_for_host d m host = [] \<longleftrightarrow> covering m host = {}"
    using certs_for_host_set [OF assms, of m host] by (metis set_empty)
  then show ?case using Cons certs_for_host_set [OF assms, of m host]
    by (auto simp: discover_step_def Let_def Un_assoc split: option.splits)
qed simp

text \<open>C18: The discovery of certificates for the hosts of an ingress returns, sorted and without repetition,
  exactly the certificates with a domain that covers one of the hosts, where a wildcard stands for one
  label; it fails exactly when some host has no certificate, and names the first such host.
\<close>

theorem discovered_certificates:
  assumes load: "loadDomainsForAllCertificates d w = (Inr m, w')"
    and range: "range_order (acmRange d)" and List: "lists_sorted (acmList d)"
  shows "Discover d hosts w =
    (case List.find (\<lambda>host. covering m host = {}) hosts of
       Some host \<Rightarrow> Inl (Errorf ''no certificate found for host: %s'' [host])
     | None \<Rightarrow> Inr (sorted_list_of_set (\<Union>host\<in>set hosts. covering m host)), w')"
proof -
  have "finite (\<Union>host\<in>set hosts. covering m host)" by (simp add: finite_covering)
  from lists_sorted_unique [OF List this] show ?thesis
    using load discover_hosts [OF range, of m "{}" hosts]
    by (simp add: Discover_def io_bind_def io_lift_def io_return_def split: option.splits)
qed

definition example_discovery :: "unit acmCertDiscovery" where
  "example_discovery = \<lparr>acmListCertificatesAsList = (\<lambda>_ _. io_return [Some ''arn:a'', Some ''arn:b'']),
     acmDescribeCertificate = (\<lambda>arn. io_return \<lparr>cdType = Some ''PRIVATE'',
       cdSubjectAlternativeNames = [Some (if arn = ''arn:a'' then ''*.example.com'' else ''example.org'')]\<rparr>),
     acmKeyAlgorithmValues = [''RSA_2048''], certARNsCacheGet = (\<lambda>_ _. None), certARNsCacheSet = (\<lambda>_ _ _ w. w),
     certDomainsCacheGet = (\<lambda>_ _. None), certDomainsCacheSet = (\<lambda>_ _ _ w. w), acmRange = (\<lambda>ks. ks), acmList = sorted_list_of_set\<rparr>"

theorem discovered_certificates_witness:
  "fst (Discover example_discovery [''www.example.com'', ''example.com''] ()) =
     Inl (Errorf ''no certificate found for host: %s'' [''example.com''])"
proof -
  have load: "loadDomainsForAllCertificates example_discovery () = (Inr [(''arn:a'', {''*.example.com''}), (''arn:b'', {''example.org''})], ())"
    by (simp add: loadDomainsForAllCertificates_def loadAllCertificateARNs_def loadDomainsForCertificate_def example_discovery_def
        io_bind_def io_return_def)
  have laws: "range_order (acmRange example_discovery)" "lists_sorted (acmList example_discovery)"
    by (simp_all add: example_discovery_def range_order_id sorted_list_of_set_lists_sorted)
  let ?m = "[(''arn:a'', {''*.example.com''}), (''arn:b'', {''example.org''})]"
  have match: "covers ''*.example.com'' ''www.example.com''" "\<not> covers ''*.example.com'' ''example.com''" "\<not> covers ''example.org'' ''example.com''"
    unfolding domainMatchesHost_iff [symmetric] by code_simp+
  have "covering ?m ''www.example.com'' \<noteq> {}" "covering ?m ''example.com'' = {}"
    using match by (simp_all add: covering_def exI [of _ "''arn:a''"])
  then show ?thesis using discovered_certificates [OF load laws] by simp
qed

end
