(* ===== verification/Ingress_LB.thy ===== *)
theory Ingress_LB
  imports Ingress_Backend Build_Task Feature_Gates Tracking Tagging Backend_SG Go_Net
begin

text \<open>
  The model builder for ingress groups, \<^verbatim>\<open>pkg/ingress\<close>, first part: the builder and its task
  (\<^verbatim>\<open>model_builder.go\<close>), tags (\<^verbatim>\<open>model_build_tags.go\<close>), the ports the group listens on
  (\<^verbatim>\<open>model_build_listener.go\<close>, \<^verbatim>\<open>mergeListenPortConfigs\<close>), the load balancer (\<^verbatim>\<open>model_build_load_balancer.go\<close>,
  \<^verbatim>\<open>model_build_load_balancer_attributes.go\<close>) and its managed security group (\<^verbatim>\<open>model_build_managed_sg.go\<close>).
  The fields of the task that change are the record \<open>ing_task\<close>. Parameters of the builder are the clients, the
  decoding of the listen ports from JSON, \<^verbatim>\<open>intstr.Parse\<close>, the hexadecimal SHA-256 sum, the sorted list of a set
  and the orders of ranges over maps.
\<close>

section \<open>Builder and task\<close>

record 'w ing_builder =
  igbGetSecret :: "NamespacedName \<Rightarrow> ('w, string_map) io"
  igbAnnotationParser :: suffixAnnotationParser
  igbSubnetsResolver :: "'w defaultSubnetsResolver"
  igbBackendSGProvider :: "'w defaultBackendSGProvider"
  igbSgResolver :: "'w defaultSecurityGroupResolver"
  igbCertDiscovery :: "'w acmCertDiscovery"
  igbEnhancedBackendBuilder :: "'w defaultEnhancedBackendBuilder"
  igbTrackingProvider :: defaultProvider
  igbTaggingManager :: "'w defaultTaggingManager"
  igbFeatureGates :: FeatureGates
  igbClusterName :: string
  igbDefaultTags :: string_map
  igbExternalManagedTags :: "string list"
  igbDefaultSSLPolicy :: string
  igbDefaultTargetType :: TargetType
  igbEnableBackendSG :: bool
  igbDisableRestrictedSGRules :: bool
  igbEnableIPTargetType :: bool
  igbUnmarshalListenPorts :: "string \<Rightarrow> (string, int) gomap list result"
  igbIntstrParse :: "string \<Rightarrow> IntOrString"
  igbSha256 :: "string \<Rightarrow> string"
  igbList :: "string set \<Rightarrow> string list"
  igbRange :: "string list \<Rightarrow> string list"
  igbRangePorts :: "int list \<Rightarrow> int list"

record SSLRedirectConfig =
  SSLPort :: int
  srStatusCode :: string

record ing_task = build_task +
  tSslRedirectConfig :: "SSLRedirectConfig option"
  tBackendServices :: services
  tSecretKeys :: "NamespacedName list"

type_synonym ('w, 'a) ing_build = "('w \<times> ing_task, 'a) io"

definition igb_string :: "'w ing_builder \<Rightarrow> string_map \<Rightarrow> string \<Rightarrow> string option" where
  "igb_string b annos key = ParseStringAnnotation (igbAnnotationParser b) key annos []"

definition igb_bool :: "'w ing_builder \<Rightarrow> string_map \<Rightarrow> string \<Rightarrow> bool option result" where
  "igb_bool b annos key = ParseBoolAnnotation (igbAnnotationParser b) key annos []"

definition igb_int64 :: "'w ing_builder \<Rightarrow> string_map \<Rightarrow> string \<Rightarrow> int option result" where
  "igb_int64 b annos key = ParseInt64Annotation (igbAnnotationParser b) key annos []"

definition igb_slice :: "'w ing_builder \<Rightarrow> string_map \<Rightarrow> string \<Rightarrow> string list option" where
  "igb_slice b annos key = ParseStringSliceAnnotation (igbAnnotationParser b) key annos []"

definition igb_map :: "'w ing_builder \<Rightarrow> string_map \<Rightarrow> string \<Rightarrow> string_map result" where
  "igb_map b annos key =
     result_bind (ParseStringMapAnnotation (igbAnnotationParser b) key annos []) (\<lambda>m. Inr (nil_map m))"

abbreviation member_annotations :: "ClassifiedIngress \<Rightarrow> string_map" where
  "member_annotations ci \<equiv> ing_annotations (ciIng ci)"

text \<open>The value that all members of a group that have one agree on.\<close>

definition only_value :: "string \<Rightarrow> ('a list \<Rightarrow> string list) \<Rightarrow> 'a option list \<Rightarrow> 'a option result" where
  "only_value msg print values =
     (case remdups (List.map_filter (\<lambda>v. v) values) of
        [] \<Rightarrow> Inr None
      | [v] \<Rightarrow> Inr (Some v)
      | vs \<Rightarrow> Inl (Errorf msg (print vs)))"

section \<open>Tags\<close>

definition validateTagCollisionWithExternalManagedTags :: "'w ing_builder \<Rightarrow> string_map \<Rightarrow> unit result" where
  "validateTagCollisionWithExternalManagedTags b tags =
     (case List.find (\<lambda>tagKey. tagKey \<in> set (igbExternalManagedTags b)) (igbRange b (gomap_keys tags)) of
        Some tagKey \<Rightarrow> Inl (Errorf ''external managed tag key %v cannot be specified'' [tagKey])
      | None \<Rightarrow> Inr ())"

text \<open>A map made from key and value pairs: the last pair of a key stays.\<close>

definition map_of_pairs :: "(string \<times> string) list \<Rightarrow> string_map" where
  "map_of_pairs kvs = fold (\<lambda>(k, v). AList.update k v) kvs []"

definition buildIngressClassResourceTags :: "'w ing_builder \<Rightarrow> ClassConfiguration \<Rightarrow> string_map result" where
  "buildIngressClassResourceTags b cfg =
     (case ccIngClassParams cfg of
        None \<Rightarrow> Inr []
      | Some params \<Rightarrow>
          if icpsTags (icpSpec params) = [] then Inr []
          else
            let ingClassTags = map_of_pairs (icpsTags (icpSpec params)) in
            result_bind (wrapping (''failed build tags for IngressClassParams '' @ omName (icpMeta params))
              (validateTagCollisionWithExternalManagedTags b ingClassTags)) (\<lambda>_. Inr ingClassTags))"

definition buildIngressResourceTags :: "'w ing_builder \<Rightarrow> ClassifiedIngress \<Rightarrow> string_map result" where
  "buildIngressResourceTags b ing =
     result_bind (igb_map b (member_annotations ing) IngressSuffixTags) (\<lambda>annotationTags.
     result_bind (wrapping (''failed build tags for Ingress '' @ NamespacedName_String (ing_key (ciIng ing)))
       (validateTagCollisionWithExternalManagedTags b annotationTags)) (\<lambda>_.
     result_bind (buildIngressClassResourceTags b (ciIngClassConfig ing)) (\<lambda>ingClassTags.
     Inr (MergeStringMap [ingClassTags, annotationTags]))))"

definition buildIngressBackendResourceTags :: "'w ing_builder \<Rightarrow> ClassifiedIngress \<Rightarrow> Service \<Rightarrow> string_map result" where
  "buildIngressBackendResourceTags b ing backend =
     result_bind (igb_map b (omAnnotations (svcMeta backend)) IngressSuffixTags) (\<lambda>backendAnnotationTags.
     result_bind (igb_map b (member_annotations ing) IngressSuffixTags) (\<lambda>ingressAnnotationTags.
       let mergedAnnotationTags = MergeStringMap [backendAnnotationTags, ingressAnnotationTags] in
       result_bind (wrapping (''failed build tags for Ingress '' @ NamespacedName_String (ing_key (ciIng ing)) @
           '' and Service '' @ NamespacedName_String (NamespacedName_of (svcMeta backend)))
         (validateTagCollisionWithExternalManagedTags b mergedAnnotationTags)) (\<lambda>_.
       result_bind (buildIngressClassResourceTags b (ciIngClassConfig ing)) (\<lambda>ingClassTags.
       Inr (MergeStringMap [ingClassTags, mergedAnnotationTags])))))"

text \<open>One entry added to the map of a group; another value for the same key is a conflict.\<close>

definition group_entry :: "string \<Rightarrow> string_map \<Rightarrow> string \<times> string \<Rightarrow> string_map result" where
  "group_entry msg m = (\<lambda>(k, v).
     case map_of m k of
       Some v' \<Rightarrow> if v' \<noteq> v then Inl (Errorf msg [k, v', v]) else Inr (AList.update k v m)
     | None \<Rightarrow> Inr (AList.update k v m))"

definition group_map :: "'w ing_builder \<Rightarrow> string \<Rightarrow> ('a \<Rightarrow> string_map result) \<Rightarrow> 'a list \<Rightarrow> string_map result" where
  "group_map b msg of_member members =
     result_foldM (\<lambda>m member. result_bind (of_member member) (\<lambda>new.
       result_foldM (group_entry msg) m (entries (igbRange b) new))) [] members"

definition buildIngressGroupResourceTags :: "'w ing_builder \<Rightarrow> ClassifiedIngress list \<Rightarrow> string_map result" where
  "buildIngressGroupResourceTags b ingList = group_map b ''conflicting tag %v: %v | %v'' (buildIngressResourceTags b) ingList"

text \<open>The tags of the resources that belong to a list of members.\<close>

definition group_tags :: "'w ing_builder \<Rightarrow> ClassifiedIngress list \<Rightarrow> string_map result" where
  "group_tags b ingList =
     result_bind (buildIngressGroupResourceTags b ingList) (\<lambda>ingGroupTags. Inr (MergeStringMap [igbDefaultTags b, ingGroupTags]))"

section \<open>Attributes\<close>

definition buildIngressLoadBalancerAttributes :: "'w ing_builder \<Rightarrow> ClassifiedIngress \<Rightarrow> string_map result" where
  "buildIngressLoadBalancerAttributes b ing = igb_map b (member_annotations ing) IngressSuffixLoadBalancerAttributes"

definition buildIngressClassLoadBalancerAttributes :: "ClassConfiguration \<Rightarrow> string_map result" where
  "buildIngressClassLoadBalancerAttributes cfg =
     Inr (case ccIngClassParams cfg of None \<Rightarrow> [] | Some params \<Rightarrow> map_of_pairs (icpsLoadBalancerAttributes (icpSpec params)))"

definition buildIngressGroupLoadBalancerAttributes :: "'w ing_builder \<Rightarrow> ClassifiedIngress list \<Rightarrow> string_map result" where
  "buildIngressGroupLoadBalancerAttributes b ingList =
     result_bind (group_map b ''conflicting attributes %v: %v | %v'' (buildIngressLoadBalancerAttributes b) ingList) (\<lambda>ingGroupAttributes.
       case ingList of
         [] \<Rightarrow> Inr ingGroupAttributes
       | ing # _ \<Rightarrow>
           result_bind (buildIngressClassLoadBalancerAttributes (ciIngClassConfig ing)) (\<lambda>ingClassAttributes.
             Inr (MergeStringMap [ingClassAttributes, ingGroupAttributes])))"

section \<open>Listen ports\<close>

record listenPortConfig =
  lpProtocol :: Protocol
  lpInboundCIDRv4s :: "string list"
  lpInboundCIDRv6s :: "string list"
  lpSslPolicy :: "string option"
  lpTlsCerts :: "string list"

record listenPortConfigWithIngress =
  lpIngKey :: NamespacedName
  lpConfig :: listenPortConfig

definition computeIngressExplicitTLSCertARNs :: "'w ing_builder \<Rightarrow> Ingress \<Rightarrow> string list" where
  "computeIngressExplicitTLSCertARNs b ing = with_default [] (igb_slice b (ing_annotations ing) IngressSuffixCertificateARN)"

definition computeIngressInferredTLSCertARNs :: "'w ing_builder \<Rightarrow> Ingress \<Rightarrow> ('w, string list) io" where
  "computeIngressInferredTLSCertARNs b ing =
     (let hosts = set (filter (\<lambda>host. host \<noteq> []) (map irHost (ingRules ing))) \<union> set (concat (ingTLS ing))
      in Discover (igbCertDiscovery b) (igbList b hosts))"

definition listen_port_entry :: "(int, Protocol) gomap \<Rightarrow> string \<times> int \<Rightarrow> (int, Protocol) gomap result" where
  "listen_port_entry m = (\<lambda>(protocol, port).
     if port < 1 \<or> port > 65535 then Inl (Errorf ''listen port must be within [1, 65535]: %v'' [Itoa port])
     else if protocol = ProtocolHTTP then Inr (AList.update port ProtocolHTTP m)
     else if protocol = ProtocolHTTPS then Inr (AList.update port ProtocolHTTPS m)
     else Inl (Errorf ''listen protocol must be within [%v, %v]: %v'' [ProtocolHTTP, ProtocolHTTPS, protocol]))"

definition computeIngressListenPorts :: "'w ing_builder \<Rightarrow> Ingress \<Rightarrow> bool \<Rightarrow> (int, Protocol) gomap result" where
  "computeIngressListenPorts b ing preferTLS =
     (case igb_string b (ing_annotations ing) IngressSuffixListenPorts of
        None \<Rightarrow> Inr (if preferTLS then [(443, ProtocolHTTPS)] else [(80, ProtocolHTTP)])
      | Some rawListenPorts \<Rightarrow>
          (case igbUnmarshalListenPorts b rawListenPorts of
             Inl err \<Rightarrow> Inl (Wrap err (''failed to parse listen-ports configuration: `'' @ rawListenPorts @ ''`''))
           | Inr entries_list \<Rightarrow>
               if entries_list = [] then Inl (Errorf ''empty listen-ports configuration: `%s`'' [rawListenPorts])
               else result_foldM (\<lambda>m entry. result_foldM listen_port_entry m (entries (igbRange b) entry)) [] entries_list))"

definition inbound_cidr_error :: "bool \<Rightarrow> Ingress \<Rightarrow> string \<Rightarrow> go_error \<Rightarrow> go_error" where
  "inbound_cidr_error fromIngressClassParams ing cidr err =
     (if fromIngressClassParams then Wrap err (''invalid CIDR in IngressClassParams InboundCIDR '' @ cidr)
      else Wrap err (''invalid '' @ IngressSuffixInboundCIDRs @ '' settings on Ingress: '' @ NamespacedName_String (ing_key ing)))"

definition computeIngressExplicitInboundCIDRs :: "'w ing_builder \<Rightarrow> ClassifiedIngress \<Rightarrow> (string list \<times> string list) result" where
  "computeIngressExplicitInboundCIDRs b ing =
     (let classCIDRs = (case class_params ing of None \<Rightarrow> [] | Some spec \<Rightarrow> icpsInboundCIDRs spec);
          fromIngressClassParams = (classCIDRs \<noteq> []);
          rawInboundCIDRs = (if fromIngressClassParams then classCIDRs
            else with_default [] (igb_slice b (member_annotations ing) IngressSuffixInboundCIDRs))
      in result_foldM (\<lambda>(v4s, v6s) cidr.
           case ParseCIDR cidr of
             Inl err \<Rightarrow> Inl (inbound_cidr_error fromIngressClassParams (ciIng ing) cidr err)
           | Inr _ \<Rightarrow> Inr (if strings_Contains cidr '':'' then (v4s, v6s @ [cidr]) else (v4s @ [cidr], v6s))) ([], []) rawInboundCIDRs)"

definition computeIngressExplicitSSLPolicy :: "'w ing_builder \<Rightarrow> ClassifiedIngress \<Rightarrow> string option" where
  "computeIngressExplicitSSLPolicy b ing =
     (let classPolicy = (case class_params ing of None \<Rightarrow> [] | Some spec \<Rightarrow> icpsSSLPolicy spec) in
      if classPolicy \<noteq> [] then Some classPolicy else igb_string b (member_annotations ing) IngressSuffixSSLPolicy)"

definition listen_port_config ::
  "string list \<Rightarrow> string list \<Rightarrow> string list \<Rightarrow> string option \<Rightarrow> Protocol \<Rightarrow> listenPortConfig" where
  "listen_port_config v4s v6s certs policy protocol =
     \<lparr>lpProtocol = protocol, lpInboundCIDRv4s = v4s, lpInboundCIDRv6s = v6s,
      lpSslPolicy = (if protocol = ProtocolHTTPS then policy else None),
      lpTlsCerts = (if protocol = ProtocolHTTPS then certs else [])\<rparr>"

definition computeIngressListenPortConfigByPort :: "'w ing_builder \<Rightarrow> ClassifiedIngress \<Rightarrow> ('w, (int, listenPortConfig) gomap) io" where
  "computeIngressListenPortConfigByPort b ing =
     (let explicitTLSCertARNs = computeIngressExplicitTLSCertARNs b (ciIng ing);
          explicitSSLPolicy = computeIngressExplicitSSLPolicy b ing
      in io_bind (io_lift (computeIngressExplicitInboundCIDRs b ing)) (\<lambda>(inboundCIDRv4s, inboundCIDRv6s).
         io_bind (io_lift (computeIngressListenPorts b (ciIng ing) (explicitTLSCertARNs \<noteq> []))) (\<lambda>listenPorts.
         io_bind (if ProtocolHTTPS \<in> set (map snd listenPorts) \<and> explicitTLSCertARNs = []
                  then computeIngressInferredTLSCertARNs b (ciIng ing) else io_return []) (\<lambda>inferredTLSCertARNs.
           let certs = (if explicitTLSCertARNs = [] then inferredTLSCertARNs else explicitTLSCertARNs)
           in io_return (map (\<lambda>(port, protocol). (port, listen_port_config inboundCIDRv4s inboundCIDRv6s certs explicitSSLPolicy protocol))
                listenPorts)))))"

section \<open>Merging the configurations of a port\<close>

text \<open>
  The configuration merged so far. The providers that the messages of the source name are pointers to the
  variable of the loop, so they are the ingress at hand.
\<close>

record merged_config =
  mcProtocol :: "Protocol option"
  mcInboundCIDRs :: "(string list \<times> string list) option"
  mcSslPolicy :: "string option"
  mcTlsCerts :: "string list"

definition conflict :: "string \<Rightarrow> NamespacedName \<Rightarrow> string list \<Rightarrow> string list \<Rightarrow> go_error" where
  "conflict msg ingKey old new =
     Errorf msg ([NamespacedName_String ingKey] @ old @ [NamespacedName_String ingKey] @ new)"

definition merge_protocol :: "listenPortConfigWithIngress \<Rightarrow> merged_config \<Rightarrow> merged_config result" where
  "merge_protocol cfg m =
     (let protocol = lpProtocol (lpConfig cfg) in
      case mcProtocol m of
        None \<Rightarrow> Inr (m\<lparr>mcProtocol := Some protocol\<rparr>)
      | Some p \<Rightarrow>
          if p \<noteq> protocol then Inl (conflict ''conflicting protocol, %v: %v | %v: %v'' (lpIngKey cfg) [p] [protocol]) else Inr m)"

definition merge_cidrs :: "(string set \<Rightarrow> string list) \<Rightarrow> listenPortConfigWithIngress \<Rightarrow> merged_config \<Rightarrow> merged_config result" where
  "merge_cidrs List cfg m =
     (let v4s = lpInboundCIDRv4s (lpConfig cfg); v6s = lpInboundCIDRv6s (lpConfig cfg) in
      if v4s = [] \<and> v6s = [] then Inr m
      else case mcInboundCIDRs m of
        None \<Rightarrow> Inr (m\<lparr>mcInboundCIDRs := Some (v4s, v6s)\<rparr>)
      | Some (m4s, m6s) \<Rightarrow>
          if set m4s \<noteq> set v4s \<or> set m6s \<noteq> set v6s
          then Inl (conflict ''conflicting inbound-cidrs, %v: %v, %v | %v: %v, %v'' (lpIngKey cfg)
            (List (set m4s) @ List (set m6s)) (List (set v4s) @ List (set v6s))) else Inr m)"

definition merge_ssl_policy :: "listenPortConfigWithIngress \<Rightarrow> merged_config \<Rightarrow> merged_config result" where
  "merge_ssl_policy cfg m =
     (case lpSslPolicy (lpConfig cfg) of
        None \<Rightarrow> Inr m
      | Some policy \<Rightarrow>
          (case mcSslPolicy m of
             None \<Rightarrow> Inr (m\<lparr>mcSslPolicy := Some policy\<rparr>)
           | Some p \<Rightarrow>
               if p \<noteq> policy then Inl (conflict ''conflicting sslPolicy, %v: %v | %v: %v'' (lpIngKey cfg) [p] [policy]) else Inr m))"

definition merge_certs :: "listenPortConfigWithIngress \<Rightarrow> merged_config \<Rightarrow> merged_config" where
  "merge_certs cfg m = m\<lparr>mcTlsCerts := fold (\<lambda>cert certs. if cert \<in> set certs then certs else certs @ [cert])
     (lpTlsCerts (lpConfig cfg)) (mcTlsCerts m)\<rparr>"

definition merge_port_config :: "(string set \<Rightarrow> string list) \<Rightarrow> merged_config \<Rightarrow> listenPortConfigWithIngress \<Rightarrow> merged_config result" where
  "merge_port_config List m cfg =
     result_bind (merge_protocol cfg m) (\<lambda>m.
     result_bind (merge_cidrs List cfg m) (\<lambda>m.
     result_bind (merge_ssl_policy cfg m) (\<lambda>m.
     Inr (merge_certs cfg m))))"

definition mergeListenPortConfigs :: "'w ing_builder \<Rightarrow> listenPortConfigWithIngress list \<Rightarrow> listenPortConfig result" where
  "mergeListenPortConfigs b listenPortConfigs =
     result_bind (result_foldM (merge_port_config (igbList b))
       \<lparr>mcProtocol = None, mcInboundCIDRs = None, mcSslPolicy = None, mcTlsCerts = []\<rparr> listenPortConfigs) (\<lambda>m.
       let protocol = with_default [] (mcProtocol m);
           cidrs = with_default ([''0.0.0.0/0''], [''::/0'']) (mcInboundCIDRs m);
           policy = mcSslPolicy m
       in Inr \<lparr>lpProtocol = protocol, lpInboundCIDRv4s = igbList b (set (fst cidrs)), lpInboundCIDRv6s = igbList b (set (snd cidrs)),
            lpSslPolicy = (if protocol = ProtocolHTTPS \<and> policy = None then Some (igbDefaultSSLPolicy b) else policy),
            lpTlsCerts = mcTlsCerts m\<rparr>)"

section \<open>Redirects to HTTPS and deletion protection\<close>

definition member_ssl_redirect :: "'w ing_builder \<Rightarrow> ClassifiedIngress \<Rightarrow> int option result" where
  "member_ssl_redirect b member =
     (case igb_int64 b (member_annotations member) IngressSuffixSSLRedirect of
        Inl err \<Rightarrow> Inl (Wrap err (''ingress: '' @ NamespacedName_String (ing_key (ciIng member))))
      | Inr v \<Rightarrow> Inr v)"

definition buildSSLRedirectConfig ::
  "'w ing_builder \<Rightarrow> Group \<Rightarrow> (int, listenPortConfig) gomap \<Rightarrow> SSLRedirectConfig option result" where
  "buildSSLRedirectConfig b ingGroup listenPortConfigByPort =
     result_bind (result_mapM (member_ssl_redirect b) (grpMembers ingGroup)) (\<lambda>ports.
     result_bind (only_value ''conflicting sslRedirect port: %v'' (\<lambda>ps. map Itoa (sort ps)) ports) (\<lambda>port.
       case port of
         None \<Rightarrow> Inr None
       | Some rawSSLRedirectPort \<Rightarrow>
           (case map_of listenPortConfigByPort rawSSLRedirectPort of
              None \<Rightarrow> Inl (Errorf ''listener does not exist for SSLRedirect port: %v'' [Itoa rawSSLRedirectPort])
            | Some cfg \<Rightarrow>
                if lpProtocol cfg \<noteq> ProtocolHTTPS
                then Inl (Errorf ''listener protocol non-SSL for SSLRedirect port: %v'' [Itoa rawSSLRedirectPort])
                else Inr (Some \<lparr>SSLPort = rawSSLRedirectPort, srStatusCode = ''HTTP_301''\<rparr>))))"

definition ing_lbAttrsDeletionProtectionEnabled :: string where
  "ing_lbAttrsDeletionProtectionEnabled = ''deletion_protection.enabled''"

definition ing_getDeletionProtectionViaAnnotation :: "'w ing_builder \<Rightarrow> Ingress \<Rightarrow> bool result" where
  "ing_getDeletionProtectionViaAnnotation b ing =
     result_bind (igb_map b (ing_annotations ing) IngressSuffixLoadBalancerAttributes) (\<lambda>lbAttributes.
       case map_of lbAttributes ing_lbAttrsDeletionProtectionEnabled of
         Some v \<Rightarrow>
           (case strconv_ParseBool v of
              None \<Rightarrow> Inl (Errorf ''strconv.ParseBool: parsing %q: invalid syntax'' [v])
            | Some deletionProtectionEnabled \<Rightarrow> Inr deletionProtectionEnabled)
       | None \<Rightarrow> Inr False)"

definition ing_buildManageSecurityGroupRulesFlag :: "'w ing_builder \<Rightarrow> Group \<Rightarrow> bool result" where
  "ing_buildManageSecurityGroupRulesFlag b ingGroup =
     result_bind (result_mapM (\<lambda>member. igb_bool b (member_annotations member) IngressSuffixManageSecurityGroupRules) (grpMembers ingGroup)) (\<lambda>flags.
     result_bind (only_value ''conflicting manage backend security group rules settings'' (\<lambda>_. []) flags) (\<lambda>flag.
     Inr (with_default False flag)))"

section \<open>The load balancer\<close>

definition ing_resourceIDLoadBalancer :: string where "ing_resourceIDLoadBalancer = ''LoadBalancer''"

definition ing_minimalAvailableIPAddressCount :: int where "ing_minimalAvailableIPAddressCount = 8"

text \<open>Names of the resources of a group: \<^verbatim>\<open>k8s-%.17s-%.10s\<close> for an explicit group, \<^verbatim>\<open>k8s-%.8s-%.8s-%.10s\<close> otherwise.\<close>

definition group_resource_name :: "GroupID \<Rightarrow> string \<Rightarrow> string" where
  "group_resource_name gid uuid =
     (if IsExplicit gid then ''k8s-'' @ take 17 (sanitize (nnName gid)) @ ''-'' @ take 10 uuid
      else ''k8s-'' @ take 8 (sanitize (nnNamespace gid)) @ ''-'' @ take 8 (sanitize (nnName gid)) @ ''-'' @ take 10 uuid)"

definition ing_buildLoadBalancerName :: "'w ing_builder \<Rightarrow> Group \<Rightarrow> LoadBalancerScheme \<Rightarrow> string result" where
  "ing_buildLoadBalancerName b ingGroup scheme =
     result_bind (only_value ''conflicting load balancer name: %v'' (\<lambda>vs. igbList b (set vs))
         (map (\<lambda>member. igb_string b (member_annotations member) IngressSuffixLoadBalancerName) (grpMembers ingGroup))) (\<lambda>name.
       case name of
         Some name \<Rightarrow>
           if length name > 32 then Inl (Errorf ''load balancer name cannot be longer than 32 characters'' []) else Inr name
       | None \<Rightarrow> Inr (group_resource_name (grpID ingGroup)
           (igbSha256 b (igbClusterName b @ GroupID_String (grpID ingGroup) @ scheme))))"

text \<open>A setting of a member: the one of the class parameters, or else the one of the annotation.\<close>

definition member_setting ::
  "'w ing_builder \<Rightarrow> (IngressClassParamsSpec \<Rightarrow> string option) \<Rightarrow> string \<Rightarrow> ClassifiedIngress \<Rightarrow> string option" where
  "member_setting b of_class key member =
     (case Option.bind (class_params member) of_class of
        Some v \<Rightarrow> Some v
      | None \<Rightarrow> igb_string b (member_annotations member) key)"

definition ing_buildLoadBalancerScheme :: "'w ing_builder \<Rightarrow> Group \<Rightarrow> LoadBalancerScheme result" where
  "ing_buildLoadBalancerScheme b ingGroup =
     result_bind (only_value ''conflicting scheme: %v'' (\<lambda>vs. igbList b (set vs)) (map (member_setting b icpsScheme IngressSuffixScheme) (grpMembers ingGroup))) (\<lambda>scheme.
       case scheme of
         None \<Rightarrow> Inr LoadBalancerSchemeInternal
       | Some rawScheme \<Rightarrow>
           if rawScheme = LoadBalancerSchemeInternetFacing then Inr LoadBalancerSchemeInternetFacing
           else if rawScheme = LoadBalancerSchemeInternal then Inr LoadBalancerSchemeInternal
           else Inl (Errorf ''unknown scheme: %v'' [rawScheme]))"

definition ing_buildLoadBalancerIPAddressType :: "'w ing_builder \<Rightarrow> Group \<Rightarrow> IPAddressType result" where
  "ing_buildLoadBalancerIPAddressType b ingGroup =
     result_bind (only_value ''conflicting IPAddressType: %v'' (\<lambda>vs. igbList b (set vs))
         (map (member_setting b icpsIPAddressType IngressSuffixIPAddressType) (grpMembers ingGroup))) (\<lambda>ipAddressType.
       case ipAddressType of
         None \<Rightarrow> Inr IPAddressTypeIPV4
       | Some raw \<Rightarrow>
           if raw = IPAddressTypeIPV4 then Inr IPAddressTypeIPV4
           else if raw = IPAddressTypeDualStack then Inr IPAddressTypeDualStack
           else Inl (Errorf ''unknown IPAddressType: %v'' [raw]))"

definition buildLoadBalancerSubnetMappingsWithSubnetIDs :: "string list \<Rightarrow> SubnetMapping list" where
  "buildLoadBalancerSubnetMappingsWithSubnetIDs subnetIDs =
     map (\<lambda>subnetID. \<lparr>AllocationID = None, PrivateIPv4Address = None, IPv6Address = None, SubnetID = subnetID\<rparr>) subnetIDs"

definition buildLoadBalancerSubnetMappingsWithSubnets :: "Subnet list \<Rightarrow> SubnetMapping list" where
  "buildLoadBalancerSubnetMappingsWithSubnets subnets =
     map (\<lambda>subnet. \<lparr>AllocationID = None, PrivateIPv4Address = None, IPv6Address = None,
       SubnetID = StringValue (subnetSubnetId subnet)\<rparr>) subnets"

text \<open>Selectors compare by content; the order of the entries of a map does not matter.\<close>

definition same_selector :: "SubnetSelector \<Rightarrow> SubnetSelector \<Rightarrow> bool" where
  "same_selector s s' \<longleftrightarrow> selIDs s = selIDs s' \<and> mset (selTags s) = mset (selTags s')"

definition explicit_selectors :: "Group \<Rightarrow> SubnetSelector list" where
  "explicit_selectors ingGroup = List.map_filter (\<lambda>member. Option.bind (class_params member) icpsSubnets) (grpMembers ingGroup)"

definition explicit_subnets :: "'w ing_builder \<Rightarrow> Group \<Rightarrow> string list list" where
  "explicit_subnets b ingGroup =
     List.map_filter (\<lambda>member. igb_slice b (member_annotations member) IngressSuffixSubnets)
       (filter (\<lambda>member. Option.bind (class_params member) icpsSubnets = None) (grpMembers ingGroup))"

definition discovered_mappings :: "'w ing_builder \<Rightarrow> LoadBalancerScheme \<Rightarrow> ('w, SubnetMapping list) io" where
  "discovered_mappings b scheme w =
     (case ResolveViaDiscovery (igbSubnetsResolver b)
         [WithSubnetsResolveLBType LoadBalancerTypeApplication, WithSubnetsResolveLBScheme scheme,
          WithSubnetsResolveAvailableIPAddressCount ing_minimalAvailableIPAddressCount,
          WithSubnetsClusterTagCheck (Enabled (igbFeatureGates b) SubnetsClusterTagCheck)] w of
        (Inl err, w') \<Rightarrow> (Inl (Wrap err ''couldn't auto-discover subnets''), w')
      | (Inr chosenSubnets, w') \<Rightarrow> (Inr (buildLoadBalancerSubnetMappingsWithSubnets chosenSubnets), w'))"

text \<open>The subnets of the load balancer that exists, or discovered ones.\<close>

definition default_subnet_mappings :: "'w ing_builder \<Rightarrow> Group \<Rightarrow> LoadBalancerScheme \<Rightarrow> ('w, SubnetMapping list) io" where
  "default_subnet_mappings b ingGroup scheme =
     io_bind (ListLoadBalancers (igbTaggingManager b) [TagsAsTagFilter (StackTags (igbTrackingProvider b)
         \<lparr>sidNamespace = nnNamespace (grpID ingGroup), sidName = nnName (grpID ingGroup)\<rparr>)]) (\<lambda>sdkLBs.
       case sdkLBs of
         lb # _ \<Rightarrow>
           if scheme = StringValue (slbScheme (lwLoadBalancer lb))
           then io_return (buildLoadBalancerSubnetMappingsWithSubnetIDs (map StringValue (slbAvailabilityZoneSubnetIds (lwLoadBalancer lb))))
           else discovered_mappings b scheme
       | [] \<Rightarrow> discovered_mappings b scheme)"

definition ing_buildLoadBalancerSubnetMappings :: "'w ing_builder \<Rightarrow> Group \<Rightarrow> LoadBalancerScheme \<Rightarrow> ('w, SubnetMapping list) io" where
  "ing_buildLoadBalancerSubnetMappings b ingGroup scheme =
     (let lbOpts = [WithSubnetsResolveLBType LoadBalancerTypeApplication, WithSubnetsResolveLBScheme scheme];
          tagCheck = WithSubnetsClusterTagCheck (Enabled (igbFeatureGates b) SubnetsClusterTagCheck);
          single = WithALBSingleSubnet (Enabled (igbFeatureGates b) ALBSingleSubnet)
      in case explicit_selectors ingGroup of
        selector # selectors \<Rightarrow>
          if explicit_subnets b ingGroup \<noteq> []
          then io_fail (Errorf ''conflicting subnet specifications: IngressClassParams versus annotation'' [])
          else if \<not> list_all (same_selector selector) selectors
          then io_fail (Errorf ''conflicting IngressClassParams subnet specifications'' [])
          else io_bind (ResolveViaSelector (igbSubnetsResolver b) selector (lbOpts @ [tagCheck, single])) (\<lambda>chosenSubnets.
            io_return (buildLoadBalancerSubnetMappingsWithSubnets chosenSubnets))
      | [] \<Rightarrow>
          (case explicit_subnets b ingGroup of
             names # namesList \<Rightarrow>
               (case List.find (\<lambda>other. mset names \<noteq> mset other) namesList of
                  Some other \<Rightarrow> io_fail (Errorf ''conflicting subnets: %v | %v'' (names @ other))
                | None \<Rightarrow>
                    io_bind (ResolveViaNameOrIDSlice (igbSubnetsResolver b) names (lbOpts @ [single])) (\<lambda>chosenSubnets.
                      io_return (buildLoadBalancerSubnetMappingsWithSubnets chosenSubnets)))
           | [] \<Rightarrow> default_subnet_mappings b ingGroup scheme))"

definition buildFrontendSGNameOrIDsFromAnnotation :: "'w ing_builder \<Rightarrow> Group \<Rightarrow> string list result" where
  "buildFrontendSGNameOrIDsFromAnnotation b ingGroup =
     (case List.map_filter (\<lambda>member. igb_slice b (member_annotations member) IngressSuffixSecurityGroups) (grpMembers ingGroup) of
        [] \<Rightarrow> Inr []
      | names # namesList \<Rightarrow>
          (case List.find (\<lambda>other. names \<noteq> other) namesList of
             Some other \<Rightarrow> Inl (Errorf ''conflicting securityGroups: %v | %v'' (names @ other))
           | None \<Rightarrow> Inr names))"

definition member_coip_pool :: "'w ing_builder \<Rightarrow> ClassifiedIngress \<Rightarrow> string option result" where
  "member_coip_pool b member =
     (case igb_string b (member_annotations member) IngressSuffixCustomerOwnedIPv4Pool of
        None \<Rightarrow> Inr None
      | Some pool \<Rightarrow>
          if pool = [] then Inl (Errorf ''cannot use empty value for %s annotation, ingress: %v''
              [IngressSuffixCustomerOwnedIPv4Pool, NamespacedName_String (ing_key (ciIng member))])
          else Inr (Some pool))"

definition buildLoadBalancerCOIPv4Pool :: "'w ing_builder \<Rightarrow> Group \<Rightarrow> string option result" where
  "buildLoadBalancerCOIPv4Pool b ingGroup =
     result_bind (result_mapM (member_coip_pool b) (grpMembers ingGroup)) (\<lambda>pools.
       only_value ''conflicting CustomerOwnedIPv4Pool: %v'' (\<lambda>vs. igbList b (set vs)) pools)"

definition ing_buildLoadBalancerAttributes :: "'w ing_builder \<Rightarrow> Group \<Rightarrow> LoadBalancerAttribute list result" where
  "ing_buildLoadBalancerAttributes b ingGroup =
     result_bind (buildIngressGroupLoadBalancerAttributes b (grpMembers ingGroup)) (\<lambda>ingGroupAttributes.
       Inr (map (\<lambda>(attrKey, attrValue). \<lparr>lbaKey = attrKey, lbaValue = attrValue\<rparr>) (entries (igbRange b) ingGroupAttributes)))"

definition buildLoadBalancerTags :: "'w ing_builder \<Rightarrow> Group \<Rightarrow> string_map result" where
  "buildLoadBalancerTags b ingGroup = group_tags b (grpMembers ingGroup)"

section \<open>The managed security group\<close>

definition ing_resourceIDManagedSecurityGroup :: string where
  "ing_resourceIDManagedSecurityGroup = ''ManagedLBSecurityGroup''"

definition ing_buildManagedSecurityGroupName :: "'w ing_builder \<Rightarrow> Group \<Rightarrow> string" where
  "ing_buildManagedSecurityGroupName b ingGroup =
     group_resource_name (grpID ingGroup) (igbSha256 b (igbClusterName b @ GroupID_String (grpID ingGroup)))"

definition ing_buildManagedSecurityGroupTags :: "'w ing_builder \<Rightarrow> Group \<Rightarrow> string_map result" where
  "ing_buildManagedSecurityGroupTags b ingGroup = group_tags b (grpMembers ingGroup)"

definition port_permission :: "int \<Rightarrow> IPRange list \<Rightarrow> IPv6Range list \<Rightarrow> IPPermission" where
  "port_permission port v4s v6s =
     \<lparr>IPProtocol = ''tcp'', FromPort = Some port, ToPort = Some port, IPRanges = v4s, IPv6Ranges = v6s, UserIDGroupPairs = []\<rparr>"

definition ing_buildManagedSecurityGroupIngressPermissions ::
  "'w ing_builder \<Rightarrow> (int, listenPortConfig) gomap \<Rightarrow> IPAddressType \<Rightarrow> IPPermission list" where
  "ing_buildManagedSecurityGroupIngressPermissions b listenPortConfigByPort ipAddressType =
     concat (map (\<lambda>(port, cfg).
       map (\<lambda>cidr. port_permission port [\<lparr>CIDRIP = cidr, iprDescription = []\<rparr>] []) (lpInboundCIDRv4s cfg) @
       (if ipAddressType = IPAddressTypeDualStack
        then map (\<lambda>cidr. port_permission port [] [\<lparr>CIDRIPv6 = cidr, ip6rDescription = []\<rparr>]) (lpInboundCIDRv6s cfg) else []))
       (entries (igbRangePorts b) listenPortConfigByPort))"

definition ing_buildManagedSecurityGroupSpec ::
  "'w ing_builder \<Rightarrow> Group \<Rightarrow> (int, listenPortConfig) gomap \<Rightarrow> IPAddressType \<Rightarrow> SecurityGroupSpec result" where
  "ing_buildManagedSecurityGroupSpec b ingGroup listenPortConfigByPort ipAddressType =
     result_bind (ing_buildManagedSecurityGroupTags b ingGroup) (\<lambda>tags.
       Inr \<lparr>sgGroupName = ing_buildManagedSecurityGroupName b ingGroup,
            sgDescription = ''[k8s] Managed SecurityGroup for LoadBalancer'', sgTags = tags,
            sgIngress = ing_buildManagedSecurityGroupIngressPermissions b listenPortConfigByPort ipAddressType\<rparr>)"

definition ing_buildManagedSecurityGroup ::
  "'w ing_builder \<Rightarrow> Group \<Rightarrow> (int, listenPortConfig) gomap \<Rightarrow> IPAddressType \<Rightarrow> ('w, ref) ing_build" where
  "ing_buildManagedSecurityGroup b ingGroup listenPortConfigByPort ipAddressType =
     io_bind (io_lift (ing_buildManagedSecurityGroupSpec b ingGroup listenPortConfigByPort ipAddressType)) (\<lambda>sgSpec.
       on_model (NewSecurityGroup ing_resourceIDManagedSecurityGroup sgSpec))"

section \<open>Security groups and specification\<close>

definition ing_allocate_backend_sg ::
  "'w ing_builder \<Rightarrow> Group \<Rightarrow> string_map \<Rightarrow> StringToken list \<Rightarrow> ('w, StringToken list) ing_build" where
  "ing_allocate_backend_sg b ingGroup additionalTags lbSGTokens =
     io_bind (in_world (run_alone (BackendSG_Get (igbBackendSGProvider b) ResourceTypeIngress
         (ToSliceOfNamespacedNames (map (\<lambda>member. ingMeta (ciIng member)) (grpMembers ingGroup))) additionalTags))) (\<lambda>backendSGID.
       let token = LiteralStringToken backendSGID in
       io_bind (modify_task (\<lambda>t. t\<lparr>tBackendSGIDToken := Some token, tBackendSGAllocated := True\<rparr>)) (\<lambda>_.
         io_return (lbSGTokens @ [token])))"

definition ing_managed_groups ::
  "'w ing_builder \<Rightarrow> Group \<Rightarrow> (int, listenPortConfig) gomap \<Rightarrow> IPAddressType \<Rightarrow> string_map \<Rightarrow> ('w, StringToken list) ing_build" where
  "ing_managed_groups b ingGroup listenPortConfigByPort ipAddressType additionalTags =
     io_bind (ing_buildManagedSecurityGroup b ingGroup listenPortConfigByPort ipAddressType) (\<lambda>managedSG.
       if \<not> igbEnableBackendSG b then
         io_bind (modify_task (\<lambda>t. t\<lparr>tBackendSGIDToken := Some (GroupID_token managedSG)\<rparr>)) (\<lambda>_.
           io_return [GroupID_token managedSG])
       else ing_allocate_backend_sg b ingGroup additionalTags [GroupID_token managedSG])"

definition ing_named_groups ::
  "'w ing_builder \<Rightarrow> Group \<Rightarrow> string list \<Rightarrow> string_map \<Rightarrow> ('w, StringToken list) ing_build" where
  "ing_named_groups b ingGroup sgNameOrIDs additionalTags =
     io_bind (io_lift (ing_buildManageSecurityGroupRulesFlag b ingGroup)) (\<lambda>manageBackendSGRules.
     io_bind (in_world (ResolveViaNameOrID (igbSgResolver b) sgNameOrIDs)) (\<lambda>frontendSGIDs.
       let lbSGTokens = map LiteralStringToken frontendSGIDs in
       if manageBackendSGRules then
         (if \<not> igbEnableBackendSG b
          then io_fail (Errorf ''backendSG feature is required to manage worker node SG rules when frontendSG manually specified'' [])
          else ing_allocate_backend_sg b ingGroup additionalTags lbSGTokens)
       else io_return lbSGTokens))"

definition ing_buildLoadBalancerSecurityGroups ::
  "'w ing_builder \<Rightarrow> Group \<Rightarrow> (int, listenPortConfig) gomap \<Rightarrow> IPAddressType \<Rightarrow> string_map \<Rightarrow> ('w, StringToken list) ing_build" where
  "ing_buildLoadBalancerSecurityGroups b ingGroup listenPortConfigByPort ipAddressType additionalTags =
     io_bind (io_lift (buildFrontendSGNameOrIDsFromAnnotation b ingGroup)) (\<lambda>sgNameOrIDsViaAnnotation.
       if sgNameOrIDsViaAnnotation = [] then ing_managed_groups b ingGroup listenPortConfigByPort ipAddressType additionalTags
       else ing_named_groups b ingGroup sgNameOrIDsViaAnnotation additionalTags)"

definition ing_buildLoadBalancerSpec ::
  "'w ing_builder \<Rightarrow> Group \<Rightarrow> (int, listenPortConfig) gomap \<Rightarrow> ('w, LoadBalancerSpec) ing_build" where
  "ing_buildLoadBalancerSpec b ingGroup listenPortConfigByPort =
     io_bind (io_lift (ing_buildLoadBalancerScheme b ingGroup)) (\<lambda>scheme.
     io_bind (io_lift (ing_buildLoadBalancerIPAddressType b ingGroup)) (\<lambda>ipAddressType.
     io_bind (in_world (ing_buildLoadBalancerSubnetMappings b ingGroup scheme)) (\<lambda>subnetMappings.
     io_bind (io_lift (buildLoadBalancerTags b ingGroup)) (\<lambda>tags.
     io_bind (ing_buildLoadBalancerSecurityGroups b ingGroup listenPortConfigByPort ipAddressType tags) (\<lambda>securityGroups.
     io_bind (io_lift (buildLoadBalancerCOIPv4Pool b ingGroup)) (\<lambda>coIPv4Pool.
     io_bind (io_lift (ing_buildLoadBalancerAttributes b ingGroup)) (\<lambda>loadBalancerAttributes.
     io_bind (io_lift (ing_buildLoadBalancerName b ingGroup scheme)) (\<lambda>name.
     io_return \<lparr>lbName = name, lbType = LoadBalancerTypeApplication, lbScheme = Some scheme, lbIPAddressType = Some ipAddressType,
       lbSubnetMappings = subnetMappings, lbSecurityGroups = securityGroups, lbCustomerOwnedIPv4Pool = coIPv4Pool,
       lbLoadBalancerAttributes = loadBalancerAttributes, lbTags = tags\<rparr>))))))))"

definition ing_buildLoadBalancer :: "'w ing_builder \<Rightarrow> Group \<Rightarrow> (int, listenPortConfig) gomap \<Rightarrow> ('w, ref) ing_build" where
  "ing_buildLoadBalancer b ingGroup listenPortConfigByPort =
     io_bind (ing_buildLoadBalancerSpec b ingGroup listenPortConfigByPort) (\<lambda>lbSpec.
     io_bind (on_model (NewLoadBalancer ing_resourceIDLoadBalancer lbSpec)) (\<lambda>lb.
     io_bind (modify_task (\<lambda>t. t\<lparr>tLoadBalancer := Some lb\<rparr>)) (\<lambda>_. io_return lb)))"

end
