(* ===== verification/Ingress_Builder.thy ===== *)
theory Ingress_Builder
  imports Ingress_LB
begin

text \<open>
  The model builder for ingress groups, second part: target groups and their bindings
  (\<^verbatim>\<open>model_build_target_group.go\<close>), actions (\<^verbatim>\<open>model_build_actions.go\<close>), listeners (\<^verbatim>\<open>model_build_listener.go\<close>) and
  their rules (\<^verbatim>\<open>model_build_listener_rules.go\<close>), add-ons (\<^verbatim>\<open>model_build_load_balancer_addons.go\<close>) and the run of
  the task (\<^verbatim>\<open>model_builder.go\<close>).
\<close>

section \<open>Health checks\<close>

definition ProtocolVersionHTTP1 :: ProtocolVersion where "ProtocolVersionHTTP1 = ''HTTP1''"

definition ProtocolVersionHTTP2 :: ProtocolVersion where "ProtocolVersionHTTP2 = ''HTTP2''"

definition ProtocolVersionGRPC :: ProtocolVersion where "ProtocolVersionGRPC = ''GRPC''"

definition ing_healthCheckPortTrafficPort :: string where "ing_healthCheckPortTrafficPort = ''traffic-port''"

definition ing_defaultHealthCheckPathHTTP :: string where "ing_defaultHealthCheckPathHTTP = ''/''"

definition ing_defaultHealthCheckPathGRPC :: string where "ing_defaultHealthCheckPathGRPC = ''/AWS.ALB/healthcheck''"

definition ing_defaultHealthCheckIntervalSeconds :: int where "ing_defaultHealthCheckIntervalSeconds = 15"

definition ing_defaultHealthCheckTimeoutSeconds :: int where "ing_defaultHealthCheckTimeoutSeconds = 5"

definition ing_defaultHealthCheckHealthyThresholdCount :: int where "ing_defaultHealthCheckHealthyThresholdCount = 2"

definition ing_defaultHealthCheckUnhealthyThresholdCount :: int where "ing_defaultHealthCheckUnhealthyThresholdCount = 2"

definition ing_defaultHealthCheckMatcherHTTPCode :: string where "ing_defaultHealthCheckMatcherHTTPCode = ''200''"

definition ing_defaultHealthCheckMatcherGRPCCode :: string where "ing_defaultHealthCheckMatcherGRPCCode = ''12''"

definition ing_buildTargetGroupHealthCheckPort ::
  "'w ing_builder \<Rightarrow> Service \<Rightarrow> string_map \<Rightarrow> TargetType \<Rightarrow> IntOrString result" where
  "ing_buildTargetGroupHealthCheckPort b svc annos targetType =
     (case igb_string b annos IngressSuffixHealthCheckPort of
        None \<Rightarrow> Inr (StrVal ing_healthCheckPortTrafficPort)
      | Some raw \<Rightarrow>
          if raw = ing_healthCheckPortTrafficPort then Inr (StrVal ing_healthCheckPortTrafficPort)
          else case igbIntstrParse b raw of
            IntVal i \<Rightarrow> Inr (IntVal i)
          | StrVal s \<Rightarrow>
              (case LookupServicePort svc (StrVal s) of
                 Inl err \<Rightarrow> Inl (Wrap err ''failed to resolve healthCheckPort'')
               | Inr svcPort \<Rightarrow>
                   if targetType = TargetTypeInstance then Inr (IntVal (spNodePort svcPort))
                   else case spTargetPort svcPort of
                     IntVal i \<Rightarrow> Inr (IntVal i)
                   | StrVal _ \<Rightarrow> Inl (Errorf ''cannot use named healthCheckPort for IP TargetType when service's targetPort is a named port'' [])))"

definition ing_buildTargetGroupHealthCheckProtocol :: "'w ing_builder \<Rightarrow> string_map \<Rightarrow> Protocol \<Rightarrow> Protocol result" where
  "ing_buildTargetGroupHealthCheckProtocol b annos tgProt =
     (let raw = with_default tgProt (igb_string b annos IngressSuffixHealthCheckProtocol) in
      if raw = ProtocolHTTP then Inr ProtocolHTTP
      else if raw = ProtocolHTTPS then Inr ProtocolHTTPS
      else Inl (Errorf ''healthCheckProtocol must be within [%v, %v]'' [ProtocolHTTP, ProtocolHTTPS]))"

text \<open>The default for a protocol version: one for HTTP, one for gRPC.\<close>

definition by_version :: "ProtocolVersion \<Rightarrow> string \<Rightarrow> string \<Rightarrow> string" where
  "by_version v http grpc =
     (if v = ProtocolVersionHTTP1 \<or> v = ProtocolVersionHTTP2 then http else if v = ProtocolVersionGRPC then grpc else [])"

definition ing_buildTargetGroupHealthCheckPath :: "'w ing_builder \<Rightarrow> string_map \<Rightarrow> ProtocolVersion \<Rightarrow> string" where
  "ing_buildTargetGroupHealthCheckPath b annos v =
     with_default (by_version v ing_defaultHealthCheckPathHTTP ing_defaultHealthCheckPathGRPC)
       (igb_string b annos IngressSuffixHealthCheckPath)"

definition ing_buildTargetGroupHealthCheckMatcher :: "'w ing_builder \<Rightarrow> string_map \<Rightarrow> ProtocolVersion \<Rightarrow> HealthCheckMatcher" where
  "ing_buildTargetGroupHealthCheckMatcher b annos v =
     (let raw = with_default (by_version v ing_defaultHealthCheckMatcherHTTPCode ing_defaultHealthCheckMatcherGRPCCode)
          (igb_string b annos IngressSuffixSuccessCodes) in
      if v = ProtocolVersionGRPC then \<lparr>HTTPCode = None, GRPCCode = Some raw\<rparr> else \<lparr>HTTPCode = Some raw, GRPCCode = None\<rparr>)"

definition igb_int64_or :: "'w ing_builder \<Rightarrow> string_map \<Rightarrow> string \<Rightarrow> int \<Rightarrow> int result" where
  "igb_int64_or b annos key d = result_bind (igb_int64 b annos key) (\<lambda>v. Inr (with_default d v))"

definition ing_buildTargetGroupHealthCheckIntervalSeconds :: "'w ing_builder \<Rightarrow> string_map \<Rightarrow> int result" where
  "ing_buildTargetGroupHealthCheckIntervalSeconds b annos =
     igb_int64_or b annos IngressSuffixHealthCheckIntervalSeconds ing_defaultHealthCheckIntervalSeconds"

definition ing_buildTargetGroupHealthCheckTimeoutSeconds :: "'w ing_builder \<Rightarrow> string_map \<Rightarrow> int result" where
  "ing_buildTargetGroupHealthCheckTimeoutSeconds b annos =
     igb_int64_or b annos IngressSuffixHealthCheckTimeoutSeconds ing_defaultHealthCheckTimeoutSeconds"

definition ing_buildTargetGroupHealthCheckHealthyThresholdCount :: "'w ing_builder \<Rightarrow> string_map \<Rightarrow> int result" where
  "ing_buildTargetGroupHealthCheckHealthyThresholdCount b annos =
     igb_int64_or b annos IngressSuffixHealthyThresholdCount ing_defaultHealthCheckHealthyThresholdCount"

definition ing_buildTargetGroupHealthCheckUnhealthyThresholdCount :: "'w ing_builder \<Rightarrow> string_map \<Rightarrow> int result" where
  "ing_buildTargetGroupHealthCheckUnhealthyThresholdCount b annos =
     igb_int64_or b annos IngressSuffixUnhealthyThresholdCount ing_defaultHealthCheckUnhealthyThresholdCount"

definition ing_buildTargetGroupHealthCheckConfig ::
  "'w ing_builder \<Rightarrow> Service \<Rightarrow> string_map \<Rightarrow> TargetType \<Rightarrow> Protocol \<Rightarrow> ProtocolVersion \<Rightarrow> TargetGroupHealthCheckConfig result" where
  "ing_buildTargetGroupHealthCheckConfig b svc annos targetType tgProt tgProtVersion =
     result_bind (ing_buildTargetGroupHealthCheckPort b svc annos targetType) (\<lambda>port.
     result_bind (ing_buildTargetGroupHealthCheckProtocol b annos tgProt) (\<lambda>prot.
     result_bind (ing_buildTargetGroupHealthCheckIntervalSeconds b annos) (\<lambda>interval.
     result_bind (ing_buildTargetGroupHealthCheckTimeoutSeconds b annos) (\<lambda>timeout.
     result_bind (ing_buildTargetGroupHealthCheckHealthyThresholdCount b annos) (\<lambda>healthy.
     result_bind (ing_buildTargetGroupHealthCheckUnhealthyThresholdCount b annos) (\<lambda>unhealthy.
     Inr \<lparr>hcPort = Some port, hcProtocol = Some prot,
          hcPath = Some (ing_buildTargetGroupHealthCheckPath b annos tgProtVersion),
          hcMatcher = Some (ing_buildTargetGroupHealthCheckMatcher b annos tgProtVersion), hcIntervalSeconds = Some interval,
          hcTimeoutSeconds = Some timeout, hcHealthyThresholdCount = Some healthy,
          hcUnhealthyThresholdCount = Some unhealthy\<rparr>))))))"

section \<open>Target groups\<close>

definition buildTargetGroupTargetType :: "'w ing_builder \<Rightarrow> string_map \<Rightarrow> TargetType result" where
  "buildTargetGroupTargetType b annos =
     (let raw = with_default (igbDefaultTargetType b) (igb_string b annos IngressSuffixTargetType) in
      if raw = TargetTypeInstance then Inr TargetTypeInstance
      else if raw = TargetTypeIP then
        (if \<not> igbEnableIPTargetType b
         then Inl (Errorf ''unsupported targetType: %v when EnableIPTargetType is %v'' [raw, show_bool (igbEnableIPTargetType b)])
         else Inr TargetTypeIP)
      else Inl (Errorf ''unknown targetType: %v'' [raw]))"

definition ing_buildTargetGroupIPAddressType :: "Service \<Rightarrow> ing_task \<Rightarrow> TargetGroupIPAddressType result" where
  "ing_buildTargetGroupIPAddressType svc t =
     (if list_ex (\<lambda>ipFamily. ipFamily = ''IPv6'') (svcIPFamilies svc) then
        result_bind (task_lb_spec t) (\<lambda>lb.
          if lbIPAddressType lb \<noteq> Some IPAddressTypeDualStack
          then Inl (Errorf ''unsupported IPv6 configuration, lb not dual-stack'' [])
          else Inr TargetGroupIPAddressTypeIPv6)
      else Inr TargetGroupIPAddressTypeIPv4)"

definition ing_buildTargetGroupPort :: "TargetType \<Rightarrow> ServicePort \<Rightarrow> int" where
  "ing_buildTargetGroupPort targetType svcPort =
     (if targetType = TargetTypeInstance then spNodePort svcPort
      else case spTargetPort svcPort of IntVal i \<Rightarrow> i | StrVal _ \<Rightarrow> 1)"

definition buildTargetGroupProtocol :: "'w ing_builder \<Rightarrow> string_map \<Rightarrow> Protocol result" where
  "buildTargetGroupProtocol b annos =
     (let raw = with_default ProtocolHTTP (igb_string b annos IngressSuffixBackendProtocol) in
      if raw = ProtocolHTTP then Inr ProtocolHTTP
      else if raw = ProtocolHTTPS then Inr ProtocolHTTPS
      else Inl (Errorf ''backend protocol must be within [%v, %v]: %v'' [ProtocolHTTP, ProtocolHTTPS, raw]))"

definition buildTargetGroupProtocolVersion :: "'w ing_builder \<Rightarrow> string_map \<Rightarrow> ProtocolVersion result" where
  "buildTargetGroupProtocolVersion b annos =
     (let raw = with_default ProtocolVersionHTTP1 (igb_string b annos IngressSuffixBackendProtocolVersion) in
      if raw = ProtocolVersionHTTP1 then Inr ProtocolVersionHTTP1
      else if raw = ProtocolVersionHTTP2 then Inr ProtocolVersionHTTP2
      else if raw = ProtocolVersionGRPC then Inr ProtocolVersionGRPC
      else Inl (Errorf ''backend protocol version must be within [%v, %v, %v]: %v''
        [ProtocolVersionHTTP1, ProtocolVersionHTTP2, ProtocolVersionGRPC, raw]))"

definition ing_buildTargetGroupAttributes :: "'w ing_builder \<Rightarrow> string_map \<Rightarrow> TargetGroupAttribute list result" where
  "ing_buildTargetGroupAttributes b annos =
     result_bind (igb_map b annos IngressSuffixTargetGroupAttributes) (\<lambda>raw.
       Inr (map (\<lambda>(k, v). \<lparr>tgaKey = k, tgaValue = v\<rparr>) (entries (igbRange b) raw)))"

definition buildTargetGroupTags :: "'w ing_builder \<Rightarrow> ClassifiedIngress \<Rightarrow> Service \<Rightarrow> string_map result" where
  "buildTargetGroupTags b ing svc =
     result_bind (buildIngressBackendResourceTags b ing svc) (\<lambda>ingSvcTags. Inr (MergeStringMap [igbDefaultTags b, ingSvcTags]))"

definition ing_buildTargetGroupName ::
  "'w ing_builder \<Rightarrow> GroupID \<Rightarrow> NamespacedName \<Rightarrow> Service \<Rightarrow> IntOrString \<Rightarrow> int \<Rightarrow> TargetType \<Rightarrow> Protocol \<Rightarrow> ProtocolVersion \<Rightarrow> string" where
  "ing_buildTargetGroupName b gid ingKey svc port tgport targetType tgProt tgProtVersion =
     (let uuid = igbSha256 b (igbClusterName b @ GroupID_String gid @ nnNamespace ingKey @ nnName ingKey @ omUID (svcMeta svc) @
            IntOrString_String port @ Itoa tgport @ targetType @ tgProt @ tgProtVersion)
      in ''k8s-'' @ take 8 (sanitize (omNamespace (svcMeta svc))) @ ''-'' @ take 8 (sanitize (omName (svcMeta svc))) @ ''-'' @ take 10 uuid)"

definition ing_buildTargetGroupSpec ::
  "'w ing_builder \<Rightarrow> GroupID \<Rightarrow> ClassifiedIngress \<Rightarrow> Service \<Rightarrow> IntOrString \<Rightarrow> ServicePort \<Rightarrow> ing_task \<Rightarrow> TargetGroupSpec result" where
  "ing_buildTargetGroupSpec b gid ing svc port svcPort t =
     (let annos = MergeStringMap [omAnnotations (svcMeta svc), member_annotations ing] in
      result_bind (buildTargetGroupTargetType b annos) (\<lambda>targetType.
      result_bind (buildTargetGroupProtocol b annos) (\<lambda>tgProt.
      result_bind (buildTargetGroupProtocolVersion b annos) (\<lambda>tgProtVersion.
      result_bind (ing_buildTargetGroupHealthCheckConfig b svc annos targetType tgProt tgProtVersion) (\<lambda>healthCheckConfig.
      result_bind (ing_buildTargetGroupAttributes b annos) (\<lambda>tgAttributes.
      result_bind (buildTargetGroupTags b ing svc) (\<lambda>tags.
      result_bind (ing_buildTargetGroupIPAddressType svc t) (\<lambda>ipAddressType.
        let tgport = ing_buildTargetGroupPort targetType svcPort;
            name = ing_buildTargetGroupName b gid (ing_key (ciIng ing)) svc port tgport targetType tgProt tgProtVersion
        in Inr \<lparr>tgName = name, tgTargetType = targetType, tgPort = tgport, tgProtocol = tgProt,
             tgProtocolVersion = Some tgProtVersion, tgIPAddressType = Some ipAddressType,
             tgHealthCheckConfig = Some healthCheckConfig, tgTargetGroupAttributes = tgAttributes, tgTags = tags\<rparr>))))))))"

definition ing_buildTargetGroupResourceID :: "NamespacedName \<Rightarrow> NamespacedName \<Rightarrow> IntOrString \<Rightarrow> string" where
  "ing_buildTargetGroupResourceID ingKey svcKey port =
     nnNamespace ingKey @ ''/'' @ nnName ingKey @ ''-'' @ nnName svcKey @ '':'' @ IntOrString_String port"

definition ing_buildTargetGroupBindingNodeSelector ::
  "'w ing_builder \<Rightarrow> ClassifiedIngress \<Rightarrow> Service \<Rightarrow> TargetType \<Rightarrow> LabelSelector option result" where
  "ing_buildTargetGroupBindingNodeSelector b ing svc targetType =
     (if targetType \<noteq> TargetTypeInstance then Inr None
      else result_bind (igb_map b (MergeStringMap [omAnnotations (svcMeta svc), member_annotations ing]) IngressSuffixTargetNodeLabels) (\<lambda>labels.
        if labels = [] then Inr None else Inr (Some \<lparr>matchLabels = labels, matchExpressions = []\<rparr>)))"

definition ing_buildTargetGroupBindingNetworking ::
  "'w ing_builder \<Rightarrow> StringToken option \<Rightarrow> IntOrString \<Rightarrow> IntOrString \<Rightarrow> ModelTargetGroupBindingNetworking option" where
  "ing_buildTargetGroupBindingNetworking b backendSGIDToken targetPort healthCheckPort =
     (case backendSGIDToken of
        None \<Rightarrow> None
      | Some token \<Rightarrow>
          let rule = (\<lambda>p. \<lparr>mnirFrom = [\<lparr>mnpIPBlock = None, mnpSecurityGroup = Some \<lparr>msgGroupID = token\<rparr>\<rparr>],
                mnirPorts = [\<lparr>nportProtocol = Some NetworkingProtocolTCP, nportPort = p\<rparr>]\<rparr>)
          in if igbDisableRestrictedSGRules b then Some \<lparr>mtgbnIngress = [rule None]\<rparr>
             else Some \<lparr>mtgbnIngress = map rule (Some targetPort #
               (if IntOrString_String healthCheckPort \<noteq> ing_healthCheckPortTrafficPort then [Some healthCheckPort] else []))\<rparr>)"

text \<open>The health check port is a pointer that is dereferenced; the specifications built above always have one.\<close>

definition ing_buildTargetGroupBindingSpec ::
  "'w ing_builder \<Rightarrow> StringToken option \<Rightarrow> ref \<Rightarrow> TargetGroupSpec \<Rightarrow> Service \<Rightarrow> IntOrString \<Rightarrow> ServicePort \<Rightarrow> LabelSelector option \<Rightarrow>
     TargetGroupBindingResourceSpec result" where
  "ing_buildTargetGroupBindingSpec b backendSGIDToken tg tgSpec svc port svcPort nodeSelector =
     (let targetType = tgTargetType tgSpec;
          targetPort = (if targetType = TargetTypeInstance then IntVal (spNodePort svcPort) else spTargetPort svcPort)
      in case Option.bind (tgHealthCheckConfig tgSpec) hcPort of
        None \<Rightarrow> Inl (Errorf ''invalid memory address or nil pointer dereference'' [])
      | Some healthCheckPort \<Rightarrow>
          Inr \<lparr>tgbrTemplate = \<lparr>
            tgbtMeta = \<lparr>omNamespace = omNamespace (svcMeta svc), omName = tgName tgSpec, omUID = [], omLabels = [],
              omAnnotations = [], omFinalizers = [], omGeneration = 0, omDeletionTimestamp = None\<rparr>,
            tgbtSpec = \<lparr>mtgbTargetGroupARN = TargetGroupARN_token tg, mtgbTargetType = Some targetType,
              mtgbServiceRef = \<lparr>srName = omName (svcMeta svc), srPort = port\<rparr>,
              mtgbNetworking = ing_buildTargetGroupBindingNetworking b backendSGIDToken targetPort healthCheckPort,
              mtgbNodeSelector = nodeSelector, mtgbIPAddressType = tgIPAddressType tgSpec\<rparr>\<rparr>\<rparr>)"

definition ing_buildTargetGroupBinding ::
  "'w ing_builder \<Rightarrow> ref \<Rightarrow> string \<Rightarrow> TargetGroupSpec \<Rightarrow> Service \<Rightarrow> IntOrString \<Rightarrow> ServicePort \<Rightarrow> LabelSelector option \<Rightarrow> ('w, ref) ing_build" where
  "ing_buildTargetGroupBinding b tg tgID tgSpec svc port svcPort nodeSelector =
     io_bind get_task (\<lambda>t.
     io_bind (io_lift (ing_buildTargetGroupBindingSpec b (tBackendSGIDToken t) tg tgSpec svc port svcPort nodeSelector)) (\<lambda>tgbSpec.
     on_model (NewTargetGroupBindingResource tgID tgbSpec)))"

text \<open>The steps for a target group that does not exist yet.\<close>

definition ing_new_target_group ::
  "'w ing_builder \<Rightarrow> GroupID \<Rightarrow> ClassifiedIngress \<Rightarrow> Service \<Rightarrow> IntOrString \<Rightarrow> string \<Rightarrow> ('w, ref) ing_build" where
  "ing_new_target_group b gid ing svc port tgResID =
     io_bind (io_lift (LookupServicePort svc port)) (\<lambda>svcPort.
     io_bind get_task (\<lambda>t.
     io_bind (io_lift (ing_buildTargetGroupSpec b gid ing svc port svcPort t)) (\<lambda>tgSpec.
     io_bind (io_lift (ing_buildTargetGroupBindingNodeSelector b ing svc (tgTargetType tgSpec))) (\<lambda>nodeSelector.
     io_bind (on_model (NewTargetGroup tgResID tgSpec)) (\<lambda>tg.
     io_bind (modify_task (\<lambda>t. t\<lparr>tTgByResID := AList.update tgResID tg (tTgByResID t)\<rparr>)) (\<lambda>_.
     io_bind (ing_buildTargetGroupBinding b tg tgResID tgSpec svc port svcPort nodeSelector) (\<lambda>_.
     io_return tg)))))))"

definition ing_buildTargetGroup ::
  "'w ing_builder \<Rightarrow> GroupID \<Rightarrow> ClassifiedIngress \<Rightarrow> Service \<Rightarrow> IntOrString \<Rightarrow> ('w, ref) ing_build" where
  "ing_buildTargetGroup b gid ing svc port =
     (let tgResID = ing_buildTargetGroupResourceID (ing_key (ciIng ing)) (NamespacedName_of (svcMeta svc)) port in
      io_bind get_task (\<lambda>t.
        case map_of (tTgByResID t) tgResID of
          Some tg \<Rightarrow> io_return tg
        | None \<Rightarrow> ing_new_target_group b gid ing svc port tgResID))"

section \<open>Actions\<close>

definition plain_action :: "ActionType \<Rightarrow> Action" where
  "plain_action t = \<lparr>actType = t, actAuthenticateCognitoConfig = None, actAuthenticateOIDCConfig = None,
     actFixedResponseConfig = None, actRedirectConfig = None, actForwardConfig = None\<rparr>"

definition buildFixedResponseAction :: "IngAction \<Rightarrow> Action result" where
  "buildFixedResponseAction actionCfg =
     (case iaFixedResponseConfig actionCfg of
        None \<Rightarrow> Inl (Errorf ''missing FixedResponseConfig'' [])
      | Some cfg \<Rightarrow> Inr ((plain_action ActionTypeFixedResponse)\<lparr>actFixedResponseConfig :=
          Some \<lparr>frContentType = frContentType cfg, frMessageBody = frMessageBody cfg, frStatusCode = frStatusCode cfg\<rparr>\<rparr>))"

definition buildRedirectAction :: "IngAction \<Rightarrow> Action result" where
  "buildRedirectAction actionCfg =
     (case iaRedirectConfig actionCfg of
        None \<Rightarrow> Inl (Errorf ''missing RedirectConfig'' [])
      | Some cfg \<Rightarrow> Inr ((plain_action ActionTypeRedirect)\<lparr>actRedirectConfig :=
          Some \<lparr>rdHost = rdHost cfg, rdPath = rdPath cfg, rdPort = rdPort cfg, rdProtocol = rdProtocol cfg,
            rdQuery = rdQuery cfg, rdStatusCode = rdStatusCode cfg\<rparr>\<rparr>))"

text \<open>A missing service or port is a nil pointer that is dereferenced.\<close>

definition forward_target :: "'w ing_builder \<Rightarrow> GroupID \<Rightarrow> ClassifiedIngress \<Rightarrow> IngTargetGroupTuple \<Rightarrow> ('w, TargetGroupTuple) ing_build" where
  "forward_target b gid ing tgt =
     io_bind (case itgTargetGroupARN tgt of
         Some arn \<Rightarrow> io_return (LiteralStringToken arn)
       | None \<Rightarrow>
           io_bind get_task (\<lambda>t.
             let svcKey = \<lparr>nnNamespace = omNamespace (ingMeta (ciIng ing)), nnName = StringValue (itgServiceName tgt)\<rparr> in
             case (map_of (tBackendServices t) svcKey, itgServicePort tgt) of
               (Some svc, Some port) \<Rightarrow>
                 io_bind (ing_buildTargetGroup b gid ing svc port) (\<lambda>tg. io_return (TargetGroupARN_token tg))
             | _ \<Rightarrow> io_fail (Errorf ''invalid memory address or nil pointer dereference'' [])))
       (\<lambda>tgARN. io_return \<lparr>tgtTargetGroupARN = tgARN, tgtWeight = itgWeight tgt\<rparr>)"

definition buildForwardAction :: "'w ing_builder \<Rightarrow> GroupID \<Rightarrow> ClassifiedIngress \<Rightarrow> IngAction \<Rightarrow> ('w, Action) ing_build" where
  "buildForwardAction b gid ing actionCfg =
     (case iaForwardConfig actionCfg of
        None \<Rightarrow> io_fail (Errorf ''missing ForwardConfig'' [])
      | Some cfg \<Rightarrow>
          io_bind (io_mapM (forward_target b gid ing) (ifwTargetGroups cfg)) (\<lambda>targetGroupTuples.
            let stickinessCfg = map_option (\<lambda>s. \<lparr>tgsEnabled = tgsEnabled s, tgsDurationSeconds = tgsDurationSeconds s\<rparr>)
                  (ifwTargetGroupStickinessConfig cfg)
            in io_return ((plain_action ActionTypeForward)\<lparr>actForwardConfig :=
                 Some \<lparr>fwTargetGroups = targetGroupTuples, fwTargetGroupStickinessConfig = stickinessCfg\<rparr>\<rparr>)))"

definition buildBackendAction :: "'w ing_builder \<Rightarrow> GroupID \<Rightarrow> ClassifiedIngress \<Rightarrow> IngAction \<Rightarrow> ('w, Action) ing_build" where
  "buildBackendAction b gid ing actionCfg =
     (if iaType actionCfg = ActionTypeFixedResponse then io_lift (buildFixedResponseAction actionCfg)
      else if iaType actionCfg = ActionTypeRedirect then io_lift (buildRedirectAction actionCfg)
      else if iaType actionCfg = ActionTypeForward then buildForwardAction b gid ing actionCfg
      else io_fail (Errorf ''unknown action type: %v'' [iaType actionCfg]))"

definition buildAuthenticateCognitoAction :: "AuthConfig \<Rightarrow> Action result" where
  "buildAuthenticateCognitoAction authCfg =
     (case acfIDPConfigCognito authCfg of
        None \<Rightarrow> Inl (Errorf ''missing IDPConfigCognito'' [])
      | Some idp \<Rightarrow> Inr ((plain_action ActionTypeAuthenticateCognito)\<lparr>actAuthenticateCognitoConfig :=
          Some \<lparr>acAuthenticationRequestExtraParams = idcAuthenticationRequestExtraParams idp,
            acOnUnauthenticatedRequest = Some (acfOnUnauthenticatedRequest authCfg), acScope = Some (acfScope authCfg),
            acSessionCookieName = Some (acfSessionCookieName authCfg), acSessionTimeout = Some (acfSessionTimeout authCfg),
            acUserPoolARN = idcUserPoolARN idp, acUserPoolClientID = idcUserPoolClientID idp, acUserPoolDomain = idcUserPoolDomain idp\<rparr>\<rparr>))"

text \<open>The client identifier of a secret, with the key of an older controller, without trailing white space.\<close>

definition secret_client_id :: "NamespacedName \<Rightarrow> string_map \<Rightarrow> string result" where
  "secret_client_id secretKey data =
     (case map_of data ''clientID'' of
        Some raw \<Rightarrow> Inr raw
      | None \<Rightarrow> (case map_of data ''clientId'' of
          Some raw \<Rightarrow> Inr raw
        | None \<Rightarrow> Inl (Errorf ''missing clientID, secret: %v'' [NamespacedName_String secretKey])))"

definition buildAuthenticateOIDCAction :: "'w ing_builder \<Rightarrow> string \<Rightarrow> AuthConfig \<Rightarrow> ('w, Action) ing_build" where
  "buildAuthenticateOIDCAction b namespace authCfg =
     (case acfIDPConfigOIDC authCfg of
        None \<Rightarrow> io_fail (Errorf ''missing IDPConfigOIDC'' [])
      | Some idp \<Rightarrow>
          let secretKey = \<lparr>nnNamespace = namespace, nnName = idoSecretName idp\<rparr> in
          io_bind (in_world (igbGetSecret b secretKey)) (\<lambda>data.
          io_bind (io_lift (secret_client_id secretKey data)) (\<lambda>rawClientID.
            case map_of data ''clientSecret'' of
              None \<Rightarrow> io_fail (Errorf ''missing clientSecret, secret: %v'' [NamespacedName_String secretKey])
            | Some rawClientSecret \<Rightarrow>
                io_bind (modify_task (\<lambda>t. t\<lparr>tSecretKeys := tSecretKeys t @ [secretKey]\<rparr>)) (\<lambda>_.
                io_return ((plain_action ActionTypeAuthenticateOIDC)\<lparr>actAuthenticateOIDCConfig :=
                  Some \<lparr>aoAuthenticationRequestExtraParams = idoAuthenticationRequestExtraParams idp,
                    aoOnUnauthenticatedRequest = Some (acfOnUnauthenticatedRequest authCfg), aoScope = Some (acfScope authCfg),
                    aoSessionCookieName = Some (acfSessionCookieName authCfg), aoSessionTimeout = Some (acfSessionTimeout authCfg),
                    aoIssuer = idoIssuer idp, aoAuthorizationEndpoint = idoAuthorizationEndpoint idp,
                    aoTokenEndpoint = idoTokenEndpoint idp, aoUserInfoEndpoint = idoUserInfoEndpoint idp,
                    aoClientID = rev (dropWhile is_space (rev rawClientID)), aoClientSecret = rawClientSecret\<rparr>\<rparr>)))))"

definition buildAuthAction :: "'w ing_builder \<Rightarrow> string \<Rightarrow> EnhancedBackend \<Rightarrow> ('w, Action option) ing_build" where
  "buildAuthAction b namespace backend =
     (let authCfg = ebAuthConfig backend in
      if acfType authCfg = AuthTypeCognito
      then io_bind (io_lift (buildAuthenticateCognitoAction authCfg)) (\<lambda>action. io_return (Some action))
      else if acfType authCfg = AuthTypeOIDC
      then io_bind (buildAuthenticateOIDCAction b namespace authCfg) (\<lambda>action. io_return (Some action))
      else io_return None)"

definition ing_buildActions ::
  "'w ing_builder \<Rightarrow> GroupID \<Rightarrow> Protocol \<Rightarrow> ClassifiedIngress \<Rightarrow> EnhancedBackend \<Rightarrow> ('w, Action list) ing_build" where
  "ing_buildActions b gid protocol ing backend =
     io_bind (if protocol = ProtocolHTTPS then buildAuthAction b (omNamespace (ingMeta (ciIng ing))) backend else io_return None) (\<lambda>authAction.
     io_bind (buildBackendAction b gid ing (ebAction backend)) (\<lambda>backendAction.
     io_return ((case authAction of None \<Rightarrow> [] | Some a \<Rightarrow> [a]) @ [backendAction])))"

definition build404Action :: Action where
  "build404Action = (plain_action ActionTypeFixedResponse)\<lparr>actFixedResponseConfig :=
     Some \<lparr>frContentType = Some ''text/plain'', frMessageBody = None, frStatusCode = ''404''\<rparr>\<rparr>"

definition buildSSLRedirectAction :: "SSLRedirectConfig \<Rightarrow> Action" where
  "buildSSLRedirectAction cfg = (plain_action ActionTypeRedirect)\<lparr>actRedirectConfig :=
     Some \<lparr>rdHost = None, rdPath = None, rdPort = Some (Itoa (SSLPort cfg)), rdProtocol = Some ProtocolHTTPS,
       rdQuery = None, rdStatusCode = srStatusCode cfg\<rparr>\<rparr>"

section \<open>Listeners\<close>

text \<open>The backend of a rule, with the services the task has loaded.\<close>

definition task_backend :: "'w ing_builder \<Rightarrow> ClassifiedIngress \<Rightarrow> IngressBackend \<Rightarrow> ('w, EnhancedBackend) ing_build" where
  "task_backend b ing backend =
     io_bind get_task (\<lambda>t.
     io_bind (in_world (EnhancedBackend_Build (igbEnhancedBackendBuilder b) (ciIng ing) backend
         [WithLoadBackendServices True (tBackendServices t), WithLoadAuthConfig True])) (\<lambda>(eb, svcs).
     io_bind (modify_task (\<lambda>t. t\<lparr>tBackendServices := svcs\<rparr>)) (\<lambda>_. io_return eb)))"

definition listener_backend_actions ::
  "'w ing_builder \<Rightarrow> GroupID \<Rightarrow> Protocol \<Rightarrow> ClassifiedIngress list \<Rightarrow> ('w, Action list) ing_build" where
  "listener_backend_actions b gid protocol ingList =
     (case List.map_filter (\<lambda>ing. map_option (Pair ing) (ingDefaultBackend (ciIng ing))) ingList of
        [] \<Rightarrow> io_return [build404Action]
      | [(ing, backend)] \<Rightarrow> io_bind (task_backend b ing backend) (ing_buildActions b gid protocol ing)
      | ings \<Rightarrow> io_fail (Errorf ''multiple ingress defined default backend: %v''
          (map (\<lambda>(ing, _). NamespacedName_String (ing_key (ciIng ing))) ings)))"

definition ing_buildListenerDefaultActions ::
  "'w ing_builder \<Rightarrow> GroupID \<Rightarrow> Protocol \<Rightarrow> ClassifiedIngress list \<Rightarrow> ('w, Action list) ing_build" where
  "ing_buildListenerDefaultActions b gid protocol ingList =
     io_bind get_task (\<lambda>t.
       case tSslRedirectConfig t of
         Some cfg \<Rightarrow>
           if protocol = ProtocolHTTP then io_return [buildSSLRedirectAction cfg] else listener_backend_actions b gid protocol ingList
       | None \<Rightarrow> listener_backend_actions b gid protocol ingList)"

definition ing_buildListenerTags :: "'w ing_builder \<Rightarrow> ClassifiedIngress list \<Rightarrow> string_map result" where
  "ing_buildListenerTags b ingList = group_tags b ingList"

definition ing_buildListenerSpec ::
  "'w ing_builder \<Rightarrow> GroupID \<Rightarrow> StringToken \<Rightarrow> int \<Rightarrow> listenPortConfig \<Rightarrow> ClassifiedIngress list \<Rightarrow> ('w, ListenerSpec) ing_build" where
  "ing_buildListenerSpec b gid lbARN port config ingList =
     io_bind (ing_buildListenerDefaultActions b gid (lpProtocol config) ingList) (\<lambda>defaultActions.
     io_bind (io_lift (ing_buildListenerTags b ingList)) (\<lambda>tags.
     io_return \<lparr>lsLoadBalancerARN = lbARN, lsPort = port, lsProtocol = lpProtocol config, lsDefaultActions = defaultActions,
       lsCertificates = map (\<lambda>certARN. \<lparr>CertificateARN = Some certARN\<rparr>) (lpTlsCerts config),
       lsSSLPolicy = lpSslPolicy config, lsALPNPolicy = [], lsTags = tags\<rparr>))"

definition ing_buildListener ::
  "'w ing_builder \<Rightarrow> GroupID \<Rightarrow> StringToken \<Rightarrow> int \<Rightarrow> listenPortConfig \<Rightarrow> ClassifiedIngress list \<Rightarrow> ('w, ref) ing_build" where
  "ing_buildListener b gid lbARN port config ingList =
     io_bind (ing_buildListenerSpec b gid lbARN port config ingList) (\<lambda>lsSpec. on_model (NewListener (Itoa port) lsSpec))"

section \<open>Rules\<close>

definition wrap_error :: "string \<Rightarrow> ('w, 'a) io \<Rightarrow> ('w, 'a) io" where
  "wrap_error msg m w = (case m w of (Inl err, w') \<Rightarrow> (Inl (Wrap err msg), w') | (Inr x, w') \<Rightarrow> (Inr x, w'))"

definition buildListenerRuleTags :: "'w ing_builder \<Rightarrow> ClassifiedIngress \<Rightarrow> string_map result" where
  "buildListenerRuleTags b ing =
     result_bind (buildIngressResourceTags b ing) (\<lambda>ingTags. Inr (MergeStringMap [igbDefaultTags b, ingTags]))"

definition path_rule ::
  "'w ing_builder \<Rightarrow> GroupID \<Rightarrow> Protocol \<Rightarrow> ClassifiedIngress \<Rightarrow> IngressRule \<Rightarrow> HTTPIngressPath \<Rightarrow> ('w, Rule) ing_build" where
  "path_rule b gid protocol ing rule path =
     wrap_error (''ingress: '' @ NamespacedName_String (ing_key (ciIng ing)))
       (io_bind (task_backend b ing (hpBackend path)) (\<lambda>enhancedBackend.
        io_bind (io_lift (buildRuleConditions rule path (ebConditions enhancedBackend))) (\<lambda>conditions.
        io_bind (ing_buildActions b gid protocol ing enhancedBackend) (\<lambda>actions.
        io_bind (io_lift (buildListenerRuleTags b ing)) (\<lambda>tags.
        io_return \<lparr>rlConditions = conditions, rlActions = actions, rlTags = tags\<rparr>)))))"

definition ingress_rule_rules ::
  "'w ing_builder \<Rightarrow> GroupID \<Rightarrow> Protocol \<Rightarrow> ClassifiedIngress \<times> IngressRule \<Rightarrow> ('w, Rule list) ing_build" where
  "ingress_rule_rules b gid protocol = (\<lambda>(ing, rule).
     case irHTTP rule of
       None \<Rightarrow> io_return []
     | Some paths \<Rightarrow> io_bind (io_lift (sortIngressPaths paths)) (\<lambda>sorted_paths. io_mapM (path_rule b gid protocol ing rule) sorted_paths))"

definition new_listener_rule :: "StringToken \<Rightarrow> int \<Rightarrow> int \<times> Rule \<Rightarrow> ('w, unit) ing_build" where
  "new_listener_rule lsARN port = (\<lambda>(priority, rule).
     io_bind (on_model (NewListenerRule (Itoa port @ '':'' @ Itoa priority)
       \<lparr>lrListenerARN = lsARN, lrPriority = priority, lrActions = rlActions rule, lrConditions = rlConditions rule, lrTags = rlTags rule\<rparr>))
       (\<lambda>_. io_return ()))"

definition buildListenerRules ::
  "'w ing_builder \<Rightarrow> GroupID \<Rightarrow> StringToken \<Rightarrow> int \<Rightarrow> Protocol \<Rightarrow> ClassifiedIngress list \<Rightarrow> ('w, unit) ing_build" where
  "buildListenerRules b gid lsARN port protocol ingList =
     io_bind get_task (\<lambda>t.
       if tSslRedirectConfig t \<noteq> None \<and> protocol = ProtocolHTTP then io_return ()
       else
         io_bind (io_mapM (ingress_rule_rules b gid protocol)
           (concat (map (\<lambda>ing. map (Pair ing) (ingRules (ciIng ing))) ingList))) (\<lambda>rules.
         let optimizedRules = Optimize port protocol (concat rules)
         in io_forM (new_listener_rule lsARN port) (zip (map int [1..<Suc (length optimizedRules)]) optimizedRules)))"

section \<open>Add-ons\<close>

definition buildWAFv2WebACLAssociation :: "'w ing_builder \<Rightarrow> Group \<Rightarrow> StringToken \<Rightarrow> ('w, ref option) ing_build" where
  "buildWAFv2WebACLAssociation b ingGroup lbARN =
     io_bind (io_lift (only_value ''conflicting WAFv2 WebACL ARNs: %v'' (\<lambda>vs. igbList b (set vs))
       (map (\<lambda>member. igb_string b (member_annotations member) IngressSuffixWAFv2ACLARN) (grpMembers ingGroup)))) (\<lambda>webACLARN.
       case webACLARN of
         None \<Rightarrow> io_return None
       | Some arn \<Rightarrow>
           if arn \<noteq> [] then io_bind (on_model (NewWAFv2WebACLAssociation ing_resourceIDLoadBalancer
               \<lparr>wa2WebACLARN = arn, wa2ResourceARN = lbARN\<rparr>)) (\<lambda>association. io_return (Some association))
           else io_return None)"

definition member_waf_acl :: "'w ing_builder \<Rightarrow> ClassifiedIngress \<Rightarrow> string option" where
  "member_waf_acl b member =
     (case igb_string b (member_annotations member) IngressSuffixWAFACLID of
        Some webACLID \<Rightarrow> Some webACLID
      | None \<Rightarrow> igb_string b (member_annotations member) IngressSuffixWebACLID)"

definition buildWAFRegionalWebACLAssociation :: "'w ing_builder \<Rightarrow> Group \<Rightarrow> StringToken \<Rightarrow> ('w, ref option) ing_build" where
  "buildWAFRegionalWebACLAssociation b ingGroup lbARN =
     io_bind (io_lift (only_value ''conflicting WAFRegional WebACL IDs: %v'' (\<lambda>vs. igbList b (set vs))
       (map (member_waf_acl b) (grpMembers ingGroup)))) (\<lambda>webACLID.
       case webACLID of
         None \<Rightarrow> io_return None
       | Some webACL \<Rightarrow>
           if webACL \<noteq> [] then io_bind (on_model (NewWAFRegionalWebACLAssociation ing_resourceIDLoadBalancer
               \<lparr>warWebACLID = webACL, warResourceARN = lbARN\<rparr>)) (\<lambda>association. io_return (Some association))
           else io_return None)"

definition buildShieldProtection :: "'w ing_builder \<Rightarrow> Group \<Rightarrow> StringToken \<Rightarrow> ('w, ref option) ing_build" where
  "buildShieldProtection b ingGroup lbARN =
     io_bind (io_lift (result_mapM (\<lambda>member. igb_bool b (member_annotations member) IngressSuffixShieldAdvancedProtection) (grpMembers ingGroup))) (\<lambda>flags.
     io_bind (io_lift (only_value ''conflicting enable shield advanced protection'' (\<lambda>_. []) flags)) (\<lambda>enableProtection.
       if enableProtection = Some True then
         io_bind (on_model (NewProtection ing_resourceIDLoadBalancer \<lparr>prResourceARN = lbARN\<rparr>)) (\<lambda>protection. io_return (Some protection))
       else io_return None))"

definition buildLoadBalancerAddOns :: "'w ing_builder \<Rightarrow> Group \<Rightarrow> StringToken \<Rightarrow> ('w, unit) ing_build" where
  "buildLoadBalancerAddOns b ingGroup lbARN =
     io_bind (buildWAFv2WebACLAssociation b ingGroup lbARN) (\<lambda>_.
     io_bind (buildWAFRegionalWebACLAssociation b ingGroup lbARN) (\<lambda>_.
     io_bind (buildShieldProtection b ingGroup lbARN) (\<lambda>_. io_return ())))"

section \<open>The run of the task\<close>

definition check_inactive_member :: "'w ing_builder \<Rightarrow> Ingress \<Rightarrow> unit result" where
  "check_inactive_member b inactiveMember =
     (if omDeletionTimestamp (ingMeta inactiveMember) = None then Inr ()
      else result_bind (ing_getDeletionProtectionViaAnnotation b inactiveMember) (\<lambda>deletionProtectionEnabled.
        if deletionProtectionEnabled
        then Inl (Errorf ''deletion_protection is enabled, cannot delete the ingress: %v'' [omName (ingMeta inactiveMember)])
        else Inr ()))"

type_synonym ports_state = "(int, ClassifiedIngress list) gomap \<times> (int, listenPortConfigWithIngress list) gomap"

definition add_member_ports :: "'w ing_builder \<Rightarrow> ports_state \<Rightarrow> ClassifiedIngress \<Rightarrow> ('w, ports_state) io" where
  "add_member_ports b s member =
     io_bind (wrap_error (''ingress: '' @ NamespacedName_String (ing_key (ciIng member))) (computeIngressListenPortConfigByPort b member)) (\<lambda>byPort.
       io_return (fold (\<lambda>(port, cfg) (ingListByPort, cfgsByPort).
         (append_at port member ingListByPort,
          append_at port \<lparr>lpIngKey = ing_key (ciIng member), lpConfig = cfg\<rparr> cfgsByPort)) (entries (igbRangePorts b) byPort) s))"

definition merge_port :: "'w ing_builder \<Rightarrow> int \<times> listenPortConfigWithIngress list \<Rightarrow> (int \<times> listenPortConfig) result" where
  "merge_port b = (\<lambda>(port, cfgs).
     case mergeListenPortConfigs b cfgs of
       Inl err \<Rightarrow> Inl (Wrap err (''failed to merge listenPort config for port: '' @ Itoa port))
     | Inr mergedCfg \<Rightarrow> Inr (port, mergedCfg))"

definition build_port ::
  "'w ing_builder \<Rightarrow> Group \<Rightarrow> ref \<Rightarrow> (int, ClassifiedIngress list) gomap \<Rightarrow> int \<times> listenPortConfig \<Rightarrow> ('w, unit) ing_build" where
  "build_port b ingGroup lb ingListByPort = (\<lambda>(port, cfg).
     let ingList = with_default [] (map_of ingListByPort port) in
     io_bind (ing_buildListener b (grpID ingGroup) (LoadBalancerARN_token lb) port cfg ingList) (\<lambda>ls.
     buildListenerRules b (grpID ingGroup) (ListenerARN_token ls) port (lpProtocol cfg) ingList))"

definition ing_run :: "'w ing_builder \<Rightarrow> Group \<Rightarrow> ('w, unit) ing_build" where
  "ing_run b ingGroup =
     io_bind (io_lift (result_forM (check_inactive_member b) (grpInactiveMembers ingGroup))) (\<lambda>_.
       if grpMembers ingGroup = [] then io_return ()
       else
         io_bind (in_world (io_foldM (add_member_ports b) ([], []) (grpMembers ingGroup))) (\<lambda>(ingListByPort, listenPortConfigsByPort).
         io_bind (io_lift (result_mapM (merge_port b) (entries (igbRangePorts b) listenPortConfigsByPort))) (\<lambda>listenPortConfigByPort.
         io_bind (ing_buildLoadBalancer b ingGroup listenPortConfigByPort) (\<lambda>lb.
         io_bind (io_lift (buildSSLRedirectConfig b ingGroup listenPortConfigByPort)) (\<lambda>sslRedirectConfig.
         io_bind (modify_task (\<lambda>t. t\<lparr>tSslRedirectConfig := sslRedirectConfig\<rparr>)) (\<lambda>_.
         io_bind (io_forM (build_port b ingGroup lb ingListByPort) (entries (igbRangePorts b) listenPortConfigByPort)) (\<lambda>_.
         buildLoadBalancerAddOns b ingGroup (LoadBalancerARN_token lb))))))))"

definition ing_new_task :: "Group \<Rightarrow> ing_task" where
  "ing_new_task ingGroup = \<lparr>tModel = init_state \<lparr>sidNamespace = nnNamespace (grpID ingGroup), sidName = nnName (grpID ingGroup)\<rparr>,
     tLoadBalancer = None, tTgByResID = [], tBackendSGIDToken = None, tBackendSGAllocated = False,
     tSslRedirectConfig = None, tBackendServices = [], tSecretKeys = []\<rparr>"

definition ing_Build :: "'w ing_builder \<Rightarrow> Group \<Rightarrow> ('w, model_state \<times> ref option \<times> NamespacedName list \<times> bool) io" where
  "ing_Build b ingGroup w =
     (case ing_run b ingGroup (w, ing_new_task ingGroup) of
        (Inl err, (w', _)) \<Rightarrow> (Inl err, w')
      | (Inr _, (w', t)) \<Rightarrow> (Inr (tModel t, tLoadBalancer t, tSecretKeys t, tBackendSGAllocated t), w'))"

end
