(* ===== verification/Ingress_Correct.thy ===== *)
theory Ingress_Correct
  imports Ingress_Builder
begin

text \<open>
  What the model builder for ingress groups builds: the stack is one the deployer handles, every port that a
  member listens on has one listener with the rules in order of priority, and every target group has a binding.
\<close>

section \<open>Target groups and their bindings\<close>

fun is_target :: "Resource \<Rightarrow> bool" where
  "is_target (TargetGroup _ _ _) = True"
| "is_target (TargetGroupBindingResource _ _ _) = True"
| "is_target _ = False"

text \<open>The binding of the target group at \<open>r\<close>, under the same identifier.\<close>

definition bound :: "Resource list \<Rightarrow> ref \<Rightarrow> string \<Rightarrow> bool" where
  "bound h r rid \<longleftrightarrow> (\<exists>spec. TargetGroupBindingResource (tgb_meta rid) spec None \<in> set h \<and>
     mtgbTargetGroupARN (tgbtSpec (tgbrTemplate spec)) = TargetGroupARN_token r)"

text \<open>The target groups of the stack are those of the map, each with its binding.\<close>

definition targets_ok :: "StackID \<Rightarrow> 'e build_task_scheme \<Rightarrow> bool" where
  "targets_ok sid t \<longleftrightarrow> stack_built sid (tModel t) \<and>
     (\<forall>res\<in>set (heap (tModel t)). is_target res \<longrightarrow> resID (res_meta res) \<in> dom (map_of (tTgByResID t))) \<and>
     (\<forall>rid r. map_of (tTgByResID t) rid = Some r \<longrightarrow>
        r < length (heap (tModel t)) \<and> (\<exists>spec. heap (tModel t) ! r = TargetGroup (tg_meta rid) spec None)) \<and>
     (\<forall>r < length (heap (tModel t)). \<forall>m spec st. heap (tModel t) ! r = TargetGroup m spec st \<longrightarrow> bound (heap (tModel t)) r (resID m))"

definition targets_grow :: "'w \<times> ing_task \<Rightarrow> 'w \<times> ing_task \<Rightarrow> bool" where
  "targets_grow wt wt' \<longleftrightarrow>
     (\<exists>added. heap (tModel (snd wt')) = heap (tModel (snd wt)) @ added \<and> (\<forall>res\<in>set added. is_target res)) \<and>
     tLoadBalancer (snd wt') = tLoadBalancer (snd wt) \<and> tSslRedirectConfig (snd wt') = tSslRedirectConfig (snd wt) \<and>
     (\<forall>sid. targets_ok sid (snd wt) \<longrightarrow> targets_ok sid (snd wt'))"

interpretation tgr: effect_preorder targets_grow
  by unfold_locales (auto simp: targets_grow_def)

named_theorems grows "parts of the builder that add only target groups and bindings"

lemma in_world_grows [grows]: "keeps targets_grow (in_world m)"
  by (auto simp: keeps_def in_world_def targets_grow_def split: prod.splits)

lemma get_task_grows [grows]: "keeps targets_grow get_task"
  by (auto simp: keeps_def get_task_def targets_grow_def)

lemma modify_task_grows [grows]:
  "(\<And>t. tModel (f t) = tModel t \<and> tLoadBalancer (f t) = tLoadBalancer t \<and> tTgByResID (f t) = tTgByResID t \<and>
     tSslRedirectConfig (f t) = tSslRedirectConfig t) \<Longrightarrow> keeps targets_grow (modify_task f)"
  by (auto simp: keeps_def modify_task_def targets_grow_def targets_ok_def)

lemma wrap_error_grows [grows]: "keeps targets_grow m \<Longrightarrow> keeps targets_grow (wrap_error msg m)"
  by (rule keepsI) (auto simp: wrap_error_def split: prod.splits sum.splits dest: keepsD)

text \<open>A new target group and its binding keep the invariant.\<close>

lemma bound_append: "bound h r rid \<Longrightarrow> bound (h @ h') r rid"
  by (auto simp: bound_def)

lemma target_uid:
  "computeResourceUID res = \<lparr>ResType = ''*elbv2.TargetGroup'', ResID = rid\<rparr> \<Longrightarrow> is_target res \<and> resID (res_meta res) = rid"
  "computeResourceUID res = \<lparr>ResType = ''*elbv2.TargetGroupBindingResource'', ResID = rid\<rparr> \<Longrightarrow>
     is_target res \<and> resID (res_meta res) = rid \<and> (\<exists>m spec st. res = TargetGroupBindingResource m spec st)"
  by (cases res; simp add: computeResourceUID_def)+

lemma targets_ok_new:
  assumes ok: "targets_ok sid t" and fresh: "map_of (tTgByResID t) rid = None"
    and tgb: "mtgbTargetGroupARN (tgbtSpec (tgbrTemplate tgb)) = TargetGroupARN_token (length (heap (tModel t)))"
    and m1: "m1 = snd (new_resource (TargetGroup (tg_meta rid) tg None) (tModel t))"
    and m2: "m2 = snd (new_resource (TargetGroupBindingResource (tgb_meta rid) tgb None) m1)"
    and t': "tModel t' = m2" "tTgByResID t' = AList.update rid (length (heap (tModel t))) (tTgByResID t)"
  shows "targets_ok sid t'"
proof -
  let ?h = "heap (tModel t)"
  let ?tg = "TargetGroup (tg_meta rid) tg None" and ?tgb = "TargetGroupBindingResource (tgb_meta rid) tgb None"
  have new: "is_target res \<Longrightarrow> res \<in> set ?h \<Longrightarrow> resID (res_meta res) \<noteq> rid" for res
  proof
    assume "is_target res" "res \<in> set ?h" "resID (res_meta res) = rid"
    then have "rid \<in> dom (map_of (tTgByResID t))" using ok unfolding targets_ok_def by blast
    then show False using fresh by (simp add: domIff)
  qed
  have fresh1: "computeResourceUID ?tg \<notin> uids (tModel t)"
  proof
    assume "computeResourceUID ?tg \<in> uids (tModel t)"
    then obtain res where res: "res \<in> set ?h" "computeResourceUID res = computeResourceUID ?tg" by force
    then have "computeResourceUID res = \<lparr>ResType = ''*elbv2.TargetGroup'', ResID = rid\<rparr>" by (simp add: computeResourceUID_def)
    then show False using new res(1) target_uid(1) by blast
  qed
  have "stack_built sid (tModel t)" using ok by (simp add: targets_ok_def)
  note b1 = built_new [OF this fresh1, folded m1]
  have s1: "stack_built sid m1" "heap m1 = ?h @ [?tg]" by (rule b1; simp)+
  have "computeResourceUID ?tgb \<notin> uids m1"
  proof
    assume "computeResourceUID ?tgb \<in> uids m1"
    then obtain res where res: "res \<in> set (?h @ [?tg])" "computeResourceUID res = computeResourceUID ?tgb" unfolding s1(2) by force
    then have "computeResourceUID res = \<lparr>ResType = ''*elbv2.TargetGroupBindingResource'', ResID = rid\<rparr>" by (simp add: computeResourceUID_def)
    note target_uid(2) [OF this]
    then show False using new res(1) by auto
  qed
  moreover have "\<forall>d\<in>set (dep_refs ?tgb). d < length (heap m1)" using tgb s1(2) by (simp add: TargetGroupARN_token_def)
  ultimately have s2: "stack_built sid m2" "heap m2 = ?h @ [?tg, ?tgb]"
    using built_new(1,2) [OF s1(1), of ?tgb, folded m2] s1(2) by simp_all
  have "bound (?h @ [?tg, ?tgb]) r (resID m)"
    if "r < length (?h @ [?tg, ?tgb])" "(?h @ [?tg, ?tgb]) ! r = TargetGroup m spec st" for r m spec st
  proof (cases "r < length ?h")
    case True
    then show ?thesis using ok that by (auto simp: targets_ok_def nth_append intro: bound_append)
  next
    case False
    then have "r = length ?h \<and> m = tg_meta rid" using that by (auto simp: nth_append nth_Cons less_Suc_eq split: nat.splits)
    then show ?thesis using tgb by (auto simp: bound_def)
  qed
  moreover have "r < length (?h @ [?tg, ?tgb]) \<and> (\<exists>spec. (?h @ [?tg, ?tgb]) ! r = TargetGroup (tg_meta i) spec None)"
    if "map_of (AList.update rid (length ?h) (tTgByResID t)) i = Some r" for i r
    using that ok by (cases "i = rid") (fastforce simp: targets_ok_def update_conv' nth_append)+
  ultimately show ?thesis using ok s2 unfolding targets_ok_def t' by (auto simp: update_conv')
qed

lemma tg_spec_has_port:
  "ing_buildTargetGroupSpec b gid ing svc port svcPort t = Inr spec \<Longrightarrow> \<exists>p. Option.bind (tgHealthCheckConfig spec) hcPort = Some p"
  by (auto simp: ing_buildTargetGroupSpec_def ing_buildTargetGroupHealthCheckConfig_def Let_def result_bind_def split: sum.splits)

lemma ing_binding_spec_token:
  "ing_buildTargetGroupBindingSpec b token tg spec svc port svcPort sel = Inr tgb \<Longrightarrow>
     mtgbTargetGroupARN (tgbtSpec (tgbrTemplate tgb)) = TargetGroupARN_token tg"
  by (auto simp: ing_buildTargetGroupBindingSpec_def Let_def split: option.splits)

lemma ing_binding_spec_built:
  "ing_buildTargetGroupSpec b gid ing svc port svcPort t = Inr spec \<Longrightarrow>
     \<exists>tgb. ing_buildTargetGroupBindingSpec b token tg spec svc port svcPort sel = Inr tgb"
  using tg_spec_has_port by (fastforce simp: ing_buildTargetGroupBindingSpec_def Let_def)

lemma new_target_group_cases:
  assumes "ing_new_target_group b gid ing svc port rid wt = (r, wt')"
  shows "wt' = wt \<or> (\<exists>tg tgb. let n = length (heap (tModel (snd wt)));
      m1 = snd (new_resource (TargetGroup (tg_meta rid) tg None) (tModel (snd wt)));
      m2 = snd (new_resource (TargetGroupBindingResource (tgb_meta rid) tgb None) m1) in
      mtgbTargetGroupARN (tgbtSpec (tgbrTemplate tgb)) = TargetGroupARN_token n \<and>
      wt' = (fst wt, (snd wt)\<lparr>tTgByResID := AList.update rid n (tTgByResID (snd wt)), tModel := m2\<rparr>))"
proof (cases "wt' = wt")
  case False
  then obtain svcPort tg sel where tg: "ing_buildTargetGroupSpec b gid ing svc port svcPort (snd wt) = Inr tg"
    and rest: "io_bind (on_model (NewTargetGroup rid tg)) (\<lambda>r.
      io_bind (modify_task (\<lambda>t. t\<lparr>tTgByResID := AList.update rid r (tTgByResID t)\<rparr>)) (\<lambda>_.
      io_bind (ing_buildTargetGroupBinding b r rid tg svc port svcPort sel) (\<lambda>_. io_return r))) wt = (r, wt')"
    using assms unfolding ing_new_target_group_def
    by (auto simp: get_task_def io_bind_def [of get_task] dest!: io_bind_liftD)
  let ?n = "length (heap (tModel (snd wt)))"
  obtain tgb where tgb: "ing_buildTargetGroupBindingSpec b (tBackendSGIDToken (snd wt)) ?n tg svc port svcPort sel = Inr tgb"
    using ing_binding_spec_built [OF tg] by blast
  then show ?thesis using rest ing_binding_spec_token [OF tgb]
    by (auto simp: NewTargetGroup_def NewTargetGroupBindingResource_def on_model_new_run ing_buildTargetGroupBinding_def get_task_def
        modify_task_def io_simps Let_def)
qed simp

lemma target_group_grows [grows]: "keeps targets_grow (ing_buildTargetGroup b gid ing svc port)"
proof (rule keepsI)
  fix wt r wt' assume run: "ing_buildTargetGroup b gid ing svc port wt = (r, wt')"
  define rid where "rid = ing_buildTargetGroupResourceID (ing_key (ciIng ing)) (NamespacedName_of (svcMeta svc)) port"
  show "targets_grow wt wt'"
  proof (cases "map_of (tTgByResID (snd wt)) rid")
    case (Some tg)
    then show ?thesis using run by (simp add: ing_buildTargetGroup_def Let_def rid_def get_task_def io_simps tgr.R_refl)
  next
    case None
    then have "ing_new_target_group b gid ing svc port rid wt = (r, wt')"
      using run by (simp add: ing_buildTargetGroup_def Let_def rid_def get_task_def io_simps)
    from new_target_group_cases [OF this] show ?thesis
    proof (elim disjE exE)
      fix tg tgb
      let ?n = "length (heap (tModel (snd wt)))"
      let ?m1 = "snd (new_resource (TargetGroup (tg_meta rid) tg None) (tModel (snd wt)))"
      let ?m2 = "snd (new_resource (TargetGroupBindingResource (tgb_meta rid) tgb None) ?m1)"
      assume "let n = ?n; m1 = ?m1; m2 = snd (new_resource (TargetGroupBindingResource (tgb_meta rid) tgb None) m1) in
        mtgbTargetGroupARN (tgbtSpec (tgbrTemplate tgb)) = TargetGroupARN_token n \<and>
        wt' = (fst wt, (snd wt)\<lparr>tTgByResID := AList.update rid n (tTgByResID (snd wt)), tModel := m2\<rparr>)"
      then have tok: "mtgbTargetGroupARN (tgbtSpec (tgbrTemplate tgb)) = TargetGroupARN_token ?n"
        and wt': "wt' = (fst wt, (snd wt)\<lparr>tTgByResID := AList.update rid ?n (tTgByResID (snd wt)), tModel := ?m2\<rparr>)"
        by (simp_all add: Let_def)
      have "targets_ok sid (snd wt')" if "targets_ok sid (snd wt)" for sid
        by (rule targets_ok_new [OF that None tok refl refl]) (simp_all add: wt')
      then show ?thesis by (simp add: targets_grow_def wt' heap_new_resource)
    qed (simp add: tgr.R_refl)
  qed
qed

text \<open>The actions of listeners and rules add nothing else.\<close>

lemma forward_target_grows [grows]: "keeps targets_grow (forward_target b gid ing tgt)"
  unfolding forward_target_def Let_def by (intro keeps grows tgr.bind tgr.pure)

lemma auth_action_grows [grows]: "keeps targets_grow (buildAuthAction b ns backend)"
  unfolding buildAuthAction_def buildAuthenticateOIDCAction_def Let_def
  by (intro keeps grows tgr.bind tgr.pure) simp_all

lemma actions_grow [grows]: "keeps targets_grow (ing_buildActions b gid protocol ing backend)"
  unfolding ing_buildActions_def buildBackendAction_def buildForwardAction_def Let_def
  by (intro keeps grows tgr.bind tgr.pure tgr.mapM)

lemma task_backend_grows [grows]: "keeps targets_grow (task_backend b ing backend)"
  unfolding task_backend_def by (intro keeps grows tgr.bind tgr.pure) simp

lemma default_actions_grow [grows]: "keeps targets_grow (ing_buildListenerDefaultActions b gid protocol ingList)"
  unfolding ing_buildListenerDefaultActions_def listener_backend_actions_def
  by (intro keeps grows tgr.bind tgr.pure) (auto intro: keeps grows tgr.bind tgr.pure split: list.splits)

lemma path_rule_grows [grows]: "keeps targets_grow (path_rule b gid protocol ing rule path)"
  unfolding path_rule_def by (intro keeps grows tgr.bind tgr.pure)

lemma rules_grow [grows]: "keeps targets_grow (ingress_rule_rules b gid protocol x)"
  unfolding ingress_rule_rules_def by (intro keeps grows tgr.bind tgr.pure tgr.mapM)

section \<open>Listeners and rules\<close>

text \<open>The names of the listeners and rules of a stack to which the add-ons have not been added.\<close>

definition names_ok :: "string set \<Rightarrow> string set \<Rightarrow> Resource list \<Rightarrow> bool" where
  "names_ok L R h \<longleftrightarrow> (\<forall>res\<in>set h. case res of
       Listener m _ _ \<Rightarrow> resID m \<in> L
     | ListenerRule m _ _ \<Rightarrow> resID m \<in> R
     | WAFv2WebACLAssociation _ _ \<Rightarrow> False
     | WAFRegionalWebACLAssociation _ _ \<Rightarrow> False
     | ShieldProtection _ _ \<Rightarrow> False
     | _ \<Rightarrow> True)"

lemma names_ok_append: "names_ok L R (h @ h') \<longleftrightarrow> names_ok L R h \<and> names_ok L R h'"
  by (auto simp: names_ok_def)

lemma names_ok_targets: "\<forall>res\<in>set h. is_target res \<Longrightarrow> names_ok L R h"
  by (force simp: names_ok_def split: Resource.splits)

lemma names_ok_mono: "names_ok L R h \<Longrightarrow> L \<subseteq> L' \<Longrightarrow> R \<subseteq> R' \<Longrightarrow> names_ok L' R' h"
  by (fastforce simp: names_ok_def split: Resource.splits)

lemma names_ok_uid:
  assumes "names_ok L R h" "u \<in> computeResourceUID ` set h"
  shows "(ResType u = ''*elbv2.Listener'' \<longrightarrow> ResID u \<in> L) \<and> (ResType u = ''*elbv2.ListenerRule'' \<longrightarrow> ResID u \<in> R) \<and>
    ResType u \<notin> {''*wafv2.WebACLAssociation'', ''*wafregional.WebACLAssociation'', ''*shield.Protection''}"
proof -
  from assms(2) obtain res where res: "res \<in> set h" "u = computeResourceUID res" by blast
  then have "names_ok L R [res]" using assms(1) by (simp add: names_ok_def)
  then show ?thesis unfolding res(2) by (cases res) (simp_all add: names_ok_def computeResourceUID_def)
qed

text \<open>While the listeners are built: the target groups, the names in use, the load balancer and the redirect.\<close>

definition building :: "StackID \<Rightarrow> ref \<Rightarrow> SSLRedirectConfig option \<Rightarrow> string set \<Rightarrow> string set \<Rightarrow> ing_task \<Rightarrow> bool" where
  "building sid lb redirect L R t \<longleftrightarrow> targets_ok sid t \<and> names_ok L R (heap (tModel t)) \<and>
     tLoadBalancer t = Some lb \<and> lb < length (heap (tModel t)) \<and> tSslRedirectConfig t = redirect"

lemma building_grow:
  assumes "targets_grow wt wt'" "building sid lb redirect L R (snd wt)"
  shows "building sid lb redirect L R (snd wt') \<and>
    (\<exists>tgs. heap (tModel (snd wt')) = heap (tModel (snd wt)) @ tgs \<and> (\<forall>res\<in>set tgs. is_target res))"
  using assms by (auto simp: targets_grow_def building_def names_ok_append names_ok_targets)

lemma building_mono: "building sid lb redirect L R t \<Longrightarrow> L \<subseteq> L' \<Longrightarrow> R \<subseteq> R' \<Longrightarrow> building sid lb redirect L' R' t"
  by (auto simp: building_def intro: names_ok_mono)

lemma targets_ok_other:
  assumes ok: "targets_ok sid t" and res: "\<not> is_target res" "computeResourceUID res \<notin> uids (tModel t)"
    "\<forall>d\<in>set (dep_refs res). d < length (heap (tModel t))"
  shows "targets_ok sid (t\<lparr>tModel := snd (new_resource res (tModel t))\<rparr>)"
proof -
  let ?h = "heap (tModel t)"
  have "stack_built sid (tModel t)" using ok by (simp add: targets_ok_def)
  note new = built_new(1,2) [OF this res(2,3)]
  have "bound (?h @ [res]) r (resID m)" if "r < length (?h @ [res])" "(?h @ [res]) ! r = TargetGroup m spec st" for r m spec st
    using that ok res(1) by (cases "r < length ?h") (auto simp: targets_ok_def nth_append intro: bound_append)
  moreover have "r < length (?h @ [res]) \<and> (\<exists>spec. (?h @ [res]) ! r = TargetGroup (tg_meta i) spec None)"
    if "map_of (tTgByResID t) i = Some r" for i r
    using that ok by (fastforce simp: targets_ok_def nth_append)
  ultimately show ?thesis using ok res(1) new unfolding targets_ok_def by auto
qed

text \<open>A resource of another kind is added under a new name.\<close>

lemma other_added:
  assumes run: "on_model (new_resource res) wt = (Inr r, wt')" and ok: "targets_ok sid (snd wt)"
    and res: "\<not> is_target res" "computeResourceUID res \<notin> uids (tModel (snd wt))"
      "\<forall>d\<in>set (dep_refs res). d < length (heap (tModel (snd wt)))"
  shows "targets_ok sid (snd wt') \<and> heap (tModel (snd wt')) = heap (tModel (snd wt)) @ [res] \<and>
    r = length (heap (tModel (snd wt))) \<and> tLoadBalancer (snd wt') = tLoadBalancer (snd wt) \<and>
    tSslRedirectConfig (snd wt') = tSslRedirectConfig (snd wt)"
  using run targets_ok_other [OF ok res] by (auto simp: on_model_new_run heap_new_resource)

lemma listener_added:
  assumes run: "on_model (NewListener rid spec) wt = (Inr ls, wt')" and b: "building sid lb redirect L R (snd wt)"
    and spec: "lsLoadBalancerARN spec = LoadBalancerARN_token lb" and fresh: "rid \<notin> L"
  shows "building sid lb redirect (insert rid L) R (snd wt') \<and> ls = length (heap (tModel (snd wt))) \<and>
    heap (tModel (snd wt')) = heap (tModel (snd wt)) @ [Listener (ls_meta rid) spec None]"
proof -
  let ?res = "Listener (ls_meta rid) spec None"
  have new: "computeResourceUID ?res \<notin> uids (tModel (snd wt))"
    using names_ok_uid [of L R "heap (tModel (snd wt))" "computeResourceUID ?res"] b fresh
    by (auto simp: building_def computeResourceUID_def)
  have "\<forall>d\<in>set (dep_refs ?res). d < length (heap (tModel (snd wt)))"
    using spec b by (simp add: LoadBalancerARN_token_def building_def)
  moreover have "names_ok (insert rid L) R (heap (tModel (snd wt)) @ [?res])"
    using b names_ok_mono [of L R "heap (tModel (snd wt))", OF _ subset_insertI subset_refl]
      names_ok_mono [of L R "heap (tModel (snd wt))", OF _ subset_refl subset_insertI]
    by (simp add: building_def names_ok_append) (simp add: names_ok_def)
  ultimately show ?thesis using other_added [OF run [unfolded NewListener_def] _ _ new] b by (auto simp: building_def)
qed

definition rule_id :: "int \<Rightarrow> int \<Rightarrow> string" where
  "rule_id port priority = Itoa port @ '':'' @ Itoa priority"

abbreviation rule_meta :: "string \<Rightarrow> ResourceMeta" where
  "rule_meta rid \<equiv> \<lparr>resType = ''AWS::ElasticLoadBalancingV2::ListenerRule'', resID = rid\<rparr>"

lemma rule_added:
  assumes run: "on_model (NewListenerRule rid spec) wt = (Inr r, wt')" and b: "building sid lb redirect L R (snd wt)"
    and spec: "lrListenerARN spec = ListenerARN_token ls" "ls < length (heap (tModel (snd wt)))" and fresh: "rid \<notin> R"
  shows "building sid lb redirect L (insert rid R) (snd wt') \<and>
    heap (tModel (snd wt')) = heap (tModel (snd wt)) @ [ListenerRule (rule_meta rid) spec None]"
proof -
  let ?res = "ListenerRule (rule_meta rid) spec None"
  have new: "computeResourceUID ?res \<notin> uids (tModel (snd wt))"
    using names_ok_uid [of L R "heap (tModel (snd wt))" "computeResourceUID ?res"] b fresh
    by (auto simp: building_def computeResourceUID_def)
  have "\<forall>d\<in>set (dep_refs ?res). d < length (heap (tModel (snd wt)))" using spec by (simp add: ListenerARN_token_def)
  moreover have "names_ok L (insert rid R) (heap (tModel (snd wt)) @ [?res])"
    using b names_ok_mono [of L R "heap (tModel (snd wt))", OF _ subset_insertI subset_refl]
      names_ok_mono [of L R "heap (tModel (snd wt))", OF _ subset_refl subset_insertI]
    by (simp add: building_def names_ok_append) (simp add: names_ok_def)
  ultimately show ?thesis using other_added [OF run [unfolded NewListenerRule_def] _ _ new] b by (auto simp: building_def)
qed

text \<open>The rules of a listener: consecutive priorities, each rule under a name of its own.\<close>

definition rules_from :: "ref \<Rightarrow> int \<Rightarrow> nat \<Rightarrow> Resource list \<Rightarrow> bool" where
  "rules_from ls port j rs \<longleftrightarrow> (\<forall>k < length rs. \<exists>spec.
     rs ! k = ListenerRule (rule_meta (rule_id port (int (j + k)))) spec None \<and>
     lrListenerARN spec = ListenerARN_token ls \<and> lrPriority spec = int (j + k))"

lemma rules_from_Cons:
  "lrListenerARN spec = ListenerARN_token ls \<Longrightarrow> lrPriority spec = int j \<Longrightarrow> rules_from ls port (Suc j) rs \<Longrightarrow>
     rules_from ls port j (ListenerRule (rule_meta (rule_id port (int j))) spec None # rs)"
  by (auto simp: rules_from_def nth_Cons ac_simps split: nat.splits)

lemma rule_id_inj: "rule_id p k = rule_id p' k' \<longleftrightarrow> p = p' \<and> k = k'"
proof -
  have no: "CHR '':'' \<notin> set (Itoa i)" for i
  proof
    assume "CHR '':'' \<in> set (Itoa i)"
    then have "CHR '':'' = CHR ''-'' \<or> is_digit CHR '':''" using nat_digits_digits by (auto simp: Itoa_def split: if_splits)
    then show False by (simp add: is_digit_def less_eq_char_def)
  qed
  have "xs @ CHR '':'' # ys = xs' @ CHR '':'' # ys' \<longleftrightarrow> xs = xs' \<and> ys = ys'"
    if "CHR '':'' \<notin> set xs" "CHR '':'' \<notin> set xs'" for xs ys xs' ys'
  proof -
    have "takeWhile (\<lambda>c. c \<noteq> CHR '':'') (zs @ CHR '':'' # us) = zs" if "CHR '':'' \<notin> set zs" for zs us
      using that by (induction zs) auto
    then show ?thesis using that by (metis append_same_eq list.inject same_append_eq)
  qed
  then show ?thesis using no by (simp add: rule_id_def Itoa_inj)
qed

lemma rules_added:
  assumes "io_forM (new_listener_rule (ListenerARN_token ls) port) (zip (map int [j..<j + length rs]) rs) wt = (Inr (), wt')"
    and "building sid lb redirect L (R \<union> rule_id port ` int ` {1..<j}) (snd wt)" "ls < length (heap (tModel (snd wt)))"
    and "range (rule_id port) \<inter> R = {}" "1 \<le> j"
  shows "\<exists>rules. heap (tModel (snd wt')) = heap (tModel (snd wt)) @ rules \<and> rules_from ls port j rules \<and> length rules = length rs \<and>
    building sid lb redirect L (R \<union> range (rule_id port)) (snd wt')"
  using assms
proof (induction rs arbitrary: j wt)
  case Nil
  have "building sid lb redirect L (R \<union> range (rule_id port)) (snd wt)" by (rule building_mono [OF Nil.prems(2)]) auto
  then show ?case using Nil.prems(1) by (simp add: io_return_def rules_from_def)
next
  case (Cons rule rs)
  let ?spec = "\<lparr>lrListenerARN = ListenerARN_token ls, lrPriority = int j, lrActions = rlActions rule, lrConditions = rlConditions rule, lrTags = rlTags rule\<rparr>"
  have up: "[j..<j + length (rule # rs)] = j # [Suc j..<Suc j + length rs]" by (simp add: upt_rec)
  from io_bind_unitD [OF Cons.prems(1) [unfolded up list.map zip_Cons_Cons io_forM.simps]] obtain wt1 where
    1: "new_listener_rule (ListenerARN_token ls) port (int j, rule) wt = (Inr (), wt1)"
    and rest: "io_forM (new_listener_rule (ListenerARN_token ls) port) (zip (map int [Suc j..<Suc j + length rs]) rs) wt1 = (Inr (), wt')"
    by (elim exE conjE)
  from 1 obtain r where run: "on_model (NewListenerRule (rule_id port (int j)) ?spec) wt = (Inr r, wt1)"
    unfolding new_listener_rule_def rule_id_def by (auto simp: io_return_def dest!: io_bind_InrD)
  have "rule_id port (int j) \<notin> R \<union> rule_id port ` int ` {1..<j}" using Cons.prems(4) by (auto simp: rule_id_inj)
  note A = rule_added [OF run Cons.prems(2) _ Cons.prems(3) this, simplified]
  have "insert (rule_id port (int j)) (R \<union> rule_id port ` int ` {1..<j}) = R \<union> rule_id port ` int ` {1..<Suc j}"
    using Cons.prems(5) by (auto simp: atLeastLessThanSuc)
  then have b1: "building sid lb redirect L (R \<union> rule_id port ` int ` {1..<Suc j}) (snd wt1)" using A by simp
  obtain rules where R: "heap (tModel (snd wt')) = heap (tModel (snd wt1)) @ rules" "rules_from ls port (Suc j) rules" "length rules = length rs"
    "building sid lb redirect L (R \<union> range (rule_id port)) (snd wt')"
    using Cons.IH [OF rest b1 _ Cons.prems(4)] A Cons.prems(3) by auto
  then show ?case using A
    by (intro exI [of _ "ListenerRule (rule_meta (rule_id port (int j))) ?spec None # rules"]) (simp add: rules_from_Cons)
qed

text \<open>
  What is built for a port: target groups and bindings of the default action, the listener, target groups and
  bindings of the rules, and the rules. With a redirect to HTTPS, a listener for HTTP only redirects.
\<close>

definition ing_port_chunk :: "ref \<Rightarrow> SSLRedirectConfig option \<Rightarrow> nat \<Rightarrow> int \<times> listenPortConfig \<Rightarrow> Resource list \<Rightarrow> bool" where
  "ing_port_chunk lb redirect i pc ch \<longleftrightarrow>
     (\<exists>tgs ls tgs' rules. ch = tgs @ Listener (ls_meta (Itoa (fst pc))) ls None # tgs' @ rules \<and>
        (\<forall>res\<in>set (tgs @ tgs'). is_target res) \<and> lsPort ls = fst pc \<and> lsProtocol ls = lpProtocol (snd pc) \<and>
        lsLoadBalancerARN ls = LoadBalancerARN_token lb \<and> lsSSLPolicy ls = lpSslPolicy (snd pc) \<and>
        lsCertificates ls = map (\<lambda>arn. \<lparr>CertificateARN = Some arn\<rparr>) (lpTlsCerts (snd pc)) \<and>
        rules_from (i + length tgs) (fst pc) 1 rules \<and>
        (\<forall>r. redirect = Some r \<longrightarrow> lpProtocol (snd pc) = ProtocolHTTP \<longrightarrow> lsDefaultActions ls = [buildSSLRedirectAction r] \<and> rules = []))"

lemma ing_listener_spec_run:
  assumes "ing_buildListenerSpec b gid lbARN port cfg ingList wt = (Inr spec, wt')" "tSslRedirectConfig (snd wt) = redirect"
  shows "targets_grow wt wt' \<and> lsPort spec = port \<and> lsProtocol spec = lpProtocol cfg \<and> lsLoadBalancerARN spec = lbARN \<and>
    lsSSLPolicy spec = lpSslPolicy cfg \<and> lsCertificates spec = map (\<lambda>arn. \<lparr>CertificateARN = Some arn\<rparr>) (lpTlsCerts cfg) \<and>
    (\<forall>r. redirect = Some r \<longrightarrow> lpProtocol cfg = ProtocolHTTP \<longrightarrow> lsDefaultActions spec = [buildSSLRedirectAction r])"
proof -
  from io_bind_InrD [OF assms(1) [unfolded ing_buildListenerSpec_def]] obtain acts wt1 where
    acts: "ing_buildListenerDefaultActions b gid (lpProtocol cfg) ingList wt = (Inr acts, wt1)"
    and rest: "io_bind (io_lift (ing_buildListenerTags b ingList)) (\<lambda>tags.
      io_return \<lparr>lsLoadBalancerARN = lbARN, lsPort = port, lsProtocol = lpProtocol cfg, lsDefaultActions = acts,
        lsCertificates = map (\<lambda>certARN. \<lparr>CertificateARN = Some certARN\<rparr>) (lpTlsCerts cfg),
        lsSSLPolicy = lpSslPolicy cfg, lsALPNPolicy = [], lsTags = tags\<rparr>) wt1 = (Inr spec, wt')" by (elim exE conjE)
  have "acts = [buildSSLRedirectAction r]" if "redirect = Some r" "lpProtocol cfg = ProtocolHTTP" for r
    using acts that assms(2) by (simp add: ing_buildListenerDefaultActions_def get_task_def io_simps)
  then show ?thesis using rest keepsD [OF default_actions_grow acts]
    by (auto simp: io_lift_def io_return_def dest!: io_bind_InrD)
qed

lemma listener_rules_run:
  assumes rules: "buildListenerRules b gid (ListenerARN_token ls) port (lpProtocol cfg) ingList wt = (Inr (), wt')"
    and b: "building sid lb redirect L R (snd wt)" and ls: "ls < length (heap (tModel (snd wt)))"
    and fresh: "range (rule_id port) \<inter> R = {}"
  shows "\<exists>tgs' rs. heap (tModel (snd wt')) = heap (tModel (snd wt)) @ tgs' @ rs \<and> (\<forall>res\<in>set tgs'. is_target res) \<and>
      rules_from ls port 1 rs \<and> (redirect \<noteq> None \<and> lpProtocol cfg = ProtocolHTTP \<longrightarrow> rs = []) \<and>
      building sid lb redirect L (R \<union> range (rule_id port)) (snd wt')"
proof -
  have red: "tSslRedirectConfig (snd wt) = redirect" using b by (simp add: building_def)
  show ?thesis
  proof (cases "redirect \<noteq> None \<and> lpProtocol cfg = ProtocolHTTP")
    case True
    then have "wt' = wt" using rules red by (auto simp: buildListenerRules_def get_task_def io_simps)
    then show ?thesis using building_mono [OF b, of L "R \<union> range (rule_id port)"]
      by (intro exI [of _ "[]"]) (simp add: rules_from_def)
  next
    case False
    then obtain rss wt1 where grow: "io_mapM (ingress_rule_rules b gid (lpProtocol cfg))
        (concat (map (\<lambda>ing. map (Pair ing) (ingRules (ciIng ing))) ingList)) wt = (Inr rss, wt1)"
      and loop: "let rs = Optimize port (lpProtocol cfg) (concat rss) in
        io_forM (new_listener_rule (ListenerARN_token ls) port) (zip (map int [1..<Suc (length rs)]) rs) wt1 = (Inr (), wt')"
      using rules red unfolding buildListenerRules_def Let_def
      by (auto simp: get_task_def io_bind_def [of get_task] dest!: io_bind_InrD)
    define rs where "rs = Optimize port (lpProtocol cfg) (concat rss)"
    have "targets_grow wt wt1" by (rule keepsD [OF tgr.mapM [OF rules_grow] grow])
    then obtain tgs' where 3: "building sid lb redirect L R (snd wt1)"
      "heap (tModel (snd wt1)) = heap (tModel (snd wt)) @ tgs'" "\<forall>res\<in>set tgs'. is_target res"
      using building_grow [OF _ b] by blast
    have "io_forM (new_listener_rule (ListenerARN_token ls) port) (zip (map int [1..<1 + length rs]) rs) wt1 = (Inr (), wt')"
      using loop by (simp add: rs_def Let_def)
    then obtain rls where "heap (tModel (snd wt')) = heap (tModel (snd wt1)) @ rls" "rules_from ls port 1 rls"
      "building sid lb redirect L (R \<union> range (rule_id port)) (snd wt')"
      using rules_added [of ls port 1 rs wt1 wt' sid lb redirect L R] 3 ls fresh by auto
    then show ?thesis using 3 False by - (rule exI [of _ tgs'], rule exI [of _ rls], auto)
  qed
qed

lemma build_port_run:
  assumes run: "build_port b ingGroup lb ingListByPort (port, cfg) wt = (Inr (), wt')"
    and b: "building sid lb redirect L R (snd wt)" and fresh: "Itoa port \<notin> L" "range (rule_id port) \<inter> R = {}"
  shows "\<exists>ch. heap (tModel (snd wt')) = heap (tModel (snd wt)) @ ch \<and>
    ing_port_chunk lb redirect (length (heap (tModel (snd wt)))) (port, cfg) ch \<and>
    building sid lb redirect (insert (Itoa port) L) (R \<union> range (rule_id port)) (snd wt')"
proof -
  let ?ings = "with_default [] (map_of ingListByPort port)" and ?h = "heap (tModel (snd wt))"
  from io_bind_InrD [OF run [unfolded build_port_def prod.case Let_def]] obtain ls wt2 where
    ls: "ing_buildListener b (grpID ingGroup) (LoadBalancerARN_token lb) port cfg ?ings wt = (Inr ls, wt2)"
    and rules: "buildListenerRules b (grpID ingGroup) (ListenerARN_token ls) port (lpProtocol cfg) ?ings wt2 = (Inr (), wt')"
    by (elim exE conjE)
  from io_bind_InrD [OF ls [unfolded ing_buildListener_def]] obtain spec wt1 where
    spec: "ing_buildListenerSpec b (grpID ingGroup) (LoadBalancerARN_token lb) port cfg ?ings wt = (Inr spec, wt1)"
    and new: "on_model (NewListener (Itoa port) spec) wt1 = (Inr ls, wt2)" by (elim exE conjE)
  have red: "tSslRedirectConfig (snd wt) = redirect" using b by (simp add: building_def)
  note S = ing_listener_spec_run [OF spec red]
  obtain tgs where 1: "building sid lb redirect L R (snd wt1)" "heap (tModel (snd wt1)) = ?h @ tgs" "\<forall>res\<in>set tgs. is_target res"
    using building_grow [OF S [THEN conjunct1] b] by blast
  have lb: "lsLoadBalancerARN spec = LoadBalancerARN_token lb" using S by simp
  note N = listener_added [OF new 1(1) lb fresh(1)]
  have b2: "building sid lb redirect (insert (Itoa port) L) R (snd wt2)"
    and h2: "ls = length ?h + length tgs" "heap (tModel (snd wt2)) = ?h @ tgs @ [Listener (ls_meta (Itoa port)) spec None]"
    using N 1(2) by simp_all
  have "ls < length (heap (tModel (snd wt2)))" using h2 by simp
  from listener_rules_run [OF rules b2 this fresh(2)] obtain tgs' rs where R: "heap (tModel (snd wt')) = heap (tModel (snd wt2)) @ tgs' @ rs" "\<forall>res\<in>set tgs'. is_target res"
    "rules_from ls port 1 rs" "redirect \<noteq> None \<and> lpProtocol cfg = ProtocolHTTP \<longrightarrow> rs = []"
    "building sid lb redirect (insert (Itoa port) L) (R \<union> range (rule_id port)) (snd wt')" by (elim exE conjE)
  have "ing_port_chunk lb redirect (length ?h) (port, cfg) (tgs @ Listener (ls_meta (Itoa port)) spec None # tgs' @ rs)"
    unfolding ing_port_chunk_def using S 1(3) R(2,3,4) h2(1)
    by - (rule exI [of _ tgs], rule exI [of _ spec], rule exI [of _ tgs'], rule exI [of _ rs], auto)
  then show ?thesis using R h2 by auto
qed

section \<open>The load balancer\<close>

lemma ing_allocate_tokens:
  assumes "ing_allocate_backend_sg b ingGroup tags toks wt = (Inr toks', wt')"
  shows "same_model wt wt' \<and> set toks' \<subseteq> set toks \<union> range LiteralStringToken"
proof -
  have "keeps same_model (ing_allocate_backend_sg b ingGroup tags toks)"
    unfolding ing_allocate_backend_sg_def Let_def by (intro keeps sm.bind sm.pure) simp
  from keepsD [OF this assms] show ?thesis
    using assms by (auto simp: ing_allocate_backend_sg_def Let_def io_return_def dest!: io_bind_InrD)
qed

lemma ing_managed_groups_done:
  assumes run: "ing_managed_groups b ingGroup cfgs ipt tags wt = (Inr toks, wt')"
    and b: "stack_built sid (tModel (snd wt))" "heap (tModel (snd wt)) = []"
  shows "sgs_done sid wt wt' toks"
proof -
  from io_bind_InrD [OF run [unfolded ing_managed_groups_def]]
  obtain sg wt1 where sg: "ing_buildManagedSecurityGroup b ingGroup cfgs ipt wt = (Inr sg, wt1)"
    and rest: "(if \<not> igbEnableBackendSG b then
      io_bind (modify_task (\<lambda>t. t\<lparr>tBackendSGIDToken := Some (GroupID_token sg)\<rparr>)) (\<lambda>_. io_return [GroupID_token sg])
    else ing_allocate_backend_sg b ingGroup tags [GroupID_token sg]) wt1 = (Inr toks, wt')" by (elim exE conjE)
  from sg obtain spec where new: "on_model (NewSecurityGroup ''ManagedLBSecurityGroup'' spec) wt = (Inr sg, wt1)"
    unfolding ing_buildManagedSecurityGroup_def ing_resourceIDManagedSecurityGroup_def
    by (auto simp: io_lift_def dest!: io_bind_InrD)
  have n: "sgs_done sid wt wt1 [GroupID_token sg]" by (rule managed_sg_added [OF new b])
  show ?thesis
  proof (cases "igbEnableBackendSG b")
    case True
    then have "ing_allocate_backend_sg b ingGroup tags [GroupID_token sg] wt1 = (Inr toks, wt')" using rest by simp
    from ing_allocate_tokens [OF this] show ?thesis by (intro sgs_done_more [OF n]) simp_all
  next
    case False
    then show ?thesis using rest by (intro sgs_done_more [OF n]) (auto simp: io_simps modify_task_def same_model_def)
  qed
qed

lemma ing_named_groups_done:
  assumes run: "ing_named_groups b ingGroup names tags wt = (Inr toks, wt')"
    and b: "stack_built sid (tModel (snd wt))" "heap (tModel (snd wt)) = []"
  shows "sgs_done sid wt wt' toks"
proof -
  from run obtain ids wt1 where ids: "in_world (ResolveViaNameOrID (igbSgResolver b) names) wt = (Inr ids, wt1)"
    and rest: "(toks = map LiteralStringToken ids \<and> wt' = wt1) \<or>
      ing_allocate_backend_sg b ingGroup tags (map LiteralStringToken ids) wt1 = (Inr toks, wt')"
    unfolding ing_named_groups_def Let_def
    by (auto simp: io_lift_def io_fail_def io_return_def dest!: io_bind_InrD split: if_splits)
  have 1: "same_model wt wt1" by (rule keepsD [OF in_world_same ids])
  have "same_model wt1 wt' \<and> set toks \<subseteq> range LiteralStringToken"
    using rest ing_allocate_tokens [of b ingGroup tags "map LiteralStringToken ids" wt1 toks wt'] by (auto simp: sm.R_refl)
  then show ?thesis using sgs_done_more [OF sgs_done_same [OF b 1, of "[]"]] by (simp add: tokens_bound_def)
qed

lemma ing_lb_run:
  assumes run: "ing_buildLoadBalancer b ingGroup cfgs wt = (Inr lb, wt')"
    and b: "stack_built sid (tModel (snd wt))" "heap (tModel (snd wt)) = []"
  shows "\<exists>sgs spec. heap (tModel (snd wt')) = sgs @ [LoadBalancer lb_meta spec None] \<and> lb = length sgs \<and> length sgs \<le> 1 \<and>
    (\<forall>sg\<in>set sgs. managed_sg sg) \<and> lbType spec = ''application'' \<and> tLoadBalancer (snd wt') = Some lb \<and>
    tTgByResID (snd wt') = tTgByResID (snd wt) \<and> stack_built sid (tModel (snd wt'))"
proof -
  from io_bind_InrD [OF run [unfolded ing_buildLoadBalancer_def]] obtain spec wt2 where
    spec: "ing_buildLoadBalancerSpec b ingGroup cfgs wt = (Inr spec, wt2)"
    and rest: "io_bind (on_model (NewLoadBalancer ing_resourceIDLoadBalancer spec)) (\<lambda>lb.
      io_bind (modify_task (\<lambda>t. t\<lparr>tLoadBalancer := Some lb\<rparr>)) (\<lambda>_. io_return lb)) wt2 = (Inr lb, wt')" by (elim exE conjE)
  from rest obtain wt3 where new: "on_model (NewLoadBalancer ''LoadBalancer'' spec) wt2 = (Inr lb, wt3)"
    and wt': "wt' = (fst wt3, (snd wt3)\<lparr>tLoadBalancer := Some lb\<rparr>)"
    unfolding ing_resourceIDLoadBalancer_def by (auto simp: modify_task_def io_return_def dest!: io_bind_InrD)
  from spec obtain ipt tags toks subs wt1 scheme where
    subs: "in_world (ing_buildLoadBalancerSubnetMappings b ingGroup scheme) wt = (Inr subs, wt1)"
    and sg: "ing_buildLoadBalancerSecurityGroups b ingGroup cfgs ipt tags wt1 = (Inr toks, wt2)"
    and eq: "lbSecurityGroups spec = toks" "lbType spec = ''application''"
    unfolding ing_buildLoadBalancerSpec_def by (auto simp: io_lift_def io_return_def dest!: io_bind_InrD)
  have 1: "same_model wt wt1" by (rule keepsD [OF in_world_same subs])
  then have b1: "stack_built sid (tModel (snd wt1))" "heap (tModel (snd wt1)) = []" "tTgByResID (snd wt1) = tTgByResID (snd wt)"
    using b by (simp_all add: same_model_def)
  have "ing_managed_groups b ingGroup cfgs ipt tags wt1 = (Inr toks, wt2) \<or>
      (\<exists>names. ing_named_groups b ingGroup names tags wt1 = (Inr toks, wt2))"
    using sg unfolding ing_buildLoadBalancerSecurityGroups_def by (auto simp: io_lift_def dest!: io_bind_InrD split: if_splits)
  then have "sgs_done sid wt1 wt2 (lbSecurityGroups spec)"
    using ing_managed_groups_done [OF _ b1(1,2)] ing_named_groups_done [OF _ b1(1,2)] unfolding eq(1) by blast
  note S = this lb_added [OF this new]
  then show ?thesis using b1(3) eq(2) wt'
    by (intro exI [of _ "heap (tModel (snd wt2))"] exI [of _ spec]) (auto simp: sgs_done_def)
qed

section \<open>The whole stack\<close>

fun ing_chunks :: "ref \<Rightarrow> SSLRedirectConfig option \<Rightarrow> nat \<Rightarrow> (int \<times> listenPortConfig) list \<Rightarrow> Resource list list \<Rightarrow> bool" where
  "ing_chunks lb redirect i [] [] = True"
| "ing_chunks lb redirect i (pc # pcs) (ch # chs) = (ing_port_chunk lb redirect i pc ch \<and> ing_chunks lb redirect (i + length ch) pcs chs)"
| "ing_chunks lb redirect i _ _ = False"

lemma ports_run:
  assumes "io_forM (build_port b ingGroup lb ingListByPort) pcs wt = (Inr (), wt')"
    and "building sid lb redirect L R (snd wt)" "distinct (map fst pcs)"
    and "\<forall>port\<in>fst ` set pcs. Itoa port \<notin> L \<and> range (rule_id port) \<inter> R = {}"
  shows "\<exists>chs L' R'. heap (tModel (snd wt')) = heap (tModel (snd wt)) @ concat chs \<and>
    ing_chunks lb redirect (length (heap (tModel (snd wt)))) pcs chs \<and> building sid lb redirect L' R' (snd wt')"
  using assms
proof (induction pcs arbitrary: wt L R)
  case Nil
  then show ?case by (intro exI [of _ "[]"]) (auto simp: io_return_def)
next
  case (Cons pc pcs)
  obtain port cfg where pc: "pc = (port, cfg)" by (cases pc)
  from io_bind_unitD [OF Cons.prems(1) [unfolded io_forM.simps pc]] obtain wt1 where
    1: "build_port b ingGroup lb ingListByPort (port, cfg) wt = (Inr (), wt1)"
    and rest: "io_forM (build_port b ingGroup lb ingListByPort) pcs wt1 = (Inr (), wt')" by (elim exE conjE)
  obtain ch where ch: "heap (tModel (snd wt1)) = heap (tModel (snd wt)) @ ch"
    "ing_port_chunk lb redirect (length (heap (tModel (snd wt)))) (port, cfg) ch"
    "building sid lb redirect (insert (Itoa port) L) (R \<union> range (rule_id port)) (snd wt1)"
    using build_port_run [OF 1 Cons.prems(2)] Cons.prems(4) by (auto simp: pc)
  have "\<forall>p\<in>fst ` set pcs. Itoa p \<notin> insert (Itoa port) L \<and> range (rule_id p) \<inter> (R \<union> range (rule_id port)) = {}"
  proof
    fix p assume p: "p \<in> fst ` set pcs"
    then have "p \<noteq> port" "Itoa p \<notin> L" "range (rule_id p) \<inter> R = {}" using Cons.prems(3,4) unfolding pc by (simp, blast)+
    then show "Itoa p \<notin> insert (Itoa port) L \<and> range (rule_id p) \<inter> (R \<union> range (rule_id port)) = {}"
      by (auto simp: Itoa_inj rule_id_inj)
  qed
  from Cons.IH [OF rest ch(3) _ this] Cons.prems(3) obtain chs L' R' where
    "heap (tModel (snd wt')) = heap (tModel (snd wt1)) @ concat chs"
    "ing_chunks lb redirect (length (heap (tModel (snd wt1)))) pcs chs" "building sid lb redirect L' R' (snd wt')" by auto
  then show ?case using ch(1,2) by (intro exI [of _ "ch # chs"]) (auto simp: pc)
qed

text \<open>The add-ons: at most one association with each kind of web ACL, and at most one protection, all for the load balancer.\<close>

definition addons_ok :: "ref \<Rightarrow> Resource list \<Rightarrow> bool" where
  "addons_ok lb adds \<longleftrightarrow> distinct (map reflect_TypeOf adds) \<and>
     (\<forall>res\<in>set adds. reflect_TypeOf res \<in> {''*wafv2.WebACLAssociation'', ''*wafregional.WebACLAssociation'', ''*shield.Protection''} \<and>
        dep_tokens res = [LoadBalancerARN_token lb])"

text \<open>An optional resource of a kind the stack does not have yet.\<close>

lemma addon_added:
  fixes wt :: "'w \<times> ing_task"
  assumes run: "wt' = wt \<or> on_model (new_resource res) wt = (Inr r, wt')"
    and ok: "targets_ok sid (snd wt)" "\<forall>res'\<in>set (heap (tModel (snd wt))). reflect_TypeOf res' \<noteq> reflect_TypeOf res"
    and res: "\<not> is_target res" "dep_tokens res = [LoadBalancerARN_token lb]" "lb < length (heap (tModel (snd wt)))"
  shows "targets_ok sid (snd wt') \<and> tLoadBalancer (snd wt') = tLoadBalancer (snd wt) \<and>
    (heap (tModel (snd wt')) = heap (tModel (snd wt)) \<or> heap (tModel (snd wt')) = heap (tModel (snd wt)) @ [res])"
proof -
  have "computeResourceUID res \<notin> uids (tModel (snd wt))" using ok(2) by (force simp: computeResourceUID_def)
  moreover have "\<forall>d\<in>set (dep_refs res). d < length (heap (tModel (snd wt)))" using res by (simp add: LoadBalancerARN_token_def)
  ultimately show ?thesis using run other_added [OF _ ok(1) res(1)] ok(1) by blast
qed

lemma addon_runs:
  "buildWAFv2WebACLAssociation b ingGroup lbARN wt = (Inr x, wt') \<Longrightarrow> wt' = wt \<or> (\<exists>arn r. on_model (new_resource
     (WAFv2WebACLAssociation \<lparr>resType = ''AWS::WAFv2::WebACLAssociation'', resID = ''LoadBalancer''\<rparr> \<lparr>wa2WebACLARN = arn, wa2ResourceARN = lbARN\<rparr>)) wt = (Inr r, wt'))"
  "buildWAFRegionalWebACLAssociation b ingGroup lbARN wt = (Inr x, wt') \<Longrightarrow> wt' = wt \<or> (\<exists>acl r. on_model (new_resource
     (WAFRegionalWebACLAssociation \<lparr>resType = ''AWS::WAFRegional::WebACLAssociation'', resID = ''LoadBalancer''\<rparr> \<lparr>warWebACLID = acl, warResourceARN = lbARN\<rparr>)) wt = (Inr r, wt'))"
  "buildShieldProtection b ingGroup lbARN wt = (Inr x, wt') \<Longrightarrow> wt' = wt \<or> (\<exists>r. on_model (new_resource
     (ShieldProtection \<lparr>resType = ''AWS::Shield::Protection'', resID = ''LoadBalancer''\<rparr> \<lparr>prResourceARN = lbARN\<rparr>)) wt = (Inr r, wt'))"
  unfolding buildWAFv2WebACLAssociation_def buildWAFRegionalWebACLAssociation_def buildShieldProtection_def
    NewWAFv2WebACLAssociation_def NewWAFRegionalWebACLAssociation_def NewProtection_def ing_resourceIDLoadBalancer_def
  by (fastforce simp: io_lift_def io_return_def dest!: io_bind_InrD split: option.splits if_splits)+

lemma addons_run:
  assumes run: "buildLoadBalancerAddOns b ingGroup (LoadBalancerARN_token lb) wt = (Inr (), wt')"
    and b: "building sid lb redirect L R (snd wt)"
  shows "\<exists>adds. heap (tModel (snd wt')) = heap (tModel (snd wt)) @ adds \<and> addons_ok lb adds \<and> targets_ok sid (snd wt') \<and>
    tLoadBalancer (snd wt') = Some lb"
proof -
  let ?h = "heap (tModel (snd wt))" and ?arn = "LoadBalancerARN_token lb"
  from run obtain x wt1 y wt2 z where 1: "buildWAFv2WebACLAssociation b ingGroup ?arn wt = (Inr x, wt1)"
    and 2: "buildWAFRegionalWebACLAssociation b ingGroup ?arn wt1 = (Inr y, wt2)" and 3: "buildShieldProtection b ingGroup ?arn wt2 = (Inr z, wt')"
    unfolding buildLoadBalancerAddOns_def by (auto simp: io_return_def dest!: io_bind_InrD)
  have lb: "lb < length ?h" "targets_ok sid (snd wt)" "tLoadBalancer (snd wt) = Some lb" using b by (simp_all add: building_def)
  have no: "reflect_TypeOf res \<notin> {''*wafv2.WebACLAssociation'', ''*wafregional.WebACLAssociation'', ''*shield.Protection''}" if "res \<in> set ?h" for res
    using names_ok_uid [of L R ?h "computeResourceUID res"] b that by (auto simp: building_def computeResourceUID_def)
  obtain arn r1 where "wt1 = wt \<or> on_model (new_resource (WAFv2WebACLAssociation
      \<lparr>resType = ''AWS::WAFv2::WebACLAssociation'', resID = ''LoadBalancer''\<rparr> \<lparr>wa2WebACLARN = arn, wa2ResourceARN = ?arn\<rparr>)) wt = (Inr r1, wt1)"
    using addon_runs(1) [OF 1] by blast
  note A1 = addon_added [OF this lb(2) _ _ _ lb(1), simplified]
  obtain acl r2 where r2: "wt2 = wt1 \<or> on_model (new_resource (WAFRegionalWebACLAssociation
      \<lparr>resType = ''AWS::WAFRegional::WebACLAssociation'', resID = ''LoadBalancer''\<rparr> \<lparr>warWebACLID = acl, warResourceARN = ?arn\<rparr>)) wt1 = (Inr r2, wt2)"
    using addon_runs(2) [OF 2] by blast
  have h1: "\<forall>res'\<in>set (heap (tModel (snd wt1))). reflect_TypeOf res' \<notin> {''*wafregional.WebACLAssociation'', ''*shield.Protection''}"
    "targets_ok sid (snd wt1)" "lb < length (heap (tModel (snd wt1)))" using A1 no lb(1) by auto
  note A2 = addon_added [OF r2 h1(2) _ _ _ h1(3), simplified]
  obtain r3 where r3: "wt' = wt2 \<or> on_model (new_resource (ShieldProtection
      \<lparr>resType = ''AWS::Shield::Protection'', resID = ''LoadBalancer''\<rparr> \<lparr>prResourceARN = ?arn\<rparr>)) wt2 = (Inr r3, wt')"
    using addon_runs(3) [OF 3] by blast
  have h2: "\<forall>res'\<in>set (heap (tModel (snd wt2))). reflect_TypeOf res' \<noteq> ''*shield.Protection''"
    "targets_ok sid (snd wt2)" "lb < length (heap (tModel (snd wt2)))" using A2 h1 by auto
  note A3 = addon_added [OF r3 h2(2) _ _ _ h2(3), simplified]
  have t: "targets_ok sid (snd wt')" "tLoadBalancer (snd wt') = Some lb" using A1 A2 A3 no h1(1) h2(1) lb(3) by auto
  define adds where "adds = drop (length ?h) (heap (tModel (snd wt')))"
  have "heap (tModel (snd wt')) = ?h @ adds" "addons_ok lb adds"
    using A1 A2 A3 no h1(1) h2(1) by (auto simp: adds_def addons_ok_def)
  then show ?thesis using t by blast
qed

section \<open>The ports of a group\<close>

definition member_ports :: "'w ing_builder \<Rightarrow> ClassifiedIngress \<Rightarrow> (int, Protocol) gomap result" where
  "member_ports b m = computeIngressListenPorts b (ciIng m) (computeIngressExplicitTLSCertARNs b (ciIng m) \<noteq> [])"

text \<open>The protocol a member wants on a port, if it listens there.\<close>

definition member_protocol :: "'w ing_builder \<Rightarrow> int \<Rightarrow> ClassifiedIngress \<Rightarrow> Protocol option" where
  "member_protocol b port m = (case member_ports b m of Inl _ \<Rightarrow> None | Inr ports \<Rightarrow> map_of ports port)"

lemma member_ports_wf: "member_ports b m = Inr ports \<Longrightarrow> gomap_wf ports"
proof -
  assume "member_ports b m = Inr ports"
  then consider "ports = [(443, ProtocolHTTPS)]" | "ports = [(80, ProtocolHTTP)]" |
    es where "result_foldM (\<lambda>m entry. result_foldM listen_port_entry m (entries (igbRange b) entry)) [] es = Inr ports"
    by (auto simp: member_ports_def computeIngressListenPorts_def split: option.splits sum.splits if_splits)
  then show ?thesis
  proof cases
    case 3
    have step: "gomap_wf m \<Longrightarrow> listen_port_entry m x = Inr m' \<Longrightarrow> gomap_wf m'" for m x m'
      by (auto simp: listen_port_entry_def gomap_wf_def distinct_update split: prod.splits if_splits)
    show ?thesis
      by (rule result_foldM_inv [where P = gomap_wf, OF 3]) (auto simp: gomap_wf_def intro: result_foldM_inv step [unfolded gomap_wf_def])
  qed (simp_all add: gomap_wf_def)
qed

text \<open>The certificates of a member: those it names, and otherwise, when it listens for HTTPS, those discovered for its hosts.\<close>

definition member_certs :: "'w ing_builder \<Rightarrow> ClassifiedIngress \<Rightarrow> string list \<Rightarrow> bool" where
  "member_certs b m certs \<longleftrightarrow>
     (let explicit = computeIngressExplicitTLSCertARNs b (ciIng m) in
      if explicit \<noteq> [] then certs = explicit
      else if \<exists>port. member_protocol b port m = Some ProtocolHTTPS
      then \<exists>w w'. computeIngressInferredTLSCertARNs b (ciIng m) w = (Inr certs, w')
      else certs = [])"

text \<open>What a member wants on a port: the protocol and, for HTTPS, the policy and the certificates.\<close>

definition member_wants :: "'w ing_builder \<Rightarrow> int \<Rightarrow> ClassifiedIngress \<times> string list \<Rightarrow> (Protocol \<times> string option \<times> string list) option" where
  "member_wants b port mc = map_option (\<lambda>protocol.
     if protocol = ProtocolHTTPS then (protocol, computeIngressExplicitSSLPolicy b (fst mc), snd mc) else (protocol, None, []))
     (member_protocol b port (fst mc))"

abbreviation wanted :: "listenPortConfig \<Rightarrow> Protocol \<times> string option \<times> string list" where
  "wanted cfg \<equiv> (lpProtocol cfg, lpSslPolicy cfg, lpTlsCerts cfg)"

lemma member_configs:
  assumes "computeIngressListenPortConfigByPort b m w = (Inr byPort, w')"
  shows "gomap_wf byPort \<and> (\<exists>certs. member_certs b m certs \<and>
    (\<forall>port. map_option wanted (map_of byPort port) = member_wants b port (m, certs)))"
proof -
  let ?explicit = "computeIngressExplicitTLSCertARNs b (ciIng m)" and ?policy = "computeIngressExplicitSSLPolicy b m"
  from assms obtain v4s v6s ports inferred w1 where ports: "member_ports b m = Inr ports"
    and inf: "(if ProtocolHTTPS \<in> set (map snd ports) \<and> ?explicit = []
        then computeIngressInferredTLSCertARNs b (ciIng m) else io_return []) w1 = (Inr inferred, w')"
    and bp: "byPort = map (\<lambda>(port, protocol). (port, listen_port_config v4s v6s
        (if ?explicit = [] then inferred else ?explicit) ?policy protocol)) ports"
    unfolding computeIngressListenPortConfigByPort_def member_ports_def Let_def
    by (fastforce simp: io_lift_def io_return_def simp del: map_eq_conv dest!: io_bind_InrD split: prod.splits)
  let ?certs = "if ?explicit = [] then inferred else ?explicit"
  have wf: "gomap_wf ports" by (rule member_ports_wf [OF ports])
  have "ProtocolHTTPS \<in> set (map snd ports) \<longleftrightarrow> (\<exists>port. member_protocol b port m = Some ProtocolHTTPS)"
    using wf by (force simp: member_protocol_def ports gomap_wf_def)
  then have "member_certs b m ?certs" using inf by (auto simp: member_certs_def io_return_def split: if_splits)
  moreover have "map_option wanted (map_of byPort port) = member_wants b port (m, ?certs)" for port
  proof -
    have "map_of byPort port = map_option (listen_port_config v4s v6s ?certs ?policy) (map_of ports port)"
      unfolding bp by (induction ports) auto
    then show ?thesis by (auto simp: member_wants_def member_protocol_def ports listen_port_config_def option.map_comp intro!: option.map_cong)
  qed
  moreover have "map fst byPort = map fst ports" unfolding bp by (induction ports) auto
  ultimately show ?thesis using wf by (auto simp: gomap_wf_def)
qed

abbreviation cfg_protocol :: "listenPortConfigWithIngress \<Rightarrow> Protocol" where
  "cfg_protocol cfg \<equiv> lpProtocol (lpConfig cfg)"

text \<open>The configurations collected by port: distinct ports, none without a configuration.\<close>

definition cfgs_ok :: "(int, listenPortConfigWithIngress list) gomap \<Rightarrow> bool" where
  "cfgs_ok c \<longleftrightarrow> gomap_wf c \<and> (\<forall>port. map_of c port \<noteq> Some [])"

lemma cfgs_ok_append_at: "cfgs_ok c \<Longrightarrow> cfgs_ok (append_at port cfg c)"
  by (auto simp: cfgs_ok_def append_at_def update_conv' gomap_wf_update)

lemma add_ports_fold:
  assumes "distinct (map fst es)" "cfgs_ok (snd s)"
  shows "cfgs_ok (snd (fold (\<lambda>(port, cfg) (ings, cfgs). (append_at port m ings, append_at port \<lparr>lpIngKey = k, lpConfig = cfg\<rparr> cfgs)) es s)) \<and>
    map lpConfig (gomap_index [] (snd (fold (\<lambda>(port, cfg) (ings, cfgs). (append_at port m ings, append_at port \<lparr>lpIngKey = k, lpConfig = cfg\<rparr> cfgs)) es s)) port) =
    map lpConfig (gomap_index [] (snd s) port) @ (case map_of es port of None \<Rightarrow> [] | Some cfg \<Rightarrow> [cfg])"
  using assms
proof (induction es arbitrary: s)
  case (Cons e es)
  obtain p cfg ings cfgs where e: "e = (p, cfg)" "s = (ings, cfgs)" by (cases e; cases s)
  have "map_of es p = None" using Cons.prems(1) by (simp add: e map_of_eq_None_iff)
  then show ?case
    using Cons.IH [of "(append_at p m ings, append_at p \<lparr>lpIngKey = k, lpConfig = cfg\<rparr> cfgs)"] Cons.prems
    by (auto simp: e cfgs_ok_append_at append_at_index split: option.splits)
qed simp

abbreviation port_wants :: "(int, listenPortConfigWithIngress list) gomap \<Rightarrow> int \<Rightarrow> (Protocol \<times> string option \<times> string list) list" where
  "port_wants cfgs port \<equiv> map (\<lambda>c. wanted (lpConfig c)) (gomap_index [] cfgs port)"

lemma add_member_run:
  assumes "add_member_ports b s m w = (Inr s', w')" "range_order (igbRangePorts b)" "cfgs_ok (snd s)"
  shows "cfgs_ok (snd s') \<and> (\<exists>certs. member_certs b m certs \<and> (\<forall>port. port_wants (snd s') port =
    port_wants (snd s) port @ (case member_wants b port (m, certs) of None \<Rightarrow> [] | Some x \<Rightarrow> [x])))"
proof -
  from assms(1) obtain byPort where c: "computeIngressListenPortConfigByPort b m w = (Inr byPort, w')"
    and s': "s' = fold (\<lambda>(port, cfg) (ings, cfgs). (append_at port m ings,
      append_at port \<lparr>lpIngKey = ing_key (ciIng m), lpConfig = cfg\<rparr> cfgs)) (entries (igbRangePorts b) byPort) s"
    unfolding add_member_ports_def wrap_error_def
    by (auto simp: io_return_def dest!: io_bind_InrD split: prod.splits sum.splits)
  from member_configs [OF c] obtain certs where wf: "gomap_wf byPort" and certs: "member_certs b m certs"
    and want: "map_option wanted (map_of byPort port) = member_wants b port (m, certs)" for port by (elim conjE exE) blast
  have e: "map_of (entries (igbRangePorts b) byPort) port = map_of byPort port" for port
  proof -
    have "map_of (entries (igbRangePorts b) byPort) port = Some v \<longleftrightarrow> map_of byPort port = Some v" for v
      using wf entries_iff [OF assms(2)] by (simp add: map_of_eq_Some_iff entries_distinct [OF assms(2)])
    then show ?thesis by (metis option.exhaust)
  qed
  note F = add_ports_fold [OF entries_distinct [OF assms(2) wf] assms(3), of m "ing_key (ciIng m)", folded s', unfolded e]
  have "port_wants (snd s') port = port_wants (snd s) port @ (case member_wants b port (m, certs) of None \<Rightarrow> [] | Some x \<Rightarrow> [x])" for port
  proof -
    have "map wanted (map lpConfig (gomap_index [] (snd s') port)) =
        map wanted (map lpConfig (gomap_index [] (snd s) port)) @ map wanted (case map_of byPort port of None \<Rightarrow> [] | Some cfg \<Rightarrow> [cfg])"
      using F [of port] by simp
    then show ?thesis unfolding want [symmetric] by (cases "map_of byPort port") (simp_all add: comp_def)
  qed
  then show ?thesis using F certs by blast
qed

lemma add_members_run:
  assumes "io_foldM (add_member_ports b) s ms w = (Inr s', w')" "range_order (igbRangePorts b)" "cfgs_ok (snd s)"
  shows "cfgs_ok (snd s') \<and> (\<exists>certs. list_all2 (member_certs b) ms certs \<and>
    (\<forall>port. port_wants (snd s') port = port_wants (snd s) port @ List.map_filter (member_wants b port) (zip ms certs)))"
  using assms
proof (induction ms arbitrary: s w)
  case (Cons m ms)
  from io_bind_InrD [OF Cons.prems(1) [unfolded io_foldM.simps]] obtain s1 w1 where
    1: "add_member_ports b s m w = (Inr s1, w1)" and 2: "io_foldM (add_member_ports b) s1 ms w1 = (Inr s', w')" by (elim exE conjE)
  from add_member_run [OF 1 Cons.prems(2,3)] obtain c where ok: "cfgs_ok (snd s1)" and c: "member_certs b m c"
    and s1: "port_wants (snd s1) port = port_wants (snd s) port @ (case member_wants b port (m, c) of None \<Rightarrow> [] | Some x \<Rightarrow> [x])" for port
    by (elim conjE exE) blast
  from Cons.IH [OF 2 Cons.prems(2) ok] obtain cs where s': "cfgs_ok (snd s')" and cs: "list_all2 (member_certs b) ms cs"
    and want: "port_wants (snd s') port = port_wants (snd s1) port @ List.map_filter (member_wants b port) (zip ms cs)" for port
    by (elim conjE exE) blast
  have "port_wants (snd s') port = port_wants (snd s) port @ List.map_filter (member_wants b port) (zip (m # ms) (c # cs))" for port
    unfolding want s1 by (simp add: map_filter_simps split: option.splits)
  then show ?case using s' c cs by (intro conjI exI [of _ "c # cs"]) auto
qed (simp add: io_return_def map_filter_simps)

text \<open>The merged configuration: the protocol all agree on, the policy of those that name one, or the default for
  HTTPS, and the certificates of all, each at its first place.\<close>

definition first_occurrences :: "'a list \<Rightarrow> 'a list" where
  "first_occurrences xs = rev (remdups (rev xs))"

abbreviation add_new :: "'a \<Rightarrow> 'a list \<Rightarrow> 'a list" where
  "add_new x xs \<equiv> (if x \<in> set xs then xs else xs @ [x])"

lemma fold_add_new: "fold add_new xs [] = first_occurrences xs"
proof (induction xs rule: rev_induct)
  case (snoc x xs)
  then show ?case by (simp add: first_occurrences_def)
qed (simp add: first_occurrences_def)

lemma merge_step:
  assumes "merge_port_config List m c = Inr m'"
  shows "mcProtocol m' = Some (cfg_protocol c) \<and> mcProtocol m \<in> {None, Some (cfg_protocol c)} \<and>
    mcTlsCerts m' = fold add_new (lpTlsCerts (lpConfig c)) (mcTlsCerts m) \<and>
    mcSslPolicy m' = (case mcSslPolicy m of None \<Rightarrow> lpSslPolicy (lpConfig c) | Some p \<Rightarrow> Some p) \<and>
    lpSslPolicy (lpConfig c) \<in> {None, mcSslPolicy m'}"
proof -
  from assms obtain m1 m2 m3 where m: "merge_protocol c m = Inr m1" "merge_cidrs List c m1 = Inr m2" "merge_ssl_policy c m2 = Inr m3"
    "m' = merge_certs c m3" by (auto simp: merge_port_config_def)
  from m(1) have 1: "mcProtocol m1 = Some (cfg_protocol c) \<and> mcProtocol m \<in> {None, Some (cfg_protocol c)}"
    "mcSslPolicy m1 = mcSslPolicy m" "mcTlsCerts m1 = mcTlsCerts m"
    by (auto simp: merge_protocol_def Let_def split: option.splits if_splits)
  from m(2) have 2: "mcProtocol m2 = mcProtocol m1" "mcSslPolicy m2 = mcSslPolicy m1" "mcTlsCerts m2 = mcTlsCerts m1"
    by (auto simp: merge_cidrs_def Let_def split: option.splits if_splits prod.splits)
  from m(3) have 3: "mcProtocol m3 = mcProtocol m2" "mcTlsCerts m3 = mcTlsCerts m2"
    "mcSslPolicy m3 = (case mcSslPolicy m2 of None \<Rightarrow> lpSslPolicy (lpConfig c) | Some p \<Rightarrow> Some p)"
    "lpSslPolicy (lpConfig c) \<in> {None, mcSslPolicy m3}"
    by (auto simp: merge_ssl_policy_def split: option.splits if_splits)
  show ?thesis unfolding m(4) using 1 2 3 by (simp add: merge_certs_def)
qed

lemma merge_all:
  "result_foldM (merge_port_config List) m cs = Inr m' \<Longrightarrow>
     (\<forall>c\<in>set cs. mcProtocol m' = Some (cfg_protocol c) \<and> lpSslPolicy (lpConfig c) \<in> {None, mcSslPolicy m'}) \<and>
     (\<forall>p. mcProtocol m = Some p \<longrightarrow> mcProtocol m' = Some p) \<and> (\<forall>p. mcSslPolicy m = Some p \<longrightarrow> mcSslPolicy m' = Some p) \<and>
     ((\<forall>c\<in>set cs. lpSslPolicy (lpConfig c) = None) \<longrightarrow> mcSslPolicy m' = mcSslPolicy m) \<and>
     mcTlsCerts m' = fold add_new (concat (map (\<lambda>c. lpTlsCerts (lpConfig c)) cs)) (mcTlsCerts m)"
proof (induction cs arbitrary: m)
  case (Cons c cs)
  then obtain m1 where 1: "merge_port_config List m c = Inr m1" and 2: "result_foldM (merge_port_config List) m1 cs = Inr m'" by auto
  note S = merge_step [OF 1] and IH = Cons.IH [OF 2]
  have p: "mcProtocol m' = Some (cfg_protocol c)" using S IH by blast
  have q: "lpSslPolicy (lpConfig c) \<in> {None, mcSslPolicy m'}"
  proof (cases "lpSslPolicy (lpConfig c)")
    case (Some policy)
    then have "mcSslPolicy m1 = Some policy" using S by auto
    then show ?thesis using IH Some by simp
  qed simp
  have r: "mcProtocol m = Some x \<longrightarrow> mcProtocol m' = Some x" "mcSslPolicy m = Some y \<longrightarrow> mcSslPolicy m' = Some y" for x y
    using S IH p by auto
  have "(\<forall>c\<in>set (c # cs). lpSslPolicy (lpConfig c) = None) \<longrightarrow> mcSslPolicy m' = mcSslPolicy m" using S IH by (auto split: option.splits)
  moreover have "mcTlsCerts m' = fold add_new (concat (map (\<lambda>c. lpTlsCerts (lpConfig c)) (c # cs))) (mcTlsCerts m)" using S IH by simp
  ultimately show ?case using p q r IH by simp
qed simp

lemma merged_config:
  assumes "mergeListenPortConfigs b cs = Inr cfg" "cs \<noteq> []"
  shows "\<forall>c\<in>set cs. cfg_protocol c = lpProtocol cfg \<and> lpSslPolicy (lpConfig c) \<in> {None, lpSslPolicy cfg}"
    and "(\<forall>c\<in>set cs. lpSslPolicy (lpConfig c) = None) \<Longrightarrow>
      lpSslPolicy cfg = (if lpProtocol cfg = ProtocolHTTPS then Some (igbDefaultSSLPolicy b) else None)"
    and "lpTlsCerts cfg = first_occurrences (concat (map (\<lambda>c. lpTlsCerts (lpConfig c)) cs))"
proof -
  from assms(1) obtain m where run: "result_foldM (merge_port_config (igbList b))
      \<lparr>mcProtocol = None, mcInboundCIDRs = None, mcSslPolicy = None, mcTlsCerts = []\<rparr> cs = Inr m"
    and cfg: "lpProtocol cfg = with_default [] (mcProtocol m)" "lpTlsCerts cfg = mcTlsCerts m"
      "lpSslPolicy cfg = (if with_default [] (mcProtocol m) = ProtocolHTTPS \<and> mcSslPolicy m = None then Some (igbDefaultSSLPolicy b) else mcSslPolicy m)"
    by (auto simp: mergeListenPortConfigs_def Let_def)
  note M = merge_all [OF run]
  show "\<forall>c\<in>set cs. cfg_protocol c = lpProtocol cfg \<and> lpSslPolicy (lpConfig c) \<in> {None, lpSslPolicy cfg}"
    using M by (auto simp: cfg)
  show "lpSslPolicy cfg = (if lpProtocol cfg = ProtocolHTTPS then Some (igbDefaultSSLPolicy b) else None)"
    if "\<forall>c\<in>set cs. lpSslPolicy (lpConfig c) = None"
    using M that by (simp add: cfg)
  show "lpTlsCerts cfg = first_occurrences (concat (map (\<lambda>c. lpTlsCerts (lpConfig c)) cs))"
    using M by (simp add: cfg fold_add_new)
qed

text \<open>
  The ports of a group and their configurations, as its members want them. A port has the protocol that all members
  listening on it want. For HTTPS, its certificates are those of these members in their order, without
  repetition, and its policy is the one that these members name, or the default policy when none does; for
  HTTP there is neither.
\<close>

abbreviation listeners :: "'w ing_builder \<Rightarrow> int \<Rightarrow> (ClassifiedIngress \<times> string list) list \<Rightarrow> (ClassifiedIngress \<times> string list) list" where
  "listeners b port mcs \<equiv> filter (\<lambda>mc. member_protocol b port (fst mc) \<noteq> None) mcs"

definition port_config_ok :: "'w ing_builder \<Rightarrow> (ClassifiedIngress \<times> string list) list \<Rightarrow> int \<times> listenPortConfig \<Rightarrow> bool" where
  "port_config_ok b mcs pc \<longleftrightarrow> (let ls = listeners b (fst pc) mcs; cfg = snd pc in
     (\<forall>mc\<in>set ls. member_protocol b (fst pc) (fst mc) = Some (lpProtocol cfg)) \<and>
     (if lpProtocol cfg = ProtocolHTTPS
      then lpTlsCerts cfg = first_occurrences (concat (map snd ls)) \<and>
        (\<exists>policy. lpSslPolicy cfg = Some policy \<and> (\<forall>mc\<in>set ls. computeIngressExplicitSSLPolicy b (fst mc) \<in> {None, Some policy}) \<and>
          ((\<forall>mc\<in>set ls. computeIngressExplicitSSLPolicy b (fst mc) = None) \<longrightarrow> policy = igbDefaultSSLPolicy b))
      else lpTlsCerts cfg = [] \<and> lpSslPolicy cfg = None))"

definition group_ports :: "'w ing_builder \<Rightarrow> ClassifiedIngress list \<Rightarrow> (int \<times> listenPortConfig) list \<Rightarrow> bool" where
  "group_ports b ms pcs \<longleftrightarrow> distinct (map fst pcs) \<and>
     (\<forall>port. port \<in> fst ` set pcs \<longleftrightarrow> (\<exists>m\<in>set ms. member_protocol b port m \<noteq> None)) \<and>
     (\<exists>certs. list_all2 (member_certs b) ms certs \<and> (\<forall>pc\<in>set pcs. port_config_ok b (zip ms certs) pc))"

lemma wants_listeners:
  "List.map_filter (member_wants b port) mcs = map (\<lambda>mc. the (member_wants b port mc)) (listeners b port mcs)"
  by (induction mcs) (auto simp: map_filter_simps member_wants_def split: option.splits)

lemma merged_port_ok:
  assumes merge: "mergeListenPortConfigs b cs = Inr cfg" and cs: "cs \<noteq> []"
    and wants: "map (\<lambda>c. wanted (lpConfig c)) cs = List.map_filter (member_wants b port) mcs"
  shows "port_config_ok b mcs (port, cfg)"
proof -
  let ?ls = "listeners b port mcs" and ?w = "\<lambda>mc. the (member_wants b port mc)"
  have W: "map (\<lambda>c. wanted (lpConfig c)) cs = map ?w ?ls" using wants by (simp add: wants_listeners)
  note M = merged_config [OF merge cs]
  have each: "\<exists>c\<in>set cs. wanted (lpConfig c) = ?w mc" if "mc \<in> set ?ls" for mc
  proof -
    have "?w mc \<in> set (map ?w ?ls)" using that by (simp del: set_filter)
    then show ?thesis unfolding W [symmetric] by auto
  qed
  have protocol: "member_protocol b port (fst mc) = Some (lpProtocol cfg)" if "mc \<in> set ?ls" for mc
    using each [OF that] M(1) that by (auto simp: member_wants_def split: if_splits)
  have w: "?w mc = (if lpProtocol cfg = ProtocolHTTPS then (ProtocolHTTPS, computeIngressExplicitSSLPolicy b (fst mc), snd mc)
      else (lpProtocol cfg, None, []))" if "mc \<in> set ?ls" for mc
    using protocol [OF that] by (simp add: member_wants_def)
  have certs: "map (\<lambda>c. lpTlsCerts (lpConfig c)) cs = map (\<lambda>mc. if lpProtocol cfg = ProtocolHTTPS then snd mc else []) ?ls"
  proof -
    have "map (\<lambda>x. snd (snd x)) (map (\<lambda>c. wanted (lpConfig c)) cs) = map (\<lambda>x. snd (snd x)) (map ?w ?ls)" by (simp only: W)
    then have "map (\<lambda>c. lpTlsCerts (lpConfig c)) cs = map (\<lambda>mc. snd (snd (?w mc))) ?ls" by (simp add: comp_def)
    also have "\<dots> = map (\<lambda>mc. if lpProtocol cfg = ProtocolHTTPS then snd mc else []) ?ls"
      by (rule map_cong [OF refl]) (simp only: w split: if_split, simp)
    finally show ?thesis .
  qed
  have policies: "(\<lambda>c. lpSslPolicy (lpConfig c)) ` set cs =
      (\<lambda>mc. if lpProtocol cfg = ProtocolHTTPS then computeIngressExplicitSSLPolicy b (fst mc) else None) ` set ?ls"
  proof -
    have "(\<lambda>c. lpSslPolicy (lpConfig c)) ` set cs = (\<lambda>x. fst (snd x)) ` set (map (\<lambda>c. wanted (lpConfig c)) cs)" by (simp add: image_image)
    also have "\<dots> = (\<lambda>mc. fst (snd (?w mc))) ` set ?ls" unfolding W by (simp add: image_image del: set_filter)
    also have "\<dots> = (\<lambda>mc. if lpProtocol cfg = ProtocolHTTPS then computeIngressExplicitSSLPolicy b (fst mc) else None) ` set ?ls"
      by (rule image_cong [OF refl]) (simp only: w split: if_split, simp)
    finally show ?thesis .
  qed
  have named: "lpSslPolicy cfg = Some p" if "mc \<in> set ?ls" "lpProtocol cfg = ProtocolHTTPS" "computeIngressExplicitSSLPolicy b (fst mc) = Some p" for mc p
  proof -
    have "Some p \<in> (\<lambda>c. lpSslPolicy (lpConfig c)) ` set cs"
      unfolding policies using that(2,3) by (intro image_eqI [OF _ that(1)]) simp
    then show ?thesis using M(1) by auto
  qed
  have default: "lpSslPolicy cfg = (if lpProtocol cfg = ProtocolHTTPS then Some (igbDefaultSSLPolicy b) else None)"
    if "lpProtocol cfg = ProtocolHTTPS \<Longrightarrow> \<forall>mc\<in>set ?ls. computeIngressExplicitSSLPolicy b (fst mc) = None"
  proof (rule M(2))
    have "(\<lambda>c. lpSslPolicy (lpConfig c)) ` set cs \<subseteq> {None}" unfolding policies
      by (intro image_subsetI, cases "lpProtocol cfg = ProtocolHTTPS") (use that in \<open>simp_all del: set_filter\<close>)
    then show "\<forall>c\<in>set cs. lpSslPolicy (lpConfig c) = None" by auto
  qed
  have protocols: "\<forall>mc\<in>set ?ls. member_protocol b port (fst mc) = Some (lpProtocol cfg)" using protocol by blast
  note ok = port_config_ok_def Let_def fst_conv snd_conv
  show ?thesis
  proof (cases "lpProtocol cfg = ProtocolHTTPS")
    case True
    have "lpTlsCerts cfg = first_occurrences (concat (map snd ?ls))" using M(3) unfolding certs using True by simp
    moreover have "\<exists>policy. lpSslPolicy cfg = Some policy \<and> (\<forall>mc\<in>set ?ls. computeIngressExplicitSSLPolicy b (fst mc) \<in> {None, Some policy}) \<and>
        ((\<forall>mc\<in>set ?ls. computeIngressExplicitSSLPolicy b (fst mc) = None) \<longrightarrow> policy = igbDefaultSSLPolicy b)"
    proof (cases "\<forall>mc\<in>set ?ls. computeIngressExplicitSSLPolicy b (fst mc) = None")
      case all: True
      then show ?thesis using default [OF all] True by auto
    next
      case False
      then obtain mc where mc: "mc \<in> set ?ls" "computeIngressExplicitSSLPolicy b (fst mc) \<noteq> None" by blast
      then obtain p where p: "computeIngressExplicitSSLPolicy b (fst mc) = Some p" by blast
      then have cfg: "lpSslPolicy cfg = Some p" by (rule named [OF mc(1) True])
      then have "computeIngressExplicitSSLPolicy b (fst mc') \<in> {None, Some p}" if "mc' \<in> set ?ls" for mc'
        using named [OF that True] by (cases "computeIngressExplicitSSLPolicy b (fst mc')") auto
      then show ?thesis using cfg False by (intro exI [of _ p] conjI ballI impI) (assumption | erule (1) notE | blast)+
    qed
    ultimately show ?thesis unfolding ok if_P [OF True] using protocols by (intro conjI)
  next
    case False
    have "lpTlsCerts cfg = []" using M(3) unfolding certs using False by (simp add: first_occurrences_def)
    moreover have "lpSslPolicy cfg = None" using default False by simp
    ultimately show ?thesis unfolding ok if_not_P [OF False] using protocols by (intro conjI)
  qed
qed

lemma merged_ports:
  assumes run: "io_foldM (add_member_ports b) ([], []) ms w = (Inr (ings, cfgs), w')" and range: "range_order (igbRangePorts b)"
    and merge: "result_mapM (merge_port b) (entries (igbRangePorts b) cfgs) = Inr pcs"
  shows "group_ports b ms pcs"
proof -
  have "cfgs_ok ([] :: (int, listenPortConfigWithIngress list) gomap)" by (simp add: cfgs_ok_def)
  then obtain certs where ok: "cfgs_ok cfgs" and certs: "list_all2 (member_certs b) ms certs"
    and wants: "port_wants cfgs port = List.map_filter (member_wants b port) (zip ms certs)" for port
    using add_members_run [OF run range] by auto
  have all: "list_all2 (\<lambda>x y. merge_port b x = Inr y) (entries (igbRangePorts b) cfgs) pcs" using merge by (simp add: result_mapM_Inr)
  then have fst: "map fst pcs = map fst (entries (igbRangePorts b) cfgs)"
    by (induction rule: list_all2_induct) (auto simp: merge_port_def split: prod.splits sum.splits)
  have listens: "(\<exists>m\<in>set ms. member_protocol b port m \<noteq> None) \<longleftrightarrow> gomap_index [] cfgs port \<noteq> []" for port
  proof -
    have "fst ` set (zip ms certs) = set ms" using list_all2_lengthD [OF certs] by (metis list.set_map map_fst_zip)
    then have "(\<exists>m\<in>set ms. member_protocol b port m \<noteq> None) \<longleftrightarrow> listeners b port (zip ms certs) \<noteq> []"
      by (force simp: filter_empty_conv)
    moreover have "length (gomap_index [] cfgs port) = length (listeners b port (zip ms certs))"
      using arg_cong [OF wants [of port], of length] by (simp add: wants_listeners)
    ultimately show ?thesis by (metis length_0_conv)
  qed
  have keys: "port \<in> fst ` set pcs \<longleftrightarrow> gomap_index [] cfgs port \<noteq> []" for port
  proof -
    have "port \<in> fst ` set pcs \<longleftrightarrow> map_of cfgs port \<noteq> None"
      using arg_cong [OF fst, of set] entries_keys [OF range, of cfgs]
      by (simp add: range_order_set [OF range] gomap_keys_map_of flip: set_map)
    then show ?thesis using ok by (auto simp: cfgs_ok_def gomap_index_def split: option.splits)
  qed
  have "port_config_ok b (zip ms certs) pc" if pc: "pc \<in> set pcs" for pc
  proof -
    from list_all2_member2 [OF all pc] obtain e where
      e: "e \<in> set (entries (igbRangePorts b) cfgs)" "merge_port b e = Inr pc" by (elim bexE)
    then obtain port cs cfg where cs: "e = (port, cs)" "mergeListenPortConfigs b cs = Inr cfg" "pc = (port, cfg)"
      by (auto simp: merge_port_def split: prod.splits sum.splits)
    then have i: "gomap_index [] cfgs port = cs" using e(1) by (simp add: gomap_index_def entries_iff [OF range])
    moreover have "port \<in> fst ` set pcs" using pc cs(3) by force
    ultimately have "cs \<noteq> []" using keys by blast
    then show ?thesis unfolding cs(3) by (rule merged_port_ok [OF cs(2)]) (use wants [of port] i in simp)
  qed
  moreover have "distinct (map fst pcs)" using fst entries_distinct [OF range, of cfgs] ok by (simp add: cfgs_ok_def)
  ultimately show ?thesis using keys listens certs unfolding group_ports_def by blast
qed

text \<open>The redirect a member asks for is the one of the group, to a port that speaks HTTPS.\<close>

lemma only_value_Some: "only_value msg print vs = Inr v \<Longrightarrow> Some x \<in> set vs \<Longrightarrow> v = Some x"
proof -
  assume run: "only_value msg print vs = Inr v" and x: "Some x \<in> set vs"
  then have "x \<in> set (remdups (List.map_filter (\<lambda>v. v) vs))" by (force simp: set_map_filter)
  then show ?thesis using run unfolding only_value_def
    by (cases "remdups (List.map_filter (\<lambda>v. v) vs)") (auto simp del: set_remdups split: list.splits)
qed

lemma redirect_config:
  assumes "buildSSLRedirectConfig b ingGroup pcs = Inr redirect" "m \<in> set (grpMembers ingGroup)" "member_ssl_redirect b m = Inr (Some port)"
  shows "redirect = Some \<lparr>SSLPort = port, srStatusCode = ''HTTP_301''\<rparr> \<and> (\<exists>cfg. (port, cfg) \<in> set pcs \<and> lpProtocol cfg = ProtocolHTTPS)"
proof -
  from assms(1) obtain ports v where ports: "result_mapM (member_ssl_redirect b) (grpMembers ingGroup) = Inr ports"
    and v: "only_value ''conflicting sslRedirect port: %v'' (\<lambda>ps. map Itoa (sort ps)) ports = Inr v"
    and rest: "(case v of None \<Rightarrow> Inr None | Some p \<Rightarrow>
      (case map_of pcs p of None \<Rightarrow> Inl (Errorf ''listener does not exist for SSLRedirect port: %v'' [Itoa p])
       | Some cfg \<Rightarrow> if lpProtocol cfg \<noteq> ProtocolHTTPS then Inl (Errorf ''listener protocol non-SSL for SSLRedirect port: %v'' [Itoa p])
           else Inr (Some \<lparr>SSLPort = p, srStatusCode = ''HTTP_301''\<rparr>))) = Inr redirect"
    unfolding buildSSLRedirectConfig_def by auto
  have "list_all2 (\<lambda>m v. member_ssl_redirect b m = Inr v) (grpMembers ingGroup) ports" using ports by (simp add: result_mapM_Inr)
  from list_all2_member1 [OF this assms(2)] have "Some port \<in> set ports" using assms(3) by auto
  then show ?thesis using only_value_Some [OF v] rest by (auto split: option.splits if_splits dest: map_of_SomeD)
qed

text \<open>The stack after a run: the parts one after the other, and every target group with its binding.\<close>

lemma ing_run_stack:
  assumes run: "ing_run b ingGroup (w, ing_new_task ingGroup) = (Inr (), (w', t))" and members: "grpMembers ingGroup \<noteq> []"
    and range: "range_order (igbRangePorts b)"
  shows "(\<exists>sgs spec ports redirect chs adds.
       heap (tModel t) = sgs @ LoadBalancer lb_meta spec None # concat chs @ adds \<and> length sgs \<le> 1 \<and> (\<forall>sg\<in>set sgs. managed_sg sg) \<and>
       lbType spec = ''application'' \<and> tLoadBalancer t = Some (length sgs) \<and> group_ports b (grpMembers ingGroup) ports \<and>
       ing_chunks (length sgs) redirect (Suc (length sgs)) ports chs \<and> addons_ok (length sgs) adds \<and>
       (\<forall>m\<in>set (grpMembers ingGroup). \<forall>port. member_ssl_redirect b m = Inr (Some port) \<longrightarrow>
          redirect = Some \<lparr>SSLPort = port, srStatusCode = ''HTTP_301''\<rparr> \<and>
          (\<exists>cfg. (port, cfg) \<in> set ports \<and> lpProtocol cfg = ''HTTPS''))) \<and>
    targets_ok \<lparr>sidNamespace = nnNamespace (grpID ingGroup), sidName = nnName (grpID ingGroup)\<rparr> t"
proof -
  let ?sid = "\<lparr>sidNamespace = nnNamespace (grpID ingGroup), sidName = nnName (grpID ingGroup)\<rparr>" and ?t0 = "ing_new_task ingGroup"
  from run members obtain ings cfgs w1 pcs lb wt2 redirect wt4 where
    ports: "in_world (io_foldM (add_member_ports b) ([], []) (grpMembers ingGroup)) (w, ?t0) = (Inr (ings, cfgs), w1)"
    and merge: "result_mapM (merge_port b) (entries (igbRangePorts b) cfgs) = Inr pcs"
    and lb: "ing_buildLoadBalancer b ingGroup pcs w1 = (Inr lb, wt2)" and red: "buildSSLRedirectConfig b ingGroup pcs = Inr redirect"
    and loop: "io_forM (build_port b ingGroup lb ings) (entries (igbRangePorts b) pcs) (fst wt2, (snd wt2)\<lparr>tSslRedirectConfig := redirect\<rparr>) = (Inr (), wt4)"
    and adds: "buildLoadBalancerAddOns b ingGroup (LoadBalancerARN_token lb) wt4 = (Inr (), (w', t))"
    unfolding ing_run_def by (auto simp: io_lift_def modify_task_def dest!: io_bind_InrD)
  from ports obtain w1' where "io_foldM (add_member_ports b) ([], []) (grpMembers ingGroup) w = (Inr (ings, cfgs), w1')" and w1: "snd w1 = ?t0"
    by (auto simp: in_world_def split: prod.splits)
  from merged_ports [OF this(1) range merge] have gp: "group_ports b (grpMembers ingGroup) pcs" .
  have s0: "stack_built ?sid (tModel ?t0)" "heap (tModel ?t0) = []" "tTgByResID ?t0 = []"
    using stack_built.init [of ?sid] by (simp_all add: ing_new_task_def init_state_def)
  from ing_lb_run [OF lb, of ?sid] s0 w1 obtain sgs spec where
    lb': "heap (tModel (snd wt2)) = sgs @ [LoadBalancer lb_meta spec None]" "lb = length sgs" "length sgs \<le> 1" "\<forall>sg\<in>set sgs. managed_sg sg"
    "lbType spec = ''application''" "tLoadBalancer (snd wt2) = Some lb" "tTgByResID (snd wt2) = []" "stack_built ?sid (tModel (snd wt2))"
    by auto
  have b: "building ?sid lb redirect {} {} ((snd wt2)\<lparr>tSslRedirectConfig := redirect\<rparr>)"
    using lb' by (auto simp: building_def targets_ok_def names_ok_def managed_sg_def nth_append nth_Cons' split: if_splits dest!: nth_mem)
  let ?es = "entries (igbRangePorts b) pcs"
  have es: "set ?es = set pcs" using gomap_wf_in_set [of pcs] entries_iff [OF range, of _ _ pcs] gp
    by (force simp: group_ports_def gomap_wf_def)
  have d: "distinct (map fst ?es)" using gp entries_distinct [OF range, of pcs] by (simp add: group_ports_def gomap_wf_def)
  have gp': "group_ports b (grpMembers ingGroup) ?es" using gp d unfolding group_ports_def es by simp
  from ports_run [OF loop, of ?sid redirect "{}" "{}"] b d lb'(1) obtain chs L R where
    C: "heap (tModel (snd wt4)) = sgs @ LoadBalancer lb_meta spec None # concat chs"
    "ing_chunks lb redirect (Suc (length sgs)) ?es chs" "building ?sid lb redirect L R (snd wt4)"
    by auto
  from addons_run [OF adds C(3)] obtain as where A: "heap (tModel t) = heap (tModel (snd wt4)) @ as" "addons_ok lb as"
    "targets_ok ?sid t" "tLoadBalancer t = Some lb" by auto
  have red': "redirect = Some \<lparr>SSLPort = port, srStatusCode = ''HTTP_301''\<rparr> \<and> (\<exists>cfg. (port, cfg) \<in> set ?es \<and> lpProtocol cfg = ''HTTPS'')"
    if "m \<in> set (grpMembers ingGroup)" "member_ssl_redirect b m = Inr (Some port)" for m port
    using redirect_config [OF red that] unfolding es by simp
  show ?thesis
    by (intro conjI exI [of _ sgs] exI [of _ spec] exI [of _ ?es] exI [of _ redirect] exI [of _ chs] exI [of _ as] ballI allI impI)
      (use lb' gp' red' C A in simp_all)
qed

text \<open>C11: For a group with members, the builder makes a stack that the deployer handles, with exactly these resources:
  at most one managed security group, one application load balancer, for every port the parts of that port, and the
  add-ons. The ports are those some member listens on, each once, with the protocol that all members listening there
  want. The parts of a port are the target groups with their bindings, one listener of the load balancer on
  the port, and the rules of that listener with the priorities 1, 2 and so on. A listener for HTTPS has the certificates
  of the members listening there in the order of the members, each once, where those of a member are the ones it names
  or else the ones discovered for its hosts, and the policy that these members name, or the default policy
  when none does; a listener for HTTP has neither. When a member asks for a redirect to an HTTPS port, that port is
  one of the group, and the listeners for HTTP do nothing but redirect to it. Every target group has a binding of
  the same name that refers to it.\<close>

theorem ingress_stack_resources:
  assumes run: "ing_Build b ingGroup w = (Inr (s, lb, secrets, allocated), w')"
    and members: "grpMembers ingGroup \<noteq> []" and range: "range_order (igbRangePorts b)"
  shows "stack_built \<lparr>sidNamespace = nnNamespace (grpID ingGroup), sidName = nnName (grpID ingGroup)\<rparr> s \<and>
    (\<exists>sgs spec ports redirect chs adds.
       heap s = sgs @ LoadBalancer lb_meta spec None # concat chs @ adds \<and> length sgs \<le> 1 \<and> (\<forall>sg\<in>set sgs. managed_sg sg) \<and>
       lbType spec = ''application'' \<and> lb = Some (length sgs) \<and> group_ports b (grpMembers ingGroup) ports \<and>
       ing_chunks (length sgs) redirect (Suc (length sgs)) ports chs \<and> addons_ok (length sgs) adds \<and>
       (\<forall>m\<in>set (grpMembers ingGroup). \<forall>port. member_ssl_redirect b m = Inr (Some port) \<longrightarrow>
          redirect = Some \<lparr>SSLPort = port, srStatusCode = ''HTTP_301''\<rparr> \<and>
          (\<exists>cfg. (port, cfg) \<in> set ports \<and> lpProtocol cfg = ''HTTPS''))) \<and>
    (\<forall>r < length (heap s). \<forall>m tg st. heap s ! r = TargetGroup m tg st \<longrightarrow> bound (heap s) r (resID m))"
proof -
  from run obtain t where "ing_run b ingGroup (w, ing_new_task ingGroup) = (Inr (), (w', t))" and t: "s = tModel t" "lb = tLoadBalancer t"
    by (auto simp: ing_Build_def split: prod.splits sum.splits)
  from ing_run_stack [OF this(1) members range] show ?thesis unfolding t targets_ok_def by blast
qed

section \<open>An example\<close>

definition example_ing_builder :: "unit ing_builder" where
  "example_ing_builder =
     (let ec2 = \<lparr>DescribeSecurityGroupsAsList = (\<lambda>_. io_return []),
       AuthorizeSecurityGroupIngressWithContext = (\<lambda>_ _. io_return ()), RevokeSecurityGroupIngressWithContext = (\<lambda>_ _. io_return ()),
       CreateTagsWithContext = (\<lambda>_ _. io_return ()), DeleteTagsWithContext = (\<lambda>_ _. io_return ()),
       CreateSecurityGroupWithContext = (\<lambda>_. io_return (Some ''sg-1'')), DeleteSecurityGroupWithContext = (\<lambda>_. io_return ())\<rparr>
      in \<lparr>igbGetSecret = (\<lambda>_. io_return []), igbAnnotationParser = \<lparr>annotationPrefix = ''alb.ingress.kubernetes.io''\<rparr>,
       igbSubnetsResolver = example_subnets_resolver,
       igbBackendSGProvider = \<lparr>bspVpcID = ''vpc-1'', bspClusterName = ''c1'', bspBackendSG = ''sg-0'', bspDefaultTags = [],
         bspEc2Client = ec2, bspListIngresses = io_return [], bspListServices = io_return [],
         bspState = (\<lambda>_. \<lparr>autoGeneratedSG = [], objectsMap = []\<rparr>), bspSetState = (\<lambda>_ w. w), bspRange = (\<lambda>m. m),
         bspSlice = SliceStable, bspSha256 = (\<lambda>s. s), bspPollImmediate = poll_attempts 3\<rparr>,
       igbSgResolver = \<lparr>sgrEc2Client = ec2, sgrVpcID = ''vpc-1''\<rparr>, igbCertDiscovery = example_discovery,
       igbEnhancedBackendBuilder = example_backend_builder,
       igbTrackingProvider = \<lparr>tagPrefix = ''ingress.k8s.aws'', clusterName = ''c1''\<rparr>,
       igbTaggingManager = example_tagging (offline_elb\<lparr>DescribeLoadBalancersAsList := (\<lambda>_. io_return [])\<rparr>),
       igbFeatureGates = NewFeatureGates, igbClusterName = ''c1'', igbDefaultTags = [], igbExternalManagedTags = [],
       igbDefaultSSLPolicy = ''policy'', igbDefaultTargetType = ''instance'', igbEnableBackendSG = True, igbDisableRestrictedSGRules = False,
       igbEnableIPTargetType = True, igbUnmarshalListenPorts = (\<lambda>_. Inr []),
       igbIntstrParse = (\<lambda>s. case strconv_ParseInt s of ParseOk i \<Rightarrow> IntVal i | _ \<Rightarrow> StrVal s), igbSha256 = (\<lambda>s. s),
       igbList = sorted_list_of_set, igbRange = (\<lambda>m. m), igbRangePorts = (\<lambda>m. m)\<rparr>)"

definition example_member :: ClassifiedIngress where
  "example_member = \<lparr>ciIng = example_ingress ''ing'' [] [], ciIngClassConfig = \<lparr>ccIngClass = None, ccIngClassParams = None\<rparr>\<rparr>"

definition example_ing_group :: Group where
  "example_ing_group = \<lparr>grpID = \<lparr>nnNamespace = ''ns'', nnName = ''ing''\<rparr>, grpMembers = [example_member], grpInactiveMembers = []\<rparr>"

lemma example_port:
  assumes "tSslRedirectConfig t = None"
  shows "\<exists>t'. build_port example_ing_builder example_ing_group lb [(80, [example_member])] (80, cfg) ((), t) = (Inr (), ((), t'))"
proof -
  have tags: "ing_buildListenerTags example_ing_builder [example_member] = Inr []" by code_simp
  have m: "ingDefaultBackend (ciIng example_member) = None" "ingRules (ciIng example_member) = []"
    by (simp_all add: example_member_def example_ingress_def)
  have o: "Optimize 80 p [] = []" for p by (simp add: Optimize_def omitInfiniteRedirectRules_def omitOvershadowedRulesAfterRedirectRules_def)
  show ?thesis
    by (simp add: build_port_def ing_buildListener_def ing_buildListenerSpec_def ing_buildListenerDefaultActions_def listener_backend_actions_def
      m get_task_def io_simps assms tags NewListener_def on_model_new_run buildListenerRules_def o Let_def)
qed

lemma example_addons: "buildLoadBalancerAddOns example_ing_builder example_ing_group lbARN wt = (Inr (), wt)"
proof -
  have none: "igb_string example_ing_builder (member_annotations example_member) key = None"
    "igb_bool example_ing_builder (member_annotations example_member) key = Inr None" for key
    by (simp_all add: igb_string_def igb_bool_def ParseStringAnnotation_def ParseBoolAnnotation_def parseStringAnnotation_def Let_def
      example_member_def example_ingress_def ing_annotations_def)
  show ?thesis
    by (simp add: buildLoadBalancerAddOns_def buildWAFv2WebACLAssociation_def buildWAFRegionalWebACLAssociation_def buildShieldProtection_def
      member_waf_acl_def example_ing_group_def none only_value_def io_simps)
qed

definition example_port_config :: listenPortConfig where
  "example_port_config = \<lparr>lpProtocol = ''HTTP'', lpInboundCIDRv4s = [''0.0.0.0/0''], lpInboundCIDRv6s = [''::/0''], lpSslPolicy = None, lpTlsCerts = []\<rparr>"

lemma example_merged:
  "io_foldM (add_member_ports example_ing_builder) ([], []) (grpMembers example_ing_group) () =
     (Inr ([(80, [example_member])], [(80, [\<lparr>lpIngKey = \<lparr>nnNamespace = ''ns'', nnName = ''ing''\<rparr>,
        lpConfig = example_port_config\<lparr>lpInboundCIDRv4s := [], lpInboundCIDRv6s := []\<rparr>\<rparr>])]), ())"
  "result_mapM (merge_port example_ing_builder) (entries (igbRangePorts example_ing_builder)
     [(80, [\<lparr>lpIngKey = \<lparr>nnNamespace = ''ns'', nnName = ''ing''\<rparr>, lpConfig = example_port_config\<lparr>lpInboundCIDRv4s := [], lpInboundCIDRv6s := []\<rparr>\<rparr>])]) =
     Inr [(80, example_port_config)]"
  "buildSSLRedirectConfig example_ing_builder example_ing_group [(80, example_port_config)] = Inr None"
  "entries (igbRangePorts example_ing_builder) [(80, example_port_config)] = [(80, example_port_config)]"
  by code_simp+

lemma example_lb:
  "case ing_buildLoadBalancer example_ing_builder example_ing_group [(80, example_port_config)] ((), ing_new_task example_ing_group) of
     (Inr lb, (_, t)) \<Rightarrow> lb = 1 \<and> tTgByResID t = [] | _ \<Rightarrow> False"
  by code_simp

lemma example_ing_run: "\<exists>s lb secrets allocated. ing_Build example_ing_builder example_ing_group () = (Inr (s, lb, secrets, allocated), ())"
proof -
  obtain t where lb: "ing_buildLoadBalancer example_ing_builder example_ing_group [(80, example_port_config)] ((), ing_new_task example_ing_group) =
      (Inr 1, ((), t))" using example_lb by (auto split: prod.splits sum.splits)
  obtain t' where port: "build_port example_ing_builder example_ing_group (Suc 0) [(80, [example_member])] (80, example_port_config)
      ((), t\<lparr>tSslRedirectConfig := None\<rparr>) = (Inr (), ((), t'))" using example_port [of "t\<lparr>tSslRedirectConfig := None\<rparr>"] by auto
  have g: "grpInactiveMembers example_ing_group = []" "grpMembers example_ing_group \<noteq> []" by (simp_all add: example_ing_group_def)
  have "ing_run example_ing_builder example_ing_group ((), ing_new_task example_ing_group) = (Inr (), ((), t'))"
    by (simp add: ing_run_def g in_world_def example_merged lb port example_addons modify_task_def io_simps)
  then show ?thesis by (simp add: ing_Build_def)
qed

theorem ingress_stack_resources_witness:
  "\<exists>s lb secrets allocated. ing_Build example_ing_builder example_ing_group () = (Inr (s, lb, secrets, allocated), ()) \<and>
     stack_built \<lparr>sidNamespace = ''ns'', sidName = ''ing''\<rparr> s \<and> 2 \<le> length (heap s)"
proof -
  obtain s lb secrets allocated where run: "ing_Build example_ing_builder example_ing_group () = (Inr (s, lb, secrets, allocated), ())"
    using example_ing_run by (elim exE)
  have g: "grpID example_ing_group = \<lparr>nnNamespace = ''ns'', nnName = ''ing''\<rparr>" "grpMembers example_ing_group \<noteq> []"
    by (simp_all add: example_ing_group_def)
  have "range_order (igbRangePorts example_ing_builder)" by (simp add: example_ing_builder_def Let_def range_order_id)
  note T = ingress_stack_resources [OF run g(2) this]
  have "2 \<le> length (heap s)"
  proof -
    have "member_protocol example_ing_builder 80 example_member = Some ''HTTP''" by code_simp
    then have "80 \<in> fst ` set ports" if "group_ports example_ing_builder (grpMembers example_ing_group) ports" for ports
      using that by (auto simp: group_ports_def example_ing_group_def)
    then have "chs \<noteq> []" "hd chs \<noteq> []" if "group_ports example_ing_builder (grpMembers example_ing_group) ports"
      "ing_chunks lb redirect i ports chs" for ports chs lb redirect i
      using that by (cases ports; cases chs; force simp: ing_port_chunk_def)+
    then have "concat chs \<noteq> []" if "group_ports example_ing_builder (grpMembers example_ing_group) ports"
      "ing_chunks lb redirect i ports chs" for ports chs lb redirect i
      using that by (metis concat.simps(2) append_is_Nil_conv list.collapse)
    then show ?thesis using T by (auto simp: Suc_le_eq)
  qed
  then show ?thesis using run T g(1) by auto
qed

section \<open>Target groups shared by mistake\<close>

text \<open>After a target group is built, its identifier leads to it.\<close>

lemma target_group_recorded:
  assumes run: "ing_buildTargetGroup b gid ing svc port wt = (Inr tg, wt')"
  shows "map_of (tTgByResID (snd wt')) (ing_buildTargetGroupResourceID (ing_key (ciIng ing)) (NamespacedName_of (svcMeta svc)) port) = Some tg"
proof -
  define rid where "rid = ing_buildTargetGroupResourceID (ing_key (ciIng ing)) (NamespacedName_of (svcMeta svc)) port"
  show ?thesis
  proof (cases "map_of (tTgByResID (snd wt)) rid")
    case None
    then have "ing_new_target_group b gid ing svc port rid wt = (Inr tg, wt')"
      using run by (simp add: ing_buildTargetGroup_def Let_def rid_def get_task_def io_simps)
    then obtain wt1 tgSpec svcPort nodeSelector x wt2 where
      1: "modify_task (\<lambda>t. t\<lparr>tTgByResID := AList.update rid tg (tTgByResID t)\<rparr>) wt1 = (Inr (), wt2)"
      and 2: "ing_buildTargetGroupBinding b tg rid tgSpec svc port svcPort nodeSelector wt2 = (Inr x, wt')"
      unfolding ing_new_target_group_def by (auto simp: io_return_def dest!: io_bind_InrD)
    have "tTgByResID (snd wt') = tTgByResID (snd wt2)"
      using 2 by (auto simp: ing_buildTargetGroupBinding_def get_task_def io_lift_def on_model_run dest!: io_bind_InrD)
    then show ?thesis using 1 by (auto simp: modify_task_def update_conv' rid_def)
  qed (use run in \<open>auto simp: ing_buildTargetGroup_def Let_def rid_def get_task_def io_simps\<close>)
qed

text \<open>C19: The identifier of a target group joins the names of the ingress and of the service with a hyphen, which both
  may contain. Once the target group of a service of one ingress is built, asking for that of another service
  of another ingress of the namespace, where the names joined are the same, returns the target group of the
  first service, and neither a target group nor a binding is built for the second.\<close>

theorem joined_names_share_target_group:
  assumes first: "ing_buildTargetGroup b gid ing svc port (w, t) = (Inr tg, (w', t'))"
    and ns: "omNamespace (ingMeta (ciIng ing2)) = omNamespace (ingMeta (ciIng ing))"
    and names: "omName (ingMeta (ciIng ing)) = omName (ingMeta (ciIng ing2)) @ ''-'' @ middle"
      "omName (svcMeta svc2) = middle @ ''-'' @ omName (svcMeta svc)"
  shows "ing_buildTargetGroup b gid ing2 svc2 port (w'', t') = (Inr tg, (w'', t'))"
proof -
  have "ing_buildTargetGroupResourceID (ing_key (ciIng ing2)) (NamespacedName_of (svcMeta svc2)) port =
      ing_buildTargetGroupResourceID (ing_key (ciIng ing)) (NamespacedName_of (svcMeta svc)) port"
    using ns names by (simp add: ing_buildTargetGroupResourceID_def ing_key_def NamespacedName_of_def)
  then show ?thesis using target_group_recorded [OF first]
    by (simp add: ing_buildTargetGroup_def Let_def get_task_def io_simps)
qed

definition example_named_member :: "string \<Rightarrow> ClassifiedIngress" where
  "example_named_member name = \<lparr>ciIng = example_ingress name [] [], ciIngClassConfig = \<lparr>ccIngClass = None, ccIngClassParams = None\<rparr>\<rparr>"

definition example_named_service :: "string \<Rightarrow> Service" where
  "example_named_service name = example_backend_service\<lparr>svcMeta := (svcMeta example_backend_service)\<lparr>omName := name\<rparr>\<rparr>"

theorem joined_names_share_target_group_witness:
  "\<exists>tg t'. ing_buildTargetGroup example_ing_builder \<lparr>nnNamespace = [], nnName = ''g''\<rparr> (example_named_member ''a-b'') (example_named_service ''c'') (IntVal 80)
       ((), ing_new_task example_ing_group) = (Inr tg, ((), t')) \<and>
     ing_buildTargetGroup example_ing_builder \<lparr>nnNamespace = [], nnName = ''g''\<rparr> (example_named_member ''a'') (example_named_service ''b-c'') (IntVal 80)
       ((), t') = (Inr tg, ((), t'))"
proof -
  let ?run = "ing_buildTargetGroup example_ing_builder \<lparr>nnNamespace = [], nnName = ''g''\<rparr> (example_named_member ''a-b'') (example_named_service ''c'') (IntVal 80)
       ((), ing_new_task example_ing_group)"
  let ?gid = "\<lparr>nnNamespace = [], nnName = ''g''\<rparr>"
  let ?port = "\<lparr>spName = ''http'', spProtocol = ''TCP'', spPort = 80, spTargetPort = IntVal 8080, spNodePort = 30080\<rparr>"
  have port: "LookupServicePort (example_named_service ''c'') (IntVal 80) = Inr ?port" by code_simp
  have "case ing_buildTargetGroupSpec example_ing_builder ?gid (example_named_member ''a-b'') (example_named_service ''c'') (IntVal 80)
      ?port (ing_new_task example_ing_group) of Inr spec \<Rightarrow> tgTargetType spec = ''instance'' | _ \<Rightarrow> False" by code_simp
  then obtain spec where spec: "ing_buildTargetGroupSpec example_ing_builder ?gid (example_named_member ''a-b'') (example_named_service ''c'') (IntVal 80)
      ?port (ing_new_task example_ing_group) = Inr spec" "tgTargetType spec = ''instance''" by (auto split: sum.splits)
  have sel: "ing_buildTargetGroupBindingNodeSelector example_ing_builder (example_named_member ''a-b'') (example_named_service ''c'') ''instance'' = Inr None" by code_simp
  obtain tgb where "ing_buildTargetGroupBindingSpec example_ing_builder None 0 spec (example_named_service ''c'') (IntVal 80) ?port None = Inr tgb"
    using ing_binding_spec_built [OF spec(1)] by blast
  then obtain tg t' where first: "?run = (Inr tg, ((), t'))"
    by (simp add: ing_buildTargetGroup_def ing_new_target_group_def ing_buildTargetGroupBinding_def ing_new_task_def init_state_def
      get_task_def modify_task_def port spec [unfolded ing_new_task_def init_state_def] sel NewTargetGroup_def NewTargetGroupBindingResource_def
      on_model_new_run io_simps Let_def)
  have "omName (ingMeta (ciIng (example_named_member ''a-b''))) = omName (ingMeta (ciIng (example_named_member ''a''))) @ ''-'' @ ''b''"
    "omName (svcMeta (example_named_service ''b-c'')) = ''b'' @ ''-'' @ omName (svcMeta (example_named_service ''c''))"
    "omNamespace (ingMeta (ciIng (example_named_member ''a''))) = omNamespace (ingMeta (ciIng (example_named_member ''a-b'')))"
    by (simp_all add: example_named_member_def example_named_service_def example_ingress_def)
  from joined_names_share_target_group [OF first this(3,1,2)] first show ?thesis by blast
qed

end
