(* ===== verification/Spec2Isabelle.thy ===== *)
theory Spec2Isabelle
  imports Deploy_Safety Tgb_Resource Service_Correct Ingress_Correct
begin

text \<open>
  \<^bold>\<open>The AWS Load Balancer Controller.\<close> The controller watches Kubernetes Ingress, Service and
  TargetGroupBinding objects. For a group of Ingresses or a Service it builds a \<^emph>\<open>stack\<close>, a graph of
  the AWS resources that are wanted (load balancers, listeners, rules, target groups, security
  groups, bindings, WAF and Shield associations), and deploys it: for every kind of resource the
  existing ones are listed by their tracking tags, matched with the wanted ones, and created,
  updated or deleted. For a TargetGroupBinding it resolves the endpoints of a Service, registers
  them as targets of an AWS target group, and opens the security groups of their network
  interfaces. This development models the builders of the stacks of Services and of groups of
  Ingresses, the deployment and the target group bindings, with the libraries they use, as HOL
  functions, and proves what makes them correct.

  \<^bold>\<open>How code is written here.\<close> (\<^verbatim>\<open>Go_Prelude\<close>) A function that returns an error has type \<open>result\<close>;
  one that calls a client has type \<open>io\<close>, a function of the world to a result and a world. The
  clients of AWS and of Kubernetes and other code outside the repository are fields of records the
  functions take as arguments, so every theorem holds for all clients that satisfy its named
  hypotheses. Go maps are association lists with distinct keys; the order of a range over a map
  is an explicit argument. A nil pointer is \<open>None\<close>. Panics are error values. A loop that may run
  forever is a partial function whose \<open>None\<close> is divergence; polls take the number of attempts the
  code documents (\<open>poll_attempts\<close>), no other fuel is used.

  \<^bold>\<open>Libraries.\<close>
  \<^item> \<^verbatim>\<open>Go_Strings\<close>, \<^verbatim>\<open>Go_Text\<close>, \<^verbatim>\<open>Go_Net\<close>, \<^verbatim>\<open>Go_Sort\<close>: what is used of Go's \<^verbatim>\<open>strings\<close>, \<^verbatim>\<open>strconv\<close>, \<^verbatim>\<open>net\<close>,
    \<^verbatim>\<open>net/netip\<close> and \<^verbatim>\<open>sort\<close>; \<^verbatim>\<open>sort.Slice\<close>, which is not stable, is any function with its contract.
  \<^item> \<^verbatim>\<open>Effects\<close>: relations between the world before and after a computation, inherited by
    sequences, loops and branches.
  \<^item> \<^verbatim>\<open>Threads\<close>: methods as programs of atomic actions over one world and one mutex, the schedules of the
    goroutines that run them, and rely/guarantee rules for what all schedules preserve.
  \<^item> \<^verbatim>\<open>Algorithm\<close> (\<^verbatim>\<open>pkg/algorithm\<close>): merging and comparing string maps, chunks of slices.
  \<^item> \<^verbatim>\<open>Aws_Sdk\<close>, \<^verbatim>\<open>Api_Types\<close>, \<^verbatim>\<open>K8s_Objects\<close>: the records of the AWS SDK, of the custom resources
    (\<^verbatim>\<open>apis/elbv2/v1beta1\<close>) and of Kubernetes, with the helpers of \<^verbatim>\<open>pkg/k8s\<close>.
  \<^item> \<^verbatim>\<open>Annotations\<close> (\<^verbatim>\<open>pkg/annotations\<close>): reading typed values from annotations; a printed string map is
    read back.
  \<^item> \<^verbatim>\<open>Feature_Gates\<close> (\<^verbatim>\<open>pkg/config/feature_gates.go\<close>): parsing, printing and setting feature gates.

  \<^bold>\<open>Stacks.\<close> \<^verbatim>\<open>Resource_Graph\<close> and \<^verbatim>\<open>Core_Stack\<close> (\<^verbatim>\<open>pkg/model/core\<close>) with the resources of \<^verbatim>\<open>Elbv2_Model\<close>
  (\<^verbatim>\<open>pkg/model/elbv2\<close>, \<^verbatim>\<open>ec2\<close>, \<^verbatim>\<open>shield\<close>, \<^verbatim>\<open>wafv2\<close>, \<^verbatim>\<open>wafregional\<close>): every stack built by the constructors is
  well formed, and the traversal, which renders it for the logs, visits each resource once, after those
  registered as its dependencies; the deployer has an order of its own, below. \<^verbatim>\<open>Tracking\<close>
  (\<^verbatim>\<open>pkg/deploy/tracking\<close>): the tags of a stack select its own resources and no others.

  \<^bold>\<open>Deployment\<close> (\<^verbatim>\<open>pkg/deploy\<close>). \<^verbatim>\<open>Deploy_Match\<close> has the matching of wanted and existing resources: it
  is a partition, respects what cannot be changed in place, and converges. \<^verbatim>\<open>Tagging\<close> lists
  resources by tags and reconciles tags. \<^verbatim>\<open>Elbv2_Managers\<close>, \<^verbatim>\<open>Elbv2_Listeners\<close>, \<^verbatim>\<open>Sg_Tgb_Managers\<close> and
  \<^verbatim>\<open>Addons\<close> have the managers that create, update and delete one kind of resource each, with their
  drift checks, retries and waits. \<^verbatim>\<open>Synthesis\<close> has the synthesizers, \<^verbatim>\<open>Stack_Deployer\<close> their order;
  \<^verbatim>\<open>Deploy_Correct\<close> shows that a deployment resolves every token it needs and sets the status of
  every resource, \<^verbatim>\<open>Deploy_Safety\<close> that nothing is cleaned up before everything was created.

  \<^bold>\<open>Networking\<close> (\<^verbatim>\<open>pkg/networking\<close>). \<^verbatim>\<open>Networking_SG\<close> has the rules of security groups, their labels and
  their reconciliation, which reaches the desired rules because the hash code by which they are compared determines the rule; \<^verbatim>\<open>Networking_Info\<close> CIDRs, VPCs, availability zones, instances, and the network
  interfaces of nodes and pods with their caches: an answer is an interface that really
  supports the pod. \<^verbatim>\<open>Subnet_Resolver\<close> resolves subnets and security groups: discovery chooses one subnet
  per zone, by the tag of the cluster and then by the identifier. \<^verbatim>\<open>Backend_SG\<close> has the security group the load
  balancers share, its methods written as programs of \<^verbatim>\<open>Threads\<close>: in every schedule of the goroutines that get and
  release it, the group exists while it is in use.

  \<^bold>\<open>Services\<close> (\<^verbatim>\<open>pkg/service\<close>). \<^verbatim>\<open>Build_Task\<close> has what the builders share: the fields of their tasks and
  how a stack grows. \<^verbatim>\<open>Service_LB\<close> and \<^verbatim>\<open>Service_Builder\<close> translate the model builder method by
  method: the mutable task is a record that the methods pass on. \<^verbatim>\<open>Service_Correct\<close> shows which stack
  comes out for the ports of a service.

  \<^bold>\<open>Groups of Ingresses\<close> (\<^verbatim>\<open>pkg/ingress\<close>). \<^verbatim>\<open>Ingress_Group\<close> has the classes of Ingresses with their
  parameters, the membership of groups and their finalizers: loading a group yields exactly its members, in order.
  \<^verbatim>\<open>Ingress_Rules\<close> has the user's actions and conditions with their validation, the path patterns, the order of
  paths and the rule optimizer. Requests, wildcard patterns and redirects are defined there as a load
  balancer documents them, and the patterns and the optimizer are shown to route as the Ingress says.
  \<^verbatim>\<open>Ingress_Backend\<close> has authentication settings, backends and the services they need, the index of references and the
  discovery of certificates; \<^verbatim>\<open>Ingress_LB\<close> tags, ports, the load balancer and its security groups;
  \<^verbatim>\<open>Ingress_Builder\<close> target groups, bindings, actions, listeners, rules, add-ons and the run of the task.
  \<^verbatim>\<open>Ingress_Correct\<close> shows which stack comes out for a group, and that names joined by hyphens may
  make two services share a target group. JSON values of annotations are decoded by parameters.

  \<^bold>\<open>Target group bindings\<close> (\<^verbatim>\<open>pkg/backend\<close>, \<^verbatim>\<open>pkg/targetgroupbinding\<close>). \<^verbatim>\<open>Backend\<close> resolves the endpoints of
  a Service: exactly the ready ones and those with ready containers on a ready node, with or without a readiness
  gate, and those on nodes in an unknown state when there is nothing else. \<^verbatim>\<open>Tgb_Networking\<close> has the networking manager with its state: the rules it
  computes for a security group cover what the bindings ask for and nothing else, and nothing is
  revoked before all bindings are known. \<^verbatim>\<open>Tgb_Targets\<close> has the cached targets manager, a refinement
  of a plain registry of targets. \<^verbatim>\<open>Tgb_Resource\<close> puts them together: reconciling a binding makes the
  registered targets those it resolves to.

  \<^bold>\<open>Interfaces.\<close> Contracts between components are locales, interpreted on the models: maps
  (\<open>go_map\<close>), effects (\<open>effect_preorder\<close>), lookups through a cache (\<open>info_lookup\<close>), registries of
  targets (\<open>target_registry\<close>), goroutines that share a mutex (\<open>mutex_threads\<close>), and the matching and reconciliation contracts of the theories above.

  \<^bold>\<open>Not modelled.\<close> Wiring of the controller runtime, watches, work queues and caches of client-go, admission
  webhooks, construction of AWS clients, flags, metrics, logging and JSON rendering: they only connect
  the parts above to libraries. Generated deep copies: values are immutable here. The comparisons of go-cmp
  with the options of \<^verbatim>\<open>pkg/equality\<close> are parameters. Concurrency is modelled for the shared security group, action by
  action; elsewhere an operation that holds the mutex of its component is one step.
\<close>

end
